(* ===== verification/Js_Prelude.thy ===== *)
theory Js_Prelude
  imports Main "HOL-Library.Char_ord" "HOL-Library.List_Lexorder" "HOL-Library.Multiset"
begin

section \<open>The JavaScript values and library functions the code relies on\<close>

text \<open>
  This theory holds what every component shares.

  \<^item> Results: a JavaScript function that may \<open>throw new Error(msg)\<close> returns \<open>error + 'a\<close>,
    \<open>Inl (Error msg)\<close> being the throw. A method that mutates a store returns the pair of its
    result and the store it leaves behind, so a throw after a write keeps the write.
  \<^item> Strings: a JavaScript string is a list of code units; here a \<open>string\<close> whose characters are
    the code units below 256 (Latin-1). \<open>trim\<close>, \<open>toLowerCase\<close>, \<open>split\<close>, \<open>join\<close>, \<open>includes\<close>,
    \<open>endsWith\<close> and the conversion of an integer to a string are written out.
  \<^item> Truthiness: an optional string (\<open>string | undefined\<close>) is a \<open>string option\<close>; it is truthy when
    it is present and not empty.
  \<^item> \<open>Set\<close> and \<open>Map\<close> (and plain objects used as dictionaries) keep insertion order: lists without
    duplicates and association lists with in-place update.
  \<^item> \<open>Array.prototype.sort\<close> is the stable insertion sort by a comparator.
  \<^item> Numbers are integers: every amount, count and time value of the modelled code is one, and
    stays within the range where doubles are exact.
\<close>

named_theorems result_simps \<open>evaluation of throwing functions\<close>
named_theorems js_simps \<open>characterisations of the JavaScript library functions\<close>

subsection \<open>Results and throws\<close>

datatype error = Error string

type_synonym 'a result = "error + 'a"

definition throw :: "string \<Rightarrow> 'a result" where
  "throw msg = Inl (Error msg)"

definition bind_result :: "'a result \<Rightarrow> ('a \<Rightarrow> 'b result) \<Rightarrow> 'b result" where
  "bind_result m f = (case m of Inl e \<Rightarrow> Inl e | Inr x \<Rightarrow> f x)"

definition throw_if :: "bool \<Rightarrow> string \<Rightarrow> unit result" where
  "throw_if c msg = (if c then throw msg else Inr ())"

fun run_checks :: "unit result list \<Rightarrow> unit result" where
  "run_checks [] = Inr ()"
| "run_checks (c # cs) = bind_result c (\<lambda>_. run_checks cs)"

fun for_each :: "('a \<Rightarrow> unit result) \<Rightarrow> 'a list \<Rightarrow> unit result" where
  "for_each f [] = Inr ()"
| "for_each f (x # xs) = bind_result (f x) (\<lambda>_. for_each f xs)"

definition is_ok :: "'a result \<Rightarrow> bool" where
  "is_ok r = (case r of Inl _ \<Rightarrow> False | Inr _ \<Rightarrow> True)"

subsection \<open>Truthiness and strings\<close>

definition truthy :: "string option \<Rightarrow> bool" where
  "truthy s = (case s of None \<Rightarrow> False | Some t \<Rightarrow> t \<noteq> [])"

definition or_else :: "'a option \<Rightarrow> 'a \<Rightarrow> 'a" where
  "or_else x d = (case x of None \<Rightarrow> d | Some v \<Rightarrow> v)"

definition is_space :: "char \<Rightarrow> bool" where
  "is_space c = (of_char c \<in> {9, 10, 11, 12, 13, 32, 160 :: nat})"

definition trim :: "string \<Rightarrow> string" where
  "trim s = rev (dropWhile is_space (rev (dropWhile is_space s)))"

definition lower_char :: "char \<Rightarrow> char" where
  "lower_char c =
     (let n = of_char c :: nat
      in if (65 \<le> n \<and> n \<le> 90) \<or> (192 \<le> n \<and> n \<le> 222 \<and> n \<noteq> 215) then char_of (n + 32) else c)"

definition to_lower_case :: "string \<Rightarrow> string" where
  "to_lower_case s = map lower_char s"

fun join :: "string \<Rightarrow> string list \<Rightarrow> string" where
  "join sep [] = []"
| "join sep [s] = s"
| "join sep (s # t # ts) = s @ sep @ join sep (t # ts)"

fun split_on :: "char \<Rightarrow> string \<Rightarrow> string list" where
  "split_on c [] = [[]]"
| "split_on c (x # xs) =
     (if x = c then [] # split_on c xs
      else (case split_on c xs of [] \<Rightarrow> [[x]] | p # ps \<Rightarrow> (x # p) # ps))"

definition starts_with :: "string \<Rightarrow> string \<Rightarrow> bool" where
  "starts_with p s = (take (length p) s = p)"

fun str_includes :: "string \<Rightarrow> string \<Rightarrow> bool" where
  "str_includes p [] = (p = [])"
| "str_includes p (x # xs) = (starts_with p (x # xs) \<or> str_includes p xs)"

definition ends_with :: "string \<Rightarrow> string \<Rightarrow> bool" where
  "ends_with p s = starts_with (rev p) (rev s)"

definition digit_char :: "nat \<Rightarrow> char" where
  "digit_char n = char_of (48 + n)"

fun string_of_nat :: "nat \<Rightarrow> string" where
  "string_of_nat n =
     (if n < 10 then [digit_char n] else string_of_nat (n div 10) @ [digit_char (n mod 10)])"

declare string_of_nat.simps [simp del]

definition string_of_int :: "int \<Rightarrow> string" where
  "string_of_int i = (if i < 0 then ''-'' @ string_of_nat (nat (- i)) else string_of_nat (nat i))"

subsection \<open>Arrays, sets and maps\<close>

definition sum_by :: "('a \<Rightarrow> int) \<Rightarrow> 'a list \<Rightarrow> int" where
  "sum_by f xs = foldl (\<lambda>s x. s + f x) 0 xs"

definition count_where :: "('a \<Rightarrow> bool) \<Rightarrow> 'a list \<Rightarrow> int" where
  "count_where p xs = int (length (filter p xs))"

definition set_add :: "'a list \<Rightarrow> 'a \<Rightarrow> 'a list" where
  "set_add s x = (if x \<in> set s then s else s @ [x])"

definition js_set :: "'a list \<Rightarrow> 'a list" where
  "js_set xs = foldl set_add [] xs"

fun map_get :: "('k \<times> 'v) list \<Rightarrow> 'k \<Rightarrow> 'v option" where
  "map_get [] k = None"
| "map_get ((a, v) # m) k = (if a = k then Some v else map_get m k)"

fun map_put :: "('k \<times> 'v) list \<Rightarrow> 'k \<Rightarrow> 'v \<Rightarrow> ('k \<times> 'v) list" where
  "map_put [] k v = [(k, v)]"
| "map_put ((a, w) # m) k v = (if a = k then (a, v) # m else (a, w) # map_put m k v)"

definition js_map :: "('k \<times> 'v) list \<Rightarrow> ('k \<times> 'v) list" where
  "js_map kvs = foldl (\<lambda>m (k, v). map_put m k v) [] kvs"

fun insert_by :: "('a \<Rightarrow> 'a \<Rightarrow> int) \<Rightarrow> 'a \<Rightarrow> 'a list \<Rightarrow> 'a list" where
  "insert_by cmp x [] = [x]"
| "insert_by cmp x (y # ys) = (if cmp x y \<le> 0 then x # y # ys else y # insert_by cmp x ys)"

definition js_sort :: "('a \<Rightarrow> 'a \<Rightarrow> int) \<Rightarrow> 'a list \<Rightarrow> 'a list" where
  "js_sort cmp xs = foldr (insert_by cmp) xs []"

definition head :: "'a list \<Rightarrow> 'a option" where
  "head xs = (case xs of [] \<Rightarrow> None | x # _ \<Rightarrow> Some x)"

definition math_round_div :: "int \<Rightarrow> int \<Rightarrow> int" where
  "math_round_div a b = (2 * a + b) div (2 * b)"

subsection \<open>Lemmas: results\<close>

lemma throw_eq [result_simps, simp]:
  "throw m = Inr x \<longleftrightarrow> False" "Inr x = throw m \<longleftrightarrow> False" "throw m = throw n \<longleftrightarrow> m = n"
  by (auto simp: throw_def)

lemma throw_if_ok [result_simps, simp]: "throw_if c m = Inr u \<longleftrightarrow> \<not> c"
  by (simp add: throw_if_def)

lemma bind_result_Inr [result_simps, simp]: "bind_result (Inr x) f = f x"
  by (simp add: bind_result_def)

lemma bind_result_throw [result_simps, simp]: "bind_result (throw m) f = throw m"
  by (simp add: bind_result_def throw_def)

lemma bind_result_Inl [result_simps, simp]: "bind_result (Inl e) f = Inl e"
  by (simp add: bind_result_def)

lemma bind_result_ok [result_simps]:
  "bind_result m f = Inr y \<longleftrightarrow> (\<exists>x. m = Inr x \<and> f x = Inr y)"
  by (cases m) auto

lemma bind_throw_if [result_simps, simp]:
  "bind_result (throw_if c m) f = (if c then throw m else f ())"
  by (simp add: throw_if_def)

lemma run_checks_ok [result_simps]: "run_checks cs = Inr u \<longleftrightarrow> (\<forall>c \<in> set cs. c = Inr ())"
  by (induction cs) (auto simp: bind_result_ok)

lemma for_each_ok [result_simps]: "for_each f xs = Inr u \<longleftrightarrow> (\<forall>x \<in> set xs. f x = Inr ())"
  by (induction xs) (auto simp: bind_result_ok)

lemma is_ok_simps [simp]: "is_ok (Inr x)" "\<not> is_ok (Inl e)" "\<not> is_ok (throw m)"
  by (simp_all add: is_ok_def throw_def)

lemma is_ok_iff: "is_ok r \<longleftrightarrow> (\<exists>x. r = Inr x)"
  by (cases r) auto

subsection \<open>Lemmas: strings\<close>

lemma truthy_simps [simp]: "truthy None = False" "truthy (Some s) = (s \<noteq> [])"
  by (simp_all add: truthy_def)

lemma or_else_simps [simp]: "or_else None d = d" "or_else (Some v) d = v"
  by (simp_all add: or_else_def)

lemma trim_Nil [simp]: "trim [] = []"
  by (simp add: trim_def)

lemma trim_eq_Nil [simp]: "trim s = [] \<longleftrightarrow> (\<forall>c \<in> set s. is_space c)"
proof -
  have "trim s = [] \<longleftrightarrow> (\<forall>c \<in> set (dropWhile is_space s). is_space c)"
    by (simp add: trim_def)
  also have "\<dots> \<longleftrightarrow> dropWhile is_space s = []"
    by (metis dropWhile_eq_Nil_conv dropWhile_idem)
  finally show ?thesis by simp
qed

lemma join_eq_Nil: "join sep xs = [] \<Longrightarrow> sep \<noteq> [] \<Longrightarrow> xs = [] \<or> xs = [[]]"
  by (induction sep xs rule: join.induct) auto

lemma split_on_not_Nil [simp]: "split_on c s \<noteq> []"
  by (induction s) (auto split: list.splits)

lemma split_on_no_sep: "c \<notin> set s \<Longrightarrow> split_on c s = [s]"
  by (induction s) auto

lemma split_on_append: "c \<notin> set a \<Longrightarrow> split_on c (a @ c # b) = a # split_on c b"
  by (induction a) auto

lemma split_on_join: "list_all (\<lambda>p. c \<notin> set p) ps \<Longrightarrow> ps \<noteq> [] \<Longrightarrow> split_on c (join [c] ps) = ps"
proof (induction ps)
  case (Cons p ps)
  then show ?case by (cases ps) (auto simp: split_on_no_sep split_on_append)
qed simp

lemma append_sep_inject:
  assumes "c \<notin> set a" "c \<notin> set a'" "a @ c # b = a' @ c # b'"
  shows "a = a' \<and> b = b'"
proof -
  have take: "takeWhile (\<lambda>x. x \<noteq> c) (u @ c # v) = u" if "c \<notin> set u" for u v
    using that by (induction u) auto
  have "a = a'"
    using take [OF assms(1), of b] take [OF assms(2), of b'] assms(3) by simp
  then show ?thesis using assms(3) by simp
qed

subsection \<open>Lemmas: decimal strings\<close>

definition digits_value :: "string \<Rightarrow> nat" where
  "digits_value s = foldl (\<lambda>n c. 10 * n + (of_char c - 48)) 0 s"

definition is_digit :: "char \<Rightarrow> bool" where
  "is_digit c = (48 \<le> (of_char c :: nat) \<and> of_char c \<le> (57 :: nat))"

lemma of_char_digit [simp]: "n < 10 \<Longrightarrow> of_char (digit_char n) = (48 + n :: nat)"
  by (simp add: digit_char_def)

lemma is_digit_digit_char [simp]: "n < 10 \<Longrightarrow> is_digit (digit_char n)"
  by (simp add: is_digit_def)

lemma digits_value_Nil [simp]: "digits_value [] = 0"
  by (simp add: digits_value_def)

lemma digits_value_snoc [simp]: "digits_value (s @ [c]) = 10 * digits_value s + (of_char c - 48)"
  by (simp add: digits_value_def)

lemma string_of_nat_digits: "c \<in> set (string_of_nat n) \<Longrightarrow> is_digit c"
  by (induction n rule: string_of_nat.induct) (subst (asm) (2) string_of_nat.simps, auto split: if_splits)

lemma string_of_nat_not_Nil [simp]: "string_of_nat n \<noteq> []"
  by (subst string_of_nat.simps) simp

lemma digits_value_string_of_nat [simp]: "digits_value (string_of_nat n) = n"
proof (induction n rule: string_of_nat.induct)
  case (1 n)
  show ?case
  proof (cases "n < 10")
    case True
    then show ?thesis
      using digits_value_snoc [of "[]" "digit_char n"] by (simp add: string_of_nat.simps [of n])
  next
    case False
    then show ?thesis
      using "1.IH" by (simp add: string_of_nat.simps [of n])
  qed
qed

lemma string_of_nat_inject [simp]: "string_of_nat m = string_of_nat n \<longleftrightarrow> m = n"
  by (metis digits_value_string_of_nat)

lemma string_of_nat_hd: "is_digit (hd (string_of_nat n))"
  by (rule string_of_nat_digits [of _ n]) simp

lemma minus_not_digit [simp]: "\<not> is_digit (CHR ''-'')"
  by (simp add: is_digit_def)

lemma string_of_int_inject [simp]: "string_of_int i = string_of_int j \<longleftrightarrow> i = j"
proof -
  have neq: "CHR ''-'' # s \<noteq> string_of_nat n" for s n
    using string_of_nat_hd [of n] by (metis list.sel(1) minus_not_digit)
  show ?thesis
    by (auto simp: string_of_int_def neq neq [symmetric])
qed

lemma string_of_int_chars: "c \<in> set (string_of_int i) \<Longrightarrow> is_digit c \<or> c = CHR ''-''"
  by (auto simp: string_of_int_def split: if_splits dest: string_of_nat_digits)

lemma string_of_int_not_Nil [simp]: "string_of_int i \<noteq> []"
  by (simp add: string_of_int_def)

subsection \<open>Lemmas: sums, sets and maps\<close>

lemma foldl_plus_conv: "foldl (\<lambda>s x. s + f x) a xs = a + sum_list (map f xs)" for a :: int
  by (induction xs arbitrary: a) (auto simp: algebra_simps)

lemma sum_by_eq [js_simps]: "sum_by f xs = sum_list (map f xs)"
  by (simp add: sum_by_def foldl_plus_conv)

lemma sum_by_simps [simp]: "sum_by f [] = 0" "sum_by f (x # xs) = f x + sum_by f xs"
  "sum_by f (xs @ ys) = sum_by f xs + sum_by f ys"
  by (simp_all add: sum_by_eq)

lemma sum_by_minus: "sum_by (\<lambda>x. - f x) xs = - sum_by f xs"
  by (induction xs) auto

lemma sum_by_nonneg: "(\<And>x. x \<in> set xs \<Longrightarrow> 0 \<le> f x) \<Longrightarrow> 0 \<le> sum_by f xs"
  by (induction xs) (auto simp: add_nonneg_nonneg)

lemma count_where_simps [simp]: "count_where p [] = 0"
  "count_where p (x # xs) = (if p x then 1 else 0) + count_where p xs"
  by (simp_all add: count_where_def)

lemma count_where_nonneg [simp]: "0 \<le> count_where p xs"
  by (simp add: count_where_def)

lemma count_where_compl: "count_where (\<lambda>x. \<not> q x) xs + count_where q xs = int (length xs)"
  by (induction xs) auto

lemma count_where_pos: "0 < count_where p xs \<longleftrightarrow> (\<exists>x \<in> set xs. p x)"
  by (simp add: count_where_def filter_empty_conv)

lemma set_set_add [simp]: "set (set_add s x) = insert x (set s)"
  by (auto simp: set_add_def)

lemma distinct_set_add [simp]: "distinct (set_add s x) = distinct s"
  by (auto simp: set_add_def)

lemma foldl_set_add: "set (foldl set_add s xs) = set s \<union> set xs"
  "distinct s \<Longrightarrow> distinct (foldl set_add s xs)"
  by (induction xs arbitrary: s) auto

lemma set_js_set [js_simps, simp]: "set (js_set xs) = set xs"
  by (simp add: js_set_def foldl_set_add)

lemma distinct_js_set [js_simps, simp]: "distinct (js_set xs)"
  by (simp add: js_set_def foldl_set_add)

lemma foldl_set_add_distinct: "distinct (s @ xs) \<Longrightarrow> foldl set_add s xs = s @ xs"
  by (induction xs arbitrary: s) (auto simp: set_add_def)

lemma js_set_distinct: "distinct xs \<Longrightarrow> js_set xs = xs"
  by (simp add: js_set_def foldl_set_add_distinct)

lemma js_set_idem [simp]: "js_set (js_set xs) = js_set xs"
  by (simp add: js_set_distinct)

lemma js_set_Nil [simp]: "js_set xs = [] \<longleftrightarrow> xs = []"
  by (metis set_empty set_js_set)

lemma map_get_put [simp]: "map_get (map_put m k v) k' = (if k' = k then Some v else map_get m k')"
  by (induction m) auto

lemma keys_map_put: "map fst (map_put m k v) = set_add (map fst m) k"
  by (induction m) (auto simp: set_add_def rev_image_eqI)

lemma distinct_keys_map_put: "distinct (map fst m) \<Longrightarrow> distinct (map fst (map_put m k v))"
  by (simp add: keys_map_put)

lemma map_get_map_of: "map_get m = map_of m"
  by (rule ext, induct_tac m) auto

lemma map_get_None: "map_get m k = None \<longleftrightarrow> k \<notin> fst ` set m"
  by (simp add: map_get_map_of map_of_eq_None_iff)

lemma map_get_mem: "map_get m k = Some v \<Longrightarrow> (k, v) \<in> set m"
  by (induction m) (auto split: if_splits)

lemma map_get_distinct: "distinct (map fst m) \<Longrightarrow> (k, v) \<in> set m \<Longrightarrow> map_get m k = Some v"
  by (simp add: map_get_map_of)

subsection \<open>Lemmas: searching\<close>

lemma find_Some_mem: "List.find p xs = Some x \<Longrightarrow> x \<in> set xs \<and> p x"
  by (induction xs) (auto split: if_splits)

lemma find_None_all: "List.find p xs = None \<longleftrightarrow> (\<forall>x \<in> set xs. \<not> p x)"
  by (induction xs) auto

lemma find_append: "List.find p (xs @ ys) =
  (case List.find p xs of None \<Rightarrow> List.find p ys | Some x \<Rightarrow> Some x)"
  by (induction xs) auto

lemma head_simps [simp]: "head [] = None" "head (x # xs) = Some x"
  by (simp_all add: head_def)

subsection \<open>Sorting by a comparator\<close>

text \<open>
  What \<open>Array.prototype.sort\<close> promises depends on the comparator being consistent: its sign is that
  of a total preorder. The locale states the contract; every comparator of the model is an
  interpretation of it.
\<close>

lemma mset_insert_by [simp]: "mset (insert_by cmp x xs) = add_mset x (mset xs)"
  by (induction xs) auto

lemma mset_js_sort [simp]: "mset (js_sort cmp xs) = mset xs"
  by (induction xs) (auto simp: js_sort_def)

lemma set_js_sort [simp]: "set (js_sort cmp xs) = set xs"
  by (metis mset_js_sort set_mset_mset)

lemma length_js_sort [simp]: "length (js_sort cmp xs) = length xs"
  by (metis mset_js_sort size_mset)

lemma js_sort_simps [simp]: "js_sort cmp [] = []"
  "js_sort cmp (x # xs) = insert_by cmp x (js_sort cmp xs)"
  by (simp_all add: js_sort_def)

lemma js_sort_Nil_iff [simp]: "js_sort cmp xs = [] \<longleftrightarrow> xs = []"
  by (metis length_0_conv length_js_sort)

lemma sum_by_js_sort [simp]: "sum_by f (js_sort cmp xs) = sum_by f xs"
  by (simp add: sum_by_eq flip: sum_mset_sum_list)

lemma js_sort_cong:
  assumes "\<And>x y. x \<in> set xs \<Longrightarrow> y \<in> set xs \<Longrightarrow> c x y = d x y"
  shows "js_sort c xs = js_sort d xs"
  using assms
proof (induction xs)
  case (Cons x xs)
  have ins: "insert_by c x ys = insert_by d x ys" if "\<And>y. y \<in> set ys \<Longrightarrow> c x y = d x y" for ys
    using that by (induction ys) auto
  have "js_sort c xs = js_sort d xs" using Cons by simp
  moreover have "insert_by c x (js_sort d xs) = insert_by d x (js_sort d xs)"
    using Cons.prems by (intro ins) simp
  ultimately show ?case by simp
qed simp

lemma js_sort_id: "sorted_wrt (\<lambda>a b. cmp a b \<le> 0) xs \<Longrightarrow> js_sort cmp xs = xs"
proof (induction xs)
  case (Cons x xs)
  then show ?case by (cases xs) simp_all
qed simp

locale comparator =
  fixes cmp :: "'a \<Rightarrow> 'a \<Rightarrow> int"
  assumes cmp_total: "cmp x y \<le> 0 \<or> cmp y x \<le> 0"
    and cmp_trans: "cmp x y \<le> 0 \<Longrightarrow> cmp y z \<le> 0 \<Longrightarrow> cmp x z \<le> 0"
begin

lemma set_insert_by: "set (insert_by cmp x ys) = insert x (set ys)"
  by (metis mset_insert_by set_mset_add_mset_insert set_mset_mset)

lemma sorted_insert_by:
  "sorted_wrt (\<lambda>a b. cmp a b \<le> 0) ys \<Longrightarrow> sorted_wrt (\<lambda>a b. cmp a b \<le> 0) (insert_by cmp x ys)"
proof (induction ys)
  case Nil
  then show ?case by simp
next
  case (Cons y ys)
  show ?case
  proof (cases "cmp x y \<le> 0")
    case True
    then show ?thesis using Cons.prems by (auto intro: cmp_trans)
  next
    case False
    then have "cmp y x \<le> 0" using cmp_total by blast
    then show ?thesis using False Cons by (auto simp: set_insert_by)
  qed
qed

lemma js_sort_sorted: "sorted_wrt (\<lambda>a b. cmp a b \<le> 0) (js_sort cmp xs)"
  by (induction xs) (auto simp: js_sort_def sorted_insert_by)

lemma js_sort_head_least:
  assumes "head (js_sort cmp xs) = Some m"
  shows "m \<in> set xs \<and> (\<forall>x \<in> set xs. cmp m x \<le> 0)"
proof (cases "js_sort cmp xs")
  case Nil
  then show ?thesis using assms by simp
next
  case (Cons a as)
  then have m: "m = a" using assms by simp
  have "\<forall>x \<in> set as. cmp a x \<le> 0" using js_sort_sorted [of xs] Cons by simp
  moreover have "cmp a a \<le> 0" using cmp_total [of a a] by blast
  moreover have "set xs = insert a (set as)" using Cons by (metis list.set(2) set_js_sort)
  ultimately show ?thesis using m by auto
qed

lemma js_sort_head_exists: "xs \<noteq> [] \<Longrightarrow> \<exists>m. head (js_sort cmp xs) = Some m"
  by (cases "js_sort cmp xs") auto

lemma insert_by_filter_other:
  "\<not> (cmp a x \<le> 0 \<and> cmp x a \<le> 0) \<Longrightarrow>
   filter (\<lambda>z. cmp a z \<le> 0 \<and> cmp z a \<le> 0) (insert_by cmp x ys) =
   filter (\<lambda>z. cmp a z \<le> 0 \<and> cmp z a \<le> 0) ys"
  by (induction ys) auto

lemma insert_by_filter_same:
  assumes "cmp a x \<le> 0" "cmp x a \<le> 0"
  shows "filter (\<lambda>z. cmp a z \<le> 0 \<and> cmp z a \<le> 0) (insert_by cmp x ys) =
    x # filter (\<lambda>z. cmp a z \<le> 0 \<and> cmp z a \<le> 0) ys"
proof (induction ys)
  case Nil
  then show ?case using assms by simp
next
  case (Cons y ys)
  show ?case
  proof (cases "cmp x y \<le> 0")
    case True
    then show ?thesis using assms by simp
  next
    case False
    then have "\<not> (cmp a y \<le> 0 \<and> cmp y a \<le> 0)" using assms(2) cmp_trans by blast
    then show ?thesis using False Cons by auto
  qed
qed

lemma js_sort_stable:
  "filter (\<lambda>z. cmp a z \<le> 0 \<and> cmp z a \<le> 0) (js_sort cmp xs) =
   filter (\<lambda>z. cmp a z \<le> 0 \<and> cmp z a \<le> 0) xs"
proof (induction xs)
  case Nil
  then show ?case by (simp add: js_sort_def)
next
  case (Cons x xs)
  have "js_sort cmp (x # xs) = insert_by cmp x (js_sort cmp xs)" by (simp add: js_sort_def)
  then show ?case
    using Cons insert_by_filter_same [of a x] insert_by_filter_other [of a x]
    by (cases "cmp a x \<le> 0 \<and> cmp x a \<le> 0") auto
qed

end

text \<open>
  A numeric comparator \<open>f(left) - f(right)\<close>, its reverse and a lexicographic combination
  \<open>a || b\<close> are consistent.
\<close>

definition cmp_or :: "('a \<Rightarrow> 'a \<Rightarrow> int) \<Rightarrow> ('a \<Rightarrow> 'a \<Rightarrow> int) \<Rightarrow> 'a \<Rightarrow> 'a \<Rightarrow> int" where
  "cmp_or c d x y = (if c x y \<noteq> 0 then c x y else d x y)"

lemma comparator_diff: "comparator (\<lambda>x y. f x - f y)"
  by unfold_locales auto

lemma comparator_diff_rev: "comparator (\<lambda>x y. f y - f x)"
  by unfold_locales auto

lemma comparator_or_diff:
  assumes "comparator d"
  shows "comparator (cmp_or (\<lambda>x y. f x - f y) d)"
proof
  show "cmp_or (\<lambda>x y. f x - f y) d x y \<le> 0 \<or> cmp_or (\<lambda>x y. f x - f y) d y x \<le> 0" for x y
    using comparator.cmp_total [OF assms, of x y] by (auto simp: cmp_or_def)
  show "cmp_or (\<lambda>x y. f x - f y) d x y \<le> 0 \<Longrightarrow> cmp_or (\<lambda>x y. f x - f y) d y z \<le> 0 \<Longrightarrow>
    cmp_or (\<lambda>x y. f x - f y) d x z \<le> 0" for x y z
    using comparator.cmp_trans [OF assms, of x y z] by (auto simp: cmp_or_def split: if_splits)
qed

lemma comparator_or_diff_rev:
  assumes "comparator d"
  shows "comparator (cmp_or (\<lambda>x y. f y - f x) d)"
  using comparator_or_diff [OF assms, of "\<lambda>x. - f x"] by (simp add: algebra_simps)

subsection \<open>State machines and their invariants\<close>

text \<open>
  A component that keeps state is a step relation between states; the locale is the contract of an
  inductive invariant, and gives it for every state reachable from an initial one.
\<close>

inductive reachable :: "('s \<Rightarrow> bool) \<Rightarrow> ('s \<Rightarrow> 's \<Rightarrow> bool) \<Rightarrow> 's \<Rightarrow> bool" for init step where
  reach_init: "init s \<Longrightarrow> reachable init step s"
| reach_step: "reachable init step s \<Longrightarrow> step s t \<Longrightarrow> reachable init step t"

lemma reachable_reflclp: "reachable init step\<^sup>=\<^sup>= s \<Longrightarrow> reachable init step s"
  by (induction rule: reachable.induct) (auto intro: reach_init reach_step)

locale inductive_invariant =
  fixes init :: "'s \<Rightarrow> bool" and step :: "'s \<Rightarrow> 's \<Rightarrow> bool" and inv :: "'s \<Rightarrow> bool"
  assumes inv_init: "init s \<Longrightarrow> inv s"
    and inv_step: "step s t \<Longrightarrow> inv s \<Longrightarrow> inv t"
begin

lemma reachable_inv: "reachable init step s \<Longrightarrow> inv s"
  by (induction rule: reachable.induct) (auto intro: inv_init inv_step)

lemma inv_steps: "step\<^sup>*\<^sup>* s t \<Longrightarrow> inv s \<Longrightarrow> inv t"
  by (induction rule: rtranclp_induct) (auto intro: inv_step)

end

text \<open>
  A refinement: under the invariant, an abstraction maps the initial states to initial states of a
  specification and every step to a step of the specification.
\<close>

locale simulation = inductive_invariant init step inv
  for init :: "'s \<Rightarrow> bool" and step :: "'s \<Rightarrow> 's \<Rightarrow> bool" and inv :: "'s \<Rightarrow> bool" +
  fixes abstract :: "'s \<Rightarrow> 'a" and spec_init :: "'a \<Rightarrow> bool" and spec_step :: "'a \<Rightarrow> 'a \<Rightarrow> bool"
  assumes abstract_init: "init s \<Longrightarrow> spec_init (abstract s)"
    and abstract_step: "inv s \<Longrightarrow> step s t \<Longrightarrow> spec_step (abstract s) (abstract t)"
begin

lemma reachable_refines: "reachable init step s \<Longrightarrow> reachable spec_init spec_step (abstract s)"
  by (induction rule: reachable.induct) (auto intro: reach_init reach_step abstract_init abstract_step reachable_inv)

end

subsection \<open>Submissions under an idempotency key\<close>

text \<open>
  The contract of a store operation that is safe to retry: a request that matches a kept record
  returns that record and writes nothing, a failed request writes nothing, and an accepted new request
  is found again. \<open>fresh\<close> is what the operation needs of a new request for that.
\<close>

locale idempotent_submission =
  fixes existing :: "'s \<Rightarrow> 'r \<Rightarrow> 'd option"
    and submit :: "'s \<Rightarrow> 'r \<Rightarrow> 'd result \<times> 's"
    and fresh :: "'s \<Rightarrow> 'r \<Rightarrow> bool"
  assumes submit_existing: "existing s r = Some d \<Longrightarrow> submit s r = (res, s') \<Longrightarrow> s' = s \<and> (is_ok res \<longrightarrow> res = Inr d)"
    and submit_failed: "submit s r = (Inl e, s') \<Longrightarrow> s' = s"
    and submit_new: "existing s r = None \<Longrightarrow> fresh s r \<Longrightarrow> submit s r = (Inr d, s') \<Longrightarrow>
      existing s' r = Some d \<and> is_ok (fst (submit s' r))"
begin

lemma retry_same:
  assumes "fresh s r" "submit s r = (Inr d, s')"
  shows "submit s' r = (Inr d, s')"
proof (cases "existing s r")
  case None
  then have new: "existing s' r = Some d" "is_ok (fst (submit s' r))" using submit_new assms by blast+
  obtain res t where sub: "submit s' r = (res, t)" by (cases "submit s' r")
  then show ?thesis using submit_existing [OF new(1) sub] new(2) by simp
next
  case (Some k)
  then show ?thesis using submit_existing [OF Some assms(2)] assms(2) by simp
qed

end

subsection \<open>Replacing a record of a list\<close>

definition replace_where :: "('a \<Rightarrow> bool) \<Rightarrow> 'a \<Rightarrow> 'a list \<Rightarrow> 'a list" where
  "replace_where p v xs = map (\<lambda>x. if p x then v else x) xs"

lemma set_replace_where: "set (replace_where p v xs) \<subseteq> insert v (set xs)"
  by (auto simp: replace_where_def)

lemma list_all_replace_where: "list_all q xs \<Longrightarrow> q v \<Longrightarrow> list_all q (replace_where p v xs)"
  by (auto simp: replace_where_def list_all_iff)

lemma map_replace_where:
  "(\<And>x. x \<in> set xs \<Longrightarrow> p x \<Longrightarrow> f x = f v) \<Longrightarrow> map f (replace_where p v xs) = map f xs"
  by (auto simp: replace_where_def)

lemma find_replace_where:
  "p v \<Longrightarrow> List.find p (replace_where p v xs) = (if List.find p xs = None then None else Some v)"
  by (induction xs) (auto simp: replace_where_def)

text \<open>\<open>const i = xs.findIndex(p); if (i >= 0) xs[i] = f(xs[i])\<close>: the first match is replaced.\<close>

fun update_first :: "('a \<Rightarrow> bool) \<Rightarrow> ('a \<Rightarrow> 'a) \<Rightarrow> 'a list \<Rightarrow> 'a list" where
  "update_first p f [] = []"
| "update_first p f (x # xs) = (if p x then f x # xs else x # update_first p f xs)"

lemma update_first_none: "List.find p xs = None \<Longrightarrow> update_first p f xs = xs"
  by (induction xs) (auto split: if_splits)

lemma length_update_first [simp]: "length (update_first p f xs) = length xs"
  by (induction xs) auto

lemma set_update_first: "y \<in> set (update_first p f xs) \<Longrightarrow> y \<in> set xs \<or> (\<exists>x. List.find p xs = Some x \<and> y = f x)"
  by (induction xs) (auto split: if_splits)

lemma map_update_first: "(\<And>x. x \<in> set xs \<Longrightarrow> p x \<Longrightarrow> g (f x) = g x) \<Longrightarrow> map g (update_first p f xs) = map g xs"
  by (induction xs) auto

lemma update_first_split:
  "List.find p xs = Some x \<Longrightarrow> \<exists>as bs. xs = as @ x # bs \<and> update_first p f xs = as @ f x # bs"
proof (induction xs)
  case (Cons y ys)
  show ?case
  proof (cases "p y")
    case True
    then have "y # ys = [] @ x # ys \<and> update_first p f (y # ys) = [] @ f x # ys" using Cons.prems by simp
    then show ?thesis by blast
  next
    case False
    then obtain as bs where "ys = as @ x # bs" "update_first p f ys = as @ f x # bs" using Cons by auto
    then have "y # ys = (y # as) @ x # bs \<and> update_first p f (y # ys) = (y # as) @ f x # bs" using False by simp
    then show ?thesis by blast
  qed
qed simp

lemma in_update_first: "List.find p xs = Some x \<Longrightarrow> f x \<in> set (update_first p f xs)"
  using update_first_split [of p xs x f] by auto

lemma find_update_first: "List.find p xs = Some x \<Longrightarrow> p (f x) \<Longrightarrow> List.find p (update_first p f xs) = Some (f x)"
  by (induction xs) (auto split: if_splits)

lemma in_update_first_other: "y \<in> set xs \<Longrightarrow> List.find p xs \<noteq> Some y \<Longrightarrow> y \<in> set (update_first p f xs)"
  by (induction xs) (auto split: if_splits)

lemma list_all2_update_first:
  "(\<And>x. R x x) \<Longrightarrow> (\<And>x. p x \<Longrightarrow> R x (f x)) \<Longrightarrow> list_all2 R xs (update_first p f xs)"
  by (induction xs) (auto simp: list.rel_refl)

lemma list_all2_in_right: "list_all2 R xs ys \<Longrightarrow> y \<in> set ys \<Longrightarrow> \<exists>x \<in> set xs. R x y"
  by (induction rule: list_all2_induct) auto

lemma list_all2_in_left: "list_all2 R xs ys \<Longrightarrow> x \<in> set xs \<Longrightarrow> \<exists>y \<in> set ys. R x y"
  by (induction rule: list_all2_induct) auto

lemma list_all2_map_eq: "list_all2 R xs ys \<Longrightarrow> (\<And>x y. R x y \<Longrightarrow> f x = f y) \<Longrightarrow> map f xs = map f ys"
  by (induction rule: list_all2_induct) auto

lemma list_all2_replace:
  assumes "\<And>x. R x x" "List.find p xs = Some x" "R x y"
  shows "list_all2 R xs (update_first p (\<lambda>_. y) xs)"
  using assms(2) by (induction xs) (auto simp: assms(1,3) list.rel_refl split: if_splits)

end
