(* ===== verification/Canonical_Json.thy ===== *)
theory Canonical_Json
  imports Js_Prelude
begin

section \<open>Canonical JSON text\<close>

text \<open>
  \<open>canonicalize\<close> of packages/domain/src/ledger.ts: the text of a value with the keys of every
  object in code-unit order, on which request fingerprints and the reversal check rest. A
  JavaScript value is a \<open>js_value\<close>; \<open>undefined\<close> is one of them, and \<open>canonicalize(undefined)\<close>
  is \<open>undefined\<close> (\<open>None\<close>): a template literal prints it as \<open>undefined\<close>, \<open>join\<close> as the empty
  string. \<open>json_quote\<close> is \<open>JSON.stringify\<close> of a string.

  The theory proves that the text determines the value up to the order of object keys.
\<close>

datatype js_value =
    JUndefined
  | JNull
  | JBool bool
  | JNum int
  | JStr string
  | JArr "js_value list"
  | JObj "(string \<times> js_value) list"

subsection \<open>Definitions\<close>

definition hex_char :: "nat \<Rightarrow> char" where
  "hex_char n = (if n < 10 then char_of (48 + n) else char_of (87 + n))"

definition short_escapes :: "(char \<times> char) list" where
  "short_escapes =
     [(CHR 0x22, CHR 0x22), (CHR 0x5C, CHR 0x5C), (CHR 0x08, CHR ''b''), (CHR 0x09, CHR ''t''),
      (CHR 0x0A, CHR ''n''), (CHR 0x0C, CHR ''f''), (CHR 0x0D, CHR ''r'')]"

definition json_escape :: "char \<Rightarrow> string" where
  "json_escape c =
     (case map_get short_escapes c of
        Some e \<Rightarrow> [CHR 0x5C, e]
      | None \<Rightarrow>
          (let n = of_char c :: nat in
           if n < 32 then [CHR 0x5C, CHR ''u'', CHR ''0'', CHR ''0'', hex_char (n div 16), hex_char (n mod 16)]
           else [c]))"

definition json_quote :: "string \<Rightarrow> string" where
  "json_quote s = CHR 0x22 # concat (map json_escape s) @ [CHR 0x22]"

definition template_text :: "string option \<Rightarrow> string" where
  "template_text r = or_else r ''undefined''"

definition join_text :: "string option \<Rightarrow> string" where
  "join_text r = or_else r ''''"

primrec canonicalize :: "js_value \<Rightarrow> string option" where
  "canonicalize JUndefined = None"
| "canonicalize JNull = Some ''null''"
| "canonicalize (JBool b) = Some (if b then ''true'' else ''false'')"
| "canonicalize (JNum n) = Some (string_of_int n)"
| "canonicalize (JStr s) = Some (json_quote s)"
| "canonicalize (JArr vs) = Some (''['' @ join '','' (map join_text (map canonicalize vs)) @ '']'')"
| "canonicalize (JObj kvs) =
     Some (''{'' @ join '','' (map (\<lambda>(k, r). json_quote k @ '':'' @ template_text r)
                      (sort_key fst (map (map_prod id canonicalize) kvs))) @ ''}'')"

text \<open>Two values are the same data when they agree after sorting the keys of every object.\<close>

primrec sort_keys :: "js_value \<Rightarrow> js_value" where
  "sort_keys JUndefined = JUndefined"
| "sort_keys JNull = JNull"
| "sort_keys (JBool b) = JBool b"
| "sort_keys (JNum n) = JNum n"
| "sort_keys (JStr s) = JStr s"
| "sort_keys (JArr vs) = JArr (map sort_keys vs)"
| "sort_keys (JObj kvs) = JObj (sort_key fst (map (map_prod id sort_keys) kvs))"

text \<open>No array has \<open>undefined\<close> as an element (\<open>join\<close> would drop it).\<close>

primrec array_safe :: "js_value \<Rightarrow> bool" where
  "array_safe JUndefined = True"
| "array_safe JNull = True"
| "array_safe (JBool b) = True"
| "array_safe (JNum n) = True"
| "array_safe (JStr s) = True"
| "array_safe (JArr vs) = (list_all (\<lambda>v. v \<noteq> JUndefined) vs \<and> list_all id (map array_safe vs))"
| "array_safe (JObj kvs) = list_all snd (map (map_prod id array_safe) kvs)"

subsection \<open>Quoted strings are self-delimiting\<close>

lemma of_char_hex: "n < 16 \<Longrightarrow> of_char (hex_char n) = (if n < 10 then 48 + n else 87 + n)"
  by (simp add: hex_char_def)

lemma hex_char_inject:
  assumes "m < 16" "n < 16" "hex_char m = hex_char n"
  shows "m = n"
proof -
  have "(if m < 10 then 48 + m else 87 + m) = (if n < 10 then 48 + n else 87 + n)"
    using of_char_hex [OF assms(1)] of_char_hex [OF assms(2)] assms(3) by simp
  then show ?thesis using assms(1,2) by (simp split: if_splits)
qed

lemma hex_pair_inject:
  assumes "m < 32" "n < 32" "hex_char (m div 16) = hex_char (n div 16)" "hex_char (m mod 16) = hex_char (n mod 16)"
  shows "m = n"
proof -
  have "m div 16 = n div 16" using assms by (intro hex_char_inject) auto
  moreover have "m mod 16 = n mod 16" using assms by (intro hex_char_inject) auto
  ultimately show ?thesis by (metis div_mult_mod_eq)
qed

lemma short_escapes_inject:
  assumes "map_get short_escapes c = Some e" "map_get short_escapes d = Some e"
  shows "c = d"
  using map_get_mem [OF assms(1)] map_get_mem [OF assms(2)] by (auto simp: short_escapes_def)

lemma short_escapes_not_u: "map_get short_escapes c \<noteq> Some (CHR ''u'')"
  by (auto dest!: map_get_mem simp: short_escapes_def)

lemma short_escapes_None: "map_get short_escapes c = None \<Longrightarrow> c \<noteq> CHR 0x5C \<and> c \<noteq> CHR 0x22"
  by (auto simp: short_escapes_def)

lemma json_escape_cases:
  obtains (short) e where "map_get short_escapes c = Some e" "json_escape c = [CHR 0x5C, e]" "e \<noteq> CHR ''u''"
  | (hex) n where "n = of_char c" "n < 32"
      "json_escape c = [CHR 0x5C, CHR ''u'', CHR ''0'', CHR ''0'', hex_char (n div 16), hex_char (n mod 16)]"
  | (plain) "json_escape c = [c]" "c \<noteq> CHR 0x5C" "c \<noteq> CHR 0x22"
proof (cases "map_get short_escapes c")
  case (Some e)
  moreover have "e \<noteq> CHR ''u''" using Some short_escapes_not_u by auto
  ultimately show ?thesis using short by (simp add: json_escape_def)
next
  case None
  then show ?thesis using hex plain short_escapes_None [OF None]
    by (cases "of_char c < (32 :: nat)") (simp_all add: json_escape_def Let_def)
qed

lemma json_escape_prefix_free:
  assumes "json_escape c @ a = json_escape d @ b"
  shows "c = d \<and> a = b"
proof (cases c rule: json_escape_cases)
  case (short e)
  show ?thesis
    by (cases d rule: json_escape_cases) (use assms short short_escapes_inject in auto)
next
  case (hex n)
  show ?thesis
  proof (cases d rule: json_escape_cases)
    case (hex m)
    then have "hex_char (n div 16) = hex_char (m div 16)" "hex_char (n mod 16) = hex_char (m mod 16)" "a = b"
      using assms \<open>json_escape c = _\<close> by auto
    then have "n = m" using hex_pair_inject \<open>n < 32\<close> \<open>m < 32\<close> by blast
    then show ?thesis
      using \<open>n = of_char c\<close> \<open>m = of_char d\<close> \<open>a = b\<close> by (simp add: of_char_eq_iff)
  qed (use assms hex in auto)
next
  case plain
  show ?thesis
    by (cases d rule: json_escape_cases) (use assms plain in auto)
qed

lemma json_escape_head: "\<exists>x r. json_escape c = x # r \<and> x \<noteq> CHR 0x22"
  by (cases c rule: json_escape_cases) auto

lemma json_escapes_prefix_free:
  "concat (map json_escape s) @ CHR 0x22 # a = concat (map json_escape t) @ CHR 0x22 # b \<Longrightarrow> s = t \<and> a = b"
proof (induction s arbitrary: t)
  case Nil
  show ?case
  proof (cases t)
    case Nil
    then show ?thesis using Nil.prems by simp
  next
    case (Cons d u)
    then show ?thesis using Nil.prems json_escape_head [of d] by auto
  qed
next
  case (Cons c s)
  show ?case
  proof (cases t)
    case Nil
    then show ?thesis using Cons.prems json_escape_head [of c] by auto
  next
    case t: (Cons d u)
    then have "json_escape c @ (concat (map json_escape s) @ CHR 0x22 # a) =
        json_escape d @ (concat (map json_escape u) @ CHR 0x22 # b)"
      using Cons.prems by simp
    from json_escape_prefix_free [OF this] show ?thesis using Cons.IH [of u] t by simp
  qed
qed

lemma json_quote_prefix_free: "json_quote s @ a = json_quote t @ b \<Longrightarrow> s = t \<and> a = b"
  by (rule json_escapes_prefix_free) (simp add: json_quote_def)

subsection \<open>Numbers and separated lists\<close>

definition delimited :: "string \<Rightarrow> bool" where
  "delimited s = (s = [] \<or> hd s \<in> {CHR '','', CHR '']'', CHR ''}''})"

lemma delimited_Cons [simp]: "delimited (x # s) \<longleftrightarrow> x \<in> {CHR '','', CHR '']'', CHR ''}''}"
  by (simp add: delimited_def)

lemma string_of_int_prefix_free:
  assumes "string_of_int i @ a = string_of_int j @ b" "delimited a" "delimited b"
  shows "i = j \<and> a = b"
proof -
  define num where "num c = (is_digit c \<or> c = CHR ''-'')" for c
  have all: "\<forall>c \<in> set (string_of_int k). num c" for k
    using string_of_int_chars by (auto simp: num_def)
  have tw: "takeWhile num (string_of_int k @ z) = string_of_int k" if "delimited z" for k z
  proof -
    have "takeWhile num z = []"
      using that by (cases z) (auto simp: num_def is_digit_def)
    then show ?thesis using all [of k] by simp
  qed
  have "string_of_int i = string_of_int j"
    using tw [OF assms(2), of i] tw [OF assms(3), of j] assms(1) by simp
  then show ?thesis using assms(1) by simp
qed

lemma join_Cons: "join sep (x # xs) = x @ concat (map (\<lambda>y. sep @ y) xs)"
  by (induction xs arbitrary: x) auto

lemma separated_tail_inject:
  assumes "concat (map (\<lambda>v. CHR '','' # f v) vs) @ c # a = concat (map (\<lambda>v. CHR '','' # f v) ws) @ c # b"
    and "c \<in> {CHR '']'', CHR ''}''}"
    and "\<And>v w a b. v \<in> set vs \<Longrightarrow> w \<in> set ws \<Longrightarrow> delimited a \<Longrightarrow> delimited b \<Longrightarrow> f v @ a = f w @ b \<Longrightarrow> R v w \<and> a = b"
  shows "list_all2 R vs ws \<and> a = b"
  using assms
proof (induction vs arbitrary: ws)
  case Nil
  then show ?case by (cases ws) auto
next
  case (Cons v vs)
  show ?case
  proof (cases ws)
    case Nil
    then show ?thesis using Cons.prems by auto
  next
    case ws: (Cons w ws')
    let ?ra = "concat (map (\<lambda>v. CHR '','' # f v) vs) @ c # a"
    let ?rb = "concat (map (\<lambda>v. CHR '','' # f v) ws') @ c # b"
    have "delimited (concat (map (\<lambda>v. CHR '','' # f v) us) @ c # z)" for us z
      using Cons.prems(2) by (cases us) auto
    then have d: "delimited ?ra" "delimited ?rb" by blast+
    have "f v @ ?ra = f w @ ?rb" using Cons.prems(1) ws by simp
    then have "R v w" "?ra = ?rb"
      using Cons.prems(3) [of v w ?ra ?rb] ws d by auto
    then show ?thesis
      using Cons.IH [of ws'] Cons.prems(2,3) ws by auto
  qed
qed

lemma separated_inject:
  assumes "join '','' (map f vs) @ c # a = join '','' (map f ws) @ c # b"
    and "c \<in> {CHR '']'', CHR ''}''}"
    and "\<And>v. f v \<noteq> [] \<and> hd (f v) \<noteq> c"
    and "\<And>v w a b. v \<in> set vs \<Longrightarrow> w \<in> set ws \<Longrightarrow> delimited a \<Longrightarrow> delimited b \<Longrightarrow> f v @ a = f w @ b \<Longrightarrow> R v w \<and> a = b"
  shows "list_all2 R vs ws \<and> a = b"
proof (cases vs)
  case Nil
  show ?thesis
  proof (cases ws)
    case Nil
    then show ?thesis using assms(1) \<open>vs = []\<close> by simp
  next
    case (Cons w ws')
    then have "hd (f w) = c"
      using assms(1) \<open>vs = []\<close> assms(3) [of w] by (simp add: join_Cons) (metis append_is_Nil_conv hd_append2 list.sel(1))
    then show ?thesis using assms(3) by blast
  qed
next
  case vs: (Cons v vs')
  show ?thesis
  proof (cases ws)
    case Nil
    then have "hd (f v) = c"
      using assms(1) vs assms(3) [of v] by (simp add: join_Cons) (metis append_is_Nil_conv hd_append2 list.sel(1))
    then show ?thesis using assms(3) by blast
  next
    case ws: (Cons w ws')
    have "concat (map (\<lambda>v. CHR '','' # f v) vs) @ c # a = concat (map (\<lambda>v. CHR '','' # f v) ws) @ c # b"
      using assms(1) vs ws by (simp add: join_Cons comp_def)
    then show ?thesis
      using separated_tail_inject [of f vs c a ws b R] assms(2,4) by blast
  qed
qed

subsection \<open>The canonical text determines the data\<close>

lemma insort_key_map: "insort_key f (g x) (map g xs) = map g (insort_key (\<lambda>a. f (g a)) x xs)"
  by (induction xs) auto

lemma sort_key_map: "sort_key f (map g xs) = map g (sort_key (\<lambda>a. f (g a)) xs)"
  by (induction xs) (auto simp: insort_key_map)

lemma sort_key_map_values:
  "sort_key fst (map (map_prod id g) kvs) = map (map_prod id g) (sort_key fst kvs)"
  by (simp add: sort_key_map)

definition render :: "js_value \<Rightarrow> string" where
  "render v = template_text (canonicalize v)"

definition render_pair :: "string \<times> js_value \<Rightarrow> string" where
  "render_pair kv = json_quote (fst kv) @ '':'' @ render (snd kv)"

lemma render_simps:
  "render JUndefined = ''undefined''" "render JNull = ''null''"
  "render (JBool b) = (if b then ''true'' else ''false'')"
  "render (JNum n) = string_of_int n" "render (JStr s) = json_quote s"
  "render (JObj kvs) = ''{'' @ join '','' (map render_pair (sort_key fst kvs)) @ ''}''"
  by (simp_all add: render_def template_text_def sort_key_map_values case_prod_beta comp_def
    render_pair_def [abs_def])

lemma render_JArr:
  assumes "list_all (\<lambda>v. v \<noteq> JUndefined) vs"
  shows "render (JArr vs) = ''['' @ join '','' (map render vs) @ '']''"
proof -
  have "join_text (canonicalize v) = render v" if "v \<noteq> JUndefined" for v
    using that by (cases v) (simp_all add: join_text_def render_def template_text_def)
  then have "map join_text (map canonicalize vs) = map render vs"
    using assms by (simp add: list_all_iff)
  moreover have "render (JArr vs) = ''['' @ join '','' (map join_text (map canonicalize vs)) @ '']''"
    by (simp add: render_def template_text_def)
  ultimately show ?thesis by metis
qed

fun head_char :: "js_value \<Rightarrow> char" where
  "head_char JUndefined = CHR ''u''"
| "head_char JNull = CHR ''n''"
| "head_char (JBool b) = (if b then CHR ''t'' else CHR ''f'')"
| "head_char (JNum n) = hd (string_of_int n)"
| "head_char (JStr s) = CHR 0x22"
| "head_char (JArr vs) = CHR ''[''"
| "head_char (JObj kvs) = CHR ''{''"

lemma render_head: "\<exists>r. render v = head_char v # r"
proof (cases v)
  case (JNum n)
  then show ?thesis by (cases "string_of_int n") (simp_all add: render_simps)
next
  case (JArr vs)
  then show ?thesis by (simp add: render_def template_text_def)
qed (simp_all add: render_simps json_quote_def)

lemma hd_string_of_int: "is_digit (hd (string_of_int n)) \<or> hd (string_of_int n) = CHR ''-''"
  by (rule string_of_int_chars [of _ n]) simp

lemma render_same_head: "render v @ a = render w @ b \<Longrightarrow> head_char v = head_char w"
  using render_head [of v] render_head [of w] by auto

lemma head_char_shape:
  assumes "head_char v = head_char w"
  shows "(\<exists>b. v = JBool b \<and> w = JBool b) \<or> (\<exists>m n. v = JNum m \<and> w = JNum n) \<or>
    (\<exists>s t. v = JStr s \<and> w = JStr t) \<or> (\<exists>vs ws. v = JArr vs \<and> w = JArr ws) \<or>
    (\<exists>k l. v = JObj k \<and> w = JObj l) \<or> (v = w)"
proof -
  have n: "hd (string_of_int n) \<notin> {CHR ''u'', CHR ''n'', CHR ''t'', CHR ''f'', CHR 0x22, CHR ''['', CHR ''{''}" for n
    using hd_string_of_int [of n] by (auto simp: is_digit_def)
  show ?thesis
    using assms n by (cases v; cases w) (auto split: if_splits)
qed

lemma render_pair_head: "render_pair kv \<noteq> [] \<and> hd (render_pair kv) \<noteq> CHR ''}''"
  by (simp add: render_pair_def json_quote_def)

lemma render_not_close: "render v \<noteq> [] \<and> hd (render v) \<noteq> CHR '']''"
proof -
  have "hd (string_of_int n) \<noteq> CHR '']''" for n
    using hd_string_of_int [of n] by (auto simp: is_digit_def)
  then have "head_char v \<noteq> CHR '']''" by (cases v) auto
  then show ?thesis using render_head [of v] by auto
qed

lemma array_safe_JArr: "array_safe (JArr vs) \<longleftrightarrow> (\<forall>v \<in> set vs. v \<noteq> JUndefined \<and> array_safe v)"
  by (auto simp: list_all_iff)

lemma array_safe_JObj: "array_safe (JObj kvs) \<longleftrightarrow> (\<forall>kv \<in> set kvs. array_safe (snd kv))"
  by (auto simp: list_all_iff)

lemma render_prefix_free:
  assumes "render v @ a = render w @ b" "array_safe v" "array_safe w" "delimited a" "delimited b"
  shows "sort_keys v = sort_keys w \<and> a = b"
  using assms
proof (induction v arbitrary: w a b)
  case (JNum n)
  then obtain m where "w = JNum m"
    using head_char_shape [OF render_same_head [OF JNum.prems(1)]] by auto
  then show ?case using JNum.prems string_of_int_prefix_free by (simp add: render_simps)
next
  case (JStr s)
  obtain t where "w = JStr t"
    using head_char_shape [OF render_same_head [OF JStr.prems(1)]] by auto
  moreover have "s = t \<and> a = b"
    by (rule json_quote_prefix_free) (use JStr.prems(1) calculation in \<open>simp add: render_simps\<close>)
  ultimately show ?case by simp
next
  case (JArr vs)
  then obtain ws where w: "w = JArr ws"
    using head_char_shape [OF render_same_head [OF JArr.prems(1)]] by auto
  have safe: "\<forall>v \<in> set vs. v \<noteq> JUndefined \<and> array_safe v" "\<forall>v \<in> set ws. v \<noteq> JUndefined \<and> array_safe v"
    using JArr.prems(2,3) w by (simp_all only: array_safe_JArr)
  then have "join '','' (map render vs) @ CHR '']'' # a = join '','' (map render ws) @ CHR '']'' # b"
    using JArr.prems(1) w by (simp add: render_JArr list_all_iff)
  moreover have step: "sort_keys x = sort_keys y \<and> c = d"
    if "x \<in> set vs" "y \<in> set ws" "delimited c" "delimited d" "render x @ c = render y @ d" for x y c d
    using JArr.IH [OF that(1,5)] safe that by blast
  ultimately have "list_all2 (\<lambda>x y. sort_keys x = sort_keys y) vs ws \<and> a = b"
    by (intro separated_inject [OF _ _ render_not_close step]) simp_all
  then show ?case using w by (auto simp: list_all2_conv_all_nth intro: nth_equalityI)
next
  case (JObj kvs)
  then obtain lws where w: "w = JObj lws"
    using head_char_shape [OF render_same_head [OF JObj.prems(1)]] by auto
  have safe: "\<forall>kv \<in> set kvs. array_safe (snd kv)" "\<forall>kv \<in> set lws. array_safe (snd kv)"
    using JObj.prems(2,3) w by (simp_all only: array_safe_JObj)
  have pair: "(fst x = fst y \<and> sort_keys (snd x) = sort_keys (snd y)) \<and> c = d"
    if "x \<in> set kvs" "y \<in> set lws" "delimited c" "delimited d" "render_pair x @ c = render_pair y @ d" for x y c d
  proof -
    have "json_quote (fst x) @ (CHR '':'' # render (snd x) @ c) = json_quote (fst y) @ (CHR '':'' # render (snd y) @ d)"
      using that(5) by (simp add: render_pair_def)
    from json_quote_prefix_free [OF this] have "fst x = fst y \<and> render (snd x) @ c = render (snd y) @ d"
      by simp
    moreover have "snd x \<in> Basic_BNFs.snds x" by (cases x) simp
    ultimately show ?thesis
      using JObj.IH [OF that(1), of "snd x" c "snd y" d] that(1-4) safe by blast
  qed
  have "join '','' (map render_pair (sort_key fst kvs)) @ CHR ''}'' # a
      = join '','' (map render_pair (sort_key fst lws)) @ CHR ''}'' # b"
    using JObj.prems(1) w by (simp add: render_simps)
  then have "list_all2 (\<lambda>x y. fst x = fst y \<and> sort_keys (snd x) = sort_keys (snd y)) (sort_key fst kvs) (sort_key fst lws)
      \<and> a = b"
    by (rule separated_inject [OF _ _ render_pair_head]) (simp, rule pair, simp_all)
  then have "map (map_prod id sort_keys) (sort_key fst kvs) = map (map_prod id sort_keys) (sort_key fst lws)" "a = b"
    by (auto simp: list_all2_conv_all_nth map_prod_def case_prod_beta intro: nth_equalityI)
  then show ?case using w by (simp add: sort_key_map_values)
next
  case JUndefined
  then have "w = JUndefined" using head_char_shape [OF render_same_head [OF JUndefined.prems(1)]] by auto
  then show ?case using JUndefined.prems(1) by simp
next
  case JNull
  then have "w = JNull" using head_char_shape [OF render_same_head [OF JNull.prems(1)]] by auto
  then show ?case using JNull.prems(1) by simp
next
  case (JBool t)
  then have "w = JBool t" using head_char_shape [OF render_same_head [OF JBool.prems(1)]] by auto
  then show ?case using JBool.prems(1) by simp
qed

text \<open>
  Equal canonical texts come from the same data.
\<close>

lemma canonicalize_inject:
  assumes "canonicalize v = canonicalize w" "array_safe v" "array_safe w"
  shows "sort_keys v = sort_keys w"
  using render_prefix_free [of v "[]" w "[]"] assms by (simp add: render_def delimited_def)

text \<open>For two objects written with the same keys, the values agree key by key.\<close>

lemma same_keys_same_values:
  assumes "map fst kvs = map fst lws" "distinct (map fst kvs)" "set kvs = set lws"
  shows "kvs = lws"
proof -
  have "kvs ! i = lws ! i" if i: "i < length kvs" for i
  proof -
    have len: "length kvs = length lws" using assms(1) map_eq_imp_length_eq by blast
    have "lws ! i \<in> set kvs" using assms(3) i len by simp
    then obtain j where j: "j < length kvs" "kvs ! j = lws ! i" by (metis in_set_conv_nth)
    have "fst (kvs ! j) = fst (kvs ! i)"
      using j(2) assms(1) i len by (metis nth_map)
    then have "j = i"
      using assms(2) i j(1) by (metis distinct_conv_nth length_map nth_map)
    then show ?thesis using j by simp
  qed
  then show ?thesis using assms(1) by (metis map_eq_imp_length_eq nth_equalityI)
qed

lemma sort_keys_JObj_values:
  assumes "sort_keys (JObj kvs) = sort_keys (JObj lws)" "map fst kvs = map fst lws" "distinct (map fst kvs)"
  shows "map (\<lambda>kv. sort_keys (snd kv)) kvs = map (\<lambda>kv. sort_keys (snd kv)) lws"
proof -
  let ?n = "\<lambda>xs. map (map_prod id sort_keys) xs"
  have "sort_key fst (?n kvs) = sort_key fst (?n lws)" using assms(1) by simp
  then have "set (?n kvs) = set (?n lws)" by (metis set_sort)
  moreover have "map fst (?n kvs) = map fst (?n lws)" "distinct (map fst (?n kvs))"
    using assms(2,3) by (simp_all add: comp_def)
  ultimately have "?n kvs = ?n lws" by (intro same_keys_same_values)
  then have "map snd (?n kvs) = map snd (?n lws)" by simp
  then show ?thesis by (simp add: comp_def)
qed

end
