(* ===== verification/Ledger.thy ===== *)
theory Ledger
  imports Canonical_Json
begin

section \<open>The trust ledger: posting, reversal and balances\<close>

text \<open>
  The double-entry core of packages/domain/src/ledger.ts: the account, entry and transaction types,
  the request fingerprint, \<open>validateBalancedEntries\<close>, \<open>postLedgerTransaction\<close> with its idempotency,
  reversal and overdraft checks, \<open>createReversalTransaction\<close> and the balance projections.

  An entry as the caller sends it (\<open>Omit<LedgerEntry, "id" | "transactionId" | "postedAt">\<close>) is the
  record \<open>LedgerEntryInput\<close>; a posted entry extends it. An object used as a dictionary
  (\<open>Record<string, number>\<close>) is an association list in insertion order.
\<close>

subsection \<open>Data\<close>

datatype LedgerAccountType = trust_asset | client_liability | operating_revenue | expense

record LedgerAccount =
  acct_id :: string
  acct_firmId :: string
  acct_name :: string
  acct_type :: LedgerAccountType

record LedgerEntryInput =
  entry_firmId :: string
  entry_matterId :: string
  entry_clientId :: string
  entry_accountId :: string
  entry_debitCents :: int
  entry_creditCents :: int
  entry_memo :: string
  entry_reversingTransactionId :: "string option"

record LedgerEntry = LedgerEntryInput +
  entry_id :: string
  entry_transactionId :: string
  entry_postedAt :: string

record LedgerTransaction =
  tx_id :: string
  tx_firmId :: string
  tx_idempotencyKey :: string
  tx_requestFingerprint :: "string option"
  tx_postedByUserId :: string
  tx_postedAt :: string
  tx_entries :: "LedgerEntryInput list"
  tx_reversesTransactionId :: "string option"

record PostedLedgerTransaction =
  posted_id :: string
  posted_firmId :: string
  posted_idempotencyKey :: string
  posted_requestFingerprint :: string
  posted_entries :: "LedgerEntry list"
  posted_reversesTransactionId :: "string option"

record ClientTrustBalanceDelta =
  delta_firmId :: string
  delta_matterId :: string
  delta_clientId :: string
  delta_cents :: int

record LedgerPostingState =
  state_postedTransactions :: "PostedLedgerTransaction list"
  state_accounts :: "LedgerAccount list"

subsection \<open>Balances and fingerprints\<close>

definition liabilityAccountIds :: "LedgerAccount list \<Rightarrow> string list" where
  "liabilityAccountIds accounts =
     js_set (map acct_id (filter (\<lambda>account. acct_type account = client_liability) accounts))"

definition netLiabilityBalance ::
  "'a LedgerEntryInput_scheme list \<Rightarrow> string \<Rightarrow> string \<Rightarrow> string list \<Rightarrow> int" where
  "netLiabilityBalance entries matterId clientId liabilityIds =
     foldl (\<lambda>balance entry. balance + entry_creditCents entry - entry_debitCents entry) 0
       (filter (\<lambda>entry. entry_matterId entry = matterId \<and> entry_clientId entry = clientId
                        \<and> entry_accountId entry \<in> set liabilityIds) entries)"

definition js_optional :: "string option \<Rightarrow> js_value" where
  "js_optional s = (case s of None \<Rightarrow> JUndefined | Some t \<Rightarrow> JStr t)"

definition fingerprint_entry :: "LedgerEntryInput \<Rightarrow> js_value" where
  "fingerprint_entry entry = JObj
     [(''firmId'', JStr (entry_firmId entry)),
      (''matterId'', JStr (entry_matterId entry)),
      (''clientId'', JStr (entry_clientId entry)),
      (''accountId'', JStr (entry_accountId entry)),
      (''debitCents'', JNum (entry_debitCents entry)),
      (''creditCents'', JNum (entry_creditCents entry)),
      (''memo'', JStr (entry_memo entry)),
      (''reversingTransactionId'', js_optional (entry_reversingTransactionId entry))]"

definition ledgerRequestFingerprint :: "LedgerTransaction \<Rightarrow> string" where
  "ledgerRequestFingerprint transaction = template_text (canonicalize (JObj
     [(''firmId'', JStr (tx_firmId transaction)),
      (''entries'', JArr (map fingerprint_entry (tx_entries transaction))),
      (''reversesTransactionId'', js_optional (tx_reversesTransactionId transaction))]))"

definition effectiveFingerprint :: "LedgerTransaction \<Rightarrow> string" where
  "effectiveFingerprint transaction =
     or_else (tx_requestFingerprint transaction) (ledgerRequestFingerprint transaction)"

subsection \<open>Validation and posting\<close>

definition validateBalancedEntries :: "'a LedgerEntryInput_scheme list \<Rightarrow> unit result" where
  "validateBalancedEntries entries =
     (let debit = sum_by entry_debitCents entries; credit = sum_by entry_creditCents entries in
      if debit \<le> 0 \<or> credit \<le> 0 \<or> debit \<noteq> credit
      then throw ''Ledger transaction must contain balanced non-zero debits and credits''
      else for_each (\<lambda>entry. run_checks
        [throw_if (entry_debitCents entry < 0 \<or> entry_creditCents entry < 0)
           ''Ledger entries cannot contain negative amounts'',
         throw_if (entry_debitCents entry > 0 \<and> entry_creditCents entry > 0)
           ''A ledger entry cannot be both debit and credit'']) entries)"

definition original_side :: "'a LedgerEntryInput_scheme \<Rightarrow> js_value" where
  "original_side entry = JObj
     [(''accountId'', JStr (entry_accountId entry)), (''clientId'', JStr (entry_clientId entry)),
      (''creditCents'', JNum (entry_creditCents entry)), (''debitCents'', JNum (entry_debitCents entry)),
      (''matterId'', JStr (entry_matterId entry))]"

definition reversal_side :: "'a LedgerEntryInput_scheme \<Rightarrow> js_value" where
  "reversal_side entry = JObj
     [(''accountId'', JStr (entry_accountId entry)), (''clientId'', JStr (entry_clientId entry)),
      (''creditCents'', JNum (entry_debitCents entry)), (''debitCents'', JNum (entry_creditCents entry)),
      (''matterId'', JStr (entry_matterId entry))]"

definition validateReversal :: "PostedLedgerTransaction list \<Rightarrow> LedgerTransaction \<Rightarrow> unit result" where
  "validateReversal postedTransactions transaction =
     (case List.find (\<lambda>posted. posted_firmId posted = tx_firmId transaction
             \<and> Some (posted_id posted) = tx_reversesTransactionId transaction) postedTransactions of
        None \<Rightarrow> throw ''Reversing transaction must reference an existing posted transaction''
      | Some original \<Rightarrow>
          throw_if (canonicalize (JArr (map original_side (posted_entries original)))
                    \<noteq> canonicalize (JArr (map reversal_side (tx_entries transaction))))
            ''Reversing transaction must exactly mirror original ledger entries'')"

definition nextEntry :: "LedgerTransaction \<Rightarrow> nat \<Rightarrow> LedgerEntryInput \<Rightarrow> LedgerEntry" where
  "nextEntry transaction index entry =
     \<lparr>entry_firmId = entry_firmId entry, entry_matterId = entry_matterId entry,
      entry_clientId = entry_clientId entry, entry_accountId = entry_accountId entry,
      entry_debitCents = entry_debitCents entry, entry_creditCents = entry_creditCents entry,
      entry_memo = entry_memo entry,
      entry_reversingTransactionId = entry_reversingTransactionId entry,
      entry_id = tx_id transaction @ '':'' @ string_of_nat (index + 1),
      entry_transactionId = tx_id transaction,
      entry_postedAt = tx_postedAt transaction\<rparr>"

definition nextEntries :: "LedgerTransaction \<Rightarrow> LedgerEntry list" where
  "nextEntries transaction =
     map (\<lambda>(index, entry). nextEntry transaction index entry) (enumerate 0 (tx_entries transaction))"

definition checkEntryFunds ::
  "LedgerAccount list \<Rightarrow> LedgerEntry list \<Rightarrow> LedgerEntry list \<Rightarrow> LedgerEntry \<Rightarrow> unit result" where
  "checkEntryFunds accounts existingEntries next entry =
     (case List.find (\<lambda>candidate. acct_id candidate = entry_accountId entry) accounts of
        None \<Rightarrow> throw (''Unknown ledger account '' @ entry_accountId entry)
      | Some account \<Rightarrow>
          if acct_type account = client_liability then
            throw_if
              (netLiabilityBalance existingEntries (entry_matterId entry) (entry_clientId entry)
                 (liabilityAccountIds accounts) +
               netLiabilityBalance next (entry_matterId entry) (entry_clientId entry)
                 (liabilityAccountIds accounts) < 0)
              ''Trust transaction would overdraw the client matter balance''
          else Inr ())"

definition findDuplicate ::
  "PostedLedgerTransaction list \<Rightarrow> LedgerTransaction \<Rightarrow> PostedLedgerTransaction option" where
  "findDuplicate postedTransactions transaction =
     List.find (\<lambda>posted. posted_firmId posted = tx_firmId transaction
                         \<and> posted_idempotencyKey posted = tx_idempotencyKey transaction)
       postedTransactions"

definition postLedgerTransaction ::
  "LedgerPostingState \<Rightarrow> LedgerTransaction \<Rightarrow> PostedLedgerTransaction result" where
  "postLedgerTransaction state transaction =
     (let requestFingerprint = effectiveFingerprint transaction in
      case findDuplicate (state_postedTransactions state) transaction of
        Some duplicate \<Rightarrow>
          if posted_requestFingerprint duplicate \<noteq> requestFingerprint
          then throw ''Idempotency key was reused with a different ledger payload''
          else Inr duplicate
      | None \<Rightarrow>
          bind_result (validateBalancedEntries (tx_entries transaction)) (\<lambda>_.
          bind_result (if truthy (tx_reversesTransactionId transaction)
                       then validateReversal (state_postedTransactions state) transaction
                       else Inr ()) (\<lambda>_.
          let existingEntries = concat (map posted_entries (state_postedTransactions state));
              next = nextEntries transaction in
          bind_result (for_each (checkEntryFunds (state_accounts state) existingEntries next) next) (\<lambda>_.
            Inr \<lparr>posted_id = tx_id transaction, posted_firmId = tx_firmId transaction,
                 posted_idempotencyKey = tx_idempotencyKey transaction,
                 posted_requestFingerprint = requestFingerprint,
                 posted_entries = next,
                 posted_reversesTransactionId = tx_reversesTransactionId transaction\<rparr>))))"

record ReversalInput =
  rev_id :: string
  rev_idempotencyKey :: string
  rev_postedByUserId :: string
  rev_postedAt :: string
  rev_memoPrefix :: "string option"

definition reversalEntry :: "string \<Rightarrow> string option \<Rightarrow> LedgerEntry \<Rightarrow> LedgerEntryInput" where
  "reversalEntry originalId memoPrefix entry =
     \<lparr>entry_firmId = entry_firmId entry, entry_matterId = entry_matterId entry,
      entry_clientId = entry_clientId entry, entry_accountId = entry_accountId entry,
      entry_debitCents = entry_creditCents entry, entry_creditCents = entry_debitCents entry,
      entry_memo = or_else memoPrefix ''Reverse'' @ '': '' @ entry_memo entry,
      entry_reversingTransactionId = Some originalId\<rparr>"

definition createReversalTransaction ::
  "PostedLedgerTransaction \<Rightarrow> ReversalInput \<Rightarrow> LedgerTransaction" where
  "createReversalTransaction original input =
     \<lparr>tx_id = rev_id input, tx_firmId = posted_firmId original,
      tx_idempotencyKey = rev_idempotencyKey input, tx_requestFingerprint = None,
      tx_postedByUserId = rev_postedByUserId input, tx_postedAt = rev_postedAt input,
      tx_entries = map (reversalEntry (posted_id original) (rev_memoPrefix input)) (posted_entries original),
      tx_reversesTransactionId = Some (posted_id original)\<rparr>"

subsection \<open>Balance projections\<close>

definition balanceKey :: "'a LedgerEntryInput_scheme \<Rightarrow> string" where
  "balanceKey entry = entry_clientId entry @ '':'' @ entry_matterId entry"

definition addToBalance ::
  "(string \<times> int) list \<Rightarrow> 'a LedgerEntryInput_scheme \<Rightarrow> (string \<times> int) list" where
  "addToBalance balances entry =
     map_put balances (balanceKey entry)
       (or_else (map_get balances (balanceKey entry)) 0 + entry_creditCents entry - entry_debitCents entry)"

definition ledgerBalanceByMatter :: "'a LedgerEntryInput_scheme list \<Rightarrow> (string \<times> int) list" where
  "ledgerBalanceByMatter entries = foldl addToBalance [] entries"

definition clientTrustBalanceByMatter ::
  "'a LedgerEntryInput_scheme list \<Rightarrow> LedgerAccount list \<Rightarrow> (string \<times> int) list" where
  "clientTrustBalanceByMatter entries accounts =
     foldl addToBalance [] (filter (\<lambda>entry. entry_accountId entry \<in> set (liabilityAccountIds accounts)) entries)"

definition deltaKey :: "'a LedgerEntryInput_scheme \<Rightarrow> string" where
  "deltaKey entry = entry_firmId entry @ '':'' @ entry_matterId entry @ '':'' @ entry_clientId entry"

definition addDelta ::
  "(string \<times> ClientTrustBalanceDelta) list \<Rightarrow> 'a LedgerEntryInput_scheme
   \<Rightarrow> (string \<times> ClientTrustBalanceDelta) list" where
  "addDelta deltas entry =
     (let current = or_else (map_get deltas (deltaKey entry))
            \<lparr>delta_firmId = entry_firmId entry, delta_matterId = entry_matterId entry,
             delta_clientId = entry_clientId entry, delta_cents = 0\<rparr>
      in map_put deltas (deltaKey entry)
           (current\<lparr>delta_cents := delta_cents current + (entry_creditCents entry - entry_debitCents entry)\<rparr>))"

definition clientTrustBalanceDeltas ::
  "'a LedgerEntryInput_scheme list \<Rightarrow> LedgerAccount list \<Rightarrow> ClientTrustBalanceDelta list" where
  "clientTrustBalanceDeltas entries accounts =
     filter (\<lambda>delta. delta_cents delta \<noteq> 0)
       (map snd (foldl (\<lambda>deltas entry.
          if entry_accountId entry \<notin> set (liabilityAccountIds accounts) then deltas
          else addDelta deltas entry) [] entries))"

subsection \<open>Predicates of the specification\<close>

text \<open>
  \<open>same_payload\<close>: two requests ask for the same postings. \<open>mirrors\<close>: one list of entries is the
  other with debits and credits exchanged. \<open>accounts_consistent\<close>: an account id has one type.
  \<open>funds_ok\<close>: no client has a negative trust balance on any matter. \<open>net_effect\<close> is the amount an
  entry adds to a liability.
\<close>

definition same_payload :: "LedgerTransaction \<Rightarrow> LedgerTransaction \<Rightarrow> bool" where
  "same_payload t u = (tx_firmId t = tx_firmId u \<and> tx_entries t = tx_entries u
     \<and> tx_reversesTransactionId t = tx_reversesTransactionId u)"

definition mirrors :: "'a LedgerEntryInput_scheme list \<Rightarrow> 'b LedgerEntryInput_scheme list \<Rightarrow> bool" where
  "mirrors original reversal = list_all2 (\<lambda>x r.
     entry_accountId x = entry_accountId r \<and> entry_clientId x = entry_clientId r
     \<and> entry_matterId x = entry_matterId r
     \<and> entry_creditCents x = entry_debitCents r \<and> entry_debitCents x = entry_creditCents r) original reversal"

definition accounts_consistent :: "LedgerAccount list \<Rightarrow> bool" where
  "accounts_consistent accounts =
     list_all (\<lambda>a. list_all (\<lambda>b. acct_id a = acct_id b \<longrightarrow> acct_type a = acct_type b) accounts) accounts"

definition funds_ok :: "LedgerAccount list \<Rightarrow> 'a LedgerEntryInput_scheme list \<Rightarrow> bool" where
  "funds_ok accounts entries =
     list_all (\<lambda>e. 0 \<le> netLiabilityBalance entries (entry_matterId e) (entry_clientId e)
                       (liabilityAccountIds accounts)) entries"

definition balanced :: "'a LedgerEntryInput_scheme list \<Rightarrow> bool" where
  "balanced entries =
     (sum_by entry_debitCents entries = sum_by entry_creditCents entries \<and> 0 < sum_by entry_debitCents entries
      \<and> list_all (\<lambda>e. 0 \<le> entry_debitCents e \<and> 0 \<le> entry_creditCents e
                       \<and> \<not> (0 < entry_debitCents e \<and> 0 < entry_creditCents e)) entries)"

definition net_effect :: "'a LedgerEntryInput_scheme \<Rightarrow> int" where
  "net_effect entry = entry_creditCents entry - entry_debitCents entry"

text \<open>
  The conditions of posting: the reversal reference (when there is one) is sound, every account is
  known, and every touched client balance stays non-negative. \<open>posted_of\<close> is the stored form.
\<close>

definition reversal_ok :: "PostedLedgerTransaction list \<Rightarrow> LedgerTransaction \<Rightarrow> bool" where
  "reversal_ok posted t =
     (case tx_reversesTransactionId t of
        None \<Rightarrow> True
      | Some i \<Rightarrow> i = [] \<or>
          (case List.find (\<lambda>p. posted_firmId p = tx_firmId t \<and> posted_id p = i) posted of
             None \<Rightarrow> False
           | Some x \<Rightarrow> mirrors (posted_entries x) (tx_entries t)))"

definition all_entries :: "PostedLedgerTransaction list \<Rightarrow> LedgerEntry list" where
  "all_entries posted = concat (map posted_entries posted)"

definition entry_allowed :: "LedgerPostingState \<Rightarrow> LedgerTransaction \<Rightarrow> LedgerEntryInput \<Rightarrow> bool" where
  "entry_allowed st t e =
     (case List.find (\<lambda>a. acct_id a = entry_accountId e) (state_accounts st) of
        None \<Rightarrow> False
      | Some a \<Rightarrow> acct_type a = client_liability \<longrightarrow>
          0 \<le> netLiabilityBalance (all_entries (state_postedTransactions st)) (entry_matterId e) (entry_clientId e)
                (liabilityAccountIds (state_accounts st)) +
              netLiabilityBalance (tx_entries t) (entry_matterId e) (entry_clientId e)
                (liabilityAccountIds (state_accounts st)))"

definition posted_of :: "LedgerTransaction \<Rightarrow> PostedLedgerTransaction" where
  "posted_of t = \<lparr>posted_id = tx_id t, posted_firmId = tx_firmId t,
     posted_idempotencyKey = tx_idempotencyKey t, posted_requestFingerprint = effectiveFingerprint t,
     posted_entries = nextEntries t, posted_reversesTransactionId = tx_reversesTransactionId t\<rparr>"

subsection \<open>Liability balances\<close>

lemma foldl_net: "foldl (\<lambda>b e. b + entry_creditCents e - entry_debitCents e) a es = a + sum_by net_effect es"
  by (induction es arbitrary: a) (auto simp: net_effect_def)

lemma netLiabilityBalance_eq:
  "netLiabilityBalance es m c L =
     sum_by net_effect (filter (\<lambda>e. entry_matterId e = m \<and> entry_clientId e = c \<and> entry_accountId e \<in> set L) es)"
  by (simp add: netLiabilityBalance_def foldl_net)

lemma netLiabilityBalance_append [simp]:
  "netLiabilityBalance (xs @ ys) m c L = netLiabilityBalance xs m c L + netLiabilityBalance ys m c L"
  by (simp add: netLiabilityBalance_eq)

lemma netLiabilityBalance_untouched:
  assumes "\<And>e. e \<in> set es \<Longrightarrow> entry_accountId e \<in> set L \<Longrightarrow> \<not> (entry_matterId e = m \<and> entry_clientId e = c)"
  shows "netLiabilityBalance es m c L = 0"
proof -
  have "filter (\<lambda>e. entry_matterId e = m \<and> entry_clientId e = c \<and> entry_accountId e \<in> set L) es = []"
    using assms by (auto simp: filter_empty_conv)
  then show ?thesis by (simp add: netLiabilityBalance_eq)
qed

lemma funds_ok_iff:
  "funds_ok accounts es \<longleftrightarrow> (\<forall>m c. 0 \<le> netLiabilityBalance es m c (liabilityAccountIds accounts))"
proof
  assume ok: "funds_ok accounts es"
  show "\<forall>m c. 0 \<le> netLiabilityBalance es m c (liabilityAccountIds accounts)"
  proof (intro allI)
    fix m c
    show "0 \<le> netLiabilityBalance es m c (liabilityAccountIds accounts)"
    proof (cases "\<exists>e \<in> set es. entry_matterId e = m \<and> entry_clientId e = c")
      case True
      then show ?thesis using ok by (auto simp: funds_ok_def list_all_iff)
    next
      case False
      then show ?thesis by (subst netLiabilityBalance_untouched) auto
    qed
  qed
qed (auto simp: funds_ok_def list_all_iff)

lemma set_liabilityAccountIds:
  "set (liabilityAccountIds accounts) = acct_id ` {a \<in> set accounts. acct_type a = client_liability}"
  by (auto simp: liabilityAccountIds_def)

lemma accounts_consistentD:
  "accounts_consistent accounts \<Longrightarrow> a \<in> set accounts \<Longrightarrow> b \<in> set accounts \<Longrightarrow> acct_id a = acct_id b
   \<Longrightarrow> acct_type a = acct_type b"
  unfolding accounts_consistent_def list_all_iff by blast

lemma liability_account_found:
  assumes "accounts_consistent accounts" "List.find (\<lambda>a. acct_id a = i) accounts = Some a"
  shows "acct_type a = client_liability \<longleftrightarrow> i \<in> set (liabilityAccountIds accounts)"
proof -
  have a: "a \<in> set accounts" "acct_id a = i" using find_Some_mem [OF assms(2)] by auto
  show ?thesis
  proof
    assume "acct_type a = client_liability"
    then show "i \<in> set (liabilityAccountIds accounts)" using a by (auto simp: set_liabilityAccountIds)
  next
    assume "i \<in> set (liabilityAccountIds accounts)"
    then obtain b where b: "b \<in> set accounts" "acct_type b = client_liability" "acct_id b = i"
      by (auto simp: set_liabilityAccountIds)
    then show "acct_type a = client_liability"
      using accounts_consistentD [OF assms(1) a(1) b(1)] a(2) by simp
  qed
qed

subsection \<open>Validation\<close>

lemma validateBalancedEntries_ok:
  "validateBalancedEntries es = Inr u \<longleftrightarrow> balanced es"
proof -
  have "run_checks
        [throw_if (entry_debitCents e < 0 \<or> entry_creditCents e < 0) m,
         throw_if (entry_debitCents e > 0 \<and> entry_creditCents e > 0) n] = Inr ()
     \<longleftrightarrow> 0 \<le> entry_debitCents e \<and> 0 \<le> entry_creditCents e \<and> \<not> (0 < entry_debitCents e \<and> 0 < entry_creditCents e)"
    for e :: "'a LedgerEntryInput_scheme" and m n
    by (simp add: bind_result_ok not_less)
  then show ?thesis
    by (simp add: validateBalancedEntries_def balanced_def Let_def for_each_ok list_all_iff not_le)
qed

lemma nextEntries_length [simp]: "length (nextEntries t) = length (tx_entries t)"
  by (simp add: nextEntries_def)

lemma nextEntries_nth:
  "i < length (tx_entries t) \<Longrightarrow> nextEntries t ! i = nextEntry t i (tx_entries t ! i)"
  by (simp add: nextEntries_def nth_enumerate_eq)

lemma nextEntry_fields [simp]:
  "entry_firmId (nextEntry t i e) = entry_firmId e" "entry_matterId (nextEntry t i e) = entry_matterId e"
  "entry_clientId (nextEntry t i e) = entry_clientId e" "entry_accountId (nextEntry t i e) = entry_accountId e"
  "entry_debitCents (nextEntry t i e) = entry_debitCents e" "entry_creditCents (nextEntry t i e) = entry_creditCents e"
  "entry_memo (nextEntry t i e) = entry_memo e" "entry_transactionId (nextEntry t i e) = tx_id t"
  "entry_postedAt (nextEntry t i e) = tx_postedAt t"
  "entry_reversingTransactionId (nextEntry t i e) = entry_reversingTransactionId e"
  by (simp_all add: nextEntry_def)

lemma nextEntries_map:
  assumes "\<And>i e. f (nextEntry t i e) = g e"
  shows "map f (nextEntries t) = map g (tx_entries t)"
  using assms by (intro nth_equalityI) (simp_all add: nextEntries_nth)

lemma nextEntries_filter_sum:
  assumes "\<And>i e. p (nextEntry t i e) = q e" "\<And>i e. f (nextEntry t i e) = g e"
  shows "sum_by f (filter p (nextEntries t)) = sum_by g (filter q (tx_entries t))"
proof -
  have "map (\<lambda>e. if p e then f e else 0) (nextEntries t) = map (\<lambda>e. if q e then g e else 0) (tx_entries t)"
    by (rule nextEntries_map) (simp add: assms)
  moreover have "sum_by h (filter r xs) = sum_list (map (\<lambda>e. if r e then h e else 0) xs)"
    for h :: "'x \<Rightarrow> int" and r xs
    by (induction xs) auto
  ultimately show ?thesis by metis
qed

lemma netLiabilityBalance_nextEntries [simp]:
  "netLiabilityBalance (nextEntries t) m c L = netLiabilityBalance (tx_entries t) m c L"
  unfolding netLiabilityBalance_eq by (rule nextEntries_filter_sum) (simp_all add: net_effect_def)

lemma balanced_nextEntries [simp]: "balanced (nextEntries t) = balanced (tx_entries t)"
proof -
  have "sum_by entry_debitCents (nextEntries t) = sum_by entry_debitCents (tx_entries t)"
    "sum_by entry_creditCents (nextEntries t) = sum_by entry_creditCents (tx_entries t)"
    by (simp_all add: sum_by_eq nextEntries_map)
  moreover have "map (\<lambda>e. (entry_debitCents e, entry_creditCents e)) (nextEntries t)
    = map (\<lambda>e. (entry_debitCents e, entry_creditCents e)) (tx_entries t)"
    by (rule nextEntries_map) simp
  then have "list_all (\<lambda>(d, c). 0 \<le> d \<and> 0 \<le> c \<and> \<not> (0 < d \<and> 0 < c)) (map (\<lambda>e. (entry_debitCents e, entry_creditCents e)) (nextEntries t))
    = list_all (\<lambda>(d, c). 0 \<le> d \<and> 0 \<le> c \<and> \<not> (0 < d \<and> 0 < c)) (map (\<lambda>e. (entry_debitCents e, entry_creditCents e)) (tx_entries t))"
    by simp
  ultimately show ?thesis by (simp add: balanced_def list.pred_map comp_def)
qed

subsection \<open>Fingerprints and mirrors\<close>

lemma js_optional_simps [simp]: "sort_keys (js_optional s) = js_optional s" "array_safe (js_optional s)"
  "js_optional s = js_optional t \<longleftrightarrow> s = t"
  by (auto simp: js_optional_def split: option.splits)

lemma fingerprint_entry_safe [simp]: "array_safe (fingerprint_entry e)" "fingerprint_entry e \<noteq> JUndefined"
  by (simp_all add: fingerprint_entry_def)

lemma fingerprint_entry_inject:
  assumes "sort_keys (fingerprint_entry e) = sort_keys (fingerprint_entry f)"
  shows "e = f"
  using sort_keys_JObj_values [OF assms [unfolded fingerprint_entry_def]] by simp

lemma map_inject_on:
  assumes "map f xs = map f ys" "\<And>x y. f x = f y \<Longrightarrow> x = y"
  shows "xs = ys"
  using assms by (metis inj_map_eq_map injI)

lemma ledgerRequestFingerprint_inject:
  "ledgerRequestFingerprint t = ledgerRequestFingerprint u \<longleftrightarrow> same_payload t u"
proof
  assume eq: "ledgerRequestFingerprint t = ledgerRequestFingerprint u"
  define obj where "obj x = [(''firmId'', JStr (tx_firmId x)),
      (''entries'', JArr (map fingerprint_entry (tx_entries x))),
      (''reversesTransactionId'', js_optional (tx_reversesTransactionId x))]" for x :: LedgerTransaction
  have fp: "ledgerRequestFingerprint x = template_text (canonicalize (JObj (obj x)))" for x
    by (simp only: ledgerRequestFingerprint_def obj_def)
  have "array_safe (JObj (obj x))" for x
    by (simp add: obj_def list_all_iff)
  moreover have "canonicalize (JObj (obj t)) = canonicalize (JObj (obj u))"
    using eq by (simp add: fp template_text_def)
  ultimately have "sort_keys (JObj (obj t)) = sort_keys (JObj (obj u))"
    using canonicalize_inject by blast
  then have "map (\<lambda>kv. sort_keys (snd kv)) (obj t) = map (\<lambda>kv. sort_keys (snd kv)) (obj u)"
    by (rule sort_keys_JObj_values) (simp_all add: obj_def)
  then have "tx_firmId t = tx_firmId u" "tx_reversesTransactionId t = tx_reversesTransactionId u"
    and es: "map (\<lambda>e. sort_keys (fingerprint_entry e)) (tx_entries t) = map (\<lambda>e. sort_keys (fingerprint_entry e)) (tx_entries u)"
    by (simp_all add: obj_def comp_def)
  moreover have "tx_entries t = tx_entries u"
    by (rule map_inject_on [OF es]) (rule fingerprint_entry_inject)
  ultimately show "same_payload t u" by (simp add: same_payload_def)
qed (simp add: same_payload_def ledgerRequestFingerprint_def)

lemma sides_equal:
  "sort_keys (original_side x) = sort_keys (reversal_side r) \<longleftrightarrow>
     entry_accountId x = entry_accountId r \<and> entry_clientId x = entry_clientId r
     \<and> entry_matterId x = entry_matterId r
     \<and> entry_creditCents x = entry_debitCents r \<and> entry_debitCents x = entry_creditCents r"
proof
  assume "sort_keys (original_side x) = sort_keys (reversal_side r)"
  from sort_keys_JObj_values [OF this [unfolded original_side_def reversal_side_def]]
  show "entry_accountId x = entry_accountId r \<and> entry_clientId x = entry_clientId r
     \<and> entry_matterId x = entry_matterId r
     \<and> entry_creditCents x = entry_debitCents r \<and> entry_debitCents x = entry_creditCents r"
    by simp
qed (simp add: original_side_def reversal_side_def)

lemma mirrors_iff_canonical:
  "canonicalize (JArr (map original_side xs)) = canonicalize (JArr (map reversal_side rs)) \<longleftrightarrow> mirrors xs rs"
proof
  assume eq: "canonicalize (JArr (map original_side xs)) = canonicalize (JArr (map reversal_side rs))"
  have "sort_keys (JArr (map original_side xs)) = sort_keys (JArr (map reversal_side rs))"
    by (rule canonicalize_inject [OF eq]) (simp_all add: list_all_iff original_side_def reversal_side_def)
  then have "list_all2 (\<lambda>x r. sort_keys (original_side x) = sort_keys (reversal_side r)) xs rs"
    by (simp add: list_eq_iff_nth_eq list_all2_conv_all_nth comp_def)
  then show "mirrors xs rs" by (simp add: mirrors_def sides_equal)
next
  assume m: "mirrors xs rs"
  have "map original_side xs = map reversal_side rs"
    using m unfolding mirrors_def list_all2_conv_all_nth
    by (intro nth_equalityI) (auto simp: original_side_def reversal_side_def)
  then show "canonicalize (JArr (map original_side xs)) = canonicalize (JArr (map reversal_side rs))"
    by metis
qed

lemma validateReversal_ok:
  "validateReversal ts t = Inr u \<longleftrightarrow>
     (\<exists>x. List.find (\<lambda>p. posted_firmId p = tx_firmId t \<and> Some (posted_id p) = tx_reversesTransactionId t) ts = Some x
          \<and> mirrors (posted_entries x) (tx_entries t))"
  unfolding validateReversal_def mirrors_iff_canonical by (simp split: option.splits)

lemma mirrors_net:
  "mirrors xs rs \<Longrightarrow> netLiabilityBalance rs m c L = - netLiabilityBalance xs m c L"
  unfolding mirrors_def netLiabilityBalance_eq
  by (induction rule: list_all2_induct) (auto simp: net_effect_def)

lemma mirrors_balanced: "mirrors xs rs \<Longrightarrow> balanced xs = balanced rs"
proof -
  assume m: "mirrors xs rs"
  have "sum_by entry_debitCents xs = sum_by entry_creditCents rs"
    "sum_by entry_creditCents xs = sum_by entry_debitCents rs"
    using m unfolding mirrors_def by (induction rule: list_all2_induct) auto
  moreover have "list_all (\<lambda>e. 0 \<le> entry_debitCents e \<and> 0 \<le> entry_creditCents e
       \<and> \<not> (0 < entry_debitCents e \<and> 0 < entry_creditCents e)) xs \<longleftrightarrow>
     list_all (\<lambda>e. 0 \<le> entry_debitCents e \<and> 0 \<le> entry_creditCents e
       \<and> \<not> (0 < entry_debitCents e \<and> 0 < entry_creditCents e)) rs"
    using m unfolding mirrors_def by (induction rule: list_all2_induct) auto
  ultimately show ?thesis by (auto simp: balanced_def)
qed

lemma createReversal_mirrors:
  "mirrors (posted_entries p) (tx_entries (createReversalTransaction p i))"
  by (simp add: mirrors_def createReversalTransaction_def reversalEntry_def list_all2_conv_all_nth)

subsection \<open>What posting accepts\<close>

lemma posted_of_fields [simp]:
  "posted_id (posted_of t) = tx_id t" "posted_firmId (posted_of t) = tx_firmId t"
  "posted_idempotencyKey (posted_of t) = tx_idempotencyKey t"
  "posted_requestFingerprint (posted_of t) = effectiveFingerprint t"
  "posted_entries (posted_of t) = nextEntries t"
  "posted_reversesTransactionId (posted_of t) = tx_reversesTransactionId t"
  by (simp_all add: posted_of_def)

lemma all_entries_simps [simp]: "all_entries [] = []" "all_entries (p # ps) = posted_entries p @ all_entries ps"
  "all_entries (ps @ qs) = all_entries ps @ all_entries qs"
  by (simp_all add: all_entries_def)

lemma reversal_ok_iff:
  "reversal_ok ts t \<longleftrightarrow>
    (if truthy (tx_reversesTransactionId t) then validateReversal ts t else Inr ()) = Inr ()"
proof (cases "tx_reversesTransactionId t")
  case (Some i)
  have "(\<lambda>p. posted_firmId p = tx_firmId t \<and> Some (posted_id p) = tx_reversesTransactionId t)
      = (\<lambda>p. posted_firmId p = tx_firmId t \<and> posted_id p = i)" using Some by auto
  then show ?thesis using Some by (auto simp: reversal_ok_def validateReversal_ok split: option.splits)
qed (simp add: reversal_ok_def)

lemma checkEntryFunds_ok:
  "(\<forall>e \<in> set (nextEntries t). checkEntryFunds (state_accounts st)
       (all_entries (state_postedTransactions st)) (nextEntries t) e = Inr ()) \<longleftrightarrow>
   list_all (entry_allowed st t) (tx_entries t)"
proof -
  have one: "checkEntryFunds (state_accounts st) (all_entries (state_postedTransactions st)) (nextEntries t)
      (nextEntry t i e) = Inr () \<longleftrightarrow> entry_allowed st t e" for i e
    by (auto simp: checkEntryFunds_def entry_allowed_def not_less split: option.splits)
  show ?thesis
    by (simp add: list_all_length all_set_conv_all_nth nextEntries_nth one)
qed

lemma postLedgerTransaction_new:
  assumes "findDuplicate (state_postedTransactions st) t = None"
  shows "postLedgerTransaction st t = Inr p \<longleftrightarrow>
    balanced (tx_entries t) \<and> reversal_ok (state_postedTransactions st) t
    \<and> list_all (entry_allowed st t) (tx_entries t) \<and> p = posted_of t"
  unfolding postLedgerTransaction_def assms Let_def
  by (auto simp: bind_result_ok validateBalancedEntries_ok reversal_ok_iff for_each_ok
      checkEntryFunds_ok [symmetric] posted_of_def all_entries_def)

lemma postLedgerTransaction_duplicate:
  assumes "findDuplicate (state_postedTransactions st) t = Some d"
  shows "postLedgerTransaction st t =
    (if posted_requestFingerprint d = effectiveFingerprint t then Inr d
     else throw ''Idempotency key was reused with a different ledger payload'')"
  by (simp add: postLedgerTransaction_def assms)

text \<open>
  C17. \<open>postLedgerTransaction\<close> succeeds exactly when the idempotency key is already used with the same
  fingerprint (and then returns the stored transaction), or the key is new, the entries are balanced,
  a reversal mirrors the transaction it names, every account exists and no touched client matter
  balance becomes negative (and then returns the transaction with its numbered entries).
\<close>

theorem postLedgerTransaction_spec:
  "postLedgerTransaction st t = Inr p \<longleftrightarrow>
    (case findDuplicate (state_postedTransactions st) t of
       Some d \<Rightarrow> posted_requestFingerprint d = effectiveFingerprint t \<and> p = d
     | None \<Rightarrow> balanced (tx_entries t) \<and> reversal_ok (state_postedTransactions st) t
         \<and> list_all (entry_allowed st t) (tx_entries t) \<and> p = posted_of t)"
  by (auto simp: postLedgerTransaction_new postLedgerTransaction_duplicate split: option.splits)

lemma postLedgerTransaction_funds:
  assumes acc: "accounts_consistent (state_accounts st)"
    and funds: "funds_ok (state_accounts st) (all_entries (state_postedTransactions st))"
    and allowed: "list_all (entry_allowed st t) (tx_entries t)"
  shows "funds_ok (state_accounts st) (all_entries (state_postedTransactions st) @ nextEntries t)"
  unfolding funds_ok_iff
proof (intro allI)
  fix m c
  let ?L = "liabilityAccountIds (state_accounts st)"
  let ?old = "netLiabilityBalance (all_entries (state_postedTransactions st)) m c ?L"
  have old: "0 \<le> ?old" using funds by (simp add: funds_ok_iff)
  show "0 \<le> netLiabilityBalance (all_entries (state_postedTransactions st) @ nextEntries t) m c ?L"
  proof (cases "\<exists>e \<in> set (tx_entries t). entry_matterId e = m \<and> entry_clientId e = c \<and> entry_accountId e \<in> set ?L")
    case True
    then obtain e where e: "e \<in> set (tx_entries t)" "entry_matterId e = m" "entry_clientId e = c"
      "entry_accountId e \<in> set ?L" by blast
    then have "entry_allowed st t e" using allowed by (simp add: list_all_iff)
    then obtain a where "List.find (\<lambda>a. acct_id a = entry_accountId e) (state_accounts st) = Some a"
      and imp: "acct_type a = client_liability \<longrightarrow> 0 \<le> ?old + netLiabilityBalance (tx_entries t) m c ?L"
      using e by (auto simp: entry_allowed_def split: option.splits)
    then have "acct_type a = client_liability" using liability_account_found [OF acc] e(4) by blast
    then show ?thesis using imp by simp
  next
    case False
    then have "netLiabilityBalance (tx_entries t) m c ?L = 0"
      by (intro netLiabilityBalance_untouched) blast
    then show ?thesis using old by simp
  qed
qed

text \<open>
  C1. Posting never overdraws trust: when no client matter balance is negative before, none is
  negative after the returned transaction is added to the posted ones, for every matter and client.
\<close>

theorem postLedgerTransaction_never_overdraws:
  assumes "accounts_consistent (state_accounts st)"
    and "funds_ok (state_accounts st) (all_entries (state_postedTransactions st))"
    and "postLedgerTransaction st t = Inr p"
    and "findDuplicate (state_postedTransactions st) t = None"
  shows "0 \<le> netLiabilityBalance (all_entries (state_postedTransactions st @ [p])) matter client
              (liabilityAccountIds (state_accounts st))"
proof -
  have "p = posted_of t" "list_all (entry_allowed st t) (tx_entries t)"
    using assms(3) by (simp_all add: postLedgerTransaction_new [OF assms(4)])
  then show ?thesis using postLedgerTransaction_funds [OF assms(1,2)] by (simp add: funds_ok_iff)
qed

text \<open>
  Posting is idempotent on its key: once a transaction is stored, posting any request with that
  key returns the stored transaction without change when firm, entries and reversal reference agree,
  and throws otherwise (neither request carrying a fingerprint of its own).
\<close>

theorem postLedgerTransaction_idempotent:
  assumes "findDuplicate (state_postedTransactions st) t = None"
    and "postLedgerTransaction st t = Inr p"
    and "tx_requestFingerprint t = None" and "tx_requestFingerprint u = None"
    and "tx_firmId u = tx_firmId t" and "tx_idempotencyKey u = tx_idempotencyKey t"
  shows "postLedgerTransaction (st\<lparr>state_postedTransactions := state_postedTransactions st @ [p]\<rparr>) u =
    (if same_payload t u then Inr p
     else throw ''Idempotency key was reused with a different ledger payload'')"
proof -
  let ?st = "st\<lparr>state_postedTransactions := state_postedTransactions st @ [p]\<rparr>"
  have p: "p = posted_of t" using assms(1,2) by (simp add: postLedgerTransaction_new)
  have "findDuplicate (state_postedTransactions ?st) u = Some p"
    using assms(1) p by (simp add: findDuplicate_def find_append assms(5,6))
  then show ?thesis
    by (simp add: postLedgerTransaction_duplicate p effectiveFingerprint_def assms(3,4)
        ledgerRequestFingerprint_inject)
qed

text \<open>
  C18. The request fingerprint is exact: two requests have the same fingerprint if and only if they
  have the same firm, the same entries in the same order (amounts, ids, memo and reversing reference)
  and the same reversal reference. No crafted id or memo makes two payloads collide.
\<close>

theorem ledgerRequestFingerprint_exact:
  "ledgerRequestFingerprint t = ledgerRequestFingerprint u \<longleftrightarrow> same_payload t u"
  by (rule ledgerRequestFingerprint_inject)

subsection \<open>Reversals\<close>

text \<open>
  C19. A reversal built by \<open>createReversalTransaction\<close> undoes its original: when the ledger without
  the original overdraws nobody and the accounts still exist, it is accepted under a fresh key, and
  afterwards every client matter balance is what it would be had the original never been posted.
\<close>

theorem createReversalTransaction_undoes:
  assumes posted: "state_postedTransactions st = before @ p # later"
    and first: "list_all (\<lambda>x. \<not> (posted_firmId x = posted_firmId p \<and> posted_id x = posted_id p)) before"
    and "posted_id p \<noteq> []" and "balanced (posted_entries p)"
    and known: "list_all (\<lambda>e. entry_accountId e \<in> set (map acct_id (state_accounts st))) (posted_entries p)"
    and funds: "funds_ok (state_accounts st) (all_entries (before @ later))"
    and fresh: "findDuplicate (state_postedTransactions st) (createReversalTransaction p i) = None"
  shows "\<exists>q. postLedgerTransaction st (createReversalTransaction p i) = Inr q \<and>
     (\<forall>m c. netLiabilityBalance (all_entries (state_postedTransactions st @ [q])) m c
              (liabilityAccountIds (state_accounts st)) =
            netLiabilityBalance (all_entries (before @ later)) m c (liabilityAccountIds (state_accounts st)))"
proof -
  let ?t = "createReversalTransaction p i" and ?L = "liabilityAccountIds (state_accounts st)"
  have mir: "mirrors (posted_entries p) (tx_entries ?t)" by (rule createReversal_mirrors)
  have net: "netLiabilityBalance (tx_entries ?t) m c ?L = - netLiabilityBalance (posted_entries p) m c ?L" for m c
    by (rule mirrors_net [OF mir])
  have "List.find (\<lambda>x. posted_firmId x = posted_firmId p \<and> posted_id x = posted_id p)
      (state_postedTransactions st) = Some p"
    using first by (auto simp: posted find_append list_all_iff find_None_all split: option.splits dest!: find_Some_mem)
  then have "reversal_ok (state_postedTransactions st) ?t"
    using mir by (simp add: reversal_ok_def) (simp add: createReversalTransaction_def)
  moreover have "balanced (tx_entries ?t)" using mirrors_balanced [OF mir] assms(4) by simp
  moreover have "entry_allowed st ?t e" if e: "e \<in> set (tx_entries ?t)" for e
  proof -
    have "entry_accountId e \<in> set (map acct_id (state_accounts st))"
      using e known by (auto simp: createReversalTransaction_def reversalEntry_def list_all_iff)
    then obtain a where "List.find (\<lambda>a. acct_id a = entry_accountId e) (state_accounts st) = Some a"
      by (cases "List.find (\<lambda>a. acct_id a = entry_accountId e) (state_accounts st)") (auto simp: find_None_all)
    then show ?thesis
      using funds by (simp add: entry_allowed_def net posted funds_ok_iff)
  qed
  ultimately have "postLedgerTransaction st ?t = Inr (posted_of ?t)"
    using fresh by (simp add: postLedgerTransaction_new list_all_iff)
  moreover have "netLiabilityBalance (all_entries (state_postedTransactions st @ [posted_of ?t])) m c ?L =
      netLiabilityBalance (all_entries (before @ later)) m c ?L" for m c
    by (simp add: posted net)
  ultimately show ?thesis by blast
qed

subsection \<open>Projections\<close>

lemma balance_fold:
  "map_get (foldl addToBalance bal es) k =
    (if k \<in> set (map balanceKey es) \<or> map_get bal k \<noteq> None
     then Some (or_else (map_get bal k) 0 + sum_by net_effect (filter (\<lambda>e. balanceKey e = k) es)) else None)"
proof (induction es arbitrary: bal)
  case Nil
  then show ?case by (cases "map_get bal k") auto
next
  case (Cons e es)
  show ?case
    by (simp add: Cons.IH) (auto simp: addToBalance_def net_effect_def)
qed

lemma balance_fold_total:
  "sum_by snd (foldl addToBalance bal es) = sum_by snd bal + sum_by net_effect es"
proof (induction es arbitrary: bal)
  case (Cons e es)
  have put: "sum_by snd (map_put m k v) = sum_by snd m - or_else (map_get m k) 0 + v" for m :: "(string \<times> int) list" and k v
    by (induction m) auto
  have "sum_by snd (addToBalance bal e) = sum_by snd bal + net_effect e"
    by (simp add: addToBalance_def put net_effect_def)
  then show ?case by (simp add: Cons.IH)
qed simp

lemma sum_net_effect: "sum_by net_effect es = sum_by entry_creditCents es - sum_by entry_debitCents es"
  by (induction es) (auto simp: net_effect_def)

lemma balanceKey_inject:
  assumes "CHR '':'' \<notin> set (entry_clientId e)" "CHR '':'' \<notin> set c"
  shows "balanceKey e = c @ '':'' @ m \<longleftrightarrow> entry_clientId e = c \<and> entry_matterId e = m"
  using append_sep_inject [OF assms, of "entry_matterId e" m] by (auto simp: balanceKey_def)

text \<open>
  \<open>clientTrustBalanceByMatter\<close> reports the balance the overdraft check computes: for client ids
  without a colon, the entry under \<open>client:matter\<close> is the net liability balance of that client on
  that matter, and it is absent only where there is no liability entry (balance zero).
\<close>

theorem clientTrustBalanceByMatter_lookup:
  assumes "list_all (\<lambda>e. CHR '':'' \<notin> set (entry_clientId e)) entries" and "CHR '':'' \<notin> set client"
  shows "or_else (map_get (clientTrustBalanceByMatter entries accounts) (client @ '':'' @ matter)) 0 =
    netLiabilityBalance entries matter client (liabilityAccountIds accounts)"
proof -
  let ?es = "filter (\<lambda>e. entry_accountId e \<in> set (liabilityAccountIds accounts)) entries"
  let ?k = "client @ '':'' @ matter"
  have key: "e \<in> set ?es \<Longrightarrow> (balanceKey e = ?k) = (entry_clientId e = client \<and> entry_matterId e = matter)" for e
    using assms balanceKey_inject [of e client matter] by (auto simp: list_all_iff)
  have "or_else (map_get (clientTrustBalanceByMatter entries accounts) ?k) 0 =
      sum_by net_effect (filter (\<lambda>e. balanceKey e = ?k) ?es)"
  proof (cases "?k \<in> set (map balanceKey ?es)")
    case False
    then have "filter (\<lambda>e. balanceKey e = ?k) ?es = []" by (auto simp: filter_empty_conv image_iff)
    then show ?thesis using False by (simp only: clientTrustBalanceByMatter_def balance_fold) simp
  qed (simp only: clientTrustBalanceByMatter_def balance_fold, simp)
  also have "filter (\<lambda>e. balanceKey e = ?k) ?es =
      filter (\<lambda>e. entry_clientId e = client \<and> entry_matterId e = matter) ?es"
    by (rule filter_cong) (use key in auto)
  also have "sum_by net_effect \<dots> = netLiabilityBalance entries matter client (liabilityAccountIds accounts)"
    by (simp add: netLiabilityBalance_eq conj_ac)
  finally show ?thesis .
qed

text \<open>
  Debits equal credits over the whole ledger: the balances \<open>ledgerBalanceByMatter\<close> reports add
  up to zero over any list of balanced transactions.
\<close>

theorem ledgerBalanceByMatter_sums_to_zero:
  assumes "list_all (\<lambda>p. balanced (posted_entries p)) posted"
  shows "sum_by snd (ledgerBalanceByMatter (all_entries posted)) = 0"
proof -
  have "sum_by net_effect (all_entries posted) = 0"
    using assms by (induction posted) (auto simp: balanced_def sum_net_effect)
  then show ?thesis by (simp add: ledgerBalanceByMatter_def balance_fold_total)
qed

definition entry_triple :: "'a LedgerEntryInput_scheme \<Rightarrow> string \<times> string \<times> string" where
  "entry_triple e = (entry_firmId e, entry_matterId e, entry_clientId e)"

definition no_colon :: "'a LedgerEntryInput_scheme \<Rightarrow> bool" where
  "no_colon e = (CHR '':'' \<notin> set (entry_firmId e) \<and> CHR '':'' \<notin> set (entry_matterId e))"

definition triple_net :: "'a LedgerEntryInput_scheme list \<Rightarrow> string \<times> string \<times> string \<Rightarrow> int" where
  "triple_net es k = sum_by net_effect (filter (\<lambda>e. entry_triple e = k) es)"

definition delta_of :: "'a LedgerEntryInput_scheme list \<Rightarrow> 'a LedgerEntryInput_scheme \<Rightarrow> ClientTrustBalanceDelta" where
  "delta_of es e = \<lparr>delta_firmId = entry_firmId e, delta_matterId = entry_matterId e,
     delta_clientId = entry_clientId e, delta_cents = triple_net es (entry_triple e)\<rparr>"

lemma entry_triple_key: "entry_triple e = entry_triple f \<Longrightarrow> deltaKey e = deltaKey f"
  by (simp add: deltaKey_def entry_triple_def)

lemma deltaKey_inject:
  assumes "no_colon e" "no_colon f"
  shows "deltaKey e = deltaKey f \<longleftrightarrow> entry_triple e = entry_triple f"
proof
  assume "deltaKey e = deltaKey f"
  then have "entry_firmId e = entry_firmId f"
    and rest: "entry_matterId e @ CHR '':'' # entry_clientId e = entry_matterId f @ CHR '':'' # entry_clientId f"
    using assms append_sep_inject [of "CHR '':''" "entry_firmId e" "entry_firmId f"]
    by (auto simp: deltaKey_def no_colon_def)
  then show "entry_triple e = entry_triple f"
    using append_sep_inject [OF _ _ rest] assms by (auto simp: no_colon_def entry_triple_def)
qed (rule entry_triple_key)

lemma delta_fold_keys: "distinct (map fst m) \<Longrightarrow> distinct (map fst (foldl addDelta m es))"
  by (induction es arbitrary: m) (auto simp: addDelta_def Let_def distinct_keys_map_put)

lemma triple_net_snoc:
  "triple_net (es @ [e]) k = triple_net es k + (if entry_triple e = k then net_effect e else 0)"
  by (simp add: triple_net_def)

lemma delta_fold_get:
  assumes "list_all no_colon es"
  shows "map_get (foldl addDelta [] es) k = map_option (delta_of es) (List.find (\<lambda>e. deltaKey e = k) es)"
  using assms
proof (induction es rule: rev_induct)
  case (snoc e es)
  show ?case
  proof (cases "List.find (\<lambda>x. deltaKey x = deltaKey e) es")
    case None
    then have fresh: "deltaKey x \<noteq> deltaKey e" if "x \<in> set es" for x using that by (auto simp: find_None_all)
    then have "filter (\<lambda>x. entry_triple x = entry_triple e) es = []"
      using entry_triple_key by (auto simp: filter_empty_conv)
    then have "triple_net es (entry_triple e) = 0" by (simp add: triple_net_def)
    moreover have "entry_triple g \<noteq> entry_triple e" if "List.find (\<lambda>x. deltaKey x = k) es = Some g" for g
      using find_Some_mem [OF that] fresh entry_triple_key by blast
    ultimately show ?thesis
      using snoc None
      by (auto simp: addDelta_def Let_def find_append triple_net_snoc delta_of_def net_effect_def split: option.splits)
  next
    case (Some f)
    then have "f \<in> set es" "deltaKey f = deltaKey e" by (auto dest: find_Some_mem)
    then have t: "entry_triple f = entry_triple e" using snoc.prems by (auto simp: list_all_iff deltaKey_inject)
    have other: "entry_triple g \<noteq> entry_triple e" if "List.find (\<lambda>x. deltaKey x = k) es = Some g" "k \<noteq> deltaKey e" for g
      using find_Some_mem [OF that(1)] that(2) entry_triple_key by blast
    show ?thesis
      using snoc Some t other
      by (auto simp: addDelta_def Let_def find_append triple_net_snoc delta_of_def net_effect_def split: option.splits)
  qed
qed simp

lemma triple_net_find:
  assumes "triple_net es k \<noteq> 0"
  shows "\<exists>e \<in> set es. entry_triple e = k"
proof (rule ccontr)
  assume "\<not> ?thesis"
  then have "filter (\<lambda>e. entry_triple e = k) es = []" by (auto simp: filter_empty_conv)
  then show False using assms by (simp add: triple_net_def)
qed

lemma clientTrustBalanceDeltas_fold:
  "clientTrustBalanceDeltas entries accounts =
     filter (\<lambda>d. delta_cents d \<noteq> 0) (map snd (foldl addDelta []
       (filter (\<lambda>e. entry_accountId e \<in> set (liabilityAccountIds accounts)) entries)))"
proof -
  have "foldl (\<lambda>deltas e. if entry_accountId e \<notin> set L then deltas else addDelta deltas e) m es =
      foldl addDelta m (filter (\<lambda>e. entry_accountId e \<in> set L) es)" for L m and es :: "'a LedgerEntryInput_scheme list"
    by (induction es arbitrary: m) auto
  then show ?thesis by (simp add: clientTrustBalanceDeltas_def)
qed

text \<open>
  \<open>clientTrustBalanceDeltas\<close> lists exactly the non-zero changes: for firm and matter ids without
  a colon, a delta is in the list if and only if its cents are non-zero and are the sum of credits
  minus debits of the liability entries of its firm, matter and client.
\<close>

theorem clientTrustBalanceDeltas_exact:
  assumes "list_all no_colon entries"
  shows "d \<in> set (clientTrustBalanceDeltas entries accounts) \<longleftrightarrow>
    delta_cents d \<noteq> 0 \<and> delta_cents d =
      triple_net (filter (\<lambda>e. entry_accountId e \<in> set (liabilityAccountIds accounts)) entries)
        (delta_firmId d, delta_matterId d, delta_clientId d)"
proof -
  let ?es = "filter (\<lambda>e. entry_accountId e \<in> set (liabilityAccountIds accounts)) entries"
  let ?m = "foldl addDelta [] ?es"
  have nc: "list_all no_colon ?es" using assms by (auto simp: list_all_iff)
  have dist: "distinct (map fst ?m)" by (rule delta_fold_keys) simp
  have mem: "d \<in> snd ` set ?m \<longleftrightarrow> (\<exists>e \<in> set ?es. d = delta_of ?es e)"
  proof
    assume "d \<in> snd ` set ?m"
    then obtain k where "map_get ?m k = Some d" using map_get_distinct [OF dist] by force
    then obtain z where "List.find (\<lambda>e. deltaKey e = k) ?es = Some z" "d = delta_of ?es z"
      unfolding delta_fold_get [OF nc] by auto
    then show "\<exists>e \<in> set ?es. d = delta_of ?es e" using find_Some_mem by fast
  next
    assume "\<exists>e \<in> set ?es. d = delta_of ?es e"
    then obtain e where e: "e \<in> set ?es" "d = delta_of ?es e" by blast
    then obtain f where f: "List.find (\<lambda>x. deltaKey x = deltaKey e) ?es = Some f"
      by (cases "List.find (\<lambda>x. deltaKey x = deltaKey e) ?es") (auto simp: find_None_all)
    then have "entry_triple f = entry_triple e"
      using find_Some_mem [OF f] e nc deltaKey_inject [of f e] by (simp add: list_all_iff)
    then have "delta_of ?es f = d" by (simp add: e delta_of_def entry_triple_def)
    then have "map_get ?m (deltaKey e) = Some d" unfolding delta_fold_get [OF nc] f by simp
    then show "d \<in> snd ` set ?m" using map_get_mem by force
  qed
  have "(\<exists>e \<in> set ?es. d = delta_of ?es e) \<longleftrightarrow>
      delta_cents d = triple_net ?es (delta_firmId d, delta_matterId d, delta_clientId d)" if "delta_cents d \<noteq> 0"
  proof
    assume net: "delta_cents d = triple_net ?es (delta_firmId d, delta_matterId d, delta_clientId d)"
    then have "triple_net ?es (delta_firmId d, delta_matterId d, delta_clientId d) \<noteq> 0" using that by simp
    from triple_net_find [OF this] obtain e where
      e: "e \<in> set ?es" "entry_triple e = (delta_firmId d, delta_matterId d, delta_clientId d)" by blast
    then have "d = delta_of ?es e" using net by (simp add: delta_of_def entry_triple_def)
    then show "\<exists>e \<in> set ?es. d = delta_of ?es e" using e(1) by blast
  qed (auto simp: delta_of_def entry_triple_def)
  then show ?thesis using mem by (auto simp: clientTrustBalanceDeltas_fold)
qed

subsection \<open>A worked ledger\<close>

text \<open>
  One firm with a trust asset and a client liability account, a deposit of 500 cents, and a
  payment of 300 cents out of it.
\<close>

definition ex_accounts :: "LedgerAccount list" where
  "ex_accounts =
     [\<lparr>acct_id = ''trust'', acct_firmId = ''f'', acct_name = ''Trust'', acct_type = trust_asset\<rparr>,
      \<lparr>acct_id = ''liab'', acct_firmId = ''f'', acct_name = ''Liability'', acct_type = client_liability\<rparr>]"

definition ex_entry :: "string \<Rightarrow> int \<Rightarrow> int \<Rightarrow> LedgerEntryInput" where
  "ex_entry account debit credit =
     \<lparr>entry_firmId = ''f'', entry_matterId = ''m'', entry_clientId = ''c'', entry_accountId = account,
      entry_debitCents = debit, entry_creditCents = credit, entry_memo = ''x'',
      entry_reversingTransactionId = None\<rparr>"

definition ex_transaction :: "string \<Rightarrow> string \<Rightarrow> LedgerEntryInput list \<Rightarrow> LedgerTransaction" where
  "ex_transaction i key entries =
     \<lparr>tx_id = i, tx_firmId = ''f'', tx_idempotencyKey = key, tx_requestFingerprint = None,
      tx_postedByUserId = ''u'', tx_postedAt = ''2026-01-01'', tx_entries = entries,
      tx_reversesTransactionId = None\<rparr>"

definition ex_deposit :: LedgerTransaction where
  "ex_deposit = ex_transaction ''t1'' ''k1'' [ex_entry ''trust'' 500 0, ex_entry ''liab'' 0 500]"

definition ex_payment :: LedgerTransaction where
  "ex_payment = ex_transaction ''t2'' ''k2'' [ex_entry ''liab'' 300 0, ex_entry ''trust'' 0 300]"

definition ex_state :: LedgerPostingState where
  "ex_state = \<lparr>state_postedTransactions = [posted_of ex_deposit], state_accounts = ex_accounts\<rparr>"

lemmas ex_ledger_defs = ex_state_def ex_deposit_def ex_payment_def ex_transaction_def ex_accounts_def ex_entry_def

lemma ex_liabilityAccountIds [simp]: "liabilityAccountIds ex_accounts = [''liab'']"
  by (simp add: liabilityAccountIds_def ex_accounts_def js_set_def set_add_def)

lemma ex_state_fields [simp]: "state_accounts ex_state = ex_accounts"
  "state_postedTransactions ex_state = [posted_of ex_deposit]"
  by (simp_all add: ex_state_def)

lemma ex_deposit_balance: "netLiabilityBalance (tx_entries ex_deposit) m c [''liab''] = (if m = ''m'' \<and> c = ''c'' then 500 else 0)"
  by (simp add: netLiabilityBalance_eq ex_deposit_def ex_transaction_def ex_entry_def net_effect_def)

lemma ex_payment_balance: "netLiabilityBalance (tx_entries ex_payment) m c [''liab''] = (if m = ''m'' \<and> c = ''c'' then -300 else 0)"
  by (simp add: netLiabilityBalance_eq ex_payment_def ex_transaction_def ex_entry_def net_effect_def)

lemma ex_accounts_consistent: "accounts_consistent ex_accounts"
  by (simp add: accounts_consistent_def ex_accounts_def)

lemma ex_funds: "funds_ok ex_accounts (nextEntries ex_deposit)"
  by (simp add: funds_ok_iff ex_deposit_balance)

lemma ex_fresh: "findDuplicate [posted_of ex_deposit] ex_payment = None"
  by (simp add: findDuplicate_def ex_deposit_def ex_payment_def ex_transaction_def)

lemma ex_balanced: "balanced (tx_entries ex_payment)" "balanced (tx_entries ex_deposit)"
  by (simp_all add: balanced_def ex_payment_def ex_deposit_def ex_transaction_def ex_entry_def)

lemma ex_entry_allowed:
  assumes "tx_entries t = tx_entries ex_payment"
  shows "list_all (entry_allowed ex_state t) (tx_entries ex_payment)"
proof -
  have "entry_allowed ex_state t (ex_entry a d k)" if "a \<in> {''trust'', ''liab''}" for a d k
  proof -
    have "List.find (\<lambda>x. acct_id x = a) ex_accounts \<noteq> None" using that by (auto simp: ex_accounts_def)
    then show ?thesis
      by (auto simp: entry_allowed_def ex_deposit_balance ex_payment_balance ex_entry_def assms)
  qed
  then show ?thesis
    by (simp add: ex_payment_def [THEN arg_cong [where f = tx_entries]] ex_transaction_def)
qed

lemma ex_payment_posts: "postLedgerTransaction ex_state ex_payment = Inr (posted_of ex_payment)"
proof -
  have "reversal_ok [posted_of ex_deposit] ex_payment"
    by (simp add: reversal_ok_def ex_payment_def ex_transaction_def)
  then show ?thesis by (simp add: postLedgerTransaction_new ex_fresh ex_balanced ex_entry_allowed)
qed

theorem postLedgerTransaction_never_overdraws_witness:
  "0 \<le> netLiabilityBalance (all_entries [posted_of ex_deposit, posted_of ex_payment]) ''m'' ''c'' [''liab'']"
  using postLedgerTransaction_never_overdraws [of ex_state ex_payment "posted_of ex_payment" "''m''" "''c''"]
  by (simp add: ex_accounts_consistent ex_funds ex_payment_posts ex_fresh)

theorem postLedgerTransaction_idempotent_witness:
  "postLedgerTransaction \<lparr>state_postedTransactions = [posted_of ex_deposit, posted_of ex_payment], state_accounts = ex_accounts\<rparr>
     (ex_payment\<lparr>tx_id := ''t9''\<rparr>) = Inr (posted_of ex_payment)"
  using postLedgerTransaction_idempotent [of ex_state ex_payment "posted_of ex_payment" "ex_payment\<lparr>tx_id := ''t9''\<rparr>"]
  by (simp add: ex_fresh ex_payment_posts same_payload_def)
    (simp add: ex_state_def ex_payment_def ex_transaction_def)

definition ex_reversal :: ReversalInput where
  "ex_reversal = \<lparr>rev_id = ''t3'', rev_idempotencyKey = ''k3'', rev_postedByUserId = ''u'',
     rev_postedAt = ''2026-01-02'', rev_memoPrefix = None\<rparr>"

theorem createReversalTransaction_undoes_witness:
  "\<exists>q. postLedgerTransaction \<lparr>state_postedTransactions = [posted_of ex_deposit, posted_of ex_payment], state_accounts = ex_accounts\<rparr>
        (createReversalTransaction (posted_of ex_payment) ex_reversal) = Inr q \<and>
     netLiabilityBalance (all_entries [posted_of ex_deposit, posted_of ex_payment, q]) ''m'' ''c'' [''liab''] = 500"
proof -
  let ?st = "\<lparr>state_postedTransactions = [posted_of ex_deposit, posted_of ex_payment], state_accounts = ex_accounts\<rparr>"
  have known: "list_all (\<lambda>e. entry_accountId e \<in> acct_id ` set ex_accounts) (nextEntries ex_payment)"
    by (simp add: nextEntries_def list_all_iff ex_ledger_defs)
  have "list_all (\<lambda>x. \<not> (posted_firmId x = posted_firmId (posted_of ex_payment)
       \<and> posted_id x = posted_id (posted_of ex_payment))) [posted_of ex_deposit]" "tx_id ex_payment \<noteq> []"
    "findDuplicate [posted_of ex_deposit, posted_of ex_payment] (createReversalTransaction (posted_of ex_payment) ex_reversal) = None"
    by (simp_all add: ex_ledger_defs findDuplicate_def createReversalTransaction_def ex_reversal_def)
  then show ?thesis
    using createReversalTransaction_undoes [of ?st "[posted_of ex_deposit]" "posted_of ex_payment" "[]" ex_reversal]
    by (auto simp: ex_balanced known ex_funds ex_deposit_balance)
qed

theorem clientTrustBalanceByMatter_lookup_witness:
  "or_else (map_get (clientTrustBalanceByMatter (tx_entries ex_deposit) ex_accounts) ''c:m'') 0 = 500"
  using clientTrustBalanceByMatter_lookup [of "tx_entries ex_deposit" "''c''" ex_accounts "''m''"]
  by (simp add: ex_deposit_balance) (simp add: ex_deposit_def ex_transaction_def ex_entry_def)

theorem ledgerBalanceByMatter_sums_to_zero_witness:
  "sum_by snd (ledgerBalanceByMatter (all_entries [posted_of ex_deposit, posted_of ex_payment])) = 0"
  using ledgerBalanceByMatter_sums_to_zero [of "[posted_of ex_deposit, posted_of ex_payment]"] by (simp add: ex_balanced)

theorem clientTrustBalanceDeltas_exact_witness:
  "\<lparr>delta_firmId = ''f'', delta_matterId = ''m'', delta_clientId = ''c'', delta_cents = -300\<rparr>
     \<in> set (clientTrustBalanceDeltas (tx_entries ex_payment) ex_accounts)"
proof -
  have "list_all no_colon (tx_entries ex_payment)"
    by (simp add: ex_payment_def ex_transaction_def ex_entry_def no_colon_def)
  then show ?thesis
    by (subst clientTrustBalanceDeltas_exact)
      (simp_all add: triple_net_def entry_triple_def net_effect_def ex_payment_def ex_transaction_def ex_entry_def)
qed

end
