(* ===== verification/Posting_Request.thy ===== *)
theory Posting_Request
  imports Ledger
begin

section \<open>Maker-checker posting requests\<close>

text \<open>
  The posting request of packages/domain/src/ledger.ts: a transaction one user prepares and another
  approves. \<open>ledgerPostingRequestFromTransaction\<close> builds the record, \<open>validateLedgerPostingRequestRecord\<close>
  is the check every store runs before it keeps one, \<open>ledgerTransactionFromPostingRequest\<close> gives the
  transaction to post. The run-time check that the status is one of the three values is discharged by
  the type.
\<close>

subsection \<open>Data\<close>

datatype LedgerPostingRequestStatus = Posting_pending_approval | Posting_posted | Posting_rejected

record LedgerPostingRequestRecord =
  preq_id :: string
  preq_firmId :: string
  preq_transactionId :: string
  preq_idempotencyKey :: string
  preq_requestFingerprint :: string
  preq_status :: LedgerPostingRequestStatus
  preq_proposedPostedAt :: string
  preq_entries :: "LedgerEntryInput list"
  preq_matterIds :: "string list"
  preq_clientIds :: "string list"
  preq_accountIds :: "string list"
  preq_reversesTransactionId :: "string option"
  preq_preparedByUserId :: string
  preq_preparedAt :: string
  preq_preparationNotes :: "string option"
  preq_reviewedByUserId :: "string option"
  preq_reviewedAt :: "string option"
  preq_reviewNotes :: "string option"
  preq_rejectionReason :: "string option"
  preq_ledgerTransactionId :: "string option"

record LedgerPostingRequestReviewSummary =
  psum_pendingApprovalCount :: int
  psum_postedCount :: int
  psum_rejectedCount :: int
  psum_totalCount :: int

record PostingRequestInput =
  pin_id :: string
  pin_preparedByUserId :: string
  pin_preparedAt :: string
  pin_transaction :: LedgerTransaction
  pin_status :: "LedgerPostingRequestStatus option"
  pin_reviewedByUserId :: "string option"
  pin_reviewedAt :: "string option"
  pin_preparationNotes :: "string option"
  pin_reviewNotes :: "string option"
  pin_rejectionReason :: "string option"
  pin_ledgerTransactionId :: "string option"

subsection \<open>Operations\<close>

definition uniqueInOrder :: "string list \<Rightarrow> string list" where
  "uniqueInOrder values = js_set values"

definition ledgerTransactionFromPostingRequest ::
  "LedgerPostingRequestRecord \<Rightarrow> string \<Rightarrow> string option \<Rightarrow> LedgerTransaction" where
  "ledgerTransactionFromPostingRequest request postedByUserId postedAt =
     \<lparr>tx_id = preq_transactionId request, tx_firmId = preq_firmId request,
      tx_idempotencyKey = preq_idempotencyKey request,
      tx_requestFingerprint = Some (preq_requestFingerprint request),
      tx_postedByUserId = postedByUserId,
      tx_postedAt = or_else postedAt (preq_proposedPostedAt request),
      tx_entries = preq_entries request,
      tx_reversesTransactionId = preq_reversesTransactionId request\<rparr>"

definition newline :: string where
  "newline = [CHR 0x0A]"

definition validatePostingStatus :: "LedgerPostingRequestRecord \<Rightarrow> unit result" where
  "validatePostingStatus request =
     (case preq_status request of
        Posting_pending_approval \<Rightarrow>
          throw_if (truthy (preq_reviewedByUserId request) \<or> truthy (preq_reviewedAt request)
                    \<or> truthy (preq_ledgerTransactionId request))
            ''Pending ledger posting requests cannot include reviewer or posting fields''
      | Posting_posted \<Rightarrow>
          throw_if (\<not> truthy (preq_reviewedByUserId request) \<or> \<not> truthy (preq_reviewedAt request)
                    \<or> \<not> truthy (preq_ledgerTransactionId request))
            ''Posted ledger posting requests require reviewer and ledger transaction''
      | Posting_rejected \<Rightarrow> run_checks
          [throw_if (\<not> truthy (preq_reviewedByUserId request) \<or> \<not> truthy (preq_reviewedAt request))
             ''Rejected ledger posting requests require reviewer fields'',
           throw_if (trim (or_else (preq_rejectionReason request) []) = [])
             ''Rejected ledger posting requests require a rejection reason'',
           throw_if (truthy (preq_ledgerTransactionId request))
             ''Rejected ledger posting requests cannot include a ledger transaction''])"

definition validateLedgerPostingRequestRecord :: "LedgerPostingRequestRecord \<Rightarrow> unit result" where
  "validateLedgerPostingRequestRecord request = run_checks
     [throw_if (trim (preq_id request) = []) ''Ledger posting request id is required'',
      throw_if (trim (preq_firmId request) = []) ''Ledger posting request firm is required'',
      throw_if (trim (preq_transactionId request) = []) ''Ledger posting request transaction id is required'',
      throw_if (trim (preq_idempotencyKey request) = []) ''Ledger posting request idempotency key is required'',
      throw_if (trim (preq_preparedByUserId request) = []) ''Ledger posting request preparer is required'',
      throw_if (preq_entries request = []) ''Ledger posting request entries are required'',
      validateBalancedEntries (preq_entries request),
      throw_if (ledgerRequestFingerprint
          (ledgerTransactionFromPostingRequest request (preq_preparedByUserId request)
             (Some (preq_proposedPostedAt request))) \<noteq> preq_requestFingerprint request)
        ''Ledger posting request fingerprint does not match proposed transaction'',
      throw_if (join newline (uniqueInOrder (map entry_matterId (preq_entries request)))
                \<noteq> join newline (preq_matterIds request))
        ''Ledger posting request matter ids do not match proposed entries'',
      throw_if (join newline (uniqueInOrder (map entry_clientId (preq_entries request)))
                \<noteq> join newline (preq_clientIds request))
        ''Ledger posting request client ids do not match proposed entries'',
      throw_if (join newline (uniqueInOrder (map entry_accountId (preq_entries request)))
                \<noteq> join newline (preq_accountIds request))
        ''Ledger posting request account ids do not match proposed entries'',
      throw_if (truthy (preq_reviewedByUserId request)
                \<and> preq_reviewedByUserId request = Some (preq_preparedByUserId request))
        ''Ledger posting request requires checker approval by a different user'',
      validatePostingStatus request]"

definition ledgerPostingRequestFromTransaction ::
  "PostingRequestInput \<Rightarrow> LedgerPostingRequestRecord result" where
  "ledgerPostingRequestFromTransaction input =
     (let transaction = pin_transaction input;
          record = \<lparr>preq_id = pin_id input, preq_firmId = tx_firmId transaction,
            preq_transactionId = tx_id transaction, preq_idempotencyKey = tx_idempotencyKey transaction,
            preq_requestFingerprint = effectiveFingerprint transaction,
            preq_status = or_else (pin_status input) Posting_pending_approval,
            preq_proposedPostedAt = tx_postedAt transaction,
            preq_entries = tx_entries transaction,
            preq_matterIds = uniqueInOrder (map entry_matterId (tx_entries transaction)),
            preq_clientIds = uniqueInOrder (map entry_clientId (tx_entries transaction)),
            preq_accountIds = uniqueInOrder (map entry_accountId (tx_entries transaction)),
            preq_reversesTransactionId = tx_reversesTransactionId transaction,
            preq_preparedByUserId = pin_preparedByUserId input, preq_preparedAt = pin_preparedAt input,
            preq_preparationNotes = pin_preparationNotes input,
            preq_reviewedByUserId = pin_reviewedByUserId input, preq_reviewedAt = pin_reviewedAt input,
            preq_reviewNotes = pin_reviewNotes input, preq_rejectionReason = pin_rejectionReason input,
            preq_ledgerTransactionId = pin_ledgerTransactionId input\<rparr>
      in bind_result (validateLedgerPostingRequestRecord record) (\<lambda>_. Inr record))"

definition ledgerPostingRequestReviewSummary ::
  "LedgerPostingRequestRecord list \<Rightarrow> LedgerPostingRequestReviewSummary" where
  "ledgerPostingRequestReviewSummary requests =
     \<lparr>psum_pendingApprovalCount = count_where (\<lambda>r. preq_status r = Posting_pending_approval) requests,
      psum_postedCount = count_where (\<lambda>r. preq_status r = Posting_posted) requests,
      psum_rejectedCount = count_where (\<lambda>r. preq_status r = Posting_rejected) requests,
      psum_totalCount = int (length requests)\<rparr>"

subsection \<open>Well-formed requests\<close>

lemma ledgerTransactionFromPostingRequest_fields [simp]:
  "tx_entries (ledgerTransactionFromPostingRequest r u a) = preq_entries r"
  "tx_firmId (ledgerTransactionFromPostingRequest r u a) = preq_firmId r"
  "tx_reversesTransactionId (ledgerTransactionFromPostingRequest r u a) = preq_reversesTransactionId r"
  "tx_idempotencyKey (ledgerTransactionFromPostingRequest r u a) = preq_idempotencyKey r"
  "tx_id (ledgerTransactionFromPostingRequest r u a) = preq_transactionId r"
  "tx_requestFingerprint (ledgerTransactionFromPostingRequest r u a) = Some (preq_requestFingerprint r)"
  by (simp_all add: ledgerTransactionFromPostingRequest_def)

lemma validate_request_maker_checker:
  "validateLedgerPostingRequestRecord r = Inr u \<Longrightarrow> truthy (preq_reviewedByUserId r) \<Longrightarrow>
   preq_reviewedByUserId r \<noteq> Some (preq_preparedByUserId r)"
  unfolding validateLedgerPostingRequestRecord_def run_checks_ok by simp

lemma validate_request_balanced:
  "validateLedgerPostingRequestRecord r = Inr u \<Longrightarrow> balanced (preq_entries r)"
  unfolding validateLedgerPostingRequestRecord_def run_checks_ok by (simp add: validateBalancedEntries_ok)

lemma validate_request_fingerprint:
  "validateLedgerPostingRequestRecord r = Inr u \<Longrightarrow>
   preq_requestFingerprint r = ledgerRequestFingerprint (ledgerTransactionFromPostingRequest r user at)"
  unfolding validateLedgerPostingRequestRecord_def run_checks_ok
  by (simp add: ledgerRequestFingerprint_def ledgerTransactionFromPostingRequest_def)

lemma validate_request_status:
  "validateLedgerPostingRequestRecord r = Inr u \<Longrightarrow> validatePostingStatus r = Inr ()"
  unfolding validateLedgerPostingRequestRecord_def run_checks_ok by simp

lemma ledgerPostingRequestFromTransaction_valid:
  "ledgerPostingRequestFromTransaction i = Inr r \<Longrightarrow> validateLedgerPostingRequestRecord r = Inr ()"
  by (auto simp: ledgerPostingRequestFromTransaction_def Let_def bind_result_ok)

text \<open>
  C21. A posting request carries its transaction unchanged: the transaction read back from the
  request \<open>ledgerPostingRequestFromTransaction\<close> built is the prepared one, posted by the reviewer and
  with its fingerprint fixed, so the entries the checker approves are the entries the maker prepared.
  A request is only built when the fingerprint is that of its entries.
\<close>

theorem posting_request_round_trip:
  assumes "ledgerPostingRequestFromTransaction input = Inr request"
  shows "ledgerTransactionFromPostingRequest request reviewer None =
    (pin_transaction input)\<lparr>tx_requestFingerprint := Some (ledgerRequestFingerprint (pin_transaction input)),
       tx_postedByUserId := reviewer\<rparr>"
proof -
  have fp: "preq_requestFingerprint request = ledgerRequestFingerprint (ledgerTransactionFromPostingRequest request reviewer None)"
    using validate_request_fingerprint [OF ledgerPostingRequestFromTransaction_valid [OF assms]] .
  have same: "same_payload (ledgerTransactionFromPostingRequest request reviewer None) (pin_transaction input)"
    using assms by (auto simp: ledgerPostingRequestFromTransaction_def Let_def bind_result_ok same_payload_def
        ledgerTransactionFromPostingRequest_def)
  have "preq_requestFingerprint request = ledgerRequestFingerprint (pin_transaction input)"
    using fp same by (simp add: ledgerRequestFingerprint_inject)
  then show ?thesis
    using assms by (auto simp: ledgerPostingRequestFromTransaction_def Let_def bind_result_ok
        ledgerTransactionFromPostingRequest_def)
qed

end
