(* ===== verification/Models.thy ===== *)
theory Models
  imports Canonical_Json
begin

section \<open>The shared records of the practice\<close>

text \<open>
  The types of packages/domain/src/models.ts that the modelled components read: users and their
  roles, contacts, matters and their parties, documents and portal grants, with every field of the
  source. A string union is a datatype whose constructors carry a prefix, an interface is a record
  whose fields carry one (\<open>User.assignedMatterIds\<close> is \<open>user_assignedMatterIds\<close>); an optional field is
  an \<open>option\<close>.
\<close>

datatype Province = Province_BC | Province_ON | Province_CANADA | Province_OTHER

datatype ProfessionalRole = Role_owner_admin | Role_licensee | Role_firm_member
    | Role_billing_bookkeeper | Role_client_external | Role_auditor

datatype MatterStatus = Matter_intake | Matter_open | Matter_paused | Matter_closed
    | Matter_archived

datatype ContactKind = Kind_person | Kind_organization

datatype ContactStatus = Contact_prospective | Contact_active | Contact_inactive | Contact_archived
    | Contact_former | Contact_restricted

datatype ContactRoleCategory = Category_prospective_client | Category_client
    | Category_former_client | Category_opposing_party | Category_related_party | Category_witness
    | Category_lawyer | Category_paralegal | Category_authorized_non_lawyer_provider
    | Category_legal_representative | Category_court_tribunal | Category_insurer | Category_expert
    | Category_vendor | Category_referral_source | Category_internal_team_member
    | Category_organization | Category_other

datatype ContactIdentifierType = Identifier_email | Identifier_phone | Identifier_tax_id
    | Identifier_registry_id | Identifier_business_number | Identifier_court_file
    | Identifier_custom

datatype ContactMethodType = Method_email | Method_phone | Method_address | Method_website

datatype ContactMethodLabel = Label_work | Label_home | Label_mobile | Label_billing | Label_service
    | Label_registered_office | Label_other

datatype ContactMethodVerificationStatus = Verification_unverified | Verification_verified
    | Verification_review_needed

datatype DocumentClassification = Class_general | Class_privileged | Class_work_product
    | Class_financial | Class_identity

datatype DocumentUploadStatus = Upload_intent_created | Upload_uploaded | Upload_verified
    | Upload_rejected

datatype DocumentChecksumStatus = Checksum_pending | Checksum_verified | Checksum_mismatch
    | Checksum_duplicate

datatype DocumentScanStatus = Scan_pending | Scan_queued | Scan_passed | Scan_failed
    | Scan_not_required

datatype DocumentUploadReviewStatus = Review_not_required | Review_pending_review
    | Review_needs_metadata | Review_accepted | Review_retry_requested | Review_discarded

datatype DocumentUploadReviewDecision = Decision_accept | Decision_request_metadata
    | Decision_request_retry | Decision_discard

datatype DocumentUploadReviewReason = Reason_duplicate | Reason_missing_metadata
    | Reason_checksum_mismatch | Reason_scan_failed | Reason_wrong_matter | Reason_unreadable
    | Reason_other

datatype PartyRole = Party_client | Party_prospective_client | Party_former_client
    | Party_opposing_party | Party_opposing_counsel | Party_related_party | Party_witness
    | Party_court | Party_court_tribunal | Party_lawyer | Party_paralegal
    | Party_authorized_non_lawyer_provider | Party_legal_representative | Party_insurer
    | Party_expert | Party_vendor | Party_referral_source | Party_internal_team_member
    | Party_third_party | Party_notary_client | Party_paralegal_client | Party_other

datatype ConfidentialityMarker = Marker_standard | Marker_confidential | Marker_restricted

datatype PartyStatus = PartyStatus_active | PartyStatus_inactive

datatype PartySide = Side_client | Side_opposing | Side_neutral | Side_internal | Side_court | Side_other

datatype PortalGrantStatus =
    Grant_not_invited | Grant_invited | Grant_active | Grant_suspended | Grant_revoked | Grant_expired

datatype PortalPermission =
    Perm_view_matter_summary | Perm_view_documents | Perm_upload_documents | Perm_message
  | Perm_view_messages | Perm_send_messages | Perm_view_invoices | Perm_view_appointments_tasks
  | Perm_view_signature_requests | Perm_complete_intake | Perm_manage_organization_users | Perm_sign

record PractitionerProfile =
  prac_regulator :: string
  prac_licenseStatus :: string
  prac_jurisdictions :: "string list"

record User =
  user_id :: string
  user_firmId :: string
  user_displayName :: string
  user_email :: string
  user_role :: ProfessionalRole
  user_assignedMatterIds :: "string list"
  user_mfaEnabled :: bool
  user_practitionerProfile :: "PractitionerProfile option"

record ContactIdentifier =
  cid_type :: ContactIdentifierType
  cid_value :: string
  cid_label :: "string option"
  cid_conflictCheckIncluded :: "bool option"
  cid_verified :: "bool option"

record ContactMethodAddress =
  addr_line1 :: "string option"
  addr_line2 :: "string option"
  addr_city :: "string option"
  addr_province :: "Province option"
  addr_postalCode :: "string option"
  addr_country :: "string option"

record ContactMethod =
  method_id :: string
  method_type :: ContactMethodType
  method_label :: ContactMethodLabel
  method_value :: "string option"
  method_address :: "ContactMethodAddress option"
  method_preferred :: "bool option"
  method_doNotContact :: "bool option"
  method_verificationStatus :: "ContactMethodVerificationStatus option"
  method_conflictCheckIncluded :: "bool option"
  method_notes :: "string option"

record Contact =
  contact_id :: string
  contact_firmId :: string
  contact_kind :: ContactKind
  contact_status :: "ContactStatus option"
  contact_roleCategories :: "(ContactRoleCategory list) option"
  contact_canonicalName :: "string option"
  contact_displayName :: string
  contact_givenName :: "string option"
  contact_middleName :: "string option"
  contact_familyName :: "string option"
  contact_title :: "string option"
  contact_pronouns :: "string option"
  contact_organizationLegalName :: "string option"
  contact_organizationOperatingName :: "string option"
  contact_organizationRegisteredName :: "string option"
  contact_organizationType :: "string option"
  contact_website :: "string option"
  contact_aliases :: "string list"
  contact_formerNames :: "(string list) option"
  contact_identifiers :: "ContactIdentifier list"
  contact_contactMethods :: "(ContactMethod list) option"
  contact_preferredContactMethodId :: "string option"
  contact_preferredLanguage :: "string option"
  contact_timezone :: "string option"
  contact_communicationNotes :: "string option"
  contact_accessibilityNotes :: "string option"
  contact_privateNotes :: "string option"
  contact_notes :: "string option"
  contact_riskFlags :: "(string list) option"
  contact_conflictSensitive :: "bool option"
  contact_adverse :: "bool option"
  contact_confidentialityMarker :: "ConfidentialityMarker option"
  contact_doNotContact :: "bool option"
  contact_createdByUserId :: "string option"
  contact_updatedByUserId :: "string option"
  contact_createdAt :: "string option"
  contact_updatedAt :: "string option"

record Matter =
  matter_id :: string
  matter_firmId :: string
  matter_number :: string
  matter_title :: string
  matter_practiceArea :: string
  matter_status :: MatterStatus
  matter_jurisdiction :: Province
  matter_responsibleUserId :: string
  matter_openedOn :: "string option"
  matter_closedOn :: "string option"

record MatterParty =
  party_id :: string
  party_firmId :: string
  party_matterId :: string
  party_contactId :: string
  party_role :: PartyRole
  party_adverse :: bool
  party_confidential :: bool
  party_status :: "PartyStatus option"
  party_side :: "PartySide option"
  party_startedOn :: "string option"
  party_endedOn :: "string option"
  party_notes :: "string option"
  party_privateNotes :: "string option"
  party_conflictCheckIncluded :: "bool option"
  party_createdAt :: "string option"
  party_updatedAt :: "string option"
  party_createdByUserId :: "string option"
  party_updatedByUserId :: "string option"

record DocumentRecord =
  doc_id :: string
  doc_firmId :: string
  doc_matterId :: string
  doc_title :: string
  doc_storageKey :: string
  doc_checksumSha256 :: string
  doc_sizeBytes :: "int option"
  doc_version :: int
  doc_classification :: DocumentClassification
  doc_legalHold :: bool
  doc_uploadStatus :: DocumentUploadStatus
  doc_checksumStatus :: DocumentChecksumStatus
  doc_scanStatus :: DocumentScanStatus
  doc_reviewStatus :: DocumentUploadReviewStatus
  doc_reviewDecision :: "DocumentUploadReviewDecision option"
  doc_reviewReason :: "DocumentUploadReviewReason option"
  doc_reviewMetadata :: "(string \<times> js_value) list"
  doc_reviewedByUserId :: "string option"
  doc_reviewedAt :: "string option"
  doc_externalUploadLinkId :: "string option"
  doc_duplicateOfDocumentId :: "string option"
  doc_supersedesDocumentId :: "string option"
  doc_supersededAt :: "string option"
  doc_uploadedAt :: "string option"
  doc_verifiedAt :: "string option"
  doc_createdAt :: "string option"

record PortalGrant =
  grant_id :: string
  grant_firmId :: string
  grant_matterId :: string
  grant_contactId :: string
  grant_accountUserId :: "string option"
  grant_grantedByUserId :: string
  grant_status :: "PortalGrantStatus option"
  grant_expiresAt :: "string option"
  grant_revokedAt :: "string option"
  grant_suspendedAt :: "string option"
  grant_invitedAt :: "string option"
  grant_activatedAt :: "string option"
  grant_revokedByUserId :: "string option"
  grant_updatedByUserId :: "string option"
  grant_createdAt :: "string option"
  grant_updatedAt :: "string option"
  grant_permissions :: "PortalPermission list"

end
