(* ===== verification/Js_Date.thy ===== *)
theory Js_Date
  imports Js_Prelude
begin

section \<open>Dates: \<open>Date.parse\<close> and \<open>toISOString\<close>\<close>

text \<open>
  A time value is the number of milliseconds since 1970-01-01T00:00:00Z, an integer. \<open>date_parse\<close> is
  \<open>Date.parse\<close> (and \<open>new Date(s).getTime()\<close>) on the ECMAScript date-time string format:
  \<open>YYYY\<close>, \<open>YYYY-MM\<close> or \<open>YYYY-MM-DD\<close>, optionally followed by \<open>THH:mm\<close>, \<open>THH:mm:ss\<close> or
  \<open>THH:mm:ss.sss\<close> and an offset \<open>Z\<close> or \<open>+HH:mm\<close>/\<open>-HH:mm\<close>; \<open>None\<close> stands for \<open>NaN\<close>. A date-time
  without an offset is local time; the services run with their clock in UTC. Strings outside the
  format are given no time value. A day number past the end of a month runs on into the next month,
  as \<open>MakeDay\<close> does. \<open>to_iso_string\<close> is \<open>Date.prototype.toISOString\<close> for the years 0 to 9999.

  The last section proves the calendar arithmetic and the round trip
  \<open>Date.parse(new Date(t).toISOString()) = t\<close>.
\<close>

subsection \<open>Calendar arithmetic\<close>

definition ms_per_day :: int where
  "ms_per_day = 86400000"

definition day_from_year :: "int \<Rightarrow> int" where
  "day_from_year y = 365 * (y - 1970) + (y - 1969) div 4 - (y - 1901) div 100 + (y - 1601) div 400"

definition leap_year :: "int \<Rightarrow> bool" where
  "leap_year y = (y mod 4 = 0 \<and> (y mod 100 \<noteq> 0 \<or> y mod 400 = 0))"

definition month_start :: "bool \<Rightarrow> int \<Rightarrow> int" where
  "month_start leap m =
     (let k = (if leap then 1 else 0) in
      if m \<le> 1 then 0 else if m = 2 then 31 else if m = 3 then 59 + k else if m = 4 then 90 + k
      else if m = 5 then 120 + k else if m = 6 then 151 + k else if m = 7 then 181 + k
      else if m = 8 then 212 + k else if m = 9 then 243 + k else if m = 10 then 273 + k
      else if m = 11 then 304 + k else 334 + k)"

definition month_of_day :: "bool \<Rightarrow> int \<Rightarrow> int" where
  "month_of_day leap d =
     (let k = (if leap then 1 else 0) in
      if d < 31 then 1 else if d < 59 + k then 2 else if d < 90 + k then 3 else if d < 120 + k then 4
      else if d < 151 + k then 5 else if d < 181 + k then 6 else if d < 212 + k then 7
      else if d < 243 + k then 8 else if d < 273 + k then 9 else if d < 304 + k then 10
      else if d < 334 + k then 11 else 12)"

definition year_from_day :: "int \<Rightarrow> int" where
  "year_from_day d =
     (let y = 1970 + (400 * d) div 146097
      in if d < day_from_year y then y - 1 else if day_from_year (y + 1) \<le> d then y + 1 else y)"

definition make_day :: "int \<Rightarrow> int \<Rightarrow> int \<Rightarrow> int" where
  "make_day y m d = day_from_year y + month_start (leap_year y) m + (d - 1)"

definition make_time :: "int \<Rightarrow> int \<Rightarrow> int \<Rightarrow> int \<Rightarrow> int" where
  "make_time h mi s ms = ((h * 60 + mi) * 60 + s) * 1000 + ms"

definition time_clip :: "int \<Rightarrow> int option" where
  "time_clip t = (if \<bar>t\<bar> \<le> 8640000000000000 then Some t else None)"

subsection \<open>Parsing\<close>

text \<open>\<open>take_digits n s\<close> reads exactly \<open>n\<close> decimal digits.\<close>

definition take_digits :: "nat \<Rightarrow> string \<Rightarrow> (int \<times> string) option" where
  "take_digits n s =
     (if length (take n s) = n \<and> list_all is_digit (take n s)
      then Some (int (digits_value (take n s)), drop n s) else None)"

definition take_char :: "char \<Rightarrow> string \<Rightarrow> string option" where
  "take_char c s = (case s of [] \<Rightarrow> None | x # xs \<Rightarrow> if x = c then Some xs else None)"

definition parse_field :: "char \<Rightarrow> nat \<Rightarrow> string \<Rightarrow> (int \<times> string) option" where
  "parse_field c n s = Option.bind (take_char c s) (take_digits n)"

definition parse_offset :: "string \<Rightarrow> int option" where
  "parse_offset s =
     (if s = '''' \<or> s = ''Z'' then Some 0
      else (case s of
          [] \<Rightarrow> None
        | c # rest \<Rightarrow>
            if c = CHR ''+'' \<or> c = CHR ''-'' then
              (case take_digits 2 rest of
                 None \<Rightarrow> None
               | Some (h, rest2) \<Rightarrow>
                   (case parse_field (CHR '':'') 2 rest2 of
                      None \<Rightarrow> None
                    | Some (m, rest3) \<Rightarrow>
                        if rest3 = '''' \<and> h \<le> 23 \<and> m \<le> 59
                        then Some ((if c = CHR ''-'' then -1 else 1) * (h * 60 + m) * 60000)
                        else None))
            else None))"

definition valid_time :: "int \<Rightarrow> int \<Rightarrow> int \<Rightarrow> int \<Rightarrow> bool" where
  "valid_time h mi s ms =
     ((h \<le> 23 \<and> mi \<le> 59 \<and> s \<le> 59) \<or> (h = 24 \<and> mi = 0 \<and> s = 0 \<and> ms = 0))"

definition finish_time :: "int \<Rightarrow> int \<Rightarrow> int \<Rightarrow> int \<Rightarrow> string \<Rightarrow> int option" where
  "finish_time h mi s ms rest =
     (if valid_time h mi s ms
      then map_option (\<lambda>off. make_time h mi s ms - off) (parse_offset rest) else None)"

definition parse_seconds :: "int \<Rightarrow> int \<Rightarrow> string \<Rightarrow> int option" where
  "parse_seconds h mi rest =
     (case parse_field (CHR '':'') 2 rest of
        None \<Rightarrow> finish_time h mi 0 0 rest
      | Some (s, rest2) \<Rightarrow>
          (case parse_field (CHR ''.'') 3 rest2 of
             None \<Rightarrow> finish_time h mi s 0 rest2
           | Some (ms, rest3) \<Rightarrow> finish_time h mi s ms rest3))"

definition parse_time :: "string \<Rightarrow> int option" where
  "parse_time s =
     (if s = '''' then Some 0
      else Option.bind (parse_field (CHR ''T'') 2 s) (\<lambda>(h, rest).
             Option.bind (parse_field (CHR '':'') 2 rest) (\<lambda>(mi, rest2). parse_seconds h mi rest2)))"

definition parse_date :: "string \<Rightarrow> (int \<times> int \<times> int \<times> string) option" where
  "parse_date s =
     Option.bind (take_digits 4 s) (\<lambda>(y, rest).
       (case parse_field (CHR ''-'') 2 rest of
          None \<Rightarrow> Some (y, 1, 1, rest)
        | Some (m, rest2) \<Rightarrow>
            (case parse_field (CHR ''-'') 2 rest2 of
               None \<Rightarrow> Some (y, m, 1, rest2)
             | Some (d, rest3) \<Rightarrow> Some (y, m, d, rest3))))"

definition date_parse :: "string \<Rightarrow> int option" where
  "date_parse s =
     Option.bind (parse_date s) (\<lambda>(y, m, d, rest).
       if 1 \<le> m \<and> m \<le> 12 \<and> 1 \<le> d \<and> d \<le> 31
       then Option.bind (parse_time rest) (\<lambda>t. time_clip (make_day y m d * ms_per_day + t))
       else None)"

subsection \<open>Printing\<close>

fun pad_digits :: "nat \<Rightarrow> nat \<Rightarrow> string" where
  "pad_digits 0 n = []"
| "pad_digits (Suc k) n = pad_digits k (n div 10) @ [digit_char (n mod 10)]"

text \<open>Comparisons of time values; a comparison with \<open>NaN\<close> (\<open>None\<close>) is false.\<close>

definition js_le :: "int option \<Rightarrow> int option \<Rightarrow> bool" where
  "js_le a b = (case (a, b) of (Some x, Some y) \<Rightarrow> x \<le> y | _ \<Rightarrow> False)"

definition js_less :: "int option \<Rightarrow> int option \<Rightarrow> bool" where
  "js_less a b = (case (a, b) of (Some x, Some y) \<Rightarrow> x < y | _ \<Rightarrow> False)"

text \<open>
  The difference of two time values as a comparator of \<open>sort\<close>: a difference with \<open>NaN\<close> is \<open>NaN\<close>,
  which \<open>sort\<close> reads as 0.
\<close>

definition date_difference :: "string \<Rightarrow> string \<Rightarrow> int" where
  "date_difference left right =
     (case (date_parse left, date_parse right) of (Some a, Some b) \<Rightarrow> a - b | _ \<Rightarrow> 0)"

definition to_iso_string :: "int \<Rightarrow> string" where
  "to_iso_string t =
     (let day = t div ms_per_day; tod = nat (t mod ms_per_day);
          y = year_from_day day; dwy = day - day_from_year y;
          m = month_of_day (leap_year y) dwy;
          d = dwy - month_start (leap_year y) m + 1
      in pad_digits 4 (nat y) @ ''-'' @ pad_digits 2 (nat m) @ ''-'' @ pad_digits 2 (nat d) @ ''T''
         @ pad_digits 2 (tod div 3600000) @ '':'' @ pad_digits 2 (tod div 60000 mod 60) @ '':''
         @ pad_digits 2 (tod div 1000 mod 60) @ ''.'' @ pad_digits 3 (tod mod 1000) @ ''Z'')"

subsection \<open>The calendar is right\<close>

lemma div_Suc_int: "(a + 1) div n = a div n + (if (a + 1) mod n = 0 then 1 else 0)" if "0 < n" for a n :: int
proof -
  define q r where "q = a div n" and "r = a mod n"
  have a: "a = q * n + r" and r: "0 \<le> r" "r < n"
    using that by (auto simp: q_def r_def)
  show ?thesis
  proof (cases "r + 1 = n")
    case True
    then have "a + 1 = (q + 1) * n" using a by (simp add: algebra_simps)
    then show ?thesis using that q_def by simp
  next
    case False
    then have rr: "0 \<le> r + 1" "r + 1 < n" using r by auto
    have "(a + 1) div n = q" "(a + 1) mod n = r + 1"
      using a rr by (auto simp: add.assoc)
    then show ?thesis using r q_def by simp
  qed
qed

lemma day_from_year_Suc: "day_from_year (y + 1) = day_from_year y + (if leap_year y then 366 else 365)"
proof -
  have c: "(4 :: int) dvd 1968" "(100 :: int) dvd 1900" "(400 :: int) dvd 1600"
    "(100 :: int) dvd 400" "(4 :: int) dvd 100"
    by simp_all
  have m: "(y - 1968) mod 4 = 0 \<longleftrightarrow> y mod 4 = 0" "(y - 1900) mod 100 = 0 \<longleftrightarrow> y mod 100 = 0"
    "(y - 1600) mod 400 = 0 \<longleftrightarrow> y mod 400 = 0"
    unfolding mod_eq_0_iff_dvd using c by (simp_all only: dvd_diff_left_iff)
  have i: "y mod 400 = 0 \<Longrightarrow> y mod 100 = 0" "y mod 100 = 0 \<Longrightarrow> y mod 4 = 0"
    unfolding mod_eq_0_iff_dvd using c(4,5) by (blast intro: dvd_trans)+
  have e: "y + 1 - 1969 = y - 1968" "y + 1 - 1901 = y - 1900" "y + 1 - 1601 = y - 1600"
    "y - 1969 + 1 = y - 1968" "y - 1901 + 1 = y - 1900" "y - 1601 + 1 = y - 1600"
    by simp_all
  have d1: "(y + 1 - 1969) div 4 = (y - 1969) div 4 + (if y mod 4 = 0 then 1 else 0)"
    using div_Suc_int [of 4 "y - 1969"] unfolding e m by simp
  have d2: "(y + 1 - 1901) div 100 = (y - 1901) div 100 + (if y mod 100 = 0 then 1 else 0)"
    using div_Suc_int [of 100 "y - 1901"] unfolding e m by simp
  have d3: "(y + 1 - 1601) div 400 = (y - 1601) div 400 + (if y mod 400 = 0 then 1 else 0)"
    using div_Suc_int [of 400 "y - 1601"] unfolding e m by simp
  have l: "(if leap_year y then 366 else 365) = 365 + (if y mod 4 = 0 then 1 else 0)
      - (if y mod 100 = 0 then 1 else 0) + (if y mod 400 = 0 then 1 else (0 :: int))"
    unfolding leap_year_def using i by (smt (verit))
  have "365 * (y + 1 - 1970) + (a + p) - (b + q) + (c + r) = 365 * (y - 1970) + a - b + c + (365 + p - q + r)"
    for a b c p q r :: int by simp
  then show ?thesis
    unfolding day_from_year_def d1 d2 d3 l .
qed

lemma div_bounds: "n * (x div n) \<le> x" "x < n * (x div n) + n" if "0 < n" for x n :: int
  using pos_mod_bound [OF that, of x] pos_mod_sign [OF that, of x] mult_div_mod_eq [of n x]
  by linarith+

lemma day_from_year_upper: "400 * day_from_year y \<le> 146097 * (y - 1970) + 589"
  using div_bounds [of 4 "y - 1969"] div_bounds [of 100 "y - 1901"] div_bounds [of 400 "y - 1601"]
  unfolding day_from_year_def by (simp add: algebra_simps)

lemma day_from_year_lower: "146097 * (y - 1970) - 506 \<le> 400 * day_from_year y"
  using div_bounds [of 4 "y - 1969"] div_bounds [of 100 "y - 1901"] div_bounds [of 400 "y - 1601"]
  unfolding day_from_year_def by (simp add: algebra_simps)

lemma year_from_day_bounds:
  "day_from_year (year_from_day d) \<le> d \<and> d < day_from_year (year_from_day d + 1)"
proof -
  define y where "y = 1970 + (400 * d) div 146097"
  have b: "146097 * (y - 1970) \<le> 400 * d" "400 * d < 146097 * (y - 1970) + 146097"
    using div_bounds [of 146097 "400 * d"] by (simp_all add: y_def)
  have "day_from_year (y - 1) \<le> d" using day_from_year_upper [of "y - 1"] b by simp
  moreover have "d < day_from_year (y + 2)" using day_from_year_lower [of "y + 2"] b by simp
  ultimately show ?thesis
    unfolding year_from_day_def Let_def y_def [symmetric] by (auto simp: add.assoc)
qed

lemma day_from_year_mono: "y \<le> z \<Longrightarrow> day_from_year y \<le> day_from_year z"
proof (induction z rule: int_ge_induct)
  case base
  then show ?case by simp
next
  case (step i)
  then show ?case by (simp add: day_from_year_Suc)
qed

lemma day_in_year:
  "0 \<le> d - day_from_year (year_from_day d)"
  "d - day_from_year (year_from_day d) < (if leap_year (year_from_day d) then 366 else 365)"
  using year_from_day_bounds [of d] by (auto simp: day_from_year_Suc)

lemma month_of_day_range: "1 \<le> month_of_day l d \<and> month_of_day l d \<le> 12"
  by (simp add: month_of_day_def Let_def)

lemma month_of_day_start:
  assumes "0 \<le> d" "d < (if l then 366 else 365)"
  shows "month_start l (month_of_day l d) \<le> d \<and> d < month_start l (month_of_day l d) + 31"
  using assms by (auto simp: month_of_day_def month_start_def Let_def)

subsection \<open>Round trip\<close>

lemma length_pad_digits [simp]: "length (pad_digits k n) = k"
  by (induction k n rule: pad_digits.induct) auto

lemma pad_digits_digits: "list_all is_digit (pad_digits k n)"
  by (induction k n rule: pad_digits.induct) auto

lemma digits_value_pad: "n < 10 ^ k \<Longrightarrow> digits_value (pad_digits k n) = n"
proof (induction k n rule: pad_digits.induct)
  case (1 n)
  then show ?case by simp
next
  case (2 k n)
  have "n div 10 < 10 ^ k" using "2.prems" by (simp add: div_less_iff_less_mult mult.commute)
  then show ?case using "2.IH" by simp
qed

lemma take_digits_pad [simp]:
  "n < 10 ^ k \<Longrightarrow> take_digits k (pad_digits k n @ s) = Some (int n, s)"
  by (simp add: take_digits_def pad_digits_digits digits_value_pad)

lemma parse_field_pad [simp]:
  "n < 10 ^ k \<Longrightarrow> parse_field c k (c # pad_digits k n @ s) = Some (int n, s)"
  by (simp add: parse_field_def take_char_def)

lemma parse_field_other [simp]: "x \<noteq> c \<Longrightarrow> parse_field c k (x # s) = None"
  by (simp add: parse_field_def take_char_def)

lemma time_of_day_split:
  assumes "t < (86400000 :: nat)"
  shows "make_time (int (t div 3600000)) (int (t div 60000 mod 60)) (int (t div 1000 mod 60)) (int (t mod 1000))
    = int t"
proof -
  have "t div 60000 = t div 1000 div 60" "t div 3600000 = t div 1000 div 60 div 60"
    by (simp_all add: div_mult2_eq [symmetric])
  then have "((t div 3600000 * 60 + t div 60000 mod 60) * 60 + t div 1000 mod 60) * 1000 + t mod 1000 = t"
    by (metis div_mult_mod_eq)
  then show ?thesis
    unfolding make_time_def by (metis (no_types, lifting) of_nat_add of_nat_mult of_nat_numeral)
qed

lemma parse_time_print:
  assumes "t < (86400000 :: nat)"
  shows "parse_time (''T'' @ pad_digits 2 (t div 3600000) @ '':'' @ pad_digits 2 (t div 60000 mod 60)
    @ '':'' @ pad_digits 2 (t div 1000 mod 60) @ ''.'' @ pad_digits 3 (t mod 1000) @ ''Z'') = Some (int t)"
proof -
  have b: "t div 3600000 < 24" using assms by (simp add: div_less_iff_less_mult)
  then have b': "t div 3600000 < 10 ^ 2" by simp
  have m: "t div 60000 mod 60 < 10 ^ 2" "t div 1000 mod 60 < 10 ^ 2" "t mod 1000 < 10 ^ 3"
    by (auto intro: less_trans [OF mod_less_divisor])
  have v: "valid_time (int (t div 3600000)) (int (t div 60000 mod 60)) (int (t div 1000 mod 60)) (int (t mod 1000))"
    using b by (simp add: valid_time_def less_Suc_eq_le [symmetric])
  show ?thesis
    using v b' m time_of_day_split [OF assms]
    by (simp add: parse_time_def parse_seconds_def finish_time_def parse_offset_def)
qed

definition iso_range :: "int \<Rightarrow> bool" where
  "iso_range t = (day_from_year 0 * ms_per_day \<le> t \<and> t < day_from_year 10000 * ms_per_day)"

lemma year_range:
  assumes "day_from_year 0 \<le> d" "d < day_from_year 10000"
  shows "0 \<le> year_from_day d \<and> year_from_day d < 10000"
proof -
  have "\<not> year_from_day d < 0"
    using year_from_day_bounds [of d] assms day_from_year_mono [of "year_from_day d + 1" 0] by auto
  moreover have "\<not> 10000 \<le> year_from_day d"
    using year_from_day_bounds [of d] assms day_from_year_mono [of 10000 "year_from_day d"] by auto
  ultimately show ?thesis by auto
qed

lemma iso_range_days:
  assumes "iso_range t"
  shows "day_from_year 0 \<le> t div ms_per_day" "t div ms_per_day < day_from_year 10000"
proof -
  have "day_from_year 0 \<le> t div ms_per_day"
    using assms div_bounds [of ms_per_day t] unfolding iso_range_def ms_per_day_def
    by (simp add: day_from_year_def)
  moreover have "t div ms_per_day < day_from_year 10000"
    using assms div_bounds [of ms_per_day t] unfolding iso_range_def ms_per_day_def
    by (simp add: day_from_year_def)
  ultimately show "day_from_year 0 \<le> t div ms_per_day" "t div ms_per_day < day_from_year 10000"
    by auto
qed

lemma parse_date_print:
  assumes "0 \<le> y" "y < 10000" "0 \<le> m" "m < 100" "0 \<le> d" "d < 100"
  shows "parse_date (pad_digits 4 (nat y) @ ''-'' @ pad_digits 2 (nat m) @ ''-'' @ pad_digits 2 (nat d)
    @ CHR ''T'' # s) = Some (y, m, d, CHR ''T'' # s)"
proof -
  have "nat y < 10 ^ 4" "nat m < 10 ^ 2" "nat d < 10 ^ 2" using assms by auto
  then show ?thesis using assms by (simp add: parse_date_def)
qed

lemma date_parse_to_iso_string:
  assumes "iso_range t"
  shows "date_parse (to_iso_string t) = Some t"
proof -
  define day where "day = t div ms_per_day"
  define tod where "tod = nat (t mod ms_per_day)"
  define y where "y = year_from_day day"
  define dwy where "dwy = day - day_from_year y"
  define m where "m = month_of_day (leap_year y) dwy"
  define d where "d = dwy - month_start (leap_year y) m + 1"
  have tod: "tod < 86400000" "int tod = t mod ms_per_day"
    by (auto simp: tod_def ms_per_day_def nat_less_iff)
  have yr: "0 \<le> y" "y < 10000"
    using year_range [OF iso_range_days [OF assms]] by (auto simp: y_def day_def)
  have mr: "1 \<le> m" "m \<le> 12" using month_of_day_range by (auto simp: m_def)
  have dr: "1 \<le> d" "d \<le> 31"
    using month_of_day_start [of dwy "leap_year y"] day_in_year [of day]
    by (auto simp: d_def m_def dwy_def y_def)
  have md: "make_day y m d = day" by (simp add: make_day_def d_def dwy_def)
  have t: "make_day y m d * ms_per_day + int tod = t"
    by (simp add: md tod(2) day_def)
  have "\<bar>t\<bar> \<le> 8640000000000000"
    using assms by (auto simp: iso_range_def day_from_year_def ms_per_day_def)
  then have clip: "time_clip t = Some t" by (simp add: time_clip_def)
  show ?thesis
    unfolding to_iso_string_def Let_def day_def [symmetric] tod_def [symmetric] y_def [symmetric]
      dwy_def [symmetric] m_def [symmetric] d_def [symmetric]
    using parse_date_print [of y m d] parse_time_print [OF tod(1)] yr mr dr t clip
    by (simp add: date_parse_def)
qed

lemma js_compare_simps [simp]: "js_le (Some x) (Some y) = (x \<le> y)" "js_less (Some x) (Some y) = (x < y)"
  "\<not> js_le None b" "\<not> js_le a None" "\<not> js_less None b" "\<not> js_less a None"
  by (simp_all add: js_le_def js_less_def split: option.splits)

subsection \<open>Sorting by date\<close>

text \<open>On readable dates the comparators \<open>date(left) - date(right)\<close> and its reverse are consistent.\<close>

definition time_of :: "('a \<Rightarrow> string) \<Rightarrow> 'a \<Rightarrow> int" where
  "time_of date x = or_else (date_parse (date x)) 0"

interpretation newest: comparator "\<lambda>left right. time_of date right - time_of date left" for date
  by unfold_locales auto

lemma head_newest:
  assumes "head (js_sort (\<lambda>left right. date_difference (date right) (date left)) xs) = Some m"
    and "\<forall>x \<in> set xs. date_parse (date x) \<noteq> None"
  shows "m \<in> set xs \<and> (\<forall>x \<in> set xs. time_of date x \<le> time_of date m)"
proof -
  have "js_sort (\<lambda>left right. date_difference (date right) (date left)) xs = js_sort (\<lambda>left right. time_of date right - time_of date left) xs"
  proof (rule js_sort_cong)
    fix x y assume "x \<in> set xs" "y \<in> set xs"
    then obtain a b where "date_parse (date x) = Some a" "date_parse (date y) = Some b" using assms(2) by blast
    then show "date_difference (date y) (date x) = time_of date y - time_of date x" by (simp add: date_difference_def time_of_def)
  qed
  then show ?thesis using newest.js_sort_head_least [of date xs m] assms(1) by auto
qed

interpretation oldest: comparator "\<lambda>left right. time_of date left - time_of date right" for date
  by unfold_locales auto

lemma date_difference_time_of:
  "date_parse (date x) \<noteq> None \<Longrightarrow> date_parse (date y) \<noteq> None \<Longrightarrow>
   date_difference (date x) (date y) = time_of date x - time_of date y"
  by (auto simp: date_difference_def time_of_def)

lemma sort_newest_sorted:
  assumes "\<forall>x \<in> set xs. date_parse (date x) \<noteq> None"
  shows "sorted_wrt (\<lambda>a b. time_of date b \<le> time_of date a) (js_sort (\<lambda>left right. date_difference (date right) (date left)) xs)"
proof -
  have "js_sort (\<lambda>left right. date_difference (date right) (date left)) xs = js_sort (\<lambda>left right. time_of date right - time_of date left) xs"
    using assms by (intro js_sort_cong) (simp add: date_difference_time_of)
  then show ?thesis using newest.js_sort_sorted [of date xs] by simp
qed

end
