(* ===== verification/Ledger_Store.thy ===== *)
theory Ledger_Store
  imports Posting_Request Models Js_Date
begin

section \<open>The ledger store\<close>

text \<open>
  The in-memory ledger repository: packages/database/src/repository/ledger-core/memory.ts (snapshot,
  scope check, posting) and ledger-posting-requests/memory.ts (prepare, get, list, approve, reject).
  A method that writes takes the store and returns its result with the store it leaves, so that what
  was written before a throw stays written. \<open>clone\<close> copies a value and is the identity here.

  The step relation has one step for each call of a writing method, whatever it returns; the API
  prepares pending requests only (routes/ledger/posting-requests.ts).
\<close>

subsection \<open>Data\<close>

record MemoryLedgerCoreStore =
  store_matters :: "Matter list"
  store_contacts :: "Contact list"
  store_matterParties :: "MatterParty list"
  store_ledgerAccounts :: "LedgerAccount list"
  store_postedTransactions :: "PostedLedgerTransaction list"

record MemoryLedgerStore = MemoryLedgerCoreStore +
  store_ledgerPostingRequests :: "LedgerPostingRequestRecord list"

record LedgerSnapshot =
  snap_accounts :: "LedgerAccount list"
  snap_entries :: "LedgerEntry list"
  snap_balances :: "(string \<times> int) list"
  snap_trustBalances :: "(string \<times> int) list"

record ApproveLedgerPostingRequestResult =
  approved_request :: LedgerPostingRequestRecord
  approved_postedTransaction :: PostedLedgerTransaction

record ReviewInput =
  review_reviewedByUserId :: string
  review_reviewedAt :: string
  review_reviewNotes :: "string option"

subsection \<open>Ledger core\<close>

definition userHasFirmWideLedgerAccess :: "User \<Rightarrow> bool" where
  "userHasFirmWideLedgerAccess user =
     (user_role user \<in> {Role_owner_admin, Role_auditor, Role_billing_bookkeeper})"

definition getMemoryLedger :: "'a MemoryLedgerCoreStore_scheme \<Rightarrow> string \<Rightarrow> string option \<Rightarrow> LedgerSnapshot" where
  "getMemoryLedger store firmId matterId =
     (let accounts = filter (\<lambda>account. acct_firmId account = firmId) (store_ledgerAccounts store);
          entries = filter (\<lambda>entry. entry_firmId entry = firmId
                       \<and> (\<not> truthy matterId \<or> Some (entry_matterId entry) = matterId))
                     (concat (map posted_entries (store_postedTransactions store)))
      in \<lparr>snap_accounts = accounts, snap_entries = entries,
          snap_balances = ledgerBalanceByMatter entries,
          snap_trustBalances = clientTrustBalanceByMatter entries accounts\<rparr>)"

definition validateEntryScope ::
  "'a MemoryLedgerCoreStore_scheme \<Rightarrow> User \<Rightarrow> LedgerEntryInput \<Rightarrow> unit result" where
  "validateEntryScope store user entry = run_checks
     [throw_if (entry_firmId entry \<noteq> user_firmId user)
        ''Ledger entry firm does not match authenticated user'',
      throw_if (\<not> userHasFirmWideLedgerAccess user
                \<and> entry_matterId entry \<notin> set (user_assignedMatterIds user))
        ''Ledger entry is outside the authenticated matter scope'',
      throw_if (\<not> list_ex (\<lambda>candidate. matter_firmId candidate = user_firmId user
                   \<and> matter_id candidate = entry_matterId entry) (store_matters store))
        (''Unknown ledger matter '' @ entry_matterId entry),
      throw_if (\<not> list_ex (\<lambda>candidate. contact_firmId candidate = user_firmId user
                   \<and> contact_id candidate = entry_clientId entry) (store_contacts store))
        (''Unknown ledger client '' @ entry_clientId entry),
      throw_if (\<not> list_ex (\<lambda>candidate. acct_firmId candidate = user_firmId user
                   \<and> acct_id candidate = entry_accountId entry) (store_ledgerAccounts store))
        (''Unknown ledger account '' @ entry_accountId entry),
      throw_if (\<not> list_ex (\<lambda>candidate. party_firmId candidate = user_firmId user
                   \<and> party_matterId candidate = entry_matterId entry
                   \<and> party_contactId candidate = entry_clientId entry
                   \<and> \<not> party_adverse candidate) (store_matterParties store))
        ''Ledger client must be a non-adverse party on the matter'']"

definition validateMemoryLedgerTransactionScope ::
  "'a MemoryLedgerCoreStore_scheme \<Rightarrow> User \<Rightarrow> LedgerTransaction \<Rightarrow> unit result" where
  "validateMemoryLedgerTransactionScope store user transaction =
     bind_result (throw_if (tx_firmId transaction \<noteq> user_firmId user)
        ''Ledger transaction firm does not match authenticated user'')
       (\<lambda>_. for_each (validateEntryScope store user) (tx_entries transaction))"

definition posting_state :: "'a MemoryLedgerCoreStore_scheme \<Rightarrow> LedgerPostingState" where
  "posting_state store = \<lparr>state_postedTransactions = store_postedTransactions store,
     state_accounts = store_ledgerAccounts store\<rparr>"

definition postMemoryLedgerTransaction ::
  "'a MemoryLedgerCoreStore_scheme \<Rightarrow> LedgerTransaction
   \<Rightarrow> PostedLedgerTransaction result \<times> 'a MemoryLedgerCoreStore_scheme" where
  "postMemoryLedgerTransaction store transaction =
     (case postLedgerTransaction (posting_state store) transaction of
        Inl e \<Rightarrow> (Inl e, store)
      | Inr posted \<Rightarrow>
          (Inr posted,
           if list_ex (\<lambda>existing. posted_id existing = posted_id posted) (store_postedTransactions store)
           then store
           else store\<lparr>store_postedTransactions := store_postedTransactions store @ [posted]\<rparr>))"

subsection \<open>Posting requests\<close>

definition findPostingDuplicate ::
  "MemoryLedgerStore \<Rightarrow> LedgerPostingRequestRecord \<Rightarrow> LedgerPostingRequestRecord option" where
  "findPostingDuplicate store request =
     List.find (\<lambda>candidate. preq_firmId candidate = preq_firmId request
         \<and> preq_idempotencyKey candidate = preq_idempotencyKey request) (store_ledgerPostingRequests store)"

definition prepareMemoryLedgerPostingRequest ::
  "MemoryLedgerStore \<Rightarrow> LedgerPostingRequestRecord \<Rightarrow> LedgerPostingRequestRecord result \<times> MemoryLedgerStore" where
  "prepareMemoryLedgerPostingRequest store request =
     (case validateLedgerPostingRequestRecord request of
        Inl e \<Rightarrow> (Inl e, store)
      | Inr _ \<Rightarrow>
          (case findPostingDuplicate store request of
             Some duplicate \<Rightarrow>
               (if preq_requestFingerprint duplicate \<noteq> preq_requestFingerprint request
                then throw ''Idempotency key was reused with a different ledger payload''
                else Inr duplicate, store)
           | None \<Rightarrow>
               (Inr request,
                store\<lparr>store_ledgerPostingRequests := store_ledgerPostingRequests store @ [request]\<rparr>)))"

definition getMemoryLedgerPostingRequest ::
  "MemoryLedgerStore \<Rightarrow> string \<Rightarrow> string \<Rightarrow> LedgerPostingRequestRecord option" where
  "getMemoryLedgerPostingRequest store firmId requestId =
     List.find (\<lambda>request. preq_firmId request = firmId \<and> preq_id request = requestId)
       (store_ledgerPostingRequests store)"

definition listMemoryLedgerPostingRequests ::
  "MemoryLedgerStore \<Rightarrow> string \<Rightarrow> string option \<Rightarrow> LedgerPostingRequestStatus option \<Rightarrow> string option
   \<Rightarrow> LedgerPostingRequestRecord list" where
  "listMemoryLedgerPostingRequests store firmId matterId status idempotencyKey =
     js_sort (\<lambda>left right. date_difference (preq_preparedAt left) (preq_preparedAt right))
       (filter (\<lambda>request. preq_firmId request = firmId
          \<and> (\<not> truthy matterId \<or> or_else matterId [] \<in> set (preq_matterIds request))
          \<and> (status = None \<or> Some (preq_status request) = status)
          \<and> (\<not> truthy idempotencyKey \<or> Some (preq_idempotencyKey request) = idempotencyKey))
        (store_ledgerPostingRequests store))"

definition reconcilePostedTransaction ::
  "PostedLedgerTransaction list \<Rightarrow> PostedLedgerTransaction \<Rightarrow> PostedLedgerTransaction list" where
  "reconcilePostedTransaction postedTransactions postedTransaction =
     (if list_ex (\<lambda>transaction. posted_id transaction = posted_id postedTransaction) postedTransactions
      then postedTransactions else postedTransactions @ [postedTransaction])"

definition replaceRequest ::
  "MemoryLedgerStore \<Rightarrow> string \<Rightarrow> string \<Rightarrow> LedgerPostingRequestRecord \<Rightarrow> MemoryLedgerStore" where
  "replaceRequest store firmId requestId request =
     store\<lparr>store_ledgerPostingRequests :=
       replace_where (\<lambda>r. preq_firmId r = firmId \<and> preq_id r = requestId) request
         (store_ledgerPostingRequests store)\<rparr>"

definition postPendingRequest ::
  "MemoryLedgerStore \<Rightarrow> string \<Rightarrow> string \<Rightarrow> ReviewInput \<Rightarrow> LedgerPostingRequestRecord
   \<Rightarrow> ApproveLedgerPostingRequestResult result \<times> MemoryLedgerStore" where
  "postPendingRequest store firmId requestId input existing =
     (let scratch = \<lparr>store_matters = [], store_contacts = [], store_matterParties = [],
            store_ledgerAccounts = store_ledgerAccounts store,
            store_postedTransactions = store_postedTransactions store\<rparr> in
      case postMemoryLedgerTransaction scratch
             (ledgerTransactionFromPostingRequest existing (review_reviewedByUserId input)
                (Some (preq_proposedPostedAt existing))) of
        (Inl e, _) \<Rightarrow> (Inl e, store)
      | (Inr postedTransaction, _) \<Rightarrow>
          (let store' = store\<lparr>store_postedTransactions :=
                 reconcilePostedTransaction (store_postedTransactions store) postedTransaction\<rparr>;
               postedRequest = existing
                 \<lparr>preq_status := Posting_posted,
                  preq_reviewedByUserId := Some (review_reviewedByUserId input),
                  preq_reviewedAt := Some (review_reviewedAt input),
                  preq_reviewNotes := review_reviewNotes input,
                  preq_ledgerTransactionId := Some (posted_id postedTransaction)\<rparr> in
           case validateLedgerPostingRequestRecord postedRequest of
             Inl e \<Rightarrow> (Inl e, store')
           | Inr _ \<Rightarrow>
               (Inr \<lparr>approved_request = postedRequest, approved_postedTransaction = postedTransaction\<rparr>,
                replaceRequest store' firmId requestId postedRequest)))"

definition approveMemoryLedgerPostingRequest ::
  "MemoryLedgerStore \<Rightarrow> string \<Rightarrow> string \<Rightarrow> ReviewInput
   \<Rightarrow> ApproveLedgerPostingRequestResult result \<times> MemoryLedgerStore" where
  "approveMemoryLedgerPostingRequest store firmId requestId input =
     (case getMemoryLedgerPostingRequest store firmId requestId of
        None \<Rightarrow> (throw ''Ledger posting request was not found'', store)
      | Some existing \<Rightarrow>
          if preq_status existing = Posting_posted \<and> truthy (preq_ledgerTransactionId existing) then
            (case List.find (\<lambda>transaction. posted_firmId transaction = firmId
                    \<and> Some (posted_id transaction) = preq_ledgerTransactionId existing)
                  (store_postedTransactions store) of
               None \<Rightarrow> (throw ''Ledger posting request ledger transaction is missing'', store)
             | Some postedTransaction \<Rightarrow>
                 (Inr \<lparr>approved_request = existing, approved_postedTransaction = postedTransaction\<rparr>, store))
          else if preq_status existing \<noteq> Posting_pending_approval then
            (throw ''Ledger posting request is not pending approval'', store)
          else if preq_preparedByUserId existing = review_reviewedByUserId input then
            (throw ''Ledger posting request requires checker approval by a different user'', store)
          else postPendingRequest store firmId requestId input existing)"

definition getRequiredPendingPostingRequest ::
  "MemoryLedgerStore \<Rightarrow> string \<Rightarrow> string \<Rightarrow> LedgerPostingRequestRecord result" where
  "getRequiredPendingPostingRequest store firmId requestId =
     (case getMemoryLedgerPostingRequest store firmId requestId of
        None \<Rightarrow> throw ''Ledger posting request was not found''
      | Some request \<Rightarrow>
          if preq_status request \<noteq> Posting_pending_approval
          then throw ''Ledger posting request is not pending approval'' else Inr request)"

definition rejectMemoryLedgerPostingRequest ::
  "MemoryLedgerStore \<Rightarrow> string \<Rightarrow> string \<Rightarrow> ReviewInput \<Rightarrow> string
   \<Rightarrow> LedgerPostingRequestRecord result \<times> MemoryLedgerStore" where
  "rejectMemoryLedgerPostingRequest store firmId requestId input rejectionReason =
     (case getRequiredPendingPostingRequest store firmId requestId of
        Inl e \<Rightarrow> (Inl e, store)
      | Inr existing \<Rightarrow>
          if preq_preparedByUserId existing = review_reviewedByUserId input then
            (throw ''Ledger posting request requires checker approval by a different user'', store)
          else
            (let rejectedRequest = existing
                   \<lparr>preq_status := Posting_rejected,
                    preq_reviewedByUserId := Some (review_reviewedByUserId input),
                    preq_reviewedAt := Some (review_reviewedAt input),
                    preq_reviewNotes := review_reviewNotes input,
                    preq_rejectionReason := Some rejectionReason\<rparr> in
             case validateLedgerPostingRequestRecord rejectedRequest of
               Inl e \<Rightarrow> (Inl e, store)
             | Inr _ \<Rightarrow> (Inr rejectedRequest, replaceRequest store firmId requestId rejectedRequest)))"

subsection \<open>The step relation and the invariant\<close>

inductive ledger_step :: "MemoryLedgerStore \<Rightarrow> MemoryLedgerStore \<Rightarrow> bool" where
  step_post: "postMemoryLedgerTransaction s t = (r, s') \<Longrightarrow> ledger_step s s'"
| step_prepare: "preq_status q = Posting_pending_approval \<Longrightarrow>
    prepareMemoryLedgerPostingRequest s q = (r, s') \<Longrightarrow> ledger_step s s'"
| step_approve: "approveMemoryLedgerPostingRequest s firm i input = (r, s') \<Longrightarrow> ledger_step s s'"
| step_reject: "rejectMemoryLedgerPostingRequest s firm i input reason = (r, s') \<Longrightarrow> ledger_step s s'"

inductive_cases ledger_stepE: "ledger_step s s'"

definition empty_ledger :: "MemoryLedgerStore \<Rightarrow> bool" where
  "empty_ledger s = (store_postedTransactions s = [] \<and> store_ledgerPostingRequests s = []
     \<and> accounts_consistent (store_ledgerAccounts s))"

definition posted_inv :: "LedgerAccount list \<Rightarrow> PostedLedgerTransaction list \<Rightarrow> bool" where
  "posted_inv accounts posted =
     (funds_ok accounts (all_entries posted)
      \<and> list_all (\<lambda>p. balanced (posted_entries p)) posted
      \<and> distinct (map posted_id posted)
      \<and> distinct (map (\<lambda>p. (posted_firmId p, posted_idempotencyKey p)) posted))"

definition request_inv :: "PostedLedgerTransaction list \<Rightarrow> LedgerPostingRequestRecord \<Rightarrow> bool" where
  "request_inv posted r =
     (validateLedgerPostingRequestRecord r = Inr ()
      \<and> (preq_status r = Posting_posted \<longrightarrow>
           list_ex (\<lambda>p. Some (posted_id p) = preq_ledgerTransactionId r) posted))"

definition ledger_inv :: "MemoryLedgerStore \<Rightarrow> bool" where
  "ledger_inv s =
     (accounts_consistent (store_ledgerAccounts s)
      \<and> posted_inv (store_ledgerAccounts s) (store_postedTransactions s)
      \<and> list_all (request_inv (store_postedTransactions s)) (store_ledgerPostingRequests s))"

subsection \<open>Every step keeps the invariant\<close>

lemma postMemoryLedgerTransaction_eq:
  "postMemoryLedgerTransaction s t =
    (case postLedgerTransaction (posting_state s) t of
       Inl e \<Rightarrow> (Inl e, s)
     | Inr p \<Rightarrow> (Inr p, s\<lparr>store_postedTransactions := reconcilePostedTransaction (store_postedTransactions s) p\<rparr>))"
  by (simp add: postMemoryLedgerTransaction_def reconcilePostedTransaction_def split: sum.splits)

lemma posting_state_fields [simp]:
  "state_postedTransactions (posting_state s) = store_postedTransactions s"
  "state_accounts (posting_state s) = store_ledgerAccounts s"
  by (simp_all add: posting_state_def)

lemma findDuplicate_mem: "findDuplicate ts t = Some d \<Longrightarrow> d \<in> set ts"
  by (auto simp: findDuplicate_def dest: find_Some_mem)

lemma reconcile_id: "list_ex (\<lambda>x. posted_id x = posted_id p) (reconcilePostedTransaction ts p)"
  by (simp add: reconcilePostedTransaction_def)

lemma reconcile_superset: "set ts \<subseteq> set (reconcilePostedTransaction ts p)"
  by (auto simp: reconcilePostedTransaction_def)

lemma reconcile_posted_inv:
  assumes acc: "accounts_consistent accounts" and inv: "posted_inv accounts ts"
    and post: "postLedgerTransaction \<lparr>state_postedTransactions = ts, state_accounts = accounts\<rparr> t = Inr p"
  shows "posted_inv accounts (reconcilePostedTransaction ts p)"
proof (cases "list_ex (\<lambda>x. posted_id x = posted_id p) ts")
  case True
  then show ?thesis using inv by (simp add: reconcilePostedTransaction_def)
next
  case False
  let ?st = "\<lparr>state_postedTransactions = ts, state_accounts = accounts\<rparr>"
  have none: "findDuplicate ts t = None"
  proof (rule ccontr)
    assume "findDuplicate ts t \<noteq> None"
    then obtain d where d: "findDuplicate (state_postedTransactions ?st) t = Some d" by auto
    then have "p = d" using post by (simp add: postLedgerTransaction_duplicate split: if_splits)
    then show False using findDuplicate_mem d False by (auto simp: list_ex_iff)
  qed
  then have p: "p = posted_of t" "balanced (tx_entries t)" "list_all (entry_allowed ?st t) (tx_entries t)"
    using post by (simp_all add: postLedgerTransaction_new)
  have "funds_ok accounts (all_entries ts @ nextEntries t)"
    using postLedgerTransaction_funds [of ?st t] acc inv p(3) by (simp add: posted_inv_def)
  moreover have "(tx_firmId t, tx_idempotencyKey t) \<notin> (\<lambda>x. (posted_firmId x, posted_idempotencyKey x)) ` set ts"
    using none by (auto simp: findDuplicate_def find_None_all)
  ultimately show ?thesis
    using inv False p(1,2) by (auto simp: posted_inv_def reconcilePostedTransaction_def list_ex_iff)
qed

lemma request_inv_mono:
  "request_inv ts r \<Longrightarrow> set ts \<subseteq> set us \<Longrightarrow> request_inv us r"
  by (auto simp: request_inv_def list_ex_iff)

lemma request_invs_mono:
  "list_all (request_inv ts) rs \<Longrightarrow> set ts \<subseteq> set us \<Longrightarrow> list_all (request_inv us) rs"
  by (auto simp: list_all_iff intro: request_inv_mono)

lemma store_posted_inv:
  assumes "ledger_inv s" "postLedgerTransaction (posting_state s) t = Inr p"
  shows "ledger_inv (s\<lparr>store_postedTransactions := reconcilePostedTransaction (store_postedTransactions s) p\<rparr>)"
  using assms reconcile_posted_inv [of "store_ledgerAccounts s" "store_postedTransactions s" t p]
  by (auto simp: ledger_inv_def posting_state_def intro: request_invs_mono [OF _ reconcile_superset])

lemma replaceRequest_inv:
  "ledger_inv s \<Longrightarrow> request_inv (store_postedTransactions s) r \<Longrightarrow> ledger_inv (replaceRequest s f i r)"
  by (simp add: ledger_inv_def replaceRequest_def list_all_replace_where)

lemma post_inv: "postMemoryLedgerTransaction s t = (r, s') \<Longrightarrow> ledger_inv s \<Longrightarrow> ledger_inv s'"
  by (auto simp: postMemoryLedgerTransaction_eq store_posted_inv split: sum.splits)

lemma prepare_inv:
  "prepareMemoryLedgerPostingRequest s q = (r, s') \<Longrightarrow> preq_status q = Posting_pending_approval \<Longrightarrow>
   ledger_inv s \<Longrightarrow> ledger_inv s'"
  by (auto simp: prepareMemoryLedgerPostingRequest_def ledger_inv_def request_inv_def split: sum.splits option.splits)

lemma postPendingRequest_cases:
  assumes "postPendingRequest s f i input x = (r, s')"
  obtains (failed) e where "r = Inl e" "s' = s"
  | (written) p e where "r = Inl e"
      "postLedgerTransaction (posting_state s) (ledgerTransactionFromPostingRequest x (review_reviewedByUserId input)
          (Some (preq_proposedPostedAt x))) = Inr p"
      "s' = s\<lparr>store_postedTransactions := reconcilePostedTransaction (store_postedTransactions s) p\<rparr>"
  | (posted) p q where
      "postLedgerTransaction (posting_state s) (ledgerTransactionFromPostingRequest x (review_reviewedByUserId input)
          (Some (preq_proposedPostedAt x))) = Inr p"
      "validateLedgerPostingRequestRecord q = Inr ()"
      "q = x\<lparr>preq_status := Posting_posted, preq_reviewedByUserId := Some (review_reviewedByUserId input),
             preq_reviewedAt := Some (review_reviewedAt input), preq_reviewNotes := review_reviewNotes input,
             preq_ledgerTransactionId := Some (posted_id p)\<rparr>"
      "r = Inr \<lparr>approved_request = q, approved_postedTransaction = p\<rparr>"
      "s' = replaceRequest (s\<lparr>store_postedTransactions := reconcilePostedTransaction (store_postedTransactions s) p\<rparr>) f i q"
  using assms
  by (auto simp: postPendingRequest_def postMemoryLedgerTransaction_eq posting_state_def Let_def split: sum.splits)

lemma postPendingRequest_inv:
  assumes "postPendingRequest s f i input x = (r, s')" "ledger_inv s"
  shows "ledger_inv s'"
  using assms(1)
proof (cases rule: postPendingRequest_cases)
  case (posted p q)
  then have "request_inv (reconcilePostedTransaction (store_postedTransactions s) p) q"
    using reconcile_id by (auto simp: request_inv_def list_ex_iff)
  then show ?thesis using posted store_posted_inv [OF assms(2) posted(1)] by (simp add: replaceRequest_inv)
qed (use assms(2) store_posted_inv in auto)

lemma approve_inv:
  "approveMemoryLedgerPostingRequest s f i input = (r, s') \<Longrightarrow> ledger_inv s \<Longrightarrow> ledger_inv s'"
  by (auto simp: approveMemoryLedgerPostingRequest_def intro: postPendingRequest_inv split: option.splits if_splits)

lemma reject_inv:
  "rejectMemoryLedgerPostingRequest s f i input reason = (r, s') \<Longrightarrow> ledger_inv s \<Longrightarrow> ledger_inv s'"
  by (auto simp: rejectMemoryLedgerPostingRequest_def Let_def request_inv_def intro!: replaceRequest_inv
      split: sum.splits if_splits)

lemma empty_ledger_inv: "empty_ledger s \<Longrightarrow> ledger_inv s"
  by (simp add: empty_ledger_def ledger_inv_def posted_inv_def funds_ok_def)

interpretation ledger_run: inductive_invariant empty_ledger ledger_step ledger_inv
  by unfold_locales (auto elim!: ledger_stepE simp: empty_ledger_inv intro: post_inv prepare_inv approve_inv reject_inv)

text \<open>
  C3. Whatever sequence of postings, preparations, approvals and rejections runs from an empty
  ledger, failed calls included: no client has a negative trust balance on any matter, every stored
  transaction is balanced, transaction ids are distinct, and a firm uses an idempotency key at most
  once.
\<close>

theorem ledger_store_always_sound:
  assumes "reachable empty_ledger ledger_step s"
  shows "(\<forall>m c. 0 \<le> netLiabilityBalance (all_entries (store_postedTransactions s)) m c
                   (liabilityAccountIds (store_ledgerAccounts s)))
    \<and> list_all (\<lambda>p. balanced (posted_entries p)) (store_postedTransactions s)
    \<and> distinct (map posted_id (store_postedTransactions s))
    \<and> distinct (map (\<lambda>p. (posted_firmId p, posted_idempotencyKey p)) (store_postedTransactions s))"
  using ledger_run.reachable_inv [OF assms] by (simp add: ledger_inv_def posted_inv_def funds_ok_iff)

text \<open>
  C5. Maker and checker differ: in every reachable store a request that names a reviewer names one
  who did not prepare it; a posted request has its reviewer and names a transaction of the ledger; a
  rejected one has its reviewer and a reason, and no transaction; a pending one has neither.
\<close>

theorem maker_never_checks:
  assumes "reachable empty_ledger ledger_step s" and "r \<in> set (store_ledgerPostingRequests s)"
  shows "(truthy (preq_reviewedByUserId r) \<longrightarrow> preq_reviewedByUserId r \<noteq> Some (preq_preparedByUserId r))
    \<and> (case preq_status r of
         Posting_pending_approval \<Rightarrow> \<not> truthy (preq_reviewedByUserId r) \<and> \<not> truthy (preq_ledgerTransactionId r)
       | Posting_posted \<Rightarrow> truthy (preq_reviewedByUserId r)
           \<and> (\<exists>p \<in> set (store_postedTransactions s). preq_ledgerTransactionId r = Some (posted_id p))
       | Posting_rejected \<Rightarrow> truthy (preq_reviewedByUserId r) \<and> \<not> truthy (preq_ledgerTransactionId r)
           \<and> trim (or_else (preq_rejectionReason r) []) \<noteq> [])"
proof -
  have inv: "request_inv (store_postedTransactions s) r"
    using ledger_run.reachable_inv [OF assms(1)] assms(2) by (simp add: ledger_inv_def list_all_iff)
  then have valid: "validateLedgerPostingRequestRecord r = Inr ()" by (simp add: request_inv_def)
  have "\<exists>p \<in> set (store_postedTransactions s). preq_ledgerTransactionId r = Some (posted_id p)"
    if "preq_status r = Posting_posted"
    using inv that unfolding request_inv_def list_ex_iff by metis
  then show ?thesis
    using validate_request_status [OF valid] validate_request_maker_checker [OF valid]
    by (auto simp: validatePostingStatus_def bind_result_ok simp del: trim_eq_Nil
      split: LedgerPostingRequestStatus.splits if_splits)
qed

subsection \<open>Retries\<close>

definition fresh_id :: "MemoryLedgerStore \<Rightarrow> LedgerTransaction \<Rightarrow> bool" where
  "fresh_id s t = (\<not> list_ex (\<lambda>p. posted_id p = tx_id t) (store_postedTransactions s))"

lemma findDuplicate_reconcile:
  assumes "findDuplicate ts t = None" "\<not> list_ex (\<lambda>p. posted_id p = tx_id t) ts"
  shows "findDuplicate (reconcilePostedTransaction ts (posted_of t)) t = Some (posted_of t)"
  using assms by (simp add: reconcilePostedTransaction_def findDuplicate_def find_append)

interpretation posting: idempotent_submission
  "\<lambda>s t. findDuplicate (store_postedTransactions s) t" postMemoryLedgerTransaction fresh_id
proof
  fix s :: MemoryLedgerStore and t d res s'
  assume dup: "findDuplicate (store_postedTransactions s) t = Some d" and "postMemoryLedgerTransaction s t = (res, s')"
  then show "s' = s \<and> (is_ok res \<longrightarrow> res = Inr d)"
    using findDuplicate_mem [OF dup]
    by (auto simp: postMemoryLedgerTransaction_def postLedgerTransaction_duplicate list_ex_iff throw_def split: if_splits)
next
  fix s :: MemoryLedgerStore and t e s'
  assume "postMemoryLedgerTransaction s t = (Inl e, s')"
  then show "s' = s" by (auto simp: postMemoryLedgerTransaction_def split: sum.splits)
next
  fix s :: MemoryLedgerStore and t d s'
  assume new: "findDuplicate (store_postedTransactions s) t = None" and "fresh_id s t"
    and "postMemoryLedgerTransaction s t = (Inr d, s')"
  then have d: "d = posted_of t"
    and s': "s' = s\<lparr>store_postedTransactions := reconcilePostedTransaction (store_postedTransactions s) d\<rparr>"
    by (auto simp: postMemoryLedgerTransaction_eq postLedgerTransaction_new split: sum.splits)
  then have "findDuplicate (store_postedTransactions s') t = Some d"
    using new \<open>fresh_id s t\<close> findDuplicate_reconcile by (simp add: fresh_id_def)
  then show "findDuplicate (store_postedTransactions s') t = Some d \<and> is_ok (fst (postMemoryLedgerTransaction s' t))"
    using d by (simp add: postMemoryLedgerTransaction_eq postLedgerTransaction_duplicate)
qed

interpretation preparing: idempotent_submission findPostingDuplicate prepareMemoryLedgerPostingRequest "\<lambda>_ _. True"
  by unfold_locales
    (auto simp: prepareMemoryLedgerPostingRequest_def findPostingDuplicate_def find_append
        throw_def split: sum.splits option.splits if_splits)

text \<open>
  A ledger call is safe to retry: posting a transaction again, under an id not used before,
  returns the same posted transaction and leaves the store as it is, and so does preparing a posting
  request again.
\<close>

theorem ledger_calls_retry_safely:
  assumes "fresh_id s t" and "postMemoryLedgerTransaction s t = (Inr p, s1)"
    and "prepareMemoryLedgerPostingRequest s1 q = (Inr r, s2)"
  shows "postMemoryLedgerTransaction s1 t = (Inr p, s1)
    \<and> prepareMemoryLedgerPostingRequest s2 q = (Inr r, s2)"
  using posting.retry_same [OF assms(1,2)] preparing.retry_same [OF _ assms(3)] by blast

subsection \<open>Approval\<close>

text \<open>
  C20. Approving a pending request posts what was prepared: a successful approval is by another user
  than the preparer, posts the prepared entries (or finds them already posted under the same key and
  fingerprint), keeps every transaction of the store and adds at most that one, and marks the request
  posted with the reviewer and the transaction's id.
\<close>

theorem approval_posts_prepared_entries:
  assumes "getMemoryLedgerPostingRequest s f i = Some x" and "preq_status x = Posting_pending_approval"
    and "approveMemoryLedgerPostingRequest s f i input = (Inr res, s')"
  shows "preq_preparedByUserId x \<noteq> review_reviewedByUserId input
    \<and> (let t = ledgerTransactionFromPostingRequest x (review_reviewedByUserId input) None;
           p = approved_postedTransaction res in
        tx_entries t = preq_entries x
        \<and> (case findDuplicate (store_postedTransactions s) t of
             None \<Rightarrow> p = posted_of t
           | Some d \<Rightarrow> p = d \<and> posted_requestFingerprint d = preq_requestFingerprint x)
        \<and> store_postedTransactions s' = reconcilePostedTransaction (store_postedTransactions s) p
        \<and> getMemoryLedgerPostingRequest s' f i = Some (approved_request res)
        \<and> approved_request res = x\<lparr>preq_status := Posting_posted,
             preq_reviewedByUserId := Some (review_reviewedByUserId input),
             preq_reviewedAt := Some (review_reviewedAt input), preq_reviewNotes := review_reviewNotes input,
             preq_ledgerTransactionId := Some (posted_id p)\<rparr>)"
proof -
  let ?t = "ledgerTransactionFromPostingRequest x (review_reviewedByUserId input) None"
  have t: "ledgerTransactionFromPostingRequest x (review_reviewedByUserId input) (Some (preq_proposedPostedAt x)) = ?t"
    by (simp add: ledgerTransactionFromPostingRequest_def)
  have x: "preq_firmId x = f" "preq_id x = i"
    using find_Some_mem [OF assms(1) [unfolded getMemoryLedgerPostingRequest_def]] by auto
  have ne: "preq_preparedByUserId x \<noteq> review_reviewedByUserId input"
    and "postPendingRequest s f i input x = (Inr res, s')"
    using assms by (auto simp: approveMemoryLedgerPostingRequest_def split: if_splits)
  from this(2) show ?thesis
  proof (cases rule: postPendingRequest_cases)
    case (posted p q)
    then have post: "postLedgerTransaction (posting_state s) ?t = Inr p" by (simp add: t)
    have "case findDuplicate (store_postedTransactions s) ?t of None \<Rightarrow> p = posted_of ?t
        | Some d \<Rightarrow> p = d \<and> posted_requestFingerprint d = preq_requestFingerprint x"
      using post by (auto simp: postLedgerTransaction_new postLedgerTransaction_duplicate effectiveFingerprint_def
          split: option.splits if_splits)
    moreover have "getMemoryLedgerPostingRequest s' f i = Some q"
      using posted(3,5) assms(1) x
      by (simp add: getMemoryLedgerPostingRequest_def replaceRequest_def find_replace_where)
    ultimately show ?thesis
      using ne posted by (simp add: Let_def replaceRequest_def)
  qed auto
qed

lemma validate_posted_request:
  assumes "validateLedgerPostingRequestRecord x = Inr ()" "u \<noteq> []" "u \<noteq> preq_preparedByUserId x" "d \<noteq> []" "k \<noteq> []"
  shows "validateLedgerPostingRequestRecord (x\<lparr>preq_status := Posting_posted, preq_reviewedByUserId := Some u,
     preq_reviewedAt := Some d, preq_reviewNotes := n, preq_ledgerTransactionId := Some k\<rparr>) = Inr ()"
  using assms unfolding validateLedgerPostingRequestRecord_def run_checks_ok
  by (simp add: ledgerTransactionFromPostingRequest_def validatePostingStatus_def)

lemma approve_succeeds:
  assumes "getMemoryLedgerPostingRequest s f i = Some x" "preq_status x = Posting_pending_approval"
    and "validateLedgerPostingRequestRecord x = Inr ()"
    and "review_reviewedByUserId input \<noteq> preq_preparedByUserId x"
    and "review_reviewedByUserId input \<noteq> []" "review_reviewedAt input \<noteq> []"
    and "postLedgerTransaction (posting_state s) (ledgerTransactionFromPostingRequest x (review_reviewedByUserId input) None) = Inr p"
    and "posted_id p \<noteq> []"
  shows "is_ok (fst (approveMemoryLedgerPostingRequest s f i input))"
proof -
  have "ledgerTransactionFromPostingRequest x u (Some (preq_proposedPostedAt x)) = ledgerTransactionFromPostingRequest x u None" for u
    by (simp add: ledgerTransactionFromPostingRequest_def)
  then show ?thesis
    using assms validate_posted_request [OF assms(3), of "review_reviewedByUserId input" "review_reviewedAt input" "posted_id p" "review_reviewNotes input"]
    by (simp add: approveMemoryLedgerPostingRequest_def postPendingRequest_def postMemoryLedgerTransaction_eq
        posting_state_def Let_def)
qed

subsection \<open>Two ways a record is lost\<close>

text \<open>
  C22. A posting under a used transaction id is lost: when the key is new and the request passes every
  check but its id is already that of a stored transaction (of any firm), the call returns a posted
  transaction that is not in the store, and the store is unchanged.
\<close>

theorem post_with_used_id_is_lost:
  assumes "findDuplicate (store_postedTransactions s) t = None" and "\<not> fresh_id s t"
    and "postLedgerTransaction (posting_state s) t = Inr p"
  shows "postMemoryLedgerTransaction s t = (Inr p, s) \<and> p \<notin> set (store_postedTransactions s)"
proof -
  have p: "p = posted_of t" using assms(1,3) by (simp add: postLedgerTransaction_new)
  then have "p \<notin> set (store_postedTransactions s)"
    using assms(1) by (auto simp: findDuplicate_def find_None_all)
  then show ?thesis using assms(2,3) p by (simp add: postMemoryLedgerTransaction_def fresh_id_def)
qed

text \<open>
  A posting request prepared under a used request id cannot be reached: it is stored, but looking
  the id up still gives the earlier request, and approving that one overwrites the new request too.
\<close>

theorem prepare_with_used_id_is_lost:
  assumes "getMemoryLedgerPostingRequest s (preq_firmId q) (preq_id q) = Some x"
    and "preq_status x = Posting_pending_approval"
    and "findPostingDuplicate s q = None" and "validateLedgerPostingRequestRecord q = Inr ()"
    and "prepareMemoryLedgerPostingRequest s q = (r, s1)"
    and "approveMemoryLedgerPostingRequest s1 (preq_firmId q) (preq_id q) input = (Inr res, s2)"
  shows "r = Inr q \<and> q \<in> set (store_ledgerPostingRequests s1)
    \<and> getMemoryLedgerPostingRequest s1 (preq_firmId q) (preq_id q) = Some x
    \<and> q \<notin> set (store_ledgerPostingRequests s2)"
proof -
  have r: "r = Inr q" and s1: "s1 = s\<lparr>store_ledgerPostingRequests := store_ledgerPostingRequests s @ [q]\<rparr>"
    using assms by (auto simp: prepareMemoryLedgerPostingRequest_def)
  have get: "getMemoryLedgerPostingRequest s1 (preq_firmId q) (preq_id q) = Some x"
    using assms(1) by (simp add: s1 getMemoryLedgerPostingRequest_def find_append)
  have "x \<in> set (store_ledgerPostingRequests s)" "preq_firmId x = preq_firmId q"
    using find_Some_mem [OF assms(1) [unfolded getMemoryLedgerPostingRequest_def]] by auto
  then have key: "preq_idempotencyKey x \<noteq> preq_idempotencyKey q"
    using assms(3) by (auto simp: findPostingDuplicate_def find_None_all)
  have "postPendingRequest s1 (preq_firmId q) (preq_id q) input x = (Inr res, s2)"
    using assms(2,6) get by (auto simp: approveMemoryLedgerPostingRequest_def split: if_splits)
  then have "q \<notin> set (store_ledgerPostingRequests s2)"
  proof (cases rule: postPendingRequest_cases)
    case (posted p y)
    then have "y \<noteq> q" using key by auto
    then show ?thesis using posted(5) by (auto simp: replaceRequest_def replace_where_def)
  qed auto
  then show ?thesis using r s1 get by simp
qed

subsection \<open>Worked runs\<close>

definition ex_store :: MemoryLedgerStore where
  "ex_store = \<lparr>store_matters = [], store_contacts = [], store_matterParties = [],
     store_ledgerAccounts = ex_accounts, store_postedTransactions = [], store_ledgerPostingRequests = []\<rparr>"

definition ex_store_deposit :: MemoryLedgerStore where
  "ex_store_deposit = ex_store\<lparr>store_postedTransactions := [posted_of ex_deposit]\<rparr>"

definition ex_posting_input :: "string \<Rightarrow> LedgerTransaction \<Rightarrow> PostingRequestInput" where
  "ex_posting_input i t = \<lparr>pin_id = i, pin_preparedByUserId = ''maker'', pin_preparedAt = ''2026-01-01'',
     pin_transaction = t, pin_status = None, pin_reviewedByUserId = None, pin_reviewedAt = None,
     pin_preparationNotes = None, pin_reviewNotes = None, pin_rejectionReason = None,
     pin_ledgerTransactionId = None\<rparr>"

definition ex_posting_request :: "string \<Rightarrow> LedgerTransaction \<Rightarrow> LedgerPostingRequestRecord" where
  "ex_posting_request i t = \<lparr>preq_id = i, preq_firmId = tx_firmId t, preq_transactionId = tx_id t,
     preq_idempotencyKey = tx_idempotencyKey t, preq_requestFingerprint = ledgerRequestFingerprint t,
     preq_status = Posting_pending_approval, preq_proposedPostedAt = tx_postedAt t,
     preq_entries = tx_entries t, preq_matterIds = [''m''], preq_clientIds = [''c''],
     preq_accountIds = js_set (map entry_accountId (tx_entries t)),
     preq_reversesTransactionId = tx_reversesTransactionId t, preq_preparedByUserId = ''maker'',
     preq_preparedAt = ''2026-01-01'', preq_preparationNotes = None, preq_reviewedByUserId = None,
     preq_reviewedAt = None, preq_reviewNotes = None, preq_rejectionReason = None,
     preq_ledgerTransactionId = None\<rparr>"

lemma ex_request_valid:
  assumes "t = ex_payment \<or> t = ex_payment\<lparr>tx_id := ''t7'', tx_idempotencyKey := ''k7''\<rparr>" and "i \<in> {''r1'', ''r2''}"
  shows "validateLedgerPostingRequestRecord (ex_posting_request i t) = Inr ()"
proof -
  have fp: "ledgerRequestFingerprint (ledgerTransactionFromPostingRequest (ex_posting_request i t) u a) = ledgerRequestFingerprint t" for u a
    by (simp add: ledgerRequestFingerprint_inject same_payload_def ex_posting_request_def)
  have bal: "validateBalancedEntries (tx_entries ex_payment) = Inr ()"
    by (simp add: validateBalancedEntries_ok ex_balanced)
  have ids: "js_set (map entry_matterId (tx_entries ex_payment)) = [''m'']" "js_set (map entry_clientId (tx_entries ex_payment)) = [''c'']"
    "tx_entries ex_payment \<noteq> []" "tx_firmId ex_payment = ''f''" "tx_id ex_payment = ''t2''" "tx_idempotencyKey ex_payment = ''k2''"
    by (simp_all add: ex_payment_def ex_transaction_def ex_entry_def js_set_def set_add_def)
  have "tx_entries t = tx_entries ex_payment" "tx_firmId t = ''f''" "tx_id t \<in> {''t2'', ''t7''}" "tx_idempotencyKey t \<in> {''k2'', ''k7''}"
    using assms(1) ids by auto
  then show ?thesis
    using ids assms(2) bal unfolding validateLedgerPostingRequestRecord_def run_checks_ok fp
    by (auto simp: ex_posting_request_def validatePostingStatus_def uniqueInOrder_def is_space_def)
qed

lemma ex_posting_request_built:
  "ledgerPostingRequestFromTransaction (ex_posting_input ''r1'' ex_payment) = Inr (ex_posting_request ''r1'' ex_payment)"
proof -
  have "uniqueInOrder (map entry_matterId (tx_entries ex_payment)) = [''m'']"
    "uniqueInOrder (map entry_clientId (tx_entries ex_payment)) = [''c'']" "tx_requestFingerprint ex_payment = None"
    by (simp_all add: ex_payment_def ex_transaction_def ex_entry_def js_set_def set_add_def uniqueInOrder_def)
  then show ?thesis
    using ex_request_valid [of ex_payment "''r1''"]
    by (simp add: ledgerPostingRequestFromTransaction_def ex_posting_input_def ex_posting_request_def
        effectiveFingerprint_def uniqueInOrder_def)
qed

lemma ex_deposit_posts: "postMemoryLedgerTransaction ex_store ex_deposit = (Inr (posted_of ex_deposit), ex_store_deposit)"
proof -
  have "entry_allowed (posting_state ex_store) ex_deposit (ex_entry a d k)" if "a \<in> {''trust'', ''liab''}" for a d k
  proof -
    have "List.find (\<lambda>x. acct_id x = a) ex_accounts \<noteq> None" using that by (auto simp: ex_accounts_def)
    then show ?thesis
      by (auto simp: entry_allowed_def ex_deposit_balance netLiabilityBalance_eq [of "[]"] ex_entry_def ex_store_def)
  qed
  then have "list_all (entry_allowed (posting_state ex_store) ex_deposit) (tx_entries ex_deposit)"
    by (simp add: ex_deposit_def [THEN arg_cong [where f = tx_entries]] ex_transaction_def)
  moreover have "reversal_ok (store_postedTransactions ex_store) ex_deposit" "findDuplicate (store_postedTransactions ex_store) ex_deposit = None"
    by (simp_all add: reversal_ok_def ex_deposit_def ex_transaction_def findDuplicate_def ex_store_def)
  ultimately have "postLedgerTransaction (posting_state ex_store) ex_deposit = Inr (posted_of ex_deposit)"
    by (simp add: postLedgerTransaction_new ex_balanced)
  then show ?thesis
    by (simp add: postMemoryLedgerTransaction_def ex_store_deposit_def ex_store_def)
qed

definition ex_store_pending :: MemoryLedgerStore where
  "ex_store_pending = ex_store_deposit\<lparr>store_ledgerPostingRequests := [ex_posting_request ''r1'' ex_payment]\<rparr>"

lemma ex_prepares: "prepareMemoryLedgerPostingRequest ex_store_deposit (ex_posting_request ''r1'' ex_payment) =
    (Inr (ex_posting_request ''r1'' ex_payment), ex_store_pending)"
  by (simp add: prepareMemoryLedgerPostingRequest_def ex_request_valid findPostingDuplicate_def
      ex_store_deposit_def ex_store_pending_def ex_store_def)

lemma ex_reachable: "reachable empty_ledger ledger_step ex_store_deposit" "reachable empty_ledger ledger_step ex_store_pending"
proof -
  have "empty_ledger ex_store" by (simp add: empty_ledger_def ex_store_def ex_accounts_consistent)
  then show dep: "reachable empty_ledger ledger_step ex_store_deposit"
    by (rule reach_step [OF reach_init]) (rule step_post [OF ex_deposit_posts])
  have "preq_status (ex_posting_request ''r1'' ex_payment) = Posting_pending_approval"
    by (simp add: ex_posting_request_def)
  then show "reachable empty_ledger ledger_step ex_store_pending"
    by (intro reach_step [OF dep] step_prepare [OF _ ex_prepares])
qed

theorem ledger_store_always_sound_witness:
  "0 \<le> netLiabilityBalance (all_entries (store_postedTransactions ex_store_pending)) ''m'' ''c''
     (liabilityAccountIds (store_ledgerAccounts ex_store_pending))"
  using ledger_store_always_sound [OF ex_reachable(2)] by blast

theorem maker_never_checks_witness:
  "\<not> truthy (preq_reviewedByUserId (ex_posting_request ''r1'' ex_payment))"
  using maker_never_checks [OF ex_reachable(2), of "ex_posting_request ''r1'' ex_payment"]
  by (simp add: ex_store_pending_def) (simp add: ex_posting_request_def)

theorem posting_request_round_trip_witness:
  "ledgerTransactionFromPostingRequest (ex_posting_request ''r1'' ex_payment) ''checker'' None =
    ex_payment\<lparr>tx_requestFingerprint := Some (ledgerRequestFingerprint ex_payment), tx_postedByUserId := ''checker''\<rparr>"
  using posting_request_round_trip [OF ex_posting_request_built, of "''checker''"] by (simp add: ex_posting_input_def)

theorem ledger_calls_retry_safely_witness:
  "postMemoryLedgerTransaction ex_store_deposit ex_deposit = (Inr (posted_of ex_deposit), ex_store_deposit)
   \<and> prepareMemoryLedgerPostingRequest ex_store_pending (ex_posting_request ''r1'' ex_payment) =
      (Inr (ex_posting_request ''r1'' ex_payment), ex_store_pending)"
proof -
  have "fresh_id ex_store ex_deposit" by (simp add: fresh_id_def ex_store_def)
  then show ?thesis using ledger_calls_retry_safely [OF _ ex_deposit_posts ex_prepares] by blast
qed

definition ex_review :: ReviewInput where
  "ex_review = \<lparr>review_reviewedByUserId = ''checker'', review_reviewedAt = ''2026-01-02'', review_reviewNotes = None\<rparr>"

lemma ex_request_transaction:
  "ledgerTransactionFromPostingRequest (ex_posting_request i t) u None =
     t\<lparr>tx_requestFingerprint := Some (ledgerRequestFingerprint t), tx_postedByUserId := u\<rparr>"
  by (simp add: ledgerTransactionFromPostingRequest_def ex_posting_request_def)

lemma ex_payment_variant_posts:
  assumes "t = ex_payment\<lparr>tx_requestFingerprint := x, tx_postedByUserId := u, tx_id := i, tx_idempotencyKey := k\<rparr>" "k \<noteq> ''k1''"
  shows "postLedgerTransaction ex_state t = Inr (posted_of t)"
proof -
  have "findDuplicate [posted_of ex_deposit] t = None"
    using assms by (simp add: findDuplicate_def ex_deposit_def ex_transaction_def)
  moreover have "reversal_ok [posted_of ex_deposit] t"
    by (simp add: assms(1) reversal_ok_def) (simp add: ex_payment_def ex_transaction_def)
  moreover have "tx_entries t = tx_entries ex_payment" using assms(1) by simp
  ultimately show ?thesis
    using ex_entry_allowed [of t] by (simp add: postLedgerTransaction_new ex_balanced)
qed

lemma ex_state_store: "posting_state ex_store_deposit = ex_state" "posting_state ex_store_pending = ex_state"
  by (simp_all add: posting_state_def ex_store_pending_def ex_store_deposit_def ex_store_def ex_state_def)

lemma ex_get: "getMemoryLedgerPostingRequest ex_store_pending ''f'' ''r1'' = Some (ex_posting_request ''r1'' ex_payment)"
  by (simp add: getMemoryLedgerPostingRequest_def ex_store_pending_def ex_posting_request_def)
    (simp add: ex_payment_def ex_transaction_def)

lemma ex_approves_in:
  assumes "getMemoryLedgerPostingRequest s ''f'' ''r1'' = Some (ex_posting_request ''r1'' ex_payment)" "posting_state s = ex_state"
  shows "is_ok (fst (approveMemoryLedgerPostingRequest s ''f'' ''r1'' ex_review))"
proof -
  define t where "t = ledgerTransactionFromPostingRequest (ex_posting_request ''r1'' ex_payment) ''checker'' None"
  have t: "t = ex_payment\<lparr>tx_requestFingerprint := Some (ledgerRequestFingerprint ex_payment),
      tx_postedByUserId := ''checker'', tx_id := ''t2'', tx_idempotencyKey := ''k2''\<rparr>"
    by (simp add: t_def ex_request_transaction) (simp add: ex_payment_def ex_transaction_def)
  have "postLedgerTransaction (posting_state s) t = Inr (posted_of t)"
    using assms(2) ex_payment_variant_posts [OF t] by simp
  moreover have "tx_id t \<noteq> []" by (simp add: t)
  moreover have "preq_status (ex_posting_request ''r1'' ex_payment) = Posting_pending_approval"
    "preq_preparedByUserId (ex_posting_request ''r1'' ex_payment) = ''maker''"
    by (simp_all add: ex_posting_request_def)
  ultimately show ?thesis
    using approve_succeeds [OF assms(1), of ex_review "posted_of t"] ex_request_valid [of ex_payment "''r1''"]
    by (simp add: ex_review_def t_def)
qed

theorem approval_posts_prepared_entries_witness:
  "\<exists>res s'. approveMemoryLedgerPostingRequest ex_store_pending ''f'' ''r1'' ex_review = (Inr res, s')
     \<and> getMemoryLedgerPostingRequest s' ''f'' ''r1'' = Some (approved_request res)"
proof -
  obtain res s' where ok: "approveMemoryLedgerPostingRequest ex_store_pending ''f'' ''r1'' ex_review = (Inr res, s')"
    using ex_approves_in [OF ex_get ex_state_store(2)] by (metis is_ok_iff prod.collapse)
  have "preq_status (ex_posting_request ''r1'' ex_payment) = Posting_pending_approval" by (simp add: ex_posting_request_def)
  from approval_posts_prepared_entries [OF ex_get this ok] show ?thesis using ok by (auto simp: Let_def)
qed

theorem post_with_used_id_is_lost_witness:
  "snd (postMemoryLedgerTransaction ex_store_deposit (ex_payment\<lparr>tx_id := ''t1''\<rparr>)) = ex_store_deposit"
proof -
  let ?t = "ex_payment\<lparr>tx_id := ''t1''\<rparr>"
  have "findDuplicate (store_postedTransactions ex_store_deposit) ?t = None" "\<not> fresh_id ex_store_deposit ?t"
    by (simp_all add: fresh_id_def findDuplicate_def ex_store_deposit_def ex_deposit_def ex_payment_def ex_transaction_def)
  moreover have "postLedgerTransaction (posting_state ex_store_deposit) ?t = Inr (posted_of ?t)"
    unfolding ex_state_store
    by (rule ex_payment_variant_posts [where x = "tx_requestFingerprint ex_payment" and u = "tx_postedByUserId ex_payment"
          and i = "''t1''" and k = "''k2''"])
      (simp_all add: ex_payment_def ex_transaction_def)
  ultimately show ?thesis using post_with_used_id_is_lost [of ex_store_deposit ?t "posted_of ?t"] by simp
qed

theorem prepare_with_used_id_is_lost_witness:
  "\<exists>s1 s2 q res. prepareMemoryLedgerPostingRequest ex_store_pending q = (Inr q, s1)
     \<and> approveMemoryLedgerPostingRequest s1 ''f'' ''r1'' ex_review = (Inr res, s2)
     \<and> q \<notin> set (store_ledgerPostingRequests s2)"
proof -
  define q where "q = ex_posting_request ''r1'' (ex_payment\<lparr>tx_id := ''t7'', tx_idempotencyKey := ''k7''\<rparr>)"
  define s1 where "s1 = ex_store_pending\<lparr>store_ledgerPostingRequests := store_ledgerPostingRequests ex_store_pending @ [q]\<rparr>"
  have f: "preq_firmId q = ''f''" "preq_id q = ''r1''"
    by (simp_all add: q_def ex_posting_request_def ex_payment_def ex_transaction_def)
  have valid: "validateLedgerPostingRequestRecord q = Inr ()" unfolding q_def by (rule ex_request_valid) simp_all
  have none: "findPostingDuplicate ex_store_pending q = None"
    by (simp add: findPostingDuplicate_def ex_store_pending_def q_def ex_posting_request_def)
      (simp add: ex_payment_def ex_transaction_def)
  have prep: "prepareMemoryLedgerPostingRequest ex_store_pending q = (Inr q, s1)"
    using valid none by (simp add: prepareMemoryLedgerPostingRequest_def s1_def)
  have get1: "getMemoryLedgerPostingRequest s1 ''f'' ''r1'' = Some (ex_posting_request ''r1'' ex_payment)"
    using ex_get by (simp add: s1_def getMemoryLedgerPostingRequest_def find_append)
  have "posting_state s1 = ex_state" using ex_state_store(2) by (simp add: s1_def posting_state_def)
  then obtain res s2 where ok: "approveMemoryLedgerPostingRequest s1 ''f'' ''r1'' ex_review = (Inr res, s2)"
    using ex_approves_in [OF get1] by (metis is_ok_iff prod.collapse)
  have "preq_status (ex_posting_request ''r1'' ex_payment) = Posting_pending_approval" by (simp add: ex_posting_request_def)
  then show ?thesis
    using prepare_with_used_id_is_lost [of ex_store_pending q, unfolded f, OF ex_get _ none valid prep ok] prep ok by blast
qed

end
