(* ===== verification/Permissions.thy ===== *)
theory Permissions
  imports Models Js_Date
begin

section \<open>Access control\<close>

text \<open>
  packages/domain/src/permissions.ts: the role table, the matter scope, portal grants, the access
  decision \<open>canAccess\<close> with the functions built on it (job records, dashboard sections, portal
  sharing of documents) and the redaction of job metadata. The clock the code reads with
  \<open>new Date().toISOString()\<close> is the argument \<open>clock\<close>; a table keyed by a union is an association list
  looked up with \<open>map_get\<close>, so that a missing key is \<open>undefined\<close>. A partial table is applied in a case
  expression on the role.
\<close>

subsection \<open>Data\<close>

datatype ResourceKind = Res_firm | Res_contact | Res_matter | Res_document | Res_portal_message
    | Res_signature_request | Res_trust_ledger | Res_time_entry | Res_expense_entry
    | Res_conversation_thread | Res_task | Res_calendar_event | Res_audit_log | Res_intake_session
    | Res_legal_clinic | Res_legal_research | Res_job | Res_report | Res_email | Res_inbound_email
    | Res_document_processing | Res_share_link | Res_external_upload
    | Res_public_consultation_intake | Res_connector | Res_auth_credential | Res_client_portal
    | Res_provider_setting | Res_outbound_webhook | Res_draft | Res_draft_template | Res_ai_proposal

datatype Action = Act_create | Act_read | Act_update | Act_delete | Act_approve | Act_export

primrec resource_name :: "ResourceKind \<Rightarrow> string" where
  "resource_name Res_firm = ''firm''"
| "resource_name Res_contact = ''contact''"
| "resource_name Res_matter = ''matter''"
| "resource_name Res_document = ''document''"
| "resource_name Res_portal_message = ''portal_message''"
| "resource_name Res_signature_request = ''signature_request''"
| "resource_name Res_trust_ledger = ''trust_ledger''"
| "resource_name Res_time_entry = ''time_entry''"
| "resource_name Res_expense_entry = ''expense_entry''"
| "resource_name Res_conversation_thread = ''conversation_thread''"
| "resource_name Res_task = ''task''"
| "resource_name Res_calendar_event = ''calendar_event''"
| "resource_name Res_audit_log = ''audit_log''"
| "resource_name Res_intake_session = ''intake_session''"
| "resource_name Res_legal_clinic = ''legal_clinic''"
| "resource_name Res_legal_research = ''legal_research''"
| "resource_name Res_job = ''job''"
| "resource_name Res_report = ''report''"
| "resource_name Res_email = ''email''"
| "resource_name Res_inbound_email = ''inbound_email''"
| "resource_name Res_document_processing = ''document_processing''"
| "resource_name Res_share_link = ''share_link''"
| "resource_name Res_external_upload = ''external_upload''"
| "resource_name Res_public_consultation_intake = ''public_consultation_intake''"
| "resource_name Res_connector = ''connector''"
| "resource_name Res_auth_credential = ''auth_credential''"
| "resource_name Res_client_portal = ''client_portal''"
| "resource_name Res_provider_setting = ''provider_setting''"
| "resource_name Res_outbound_webhook = ''outbound_webhook''"
| "resource_name Res_draft = ''draft''"
| "resource_name Res_draft_template = ''draft_template''"
| "resource_name Res_ai_proposal = ''ai_proposal''"

primrec action_name :: "Action \<Rightarrow> string" where
  "action_name Act_create = ''create''"
| "action_name Act_read = ''read''"
| "action_name Act_update = ''update''"
| "action_name Act_delete = ''delete''"
| "action_name Act_approve = ''approve''"
| "action_name Act_export = ''export''"

record AccessRequest =
  req_user :: User
  req_resource :: ResourceKind
  req_action :: Action
  req_firmId :: string
  req_matterId :: "string option"
  req_contactId :: "string option"
  req_portalGrants :: "(PortalGrant list) option"
  req_now :: "string option"

datatype OpenPracticeQueueName = Queue_email | Queue_connectors | Queue_document_assembly
    | Queue_inbound_email | Queue_reports | Queue_ai_triage | Queue_ocr | Queue_transcription
    | Queue_media

datatype OpenPracticeJobStatus = Job_queued | Job_active | Job_completed | Job_failed
    | Job_dead_letter | Job_skipped

record JobLifecycleRecord =
  job_id :: string
  job_firmId :: string
  job_queueName :: OpenPracticeQueueName
  job_jobName :: string
  job_bullJobId :: "string option"
  job_idempotencyKey :: "string option"
  job_status :: OpenPracticeJobStatus
  job_targetResourceType :: "string option"
  job_targetResourceId :: "string option"
  job_attemptsMade :: int
  job_maxAttempts :: int
  job_queuedAt :: string
  job_startedAt :: "string option"
  job_finishedAt :: "string option"
  job_failedAt :: "string option"
  job_errorMessage :: "string option"
  job_metadata :: "(string \<times> js_value) list"

subsection \<open>Tables\<close>

primrec rolePermissions :: "ProfessionalRole \<Rightarrow> (ResourceKind \<times> Action list) list" where
  "rolePermissions Role_owner_admin =
     [(Res_firm, [Act_create, Act_read, Act_update, Act_delete, Act_approve, Act_export]),
      (Res_contact, [Act_create, Act_read, Act_update, Act_delete, Act_export]),
      (Res_matter, [Act_create, Act_read, Act_update, Act_delete, Act_approve, Act_export]),
      (Res_document, [Act_create, Act_read, Act_update, Act_delete, Act_approve, Act_export]),
      (Res_portal_message, [Act_create, Act_read, Act_update, Act_delete, Act_export]),
      (Res_signature_request, [Act_create, Act_read, Act_update, Act_delete, Act_approve, Act_export]),
      (Res_trust_ledger, [Act_create, Act_read, Act_approve, Act_export]),
      (Res_time_entry, [Act_create, Act_read, Act_update, Act_delete, Act_approve, Act_export]),
      (Res_expense_entry, [Act_create, Act_read, Act_update, Act_delete, Act_approve, Act_export]),
      (Res_conversation_thread, [Act_create, Act_read, Act_update, Act_delete, Act_export]),
      (Res_task, [Act_create, Act_read, Act_update, Act_delete]),
      (Res_calendar_event, [Act_create, Act_read, Act_update, Act_delete]),
      (Res_audit_log, [Act_read, Act_export]),
      (Res_intake_session, [Act_create, Act_read, Act_update, Act_delete, Act_approve, Act_export]),
      (Res_legal_clinic, [Act_create, Act_read, Act_update, Act_delete, Act_approve, Act_export]),
      (Res_legal_research, [Act_create, Act_read, Act_update, Act_approve, Act_export]),
      (Res_job, [Act_read, Act_update, Act_export]),
      (Res_report, [Act_read, Act_export]),
      (Res_email, [Act_create, Act_read, Act_update, Act_export]),
      (Res_inbound_email, [Act_create, Act_read, Act_update, Act_delete, Act_export]),
      (Res_document_processing, [Act_create, Act_read, Act_update, Act_export]),
      (Res_share_link, [Act_create, Act_read, Act_update, Act_delete, Act_export]),
      (Res_external_upload, [Act_create, Act_read, Act_update, Act_delete, Act_export]),
      (Res_public_consultation_intake, [Act_create, Act_read, Act_update, Act_delete, Act_approve, Act_export]),
      (Res_connector, [Act_create, Act_read, Act_update, Act_delete, Act_export]),
      (Res_auth_credential, [Act_create, Act_read, Act_update, Act_delete, Act_approve]),
      (Res_client_portal, [Act_create, Act_read, Act_update, Act_delete]),
      (Res_provider_setting, [Act_create, Act_read, Act_update, Act_delete, Act_approve, Act_export]),
      (Res_outbound_webhook, [Act_create, Act_read, Act_update, Act_delete, Act_approve, Act_export]),
      (Res_draft, [Act_create, Act_read, Act_update, Act_delete, Act_export]),
      (Res_draft_template, [Act_create, Act_read, Act_update, Act_delete, Act_export]),
      (Res_ai_proposal, [Act_create, Act_read, Act_update, Act_approve, Act_export])]"
| "rolePermissions Role_licensee =
     [(Res_contact, [Act_create, Act_read, Act_update, Act_export]),
      (Res_matter, [Act_create, Act_read, Act_update, Act_approve, Act_export]),
      (Res_document, [Act_create, Act_read, Act_update, Act_delete, Act_approve, Act_export]),
      (Res_portal_message, [Act_create, Act_read, Act_update, Act_export]),
      (Res_signature_request, [Act_create, Act_read, Act_update, Act_approve, Act_export]),
      (Res_trust_ledger, [Act_read, Act_approve, Act_export]),
      (Res_time_entry, [Act_create, Act_read, Act_update, Act_delete, Act_approve, Act_export]),
      (Res_expense_entry, [Act_create, Act_read, Act_update, Act_delete, Act_approve, Act_export]),
      (Res_conversation_thread, [Act_create, Act_read, Act_update, Act_delete, Act_export]),
      (Res_task, [Act_create, Act_read, Act_update, Act_delete]),
      (Res_calendar_event, [Act_create, Act_read, Act_update, Act_delete]),
      (Res_audit_log, [Act_read]),
      (Res_intake_session, [Act_create, Act_read, Act_update, Act_approve, Act_export]),
      (Res_legal_clinic, [Act_create, Act_read, Act_update, Act_approve, Act_export]),
      (Res_legal_research, [Act_create, Act_read, Act_update, Act_approve, Act_export]),
      (Res_job, [Act_read]),
      (Res_email, [Act_create, Act_read, Act_update]),
      (Res_inbound_email, [Act_create, Act_read, Act_update]),
      (Res_document_processing, [Act_create, Act_read, Act_update]),
      (Res_share_link, [Act_create, Act_read, Act_update, Act_delete]),
      (Res_external_upload, [Act_create, Act_read, Act_update, Act_delete]),
      (Res_public_consultation_intake, [Act_create, Act_read, Act_update, Act_approve]),
      (Res_connector, [Act_read]),
      (Res_auth_credential, [Act_create, Act_read, Act_update, Act_delete]),
      (Res_client_portal, [Act_create, Act_read, Act_update]),
      (Res_draft, [Act_create, Act_read, Act_update, Act_delete, Act_export]),
      (Res_draft_template, [Act_create, Act_read, Act_update, Act_export]),
      (Res_ai_proposal, [Act_create, Act_read, Act_update, Act_approve, Act_export])]"
| "rolePermissions Role_firm_member =
     [(Res_contact, [Act_create, Act_read, Act_update]),
      (Res_matter, [Act_read, Act_update]),
      (Res_document, [Act_create, Act_read, Act_update]),
      (Res_portal_message, [Act_create, Act_read]),
      (Res_signature_request, [Act_create, Act_read, Act_update]),
      (Res_time_entry, [Act_create, Act_read, Act_update]),
      (Res_expense_entry, [Act_create, Act_read, Act_update]),
      (Res_conversation_thread, [Act_create, Act_read, Act_update]),
      (Res_task, [Act_create, Act_read, Act_update, Act_delete]),
      (Res_calendar_event, [Act_create, Act_read, Act_update, Act_delete]),
      (Res_intake_session, [Act_create, Act_read, Act_update]),
      (Res_legal_clinic, [Act_read, Act_update]),
      (Res_legal_research, [Act_create, Act_read, Act_update, Act_approve]),
      (Res_email, [Act_create, Act_read]),
      (Res_inbound_email, [Act_read, Act_update]),
      (Res_document_processing, [Act_create, Act_read]),
      (Res_share_link, [Act_read]),
      (Res_external_upload, [Act_create, Act_read]),
      (Res_public_consultation_intake, [Act_read, Act_update]),
      (Res_auth_credential, [Act_read, Act_update]),
      (Res_client_portal, [Act_read]),
      (Res_draft, [Act_create, Act_read, Act_update]),
      (Res_draft_template, [Act_read]),
      (Res_ai_proposal, [Act_create, Act_read, Act_update, Act_approve])]"
| "rolePermissions Role_billing_bookkeeper =
     [(Res_contact, [Act_read]),
      (Res_matter, [Act_read]),
      (Res_trust_ledger, [Act_create, Act_read, Act_export]),
      (Res_time_entry, [Act_create, Act_read, Act_update, Act_approve, Act_export]),
      (Res_expense_entry, [Act_create, Act_read, Act_update, Act_export]),
      (Res_audit_log, [Act_read]),
      (Res_intake_session, [Act_read]),
      (Res_legal_clinic, [Act_read]),
      (Res_job, [Act_read]),
      (Res_report, [Act_read, Act_export]),
      (Res_email, [Act_read]),
      (Res_inbound_email, [Act_read])]"
| "rolePermissions Role_client_external =
     [(Res_document, [Act_create, Act_read]),
      (Res_portal_message, [Act_create, Act_read]),
      (Res_signature_request, [Act_read, Act_approve]),
      (Res_calendar_event, [Act_read]),
      (Res_intake_session, [Act_read]),
      (Res_external_upload, [Act_create, Act_read]),
      (Res_client_portal, [Act_read])]"
| "rolePermissions Role_auditor =
     [(Res_firm, [Act_read]),
      (Res_contact, [Act_read]),
      (Res_matter, [Act_read, Act_export]),
      (Res_document, [Act_read]),
      (Res_signature_request, [Act_read, Act_export]),
      (Res_trust_ledger, [Act_read, Act_export]),
      (Res_time_entry, [Act_read, Act_export]),
      (Res_expense_entry, [Act_read, Act_export]),
      (Res_audit_log, [Act_read, Act_export]),
      (Res_intake_session, [Act_read, Act_export]),
      (Res_conversation_thread, [Act_read, Act_export]),
      (Res_legal_clinic, [Act_read, Act_export]),
      (Res_legal_research, [Act_read, Act_export]),
      (Res_job, [Act_read, Act_export]),
      (Res_report, [Act_read, Act_export]),
      (Res_email, [Act_read, Act_export]),
      (Res_inbound_email, [Act_read, Act_export]),
      (Res_document_processing, [Act_read, Act_export]),
      (Res_share_link, [Act_read, Act_export]),
      (Res_external_upload, [Act_read, Act_export]),
      (Res_public_consultation_intake, [Act_read, Act_export]),
      (Res_connector, [Act_read, Act_export]),
      (Res_auth_credential, [Act_read]),
      (Res_client_portal, [Act_read, Act_export]),
      (Res_provider_setting, [Act_read]),
      (Res_outbound_webhook, [Act_read]),
      (Res_ai_proposal, [Act_read, Act_export])]"

definition matterScopedResources :: "ResourceKind list" where
  "matterScopedResources =
     [Res_matter,
      Res_document,
      Res_portal_message,
      Res_signature_request,
      Res_trust_ledger,
      Res_time_entry,
      Res_expense_entry,
      Res_conversation_thread,
      Res_task,
      Res_calendar_event,
      Res_intake_session,
      Res_legal_research,
      Res_email,
      Res_inbound_email,
      Res_document_processing,
      Res_share_link,
      Res_external_upload,
      Res_draft,
      Res_ai_proposal]"

definition firmWideJobRoles :: "ProfessionalRole list" where
  "firmWideJobRoles = [Role_owner_admin, Role_auditor]"

definition safeJobMetadataKeys :: "string list" where
  "safeJobMetadataKeys =
     [''attachmentCount'', ''attachmentId'', ''artifactId'', ''artifactKind'', ''artifactCount'',
      ''attemptNumber'', ''bullJobId'', ''citationReferenceCount'', ''citationReviewRequired'',
      ''citationVerificationClaims'', ''checksumStatus'', ''confidence'', ''conflictSummaryCount'',
      ''contextLinkCount'', ''contactId'', ''downstreamMutation'', ''documentId'',
      ''documentHoldCueCount'', ''documentCount'', ''downloadExpiresAt'', ''estimatedPageCount'',
      ''extractionEngine'', ''extractionId'', ''extractionStatus'', ''generatedDocumentCount'',
      ''generatedDocumentIdCount'', ''generatedDocumentIds'', ''draftAssistRecordId'', ''draftId'',
      ''deadLetterCount'', ''deletionAutomation'', ''deliveredCount'', ''emailId'',
      ''enqueueStatus'', ''eventCount'', ''evidenceKeyCount'', ''expenseEntryCount'',
      ''exportBodyStoredInJobMetadata'', ''fieldProfileId'', ''exportProfileId'', ''failedCount'',
      ''firmId'', ''generatedAt'', ''generatedCategoryCount'', ''inboundMessageId'',
      ''intakeSessionId'', ''idempotencyKeyPresent'', ''instructionLength'', ''invoiceCount'',
      ''jobId'', ''jurisdiction'', ''legalHoldOverride'', ''legalHoldPosture'', ''groupingKey'',
      ''language'', ''leasedCount'', ''matterId'', ''matterAssociationCount'', ''matterScoped'',
      ''maxAttempts'', ''messageCount'', ''nextRetryAt'', ''ocrInputStatus'',
      ''ownerReviewRequired'', ''provider'', ''providerConfigured'', ''providerCount'',
      ''providerEvidenceStored'', ''providerFailureStage'', ''providerPosture'',
      ''providerMessageId'', ''providerModel'', ''providerPayloadStored'', ''providerStatus'',
      ''promptIncluded'', ''pageBreakCount'', ''paragraphCount'', ''proposalCount'',
      ''proposalId'', ''proposalKind'', ''proposalKindCount'', ''proposalKinds'', ''reviewOnly'',
      ''reviewState'', ''proposalSummaryLength'', ''proposalTitleLength'', ''portalGrantCount'',
      ''privacyPosture'', ''purpose'', ''recipientCount'', ''recordCount'',
      ''queuedParserJobCount'', ''rawObjectRecoverable'', ''rawSizeBytes'',
      ''rawStorageKeyPresent'', ''reportDefinitionKey'', ''requestedByUserId'', ''requestType'',
      ''reportScope'', ''reportType'', ''requestId'', ''redactedAuthorizedProjection'',
      ''recoveryPosture'', ''resourceId'', ''resourceType'', ''retainedExportArtifact'',
      ''retentionDeadline'', ''retentionHoldCueCount'', ''retentionPosture'',
      ''reviewReasonPresent'', ''retryScheduleFailedCount'', ''retryScheduledCount'', ''rowCount'',
      ''scanStatus'', ''source'', ''sourceTextIncluded'', ''sourceTextLength'', ''sourceType'',
      ''sourceTypeCount'', ''sourceTypes'', ''summaryCount'', ''summaryLength'',
      ''summaryPosture'', ''conversionReviewPosture'', ''lineCount'', ''metadataOnly'',
      ''nonEmptyLineCount'', ''storedBody'', ''suggestedTextLength'', ''task'', ''templateKey'',
      ''templateId'', ''templateVersion'', ''answerSnapshotId'', ''packageId'',
      ''packageDocumentCount'', ''automaticDocumentPromotion'', ''automaticMatterCreation'',
      ''terminal'', ''textLength'', ''threadId'', ''timelineEntryCount'', ''timeEntryCount'',
      ''trustTransferRequestCount'', ''wordCount'', ''uidValidity'', ''lastSuccessfullyQueuedUid'',
      ''nextPollJobId'', ''delayMs'']"

definition portalPermissionByResourceAction :: "(ResourceKind \<times> (Action \<times> PortalPermission) list) list" where
  "portalPermissionByResourceAction =
     [(Res_document, [(Act_create, Perm_upload_documents), (Act_read, Perm_view_documents)]),
      (Res_portal_message, [(Act_create, Perm_send_messages), (Act_read, Perm_view_messages)]),
      (Res_external_upload, [(Act_create, Perm_upload_documents), (Act_read, Perm_upload_documents)]),
      (Res_signature_request, [(Act_read, Perm_sign), (Act_approve, Perm_sign)]),
      (Res_client_portal, [(Act_read, Perm_view_matter_summary)])]"

subsection \<open>Portal grants and access\<close>

definition portalGrantIsActive :: "PortalGrant \<Rightarrow> int option \<Rightarrow> bool" where
  "portalGrantIsActive grant now =
     (if grant_status grant \<in> {Some Grant_suspended, Some Grant_revoked, Some Grant_expired} then False
      else if truthy (grant_revokedAt grant) then False
      else if truthy (grant_suspendedAt grant) then False
      else if truthy (grant_expiresAt grant) \<and> js_le (date_parse (or_else (grant_expiresAt grant) [])) now then False
      else True)"

definition grantHasPermission :: "PortalGrant \<Rightarrow> PortalPermission \<Rightarrow> bool" where
  "grantHasPermission grant permission =
     (if permission \<in> set (grant_permissions grant) then True
      else if permission = Perm_view_messages \<or> permission = Perm_send_messages
        then Perm_message \<in> set (grant_permissions grant)
      else if permission = Perm_view_signature_requests then Perm_sign \<in> set (grant_permissions grant)
      else if permission = Perm_view_matter_summary then Perm_view_documents \<in> set (grant_permissions grant)
      else False)"

definition grantMatches :: "AccessRequest \<Rightarrow> PortalGrant \<Rightarrow> bool" where
  "grantMatches request grant =
     (grant_firmId grant = req_firmId request \<and> Some (grant_matterId grant) = req_matterId request
      \<and> Some (grant_contactId grant) = req_contactId request)"

definition hasActivePortalGrant :: "string \<Rightarrow> AccessRequest \<Rightarrow> bool" where
  "hasActivePortalGrant clock request =
     (if \<not> truthy (req_matterId request) \<or> \<not> truthy (req_contactId request) then False
      else if req_resource request = Res_client_portal \<and> req_action request = Act_read then
        (let now = date_parse (or_else (req_now request) clock) in
         list_ex (\<lambda>grant. grantMatches request grant \<and> portalGrantIsActive grant now)
           (or_else (req_portalGrants request) []))
      else case Option.bind (map_get portalPermissionByResourceAction (req_resource request))
                  (\<lambda>actions. map_get actions (req_action request)) of
             None \<Rightarrow> False
           | Some requiredPermission \<Rightarrow>
               (let now = date_parse (or_else (req_now request) clock) in
                list_ex (\<lambda>grant. grantMatches request grant \<and> portalGrantIsActive grant now
                                 \<and> grantHasPermission grant requiredPermission)
                  (or_else (req_portalGrants request) [])))"

definition allowedActions :: "ProfessionalRole \<Rightarrow> ResourceKind \<Rightarrow> Action list" where
  "allowedActions role resource = or_else (map_get (rolePermissions role) resource) []"

definition canAccess :: "string \<Rightarrow> AccessRequest \<Rightarrow> bool" where
  "canAccess clock request =
     (let user = req_user request; role = user_role user; resource = req_resource request;
          action = req_action request in
      if user_firmId user \<noteq> req_firmId request then False
      else if action \<notin> set (allowedActions role resource) then False
      else if role = Role_owner_admin \<or> role = Role_auditor then True
      else if role = Role_billing_bookkeeper \<and> resource = Res_trust_ledger then True
      else if role = Role_client_external then hasActivePortalGrant clock request
      else if resource = Res_matter \<and> action = Act_create then True
      else if resource = Res_calendar_event \<and> \<not> truthy (req_matterId request) then
        (if action = Act_read then True else truthy (req_contactId request))
      else if resource \<in> set matterScopedResources \<and> \<not> truthy (req_matterId request) then False
      else if truthy (req_matterId request)
        then or_else (req_matterId request) [] \<in> set (user_assignedMatterIds user)
      else True)"

definition assertAccess :: "string \<Rightarrow> AccessRequest \<Rightarrow> unit result" where
  "assertAccess clock request =
     throw_if (\<not> canAccess clock request)
       (''Forbidden: '' @ user_displayName (req_user request) @ '' cannot '' @
        action_name (req_action request) @ '' '' @ resource_name (req_resource request))"

subsection \<open>Job records\<close>

definition string_items :: "js_value list \<Rightarrow> string list" where
  "string_items items = List.map_filter (\<lambda>v. case v of JStr s \<Rightarrow> Some s | _ \<Rightarrow> None) items"

definition safeJobMetadataValue :: "string \<Rightarrow> js_value \<Rightarrow> js_value option" where
  "safeJobMetadataValue key v =
     (case v of
        JArr items \<Rightarrow>
          (if key = ''generatedDocumentIds''
           then Some (JArr (map (\<lambda>item. JStr (take 256 item)) (take 50 (string_items items)))) else None)
      | JStr s \<Rightarrow> Some (JStr (take 256 s))
      | JNum n \<Rightarrow> Some (JNum n)
      | JBool b \<Rightarrow> Some (JBool b)
      | _ \<Rightarrow> None)"

definition redactJobMetadata :: "(string \<times> js_value) list \<Rightarrow> (string \<times> js_value) list" where
  "redactJobMetadata metadata =
     foldl (\<lambda>redacted (key, v).
       if key \<notin> set safeJobMetadataKeys then redacted
       else case safeJobMetadataValue key v of None \<Rightarrow> redacted | Some safe \<Rightarrow> map_put redacted key safe)
       [] metadata"

definition jobLifecycleMatterId :: "JobLifecycleRecord \<Rightarrow> string option" where
  "jobLifecycleMatterId record =
     (case map_get (job_metadata record) ''matterId'' of
        Some (JStr s) \<Rightarrow> if trim s \<noteq> [] then Some s else None
      | _ \<Rightarrow> None)"

definition jobReadRequest :: "User \<Rightarrow> string \<Rightarrow> string option \<Rightarrow> AccessRequest" where
  "jobReadRequest user firmId matterId =
     \<lparr>req_user = user, req_resource = Res_job, req_action = Act_read, req_firmId = firmId,
      req_matterId = matterId, req_contactId = None, req_portalGrants = None, req_now = None\<rparr>"

definition canReadJobLifecycleRecord :: "string \<Rightarrow> User \<Rightarrow> string \<Rightarrow> JobLifecycleRecord \<Rightarrow> bool" where
  "canReadJobLifecycleRecord clock user firmId record =
     (if job_firmId record \<noteq> firmId then False
      else if \<not> canAccess clock (jobReadRequest user firmId None) then False
      else if user_role user \<in> set firmWideJobRoles then True
      else case jobLifecycleMatterId record of
             None \<Rightarrow> False
           | Some matterId \<Rightarrow> canAccess clock (jobReadRequest user firmId (Some matterId)))"

subsection \<open>Dashboard sections\<close>

datatype DashboardSectionKey = Section_matters | Section_contacts | Section_funds
    | Section_documents | Section_research | Section_drafting | Section_tasks | Section_calendar
    | Section_billing | Section_reports | Section_signatures | Section_intake | Section_audit

record DashboardSectionCapability =
  cap_key :: DashboardSectionKey
  cap_label :: string
  cap_enabled :: bool
  cap_resource :: ResourceKind
  cap_actions :: "Action list"

record DashboardSection =
  section_key :: DashboardSectionKey
  section_label :: string
  section_resource :: ResourceKind
  section_preferredMatterScopedAction :: "Action option"

definition dashboardSections :: "DashboardSection list" where
  "dashboardSections =
     [\<lparr>section_key = Section_matters, section_label = ''Matters'', section_resource = Res_matter,
       section_preferredMatterScopedAction = Some Act_read\<rparr>,
      \<lparr>section_key = Section_contacts, section_label = ''Contacts'', section_resource = Res_contact,
       section_preferredMatterScopedAction = None\<rparr>,
      \<lparr>section_key = Section_funds, section_label = ''Funds'', section_resource = Res_trust_ledger,
       section_preferredMatterScopedAction = Some Act_read\<rparr>,
      \<lparr>section_key = Section_documents, section_label = ''Documents'', section_resource = Res_document,
       section_preferredMatterScopedAction = Some Act_read\<rparr>,
      \<lparr>section_key = Section_research, section_label = ''Research'', section_resource = Res_legal_research,
       section_preferredMatterScopedAction = Some Act_read\<rparr>,
      \<lparr>section_key = Section_drafting, section_label = ''Drafting'', section_resource = Res_draft,
       section_preferredMatterScopedAction = Some Act_read\<rparr>,
      \<lparr>section_key = Section_tasks, section_label = ''Tasks'', section_resource = Res_task,
       section_preferredMatterScopedAction = Some Act_read\<rparr>,
      \<lparr>section_key = Section_calendar, section_label = ''Calendar'', section_resource = Res_calendar_event,
       section_preferredMatterScopedAction = Some Act_read\<rparr>,
      \<lparr>section_key = Section_billing, section_label = ''Billing'', section_resource = Res_time_entry,
       section_preferredMatterScopedAction = Some Act_read\<rparr>,
      \<lparr>section_key = Section_reports, section_label = ''Reports'', section_resource = Res_report,
       section_preferredMatterScopedAction = None\<rparr>,
      \<lparr>section_key = Section_signatures, section_label = ''Signatures'', section_resource = Res_signature_request,
       section_preferredMatterScopedAction = Some Act_read\<rparr>,
      \<lparr>section_key = Section_intake, section_label = ''Intake'', section_resource = Res_intake_session,
       section_preferredMatterScopedAction = Some Act_read\<rparr>,
      \<lparr>section_key = Section_audit, section_label = ''Audit'', section_resource = Res_audit_log,
       section_preferredMatterScopedAction = None\<rparr>]"

definition dashboardCapability :: "string \<Rightarrow> User \<Rightarrow> string \<Rightarrow> string option \<Rightarrow> DashboardSection \<Rightarrow> DashboardSectionCapability" where
  "dashboardCapability clock user firmId matterId sec =
     \<lparr>cap_key = section_key sec, cap_label = section_label sec,
      cap_enabled = canAccess clock
        \<lparr>req_user = user, req_resource = section_resource sec,
         req_action = or_else (section_preferredMatterScopedAction sec) Act_read, req_firmId = firmId,
         req_matterId = (if section_preferredMatterScopedAction sec \<noteq> None then matterId else None),
         req_contactId = None, req_portalGrants = None, req_now = None\<rparr>,
      cap_resource = section_resource sec,
      cap_actions = allowedActions (user_role user) (section_resource sec)\<rparr>"

definition dashboardCapabilities ::
  "string \<Rightarrow> User \<Rightarrow> string \<Rightarrow> string option \<Rightarrow> DashboardSectionCapability list" where
  "dashboardCapabilities clock user firmId matterId =
     map (dashboardCapability clock user firmId matterId) dashboardSections"

subsection \<open>Sharing documents\<close>

definition defaultPortalShareClassifications :: "DocumentClassification list" where
  "defaultPortalShareClassifications = [Class_general, Class_financial, Class_identity]"

definition canShareDocumentThroughPortal ::
  "string \<Rightarrow> DocumentRecord \<Rightarrow> PortalGrant \<Rightarrow> string option \<Rightarrow> DocumentClassification list option \<Rightarrow> bool" where
  "canShareDocumentThroughPortal clock doc grant nowInput allowedInput =
     (let allowedClassifications = or_else allowedInput defaultPortalShareClassifications;
          now = date_parse (or_else nowInput clock) in
      if doc_firmId doc \<noteq> grant_firmId grant then False
      else if doc_matterId doc \<noteq> grant_matterId grant then False
      else if \<not> grantHasPermission grant Perm_view_documents then False
      else if \<not> portalGrantIsActive grant now then False
      else if doc_legalHold doc then False
      else if truthy (doc_supersededAt doc) then False
      else if doc_classification doc \<notin> set allowedClassifications then False
      else if doc_uploadStatus doc \<noteq> Upload_verified then False
      else if truthy (doc_externalUploadLinkId doc) \<and> doc_reviewStatus doc \<noteq> Review_accepted then False
      else if doc_checksumStatus doc \<noteq> Checksum_verified
              \<and> \<not> (truthy (doc_externalUploadLinkId doc) \<and> doc_checksumStatus doc = Checksum_duplicate)
        then False
      else doc_scanStatus doc = Scan_passed \<or> doc_scanStatus doc = Scan_not_required)"

subsection \<open>Scope of an access decision\<close>

definition staff_roles :: "ProfessionalRole list" where
  "staff_roles = [Role_licensee, Role_firm_member, Role_billing_bookkeeper]"

text \<open>
  C16. An allowed request stays in its firm, uses an action the role table lists, and, for licensees,
  firm members and bookkeepers, stays in scope: a named matter is one the user is assigned to, and a
  request on a matter-scoped resource names a matter. The exceptions are the ones the code makes:
  the bookkeeper's trust ledger, creating a matter, and calendar events of no matter.
\<close>

theorem canAccess_scope:
  assumes "canAccess clock r"
  shows "user_firmId (req_user r) = req_firmId r
    \<and> req_action r \<in> set (allowedActions (user_role (req_user r)) (req_resource r))
    \<and> (user_role (req_user r) \<in> set staff_roles
        \<and> \<not> (user_role (req_user r) = Role_billing_bookkeeper \<and> req_resource r = Res_trust_ledger)
        \<and> \<not> (req_resource r = Res_matter \<and> req_action r = Act_create) \<longrightarrow>
        (truthy (req_matterId r) \<longrightarrow> the (req_matterId r) \<in> set (user_assignedMatterIds (req_user r)))
        \<and> (req_resource r \<in> set matterScopedResources \<and> req_resource r \<noteq> Res_calendar_event
             \<longrightarrow> truthy (req_matterId r)))"
  using assms
  by (auto simp: canAccess_def Let_def staff_roles_def truthy_def split: if_splits option.splits)

definition grant_covers :: "string \<Rightarrow> AccessRequest \<Rightarrow> PortalGrant \<Rightarrow> bool" where
  "grant_covers clock r g =
     (grant_firmId g = user_firmId (req_user r) \<and> req_matterId r = Some (grant_matterId g)
      \<and> req_contactId r = Some (grant_contactId g)
      \<and> grant_status g \<notin> {Some Grant_suspended, Some Grant_revoked, Some Grant_expired}
      \<and> \<not> truthy (grant_revokedAt g) \<and> \<not> truthy (grant_suspendedAt g)
      \<and> \<not> (truthy (grant_expiresAt g)
            \<and> js_le (date_parse (the (grant_expiresAt g))) (date_parse (or_else (req_now r) clock))))"

lemma grant_covers_iff:
  "user_firmId (req_user r) = req_firmId r \<Longrightarrow>
   grant_covers clock r g \<longleftrightarrow> grantMatches r g \<and> portalGrantIsActive g (date_parse (or_else (req_now r) clock))"
  by (cases "grant_expiresAt g") (auto simp: grant_covers_def grantMatches_def portalGrantIsActive_def)

text \<open>
  A client reaches the practice only through a portal grant: a client's request is allowed
  exactly when it is in the client's firm, names a non-empty matter and contact, and some grant of
  the request covers it (same firm, matter and contact; not suspended, revoked or expired; expiry
  time not at or before the request's time), which is enough for reading the portal itself and must
  otherwise carry the permission the portal table asks for. The actions are create, read and approve.
\<close>

theorem client_access_iff_grant:
  assumes "user_role (req_user r) = Role_client_external"
  shows "canAccess clock r \<longleftrightarrow>
    user_firmId (req_user r) = req_firmId r \<and> truthy (req_matterId r) \<and> truthy (req_contactId r)
    \<and> req_action r \<in> {Act_create, Act_read, Act_approve}
    \<and> (\<exists>g \<in> set (or_else (req_portalGrants r) []). grant_covers clock r g
        \<and> (req_resource r = Res_client_portal \<and> req_action r = Act_read
           \<or> (\<exists>p actions. map_get portalPermissionByResourceAction (req_resource r) = Some actions
                \<and> map_get actions (req_action r) = Some p \<and> grantHasPermission g p)))"
proof -
  have table: "req_action r \<in> set (allowedActions Role_client_external (req_resource r)) \<and> req_action r \<in> {Act_create, Act_read, Act_approve}"
    if "req_resource r = Res_client_portal \<and> req_action r = Act_read
      \<or> (\<exists>p actions. map_get portalPermissionByResourceAction (req_resource r) = Some actions
           \<and> map_get actions (req_action r) = Some p)"
    using that by (auto simp: allowedActions_def portalPermissionByResourceAction_def split: if_splits)
  have "hasActivePortalGrant clock r \<longleftrightarrow> truthy (req_matterId r) \<and> truthy (req_contactId r) \<and>
     (\<exists>g \<in> set (or_else (req_portalGrants r) []). grant_covers clock r g
        \<and> (req_resource r = Res_client_portal \<and> req_action r = Act_read
           \<or> (\<exists>p actions. map_get portalPermissionByResourceAction (req_resource r) = Some actions
                \<and> map_get actions (req_action r) = Some p \<and> grantHasPermission g p)))"
    if "user_firmId (req_user r) = req_firmId r"
    by (auto simp: hasActivePortalGrant_def Let_def list_ex_iff grant_covers_iff [OF that] bind_eq_Some_conv
        split: option.splits)
  then show ?thesis
    using assms table by (auto simp: canAccess_def Let_def)
qed

text \<open>
  Duties on the trust ledger are separated: the ledger is append-only (no role may update or
  delete), only administrators and bookkeepers create postings, only administrators and licensees
  approve them, and firm members and clients have no access at all.
\<close>

theorem trust_ledger_duties:
  assumes "canAccess clock r" and "req_resource r = Res_trust_ledger"
  shows "req_action r \<notin> {Act_update, Act_delete}
    \<and> (req_action r = Act_create \<longrightarrow> user_role (req_user r) \<in> {Role_owner_admin, Role_billing_bookkeeper})
    \<and> (req_action r = Act_approve \<longrightarrow> user_role (req_user r) \<in> {Role_owner_admin, Role_licensee})
    \<and> user_role (req_user r) \<notin> {Role_firm_member, Role_client_external}"
proof -
  have "req_action r \<in> set (allowedActions (user_role (req_user r)) Res_trust_ledger)"
    using assms by (auto simp: canAccess_def Let_def split: if_splits)
  then show ?thesis
    by (cases "user_role (req_user r)") (auto simp: allowedActions_def)
qed

subsection \<open>Redaction\<close>

definition flat_bounded :: "js_value \<Rightarrow> bool" where
  "flat_bounded v =
     (case v of
        JNum n \<Rightarrow> True
      | JBool b \<Rightarrow> True
      | JStr s \<Rightarrow> length s \<le> 256
      | JArr items \<Rightarrow> length items \<le> 50 \<and> list_all (\<lambda>v. case v of JStr s \<Rightarrow> length s \<le> 256 | _ \<Rightarrow> False) items
      | _ \<Rightarrow> False)"

lemma safeJobMetadataValue_flat: "safeJobMetadataValue key v = Some w \<Longrightarrow> flat_bounded w"
  by (auto simp: safeJobMetadataValue_def flat_bounded_def list_all_iff split: js_value.splits if_splits)

lemma string_items_JStr [simp]: "string_items (map (\<lambda>x. JStr (f x)) xs) = map f xs"
  by (simp add: string_items_def map_filter_map_filter map_filter_def comp_def)

lemma safeJobMetadataValue_idem: "safeJobMetadataValue key v = Some w \<Longrightarrow> safeJobMetadataValue key w = Some w"
  by (auto simp: safeJobMetadataValue_def split: js_value.splits if_splits)

lemma redact_fold:
  "foldl (\<lambda>redacted (key, v).
       if key \<notin> set safeJobMetadataKeys then redacted
       else case safeJobMetadataValue key v of None \<Rightarrow> redacted | Some safe \<Rightarrow> map_put redacted key safe) acc metadata =
   foldl (\<lambda>m (k, v). map_put m k v) acc
     (List.map_filter (\<lambda>(k, v). if k \<in> set safeJobMetadataKeys
        then map_option (Pair k) (safeJobMetadataValue k v) else None) metadata)"
  by (induction metadata arbitrary: acc) (auto simp: map_filter_simps split: option.splits)

lemma foldl_map_put_distinct:
  "distinct (map fst (acc @ kvs)) \<Longrightarrow> foldl (\<lambda>m (k, v). map_put m k v) acc kvs = acc @ kvs"
proof (induction kvs arbitrary: acc)
  case (Cons kv kvs)
  obtain k v where kv: "kv = (k, v)" by (cases kv)
  have "map_put m k v = m @ [(k, v)]" if "k \<notin> fst ` set m" for m :: "('a \<times> 'b) list"
    using that by (induction m) auto
  then have "map_put acc k v = acc @ [(k, v)]" using Cons.prems kv by auto
  then show ?case using Cons.IH [of "acc @ [(k, v)]"] Cons.prems kv by simp
qed simp

lemma distinct_map_filter_keys:
  assumes "distinct (map fst kvs)" "\<And>kv kw. f kv = Some kw \<Longrightarrow> fst kw = fst kv"
  shows "distinct (map fst (List.map_filter f kvs))"
  using assms(1)
proof (induction kvs)
  case (Cons kv kvs)
  have "fst ` set (List.map_filter f kvs) \<subseteq> fst ` set kvs"
    using assms(2) by (auto simp: map_filter_def rev_image_eqI)
  then show ?case using Cons assms(2) by (auto simp: map_filter_simps split: option.splits)
qed (simp add: map_filter_simps)

lemma map_filter_fixed: "(\<And>x. x \<in> set xs \<Longrightarrow> f x = Some x) \<Longrightarrow> List.map_filter f xs = xs"
  by (induction xs) (auto simp: map_filter_simps)

lemma redactJobMetadata_filter:
  assumes "distinct (map fst metadata)"
  shows "redactJobMetadata metadata = List.map_filter (\<lambda>(k, v). if k \<in> set safeJobMetadataKeys
        then map_option (Pair k) (safeJobMetadataValue k v) else None) metadata"
  unfolding redactJobMetadata_def redact_fold
  by (subst foldl_map_put_distinct) (auto intro!: distinct_map_filter_keys [OF assms] split: if_splits)

text \<open>
  Redacted job metadata holds only listed keys, each with a number, a boolean, a string of at
  most 256 characters or at most 50 such strings: no object and no unlisted key leaves the function,
  and redacting again changes nothing.
\<close>

theorem redactJobMetadata_safe:
  assumes "distinct (map fst metadata)"
  shows "list_all (\<lambda>(k, v). k \<in> set safeJobMetadataKeys \<and> flat_bounded v) (redactJobMetadata metadata)
    \<and> redactJobMetadata (redactJobMetadata metadata) = redactJobMetadata metadata"
proof -
  let ?f = "\<lambda>(k, v). if k \<in> set safeJobMetadataKeys then map_option (Pair k) (safeJobMetadataValue k v) else None"
  have eq: "redactJobMetadata metadata = List.map_filter ?f metadata" by (rule redactJobMetadata_filter [OF assms])
  have ok: "k \<in> set safeJobMetadataKeys \<and> flat_bounded v \<and> ?f (k, v) = Some (k, v)"
    if "(k, v) \<in> set (List.map_filter ?f metadata)" for k v
    using that by (auto simp: map_filter_def safeJobMetadataValue_idem dest: safeJobMetadataValue_flat split: if_splits)
  have "distinct (map fst (redactJobMetadata metadata))"
    unfolding eq by (rule distinct_map_filter_keys [OF assms]) (auto split: if_splits)
  from redactJobMetadata_filter [OF this]
  have "redactJobMetadata (redactJobMetadata metadata) = List.map_filter ?f (List.map_filter ?f metadata)"
    unfolding eq .
  also have "\<dots> = List.map_filter ?f metadata"
  proof (rule map_filter_fixed)
    fix kv assume "kv \<in> set (List.map_filter ?f metadata)"
    then show "?f kv = Some kv" using ok [of "fst kv" "snd kv"] unfolding prod.collapse by blast
  qed
  finally have "redactJobMetadata (redactJobMetadata metadata) = redactJobMetadata metadata" using eq by simp
  moreover have "list_all (\<lambda>(k, v). k \<in> set safeJobMetadataKeys \<and> flat_bounded v) (redactJobMetadata metadata)"
    unfolding eq list_all_iff by (clarify, drule ok, simp)
  ultimately show ?thesis by blast
qed

text \<open>
  A document is shared through the portal only when it is safe to: same firm and matter as an
  active grant that may view documents, not under legal hold, not superseded, uploaded and scanned,
  with a verified checksum (or a reviewed duplicate from an upload link), and, unless the caller
  allows more classifications, never privileged or work product.
\<close>

theorem canShareDocumentThroughPortal_safe:
  assumes "canShareDocumentThroughPortal clock doc g now allowed"
  shows "doc_firmId doc = grant_firmId g \<and> doc_matterId doc = grant_matterId g
    \<and> grant_status g \<notin> {Some Grant_suspended, Some Grant_revoked, Some Grant_expired}
    \<and> \<not> truthy (grant_revokedAt g) \<and> Perm_view_documents \<in> set (grant_permissions g)
    \<and> \<not> doc_legalHold doc \<and> \<not> truthy (doc_supersededAt doc) \<and> doc_uploadStatus doc = Upload_verified
    \<and> doc_scanStatus doc \<in> {Scan_passed, Scan_not_required}
    \<and> (doc_checksumStatus doc = Checksum_verified
       \<or> doc_checksumStatus doc = Checksum_duplicate \<and> doc_reviewStatus doc = Review_accepted)
    \<and> (allowed = None \<longrightarrow> doc_classification doc \<notin> {Class_privileged, Class_work_product})"
  using assms
  by (auto simp: canShareDocumentThroughPortal_def Let_def portalGrantIsActive_def grantHasPermission_def
      defaultPortalShareClassifications_def split: if_splits)

subsection \<open>Worked requests\<close>

definition ex_user :: "ProfessionalRole \<Rightarrow> User" where
  "ex_user role = \<lparr>user_id = ''u'', user_firmId = ''f'', user_displayName = ''U'', user_email = ''u@f'',
     user_role = role, user_assignedMatterIds = [''m''], user_mfaEnabled = True,
     user_practitionerProfile = None\<rparr>"

definition ex_grant :: PortalGrant where
  "ex_grant = \<lparr>grant_id = ''g'', grant_firmId = ''f'', grant_matterId = ''m'', grant_contactId = ''c'',
     grant_accountUserId = None, grant_grantedByUserId = ''u'', grant_status = Some Grant_active,
     grant_expiresAt = None, grant_revokedAt = None, grant_suspendedAt = None,
     grant_invitedAt = None, grant_activatedAt = None, grant_revokedByUserId = None,
     grant_updatedByUserId = None, grant_createdAt = None, grant_updatedAt = None,
     grant_permissions = [Perm_view_documents]\<rparr>"

definition ex_request :: "ProfessionalRole \<Rightarrow> ResourceKind \<Rightarrow> Action \<Rightarrow> AccessRequest" where
  "ex_request role resource action = \<lparr>req_user = ex_user role, req_resource = resource, req_action = action,
     req_firmId = ''f'', req_matterId = Some ''m'', req_contactId = Some ''c'',
     req_portalGrants = Some [ex_grant], req_now = Some ''2026-01-01''\<rparr>"

lemmas ex_access_defs = ex_user_def ex_grant_def ex_request_def canAccess_def allowedActions_def Let_def

theorem canAccess_scope_witness:
  "the (req_matterId (ex_request Role_licensee Res_document Act_read)) \<in> set (user_assignedMatterIds (ex_user Role_licensee))"
proof -
  have "canAccess ''now'' (ex_request Role_licensee Res_document Act_read)"
    by (simp add: ex_access_defs matterScopedResources_def)
  from canAccess_scope [OF this] show ?thesis
    by (simp add: ex_request_def ex_user_def staff_roles_def)
qed

theorem client_access_iff_grant_witness:
  "canAccess ''now'' (ex_request Role_client_external Res_document Act_read)"
  using client_access_iff_grant [of "ex_request Role_client_external Res_document Act_read" "''now''"]
  by (simp add: ex_request_def ex_user_def ex_grant_def grant_covers_def portalPermissionByResourceAction_def
      grantHasPermission_def)

theorem trust_ledger_duties_witness:
  "canAccess ''now'' (ex_request Role_licensee Res_trust_ledger Act_approve)
   \<and> req_action (ex_request Role_licensee Res_trust_ledger Act_approve) \<notin> {Act_update, Act_delete}"
proof -
  have "canAccess ''now'' (ex_request Role_licensee Res_trust_ledger Act_approve)"
    by (simp add: ex_access_defs matterScopedResources_def)
  with trust_ledger_duties [OF this] show ?thesis by (simp add: ex_request_def)
qed

theorem redactJobMetadata_safe_witness:
  "redactJobMetadata (redactJobMetadata [(''apiKey'', JStr ''secret''), (''rowCount'', JNum 3)]) =
   redactJobMetadata [(''apiKey'', JStr ''secret''), (''rowCount'', JNum 3)]"
  using redactJobMetadata_safe [of "[(''apiKey'', JStr ''secret''), (''rowCount'', JNum 3)]"] by simp

definition ex_document :: DocumentRecord where
  "ex_document = \<lparr>doc_id = ''d'', doc_firmId = ''f'', doc_matterId = ''m'', doc_title = ''T'', doc_storageKey = ''s'',
     doc_checksumSha256 = ''x'', doc_sizeBytes = None, doc_version = 1, doc_classification = Class_general,
     doc_legalHold = False, doc_uploadStatus = Upload_verified, doc_checksumStatus = Checksum_verified,
     doc_scanStatus = Scan_passed, doc_reviewStatus = Review_not_required, doc_reviewDecision = None,
     doc_reviewReason = None, doc_reviewMetadata = [], doc_reviewedByUserId = None, doc_reviewedAt = None,
     doc_externalUploadLinkId = None, doc_duplicateOfDocumentId = None, doc_supersedesDocumentId = None,
     doc_supersededAt = None, doc_uploadedAt = None, doc_verifiedAt = None, doc_createdAt = None\<rparr>"

theorem canShareDocumentThroughPortal_safe_witness:
  "canShareDocumentThroughPortal ''now'' ex_document ex_grant None None \<and> \<not> doc_legalHold ex_document"
proof -
  have "canShareDocumentThroughPortal ''now'' ex_document ex_grant None None"
    by (simp add: canShareDocumentThroughPortal_def ex_document_def ex_grant_def grantHasPermission_def
        portalGrantIsActive_def defaultPortalShareClassifications_def)
  with canShareDocumentThroughPortal_safe [OF this] show ?thesis by simp
qed

end
