(* ===== verification/Reconciliation.thy ===== *)
theory Reconciliation
  imports Posting_Request Js_Date
begin

section \<open>Statement import, reconciliation and ledger diagnostics\<close>

text \<open>
  The reconciliation half of packages/domain/src/ledger.ts: the preview of an imported bank statement
  (duplicate detection and proposed matches), the validation of reconciliation, resolution, import
  batch and profile records, the diagnostics of the ledger controls, the review summaries and the
  freshness review. Checks that a value is one of a union's literals are discharged by the types.
  \<open>localeCompare\<close> is the argument \<open>collate\<close>: its order is the runtime's collation, so the theorems that
  need it assume it is a consistent comparator. The clock is an argument too.
\<close>

subsection \<open>Data\<close>

datatype LedgerApprovalDecision = Approval_approved | Approval_rejected

record LedgerTransactionApprovalRecord =
  appr_id :: string
  appr_firmId :: string
  appr_transactionId :: string
  appr_decidedByUserId :: string
  appr_decision :: LedgerApprovalDecision
  appr_decidedAt :: string
  appr_notes :: "string option"

datatype LedgerReconciliationStatus = Recon_draft | Recon_matched | Recon_exception | Recon_reviewed

datatype LedgerStatementRowReviewDecision = Row_matched | Row_unmatched

datatype LedgerReconciliationExceptionVarianceDecision = Variance_ledger_entry_expected
    | Variance_statement_duplicate | Variance_statement_source_issue
    | Variance_operational_variance_acknowledged | Variance_needs_follow_up

record LedgerReconciliationStatementRow =
  row_id :: string
  row_postedAt :: string
  row_description :: string
  row_amountCents :: int
  row_reference :: "string option"
  row_matchedLedgerEntryIds :: "string list"
  row_reviewDecision :: LedgerStatementRowReviewDecision
  row_reviewedByUserId :: "string option"
  row_reviewedAt :: "string option"
  row_notes :: "string option"

record LedgerReconciliationRecord =
  recon_id :: string
  recon_firmId :: string
  recon_accountId :: string
  recon_statementPeriodStart :: string
  recon_statementPeriodEnd :: string
  recon_beginningBalanceCents :: int
  recon_endingBalanceCents :: int
  recon_expectedBalanceCents :: int
  recon_actualBalanceCents :: int
  recon_status :: LedgerReconciliationStatus
  recon_reviewedByUserId :: "string option"
  recon_statementRows :: "LedgerReconciliationStatementRow list"
  recon_varianceExplanation :: "string option"
  recon_evidence :: "(string \<times> js_value) list"
  recon_createdAt :: string

record LedgerReconciliationExceptionResolutionStatementRow =
  rrow_id :: string
  rrow_postedAt :: string
  rrow_description :: string
  rrow_amountCents :: int
  rrow_reference :: "string option"
  rrow_duplicateKey :: string
  rrow_duplicateOfRowId :: "string option"
  rrow_reviewDecision :: LedgerStatementRowReviewDecision

record LedgerStatementImportPreviewRowInput =
  srow_id :: string
  srow_postedAt :: string
  srow_description :: string
  srow_amountCents :: int
  srow_reference :: "string option"

record LedgerReconciliationExceptionResolutionStatementRowInput = LedgerStatementImportPreviewRowInput +
  srow_duplicateOfRowId :: "string option"
  srow_reviewDecision :: LedgerStatementRowReviewDecision

record LedgerReconciliationExceptionResolutionRecord =
  resol_id :: string
  resol_firmId :: string
  resol_accountId :: string
  resol_statementRow :: LedgerReconciliationExceptionResolutionStatementRow
  resol_varianceDecision :: LedgerReconciliationExceptionVarianceDecision
  resol_resolutionNote :: string
  resol_recordedByUserId :: string
  resol_recordedAt :: string

record LedgerReconciliationReviewSummary =
  rsum_importedStatementRowCount :: int
  rsum_matchedStatementRowCount :: int
  rsum_unmatchedStatementRowCount :: int
  rsum_varianceCents :: int

datatype MatchConfidence = Confidence_exact | Confidence_amount_and_description | Confidence_amount_only

record LedgerStatementImportPreviewMatch =
  match_ledgerEntryId :: string
  match_transactionId :: string
  match_postedAt :: string
  match_amountCents :: int
  match_memo :: string
  match_confidence :: MatchConfidence
  match_reasons :: "string list"

record LedgerStatementImportPreviewRow =
  prow_id :: string
  prow_postedAt :: string
  prow_description :: string
  prow_amountCents :: int
  prow_reference :: "string option"
  prow_duplicateKey :: string
  prow_duplicateOfRowId :: "string option"
  prow_reviewDecision :: LedgerStatementRowReviewDecision
  prow_proposedMatches :: "LedgerStatementImportPreviewMatch list"

record LedgerStatementImportPreview =
  prev_accountId :: string
  prev_importedStatementRowCount :: int
  prev_uniqueStatementRowCount :: int
  prev_duplicateStatementRowCount :: int
  prev_proposedMatchedStatementRowCount :: int
  prev_rows :: "LedgerStatementImportPreviewRow list"
  prev_postingPolicy :: string

datatype LedgerStatementImportBatchStatus = Batch_previewed | Batch_review_ready | Batch_discarded

record LedgerStatementImportBatchRecord =
  batch_id :: string
  batch_firmId :: string
  batch_accountId :: string
  batch_sourceLabel :: string
  batch_checksumSha256 :: string
  batch_importedStatementRowCount :: int
  batch_duplicateStatementRowCount :: int
  batch_status :: LedgerStatementImportBatchStatus
  batch_matchingProfileId :: "string option"
  batch_createdByUserId :: string
  batch_createdAt :: string

datatype LedgerStatementMatchReferenceStrategy = RefStrategy_strict_reference
    | RefStrategy_normalized_reference | RefStrategy_date_amount_reference
    | RefStrategy_amount_only_review

datatype LedgerStatementMatchDescriptionStrategy = DescStrategy_exact
    | DescStrategy_normalized_contains | DescStrategy_review_required

record LedgerStatementMatchRuleProfileRecord =
  rule_id :: string
  rule_firmId :: string
  rule_accountId :: string
  rule_name :: string
  rule_referenceStrategy :: LedgerStatementMatchReferenceStrategy
  rule_descriptionStrategy :: LedgerStatementMatchDescriptionStrategy
  rule_dateWindowDays :: int
  rule_amountToleranceCents :: int
  rule_varianceCategories :: "LedgerReconciliationExceptionVarianceDecision list"
  rule_reviewerExplanationRequired :: bool
  rule_reviewOnly :: bool
  rule_createdByUserId :: string
  rule_createdAt :: string
  rule_updatedAt :: string

datatype LedgerAccountingProtectedFundsReviewCadence = Cadence_monthly | Cadence_quarterly
    | Cadence_manual_review

datatype LedgerAccountingBankFeedImportStatus = Feed_not_configured | Feed_metadata_only
    | Feed_review_ready

datatype LedgerAccountingDimensionPosture = Dim_not_applicable | Dim_optional | Dim_required

datatype LedgerAccountingBoundaryPosture = Boundary_trust_only | Boundary_operating_only
    | Boundary_expense_only | Boundary_review_required

record ProtectedFunds =
  funds_protected :: bool
  funds_reason :: "string option"
  funds_reviewCadence :: LedgerAccountingProtectedFundsReviewCadence

record BankFeedImport =
  feed_status :: LedgerAccountingBankFeedImportStatus
  feed_sourceLabel :: "string option"
  feed_lastImportedAt :: "string option"
  feed_automaticMatching :: bool

record AccountingDimensions =
  dims_vendorTracking :: LedgerAccountingDimensionPosture
  dims_expenseCategoryTracking :: LedgerAccountingDimensionPosture
  dims_clientMatterTracking :: string
  dims_notes :: "string option"

record LedgerAccountingReviewProfileRecord =
  prof_id :: string
  prof_firmId :: string
  prof_accountId :: string
  prof_accountType :: LedgerAccountType
  prof_boundaryPosture :: LedgerAccountingBoundaryPosture
  prof_protectedFunds :: ProtectedFunds
  prof_bankFeedImport :: BankFeedImport
  prof_dimensions :: AccountingDimensions
  prof_reviewOnly :: bool
  prof_createdByUserId :: string
  prof_createdAt :: string
  prof_updatedAt :: string

record LedgerControlsLedgerSnapshot =
  ledg_accounts :: "LedgerAccount list"
  ledg_entries :: "LedgerEntry list"
  ledg_trustBalances :: "(string \<times> int) list"

record LedgerControlsDiagnostics =
  diag_pendingApprovalTransactionIds :: "string list"
  diag_rejectedApprovalTransactionIds :: "string list"
  diag_unreconciledAccountIds :: "string list"
  diag_exceptionReconciliationIds :: "string list"
  diag_overdrawnBalanceKeys :: "string list"

record LedgerAccountingReviewSummary =
  asum_matchRuleProfileCount :: int
  asum_accountingProfileCount :: int
  asum_protectedAccountCount :: int
  asum_bankFeedShellCount :: int
  asum_reviewOnly :: bool

record LedgerBankFeedReconciliationReviewSummary =
  bsum_bankFeedShellCount :: int
  bsum_metadataOnlyFeedCount :: int
  bsum_reviewReadyFeedCount :: int
  bsum_importBatchCount :: int
  bsum_previewedImportBatchCount :: int
  bsum_reviewReadyImportBatchCount :: int
  bsum_discardedImportBatchCount :: int
  bsum_importedStatementRowCount :: int
  bsum_duplicateStatementRowCount :: int
  bsum_completedReconciliationCount :: int
  bsum_exceptionReconciliationCount :: int
  bsum_accountsPendingReconciliationCount :: int
  bsum_protectedFundsFeedCount :: int
  bsum_automaticMatching :: bool
  bsum_automaticLedgerPosting :: bool
  bsum_automaticReconciliation :: bool
  bsum_liveBankFeedConnection :: bool
  bsum_trustDisbursementAutomation :: bool
  bsum_importBatchStoragePosture :: string
  bsum_reviewOnly :: bool

datatype LedgerReconciliationFreshnessPosture = Fresh_fresh | Fresh_watch | Fresh_stale
    | Fresh_never_reconciled

record LedgerReconciliationFreshnessRow =
  frow_accountId :: string
  frow_accountName :: string
  frow_posture :: LedgerReconciliationFreshnessPosture
  frow_daysSinceLatestReviewedStatementPeriod :: "int option"
  frow_staleDayCount :: int
  frow_latestReconciliationId :: "string option"
  frow_latestReconciliationStatus :: "LedgerReconciliationStatus option"
  frow_latestReviewedStatementPeriodStart :: "string option"
  frow_latestReviewedStatementPeriodEnd :: "string option"
  frow_exceptionCount :: int
  frow_importedStatementRowCount :: int
  frow_matchedStatementRowCount :: int
  frow_unmatchedStatementRowCount :: int
  frow_reviewOnly :: bool

record LedgerReconciliationFreshnessSummary =
  fsum_accountCount :: int
  fsum_freshCount :: int
  fsum_watchCount :: int
  fsum_staleCount :: int
  fsum_neverReconciledCount :: int
  fsum_totalStaleDayCount :: int
  fsum_maxStaleDayCount :: int
  fsum_latestReviewedStatementPeriodEnd :: "string option"
  fsum_exceptionCount :: int
  fsum_unmatchedStatementRowCount :: int
  fsum_reviewOnly :: bool

record LedgerReconciliationFreshnessReview =
  frev_generatedAt :: string
  frev_freshWithinDays :: int
  frev_watchWithinDays :: int
  frev_rows :: "LedgerReconciliationFreshnessRow list"
  frev_summary :: LedgerReconciliationFreshnessSummary
  frev_reviewOnly :: bool

subsection \<open>Text, dates and rows\<close>

fun collapse_spaces :: "bool \<Rightarrow> string \<Rightarrow> string" where
  "collapse_spaces inside [] = []"
| "collapse_spaces inside (c # cs) =
     (if is_space c then (if inside then collapse_spaces True cs else CHR '' '' # collapse_spaces True cs)
      else c # collapse_spaces False cs)"

definition normalizeStatementText :: "string \<Rightarrow> string" where
  "normalizeStatementText text = collapse_spaces False (to_lower_case (trim text))"

definition statementDateKey :: "string \<Rightarrow> string" where
  "statementDateKey text =
     (case date_parse text of None \<Rightarrow> take 10 text | Some t \<Rightarrow> take 10 (to_iso_string t))"

definition duplicateKeyOf :: "string \<Rightarrow> int \<Rightarrow> string \<Rightarrow> string option \<Rightarrow> string" where
  "duplicateKeyOf postedAt amountCents description reference =
     join ''|'' [statementDateKey postedAt, string_of_int amountCents, normalizeStatementText description,
       normalizeStatementText (or_else reference [])]"

definition ledgerStatementRowDuplicateKey :: "'a LedgerStatementImportPreviewRowInput_scheme \<Rightarrow> string" where
  "ledgerStatementRowDuplicateKey row =
     duplicateKeyOf (srow_postedAt row) (srow_amountCents row) (srow_description row) (srow_reference row)"

definition entryAmountCents :: "'a LedgerEntryInput_scheme \<Rightarrow> int" where
  "entryAmountCents entry = entry_debitCents entry - entry_creditCents entry"

definition matchReasons :: "LedgerStatementImportPreviewRowInput \<Rightarrow> LedgerEntry \<Rightarrow> string list" where
  "matchReasons row entry =
     (let rowDescription = normalizeStatementText (srow_description row);
          rowReference = normalizeStatementText (or_else (srow_reference row) []) in
      [''amount''] @
      (if statementDateKey (entry_postedAt entry) = statementDateKey (srow_postedAt row) then [''date''] else []) @
      (if rowDescription \<noteq> [] \<and> str_includes rowDescription (normalizeStatementText (entry_memo entry))
       then [''description''] else []) @
      (if rowReference \<noteq> [] \<and> list_ex (\<lambda>v. str_includes rowReference (normalizeStatementText v))
            [entry_id entry, entry_transactionId entry, entry_memo entry]
       then [''reference''] else []))"

definition matchConfidence :: "string list \<Rightarrow> MatchConfidence" where
  "matchConfidence reasons =
     (if length reasons = 1 then Confidence_amount_only
      else if ''date'' \<in> set reasons \<and> (''description'' \<in> set reasons \<or> ''reference'' \<in> set reasons)
        then Confidence_exact
      else Confidence_amount_and_description)"

definition proposedMatch ::
  "LedgerStatementImportPreviewRowInput \<Rightarrow> LedgerEntry \<Rightarrow> LedgerStatementImportPreviewMatch option" where
  "proposedMatch row entry =
     (if entryAmountCents entry \<noteq> srow_amountCents row then None
      else let reasons = matchReasons row entry in
        Some \<lparr>match_ledgerEntryId = entry_id entry, match_transactionId = entry_transactionId entry,
              match_postedAt = entry_postedAt entry, match_amountCents = entryAmountCents entry,
              match_memo = entry_memo entry, match_confidence = matchConfidence reasons,
              match_reasons = reasons\<rparr>)"

definition matchRank :: "LedgerStatementImportPreviewMatch \<Rightarrow> int" where
  "matchRank m =
     (case match_confidence m of
        Confidence_exact \<Rightarrow> 3 | Confidence_amount_and_description \<Rightarrow> 2 | Confidence_amount_only \<Rightarrow> 1)"

definition proposedStatementLedgerMatches ::
  "LedgerStatementImportPreviewRowInput \<Rightarrow> LedgerEntry list \<Rightarrow> LedgerStatementImportPreviewMatch list" where
  "proposedStatementLedgerMatches row entries =
     js_sort (\<lambda>left right. matchRank right - matchRank left) (List.map_filter (proposedMatch row) entries)"

definition previewRow ::
  "LedgerEntry list \<Rightarrow> (string \<times> string) list \<Rightarrow> LedgerStatementImportPreviewRowInput
   \<Rightarrow> LedgerStatementImportPreviewRow \<times> (string \<times> string) list" where
  "previewRow entries firstRowIds row =
     (let duplicateKey = ledgerStatementRowDuplicateKey row;
          duplicateOfRowId = map_get firstRowIds duplicateKey;
          firstRowIds' = (if \<not> truthy duplicateOfRowId then map_put firstRowIds duplicateKey (srow_id row)
                          else firstRowIds);
          proposedMatches = (if truthy duplicateOfRowId then [] else proposedStatementLedgerMatches row entries)
      in (\<lparr>prow_id = srow_id row, prow_postedAt = srow_postedAt row, prow_description = srow_description row,
           prow_amountCents = srow_amountCents row, prow_reference = srow_reference row,
           prow_duplicateKey = duplicateKey, prow_duplicateOfRowId = duplicateOfRowId,
           prow_reviewDecision = (if truthy duplicateOfRowId \<or> proposedMatches = [] then Row_unmatched else Row_matched),
           prow_proposedMatches = proposedMatches\<rparr>, firstRowIds'))"

fun previewRows ::
  "LedgerEntry list \<Rightarrow> (string \<times> string) list \<Rightarrow> LedgerStatementImportPreviewRowInput list
   \<Rightarrow> LedgerStatementImportPreviewRow list" where
  "previewRows entries firstRowIds [] = []"
| "previewRows entries firstRowIds (row # rows) =
     (case previewRow entries firstRowIds row of
        (previewed, firstRowIds') \<Rightarrow> previewed # previewRows entries firstRowIds' rows)"

definition previewLedgerStatementImport ::
  "string \<Rightarrow> LedgerStatementImportPreviewRowInput list \<Rightarrow> LedgerEntry list \<Rightarrow> LedgerStatementImportPreview" where
  "previewLedgerStatementImport accountId statementRows ledgerEntries =
     (let rows = previewRows (filter (\<lambda>entry. entry_accountId entry = accountId) ledgerEntries) [] statementRows in
      \<lparr>prev_accountId = accountId, prev_importedStatementRowCount = int (length rows),
       prev_uniqueStatementRowCount = count_where (\<lambda>row. \<not> truthy (prow_duplicateOfRowId row)) rows,
       prev_duplicateStatementRowCount = count_where (\<lambda>row. truthy (prow_duplicateOfRowId row)) rows,
       prev_proposedMatchedStatementRowCount = count_where (\<lambda>row. prow_proposedMatches row \<noteq> []) rows,
       prev_rows = rows, prev_postingPolicy = ''review_only_no_automatic_ledger_posting''\<rparr>)"

definition buildLedgerReconciliationExceptionResolutionStatementRow ::
  "LedgerReconciliationExceptionResolutionStatementRowInput
   \<Rightarrow> LedgerReconciliationExceptionResolutionStatementRow result" where
  "buildLedgerReconciliationExceptionResolutionStatementRow row =
     (if srow_reviewDecision row \<noteq> Row_unmatched
      then throw ''Reconciliation exception resolutions can only reference unmatched rows''
      else Inr \<lparr>rrow_id = srow_id row, rrow_postedAt = srow_postedAt row, rrow_description = srow_description row,
        rrow_amountCents = srow_amountCents row, rrow_reference = srow_reference row,
        rrow_duplicateKey = ledgerStatementRowDuplicateKey row,
        rrow_duplicateOfRowId = srow_duplicateOfRowId row, rrow_reviewDecision = Row_unmatched\<rparr>)"

subsection \<open>Reviews and diagnostics\<close>

definition ledgerReconciliationReviewSummary :: "LedgerReconciliationRecord \<Rightarrow> LedgerReconciliationReviewSummary" where
  "ledgerReconciliationReviewSummary reconciliation =
     \<lparr>rsum_importedStatementRowCount = int (length (recon_statementRows reconciliation)),
      rsum_matchedStatementRowCount = count_where (\<lambda>row. row_reviewDecision row = Row_matched) (recon_statementRows reconciliation),
      rsum_unmatchedStatementRowCount = count_where (\<lambda>row. row_reviewDecision row = Row_unmatched) (recon_statementRows reconciliation),
      rsum_varianceCents = recon_actualBalanceCents reconciliation - recon_expectedBalanceCents reconciliation\<rparr>"

definition ledgerControlsDiagnostics ::
  "LedgerControlsLedgerSnapshot \<Rightarrow> LedgerTransactionApprovalRecord list \<Rightarrow> LedgerReconciliationRecord list
   \<Rightarrow> bool option \<Rightarrow> LedgerControlsDiagnostics" where
  "ledgerControlsDiagnostics ledger approvals reconciliations includeReconciliationDiagnostics =
     (let visibleTransactionIds = uniqueInOrder (map entry_transactionId (ledg_entries ledger));
          approvedOrRejected = set (map appr_transactionId approvals);
          rejected = uniqueInOrder (map appr_transactionId (filter (\<lambda>a. appr_decision a = Approval_rejected) approvals));
          include = or_else includeReconciliationDiagnostics True;
          reconciledAccountIds = set (map recon_accountId
            (filter (\<lambda>r. recon_status r \<in> {Recon_matched, Recon_reviewed}) reconciliations));
          accountIdsWithEntries = set (map entry_accountId (ledg_entries ledger))
      in \<lparr>diag_pendingApprovalTransactionIds = filter (\<lambda>t. t \<notin> approvedOrRejected) visibleTransactionIds,
          diag_rejectedApprovalTransactionIds = rejected,
          diag_unreconciledAccountIds =
            (if include then map acct_id (filter (\<lambda>account. acct_type account = trust_asset
                \<and> acct_id account \<in> accountIdsWithEntries \<and> acct_id account \<notin> reconciledAccountIds) (ledg_accounts ledger))
             else []),
          diag_exceptionReconciliationIds =
            (if include then map recon_id (filter (\<lambda>r. recon_status r = Recon_exception) reconciliations) else []),
          diag_overdrawnBalanceKeys =
            sort (map fst (filter (\<lambda>(key, balanceCents). balanceCents < 0) (ledg_trustBalances ledger)))\<rparr>)"

definition ledgerAccountingReviewSummary ::
  "LedgerStatementMatchRuleProfileRecord list \<Rightarrow> LedgerAccountingReviewProfileRecord list \<Rightarrow> LedgerAccountingReviewSummary" where
  "ledgerAccountingReviewSummary matchRuleProfiles accountingProfiles =
     \<lparr>asum_matchRuleProfileCount = int (length matchRuleProfiles),
      asum_accountingProfileCount = int (length accountingProfiles),
      asum_protectedAccountCount = count_where (\<lambda>p. funds_protected (prof_protectedFunds p)) accountingProfiles,
      asum_bankFeedShellCount = count_where (\<lambda>p. feed_status (prof_bankFeedImport p) \<noteq> Feed_not_configured) accountingProfiles,
      asum_reviewOnly = True\<rparr>"

definition add_where :: "('a \<Rightarrow> bool) \<Rightarrow> ('a \<Rightarrow> 'b) \<Rightarrow> 'b list \<Rightarrow> 'a list \<Rightarrow> 'b list" where
  "add_where p f s xs = foldl (\<lambda>s x. if p x then set_add s (f x) else s) s xs"

definition ledgerBankFeedReconciliationReviewSummary ::
  "LedgerAccountingReviewProfileRecord list \<Rightarrow> LedgerStatementImportBatchRecord list
   \<Rightarrow> LedgerReconciliationRecord list \<Rightarrow> LedgerControlsDiagnostics option
   \<Rightarrow> LedgerBankFeedReconciliationReviewSummary" where
  "ledgerBankFeedReconciliationReviewSummary accountingProfiles importBatches reconciliations diagnostics =
     (let bankFeedProfiles = filter (\<lambda>p. feed_status (prof_bankFeedImport p) \<noteq> Feed_not_configured) accountingProfiles;
          reviewAccountIds = js_set (map prof_accountId bankFeedProfiles @ map batch_accountId importBatches);
          relevant = (if reviewAccountIds \<noteq> []
            then filter (\<lambda>r. recon_accountId r \<in> set reviewAccountIds) reconciliations else []);
          exceptionIds = add_where (\<lambda>r. recon_status r = Recon_exception) recon_id
            (js_set (case diagnostics of None \<Rightarrow> [] | Some d \<Rightarrow> diag_exceptionReconciliationIds d)) relevant;
          pending0 = js_set (case diagnostics of None \<Rightarrow> [] | Some d \<Rightarrow> diag_unreconciledAccountIds d);
          pending1 = add_where (\<lambda>b. batch_status b = Batch_review_ready) batch_accountId pending0 importBatches;
          pendingAccountIds = add_where (\<lambda>p. feed_status (prof_bankFeedImport p) = Feed_review_ready) prof_accountId
            pending1 bankFeedProfiles
      in \<lparr>bsum_bankFeedShellCount = int (length bankFeedProfiles),
          bsum_metadataOnlyFeedCount = count_where (\<lambda>p. feed_status (prof_bankFeedImport p) = Feed_metadata_only) bankFeedProfiles,
          bsum_reviewReadyFeedCount = count_where (\<lambda>p. feed_status (prof_bankFeedImport p) = Feed_review_ready) bankFeedProfiles,
          bsum_importBatchCount = int (length importBatches),
          bsum_previewedImportBatchCount = count_where (\<lambda>b. batch_status b = Batch_previewed) importBatches,
          bsum_reviewReadyImportBatchCount = count_where (\<lambda>b. batch_status b = Batch_review_ready) importBatches,
          bsum_discardedImportBatchCount = count_where (\<lambda>b. batch_status b = Batch_discarded) importBatches,
          bsum_importedStatementRowCount = sum_by batch_importedStatementRowCount importBatches,
          bsum_duplicateStatementRowCount = sum_by batch_duplicateStatementRowCount importBatches,
          bsum_completedReconciliationCount = count_where (\<lambda>r. recon_status r \<in> {Recon_matched, Recon_reviewed}) relevant,
          bsum_exceptionReconciliationCount = count_where (\<lambda>r. recon_id r \<in> set exceptionIds) relevant,
          bsum_accountsPendingReconciliationCount = count_where (\<lambda>a. a \<in> set reviewAccountIds) pendingAccountIds,
          bsum_protectedFundsFeedCount = count_where (\<lambda>p. funds_protected (prof_protectedFunds p)) bankFeedProfiles,
          bsum_automaticMatching = False, bsum_automaticLedgerPosting = False,
          bsum_automaticReconciliation = False, bsum_liveBankFeedConnection = False,
          bsum_trustDisbursementAutomation = False,
          bsum_importBatchStoragePosture = ''metadata_only_no_statement_rows'', bsum_reviewOnly = True\<rparr>)"

subsection \<open>Freshness\<close>

definition parseTimestamp :: "string option \<Rightarrow> int option" where
  "parseTimestamp s = (if \<not> truthy s then None else date_parse (or_else s []))"

definition wholeDaysSince :: "int \<Rightarrow> string option \<Rightarrow> int option" where
  "wholeDaysSince laterMs earlier =
     map_option (\<lambda>earlierMs. max ((laterMs - earlierMs) div ms_per_day) 0) (parseTimestamp earlier)"

definition latestIso :: "string option list \<Rightarrow> string option" where
  "latestIso values =
     map_option to_iso_string
       (foldl (\<lambda>current v. case parseTimestamp v of
            None \<Rightarrow> current
          | Some parsed \<Rightarrow> (case current of None \<Rightarrow> Some parsed
              | Some c \<Rightarrow> if parsed > c then Some parsed else current)) None values)"

definition reconciliationFreshnessPosture :: "int option \<Rightarrow> int \<Rightarrow> int \<Rightarrow> LedgerReconciliationFreshnessPosture" where
  "reconciliationFreshnessPosture days freshWithinDays watchWithinDays =
     (case days of
        None \<Rightarrow> Fresh_never_reconciled
      | Some d \<Rightarrow> if d \<le> freshWithinDays then Fresh_fresh
                  else if d \<le> watchWithinDays then Fresh_watch else Fresh_stale)"

definition period_end_ms :: "LedgerReconciliationRecord \<Rightarrow> int" where
  "period_end_ms r = or_else (parseTimestamp (Some (recon_statementPeriodEnd r))) 0"

definition latestReviewed :: "LedgerReconciliationRecord list \<Rightarrow> LedgerReconciliationRecord option" where
  "latestReviewed rs =
     head (js_sort (\<lambda>left right. period_end_ms right - period_end_ms left)
       (filter (\<lambda>r. recon_status r \<in> {Recon_matched, Recon_exception, Recon_reviewed}) rs))"

definition freshnessRow ::
  "int \<Rightarrow> int \<Rightarrow> int \<Rightarrow> LedgerReconciliationRecord list \<Rightarrow> LedgerAccount \<Rightarrow> LedgerReconciliationFreshnessRow" where
  "freshnessRow generatedAtMs freshWithinDays watchWithinDays reconciliations account =
     (let accountReconciliations = filter (\<lambda>r. recon_accountId r = acct_id account) reconciliations;
          latest = latestReviewed accountReconciliations;
          days = wholeDaysSince generatedAtMs (map_option recon_statementPeriodEnd latest);
          posture = reconciliationFreshnessPosture days freshWithinDays watchWithinDays;
          summaries = map ledgerReconciliationReviewSummary accountReconciliations
      in \<lparr>frow_accountId = acct_id account, frow_accountName = acct_name account, frow_posture = posture,
          frow_daysSinceLatestReviewedStatementPeriod = days,
          frow_staleDayCount = (case days of
              None \<Rightarrow> 0 | Some d \<Rightarrow> if posture = Fresh_stale then max (d - watchWithinDays) 0 else 0),
          frow_latestReconciliationId = map_option recon_id latest,
          frow_latestReconciliationStatus = map_option recon_status latest,
          frow_latestReviewedStatementPeriodStart = map_option recon_statementPeriodStart latest,
          frow_latestReviewedStatementPeriodEnd = map_option recon_statementPeriodEnd latest,
          frow_exceptionCount = count_where (\<lambda>r. recon_status r = Recon_exception) accountReconciliations,
          frow_importedStatementRowCount = sum_by rsum_importedStatementRowCount summaries,
          frow_matchedStatementRowCount = sum_by rsum_matchedStatementRowCount summaries,
          frow_unmatchedStatementRowCount = sum_by rsum_unmatchedStatementRowCount summaries,
          frow_reviewOnly = True\<rparr>)"

primrec postureRank :: "LedgerReconciliationFreshnessPosture \<Rightarrow> int" where
  "postureRank Fresh_stale = 0"
| "postureRank Fresh_never_reconciled = 1"
| "postureRank Fresh_watch = 2"
| "postureRank Fresh_fresh = 3"

definition freshnessOrder ::
  "(string \<Rightarrow> string \<Rightarrow> int) \<Rightarrow> LedgerReconciliationFreshnessRow \<Rightarrow> LedgerReconciliationFreshnessRow \<Rightarrow> int" where
  "freshnessOrder collate =
     cmp_or (\<lambda>left right. postureRank (frow_posture left) - postureRank (frow_posture right))
       (cmp_or (\<lambda>left right. frow_staleDayCount right - frow_staleDayCount left)
          (\<lambda>left right. collate (frow_accountName left) (frow_accountName right)))"

definition ledgerReconciliationFreshnessReview ::
  "(string \<Rightarrow> string \<Rightarrow> int) \<Rightarrow> string \<Rightarrow> int \<Rightarrow> LedgerAccount list \<Rightarrow> LedgerReconciliationRecord list
   \<Rightarrow> string option \<Rightarrow> int option \<Rightarrow> int option \<Rightarrow> LedgerReconciliationFreshnessReview" where
  "ledgerReconciliationFreshnessReview collate clock clockMs accounts reconciliations
      generatedAtInput freshWithinDaysInput watchWithinDaysInput =
     (let generatedAt = or_else generatedAtInput clock;
          generatedAtMs = or_else (parseTimestamp (Some generatedAt)) clockMs;
          freshWithinDays = or_else freshWithinDaysInput 30;
          watchWithinDays = or_else watchWithinDaysInput 60;
          rows = js_sort (freshnessOrder collate)
            (map (freshnessRow generatedAtMs freshWithinDays watchWithinDays reconciliations)
               (filter (\<lambda>account. acct_type account = trust_asset) accounts))
      in \<lparr>frev_generatedAt = generatedAt, frev_freshWithinDays = freshWithinDays,
          frev_watchWithinDays = watchWithinDays, frev_rows = rows,
          frev_summary =
            \<lparr>fsum_accountCount = int (length rows),
             fsum_freshCount = count_where (\<lambda>row. frow_posture row = Fresh_fresh) rows,
             fsum_watchCount = count_where (\<lambda>row. frow_posture row = Fresh_watch) rows,
             fsum_staleCount = count_where (\<lambda>row. frow_posture row = Fresh_stale) rows,
             fsum_neverReconciledCount = count_where (\<lambda>row. frow_posture row = Fresh_never_reconciled) rows,
             fsum_totalStaleDayCount = sum_by frow_staleDayCount rows,
             fsum_maxStaleDayCount = foldl (\<lambda>m row. max m (frow_staleDayCount row)) 0 rows,
             fsum_latestReviewedStatementPeriodEnd = latestIso (map frow_latestReviewedStatementPeriodEnd rows),
             fsum_exceptionCount = sum_by frow_exceptionCount rows,
             fsum_unmatchedStatementRowCount = sum_by frow_unmatchedStatementRowCount rows,
             fsum_reviewOnly = True\<rparr>,
          frev_reviewOnly = True\<rparr>)"

subsection \<open>Validation of records\<close>

definition validateStatementRow :: "LedgerReconciliationStatementRow \<Rightarrow> unit result" where
  "validateStatementRow row = run_checks
     [throw_if (row_reviewDecision row = Row_matched \<and> row_matchedLedgerEntryIds row = [])
        ''Matched statement rows must reference at least one ledger entry'',
      throw_if (row_reviewDecision row = Row_unmatched \<and> row_matchedLedgerEntryIds row \<noteq> [])
        ''Unmatched statement rows cannot reference ledger entries'']"

definition hasVariance :: "LedgerReconciliationRecord \<Rightarrow> bool" where
  "hasVariance reconciliation =
     (let summary = ledgerReconciliationReviewSummary reconciliation in
      rsum_varianceCents summary \<noteq> 0 \<or> rsum_unmatchedStatementRowCount summary > 0)"

definition validateLedgerReconciliationRecord :: "LedgerReconciliationRecord \<Rightarrow> unit result" where
  "validateLedgerReconciliationRecord reconciliation = run_checks
     [throw_if (js_le (date_parse (recon_statementPeriodEnd reconciliation))
                  (date_parse (recon_statementPeriodStart reconciliation)))
        ''Ledger reconciliation period end must be after period start'',
      throw_if (recon_endingBalanceCents reconciliation \<noteq> recon_actualBalanceCents reconciliation)
        ''Ledger reconciliation ending balance must match actual statement balance'',
      throw_if (recon_beginningBalanceCents reconciliation + sum_by row_amountCents (recon_statementRows reconciliation)
                \<noteq> recon_endingBalanceCents reconciliation)
        ''Ledger reconciliation statement rows must bridge beginning and ending balances'',
      for_each validateStatementRow (recon_statementRows reconciliation),
      throw_if (hasVariance reconciliation \<and> trim (or_else (recon_varianceExplanation reconciliation) []) = [])
        ''Variance explanation is required for unmatched reconciliation differences'',
      throw_if (recon_status reconciliation = Recon_matched \<and> hasVariance reconciliation)
        ''Matched reconciliations cannot contain balance variance or unmatched rows'']"

definition validateLedgerReconciliationExceptionResolutionRecord ::
  "LedgerReconciliationExceptionResolutionRecord \<Rightarrow> unit result" where
  "validateLedgerReconciliationExceptionResolutionRecord resolution =
     (let row = resol_statementRow resolution in run_checks
     [throw_if (rrow_reviewDecision row \<noteq> Row_unmatched)
        ''Reconciliation exception resolutions can only reference unmatched rows'',
      throw_if (trim (resol_resolutionNote resolution) = [])
        ''Reconciliation exception resolution note is required'',
      throw_if (rrow_duplicateKey row
                \<noteq> duplicateKeyOf (rrow_postedAt row) (rrow_amountCents row) (rrow_description row) (rrow_reference row))
        ''Reconciliation exception statement-row duplicate key is invalid'',
      throw_if (date_parse (resol_recordedAt resolution) = None)
        ''Reconciliation exception resolution timestamp is invalid''])"

definition is_sha256_hex :: "string \<Rightarrow> bool" where
  "is_sha256_hex s =
     (length s = 64 \<and> list_all (\<lambda>c. is_digit c \<or> (97 \<le> (of_char c :: nat) \<and> of_char c \<le> (102 :: nat))) s)"

definition validateLedgerStatementImportBatchRecord :: "LedgerStatementImportBatchRecord \<Rightarrow> unit result" where
  "validateLedgerStatementImportBatchRecord batch = run_checks
     [throw_if (trim (batch_sourceLabel batch) = []) ''Statement import batch source label is required'',
      throw_if (\<not> is_sha256_hex (batch_checksumSha256 batch))
        ''Statement import batch checksum must be a lowercase SHA-256 hex digest'',
      throw_if (batch_importedStatementRowCount batch \<le> 0) ''Statement import batch row count must be positive'',
      throw_if (batch_duplicateStatementRowCount batch < 0
                \<or> batch_duplicateStatementRowCount batch > batch_importedStatementRowCount batch)
        ''Statement import batch duplicate count must fit within row count'',
      throw_if (case batch_matchingProfileId batch of None \<Rightarrow> False | Some i \<Rightarrow> trim i = [])
        ''Statement import batch matching profile ID cannot be blank'',
      throw_if (date_parse (batch_createdAt batch) = None) ''Statement import batch timestamp is invalid'']"

definition assertIsoTimestamp :: "string \<Rightarrow> string \<Rightarrow> unit result" where
  "assertIsoTimestamp text label = throw_if (date_parse text = None) (label @ '' timestamp is invalid'')"

definition validateLedgerStatementMatchRuleProfileRecord ::
  "LedgerStatementMatchRuleProfileRecord \<Rightarrow> unit result" where
  "validateLedgerStatementMatchRuleProfileRecord profile = run_checks
     [throw_if (trim (rule_name profile) = []) ''Statement match-rule profile name is required'',
      throw_if (rule_dateWindowDays profile < 0 \<or> rule_dateWindowDays profile > 30)
        ''Statement match-rule date window must be between 0 and 30 days'',
      throw_if (rule_amountToleranceCents profile < 0 \<or> rule_amountToleranceCents profile > 100000)
        ''Statement match-rule amount tolerance must be between 0 and 100000 cents'',
      throw_if (rule_varianceCategories profile = [])
        ''Statement match-rule profile needs at least one variance category'',
      throw_if (\<not> rule_reviewOnly profile) ''Statement match-rule profiles must be review-only'',
      assertIsoTimestamp (rule_createdAt profile) ''Statement match-rule profile created'',
      assertIsoTimestamp (rule_updatedAt profile) ''Statement match-rule profile updated'']"

primrec expectedBoundaryByType :: "LedgerAccountType \<Rightarrow> LedgerAccountingBoundaryPosture" where
  "expectedBoundaryByType trust_asset = Boundary_trust_only"
| "expectedBoundaryByType client_liability = Boundary_trust_only"
| "expectedBoundaryByType operating_revenue = Boundary_operating_only"
| "expectedBoundaryByType expense = Boundary_expense_only"

definition validateLedgerAccountingReviewProfileRecord :: "LedgerAccountingReviewProfileRecord \<Rightarrow> unit result" where
  "validateLedgerAccountingReviewProfileRecord profile =
     (let funds = prof_protectedFunds profile; feed = prof_bankFeedImport profile; dims = prof_dimensions profile
      in run_checks
     [throw_if (prof_boundaryPosture profile \<noteq> expectedBoundaryByType (prof_accountType profile)
                \<and> prof_boundaryPosture profile \<noteq> Boundary_review_required)
        ''Accounting review boundary posture must match the account type or require review'',
      throw_if (funds_protected funds \<and> trim (or_else (funds_reason funds) []) = [])
        ''Protected-funds accounts require a review reason'',
      throw_if (feed_status feed \<noteq> Feed_not_configured \<and> trim (or_else (feed_sourceLabel feed) []) = [])
        ''Accounting bank-feed shell records require a source label'',
      throw_if (feed_automaticMatching feed)
        ''Accounting bank-feed shell records cannot enable automatic matching'',
      throw_if (truthy (feed_lastImportedAt feed) \<and> date_parse (or_else (feed_lastImportedAt feed) []) = None)
        ''Accounting bank-feed import timestamp is invalid'',
      throw_if (dims_clientMatterTracking dims \<noteq> ''required'')
        ''Accounting review profiles must keep client/matter tracking required'',
      throw_if (\<not> prof_reviewOnly profile) ''Accounting review profiles must be review-only'',
      assertIsoTimestamp (prof_createdAt profile) ''Accounting review profile created'',
      assertIsoTimestamp (prof_updatedAt profile) ''Accounting review profile updated''])"

subsection \<open>The preview finds the duplicates\<close>

interpretation match_order: comparator "\<lambda>left right. matchRank right - matchRank left"
  by (rule comparator_diff_rev)

interpretation period_order: comparator "\<lambda>left right. period_end_ms right - period_end_ms left"
  by (rule comparator_diff_rev)

definition firsts_of :: "LedgerStatementImportPreviewRowInput list \<Rightarrow> (string \<times> string) list \<Rightarrow> bool" where
  "firsts_of seen firsts =
     (\<forall>k. map_get firsts k = map_option srow_id (List.find (\<lambda>r. ledgerStatementRowDuplicateKey r = k) seen))"

lemma firsts_truthy:
  assumes "firsts_of seen firsts" "list_all (\<lambda>r. srow_id r \<noteq> []) seen"
  shows "truthy (map_get firsts k) \<longleftrightarrow> map_get firsts k \<noteq> None"
proof (cases "List.find (\<lambda>r. ledgerStatementRowDuplicateKey r = k) seen")
  case (Some r)
  then have "srow_id r \<noteq> []" using assms(2) by (auto simp: list_all_iff dest: find_Some_mem)
  then show ?thesis using Some assms(1) by (simp add: firsts_of_def)
qed (use assms(1) in \<open>simp add: firsts_of_def\<close>)

lemma previewRow_firsts:
  assumes "firsts_of seen firsts" "list_all (\<lambda>r. srow_id r \<noteq> []) (row # seen)"
  shows "firsts_of (seen @ [row]) (snd (previewRow entries firsts row))"
proof -
  have "truthy (map_get firsts (ledgerStatementRowDuplicateKey row)) \<longleftrightarrow>
      map_get firsts (ledgerStatementRowDuplicateKey row) \<noteq> None"
    by (rule firsts_truthy) (use assms in auto)
  then show ?thesis
    using assms(1) by (auto simp: firsts_of_def previewRow_def Let_def find_append split: option.splits)
qed

lemma previewRows_nth:
  assumes "firsts_of seen firsts" "list_all (\<lambda>r. srow_id r \<noteq> []) (seen @ rows)" "i < length rows"
  shows "\<exists>firsts'. firsts_of (seen @ take i rows) firsts' \<and>
    previewRows entries firsts rows ! i = fst (previewRow entries firsts' (rows ! i))"
  using assms
proof (induction rows arbitrary: seen firsts i)
  case (Cons row rows)
  show ?case
  proof (cases i)
    case 0
    then show ?thesis using Cons.prems(1) by (auto simp: case_prod_beta)
  next
    case (Suc j)
    have "firsts_of (seen @ [row]) (snd (previewRow entries firsts row))"
      using Cons.prems(1,2) by (intro previewRow_firsts) (auto simp: list_all_iff)
    then show ?thesis
      using Cons.IH [of "seen @ [row]" "snd (previewRow entries firsts row)" j] Cons.prems(2,3) Suc
      by (simp add: case_prod_beta)
  qed
qed simp

lemma length_previewRows [simp]: "length (previewRows entries firsts rows) = length rows"
  by (induction rows arbitrary: firsts) (auto simp: case_prod_beta)

lemma previewRow_fields:
  "prow_id (fst (previewRow E f row)) = srow_id row"
  "prow_duplicateOfRowId (fst (previewRow E f row)) = map_get f (ledgerStatementRowDuplicateKey row)"
  "prow_proposedMatches (fst (previewRow E f row)) =
     (if truthy (map_get f (ledgerStatementRowDuplicateKey row)) then [] else proposedStatementLedgerMatches row E)"
  "prow_reviewDecision (fst (previewRow E f row)) =
     (if prow_proposedMatches (fst (previewRow E f row)) = [] then Row_unmatched else Row_matched)"
  by (simp_all add: previewRow_def Let_def)

text \<open>
  The statement preview marks exactly the repeated rows: row \<open>i\<close> is a duplicate of the first
  earlier row with the same key (posting day, amount, normalised description and reference), and of
  none when there is no such row; the unique and duplicate counts add up to the number of rows.
\<close>

theorem preview_marks_duplicates:
  assumes "list_all (\<lambda>r. srow_id r \<noteq> []) rows" and "i < length rows"
  shows "prow_duplicateOfRowId (prev_rows (previewLedgerStatementImport account rows entries) ! i) =
      map_option srow_id (List.find (\<lambda>r. ledgerStatementRowDuplicateKey r = ledgerStatementRowDuplicateKey (rows ! i)) (take i rows))
    \<and> prev_uniqueStatementRowCount (previewLedgerStatementImport account rows entries)
      + prev_duplicateStatementRowCount (previewLedgerStatementImport account rows entries) = int (length rows)"
proof -
  have "firsts_of [] []" by (simp add: firsts_of_def)
  from previewRows_nth [OF this _ assms(2)] assms(1)
  obtain f where "firsts_of (take i rows) f"
    "previewRows (filter (\<lambda>e. entry_accountId e = account) entries) [] rows ! i =
       fst (previewRow (filter (\<lambda>e. entry_accountId e = account) entries) f (rows ! i))"
    by fastforce
  then show ?thesis
    by (simp add: previewLedgerStatementImport_def Let_def previewRow_fields firsts_of_def count_where_compl)
qed

lemma proposedMatch_fields:
  "proposedMatch row e = Some m \<Longrightarrow> match_ledgerEntryId m = entry_id e \<and> match_amountCents m = srow_amountCents row
   \<and> entryAmountCents e = srow_amountCents row"
  by (auto simp: proposedMatch_def Let_def split: if_splits)

lemma proposedMatch_Some: "(\<exists>m. proposedMatch row e = Some m) \<longleftrightarrow> entryAmountCents e = srow_amountCents row"
  by (auto simp: proposedMatch_def Let_def)

lemma set_proposed:
  "set (proposedStatementLedgerMatches row E) = {m. \<exists>e \<in> set E. proposedMatch row e = Some m}"
  by (force simp: proposedStatementLedgerMatches_def map_filter_def)

text \<open>
  A proposed match is never invented: the matches of a previewed row are entries of the
  reconciled account with exactly the row's amount, best confidence first; a row is marked matched
  only when it has one, and a first occurrence whose amount some entry of the account has is matched.
\<close>

theorem preview_matches_are_sound:
  assumes "list_all (\<lambda>r. srow_id r \<noteq> []) rows" and "i < length rows"
  shows "let row = prev_rows (previewLedgerStatementImport account rows entries) ! i in
    (\<forall>m \<in> set (prow_proposedMatches row). \<exists>e \<in> set entries. entry_accountId e = account
        \<and> entry_id e = match_ledgerEntryId m \<and> entryAmountCents e = srow_amountCents (rows ! i))
    \<and> sorted_wrt (\<lambda>m n. matchRank n \<le> matchRank m) (prow_proposedMatches row)
    \<and> (prow_reviewDecision row = Row_matched \<longleftrightarrow> prow_duplicateOfRowId row = None
        \<and> (\<exists>e \<in> set entries. entry_accountId e = account \<and> entryAmountCents e = srow_amountCents (rows ! i)))"
proof -
  let ?E = "filter (\<lambda>e. entry_accountId e = account) entries"
  have "firsts_of [] []" by (simp add: firsts_of_def)
  from previewRows_nth [OF this _ assms(2)] assms(1)
  obtain f where f: "firsts_of (take i rows) f" and row: "previewRows ?E [] rows ! i = fst (previewRow ?E f (rows ! i))"
    by fastforce
  have dup: "truthy (map_get f k) \<longleftrightarrow> map_get f k \<noteq> None" for k
    by (rule firsts_truthy [OF f]) (use assms(1) in \<open>auto simp: list_all_iff dest: in_set_takeD\<close>)
  have sorted: "sorted_wrt (\<lambda>m n. matchRank n \<le> matchRank m) (proposedStatementLedgerMatches (rows ! i) ?E)"
    using match_order.js_sort_sorted by (simp add: proposedStatementLedgerMatches_def)
  have sound: "\<exists>e \<in> set entries. entry_accountId e = account \<and> entry_id e = match_ledgerEntryId m
      \<and> entryAmountCents e = srow_amountCents (rows ! i)" if "m \<in> set (proposedStatementLedgerMatches (rows ! i) ?E)" for m
    using that proposedMatch_fields unfolding set_proposed by fastforce
  have "proposedStatementLedgerMatches (rows ! i) ?E \<noteq> [] \<longleftrightarrow> (\<exists>e \<in> set ?E. \<exists>m. proposedMatch (rows ! i) e = Some m)"
    unfolding set_empty [symmetric] set_proposed by blast
  then have "proposedStatementLedgerMatches (rows ! i) ?E \<noteq> [] \<longleftrightarrow>
      (\<exists>e \<in> set entries. entry_accountId e = account \<and> entryAmountCents e = srow_amountCents (rows ! i))"
    unfolding proposedMatch_Some by auto
  then show ?thesis
    using sorted sound by (auto simp: previewLedgerStatementImport_def Let_def row previewRow_fields dup)
qed

subsection \<open>Reconciliations\<close>

lemma hasVariance_iff:
  "hasVariance r \<longleftrightarrow> recon_actualBalanceCents r \<noteq> recon_expectedBalanceCents r
     \<or> (\<exists>row \<in> set (recon_statementRows r). row_reviewDecision row = Row_unmatched)"
  by (simp add: hasVariance_def ledgerReconciliationReviewSummary_def count_where_pos)

lemma row_decision_cases: "row_reviewDecision row \<noteq> Row_unmatched \<longleftrightarrow> row_reviewDecision row = Row_matched"
  by (cases "row_reviewDecision row") auto

text \<open>
  An accepted reconciliation accounts for the statement: the rows lead from the beginning to the
  ending balance, which is the actual balance; matched rows and only they name ledger entries; a
  difference is explained; and a reconciliation accepted as matched has the expected balance with
  every row matched.
\<close>

theorem accepted_reconciliation_bridges:
  assumes "validateLedgerReconciliationRecord r = Inr ()"
  shows "recon_beginningBalanceCents r + sum_by row_amountCents (recon_statementRows r) = recon_actualBalanceCents r
    \<and> list_all (\<lambda>row. (row_reviewDecision row = Row_matched) = (row_matchedLedgerEntryIds row \<noteq> [])) (recon_statementRows r)
    \<and> (trim (or_else (recon_varianceExplanation r) []) = [] \<or> recon_status r = Recon_matched \<longrightarrow>
        recon_expectedBalanceCents r = recon_beginningBalanceCents r + sum_by row_amountCents (recon_statementRows r)
        \<and> list_all (\<lambda>row. row_matchedLedgerEntryIds row \<noteq> []) (recon_statementRows r))"
proof -
  have bal: "recon_endingBalanceCents r = recon_actualBalanceCents r"
    "recon_beginningBalanceCents r + sum_by row_amountCents (recon_statementRows r) = recon_endingBalanceCents r"
    and rows: "\<forall>row \<in> set (recon_statementRows r). validateStatementRow row = Inr ()"
    and var: "\<not> (hasVariance r \<and> trim (or_else (recon_varianceExplanation r) []) = [])"
      "\<not> (recon_status r = Recon_matched \<and> hasVariance r)"
    using assms unfolding validateLedgerReconciliationRecord_def run_checks_ok
    by (simp_all add: for_each_ok del: trim_eq_Nil)
  have row: "(row_reviewDecision row = Row_matched) = (row_matchedLedgerEntryIds row \<noteq> [])"
    if "row \<in> set (recon_statementRows r)" for row
    using rows that unfolding validateStatementRow_def run_checks_ok
    by (cases "row_reviewDecision row") auto
  have "\<not> hasVariance r" if "trim (or_else (recon_varianceExplanation r) []) = [] \<or> recon_status r = Recon_matched"
    using that var by blast
  then show ?thesis
    using bal row by (auto simp: hasVariance_iff list_all_iff row_decision_cases simp del: trim_eq_Nil)
qed

subsection \<open>Duplicate keys\<close>

lemma lower_char_bar: "lower_char c = CHR ''|'' \<Longrightarrow> c = CHR ''|''"
proof -
  assume l: "lower_char c = CHR ''|''"
  show "c = CHR ''|''"
  proof (rule ccontr)
    assume "c \<noteq> CHR ''|''"
    then have n: "65 \<le> (of_char c :: nat) \<and> of_char c \<le> (90 :: nat) \<or> 192 \<le> (of_char c :: nat) \<and> of_char c \<le> (222 :: nat)"
      and eq: "char_of (of_char c + 32 :: nat) = CHR ''|''"
      using l by (auto simp: lower_char_def Let_def split: if_splits)
    have "of_char (char_of (of_char c + 32 :: nat)) = (of_char c + 32 :: nat)"
      unfolding of_char_of by (rule mod_less) (use n in auto)
    then have "(of_char c + 32 :: nat) = 124" using eq by simp
    then show False using n by auto
  qed
qed

lemma normalize_no_bar: "CHR ''|'' \<notin> set text \<Longrightarrow> CHR ''|'' \<notin> set (normalizeStatementText text)"
proof -
  assume no: "CHR ''|'' \<notin> set text"
  have "set (trim text) \<subseteq> set text"
    unfolding trim_def by (auto dest!: set_dropWhileD)
  then have "CHR ''|'' \<notin> set (to_lower_case (trim text))"
    using no lower_char_bar by (force simp: to_lower_case_def)
  moreover have "set (collapse_spaces b t) \<subseteq> insert (CHR '' '') (set t)" for b t
    by (induction b t rule: collapse_spaces.induct) auto
  ultimately show ?thesis unfolding normalizeStatementText_def by fastforce
qed

lemma pad_digits_no_bar: "CHR ''|'' \<notin> set (pad_digits k n)"
  using pad_digits_digits [of k n] by (auto simp: list_all_iff is_digit_def)

lemma statementDateKey_no_bar:
  assumes "CHR ''|'' \<notin> set text"
  shows "CHR ''|'' \<notin> set (statementDateKey text)"
proof -
  have "CHR ''|'' \<notin> set (to_iso_string t)" for t
    by (simp add: to_iso_string_def Let_def pad_digits_no_bar del: pad_digits.simps)
  then show ?thesis using assms by (auto simp: statementDateKey_def split: option.splits dest: in_set_takeD)
qed

lemma string_of_int_no_bar: "CHR ''|'' \<notin> set (string_of_int i)"
  using string_of_int_chars [of "CHR ''|''" i] by (auto simp: is_digit_def)

definition bar_free :: "LedgerStatementImportPreviewRowInput \<Rightarrow> bool" where
  "bar_free r = (CHR ''|'' \<notin> set (srow_postedAt r) \<and> CHR ''|'' \<notin> set (srow_description r)
     \<and> CHR ''|'' \<notin> set (or_else (srow_reference r) []))"

text \<open>
  The duplicate key separates rows: for descriptions and references without a bar, two statement
  rows have the same key only if day, amount, normalised description and normalised reference agree.
\<close>

theorem duplicate_key_separates:
  assumes "bar_free a" and "bar_free b"
  shows "ledgerStatementRowDuplicateKey a = ledgerStatementRowDuplicateKey b \<longleftrightarrow>
    statementDateKey (srow_postedAt a) = statementDateKey (srow_postedAt b)
    \<and> srow_amountCents a = srow_amountCents b
    \<and> normalizeStatementText (srow_description a) = normalizeStatementText (srow_description b)
    \<and> normalizeStatementText (or_else (srow_reference a) []) = normalizeStatementText (or_else (srow_reference b) [])"
proof -
  define parts where "parts r = [statementDateKey (srow_postedAt r), string_of_int (srow_amountCents r),
      normalizeStatementText (srow_description r), normalizeStatementText (or_else (srow_reference r) [])]"
    for r :: LedgerStatementImportPreviewRowInput
  have key: "ledgerStatementRowDuplicateKey r = join ''|'' (parts r)" for r :: LedgerStatementImportPreviewRowInput
    by (simp add: ledgerStatementRowDuplicateKey_def duplicateKeyOf_def parts_def)
  have split: "split_on (CHR ''|'') (join ''|'' (parts r)) = parts r" if "bar_free r" for r
    using that by (intro split_on_join)
      (simp_all add: parts_def bar_free_def statementDateKey_no_bar string_of_int_no_bar normalize_no_bar)
  have "join ''|'' (parts a) = join ''|'' (parts b) \<longleftrightarrow> parts a = parts b"
    using split [OF assms(1)] split [OF assms(2)] by metis
  then show ?thesis unfolding key by (simp add: parts_def)
qed

subsection \<open>Freshness\<close>

lemma comparator_freshness: "comparator collate \<Longrightarrow> comparator (freshnessOrder collate)"
proof -
  assume c: "comparator collate"
  have "comparator (\<lambda>l r. collate (frow_accountName l) (frow_accountName r))"
    using comparator.cmp_total [OF c] comparator.cmp_trans [OF c] by unfold_locales blast+
  then show ?thesis unfolding freshnessOrder_def by (intro comparator_or_diff comparator_or_diff_rev)
qed

lemma freshnessOrder_rank:
  "freshnessOrder collate l r \<le> 0 \<Longrightarrow> postureRank (frow_posture l) \<le> postureRank (frow_posture r)"
  by (auto simp: freshnessOrder_def cmp_or_def split: if_splits)

lemma posture_counts:
  "count_where (\<lambda>r. frow_posture r = Fresh_fresh) rows + count_where (\<lambda>r. frow_posture r = Fresh_watch) rows
   + count_where (\<lambda>r. frow_posture r = Fresh_stale) rows
   + count_where (\<lambda>r. frow_posture r = Fresh_never_reconciled) rows = int (length rows)"
proof (induction rows)
  case (Cons r rows)
  then show ?case by (cases "frow_posture r") auto
qed simp

lemma reviewed_status: "r \<in> set (filter (\<lambda>r. recon_status r \<in> {Recon_matched, Recon_exception, Recon_reviewed}) rs)
    \<longleftrightarrow> r \<in> set rs \<and> recon_status r \<noteq> Recon_draft"
  by (cases "recon_status r") auto

lemma latestReviewed_is_latest:
  assumes "y \<in> set rs" "recon_status y \<noteq> Recon_draft"
  shows "\<exists>x \<in> set rs. latestReviewed rs = Some x \<and> recon_status x \<noteq> Recon_draft \<and> period_end_ms y \<le> period_end_ms x"
proof -
  let ?fs = "filter (\<lambda>r. recon_status r \<in> {Recon_matched, Recon_exception, Recon_reviewed}) rs"
  have y: "y \<in> set ?fs" using assms reviewed_status by blast
  then have "?fs \<noteq> []" by (metis empty_iff empty_set)
  then obtain x where x: "latestReviewed rs = Some x"
    using period_order.js_sort_head_exists unfolding latestReviewed_def by blast
  from period_order.js_sort_head_least [OF x [unfolded latestReviewed_def]] have "x \<in> set ?fs" "\<forall>z \<in> set ?fs. period_end_ms z \<le> period_end_ms x"
    by auto
  then show ?thesis using x y reviewed_status by blast
qed

text \<open>
  The freshness review covers every trust account once and puts the worst first: its rows are
  those of the trust asset accounts, in the order stale, never reconciled, watch, fresh; the four
  counts add up to the number of trust accounts; and each row rests on the account's latest reviewed
  statement period.
\<close>

theorem freshness_review_covers_accounts:
  assumes "comparator collate"
  shows "let review = ledgerReconciliationFreshnessReview collate clock clockMs accounts reconciliations generatedAt fresh watch;
      rows = frev_rows review; summary = frev_summary review in
    mset (map frow_accountId rows) = mset (map acct_id (filter (\<lambda>a. acct_type a = trust_asset) accounts))
    \<and> sorted_wrt (\<lambda>l r. postureRank (frow_posture l) \<le> postureRank (frow_posture r)) rows
    \<and> fsum_freshCount summary + fsum_watchCount summary + fsum_staleCount summary + fsum_neverReconciledCount summary
        = count_where (\<lambda>a. acct_type a = trust_asset) accounts
    \<and> (\<forall>row \<in> set rows. \<forall>y \<in> set reconciliations.
        recon_accountId y = frow_accountId row \<and> recon_status y \<noteq> Recon_draft \<longrightarrow>
        (\<exists>x \<in> set reconciliations. recon_accountId x = frow_accountId row \<and> recon_status x \<noteq> Recon_draft
          \<and> frow_latestReconciliationId row = Some (recon_id x)
          \<and> frow_latestReviewedStatementPeriodEnd row = Some (recon_statementPeriodEnd x)
          \<and> period_end_ms y \<le> period_end_ms x))"
proof -
  define mk where "mk = freshnessRow (or_else (parseTimestamp (Some (or_else generatedAt clock))) clockMs)
      (or_else fresh 30) (or_else watch 60) reconciliations"
  define trust where "trust = filter (\<lambda>a. acct_type a = trust_asset) accounts"
  define rows where "rows = js_sort (freshnessOrder collate) (map mk trust)"
  define review where "review = ledgerReconciliationFreshnessReview collate clock clockMs accounts reconciliations generatedAt fresh watch"
  have rows: "frev_rows review = rows"
    by (simp add: review_def ledgerReconciliationFreshnessReview_def Let_def rows_def mk_def trust_def)
  have mk_id: "frow_accountId (mk a) = acct_id a" for a by (simp add: mk_def freshnessRow_def Let_def)
  have "mset (map frow_accountId rows) = mset (map acct_id trust)"
    by (simp add: rows_def mset_map [symmetric] mk_id comp_def del: mset_map) (simp add: mk_id image_mset.compositionality comp_def)
  moreover have "sorted_wrt (\<lambda>l r. postureRank (frow_posture l) \<le> postureRank (frow_posture r)) rows"
    unfolding rows_def
    by (rule sorted_wrt_mono_rel [OF _ comparator.js_sort_sorted [OF comparator_freshness [OF assms]]])
      (rule freshnessOrder_rank)
  moreover have "fsum_freshCount (frev_summary review) + fsum_watchCount (frev_summary review) + fsum_staleCount (frev_summary review)
      + fsum_neverReconciledCount (frev_summary review) = count_where (\<lambda>a. acct_type a = trust_asset) accounts"
    using posture_counts [of rows]
    by (simp add: review_def ledgerReconciliationFreshnessReview_def Let_def rows_def mk_def trust_def count_where_def)
  moreover have "\<exists>x \<in> set reconciliations. recon_accountId x = frow_accountId row \<and> recon_status x \<noteq> Recon_draft
      \<and> frow_latestReconciliationId row = Some (recon_id x)
      \<and> frow_latestReviewedStatementPeriodEnd row = Some (recon_statementPeriodEnd x) \<and> period_end_ms y \<le> period_end_ms x"
    if row: "row \<in> set rows" and y: "y \<in> set reconciliations" "recon_accountId y = frow_accountId row" "recon_status y \<noteq> Recon_draft"
    for row y
  proof -
    obtain a where a: "row = mk a" using row by (auto simp: rows_def)
    let ?rs = "filter (\<lambda>r. recon_accountId r = acct_id a) reconciliations"
    have "y \<in> set ?rs" using y a by (simp add: mk_id)
    from latestReviewed_is_latest [OF this y(3)] obtain x where
      x: "x \<in> set ?rs" "latestReviewed ?rs = Some x" "recon_status x \<noteq> Recon_draft" "period_end_ms y \<le> period_end_ms x" by blast
    then show ?thesis using a by (intro bexI [of _ x]) (auto simp: mk_def freshnessRow_def Let_def)
  qed
  ultimately show ?thesis unfolding review_def [symmetric] Let_def rows trust_def [symmetric] by blast
qed

subsection \<open>Worked statements\<close>

definition ex_row :: "string \<Rightarrow> int \<Rightarrow> LedgerStatementImportPreviewRowInput" where
  "ex_row i amount = \<lparr>srow_id = i, srow_postedAt = ''d1'', srow_description = ''Deposit'',
     srow_amountCents = amount, srow_reference = None\<rparr>"

lemma ex_row_key: "ledgerStatementRowDuplicateKey (ex_row i n) = ledgerStatementRowDuplicateKey (ex_row j n)"
  by (simp add: ledgerStatementRowDuplicateKey_def ex_row_def)

theorem preview_marks_duplicates_witness:
  "prow_duplicateOfRowId (prev_rows (previewLedgerStatementImport ''trust'' [ex_row ''a'' 5, ex_row ''b'' 5] []) ! 1) = Some ''a''"
  using preview_marks_duplicates [of "[ex_row ''a'' 5, ex_row ''b'' 5]" 1 "''trust''" "[]"] ex_row_key [of "''a''" 5 "''b''"]
  by (simp add: ex_row_def [THEN arg_cong [where f = srow_id]])

theorem preview_matches_are_sound_witness:
  "prow_reviewDecision (prev_rows (previewLedgerStatementImport ''trust'' [ex_row ''a'' 5] []) ! 0) \<noteq> Row_matched"
  using preview_matches_are_sound [of "[ex_row ''a'' 5]" 0 "''trust''" "[]"]
  by (simp add: ex_row_def [THEN arg_cong [where f = srow_id]] Let_def)

definition ex_reconciliation :: LedgerReconciliationRecord where
  "ex_reconciliation = \<lparr>recon_id = ''rc'', recon_firmId = ''f'', recon_accountId = ''trust'',
     recon_statementPeriodStart = ''2026-01-01'', recon_statementPeriodEnd = ''2026-02-01'',
     recon_beginningBalanceCents = 0, recon_endingBalanceCents = 5, recon_expectedBalanceCents = 5,
     recon_actualBalanceCents = 5, recon_status = Recon_matched, recon_reviewedByUserId = None,
     recon_statementRows = [\<lparr>row_id = ''a'', row_postedAt = ''2026-01-05'', row_description = ''Deposit'',
       row_amountCents = 5, row_reference = None, row_matchedLedgerEntryIds = [''t1:1''],
       row_reviewDecision = Row_matched, row_reviewedByUserId = None, row_reviewedAt = None, row_notes = None\<rparr>],
     recon_varianceExplanation = None, recon_evidence = [], recon_createdAt = ''2026-02-02''\<rparr>"

theorem accepted_reconciliation_bridges_witness:
  "validateLedgerReconciliationRecord ex_reconciliation = Inr ()
   \<and> recon_expectedBalanceCents ex_reconciliation =
       recon_beginningBalanceCents ex_reconciliation + sum_by row_amountCents (recon_statementRows ex_reconciliation)"
proof -
  have "\<not> js_le (date_parse ''2026-02-01'') (date_parse ''2026-01-01'')" by code_simp
  then have ok: "validateLedgerReconciliationRecord ex_reconciliation = Inr ()"
    by (simp add: validateLedgerReconciliationRecord_def hasVariance_def ledgerReconciliationReviewSummary_def
        validateStatementRow_def ex_reconciliation_def)
  then show ?thesis using accepted_reconciliation_bridges [OF ok] by (simp add: ex_reconciliation_def)
qed

theorem duplicate_key_separates_witness:
  "ledgerStatementRowDuplicateKey (ex_row ''a'' 5) \<noteq> ledgerStatementRowDuplicateKey (ex_row ''a'' 6)"
  using duplicate_key_separates [of "ex_row ''a'' 5" "ex_row ''a'' 6"] by (simp add: bar_free_def ex_row_def)

definition code_unit_compare :: "string \<Rightarrow> string \<Rightarrow> int" where
  "code_unit_compare a b = (if a < b then -1 else if a = b then 0 else 1)"

lemma comparator_code_unit: "comparator code_unit_compare"
  by unfold_locales (auto simp: code_unit_compare_def split: if_splits)

theorem freshness_review_covers_accounts_witness:
  "mset (map frow_accountId (frev_rows (ledgerReconciliationFreshnessReview code_unit_compare ''2026-03-01'' 0 ex_accounts
      [ex_reconciliation] None None None))) = {#''trust''#}"
  using freshness_review_covers_accounts [OF comparator_code_unit, of "''2026-03-01''" 0 ex_accounts "[ex_reconciliation]" None None None]
  by (simp add: Let_def ex_accounts_def)

end
