(* ===== verification/Js_Double.thy ===== *)
theory Js_Double
  imports Complex_Main "HOL-Library.Log_Nat"
begin

section \<open>Numbers that are not integers\<close>

text \<open>
  JavaScript numbers are IEEE doubles. Amounts and counts are integers and exact (\<open>Js_Prelude\<close>); where
  the code divides or multiplies with fractions, this theory gives the result. A double is the
  rational number it stands for, and \<open>to_double\<close> rounds a rational to the nearest double with 53
  significant bits, ties to even. Zeros, subnormal numbers, overflow and NaN do not occur in the
  modelled computations (quotients of small integers).
\<close>

subsection \<open>Rounding to 53 bits\<close>

definition round_even :: "rat \<Rightarrow> int" where
  "round_even x =
     (let f = \<lfloor>x\<rfloor>; r = x - of_int f
      in if r < 1 / 2 then f else if 1 / 2 < r then f + 1 else if even f then f else f + 1)"

definition pow2 :: "int \<Rightarrow> rat" where
  "pow2 e = 2 powi e"

definition exponent_of :: "rat \<Rightarrow> int" where
  "exponent_of x =
     (case quotient_of x of (p, q) \<Rightarrow>
        let e = bitlen p - bitlen q in if x < pow2 e then e - 1 else e)"

definition to_double :: "rat \<Rightarrow> rat" where
  "to_double x =
     (if x = 0 then 0
      else let u = pow2 (exponent_of \<bar>x\<bar> - 52)
           in (if x < 0 then - 1 else 1) * of_int (round_even (\<bar>x\<bar> / u)) * u)"

definition div_double :: "int \<Rightarrow> int \<Rightarrow> rat" where
  "div_double p q = to_double (of_int p / of_int q)"

definition mult_double :: "rat \<Rightarrow> rat \<Rightarrow> rat" where
  "mult_double x y = to_double (x * y)"

definition minus_double :: "rat \<Rightarrow> rat \<Rightarrow> rat" where
  "minus_double x y = to_double (x - y)"

definition math_round :: "rat \<Rightarrow> int" where
  "math_round x = \<lfloor>x + 1 / 2\<rfloor>"

text \<open>\<open>Number(x.toFixed(2))\<close> in hundredths: the nearest one to the exact value, the larger one of two.\<close>

definition to_fixed_2 :: "rat \<Rightarrow> int" where
  "to_fixed_2 x = \<lfloor>100 * x + 1 / 2\<rfloor>"

subsection \<open>The relative error is at most half a unit in the last place\<close>

lemma pow2_pos [simp]: "0 < pow2 e" "pow2 e \<noteq> 0" "0 \<le> pow2 e"
  by (simp_all add: pow2_def)

lemma pow2_add: "pow2 (a + b) = pow2 a * pow2 b"
  by (simp add: pow2_def power_int_add)

lemma pow2_nat: "pow2 (int n) = 2 ^ n"
  by (simp add: pow2_def)

lemma round_even_error: "\<bar>of_int (round_even x) - x\<bar> \<le> 1 / 2"
  unfolding round_even_def Let_def by (auto simp: abs_if) linarith+

lemma exponent_le:
  assumes "0 < x"
  shows "pow2 (exponent_of x) \<le> x"
proof -
  obtain p q where pq: "quotient_of x = (p, q)" by force
  then have q: "0 < q" and x: "x = of_int p / of_int q" by (auto dest: quotient_of_denom_pos quotient_of_div)
  then have p: "0 < p" using assms by (simp add: zero_less_divide_iff)
  let ?a = "floorlog 2 (nat p)" and ?b = "floorlog 2 (nat q)"
  have a: "2 ^ (?a - 1) \<le> nat p" using floorlog_bounds [of "nat p" 2] p by auto
  have "0 < ?a" using p by (simp add: floorlog_def)
  have b: "nat q < 2 ^ ?b" using floorlog_bounds [of "nat q" 2] q by auto
  have "pow2 (int ?a - int ?b - 1) = pow2 (int (?a - 1)) / pow2 (int ?b)"
    using \<open>0 < ?a\<close> by (simp add: pow2_def of_nat_diff power_int_diff)
  also have "\<dots> = 2 ^ (?a - 1) / 2 ^ ?b" by (simp only: pow2_nat)
  also have "\<dots> \<le> of_int p / of_int q"
  proof (rule frac_le)
    show "(2 :: rat) ^ (?a - 1) \<le> of_int p" using a p by (metis of_nat_le_iff of_nat_numeral of_nat_power of_int_of_nat_eq nat_0_le less_imp_le)
    show "of_int q \<le> (2 :: rat) ^ ?b" using b q by (metis less_imp_le of_nat_le_iff of_nat_numeral of_nat_power of_int_of_nat_eq nat_0_le)
  qed (use p q in auto)
  finally have "pow2 (int ?a - int ?b - 1) \<le> x" using x by simp
  then show ?thesis using pq by (auto simp: exponent_of_def bitlen_def Let_def)
qed

lemma to_double_error:
  assumes "0 \<le> x"
  shows "\<bar>to_double x - x\<bar> \<le> x * pow2 (- 53)" and "0 \<le> to_double x"
proof -
  consider "x = 0" | "0 < x" using assms by fastforce
  then have "\<bar>to_double x - x\<bar> \<le> x * pow2 (- 53) \<and> 0 \<le> to_double x"
  proof cases
    case 2
    let ?u = "pow2 (exponent_of x - 52)"
    have d: "to_double x = of_int (round_even (x / ?u)) * ?u" using 2 by (simp add: to_double_def Let_def)
    have "\<bar>to_double x - x\<bar> = \<bar>of_int (round_even (x / ?u)) - x / ?u\<bar> * ?u"
      unfolding d by (subst abs_mult_pos) (simp_all add: less_imp_le left_diff_distrib)
    also have "\<dots> \<le> 1 / 2 * ?u" by (rule mult_right_mono [OF round_even_error]) (simp add: less_imp_le)
    also have "\<dots> = pow2 (exponent_of x) * pow2 (- 53)"
    proof -
      have "?u = pow2 (exponent_of x) * pow2 (- 53) * pow2 1"
        unfolding pow2_add [symmetric] by simp
      then show ?thesis by (simp add: pow2_def [of 1])
    qed
    also have "\<dots> \<le> x * pow2 (- 53)" by (rule mult_right_mono [OF exponent_le [OF 2]]) (simp add: less_imp_le)
    finally have err: "\<bar>to_double x - x\<bar> \<le> x * pow2 (- 53)" .
    have "0 \<le> round_even (x / ?u)"
      using 2 by (simp add: round_even_def Let_def less_imp_le)
    then show ?thesis using err d by (simp add: less_imp_le)
  qed (simp add: to_double_def)
  then show "\<bar>to_double x - x\<bar> \<le> x * pow2 (- 53)" "0 \<le> to_double x" by auto
qed

lemma errors_add:
  fixes a c e y :: rat
  assumes "\<bar>a - y\<bar> \<le> y * e" "\<bar>c - a\<bar> \<le> a * e" "a * e \<le> y * 2 * e"
  shows "\<bar>c - y\<bar> \<le> y * (3 * e)"
proof -
  have "y * (3 * e) = y * e + y * 2 * e" by (simp add: algebra_simps)
  then show ?thesis using assms by linarith
qed

text \<open>Two roundings, as in \<open>(p / q) * r\<close>, stay close to the exact value.\<close>

lemma quotient_times_error:
  assumes "0 \<le> p" "0 < q" "0 \<le> r"
  shows "\<bar>mult_double (div_double p q) (of_int r) - of_int (p * r) / of_int q\<bar> \<le> of_int (p * r) / of_int q * (3 * pow2 (- 53))"
proof -
  let ?x = "of_int p / of_int q :: rat" and ?e = "pow2 (- 53)"
  let ?d = "div_double p q"
  have x: "0 \<le> ?x" using assms by simp
  have e: "0 < ?e" "?e \<le> 1" by (simp_all add: pow2_def power_int_def power_le_one)
  have d: "\<bar>?d - ?x\<bar> \<le> ?x * ?e" "0 \<le> ?d" unfolding div_double_def by (rule to_double_error [OF x])+
  have r: "0 \<le> (of_int r :: rat)" using assms(3) by simp
  have one: "\<bar>?d * of_int r - ?x * of_int r\<bar> \<le> ?x * of_int r * ?e"
  proof -
    have "\<bar>?d * of_int r - ?x * of_int r\<bar> = \<bar>?d - ?x\<bar> * of_int r" using abs_mult [of "?d - ?x" "of_int r"] r
      by (simp only: left_diff_distrib abs_of_nonneg)
    also have "\<dots> \<le> ?x * ?e * of_int r" by (rule mult_right_mono [OF d(1) r])
    finally show ?thesis by (simp add: ac_simps)
  qed
  have two: "\<bar>mult_double ?d (of_int r) - ?d * of_int r\<bar> \<le> ?d * of_int r * ?e"
    unfolding mult_double_def using d(2) r by (intro to_double_error) simp
  have y: "0 \<le> ?x * of_int r" by (rule mult_nonneg_nonneg [OF x r])
  have upper: "?d * of_int r \<le> ?x * of_int r * 2"
  proof -
    have "?d * of_int r \<le> ?x * of_int r + ?x * of_int r * ?e" using one by linarith
    also have "\<dots> \<le> ?x * of_int r + ?x * of_int r * 1" by (intro add_left_mono mult_left_mono) (use y e in auto)
    finally show ?thesis by (simp only: mult_1_right mult_2_right)
  qed
  have "?d * of_int r * ?e \<le> ?x * of_int r * 2 * ?e" by (rule mult_right_mono [OF upper]) (use e in simp)
  then have "\<bar>mult_double ?d (of_int r) - ?x * of_int r\<bar> \<le> ?x * of_int r * (3 * ?e)"
    using one two by (intro errors_add)
  then show ?thesis by (simp add: ac_simps)
qed

lemma math_round_error: "\<bar>of_int (math_round x) - x\<bar> \<le> 1 / 2"
  unfolding math_round_def by linarith

lemma rounded_quotient_times:
  assumes "0 \<le> p" "0 < q" "0 \<le> r" "p * r \<le> q * 2 ^ 50"
  shows "\<bar>q * math_round (mult_double (div_double p q) (of_int r)) - p * r\<bar> < q"
proof -
  let ?y = "of_int (p * r) / of_int q :: rat" and ?v = "mult_double (div_double p q) (of_int r)"
  have q: "0 < (of_int q :: rat)" using assms(2) by simp
  have "(of_int (p * r) :: rat) \<le> of_int (q * 2 ^ 50)" using assms(4) by (simp only: of_int_le_iff)
  then have "?y \<le> 2 ^ 50" using q by (simp add: divide_le_eq mult.commute)
  then have "?y * (3 * pow2 (- 53)) \<le> 2 ^ 50 * (3 * pow2 (- 53))" by (rule mult_right_mono) simp
  also have "\<dots> < 1 / 2" by (simp add: pow2_def power_int_def power_divide)
  finally have "\<bar>?v - ?y\<bar> < 1 / 2" using quotient_times_error [OF assms(1-3)] by linarith
  then have "\<bar>of_int (math_round ?v) - ?y\<bar> < 1" using math_round_error [of ?v] by linarith
  then have "\<bar>of_int (math_round ?v) - ?y\<bar> * of_int q < 1 * of_int q" by (rule mult_strict_right_mono [OF _ q])
  moreover have "\<bar>of_int (math_round ?v) - ?y\<bar> * of_int q = of_int \<bar>q * math_round ?v - p * r\<bar>"
  proof -
    have "(of_int (math_round ?v) - ?y) * of_int q = of_int (q * math_round ?v - p * r)"
      using q by (simp add: left_diff_distrib)
    then show ?thesis using q by (metis abs_mult abs_of_pos of_int_abs)
  qed
  ultimately have "(of_int \<bar>q * math_round ?v - p * r\<bar> :: rat) < of_int q" by simp
  then show ?thesis by (simp only: of_int_less_iff)
qed

end
