(* ===== verification/Billing.thy ===== *)
theory Billing
  imports Ledger Models Js_Date Js_Double
begin

section \<open>Billing rules\<close>

text \<open>
  packages/domain/src/billing.ts: invoices and payments, the status machine of billable entries,
  period locks, rate rules, timer drafts, expense categories and the link of a trust transfer to the
  ledger. \<open>timeEntryAmountCents\<close> rounds a product of floating point numbers (\<open>Js_Double\<close>); the other
  amounts are exact. A tax is one division of exact integers, whose rounding is exact. The
  quantity of an invoice line is an integer, the quantity the API writes.
\<close>

subsection \<open>Data\<close>

datatype BillingStatus = Billing_draft | Billing_submitted | Billing_approved | Billing_billed
    | Billing_written_off

datatype InvoiceStatus = Invoice_draft | Invoice_approved | Invoice_issued | Invoice_partially_paid
    | Invoice_paid | Invoice_void

datatype InvoiceLineKind = Line_time | Line_expense | Line_adjustment

record ExpenseCategoryProfileCue =
  cue_key :: string
  cue_label :: string
  cue_category :: string
  cue_defaultReimbursable :: bool
  cue_reviewCue :: string
  cue_reviewOnly :: bool

record BillingExpenseCategoryRecord =
  ecat_id :: string
  ecat_firmId :: string
  ecat_code :: string
  ecat_label :: string
  ecat_active :: bool
  ecat_defaultReimbursable :: bool
  ecat_reimbursableAllowed :: bool
  ecat_matterId :: "string option"
  ecat_practiceAreas :: "string list"
  ecat_jurisdictions :: "Province list"
  ecat_reviewCue :: "string option"
  ecat_createdByUserId :: "string option"
  ecat_updatedByUserId :: "string option"
  ecat_createdAt :: string
  ecat_updatedAt :: string

datatype ManualPaymentMethod = PayBy_cash | PayBy_cheque | PayBy_card | PayBy_eft | PayBy_other

datatype ManualPaymentStatus = Payment_pending_reconciliation | Payment_received | Payment_void

datatype TrustTransferRequestStatus = Transfer_pending_approval | Transfer_approved
    | Transfer_rejected | Transfer_linked | Transfer_cancelled

record BillingPeriodLockRecord =
  lock_id :: string
  lock_firmId :: string
  lock_periodStart :: string
  lock_periodEnd :: string
  lock_reason :: "string option"
  lock_lockedByUserId :: string
  lock_lockedAt :: string

datatype BillingRateRuleScope = Scope_firm | Scope_role | Scope_user | Scope_matter
    | Scope_matter_user

record BillingRateRuleRecord =
  rate_id :: string
  rate_firmId :: string
  rate_label :: string
  rate_matterId :: "string option"
  rate_userId :: "string option"
  rate_role :: "string option"
  rate_scope :: BillingRateRuleScope
  rate_rateCents :: int
  rate_effectiveFrom :: string
  rate_effectiveUntil :: "string option"
  rate_active :: bool
  rate_createdByUserId :: string
  rate_createdAt :: string
  rate_updatedAt :: string

datatype BillingRateSource = Source_manual | Source_rate_rule

record BillingRateSnapshot =
  rsnap_source :: BillingRateSource
  rsnap_rateCents :: int
  rsnap_resolvedAt :: string
  rsnap_rateRuleId :: "string option"
  rsnap_label :: "string option"
  rsnap_scope :: "BillingRateRuleScope option"
  rsnap_matterId :: "string option"
  rsnap_userId :: "string option"
  rsnap_role :: "string option"

record InvoiceRecord =
  inv_id :: string
  inv_firmId :: string
  inv_matterId :: string
  inv_clientContactId :: "string option"
  inv_invoiceNumber :: string
  inv_status :: InvoiceStatus
  inv_approvedAt :: "string option"
  inv_issuedAt :: "string option"
  inv_dueAt :: "string option"
  inv_memo :: "string option"
  inv_createdByUserId :: string
  inv_createdAt :: string
  inv_voidedAt :: "string option"
  inv_subtotalCents :: int
  inv_taxCents :: int
  inv_totalCents :: int
  inv_paidCents :: int
  inv_balanceDueCents :: int

record InvoiceLineRecord =
  line_id :: string
  line_firmId :: string
  line_invoiceId :: string
  line_matterId :: string
  line_kind :: InvoiceLineKind
  line_description :: string
  line_quantity :: int
  line_unitAmountCents :: int
  line_subtotalCents :: int
  line_taxName :: "string option"
  line_taxRateBps :: int
  line_taxCents :: int
  line_totalCents :: int
  line_timeEntryId :: "string option"
  line_expenseEntryId :: "string option"
  line_createdAt :: string

record ManualPaymentRecord =
  pay_id :: string
  pay_firmId :: string
  pay_matterId :: string
  pay_invoiceId :: "string option"
  pay_clientContactId :: "string option"
  pay_receivedAt :: string
  pay_amountCents :: int
  pay_method :: ManualPaymentMethod
  pay_reference :: "string option"
  pay_status :: ManualPaymentStatus
  pay_receivedByUserId :: string
  pay_reconciledAt :: "string option"
  pay_reconciledByUserId :: "string option"
  pay_reconciliationNotes :: "string option"
  pay_reconciliationEvidence :: "((string \<times> js_value) list) option"
  pay_notes :: "string option"
  pay_evidence :: "((string \<times> js_value) list) option"

record PaymentAllocationRecord =
  alloc_id :: string
  alloc_firmId :: string
  alloc_paymentId :: string
  alloc_invoiceId :: string
  alloc_amountCents :: int
  alloc_allocatedAt :: string

record TrustTransferRequestRecord =
  ttr_id :: string
  ttr_firmId :: string
  ttr_matterId :: string
  ttr_clientContactId :: "string option"
  ttr_invoiceId :: string
  ttr_requestedByUserId :: string
  ttr_amountCents :: int
  ttr_status :: TrustTransferRequestStatus
  ttr_reason :: "string option"
  ttr_requestedAt :: string
  ttr_reviewedByUserId :: "string option"
  ttr_reviewedAt :: "string option"
  ttr_ledgerTransactionId :: "string option"
  ttr_evidence :: "((string \<times> js_value) list) option"

record TrustTransferLedgerLinkSummary =
  link_transactionExists :: bool
  link_matterMatches :: bool
  link_clientMatches :: bool
  link_trustAssetCreditCents :: int
  link_clientLiabilityDebitCents :: int
  link_amountMatches :: bool

record TimeEntry =
  time_id :: string
  time_firmId :: string
  time_matterId :: string
  time_userId :: string
  time_performedAt :: string
  time_minutes :: int
  time_rateCents :: int
  time_rateRuleId :: "string option"
  time_rateSnapshot :: "BillingRateSnapshot option"
  time_narrative :: string
  time_billable :: bool
  time_billingStatus :: BillingStatus

record ExpenseEntry =
  exp_id :: string
  exp_firmId :: string
  exp_matterId :: string
  exp_incurredAt :: string
  exp_amountCents :: int
  exp_category :: string
  exp_categoryCode :: "string option"
  exp_description :: string
  exp_reimbursable :: bool
  exp_billingStatus :: BillingStatus

record InvoiceTotals =
  tot_subtotalCents :: int
  tot_taxCents :: int
  tot_totalCents :: int
  tot_paidCents :: int
  tot_balanceDueCents :: int

record LineTotals =
  ltot_subtotalCents :: int
  ltot_taxCents :: int
  ltot_totalCents :: int

record RateInput =
  rin_matterId :: string
  rin_userId :: string
  rin_role :: "string option"
  rin_performedAt :: string

subsection \<open>Amounts and invoices\<close>

definition timeEntryAmountCents :: "int \<Rightarrow> int \<Rightarrow> int" where
  "timeEntryAmountCents minutes rateCents = math_round (mult_double (div_double minutes 60) (of_int rateCents))"

definition expenseEntryAmountCents :: "ExpenseEntry \<Rightarrow> int" where
  "expenseEntryAmountCents entry = exp_amountCents entry"

definition calculateTaxCents :: "int \<Rightarrow> int \<Rightarrow> int" where
  "calculateTaxCents subtotalCents taxRateBps = math_round_div (subtotalCents * taxRateBps) 10000"

definition createInvoiceLineTotals :: "int \<Rightarrow> int \<Rightarrow> int \<Rightarrow> LineTotals" where
  "createInvoiceLineTotals quantity unitAmountCents taxRateBps =
     (let subtotalCents = quantity * unitAmountCents; taxCents = calculateTaxCents subtotalCents taxRateBps in
      \<lparr>ltot_subtotalCents = subtotalCents, ltot_taxCents = taxCents, ltot_totalCents = subtotalCents + taxCents\<rparr>)"

definition allocatedPaymentTotalCents :: "PaymentAllocationRecord list \<Rightarrow> int" where
  "allocatedPaymentTotalCents allocations = sum_by alloc_amountCents allocations"

definition calculateInvoiceTotals :: "InvoiceLineRecord list \<Rightarrow> PaymentAllocationRecord list \<Rightarrow> InvoiceTotals" where
  "calculateInvoiceTotals lines allocations =
     (let totalCents = sum_by line_totalCents lines; paidCents = allocatedPaymentTotalCents allocations in
      \<lparr>tot_subtotalCents = sum_by line_subtotalCents lines, tot_taxCents = sum_by line_taxCents lines,
       tot_totalCents = totalCents, tot_paidCents = paidCents,
       tot_balanceDueCents = max 0 (totalCents - paidCents)\<rparr>)"

definition invoiceStatusForPayment :: "InvoiceStatus \<Rightarrow> int \<Rightarrow> int \<Rightarrow> InvoiceStatus" where
  "invoiceStatusForPayment currentStatus totalCents paidCents =
     (if currentStatus = Invoice_void \<or> currentStatus = Invoice_draft \<or> currentStatus = Invoice_approved
      then currentStatus
      else if paidCents \<le> 0 then Invoice_issued
      else if paidCents \<ge> totalCents then Invoice_paid
      else Invoice_partially_paid)"

definition isBillableUnbilledTime :: "TimeEntry \<Rightarrow> bool" where
  "isBillableUnbilledTime entry = (time_billable entry \<and> time_billingStatus entry = Billing_approved)"

definition isBillableUnbilledExpense :: "ExpenseEntry \<Rightarrow> bool" where
  "isBillableUnbilledExpense entry = (exp_reimbursable entry \<and> exp_billingStatus entry = Billing_approved)"

subsection \<open>Status of billable entries\<close>

primrec allowedTransitions :: "BillingStatus \<Rightarrow> BillingStatus list" where
  "allowedTransitions Billing_draft = [Billing_submitted, Billing_written_off]"
| "allowedTransitions Billing_submitted = [Billing_approved, Billing_written_off]"
| "allowedTransitions Billing_approved = [Billing_billed, Billing_written_off]"
| "allowedTransitions Billing_billed = []"
| "allowedTransitions Billing_written_off = []"

primrec billing_status_name :: "BillingStatus \<Rightarrow> string" where
  "billing_status_name Billing_draft = ''draft''"
| "billing_status_name Billing_submitted = ''submitted''"
| "billing_status_name Billing_approved = ''approved''"
| "billing_status_name Billing_billed = ''billed''"
| "billing_status_name Billing_written_off = ''written_off''"

definition assertBillingStatusTransition :: "BillingStatus \<Rightarrow> BillingStatus \<Rightarrow> unit result" where
  "assertBillingStatusTransition old new =
     throw_if (new \<notin> set (allowedTransitions old))
       (''Invalid billing status transition: '' @ billing_status_name old @ '' to '' @ billing_status_name new)"

subsection \<open>Rate rules\<close>

definition billingRuleScope :: "string option \<Rightarrow> string option \<Rightarrow> string option \<Rightarrow> BillingRateRuleScope" where
  "billingRuleScope matterId userId role =
     (if truthy matterId \<and> truthy userId then Scope_matter_user
      else if truthy matterId then Scope_matter
      else if truthy userId then Scope_user
      else if truthy role then Scope_role
      else Scope_firm)"

primrec billingRateRuleSpecificity :: "BillingRateRuleScope \<Rightarrow> int" where
  "billingRateRuleSpecificity Scope_matter_user = 5"
| "billingRateRuleSpecificity Scope_matter = 4"
| "billingRateRuleSpecificity Scope_user = 3"
| "billingRateRuleSpecificity Scope_role = 2"
| "billingRateRuleSpecificity Scope_firm = 1"

definition validateBillingRateRule :: "BillingRateRuleRecord \<Rightarrow> unit result" where
  "validateBillingRateRule record = run_checks
     [throw_if (trim (rate_firmId record) = []) ''Billing rate rule requires a firm id'',
      throw_if (trim (rate_label record) = []) ''Billing rate rule label is required'',
      throw_if (rate_rateCents record < 0) ''Billing rate rule rate must be a non-negative integer'',
      throw_if (rate_scope record \<noteq> billingRuleScope (rate_matterId record) (rate_userId record) (rate_role record))
        ''Billing rate rule scope does not match identifiers'',
      throw_if (date_parse (rate_effectiveFrom record) = None)
        ''Billing rate rule effectiveFrom must be a valid timestamp'',
      throw_if (truthy (rate_effectiveUntil record) \<and> date_parse (or_else (rate_effectiveUntil record) []) = None)
        ''Billing rate rule effectiveUntil must be a valid timestamp'',
      throw_if (truthy (rate_effectiveUntil record)
                \<and> js_le (date_parse (or_else (rate_effectiveUntil record) [])) (date_parse (rate_effectiveFrom record)))
        ''Billing rate rule effectiveUntil must be after effectiveFrom'']"

text \<open>\<open>before_end\<close>: a time is before the end of an open or bounded period (\<open>POSITIVE_INFINITY\<close> when open).\<close>

definition before_end :: "int option \<Rightarrow> string option \<Rightarrow> bool" where
  "before_end t until = (if truthy until then js_less t (date_parse (or_else until [])) else t \<noteq> None)"

definition billingRateRuleEffectivePeriodsOverlap :: "BillingRateRuleRecord \<Rightarrow> BillingRateRuleRecord \<Rightarrow> bool" where
  "billingRateRuleEffectivePeriodsOverlap left right =
     (before_end (date_parse (rate_effectiveFrom left)) (rate_effectiveUntil right)
      \<and> before_end (date_parse (rate_effectiveFrom right)) (rate_effectiveUntil left))"

definition billingRateRulesOverlapAtSameActiveScope :: "BillingRateRuleRecord \<Rightarrow> BillingRateRuleRecord \<Rightarrow> bool" where
  "billingRateRulesOverlapAtSameActiveScope left right =
     (rate_firmId left = rate_firmId right \<and> rate_active left \<and> rate_active right
      \<and> rate_scope left = rate_scope right
      \<and> or_else (rate_matterId left) [] = or_else (rate_matterId right) []
      \<and> or_else (rate_userId left) [] = or_else (rate_userId right) []
      \<and> or_else (rate_role left) [] = or_else (rate_role right) []
      \<and> billingRateRuleEffectivePeriodsOverlap left right)"

definition billingRateRuleApplies :: "RateInput \<Rightarrow> BillingRateRuleRecord \<Rightarrow> bool" where
  "billingRateRuleApplies input rule =
     (if \<not> rate_active rule then False
      else let performedAt = date_parse (rin_performedAt input) in
      if js_less performedAt (date_parse (rate_effectiveFrom rule)) then False
      else if truthy (rate_effectiveUntil rule)
              \<and> js_le (date_parse (or_else (rate_effectiveUntil rule) [])) performedAt then False
      else if truthy (rate_matterId rule) \<and> rate_matterId rule \<noteq> Some (rin_matterId input) then False
      else if truthy (rate_userId rule) \<and> rate_userId rule \<noteq> Some (rin_userId input) then False
      else if truthy (rate_role rule) \<and> rate_role rule \<noteq> rin_role input then False
      else True)"

definition ratePrecedence :: "BillingRateRuleRecord \<Rightarrow> BillingRateRuleRecord \<Rightarrow> int" where
  "ratePrecedence left right =
     (let specificity = billingRateRuleSpecificity (rate_scope right) - billingRateRuleSpecificity (rate_scope left) in
      if specificity \<noteq> 0 then specificity
      else date_difference (rate_effectiveFrom right) (rate_effectiveFrom left))"

definition resolveBillingRateRule :: "BillingRateRuleRecord list \<Rightarrow> RateInput \<Rightarrow> BillingRateRuleRecord option" where
  "resolveBillingRateRule rules input = head (js_sort ratePrecedence (filter (billingRateRuleApplies input) rules))"

subsection \<open>Period locks and timers\<close>

definition validateBillingPeriodLock :: "BillingPeriodLockRecord \<Rightarrow> unit result" where
  "validateBillingPeriodLock record = run_checks
     [throw_if (trim (lock_firmId record) = []) ''Billing period lock requires a firm id'',
      throw_if (date_parse (lock_periodStart record) = None \<or> date_parse (lock_periodEnd record) = None)
        ''Billing period lock dates must be valid timestamps'',
      throw_if (js_le (date_parse (lock_periodEnd record)) (date_parse (lock_periodStart record)))
        ''Billing period lock end must be after start'',
      throw_if (trim (lock_lockedByUserId record) = []) ''Billing period lock requires an actor'']"

definition billingDateFallsInsideLock :: "string \<Rightarrow> BillingPeriodLockRecord \<Rightarrow> bool" where
  "billingDateFallsInsideLock dateIso lock =
     (js_le (date_parse (lock_periodStart lock)) (date_parse dateIso)
      \<and> js_less (date_parse dateIso) (date_parse (lock_periodEnd lock)))"

definition billingPeriodLocksOverlap :: "BillingPeriodLockRecord \<Rightarrow> BillingPeriodLockRecord \<Rightarrow> bool" where
  "billingPeriodLocksOverlap left right =
     (lock_firmId left = lock_firmId right
      \<and> js_less (date_parse (lock_periodStart left)) (date_parse (lock_periodEnd right))
      \<and> js_less (date_parse (lock_periodStart right)) (date_parse (lock_periodEnd left)))"

definition checkTimerWindow :: "int option \<Rightarrow> int option \<Rightarrow> unit result" where
  "checkTimerWindow startedAt stoppedAt = run_checks
     [throw_if (startedAt = None \<or> stoppedAt = None) ''Timer draft timestamps must be valid'',
      throw_if (js_le stoppedAt startedAt) ''Timer draft stop time must be after start time'']"

definition timerDraftMinutesFromWindow :: "string \<Rightarrow> string \<Rightarrow> int option \<Rightarrow> int result" where
  "timerDraftMinutesFromWindow startedAt stoppedAt minimumMinutes =
     bind_result (checkTimerWindow (date_parse startedAt) (date_parse stoppedAt)) (\<lambda>_.
       Inr (max (or_else minimumMinutes 1)
         (- ((or_else (date_parse startedAt) 0 - or_else (date_parse stoppedAt) 0) div 60000))))"

definition billingTimerWindowOverlapsLock ::
  "string \<Rightarrow> string \<Rightarrow> BillingPeriodLockRecord list \<Rightarrow> BillingPeriodLockRecord option result" where
  "billingTimerWindowOverlapsLock startedAt stoppedAt locks =
     bind_result (checkTimerWindow (date_parse startedAt) (date_parse stoppedAt)) (\<lambda>_.
       Inr (List.find (\<lambda>lock. js_less (date_parse startedAt) (date_parse (lock_periodEnd lock))
              \<and> js_less (date_parse (lock_periodStart lock)) (date_parse stoppedAt)) locks))"

subsection \<open>Expense categories\<close>

definition is_code_char :: "char \<Rightarrow> bool" where
  "is_code_char c = (is_digit c \<or> c = CHR ''_'' \<or> (97 \<le> (of_char c :: nat) \<and> of_char c \<le> (122 :: nat)))"

definition billingExpenseCategoryCodePattern :: "string \<Rightarrow> bool" where
  "billingExpenseCategoryCodePattern code = (code \<noteq> [] \<and> list_all is_code_char code)"

fun underscore_runs :: "bool \<Rightarrow> string \<Rightarrow> string" where
  "underscore_runs inside [] = []"
| "underscore_runs inside (c # cs) =
     (if is_space c \<or> c = CHR ''-''
      then (if inside then underscore_runs True cs else CHR ''_'' # underscore_runs True cs)
      else c # underscore_runs False cs)"

definition normalizeExpenseCategoryCode :: "string \<Rightarrow> string" where
  "normalizeExpenseCategoryCode text = underscore_runs False (to_lower_case (trim text))"

definition validateBillingExpenseCategory :: "BillingExpenseCategoryRecord \<Rightarrow> unit result" where
  "validateBillingExpenseCategory record = run_checks
     [throw_if (trim (ecat_firmId record) = []) ''Billing expense category requires a firm id'',
      throw_if (\<not> billingExpenseCategoryCodePattern (ecat_code record))
        ''Billing expense category code must use lowercase letters, numbers, and underscores'',
      throw_if (trim (ecat_label record) = []) ''Billing expense category label is required'',
      throw_if (\<not> ecat_reimbursableAllowed record \<and> ecat_defaultReimbursable record)
        ''Default reimbursable cannot be true when reimbursable is not allowed'',
      throw_if (date_parse (ecat_createdAt record) = None)
        ''Billing expense category createdAt must be a valid timestamp'',
      throw_if (date_parse (ecat_updatedAt record) = None)
        ''Billing expense category updatedAt must be a valid timestamp'']"

definition billingExpenseCategoryAppliesToMatter :: "BillingExpenseCategoryRecord \<Rightarrow> Matter \<Rightarrow> bool" where
  "billingExpenseCategoryAppliesToMatter category m =
     ((\<not> truthy (ecat_matterId category) \<or> ecat_matterId category = Some (matter_id m))
      \<and> (ecat_practiceAreas category = [] \<or> matter_practiceArea m \<in> set (ecat_practiceAreas category))
      \<and> (ecat_jurisdictions category = [] \<or> matter_jurisdiction m \<in> set (ecat_jurisdictions category)))"

definition billingExpenseCategoryAllowsReimbursable :: "BillingExpenseCategoryRecord \<Rightarrow> bool \<Rightarrow> bool" where
  "billingExpenseCategoryAllowsReimbursable category reimbursable =
     (\<not> reimbursable \<or> ecat_reimbursableAllowed category)"

definition billingExpenseCategoryProfileFromRecord :: "BillingExpenseCategoryRecord \<Rightarrow> ExpenseCategoryProfileCue" where
  "billingExpenseCategoryProfileFromRecord category =
     \<lparr>cue_key = ecat_code category, cue_label = ecat_label category, cue_category = ecat_label category,
      cue_defaultReimbursable = ecat_defaultReimbursable category,
      cue_reviewCue = or_else (ecat_reviewCue category) ''Review expense support before billing approval.'',
      cue_reviewOnly = True\<rparr>"

definition expenseCategoryProfileCues :: "ExpenseCategoryProfileCue list" where
  "expenseCategoryProfileCues =
     [\<lparr>cue_key = ''filing_service'', cue_label = ''Filing and service'', cue_category = ''Filing and service'',
       cue_defaultReimbursable = True,
       cue_reviewCue = ''Attach receipt or registry confirmation before billing approval.'', cue_reviewOnly = True\<rparr>,
      \<lparr>cue_key = ''courier_postage'', cue_label = ''Courier and postage'', cue_category = ''Courier and postage'',
       cue_defaultReimbursable = True,
       cue_reviewCue = ''Confirm matter purpose and delivery evidence before approval.'', cue_reviewOnly = True\<rparr>,
      \<lparr>cue_key = ''research_database'', cue_label = ''Research database'', cue_category = ''Research database'',
       cue_defaultReimbursable = False,
       cue_reviewCue = ''Confirm client billing agreement before marking reimbursable.'', cue_reviewOnly = True\<rparr>,
      \<lparr>cue_key = ''travel_meal'', cue_label = ''Travel and meals'', cue_category = ''Travel and meals'',
       cue_defaultReimbursable = False,
       cue_reviewCue = ''Review policy, purpose, and receipts before approval.'', cue_reviewOnly = True\<rparr>]"

definition expenseCategoryProfileForKey :: "string \<Rightarrow> ExpenseCategoryProfileCue option" where
  "expenseCategoryProfileForKey key = List.find (\<lambda>profile. cue_key profile = key) expenseCategoryProfileCues"

definition defaultCategory :: "string \<Rightarrow> string option \<Rightarrow> string \<Rightarrow> ExpenseCategoryProfileCue \<Rightarrow> BillingExpenseCategoryRecord" where
  "defaultCategory firmId createdByUserId now profile =
     \<lparr>ecat_id = firmId @ '':expense-category:'' @ cue_key profile, ecat_firmId = firmId, ecat_code = cue_key profile,
      ecat_label = cue_label profile, ecat_active = True,
      ecat_defaultReimbursable = cue_defaultReimbursable profile, ecat_reimbursableAllowed = True,
      ecat_matterId = None, ecat_practiceAreas = [], ecat_jurisdictions = [],
      ecat_reviewCue = Some (cue_reviewCue profile), ecat_createdByUserId = createdByUserId,
      ecat_updatedByUserId = createdByUserId, ecat_createdAt = now, ecat_updatedAt = now\<rparr>"

definition defaultBillingExpenseCategoriesForFirm ::
  "string \<Rightarrow> string \<Rightarrow> string option \<Rightarrow> string option \<Rightarrow> BillingExpenseCategoryRecord list" where
  "defaultBillingExpenseCategoriesForFirm clock firmId createdByUserId nowInput =
     map (defaultCategory firmId createdByUserId (or_else nowInput clock)) expenseCategoryProfileCues"

subsection \<open>Trust transfers\<close>

definition trustTransferRequestCanPost :: "TrustTransferRequestRecord \<Rightarrow> bool" where
  "trustTransferRequestCanPost request =
     (ttr_status request = Transfer_approved \<and> \<not> truthy (ttr_ledgerTransactionId request))"

definition trustTransferRequestAvailableBalanceCents ::
  "TrustTransferRequestRecord \<Rightarrow> (string \<times> int) list \<Rightarrow> int" where
  "trustTransferRequestAvailableBalanceCents request trustBalances =
     (if truthy (ttr_clientContactId request) then
        max 0 (or_else (map_get trustBalances (or_else (ttr_clientContactId request) [] @ '':'' @ ttr_matterId request)) 0)
      else sum_by (\<lambda>(key, balance). max 0 balance)
             (filter (\<lambda>(key, balance). ends_with ('':'' @ ttr_matterId request) key) trustBalances))"

definition accountTypeById :: "LedgerAccount list \<Rightarrow> string \<Rightarrow> LedgerAccountType option" where
  "accountTypeById accounts = map_get (js_map (map (\<lambda>a. (acct_id a, acct_type a)) accounts))"

definition expectedTransferEntry :: "LedgerAccount list \<Rightarrow> LedgerEntry \<Rightarrow> bool" where
  "expectedTransferEntry accounts entry =
     (case accountTypeById accounts (entry_accountId entry) of
        Some trust_asset \<Rightarrow> entry_debitCents entry = 0 \<and> entry_creditCents entry > 0
      | Some client_liability \<Rightarrow> entry_debitCents entry > 0 \<and> entry_creditCents entry = 0
      | _ \<Rightarrow> entry_debitCents entry = 0 \<and> entry_creditCents entry = 0)"

definition summarizeTrustTransferLedgerLink ::
  "TrustTransferRequestRecord \<Rightarrow> string \<Rightarrow> LedgerAccount list \<Rightarrow> LedgerEntry list \<Rightarrow> TrustTransferLedgerLinkSummary" where
  "summarizeTrustTransferLedgerLink request ledgerTransactionId accounts allEntries =
     (let entries = filter (\<lambda>e. entry_transactionId e = ledgerTransactionId) allEntries;
          matterEntries = filter (\<lambda>e. entry_matterId e = ttr_matterId request) entries;
          requestScopedEntries = (if truthy (ttr_clientContactId request)
            then filter (\<lambda>e. Some (entry_clientId e) = ttr_clientContactId request) matterEntries else matterEntries);
          trustAssetCreditCents = sum_by entry_creditCents
            (filter (\<lambda>e. accountTypeById accounts (entry_accountId e) = Some trust_asset) matterEntries);
          clientLiabilityDebitCents = sum_by entry_debitCents
            (filter (\<lambda>e. accountTypeById accounts (entry_accountId e) = Some client_liability) matterEntries);
          onlyExpected = list_all (expectedTransferEntry accounts) requestScopedEntries;
          matterMatches = (entries \<noteq> [] \<and> matterEntries \<noteq> [] \<and> length entries = length matterEntries);
          clientMatches = (\<not> truthy (ttr_clientContactId request)
            \<or> (matterEntries \<noteq> [] \<and> list_all (\<lambda>e. Some (entry_clientId e) = ttr_clientContactId request) matterEntries))
      in \<lparr>link_transactionExists = (entries \<noteq> []), link_matterMatches = matterMatches,
          link_clientMatches = clientMatches, link_trustAssetCreditCents = trustAssetCreditCents,
          link_clientLiabilityDebitCents = clientLiabilityDebitCents,
          link_amountMatches = (matterMatches \<and> clientMatches \<and> onlyExpected
            \<and> trustAssetCreditCents = ttr_amountCents request
            \<and> clientLiabilityDebitCents = ttr_amountCents request)\<rparr>)"

subsection \<open>The amount of a time entry\<close>

text \<open>
  The amount of a time entry is within a cent of the exact product of its hours and its rate, for
  amounts below two to the fifty cents, although two floating point roundings come before the
  rounding to cents.
\<close>

theorem time_amount_within_a_cent:
  assumes "0 \<le> minutes" and "0 \<le> rateCents" and "minutes * rateCents \<le> 60 * 2 ^ 50"
  shows "\<bar>60 * timeEntryAmountCents minutes rateCents - minutes * rateCents\<bar> < 60"
  unfolding timeEntryAmountCents_def using assms by (intro rounded_quotient_times) auto

text \<open>
  Halves of a cent do not always round up: 11 minutes at 150 cents an hour are 27.5 cents, and the
  floating point product lies just below that.
\<close>

lemma half_cent_rounds_down: "timeEntryAmountCents 11 150 = 27" "11 * 150 = 60 * 27 + (30 :: int)"
  by code_simp+

theorem time_amount_within_a_cent_witness: "\<bar>60 * timeEntryAmountCents 90 20000 - 90 * 20000\<bar> < 60"
  using time_amount_within_a_cent [of 90 20000] by simp

subsection \<open>Rate rules: the best applicable rule wins\<close>

definition rate_from :: "BillingRateRuleRecord \<Rightarrow> int" where
  "rate_from r = or_else (date_parse (rate_effectiveFrom r)) 0"

definition rate_order :: "BillingRateRuleRecord \<Rightarrow> BillingRateRuleRecord \<Rightarrow> int" where
  "rate_order = cmp_or (\<lambda>l r. billingRateRuleSpecificity (rate_scope r) - billingRateRuleSpecificity (rate_scope l))
     (\<lambda>l r. rate_from r - rate_from l)"

interpretation rate_order: comparator rate_order
  unfolding rate_order_def by (intro comparator_or_diff_rev comparator_diff_rev)

lemma validateBillingRateRule_dates:
  "validateBillingRateRule r = Inr () \<Longrightarrow> \<exists>t. date_parse (rate_effectiveFrom r) = Some t"
  unfolding validateBillingRateRule_def run_checks_ok by auto

lemma ratePrecedence_order:
  assumes "list_all (\<lambda>r. validateBillingRateRule r = Inr ()) rules" "l \<in> set rules" "r \<in> set rules"
  shows "ratePrecedence l r = rate_order l r"
proof -
  obtain a b where "date_parse (rate_effectiveFrom l) = Some a" "date_parse (rate_effectiveFrom r) = Some b"
    using assms validateBillingRateRule_dates by (meson list_all_iff)
  then show ?thesis
    by (simp add: ratePrecedence_def rate_order_def cmp_or_def date_difference_def rate_from_def Let_def)
qed

lemma resolveBillingRateRule_order:
  assumes "list_all (\<lambda>r. validateBillingRateRule r = Inr ()) rules"
  shows "resolveBillingRateRule rules input = head (js_sort rate_order (filter (billingRateRuleApplies input) rules))"
  unfolding resolveBillingRateRule_def
  using ratePrecedence_order [OF assms] by (intro arg_cong [where f = head] js_sort_cong) simp

lemma resolve_none:
  assumes "list_all (\<lambda>r. validateBillingRateRule r = Inr ()) rules" "resolveBillingRateRule rules input = None"
    and "q \<in> set rules"
  shows "\<not> billingRateRuleApplies input q"
proof -
  have "filter (billingRateRuleApplies input) rules = []"
    using rate_order.js_sort_head_exists [of "filter (billingRateRuleApplies input) rules"] assms(2)
    by (auto simp: resolveBillingRateRule_order [OF assms(1)])
  then show ?thesis using assms(3) by (auto simp: filter_empty_conv)
qed

lemma resolve_some:
  assumes "list_all (\<lambda>r. validateBillingRateRule r = Inr ()) rules" "resolveBillingRateRule rules input = Some r"
  shows "r \<in> set rules" "billingRateRuleApplies input r"
    and "q \<in> set rules \<Longrightarrow> billingRateRuleApplies input q \<Longrightarrow>
      billingRateRuleSpecificity (rate_scope q) \<le> billingRateRuleSpecificity (rate_scope r)
      \<and> (rate_scope q = rate_scope r \<longrightarrow> js_le (date_parse (rate_effectiveFrom q)) (date_parse (rate_effectiveFrom r)))"
proof -
  from rate_order.js_sort_head_least [OF assms(2) [unfolded resolveBillingRateRule_order [OF assms(1)]]]
  show r: "r \<in> set rules" "billingRateRuleApplies input r" by auto
  from rate_order.js_sort_head_least [OF assms(2) [unfolded resolveBillingRateRule_order [OF assms(1)]]]
  have best: "rate_order r q \<le> 0" if "q \<in> set rules" "billingRateRuleApplies input q" for q using that by auto
  have date: "\<exists>t. date_parse (rate_effectiveFrom q) = Some t" if "q \<in> set rules" for q
    using assms(1) that validateBillingRateRule_dates by (auto simp: list_all_iff)
  show "billingRateRuleSpecificity (rate_scope q) \<le> billingRateRuleSpecificity (rate_scope r)
      \<and> (rate_scope q = rate_scope r \<longrightarrow> js_le (date_parse (rate_effectiveFrom q)) (date_parse (rate_effectiveFrom r)))"
    if "q \<in> set rules" "billingRateRuleApplies input q"
    using best [OF that] date [OF that(1)] date [OF r(1)]
    by (auto simp: rate_order_def cmp_or_def rate_from_def split: if_splits)
qed

text \<open>
  The billing rate is that of the best rule: among valid rules, \<open>resolveBillingRateRule\<close> returns a
  rule that applies, none that applies is more specific, and none as specific took effect later; it
  returns nothing only when no rule applies.
\<close>

theorem resolveBillingRateRule_best:
  assumes "list_all (\<lambda>r. validateBillingRateRule r = Inr ()) rules"
  shows "case resolveBillingRateRule rules input of
      None \<Rightarrow> \<not> list_ex (billingRateRuleApplies input) rules
    | Some r \<Rightarrow> r \<in> set rules \<and> billingRateRuleApplies input r
        \<and> (\<forall>q \<in> set rules. billingRateRuleApplies input q \<longrightarrow>
             billingRateRuleSpecificity (rate_scope q) \<le> billingRateRuleSpecificity (rate_scope r)
             \<and> (rate_scope q = rate_scope r \<longrightarrow> js_le (date_parse (rate_effectiveFrom q)) (date_parse (rate_effectiveFrom r))))"
proof (cases "resolveBillingRateRule rules input")
  case None
  then show ?thesis using resolve_none [OF assms None] by (auto simp: list_ex_iff)
next
  case (Some r)
  then show ?thesis using resolve_some [OF assms Some] by auto
qed

subsection \<open>The billing status machine\<close>

definition billing_step :: "BillingStatus \<Rightarrow> BillingStatus \<Rightarrow> bool" where
  "billing_step old new = is_ok (assertBillingStatusTransition old new)"

lemma billing_step_iff: "billing_step old new \<longleftrightarrow> new \<in> set (allowedTransitions old)"
  by (simp add: billing_step_def assertBillingStatusTransition_def throw_if_def)

fun billing_path :: "BillingStatus list \<Rightarrow> bool" where
  "billing_path [] = False"
| "billing_path [s] = True"
| "billing_path (s # t # path) = (billing_step s t \<and> billing_path (t # path))"

lemma billing_path_final:
  "billing_path (s # path) \<Longrightarrow> allowedTransitions s = [] \<Longrightarrow> path = []"
  by (cases path) (auto simp: billing_step_iff)

lemma billing_path_from:
  assumes "billing_path (s # path)" "last (s # path) = Billing_billed"
  shows "s # path \<in> {[Billing_draft, Billing_submitted, Billing_approved, Billing_billed],
    [Billing_submitted, Billing_approved, Billing_billed], [Billing_approved, Billing_billed], [Billing_billed]}"
  using assms
proof (induction path arbitrary: s)
  case (Cons t path)
  have "billing_path (t # path)" "last (t # path) = Billing_billed" "t \<in> set (allowedTransitions s)"
    using Cons.prems by (auto simp: billing_step_iff)
  then show ?case using Cons.IH [of t] by (cases s) auto
qed simp

text \<open>
  Nothing is billed without review: a sequence of allowed status changes from draft to billed is
  exactly draft, submitted, approved, billed; and billed and written-off entries never change again.
\<close>

theorem billed_only_through_approval:
  assumes "billing_path path"
  shows "(hd path = Billing_draft \<and> last path = Billing_billed \<longrightarrow>
      path = [Billing_draft, Billing_submitted, Billing_approved, Billing_billed])
    \<and> (hd path \<in> {Billing_billed, Billing_written_off} \<longrightarrow> path = [hd path])"
proof (cases path)
  case (Cons s rest)
  then show ?thesis
    using assms billing_path_from [of s rest] billing_path_final [of s rest] by auto
qed (use assms in simp)

subsection \<open>Locks and timers\<close>

lemma checkTimerWindow_ok:
  "checkTimerWindow a b = Inr () \<longleftrightarrow> (\<exists>x y. a = Some x \<and> b = Some y \<and> x < y)"
  by (cases a; cases b) (auto simp: checkTimerWindow_def not_le)

lemma windows_meet:
  fixes a b c d :: int
  assumes "a < b" "c < d"
  shows "(a < d \<and> c < b) \<longleftrightarrow> (\<exists>t. a \<le> t \<and> t < b \<and> c \<le> t \<and> t < d)"
  using assms by (auto intro: exI [of _ "max a c"])

lemma validateBillingPeriodLock_dates:
  "validateBillingPeriodLock l = Inr () \<Longrightarrow>
   \<exists>x y. date_parse (lock_periodStart l) = Some x \<and> date_parse (lock_periodEnd l) = Some y \<and> x < y"
  unfolding validateBillingPeriodLock_def run_checks_ok by (auto simp: not_le)

text \<open>
  A timer draft is refused exactly when it touches a locked period: over valid locks, for a
  window with a start before its stop, \<open>billingTimerWindowOverlapsLock\<close> finds no lock if and only if no
  instant from the start up to the stop falls inside a lock.
\<close>

theorem timer_avoids_locks:
  assumes "list_all (\<lambda>l. validateBillingPeriodLock l = Inr ()) locks"
    and "date_parse startedAt = Some a" and "date_parse stoppedAt = Some b" and "a < b"
  shows "billingTimerWindowOverlapsLock startedAt stoppedAt locks = Inr None \<longleftrightarrow>
    (\<forall>t. a \<le> t \<and> t < b \<longrightarrow>
      \<not> list_ex (\<lambda>l. js_le (date_parse (lock_periodStart l)) (Some t) \<and> js_less (Some t) (date_parse (lock_periodEnd l))) locks)"
proof -
  have ok: "checkTimerWindow (Some a) (Some b) = Inr ()" using assms(4) by (simp add: checkTimerWindow_ok)
  have one: "(js_less (Some a) (date_parse (lock_periodEnd l)) \<and> js_less (date_parse (lock_periodStart l)) (Some b)) \<longleftrightarrow>
      (\<exists>t. a \<le> t \<and> t < b \<and> js_le (date_parse (lock_periodStart l)) (Some t) \<and> js_less (Some t) (date_parse (lock_periodEnd l)))"
    if "l \<in> set locks" for l
  proof -
    obtain x y where "date_parse (lock_periodStart l) = Some x" "date_parse (lock_periodEnd l) = Some y" "x < y"
      using assms(1) \<open>l \<in> set locks\<close> validateBillingPeriodLock_dates by (meson list_all_iff)
    then show ?thesis using windows_meet [OF assms(4), of x y] by simp
  qed
  have "billingTimerWindowOverlapsLock startedAt stoppedAt locks = Inr None \<longleftrightarrow>
      (\<forall>l \<in> set locks. \<not> (js_less (Some a) (date_parse (lock_periodEnd l)) \<and> js_less (date_parse (lock_periodStart l)) (Some b)))"
    by (simp add: billingTimerWindowOverlapsLock_def assms(2,3) ok find_None_all)
  also have "\<dots> \<longleftrightarrow> (\<forall>l \<in> set locks. \<not> (\<exists>t. a \<le> t \<and> t < b \<and> js_le (date_parse (lock_periodStart l)) (Some t)
      \<and> js_less (Some t) (date_parse (lock_periodEnd l))))"
    using one by blast
  finally show ?thesis by (auto simp: list_ex_iff)
qed

subsection \<open>Trust transfers\<close>

lemma accountTypeById_fold:
  "map_get (foldl (\<lambda>m (k, v). map_put m k v) acc kvs) k =
    (case List.find (\<lambda>kv. fst kv = k) (rev kvs) of None \<Rightarrow> map_get acc k | Some kv \<Rightarrow> Some (snd kv))"
  by (induction kvs arbitrary: acc) (auto simp: find_append split: option.splits)

lemma accountTypeById_liability:
  assumes "accounts_consistent accounts"
  shows "accountTypeById accounts i = Some client_liability \<longleftrightarrow> i \<in> set (liabilityAccountIds accounts)"
proof -
  let ?kvs = "rev (map (\<lambda>a. (acct_id a, acct_type a)) accounts)"
  have eq: "accountTypeById accounts i = map_option snd (List.find (\<lambda>kv. fst kv = i) ?kvs)"
    by (simp add: accountTypeById_def js_map_def accountTypeById_fold split: option.splits)
  show ?thesis
  proof (cases "List.find (\<lambda>kv. fst kv = i) ?kvs")
    case None
    then have "\<forall>a \<in> set accounts. acct_id a \<noteq> i" by (auto simp: find_None_all)
    then have "i \<notin> set (liabilityAccountIds accounts)" by (auto simp: set_liabilityAccountIds)
    then show ?thesis using None by (simp add: eq)
  next
    case (Some kv)
    then obtain a where a: "a \<in> set accounts" "acct_id a = i" "kv = (i, acct_type a)"
      using find_Some_mem [OF Some] by auto
    have "i \<in> set (liabilityAccountIds accounts) \<longleftrightarrow> acct_type a = client_liability"
    proof
      assume "i \<in> set (liabilityAccountIds accounts)"
      then obtain b where "b \<in> set accounts" "acct_type b = client_liability" "acct_id b = i"
        by (auto simp: set_liabilityAccountIds)
      then show "acct_type a = client_liability" using accounts_consistentD [OF assms a(1)] a(2) by metis
    qed (use a in \<open>auto simp: set_liabilityAccountIds\<close>)
    then show ?thesis using Some a by (simp add: eq)
  qed
qed

text \<open>
  A trust transfer is linked to the ledger only for its amount: when the link summary says the
  amount matches, every entry of the transaction is of the request's matter (and client), and the
  transaction lowers that client's trust balance on the matter by exactly the requested amount.
\<close>

theorem trust_transfer_link_moves_amount:
  assumes "accounts_consistent accounts"
    and "link_amountMatches (summarizeTrustTransferLedgerLink request txId accounts entries)"
    and "ttr_clientContactId request = Some client" and "client \<noteq> []"
  shows "list_all (\<lambda>e. entry_matterId e = ttr_matterId request \<and> entry_clientId e = client)
      (filter (\<lambda>e. entry_transactionId e = txId) entries)
    \<and> netLiabilityBalance (filter (\<lambda>e. entry_transactionId e = txId) entries) (ttr_matterId request) client
        (liabilityAccountIds accounts) = - ttr_amountCents request"
proof -
  let ?tx = "filter (\<lambda>e. entry_transactionId e = txId) entries"
  let ?m = "filter (\<lambda>e. entry_matterId e = ttr_matterId request) ?tx"
  have len: "length ?tx = length ?m" and client: "\<forall>e \<in> set ?m. entry_clientId e = client"
    and expected: "\<forall>e \<in> set (filter (\<lambda>e. entry_clientId e = client) ?m). expectedTransferEntry accounts e"
    and debit: "sum_by entry_debitCents (filter (\<lambda>e. accountTypeById accounts (entry_accountId e) = Some client_liability) ?m)
      = ttr_amountCents request"
    using assms by (auto simp: summarizeTrustTransferLedgerLink_def Let_def list_all_iff)
  have mat: "\<forall>e \<in> set ?tx. entry_matterId e = ttr_matterId request"
    using len length_filter_less [of _ ?tx "\<lambda>e. entry_matterId e = ttr_matterId request"] by (metis order_less_irrefl)
  then have "?m = ?tx" by (rule filter_True)
  then have all: "\<forall>e \<in> set ?tx. entry_matterId e = ttr_matterId request \<and> entry_clientId e = client"
    using client mat by metis
  then have exp: "\<forall>e \<in> set ?tx. expectedTransferEntry accounts e"
    using expected \<open>?m = ?tx\<close> by (metis (mono_tags, lifting) filter_True)
  have debit': "sum_by entry_debitCents (filter (\<lambda>e. entry_accountId e \<in> set (liabilityAccountIds accounts)) ?tx) = ttr_amountCents request"
    using debit unfolding \<open>?m = ?tx\<close> accountTypeById_liability [OF assms(1)] .
  have "netLiabilityBalance ?tx (ttr_matterId request) client (liabilityAccountIds accounts)
      = sum_by net_effect (filter (\<lambda>e. entry_accountId e \<in> set (liabilityAccountIds accounts)) ?tx)"
    unfolding netLiabilityBalance_eq using all by (intro arg_cong [where f = "sum_by net_effect"] filter_cong) auto
  also have "\<dots> = sum_by (\<lambda>e. - entry_debitCents e) (filter (\<lambda>e. entry_accountId e \<in> set (liabilityAccountIds accounts)) ?tx)"
    unfolding sum_by_eq using exp
    by (intro arg_cong [where f = sum_list] map_cong)
      (auto simp: expectedTransferEntry_def net_effect_def simp flip: accountTypeById_liability [OF assms(1)])
  also have "\<dots> = - ttr_amountCents request"
    unfolding sum_by_minus using debit' by simp
  finally show ?thesis using all by (simp add: list_all_iff)
qed

subsection \<open>Worked billing data\<close>

definition ex_rate :: "string \<Rightarrow> string option \<Rightarrow> BillingRateRuleScope \<Rightarrow> int \<Rightarrow> BillingRateRuleRecord" where
  "ex_rate i m scope cents = \<lparr>rate_id = i, rate_firmId = ''f'', rate_label = ''Rate'', rate_matterId = m,
     rate_userId = None, rate_role = None, rate_scope = scope, rate_rateCents = cents,
     rate_effectiveFrom = ''2026-01-01'', rate_effectiveUntil = None, rate_active = True,
     rate_createdByUserId = ''u'', rate_createdAt = ''2026-01-01'', rate_updatedAt = ''2026-01-01''\<rparr>"

lemma ex_dates: "date_parse ''2026-01-01'' = Some 1767225600000" "date_parse ''2026-02-01'' = Some 1769904000000"
  "date_parse ''2026-03-01'' = Some 1772323200000"
  by code_simp+

theorem resolveBillingRateRule_best_witness:
  "\<exists>r. resolveBillingRateRule [ex_rate ''a'' None Scope_firm 100, ex_rate ''b'' (Some ''m'') Scope_matter 200]
      \<lparr>rin_matterId = ''m'', rin_userId = ''u'', rin_role = None, rin_performedAt = ''2026-02-01''\<rparr> = Some r
    \<and> 4 \<le> billingRateRuleSpecificity (rate_scope r)"
proof -
  let ?rules = "[ex_rate ''a'' None Scope_firm 100, ex_rate ''b'' (Some ''m'') Scope_matter 200]"
  let ?in = "\<lparr>rin_matterId = ''m'', rin_userId = ''u'', rin_role = None, rin_performedAt = ''2026-02-01''\<rparr>"
  have valid: "list_all (\<lambda>r. validateBillingRateRule r = Inr ()) ?rules"
    by (simp add: validateBillingRateRule_def ex_rate_def billingRuleScope_def ex_dates is_space_def)
  have applies: "billingRateRuleApplies ?in (ex_rate ''b'' (Some ''m'') Scope_matter 200)"
    by (simp add: billingRateRuleApplies_def ex_rate_def ex_dates Let_def)
  then obtain r where r: "resolveBillingRateRule ?rules ?in = Some r"
    using resolveBillingRateRule_best [OF valid, of ?in] by (cases "resolveBillingRateRule ?rules ?in") auto
  then have "billingRateRuleSpecificity (rate_scope (ex_rate ''b'' (Some ''m'') Scope_matter 200)) \<le> billingRateRuleSpecificity (rate_scope r)"
    using resolveBillingRateRule_best [OF valid, of ?in] applies by simp
  then show ?thesis using r by (simp add: ex_rate_def)
qed

theorem billed_only_through_approval_witness:
  "billing_path [Billing_draft, Billing_submitted, Billing_approved, Billing_billed] \<and> \<not> billing_path [Billing_billed, Billing_draft]"
  using billed_only_through_approval [of "[Billing_billed, Billing_draft]"]
    billed_only_through_approval [of "[Billing_draft, Billing_submitted, Billing_approved, Billing_billed]"]
  by (simp add: billing_step_iff)

definition ex_lock :: BillingPeriodLockRecord where
  "ex_lock = \<lparr>lock_id = ''l'', lock_firmId = ''f'', lock_periodStart = ''2026-01-01'', lock_periodEnd = ''2026-02-01'',
     lock_reason = None, lock_lockedByUserId = ''u'', lock_lockedAt = ''2026-02-01''\<rparr>"

lemma ex_lock_valid: "validateBillingPeriodLock ex_lock = Inr ()"
  by (simp add: validateBillingPeriodLock_def ex_lock_def ex_dates is_space_def)

theorem timer_avoids_locks_witness:
  "billingTimerWindowOverlapsLock ''2026-02-01'' ''2026-03-01'' [ex_lock] = Inr None"
  using timer_avoids_locks [of "[ex_lock]" "''2026-02-01''" 1769904000000 "''2026-03-01''" 1772323200000]
  by (simp add: ex_lock_valid ex_dates) (simp add: ex_lock_def ex_dates)

definition ex_transfer :: TrustTransferRequestRecord where
  "ex_transfer = \<lparr>ttr_id = ''tt'', ttr_firmId = ''f'', ttr_matterId = ''m'', ttr_clientContactId = Some ''c'',
     ttr_invoiceId = ''i'', ttr_requestedByUserId = ''u'', ttr_amountCents = 300, ttr_status = Transfer_approved,
     ttr_reason = None, ttr_requestedAt = ''2026-01-01'', ttr_reviewedByUserId = None, ttr_reviewedAt = None,
     ttr_ledgerTransactionId = None, ttr_evidence = None\<rparr>"

theorem trust_transfer_link_moves_amount_witness:
  "netLiabilityBalance (filter (\<lambda>e. entry_transactionId e = ''t2'') (nextEntries ex_payment)) ''m'' ''c'' [''liab''] = -300"
proof -
  have "link_amountMatches (summarizeTrustTransferLedgerLink ex_transfer ''t2'' ex_accounts (nextEntries ex_payment))"
    by (simp add: summarizeTrustTransferLedgerLink_def nextEntries_def nextEntry_def ex_ledger_defs ex_transfer_def
        accountTypeById_def js_map_def expectedTransferEntry_def Let_def)
  from trust_transfer_link_moves_amount [OF ex_accounts_consistent this, of "''c''"] show ?thesis
    by (simp add: ex_transfer_def)
qed

end
