(* ===== verification/Billing_Controls.thy ===== *)
theory Billing_Controls
  imports Billing
begin

section \<open>The stores of billing controls and trust transfer requests\<close>

text \<open>
  packages/database/src/repository/billing-controls/memory.ts (period locks and rate rules) and
  trust-transfer-requests/memory.ts. A store is a record; a writing call returns its result and the
  store it leaves. \<open>collate\<close> is \<open>String.prototype.localeCompare\<close>, whose order depends on the locale.
\<close>

subsection \<open>Period locks and rate rules\<close>

record MemoryBillingControlsStore =
  ctl_billingPeriodLocks :: "BillingPeriodLockRecord list"
  ctl_billingRateRules :: "BillingRateRuleRecord list"

definition listMemoryBillingPeriodLocks ::
  "(string \<Rightarrow> string \<Rightarrow> int) \<Rightarrow> MemoryBillingControlsStore \<Rightarrow> string \<Rightarrow> BillingPeriodLockRecord list" where
  "listMemoryBillingPeriodLocks collate store firmId =
     js_sort (\<lambda>left right. collate (lock_periodStart left) (lock_periodStart right))
       (filter (\<lambda>lock. lock_firmId lock = firmId) (ctl_billingPeriodLocks store))"

definition createMemoryBillingPeriodLock ::
  "MemoryBillingControlsStore \<Rightarrow> BillingPeriodLockRecord \<Rightarrow> BillingPeriodLockRecord result \<times> MemoryBillingControlsStore" where
  "createMemoryBillingPeriodLock store lock =
     (case validateBillingPeriodLock lock of
        Inl e \<Rightarrow> (Inl e, store)
      | Inr _ \<Rightarrow>
          if list_ex (\<lambda>candidate. billingPeriodLocksOverlap candidate lock) (ctl_billingPeriodLocks store)
          then (throw ''Billing period lock overlaps an existing lock'', store)
          else (Inr lock, store\<lparr>ctl_billingPeriodLocks := ctl_billingPeriodLocks store @ [lock]\<rparr>))"

record RateRuleOptions =
  ropt_activeOnly :: bool
  ropt_matterId :: "string option"
  ropt_userId :: "string option"

definition listMemoryBillingRateRules ::
  "(string \<Rightarrow> string \<Rightarrow> int) \<Rightarrow> MemoryBillingControlsStore \<Rightarrow> string \<Rightarrow> RateRuleOptions \<Rightarrow> BillingRateRuleRecord list" where
  "listMemoryBillingRateRules collate store firmId options =
     js_sort (\<lambda>left right. collate (rate_effectiveFrom left) (rate_effectiveFrom right))
       (filter (\<lambda>rule. rate_firmId rule = firmId
            \<and> (\<not> ropt_activeOnly options \<or> rate_active rule)
            \<and> (\<not> truthy (ropt_matterId options) \<or> \<not> truthy (rate_matterId rule) \<or> rate_matterId rule = ropt_matterId options)
            \<and> (\<not> truthy (ropt_userId options) \<or> \<not> truthy (rate_userId rule) \<or> rate_userId rule = ropt_userId options))
         (ctl_billingRateRules store))"

definition createMemoryBillingRateRule ::
  "MemoryBillingControlsStore \<Rightarrow> BillingRateRuleRecord \<Rightarrow> BillingRateRuleRecord result \<times> MemoryBillingControlsStore" where
  "createMemoryBillingRateRule store rule =
     (case validateBillingRateRule rule of
        Inl e \<Rightarrow> (Inl e, store)
      | Inr _ \<Rightarrow>
          if list_ex (\<lambda>candidate. billingRateRulesOverlapAtSameActiveScope candidate rule) (ctl_billingRateRules store)
          then (throw ''Billing rate rule overlaps an active rule at the same scope'', store)
          else (Inr rule, store\<lparr>ctl_billingRateRules := ctl_billingRateRules store @ [rule]\<rparr>))"

inductive controls_step :: "MemoryBillingControlsStore \<Rightarrow> MemoryBillingControlsStore \<Rightarrow> bool" where
  step_lock: "createMemoryBillingPeriodLock s lock = (r, t) \<Longrightarrow> controls_step s t"
| step_rate: "createMemoryBillingRateRule s rule = (r, t) \<Longrightarrow> controls_step s t"

definition no_controls :: "MemoryBillingControlsStore \<Rightarrow> bool" where
  "no_controls s = (ctl_billingPeriodLocks s = [] \<and> ctl_billingRateRules s = [])"

definition controls_inv :: "MemoryBillingControlsStore \<Rightarrow> bool" where
  "controls_inv s =
     (list_all (\<lambda>l. validateBillingPeriodLock l = Inr ()) (ctl_billingPeriodLocks s)
      \<and> sorted_wrt (\<lambda>a b. \<not> billingPeriodLocksOverlap a b) (ctl_billingPeriodLocks s)
      \<and> list_all (\<lambda>r. validateBillingRateRule r = Inr ()) (ctl_billingRateRules s)
      \<and> sorted_wrt (\<lambda>a b. \<not> billingRateRulesOverlapAtSameActiveScope a b) (ctl_billingRateRules s))"

lemma controls_step_inv:
  assumes "controls_step s t" "controls_inv s"
  shows "controls_inv t"
  using assms
proof cases
  case (step_lock lock r)
  then show ?thesis using assms(2)
    by (auto simp: createMemoryBillingPeriodLock_def controls_inv_def sorted_wrt_append list_ex_iff
        split: sum.splits if_splits)
next
  case (step_rate rule r)
  then show ?thesis using assms(2)
    by (auto simp: createMemoryBillingRateRule_def controls_inv_def sorted_wrt_append list_ex_iff
        split: sum.splits if_splits)
qed

interpretation controls: inductive_invariant no_controls controls_step controls_inv
  by unfold_locales (simp add: no_controls_def controls_inv_def, rule controls_step_inv)

lemma locks_overlap_sym: "billingPeriodLocksOverlap a b \<longleftrightarrow> billingPeriodLocksOverlap b a"
  by (auto simp: billingPeriodLocksOverlap_def)

lemma rates_overlap_sym: "billingRateRulesOverlapAtSameActiveScope a b \<longleftrightarrow> billingRateRulesOverlapAtSameActiveScope b a"
  by (auto simp: billingRateRulesOverlapAtSameActiveScope_def billingRateRuleEffectivePeriodsOverlap_def)

text \<open>Of a list whose elements pairwise do not overlap, a symmetric overlap singles out one position.\<close>

lemma sorted_wrt_not_unique:
  assumes "sorted_wrt (\<lambda>a b. \<not> R a b) xs" "\<And>a b. R a b \<longleftrightarrow> R b a" "i < length xs" "j < length xs" "R (xs ! i) (xs ! j)"
  shows "i = j"
  using assms by (metis linorder_neqE_nat sorted_wrt_nth_less)

lemma both_inside_overlap:
  assumes "billingDateFallsInsideLock d a" "billingDateFallsInsideLock d b" "lock_firmId a = lock_firmId b"
  shows "billingPeriodLocksOverlap a b"
  using assms by (auto simp: billingDateFallsInsideLock_def billingPeriodLocksOverlap_def js_le_def js_less_def split: option.splits)

text \<open>
  In every store reachable by creating period locks and rate rules (refused calls included), every
  lock and rule is valid and at most one lock of a firm contains a given instant: two positions of
  the list whose locks belong to the same firm and both contain the date are the same position.
\<close>

theorem one_lock_per_instant:
  assumes "reachable no_controls controls_step s"
    and "i < length (ctl_billingPeriodLocks s)" and "j < length (ctl_billingPeriodLocks s)"
    and "lock_firmId (ctl_billingPeriodLocks s ! i) = lock_firmId (ctl_billingPeriodLocks s ! j)"
    and "billingDateFallsInsideLock d (ctl_billingPeriodLocks s ! i)"
    and "billingDateFallsInsideLock d (ctl_billingPeriodLocks s ! j)"
  shows "i = j \<and> list_all (\<lambda>l. validateBillingPeriodLock l = Inr ()) (ctl_billingPeriodLocks s)"
  using sorted_wrt_not_unique [of billingPeriodLocksOverlap "ctl_billingPeriodLocks s" i j]
    controls.reachable_inv [OF assms(1)] locks_overlap_sym both_inside_overlap assms(2-6)
  by (auto simp: controls_inv_def)

subsection \<open>The rate that applies is determined\<close>

lemma specificity_inject: "billingRateRuleSpecificity a = billingRateRuleSpecificity b \<longleftrightarrow> a = b"
  by (cases a; cases b) auto

lemma validateBillingRateRule_scope:
  "validateBillingRateRule r = Inr () \<Longrightarrow> rate_scope r = billingRuleScope (rate_matterId r) (rate_userId r) (rate_role r)"
  unfolding validateBillingRateRule_def run_checks_ok by simp

lemma applies_id:
  assumes "billingRateRuleApplies input r"
  shows "or_else (rate_matterId r) [] = (if truthy (rate_matterId r) then rin_matterId input else [])"
    "or_else (rate_userId r) [] = (if truthy (rate_userId r) then rin_userId input else [])"
    "or_else (rate_role r) [] = (if truthy (rate_role r) then or_else (rin_role input) [] else [])"
proof -
  have ids: "truthy (rate_matterId r) \<Longrightarrow> rate_matterId r = Some (rin_matterId input)"
    "truthy (rate_userId r) \<Longrightarrow> rate_userId r = Some (rin_userId input)"
    "truthy (rate_role r) \<Longrightarrow> rate_role r = rin_role input"
    using assms unfolding billingRateRuleApplies_def Let_def by (metis)+
  show "or_else (rate_matterId r) [] = (if truthy (rate_matterId r) then rin_matterId input else [])"
    using ids(1) by (cases "rate_matterId r") auto
  show "or_else (rate_userId r) [] = (if truthy (rate_userId r) then rin_userId input else [])"
    using ids(2) by (cases "rate_userId r") auto
  show "or_else (rate_role r) [] = (if truthy (rate_role r) then or_else (rin_role input) [] else [])"
    using ids(3) by (cases "rate_role r"; cases "rin_role input") auto
qed

lemma applies_before_end:
  assumes "billingRateRuleApplies input r" "date_parse (rin_performedAt input) = Some p" "validateBillingRateRule r = Inr ()"
  shows "\<exists>t. date_parse (rate_effectiveFrom r) = Some t \<and> t \<le> p"
    and "u \<le> p \<Longrightarrow> before_end (Some u) (rate_effectiveUntil r)"
proof -
  obtain t where t: "date_parse (rate_effectiveFrom r) = Some t"
    using validateBillingRateRule_dates [OF assms(3)] by blast
  show "\<exists>t. date_parse (rate_effectiveFrom r) = Some t \<and> t \<le> p"
    using assms(1,2) t by (auto simp: billingRateRuleApplies_def split: if_splits)
  have "truthy (rate_effectiveUntil r) \<Longrightarrow> \<exists>e. date_parse (or_else (rate_effectiveUntil r) []) = Some e"
    using assms(3) unfolding validateBillingRateRule_def run_checks_ok by auto
  then show "u \<le> p \<Longrightarrow> before_end (Some u) (rate_effectiveUntil r)"
    using assms(1,2) by (auto simp: billingRateRuleApplies_def before_end_def split: if_splits)
qed

lemma applicable_same_scope_overlap:
  assumes "billingRateRuleApplies input q" "billingRateRuleApplies input r"
    and "date_parse (rin_performedAt input) = Some p"
    and "validateBillingRateRule q = Inr ()" "validateBillingRateRule r = Inr ()"
    and "rate_firmId q = rate_firmId r" "rate_scope q = rate_scope r"
    and "rate_scope q = Scope_role \<or> \<not> truthy (rate_role q)" "rate_scope r = Scope_role \<or> \<not> truthy (rate_role r)"
  shows "billingRateRulesOverlapAtSameActiveScope q r"
proof -
  have ids: "truthy (rate_matterId q) = truthy (rate_matterId r)" "truthy (rate_userId q) = truthy (rate_userId r)"
    "truthy (rate_role q) = truthy (rate_role r)"
    using assms(7-9) validateBillingRateRule_scope [OF assms(4)] validateBillingRateRule_scope [OF assms(5)]
    by (auto simp: billingRuleScope_def split: if_splits)
  have "billingRateRuleEffectivePeriodsOverlap q r"
    using applies_before_end [OF assms(1,3,4)] applies_before_end [OF assms(2,3,5)]
    by (auto simp: billingRateRuleEffectivePeriodsOverlap_def)
  moreover have "rate_active q" "rate_active r" using assms(1,2) by (auto simp: billingRateRuleApplies_def split: if_splits)
  ultimately show ?thesis
    using ids assms(6,7) applies_id [OF assms(1)] applies_id [OF assms(2)]
    by (simp add: billingRateRulesOverlapAtSameActiveScope_def)
qed

definition rateOptions :: "RateInput \<Rightarrow> RateRuleOptions" where
  "rateOptions input = \<lparr>ropt_activeOnly = True, ropt_matterId = Some (rin_matterId input), ropt_userId = Some (rin_userId input)\<rparr>"

lemma listed_applicable:
  "r \<in> set (listMemoryBillingRateRules collate s firmId (rateOptions input)) \<and> billingRateRuleApplies input r \<longleftrightarrow>
   r \<in> set (ctl_billingRateRules s) \<and> rate_firmId r = firmId \<and> billingRateRuleApplies input r"
  by (auto simp: listMemoryBillingRateRules_def rateOptions_def billingRateRuleApplies_def Let_def split: if_splits)

definition applicable :: "MemoryBillingControlsStore \<Rightarrow> string \<Rightarrow> RateInput \<Rightarrow> BillingRateRuleRecord \<Rightarrow> bool" where
  "applicable s firmId input r =
     (r \<in> set (ctl_billingRateRules s) \<and> rate_firmId r = firmId \<and> billingRateRuleApplies input r)"

lemma applicable_unique:
  assumes "controls_inv s" "date_parse (rin_performedAt input) = Some p"
    and "list_all (\<lambda>r. rate_scope r = Scope_role \<or> \<not> truthy (rate_role r)) (ctl_billingRateRules s)"
    and "applicable s firmId input q" "applicable s firmId input r" "rate_scope q = rate_scope r"
  shows "q = r"
proof -
  obtain i j where "i < length (ctl_billingRateRules s)" "ctl_billingRateRules s ! i = q"
    "j < length (ctl_billingRateRules s)" "ctl_billingRateRules s ! j = r"
    using assms(4,5) unfolding applicable_def in_set_conv_nth by blast
  moreover have "billingRateRulesOverlapAtSameActiveScope q r"
    using assms by (intro applicable_same_scope_overlap [of input _ _ p]) (auto simp: applicable_def controls_inv_def list_all_iff)
  ultimately show ?thesis
    using sorted_wrt_not_unique [of billingRateRulesOverlapAtSameActiveScope "ctl_billingRateRules s" i j] assms(1) rates_overlap_sym
    unfolding controls_inv_def by blast
qed

text \<open>
  The rate of a time entry is determined by the stored rules: in a reachable store whose role
  qualifiers are on role rules only, the rule resolved from the listed rules is the one applicable
  rule of the firm that is strictly more specific than every other applicable one, whatever order the
  list comes in; when a rule applies at all, one is found.
\<close>

theorem resolved_rate_is_determined:
  assumes "reachable no_controls controls_step s" and "date_parse (rin_performedAt input) = Some p"
    and "list_all (\<lambda>r. rate_scope r = Scope_role \<or> \<not> truthy (rate_role r)) (ctl_billingRateRules s)"
  shows "(resolveBillingRateRule (listMemoryBillingRateRules collate s firmId (rateOptions input)) input = Some r \<longleftrightarrow>
      applicable s firmId input r \<and> (\<forall>q. applicable s firmId input q \<and> q \<noteq> r \<longrightarrow>
        billingRateRuleSpecificity (rate_scope q) < billingRateRuleSpecificity (rate_scope r)))
    \<and> (applicable s firmId input r \<longrightarrow>
        resolveBillingRateRule (listMemoryBillingRateRules collate s firmId (rateOptions input)) input \<noteq> None)"
proof -
  let ?L = "listMemoryBillingRateRules collate s firmId (rateOptions input)"
  have inv: "controls_inv s" by (rule controls.reachable_inv [OF assms(1)])
  then have valid: "list_all (\<lambda>r. validateBillingRateRule r = Inr ()) ?L"
    by (auto simp: controls_inv_def list_all_iff listMemoryBillingRateRules_def)
  have mem: "applicable s firmId input q \<longleftrightarrow> q \<in> set ?L \<and> billingRateRuleApplies input q" for q
    by (simp add: listed_applicable applicable_def)
  have strict: "billingRateRuleSpecificity (rate_scope q) < billingRateRuleSpecificity (rate_scope x)"
    if "resolveBillingRateRule ?L input = Some x" "applicable s firmId input q" "q \<noteq> x" for q x
  proof -
    have x: "applicable s firmId input x" using resolve_some(1,2) [OF valid that(1)] mem by blast
    have "billingRateRuleSpecificity (rate_scope q) \<le> billingRateRuleSpecificity (rate_scope x)"
      using resolve_some(3) [OF valid that(1)] that(2) mem by blast
    moreover have "rate_scope q \<noteq> rate_scope x"
      using applicable_unique [OF inv assms(2,3) that(2) x] that(3) by blast
    ultimately show ?thesis using specificity_inject by (metis order_le_less)
  qed
  have found: "resolveBillingRateRule ?L input \<noteq> None" if "applicable s firmId input q" for q
    using resolve_none [OF valid] that mem by blast
  have member: "applicable s firmId input x" if "resolveBillingRateRule ?L input = Some x" for x
    using resolve_some(1,2) [OF valid that] mem by blast
  show ?thesis using strict found member by (metis option.exhaust order_less_asym)
qed

subsection \<open>Trust transfer requests\<close>

text \<open>
  An update object of JavaScript distinguishes an absent key from a key with the value undefined: a
  field of \<open>TrustTransferRequestUpdate\<close> is \<open>None\<close> when absent, and an optional field that is present
  is \<open>Some\<close> of its value, undefined included.
\<close>

record MemoryTrustTransferRequestStore =
  tts_trustTransferRequests :: "TrustTransferRequestRecord list"

record TrustTransferRequestUpdate =
  upd_status :: "TrustTransferRequestStatus option"
  upd_reviewedByUserId :: "string option option"
  upd_reviewedAt :: "string option option"
  upd_ledgerTransactionId :: "string option option"
  upd_evidence :: "((string \<times> js_value) list) option option"

record TrustTransferRequestUpdateOptions =
  opt_expectedStatus :: "TrustTransferRequestStatus option"
  opt_requireLedgerTransactionUnlinked :: bool

definition createMemoryTrustTransferRequest ::
  "MemoryTrustTransferRequestStore \<Rightarrow> TrustTransferRequestRecord
   \<Rightarrow> TrustTransferRequestRecord \<times> MemoryTrustTransferRequestStore" where
  "createMemoryTrustTransferRequest store request =
     (request, store\<lparr>tts_trustTransferRequests := tts_trustTransferRequests store @ [request]\<rparr>)"

definition getMemoryTrustTransferRequest ::
  "MemoryTrustTransferRequestStore \<Rightarrow> string \<Rightarrow> string \<Rightarrow> TrustTransferRequestRecord option" where
  "getMemoryTrustTransferRequest store firmId requestId =
     List.find (\<lambda>request. ttr_firmId request = firmId \<and> ttr_id request = requestId) (tts_trustTransferRequests store)"

definition listMemoryTrustTransferRequests ::
  "MemoryTrustTransferRequestStore \<Rightarrow> string \<Rightarrow> string option \<Rightarrow> TrustTransferRequestStatus option
   \<Rightarrow> TrustTransferRequestRecord list" where
  "listMemoryTrustTransferRequests store firmId matterId status =
     filter (\<lambda>request. ttr_firmId request = firmId
         \<and> (\<not> truthy matterId \<or> Some (ttr_matterId request) = matterId)
         \<and> (status = None \<or> Some (ttr_status request) = status))
       (tts_trustTransferRequests store)"

definition updatedTransfer :: "TrustTransferRequestRecord \<Rightarrow> TrustTransferRequestUpdate \<Rightarrow> TrustTransferRequestRecord" where
  "updatedTransfer existing updates =
     existing\<lparr>ttr_status := or_else (upd_status updates) (ttr_status existing),
       ttr_reviewedByUserId := or_else (upd_reviewedByUserId updates) (ttr_reviewedByUserId existing),
       ttr_reviewedAt := or_else (upd_reviewedAt updates) (ttr_reviewedAt existing),
       ttr_ledgerTransactionId := or_else (upd_ledgerTransactionId updates) (ttr_ledgerTransactionId existing),
       ttr_evidence := or_else (upd_evidence updates) (ttr_evidence existing)\<rparr>"

definition updateMemoryTrustTransferRequest ::
  "MemoryTrustTransferRequestStore \<Rightarrow> string \<Rightarrow> string \<Rightarrow> TrustTransferRequestUpdate \<Rightarrow> TrustTransferRequestUpdateOptions
   \<Rightarrow> TrustTransferRequestRecord result \<times> MemoryTrustTransferRequestStore" where
  "updateMemoryTrustTransferRequest store firmId requestId updates options =
     (case getMemoryTrustTransferRequest store firmId requestId of
        None \<Rightarrow> (throw ''Trust transfer request was not found'', store)
      | Some existing \<Rightarrow>
          let newLink = or_else (upd_ledgerTransactionId updates) None in
          if (opt_expectedStatus options \<noteq> None \<and> Some (ttr_status existing) \<noteq> opt_expectedStatus options)
             \<or> (opt_requireLedgerTransactionUnlinked options \<and> truthy (ttr_ledgerTransactionId existing))
          then (throw ''Trust transfer request update conflict'', store)
          else if opt_requireLedgerTransactionUnlinked options \<and> truthy newLink
               \<and> list_ex (\<lambda>request. ttr_firmId request = firmId \<and> ttr_id request \<noteq> requestId
                      \<and> ttr_ledgerTransactionId request = newLink) (tts_trustTransferRequests store)
          then (throw ''Trust transfer request update conflict'', store)
          else let updated = updatedTransfer existing updates in
            (Inr updated, store\<lparr>tts_trustTransferRequests :=
               replace_where (\<lambda>request. ttr_firmId request = firmId \<and> ttr_id request = requestId) updated
                 (tts_trustTransferRequests store)\<rparr>))"

text \<open>
  The calls of apps/api/src/routes/billing/trust-transfer-requests.ts: a request is created pending
  under a new id, reviewed (approved or rejected) while pending, and linked to a ledger transaction
  while approved.
\<close>

definition reviewUpdate ::
  "TrustTransferRequestStatus \<Rightarrow> string \<Rightarrow> string \<Rightarrow> ((string \<times> js_value) list) option \<Rightarrow> TrustTransferRequestUpdate" where
  "reviewUpdate status reviewer now evidence =
     \<lparr>upd_status = Some status, upd_reviewedByUserId = Some (Some reviewer), upd_reviewedAt = Some (Some now),
      upd_ledgerTransactionId = None, upd_evidence = Some evidence\<rparr>"

definition linkUpdate ::
  "string \<Rightarrow> string \<Rightarrow> string \<Rightarrow> ((string \<times> js_value) list) option \<Rightarrow> TrustTransferRequestUpdate" where
  "linkUpdate ledgerTransactionId reviewer now evidence =
     (reviewUpdate Transfer_linked reviewer now evidence)\<lparr>upd_ledgerTransactionId := Some (Some ledgerTransactionId)\<rparr>"

inductive transfer_step :: "MemoryTrustTransferRequestStore \<Rightarrow> MemoryTrustTransferRequestStore \<Rightarrow> bool" where
  step_request: "createMemoryTrustTransferRequest s q = (r, t) \<Longrightarrow> ttr_status q = Transfer_pending_approval
    \<Longrightarrow> ttr_reviewedByUserId q = None \<Longrightarrow> ttr_ledgerTransactionId q = None
    \<Longrightarrow> getMemoryTrustTransferRequest s (ttr_firmId q) (ttr_id q) = None \<Longrightarrow> transfer_step s t"
| step_review: "status \<in> {Transfer_approved, Transfer_rejected} \<Longrightarrow>
    updateMemoryTrustTransferRequest s firm i (reviewUpdate status reviewer now evidence)
      \<lparr>opt_expectedStatus = Some Transfer_pending_approval, opt_requireLedgerTransactionUnlinked = False\<rparr> = (r, t)
    \<Longrightarrow> transfer_step s t"
| step_link: "txId \<noteq> [] \<Longrightarrow>
    updateMemoryTrustTransferRequest s firm i (linkUpdate txId reviewer now evidence)
      \<lparr>opt_expectedStatus = Some Transfer_approved, opt_requireLedgerTransactionUnlinked = True\<rparr> = (r, t)
    \<Longrightarrow> transfer_step s t"

definition no_transfers :: "MemoryTrustTransferRequestStore \<Rightarrow> bool" where
  "no_transfers s = (tts_trustTransferRequests s = [])"

definition transfer_ok :: "TrustTransferRequestRecord \<Rightarrow> bool" where
  "transfer_ok q =
     ((ttr_status q = Transfer_linked \<longleftrightarrow> ttr_ledgerTransactionId q \<noteq> None)
      \<and> (ttr_status q = Transfer_pending_approval \<longleftrightarrow> ttr_reviewedByUserId q = None)
      \<and> ttr_ledgerTransactionId q \<noteq> Some [])"

definition links_distinct :: "TrustTransferRequestRecord list \<Rightarrow> bool" where
  "links_distinct qs = (\<forall>a \<in> set qs. \<forall>b \<in> set qs. ttr_firmId a = ttr_firmId b \<and> ttr_ledgerTransactionId a \<noteq> None
     \<and> ttr_ledgerTransactionId a = ttr_ledgerTransactionId b \<longrightarrow> ttr_id a = ttr_id b)"

definition transfer_inv :: "MemoryTrustTransferRequestStore \<Rightarrow> bool" where
  "transfer_inv s = (list_all transfer_ok (tts_trustTransferRequests s) \<and> links_distinct (tts_trustTransferRequests s))"

lemma updateMemoryTrustTransferRequest_cases:
  assumes "updateMemoryTrustTransferRequest s firm i updates options = (r, t)"
  obtains (refused) e where "r = Inl e" "t = s"
  | (updated) x where "r = Inr (updatedTransfer x updates)"
      "t = s\<lparr>tts_trustTransferRequests := replace_where (\<lambda>q. ttr_firmId q = firm \<and> ttr_id q = i) (updatedTransfer x updates)
              (tts_trustTransferRequests s)\<rparr>"
      "x \<in> set (tts_trustTransferRequests s)" "ttr_firmId x = firm" "ttr_id x = i"
      "opt_expectedStatus options = None \<or> opt_expectedStatus options = Some (ttr_status x)"
      "opt_requireLedgerTransactionUnlinked options \<and> truthy (or_else (upd_ledgerTransactionId updates) None) \<longrightarrow>
        (\<forall>q \<in> set (tts_trustTransferRequests s). ttr_firmId q = firm \<and> ttr_id q \<noteq> i \<longrightarrow>
           ttr_ledgerTransactionId q \<noteq> or_else (upd_ledgerTransactionId updates) None)"
proof (cases "getMemoryTrustTransferRequest s firm i")
  case None
  then show ?thesis using assms refused by (auto simp: updateMemoryTrustTransferRequest_def throw_def)
next
  case (Some x)
  then have x: "x \<in> set (tts_trustTransferRequests s)" "ttr_firmId x = firm" "ttr_id x = i"
    by (auto simp: getMemoryTrustTransferRequest_def dest: find_Some_mem)
  show ?thesis
  proof (cases r)
    case (Inl e)
    then have "t = s" using assms by (simp add: updateMemoryTrustTransferRequest_def Some Let_def split: if_splits)
    then show ?thesis using refused Inl by blast
  next
    case (Inr q)
    then show ?thesis
      using assms x by (intro updated [of x])
        (auto simp: updateMemoryTrustTransferRequest_def Some Let_def list_ex_iff throw_def split: if_splits)
  qed
qed

lemma links_distinct_replace:
  assumes "links_distinct qs" "ttr_firmId v = firm" "ttr_id v = i"
    and "\<forall>q \<in> set qs. ttr_firmId q = firm \<and> ttr_id q \<noteq> i \<and> ttr_ledgerTransactionId v \<noteq> None \<longrightarrow>
      ttr_ledgerTransactionId q \<noteq> ttr_ledgerTransactionId v"
  shows "links_distinct (replace_where (\<lambda>q. ttr_firmId q = firm \<and> ttr_id q = i) v qs)"
proof -
  have mem: "x = v \<or> x \<in> set qs \<and> \<not> (ttr_firmId x = firm \<and> ttr_id x = i)"
    if "x \<in> set (replace_where (\<lambda>q. ttr_firmId q = firm \<and> ttr_id q = i) v qs)" for x
    using that by (auto simp: replace_where_def)
  show ?thesis unfolding links_distinct_def using mem assms unfolding links_distinct_def by metis
qed

lemma links_distinct_snoc:
  assumes "links_distinct qs" "ttr_ledgerTransactionId q = None"
  shows "links_distinct (qs @ [q])"
  using assms unfolding links_distinct_def by (metis Un_iff empty_iff empty_set insert_iff list.set(2) set_append)

lemma transfer_step_inv:
  assumes "transfer_step s t" "transfer_inv s"
  shows "transfer_inv t"
  using assms(1)
proof cases
  case (step_request q r)
  then have "transfer_ok q" "tts_trustTransferRequests t = tts_trustTransferRequests s @ [q]"
    by (auto simp: createMemoryTrustTransferRequest_def transfer_ok_def)
  then show ?thesis
    using assms(2) links_distinct_snoc [OF _ step_request(4)] by (simp add: transfer_inv_def)
next
  case (step_review status firm i reviewer now evidence r)
  from step_review(2) show ?thesis
  proof (cases rule: updateMemoryTrustTransferRequest_cases)
    case (updated x)
    then have ok: "transfer_ok x" "ttr_status x = Transfer_pending_approval" using assms(2) by (auto simp: transfer_inv_def list_all_iff)
    then have "ttr_ledgerTransactionId x = None" by (auto simp: transfer_ok_def)
    then show ?thesis
      using assms(2) updated(2,4,5) ok step_review(1)
      by (auto simp: transfer_inv_def updatedTransfer_def reviewUpdate_def transfer_ok_def
          intro!: list_all_replace_where links_distinct_replace)
  qed (use assms(2) in simp)
next
  case (step_link txId firm i reviewer now evidence r)
  from step_link(2) show ?thesis
  proof (cases rule: updateMemoryTrustTransferRequest_cases)
    case (updated x)
    then show ?thesis
      using assms(2) updated(2,4,5,7) step_link(1)
      by (auto simp: transfer_inv_def updatedTransfer_def reviewUpdate_def linkUpdate_def transfer_ok_def
          intro!: list_all_replace_where links_distinct_replace)
  qed (use assms(2) in simp)
qed

interpretation transfers: inductive_invariant no_transfers transfer_step transfer_inv
  by unfold_locales (simp add: no_transfers_def transfer_inv_def links_distinct_def, rule transfer_step_inv)

text \<open>
  In every store of trust transfer requests reachable by the API's calls, a request is linked
  exactly when it names a ledger transaction, is reviewed exactly when it is no longer pending, and no
  two requests of a firm are linked to the same ledger transaction: a posted transfer settles one
  request.
\<close>

theorem transfer_links_are_unique:
  assumes "reachable no_transfers transfer_step s"
    and "a \<in> set (tts_trustTransferRequests s)" and "b \<in> set (tts_trustTransferRequests s)"
  shows "(ttr_status a = Transfer_linked \<longleftrightarrow> truthy (ttr_ledgerTransactionId a))
    \<and> (ttr_status a = Transfer_pending_approval \<longleftrightarrow> ttr_reviewedByUserId a = None)
    \<and> (ttr_firmId a = ttr_firmId b \<and> ttr_status a = Transfer_linked \<and> ttr_ledgerTransactionId a = ttr_ledgerTransactionId b
        \<longrightarrow> ttr_id a = ttr_id b)"
proof -
  have ok: "transfer_ok a" and links: "links_distinct (tts_trustTransferRequests s)"
    using transfers.reachable_inv [OF assms(1)] assms(2) by (auto simp: transfer_inv_def list_all_iff)
  have "ttr_id a = ttr_id b"
    if "ttr_firmId a = ttr_firmId b" "ttr_ledgerTransactionId a \<noteq> None" "ttr_ledgerTransactionId a = ttr_ledgerTransactionId b"
    using links assms(2,3) that unfolding links_distinct_def by blast
  moreover have "truthy (ttr_ledgerTransactionId a) \<longleftrightarrow> ttr_ledgerTransactionId a \<noteq> None"
    using ok by (cases "ttr_ledgerTransactionId a") (simp_all add: transfer_ok_def)
  ultimately show ?thesis using ok unfolding transfer_ok_def by blast
qed

subsection \<open>Worked runs\<close>

definition ex_controls :: MemoryBillingControlsStore where
  "ex_controls = \<lparr>ctl_billingPeriodLocks = [ex_lock], ctl_billingRateRules = [ex_rate ''a'' None Scope_firm 100]\<rparr>"

definition ex_time :: RateInput where
  "ex_time = \<lparr>rin_matterId = ''m'', rin_userId = ''u'', rin_role = None, rin_performedAt = ''2026-02-01''\<rparr>"

lemma ex_controls_reachable: "reachable no_controls controls_step ex_controls"
proof -
  let ?s0 = "\<lparr>ctl_billingPeriodLocks = [], ctl_billingRateRules = []\<rparr>"
  let ?s1 = "\<lparr>ctl_billingPeriodLocks = [ex_lock], ctl_billingRateRules = []\<rparr>"
  have "createMemoryBillingPeriodLock ?s0 ex_lock = (Inr ex_lock, ?s1)"
    by (simp add: createMemoryBillingPeriodLock_def ex_lock_valid)
  then have "controls_step ?s0 ?s1" by (rule step_lock)
  then have s1: "reachable no_controls controls_step ?s1"
    by (rule reach_step [OF reach_init, rotated]) (simp add: no_controls_def)
  have "validateBillingRateRule (ex_rate ''a'' None Scope_firm 100) = Inr ()"
    by (simp add: validateBillingRateRule_def ex_rate_def billingRuleScope_def ex_dates is_space_def)
  then have "createMemoryBillingRateRule ?s1 (ex_rate ''a'' None Scope_firm 100) = (Inr (ex_rate ''a'' None Scope_firm 100), ex_controls)"
    by (simp add: createMemoryBillingRateRule_def ex_controls_def)
  then have "controls_step ?s1 ex_controls" by (rule step_rate)
  then show ?thesis by (rule reach_step [OF s1])
qed

theorem one_lock_per_instant_witness:
  "list_all (\<lambda>l. validateBillingPeriodLock l = Inr ()) (ctl_billingPeriodLocks ex_controls)"
proof -
  have "billingDateFallsInsideLock ''2026-01-01'' (ctl_billingPeriodLocks ex_controls ! 0)"
    by (simp add: ex_controls_def billingDateFallsInsideLock_def ex_lock_def ex_dates)
  moreover have "0 < length (ctl_billingPeriodLocks ex_controls)" by (simp add: ex_controls_def)
  ultimately show ?thesis using one_lock_per_instant [OF ex_controls_reachable, of 0 0] by blast
qed

theorem resolved_rate_is_determined_witness:
  "resolveBillingRateRule (listMemoryBillingRateRules (\<lambda>a b. 0) ex_controls ''f'' (rateOptions ex_time)) ex_time =
   Some (ex_rate ''a'' None Scope_firm 100)"
proof -
  have "date_parse (rin_performedAt ex_time) = Some 1769904000000"
    "list_all (\<lambda>r. rate_scope r = Scope_role \<or> \<not> truthy (rate_role r)) (ctl_billingRateRules ex_controls)"
    by (simp_all add: ex_time_def ex_dates ex_controls_def ex_rate_def)
  from resolved_rate_is_determined [OF ex_controls_reachable this, of "\<lambda>a b. 0" "''f''" "ex_rate ''a'' None Scope_firm 100"]
  show ?thesis
    by (simp add: applicable_def ex_controls_def ex_time_def billingRateRuleApplies_def ex_rate_def ex_dates Let_def)
qed

definition ex_transfers :: MemoryTrustTransferRequestStore where
  "ex_transfers = \<lparr>tts_trustTransferRequests = [ex_transfer\<lparr>ttr_status := Transfer_pending_approval\<rparr>]\<rparr>"

lemma ex_transfers_reachable: "reachable no_transfers transfer_step ex_transfers"
proof -
  let ?s0 = "\<lparr>tts_trustTransferRequests = []\<rparr>" and ?q = "ex_transfer\<lparr>ttr_status := Transfer_pending_approval\<rparr>"
  have "transfer_step ?s0 ex_transfers"
    by (rule step_request [of _ ?q ?q])
      (simp_all add: createMemoryTrustTransferRequest_def getMemoryTrustTransferRequest_def ex_transfers_def ex_transfer_def)
  then show ?thesis by (rule reach_step [OF reach_init, rotated]) (simp add: no_transfers_def)
qed

definition ex_transfers_approved :: MemoryTrustTransferRequestStore where
  "ex_transfers_approved =
     snd (updateMemoryTrustTransferRequest ex_transfers ''f'' ''tt'' (reviewUpdate Transfer_approved ''u2'' ''2026-02-01'' None)
       \<lparr>opt_expectedStatus = Some Transfer_pending_approval, opt_requireLedgerTransactionUnlinked = False\<rparr>)"

definition ex_transfers_linked :: MemoryTrustTransferRequestStore where
  "ex_transfers_linked =
     snd (updateMemoryTrustTransferRequest ex_transfers_approved ''f'' ''tt'' (linkUpdate ''t2'' ''u2'' ''2026-02-01'' None)
       \<lparr>opt_expectedStatus = Some Transfer_approved, opt_requireLedgerTransactionUnlinked = True\<rparr>)"

lemma ex_linked_reachable: "reachable no_transfers transfer_step ex_transfers_linked"
proof -
  have "transfer_step ex_transfers ex_transfers_approved"
    unfolding ex_transfers_approved_def by (rule step_review [OF _ surjective_pairing]) simp
  from reach_step [OF ex_transfers_reachable this] show ?thesis
  proof (rule reach_step)
    show "transfer_step ex_transfers_approved ex_transfers_linked"
      unfolding ex_transfers_linked_def by (rule step_link [OF _ surjective_pairing]) simp
  qed
qed

theorem transfer_links_are_unique_witness:
  "ttr_status (hd (tts_trustTransferRequests ex_transfers_linked)) = Transfer_linked"
proof -
  have run: "tts_trustTransferRequests ex_transfers_linked \<noteq> []"
    "ttr_ledgerTransactionId (hd (tts_trustTransferRequests ex_transfers_linked)) = Some ''t2''"
    by (simp_all add: ex_transfers_linked_def ex_transfers_approved_def ex_transfers_def updateMemoryTrustTransferRequest_def
        getMemoryTrustTransferRequest_def ex_transfer_def reviewUpdate_def linkUpdate_def updatedTransfer_def
        replace_where_def Let_def)
  then show ?thesis
    using transfer_links_are_unique [OF ex_linked_reachable, of "hd (tts_trustTransferRequests ex_transfers_linked)"
        "hd (tts_trustTransferRequests ex_transfers_linked)"] by simp
qed

end
