(* ===== verification/Invoice_Store.thy ===== *)
theory Invoice_Store
  imports Billing
begin

section \<open>The store of invoices and payments\<close>

text \<open>
  packages/database/src/repository/billing-invoices-payments/memory.ts: invoices with their lines,
  manual payments and their allocations to invoices. A call returns its result and the store it
  leaves, also when it throws. The code stores the object it read, with a stale copy of the lines in
  it; every read replaces those lines, so the stored invoice is kept here without them.
\<close>

subsection \<open>Store and reads\<close>

record MemoryBillingInvoicePaymentStore =
  bill_invoices :: "InvoiceRecord list"
  bill_invoiceLines :: "InvoiceLineRecord list"
  bill_manualPayments :: "ManualPaymentRecord list"
  bill_paymentAllocations :: "PaymentAllocationRecord list"

record InvoiceWithLines = InvoiceRecord +
  inv_lines :: "InvoiceLineRecord list"

record PaymentWithAllocations = ManualPaymentRecord +
  pay_allocations :: "PaymentAllocationRecord list"

definition with_lines :: "InvoiceRecord \<Rightarrow> InvoiceLineRecord list \<Rightarrow> InvoiceWithLines" where
  "with_lines invoice lines = InvoiceRecord.extend invoice (InvoiceWithLines.fields lines)"

definition with_allocations :: "ManualPaymentRecord \<Rightarrow> PaymentAllocationRecord list \<Rightarrow> PaymentWithAllocations" where
  "with_allocations payment allocations = ManualPaymentRecord.extend payment (PaymentWithAllocations.fields allocations)"

record MatterOptions =
  mopt_matterId :: "string option"
  mopt_matterIds :: "string list option"

definition matchesBillingMatter :: "string \<Rightarrow> 'a MatterOptions_scheme \<Rightarrow> bool" where
  "matchesBillingMatter matterId options =
     (if truthy (mopt_matterId options) then Some matterId = mopt_matterId options
      else (case mopt_matterIds options of Some ids \<Rightarrow> matterId \<in> set ids | None \<Rightarrow> True))"

definition hasEmptyMatterIds :: "'a MatterOptions_scheme \<Rightarrow> bool" where
  "hasEmptyMatterIds options = (\<not> truthy (mopt_matterId options) \<and> mopt_matterIds options = Some [])"

definition listMemoryInvoices ::
  "MemoryBillingInvoicePaymentStore \<Rightarrow> string \<Rightarrow> MatterOptions \<Rightarrow> InvoiceStatus option \<Rightarrow> InvoiceWithLines list" where
  "listMemoryInvoices store firmId options status =
     (if hasEmptyMatterIds options then []
      else map (\<lambda>invoice. with_lines invoice (filter (\<lambda>line. line_invoiceId line = inv_id invoice) (bill_invoiceLines store)))
        (filter (\<lambda>invoice. inv_firmId invoice = firmId \<and> matchesBillingMatter (inv_matterId invoice) options
             \<and> (status = None \<or> Some (inv_status invoice) = status)) (bill_invoices store)))"

definition getMemoryInvoice ::
  "MemoryBillingInvoicePaymentStore \<Rightarrow> string \<Rightarrow> string \<Rightarrow> InvoiceWithLines option" where
  "getMemoryInvoice store firmId invoiceId =
     map_option (\<lambda>invoice. with_lines invoice (filter (\<lambda>line. line_invoiceId line = inv_id invoice) (bill_invoiceLines store)))
       (List.find (\<lambda>candidate. inv_firmId candidate = firmId \<and> inv_id candidate = invoiceId) (bill_invoices store))"

definition listMemoryPayments ::
  "MemoryBillingInvoicePaymentStore \<Rightarrow> string \<Rightarrow> MatterOptions \<Rightarrow> string option \<Rightarrow> PaymentWithAllocations list" where
  "listMemoryPayments store firmId options invoiceId =
     (if hasEmptyMatterIds options then []
      else map (\<lambda>payment. with_allocations payment
             (filter (\<lambda>allocation. alloc_paymentId allocation = pay_id payment) (bill_paymentAllocations store)))
        (filter (\<lambda>payment. pay_firmId payment = firmId \<and> matchesBillingMatter (pay_matterId payment) options
             \<and> (\<not> truthy invoiceId \<or> pay_invoiceId payment = invoiceId)) (bill_manualPayments store)))"

subsection \<open>Writes\<close>

definition createMemoryInvoice ::
  "MemoryBillingInvoicePaymentStore \<Rightarrow> InvoiceRecord \<Rightarrow> InvoiceLineRecord list
   \<Rightarrow> InvoiceWithLines \<times> MemoryBillingInvoicePaymentStore" where
  "createMemoryInvoice store invoice lines =
     (with_lines invoice lines,
      store\<lparr>bill_invoices := bill_invoices store @ [invoice], bill_invoiceLines := bill_invoiceLines store @ lines\<rparr>)"

fun find_index :: "('a \<Rightarrow> bool) \<Rightarrow> 'a list \<Rightarrow> nat option" where
  "find_index p [] = None"
| "find_index p (x # xs) = (if p x then Some 0 else map_option Suc (find_index p xs))"

definition updateMemoryInvoice ::
  "MemoryBillingInvoicePaymentStore \<Rightarrow> InvoiceRecord \<Rightarrow> InvoiceWithLines option result \<times> MemoryBillingInvoicePaymentStore" where
  "updateMemoryInvoice store invoice =
     (case find_index (\<lambda>candidate. inv_firmId candidate = inv_firmId invoice \<and> inv_id candidate = inv_id invoice)
             (bill_invoices store) of
        None \<Rightarrow> (throw ''Invoice was not found'', store)
      | Some index \<Rightarrow>
          let store' = store\<lparr>bill_invoices := (bill_invoices store)[index := invoice]\<rparr>
          in (Inr (getMemoryInvoice store' (inv_firmId invoice) (inv_id invoice)), store'))"

definition paidInvoice ::
  "MemoryBillingInvoicePaymentStore \<Rightarrow> InvoiceWithLines \<Rightarrow> PaymentAllocationRecord \<Rightarrow> InvoiceRecord" where
  "paidInvoice store invoice allocation =
     (let totals = calculateInvoiceTotals (inv_lines invoice)
            (filter (\<lambda>existing. alloc_invoiceId existing = inv_id invoice) (bill_paymentAllocations store) @ [allocation])
      in (InvoiceRecord.truncate invoice)
           \<lparr>inv_subtotalCents := tot_subtotalCents totals, inv_taxCents := tot_taxCents totals,
            inv_totalCents := tot_totalCents totals, inv_paidCents := tot_paidCents totals,
            inv_balanceDueCents := tot_balanceDueCents totals,
            inv_status := invoiceStatusForPayment (inv_status invoice) (tot_totalCents totals) (tot_paidCents totals)\<rparr>)"

fun allocatePayment ::
  "MemoryBillingInvoicePaymentStore \<Rightarrow> string \<Rightarrow> PaymentAllocationRecord list \<Rightarrow> unit result \<times> MemoryBillingInvoicePaymentStore" where
  "allocatePayment store firmId [] = (Inr (), store)"
| "allocatePayment store firmId (allocation # allocations) =
     (case getMemoryInvoice store firmId (alloc_invoiceId allocation) of
        None \<Rightarrow> (throw ''Payment allocation invoice was not found'', store)
      | Some invoice \<Rightarrow>
          if alloc_amountCents allocation > inv_balanceDueCents invoice
          then (throw ''Payment allocation exceeds invoice balance'', store)
          else (case updateMemoryInvoice store (paidInvoice store invoice allocation) of
                  (Inl e, store') \<Rightarrow> (Inl e, store')
                | (Inr _, store') \<Rightarrow> allocatePayment store' firmId allocations))"

definition createMemoryPayment ::
  "MemoryBillingInvoicePaymentStore \<Rightarrow> ManualPaymentRecord \<Rightarrow> PaymentAllocationRecord list
   \<Rightarrow> PaymentWithAllocations result \<times> MemoryBillingInvoicePaymentStore" where
  "createMemoryPayment store payment allocations =
     (if pay_status payment = Payment_pending_reconciliation \<and> allocations \<noteq> []
      then (throw ''Pending reconciliation payments cannot have effective allocations'', store)
      else if sum_by alloc_amountCents allocations > pay_amountCents payment
      then (throw ''Payment allocations exceed payment amount'', store)
      else (case allocatePayment store (pay_firmId payment) allocations of
              (Inl e, store') \<Rightarrow> (Inl e, store')
            | (Inr _, store') \<Rightarrow>
                (Inr (with_allocations payment allocations),
                 store'\<lparr>bill_manualPayments := bill_manualPayments store' @ [payment],
                        bill_paymentAllocations := bill_paymentAllocations store' @ allocations\<rparr>)))"

record ReconcileInput =
  rec_firmId :: string
  rec_paymentId :: string
  rec_reconciledByUserId :: string
  rec_reconciledAt :: string
  rec_notes :: "string option"
  rec_evidence :: "((string \<times> js_value) list) option"

definition reconciledPayment :: "ReconcileInput \<Rightarrow> ManualPaymentRecord \<Rightarrow> ManualPaymentRecord" where
  "reconciledPayment input payment =
     payment\<lparr>pay_status := Payment_received, pay_reconciledAt := Some (rec_reconciledAt input),
       pay_reconciledByUserId := Some (rec_reconciledByUserId input), pay_reconciliationNotes := rec_notes input,
       pay_reconciliationEvidence := Some (or_else (rec_evidence input) [])\<rparr>"

definition reconcileMemoryPayment ::
  "string \<Rightarrow> MemoryBillingInvoicePaymentStore \<Rightarrow> ReconcileInput
   \<Rightarrow> PaymentWithAllocations result \<times> MemoryBillingInvoicePaymentStore" where
  "reconcileMemoryPayment randomUUID store input =
     (case List.find (\<lambda>candidate. pay_firmId candidate = rec_firmId input \<and> pay_id candidate = rec_paymentId input)
             (bill_manualPayments store) of
        None \<Rightarrow> (throw ''Manual payment was not found'', store)
      | Some payment \<Rightarrow>
          if pay_status payment \<noteq> Payment_pending_reconciliation
          then (throw ''Manual payment is not pending reconciliation'', store)
          else if \<not> truthy (pay_invoiceId payment) then (throw ''Manual payment invoice was not found'', store)
          else (case getMemoryInvoice store (rec_firmId input) (or_else (pay_invoiceId payment) []) of
                  None \<Rightarrow> (throw ''Manual payment invoice was not found'', store)
                | Some invoice \<Rightarrow>
                    if inv_matterId invoice \<noteq> pay_matterId payment
                    then (throw ''Manual payment invoice must belong to the payment matter'', store)
                    else if pay_amountCents payment > inv_balanceDueCents invoice
                    then (throw ''Payment allocation exceeds invoice balance'', store)
                    else
                      let allocation = \<lparr>alloc_id = randomUUID, alloc_firmId = rec_firmId input,
                            alloc_paymentId = pay_id payment, alloc_invoiceId = inv_id invoice,
                            alloc_amountCents = pay_amountCents payment, alloc_allocatedAt = rec_reconciledAt input\<rparr>
                      in (case updateMemoryInvoice store (paidInvoice store invoice allocation) of
                            (Inl e, store') \<Rightarrow> (Inl e, store')
                          | (Inr _, store') \<Rightarrow>
                              (Inr (with_allocations (reconciledPayment input payment) [allocation]),
                               store'\<lparr>bill_manualPayments := replace_where
                                   (\<lambda>candidate. pay_firmId candidate = rec_firmId input \<and> pay_id candidate = rec_paymentId input)
                                   (reconciledPayment input payment) (bill_manualPayments store'),
                                 bill_paymentAllocations := bill_paymentAllocations store' @ [allocation]\<rparr>))))"

subsection \<open>The books: what every store satisfies\<close>

text \<open>
  \<open>invoice_ok\<close> relates an invoice to its lines and allocations; \<open>payment_ok\<close> a payment to its
  allocations. The amounts are sums over the stored records, not the running totals the code keeps.
\<close>

definition total_of :: "InvoiceLineRecord list \<Rightarrow> string \<Rightarrow> int" where
  "total_of lines i = sum_by line_totalCents (filter (\<lambda>l. line_invoiceId l = i) lines)"

definition paid_of :: "PaymentAllocationRecord list \<Rightarrow> string \<Rightarrow> int" where
  "paid_of allocations i = sum_by alloc_amountCents (filter (\<lambda>a. alloc_invoiceId a = i) allocations)"

definition spent_of :: "PaymentAllocationRecord list \<Rightarrow> string \<Rightarrow> int" where
  "spent_of allocations p = sum_by alloc_amountCents (filter (\<lambda>a. alloc_paymentId a = p) allocations)"

definition invoice_ok :: "InvoiceLineRecord list \<Rightarrow> PaymentAllocationRecord list \<Rightarrow> InvoiceRecord \<Rightarrow> bool" where
  "invoice_ok lines allocations v =
     (inv_totalCents v = total_of lines (inv_id v) \<and> inv_paidCents v = paid_of allocations (inv_id v)
      \<and> inv_balanceDueCents v = max 0 (inv_totalCents v - inv_paidCents v)
      \<and> inv_paidCents v \<le> max 0 (inv_totalCents v)
      \<and> (inv_status v = Invoice_paid \<longrightarrow> inv_balanceDueCents v = 0))"

definition payment_ok :: "PaymentAllocationRecord list \<Rightarrow> ManualPaymentRecord \<Rightarrow> bool" where
  "payment_ok allocations p =
     (spent_of allocations (pay_id p) \<le> pay_amountCents p
      \<and> (pay_status p = Payment_pending_reconciliation \<longrightarrow> spent_of allocations (pay_id p) = 0 \<and> 0 \<le> pay_amountCents p))"

definition books_ok ::
  "InvoiceRecord list \<Rightarrow> InvoiceLineRecord list \<Rightarrow> PaymentAllocationRecord list \<Rightarrow> bool" where
  "books_ok invoices lines allocations =
     (distinct (map inv_id invoices) \<and> list_all (invoice_ok lines allocations) invoices
      \<and> list_all (\<lambda>l. line_invoiceId l \<in> inv_id ` set invoices) lines
      \<and> list_all (\<lambda>a. alloc_invoiceId a \<in> inv_id ` set invoices) allocations)"

definition bill_inv :: "MemoryBillingInvoicePaymentStore \<Rightarrow> bool" where
  "bill_inv s =
     (books_ok (bill_invoices s) (bill_invoiceLines s) (bill_paymentAllocations s)
      \<and> distinct (map pay_id (bill_manualPayments s))
      \<and> list_all (payment_ok (bill_paymentAllocations s)) (bill_manualPayments s)
      \<and> list_all (\<lambda>a. alloc_paymentId a \<in> pay_id ` set (bill_manualPayments s)) (bill_paymentAllocations s))"

lemma sum_by_append [simp]: "sum_by f (xs @ ys) = sum_by f xs + sum_by f ys"
  by (simp add: sum_by_eq)

lemma paid_of_simps [simp]: "paid_of [] i = 0" "paid_of (xs @ ys) i = paid_of xs i + paid_of ys i"
  "paid_of (a # as) i = (if alloc_invoiceId a = i then alloc_amountCents a else 0) + paid_of as i"
  by (simp_all add: paid_of_def)

lemma spent_of_simps [simp]: "spent_of [] i = 0" "spent_of (xs @ ys) i = spent_of xs i + spent_of ys i"
  "spent_of (a # as) i = (if alloc_paymentId a = i then alloc_amountCents a else 0) + spent_of as i"
  by (simp_all add: spent_of_def)

lemma paid_of_none: "i \<notin> alloc_invoiceId ` set as \<Longrightarrow> paid_of as i = 0"
  by (induction as) auto

lemma spent_of_none: "i \<notin> alloc_paymentId ` set as \<Longrightarrow> spent_of as i = 0"
  by (induction as) auto

lemma total_of_append: "total_of (xs @ ys) i = total_of xs i + total_of ys i"
  by (simp add: total_of_def)

lemma total_of_none: "i \<notin> line_invoiceId ` set ls \<Longrightarrow> total_of ls i = 0"
  by (induction ls) (auto simp: total_of_def)

subsection \<open>Looking up and replacing an invoice\<close>

lemma find_index_Some:
  "find_index p xs = Some i \<Longrightarrow> i < length xs \<and> p (xs ! i)"
  by (induction xs arbitrary: i) (auto split: if_splits)

lemma find_index_find:
  "List.find p xs = Some x \<Longrightarrow> \<exists>i. find_index p xs = Some i \<and> i < length xs \<and> xs ! i = x"
  by (induction xs) (auto split: if_splits)

lemma with_lines_simps [simp]:
  "InvoiceRecord.truncate (with_lines v ls) = v" "inv_lines (with_lines v ls) = ls"
  "inv_id (with_lines v ls) = inv_id v" "inv_firmId (with_lines v ls) = inv_firmId v"
  "inv_balanceDueCents (with_lines v ls) = inv_balanceDueCents v" "inv_status (with_lines v ls) = inv_status v"
  "inv_matterId (with_lines v ls) = inv_matterId v" "inv_paidCents (with_lines v ls) = inv_paidCents v"
  by (simp_all add: with_lines_def InvoiceRecord.truncate_def InvoiceRecord.extend_def InvoiceWithLines.fields_def)

lemma getMemoryInvoice_Some:
  assumes "getMemoryInvoice s firm i = Some w"
  shows "\<exists>v. List.find (\<lambda>c. inv_firmId c = firm \<and> inv_id c = i) (bill_invoices s) = Some v
    \<and> v \<in> set (bill_invoices s) \<and> inv_firmId v = firm \<and> inv_id v = i
    \<and> w = with_lines v (filter (\<lambda>l. line_invoiceId l = i) (bill_invoiceLines s))"
proof -
  obtain v where v: "List.find (\<lambda>c. inv_firmId c = firm \<and> inv_id c = i) (bill_invoices s) = Some v"
    "w = with_lines v (filter (\<lambda>l. line_invoiceId l = inv_id v) (bill_invoiceLines s))"
    using assms by (auto simp: getMemoryInvoice_def)
  then show ?thesis using find_Some_mem [OF v(1)] by simp
qed

lemma updateMemoryInvoice_found:
  assumes "List.find (\<lambda>c. inv_firmId c = inv_firmId v \<and> inv_id c = inv_id v) (bill_invoices s) = Some old"
  shows "\<exists>i r. updateMemoryInvoice s v = (Inr r, s\<lparr>bill_invoices := (bill_invoices s)[i := v]\<rparr>)
    \<and> i < length (bill_invoices s) \<and> bill_invoices s ! i = old"
  using find_index_find [OF assms] by (auto simp: updateMemoryInvoice_def Let_def)

lemma map_update_same: "i < length xs \<Longrightarrow> f v = f (xs ! i) \<Longrightarrow> map f (xs[i := v]) = map f xs"
  by (simp add: map_update list_update_same_conv)

lemma paidInvoice_simps:
  fixes s v a L
  defines "x \<equiv> paidInvoice s (with_lines v (filter (\<lambda>l. line_invoiceId l = inv_id v) L)) a"
    and "paid \<equiv> paid_of (bill_paymentAllocations s) (inv_id v) + alloc_amountCents a"
  shows "inv_id x = inv_id v" "inv_firmId x = inv_firmId v" "inv_totalCents x = total_of L (inv_id v)" "inv_paidCents x = paid"
    "inv_balanceDueCents x = max 0 (total_of L (inv_id v) - paid)"
    "inv_status x = invoiceStatusForPayment (inv_status v) (total_of L (inv_id v)) paid"
  unfolding x_def paid_def by (simp_all add: paidInvoice_def Let_def calculateInvoiceTotals_def
      allocatedPaymentTotalCents_def total_of_def paid_of_def)

text \<open>The one place where money reaches an invoice: replacing the invoice by \<open>paidInvoice\<close> accounts for one more allocation.\<close>

lemma books_ok_pay:
  assumes "books_ok I L A" "i < length I" "I ! i = v" "alloc_invoiceId a = inv_id v"
    and "alloc_amountCents a \<le> inv_balanceDueCents v"
    and w: "w = with_lines v (filter (\<lambda>l. line_invoiceId l = inv_id v) L)"
    and same: "paid_of (bill_paymentAllocations s) (inv_id v) = paid_of A (inv_id v)"
  shows "books_ok (I[i := paidInvoice s w a]) L (A @ [a])"
proof -
  let ?v = "paidInvoice s w a"
  have v: "invoice_ok L A v" "v \<in> set I" and dist: "distinct (map inv_id I)"
    using assms(1-3) by (auto simp: books_ok_def list_all_iff)
  have id: "inv_id ?v = inv_id v" by (simp add: paidInvoice_simps w)
  have ids: "map inv_id (I[i := ?v]) = map inv_id I" using map_update_same [of i I inv_id ?v] assms(2,3) id by simp
  have other: "invoice_ok L (A @ [a]) x" if "x \<in> set I" "inv_id x \<noteq> inv_id v" for x
    using assms(1,4) that by (auto simp: books_ok_def list_all_iff invoice_ok_def)
  have fields: "inv_totalCents ?v = inv_totalCents v" "inv_paidCents ?v = inv_paidCents v + alloc_amountCents a"
    "inv_balanceDueCents ?v = max 0 (inv_totalCents v - (inv_paidCents v + alloc_amountCents a))"
    "inv_status ?v = invoiceStatusForPayment (inv_status v) (inv_totalCents v) (inv_paidCents v + alloc_amountCents a)"
    using v(1) same by (simp_all add: paidInvoice_simps w invoice_ok_def)
  have "inv_status ?v = Invoice_paid \<longrightarrow> inv_balanceDueCents ?v = 0"
    using v(1) assms(5) fields(3,4) by (auto simp: invoiceStatusForPayment_def invoice_ok_def split: if_splits)
  moreover have "inv_paidCents v + alloc_amountCents a \<le> max 0 (inv_totalCents v)"
    using v(1) assms(5) by (auto simp: invoice_ok_def max_def split: if_splits)
  ultimately have new: "invoice_ok L (A @ [a]) ?v"
    using v(1) assms(4) fields(1-3) id by (simp add: invoice_ok_def)
  have "x = ?v \<or> x \<in> set I \<and> inv_id x \<noteq> inv_id v" if x: "x \<in> set (I[i := ?v])" for x
  proof -
    obtain j where j: "j < length I" "(I[i := ?v]) ! j = x" using x unfolding in_set_conv_nth by auto
    show ?thesis
    proof (cases "j = i")
      case False
      then have "inv_id x \<noteq> inv_id v"
        using dist j assms(2,3) by (metis distinct_conv_nth length_map nth_list_update_neq nth_map)
      then show ?thesis using j False by auto
    qed (use j assms(2) in simp)
  qed
  then have "list_all (invoice_ok L (A @ [a])) (I[i := ?v])" using new other by (auto simp: list_all_iff)
  moreover have "inv_id ` set (I[i := ?v]) = inv_id ` set I" using ids by (metis list.set_map)
  moreover have "inv_id v \<in> inv_id ` set I" using v(2) by simp
  ultimately show ?thesis using assms(1,4) ids by (simp add: books_ok_def)
qed

text \<open>
  The code finds the invoice, checks its balance and stores the paid invoice; both writers of payments
  do it, and \<open>pay_step\<close> is the step they share.
\<close>

lemma pay_step:
  assumes "books_ok (bill_invoices s) (bill_invoiceLines s) A"
    and "getMemoryInvoice s firm (alloc_invoiceId a) = Some w" "alloc_amountCents a \<le> inv_balanceDueCents w"
    and "paid_of (bill_paymentAllocations s) (alloc_invoiceId a) = paid_of A (alloc_invoiceId a)"
  shows "\<exists>I r. updateMemoryInvoice s (paidInvoice s w a) = (Inr r, s\<lparr>bill_invoices := I\<rparr>)
    \<and> books_ok I (bill_invoiceLines s) (A @ [a])"
proof -
  obtain v where v: "List.find (\<lambda>c. inv_firmId c = firm \<and> inv_id c = alloc_invoiceId a) (bill_invoices s) = Some v"
    "inv_firmId v = firm" "inv_id v = alloc_invoiceId a"
    "w = with_lines v (filter (\<lambda>l. line_invoiceId l = alloc_invoiceId a) (bill_invoiceLines s))"
    using getMemoryInvoice_Some [OF assms(2)] by blast
  have "inv_firmId (paidInvoice s w a) = firm" "inv_id (paidInvoice s w a) = alloc_invoiceId a"
    using v(2-4) by (simp_all add: paidInvoice_def Let_def)
  then obtain i r where upd: "updateMemoryInvoice s (paidInvoice s w a) =
      (Inr r, s\<lparr>bill_invoices := (bill_invoices s)[i := paidInvoice s w a]\<rparr>)"
    "i < length (bill_invoices s)" "bill_invoices s ! i = v"
    using updateMemoryInvoice_found [of "paidInvoice s w a" s v] v(1) by auto
  have "books_ok ((bill_invoices s)[i := paidInvoice s w a]) (bill_invoiceLines s) (A @ [a])"
    using assms(3,4) v(3,4) by (intro books_ok_pay [OF assms(1) upd(2,3)]) simp_all
  then show ?thesis using upd(1) by blast
qed

lemma allocatePayment_books:
  assumes "books_ok (bill_invoices s) (bill_invoiceLines s) (bill_paymentAllocations s @ done)"
    and "distinct (map alloc_invoiceId (done @ as))" "allocatePayment s firm as = (Inr u, t)"
  shows "books_ok (bill_invoices t) (bill_invoiceLines s) (bill_paymentAllocations s @ done @ as)
    \<and> t = s\<lparr>bill_invoices := bill_invoices t\<rparr>"
  using assms
proof (induction as arbitrary: s "done")
  case (Cons a as)
  obtain w where w: "getMemoryInvoice s firm (alloc_invoiceId a) = Some w" "alloc_amountCents a \<le> inv_balanceDueCents w"
    using Cons.prems(3) by (auto split: option.splits if_splits)
  have "paid_of done (alloc_invoiceId a) = 0" using Cons.prems(2) by (intro paid_of_none) auto
  then have "paid_of (bill_paymentAllocations s) (alloc_invoiceId a) = paid_of (bill_paymentAllocations s @ done) (alloc_invoiceId a)"
    by simp
  from pay_step [OF Cons.prems(1) w this]
  obtain I r where I: "updateMemoryInvoice s (paidInvoice s w a) = (Inr r, s\<lparr>bill_invoices := I\<rparr>)"
    "books_ok I (bill_invoiceLines s) ((bill_paymentAllocations s @ done) @ [a])" by blast
  let ?s = "s\<lparr>bill_invoices := I\<rparr>"
  have "allocatePayment ?s firm as = (Inr u, t)" using Cons.prems(3) w I(1) by simp
  with Cons.IH [of ?s "done @ [a]"] I(2) Cons.prems(2)
  have "books_ok (bill_invoices t) (bill_invoiceLines s) (bill_paymentAllocations s @ (done @ [a]) @ as)"
    "t = ?s\<lparr>bill_invoices := bill_invoices t\<rparr>" by simp_all
  then show ?case by simp
qed simp

lemma allocatePayment_single_fails:
  assumes "books_ok (bill_invoices s) (bill_invoiceLines s) (bill_paymentAllocations s)"
    and "length as \<le> 1" "allocatePayment s firm as = (Inl e, t)"
  shows "t = s"
proof (cases as)
  case (Cons a rest)
  then have one: "as = [a]" using assms(2) by simp
  show ?thesis
  proof (cases "getMemoryInvoice s firm (alloc_invoiceId a)")
    case (Some w)
    show ?thesis
    proof (cases "alloc_amountCents a \<le> inv_balanceDueCents w")
      case True
      from pay_step [OF assms(1) Some this refl]
      obtain I r where "updateMemoryInvoice s (paidInvoice s w a) = (Inr r, s\<lparr>bill_invoices := I\<rparr>)" by blast
      then show ?thesis using assms(3) Some True one by simp
    qed (use Some assms(3) one in simp)
  qed (use assms(3) one in simp)
qed (use assms(3) in simp)

subsection \<open>Every call keeps the books\<close>

text \<open>
  The calls of the API on this store (apps/api/src/routes/billing/invoices.ts and payments.ts): an
  invoice is created as a draft under a new id with the totals of its lines; approving, issuing and
  voiding rewrite the stored invoice with another status and date; a payment is recorded under a new
  id, with allocations to different invoices (the API passes none), and a call with more than one
  allocation is taken here only when it succeeds; a payment is reconciled.
\<close>

definition totals_of_lines :: "InvoiceRecord \<Rightarrow> InvoiceLineRecord list \<Rightarrow> bool" where
  "totals_of_lines v lines =
     (let totals = calculateInvoiceTotals lines [] in
      inv_totalCents v = tot_totalCents totals \<and> inv_paidCents v = tot_paidCents totals
      \<and> inv_balanceDueCents v = tot_balanceDueCents totals)"

inductive bill_step :: "MemoryBillingInvoicePaymentStore \<Rightarrow> MemoryBillingInvoicePaymentStore \<Rightarrow> bool" where
  step_invoice: "createMemoryInvoice s v lines = (r, t) \<Longrightarrow> inv_id v \<notin> inv_id ` set (bill_invoices s)
    \<Longrightarrow> inv_status v = Invoice_draft \<Longrightarrow> totals_of_lines v lines
    \<Longrightarrow> list_all (\<lambda>l. line_invoiceId l = inv_id v) lines \<Longrightarrow> bill_step s t"
| step_status: "getMemoryInvoice s firm i = Some w \<Longrightarrow> status \<in> {Invoice_approved, Invoice_issued, Invoice_void}
    \<Longrightarrow> updateMemoryInvoice s ((InvoiceRecord.truncate w)\<lparr>inv_status := status, inv_approvedAt := approvedAt,
          inv_issuedAt := issuedAt, inv_voidedAt := voidedAt\<rparr>) = (r, t) \<Longrightarrow> bill_step s t"
| step_payment: "createMemoryPayment s p as = (r, t) \<Longrightarrow> pay_id p \<notin> pay_id ` set (bill_manualPayments s)
    \<Longrightarrow> distinct (map alloc_invoiceId as) \<Longrightarrow> list_all (\<lambda>a. alloc_paymentId a = pay_id p) as
    \<Longrightarrow> is_ok r \<or> length as \<le> 1 \<Longrightarrow> bill_step s t"
| step_reconcile: "reconcileMemoryPayment uuid s input = (r, t) \<Longrightarrow> bill_step s t"

definition no_bills :: "MemoryBillingInvoicePaymentStore \<Rightarrow> bool" where
  "no_bills s = (bill_invoices s = [] \<and> bill_invoiceLines s = [] \<and> bill_manualPayments s = [] \<and> bill_paymentAllocations s = [])"

lemma books_ok_create:
  assumes "books_ok I L A" "inv_id v \<notin> inv_id ` set I" "inv_status v = Invoice_draft" "totals_of_lines v ls"
    and "list_all (\<lambda>l. line_invoiceId l = inv_id v) ls"
  shows "books_ok (I @ [v]) (L @ ls) A"
proof -
  have none: "inv_id v \<notin> line_invoiceId ` set L" "inv_id v \<notin> alloc_invoiceId ` set A"
    using assms(1,2) by (auto simp: books_ok_def list_all_iff)
  have own: "total_of ls (inv_id v) = sum_by line_totalCents ls"
    using assms(5) unfolding total_of_def by (metis (mono_tags, lifting) filter_True list_all_iff)
  have "invoice_ok (L @ ls) A v"
    using assms(3,4) none own
    by (simp add: invoice_ok_def totals_of_lines_def calculateInvoiceTotals_def allocatedPaymentTotalCents_def
        Let_def total_of_append total_of_none paid_of_none)
  moreover have "invoice_ok (L @ ls) A x" if "x \<in> set I" for x
  proof -
    have "inv_id x \<noteq> inv_id v" using assms(2) that by (metis imageI)
    then have "inv_id x \<notin> line_invoiceId ` set ls" using assms(5) by (auto simp: list_all_iff)
    then have "total_of (L @ ls) (inv_id x) = total_of L (inv_id x)" by (simp add: total_of_append total_of_none)
    moreover have "invoice_ok L A x" using assms(1) that by (simp add: books_ok_def list_all_iff)
    ultimately show ?thesis by (auto simp: invoice_ok_def)
  qed
  ultimately show ?thesis using assms(1,2,5) by (auto simp: books_ok_def list_all_iff)
qed

lemma books_ok_status:
  assumes "books_ok I L A" "i < length I" "I ! i = v" "inv_id w = inv_id v" "inv_status w \<noteq> Invoice_paid"
    and "inv_totalCents w = inv_totalCents v" "inv_paidCents w = inv_paidCents v" "inv_balanceDueCents w = inv_balanceDueCents v"
  shows "books_ok (I[i := w]) L A"
proof -
  have "invoice_ok L A w" using assms by (auto simp: books_ok_def list_all_iff invoice_ok_def)
  moreover have ids: "map inv_id (I[i := w]) = map inv_id I" using map_update_same [of i I inv_id w] assms(2-4) by simp
  moreover have "inv_id ` set (I[i := w]) = inv_id ` set I" using ids by (metis list.set_map)
  ultimately show ?thesis
    using assms(1) set_update_subset_insert [of I i w] by (auto simp: books_ok_def list_all_iff)
qed

lemma createMemoryPayment_fails:
  assumes "bill_inv s" "createMemoryPayment s p as = (Inl e, t)" "length as \<le> 1"
  shows "t = s"
proof -
  have "allocatePayment s (pay_firmId p) as = (Inl e', t') \<Longrightarrow> t' = s" for e' t'
    using allocatePayment_single_fails [of s as "pay_firmId p"] assms(1,3) by (simp add: bill_inv_def)
  then show ?thesis
    using assms(2) by (cases "allocatePayment s (pay_firmId p) as")
      (auto simp: createMemoryPayment_def split: if_splits sum.splits)
qed

lemma createMemoryPayment_ok:
  assumes "createMemoryPayment s p as = (Inr q, t)"
  shows "\<exists>u t'. allocatePayment s (pay_firmId p) as = (Inr u, t')
    \<and> t = t'\<lparr>bill_manualPayments := bill_manualPayments t' @ [p], bill_paymentAllocations := bill_paymentAllocations t' @ as\<rparr>
    \<and> sum_by alloc_amountCents as \<le> pay_amountCents p \<and> (pay_status p = Payment_pending_reconciliation \<longrightarrow> as = [])"
  using assms by (cases "allocatePayment s (pay_firmId p) as")
    (auto simp: createMemoryPayment_def split: if_splits sum.splits)

definition payments_ok :: "ManualPaymentRecord list \<Rightarrow> PaymentAllocationRecord list \<Rightarrow> bool" where
  "payments_ok P A = (distinct (map pay_id P) \<and> list_all (payment_ok A) P \<and> list_all (\<lambda>a. alloc_paymentId a \<in> pay_id ` set P) A)"

lemma bill_inv_parts:
  "bill_inv s \<longleftrightarrow> books_ok (bill_invoices s) (bill_invoiceLines s) (bill_paymentAllocations s)
     \<and> payments_ok (bill_manualPayments s) (bill_paymentAllocations s)"
  by (simp add: bill_inv_def payments_ok_def)

lemma spent_of_own: "list_all (\<lambda>a. alloc_paymentId a = i) as \<Longrightarrow> spent_of as i = sum_by alloc_amountCents as"
  by (induction as) auto

lemma payments_ok_create:
  assumes "payments_ok P A" "pay_id p \<notin> pay_id ` set P" "list_all (\<lambda>a. alloc_paymentId a = pay_id p) as"
    and "sum_by alloc_amountCents as \<le> pay_amountCents p" "pay_status p = Payment_pending_reconciliation \<longrightarrow> as = []"
  shows "payments_ok (P @ [p]) (A @ as)"
proof -
  have "pay_id p \<notin> alloc_paymentId ` set A" using assms(1,2) by (auto simp: payments_ok_def list_all_iff)
  then have "payment_ok (A @ as) p"
    using assms(4,5) spent_of_own [OF assms(3)] by (auto simp: payment_ok_def spent_of_none)
  moreover have "payment_ok (A @ as) x" if "x \<in> set P" for x
  proof -
    have "pay_id x \<noteq> pay_id p" using assms(2) that by (metis imageI)
    then have "pay_id x \<notin> alloc_paymentId ` set as" using assms(3) by (auto simp: list_all_iff)
    then show ?thesis using assms(1) that by (simp add: payments_ok_def list_all_iff payment_ok_def spent_of_none)
  qed
  ultimately show ?thesis using assms(1-3) by (auto simp: payments_ok_def list_all_iff)
qed

lemma createMemoryPayment_inv:
  assumes "bill_inv s" "createMemoryPayment s p as = (r, t)" "pay_id p \<notin> pay_id ` set (bill_manualPayments s)"
    and "distinct (map alloc_invoiceId as)" "list_all (\<lambda>a. alloc_paymentId a = pay_id p) as" "is_ok r \<or> length as \<le> 1"
  shows "bill_inv t"
proof (cases r)
  case (Inl e)
  then have "t = s" using createMemoryPayment_fails [OF assms(1)] assms(2,6) by simp
  then show ?thesis using assms(1) by simp
next
  case (Inr q)
  with createMemoryPayment_ok assms(2) obtain u t' where run: "allocatePayment s (pay_firmId p) as = (Inr u, t')"
    and t: "t = t'\<lparr>bill_manualPayments := bill_manualPayments t' @ [p], bill_paymentAllocations := bill_paymentAllocations t' @ as\<rparr>"
    and amount: "sum_by alloc_amountCents as \<le> pay_amountCents p" "pay_status p = Payment_pending_reconciliation \<longrightarrow> as = []"
    by blast
  have books: "books_ok (bill_invoices t') (bill_invoiceLines s) (bill_paymentAllocations s @ as)"
    and t': "t' = s\<lparr>bill_invoices := bill_invoices t'\<rparr>"
    using allocatePayment_books [of s "[]" as] run assms(1,4) by (simp_all add: bill_inv_def)
  have same: "bill_invoiceLines t' = bill_invoiceLines s" "bill_manualPayments t' = bill_manualPayments s"
    "bill_paymentAllocations t' = bill_paymentAllocations s"
    by (subst t', simp)+
  show ?thesis
    using books same t payments_ok_create [OF _ assms(3,5) amount] assms(1) by (simp add: bill_inv_parts)
qed

lemma reconcileMemoryPayment_cases:
  assumes "bill_inv s" "reconcileMemoryPayment uuid s input = (r, t)"
  shows "(t = s \<and> \<not> is_ok r) \<or> (\<exists>p I a. p \<in> set (bill_manualPayments s) \<and> pay_firmId p = rec_firmId input \<and> pay_id p = rec_paymentId input
      \<and> pay_status p = Payment_pending_reconciliation \<and> alloc_paymentId a = pay_id p \<and> alloc_amountCents a = pay_amountCents p
      \<and> Some (alloc_invoiceId a) = pay_invoiceId p
      \<and> r = Inr (with_allocations (reconciledPayment input p) [a])
      \<and> books_ok I (bill_invoiceLines s) (bill_paymentAllocations s @ [a])
      \<and> t = s\<lparr>bill_invoices := I, bill_manualPayments := replace_where
              (\<lambda>c. pay_firmId c = rec_firmId input \<and> pay_id c = rec_paymentId input) (reconciledPayment input p) (bill_manualPayments s),
            bill_paymentAllocations := bill_paymentAllocations s @ [a]\<rparr>)"
proof (cases "\<exists>p w. List.find (\<lambda>c. pay_firmId c = rec_firmId input \<and> pay_id c = rec_paymentId input) (bill_manualPayments s) = Some p
    \<and> pay_status p = Payment_pending_reconciliation \<and> truthy (pay_invoiceId p)
    \<and> getMemoryInvoice s (rec_firmId input) (or_else (pay_invoiceId p) []) = Some w
    \<and> inv_matterId w = pay_matterId p \<and> pay_amountCents p \<le> inv_balanceDueCents w")
  case True
  then obtain p w where find: "List.find (\<lambda>c. pay_firmId c = rec_firmId input \<and> pay_id c = rec_paymentId input) (bill_manualPayments s) = Some p"
    and p: "pay_status p = Payment_pending_reconciliation" "truthy (pay_invoiceId p)"
    and w: "getMemoryInvoice s (rec_firmId input) (or_else (pay_invoiceId p) []) = Some w" "inv_matterId w = pay_matterId p"
      "pay_amountCents p \<le> inv_balanceDueCents w" by blast
  define a where "a = \<lparr>alloc_id = uuid, alloc_firmId = rec_firmId input, alloc_paymentId = pay_id p, alloc_invoiceId = inv_id w,
      alloc_amountCents = pay_amountCents p, alloc_allocatedAt = rec_reconciledAt input\<rparr>"
  have id: "alloc_invoiceId a = or_else (pay_invoiceId p) []" using getMemoryInvoice_Some [OF w(1)] by (auto simp: a_def)
  have "alloc_amountCents a \<le> inv_balanceDueCents w" using w(3) by (simp add: a_def)
  from pay_step [OF _ w(1) [folded id] this refl] assms(1)
  obtain I r' where I: "updateMemoryInvoice s (paidInvoice s w a) = (Inr r', s\<lparr>bill_invoices := I\<rparr>)"
    "books_ok I (bill_invoiceLines s) (bill_paymentAllocations s @ [a])" by (auto simp: bill_inv_parts)
  have "reconcileMemoryPayment uuid s input = (Inr (with_allocations (reconciledPayment input p) [a]),
      s\<lparr>bill_invoices := I, bill_manualPayments := replace_where
          (\<lambda>c. pay_firmId c = rec_firmId input \<and> pay_id c = rec_paymentId input) (reconciledPayment input p) (bill_manualPayments s),
        bill_paymentAllocations := bill_paymentAllocations s @ [a]\<rparr>)"
    using find p w I(1) [unfolded a_def] by (simp add: reconcileMemoryPayment_def a_def Let_def)
  moreover have "p \<in> set (bill_manualPayments s) \<and> pay_firmId p = rec_firmId input \<and> pay_id p = rec_paymentId input"
    using find_Some_mem [OF find] by simp
  moreover have "Some (alloc_invoiceId a) = pay_invoiceId p" using p(2) id by (cases "pay_invoiceId p") auto
  ultimately show ?thesis
    using assms(2) p(1) I(2) by (intro disjI2 exI [of _ p] exI [of _ I] exI [of _ a]) (simp add: a_def)
next
  case False
  then show ?thesis
    using assms(2) unfolding reconcileMemoryPayment_def
    by (fastforce simp: Let_def split: option.splits if_splits prod.splits sum.splits)
qed

lemma payments_ok_reconcile:
  assumes "payments_ok P A" "p \<in> set P" "pay_firmId p = firm" "pay_status p = Payment_pending_reconciliation"
    and "alloc_paymentId a = pay_id p" "alloc_amountCents a = pay_amountCents p"
    and "pay_id p' = pay_id p" "pay_amountCents p' = pay_amountCents p" "pay_status p' = Payment_received"
  shows "payments_ok (replace_where (\<lambda>c. pay_firmId c = firm \<and> pay_id c = pay_id p) p' P) (A @ [a])"
proof -
  let ?P = "replace_where (\<lambda>c. pay_firmId c = firm \<and> pay_id c = pay_id p) p' P"
  have dist: "distinct (map pay_id P)" using assms(1) by (simp add: payments_ok_def)
  have ids: "map pay_id ?P = map pay_id P" using assms(7) by (intro map_replace_where) auto
  then have image: "pay_id ` set ?P = pay_id ` set P" by (metis list.set_map)
  have unique: "x = p" if "x \<in> set P" "pay_id x = pay_id p" for x
    using dist that assms(2) by (metis (mono_tags, lifting) distinct_map inj_onD)
  have "payment_ok (A @ [a]) p'"
    using assms(1,2,4-9) by (auto simp: payments_ok_def list_all_iff payment_ok_def)
  moreover have "payment_ok (A @ [a]) x" if "x \<in> set P" "pay_id x \<noteq> pay_id p" for x
    using assms(1,5) that by (auto simp: payments_ok_def list_all_iff payment_ok_def)
  moreover have "x = p' \<or> x \<in> set P \<and> pay_id x \<noteq> pay_id p" if "x \<in> set ?P" for x
    using that unique assms(3) by (auto simp: replace_where_def)
  ultimately have "list_all (payment_ok (A @ [a])) ?P" unfolding list_all_iff by blast
  then show ?thesis using assms(1,2,5) dist ids image by (simp add: payments_ok_def)
qed

lemma bill_step_inv:
  assumes "bill_step s t" "bill_inv s"
  shows "bill_inv t"
  using assms(1)
proof cases
  case (step_invoice v lines r)
  then show ?thesis
    using assms(2) books_ok_create [of "bill_invoices s" _ _ v lines] by (auto simp: bill_inv_parts createMemoryInvoice_def)
next
  case (step_status firm i w status voidedAt issuedAt approvedAt r)
  obtain v where v: "List.find (\<lambda>c. inv_firmId c = firm \<and> inv_id c = i) (bill_invoices s) = Some v" "inv_firmId v = firm" "inv_id v = i"
    "InvoiceRecord.truncate w = v" using getMemoryInvoice_Some [OF step_status(1)] by auto
  let ?v = "v\<lparr>inv_status := status, inv_approvedAt := approvedAt, inv_issuedAt := issuedAt, inv_voidedAt := voidedAt\<rparr>"
  obtain j r' where "updateMemoryInvoice s ?v = (Inr r', s\<lparr>bill_invoices := (bill_invoices s)[j := ?v]\<rparr>)"
    and j: "j < length (bill_invoices s)" "bill_invoices s ! j = v"
    using updateMemoryInvoice_found [of ?v s v] v by auto
  then have "t = s\<lparr>bill_invoices := (bill_invoices s)[j := ?v]\<rparr>" using step_status(3) v(4) by simp
  then show ?thesis
    using assms(2) step_status(2) books_ok_status [OF _ j, of _ _ ?v] by (auto simp: bill_inv_parts)
next
  case (step_payment p as r)
  then show ?thesis using createMemoryPayment_inv [OF assms(2)] by blast
next
  case (step_reconcile uuid input r)
  from reconcileMemoryPayment_cases [OF assms(2) this] show ?thesis
  proof (elim disjE exE conjE)
    fix p I a
    assume p: "p \<in> set (bill_manualPayments s)" "pay_firmId p = rec_firmId input" "pay_id p = rec_paymentId input"
      "pay_status p = Payment_pending_reconciliation" "alloc_paymentId a = pay_id p" "alloc_amountCents a = pay_amountCents p"
      and I: "books_ok I (bill_invoiceLines s) (bill_paymentAllocations s @ [a])"
      and t: "t = s\<lparr>bill_invoices := I, bill_manualPayments := replace_where
              (\<lambda>c. pay_firmId c = rec_firmId input \<and> pay_id c = rec_paymentId input) (reconciledPayment input p) (bill_manualPayments s),
            bill_paymentAllocations := bill_paymentAllocations s @ [a]\<rparr>"
    have "payments_ok (replace_where (\<lambda>c. pay_firmId c = rec_firmId input \<and> pay_id c = pay_id p) (reconciledPayment input p)
        (bill_manualPayments s)) (bill_paymentAllocations s @ [a])"
      using assms(2) by (intro payments_ok_reconcile [OF _ p(1,2,4-6)]) (simp_all add: bill_inv_parts reconciledPayment_def)
    then show ?thesis using I t p(3) by (simp add: bill_inv_parts)
  qed (use assms(2) in simp)
qed

interpretation bills: inductive_invariant no_bills bill_step bill_inv
  by unfold_locales (simp add: no_bills_def bill_inv_def books_ok_def, rule bill_step_inv)

subsection \<open>What the books show\<close>







text \<open>
  A payment is reconciled at most once and in full: in a reachable store, a successful
  reconciliation turns a pending payment into a received one and adds exactly one allocation, of the
  payment's amount to the payment's invoice; reconciling it again is refused and changes nothing.
\<close>

theorem payment_reconciles_once:
  assumes "reachable no_bills bill_step s" and "reconcileMemoryPayment uuid s input = (Inr q, t)"
  shows "(\<exists>p a. p \<in> set (bill_manualPayments s) \<and> pay_id p = rec_paymentId input
      \<and> pay_status p = Payment_pending_reconciliation
      \<and> bill_paymentAllocations t = bill_paymentAllocations s @ [a] \<and> alloc_amountCents a = pay_amountCents p
      \<and> Some (alloc_invoiceId a) = pay_invoiceId p \<and> alloc_paymentId a = pay_id p)
    \<and> reconcileMemoryPayment uuid' t (input\<lparr>rec_reconciledByUserId := user, rec_reconciledAt := now\<rparr>)
        = (throw ''Manual payment is not pending reconciliation'', t)"
proof -
  from reconcileMemoryPayment_cases [OF bills.reachable_inv [OF assms(1)] assms(2)]
  obtain p I a where p: "p \<in> set (bill_manualPayments s)" "pay_firmId p = rec_firmId input" "pay_id p = rec_paymentId input"
    "pay_status p = Payment_pending_reconciliation" "alloc_paymentId a = pay_id p" "alloc_amountCents a = pay_amountCents p"
    "Some (alloc_invoiceId a) = pay_invoiceId p"
    and t: "t = s\<lparr>bill_invoices := I, bill_manualPayments := replace_where
              (\<lambda>c. pay_firmId c = rec_firmId input \<and> pay_id c = rec_paymentId input) (reconciledPayment input p) (bill_manualPayments s),
            bill_paymentAllocations := bill_paymentAllocations s @ [a]\<rparr>" by auto
  let ?own = "\<lambda>c. pay_firmId c = rec_firmId input \<and> pay_id c = rec_paymentId input"
  have "List.find ?own (bill_manualPayments s) \<noteq> None" using p(1-3) by (auto simp: find_None_iff)
  then have "List.find ?own (bill_manualPayments t) = Some (reconciledPayment input p)"
    using find_replace_where [of ?own "reconciledPayment input p"] p(2,3) t by (simp add: reconciledPayment_def)
  then have "reconcileMemoryPayment uuid' t (input\<lparr>rec_reconciledByUserId := user, rec_reconciledAt := now\<rparr>)
      = (throw ''Manual payment is not pending reconciliation'', t)"
    by (simp add: reconcileMemoryPayment_def reconciledPayment_def)
  then show ?thesis using p t by auto
qed

subsection \<open>One payment in two parts to the same invoice\<close>

lemma find_updated_index:
  "find_index p xs = Some i \<Longrightarrow> p v \<Longrightarrow> List.find p (xs[i := v]) = Some v"
  by (induction xs arbitrary: i) (auto split: if_splits nat.splits)

lemma updateMemoryInvoice_get:
  assumes "getMemoryInvoice s (inv_firmId v) (inv_id v) \<noteq> None"
  shows "\<exists>r I. updateMemoryInvoice s v = (Inr r, s\<lparr>bill_invoices := I\<rparr>)
    \<and> getMemoryInvoice (s\<lparr>bill_invoices := I\<rparr>) (inv_firmId v) (inv_id v) =
        Some (with_lines v (filter (\<lambda>l. line_invoiceId l = inv_id v) (bill_invoiceLines s)))"
proof -
  let ?own = "\<lambda>c. inv_firmId c = inv_firmId v \<and> inv_id c = inv_id v"
  obtain old where old: "List.find ?own (bill_invoices s) = Some old" using assms by (auto simp: getMemoryInvoice_def)
  obtain i where "find_index ?own (bill_invoices s) = Some i" using find_index_find [OF old] by auto
  moreover from this have "List.find ?own ((bill_invoices s)[i := v]) = Some v" by (rule find_updated_index) simp
  ultimately show ?thesis
    by (intro exI [of _ "(bill_invoices s)[i := v]"] exI)
      (auto simp: updateMemoryInvoice_def getMemoryInvoice_def Let_def)
qed

text \<open>
  The totals of a payment with two allocations to one invoice come out wrong: each allocation is
  checked and stored against the allocations stored before the call, so the second one overwrites the
  first, and the invoice shows the amount of the first allocation less as paid than what is allocated
  to it.
\<close>

theorem split_payment_underreports:
  assumes "getMemoryInvoice s (pay_firmId p) i = Some w" and "pay_status p = Payment_received"
    and "alloc_invoiceId x = i" and "alloc_invoiceId y = i"
    and "alloc_amountCents x \<le> inv_balanceDueCents w" and "alloc_amountCents x + alloc_amountCents y \<le> pay_amountCents p"
    and "paid_of (bill_paymentAllocations s) i + alloc_amountCents x + alloc_amountCents y \<le> total_of (bill_invoiceLines s) i"
  shows "\<exists>q t w'. createMemoryPayment s p [x, y] = (Inr q, t) \<and> getMemoryInvoice t (pay_firmId p) i = Some w'
    \<and> inv_paidCents w' + alloc_amountCents x = paid_of (bill_paymentAllocations t) i"
proof -
  let ?L = "filter (\<lambda>l. line_invoiceId l = i) (bill_invoiceLines s)"
  obtain v where v: "inv_firmId v = pay_firmId p" "inv_id v = i" "w = with_lines v ?L"
    using getMemoryInvoice_Some [OF assms(1)] by blast
  define v1 where "v1 = paidInvoice s w x"
  have v1: "inv_firmId v1 = pay_firmId p" "inv_id v1 = i"
    "inv_balanceDueCents v1 = max 0 (total_of (bill_invoiceLines s) i - (paid_of (bill_paymentAllocations s) i + alloc_amountCents x))"
    using v paidInvoice_simps [of s v "bill_invoiceLines s" x] by (simp_all add: v1_def)
  obtain r1 I1 where up1: "updateMemoryInvoice s v1 = (Inr r1, s\<lparr>bill_invoices := I1\<rparr>)"
    "getMemoryInvoice (s\<lparr>bill_invoices := I1\<rparr>) (pay_firmId p) i = Some (with_lines v1 ?L)"
    using updateMemoryInvoice_get [of s v1] assms(1) v1 by auto
  define s1 where "s1 = s\<lparr>bill_invoices := I1\<rparr>"
  define v2 where "v2 = paidInvoice s1 (with_lines v1 ?L) y"
  have v2: "inv_firmId v2 = pay_firmId p" "inv_id v2 = i"
    "inv_paidCents v2 = paid_of (bill_paymentAllocations s) i + alloc_amountCents y"
    using v1(1,2) paidInvoice_simps [of s1 v1 "bill_invoiceLines s" y] by (simp_all add: v2_def s1_def)
  obtain r2 I2 where up2: "updateMemoryInvoice s1 v2 = (Inr r2, s\<lparr>bill_invoices := I2\<rparr>)"
    "getMemoryInvoice (s\<lparr>bill_invoices := I2\<rparr>) (pay_firmId p) i = Some (with_lines v2 ?L)"
    using updateMemoryInvoice_get [of s1 v2] up1(2) v2 by (auto simp: s1_def)
  have run: "allocatePayment s (pay_firmId p) [x, y] = (Inr (), s\<lparr>bill_invoices := I2\<rparr>)"
    using assms(1,3-5,7) up1 up2(1) v1(3) by (simp add: v1_def [symmetric] s1_def [symmetric] v2_def [symmetric])
  let ?t = "s\<lparr>bill_invoices := I2, bill_manualPayments := bill_manualPayments s @ [p],
      bill_paymentAllocations := bill_paymentAllocations s @ [x, y]\<rparr>"
  have "createMemoryPayment s p [x, y] = (Inr (with_allocations p [x, y]), ?t)"
    using run assms(2,6) by (simp add: createMemoryPayment_def)
  moreover have "getMemoryInvoice ?t (pay_firmId p) i = Some (with_lines v2 ?L)"
    using up2(2) by (simp add: getMemoryInvoice_def)
  ultimately show ?thesis using v2(3) assms(3,4) by auto
qed

subsection \<open>A worked run\<close>

definition ex_invoice :: InvoiceRecord where
  "ex_invoice = \<lparr>inv_id = ''i'', inv_firmId = ''f'', inv_matterId = ''m'', inv_clientContactId = Some ''c'',
     inv_invoiceNumber = ''1'', inv_status = Invoice_draft, inv_approvedAt = None, inv_issuedAt = None, inv_dueAt = None,
     inv_memo = None, inv_createdByUserId = ''u'', inv_createdAt = ''2026-01-01'', inv_voidedAt = None,
     inv_subtotalCents = 100, inv_taxCents = 0, inv_totalCents = 100, inv_paidCents = 0, inv_balanceDueCents = 100\<rparr>"

definition ex_line :: InvoiceLineRecord where
  "ex_line = \<lparr>line_id = ''l'', line_firmId = ''f'', line_invoiceId = ''i'', line_matterId = ''m'', line_kind = Line_adjustment,
     line_description = ''Fee'', line_quantity = 1, line_unitAmountCents = 100, line_subtotalCents = 100, line_taxName = None,
     line_taxRateBps = 0, line_taxCents = 0, line_totalCents = 100, line_timeEntryId = None, line_expenseEntryId = None,
     line_createdAt = ''2026-01-01''\<rparr>"

definition ex_manual :: "ManualPaymentStatus \<Rightarrow> ManualPaymentRecord" where
  "ex_manual status = \<lparr>pay_id = ''p'', pay_firmId = ''f'', pay_matterId = ''m'', pay_invoiceId = Some ''i'',
     pay_clientContactId = None, pay_receivedAt = ''2026-02-01'', pay_amountCents = 100, pay_method = PayBy_eft,
     pay_reference = None, pay_status = status, pay_receivedByUserId = ''u'', pay_reconciledAt = None,
     pay_reconciledByUserId = None, pay_reconciliationNotes = None, pay_reconciliationEvidence = None,
     pay_notes = None, pay_evidence = None\<rparr>"

definition ex_part :: "string \<Rightarrow> int \<Rightarrow> PaymentAllocationRecord" where
  "ex_part j cents = \<lparr>alloc_id = j, alloc_firmId = ''f'', alloc_paymentId = ''p'', alloc_invoiceId = ''i'',
     alloc_amountCents = cents, alloc_allocatedAt = ''2026-02-01''\<rparr>"

definition ex_bills :: MemoryBillingInvoicePaymentStore where
  "ex_bills = \<lparr>bill_invoices = [ex_invoice], bill_invoiceLines = [ex_line], bill_manualPayments = [], bill_paymentAllocations = []\<rparr>"

definition ex_pending :: MemoryBillingInvoicePaymentStore where
  "ex_pending = ex_bills\<lparr>bill_manualPayments := [ex_manual Payment_pending_reconciliation]\<rparr>"

definition ex_reconcile :: ReconcileInput where
  "ex_reconcile = \<lparr>rec_firmId = ''f'', rec_paymentId = ''p'', rec_reconciledByUserId = ''u'', rec_reconciledAt = ''2026-02-02'',
     rec_notes = None, rec_evidence = None\<rparr>"

lemma ex_bills_reachable: "reachable no_bills bill_step ex_bills"
proof -
  let ?s = "\<lparr>bill_invoices = [], bill_invoiceLines = [], bill_manualPayments = [], bill_paymentAllocations = []\<rparr>"
  have "bill_step ?s ex_bills"
    by (rule step_invoice [of ?s ex_invoice "[ex_line]" "with_lines ex_invoice [ex_line]"])
      (simp_all add: createMemoryInvoice_def ex_bills_def ex_invoice_def ex_line_def totals_of_lines_def
        calculateInvoiceTotals_def allocatedPaymentTotalCents_def Let_def)
  then show ?thesis by (rule reach_step [OF reach_init, rotated]) (simp add: no_bills_def)
qed

lemma ex_pending_reachable: "reachable no_bills bill_step ex_pending"
proof (rule reach_step [OF ex_bills_reachable])
  show "bill_step ex_bills ex_pending"
    by (rule step_payment [of ex_bills "ex_manual Payment_pending_reconciliation" "[]"
          "Inr (with_allocations (ex_manual Payment_pending_reconciliation) [])"])
      (simp_all add: createMemoryPayment_def ex_pending_def ex_bills_def ex_manual_def)
qed


theorem payment_reconciles_once_witness:
  "\<exists>q t. reconcileMemoryPayment ''x'' ex_pending ex_reconcile = (Inr q, t)
    \<and> reconcileMemoryPayment ''y'' t ex_reconcile = (throw ''Manual payment is not pending reconciliation'', t)"
proof -
  have "is_ok (fst (reconcileMemoryPayment ''x'' ex_pending ex_reconcile))"
    by (simp add: reconcileMemoryPayment_def ex_pending_def ex_bills_def ex_manual_def ex_reconcile_def ex_invoice_def
        getMemoryInvoice_def updateMemoryInvoice_def paidInvoice_def Let_def)
  then obtain q t where run: "reconcileMemoryPayment ''x'' ex_pending ex_reconcile = (Inr q, t)"
    by (cases "reconcileMemoryPayment ''x'' ex_pending ex_reconcile") (auto simp: is_ok_iff)
  have "ex_reconcile\<lparr>rec_reconciledByUserId := ''u'', rec_reconciledAt := ''2026-02-02''\<rparr> = ex_reconcile"
    by (simp add: ex_reconcile_def)
  then show ?thesis
    using payment_reconciles_once [OF ex_pending_reachable run, of "''y''" "''2026-02-02''" "''u''"] run by auto
qed

theorem split_payment_underreports_witness:
  "\<exists>q t w'. createMemoryPayment ex_bills (ex_manual Payment_received) [ex_part ''a'' 60, ex_part ''b'' 40] = (Inr q, t)
    \<and> getMemoryInvoice t ''f'' ''i'' = Some w' \<and> inv_paidCents w' + 60 = paid_of (bill_paymentAllocations t) ''i''"
proof -
  have "getMemoryInvoice ex_bills (pay_firmId (ex_manual Payment_received)) ''i'' = Some (with_lines ex_invoice [ex_line])"
    by (simp add: getMemoryInvoice_def ex_bills_def ex_manual_def ex_invoice_def ex_line_def)
  from split_payment_underreports [OF this, of "ex_part ''a'' 60" "ex_part ''b'' 40"]
  show ?thesis by (simp add: ex_manual_def ex_part_def ex_invoice_def ex_bills_def ex_line_def total_of_def)
qed

end
