(* ===== verification/Audit_Chain.thy ===== *)
theory Audit_Chain
  imports Canonical_Json
begin

section \<open>The audit chain\<close>

text \<open>
  packages/domain/src/audit.ts and packages/database/src/repository/audit/memory.ts: every event of a
  firm carries the hash of the event before it, and a reader verifies the chain. \<open>sha256\<close> is
  \<open>createHash("sha256").update(text).digest("hex")\<close> of node:crypto, a parameter: nothing is assumed of
  it, the theorems name the collision or the preimage that a forged chain would need. The function
  \<open>canonicalize\<close> of the file is the one of ledger.ts.
\<close>

subsection \<open>Events, hashing and verification\<close>

record NewAuditEvent =
  aud_id :: string
  aud_firmId :: string
  aud_actorId :: string
  aud_action :: string
  aud_resourceType :: string
  aud_resourceId :: string
  aud_occurredAt :: string
  aud_metadata :: "(string \<times> js_value) list"

record AuditEvent = NewAuditEvent +
  aud_sequence :: int
  aud_previousHash :: string
  aud_hash :: string

definition GENESIS_AUDIT_HASH :: string where
  "GENESIS_AUDIT_HASH = replicate 64 (CHR ''0'')"

definition auditPayload :: "'a NewAuditEvent_scheme \<Rightarrow> string \<Rightarrow> js_value" where
  "auditPayload event previousHash = JObj
     [(''id'', JStr (aud_id event)), (''firmId'', JStr (aud_firmId event)), (''actorId'', JStr (aud_actorId event)),
      (''action'', JStr (aud_action event)), (''resourceType'', JStr (aud_resourceType event)),
      (''resourceId'', JStr (aud_resourceId event)), (''occurredAt'', JStr (aud_occurredAt event)),
      (''metadata'', JObj (aud_metadata event)), (''previousHash'', JStr previousHash)]"

definition auditText :: "'a NewAuditEvent_scheme \<Rightarrow> string \<Rightarrow> string" where
  "auditText event previousHash = template_text (canonicalize (auditPayload event previousHash))"

definition hashAuditPayload :: "(string \<Rightarrow> string) \<Rightarrow> 'a NewAuditEvent_scheme \<Rightarrow> string \<Rightarrow> string" where
  "hashAuditPayload sha256 event previousHash = sha256 (auditText event previousHash)"

definition appendAuditEvent :: "(string \<Rightarrow> string) \<Rightarrow> AuditEvent option \<Rightarrow> NewAuditEvent \<Rightarrow> AuditEvent" where
  "appendAuditEvent sha256 previous new =
     (let previousHash = or_else (map_option aud_hash previous) GENESIS_AUDIT_HASH;
          sequence = or_else (map_option aud_sequence previous) 0 + 1
      in NewAuditEvent.extend new (AuditEvent.fields sequence previousHash (hashAuditPayload sha256 new previousHash)))"

fun verifyFrom :: "(string \<Rightarrow> string) \<Rightarrow> string \<Rightarrow> int \<Rightarrow> AuditEvent list \<Rightarrow> bool" where
  "verifyFrom sha256 previousHash previousSequence [] = True"
| "verifyFrom sha256 previousHash previousSequence (event # events) =
     (if aud_sequence event \<noteq> previousSequence + 1 then False
      else if aud_previousHash event \<noteq> previousHash then False
      else if aud_hash event \<noteq> hashAuditPayload sha256 event (aud_previousHash event) then False
      else verifyFrom sha256 (aud_hash event) (aud_sequence event) events)"

definition verifyAuditChain :: "(string \<Rightarrow> string) \<Rightarrow> AuditEvent list \<Rightarrow> bool" where
  "verifyAuditChain sha256 events = verifyFrom sha256 GENESIS_AUDIT_HASH 0 events"

subsection \<open>The store\<close>

record MemoryAuditStore =
  aud_events :: "AuditEvent list"

definition bySequence :: "AuditEvent \<Rightarrow> AuditEvent \<Rightarrow> int" where
  "bySequence left right = aud_sequence left - aud_sequence right"

definition listMemoryAuditEvents ::
  "(string \<Rightarrow> string) \<Rightarrow> MemoryAuditStore \<Rightarrow> string \<Rightarrow> AuditEvent list \<times> bool" where
  "listMemoryAuditEvents sha256 store firmId =
     (let events = js_sort bySequence (filter (\<lambda>event. aud_firmId event = firmId) (aud_events store))
      in (events, verifyAuditChain sha256 events))"

definition metadataContainsMatterId :: "js_value \<Rightarrow> string \<Rightarrow> bool" where
  "metadataContainsMatterId v matterId =
     (v = JStr matterId \<or> (case v of JArr items \<Rightarrow> JStr matterId \<in> set items | _ \<Rightarrow> False))"

definition metadata_field :: "AuditEvent \<Rightarrow> string \<Rightarrow> js_value" where
  "metadata_field event key = or_else (map_get (aud_metadata event) key) JUndefined"

definition auditEventTouchesMatter :: "AuditEvent \<Rightarrow> string \<Rightarrow> bool" where
  "auditEventTouchesMatter event matterId =
     ((aud_resourceType event = ''matter'' \<and> aud_resourceId event = matterId)
      \<or> metadataContainsMatterId (metadata_field event ''matterId'') matterId
      \<or> metadataContainsMatterId (metadata_field event ''matterIds'') matterId
      \<or> metadataContainsMatterId (metadata_field event ''previousMatterId'') matterId)"

record AuditEventReadFilter =
  filt_actions :: "string list option"
  filt_matterId :: "string option"
  filt_resourceType :: "string option"
  filt_resourceId :: "string option"

definition auditEventMatchesFilter :: "AuditEvent \<Rightarrow> AuditEventReadFilter \<Rightarrow> bool" where
  "auditEventMatchesFilter event f =
     (if (case filt_actions f of Some actions \<Rightarrow> aud_action event \<notin> set actions | None \<Rightarrow> False) then False
      else if truthy (filt_resourceType f) \<and> Some (aud_resourceType event) \<noteq> filt_resourceType f then False
      else if truthy (filt_resourceId f) \<and> Some (aud_resourceId event) \<noteq> filt_resourceId f then False
      else if truthy (filt_matterId f) \<and> \<not> auditEventTouchesMatter event (or_else (filt_matterId f) []) then False
      else True)"

definition listMemoryFilteredAuditEvents ::
  "MemoryAuditStore \<Rightarrow> string \<Rightarrow> AuditEventReadFilter \<Rightarrow> AuditEvent list" where
  "listMemoryFilteredAuditEvents store firmId f =
     (if filt_actions f = Some [] then []
      else js_sort bySequence (filter (\<lambda>event. aud_firmId event = firmId \<and> auditEventMatchesFilter event f) (aud_events store)))"

definition at_last :: "'a list \<Rightarrow> 'a option" where
  "at_last xs = (if xs = [] then None else Some (last xs))"

definition appendMemoryAuditEvent ::
  "(string \<Rightarrow> string) \<Rightarrow> MemoryAuditStore \<Rightarrow> NewAuditEvent \<Rightarrow> AuditEvent \<times> MemoryAuditStore" where
  "appendMemoryAuditEvent sha256 store event =
     (let firmEvents = js_sort bySequence (filter (\<lambda>candidate. aud_firmId candidate = aud_firmId event) (aud_events store));
          appended = appendAuditEvent sha256 (at_last firmEvents) event
      in (appended, store\<lparr>aud_events := aud_events store @ [appended]\<rparr>))"

definition recordMemoryAuditEvent :: "(string \<Rightarrow> string) \<Rightarrow> MemoryAuditStore \<Rightarrow> AuditEvent \<Rightarrow> MemoryAuditStore" where
  "recordMemoryAuditEvent sha256 store event =
     snd (appendMemoryAuditEvent sha256 store (NewAuditEvent.truncate event))"

subsection \<open>Chains\<close>

definition head_hash :: "AuditEvent list \<Rightarrow> string" where
  "head_hash chain = (if chain = [] then GENESIS_AUDIT_HASH else aud_hash (last chain))"

definition links_to :: "(string \<Rightarrow> string) \<Rightarrow> AuditEvent list \<Rightarrow> AuditEvent \<Rightarrow> bool" where
  "links_to sha256 chain event =
     (aud_sequence event = int (length chain) + 1 \<and> aud_previousHash event = head_hash chain
      \<and> aud_hash event = sha256 (auditText event (aud_previousHash event)))"

lemma verifyFrom_snoc:
  "verifyFrom sha h n (chain @ [e]) \<longleftrightarrow> verifyFrom sha h n chain
     \<and> aud_sequence e = (if chain = [] then n else aud_sequence (last chain)) + 1
     \<and> aud_previousHash e = (if chain = [] then h else aud_hash (last chain))
     \<and> aud_hash e = sha (auditText e (aud_previousHash e))"
  by (induction chain arbitrary: h n) (auto simp: hashAuditPayload_def)

lemma verifyFrom_sequences:
  "verifyFrom sha h n chain \<Longrightarrow> i < length chain \<Longrightarrow> aud_sequence (chain ! i) = n + 1 + int i"
proof (induction chain arbitrary: h n i)
  case (Cons e chain)
  then show ?case by (cases i) (auto split: if_splits)
qed simp

lemma verifyAuditChain_snoc:
  "verifyAuditChain sha (chain @ [e]) \<longleftrightarrow> verifyAuditChain sha chain \<and> links_to sha chain e"
proof -
  have "aud_sequence (last chain) = int (length chain)" if "verifyFrom sha GENESIS_AUDIT_HASH 0 chain" "chain \<noteq> []"
    using verifyFrom_sequences [OF that(1), of "length chain - 1"] that(2) by (cases chain rule: rev_cases) (simp_all add: last_conv_nth)
  then show ?thesis by (auto simp: verifyAuditChain_def verifyFrom_snoc links_to_def head_hash_def)
qed

lemma verified_sorted:
  assumes "verifyAuditChain sha chain"
  shows "sorted_wrt (\<lambda>a b. bySequence a b \<le> 0) chain"
  using verifyFrom_sequences assms unfolding verifyAuditChain_def sorted_wrt_iff_nth_less bySequence_def by fastforce

subsection \<open>Every stored chain verifies\<close>

inductive audit_step :: "(string \<Rightarrow> string) \<Rightarrow> MemoryAuditStore \<Rightarrow> MemoryAuditStore \<Rightarrow> bool" for sha256 where
  step_append: "appendMemoryAuditEvent sha256 s event = (r, t) \<Longrightarrow> audit_step sha256 s t"
| step_record: "recordMemoryAuditEvent sha256 s event = t \<Longrightarrow> audit_step sha256 s t"

definition no_events :: "MemoryAuditStore \<Rightarrow> bool" where
  "no_events s = (aud_events s = [])"

definition firm_chain :: "MemoryAuditStore \<Rightarrow> string \<Rightarrow> AuditEvent list" where
  "firm_chain s firmId = filter (\<lambda>e. aud_firmId e = firmId) (aud_events s)"

definition chains_ok :: "(string \<Rightarrow> string) \<Rightarrow> MemoryAuditStore \<Rightarrow> bool" where
  "chains_ok sha256 s = (\<forall>firmId. verifyAuditChain sha256 (firm_chain s firmId))"

lemma extend_fields [simp]:
  "aud_firmId (NewAuditEvent.extend e x) = aud_firmId e"
  "auditText (NewAuditEvent.extend e x) h = auditText e h"
  "aud_sequence (NewAuditEvent.extend e (AuditEvent.fields n h k)) = n"
  "aud_previousHash (NewAuditEvent.extend e (AuditEvent.fields n h k)) = h"
  "aud_hash (NewAuditEvent.extend e (AuditEvent.fields n h k)) = k"
  by (simp_all add: NewAuditEvent.extend_def AuditEvent.fields_def auditText_def auditPayload_def)

lemma appendAuditEvent_links:
  assumes "verifyAuditChain sha chain"
  shows "links_to sha chain (appendAuditEvent sha (at_last chain) e)"
proof (cases chain rule: rev_cases)
  case Nil
  then show ?thesis by (simp add: links_to_def appendAuditEvent_def at_last_def head_hash_def hashAuditPayload_def)
next
  case (snoc front l)
  then have "aud_sequence l = int (length chain)" using assms by (auto simp: verifyAuditChain_snoc links_to_def)
  then show ?thesis
    using snoc by (simp add: links_to_def appendAuditEvent_def at_last_def head_hash_def hashAuditPayload_def Let_def)
qed

lemma appendAuditEvent_firm [simp]: "aud_firmId (appendAuditEvent sha p e) = aud_firmId e"
  by (simp add: appendAuditEvent_def Let_def)

lemma append_keeps_chains:
  assumes "chains_ok sha s" "appendMemoryAuditEvent sha s e = (r, t)"
  shows "chains_ok sha t"
proof -
  have "js_sort bySequence (firm_chain s (aud_firmId e)) = firm_chain s (aud_firmId e)"
    using assms(1) by (intro js_sort_id verified_sorted) (auto simp: chains_ok_def)
  then have t: "t = s\<lparr>aud_events := aud_events s @ [appendAuditEvent sha (at_last (firm_chain s (aud_firmId e))) e]\<rparr>"
    using assms(2) by (auto simp: appendMemoryAuditEvent_def firm_chain_def Let_def)
  have "firm_chain t f = (if f = aud_firmId e
      then firm_chain s f @ [appendAuditEvent sha (at_last (firm_chain s (aud_firmId e))) e] else firm_chain s f)" for f
    using t by (auto simp: firm_chain_def)
  then show ?thesis using assms(1) appendAuditEvent_links by (auto simp: chains_ok_def verifyAuditChain_snoc)
qed

interpretation audit_run: inductive_invariant no_events "audit_step sha256" "chains_ok sha256" for sha256
proof unfold_locales
  show "no_events s \<Longrightarrow> chains_ok sha256 s" for s
    by (simp add: no_events_def chains_ok_def firm_chain_def verifyAuditChain_def)
  show "audit_step sha256 s t \<Longrightarrow> chains_ok sha256 s \<Longrightarrow> chains_ok sha256 t" for s t
    by (erule audit_step.cases) (auto simp: recordMemoryAuditEvent_def intro: append_keeps_chains surjective_pairing)
qed

lemma audit_log_reads_events:
  assumes "chains_ok sha256 a"
  shows "listMemoryAuditEvents sha256 a firmId = (firm_chain a firmId, True)"
proof -
  have chain: "verifyAuditChain sha256 (firm_chain a firmId)" using assms by (simp add: chains_ok_def)
  then have "js_sort bySequence (firm_chain a firmId) = firm_chain a firmId" by (intro js_sort_id verified_sorted)
  then show ?thesis using chain by (simp add: listMemoryAuditEvents_def firm_chain_def Let_def)
qed

lemma audit_log_reads_valid: "chains_ok sha256 a \<Longrightarrow> snd (listMemoryAuditEvents sha256 a firmId)"
  by (simp add: audit_log_reads_events)

text \<open>
  C14. Whatever events are appended or recorded, for any firms and in any order, the audit log of every
  firm reads back as a valid chain, in the order the events were written and with the sequence
  numbers 1, 2, 3 and so on.
\<close>

theorem audit_log_always_valid:
  assumes "reachable no_events (audit_step sha256) s"
  shows "listMemoryAuditEvents sha256 s firmId = (filter (\<lambda>e. aud_firmId e = firmId) (aud_events s), True)
    \<and> map aud_sequence (filter (\<lambda>e. aud_firmId e = firmId) (aud_events s))
        = map (\<lambda>i. int i + 1) [0..<length (filter (\<lambda>e. aud_firmId e = firmId) (aud_events s))]"
proof -
  have chain: "verifyAuditChain sha256 (firm_chain s firmId)"
    using audit_run.reachable_inv [OF assms] by (simp add: chains_ok_def)
  then have "js_sort bySequence (firm_chain s firmId) = firm_chain s firmId"
    by (intro js_sort_id verified_sorted)
  moreover have "map aud_sequence (firm_chain s firmId) = map (\<lambda>i. int i + 1) [0..<length (firm_chain s firmId)]"
    using verifyFrom_sequences [OF chain [unfolded verifyAuditChain_def]] by (intro nth_equalityI) simp_all
  ultimately show ?thesis using chain by (simp add: listMemoryAuditEvents_def firm_chain_def Let_def)
qed

subsection \<open>Forging a chain needs a collision\<close>

text \<open>
  Two events are the same when every field is, the metadata up to the order of keys. Values with
  \<open>undefined\<close> inside an array are excluded: \<open>canonicalize\<close> drops them.
\<close>

definition same_event :: "AuditEvent \<Rightarrow> AuditEvent \<Rightarrow> bool" where
  "same_event a b =
     (aud_id a = aud_id b \<and> aud_firmId a = aud_firmId b \<and> aud_actorId a = aud_actorId b \<and> aud_action a = aud_action b
      \<and> aud_resourceType a = aud_resourceType b \<and> aud_resourceId a = aud_resourceId b \<and> aud_occurredAt a = aud_occurredAt b
      \<and> sort_keys (JObj (aud_metadata a)) = sort_keys (JObj (aud_metadata b))
      \<and> aud_sequence a = aud_sequence b \<and> aud_previousHash a = aud_previousHash b \<and> aud_hash a = aud_hash b)"

definition event_text :: "AuditEvent \<Rightarrow> string" where
  "event_text e = auditText e (aud_previousHash e)"

definition metadata_safe :: "AuditEvent \<Rightarrow> bool" where
  "metadata_safe e = array_safe (JObj (aud_metadata e))"

lemma auditText_inject:
  assumes "auditText a h = auditText b k" "metadata_safe a" "metadata_safe b"
  shows "aud_id a = aud_id b \<and> aud_firmId a = aud_firmId b \<and> aud_actorId a = aud_actorId b \<and> aud_action a = aud_action b
      \<and> aud_resourceType a = aud_resourceType b \<and> aud_resourceId a = aud_resourceId b \<and> aud_occurredAt a = aud_occurredAt b
      \<and> sort_keys (JObj (aud_metadata a)) = sort_keys (JObj (aud_metadata b)) \<and> h = k"
proof -
  have "canonicalize (auditPayload a h) = canonicalize (auditPayload b k)"
    using assms(1) by (simp add: auditText_def auditPayload_def template_text_def)
  moreover have "array_safe (auditPayload a h)" "array_safe (auditPayload b k)"
    using assms(2,3) by (simp_all add: auditPayload_def metadata_safe_def)
  ultimately have "sort_keys (auditPayload a h) = sort_keys (auditPayload b k)" by (rule canonicalize_inject)
  from sort_keys_JObj_values [OF this [unfolded auditPayload_def]] show ?thesis by (simp del: sort_keys.simps(7) add: sort_keys.simps(5))
qed

lemma links_hash: "links_to sha chain e \<Longrightarrow> sha (event_text e) = aud_hash e"
  unfolding links_to_def event_text_def by metis

text \<open>
  C15. The chain is tamper evident: two chains that both verify and end in the same hash hold the same
  events, or among the texts hashed for them there are two different ones with the same hash, or
  one that hashes to the genesis hash. So an event cannot be altered, removed, inserted or moved
  behind an unchanged last hash without breaking the hash function.
\<close>

theorem audit_chain_tamper_evident:
  assumes "verifyAuditChain sha256 left" and "verifyAuditChain sha256 right" and "head_hash left = head_hash right"
    and "list_all metadata_safe left" and "list_all metadata_safe right"
  shows "list_all2 same_event left right
    \<or> (\<exists>a \<in> set left. \<exists>b \<in> set right. event_text a \<noteq> event_text b \<and> sha256 (event_text a) = sha256 (event_text b))
    \<or> (\<exists>e \<in> set left \<union> set right. sha256 (event_text e) = GENESIS_AUDIT_HASH)"
  using assms
proof (induction left arbitrary: right rule: rev_induct)
  case Nil
  show ?case
  proof (cases right rule: rev_cases)
    case (snoc front e)
    then have "sha256 (event_text e) = GENESIS_AUDIT_HASH"
      using Nil.prems(2,3) by (auto simp: verifyAuditChain_snoc head_hash_def links_hash)
    then show ?thesis using snoc by simp
  qed simp
next
  case (snoc a left)
  have a: "verifyAuditChain sha256 left" "links_to sha256 left a" using snoc.prems(1) by (simp_all add: verifyAuditChain_snoc)
  show ?case
  proof (cases right rule: rev_cases)
    case Nil
    then have "sha256 (event_text a) = GENESIS_AUDIT_HASH"
      using snoc.prems(3) links_hash [OF a(2)] by (simp add: head_hash_def)
    then show ?thesis by simp
  next
    case (snoc front b)
    then have b: "verifyAuditChain sha256 front" "links_to sha256 front b" using snoc.prems(2) by (simp_all add: verifyAuditChain_snoc)
    show ?thesis
    proof (cases "event_text a = event_text b")
      case False
      have "aud_hash a = aud_hash b" using snoc.prems(3) snoc by (simp add: head_hash_def)
      then have "sha256 (event_text a) = sha256 (event_text b)"
        using links_hash [OF a(2)] links_hash [OF b(2)] by simp
      then show ?thesis using False snoc by (intro disjI2 disjI1 bexI [of _ a] bexI [of _ b]) simp_all
    next
      case True
      have fields: "aud_previousHash a = aud_previousHash b"
        using auditText_inject True snoc.prems(4,5) snoc unfolding event_text_def by simp
      then have "head_hash left = head_hash front" using a(2) b(2) by (simp add: links_to_def)
      then have IH: "list_all2 same_event left front
          \<or> (\<exists>a \<in> set left. \<exists>b \<in> set front. event_text a \<noteq> event_text b \<and> sha256 (event_text a) = sha256 (event_text b))
          \<or> (\<exists>e \<in> set left \<union> set front. sha256 (event_text e) = GENESIS_AUDIT_HASH)"
        using snoc.IH [OF a(1) b(1)] snoc.prems(4,5) snoc by simp
      have "same_event a b" if "length left = length front"
        using auditText_inject [OF True [unfolded event_text_def]] links_hash [OF a(2)] links_hash [OF b(2)] True
          snoc.prems(4,5) snoc a(2) b(2) that
        unfolding same_event_def links_to_def by simp
      then have "list_all2 same_event (left @ [a]) (front @ [b])" if "list_all2 same_event left front"
        using that list_all2_lengthD [OF that] by (simp add: list_all2_appendI)
      then show ?thesis using IH snoc by auto
    qed
  qed
qed

subsection \<open>A worked log\<close>

definition ex_event :: "string \<Rightarrow> NewAuditEvent" where
  "ex_event i = \<lparr>aud_id = i, aud_firmId = ''f'', aud_actorId = ''u'', aud_action = ''matter.closed'', aud_resourceType = ''matter'',
     aud_resourceId = ''m'', aud_occurredAt = ''2026-01-01'', aud_metadata = [(''matterId'', JStr ''m'')]\<rparr>"

definition ex_log :: MemoryAuditStore where
  "ex_log = snd (appendMemoryAuditEvent (\<lambda>text. text)
     (snd (appendMemoryAuditEvent (\<lambda>text. text) \<lparr>aud_events = []\<rparr> (ex_event ''a''))) (ex_event ''b''))"

lemma ex_log_reachable: "reachable no_events (audit_step (\<lambda>text. text)) ex_log"
proof -
  let ?s = "snd (appendMemoryAuditEvent (\<lambda>text. text) \<lparr>aud_events = []\<rparr> (ex_event ''a''))"
  have "reachable no_events (audit_step (\<lambda>text. text)) \<lparr>aud_events = []\<rparr>" by (rule reach_init) (simp add: no_events_def)
  then have "reachable no_events (audit_step (\<lambda>text. text)) ?s" by (rule reach_step) (rule step_append [OF surjective_pairing])
  then show ?thesis unfolding ex_log_def by (rule reach_step) (rule step_append [OF surjective_pairing])
qed

theorem audit_log_always_valid_witness:
  "snd (listMemoryAuditEvents (\<lambda>text. text) ex_log ''f'') \<and> length (fst (listMemoryAuditEvents (\<lambda>text. text) ex_log ''f'')) = 2"
proof -
  have "length (filter (\<lambda>e. aud_firmId e = ''f'') (aud_events ex_log)) = 2"
    by (simp add: ex_log_def appendMemoryAuditEvent_def Let_def) (simp add: ex_event_def)
  then show ?thesis using audit_log_always_valid [OF ex_log_reachable, of "''f''"] by simp
qed

definition ex_chain :: "AuditEvent list" where
  "ex_chain = [appendAuditEvent (\<lambda>text. text) None (ex_event ''a'')]"

theorem audit_chain_tamper_evident_witness:
  "list_all2 same_event ex_chain ex_chain"
proof -
  have "verifyAuditChain (\<lambda>text. text) ([] @ ex_chain)"
    using appendAuditEvent_links [of "\<lambda>text. text" "[]" "ex_event ''a''"]
    unfolding ex_chain_def verifyAuditChain_snoc by (simp add: verifyAuditChain_def at_last_def)
  moreover have "list_all metadata_safe ex_chain"
    by (simp add: ex_chain_def metadata_safe_def appendAuditEvent_def ex_event_def NewAuditEvent.extend_def Let_def)
  moreover have "\<not> (\<exists>e \<in> set ex_chain. event_text e = GENESIS_AUDIT_HASH)"
    by (simp add: ex_chain_def event_text_def auditText_def auditPayload_def template_text_def GENESIS_AUDIT_HASH_def
        numeral_eq_Suc)
  moreover have "\<not> (\<exists>a \<in> set ex_chain. \<exists>b \<in> set ex_chain. event_text a \<noteq> event_text b \<and> event_text a = event_text b)" by simp
  ultimately show ?thesis using audit_chain_tamper_evident [of "\<lambda>text. text" ex_chain ex_chain] by auto
qed

end
