(* ===== verification/Matter_Lifecycle.thy ===== *)
theory Matter_Lifecycle
  imports Models Js_Date
begin

section \<open>The lifecycle of a matter\<close>

text \<open>
  packages/domain/src/matter-lifecycle.ts: reviews record whether a matter is ready to be paused, closed,
  archived or reopened, and commands change its status on the evidence of a review. The two unions
  \<open>MatterLifecycleTransition\<close> and \<open>MatterLifecycleCommand\<close> have the same members and are one type;
  the checks that a value is one of its union, or an array, hold by type.
\<close>

subsection \<open>Data\<close>

datatype MatterLifecycleTransition = Transition_pause | Transition_close | Transition_archive | Transition_reopen

type_synonym MatterLifecycleCommand = MatterLifecycleTransition

datatype MatterLifecycleReadiness = Readiness_ready | Readiness_blocked

record MatterLifecycleCommandConsequences =
  cons_matterStatusChanged :: bool
  cons_closedOnChanged :: bool
  cons_portalAccessChanged :: bool
  cons_taskChanged :: bool
  cons_assignmentChanged :: bool
  cons_billingChanged :: bool
  cons_trustChanged :: bool
  cons_retentionChanged :: bool
  cons_cleanupRun :: bool

record MatterLifecycleCommandExecution =
  exec_command :: MatterLifecycleCommand
  exec_matterId :: string
  exec_transitionRecordId :: string
  exec_beforeStatus :: MatterStatus
  exec_expectedStatus :: MatterStatus
  exec_afterStatus :: MatterStatus
  exec_executedAt :: string
  exec_executedByUserId :: string
  exec_reviewFirst :: bool
  exec_consequences :: MatterLifecycleCommandConsequences

record MatterLifecycleTransitionRecord =
  mlt_id :: string
  mlt_firmId :: string
  mlt_matterId :: string
  mlt_transition :: MatterLifecycleTransition
  mlt_currentStatus :: MatterStatus
  mlt_targetStatus :: MatterStatus
  mlt_readiness :: MatterLifecycleReadiness
  mlt_reason :: string
  mlt_blockers :: "string list"
  mlt_reviewedByUserId :: string
  mlt_reviewedAt :: string
  mlt_createdAt :: string

record MatterLifecycleTransitionSummary =
  mls_total :: int
  mls_ready :: int
  mls_blocked :: int
  mls_latestByTransition :: "(MatterLifecycleTransition \<times> MatterLifecycleTransitionRecord) list"

primrec transition_name :: "MatterLifecycleTransition \<Rightarrow> string" where
  "transition_name Transition_pause = ''pause''"
| "transition_name Transition_close = ''close''"
| "transition_name Transition_archive = ''archive''"
| "transition_name Transition_reopen = ''reopen''"

primrec readiness_name :: "MatterLifecycleReadiness \<Rightarrow> string" where
  "readiness_name Readiness_ready = ''ready''"
| "readiness_name Readiness_blocked = ''blocked''"

primrec matter_status_name :: "MatterStatus \<Rightarrow> string" where
  "matter_status_name Matter_intake = ''intake''"
| "matter_status_name Matter_open = ''open''"
| "matter_status_name Matter_paused = ''paused''"
| "matter_status_name Matter_closed = ''closed''"
| "matter_status_name Matter_archived = ''archived''"

subsection \<open>Statuses and texts\<close>

primrec matterLifecycleTargetStatus :: "MatterLifecycleTransition \<Rightarrow> MatterStatus" where
  "matterLifecycleTargetStatus Transition_pause = Matter_paused"
| "matterLifecycleTargetStatus Transition_close = Matter_closed"
| "matterLifecycleTargetStatus Transition_archive = Matter_archived"
| "matterLifecycleTargetStatus Transition_reopen = Matter_open"

primrec matterLifecycleCommandRequiredStatuses :: "MatterLifecycleCommand \<Rightarrow> MatterStatus list" where
  "matterLifecycleCommandRequiredStatuses Transition_pause = [Matter_open]"
| "matterLifecycleCommandRequiredStatuses Transition_reopen = [Matter_paused, Matter_closed, Matter_archived]"
| "matterLifecycleCommandRequiredStatuses Transition_close = [Matter_open]"
| "matterLifecycleCommandRequiredStatuses Transition_archive = [Matter_closed]"

definition matterLifecycleCommandRequiredStatus :: "MatterLifecycleCommand \<Rightarrow> MatterStatus" where
  "matterLifecycleCommandRequiredStatus command = hd (matterLifecycleCommandRequiredStatuses command)"

definition requiredStatusLabel :: "MatterStatus list \<Rightarrow> string" where
  "requiredStatusLabel statuses = join '', '' (map matter_status_name statuses)"

definition maxReasonLength :: nat where
  "maxReasonLength = 240"

definition maxIdempotencyKeyLength :: nat where
  "maxIdempotencyKeyLength = 160"

definition maxBlockerLength :: nat where
  "maxBlockerLength = 160"

definition maxBlockers :: nat where
  "maxBlockers = 8"

definition statusOnlyCommandConsequences :: MatterLifecycleCommandConsequences where
  "statusOnlyCommandConsequences =
     \<lparr>cons_matterStatusChanged = True, cons_closedOnChanged = False, cons_portalAccessChanged = False,
      cons_taskChanged = False, cons_assignmentChanged = False, cons_billingChanged = False,
      cons_trustChanged = False, cons_retentionChanged = False, cons_cleanupRun = False\<rparr>"

definition assertConciseText :: "string \<Rightarrow> string \<Rightarrow> nat \<Rightarrow> unit result" where
  "assertConciseText v field maxLength =
     run_checks
      [throw_if (trim v = []) (field @ '' is required''),
       throw_if (length v > maxLength) (field @ '' must be '' @ string_of_nat maxLength @ '' characters or less'')]"

subsection \<open>Validation and construction\<close>

definition blockedConsequences :: "MatterLifecycleCommandConsequences \<Rightarrow> bool list" where
  "blockedConsequences c =
     [cons_closedOnChanged c, cons_portalAccessChanged c, cons_taskChanged c, cons_assignmentChanged c,
      cons_billingChanged c, cons_trustChanged c, cons_retentionChanged c, cons_cleanupRun c]"

definition validateMatterLifecycleCommandExecution :: "MatterLifecycleCommandExecution \<Rightarrow> unit result" where
  "validateMatterLifecycleCommandExecution execution =
     (let requiredStatuses = matterLifecycleCommandRequiredStatuses (exec_command execution);
          requiredLabel = requiredStatusLabel requiredStatuses;
          targetStatus = matterLifecycleTargetStatus (exec_command execution);
          command = ''Matter lifecycle command '' @ transition_name (exec_command execution)
      in run_checks
        [throw_if (trim (exec_matterId execution) = []) ''Matter lifecycle command matter id is required'',
         throw_if (trim (exec_transitionRecordId execution) = []) ''Matter lifecycle command transition record id is required'',
         throw_if (trim (exec_executedByUserId execution) = []) ''Matter lifecycle command executor user id is required'',
         throw_if (exec_expectedStatus execution \<notin> set requiredStatuses) (command @ '' expected status must be '' @ requiredLabel),
         throw_if (exec_beforeStatus execution \<notin> set requiredStatuses) (command @ '' requires matter status '' @ requiredLabel),
         throw_if (exec_beforeStatus execution \<noteq> exec_expectedStatus execution)
           ''Matter lifecycle command expected status must match matter status'',
         throw_if (exec_afterStatus execution \<noteq> targetStatus) (command @ '' must change status to '' @ matter_status_name targetStatus),
         throw_if (date_parse (exec_executedAt execution) = None) ''Matter lifecycle command timestamp must be ISO-compatible'',
         throw_if (\<not> exec_reviewFirst execution) ''Matter lifecycle command must be review-first'',
         throw_if (\<not> cons_matterStatusChanged (exec_consequences execution)) ''Matter lifecycle command must change matter status'',
         throw_if (list_ex id (blockedConsequences (exec_consequences execution)))
           ''Matter lifecycle command has unsupported side effects''])"

definition validateMatterLifecycleTransitionRecord :: "MatterLifecycleTransitionRecord \<Rightarrow> unit result" where
  "validateMatterLifecycleTransitionRecord r =
     (let expectedTarget = matterLifecycleTargetStatus (mlt_transition r)
      in run_checks
        [throw_if (trim (mlt_id r) = []) ''Matter lifecycle transition id is required'',
         throw_if (trim (mlt_firmId r) = []) ''Matter lifecycle transition firm id is required'',
         throw_if (trim (mlt_matterId r) = []) ''Matter lifecycle transition matter id is required'',
         throw_if (mlt_targetStatus r \<noteq> expectedTarget)
           (''Matter lifecycle transition '' @ transition_name (mlt_transition r) @ '' must target '' @ matter_status_name expectedTarget),
         assertConciseText (mlt_reason r) ''Matter lifecycle transition reason'' maxReasonLength,
         throw_if (length (mlt_blockers r) > maxBlockers)
           (''Matter lifecycle transition blockers must include '' @ string_of_nat maxBlockers @ '' items or fewer''),
         for_each (\<lambda>blocker. assertConciseText blocker ''Matter lifecycle transition blocker'' maxBlockerLength) (mlt_blockers r),
         throw_if (mlt_readiness r = Readiness_blocked \<and> mlt_blockers r = [])
           ''Blocked matter lifecycle readiness requires at least one blocker'',
         throw_if (date_parse (mlt_reviewedAt r) = None \<or> date_parse (mlt_createdAt r) = None)
           ''Matter lifecycle transition timestamps must be ISO-compatible''])"

record TransitionRecordInput =
  tri_id :: string
  tri_firmId :: string
  tri_matterId :: string
  tri_transition :: MatterLifecycleTransition
  tri_currentStatus :: MatterStatus
  tri_readiness :: MatterLifecycleReadiness
  tri_reason :: string
  tri_blockers :: "string list option"
  tri_reviewedByUserId :: string
  tri_reviewedAt :: string
  tri_createdAt :: string

definition buildMatterLifecycleTransitionRecord :: "TransitionRecordInput \<Rightarrow> MatterLifecycleTransitionRecord result" where
  "buildMatterLifecycleTransitionRecord inp =
     (let r = \<lparr>mlt_id = tri_id inp, mlt_firmId = tri_firmId inp, mlt_matterId = tri_matterId inp,
            mlt_transition = tri_transition inp, mlt_currentStatus = tri_currentStatus inp,
            mlt_targetStatus = matterLifecycleTargetStatus (tri_transition inp), mlt_readiness = tri_readiness inp,
            mlt_reason = trim (tri_reason inp),
            mlt_blockers = filter (\<lambda>b. b \<noteq> []) (map trim (or_else (tri_blockers inp) [])),
            mlt_reviewedByUserId = tri_reviewedByUserId inp, mlt_reviewedAt = tri_reviewedAt inp,
            mlt_createdAt = tri_createdAt inp\<rparr>
      in bind_result (validateMatterLifecycleTransitionRecord r) (\<lambda>_. Inr r))"

record CommandExecutionInput =
  cei_command :: MatterLifecycleCommand
  cei_matterId :: string
  cei_transitionRecordId :: string
  cei_beforeStatus :: MatterStatus
  cei_expectedStatus :: MatterStatus
  cei_reason :: string
  cei_idempotencyKey :: string
  cei_executedAt :: string
  cei_executedByUserId :: string

definition buildMatterLifecycleCommandExecution :: "CommandExecutionInput \<Rightarrow> MatterLifecycleCommandExecution result" where
  "buildMatterLifecycleCommandExecution inp =
     bind_result (assertConciseText (cei_reason inp) ''Matter lifecycle command reason'' maxReasonLength) (\<lambda>_.
     bind_result (assertConciseText (cei_idempotencyKey inp) ''Matter lifecycle command idempotency key'' maxIdempotencyKeyLength) (\<lambda>_.
     let execution = \<lparr>exec_command = cei_command inp, exec_matterId = cei_matterId inp,
            exec_transitionRecordId = cei_transitionRecordId inp, exec_beforeStatus = cei_beforeStatus inp,
            exec_expectedStatus = cei_expectedStatus inp,
            exec_afterStatus = matterLifecycleTargetStatus (cei_command inp), exec_executedAt = cei_executedAt inp,
            exec_executedByUserId = cei_executedByUserId inp, exec_reviewFirst = True,
            exec_consequences = statusOnlyCommandConsequences\<rparr>
     in bind_result (validateMatterLifecycleCommandExecution execution) (\<lambda>_. Inr execution)))"

text \<open>\<open>latestByTransition[t] ??= record\<close> keeps the first record of a transition.\<close>

definition put_if_absent :: "('k \<times> 'v) list \<Rightarrow> 'k \<Rightarrow> 'v \<Rightarrow> ('k \<times> 'v) list" where
  "put_if_absent m k v = (if map_get m k = None then map_put m k v else m)"

definition newestReviewFirst :: "(string \<Rightarrow> string \<Rightarrow> int) \<Rightarrow> MatterLifecycleTransitionRecord \<Rightarrow> MatterLifecycleTransitionRecord \<Rightarrow> int" where
  "newestReviewFirst collate left right = collate (mlt_reviewedAt right) (mlt_reviewedAt left)"

definition summarizeMatterLifecycleTransitions ::
  "(string \<Rightarrow> string \<Rightarrow> int) \<Rightarrow> MatterLifecycleTransitionRecord list \<Rightarrow> MatterLifecycleTransitionSummary" where
  "summarizeMatterLifecycleTransitions collate records =
     \<lparr>mls_total = int (length records),
      mls_ready = count_where (\<lambda>r. mlt_readiness r = Readiness_ready) records,
      mls_blocked = count_where (\<lambda>r. mlt_readiness r = Readiness_blocked) records,
      mls_latestByTransition =
        foldl (\<lambda>m r. put_if_absent m (mlt_transition r) r) [] (js_sort (newestReviewFirst collate) records)\<rparr>"

definition buildMatterLifecycleTransitionAuditMetadata :: "MatterLifecycleTransitionRecord \<Rightarrow> (string \<times> js_value) list" where
  "buildMatterLifecycleTransitionAuditMetadata r =
     [(''matterId'', JStr (mlt_matterId r)), (''transitionRecordId'', JStr (mlt_id r)),
      (''transition'', JStr (transition_name (mlt_transition r))),
      (''currentStatus'', JStr (matter_status_name (mlt_currentStatus r))),
      (''targetStatus'', JStr (matter_status_name (mlt_targetStatus r))),
      (''readiness'', JStr (readiness_name (mlt_readiness r))),
      (''blockerCount'', JNum (int (length (mlt_blockers r)))), (''reasonPresent'', JBool (mlt_reason r \<noteq> [])),
      (''reviewedByUserId'', JStr (mlt_reviewedByUserId r)), (''reviewOnly'', JBool True)]"

definition buildMatterLifecycleCommandAuditMetadata ::
  "MatterLifecycleCommandExecution \<Rightarrow> string \<Rightarrow> string \<Rightarrow> (string \<times> js_value) list" where
  "buildMatterLifecycleCommandAuditMetadata execution reason idempotencyKey =
     (let c = exec_consequences execution in
      [(''matterId'', JStr (exec_matterId execution)), (''transitionRecordId'', JStr (exec_transitionRecordId execution)),
       (''lifecycleCommand'', JStr (transition_name (exec_command execution))),
       (''beforeStatus'', JStr (matter_status_name (exec_beforeStatus execution))),
       (''expectedStatus'', JStr (matter_status_name (exec_expectedStatus execution))),
       (''afterStatus'', JStr (matter_status_name (exec_afterStatus execution))),
       (''executedByUserId'', JStr (exec_executedByUserId execution)),
       (''reasonPresent'', JBool (trim reason \<noteq> [])), (''idempotencyKeyPresent'', JBool (trim idempotencyKey \<noteq> [])),
       (''reviewFirst'', JBool (exec_reviewFirst execution)),
       (''matterStatusChanged'', JBool (cons_matterStatusChanged c)), (''closedOnChanged'', JBool (cons_closedOnChanged c)),
       (''portalAccessChanged'', JBool (cons_portalAccessChanged c)), (''taskChanged'', JBool (cons_taskChanged c)),
       (''assignmentChanged'', JBool (cons_assignmentChanged c)), (''billingChanged'', JBool (cons_billingChanged c)),
       (''trustChanged'', JBool (cons_trustChanged c)), (''retentionChanged'', JBool (cons_retentionChanged c)),
       (''cleanupRun'', JBool (cons_cleanupRun c))])"

subsection \<open>What validation accepts\<close>

definition concise :: "nat \<Rightarrow> string \<Rightarrow> bool" where
  "concise maxLength v = (trim v \<noteq> [] \<and> length v \<le> maxLength)"

lemma assertConciseText_ok [simp]: "assertConciseText v field n = Inr () \<longleftrightarrow> concise n v"
  by (auto simp: assertConciseText_def concise_def result_simps)

lemma buildMatterLifecycleCommandExecution_ok:
  "buildMatterLifecycleCommandExecution inp = Inr x \<longleftrightarrow>
     concise maxReasonLength (cei_reason inp) \<and> concise maxIdempotencyKeyLength (cei_idempotencyKey inp)
     \<and> trim (cei_matterId inp) \<noteq> [] \<and> trim (cei_transitionRecordId inp) \<noteq> [] \<and> trim (cei_executedByUserId inp) \<noteq> []
     \<and> cei_expectedStatus inp \<in> set (matterLifecycleCommandRequiredStatuses (cei_command inp))
     \<and> cei_beforeStatus inp = cei_expectedStatus inp \<and> date_parse (cei_executedAt inp) \<noteq> None
     \<and> x = \<lparr>exec_command = cei_command inp, exec_matterId = cei_matterId inp,
            exec_transitionRecordId = cei_transitionRecordId inp, exec_beforeStatus = cei_beforeStatus inp,
            exec_expectedStatus = cei_expectedStatus inp,
            exec_afterStatus = matterLifecycleTargetStatus (cei_command inp), exec_executedAt = cei_executedAt inp,
            exec_executedByUserId = cei_executedByUserId inp, exec_reviewFirst = True,
            exec_consequences = statusOnlyCommandConsequences\<rparr>"
  by (auto simp: buildMatterLifecycleCommandExecution_def validateMatterLifecycleCommandExecution_def
      statusOnlyCommandConsequences_def blockedConsequences_def Let_def result_simps)

lemma valid_transition_record:
  "validateMatterLifecycleTransitionRecord r = Inr () \<longleftrightarrow>
     trim (mlt_id r) \<noteq> [] \<and> trim (mlt_firmId r) \<noteq> [] \<and> trim (mlt_matterId r) \<noteq> []
     \<and> mlt_targetStatus r = matterLifecycleTargetStatus (mlt_transition r)
     \<and> concise maxReasonLength (mlt_reason r) \<and> length (mlt_blockers r) \<le> maxBlockers
     \<and> list_all (concise maxBlockerLength) (mlt_blockers r)
     \<and> \<not> (mlt_readiness r = Readiness_blocked \<and> mlt_blockers r = [])
     \<and> date_parse (mlt_reviewedAt r) \<noteq> None \<and> date_parse (mlt_createdAt r) \<noteq> None"
  unfolding validateMatterLifecycleTransitionRecord_def Let_def run_checks_ok
  by (auto simp: for_each_ok list_all_iff not_less simp del: trim_eq_Nil)

lemma command_changes_status: "matterLifecycleTargetStatus c \<notin> set (matterLifecycleCommandRequiredStatuses c)"
  by (cases c) auto

lemma no_command_from_intake: "Matter_intake \<notin> set (matterLifecycleCommandRequiredStatuses c)"
  by (cases c) auto

end
