(* ===== verification/Booking.thy ===== *)
theory Booking
  imports Js_Date Canonical_Json
begin

section \<open>Appointment slots and review aging\<close>

text \<open>
  packages/domain/src/appointment-booking.ts and review-aging.ts, with the calendar records of
  models.ts. A \<open>Date\<close> is its time value in milliseconds. \<open>localParts\<close> reads the weekday and the
  minute of the day of an instant in a time zone through \<open>Intl.DateTimeFormat\<close>, whose zone data is
  not part of the program: it is a parameter. \<open>clock\<close> is the current time as an ISO string.
\<close>

subsection \<open>Data\<close>

datatype CalendarEventStatus = Event_confirmed | Event_tentative | Event_cancelled

datatype CalendarAttendeeRole = Attends_required | Attends_optional

datatype CalendarAttendeeResponseStatus = Response_needs_action | Response_accepted
    | Response_tentative | Response_declined

datatype CalendarInvitationStatus = Invitation_not_sent | Invitation_queued | Invitation_skipped

datatype CalendarMeetingLinkMode = Meeting_blank | Meeting_external_url | Meeting_hosted_webrtc

datatype CalendarEventReminderChannel = Channel_dashboard

datatype CalendarEventReminderStatus = Reminder_pending | Reminder_acknowledged | Reminder_dismissed
    | Reminder_cancelled

datatype CalendarMeetingBoundaryStatus = MeetingBoundary_disabled | MeetingBoundary_configured

datatype CalendarMeetingBoundaryReason = BoundaryReason_not_configured
    | BoundaryReason_smtp_not_configured | BoundaryReason_email_queue_not_configured
    | BoundaryReason_token_signing_not_configured

datatype CalendarEventScope = Calendar_matter | Calendar_firm | Calendar_client

record CalendarMeetingBoundaryCapability =
  cap_status :: CalendarMeetingBoundaryStatus
  cap_reason :: "CalendarMeetingBoundaryReason option"
  cap_provider :: "string option"

record CalendarMeetingInvitationBoundary =
  mbound_meetingLinks :: CalendarMeetingBoundaryCapability
  mbound_guestAccess :: CalendarMeetingBoundaryCapability
  mbound_invitationEmail :: CalendarMeetingBoundaryCapability

record CalendarEventAttendeeRecord =
  att_id :: string
  att_firmId :: string
  att_matterId :: string
  att_eventId :: string
  att_name :: string
  att_email :: string
  att_role :: CalendarAttendeeRole
  att_responseStatus :: CalendarAttendeeResponseStatus
  att_invitationStatus :: CalendarInvitationStatus
  att_invitedAt :: "string option"
  att_invitationEmailId :: "string option"
  att_invitationJobId :: "string option"
  att_createdAt :: string
  att_updatedAt :: string
  att_deletedAt :: "string option"
  att_createdByUserId :: string
  att_updatedByUserId :: string

record CalendarEventReminderRecord =
  crem_id :: string
  crem_firmId :: string
  crem_scope :: "CalendarEventScope option"
  crem_matterId :: "string option"
  crem_clientContactId :: "string option"
  crem_eventId :: string
  crem_remindAt :: string
  crem_channel :: CalendarEventReminderChannel
  crem_status :: CalendarEventReminderStatus
  crem_note :: "string option"
  crem_createdAt :: string
  crem_updatedAt :: string
  crem_deletedAt :: "string option"
  crem_createdByUserId :: string
  crem_updatedByUserId :: string

record CalendarEventRecord =
  cal_id :: string
  cal_firmId :: string
  cal_scope :: "CalendarEventScope option"
  cal_matterId :: "string option"
  cal_clientContactId :: "string option"
  cal_uid :: string
  cal_title :: string
  cal_startsAt :: string
  cal_endsAt :: string
  cal_description :: "string option"
  cal_location :: "string option"
  cal_status :: CalendarEventStatus
  cal_sequence :: int
  cal_meetingLinkMode :: "CalendarMeetingLinkMode option"
  cal_meetingLinkUrl :: "string option"
  cal_meetingRoomId :: "string option"
  cal_meetingProviderKey :: "string option"
  cal_createdAt :: string
  cal_updatedAt :: string
  cal_deletedAt :: "string option"
  cal_createdByUserId :: string
  cal_updatedByUserId :: string
  cal_attendees :: "(CalendarEventAttendeeRecord list) option"
  cal_reminders :: "(CalendarEventReminderRecord list) option"
  cal_meetingInvitationBoundary :: "CalendarMeetingInvitationBoundary option"

datatype ReviewAgingStatus = Aging_fresh | Aging_aging | Aging_stale

datatype ReviewAgingDecision = Decision_acknowledged | Decision_follow_up_required
    | Decision_defer_review

record ReviewAgingCue =
  cue_status :: ReviewAgingStatus
  cue_ageHours :: int
  cue_referenceAt :: string
  cue_agingAfterHours :: int
  cue_staleAfterHours :: int
  cue_automaticFinalConfirmation :: bool
  cue_autoExpires :: bool

record ReviewAgingDecisionRecord =
  rdec_decision :: ReviewAgingDecision
  rdec_decidedAt :: string
  rdec_decidedByUserId :: string
  rdec_cueStatus :: ReviewAgingStatus
  rdec_ageHours :: int
  rdec_automaticFinalConfirmation :: bool
  rdec_autoExpires :: bool
  rdec_providerSync :: bool
  rdec_publicRoomCreated :: bool
  rdec_nativeMediaCreated :: bool
  rdec_chatCreated :: bool
  rdec_recordingCreated :: bool
  rdec_matterCreated :: bool

datatype AppointmentBookingProfileStatus = Profile_active | Profile_paused

datatype AppointmentBookingRequestStatus = Booking_tentative_hold | Booking_confirmed
    | Booking_dismissed

datatype AppointmentBookingRequestSource = From_website | From_direct_link

datatype AppointmentBookingLinkStatus = Link_active | Link_used | Link_revoked | Link_expired

record AppointmentBookingWeeklyWindow =
  win_weekday :: int
  win_startTime :: string
  win_endTime :: string

record AppointmentBookingProfileRecord =
  bprof_id :: string
  bprof_firmId :: string
  bprof_label :: string
  bprof_publicLabel :: string
  bprof_description :: "string option"
  bprof_timezone :: string
  bprof_durationMinutes :: int
  bprof_slotIntervalMinutes :: int
  bprof_minLeadMinutes :: int
  bprof_maxLeadDays :: int
  bprof_status :: AppointmentBookingProfileStatus
  bprof_weeklyWindows :: "AppointmentBookingWeeklyWindow list"
  bprof_createdAt :: string
  bprof_updatedAt :: string
  bprof_createdByUserId :: string
  bprof_updatedByUserId :: string

record AppointmentBookingLinkRecord =
  blink_id :: string
  blink_firmId :: string
  blink_profileId :: string
  blink_tokenHash :: string
  blink_matterId :: "string option"
  blink_clientContactId :: "string option"
  blink_expiresAt :: string
  blink_usedAt :: "string option"
  blink_revokedAt :: "string option"
  blink_createdAt :: string
  blink_updatedAt :: string
  blink_createdByUserId :: string
  blink_updatedByUserId :: "string option"
  blink_metadata :: "(string \<times> js_value) list"

record AppointmentBookingRequestRecord =
  breq_id :: string
  breq_firmId :: string
  breq_profileId :: string
  breq_linkId :: "string option"
  breq_source :: AppointmentBookingRequestSource
  breq_status :: AppointmentBookingRequestStatus
  breq_calendarEventId :: string
  breq_publicConsultationIntakeId :: "string option"
  breq_matterId :: "string option"
  breq_clientContactId :: "string option"
  breq_requesterName :: string
  breq_requesterEmail :: "string option"
  breq_requesterTelephone :: "string option"
  breq_requestedStartsAt :: string
  breq_requestedEndsAt :: string
  breq_submittedAt :: string
  breq_reviewedAt :: "string option"
  breq_reviewedByUserId :: "string option"
  breq_dismissedReason :: "string option"
  breq_reviewAgingDecision :: "ReviewAgingDecision option"
  breq_reviewAgingDecidedAt :: "string option"
  breq_reviewAgingDecidedByUserId :: "string option"
  breq_reviewAgingCueStatus :: "ReviewAgingStatus option"
  breq_reviewAgingAgeHours :: "int option"
  breq_metadata :: "(string \<times> js_value) list"

record AppointmentBookingSlot =
  slot_startsAt :: string
  slot_endsAt :: string

record AppointmentBookingProfileSummary =
  bpsum_id :: string
  bpsum_label :: string
  bpsum_publicLabel :: string
  bpsum_description :: "string option"
  bpsum_timezone :: string
  bpsum_durationMinutes :: int
  bpsum_slotIntervalMinutes :: int
  bpsum_minLeadMinutes :: int
  bpsum_maxLeadDays :: int
  bpsum_status :: AppointmentBookingProfileStatus
  bpsum_weeklyWindows :: "AppointmentBookingWeeklyWindow list"
  bpsum_createdAt :: string
  bpsum_updatedAt :: string

record AppointmentBookingLinkSummary =
  blsum_id :: string
  blsum_profileId :: string
  blsum_status :: AppointmentBookingLinkStatus
  blsum_matterId :: "string option"
  blsum_clientContactId :: "string option"
  blsum_expiresAt :: string
  blsum_usedAt :: "string option"
  blsum_revokedAt :: "string option"
  blsum_createdAt :: string

record ReviewBoundary =
  bound_confirmationCreatesMatter :: bool
  bound_confirmationSyncsProvider :: bool
  bound_confirmationCreatesMeetingRoom :: bool
  bound_dismissalDeletesEvidence :: bool

record AppointmentBookingRequestSummary =
  brsum_id :: string
  brsum_profileId :: string
  brsum_profileLabel :: "string option"
  brsum_linkId :: "string option"
  brsum_source :: AppointmentBookingRequestSource
  brsum_status :: AppointmentBookingRequestStatus
  brsum_calendarEventId :: string
  brsum_matterId :: "string option"
  brsum_clientContactId :: "string option"
  brsum_publicConsultationIntakeId :: "string option"
  brsum_requesterName :: string
  brsum_requesterEmailPresent :: bool
  brsum_requesterTelephonePresent :: bool
  brsum_requestedStartsAt :: string
  brsum_requestedEndsAt :: string
  brsum_submittedAt :: string
  brsum_reviewAging :: "ReviewAgingCue option"
  brsum_reviewAgingDecision :: "ReviewAgingDecisionRecord option"
  brsum_reviewedAt :: "string option"
  brsum_reviewedByUserId :: "string option"
  brsum_dismissedReason :: "string option"
  brsum_reviewBoundary :: ReviewBoundary

record PublicAppointmentBookingProfile =
  pubprof_id :: string
  pubprof_publicLabel :: string
  pubprof_description :: "string option"
  pubprof_timezone :: string
  pubprof_durationMinutes :: int

subsection \<open>Review aging\<close>

definition isReviewAgingDecisionCueStatus :: "ReviewAgingStatus option \<Rightarrow> bool" where
  "isReviewAgingDecisionCueStatus v = (v = Some Aging_aging \<or> v = Some Aging_stale)"

definition reviewAgeHours :: "int option \<Rightarrow> int option \<Rightarrow> int" where
  "reviewAgeHours referenceTime nowTime =
     (case (referenceTime, nowTime) of
        (Some reference, Some now) \<Rightarrow> max 0 ((now - reference) div (60 * 60 * 1000))
      | _ \<Rightarrow> 0)"

definition buildReviewAgingCue :: "string \<Rightarrow> string \<Rightarrow> string option \<Rightarrow> ReviewAgingCue" where
  "buildReviewAgingCue clock referenceAt now =
     (let ageHours = reviewAgeHours (date_parse referenceAt) (date_parse (or_else now clock))
      in \<lparr>cue_status = (if ageHours \<ge> 72 then Aging_stale else if ageHours \<ge> 24 then Aging_aging else Aging_fresh),
          cue_ageHours = ageHours, cue_referenceAt = referenceAt, cue_agingAfterHours = 24, cue_staleAfterHours = 72,
          cue_automaticFinalConfirmation = False, cue_autoExpires = False\<rparr>)"

definition buildReviewAgingDecisionRecord ::
  "ReviewAgingDecision option \<Rightarrow> string option \<Rightarrow> string option \<Rightarrow> ReviewAgingStatus option \<Rightarrow> int option
   \<Rightarrow> ReviewAgingDecisionRecord option" where
  "buildReviewAgingDecisionRecord decision decidedAt decidedByUserId cueStatus ageHours =
     (case (decision, cueStatus, ageHours) of
        (Some d, Some c, Some hours) \<Rightarrow>
          (if \<not> truthy decidedAt \<or> \<not> truthy decidedByUserId \<or> \<not> isReviewAgingDecisionCueStatus cueStatus then None
           else Some \<lparr>rdec_decision = d, rdec_decidedAt = or_else decidedAt [], rdec_decidedByUserId = or_else decidedByUserId [],
             rdec_cueStatus = c, rdec_ageHours = max 0 hours, rdec_automaticFinalConfirmation = False, rdec_autoExpires = False,
             rdec_providerSync = False, rdec_publicRoomCreated = False, rdec_nativeMediaCreated = False,
             rdec_chatCreated = False, rdec_recordingCreated = False, rdec_matterCreated = False\<rparr>)
      | _ \<Rightarrow> None)"

subsection \<open>Slots\<close>

definition parseTimeMinutes :: "string \<Rightarrow> int option" where
  "parseTimeMinutes text =
     (if length text = 5 \<and> text ! 2 = CHR '':'' \<and> is_digit (text ! 0) \<and> is_digit (text ! 1) \<and> is_digit (text ! 3) \<and> is_digit (text ! 4)
      then let hours = int (digits_value (take 2 text)); minutes = int (digits_value (drop 3 text))
           in if hours < 0 \<or> hours > 23 \<or> minutes < 0 \<or> minutes > 59 then None else Some (hours * 60 + minutes)
      else None)"

definition roundUpToInterval :: "int \<Rightarrow> int \<Rightarrow> int" where
  "roundUpToInterval date intervalMinutes =
     (let intervalMs = intervalMinutes * 60 * 1000 in - ((- date) div intervalMs) * intervalMs)"

definition overlaps :: "AppointmentBookingSlot \<Rightarrow> CalendarEventRecord \<Rightarrow> bool" where
  "overlaps left right =
     (js_less (date_parse (slot_startsAt left)) (date_parse (cal_endsAt right))
      \<and> js_less (date_parse (cal_startsAt right)) (date_parse (slot_endsAt left)))"

definition windowFits :: "int \<Rightarrow> int \<Rightarrow> int \<Rightarrow> AppointmentBookingWeeklyWindow \<Rightarrow> bool" where
  "windowFits weekday minutes durationMinutes window =
     (win_weekday window = weekday
      \<and> (case (parseTimeMinutes (win_startTime window), parseTimeMinutes (win_endTime window)) of
           (Some windowStart, Some windowEnd) \<Rightarrow> minutes \<ge> windowStart \<and> minutes + durationMinutes \<le> windowEnd
         | _ \<Rightarrow> False))"

definition slotFitsWindow :: "(int \<Rightarrow> string \<Rightarrow> int \<times> int) \<Rightarrow> int \<Rightarrow> AppointmentBookingProfileRecord \<Rightarrow> bool" where
  "slotFitsWindow localParts startsAt profile =
     (case localParts startsAt (bprof_timezone profile) of
        (weekday, minutes) \<Rightarrow> list_ex (windowFits weekday minutes (bprof_durationMinutes profile)) (bprof_weeklyWindows profile))"

definition durationMs :: "AppointmentBookingProfileRecord \<Rightarrow> int" where
  "durationMs profile = bprof_durationMinutes profile * 60 * 1000"

definition intervalMs :: "AppointmentBookingProfileRecord \<Rightarrow> int" where
  "intervalMs profile = max 1 (bprof_slotIntervalMinutes profile) * 60 * 1000"

definition slotAt :: "AppointmentBookingProfileRecord \<Rightarrow> int \<Rightarrow> AppointmentBookingSlot" where
  "slotAt profile cursor =
     \<lparr>slot_startsAt = to_iso_string cursor, slot_endsAt = to_iso_string (cursor + durationMs profile)\<rparr>"

lemma intervalMs_pos: "0 < intervalMs profile"
  by (simp add: intervalMs_def)

function slotLoop ::
  "(int \<Rightarrow> string \<Rightarrow> int \<times> int) \<Rightarrow> AppointmentBookingProfileRecord \<Rightarrow> CalendarEventRecord list \<Rightarrow> int \<Rightarrow> int \<Rightarrow> int
   \<Rightarrow> AppointmentBookingSlot list \<Rightarrow> AppointmentBookingSlot list" where
  "slotLoop localParts profile busyEvents rangeEnd limit cursor slots =
     (if cursor + durationMs profile \<le> rangeEnd \<and> int (length slots) < limit
      then let slot = slotAt profile cursor in
        slotLoop localParts profile busyEvents rangeEnd limit (cursor + intervalMs profile)
          (if slotFitsWindow localParts cursor profile \<and> \<not> list_ex (overlaps slot) busyEvents then slots @ [slot] else slots)
      else slots)"
  by pat_completeness auto

termination slotLoop
proof (relation "measure (\<lambda>(localParts, profile, busyEvents, rangeEnd, limit, cursor, slots).
    nat (rangeEnd - durationMs profile - cursor + 1))")
qed (auto simp: nat_less_eq_zless intervalMs_pos int_one_le_iff_zero_less)

declare slotLoop.simps [simp del]

definition buildAppointmentBookingSlots ::
  "(int \<Rightarrow> string \<Rightarrow> int \<times> int) \<Rightarrow> string \<Rightarrow> AppointmentBookingProfileRecord \<Rightarrow> CalendarEventRecord list
   \<Rightarrow> string \<Rightarrow> string \<Rightarrow> string option \<Rightarrow> int option \<Rightarrow> AppointmentBookingSlot list" where
  "buildAppointmentBookingSlots localParts clock profile events rangeStartText rangeEndText nowText limit =
     (if bprof_status profile \<noteq> Profile_active then []
      else case (date_parse (or_else nowText clock), date_parse rangeStartText, date_parse rangeEndText) of
        (Some now, Some a, Some b) \<Rightarrow>
          let minStart = now + bprof_minLeadMinutes profile * 60 * 1000;
              maxStart = now + bprof_maxLeadDays profile * 24 * 60 * 60 * 1000;
              rangeStart = max a minStart; rangeEnd = min b maxStart
          in if rangeStart \<ge> rangeEnd then []
             else slotLoop localParts profile (filter (\<lambda>event. cal_status event \<noteq> Event_cancelled) events) rangeEnd
               (or_else limit 80) (roundUpToInterval rangeStart (max 1 (bprof_slotIntervalMinutes profile))) []
      | _ \<Rightarrow> [])"

subsection \<open>Summaries\<close>

definition summarizeAppointmentBookingProfile :: "AppointmentBookingProfileRecord \<Rightarrow> AppointmentBookingProfileSummary" where
  "summarizeAppointmentBookingProfile profile =
     \<lparr>bpsum_id = bprof_id profile, bpsum_label = bprof_label profile, bpsum_publicLabel = bprof_publicLabel profile,
      bpsum_description = bprof_description profile, bpsum_timezone = bprof_timezone profile,
      bpsum_durationMinutes = bprof_durationMinutes profile, bpsum_slotIntervalMinutes = bprof_slotIntervalMinutes profile,
      bpsum_minLeadMinutes = bprof_minLeadMinutes profile, bpsum_maxLeadDays = bprof_maxLeadDays profile,
      bpsum_status = bprof_status profile, bpsum_weeklyWindows = bprof_weeklyWindows profile,
      bpsum_createdAt = bprof_createdAt profile, bpsum_updatedAt = bprof_updatedAt profile\<rparr>"

definition publicAppointmentBookingProfile :: "AppointmentBookingProfileRecord \<Rightarrow> PublicAppointmentBookingProfile" where
  "publicAppointmentBookingProfile profile =
     \<lparr>pubprof_id = bprof_id profile, pubprof_publicLabel = bprof_publicLabel profile,
      pubprof_description = bprof_description profile, pubprof_timezone = bprof_timezone profile,
      pubprof_durationMinutes = bprof_durationMinutes profile\<rparr>"

definition appointmentBookingLinkStatus :: "AppointmentBookingLinkRecord \<Rightarrow> string \<Rightarrow> AppointmentBookingLinkStatus" where
  "appointmentBookingLinkStatus link now =
     (if truthy (blink_revokedAt link) then Link_revoked
      else if truthy (blink_usedAt link) then Link_used
      else if js_le (date_parse (blink_expiresAt link)) (date_parse now) then Link_expired
      else Link_active)"

definition summarizeAppointmentBookingLink ::
  "string \<Rightarrow> AppointmentBookingLinkRecord \<Rightarrow> string option \<Rightarrow> AppointmentBookingLinkSummary" where
  "summarizeAppointmentBookingLink clock link now =
     \<lparr>blsum_id = blink_id link, blsum_profileId = blink_profileId link,
      blsum_status = appointmentBookingLinkStatus link (or_else now clock), blsum_matterId = blink_matterId link,
      blsum_clientContactId = blink_clientContactId link, blsum_expiresAt = blink_expiresAt link,
      blsum_usedAt = blink_usedAt link, blsum_revokedAt = blink_revokedAt link, blsum_createdAt = blink_createdAt link\<rparr>"

definition REVIEW_BOUNDARY :: ReviewBoundary where
  "REVIEW_BOUNDARY = \<lparr>bound_confirmationCreatesMatter = False, bound_confirmationSyncsProvider = False,
     bound_confirmationCreatesMeetingRoom = False, bound_dismissalDeletesEvidence = False\<rparr>"

definition summarizeAppointmentBookingRequest ::
  "string \<Rightarrow> AppointmentBookingRequestRecord \<Rightarrow> AppointmentBookingProfileRecord option \<Rightarrow> string option
   \<Rightarrow> AppointmentBookingRequestSummary" where
  "summarizeAppointmentBookingRequest clock request profile now =
     (let held = (breq_status request = Booking_tentative_hold) in
      \<lparr>brsum_id = breq_id request, brsum_profileId = breq_profileId request, brsum_profileLabel = map_option bprof_label profile,
       brsum_linkId = breq_linkId request, brsum_source = breq_source request, brsum_status = breq_status request,
       brsum_calendarEventId = breq_calendarEventId request, brsum_matterId = breq_matterId request,
       brsum_clientContactId = breq_clientContactId request,
       brsum_publicConsultationIntakeId = breq_publicConsultationIntakeId request,
       brsum_requesterName = breq_requesterName request, brsum_requesterEmailPresent = truthy (breq_requesterEmail request),
       brsum_requesterTelephonePresent = truthy (breq_requesterTelephone request),
       brsum_requestedStartsAt = breq_requestedStartsAt request, brsum_requestedEndsAt = breq_requestedEndsAt request,
       brsum_submittedAt = breq_submittedAt request,
       brsum_reviewAging = (if held then Some (buildReviewAgingCue clock (breq_submittedAt request) now) else None),
       brsum_reviewAgingDecision = (if held then buildReviewAgingDecisionRecord (breq_reviewAgingDecision request)
           (breq_reviewAgingDecidedAt request) (breq_reviewAgingDecidedByUserId request) (breq_reviewAgingCueStatus request)
           (breq_reviewAgingAgeHours request) else None),
       brsum_reviewedAt = breq_reviewedAt request, brsum_reviewedByUserId = breq_reviewedByUserId request,
       brsum_dismissedReason = breq_dismissedReason request, brsum_reviewBoundary = REVIEW_BOUNDARY\<rparr>)"

subsection \<open>The loop computes the first feasible times of a grid\<close>

definition grid :: "int \<Rightarrow> int \<Rightarrow> int \<Rightarrow> int list" where
  "grid step final start = map (\<lambda>k. start + int k * step) [0..<nat ((final - start) div step + 1)]"

definition feasible ::
  "(int \<Rightarrow> string \<Rightarrow> int \<times> int) \<Rightarrow> AppointmentBookingProfileRecord \<Rightarrow> CalendarEventRecord list \<Rightarrow> int \<Rightarrow> bool" where
  "feasible localParts profile events t =
     (slotFitsWindow localParts t profile
      \<and> \<not> list_ex (\<lambda>e. cal_status e \<noteq> Event_cancelled \<and> overlaps (slotAt profile t) e) events)"

lemma grid_rec:
  assumes "0 < step"
  shows "grid step final start = (if start \<le> final then start # grid step final (start + step) else [])"
proof (cases "start \<le> final")
  case True
  define n where "n = nat ((final - start) div step)"
  have "(final - (start + step)) div step = (final - start) div step - 1"
    using assms div_add_self2 [of step "final - start - step"] by (simp add: algebra_simps)
  moreover have "0 \<le> (final - start) div step" using True assms by (simp add: pos_imp_zdiv_nonneg_iff)
  ultimately have "nat ((final - start) div step + 1) = Suc n" "nat ((final - (start + step)) div step + 1) = n"
    by (simp_all add: n_def nat_add_distrib)
  moreover have "map (\<lambda>k. start + int k * step) [0..<Suc n] = start # map (\<lambda>k. start + step + int k * step) [0..<n]"
    by (simp add: upt_conv_Cons map_Suc_upt [symmetric] algebra_simps del: upt_Suc)
  ultimately show ?thesis using True by (simp add: grid_def)
next
  case False
  then have "(final - start) div step < 0" using assms by (simp add: div_neg_pos_less0)
  then show ?thesis using False by (simp add: grid_def)
qed

lemma slotLoop_eq:
  "slotLoop localParts profile (filter (\<lambda>e. cal_status e \<noteq> Event_cancelled) events) rangeEnd limit cursor slots =
     slots @ take (nat (limit - int (length slots)))
       (map (slotAt profile) (filter (feasible localParts profile events) (grid (intervalMs profile) (rangeEnd - durationMs profile) cursor)))"
proof (induction "nat (rangeEnd - durationMs profile - cursor + 1)" arbitrary: cursor slots rule: less_induct)
  case less
  let ?g = "grid (intervalMs profile) (rangeEnd - durationMs profile)"
  show ?case
  proof (cases "cursor + durationMs profile \<le> rangeEnd \<and> int (length slots) < limit")
    case True
    then have g: "?g cursor = cursor # ?g (cursor + intervalMs profile)" using grid_rec [OF intervalMs_pos, of profile] by simp
    have n: "nat (limit - int (length slots)) = Suc (nat (limit - (1 + int (length slots))))"
      using True by (subst Suc_nat_eq_nat_zadd1) auto
    have busy: "feasible localParts profile events cursor \<longleftrightarrow> slotFitsWindow localParts cursor profile
        \<and> \<not> list_ex (overlaps (slotAt profile cursor)) (filter (\<lambda>e. cal_status e \<noteq> Event_cancelled) events)"
      by (auto simp: feasible_def list_ex_iff)
    have "nat (rangeEnd - durationMs profile - (cursor + intervalMs profile) + 1) < nat (rangeEnd - durationMs profile - cursor + 1)"
      using True intervalMs_pos [of profile] by simp
    note IH = less [OF this]
    have unfold: "slotLoop localParts profile (filter (\<lambda>e. cal_status e \<noteq> Event_cancelled) events) rangeEnd limit cursor slots =
        slotLoop localParts profile (filter (\<lambda>e. cal_status e \<noteq> Event_cancelled) events) rangeEnd limit (cursor + intervalMs profile)
          (if feasible localParts profile events cursor then slots @ [slotAt profile cursor] else slots)"
      using True by (subst slotLoop.simps) (simp add: Let_def busy)
    show ?thesis
    proof (cases "feasible localParts profile events cursor")
      case True
      then show ?thesis unfolding unfold IH g n using True by simp
    next
      case False
      then show ?thesis unfolding unfold IH g by simp
    qed
  next
    case False
    then have "slotLoop localParts profile (filter (\<lambda>e. cal_status e \<noteq> Event_cancelled) events) rangeEnd limit cursor slots = slots"
      by (subst slotLoop.simps) (simp only: if_False)
    moreover have "?g cursor = [] \<or> nat (limit - int (length slots)) = 0"
      using False by (subst grid_rec [OF intervalMs_pos]) auto
    ultimately show ?thesis by auto
  qed
qed

lemma roundUpToInterval_bounds:
  assumes "0 < n"
  shows "t \<le> roundUpToInterval t n" "roundUpToInterval t n < t + n * 60 * 1000" "n * 60 * 1000 dvd roundUpToInterval t n"
proof -
  let ?m = "n * 60 * 1000"
  have "0 < ?m" using assms by simp
  from div_bounds [OF this, of "- t"] show "t \<le> roundUpToInterval t n" "roundUpToInterval t n < t + ?m"
    by (simp_all add: roundUpToInterval_def Let_def algebra_simps)
  show "?m dvd roundUpToInterval t n" by (simp add: roundUpToInterval_def Let_def)
qed

text \<open>
  C23. The search for appointment slots ends and returns exactly the first \<open>limit\<close> bookable times of the
  time grid: for an active profile and valid dates with a non-empty range, the slots are those of the
  grid times from the first full interval at or after the start of the range up to the last one that
  ends in it, in order, that fit an opening window and meet no event that is not cancelled.
\<close>

theorem booking_slots_exact:
  assumes "bprof_status profile = Profile_active" and "date_parse now = Some n"
    and "date_parse rangeStartText = Some a" and "date_parse rangeEndText = Some b"
    and "rangeStart = max a (n + bprof_minLeadMinutes profile * 60 * 1000)"
    and "rangeEnd = min b (n + bprof_maxLeadDays profile * 24 * 60 * 60 * 1000)" and "rangeStart < rangeEnd"
  shows "buildAppointmentBookingSlots localParts clock profile events rangeStartText rangeEndText (Some now) (Some limit) =
    take (nat limit) (map (slotAt profile) (filter (feasible localParts profile events)
      (grid (intervalMs profile) (rangeEnd - durationMs profile)
        (roundUpToInterval rangeStart (max 1 (bprof_slotIntervalMinutes profile))))))"
  using assms by (auto simp: buildAppointmentBookingSlots_def slotLoop_eq Let_def min_le_iff_disj le_max_iff_disj)

lemma grid_mem:
  assumes "t \<in> set (grid step final start)" "0 < step"
  shows "start \<le> t" "t \<le> final" "step dvd t - start"
proof -
  have "t \<in> (\<lambda>k. start + int k * step) ` {0..<nat ((final - start) div step + 1)}" using assms(1) by (simp add: grid_def)
  then obtain k where k: "t = start + int k * step" "k < nat ((final - start) div step + 1)"
    by (rule imageE) (simp only: atLeastLessThan_iff)
  show "start \<le> t" "step dvd t - start" using k(1) assms(2) by simp_all
  have "int k \<le> (final - start) div step" using k(2) by linarith
  then have "int k * step \<le> (final - start) div step * step" using assms(2) by (simp add: mult_right_mono)
  also have "\<dots> \<le> final - start" using div_bounds(1) [OF assms(2), of "final - start"] by (simp add: mult.commute)
  finally show "t \<le> final" using k(1) by simp
qed

text \<open>
  Every offered slot can be booked: it starts at a time that reads back from its text, not before
  the range and the minimum lead, lies on the interval grid, ends its duration later and inside the
  range and the maximum lead, fits an opening window in local time, and shares no instant with an
  event that is not cancelled; no more slots than the limit are offered.
\<close>

theorem offered_slots_are_bookable:
  assumes "slot \<in> set (buildAppointmentBookingSlots localParts clock profile events rangeStartText rangeEndText (Some now) limit)"
    and "date_parse now = Some n" and "date_parse rangeStartText = Some a" and "date_parse rangeEndText = Some b"
    and "iso_range a" and "iso_range b" and "0 \<le> bprof_durationMinutes profile"
  shows "\<exists>t u. date_parse (slot_startsAt slot) = Some t \<and> date_parse (slot_endsAt slot) = Some u
    \<and> u = t + bprof_durationMinutes profile * 60000 \<and> a \<le> t \<and> n + bprof_minLeadMinutes profile * 60000 \<le> t
    \<and> u \<le> b \<and> u \<le> n + bprof_maxLeadDays profile * 86400000 \<and> intervalMs profile dvd t
    \<and> slotFitsWindow localParts t profile
    \<and> (\<forall>e \<in> set events. \<forall>x y. cal_status e \<noteq> Event_cancelled \<and> date_parse (cal_startsAt e) = Some x
        \<and> date_parse (cal_endsAt e) = Some y \<longrightarrow> u \<le> x \<or> y \<le> t)"
proof -
  define lo where "lo = max a (n + bprof_minLeadMinutes profile * 60 * 1000)"
  define hi where "hi = min b (n + bprof_maxLeadDays profile * 24 * 60 * 60 * 1000)"
  let ?g = "grid (intervalMs profile) (hi - durationMs profile) (roundUpToInterval lo (max 1 (bprof_slotIntervalMinutes profile)))"
  have "slot \<in> set (take (nat (or_else limit 80)) (map (slotAt profile) (filter (feasible localParts profile events) ?g)))"
    using assms(1-4) by (simp add: buildAppointmentBookingSlots_def slotLoop_eq Let_def lo_def hi_def split: if_splits)
  then obtain t where t: "slot = slotAt profile t" "feasible localParts profile events t" "t \<in> set ?g"
    by (auto dest!: in_set_takeD)
  have step: "intervalMs profile = max 1 (bprof_slotIntervalMinutes profile) * 60 * 1000" by (simp add: intervalMs_def)
  note g = grid_mem [OF t(3) intervalMs_pos]
  have pos: "0 < max 1 (bprof_slotIntervalMinutes profile)" by simp
  note r = roundUpToInterval_bounds [OF pos, of lo, folded step]
  have lo: "lo \<le> t" and hi: "t + durationMs profile \<le> hi" and dur: "0 \<le> durationMs profile"
    using g(1,2) r(1) assms(7) by (simp_all add: durationMs_def)
  have grid: "intervalMs profile dvd t" using dvd_add [OF g(3) r(3)] by simp
  have "iso_range t" "iso_range (t + durationMs profile)"
    using assms(5,6) lo hi dur by (auto simp: iso_range_def lo_def hi_def)
  then have parsed: "date_parse (slot_startsAt slot) = Some t" "date_parse (slot_endsAt slot) = Some (t + durationMs profile)"
    using t(1) by (simp_all add: slotAt_def date_parse_to_iso_string)
  have free: "t + durationMs profile \<le> x \<or> y \<le> t"
    if "e \<in> set events" "cal_status e \<noteq> Event_cancelled" "date_parse (cal_startsAt e) = Some x" "date_parse (cal_endsAt e) = Some y" for e x y
    using t(1,2) that parsed by (auto simp: feasible_def list_ex_iff overlaps_def not_less)
  show ?thesis
    using parsed free lo hi grid t(2) unfolding lo_def hi_def feasible_def
    by (intro exI [of _ t] exI [of _ "t + durationMs profile"]) (auto simp: durationMs_def)
qed

subsection \<open>A worked search\<close>

definition ex_profile :: AppointmentBookingProfileRecord where
  "ex_profile = \<lparr>bprof_id = ''p'', bprof_firmId = ''f'', bprof_label = ''Intake'', bprof_publicLabel = ''Intake'',
     bprof_description = None, bprof_timezone = ''UTC'', bprof_durationMinutes = 60, bprof_slotIntervalMinutes = 60,
     bprof_minLeadMinutes = 0, bprof_maxLeadDays = 30, bprof_status = Profile_active,
     bprof_weeklyWindows = [\<lparr>win_weekday = 4, win_startTime = ''09:00'', win_endTime = ''12:00''\<rparr>],
     bprof_createdAt = ''2026-01-01'', bprof_updatedAt = ''2026-01-01'', bprof_createdByUserId = ''u'', bprof_updatedByUserId = ''u''\<rparr>"

definition ex_zone :: "int \<Rightarrow> string \<Rightarrow> int \<times> int" where
  "ex_zone t zone = ((t div 86400000 + 4) mod 7, t mod 86400000 div 60000)"

lemma ex_times: "date_parse ''2026-01-01'' = Some 1767225600000" "date_parse ''2026-01-02'' = Some 1767312000000"
  by code_simp+

lemma ex_grid: "grid 3600000 1767308400000 1767225600000 = map (\<lambda>k. 1767225600000 + int k * 3600000) [0..<24]"
  by (simp add: grid_def)

lemma ex_window: "parseTimeMinutes ''09:00'' = Some 540" "parseTimeMinutes ''12:00'' = Some 720"
  by code_simp+

lemma ex_profile_fields:
  "bprof_status ex_profile = Profile_active" "bprof_minLeadMinutes ex_profile = 0" "bprof_maxLeadDays ex_profile = 30"
  "bprof_slotIntervalMinutes ex_profile = 60" "intervalMs ex_profile = 3600000" "durationMs ex_profile = 3600000"
  "roundUpToInterval 1767225600000 60 = 1767225600000"
  by (simp_all add: ex_profile_def intervalMs_def durationMs_def roundUpToInterval_def)

lemma ex_feasible: "filter (feasible ex_zone ex_profile []) (map (\<lambda>k. 1767225600000 + int k * 3600000) [0..<24]) =
    [1767225600000 + 9 * 3600000, 1767225600000 + 10 * 3600000, 1767225600000 + 11 * 3600000]"
  by (simp add: feasible_def slotFitsWindow_def ex_zone_def ex_profile_def windowFits_def ex_window upt_rec)

theorem booking_slots_exact_witness:
  "buildAppointmentBookingSlots ex_zone ''2026-01-01'' ex_profile [] ''2026-01-01'' ''2026-01-02'' (Some ''2026-01-01'') (Some 2) =
   map (slotAt ex_profile) [1767225600000 + 9 * 3600000, 1767225600000 + 10 * 3600000]"
  using booking_slots_exact [of ex_profile "''2026-01-01''" 1767225600000 "''2026-01-01''" 1767225600000 "''2026-01-02''" 1767312000000
      1767225600000 1767312000000 ex_zone "''2026-01-01''" "[]" 2] ex_feasible
  by (simp add: ex_profile_fields ex_times ex_grid)

theorem offered_slots_are_bookable_witness:
  "\<exists>t. date_parse (slot_startsAt (slotAt ex_profile 1767258000000)) = Some t \<and> slotFitsWindow ex_zone t ex_profile"
proof -
  let ?slots = "buildAppointmentBookingSlots ex_zone ''2026-01-01'' ex_profile [] ''2026-01-01'' ''2026-01-02'' (Some ''2026-01-01'') None"
  have "slotAt ex_profile 1767258000000 \<in> set ?slots"
    using ex_feasible by (simp add: buildAppointmentBookingSlots_def slotLoop_eq [where events = "[]", simplified]
        ex_profile_fields ex_times ex_grid)
  moreover have "iso_range 1767225600000" "iso_range 1767312000000" "0 \<le> bprof_durationMinutes ex_profile"
    by (simp_all add: iso_range_def day_from_year_def ms_per_day_def ex_profile_def)
  ultimately show ?thesis
    using offered_slots_are_bookable [OF _ ex_times(1) ex_times(1) ex_times(2)] by blast
qed

end
