(* ===== verification/Calendar_Store.thy ===== *)
theory Calendar_Store
  imports Booking
begin

section \<open>The calendar store\<close>

text \<open>
  packages/database/src/repository/calendar-events/memory.ts, every call, with the two status machines
  of packages/domain/src/calendar.ts it uses. A call that throws returns its error and the store it
  leaves. \<open>collate\<close> is \<open>String.prototype.localeCompare\<close>. Objects found in the store and changed in
  place are written as an update of the first element the search finds.

  Proved: the ids of events stay unique, no two active events of one calendar share a uid, sessions
  and guest links point at stored events and sessions, token hashes stay unique, and what a guest
  link's status says about its past.
\<close>

subsection \<open>Data\<close>

datatype CalendarMeetingSessionStatus = Session_lobby_closed | Session_lobby_open | Session_locked
    | Session_ended

datatype CalendarGuestLinkStatus = Guest_issued | Guest_waiting | Guest_admitted | Guest_denied
    | Guest_revoked

datatype CalendarSchedulingRequestKind = Scheduling_deadline_review | Scheduling_event_scheduling
    | Scheduling_reminder_review

datatype CalendarSchedulingRequestStatus = Request_needs_review | Request_reviewed
    | Request_scheduled | Request_dismissed

datatype CalendarSchedulingRequestSourceType = Source_task_deadline | Source_calendar_event
    | Source_calendar_reminder | Source_manual

datatype CalendarSchedulingRequestReminderPosture = Posture_none | Posture_dashboard_pending
    | Posture_delivery_opt_in_available

datatype CalendarSchedulingRequestPrivacy = Privacy_staff_only | Privacy_matter_team

datatype CalendarSchedulingRequestTimeCapturePosture = Capture_none | Capture_draft_available
    | Capture_captured

record CalendarSchedulingRequestTimeCaptureCue =
  tcap_posture :: CalendarSchedulingRequestTimeCapturePosture
  tcap_suggestedMinutes :: "int option"
  tcap_existingTimeEntryCount :: int
  tcap_billable :: bool

record CalendarSchedulingRequestRecord =
  sched_id :: string
  sched_firmId :: string
  sched_matterId :: string
  sched_kind :: CalendarSchedulingRequestKind
  sched_status :: CalendarSchedulingRequestStatus
  sched_title :: string
  sched_taskId :: "string option"
  sched_calendarEventId :: "string option"
  sched_calendarReminderId :: "string option"
  sched_ownerUserId :: "string option"
  sched_sourceType :: CalendarSchedulingRequestSourceType
  sched_sourceId :: "string option"
  sched_sourceLabel :: string
  sched_requestedDueAt :: "string option"
  sched_requestedStartsAt :: "string option"
  sched_requestedEndsAt :: "string option"
  sched_reminderPosture :: CalendarSchedulingRequestReminderPosture
  sched_privacy :: CalendarSchedulingRequestPrivacy
  sched_timeCaptureCue :: CalendarSchedulingRequestTimeCaptureCue
  sched_createdAt :: string
  sched_updatedAt :: string
  sched_createdByUserId :: string
  sched_updatedByUserId :: string
  sched_reviewedAt :: "string option"
  sched_reviewedByUserId :: "string option"
  sched_reviewAgingDecision :: "ReviewAgingDecision option"
  sched_reviewAgingDecidedAt :: "string option"
  sched_reviewAgingDecidedByUserId :: "string option"
  sched_reviewAgingCueStatus :: "ReviewAgingStatus option"
  sched_reviewAgingAgeHours :: "int option"

record CalendarMeetingSessionRecord =
  sess_id :: string
  sess_firmId :: string
  sess_matterId :: string
  sess_eventId :: string
  sess_status :: CalendarMeetingSessionStatus
  sess_retentionUntil :: "string option"
  sess_createdAt :: string
  sess_updatedAt :: string
  sess_endedAt :: "string option"
  sess_createdByUserId :: string
  sess_updatedByUserId :: string
  sess_metadata :: "(string \<times> js_value) list"

record CalendarGuestLinkRecord =
  guest_id :: string
  guest_firmId :: string
  guest_matterId :: string
  guest_eventId :: string
  guest_sessionId :: string
  guest_tokenHash :: string
  guest_status :: CalendarGuestLinkStatus
  guest_expiresAt :: string
  guest_retentionUntil :: "string option"
  guest_checkedInAt :: "string option"
  guest_revokedAt :: "string option"
  guest_admittedAt :: "string option"
  guest_deniedAt :: "string option"
  guest_createdAt :: string
  guest_updatedAt :: string
  guest_createdByUserId :: string
  guest_updatedByUserId :: "string option"
  guest_metadata :: "(string \<times> js_value) list"

record CalendarEventListOptions =
  evopt_matterId :: "string option"
  evopt_scopes :: "(CalendarEventScope list) option"
  evopt_clientContactIds :: "(string list) option"
  evopt_startsAfter :: "string option"
  evopt_startsBefore :: "string option"
  evopt_includeAllScopes :: bool

record CalendarEventAttendeeDeleteInput =
  adel_firmId :: string
  adel_matterId :: string
  adel_eventId :: string
  adel_attendeeId :: string
  adel_deletedAt :: string
  adel_updatedByUserId :: string

record CalendarEventAttendeeReplaceInput =
  arep_firmId :: string
  arep_matterId :: string
  arep_eventId :: string
  arep_attendees :: "CalendarEventAttendeeRecord list"
  arep_replacedAt :: string
  arep_updatedByUserId :: string

record CalendarSchedulingRequestListOptions =
  schedopt_matterId :: "string option"
  schedopt_status :: "CalendarSchedulingRequestStatus option"
  schedopt_ownerUserId :: "string option"

record CalendarSchedulingRequestUpdateInput =
  schedup_firmId :: string
  schedup_matterId :: string
  schedup_requestId :: string
  schedup_status :: CalendarSchedulingRequestStatus
  schedup_reviewedAt :: string
  schedup_reviewedByUserId :: string
  schedup_calendarEventId :: "(string option) option"

record CalendarSchedulingRequestAgingReviewInput =
  schedage_firmId :: string
  schedage_matterId :: string
  schedage_requestId :: string
  schedage_decision :: ReviewAgingDecision
  schedage_decidedAt :: string
  schedage_decidedByUserId :: string
  schedage_cueStatus :: ReviewAgingStatus
  schedage_ageHours :: int

record CalendarEventReminderDeleteInput =
  rdel_firmId :: string
  rdel_scope :: "CalendarEventScope option"
  rdel_matterId :: "string option"
  rdel_clientContactId :: "string option"
  rdel_eventId :: string
  rdel_reminderId :: string
  rdel_deletedAt :: string
  rdel_updatedByUserId :: string

record CalendarEventDeleteInput =
  edel_firmId :: string
  edel_matterId :: "string option"
  edel_eventId :: string
  edel_deletedAt :: string
  edel_updatedByUserId :: string

record CalendarMeetingSessionListOptions =
  sessopt_matterId :: "string option"
  sessopt_eventId :: "string option"
  sessopt_status :: "CalendarMeetingSessionStatus option"

record CalendarMeetingSessionStatusUpdateInput =
  sessup_firmId :: string
  sessup_matterId :: string
  sessup_eventId :: string
  sessup_sessionId :: string
  sessup_status :: CalendarMeetingSessionStatus
  sessup_occurredAt :: string
  sessup_actorUserId :: string

record CalendarGuestLinkListOptions =
  guestopt_matterId :: "string option"
  guestopt_eventId :: "string option"
  guestopt_sessionId :: "string option"
  guestopt_status :: "CalendarGuestLinkStatus option"

record CalendarGuestLinkStatusUpdateInput =
  guestup_firmId :: string
  guestup_matterId :: string
  guestup_eventId :: string
  guestup_sessionId :: string
  guestup_linkId :: string
  guestup_status :: CalendarGuestLinkStatus
  guestup_occurredAt :: string
  guestup_actorUserId :: "string option"

record CalendarGuestLinkRevokeInput =
  guestrev_firmId :: string
  guestrev_matterId :: string
  guestrev_eventId :: string
  guestrev_sessionId :: string
  guestrev_linkId :: string
  guestrev_revokedAt :: string
  guestrev_actorUserId :: string

record MemoryCalendarEventStore =
  cst_calendarEvents :: "CalendarEventRecord list"
  cst_calendarSchedulingRequests :: "CalendarSchedulingRequestRecord list"
  cst_calendarMeetingSessions :: "CalendarMeetingSessionRecord list"
  cst_calendarGuestLinks :: "CalendarGuestLinkRecord list"

subsection \<open>Status machines of meetings\<close>

definition session_status_name :: "CalendarMeetingSessionStatus \<Rightarrow> string" where
  "session_status_name s = (case s of Session_lobby_closed \<Rightarrow> ''lobby_closed'' | Session_lobby_open \<Rightarrow> ''lobby_open''
     | Session_locked \<Rightarrow> ''locked'' | Session_ended \<Rightarrow> ''ended'')"

definition guest_status_name :: "CalendarGuestLinkStatus \<Rightarrow> string" where
  "guest_status_name s = (case s of Guest_issued \<Rightarrow> ''issued'' | Guest_waiting \<Rightarrow> ''waiting'' | Guest_admitted \<Rightarrow> ''admitted''
     | Guest_denied \<Rightarrow> ''denied'' | Guest_revoked \<Rightarrow> ''revoked'')"

definition SESSION_STATUS_TRANSITIONS :: "CalendarMeetingSessionStatus \<Rightarrow> CalendarMeetingSessionStatus list" where
  "SESSION_STATUS_TRANSITIONS s = (case s of
       Session_lobby_closed \<Rightarrow> [Session_lobby_closed, Session_lobby_open, Session_locked, Session_ended]
     | Session_lobby_open \<Rightarrow> [Session_lobby_open, Session_lobby_closed, Session_locked, Session_ended]
     | Session_locked \<Rightarrow> [Session_locked, Session_lobby_closed, Session_lobby_open, Session_ended]
     | Session_ended \<Rightarrow> [Session_ended])"

definition GUEST_LINK_STATUS_TRANSITIONS :: "CalendarGuestLinkStatus \<Rightarrow> CalendarGuestLinkStatus list" where
  "GUEST_LINK_STATUS_TRANSITIONS s = (case s of
       Guest_issued \<Rightarrow> [Guest_issued, Guest_waiting, Guest_admitted, Guest_denied, Guest_revoked]
     | Guest_waiting \<Rightarrow> [Guest_waiting, Guest_admitted, Guest_denied, Guest_revoked]
     | Guest_admitted \<Rightarrow> [Guest_admitted, Guest_revoked]
     | Guest_denied \<Rightarrow> [Guest_denied, Guest_revoked]
     | Guest_revoked \<Rightarrow> [Guest_revoked])"

definition assertValidTransitionDate :: "string \<Rightarrow> string \<Rightarrow> unit result" where
  "assertValidTransitionDate v label = throw_if (date_parse v = None) (label @ '' must be a valid date-time'')"

definition transitionCalendarMeetingSessionStatus ::
  "CalendarMeetingSessionRecord \<Rightarrow> CalendarMeetingSessionStatus \<Rightarrow> string \<Rightarrow> string \<Rightarrow> CalendarMeetingSessionRecord result" where
  "transitionCalendarMeetingSessionStatus session status occurredAt actorUserId =
     bind_result (assertValidTransitionDate occurredAt ''occurredAt'') (\<lambda>_.
     bind_result (throw_if (status \<notin> set (SESSION_STATUS_TRANSITIONS (sess_status session)))
       (''Calendar meeting session cannot transition from '' @ session_status_name (sess_status session)
         @ '' to '' @ session_status_name status)) (\<lambda>_.
     Inr (session\<lparr>sess_status := status, sess_updatedAt := occurredAt, sess_updatedByUserId := actorUserId,
       sess_endedAt := (if status = Session_ended then Some (or_else (sess_endedAt session) occurredAt)
         else sess_endedAt session)\<rparr>)))"

definition transitionCalendarGuestLinkStatus ::
  "CalendarGuestLinkRecord \<Rightarrow> CalendarGuestLinkStatus \<Rightarrow> string \<Rightarrow> string option \<Rightarrow> CalendarGuestLinkRecord result" where
  "transitionCalendarGuestLinkStatus link status occurredAt actorUserId =
     bind_result (assertValidTransitionDate occurredAt ''occurredAt'') (\<lambda>_.
     bind_result (throw_if (status \<notin> set (GUEST_LINK_STATUS_TRANSITIONS (guest_status link)))
       (''Calendar guest link cannot transition from '' @ guest_status_name (guest_status link)
         @ '' to '' @ guest_status_name status)) (\<lambda>_.
     bind_result (throw_if (status \<noteq> Guest_revoked \<and> js_le (date_parse (guest_expiresAt link)) (date_parse occurredAt))
       ''Calendar guest link has expired'') (\<lambda>_.
     Inr (link\<lparr>guest_status := status, guest_updatedAt := occurredAt,
       guest_checkedInAt := (if status = Guest_waiting then Some (or_else (guest_checkedInAt link) occurredAt) else guest_checkedInAt link),
       guest_revokedAt := (if status = Guest_revoked then Some (or_else (guest_revokedAt link) occurredAt) else guest_revokedAt link),
       guest_admittedAt := (if status = Guest_admitted then Some (or_else (guest_admittedAt link) occurredAt) else guest_admittedAt link),
       guest_deniedAt := (if status = Guest_denied then Some (or_else (guest_deniedAt link) occurredAt) else guest_deniedAt link),
       guest_updatedByUserId := actorUserId\<rparr>))))"

subsection \<open>Events\<close>

definition calendarScope :: "CalendarEventRecord \<Rightarrow> CalendarEventScope" where
  "calendarScope event = or_else (cal_scope event) Calendar_matter"

definition activeCalendarAttendees ::
  "(string \<Rightarrow> string \<Rightarrow> int) \<Rightarrow> CalendarEventAttendeeRecord list option \<Rightarrow> string \<Rightarrow> string option \<Rightarrow> string
   \<Rightarrow> CalendarEventAttendeeRecord list" where
  "activeCalendarAttendees collate attendees firmId matterId eventId =
     (if \<not> truthy matterId then []
      else js_sort (\<lambda>left right. collate (att_email left) (att_email right))
        (filter (\<lambda>attendee. att_firmId attendee = firmId \<and> Some (att_matterId attendee) = matterId
            \<and> att_eventId attendee = eventId \<and> \<not> truthy (att_deletedAt attendee)) (or_else attendees [])))"

definition byTimeThenId :: "(string \<Rightarrow> string \<Rightarrow> int) \<Rightarrow> string \<Rightarrow> string \<Rightarrow> string \<Rightarrow> string \<Rightarrow> int" where
  "byTimeThenId collate leftAt rightAt leftId rightId =
     (case (date_parse leftAt, date_parse rightAt) of
        (Some l, Some r) \<Rightarrow> if l - r = 0 then collate leftId rightId else l - r
      | _ \<Rightarrow> 0)"

definition activeCalendarReminders ::
  "(string \<Rightarrow> string \<Rightarrow> int) \<Rightarrow> CalendarEventReminderRecord list option \<Rightarrow> CalendarEventRecord \<Rightarrow> CalendarEventReminderRecord list" where
  "activeCalendarReminders collate reminders event =
     js_sort (\<lambda>left right. byTimeThenId collate (crem_remindAt left) (crem_remindAt right) (crem_id left) (crem_id right))
       (filter (\<lambda>reminder. crem_firmId reminder = cal_firmId event
           \<and> or_else (crem_scope reminder) Calendar_matter = or_else (cal_scope event) Calendar_matter
           \<and> crem_matterId reminder = cal_matterId event \<and> crem_clientContactId reminder = cal_clientContactId event
           \<and> crem_eventId reminder = cal_id event \<and> \<not> truthy (crem_deletedAt reminder)) (or_else reminders []))"

definition shown :: "(string \<Rightarrow> string \<Rightarrow> int) \<Rightarrow> CalendarEventRecord \<Rightarrow> CalendarEventRecord" where
  "shown collate event =
     event\<lparr>cal_attendees := Some (activeCalendarAttendees collate (cal_attendees event) (cal_firmId event) (cal_matterId event) (cal_id event)),
       cal_reminders := Some (activeCalendarReminders collate (cal_reminders event) event)\<rparr>"

definition calendarScopeMatches :: "CalendarEventRecord \<Rightarrow> CalendarEventListOptions \<Rightarrow> bool" where
  "calendarScopeMatches event options =
     (if evopt_includeAllScopes options then True
      else if truthy (evopt_matterId options) then cal_matterId event = evopt_matterId options
      else if evopt_scopes options \<noteq> None \<and> calendarScope event \<notin> set (or_else (evopt_scopes options) []) then False
      else if calendarScope event = Calendar_client \<and> evopt_clientContactIds options = None then False
      else if evopt_clientContactIds options \<noteq> None
          \<and> (calendarScope event \<noteq> Calendar_client \<or> \<not> truthy (cal_clientContactId event)
             \<or> or_else (cal_clientContactId event) [] \<notin> set (or_else (evopt_clientContactIds options) [])) then False
      else \<not> truthy (cal_matterId event))"

definition listMemoryCalendarEvents ::
  "(string \<Rightarrow> string \<Rightarrow> int) \<Rightarrow> MemoryCalendarEventStore \<Rightarrow> string \<Rightarrow> CalendarEventListOptions \<Rightarrow> CalendarEventRecord list" where
  "listMemoryCalendarEvents collate store firmId options =
     map (shown collate)
       (js_sort (\<lambda>left right. byTimeThenId collate (cal_startsAt left) (cal_startsAt right) (cal_id left) (cal_id right))
         (filter (\<lambda>event. cal_firmId event = firmId \<and> calendarScopeMatches event options \<and> \<not> truthy (cal_deletedAt event)
             \<and> (\<not> truthy (evopt_startsAfter options)
                \<or> js_le (date_parse (or_else (evopt_startsAfter options) [])) (date_parse (cal_startsAt event)))
             \<and> (\<not> truthy (evopt_startsBefore options)
                \<or> js_less (date_parse (cal_startsAt event)) (date_parse (or_else (evopt_startsBefore options) []))))
           (cst_calendarEvents store)))"

definition getMemoryCalendarEvent ::
  "(string \<Rightarrow> string \<Rightarrow> int) \<Rightarrow> MemoryCalendarEventStore \<Rightarrow> string \<Rightarrow> string option \<Rightarrow> string \<Rightarrow> CalendarEventRecord option" where
  "getMemoryCalendarEvent collate store firmId matterId eventId =
     map_option (shown collate)
       (List.find (\<lambda>c. cal_firmId c = firmId \<and> (matterId = None \<or> cal_matterId c = matterId) \<and> cal_id c = eventId
           \<and> \<not> truthy (cal_deletedAt c)) (cst_calendarEvents store))"

definition getMemoryCalendarEventByUid ::
  "(string \<Rightarrow> string \<Rightarrow> int) \<Rightarrow> MemoryCalendarEventStore \<Rightarrow> string \<Rightarrow> string \<Rightarrow> string \<Rightarrow> CalendarEventRecord option" where
  "getMemoryCalendarEventByUid collate store firmId matterId uid =
     map_option (shown collate)
       (List.find (\<lambda>c. cal_firmId c = firmId \<and> cal_matterId c = Some matterId \<and> cal_uid c = uid
           \<and> \<not> truthy (cal_deletedAt c)) (cst_calendarEvents store))"

definition sameCalendar :: "CalendarEventRecord \<Rightarrow> CalendarEventRecord \<Rightarrow> bool" where
  "sameCalendar candidate event =
     (cal_firmId candidate = cal_firmId event \<and> calendarScope candidate = calendarScope event
      \<and> cal_matterId candidate = cal_matterId event \<and> cal_clientContactId candidate = cal_clientContactId event)"

definition upsertMemoryCalendarEvent ::
  "(string \<Rightarrow> string \<Rightarrow> int) \<Rightarrow> MemoryCalendarEventStore \<Rightarrow> CalendarEventRecord
   \<Rightarrow> CalendarEventRecord result \<times> MemoryCalendarEventStore" where
  "upsertMemoryCalendarEvent collate store event =
     (let events = cst_calendarEvents store;
          collision = List.find (\<lambda>c. cal_id c = cal_id event) events
      in if (case collision of None \<Rightarrow> False | Some c \<Rightarrow> \<not> sameCalendar c event)
         then (throw (''Calendar event '' @ cal_id event @ '' already exists in another firm or matter''), store)
         else if list_ex (\<lambda>c. sameCalendar c event \<and> cal_uid c = cal_uid event \<and> cal_id c \<noteq> cal_id event
                   \<and> \<not> truthy (cal_deletedAt c)) events
         then (throw (''Active calendar event UID '' @ cal_uid event @ '' already exists in this matter''), store)
         else let existing = (\<lambda>c. sameCalendar c event \<and> cal_id c = cal_id event);
                  next = (case List.find existing events of
                      Some _ \<Rightarrow> update_first existing (\<lambda>old. event\<lparr>
                          cal_attendees := (case cal_attendees event of None \<Rightarrow> cal_attendees old | Some a \<Rightarrow> Some a),
                          cal_reminders := (case cal_reminders event of None \<Rightarrow> cal_reminders old | Some r \<Rightarrow> Some r)\<rparr>) events
                    | None \<Rightarrow> events @ [event])
              in (case List.find (\<lambda>c. cal_id c = cal_id event) next of
                    Some stored \<Rightarrow> (Inr (shown collate stored), store\<lparr>cst_calendarEvents := next\<rparr>)
                  | None \<Rightarrow> (throw ''Cannot read properties of undefined'', store\<lparr>cst_calendarEvents := next\<rparr>)))"

definition activeEventOf :: "string \<Rightarrow> string option \<Rightarrow> string \<Rightarrow> CalendarEventRecord \<Rightarrow> bool" where
  "activeEventOf firmId matterId eventId c =
     (cal_firmId c = firmId \<and> cal_matterId c = matterId \<and> cal_id c = eventId \<and> \<not> truthy (cal_deletedAt c))"

definition deleteMemoryCalendarEvent ::
  "MemoryCalendarEventStore \<Rightarrow> CalendarEventDeleteInput \<Rightarrow> CalendarEventRecord option \<times> MemoryCalendarEventStore" where
  "deleteMemoryCalendarEvent store input =
     (let wanted = (\<lambda>event. cal_firmId event = edel_firmId input
            \<and> (if edel_matterId input = None then \<not> truthy (cal_matterId event) else cal_matterId event = edel_matterId input)
            \<and> cal_id event = edel_eventId input \<and> \<not> truthy (cal_deletedAt event));
          gone = (\<lambda>event. event\<lparr>cal_deletedAt := Some (edel_deletedAt input), cal_updatedAt := edel_deletedAt input,
            cal_updatedByUserId := edel_updatedByUserId input, cal_sequence := cal_sequence event + 1\<rparr>)
      in (map_option gone (List.find wanted (cst_calendarEvents store)),
          store\<lparr>cst_calendarEvents := update_first wanted gone (cst_calendarEvents store)\<rparr>))"

subsection \<open>Attendees\<close>

definition listMemoryCalendarEventAttendees ::
  "(string \<Rightarrow> string \<Rightarrow> int) \<Rightarrow> MemoryCalendarEventStore \<Rightarrow> string \<Rightarrow> string \<Rightarrow> string \<Rightarrow> CalendarEventAttendeeRecord list" where
  "listMemoryCalendarEventAttendees collate store firmId matterId eventId =
     (let event = List.find (activeEventOf firmId (Some matterId) eventId) (cst_calendarEvents store)
      in activeCalendarAttendees collate (case event of None \<Rightarrow> None | Some e \<Rightarrow> cal_attendees e) firmId (Some matterId) eventId)"

definition upsertMemoryCalendarEventAttendee ::
  "MemoryCalendarEventStore \<Rightarrow> CalendarEventAttendeeRecord \<Rightarrow> CalendarEventAttendeeRecord result \<times> MemoryCalendarEventStore" where
  "upsertMemoryCalendarEventAttendee store attendee =
     (let wanted = activeEventOf (att_firmId attendee) (Some (att_matterId attendee)) (att_eventId attendee) in
      case List.find wanted (cst_calendarEvents store) of
        None \<Rightarrow> (throw (''Calendar event '' @ att_eventId attendee @ '' was not found''), store)
      | Some event \<Rightarrow>
          let attendees = or_else (cal_attendees event) [];
              write = (\<lambda>new. store\<lparr>cst_calendarEvents := update_first wanted (\<lambda>e. e\<lparr>cal_attendees := Some new\<rparr>) (cst_calendarEvents store)\<rparr>)
          in if list_ex (\<lambda>c. att_id c = att_id attendee) attendees
             then (Inr attendee, write (update_first (\<lambda>c. att_id c = att_id attendee) (\<lambda>_. attendee) attendees))
             else if list_ex (\<lambda>c. to_lower_case (att_email c) = to_lower_case (att_email attendee) \<and> att_id c \<noteq> att_id attendee
                       \<and> \<not> truthy (att_deletedAt c)) attendees
             then (throw (''Calendar attendee '' @ att_email attendee @ '' already exists on this event''), store)
             else (Inr attendee, write (attendees @ [attendee])))"

definition deleteMemoryCalendarEventAttendee ::
  "MemoryCalendarEventStore \<Rightarrow> CalendarEventAttendeeDeleteInput \<Rightarrow> CalendarEventAttendeeRecord option \<times> MemoryCalendarEventStore" where
  "deleteMemoryCalendarEventAttendee store input =
     (let wanted = activeEventOf (adel_firmId input) (Some (adel_matterId input)) (adel_eventId input);
          chosen = (\<lambda>c. att_id c = adel_attendeeId input \<and> \<not> truthy (att_deletedAt c));
          gone = (\<lambda>c. c\<lparr>att_deletedAt := Some (adel_deletedAt input), att_updatedAt := adel_deletedAt input,
            att_updatedByUserId := adel_updatedByUserId input\<rparr>)
      in (case List.find wanted (cst_calendarEvents store) of
            None \<Rightarrow> None
          | Some event \<Rightarrow> map_option gone (List.find chosen (or_else (cal_attendees event) [])),
          store\<lparr>cst_calendarEvents := update_first wanted
            (\<lambda>e. e\<lparr>cal_attendees := map_option (update_first chosen gone) (cal_attendees e)\<rparr>) (cst_calendarEvents store)\<rparr>))"

definition replaceMemoryCalendarEventAttendees ::
  "(string \<Rightarrow> string \<Rightarrow> int) \<Rightarrow> MemoryCalendarEventStore \<Rightarrow> CalendarEventAttendeeReplaceInput
   \<Rightarrow> CalendarEventAttendeeRecord list \<times> MemoryCalendarEventStore" where
  "replaceMemoryCalendarEventAttendees collate store input =
     (let wanted = activeEventOf (arep_firmId input) (Some (arep_matterId input)) (arep_eventId input);
          replaced = (\<lambda>e. e\<lparr>cal_attendees :=
            Some (filter (\<lambda>c. truthy (att_deletedAt c)) (or_else (cal_attendees e) []) @ arep_attendees input)\<rparr>)
      in case List.find wanted (cst_calendarEvents store) of
           None \<Rightarrow> ([], store)
         | Some event \<Rightarrow>
             (activeCalendarAttendees collate (cal_attendees (replaced event)) (cal_firmId event) (cal_matterId event) (cal_id event),
              store\<lparr>cst_calendarEvents := update_first wanted replaced (cst_calendarEvents store)\<rparr>))"

subsection \<open>Reminders\<close>

definition listMemoryCalendarEventReminders ::
  "(string \<Rightarrow> string \<Rightarrow> int) \<Rightarrow> MemoryCalendarEventStore \<Rightarrow> string \<Rightarrow> string option \<Rightarrow> string \<Rightarrow> CalendarEventReminderRecord list" where
  "listMemoryCalendarEventReminders collate store firmId matterId eventId =
     (case List.find (\<lambda>c. cal_firmId c = firmId \<and> (matterId = None \<or> cal_matterId c = matterId) \<and> cal_id c = eventId
           \<and> \<not> truthy (cal_deletedAt c)) (cst_calendarEvents store) of
        None \<Rightarrow> []
      | Some event \<Rightarrow> activeCalendarReminders collate (cal_reminders event) event)"

definition reminderTarget ::
  "string \<Rightarrow> CalendarEventScope option \<Rightarrow> string option \<Rightarrow> string option \<Rightarrow> string \<Rightarrow> CalendarEventRecord \<Rightarrow> bool" where
  "reminderTarget firmId scope matterId clientContactId eventId c =
     (cal_firmId c = firmId \<and> calendarScope c = or_else scope Calendar_matter \<and> cal_matterId c = matterId
      \<and> cal_clientContactId c = clientContactId \<and> cal_id c = eventId \<and> \<not> truthy (cal_deletedAt c))"

definition upsertMemoryCalendarEventReminder ::
  "MemoryCalendarEventStore \<Rightarrow> CalendarEventReminderRecord \<Rightarrow> CalendarEventReminderRecord result \<times> MemoryCalendarEventStore" where
  "upsertMemoryCalendarEventReminder store reminder =
     (let wanted = reminderTarget (crem_firmId reminder) (crem_scope reminder) (crem_matterId reminder)
            (crem_clientContactId reminder) (crem_eventId reminder)
      in case List.find wanted (cst_calendarEvents store) of
           None \<Rightarrow> (throw (''Calendar event '' @ crem_eventId reminder @ '' was not found''), store)
         | Some event \<Rightarrow>
             let reminders = or_else (cal_reminders event) [];
                 new = (if list_ex (\<lambda>c. crem_id c = crem_id reminder) reminders
                   then update_first (\<lambda>c. crem_id c = crem_id reminder) (\<lambda>_. reminder) reminders
                   else reminders @ [reminder])
             in (Inr reminder, store\<lparr>cst_calendarEvents :=
                   update_first wanted (\<lambda>e. e\<lparr>cal_reminders := Some new\<rparr>) (cst_calendarEvents store)\<rparr>))"

definition deleteMemoryCalendarEventReminder ::
  "MemoryCalendarEventStore \<Rightarrow> CalendarEventReminderDeleteInput \<Rightarrow> CalendarEventReminderRecord option \<times> MemoryCalendarEventStore" where
  "deleteMemoryCalendarEventReminder store input =
     (let wanted = reminderTarget (rdel_firmId input) (rdel_scope input) (rdel_matterId input)
            (rdel_clientContactId input) (rdel_eventId input);
          chosen = (\<lambda>c. crem_id c = rdel_reminderId input \<and> \<not> truthy (crem_deletedAt c));
          gone = (\<lambda>c. c\<lparr>crem_deletedAt := Some (rdel_deletedAt input), crem_updatedAt := rdel_deletedAt input,
            crem_updatedByUserId := rdel_updatedByUserId input\<rparr>)
      in (case List.find wanted (cst_calendarEvents store) of
            None \<Rightarrow> None
          | Some event \<Rightarrow> map_option gone (List.find chosen (or_else (cal_reminders event) [])),
          store\<lparr>cst_calendarEvents := update_first wanted
            (\<lambda>e. e\<lparr>cal_reminders := map_option (update_first chosen gone) (cal_reminders e)\<rparr>) (cst_calendarEvents store)\<rparr>))"

subsection \<open>Scheduling requests\<close>

definition createMemoryCalendarSchedulingRequest ::
  "MemoryCalendarEventStore \<Rightarrow> CalendarSchedulingRequestRecord \<Rightarrow> CalendarSchedulingRequestRecord \<times> MemoryCalendarEventStore" where
  "createMemoryCalendarSchedulingRequest store request =
     (let existing = (\<lambda>c. sched_firmId c = sched_firmId request \<and> sched_id c = sched_id request);
          requests = cst_calendarSchedulingRequests store
      in (request, store\<lparr>cst_calendarSchedulingRequests :=
           (if list_ex existing requests then update_first existing (\<lambda>_. request) requests else requests @ [request])\<rparr>))"

definition schedulingTime :: "CalendarSchedulingRequestRecord \<Rightarrow> string" where
  "schedulingTime request = or_else (sched_requestedDueAt request) (or_else (sched_requestedStartsAt request) (sched_createdAt request))"

definition listMemoryCalendarSchedulingRequests ::
  "(string \<Rightarrow> string \<Rightarrow> int) \<Rightarrow> MemoryCalendarEventStore \<Rightarrow> string \<Rightarrow> CalendarSchedulingRequestListOptions
   \<Rightarrow> CalendarSchedulingRequestRecord list" where
  "listMemoryCalendarSchedulingRequests collate store firmId options =
     js_sort (\<lambda>left right. byTimeThenId collate (schedulingTime left) (schedulingTime right) (sched_id left) (sched_id right))
       (filter (\<lambda>request. sched_firmId request = firmId
           \<and> (\<not> truthy (schedopt_matterId options) \<or> Some (sched_matterId request) = schedopt_matterId options)
           \<and> (schedopt_status options = None \<or> Some (sched_status request) = schedopt_status options)
           \<and> (\<not> truthy (schedopt_ownerUserId options) \<or> sched_ownerUserId request = schedopt_ownerUserId options))
         (cst_calendarSchedulingRequests store))"

definition schedulingRequestOf :: "string \<Rightarrow> string \<Rightarrow> string \<Rightarrow> CalendarSchedulingRequestRecord \<Rightarrow> bool" where
  "schedulingRequestOf firmId matterId requestId request =
     (sched_firmId request = firmId \<and> sched_matterId request = matterId \<and> sched_id request = requestId)"

definition getMemoryCalendarSchedulingRequest ::
  "MemoryCalendarEventStore \<Rightarrow> string \<Rightarrow> string \<Rightarrow> string \<Rightarrow> CalendarSchedulingRequestRecord option" where
  "getMemoryCalendarSchedulingRequest store firmId matterId requestId =
     List.find (schedulingRequestOf firmId matterId requestId) (cst_calendarSchedulingRequests store)"

text \<open>\<open>schedup_calendarEventId\<close> is \<open>None\<close> for undefined, \<open>Some None\<close> for null.\<close>

definition updateMemoryCalendarSchedulingRequestReview ::
  "MemoryCalendarEventStore \<Rightarrow> CalendarSchedulingRequestUpdateInput
   \<Rightarrow> CalendarSchedulingRequestRecord option \<times> MemoryCalendarEventStore" where
  "updateMemoryCalendarSchedulingRequestReview store input =
     (let wanted = schedulingRequestOf (schedup_firmId input) (schedup_matterId input) (schedup_requestId input);
          reviewed = (\<lambda>existing. existing\<lparr>sched_status := schedup_status input,
            sched_calendarEventId := (case schedup_calendarEventId input of None \<Rightarrow> sched_calendarEventId existing | Some v \<Rightarrow> v),
            sched_reviewedAt := Some (schedup_reviewedAt input), sched_reviewedByUserId := Some (schedup_reviewedByUserId input),
            sched_updatedAt := schedup_reviewedAt input, sched_updatedByUserId := schedup_reviewedByUserId input\<rparr>)
      in (map_option reviewed (List.find wanted (cst_calendarSchedulingRequests store)),
          store\<lparr>cst_calendarSchedulingRequests := update_first wanted reviewed (cst_calendarSchedulingRequests store)\<rparr>))"

definition recordMemoryCalendarSchedulingRequestAgingReviewDecision ::
  "MemoryCalendarEventStore \<Rightarrow> CalendarSchedulingRequestAgingReviewInput
   \<Rightarrow> CalendarSchedulingRequestRecord option \<times> MemoryCalendarEventStore" where
  "recordMemoryCalendarSchedulingRequestAgingReviewDecision store input =
     (let wanted = schedulingRequestOf (schedage_firmId input) (schedage_matterId input) (schedage_requestId input);
          decided = (\<lambda>existing. existing\<lparr>sched_reviewAgingDecision := Some (schedage_decision input),
            sched_reviewAgingDecidedAt := Some (schedage_decidedAt input),
            sched_reviewAgingDecidedByUserId := Some (schedage_decidedByUserId input),
            sched_reviewAgingCueStatus := Some (schedage_cueStatus input),
            sched_reviewAgingAgeHours := Some (schedage_ageHours input)\<rparr>)
      in (map_option decided (List.find wanted (cst_calendarSchedulingRequests store)),
          store\<lparr>cst_calendarSchedulingRequests := update_first wanted decided (cst_calendarSchedulingRequests store)\<rparr>))"

subsection \<open>Meeting sessions and guest links\<close>

definition createMemoryCalendarMeetingSession ::
  "MemoryCalendarEventStore \<Rightarrow> CalendarMeetingSessionRecord \<Rightarrow> CalendarMeetingSessionRecord result \<times> MemoryCalendarEventStore" where
  "createMemoryCalendarMeetingSession store session =
     (if \<not> list_ex (activeEventOf (sess_firmId session) (Some (sess_matterId session)) (sess_eventId session)) (cst_calendarEvents store)
      then (throw (''Calendar event '' @ sess_eventId session @ '' was not found''), store)
      else if list_ex (\<lambda>c. sess_id c = sess_id session) (cst_calendarMeetingSessions store)
      then (throw ''Calendar meeting session already exists'', store)
      else (Inr session, store\<lparr>cst_calendarMeetingSessions := cst_calendarMeetingSessions store @ [session]\<rparr>))"

definition newestThenId :: "(string \<Rightarrow> string \<Rightarrow> int) \<Rightarrow> string \<Rightarrow> string \<Rightarrow> string \<Rightarrow> string \<Rightarrow> int" where
  "newestThenId collate leftAt rightAt leftId rightId =
     (let byTime = collate rightAt leftAt in if byTime \<noteq> 0 then byTime else collate leftId rightId)"

definition listMemoryCalendarMeetingSessions ::
  "(string \<Rightarrow> string \<Rightarrow> int) \<Rightarrow> MemoryCalendarEventStore \<Rightarrow> string \<Rightarrow> CalendarMeetingSessionListOptions
   \<Rightarrow> CalendarMeetingSessionRecord list" where
  "listMemoryCalendarMeetingSessions collate store firmId options =
     js_sort (\<lambda>left right. newestThenId collate (sess_createdAt left) (sess_createdAt right) (sess_id left) (sess_id right))
       (filter (\<lambda>session. sess_firmId session = firmId
           \<and> (\<not> truthy (sessopt_matterId options) \<or> Some (sess_matterId session) = sessopt_matterId options)
           \<and> (\<not> truthy (sessopt_eventId options) \<or> Some (sess_eventId session) = sessopt_eventId options)
           \<and> (sessopt_status options = None \<or> Some (sess_status session) = sessopt_status options))
         (cst_calendarMeetingSessions store))"

definition sessionOf :: "string \<Rightarrow> string \<Rightarrow> string \<Rightarrow> string \<Rightarrow> CalendarMeetingSessionRecord \<Rightarrow> bool" where
  "sessionOf firmId matterId eventId sessionId session =
     (sess_firmId session = firmId \<and> sess_matterId session = matterId \<and> sess_eventId session = eventId \<and> sess_id session = sessionId)"

definition getMemoryCalendarMeetingSession ::
  "MemoryCalendarEventStore \<Rightarrow> string \<Rightarrow> string \<Rightarrow> string \<Rightarrow> string \<Rightarrow> CalendarMeetingSessionRecord option" where
  "getMemoryCalendarMeetingSession store firmId matterId eventId sessionId =
     List.find (sessionOf firmId matterId eventId sessionId) (cst_calendarMeetingSessions store)"

definition updateMemoryCalendarMeetingSessionStatus ::
  "MemoryCalendarEventStore \<Rightarrow> CalendarMeetingSessionStatusUpdateInput
   \<Rightarrow> CalendarMeetingSessionRecord option result \<times> MemoryCalendarEventStore" where
  "updateMemoryCalendarMeetingSessionStatus store input =
     (let wanted = sessionOf (sessup_firmId input) (sessup_matterId input) (sessup_eventId input) (sessup_sessionId input) in
      case List.find wanted (cst_calendarMeetingSessions store) of
        None \<Rightarrow> (Inr None, store)
      | Some session \<Rightarrow>
          (case transitionCalendarMeetingSessionStatus session (sessup_status input) (sessup_occurredAt input) (sessup_actorUserId input) of
             Inl e \<Rightarrow> (Inl e, store)
           | Inr updated \<Rightarrow> (Inr (Some updated), store\<lparr>cst_calendarMeetingSessions :=
               update_first wanted (\<lambda>_. updated) (cst_calendarMeetingSessions store)\<rparr>)))"

definition createMemoryCalendarGuestLink ::
  "MemoryCalendarEventStore \<Rightarrow> CalendarGuestLinkRecord \<Rightarrow> CalendarGuestLinkRecord result \<times> MemoryCalendarEventStore" where
  "createMemoryCalendarGuestLink store link =
     (if \<not> list_ex (sessionOf (guest_firmId link) (guest_matterId link) (guest_eventId link) (guest_sessionId link)) (cst_calendarMeetingSessions store)
      then (throw (''Calendar meeting session '' @ guest_sessionId link @ '' was not found''), store)
      else if list_ex (\<lambda>c. guest_tokenHash c = guest_tokenHash link) (cst_calendarGuestLinks store)
      then (throw ''Calendar guest link token hash already exists'', store)
      else (Inr link, store\<lparr>cst_calendarGuestLinks := cst_calendarGuestLinks store @ [link]\<rparr>))"

definition listMemoryCalendarGuestLinks ::
  "(string \<Rightarrow> string \<Rightarrow> int) \<Rightarrow> MemoryCalendarEventStore \<Rightarrow> string \<Rightarrow> CalendarGuestLinkListOptions \<Rightarrow> CalendarGuestLinkRecord list" where
  "listMemoryCalendarGuestLinks collate store firmId options =
     js_sort (\<lambda>left right. newestThenId collate (guest_createdAt left) (guest_createdAt right) (guest_id left) (guest_id right))
       (filter (\<lambda>link. guest_firmId link = firmId
           \<and> (\<not> truthy (guestopt_matterId options) \<or> Some (guest_matterId link) = guestopt_matterId options)
           \<and> (\<not> truthy (guestopt_eventId options) \<or> Some (guest_eventId link) = guestopt_eventId options)
           \<and> (\<not> truthy (guestopt_sessionId options) \<or> Some (guest_sessionId link) = guestopt_sessionId options)
           \<and> (guestopt_status options = None \<or> Some (guest_status link) = guestopt_status options))
         (cst_calendarGuestLinks store))"

definition guestLinkOf :: "string \<Rightarrow> string \<Rightarrow> string \<Rightarrow> string \<Rightarrow> string \<Rightarrow> CalendarGuestLinkRecord \<Rightarrow> bool" where
  "guestLinkOf firmId matterId eventId sessionId linkId link =
     (guest_firmId link = firmId \<and> guest_matterId link = matterId \<and> guest_eventId link = eventId
      \<and> guest_sessionId link = sessionId \<and> guest_id link = linkId)"

definition getMemoryCalendarGuestLink ::
  "MemoryCalendarEventStore \<Rightarrow> string \<Rightarrow> string \<Rightarrow> string \<Rightarrow> string \<Rightarrow> string \<Rightarrow> CalendarGuestLinkRecord option" where
  "getMemoryCalendarGuestLink store firmId matterId eventId sessionId linkId =
     List.find (guestLinkOf firmId matterId eventId sessionId linkId) (cst_calendarGuestLinks store)"

definition getMemoryCalendarGuestLinkByTokenHash ::
  "MemoryCalendarEventStore \<Rightarrow> string \<Rightarrow> CalendarGuestLinkRecord option" where
  "getMemoryCalendarGuestLinkByTokenHash store tokenHash =
     List.find (\<lambda>link. guest_tokenHash link = tokenHash) (cst_calendarGuestLinks store)"

definition updateMemoryCalendarGuestLinkStatus ::
  "MemoryCalendarEventStore \<Rightarrow> CalendarGuestLinkStatusUpdateInput
   \<Rightarrow> CalendarGuestLinkRecord option result \<times> MemoryCalendarEventStore" where
  "updateMemoryCalendarGuestLinkStatus store input =
     (let wanted = guestLinkOf (guestup_firmId input) (guestup_matterId input) (guestup_eventId input)
            (guestup_sessionId input) (guestup_linkId input) in
      case List.find wanted (cst_calendarGuestLinks store) of
        None \<Rightarrow> (Inr None, store)
      | Some link \<Rightarrow>
          (case transitionCalendarGuestLinkStatus link (guestup_status input) (guestup_occurredAt input) (guestup_actorUserId input) of
             Inl e \<Rightarrow> (Inl e, store)
           | Inr updated \<Rightarrow> (Inr (Some updated), store\<lparr>cst_calendarGuestLinks :=
               update_first wanted (\<lambda>_. updated) (cst_calendarGuestLinks store)\<rparr>)))"

definition revokeMemoryCalendarGuestLink ::
  "MemoryCalendarEventStore \<Rightarrow> CalendarGuestLinkRevokeInput \<Rightarrow> CalendarGuestLinkRecord option result \<times> MemoryCalendarEventStore" where
  "revokeMemoryCalendarGuestLink store input =
     updateMemoryCalendarGuestLinkStatus store
       \<lparr>guestup_firmId = guestrev_firmId input, guestup_matterId = guestrev_matterId input, guestup_eventId = guestrev_eventId input,
        guestup_sessionId = guestrev_sessionId input, guestup_linkId = guestrev_linkId input, guestup_status = Guest_revoked,
        guestup_occurredAt = guestrev_revokedAt input, guestup_actorUserId = Some (guestrev_actorUserId input)\<rparr>"

subsection \<open>The calls as steps\<close>

text \<open>
  The API creates a session with a closed lobby and a guest link as issued, both without a history;
  every other input is arbitrary.
\<close>

definition newSession :: "CalendarMeetingSessionRecord \<Rightarrow> bool" where
  "newSession session = (sess_status session = Session_lobby_closed \<and> sess_endedAt session = None)"

definition newGuestLink :: "CalendarGuestLinkRecord \<Rightarrow> bool" where
  "newGuestLink link = (guest_status link = Guest_issued \<and> guest_checkedInAt link = None \<and> guest_revokedAt link = None
     \<and> guest_admittedAt link = None \<and> guest_deniedAt link = None)"

inductive calendar_step :: "(string \<Rightarrow> string \<Rightarrow> int) \<Rightarrow> MemoryCalendarEventStore \<Rightarrow> MemoryCalendarEventStore \<Rightarrow> bool" for collate where
  step_upsert: "upsertMemoryCalendarEvent collate s event = (r, t) \<Longrightarrow> calendar_step collate s t"
| step_delete: "deleteMemoryCalendarEvent s di = (d, t) \<Longrightarrow> calendar_step collate s t"
| step_attendee: "upsertMemoryCalendarEventAttendee s attendee = (ra, t) \<Longrightarrow> calendar_step collate s t"
| step_no_attendee: "deleteMemoryCalendarEventAttendee s ai = (da, t) \<Longrightarrow> calendar_step collate s t"
| step_attendees: "replaceMemoryCalendarEventAttendees collate s ri = (la, t) \<Longrightarrow> calendar_step collate s t"
| step_reminder: "upsertMemoryCalendarEventReminder s reminder = (rr, t) \<Longrightarrow> calendar_step collate s t"
| step_no_reminder: "deleteMemoryCalendarEventReminder s rd = (dr, t) \<Longrightarrow> calendar_step collate s t"
| step_scheduling: "createMemoryCalendarSchedulingRequest s request = (rq, t) \<Longrightarrow> calendar_step collate s t"
| step_review: "updateMemoryCalendarSchedulingRequestReview s ui = (oq, t) \<Longrightarrow> calendar_step collate s t"
| step_aging: "recordMemoryCalendarSchedulingRequestAgingReviewDecision s gi = (oq, t) \<Longrightarrow> calendar_step collate s t"
| step_session: "createMemoryCalendarMeetingSession s session = (rs, t) \<Longrightarrow> newSession session \<Longrightarrow> calendar_step collate s t"
| step_session_status: "updateMemoryCalendarMeetingSessionStatus s si = (os, t) \<Longrightarrow> calendar_step collate s t"
| step_guest: "createMemoryCalendarGuestLink s link = (rl, t) \<Longrightarrow> newGuestLink link \<Longrightarrow> calendar_step collate s t"
| step_guest_status: "updateMemoryCalendarGuestLinkStatus s li = (ol, t) \<Longrightarrow> calendar_step collate s t"
| step_guest_revoke: "revokeMemoryCalendarGuestLink s vi = (ol, t) \<Longrightarrow> calendar_step collate s t"

definition no_calendar :: "MemoryCalendarEventStore \<Rightarrow> bool" where
  "no_calendar s = (cst_calendarEvents s = [] \<and> cst_calendarSchedulingRequests s = []
     \<and> cst_calendarMeetingSessions s = [] \<and> cst_calendarGuestLinks s = [])"

subsection \<open>Invariants\<close>

definition activeEvent :: "CalendarEventRecord \<Rightarrow> bool" where
  "activeEvent e = (\<not> truthy (cal_deletedAt e))"

definition events_ok :: "CalendarEventRecord list \<Rightarrow> bool" where
  "events_ok es = (distinct (map cal_id es)
     \<and> (\<forall>a \<in> set es. \<forall>b \<in> set es. activeEvent a \<and> activeEvent b \<and> sameCalendar a b \<and> cal_uid a = cal_uid b \<longrightarrow> cal_id a = cal_id b))"

definition link_history :: "CalendarGuestLinkRecord \<Rightarrow> bool" where
  "link_history l = (case guest_status l of
       Guest_issued \<Rightarrow> newGuestLink l
     | Guest_waiting \<Rightarrow> guest_checkedInAt l \<noteq> None \<and> guest_admittedAt l = None \<and> guest_deniedAt l = None \<and> guest_revokedAt l = None
     | Guest_admitted \<Rightarrow> guest_admittedAt l \<noteq> None \<and> guest_deniedAt l = None \<and> guest_revokedAt l = None
     | Guest_denied \<Rightarrow> guest_deniedAt l \<noteq> None \<and> guest_admittedAt l = None \<and> guest_revokedAt l = None
     | Guest_revoked \<Rightarrow> guest_revokedAt l \<noteq> None \<and> (guest_admittedAt l = None \<or> guest_deniedAt l = None))"

definition heldFor :: "CalendarEventRecord list \<Rightarrow> CalendarMeetingSessionRecord \<Rightarrow> bool" where
  "heldFor es session = list_ex (\<lambda>e. cal_firmId e = sess_firmId session \<and> cal_matterId e = Some (sess_matterId session)
     \<and> cal_id e = sess_eventId session) es"

definition linkedTo :: "CalendarMeetingSessionRecord list \<Rightarrow> CalendarGuestLinkRecord \<Rightarrow> bool" where
  "linkedTo ss link = list_ex (sessionOf (guest_firmId link) (guest_matterId link) (guest_eventId link) (guest_sessionId link)) ss"

definition calendar_inv :: "MemoryCalendarEventStore \<Rightarrow> bool" where
  "calendar_inv s =
     (events_ok (cst_calendarEvents s)
      \<and> list_all (heldFor (cst_calendarEvents s)) (cst_calendarMeetingSessions s)
      \<and> distinct (map sess_id (cst_calendarMeetingSessions s))
      \<and> list_all (\<lambda>x. sess_status x = Session_ended \<longleftrightarrow> sess_endedAt x \<noteq> None) (cst_calendarMeetingSessions s)
      \<and> list_all (linkedTo (cst_calendarMeetingSessions s)) (cst_calendarGuestLinks s)
      \<and> distinct (map guest_tokenHash (cst_calendarGuestLinks s))
      \<and> list_all link_history (cst_calendarGuestLinks s))"

text \<open>What every change of an event in place but an upsert leaves: its keys, and it is not undeleted.\<close>

definition event_kept :: "CalendarEventRecord \<Rightarrow> CalendarEventRecord \<Rightarrow> bool" where
  "event_kept x y = (cal_id y = cal_id x \<and> cal_uid y = cal_uid x \<and> sameCalendar y x \<and> (activeEvent y \<longrightarrow> activeEvent x))"

lemma event_kept_refl [simp]: "event_kept x x"
  by (simp add: event_kept_def sameCalendar_def)

lemma sameCalendar_cong: "sameCalendar x x' \<Longrightarrow> sameCalendar y y' \<Longrightarrow> sameCalendar x y = sameCalendar x' y'"
  by (auto simp: sameCalendar_def)

lemma events_ok_kept:
  assumes "events_ok es" "list_all2 event_kept es fs"
  shows "events_ok fs"
  unfolding events_ok_def
proof (intro conjI ballI impI)
  have "map cal_id es = map cal_id fs"
    by (rule list_all2_map_eq [OF assms(2)]) (simp add: event_kept_def)
  then show "distinct (map cal_id fs)" using assms(1) by (metis events_ok_def)
next
  fix a b assume ab: "a \<in> set fs" "b \<in> set fs"
    and c: "activeEvent a \<and> activeEvent b \<and> sameCalendar a b \<and> cal_uid a = cal_uid b"
  obtain x y where x: "x \<in> set es" "event_kept x a" and y: "y \<in> set es" "event_kept y b"
    using list_all2_in_right [OF assms(2)] ab by blast
  have "activeEvent x \<and> activeEvent y \<and> sameCalendar x y \<and> cal_uid x = cal_uid y"
    using c x(2) y(2) sameCalendar_cong [of a x b y] unfolding event_kept_def by metis
  then have "cal_id x = cal_id y" using assms(1) x(1) y(1) unfolding events_ok_def by blast
  then show "cal_id a = cal_id b" using x(2) y(2) by (simp add: event_kept_def)
qed

lemma heldFor_kept:
  assumes "heldFor es session" "list_all2 event_kept es fs"
  shows "heldFor fs session"
proof -
  obtain e where e: "e \<in> set es" "cal_firmId e = sess_firmId session" "cal_matterId e = Some (sess_matterId session)"
    "cal_id e = sess_eventId session" using assms(1) unfolding heldFor_def list_ex_iff by blast
  obtain f where "f \<in> set fs" "event_kept e f" using list_all2_in_left [OF assms(2) e(1)] by blast
  then show ?thesis using e unfolding heldFor_def list_ex_iff event_kept_def sameCalendar_def by metis
qed

lemma calendar_inv_events:
  assumes "calendar_inv s" "list_all2 event_kept (cst_calendarEvents s) fs"
  shows "calendar_inv (s\<lparr>cst_calendarEvents := fs\<rparr>)"
  using assms events_ok_kept [OF _ assms(2)] heldFor_kept [OF _ assms(2)]
  by (auto simp: calendar_inv_def list_all_iff)

lemma calendar_inv_scheduling [simp]:
  "calendar_inv (s\<lparr>cst_calendarSchedulingRequests := rs\<rparr>) = calendar_inv s"
  by (simp add: calendar_inv_def)

subsubsection \<open>Events, attendees and reminders\<close>

text \<open>Deleting an event, and every change of attendees and reminders, also leaves its time and status.\<close>

definition event_untouched :: "CalendarEventRecord \<Rightarrow> CalendarEventRecord \<Rightarrow> bool" where
  "event_untouched x y = (event_kept x y \<and> cal_startsAt y = cal_startsAt x \<and> cal_endsAt y = cal_endsAt x \<and> cal_status y = cal_status x)"

lemma event_untouched_refl [simp]: "event_untouched x x"
  by (simp add: event_untouched_def)

definition events_kept :: "MemoryCalendarEventStore \<Rightarrow> MemoryCalendarEventStore \<Rightarrow> bool" where
  "events_kept s t = (\<exists>fs. t = s\<lparr>cst_calendarEvents := fs\<rparr> \<and> list_all2 event_untouched (cst_calendarEvents s) fs)"

lemma events_kept_refl [simp]: "events_kept s s"
  unfolding events_kept_def by (rule exI [of _ "cst_calendarEvents s"]) (simp add: list.rel_refl)

lemma events_kept_update [intro]:
  "(\<And>e. p e \<Longrightarrow> event_untouched e (f e)) \<Longrightarrow> events_kept s (s\<lparr>cst_calendarEvents := update_first p f (cst_calendarEvents s)\<rparr>)"
  unfolding events_kept_def using list_all2_update_first [of event_untouched p f] by auto

lemma calendar_calls_keep_events:
  "events_kept s (snd (deleteMemoryCalendarEvent s di))"
  "events_kept s (snd (upsertMemoryCalendarEventAttendee s attendee))"
  "events_kept s (snd (deleteMemoryCalendarEventAttendee s ai))"
  "events_kept s (snd (replaceMemoryCalendarEventAttendees collate s ri))"
  "events_kept s (snd (upsertMemoryCalendarEventReminder s reminder))"
  "events_kept s (snd (deleteMemoryCalendarEventReminder s rd))"
  unfolding deleteMemoryCalendarEvent_def upsertMemoryCalendarEventAttendee_def deleteMemoryCalendarEventAttendee_def
    replaceMemoryCalendarEventAttendees_def upsertMemoryCalendarEventReminder_def deleteMemoryCalendarEventReminder_def Let_def
  by (auto intro!: events_kept_update simp: event_untouched_def event_kept_def sameCalendar_def calendarScope_def activeEvent_def split: option.split)

lemma events_kept_inv: "events_kept s t \<Longrightarrow> calendar_inv s \<Longrightarrow> calendar_inv t"
  unfolding events_kept_def event_untouched_def using calendar_inv_events by (auto intro: list_all2_mono)

text \<open>An upsert that is accepted replaces the event of that id, in the same calendar, or adds one.\<close>

definition bare :: "CalendarEventRecord \<Rightarrow> CalendarEventRecord" where
  "bare e = e\<lparr>cal_attendees := None, cal_reminders := None\<rparr>"

definition uid_free :: "CalendarEventRecord list \<Rightarrow> CalendarEventRecord \<Rightarrow> bool" where
  "uid_free es event = (\<forall>c \<in> set es. sameCalendar c event \<and> cal_uid c = cal_uid event \<and> activeEvent c \<longrightarrow> cal_id c = cal_id event)"

definition event_added :: "CalendarEventRecord list \<Rightarrow> CalendarEventRecord \<Rightarrow> CalendarEventRecord list \<Rightarrow> bool" where
  "event_added es event fs = (fs = es @ [event] \<and> (\<forall>c \<in> set es. cal_id c \<noteq> cal_id event))"

definition event_replaced :: "CalendarEventRecord list \<Rightarrow> CalendarEventRecord \<Rightarrow> CalendarEventRecord list \<Rightarrow> bool" where
  "event_replaced es event fs = (\<exists>as old bs new. es = as @ old # bs \<and> fs = as @ new # bs
     \<and> cal_id old = cal_id event \<and> sameCalendar old event \<and> bare new = bare event)"

lemma find_weaken:
  "List.find p xs = Some x \<Longrightarrow> q x \<Longrightarrow> (\<And>y. q y \<Longrightarrow> p y) \<Longrightarrow> List.find q xs = Some x"
  by (induction xs) (auto split: if_splits)

lemma upsert_shape:
  assumes "upsertMemoryCalendarEvent collate s event = (r, t)"
  shows "t = s \<and> (\<exists>m. r = throw m)
    \<or> (\<exists>fs e. t = s\<lparr>cst_calendarEvents := fs\<rparr> \<and> r = Inr e \<and> uid_free (cst_calendarEvents s) event
        \<and> (event_added (cst_calendarEvents s) event fs \<or> event_replaced (cst_calendarEvents s) event fs))"
proof -
  let ?es = "cst_calendarEvents s"
  let ?id = "\<lambda>c. cal_id c = cal_id event"
  let ?existing = "\<lambda>c. sameCalendar c event \<and> cal_id c = cal_id event"
  let ?merge = "\<lambda>old. event\<lparr>cal_attendees := (case cal_attendees event of None \<Rightarrow> cal_attendees old | Some a \<Rightarrow> Some a),
      cal_reminders := (case cal_reminders event of None \<Rightarrow> cal_reminders old | Some a \<Rightarrow> Some a)\<rparr>"
  show ?thesis
  proof (cases "\<exists>m. r = throw m \<and> t = s")
    case True
    then show ?thesis by blast
  next
    case False
    then have ok: "uid_free ?es event"
      using assms unfolding upsertMemoryCalendarEvent_def Let_def uid_free_def activeEvent_def list_ex_iff
      by (auto split: if_splits)
    show ?thesis
    proof (cases "List.find ?id ?es")
      case None
      then have none: "\<forall>c \<in> set ?es. cal_id c \<noteq> cal_id event" by (simp add: find_None_all)
      then have "List.find ?existing ?es = None" by (simp add: find_None_all)
      then have "t = s\<lparr>cst_calendarEvents := ?es @ [event]\<rparr> \<and> (\<exists>e. r = Inr e)"
        using assms False None none unfolding upsertMemoryCalendarEvent_def Let_def
        by (auto simp: find_append split: if_splits)
      then show ?thesis using ok none unfolding event_added_def by blast
    next
      case (Some old)
      have same: "sameCalendar old event"
        using assms False Some unfolding upsertMemoryCalendarEvent_def Let_def by (auto split: if_splits)
      have id: "cal_id old = cal_id event" using find_Some_mem [OF Some] by simp
      have found: "List.find ?existing ?es = Some old"
        by (rule find_weaken [OF Some]) (use same id in auto)
      obtain as bs where split: "?es = as @ old # bs" "update_first ?existing ?merge ?es = as @ ?merge old # bs"
        using update_first_split [OF found, of ?merge] by blast
      have "List.find ?id (update_first ?existing ?merge ?es) \<noteq> None" unfolding split(2) find_None_all by simp
      then have "t = s\<lparr>cst_calendarEvents := as @ ?merge old # bs\<rparr> \<and> (\<exists>e. r = Inr e)"
        using assms False Some same found split(2) unfolding upsertMemoryCalendarEvent_def Let_def
        by (auto split: if_splits)
      moreover have "event_replaced ?es event (as @ ?merge old # bs)"
        unfolding event_replaced_def using split(1) same id
        by (intro exI [of _ as] exI [of _ old] exI [of _ bs] exI [of _ "?merge old"]) (simp add: bare_def)
      ultimately show ?thesis using ok by blast
    qed
  qed
qed

lemma bare_fields:
  "bare a = bare b \<Longrightarrow> cal_id a = cal_id b \<and> cal_uid a = cal_uid b \<and> cal_firmId a = cal_firmId b \<and> cal_matterId a = cal_matterId b
    \<and> cal_status a = cal_status b \<and> cal_startsAt a = cal_startsAt b \<and> cal_endsAt a = cal_endsAt b
    \<and> activeEvent a = activeEvent b \<and> sameCalendar a b"
  unfolding bare_def activeEvent_def sameCalendar_def calendarScope_def by (cases a; cases b) simp

lemma events_ok_insert:
  assumes "events_ok (as @ bs)" and "\<And>c. c \<in> set (as @ bs) \<Longrightarrow> cal_id c \<noteq> cal_id new"
    and "\<And>c. c \<in> set (as @ bs) \<Longrightarrow> activeEvent c \<Longrightarrow> cal_uid c = cal_uid new \<Longrightarrow> \<not> sameCalendar c new"
  shows "events_ok (as @ new # bs)"
  unfolding events_ok_def
proof (intro conjI ballI impI)
  have "cal_id new \<notin> cal_id ` set (as @ bs)" using assms(2) by (metis imageE)
  then show "distinct (map cal_id (as @ new # bs))" using assms(1) by (auto simp: events_ok_def)
next
  fix a b assume ab: "a \<in> set (as @ new # bs)" "b \<in> set (as @ new # bs)"
    "activeEvent a \<and> activeEvent b \<and> sameCalendar a b \<and> cal_uid a = cal_uid b"
  have sym: "sameCalendar b a" using ab(3) by (simp add: sameCalendar_def)
  consider "a = new" "b = new" | "a = new" "b \<in> set (as @ bs)" | "a \<in> set (as @ bs)" "b = new" | "a \<in> set (as @ bs)" "b \<in> set (as @ bs)"
    using ab(1,2) by auto
  then show "cal_id a = cal_id b"
    using ab(3) sym assms(1,3) unfolding events_ok_def by cases metis+
qed

lemma upsert_inv:
  assumes "upsertMemoryCalendarEvent collate s event = (r, t)" "calendar_inv s"
  shows "calendar_inv t"
proof -
  consider "t = s" | fs where "t = s\<lparr>cst_calendarEvents := fs\<rparr>" "uid_free (cst_calendarEvents s) event" "event_added (cst_calendarEvents s) event fs"
    | fs where "t = s\<lparr>cst_calendarEvents := fs\<rparr>" "uid_free (cst_calendarEvents s) event" "event_replaced (cst_calendarEvents s) event fs"
    using upsert_shape [OF assms(1)] by blast
  then show ?thesis
  proof cases
    case 1
    then show ?thesis using assms(2) by simp
  next
    case (2 fs)
    have free: "\<not> sameCalendar c event" if "c \<in> set (cst_calendarEvents s)" "activeEvent c" "cal_uid c = cal_uid event" for c
      using that 2(2,3) unfolding uid_free_def event_added_def by blast
    have "events_ok (cst_calendarEvents s @ event # [])"
      by (rule events_ok_insert) (use assms(2) free 2(3) in \<open>auto simp: calendar_inv_def event_added_def\<close>)
    then have "events_ok fs" using 2(3) by (simp add: event_added_def)
    moreover have "heldFor fs x" if "heldFor (cst_calendarEvents s) x" for x
      using that 2(3) by (auto simp: heldFor_def event_added_def)
    ultimately show ?thesis using 2(1) assms(2) by (auto simp: calendar_inv_def list_all_iff)
  next
    case (3 fs)
    then obtain as old bs new where split: "cst_calendarEvents s = as @ old # bs" "fs = as @ new # bs"
      "cal_id old = cal_id event" "sameCalendar old event" and new: "bare new = bare event"
      unfolding event_replaced_def by blast
    note f = bare_fields [OF new]
    have ok: "events_ok (as @ old # bs)" using assms(2) split(1) by (simp add: calendar_inv_def)
    have "distinct (map cal_id (as @ old # bs))" using ok by (simp only: events_ok_def)
    then have "cal_id old \<notin> cal_id ` set (as @ bs)" by auto
    then have other: "cal_id c \<noteq> cal_id new" if "c \<in> set (as @ bs)" for c
      using that split(3) f by (metis imageI)
    have free: "\<not> sameCalendar c new" if "c \<in> set (as @ bs)" "activeEvent c" "cal_uid c = cal_uid new" for c
    proof
      assume "sameCalendar c new"
      then have "sameCalendar c event" using f by (simp add: sameCalendar_def)
      then have "cal_id c = cal_id event" using 3(2) that f split(1) unfolding uid_free_def by simp
      then show False using other [OF that(1)] f by simp
    qed
    have "events_ok (as @ bs)" using ok by (simp add: events_ok_def)
    then have "events_ok (as @ new # bs)"
      using other free by (rule events_ok_insert)
    then have "events_ok fs" using split(2) by simp
    moreover have "heldFor fs x" if "heldFor (cst_calendarEvents s) x" for x
      using that split f by (auto simp: heldFor_def sameCalendar_def)
    ultimately show ?thesis using 3(1) assms(2) by (auto simp: calendar_inv_def list_all_iff)
  qed
qed

subsubsection \<open>Sessions and guest links\<close>

lemma transition_session:
  assumes "transitionCalendarMeetingSessionStatus x status occurredAt actor = Inr y"
  shows "sess_firmId y = sess_firmId x \<and> sess_matterId y = sess_matterId x \<and> sess_eventId y = sess_eventId x \<and> sess_id y = sess_id x"
    and "(sess_status x = Session_ended \<longleftrightarrow> sess_endedAt x \<noteq> None) \<Longrightarrow> (sess_status y = Session_ended \<longleftrightarrow> sess_endedAt y \<noteq> None)"
  using assms unfolding transitionCalendarMeetingSessionStatus_def bind_result_ok
  by (auto simp: SESSION_STATUS_TRANSITIONS_def split: CalendarMeetingSessionStatus.splits if_splits)

definition guest_kept :: "CalendarGuestLinkRecord \<Rightarrow> CalendarGuestLinkRecord \<Rightarrow> bool" where
  "guest_kept x y = (guest_tokenHash y = guest_tokenHash x \<and> guest_sessionId y = guest_sessionId x
     \<and> guest_status y \<in> set (GUEST_LINK_STATUS_TRANSITIONS (guest_status x))
     \<and> (guest_admittedAt x \<noteq> None \<longrightarrow> guest_admittedAt y = guest_admittedAt x)
     \<and> (guest_status y = Guest_admitted \<or> guest_admittedAt y = guest_admittedAt x))"

lemma transitions_refl [simp]: "s \<in> set (GUEST_LINK_STATUS_TRANSITIONS s)"
  by (cases s) (simp_all add: GUEST_LINK_STATUS_TRANSITIONS_def)

lemma guest_kept_refl [simp]: "guest_kept x x"
  by (simp add: guest_kept_def)

lemma transition_guest:
  assumes "transitionCalendarGuestLinkStatus x status occurredAt actor = Inr y"
  shows "guest_firmId y = guest_firmId x \<and> guest_matterId y = guest_matterId x \<and> guest_eventId y = guest_eventId x
      \<and> guest_sessionId y = guest_sessionId x \<and> guest_tokenHash y = guest_tokenHash x"
    and "guest_kept x y"
    and "link_history x \<Longrightarrow> link_history y"
  using assms unfolding transitionCalendarGuestLinkStatus_def bind_result_ok
  by (auto simp: GUEST_LINK_STATUS_TRANSITIONS_def link_history_def newGuestLink_def guest_kept_def
      split: CalendarGuestLinkStatus.splits if_splits)

lemma session_status_inv:
  assumes "updateMemoryCalendarMeetingSessionStatus s si = (r, t)" "calendar_inv s"
  shows "calendar_inv t"
proof -
  let ?ss = "cst_calendarMeetingSessions s"
  let ?R = "\<lambda>x y. sess_firmId y = sess_firmId x \<and> sess_matterId y = sess_matterId x \<and> sess_eventId y = sess_eventId x \<and> sess_id y = sess_id x
    \<and> ((sess_status x = Session_ended \<longleftrightarrow> sess_endedAt x \<noteq> None) \<longrightarrow> (sess_status y = Session_ended \<longleftrightarrow> sess_endedAt y \<noteq> None))"
  have shape: "\<exists>ts. t = s\<lparr>cst_calendarMeetingSessions := ts\<rparr> \<and> list_all2 ?R ?ss ts"
  proof (cases "t = s")
    case True
    then show ?thesis by (intro exI [of _ ?ss]) (simp add: list.rel_refl)
  next
    case False
    let ?w = "sessionOf (sessup_firmId si) (sessup_matterId si) (sessup_eventId si) (sessup_sessionId si)"
    obtain x y where x: "List.find ?w ?ss = Some x" and y: "transitionCalendarMeetingSessionStatus x (sessup_status si) (sessup_occurredAt si) (sessup_actorUserId si) = Inr y"
      and t: "t = s\<lparr>cst_calendarMeetingSessions := update_first ?w (\<lambda>_. y) ?ss\<rparr>"
      using assms(1) False unfolding updateMemoryCalendarMeetingSessionStatus_def Let_def
      by (auto split: option.splits sum.splits)
    have "?R x y" using transition_session [OF y] by blast
    then have "list_all2 ?R ?ss (update_first ?w (\<lambda>_. y) ?ss)"
      by (intro list_all2_replace [OF _ x]) simp_all
    then show ?thesis using t by blast
  qed
  then obtain ts where t: "t = s\<lparr>cst_calendarMeetingSessions := ts\<rparr>" and R: "list_all2 ?R ?ss ts" by blast
  have ids: "map sess_id ?ss = map sess_id ts" by (rule list_all2_map_eq [OF R]) simp
  have held: "heldFor (cst_calendarEvents s) y" "sess_status y = Session_ended \<longleftrightarrow> sess_endedAt y \<noteq> None" if "y \<in> set ts" for y
    using list_all2_in_right [OF R that] assms(2) by (auto simp: calendar_inv_def list_all_iff heldFor_def)
  have linked: "linkedTo ts l" if "linkedTo ?ss l" for l
    using that list_all2_in_left [OF R] unfolding linkedTo_def list_ex_iff sessionOf_def by metis
  show ?thesis using assms(2) t ids held linked by (auto simp: calendar_inv_def list_all_iff)
qed

lemma guest_status_kept:
  assumes "updateMemoryCalendarGuestLinkStatus s li = (r, t)"
  shows "\<exists>ls. t = s\<lparr>cst_calendarGuestLinks := ls\<rparr> \<and> list_all2 (\<lambda>x y. guest_kept x y \<and> (link_history x \<longrightarrow> link_history y)
    \<and> (\<forall>ss. linkedTo ss x = linkedTo ss y)) (cst_calendarGuestLinks s) ls"
proof (cases "t = s")
  case True
  then show ?thesis by (intro exI [of _ "cst_calendarGuestLinks s"]) (simp add: list.rel_refl)
next
  case False
  let ?w = "guestLinkOf (guestup_firmId li) (guestup_matterId li) (guestup_eventId li) (guestup_sessionId li) (guestup_linkId li)"
  obtain x y where x: "List.find ?w (cst_calendarGuestLinks s) = Some x"
    and y: "transitionCalendarGuestLinkStatus x (guestup_status li) (guestup_occurredAt li) (guestup_actorUserId li) = Inr y"
    and t: "t = s\<lparr>cst_calendarGuestLinks := update_first ?w (\<lambda>_. y) (cst_calendarGuestLinks s)\<rparr>"
    using assms False unfolding updateMemoryCalendarGuestLinkStatus_def Let_def
    by (auto split: option.splits sum.splits)
  let ?R = "\<lambda>x y. guest_kept x y \<and> (link_history x \<longrightarrow> link_history y) \<and> (\<forall>ss. linkedTo ss x = linkedTo ss y)"
  have "?R x y" using transition_guest [OF y] by (simp add: linkedTo_def)
  then have "list_all2 ?R (cst_calendarGuestLinks s) (update_first ?w (\<lambda>_. y) (cst_calendarGuestLinks s))"
    by (intro list_all2_replace [OF _ x]) simp_all
  then show ?thesis using t by blast
qed

lemma guest_status_inv:
  assumes "updateMemoryCalendarGuestLinkStatus s li = (r, t)" "calendar_inv s"
  shows "calendar_inv t"
proof -
  obtain ls where t: "t = s\<lparr>cst_calendarGuestLinks := ls\<rparr>" and R: "list_all2 (\<lambda>x y. guest_kept x y \<and> (link_history x \<longrightarrow> link_history y)
      \<and> (\<forall>ss. linkedTo ss x = linkedTo ss y)) (cst_calendarGuestLinks s) ls"
    using guest_status_kept [OF assms(1)] by blast
  have "map guest_tokenHash (cst_calendarGuestLinks s) = map guest_tokenHash ls"
    by (rule list_all2_map_eq [OF R]) (simp add: guest_kept_def)
  moreover have "link_history y \<and> linkedTo (cst_calendarMeetingSessions s) y" if "y \<in> set ls" for y
    using list_all2_in_right [OF R that] assms(2) unfolding calendar_inv_def list_all_iff by blast
  ultimately show ?thesis using assms(2) t by (auto simp: calendar_inv_def list_all_iff)
qed

lemma list_ex_key: "list_ex (\<lambda>c. f c = k) xs \<longleftrightarrow> k \<in> f ` set xs"
  by (auto simp: list_ex_iff)

lemma new_session_inv:
  assumes "createMemoryCalendarMeetingSession s session = (r, t)" "newSession session" "calendar_inv s"
  shows "calendar_inv t"
proof (cases "t = s")
  case False
  then have t: "t = s\<lparr>cst_calendarMeetingSessions := cst_calendarMeetingSessions s @ [session]\<rparr>"
    and held: "list_ex (activeEventOf (sess_firmId session) (Some (sess_matterId session)) (sess_eventId session)) (cst_calendarEvents s)"
    and fresh: "sess_id session \<notin> sess_id ` set (cst_calendarMeetingSessions s)"
    using assms(1) unfolding createMemoryCalendarMeetingSession_def list_ex_key by (auto split: if_splits)
  have "heldFor (cst_calendarEvents s) session"
    using held by (auto simp: heldFor_def activeEventOf_def list_ex_iff)
  moreover have "linkedTo (ss @ [session]) l" if "linkedTo ss l" for ss l
    using that by (simp add: linkedTo_def)
  ultimately show ?thesis
    using t fresh assms(2,3) by (auto simp: calendar_inv_def newSession_def list_all_iff)
qed (use assms(3) in simp)

lemma new_guest_inv:
  assumes "createMemoryCalendarGuestLink s link = (r, t)" "newGuestLink link" "calendar_inv s"
  shows "calendar_inv t"
proof -
  let ?new = "s\<lparr>cst_calendarGuestLinks := cst_calendarGuestLinks s @ [link]\<rparr>"
  have "link_history link" using assms(2) by (simp add: link_history_def newGuestLink_def)
  moreover have "t = s \<or> t = ?new \<and> linkedTo (cst_calendarMeetingSessions s) link
      \<and> guest_tokenHash link \<notin> guest_tokenHash ` set (cst_calendarGuestLinks s)"
    using assms(1) unfolding createMemoryCalendarGuestLink_def linkedTo_def list_ex_key by (simp split: if_splits)
  ultimately show ?thesis using assms(3) unfolding calendar_inv_def by auto
qed

text \<open>A step changes the events in place, upserts one, or leaves them; so for the guest links.\<close>

lemma calendar_step_events:
  assumes "calendar_step collate s t"
  shows "events_kept s t \<or> (\<exists>event r. upsertMemoryCalendarEvent collate s event = (r, t)) \<or> cst_calendarEvents t = cst_calendarEvents s"
  using assms
proof cases
  case (step_delete di d)
  then show ?thesis using calendar_calls_keep_events(1) [of s di] by simp
next
  case (step_attendee attendee ra)
  then show ?thesis using calendar_calls_keep_events(2) [of s attendee] by simp
next
  case (step_no_attendee ai da)
  then show ?thesis using calendar_calls_keep_events(3) [of s ai] by simp
next
  case (step_attendees ri la)
  then show ?thesis using calendar_calls_keep_events(4) [of s collate ri] by simp
next
  case (step_reminder reminder rr)
  then show ?thesis using calendar_calls_keep_events(5) [of s reminder] by simp
next
  case (step_no_reminder rd dr)
  then show ?thesis using calendar_calls_keep_events(6) [of s rd] by simp
qed (auto simp: createMemoryCalendarSchedulingRequest_def updateMemoryCalendarSchedulingRequestReview_def
    recordMemoryCalendarSchedulingRequestAgingReviewDecision_def createMemoryCalendarMeetingSession_def
    updateMemoryCalendarMeetingSessionStatus_def createMemoryCalendarGuestLink_def updateMemoryCalendarGuestLinkStatus_def
    revokeMemoryCalendarGuestLink_def Let_def split: if_splits option.splits sum.splits)

lemma calendar_step_inv:
  assumes "calendar_step collate s t" "calendar_inv s"
  shows "calendar_inv t"
  using assms(1)
proof cases
  case (step_upsert event r)
  then show ?thesis using upsert_inv assms(2) by blast
next
  case (step_session session rs)
  then show ?thesis using new_session_inv assms(2) by blast
next
  case (step_session_status si os)
  then show ?thesis using session_status_inv assms(2) by blast
next
  case (step_guest link rl)
  then show ?thesis using new_guest_inv assms(2) by blast
next
  case (step_guest_status li ol)
  then show ?thesis using guest_status_inv assms(2) by blast
next
  case (step_guest_revoke vi ol)
  then show ?thesis using guest_status_inv assms(2) unfolding revokeMemoryCalendarGuestLink_def by blast
next
  case (step_delete di d)
  then show ?thesis using calendar_calls_keep_events(1) [of s di] events_kept_inv assms(2) by auto
next
  case (step_attendee attendee ra)
  then show ?thesis using calendar_calls_keep_events(2) [of s attendee] events_kept_inv assms(2) by auto
next
  case (step_no_attendee ai da)
  then show ?thesis using calendar_calls_keep_events(3) [of s ai] events_kept_inv assms(2) by auto
next
  case (step_attendees ri la)
  then show ?thesis using calendar_calls_keep_events(4) [of s collate ri] events_kept_inv assms(2) by auto
next
  case (step_reminder reminder rr)
  then show ?thesis using calendar_calls_keep_events(5) [of s reminder] events_kept_inv assms(2) by auto
next
  case (step_no_reminder rd dr)
  then show ?thesis using calendar_calls_keep_events(6) [of s rd] events_kept_inv assms(2) by auto
qed (use assms(2) in \<open>auto simp: createMemoryCalendarSchedulingRequest_def updateMemoryCalendarSchedulingRequestReview_def
    recordMemoryCalendarSchedulingRequestAgingReviewDecision_def Let_def\<close>)

interpretation calendar: inductive_invariant no_calendar "calendar_step collate" calendar_inv for collate
  by unfold_locales (simp add: no_calendar_def calendar_inv_def events_ok_def, rule calendar_step_inv)

subsection \<open>What the calendar store guarantees\<close>

lemma same_key_same:
  "distinct (map f xs) \<Longrightarrow> a \<in> set xs \<Longrightarrow> b \<in> set xs \<Longrightarrow> f a = f b \<Longrightarrow> a = b"
  by (auto simp: distinct_map dest: inj_onD)

lemma find_by_key:
  assumes "distinct (map f xs)" "x \<in> set xs"
  shows "List.find (\<lambda>y. f y = f x) xs = Some x"
proof (cases "List.find (\<lambda>y. f y = f x) xs")
  case None
  then show ?thesis using assms(2) by (auto simp: find_None_all)
next
  case (Some y)
  then show ?thesis using find_Some_mem [OF Some] same_key_same [OF assms(1) _ assms(2)] by blast
qed

text \<open>
  In every calendar reachable by any sequence of calls (refused ones included), for any firms:
  event ids are unique, no two active events of one calendar (firm, scope, matter, client) carry the
  same uid, every meeting session belongs to a stored event of its firm and matter, a session has an
  end time exactly when it is ended, every guest link belongs to a stored session, and the token hash
  of a guest link leads back to that link and no other.
\<close>

theorem calendar_identities_are_unique:
  assumes "reachable no_calendar (calendar_step collate) s"
  shows "distinct (map cal_id (cst_calendarEvents s))
    \<and> (\<forall>a \<in> set (cst_calendarEvents s). \<forall>b \<in> set (cst_calendarEvents s).
        \<not> truthy (cal_deletedAt a) \<and> \<not> truthy (cal_deletedAt b) \<and> sameCalendar a b \<and> cal_uid a = cal_uid b \<longrightarrow> a = b)
    \<and> (\<forall>x \<in> set (cst_calendarMeetingSessions s). (sess_status x = Session_ended \<longleftrightarrow> sess_endedAt x \<noteq> None)
        \<and> (\<exists>e \<in> set (cst_calendarEvents s). cal_firmId e = sess_firmId x \<and> cal_matterId e = Some (sess_matterId x) \<and> cal_id e = sess_eventId x))
    \<and> (\<forall>l \<in> set (cst_calendarGuestLinks s). getMemoryCalendarGuestLinkByTokenHash s (guest_tokenHash l) = Some l
        \<and> getMemoryCalendarMeetingSession s (guest_firmId l) (guest_matterId l) (guest_eventId l) (guest_sessionId l) \<noteq> None)"
proof -
  have inv: "calendar_inv s" by (rule calendar.reachable_inv [OF assms])
  then have d: "distinct (map cal_id (cst_calendarEvents s))" and h: "distinct (map guest_tokenHash (cst_calendarGuestLinks s))"
    by (simp_all add: calendar_inv_def events_ok_def)
  have uid: "a = b" if "a \<in> set (cst_calendarEvents s)" "b \<in> set (cst_calendarEvents s)"
    "\<not> truthy (cal_deletedAt a) \<and> \<not> truthy (cal_deletedAt b) \<and> sameCalendar a b \<and> cal_uid a = cal_uid b" for a b
  proof -
    have "cal_id a = cal_id b" using inv that unfolding calendar_inv_def events_ok_def activeEvent_def by blast
    then show ?thesis using same_key_same [OF d that(1,2)] by simp
  qed
  have links: "getMemoryCalendarGuestLinkByTokenHash s (guest_tokenHash l) = Some l" if "l \<in> set (cst_calendarGuestLinks s)" for l
    using find_by_key [OF h that] by (simp add: getMemoryCalendarGuestLinkByTokenHash_def)
  have session: "getMemoryCalendarMeetingSession s (guest_firmId l) (guest_matterId l) (guest_eventId l) (guest_sessionId l) \<noteq> None"
    if "l \<in> set (cst_calendarGuestLinks s)" for l
    using inv that unfolding calendar_inv_def list_all_iff linkedTo_def list_ex_iff
      getMemoryCalendarMeetingSession_def find_None_all by blast
  have held: "(sess_status x = Session_ended \<longleftrightarrow> sess_endedAt x \<noteq> None)
      \<and> (\<exists>e \<in> set (cst_calendarEvents s). cal_firmId e = sess_firmId x \<and> cal_matterId e = Some (sess_matterId x) \<and> cal_id e = sess_eventId x)"
    if "x \<in> set (cst_calendarMeetingSessions s)" for x
    using inv that unfolding calendar_inv_def list_all_iff heldFor_def list_ex_iff by blast
  show ?thesis using d uid links session held by blast
qed

lemma calendar_step_links:
  assumes "calendar_step collate s t" "l \<in> set (cst_calendarGuestLinks s)"
  shows "\<exists>l' \<in> set (cst_calendarGuestLinks t). guest_kept l l'"
proof -
  have update: "\<exists>l' \<in> set (cst_calendarGuestLinks t). guest_kept l l'"
    if "updateMemoryCalendarGuestLinkStatus s li = (r, t)" for li r
    using guest_status_kept [OF that] list_all2_in_left [OF _ assms(2)] by fastforce
  have same: ?thesis if "set (cst_calendarGuestLinks s) \<subseteq> set (cst_calendarGuestLinks t)"
    using that assms(2) by (intro bexI [of _ l]) auto
  have kept: "cst_calendarGuestLinks t = cst_calendarGuestLinks s" if "events_kept s t"
    using that by (auto simp: events_kept_def)
  from assms(1) show ?thesis
  proof cases
    case (step_upsert event r)
    then show ?thesis using upsert_shape [OF step_upsert] same by auto
  next
    case (step_delete di d)
    then show ?thesis using calendar_calls_keep_events(1) [of s di] kept same by simp
  next
    case (step_attendee attendee ra)
    then show ?thesis using calendar_calls_keep_events(2) [of s attendee] kept same by simp
  next
    case (step_no_attendee ai da)
    then show ?thesis using calendar_calls_keep_events(3) [of s ai] kept same by simp
  next
    case (step_attendees ri la)
    then show ?thesis using calendar_calls_keep_events(4) [of s collate ri] kept same by simp
  next
    case (step_reminder reminder rr)
    then show ?thesis using calendar_calls_keep_events(5) [of s reminder] kept same by simp
  next
    case (step_no_reminder rd dr)
    then show ?thesis using calendar_calls_keep_events(6) [of s rd] kept same by simp
  next
    case (step_guest_status li ol)
    then show ?thesis by (rule update)
  next
    case (step_guest_revoke vi ol)
    then show ?thesis unfolding revokeMemoryCalendarGuestLink_def by (rule update)
  qed (rule same, force simp: createMemoryCalendarSchedulingRequest_def updateMemoryCalendarSchedulingRequestReview_def
      recordMemoryCalendarSchedulingRequestAgingReviewDecision_def createMemoryCalendarMeetingSession_def
      updateMemoryCalendarMeetingSessionStatus_def createMemoryCalendarGuestLink_def Let_def split: if_splits option.splits sum.splits)+
qed

definition barred :: "CalendarGuestLinkRecord \<Rightarrow> CalendarGuestLinkRecord \<Rightarrow> bool" where
  "barred l l' = (guest_tokenHash l' = guest_tokenHash l \<and> guest_status l' \<in> {Guest_denied, Guest_revoked}
     \<and> (guest_status l = Guest_revoked \<longrightarrow> guest_status l' = Guest_revoked) \<and> guest_admittedAt l' = guest_admittedAt l)"

lemma barred_kept: "barred l m \<Longrightarrow> guest_kept m n \<Longrightarrow> barred l n"
  by (auto simp: barred_def guest_kept_def GUEST_LINK_STATUS_TRANSITIONS_def)

text \<open>
  A guest who was denied or whose link was revoked stays out: whatever calls follow, the link its
  token leads to is denied or revoked (revoked if it was), and no admission is recorded on it later.
\<close>

theorem denied_guests_stay_out:
  assumes "reachable no_calendar (calendar_step collate) s" and "(calendar_step collate)\<^sup>*\<^sup>* s t"
    and "getMemoryCalendarGuestLinkByTokenHash s tokenHash = Some l"
    and "guest_status l = Guest_denied \<or> guest_status l = Guest_revoked"
  shows "\<exists>l'. getMemoryCalendarGuestLinkByTokenHash t tokenHash = Some l'
    \<and> (guest_status l' = Guest_denied \<or> guest_status l' = Guest_revoked)
    \<and> (guest_status l = Guest_revoked \<longrightarrow> guest_status l' = Guest_revoked)
    \<and> guest_admittedAt l' = guest_admittedAt l"
proof -
  have l: "l \<in> set (cst_calendarGuestLinks s)" "guest_tokenHash l = tokenHash"
    using find_Some_mem [OF assms(3) [unfolded getMemoryCalendarGuestLinkByTokenHash_def]] by auto
  have "\<exists>l' \<in> set (cst_calendarGuestLinks t). barred l l'"
    using assms(2)
  proof (induction rule: rtranclp_induct)
    case base
    then show ?case using l(1) assms(4) by (auto simp: barred_def)
  next
    case (step t u)
    then show ?case using calendar_step_links [OF step.hyps(2)] barred_kept by blast
  qed
  then obtain l' where l': "l' \<in> set (cst_calendarGuestLinks t)" "barred l l'" by blast
  have "calendar_inv t" by (rule calendar.inv_steps [OF assms(2) calendar.reachable_inv [OF assms(1)]])
  then have "getMemoryCalendarGuestLinkByTokenHash t (guest_tokenHash l') = Some l'"
    using find_by_key [OF _ l'(1), of guest_tokenHash] by (simp add: getMemoryCalendarGuestLinkByTokenHash_def calendar_inv_def)
  then show ?thesis using l'(2) l(2) by (auto simp: barred_def)
qed

subsection \<open>A worked calendar\<close>

definition ex_meeting :: CalendarEventRecord where
  "ex_meeting = \<lparr>cal_id = ''e'', cal_firmId = ''f'', cal_scope = None, cal_matterId = Some ''m'', cal_clientContactId = None,
     cal_uid = ''e@f'', cal_title = ''Call'', cal_startsAt = ''2026-01-01'', cal_endsAt = ''2026-01-02'', cal_description = None,
     cal_location = None, cal_status = Event_confirmed, cal_sequence = 0, cal_meetingLinkMode = None, cal_meetingLinkUrl = None,
     cal_meetingRoomId = None, cal_meetingProviderKey = None, cal_createdAt = ''2026-01-01'', cal_updatedAt = ''2026-01-01'',
     cal_deletedAt = None, cal_createdByUserId = ''u'', cal_updatedByUserId = ''u'', cal_attendees = None, cal_reminders = None,
     cal_meetingInvitationBoundary = None\<rparr>"

definition ex_session :: CalendarMeetingSessionRecord where
  "ex_session = \<lparr>sess_id = ''x'', sess_firmId = ''f'', sess_matterId = ''m'', sess_eventId = ''e'', sess_status = Session_lobby_closed,
     sess_retentionUntil = None, sess_createdAt = ''2026-01-01'', sess_updatedAt = ''2026-01-01'', sess_endedAt = None,
     sess_createdByUserId = ''u'', sess_updatedByUserId = ''u'', sess_metadata = []\<rparr>"

definition ex_guest :: CalendarGuestLinkRecord where
  "ex_guest = \<lparr>guest_id = ''g'', guest_firmId = ''f'', guest_matterId = ''m'', guest_eventId = ''e'', guest_sessionId = ''x'',
     guest_tokenHash = ''h'', guest_status = Guest_issued, guest_expiresAt = ''2026-01-02'', guest_retentionUntil = None,
     guest_checkedInAt = None, guest_revokedAt = None, guest_admittedAt = None, guest_deniedAt = None,
     guest_createdAt = ''2026-01-01'', guest_updatedAt = ''2026-01-01'', guest_createdByUserId = ''u'', guest_updatedByUserId = None,
     guest_metadata = []\<rparr>"

definition ex_revoke :: CalendarGuestLinkRevokeInput where
  "ex_revoke = \<lparr>guestrev_firmId = ''f'', guestrev_matterId = ''m'', guestrev_eventId = ''e'', guestrev_sessionId = ''x'',
     guestrev_linkId = ''g'', guestrev_revokedAt = ''2026-01-01'', guestrev_actorUserId = ''u''\<rparr>"

definition ex_calendar :: MemoryCalendarEventStore where
  "ex_calendar = \<lparr>cst_calendarEvents = [ex_meeting], cst_calendarSchedulingRequests = [], cst_calendarMeetingSessions = [ex_session],
     cst_calendarGuestLinks = [ex_guest]\<rparr>"

definition ex_revoked :: MemoryCalendarEventStore where
  "ex_revoked = snd (revokeMemoryCalendarGuestLink ex_calendar ex_revoke)"

abbreviation ex_collate :: "string \<Rightarrow> string \<Rightarrow> int" where
  "ex_collate \<equiv> (\<lambda>a b. 0)"

lemma ex_calendar_reachable: "reachable no_calendar (calendar_step ex_collate) ex_calendar"
proof -
  let ?s0 = "\<lparr>cst_calendarEvents = [], cst_calendarSchedulingRequests = [], cst_calendarMeetingSessions = [], cst_calendarGuestLinks = []\<rparr>"
  let ?s1 = "?s0\<lparr>cst_calendarEvents := [ex_meeting]\<rparr>"
  let ?s2 = "?s1\<lparr>cst_calendarMeetingSessions := [ex_session]\<rparr>"
  have "reachable no_calendar (calendar_step ex_collate) ?s0" by (rule reach_init) (simp add: no_calendar_def)
  moreover have "calendar_step ex_collate ?s0 ?s1"
    by (rule step_upsert [of _ _ ex_meeting]) (simp add: upsertMemoryCalendarEvent_def)
  moreover have "calendar_step ex_collate ?s1 ?s2"
    by (rule step_session [of _ ex_session])
      (simp_all add: createMemoryCalendarMeetingSession_def activeEventOf_def newSession_def ex_session_def ex_meeting_def)
  moreover have "calendar_step ex_collate ?s2 ex_calendar"
    by (rule step_guest [of _ ex_guest])
      (simp_all add: createMemoryCalendarGuestLink_def sessionOf_def newGuestLink_def ex_guest_def ex_session_def ex_calendar_def)
  ultimately show ?thesis by (meson reach_step)
qed

lemma ex_revoked_step: "calendar_step ex_collate ex_calendar ex_revoked"
  unfolding ex_revoked_def by (rule step_guest_revoke [OF surjective_pairing])

lemma ex_revoked_link: "map_option guest_status (getMemoryCalendarGuestLinkByTokenHash ex_revoked ''h'') = Some Guest_revoked"
  by code_simp

theorem calendar_identities_are_unique_witness:
  "getMemoryCalendarGuestLinkByTokenHash ex_calendar ''h'' = Some ex_guest"
  using calendar_identities_are_unique [OF ex_calendar_reachable] by (simp add: ex_calendar_def ex_guest_def)

theorem denied_guests_stay_out_witness:
  "\<exists>l'. getMemoryCalendarGuestLinkByTokenHash (snd (deleteMemoryCalendarEvent ex_revoked
      \<lparr>edel_firmId = ''f'', edel_matterId = Some ''m'', edel_eventId = ''e'', edel_deletedAt = ''2026-01-02'', edel_updatedByUserId = ''u''\<rparr>)) ''h'' = Some l'
    \<and> guest_status l' = Guest_revoked"
proof -
  obtain l where l: "getMemoryCalendarGuestLinkByTokenHash ex_revoked ''h'' = Some l" "guest_status l = Guest_revoked"
    using ex_revoked_link by auto
  have "reachable no_calendar (calendar_step ex_collate) ex_revoked"
    by (rule reach_step [OF ex_calendar_reachable ex_revoked_step])
  moreover have "(calendar_step ex_collate)\<^sup>*\<^sup>* ex_revoked (snd (deleteMemoryCalendarEvent ex_revoked di))" for di
    by (rule r_into_rtranclp) (rule step_delete [OF surjective_pairing])
  ultimately show ?thesis using denied_guests_stay_out l by blast
qed

end
