(* ===== verification/Booking_Store.thy ===== *)
theory Booking_Store
  imports Calendar_Store
begin

section \<open>The booking store\<close>

text \<open>
  packages/database/src/repository/appointment-booking/memory.ts, every call, with the calls it makes
  on the calendar and on public consultation intakes (public-consultation-intakes/memory.ts). The
  stores a call writes are one record, \<open>BookingWorld\<close>; a call returns its result and the stores it
  leaves, also when it throws. \<open>collate\<close> is \<open>String.prototype.localeCompare\<close>.

  Proved: requests and their calendar events stay in step, no two bookings of a firm overlap, a
  booking link serves one request, and a held request can always be reviewed.
\<close>

subsection \<open>Data\<close>

datatype PublicConsultationIntakeStatus = Consultation_pending | Consultation_converted
    | Consultation_dismissed

record PublicConsultationIntakeRecord =
  pci_id :: string
  pci_firmId :: string
  pci_status :: PublicConsultationIntakeStatus
  pci_clientName :: string
  pci_telephone :: string
  pci_email :: "string option"
  pci_opposingPartyNames :: "string list"
  pci_matterDescription :: string
  pci_sourceUrl :: "string option"
  pci_disclosureAcceptedAt :: string
  pci_submittedAt :: string
  pci_reviewedByUserId :: "string option"
  pci_reviewedAt :: "string option"
  pci_dismissedReason :: "string option"
  pci_convertedMatterId :: "string option"
  pci_notificationEmailId :: "string option"
  pci_metadata :: "(string \<times> js_value) list"

record AppointmentBookingTentativeHoldInput =
  hold_firmId :: string
  hold_profileId :: string
  hold_startsAt :: string
  hold_endsAt :: string
  hold_event :: CalendarEventRecord
  hold_request :: AppointmentBookingRequestRecord
  hold_attendee :: "CalendarEventAttendeeRecord option"
  hold_publicConsultationIntake :: "PublicConsultationIntakeRecord option"
  hold_linkId :: "string option"
  hold_usedAt :: "string option"

record AppointmentBookingTentativeHoldResult =
  held_event :: CalendarEventRecord
  held_request :: AppointmentBookingRequestRecord
  held_publicConsultationIntake :: "PublicConsultationIntakeRecord option"

record AppointmentBookingReviewInput =
  rev_firmId :: string
  rev_requestId :: string
  rev_status :: AppointmentBookingRequestStatus
  rev_reviewedAt :: string
  rev_reviewedByUserId :: string
  rev_dismissedReason :: "string option"

record AppointmentBookingReviewResult =
  revd_request :: AppointmentBookingRequestRecord
  revd_event :: CalendarEventRecord

record AppointmentBookingAgingReviewInput =
  agein_firmId :: string
  agein_requestId :: string
  agein_decision :: ReviewAgingDecision
  agein_decidedAt :: string
  agein_decidedByUserId :: string
  agein_cueStatus :: ReviewAgingStatus
  agein_ageHours :: int

record MemoryPublicConsultationIntakeStore =
  pcs_publicConsultationIntakes :: "PublicConsultationIntakeRecord list"

record MemoryAppointmentBookingStore =
  abs_appointmentBookingProfiles :: "AppointmentBookingProfileRecord list"
  abs_appointmentBookingLinks :: "AppointmentBookingLinkRecord list"
  abs_appointmentBookingRequests :: "AppointmentBookingRequestRecord list"

record BookingWorld =
  bw_booking :: MemoryAppointmentBookingStore
  bw_calendar :: MemoryCalendarEventStore
  bw_intakes :: MemoryPublicConsultationIntakeStore

subsection \<open>Intakes\<close>

definition getMemoryPublicConsultationIntake ::
  "MemoryPublicConsultationIntakeStore \<Rightarrow> string \<Rightarrow> string \<Rightarrow> PublicConsultationIntakeRecord option" where
  "getMemoryPublicConsultationIntake store firmId intakeId =
     List.find (\<lambda>intake. pci_firmId intake = firmId \<and> pci_id intake = intakeId) (pcs_publicConsultationIntakes store)"

definition createMemoryPublicConsultationIntake ::
  "MemoryPublicConsultationIntakeStore \<Rightarrow> PublicConsultationIntakeRecord
   \<Rightarrow> PublicConsultationIntakeRecord result \<times> MemoryPublicConsultationIntakeStore" where
  "createMemoryPublicConsultationIntake store intake =
     (if list_ex (\<lambda>c. pci_firmId c = pci_firmId intake \<and> pci_id c = pci_id intake) (pcs_publicConsultationIntakes store)
      then (throw (''Public consultation intake '' @ pci_id intake @ '' already exists''), store)
      else (Inr intake, store\<lparr>pcs_publicConsultationIntakes := intake # pcs_publicConsultationIntakes store\<rparr>))"

definition slice_to :: "int \<Rightarrow> 'a list \<Rightarrow> 'a list" where
  "slice_to n xs = take (nat (if n < 0 then int (length xs) + n else n)) xs"

definition listMemoryPublicConsultationIntakes ::
  "(string \<Rightarrow> string \<Rightarrow> int) \<Rightarrow> MemoryPublicConsultationIntakeStore \<Rightarrow> string \<Rightarrow> PublicConsultationIntakeStatus option \<Rightarrow> int option
   \<Rightarrow> PublicConsultationIntakeRecord list" where
  "listMemoryPublicConsultationIntakes collate store firmId status limit =
     slice_to (or_else limit 50)
       (js_sort (\<lambda>left right. collate (pci_submittedAt right) (pci_submittedAt left))
         (filter (\<lambda>intake. pci_firmId intake = firmId \<and> (status = None \<or> Some (pci_status intake) = status))
           (pcs_publicConsultationIntakes store)))"

text \<open>A key of the update object may be absent (\<open>None\<close>) or present with a value, undefined included.\<close>

record PublicConsultationIntakeUpdateInput =
  pciup_status :: "PublicConsultationIntakeStatus option"
  pciup_reviewedByUserId :: "string option option"
  pciup_reviewedAt :: "string option option"
  pciup_dismissedReason :: "string option option"
  pciup_convertedMatterId :: "string option option"
  pciup_notificationEmailId :: "string option option"
  pciup_metadata :: "((string \<times> js_value) list) option"

definition updateMemoryPublicConsultationIntake ::
  "MemoryPublicConsultationIntakeStore \<Rightarrow> string \<Rightarrow> string \<Rightarrow> PublicConsultationIntakeUpdateInput
   \<Rightarrow> PublicConsultationIntakeRecord option \<times> MemoryPublicConsultationIntakeStore" where
  "updateMemoryPublicConsultationIntake store firmId intakeId updates =
     (let wanted = (\<lambda>intake. pci_firmId intake = firmId \<and> pci_id intake = intakeId);
          next = (\<lambda>current. current\<lparr>pci_status := or_else (pciup_status updates) (pci_status current),
            pci_reviewedByUserId := or_else (pciup_reviewedByUserId updates) (pci_reviewedByUserId current),
            pci_reviewedAt := or_else (pciup_reviewedAt updates) (pci_reviewedAt current),
            pci_dismissedReason := or_else (pciup_dismissedReason updates) (pci_dismissedReason current),
            pci_convertedMatterId := or_else (pciup_convertedMatterId updates) (pci_convertedMatterId current),
            pci_notificationEmailId := or_else (pciup_notificationEmailId updates) (pci_notificationEmailId current),
            pci_metadata := or_else (pciup_metadata updates) (pci_metadata current)\<rparr>)
      in (map_option next (List.find wanted (pcs_publicConsultationIntakes store)),
          store\<lparr>pcs_publicConsultationIntakes := update_first wanted next (pcs_publicConsultationIntakes store)\<rparr>))"

subsection \<open>Profiles, links and requests\<close>

definition slotTaken :: "string \<Rightarrow> string \<Rightarrow> CalendarEventRecord \<Rightarrow> bool" where
  "slotTaken startsAt endsAt event =
     (cal_status event \<noteq> Event_cancelled \<and> \<not> truthy (cal_deletedAt event)
      \<and> js_less (date_parse startsAt) (date_parse (cal_endsAt event))
      \<and> js_less (date_parse (cal_startsAt event)) (date_parse endsAt))"

definition listMemoryAppointmentBookingProfiles ::
  "(string \<Rightarrow> string \<Rightarrow> int) \<Rightarrow> MemoryAppointmentBookingStore \<Rightarrow> string \<Rightarrow> AppointmentBookingProfileStatus option
   \<Rightarrow> AppointmentBookingProfileRecord list" where
  "listMemoryAppointmentBookingProfiles collate store firmId status =
     js_sort (\<lambda>left right. collate (bprof_label left) (bprof_label right))
       (filter (\<lambda>profile. status = None \<or> Some (bprof_status profile) = status)
         (filter (\<lambda>profile. bprof_firmId profile = firmId) (abs_appointmentBookingProfiles store)))"

definition getMemoryAppointmentBookingProfile ::
  "MemoryAppointmentBookingStore \<Rightarrow> string \<Rightarrow> string \<Rightarrow> AppointmentBookingProfileRecord option" where
  "getMemoryAppointmentBookingProfile store firmId profileId =
     List.find (\<lambda>profile. bprof_firmId profile = firmId \<and> bprof_id profile = profileId) (abs_appointmentBookingProfiles store)"

definition upsertMemoryAppointmentBookingProfile ::
  "MemoryAppointmentBookingStore \<Rightarrow> AppointmentBookingProfileRecord
   \<Rightarrow> AppointmentBookingProfileRecord \<times> MemoryAppointmentBookingStore" where
  "upsertMemoryAppointmentBookingProfile store profile =
     (let same = (\<lambda>c. bprof_firmId c = bprof_firmId profile \<and> bprof_id c = bprof_id profile);
          profiles = abs_appointmentBookingProfiles store
      in (profile, store\<lparr>abs_appointmentBookingProfiles :=
           (if list_ex same profiles then update_first same (\<lambda>_. profile) profiles else profiles @ [profile])\<rparr>))"

definition createMemoryAppointmentBookingLink ::
  "MemoryAppointmentBookingStore \<Rightarrow> AppointmentBookingLinkRecord
   \<Rightarrow> AppointmentBookingLinkRecord result \<times> MemoryAppointmentBookingStore" where
  "createMemoryAppointmentBookingLink store link =
     (if list_ex (\<lambda>c. blink_tokenHash c = blink_tokenHash link) (abs_appointmentBookingLinks store)
      then (throw ''Appointment booking link token hash already exists'', store)
      else (Inr link, store\<lparr>abs_appointmentBookingLinks := link # abs_appointmentBookingLinks store\<rparr>))"

definition getMemoryAppointmentBookingLinkByTokenHash ::
  "MemoryAppointmentBookingStore \<Rightarrow> string \<Rightarrow> AppointmentBookingLinkRecord option" where
  "getMemoryAppointmentBookingLinkByTokenHash store tokenHash =
     List.find (\<lambda>link. blink_tokenHash link = tokenHash) (abs_appointmentBookingLinks store)"

definition listMemoryAppointmentBookingRequests ::
  "(string \<Rightarrow> string \<Rightarrow> int) \<Rightarrow> MemoryAppointmentBookingStore \<Rightarrow> string \<Rightarrow> AppointmentBookingRequestStatus option \<Rightarrow> string option
   \<Rightarrow> AppointmentBookingRequestRecord list" where
  "listMemoryAppointmentBookingRequests collate store firmId status matterId =
     js_sort (\<lambda>left right. collate (breq_submittedAt right) (breq_submittedAt left))
       (filter (\<lambda>request. \<not> truthy matterId \<or> breq_matterId request = matterId)
         (filter (\<lambda>request. status = None \<or> Some (breq_status request) = status)
           (filter (\<lambda>request. breq_firmId request = firmId) (abs_appointmentBookingRequests store))))"

definition requestOf :: "string \<Rightarrow> string \<Rightarrow> AppointmentBookingRequestRecord \<Rightarrow> bool" where
  "requestOf firmId requestId request = (breq_firmId request = firmId \<and> breq_id request = requestId)"

definition getMemoryAppointmentBookingRequest ::
  "MemoryAppointmentBookingStore \<Rightarrow> string \<Rightarrow> string \<Rightarrow> AppointmentBookingRequestRecord option" where
  "getMemoryAppointmentBookingRequest store firmId requestId =
     List.find (requestOf firmId requestId) (abs_appointmentBookingRequests store)"

subsection \<open>Holding a slot\<close>

definition linkOf :: "string \<Rightarrow> string option \<Rightarrow> AppointmentBookingLinkRecord \<Rightarrow> bool" where
  "linkOf firmId linkId link = (blink_firmId link = firmId \<and> Some (blink_id link) = linkId)"

definition checkHoldLink :: "MemoryAppointmentBookingStore \<Rightarrow> AppointmentBookingTentativeHoldInput \<Rightarrow> unit result" where
  "checkHoldLink store input =
     (if truthy (hold_linkId input) \<and> truthy (hold_usedAt input)
      then (case List.find (linkOf (hold_firmId input) (hold_linkId input)) (abs_appointmentBookingLinks store) of
          None \<Rightarrow> throw ''Appointment booking link is unavailable: not_found''
        | Some link \<Rightarrow> run_checks
            [throw_if (truthy (blink_revokedAt link)) ''Appointment booking link is unavailable: revoked'',
             throw_if (truthy (blink_usedAt link)) ''Appointment booking link is unavailable: used'',
             throw_if (js_le (date_parse (blink_expiresAt link)) (date_parse (or_else (hold_usedAt input) [])))
               ''Appointment booking link is unavailable: expired''])
      else Inr ())"

definition holdIntake ::
  "MemoryPublicConsultationIntakeStore \<Rightarrow> PublicConsultationIntakeRecord option
   \<Rightarrow> PublicConsultationIntakeRecord option result \<times> MemoryPublicConsultationIntakeStore" where
  "holdIntake store intake =
     (case intake of
        None \<Rightarrow> (Inr None, store)
      | Some record \<Rightarrow> (case createMemoryPublicConsultationIntake store record of
            (Inl e, store') \<Rightarrow> (Inl e, store')
          | (Inr created, store') \<Rightarrow> (Inr (Some created), store')))"

definition holdAttendee ::
  "MemoryCalendarEventStore \<Rightarrow> CalendarEventAttendeeRecord option \<Rightarrow> unit result \<times> MemoryCalendarEventStore" where
  "holdAttendee calendar attendee =
     (case attendee of
        None \<Rightarrow> (Inr (), calendar)
      | Some record \<Rightarrow> (case upsertMemoryCalendarEventAttendee calendar record of
            (Inl e, calendar') \<Rightarrow> (Inl e, calendar')
          | (Inr _, calendar') \<Rightarrow> (Inr (), calendar')))"

definition withHeldRequest ::
  "MemoryAppointmentBookingStore \<Rightarrow> AppointmentBookingTentativeHoldInput \<Rightarrow> MemoryAppointmentBookingStore" where
  "withHeldRequest store input =
     store\<lparr>abs_appointmentBookingRequests := hold_request input # abs_appointmentBookingRequests store,
       abs_appointmentBookingLinks :=
         (if truthy (hold_linkId input) \<and> truthy (hold_usedAt input)
          then map (\<lambda>link. if linkOf (hold_firmId input) (hold_linkId input) link
              then link\<lparr>blink_usedAt := hold_usedAt input, blink_updatedAt := or_else (hold_usedAt input) []\<rparr> else link)
            (abs_appointmentBookingLinks store)
          else abs_appointmentBookingLinks store)\<rparr>"

definition writeHold ::
  "(string \<Rightarrow> string \<Rightarrow> int) \<Rightarrow> BookingWorld \<Rightarrow> AppointmentBookingTentativeHoldInput
   \<Rightarrow> AppointmentBookingTentativeHoldResult result \<times> BookingWorld" where
  "writeHold collate w input =
     (case holdIntake (bw_intakes w) (hold_publicConsultationIntake input) of
        (Inl e, intakes) \<Rightarrow> (Inl e, w\<lparr>bw_intakes := intakes\<rparr>)
      | (Inr intake, intakes) \<Rightarrow>
        (case upsertMemoryCalendarEvent collate (bw_calendar w) (hold_event input) of
          (Inl e, calendar) \<Rightarrow> (Inl e, w\<lparr>bw_intakes := intakes, bw_calendar := calendar\<rparr>)
        | (Inr event, calendar) \<Rightarrow>
          (case holdAttendee calendar (hold_attendee input) of
            (Inl e, calendar') \<Rightarrow> (Inl e, w\<lparr>bw_intakes := intakes, bw_calendar := calendar'\<rparr>)
          | (Inr _, calendar') \<Rightarrow>
              (Inr \<lparr>held_event = event, held_request = hold_request input, held_publicConsultationIntake = intake\<rparr>,
               \<lparr>bw_booking = withHeldRequest (bw_booking w) input, bw_calendar = calendar', bw_intakes = intakes\<rparr>))))"

definition slotBusy :: "BookingWorld \<Rightarrow> AppointmentBookingTentativeHoldInput \<Rightarrow> bool" where
  "slotBusy w input =
     list_ex (\<lambda>event. cal_firmId event = hold_firmId input \<and> slotTaken (hold_startsAt input) (hold_endsAt input) event)
       (cst_calendarEvents (bw_calendar w))"

definition createMemoryAppointmentBookingTentativeHold ::
  "(string \<Rightarrow> string \<Rightarrow> int) \<Rightarrow> BookingWorld \<Rightarrow> AppointmentBookingTentativeHoldInput
   \<Rightarrow> AppointmentBookingTentativeHoldResult result \<times> BookingWorld" where
  "createMemoryAppointmentBookingTentativeHold collate w input =
     (if getMemoryAppointmentBookingProfile (bw_booking w) (hold_firmId input) (hold_profileId input) = None
      then (throw (''Appointment booking profile '' @ hold_profileId input @ '' was not found''), w)
      else case checkHoldLink (bw_booking w) input of
        Inl e \<Rightarrow> (Inl e, w)
      | Inr _ \<Rightarrow>
        if slotBusy w input then (throw ''Appointment booking slot is no longer available'', w)
        else writeHold collate w input)"

subsection \<open>Reviewing a hold\<close>

definition reviewedRequest :: "AppointmentBookingReviewInput \<Rightarrow> AppointmentBookingRequestRecord \<Rightarrow> AppointmentBookingRequestRecord" where
  "reviewedRequest input request =
     request\<lparr>breq_status := rev_status input, breq_reviewedAt := Some (rev_reviewedAt input),
       breq_reviewedByUserId := Some (rev_reviewedByUserId input),
       breq_dismissedReason := (if rev_status input = Booking_dismissed then rev_dismissedReason input else None)\<rparr>"

definition reviewedEvent :: "AppointmentBookingReviewInput \<Rightarrow> CalendarEventRecord \<Rightarrow> CalendarEventRecord" where
  "reviewedEvent input event =
     event\<lparr>cal_status := (if rev_status input = Booking_confirmed then Event_confirmed else Event_cancelled),
       cal_sequence := cal_sequence event + 1, cal_updatedAt := rev_reviewedAt input,
       cal_updatedByUserId := rev_reviewedByUserId input\<rparr>"

definition reviewMemoryAppointmentBookingRequest ::
  "BookingWorld \<Rightarrow> AppointmentBookingReviewInput \<Rightarrow> AppointmentBookingReviewResult option \<times> BookingWorld" where
  "reviewMemoryAppointmentBookingRequest w input =
     (let wanted = requestOf (rev_firmId input) (rev_requestId input) in
      case List.find wanted (abs_appointmentBookingRequests (bw_booking w)) of
        None \<Rightarrow> (None, w)
      | Some request \<Rightarrow>
          let held = (\<lambda>event. cal_firmId event = rev_firmId input \<and> cal_id event = breq_calendarEventId request) in
          (case List.find held (cst_calendarEvents (bw_calendar w)) of
             None \<Rightarrow> (None, w)
           | Some event \<Rightarrow>
               (Some \<lparr>revd_request = reviewedRequest input request, revd_event = reviewedEvent input event\<rparr>,
                w\<lparr>bw_booking := (bw_booking w)\<lparr>abs_appointmentBookingRequests :=
                      update_first wanted (reviewedRequest input) (abs_appointmentBookingRequests (bw_booking w))\<rparr>,
                  bw_calendar := (bw_calendar w)\<lparr>cst_calendarEvents :=
                      update_first held (reviewedEvent input) (cst_calendarEvents (bw_calendar w))\<rparr>\<rparr>)))"

definition agingReviewed :: "AppointmentBookingAgingReviewInput \<Rightarrow> AppointmentBookingRequestRecord \<Rightarrow> AppointmentBookingRequestRecord" where
  "agingReviewed input request =
     request\<lparr>breq_reviewAgingDecision := Some (agein_decision input), breq_reviewAgingDecidedAt := Some (agein_decidedAt input),
       breq_reviewAgingDecidedByUserId := Some (agein_decidedByUserId input),
       breq_reviewAgingCueStatus := Some (agein_cueStatus input), breq_reviewAgingAgeHours := Some (agein_ageHours input)\<rparr>"

definition recordMemoryAppointmentBookingAgingReviewDecision ::
  "MemoryAppointmentBookingStore \<Rightarrow> AppointmentBookingAgingReviewInput
   \<Rightarrow> AppointmentBookingRequestRecord option \<times> MemoryAppointmentBookingStore" where
  "recordMemoryAppointmentBookingAgingReviewDecision store input =
     (let wanted = requestOf (agein_firmId input) (agein_requestId input) in
      (map_option (agingReviewed input) (List.find wanted (abs_appointmentBookingRequests store)),
       store\<lparr>abs_appointmentBookingRequests :=
         update_first wanted (agingReviewed input) (abs_appointmentBookingRequests store)\<rparr>))"

subsection \<open>The calls as steps\<close>

text \<open>
  Inputs are those of apps/api/src/routes/appointment-booking.ts. A hold carries an event and a
  request made for the same firm, times and link, both under new ids, and stamps the link it uses
  (\<open>createTentativeHold\<close>); a link is created under a new id; a request is reviewed only while it is
  held. Any call on the calendar may come in between, an upsert through the calendar excepted when it
  rewrites the event of a booking: nothing in the calendar keeps staff from moving it.
\<close>

definition booked :: "BookingWorld \<Rightarrow> string set" where
  "booked w = breq_calendarEventId ` set (abs_appointmentBookingRequests (bw_booking w))"

definition newHold :: "BookingWorld \<Rightarrow> AppointmentBookingTentativeHoldInput \<Rightarrow> bool" where
  "newHold w input =
     (cal_firmId (hold_event input) = hold_firmId input \<and> cal_startsAt (hold_event input) = hold_startsAt input
      \<and> cal_endsAt (hold_event input) = hold_endsAt input \<and> cal_status (hold_event input) = Event_tentative
      \<and> list_all (\<lambda>e. cal_id e \<noteq> cal_id (hold_event input)) (cst_calendarEvents (bw_calendar w))
      \<and> breq_firmId (hold_request input) = hold_firmId input \<and> breq_calendarEventId (hold_request input) = cal_id (hold_event input)
      \<and> breq_status (hold_request input) = Booking_tentative_hold \<and> breq_linkId (hold_request input) = hold_linkId input
      \<and> (truthy (hold_linkId input) \<longrightarrow> truthy (hold_usedAt input))
      \<and> getMemoryAppointmentBookingRequest (bw_booking w) (hold_firmId input) (breq_id (hold_request input)) = None)"

definition newLink :: "BookingWorld \<Rightarrow> AppointmentBookingLinkRecord \<Rightarrow> bool" where
  "newLink w link = list_all (\<lambda>k. blink_firmId k = blink_firmId link \<longrightarrow> blink_id k \<noteq> blink_id link)
     (abs_appointmentBookingLinks (bw_booking w))"

definition reviewable :: "BookingWorld \<Rightarrow> AppointmentBookingReviewInput \<Rightarrow> bool" where
  "reviewable w input = (rev_status input \<noteq> Booking_tentative_hold
     \<and> (case getMemoryAppointmentBookingRequest (bw_booking w) (rev_firmId input) (rev_requestId input) of
          None \<Rightarrow> False | Some request \<Rightarrow> breq_status request = Booking_tentative_hold))"

definition calendar_safe :: "(string \<Rightarrow> string \<Rightarrow> int) \<Rightarrow> BookingWorld \<Rightarrow> MemoryCalendarEventStore \<Rightarrow> bool" where
  "calendar_safe collate w c = (events_kept (bw_calendar w) c \<or> cst_calendarEvents c = cst_calendarEvents (bw_calendar w)
     \<or> (\<exists>event r. upsertMemoryCalendarEvent collate (bw_calendar w) event = (r, c) \<and> cal_id event \<notin> booked w))"

inductive booking_step :: "(string \<Rightarrow> string \<Rightarrow> int) \<Rightarrow> BookingWorld \<Rightarrow> BookingWorld \<Rightarrow> bool" for collate where
  step_profile: "upsertMemoryAppointmentBookingProfile (bw_booking w) profile = (p, b)
    \<Longrightarrow> booking_step collate w (w\<lparr>bw_booking := b\<rparr>)"
| step_link: "createMemoryAppointmentBookingLink (bw_booking w) link = (k, b) \<Longrightarrow> newLink w link
    \<Longrightarrow> booking_step collate w (w\<lparr>bw_booking := b\<rparr>)"
| step_hold: "createMemoryAppointmentBookingTentativeHold collate w input = (h, v) \<Longrightarrow> newHold w input
    \<Longrightarrow> booking_step collate w v"
| step_review: "reviewMemoryAppointmentBookingRequest w ri = (r, v) \<Longrightarrow> reviewable w ri \<Longrightarrow> booking_step collate w v"
| step_aging: "recordMemoryAppointmentBookingAgingReviewDecision (bw_booking w) ai = (a, b)
    \<Longrightarrow> booking_step collate w (w\<lparr>bw_booking := b\<rparr>)"
| step_calendar: "calendar_step collate (bw_calendar w) c \<Longrightarrow> calendar_safe collate w c
    \<Longrightarrow> booking_step collate w (w\<lparr>bw_calendar := c\<rparr>)"

definition no_bookings :: "BookingWorld \<Rightarrow> bool" where
  "no_bookings w = (no_calendar (bw_calendar w) \<and> abs_appointmentBookingRequests (bw_booking w) = []
     \<and> abs_appointmentBookingLinks (bw_booking w) = [])"

subsection \<open>The invariant\<close>

definition blocks :: "CalendarEventRecord \<Rightarrow> bool" where
  "blocks e = (cal_status e \<noteq> Event_cancelled \<and> \<not> truthy (cal_deletedAt e))"

definition clash :: "CalendarEventRecord \<Rightarrow> CalendarEventRecord \<Rightarrow> bool" where
  "clash a b = (js_less (date_parse (cal_startsAt a)) (date_parse (cal_endsAt b))
     \<and> js_less (date_parse (cal_startsAt b)) (date_parse (cal_endsAt a)))"

definition no_clash :: "string set \<Rightarrow> CalendarEventRecord list \<Rightarrow> bool" where
  "no_clash B es = (\<forall>a \<in> set es. \<forall>b \<in> set es. cal_id a \<in> B \<and> cal_id b \<in> B \<and> cal_id a \<noteq> cal_id b
     \<and> cal_firmId a = cal_firmId b \<and> blocks a \<and> blocks b \<longrightarrow> \<not> clash a b)"

definition eventStatusFor :: "AppointmentBookingRequestStatus \<Rightarrow> CalendarEventStatus" where
  "eventStatusFor status = (case status of Booking_tentative_hold \<Rightarrow> Event_tentative
     | Booking_confirmed \<Rightarrow> Event_confirmed | Booking_dismissed \<Rightarrow> Event_cancelled)"

definition in_step :: "AppointmentBookingRequestRecord \<Rightarrow> CalendarEventRecord \<Rightarrow> bool" where
  "in_step r e = (cal_id e = breq_calendarEventId r \<and> cal_firmId e = breq_firmId r \<and> cal_status e = eventStatusFor (breq_status r))"

definition all_in_step :: "AppointmentBookingRequestRecord list \<Rightarrow> CalendarEventRecord list \<Rightarrow> bool" where
  "all_in_step rs es = (\<forall>r \<in> set rs. \<exists>e \<in> set es. in_step r e)"

definition keys_ok :: "AppointmentBookingRequestRecord list \<Rightarrow> bool" where
  "keys_ok rs = (distinct (map breq_calendarEventId rs) \<and> distinct (map (\<lambda>r. (breq_firmId r, breq_id r)) rs)
     \<and> (\<forall>a \<in> set rs. \<forall>b \<in> set rs. truthy (breq_linkId a) \<and> breq_firmId a = breq_firmId b \<and> breq_linkId a = breq_linkId b
         \<longrightarrow> breq_calendarEventId a = breq_calendarEventId b))"

definition links_used :: "AppointmentBookingRequestRecord list \<Rightarrow> AppointmentBookingLinkRecord list \<Rightarrow> bool" where
  "links_used rs ks = (\<forall>r \<in> set rs. truthy (breq_linkId r) \<longrightarrow>
     list_ex (linkOf (breq_firmId r) (breq_linkId r)) ks
     \<and> (\<forall>k \<in> set ks. linkOf (breq_firmId r) (breq_linkId r) k \<longrightarrow> truthy (blink_usedAt k)))"

definition booking_inv :: "BookingWorld \<Rightarrow> bool" where
  "booking_inv w =
     (calendar_inv (bw_calendar w)
      \<and> all_in_step (abs_appointmentBookingRequests (bw_booking w)) (cst_calendarEvents (bw_calendar w))
      \<and> keys_ok (abs_appointmentBookingRequests (bw_booking w))
      \<and> links_used (abs_appointmentBookingRequests (bw_booking w)) (abs_appointmentBookingLinks (bw_booking w))
      \<and> no_clash (booked w) (cst_calendarEvents (bw_calendar w)))"

subsubsection \<open>Changes that keep requests and events\<close>

definition same_keys :: "AppointmentBookingRequestRecord \<Rightarrow> AppointmentBookingRequestRecord \<Rightarrow> bool" where
  "same_keys r r' = (breq_calendarEventId r' = breq_calendarEventId r \<and> breq_firmId r' = breq_firmId r
     \<and> breq_id r' = breq_id r \<and> breq_linkId r' = breq_linkId r)"

lemma same_keys_refl [simp]: "same_keys r r"
  by (simp add: same_keys_def)

lemma same_keys_kept:
  assumes "list_all2 same_keys rs qs"
  shows "keys_ok rs \<Longrightarrow> keys_ok qs" and "links_used rs ks \<Longrightarrow> links_used qs ks"
    and "breq_calendarEventId ` set qs = breq_calendarEventId ` set rs"
proof -
  have maps: "map breq_calendarEventId rs = map breq_calendarEventId qs"
    "map (\<lambda>r. (breq_firmId r, breq_id r)) rs = map (\<lambda>r. (breq_firmId r, breq_id r)) qs"
    by (rule list_all2_map_eq [OF assms]; simp add: same_keys_def)+
  show "breq_calendarEventId ` set qs = breq_calendarEventId ` set rs"
    using maps(1) by (metis list.set_map)
  show "links_used qs ks" if "links_used rs ks"
    using that list_all2_in_right [OF assms] unfolding links_used_def same_keys_def by metis
  show "keys_ok qs" if ok: "keys_ok rs"
    unfolding keys_ok_def
  proof (intro conjI ballI impI)
    show "distinct (map breq_calendarEventId qs)" "distinct (map (\<lambda>r. (breq_firmId r, breq_id r)) qs)"
      using ok unfolding keys_ok_def maps by blast+
  next
    fix a b assume ab: "a \<in> set qs" "b \<in> set qs"
      and c: "truthy (breq_linkId a) \<and> breq_firmId a = breq_firmId b \<and> breq_linkId a = breq_linkId b"
    obtain x y where "x \<in> set rs" "same_keys x a" "y \<in> set rs" "same_keys y b"
      using list_all2_in_right [OF assms] ab by blast
    then show "breq_calendarEventId a = breq_calendarEventId b"
      using ok c unfolding keys_ok_def same_keys_def by metis
  qed
qed

lemma no_clash_kept:
  assumes "no_clash B es"
    and "\<And>f. f \<in> set fs \<Longrightarrow> cal_id f \<in> B \<Longrightarrow> \<exists>e \<in> set es. cal_id e = cal_id f \<and> cal_firmId e = cal_firmId f
      \<and> cal_startsAt e = cal_startsAt f \<and> cal_endsAt e = cal_endsAt f \<and> (blocks f \<longrightarrow> blocks e)"
  shows "no_clash B fs"
  unfolding no_clash_def
proof (intro ballI impI)
  fix a b assume "a \<in> set fs" "b \<in> set fs" and c: "cal_id a \<in> B \<and> cal_id b \<in> B \<and> cal_id a \<noteq> cal_id b
    \<and> cal_firmId a = cal_firmId b \<and> blocks a \<and> blocks b"
  then obtain x y where "x \<in> set es" "y \<in> set es"
    and x: "cal_id x = cal_id a" "cal_firmId x = cal_firmId a" "cal_startsAt x = cal_startsAt a" "cal_endsAt x = cal_endsAt a" "blocks x"
    and y: "cal_id y = cal_id b" "cal_firmId y = cal_firmId b" "cal_startsAt y = cal_startsAt b" "cal_endsAt y = cal_endsAt b" "blocks y"
    using assms(2) [of a] assms(2) [of b] by metis
  then have "\<not> clash x y" using assms(1) c unfolding no_clash_def by metis
  then show "\<not> clash a b" using x y by (simp add: clash_def)
qed

lemma all_in_step_kept:
  assumes "all_in_step rs es"
    and "\<And>e. e \<in> set es \<Longrightarrow> cal_id e \<in> breq_calendarEventId ` set rs \<Longrightarrow>
      \<exists>f \<in> set fs. cal_id f = cal_id e \<and> cal_firmId f = cal_firmId e \<and> cal_status f = cal_status e"
  shows "all_in_step rs fs"
  unfolding all_in_step_def
proof
  fix r assume r: "r \<in> set rs"
  then obtain e where e: "e \<in> set es" "in_step r e" using assms(1) unfolding all_in_step_def by blast
  then have "cal_id e \<in> breq_calendarEventId ` set rs" using r by (simp add: in_step_def)
  then show "\<exists>e \<in> set fs. in_step r e" using assms(2) [OF e(1)] e(2) unfolding in_step_def by metis
qed

lemma all_in_step_requests:
  assumes "all_in_step rs es" "list_all2 (\<lambda>r q. same_keys r q \<and> breq_status q = breq_status r) rs qs"
  shows "all_in_step qs es"
  unfolding all_in_step_def
proof
  fix q assume "q \<in> set qs"
  then obtain r where "r \<in> set rs" "same_keys r q" "breq_status q = breq_status r"
    using list_all2_in_right [OF assms(2)] by blast
  then show "\<exists>e \<in> set es. in_step q e" using assms(1) unfolding all_in_step_def in_step_def same_keys_def by metis
qed

lemma untouched_fields:
  assumes "event_untouched e f"
  shows "cal_id f = cal_id e" "cal_firmId f = cal_firmId e" "cal_startsAt f = cal_startsAt e" "cal_endsAt f = cal_endsAt e"
    "cal_status f = cal_status e" "blocks f \<Longrightarrow> blocks e"
  using assms by (auto simp: event_untouched_def event_kept_def sameCalendar_def blocks_def activeEvent_def)

lemma events_kept_pairs:
  assumes "events_kept c d"
  shows "e \<in> set (cst_calendarEvents c) \<Longrightarrow> \<exists>f \<in> set (cst_calendarEvents d). event_untouched e f"
    and "f \<in> set (cst_calendarEvents d) \<Longrightarrow> \<exists>e \<in> set (cst_calendarEvents c). event_untouched e f"
  using assms list_all2_in_left list_all2_in_right unfolding events_kept_def by fastforce+

subsubsection \<open>Calendar calls\<close>

text \<open>An upsert leaves every event with another id in the calendar, and adds none.\<close>

lemma upsert_others:
  assumes "upsertMemoryCalendarEvent collate c event = (r, d)" "cal_id e \<noteq> cal_id event"
  shows "e \<in> set (cst_calendarEvents d) \<longleftrightarrow> e \<in> set (cst_calendarEvents c)"
proof -
  have "e \<in> set fs \<longleftrightarrow> e \<in> set es" if "event_added es event fs" for es fs
    using that assms(2) by (auto simp: event_added_def)
  moreover have "e \<in> set fs \<longleftrightarrow> e \<in> set es" if repl: "event_replaced es event fs" for es fs
  proof -
    obtain as old bs new where "es = as @ old # bs" "fs = as @ new # bs" "cal_id old = cal_id event" "bare new = bare event"
      using repl unfolding event_replaced_def by blast
    then show ?thesis using assms(2) bare_fields [of new event] by auto
  qed
  ultimately show ?thesis using upsert_shape [OF assms(1)] by fastforce
qed

lemma calendar_inv_booking:
  assumes "booking_inv w" "calendar_inv c" "calendar_safe collate w c"
  shows "booking_inv (w\<lparr>bw_calendar := c\<rparr>)"
proof -
  have earlier: "\<exists>e \<in> set (cst_calendarEvents (bw_calendar w)). event_untouched e f"
    if "f \<in> set (cst_calendarEvents c)" "cal_id f \<in> booked w" for f
    using assms(3) that events_kept_pairs(2) [of "bw_calendar w" c f] upsert_others event_untouched_refl
    unfolding calendar_safe_def by metis
  have later: "\<exists>f \<in> set (cst_calendarEvents c). event_untouched e f"
    if "e \<in> set (cst_calendarEvents (bw_calendar w))" "cal_id e \<in> booked w" for e
    using assms(3) that events_kept_pairs(1) [of "bw_calendar w" c e] upsert_others event_untouched_refl
    unfolding calendar_safe_def by metis
  have "all_in_step (abs_appointmentBookingRequests (bw_booking w)) (cst_calendarEvents c)"
    by (rule all_in_step_kept [where es = "cst_calendarEvents (bw_calendar w)"])
      (use assms(1) later untouched_fields in \<open>fastforce simp: booking_inv_def booked_def\<close>)+
  moreover have "no_clash (booked w) (cst_calendarEvents c)"
    by (rule no_clash_kept [where es = "cst_calendarEvents (bw_calendar w)"])
      (use assms(1) earlier untouched_fields in \<open>fastforce simp: booking_inv_def\<close>)+
  ultimately show ?thesis using assms(1,2) by (simp add: booking_inv_def booked_def)
qed

subsubsection \<open>Links, profiles and aging decisions\<close>

lemma profile_inv: "upsertMemoryAppointmentBookingProfile (bw_booking w) profile = (p, b) \<Longrightarrow> booking_inv w
    \<Longrightarrow> booking_inv (w\<lparr>bw_booking := b\<rparr>)"
  by (auto simp: upsertMemoryAppointmentBookingProfile_def booking_inv_def booked_def Let_def)

lemma link_inv:
  assumes "createMemoryAppointmentBookingLink (bw_booking w) link = (k, b)" "newLink w link" "booking_inv w"
  shows "booking_inv (w\<lparr>bw_booking := b\<rparr>)"
proof -
  let ?ks = "abs_appointmentBookingLinks (bw_booking w)"
  have "b = bw_booking w \<or> b = (bw_booking w)\<lparr>abs_appointmentBookingLinks := link # ?ks\<rparr>"
    using assms(1) by (auto simp: createMemoryAppointmentBookingLink_def split: if_splits)
  moreover have "links_used rs (link # ?ks)" if used: "links_used rs ?ks" for rs
    unfolding links_used_def
  proof (intro ballI impI)
    fix r assume r: "r \<in> set rs" "truthy (breq_linkId r)"
    then have "list_ex (linkOf (breq_firmId r) (breq_linkId r)) ?ks" using used by (simp add: links_used_def)
    then have "\<not> linkOf (breq_firmId r) (breq_linkId r) link"
      using assms(2) unfolding newLink_def list_all_iff list_ex_iff linkOf_def by (metis option.inject)
    then show "list_ex (linkOf (breq_firmId r) (breq_linkId r)) (link # ?ks)
        \<and> (\<forall>k \<in> set (link # ?ks). linkOf (breq_firmId r) (breq_linkId r) k \<longrightarrow> truthy (blink_usedAt k))"
      using used r by (simp add: links_used_def)
  qed
  ultimately show ?thesis using assms(3) by (auto simp: booking_inv_def booked_def)
qed

lemma aging_inv:
  assumes "recordMemoryAppointmentBookingAgingReviewDecision (bw_booking w) ai = (a, b)" "booking_inv w"
  shows "booking_inv (w\<lparr>bw_booking := b\<rparr>)"
proof -
  let ?rs = "abs_appointmentBookingRequests (bw_booking w)"
  let ?qs = "update_first (requestOf (agein_firmId ai) (agein_requestId ai)) (agingReviewed ai) ?rs"
  have b: "b = (bw_booking w)\<lparr>abs_appointmentBookingRequests := ?qs\<rparr>"
    using assms(1) by (auto simp: recordMemoryAppointmentBookingAgingReviewDecision_def Let_def)
  have R: "list_all2 (\<lambda>r q. same_keys r q \<and> breq_status q = breq_status r) ?rs ?qs"
    by (rule list_all2_update_first) (simp_all add: same_keys_def agingReviewed_def)
  then have K: "list_all2 same_keys ?rs ?qs" by (rule list_all2_mono) simp
  show ?thesis
    using assms(2) all_in_step_requests [OF _ R] same_keys_kept [OF K] unfolding b
    by (simp add: booking_inv_def booked_def)
qed

subsubsection \<open>Reviews\<close>

lemma review_found:
  assumes "booking_inv w" "getMemoryAppointmentBookingRequest (bw_booking w) firmId requestId = Some r"
  shows "\<exists>e. List.find (\<lambda>e. cal_firmId e = firmId \<and> cal_id e = breq_calendarEventId r) (cst_calendarEvents (bw_calendar w)) = Some e
    \<and> in_step r e"
proof -
  let ?es = "cst_calendarEvents (bw_calendar w)"
  have r: "r \<in> set (abs_appointmentBookingRequests (bw_booking w))" "breq_firmId r = firmId"
    using find_Some_mem [OF assms(2) [unfolded getMemoryAppointmentBookingRequest_def]] by (simp_all add: requestOf_def)
  then obtain e where e: "e \<in> set ?es" "in_step r e" using assms(1) unfolding booking_inv_def all_in_step_def by blast
  have d: "distinct (map cal_id ?es)" using assms(1) by (simp add: booking_inv_def calendar_inv_def events_ok_def)
  have "List.find (\<lambda>x. cal_id x = cal_id e) ?es = Some e" by (rule find_by_key [OF d e(1)])
  then have "List.find (\<lambda>x. cal_firmId x = firmId \<and> cal_id x = cal_id e) ?es = Some e"
    by (rule find_weaken) (use e(2) r(2) in \<open>auto simp: in_step_def\<close>)
  then show ?thesis using e(2) by (auto simp: in_step_def)
qed

lemma review_shape:
  assumes "booking_inv w" "getMemoryAppointmentBookingRequest (bw_booking w) (rev_firmId ri) (rev_requestId ri) = Some r"
  shows "\<exists>as bs cs ds e. abs_appointmentBookingRequests (bw_booking w) = as @ r # bs \<and> cst_calendarEvents (bw_calendar w) = cs @ e # ds \<and> in_step r e
    \<and> reviewMemoryAppointmentBookingRequest w ri = (Some \<lparr>revd_request = reviewedRequest ri r, revd_event = reviewedEvent ri e\<rparr>,
        w\<lparr>bw_booking := (bw_booking w)\<lparr>abs_appointmentBookingRequests := as @ reviewedRequest ri r # bs\<rparr>,
          bw_calendar := (bw_calendar w)\<lparr>cst_calendarEvents := cs @ reviewedEvent ri e # ds\<rparr>\<rparr>)"
proof -
  let ?held = "\<lambda>e. cal_firmId e = rev_firmId ri \<and> cal_id e = breq_calendarEventId r"
  obtain e where e: "List.find ?held (cst_calendarEvents (bw_calendar w)) = Some e" "in_step r e"
    using review_found [OF assms] by blast
  have r: "List.find (requestOf (rev_firmId ri) (rev_requestId ri)) (abs_appointmentBookingRequests (bw_booking w)) = Some r"
    using assms(2) by (simp add: getMemoryAppointmentBookingRequest_def)
  obtain as bs cs ds where "abs_appointmentBookingRequests (bw_booking w) = as @ r # bs" "cst_calendarEvents (bw_calendar w) = cs @ e # ds"
    and "update_first (requestOf (rev_firmId ri) (rev_requestId ri)) (reviewedRequest ri) (abs_appointmentBookingRequests (bw_booking w))
        = as @ reviewedRequest ri r # bs"
    and "update_first ?held (reviewedEvent ri) (cst_calendarEvents (bw_calendar w)) = cs @ reviewedEvent ri e # ds"
    using update_first_split [OF r, of "reviewedRequest ri"] update_first_split [OF e(1), of "reviewedEvent ri"] by blast
  then show ?thesis
    using r e by (intro exI [of _ as] exI [of _ bs] exI [of _ cs] exI [of _ ds] exI [of _ e])
      (simp add: reviewMemoryAppointmentBookingRequest_def)
qed

lemma reviewed_keys: "same_keys r (reviewedRequest ri r)" "event_kept e (reviewedEvent ri e)"
  "cal_startsAt (reviewedEvent ri e) = cal_startsAt e" "cal_endsAt (reviewedEvent ri e) = cal_endsAt e"
  by (simp_all add: same_keys_def reviewedRequest_def event_kept_def reviewedEvent_def sameCalendar_def calendarScope_def activeEvent_def)

lemma reviewed_in_step: "rev_status ri \<noteq> Booking_tentative_hold \<Longrightarrow> in_step r e \<Longrightarrow> in_step (reviewedRequest ri r) (reviewedEvent ri e)"
  by (cases "rev_status ri") (simp_all add: in_step_def reviewedRequest_def reviewedEvent_def eventStatusFor_def)

lemma review_inv:
  assumes "reviewMemoryAppointmentBookingRequest w ri = (x, v)" "reviewable w ri" "booking_inv w"
  shows "booking_inv v"
proof -
  let ?rs = "abs_appointmentBookingRequests (bw_booking w)" and ?es = "cst_calendarEvents (bw_calendar w)"
  obtain r where r: "getMemoryAppointmentBookingRequest (bw_booking w) (rev_firmId ri) (rev_requestId ri) = Some r"
    "breq_status r = Booking_tentative_hold" and status: "rev_status ri \<noteq> Booking_tentative_hold"
    using assms(2) unfolding reviewable_def by (auto split: option.splits)
  obtain as bs cs ds e where rs: "?rs = as @ r # bs" and es: "?es = cs @ e # ds" and step: "in_step r e"
    and v: "v = w\<lparr>bw_booking := (bw_booking w)\<lparr>abs_appointmentBookingRequests := as @ reviewedRequest ri r # bs\<rparr>,
          bw_calendar := (bw_calendar w)\<lparr>cst_calendarEvents := cs @ reviewedEvent ri e # ds\<rparr>\<rparr>"
    using review_shape [OF assms(3) r(1)] assms(1) by (metis prod.inject)
  let ?qs = "as @ reviewedRequest ri r # bs" and ?fs = "cs @ reviewedEvent ri e # ds"
  have K: "list_all2 same_keys ?rs ?qs" unfolding rs
    by (intro list_all2_appendI list.rel_refl list_all2_Cons [THEN iffD2] conjI reviewed_keys) simp_all
  have E: "list_all2 event_kept ?es ?fs" unfolding es
    by (intro list_all2_appendI list.rel_refl list_all2_Cons [THEN iffD2] conjI reviewed_keys) simp_all
  have keys: "distinct (map breq_calendarEventId ?rs)" using assms(3) by (simp add: booking_inv_def keys_ok_def)
  have "all_in_step ?qs ?fs"
    unfolding all_in_step_def
  proof
    fix q assume "q \<in> set ?qs"
    then consider "q = reviewedRequest ri r" | "q \<in> set as \<union> set bs" by auto
    then show "\<exists>f \<in> set ?fs. in_step q f"
    proof cases
      case 1
      then show ?thesis using reviewed_in_step [OF status step] by auto
    next
      case 2
      then obtain f where f: "f \<in> set ?es" "in_step q f"
        using assms(3) rs unfolding booking_inv_def all_in_step_def by auto
      have "breq_calendarEventId q \<noteq> breq_calendarEventId r" using keys 2 unfolding rs by (auto simp: image_iff)
      then have "f \<noteq> e" using f(2) step by (auto simp: in_step_def)
      then show ?thesis using f es by auto
    qed
  qed
  moreover have "no_clash (booked w) ?fs"
  proof (rule no_clash_kept [where es = ?es])
    show "no_clash (booked w) ?es" using assms(3) by (simp add: booking_inv_def)
  next
    fix f assume "f \<in> set ?fs"
    then consider "f = reviewedEvent ri e" | "f \<in> set ?es" using es by auto
    then show "\<exists>x \<in> set ?es. cal_id x = cal_id f \<and> cal_firmId x = cal_firmId f \<and> cal_startsAt x = cal_startsAt f
        \<and> cal_endsAt x = cal_endsAt f \<and> (blocks f \<longrightarrow> blocks x)"
    proof cases
      case 1
      have "cal_status e = Event_tentative" using step r(2) by (simp add: in_step_def eventStatusFor_def)
      then have "blocks f \<longrightarrow> blocks e" using 1 by (simp add: blocks_def reviewedEvent_def)
      then show ?thesis using 1 es by (intro bexI [of _ e]) (simp_all add: reviewedEvent_def)
    qed blast
  qed
  moreover have "calendar_inv ((bw_calendar w)\<lparr>cst_calendarEvents := ?fs\<rparr>)"
    using assms(3) E by (intro calendar_inv_events) (simp_all add: booking_inv_def)
  ultimately show ?thesis
    using assms(3) same_keys_kept [OF K] unfolding v booking_inv_def booked_def by simp
qed

subsubsection \<open>Holds\<close>

lemma attendee_kept: "events_kept c (snd (holdAttendee c attendee))"
  using calendar_calls_keep_events(2) [of c]
  by (cases attendee) (auto simp: holdAttendee_def split: prod.splits sum.splits, (metis snd_conv)+)

text \<open>A hold changes nothing, or passes the checks and writes; the writes stop at the first that throws.\<close>

lemma hold_cases:
  assumes "createMemoryAppointmentBookingTentativeHold collate w input = (h, v)"
  shows "v = w \<and> \<not> is_ok h
    \<or> checkHoldLink (bw_booking w) input = Inr () \<and> \<not> slotBusy w input \<and> writeHold collate w input = (h, v)"
  using assms unfolding createMemoryAppointmentBookingTentativeHold_def
  by (auto split: sum.splits if_splits)

lemma write_cases:
  assumes "writeHold collate w input = (h, v)"
  shows "\<exists>i r c d. upsertMemoryCalendarEvent collate (bw_calendar w) (hold_event input) = (r, c) \<and> events_kept c d
    \<and> (\<not> is_ok h \<and> (v = w\<lparr>bw_intakes := i\<rparr> \<or> v = w\<lparr>bw_intakes := i, bw_calendar := d\<rparr>)
       \<or> is_ok h \<and> is_ok r \<and> v = \<lparr>bw_booking = withHeldRequest (bw_booking w) input, bw_calendar = d, bw_intakes = i\<rparr>)"
proof -
  obtain ri i where i: "holdIntake (bw_intakes w) (hold_publicConsultationIntake input) = (ri, i)" by force
  obtain r c where c: "upsertMemoryCalendarEvent collate (bw_calendar w) (hold_event input) = (r, c)" by force
  obtain ra d where d: "holdAttendee c (hold_attendee input) = (ra, d)" by force
  have kept: "events_kept c d" using attendee_kept [of c "hold_attendee input"] d by simp
  show ?thesis
  proof (cases r)
    case (Inl e)
    then show ?thesis using assms i c events_kept_refl [of c] unfolding writeHold_def
      by (intro exI [of _ i] exI [of _ r] exI [of _ c]) (cases ri; auto)
  next
    case (Inr e)
    then show ?thesis using assms i c d kept unfolding writeHold_def
      by (intro exI [of _ i] exI [of _ r] exI [of _ c] exI [of _ d]) (cases ri; cases ra; auto)
  qed
qed

lemma booked_in_calendar: "booking_inv w \<Longrightarrow> i \<in> booked w \<Longrightarrow> i \<in> cal_id ` set (cst_calendarEvents (bw_calendar w))"
  unfolding booking_inv_def all_in_step_def booked_def in_step_def by force

lemma new_event_unbooked: "newHold w input \<Longrightarrow> booking_inv w \<Longrightarrow> cal_id (hold_event input) \<notin> booked w"
  using booked_in_calendar unfolding newHold_def list_all_iff by fastforce

lemma held_calendar_inv:
  assumes "newHold w input" "booking_inv w"
    and "upsertMemoryCalendarEvent collate (bw_calendar w) (hold_event input) = (r, c)" "events_kept c d"
  shows "booking_inv (w\<lparr>bw_calendar := d\<rparr>)"
proof -
  let ?w = "w\<lparr>bw_calendar := c\<rparr>"
  have c: "calendar_inv c" using upsert_inv [OF assms(3)] assms(2) by (simp add: booking_inv_def)
  have "booking_inv ?w"
    using assms(2,3) c new_event_unbooked [OF assms(1,2)]
    by (intro calendar_inv_booking [of w c collate]) (auto simp: calendar_safe_def)
  moreover have "calendar_safe collate ?w d" using assms(4) by (simp add: calendar_safe_def)
  ultimately have "booking_inv (?w\<lparr>bw_calendar := d\<rparr>)"
    using calendar_inv_booking [OF _ events_kept_inv [OF assms(4) c]] by blast
  then show ?thesis by simp
qed

text \<open>The event of a successful hold stands in the calendar once, with the times that were free.\<close>

lemma held_event_stored:
  assumes "newHold w input" "upsertMemoryCalendarEvent collate (bw_calendar w) (hold_event input) = (r, c)" "is_ok r" "events_kept c d"
  shows "\<exists>f \<in> set (cst_calendarEvents d). event_untouched (hold_event input) f"
    and "\<And>f. f \<in> set (cst_calendarEvents d) \<Longrightarrow> event_untouched (hold_event input) f
      \<or> (\<exists>e \<in> set (cst_calendarEvents (bw_calendar w)). event_untouched e f)"
proof -
  have "\<not> event_replaced (cst_calendarEvents (bw_calendar w)) (hold_event input) fs" for fs
    using assms(1) unfolding newHold_def event_replaced_def list_all_iff by (auto simp: in_set_conv_decomp)
  then have c: "set (cst_calendarEvents c) = insert (hold_event input) (set (cst_calendarEvents (bw_calendar w)))"
    using upsert_shape [OF assms(2)] assms(3) by (auto simp: event_added_def)
  show "\<exists>f \<in> set (cst_calendarEvents d). event_untouched (hold_event input) f"
    using events_kept_pairs(1) [OF assms(4)] c by blast
  show "event_untouched (hold_event input) f \<or> (\<exists>e \<in> set (cst_calendarEvents (bw_calendar w)). event_untouched e f)"
    if f: "f \<in> set (cst_calendarEvents d)" for f
  proof -
    obtain e where "e \<in> set (cst_calendarEvents c)" "event_untouched e f" using events_kept_pairs(2) [OF assms(4) f] by blast
    then show ?thesis using c by auto
  qed
qed

lemma held_no_clash:
  assumes "newHold w input" "\<not> slotBusy w input" "no_clash (booked w) (cst_calendarEvents d)"
    and "cal_id (hold_event input) \<notin> booked w"
    and stored: "\<And>f. f \<in> set (cst_calendarEvents d) \<Longrightarrow> event_untouched (hold_event input) f
      \<or> (\<exists>e \<in> set (cst_calendarEvents (bw_calendar w)). event_untouched e f)"
  shows "no_clash (insert (cal_id (hold_event input)) (booked w)) (cst_calendarEvents d)"
proof -
  let ?new = "hold_event input"
  have new: "cal_firmId ?new = hold_firmId input" "cal_startsAt ?new = hold_startsAt input" "cal_endsAt ?new = hold_endsAt input"
    and fresh: "\<And>e. e \<in> set (cst_calendarEvents (bw_calendar w)) \<Longrightarrow> cal_id e \<noteq> cal_id ?new"
    using assms(1) by (auto simp: newHold_def list_all_iff)
  have free: "\<not> clash a b" if p: "a \<in> set (cst_calendarEvents d)" "b \<in> set (cst_calendarEvents d)" "cal_id a = cal_id ?new"
    "cal_id b \<noteq> cal_id ?new" "cal_firmId a = cal_firmId b" "blocks b" for a b
  proof -
    have a: "event_untouched ?new a" using stored [OF p(1)] fresh p(3) untouched_fields(1) by metis
    obtain e where e: "e \<in> set (cst_calendarEvents (bw_calendar w))" "event_untouched e b"
      using stored [OF p(2)] p(4) untouched_fields(1) by metis
    have "cal_firmId e = hold_firmId input" using untouched_fields(2) [OF a] untouched_fields(2) [OF e(2)] p(5) new(1) by simp
    then have "\<not> slotTaken (hold_startsAt input) (hold_endsAt input) e" using assms(2) e(1) by (auto simp: slotBusy_def list_ex_iff)
    then show ?thesis
      using untouched_fields [OF a] untouched_fields [OF e(2)] p(6) new by (simp add: slotTaken_def blocks_def clash_def)
  qed
  have sym: "clash a b = clash b a" for a b by (auto simp: clash_def)
  show ?thesis
    using free sym assms(3) unfolding no_clash_def by (metis insert_iff)
qed

lemma held_links:
  assumes "checkHoldLink (bw_booking w) input = Inr ()" "newHold w input"
    and used: "links_used (abs_appointmentBookingRequests (bw_booking w)) (abs_appointmentBookingLinks (bw_booking w))"
  shows "links_used (hold_request input # abs_appointmentBookingRequests (bw_booking w))
      (abs_appointmentBookingLinks (withHeldRequest (bw_booking w) input))"
    and "truthy (hold_linkId input) \<Longrightarrow> q \<in> set (abs_appointmentBookingRequests (bw_booking w)) \<Longrightarrow> breq_firmId q = hold_firmId input
      \<Longrightarrow> breq_linkId q \<noteq> hold_linkId input"
proof -
  let ?ks = "abs_appointmentBookingLinks (bw_booking w)" and ?rs = "abs_appointmentBookingRequests (bw_booking w)"
  let ?mark = "\<lambda>link. if linkOf (hold_firmId input) (hold_linkId input) link
      then link\<lparr>blink_usedAt := hold_usedAt input, blink_updatedAt := or_else (hold_usedAt input) []\<rparr> else link"
  have req: "breq_firmId (hold_request input) = hold_firmId input" "breq_linkId (hold_request input) = hold_linkId input"
    and stamp: "truthy (hold_linkId input) \<Longrightarrow> truthy (hold_usedAt input)"
    using assms(2) by (simp_all add: newHold_def)
  have mark: "linkOf f l (?mark k) = linkOf f l k" "truthy (blink_usedAt k) \<Longrightarrow> truthy (hold_usedAt input) \<Longrightarrow> truthy (blink_usedAt (?mark k))" for f l k
    by (auto simp: linkOf_def)
  have found: "\<exists>k \<in> set ?ks. linkOf (hold_firmId input) (hold_linkId input) k \<and> \<not> truthy (blink_usedAt k)" if link: "truthy (hold_linkId input)"
  proof -
    obtain k where k: "List.find (linkOf (hold_firmId input) (hold_linkId input)) ?ks = Some k" "\<not> truthy (blink_usedAt k)"
      using assms(1) link stamp [OF link] unfolding checkHoldLink_def by (auto split: option.splits if_splits)
    then show ?thesis using find_Some_mem [OF k(1)] by blast
  qed
  show "breq_linkId q \<noteq> hold_linkId input"
    if "truthy (hold_linkId input)" "q \<in> set ?rs" "breq_firmId q = hold_firmId input" for q
    using found [OF that(1)] used that unfolding links_used_def by metis
  show "links_used (hold_request input # ?rs) (abs_appointmentBookingLinks (withHeldRequest (bw_booking w) input))"
  proof (cases "truthy (hold_linkId input)")
    case False
    then show ?thesis using used req by (simp add: links_used_def withHeldRequest_def)
  next
    case True
    then have ks: "abs_appointmentBookingLinks (withHeldRequest (bw_booking w) input) = map ?mark ?ks"
      using stamp by (simp add: withHeldRequest_def)
    have all: "truthy (blink_usedAt k)" if p: "r \<in> set (hold_request input # ?rs)" "truthy (breq_linkId r)" "k \<in> set (map ?mark ?ks)"
      "linkOf (breq_firmId r) (breq_linkId r) k" for r k
    proof -
      obtain k0 where k0: "k0 \<in> set ?ks" "k = ?mark k0" using p(3) by auto
      then have l: "linkOf (breq_firmId r) (breq_linkId r) k0" using p(4) mark(1) by metis
      show ?thesis
      proof (cases "r = hold_request input")
        case True
        then show ?thesis using l k0(2) req stamp [OF \<open>truthy (hold_linkId input)\<close>] by simp
      next
        case False
        then have "truthy (blink_usedAt k0)" using p(1,2) used k0(1) l unfolding links_used_def by auto
        then show ?thesis using k0(2) mark(2) stamp [OF True] by metis
      qed
    qed
    have ex: "list_ex (linkOf (breq_firmId r) (breq_linkId r)) (map ?mark ?ks)"
      if "r \<in> set (hold_request input # ?rs)" "truthy (breq_linkId r)" for r
    proof -
      have "\<exists>k \<in> set ?ks. linkOf (breq_firmId r) (breq_linkId r) k"
      proof (cases "r = hold_request input")
        case True
        then show ?thesis using found [OF \<open>truthy (hold_linkId input)\<close>] req by metis
      next
        case False
        then show ?thesis using that used unfolding links_used_def list_ex_iff by auto
      qed
      then obtain k where "k \<in> set ?ks" "linkOf (breq_firmId r) (breq_linkId r) (?mark k)" using mark(1) by blast
      then show ?thesis unfolding list_ex_iff set_map by blast
    qed
    show ?thesis unfolding ks using all ex unfolding links_used_def by blast
  qed
qed

lemma held_keys:
  assumes "newHold w input" "booking_inv w" "cal_id (hold_event input) \<notin> booked w"
    and "\<And>q. truthy (hold_linkId input) \<Longrightarrow> q \<in> set (abs_appointmentBookingRequests (bw_booking w)) \<Longrightarrow> breq_firmId q = hold_firmId input
      \<Longrightarrow> breq_linkId q \<noteq> hold_linkId input"
  shows "keys_ok (hold_request input # abs_appointmentBookingRequests (bw_booking w))"
proof -
  let ?rs = "abs_appointmentBookingRequests (bw_booking w)" and ?r = "hold_request input"
  have ok: "keys_ok ?rs" using assms(2) by (simp add: booking_inv_def)
  have new: "breq_calendarEventId ?r \<notin> breq_calendarEventId ` set ?rs" using assms(1,3) by (simp add: booked_def newHold_def)
  have id: "(breq_firmId ?r, breq_id ?r) \<notin> (\<lambda>r. (breq_firmId r, breq_id r)) ` set ?rs"
    using assms(1) by (auto simp: newHold_def getMemoryAppointmentBookingRequest_def find_None_all requestOf_def)
  have link: "breq_linkId q \<noteq> breq_linkId ?r" if "truthy (breq_linkId ?r)" "q \<in> set ?rs" "breq_firmId q = breq_firmId ?r" for q
    using assms(1,4) that by (simp add: newHold_def)
  show ?thesis
    unfolding keys_ok_def
  proof (intro conjI ballI impI)
    show "distinct (map breq_calendarEventId (?r # ?rs))" "distinct (map (\<lambda>r. (breq_firmId r, breq_id r)) (?r # ?rs))"
      using ok new id by (simp_all add: keys_ok_def)
  next
    fix a b assume "a \<in> set (?r # ?rs)" "b \<in> set (?r # ?rs)"
      "truthy (breq_linkId a) \<and> breq_firmId a = breq_firmId b \<and> breq_linkId a = breq_linkId b"
    then show "breq_calendarEventId a = breq_calendarEventId b"
      using ok link unfolding keys_ok_def by (metis set_ConsD)
  qed
qed

lemma hold_inv:
  assumes "createMemoryAppointmentBookingTentativeHold collate w input = (h, v)" "newHold w input" "booking_inv w"
  shows "booking_inv v"
proof (cases "v = w")
  case False
  then have check: "checkHoldLink (bw_booking w) input = Inr ()" "\<not> slotBusy w input" "writeHold collate w input = (h, v)"
    using hold_cases [OF assms(1)] by auto
  obtain i r c d where c: "upsertMemoryCalendarEvent collate (bw_calendar w) (hold_event input) = (r, c)" "events_kept c d"
    and v: "v = w\<lparr>bw_intakes := i\<rparr> \<or> v = w\<lparr>bw_intakes := i, bw_calendar := d\<rparr>
      \<or> is_ok r \<and> v = \<lparr>bw_booking = withHeldRequest (bw_booking w) input, bw_calendar = d, bw_intakes = i\<rparr>"
    using write_cases [OF check(3)] by blast
  let ?rs = "abs_appointmentBookingRequests (bw_booking w)"
  have intake: "booking_inv (u\<lparr>bw_intakes := i\<rparr>) = booking_inv u" for u by (simp add: booking_inv_def booked_def)
  have D: "booking_inv (w\<lparr>bw_calendar := d\<rparr>)" by (rule held_calendar_inv [OF assms(2,3) c])
  have unbooked: "cal_id (hold_event input) \<notin> booked w" by (rule new_event_unbooked [OF assms(2,3)])
  have "booking_inv v" if ok: "is_ok r" and v: "v = \<lparr>bw_booking = withHeldRequest (bw_booking w) input, bw_calendar = d, bw_intakes = i\<rparr>"
  proof -
    note stored = held_event_stored [OF assms(2) c(1) ok c(2)]
    have used: "links_used ?rs (abs_appointmentBookingLinks (bw_booking w))" using assms(3) by (simp add: booking_inv_def)
    have rs: "abs_appointmentBookingRequests (bw_booking v) = hold_request input # ?rs" "bw_calendar v = d"
      unfolding v by (simp_all add: withHeldRequest_def)
    have "booked v = insert (cal_id (hold_event input)) (booked w)"
      unfolding booked_def rs using assms(2) by (simp add: newHold_def)
    moreover have "no_clash (booked w) (cst_calendarEvents d)" using D by (simp add: booking_inv_def booked_def)
    ultimately have "no_clash (booked v) (cst_calendarEvents (bw_calendar v))"
      using held_no_clash [OF assms(2) check(2) _ unbooked stored(2), of d] rs(2) by simp
    moreover have "all_in_step (hold_request input # ?rs) (cst_calendarEvents d)"
    proof -
      obtain f where f: "f \<in> set (cst_calendarEvents d)" "event_untouched (hold_event input) f" using stored(1) by blast
      then have "in_step (hold_request input) f"
        using untouched_fields [OF f(2)] assms(2) by (simp add: in_step_def newHold_def eventStatusFor_def)
      then show ?thesis using f(1) D by (auto simp: all_in_step_def booking_inv_def)
    qed
    moreover have "keys_ok (hold_request input # ?rs)"
      using held_keys [OF assms(2,3)] held_links(2) [OF check(1) assms(2) used] unbooked by blast
    moreover have "links_used (hold_request input # ?rs) (abs_appointmentBookingLinks (bw_booking v))"
      using held_links(1) [OF check(1) assms(2) used] unfolding v by simp
    ultimately show ?thesis using D rs unfolding booking_inv_def by simp
  qed
  moreover have "booking_inv (w\<lparr>bw_intakes := i\<rparr>)" using assms(3) intake by blast
  moreover have "booking_inv (w\<lparr>bw_intakes := i, bw_calendar := d\<rparr>)" using D by (simp add: booking_inv_def booked_def)
  ultimately show ?thesis using v by metis
qed (use assms(3) in simp)

lemma booking_step_inv: "booking_step collate w v \<Longrightarrow> booking_inv w \<Longrightarrow> booking_inv v"
proof (induction rule: booking_step.induct)
  case (step_calendar w c)
  then show ?case using calendar_inv_booking calendar_step_inv unfolding booking_inv_def by blast
qed (blast intro: profile_inv link_inv hold_inv review_inv aging_inv)+

interpretation bookings: inductive_invariant no_bookings "booking_step collate" booking_inv for collate
proof
  fix w assume "no_bookings w"
  then show "booking_inv w"
    using calendar.inv_init [of "bw_calendar w"]
    by (simp add: no_bookings_def booking_inv_def no_clash_def booked_def all_in_step_def keys_ok_def links_used_def)
qed (rule booking_step_inv)

subsection \<open>What the booking store guarantees\<close>


text \<open>
  A held request can always be reviewed: in every reachable state, for a request that is held, a
  confirmation or dismissal returns the reviewed request and its event, and afterwards the request
  reads back with the new status and stands in step with its event in the calendar.
\<close>

theorem held_request_can_be_reviewed:
  assumes "reachable no_bookings (booking_step collate) w"
    and "getMemoryAppointmentBookingRequest (bw_booking w) (rev_firmId ri) (rev_requestId ri) = Some r"
    and "breq_status r = Booking_tentative_hold" and "rev_status ri \<noteq> Booking_tentative_hold"
  shows "\<exists>e v. reviewMemoryAppointmentBookingRequest w ri
        = (Some \<lparr>revd_request = reviewedRequest ri r, revd_event = reviewedEvent ri e\<rparr>, v)
    \<and> getMemoryAppointmentBookingRequest (bw_booking v) (rev_firmId ri) (rev_requestId ri) = Some (reviewedRequest ri r)
    \<and> reviewedEvent ri e \<in> set (cst_calendarEvents (bw_calendar v)) \<and> in_step (reviewedRequest ri r) (reviewedEvent ri e)
    \<and> cal_status (reviewedEvent ri e) = (if rev_status ri = Booking_confirmed then Event_confirmed else Event_cancelled)"
proof -
  have inv: "booking_inv w" by (rule bookings.reachable_inv [OF assms(1)])
  obtain as bs cs ds e where rs: "abs_appointmentBookingRequests (bw_booking w) = as @ r # bs" and step: "in_step r e"
    and v: "reviewMemoryAppointmentBookingRequest w ri = (Some \<lparr>revd_request = reviewedRequest ri r, revd_event = reviewedEvent ri e\<rparr>,
        w\<lparr>bw_booking := (bw_booking w)\<lparr>abs_appointmentBookingRequests := as @ reviewedRequest ri r # bs\<rparr>,
          bw_calendar := (bw_calendar w)\<lparr>cst_calendarEvents := cs @ reviewedEvent ri e # ds\<rparr>\<rparr>)"
    using review_shape [OF inv assms(2)] by blast
  have r: "requestOf (rev_firmId ri) (rev_requestId ri) r"
    using find_Some_mem [OF assms(2) [unfolded getMemoryAppointmentBookingRequest_def]] by blast
  have "distinct (map (\<lambda>r. (breq_firmId r, breq_id r)) (as @ r # bs))"
    using inv rs by (simp add: booking_inv_def keys_ok_def)
  then have "(breq_firmId r, breq_id r) \<notin> (\<lambda>r. (breq_firmId r, breq_id r)) ` set as" by simp
  then have "List.find (requestOf (rev_firmId ri) (rev_requestId ri)) as = None"
    using r unfolding find_None_all requestOf_def image_iff by auto
  then have "List.find (requestOf (rev_firmId ri) (rev_requestId ri)) (as @ reviewedRequest ri r # bs) = Some (reviewedRequest ri r)"
    using r by (simp add: find_append requestOf_def reviewedRequest_def)
  then show ?thesis
    unfolding v using reviewed_in_step [OF assms(4) step]
    by (intro exI [of _ e] exI [of _ "w\<lparr>bw_booking := (bw_booking w)\<lparr>abs_appointmentBookingRequests := as @ reviewedRequest ri r # bs\<rparr>,
          bw_calendar := (bw_calendar w)\<lparr>cst_calendarEvents := cs @ reviewedEvent ri e # ds\<rparr>\<rparr>"])
      (simp add: getMemoryAppointmentBookingRequest_def, simp add: reviewedEvent_def)
qed

subsection \<open>Two holds on one day\<close>

definition ex_hold_event :: "string \<Rightarrow> string \<Rightarrow> string \<Rightarrow> CalendarEventRecord" where
  "ex_hold_event i a b = ex_meeting\<lparr>cal_id := i, cal_uid := i, cal_matterId := None, cal_scope := Some Calendar_firm,
     cal_startsAt := a, cal_endsAt := b, cal_status := Event_tentative\<rparr>"

definition ex_hold_request :: "string \<Rightarrow> string \<Rightarrow> string \<Rightarrow> AppointmentBookingRequestRecord" where
  "ex_hold_request i a b = \<lparr>breq_id = i, breq_firmId = ''f'', breq_profileId = ''p'', breq_linkId = None, breq_source = From_website,
     breq_status = Booking_tentative_hold, breq_calendarEventId = i, breq_publicConsultationIntakeId = None, breq_matterId = None,
     breq_clientContactId = None, breq_requesterName = ''n'', breq_requesterEmail = None, breq_requesterTelephone = None,
     breq_requestedStartsAt = a, breq_requestedEndsAt = b, breq_submittedAt = ''2026-01-01'', breq_reviewedAt = None,
     breq_reviewedByUserId = None, breq_dismissedReason = None, breq_reviewAgingDecision = None, breq_reviewAgingDecidedAt = None,
     breq_reviewAgingDecidedByUserId = None, breq_reviewAgingCueStatus = None, breq_reviewAgingAgeHours = None, breq_metadata = []\<rparr>"

definition ex_hold :: "string \<Rightarrow> string \<Rightarrow> string \<Rightarrow> AppointmentBookingTentativeHoldInput" where
  "ex_hold i a b = \<lparr>hold_firmId = ''f'', hold_profileId = ''p'', hold_startsAt = a, hold_endsAt = b, hold_event = ex_hold_event i a b,
     hold_request = ex_hold_request i a b, hold_attendee = None, hold_publicConsultationIntake = None, hold_linkId = None, hold_usedAt = None\<rparr>"

definition ex_world0 :: BookingWorld where
  "ex_world0 = \<lparr>bw_booking = \<lparr>abs_appointmentBookingProfiles = [ex_profile], abs_appointmentBookingLinks = [], abs_appointmentBookingRequests = []\<rparr>,
     bw_calendar = \<lparr>cst_calendarEvents = [], cst_calendarSchedulingRequests = [], cst_calendarMeetingSessions = [], cst_calendarGuestLinks = []\<rparr>,
     bw_intakes = \<lparr>pcs_publicConsultationIntakes = []\<rparr>\<rparr>"

definition ex_world1 :: BookingWorld where
  "ex_world1 = snd (createMemoryAppointmentBookingTentativeHold ex_collate ex_world0 (ex_hold ''a'' ''2026-01-01'' ''2026-01-02''))"

definition ex_world2 :: BookingWorld where
  "ex_world2 = snd (createMemoryAppointmentBookingTentativeHold ex_collate ex_world1 (ex_hold ''b'' ''2026-01-02'' ''2026-01-03''))"

lemma ex_world2_reachable: "reachable no_bookings (booking_step ex_collate) ex_world2"
proof -
  have "reachable no_bookings (booking_step ex_collate) ex_world0"
    by (rule reach_init) (simp add: ex_world0_def no_bookings_def no_calendar_def)
  moreover have "booking_step ex_collate ex_world0 ex_world1"
    unfolding ex_world1_def by (rule step_hold [OF surjective_pairing]) code_simp
  moreover have "booking_step ex_collate ex_world1 ex_world2"
    unfolding ex_world2_def by (rule step_hold [OF surjective_pairing]) code_simp
  ultimately show ?thesis by (meson reach_step)
qed



definition ex_review :: AppointmentBookingReviewInput where
  "ex_review = \<lparr>rev_firmId = ''f'', rev_requestId = ''a'', rev_status = Booking_confirmed, rev_reviewedAt = ''2026-01-01'',
     rev_reviewedByUserId = ''u'', rev_dismissedReason = None\<rparr>"

theorem held_request_can_be_reviewed_witness:
  "\<exists>e v. reviewMemoryAppointmentBookingRequest ex_world2 ex_review
      = (Some \<lparr>revd_request = reviewedRequest ex_review (ex_hold_request ''a'' ''2026-01-01'' ''2026-01-02''), revd_event = reviewedEvent ex_review e\<rparr>, v)
    \<and> cal_status (reviewedEvent ex_review e) = Event_confirmed"
proof -
  have "getMemoryAppointmentBookingRequest (bw_booking ex_world2) (rev_firmId ex_review) (rev_requestId ex_review)
      = Some (ex_hold_request ''a'' ''2026-01-01'' ''2026-01-02'')" by code_simp
  moreover have "breq_status (ex_hold_request ''a'' ''2026-01-01'' ''2026-01-02'') = Booking_tentative_hold" "rev_status ex_review = Booking_confirmed"
    by (simp_all add: ex_hold_request_def ex_review_def)
  ultimately show ?thesis
    using held_request_can_be_reviewed [OF ex_world2_reachable, of ex_review] by auto
qed

end
