(* ===== verification/Edit_Distance.thy ===== *)
theory Edit_Distance
  imports Js_Double
begin

section \<open>The edit distance of conflict checks\<close>

text \<open>
  \<open>levenshtein\<close> and \<open>similarity\<close> of packages/domain/src/conflicts.ts. The table the code fills is a list
  of rows; \<open>rows[i][j] = v\<close> always writes the next cell of its row. The code's result is the least
  number of single character edits, and the similarity, a double, reaches 0.86 exactly when the edits
  are at most 14 percent of the longer text.
\<close>

subsection \<open>The code\<close>

definition lev_cell :: "string \<Rightarrow> string \<Rightarrow> nat \<Rightarrow> nat \<Rightarrow> nat list list \<Rightarrow> nat list list" where
  "lev_cell a b i j rows =
     rows[i := rows ! i @
       [min (rows ! (i - 1) ! j + 1)
          (min (rows ! i ! (j - 1) + 1)
             (rows ! (i - 1) ! (j - 1) + (if a ! (i - 1) = b ! (j - 1) then 0 else 1)))]]"

definition levenshtein :: "string \<Rightarrow> string \<Rightarrow> nat" where
  "levenshtein a b =
     (let rows = map (\<lambda>index. [index]) [0..<length a + 1];
          rows = fold (\<lambda>j rows. rows[0 := rows ! 0 @ [j]]) [1..<length b + 1] rows;
          rows = fold (\<lambda>i. fold (lev_cell a b i) [1..<length b + 1]) [1..<length a + 1] rows
      in rows ! length a ! length b)"

definition similarity :: "string \<Rightarrow> string \<Rightarrow> rat" where
  "similarity a b =
     (let maxLength = max (length a) (length b)
      in if maxLength = 0 then 1
         else minus_double 1 (div_double (int (levenshtein a b)) (int maxLength)))"

subsection \<open>Single character edits\<close>

inductive edit :: "'a list \<Rightarrow> 'a list \<Rightarrow> bool" where
  delete: "edit (u @ x # v) (u @ v)"
| insert: "edit (u @ v) (u @ x # v)"
| replace: "edit (u @ x # v) (u @ y # v)"

text \<open>The distance by recursion on both texts, of which the table holds the values on prefixes.\<close>

fun distance :: "'a list \<Rightarrow> 'a list \<Rightarrow> nat" where
  "distance [] ys = length ys"
| "distance xs [] = length xs"
| "distance (x # xs) (y # ys) =
     min (distance xs (y # ys) + 1)
       (min (distance (x # xs) ys + 1) (distance xs ys + (if x = y then 0 else 1)))"

lemma distance_Nil [simp]: "distance xs [] = length xs"
  by (cases xs) auto

lemma distance_self [simp]: "distance xs xs = 0"
  by (induction xs) auto

lemma distance_Cons_le: "distance (x # xs) ys \<le> distance xs ys + 1" "distance xs (y # ys) \<le> distance xs ys + 1"
  by (cases ys; simp) (cases xs; simp)

lemma distance_le_Cons: "distance xs ys \<le> distance (x # xs) ys + 1"
proof (induction ys)
  case (Cons y ys)
  then show ?case using distance_Cons_le(2) [of xs y ys] by auto
qed simp

lemma distance_replace: "distance (x # xs) ys \<le> distance (y # xs) ys + 1"
  by (induction ys) auto

lemma distance_Cons_cong:
  assumes "\<And>ys. distance xs ys \<le> distance xs' ys + 1"
  shows "distance (z # xs) ys \<le> distance (z # xs') ys + 1"
proof (induction ys)
  case Nil
  show ?case using assms [of "[]"] by simp
next
  case (Cons y ys)
  then show ?case using assms [of ys] assms [of "y # ys"] by auto
qed

lemma distance_append_cong:
  assumes "\<And>ys. distance xs ys \<le> distance xs' ys + 1"
  shows "distance (u @ xs) ys \<le> distance (u @ xs') ys + 1"
  by (induction u arbitrary: ys) (simp_all add: assms distance_Cons_cong del: One_nat_def Suc_eq_plus1)

lemma edit_distance_step: "edit xs xs' \<Longrightarrow> distance xs ys \<le> distance xs' ys + 1"
  by (induction rule: edit.induct)
    (auto intro!: distance_append_cong intro: distance_Cons_le distance_le_Cons distance_replace simp del: One_nat_def)

lemma distance_le_edits: "(edit ^^ k) xs ys \<Longrightarrow> distance xs ys \<le> k"
proof (induction k arbitrary: xs)
  case (Suc k)
  then obtain z where "edit xs z" "(edit ^^ k) z ys" by (meson relpowp_Suc_D2)
  then show ?case using Suc.IH edit_distance_step by (metis Suc_eq_plus1 Suc_le_mono le_trans)
qed simp

lemma edit_Cons: "edit xs ys \<Longrightarrow> edit (z # xs) (z # ys)"
  by (induction rule: edit.induct) (metis append_Cons edit.intros)+

lemma edit_rev: "edit xs ys \<Longrightarrow> edit (rev xs) (rev ys)"
  by (induction rule: edit.induct) (simp_all add: edit.intros)

lemma edits_map:
  assumes "(edit ^^ k) xs ys" and "\<And>x y. edit x y \<Longrightarrow> edit (f x) (f y)"
  shows "(edit ^^ k) (f xs) (f ys)"
  using assms(1) by (induction k arbitrary: ys) (auto intro: assms(2))

lemma edits_step: "edit xs ys \<Longrightarrow> (edit ^^ k) ys zs \<Longrightarrow> (edit ^^ (k + 1)) xs zs"
  by (metis Suc_eq_plus1 relpowp_Suc_I2)

lemma edits_distance: "(edit ^^ distance xs ys) xs ys"
proof (induction xs ys rule: distance.induct)
  case (1 ys)
  show ?case
  proof (induction ys)
    case (Cons y ys)
    then have "(edit ^^ (length ys + 1)) [] (y # ys)"
      using edit.insert [of "[]" ys y] by auto
    then show ?case by simp
  qed simp
next
  case (2 x xs)
  have "(edit ^^ length zs) zs []" for zs :: "'a list"
  proof (induction zs)
    case (Cons z zs)
    then show ?case using edits_step [OF edit.delete [of "[]" z zs]] by simp
  qed simp
  then show ?case using distance.simps(2) [of x xs] by metis
next
  case (3 x xs y ys)
  have del: "(edit ^^ (distance xs (y # ys) + 1)) (x # xs) (y # ys)"
    using edits_step [OF edit.delete [of "[]" x xs]] 3(1) by simp
  have ins: "(edit ^^ (distance (x # xs) ys + 1)) (x # xs) (y # ys)"
    using 3(2) edit.insert [of "[]" ys y] by auto
  have same: "(edit ^^ distance xs ys) (y # xs) (y # ys)"
    by (rule edits_map [OF 3(3)]) (rule edit_Cons)
  have rep: "(edit ^^ (distance xs ys + (if x = y then 0 else 1))) (x # xs) (y # ys)"
    using same edits_step [OF edit.replace [of "[]" x xs y]] by simp
  show ?case unfolding distance.simps min_def using del ins rep by presburger
qed

lemma distance_is_least: "distance xs ys = (LEAST k. (edit ^^ k) xs ys)"
  by (rule Least_equality [symmetric]) (auto intro: edits_distance distance_le_edits)

lemma distance_rev: "distance (rev xs) (rev ys) = distance xs ys"
proof -
  have "distance (rev xs) (rev ys) \<le> distance xs ys" for xs ys :: "'a list"
    by (rule distance_le_edits, rule edits_map [OF edits_distance edit_rev])
  from this [of xs ys] this [of "rev xs" "rev ys"] show ?thesis by simp
qed

lemma distance_sym: "distance xs ys = distance ys xs"
  by (induction xs ys rule: distance.induct) (auto simp: insert_commute)

lemma distance_bounds: "distance xs ys \<le> max (length xs) (length ys)"
  by (induction xs ys rule: distance.induct) (auto split: if_splits)

lemma distance_eq_0: "distance xs ys = 0 \<longleftrightarrow> xs = ys"
  using edits_distance [of xs ys] by (metis distance_self relpowp_0_E)

subsection \<open>The table\<close>

definition prefix_distance :: "string \<Rightarrow> string \<Rightarrow> nat \<Rightarrow> nat \<Rightarrow> nat" where
  "prefix_distance a b i j = distance (take i a) (take j b)"

definition row_width :: "string \<Rightarrow> nat \<Rightarrow> nat \<Rightarrow> nat \<Rightarrow> nat" where
  "row_width b i j r = (if r < i then length b + 1 else if r = i then j + 1 else 1)"

text \<open>The table when the rows below \<open>i\<close> are full and row \<open>i\<close> has been filled up to column \<open>j\<close>.\<close>

definition table :: "string \<Rightarrow> string \<Rightarrow> nat \<Rightarrow> nat \<Rightarrow> nat list list" where
  "table a b i j = map (\<lambda>r. map (prefix_distance a b r) [0..<row_width b i j r]) [0..<length a + 1]"

lemma prefix_distance_0 [simp]:
  "j \<le> length b \<Longrightarrow> prefix_distance a b 0 j = j" "i \<le> length a \<Longrightarrow> prefix_distance a b i 0 = i"
  by (simp_all add: prefix_distance_def)

lemma prefix_distance_Suc:
  assumes "i < length a" "j < length b"
  shows "prefix_distance a b (Suc i) (Suc j) =
    min (prefix_distance a b i (Suc j) + 1)
      (min (prefix_distance a b (Suc i) j + 1) (prefix_distance a b i j + (if a ! i = b ! j then 0 else 1)))"
  unfolding prefix_distance_def
  by (subst (1 2 3 4) distance_rev [symmetric]) (simp add: take_Suc_conv_app_nth assms)

lemma table_length [simp]: "length (table a b i j) = length a + 1"
  by (simp add: table_def)

lemma table_nth:
  "r \<le> length a \<Longrightarrow> table a b i j ! r = map (prefix_distance a b r) [0..<row_width b i j r]"
  by (simp add: table_def del: upt_Suc)

lemma table_next:
  assumes "i \<le> length a"
  shows "(table a b i j)[i := table a b i j ! i @ [prefix_distance a b i (Suc j)]] = table a b i (Suc j)"
proof (rule nth_equalityI)
  fix r assume "r < length ((table a b i j)[i := table a b i j ! i @ [prefix_distance a b i (Suc j)]])"
  then have r: "r \<le> length a" by simp
  show "(table a b i j)[i := table a b i j ! i @ [prefix_distance a b i (Suc j)]] ! r = table a b i (Suc j) ! r"
    by (cases "r = i") (simp_all add: table_nth r assms row_width_def nth_list_update less_Suc_eq_le)
qed simp

lemma lev_cell_table:
  assumes "i < length a" "j < length b"
  shows "lev_cell a b (Suc i) (Suc j) (table a b (Suc i) j) = table a b (Suc i) (Suc j)"
proof -
  have "table a b (Suc i) j ! i ! k = prefix_distance a b i k" if "k \<le> length b" for k
    using assms(1) that by (simp add: table_nth row_width_def del: upt_Suc)
  moreover have "table a b (Suc i) j ! Suc i ! j = prefix_distance a b (Suc i) j"
    using assms by (simp add: table_nth row_width_def del: upt_Suc)
  ultimately show ?thesis
    using assms table_next [of "Suc i" a b j] unfolding lev_cell_def by (simp add: prefix_distance_Suc)
qed

lemma fill_row: "i < length a \<Longrightarrow> k \<le> length b \<Longrightarrow>
    fold (lev_cell a b (Suc i)) [1..<k + 1] (table a b (Suc i) 0) = table a b (Suc i) k"
  by (induction k) (simp_all add: lev_cell_table)

lemma fill_first_row: "k \<le> length b \<Longrightarrow>
    fold (\<lambda>j rows. rows[0 := rows ! 0 @ [j]]) [1..<k + 1] (table a b 0 0) = table a b 0 k"
proof (induction k)
  case (Suc k)
  then show ?case using table_next [of 0 a b k] by simp
qed simp

lemma table_full_row: "table a b i (length b) = table a b (Suc i) 0"
  by (auto simp: table_def row_width_def)

lemma fill_table: "k \<le> length a \<Longrightarrow>
    fold (\<lambda>i. fold (lev_cell a b i) [1..<length b + 1]) [1..<k + 1] (table a b 0 (length b)) = table a b k (length b)"
proof (induction k)
  case (Suc k)
  then show ?case using fill_row [of k a "length b" b] by (simp add: table_full_row)
qed simp

lemma levenshtein_distance: "levenshtein a b = distance a b"
proof -
  have "map (\<lambda>index. [index]) [0..<length a + 1] = table a b 0 0"
    unfolding table_def by (rule map_cong) (auto simp: row_width_def)
  then show ?thesis
    using fill_first_row [of "length b" b a] fill_table [of "length a" a b] unfolding levenshtein_def
    by (simp add: table_nth row_width_def prefix_distance_def del: upt_Suc)
qed

text \<open>
  C24. \<open>levenshtein\<close> returns the least number of insertions, deletions and replacements of single
  characters that turn the one text into the other.
\<close>

theorem levenshtein_is_edit_distance: "levenshtein a b = (LEAST k. (edit ^^ k) a b)"
  by (simp add: levenshtein_distance distance_is_least)

subsection \<open>The threshold\<close>

text \<open>The literal \<open>0.86\<close> of the code.\<close>

definition fuzzy_threshold :: rat where
  "fuzzy_threshold = to_double (86 / 100)"

lemma to_double_minus: "to_double (- x) = - to_double x"
  by (simp add: to_double_def Let_def)

lemma to_double_close: "\<bar>x\<bar> \<le> 1 \<Longrightarrow> \<bar>to_double x - x\<bar> \<le> pow2 (- 53)"
proof -
  assume x: "\<bar>x\<bar> \<le> 1"
  have "\<bar>to_double \<bar>x\<bar> - \<bar>x\<bar>\<bar> \<le> \<bar>x\<bar> * pow2 (- 53)" by (rule to_double_error) simp
  also have "\<dots> \<le> pow2 (- 53)" using x mult_right_mono [OF x, of "pow2 (- 53)"] by simp
  finally show ?thesis by (cases "0 \<le> x") (simp_all add: to_double_minus)
qed

lemma exact_threshold: "fuzzy_threshold \<le> minus_double 1 (to_double (7 / 50))"
  by code_simp

lemma one_minus_quotient:
  assumes "0 \<le> q" "q \<le> 1" shows "\<bar>minus_double 1 (to_double q) - (1 - q)\<bar> \<le> 3 * pow2 (- 53)"
proof -
  have d: "\<bar>to_double q - q\<bar> \<le> pow2 (- 53)" by (rule to_double_close) (use assms in simp)
  have e: "pow2 (- 53) \<le> 1" by (simp add: pow2_def power_int_def power_le_one)
  let ?x = "1 - to_double q"
  consider "\<bar>?x\<bar> \<le> 1" | "1 < \<bar>?x\<bar>" by fastforce
  then show ?thesis
  proof cases
    case 1
    from to_double_close [OF 1] d show ?thesis unfolding minus_double_def by linarith
  next
    case 2
    have "0 \<le> to_double q" by (rule to_double_error) (rule assms)
    then show ?thesis using 2 d e assms by linarith
  qed
qed

lemma threshold_iff:
  fixes d n :: int
  assumes "0 \<le> d" "d \<le> n" "0 < n" "n \<le> 2 ^ 40"
  shows "fuzzy_threshold \<le> minus_double 1 (div_double d n) \<longleftrightarrow> 100 * d \<le> 14 * n"
proof -
  let ?q = "of_int d / of_int n :: rat" and ?e = "pow2 (- 53)" and ?g = "1 / (50 * 2 ^ 40) :: rat"
  have n: "0 < (of_int n :: rat)" using assms(3) by simp
  have q: "0 \<le> ?q" "?q \<le> 1" using assms by (simp_all add: divide_le_eq)
  have s: "\<bar>minus_double 1 (div_double d n) - (1 - ?q)\<bar> \<le> 3 * ?e"
    unfolding div_double_def by (rule one_minus_quotient [OF q])
  have t: "\<bar>fuzzy_threshold - 86 / 100\<bar> \<le> ?e" unfolding fuzzy_threshold_def by (rule to_double_close) simp
  have e: "4 * ?e < ?g" by (simp add: pow2_def power_int_def power_divide)
  have gap: "?g \<le> 1 / (50 * of_int n)"
  proof -
    have "(of_int n :: rat) \<le> of_int (2 ^ 40)" using assms(4) by (simp only: of_int_le_iff)
    then show ?thesis using n by (simp add: divide_simps)
  qed
  consider "50 * d + 1 \<le> 7 * n" | "7 * n + 1 \<le> 50 * d" | "50 * d = 7 * n" by linarith
  then show ?thesis
  proof cases
    case 1
    then have "of_int (50 * d + 1) \<le> (of_int (7 * n) :: rat)" by (simp only: of_int_le_iff)
    then have "?q + 1 / (50 * of_int n) \<le> 7 / 50" using n by (simp add: field_simps)
    then show ?thesis using s t e gap 1 by linarith
  next
    case 2
    then have "of_int (7 * n + 1) \<le> (of_int (50 * d) :: rat)" by (simp only: of_int_le_iff)
    then have "of_int (7 * n + 1) / (50 * of_int n) \<le> (of_int (50 * d) / (50 * of_int n) :: rat)"
      by (rule divide_right_mono) (use n in simp)
    then have "7 / 50 + 1 / (50 * of_int n) \<le> ?q" using n by (simp add: add_divide_distrib)
    then show ?thesis using s t e gap 2 by linarith
  next
    case 3
    then have "(of_int (50 * d) :: rat) = of_int (7 * n)" by (simp only: of_int_eq_iff)
    then have q: "?q = 7 / 50" using n by (simp add: field_simps)
    show ?thesis using exact_threshold 3 unfolding div_double_def q by simp
  qed
qed

text \<open>
  Two texts pass the near match test of a conflict check exactly when the edits between them are
  at most 14 percent of the length of the longer one: rounding decides no case, also not at 14 percent
  exactly.
\<close>

lemma similarity_threshold:
  assumes "length a \<le> 2 ^ 40" and "length b \<le> 2 ^ 40"
  shows "fuzzy_threshold \<le> similarity a b \<longleftrightarrow> 100 * (LEAST k. (edit ^^ k) a b) \<le> 14 * max (length a) (length b)"
proof (cases "max (length a) (length b) = 0")
  case True
  then have "similarity a b = 1" "distance a b = 0" by (simp_all add: similarity_def)
  moreover have "fuzzy_threshold \<le> 1" by code_simp
  ultimately show ?thesis using True by (simp add: distance_is_least [symmetric])
next
  case False
  have "int (max (length a) (length b)) \<le> int (2 ^ 40)" using assms by (simp only: of_nat_le_iff max.bounded_iff)
  then have "fuzzy_threshold \<le> similarity a b
      \<longleftrightarrow> 100 * int (distance a b) \<le> 14 * int (max (length a) (length b))"
    using False distance_bounds [of a b] unfolding similarity_def levenshtein_distance Let_def
    by (simp only: if_False) (rule threshold_iff; force)
  also have "\<dots> \<longleftrightarrow> 100 * distance a b \<le> 14 * max (length a) (length b)" by linarith
  finally show ?thesis unfolding distance_is_least .
qed

end
