(* ===== verification/Conflicts.thy ===== *)
theory Conflicts
  imports Audit_Chain Models Edit_Distance
begin

section \<open>Conflict checks\<close>

text \<open>
  packages/domain/src/conflicts.ts, the relationship records of contacts.ts and
  packages/database/src/repository/conflict-checks/memory.ts. A check compares the names and
  identifiers of a prospective party with the firm's contacts and reports candidates. The order of the
  reports is the order of the code's loops: the candidates each loop offers are lists, and the result
  collects them with \<open>pushUniqueCandidate\<close>. A score is in hundredths.
\<close>

subsection \<open>Data\<close>

datatype ConflictSeverity = Severity_blocker | Severity_review | Severity_info

datatype ConflictMatchCategory = Match_exact_contact | Match_exact_organization | Match_alias
    | Match_former_name | Match_fuzzy_name | Match_identifier | Match_contact_method
    | Match_related_party | Match_organization_relationship | Match_matter_party_role
    | Match_historical_relationship | Match_conflict_flag

datatype ConflictRiskLevel = Risk_high | Risk_medium | Risk_low

datatype ProspectiveRole = Prospective_client | Prospective_opposing_party | Prospective_third_party

datatype ContactRelationshipKind = Relationship_authorized_representative | Relationship_director_of
    | Relationship_employee_of | Relationship_employer_of | Relationship_expert_for
    | Relationship_family_contact | Relationship_family_member | Relationship_guardian_of
    | Relationship_insurer_for | Relationship_lawyer_for | Relationship_officer_of
    | Relationship_owned_by | Relationship_owner_of | Relationship_parent_of
    | Relationship_paralegal_for | Relationship_partner_of | Relationship_subsidiary_of
    | Relationship_agent_for | Relationship_opposing_counsel_for | Relationship_opposing_party_for
    | Relationship_referral_source | Relationship_spouse_partner | Relationship_witness_against
    | Relationship_witness_for | Relationship_custom

datatype ContactRelationshipSource = RelationshipSource_manual | RelationshipSource_matter_party
    | RelationshipSource_intake

datatype ContactRelationshipStatus = RelationshipStatus_active | RelationshipStatus_review_needed
    | RelationshipStatus_ended

record ContactRelationshipRecord =
  rel_id :: string
  rel_firmId :: string
  rel_contactId :: string
  rel_relatedContactId :: string
  rel_relationshipKind :: ContactRelationshipKind
  rel_label :: string
  rel_reciprocalLabel :: "string option"
  rel_matterId :: "string option"
  rel_source :: ContactRelationshipSource
  rel_status :: ContactRelationshipStatus
  rel_effectiveOn :: "string option"
  rel_endedOn :: "string option"
  rel_notes :: "string option"
  rel_privateNotes :: "string option"
  rel_includeInConflictCheck :: "bool option"
  rel_createdByUserId :: "string option"
  rel_updatedByUserId :: "string option"
  rel_createdAt :: string
  rel_updatedAt :: string

record ConflictCandidate =
  cand_contactId :: string
  cand_matterId :: "string option"
  cand_severity :: ConflictSeverity
  cand_reason :: string
  cand_matchedValue :: string
  cand_matchCategory :: "ConflictMatchCategory option"
  cand_riskLevel :: "ConflictRiskLevel option"
  cand_score :: "int option"
  cand_explanation :: "string option"
  cand_relationshipId :: "string option"
  cand_relatedContactId :: "string option"
  cand_matchedContactKind :: "ContactKind option"
  cand_matchedRole :: "PartyRole option"
  cand_redacted :: "bool option"

text \<open>The objects \<open>{ type, value }\<close> of a query.\<close>

record QueryIdentifier =
  qid_type :: string
  qid_value :: string

record ConflictQuerySnapshot =
  snap_prospectiveName :: string
  snap_aliases :: "string list"
  snap_identifiers :: "QueryIdentifier list"
  snap_prospectiveRole :: "ProspectiveRole option"
  snap_includeClosedMatters :: bool

record ConflictCheckRecord =
  ccr_id :: string
  ccr_firmId :: string
  ccr_requestedByUserId :: string
  ccr_prospectiveName :: string
  ccr_querySnapshot :: ConflictQuerySnapshot
  ccr_resultSnapshot :: "ConflictCandidate list"
  ccr_disposition :: string
  ccr_reviewedByUserId :: "string option"
  ccr_createdAt :: string

record ConflictCheckInput =
  ccin_firmId :: string
  ccin_prospectiveName :: string
  ccin_aliases :: "(string list) option"
  ccin_identifiers :: "(QueryIdentifier list) option"
  ccin_prospectiveRole :: "ProspectiveRole option"
  ccin_includeClosedMatters :: bool
  ccin_contacts :: "Contact list"
  ccin_matters :: "Matter list"
  ccin_matterParties :: "MatterParty list"
  ccin_contactRelationships :: "(ContactRelationshipRecord list) option"

text \<open>The texts of the enumerations that the code builds strings from.\<close>

primrec match_category_name :: "ConflictMatchCategory \<Rightarrow> string" where
  "match_category_name Match_exact_contact = ''exact_contact''"
| "match_category_name Match_exact_organization = ''exact_organization''"
| "match_category_name Match_alias = ''alias''"
| "match_category_name Match_former_name = ''former_name''"
| "match_category_name Match_fuzzy_name = ''fuzzy_name''"
| "match_category_name Match_identifier = ''identifier''"
| "match_category_name Match_contact_method = ''contact_method''"
| "match_category_name Match_related_party = ''related_party''"
| "match_category_name Match_organization_relationship = ''organization_relationship''"
| "match_category_name Match_matter_party_role = ''matter_party_role''"
| "match_category_name Match_historical_relationship = ''historical_relationship''"
| "match_category_name Match_conflict_flag = ''conflict_flag''"

primrec relationship_kind_name :: "ContactRelationshipKind \<Rightarrow> string" where
  "relationship_kind_name Relationship_authorized_representative = ''authorized_representative''"
| "relationship_kind_name Relationship_director_of = ''director_of''"
| "relationship_kind_name Relationship_employee_of = ''employee_of''"
| "relationship_kind_name Relationship_employer_of = ''employer_of''"
| "relationship_kind_name Relationship_expert_for = ''expert_for''"
| "relationship_kind_name Relationship_family_contact = ''family_contact''"
| "relationship_kind_name Relationship_family_member = ''family_member''"
| "relationship_kind_name Relationship_guardian_of = ''guardian_of''"
| "relationship_kind_name Relationship_insurer_for = ''insurer_for''"
| "relationship_kind_name Relationship_lawyer_for = ''lawyer_for''"
| "relationship_kind_name Relationship_officer_of = ''officer_of''"
| "relationship_kind_name Relationship_owned_by = ''owned_by''"
| "relationship_kind_name Relationship_owner_of = ''owner_of''"
| "relationship_kind_name Relationship_parent_of = ''parent_of''"
| "relationship_kind_name Relationship_paralegal_for = ''paralegal_for''"
| "relationship_kind_name Relationship_partner_of = ''partner_of''"
| "relationship_kind_name Relationship_subsidiary_of = ''subsidiary_of''"
| "relationship_kind_name Relationship_agent_for = ''agent_for''"
| "relationship_kind_name Relationship_opposing_counsel_for = ''opposing_counsel_for''"
| "relationship_kind_name Relationship_opposing_party_for = ''opposing_party_for''"
| "relationship_kind_name Relationship_referral_source = ''referral_source''"
| "relationship_kind_name Relationship_spouse_partner = ''spouse_partner''"
| "relationship_kind_name Relationship_witness_against = ''witness_against''"
| "relationship_kind_name Relationship_witness_for = ''witness_for''"
| "relationship_kind_name Relationship_custom = ''custom''"

primrec identifier_type_name :: "ContactIdentifierType \<Rightarrow> string" where
  "identifier_type_name Identifier_email = ''email''"
| "identifier_type_name Identifier_phone = ''phone''"
| "identifier_type_name Identifier_tax_id = ''tax_id''"
| "identifier_type_name Identifier_registry_id = ''registry_id''"
| "identifier_type_name Identifier_business_number = ''business_number''"
| "identifier_type_name Identifier_court_file = ''court_file''"
| "identifier_type_name Identifier_custom = ''custom''"

primrec method_type_name :: "ContactMethodType \<Rightarrow> string" where
  "method_type_name Method_email = ''email''"
| "method_type_name Method_phone = ''phone''"
| "method_type_name Method_address = ''address''"
| "method_type_name Method_website = ''website''"

primrec party_role_name :: "PartyRole \<Rightarrow> string" where
  "party_role_name Party_client = ''client''"
| "party_role_name Party_prospective_client = ''prospective_client''"
| "party_role_name Party_former_client = ''former_client''"
| "party_role_name Party_opposing_party = ''opposing_party''"
| "party_role_name Party_opposing_counsel = ''opposing_counsel''"
| "party_role_name Party_related_party = ''related_party''"
| "party_role_name Party_witness = ''witness''"
| "party_role_name Party_court = ''court''"
| "party_role_name Party_court_tribunal = ''court_tribunal''"
| "party_role_name Party_lawyer = ''lawyer''"
| "party_role_name Party_paralegal = ''paralegal''"
| "party_role_name Party_authorized_non_lawyer_provider = ''authorized_non_lawyer_provider''"
| "party_role_name Party_legal_representative = ''legal_representative''"
| "party_role_name Party_insurer = ''insurer''"
| "party_role_name Party_expert = ''expert''"
| "party_role_name Party_vendor = ''vendor''"
| "party_role_name Party_referral_source = ''referral_source''"
| "party_role_name Party_internal_team_member = ''internal_team_member''"
| "party_role_name Party_third_party = ''third_party''"
| "party_role_name Party_notary_client = ''notary_client''"
| "party_role_name Party_paralegal_client = ''paralegal_client''"
| "party_role_name Party_other = ''other''"

primrec prospective_role_name :: "ProspectiveRole \<Rightarrow> string" where
  "prospective_role_name Prospective_client = ''client''"
| "prospective_role_name Prospective_opposing_party = ''opposing_party''"
| "prospective_role_name Prospective_third_party = ''third_party''"

primrec province_name :: "Province \<Rightarrow> string" where
  "province_name Province_BC = ''BC''"
| "province_name Province_ON = ''ON''"
| "province_name Province_CANADA = ''CANADA''"
| "province_name Province_OTHER = ''OTHER''"

text \<open>\<open>text.replaceAll("_", " ")\<close>.\<close>

definition spaced :: "string \<Rightarrow> string" where
  "spaced s = map (\<lambda>c. if c = CHR ''_'' then CHR '' '' else c) s"

subsection \<open>Normalised names\<close>

definition entityMarkers :: "string list" where
  "entityMarkers = [''inc'', ''incorporated'', ''corp'', ''corporation'', ''co'', ''company'', ''ltd'', ''limited'',
     ''llc'', ''llp'', ''plc'', ''ulc'', ''the'']"

text \<open>
  What one lower case character becomes under \<open>normalize("NFKD")\<close> and the replacement of everything
  but letters, numbers and white space by a space: an accented letter is its base letter followed by a
  combining mark, which becomes a space. The micro sign becomes the Greek letter, a letter no other
  character gives, and stands for it here.
\<close>

definition token_chars :: "char \<Rightarrow> string" where
  "token_chars c =
     (let n = of_char c :: nat
      in if is_space c then '' ''
         else if (48 \<le> n \<and> n \<le> 57) \<or> (97 \<le> n \<and> n \<le> 122) \<or> n \<in> {181, 223, 230, 240, 248, 254} then [c]
         else if 224 \<le> n \<and> n \<le> 229 then ''a ''
         else if n = 231 then ''c ''
         else if 232 \<le> n \<and> n \<le> 235 then ''e ''
         else if 236 \<le> n \<and> n \<le> 239 then ''i ''
         else if n = 241 then ''n ''
         else if 242 \<le> n \<and> n \<le> 246 then ''o ''
         else if 249 \<le> n \<and> n \<le> 252 then ''u ''
         else if n = 253 \<or> n = 255 then ''y ''
         else if n = 170 then ''a'' else if n = 186 then ''o''
         else if n = 185 then ''1'' else if n = 178 then ''2'' else if n = 179 then ''3''
         else if n = 188 then ''1 4'' else if n = 189 then ''1 2'' else if n = 190 then ''3 4''
         else if n \<in> {168, 175, 180, 184} then ''  ''
         else '' '')"

definition normalizeConflictToken :: "string \<Rightarrow> string" where
  "normalizeConflictToken v =
     join '' '' (filter (\<lambda>part. part \<noteq> [] \<and> part \<notin> set entityMarkers)
       (split_on (CHR '' '') (concat (map token_chars (to_lower_case v)))))"

record ContactName =
  name_normalized :: string
  name_original :: string
  name_category :: ConflictMatchCategory

definition name_entry :: "ConflictMatchCategory \<Rightarrow> string \<Rightarrow> ContactName" where
  "name_entry category original =
     \<lparr>name_normalized = normalizeConflictToken original, name_original = original, name_category = category\<rparr>"

definition if_truthy :: "string option \<Rightarrow> string list" where
  "if_truthy s = (if truthy s then [or_else s []] else [])"

definition contactNames :: "Contact \<Rightarrow> ContactName list" where
  "contactNames contact =
     (let kindCategory = (if contact_kind contact = Kind_organization then Match_exact_organization else Match_exact_contact)
      in filter (\<lambda>entry. name_normalized entry \<noteq> [])
          ([name_entry kindCategory (contact_displayName contact)]
           @ map (name_entry kindCategory) (if_truthy (contact_canonicalName contact))
           @ map (name_entry Match_exact_organization) (if_truthy (contact_organizationLegalName contact))
           @ map (name_entry Match_exact_organization) (if_truthy (contact_organizationOperatingName contact))
           @ map (name_entry Match_exact_organization) (if_truthy (contact_organizationRegisteredName contact))
           @ map (name_entry Match_alias) (contact_aliases contact)
           @ map (name_entry Match_former_name) (or_else (contact_formerNames contact) [])))"

subsection \<open>Links, severities and identifiers\<close>

type_synonym MatterLink = "Matter option \<times> MatterParty option"

definition matterLinksForContact :: "string \<Rightarrow> Matter list \<Rightarrow> MatterParty list \<Rightarrow> bool \<Rightarrow> MatterLink list" where
  "matterLinksForContact contactId matters matterParties includeClosedMatters =
     (let links = filter (\<lambda>(matter, party). includeClosedMatters \<or> matter = None
            \<or> (\<exists>m \<in> set_option matter. matter_status m \<notin> {Matter_closed, Matter_archived}))
          (map (\<lambda>party. (find (\<lambda>candidate. matter_id candidate = party_matterId party) matters, Some party))
            (filter (\<lambda>candidate. party_contactId candidate = contactId) matterParties))
      in if links \<noteq> [] then links else [(None, None)])"

definition same_candidate :: "ConflictCandidate \<Rightarrow> ConflictCandidate \<Rightarrow> bool" where
  "same_candidate existing candidate =
     (cand_contactId existing = cand_contactId candidate \<and> cand_matterId existing = cand_matterId candidate
      \<and> cand_severity existing = cand_severity candidate \<and> cand_reason existing = cand_reason candidate
      \<and> cand_matchedValue existing = cand_matchedValue candidate)"

definition pushUniqueCandidate :: "ConflictCandidate list \<Rightarrow> ConflictCandidate \<Rightarrow> ConflictCandidate list" where
  "pushUniqueCandidate candidates candidate =
     (if list_ex (\<lambda>existing. same_candidate existing candidate) candidates then candidates
      else candidates @ [candidate])"

definition severityForParty :: "MatterParty option \<Rightarrow> ProspectiveRole option \<Rightarrow> ConflictSeverity" where
  "severityForParty party prospectiveRole =
     (if (case party of Some p \<Rightarrow> party_adverse p | None \<Rightarrow> False) \<or> prospectiveRole = Some Prospective_opposing_party
      then Severity_blocker
      else if (case party of Some p \<Rightarrow> party_role p = Party_former_client \<or> party_conflictCheckIncluded p = Some False
                | None \<Rightarrow> False)
      then Severity_review
      else Severity_review)"

definition riskLevelForSeverity :: "ConflictSeverity \<Rightarrow> ConflictRiskLevel" where
  "riskLevelForSeverity severity =
     (if severity = Severity_blocker then Risk_high else if severity = Severity_review then Risk_medium else Risk_low)"

record ContactKey =
  key_key :: string
  key_value :: string
  key_type :: string
  key_category :: ConflictMatchCategory

definition contactMethodConflictValues :: "ContactMethod \<Rightarrow> string list" where
  "contactMethodConflictValues m =
     (if method_type m \<noteq> Method_address then if_truthy (method_value m)
      else (let part = (\<lambda>f. Option.bind (method_address m) f);
                addressParts = concat (map if_truthy
                  [part addr_line1, part addr_line2, part addr_city, part (\<lambda>a. map_option province_name (addr_province a)),
                   part addr_postalCode, part addr_country])
            in concat (map if_truthy [Some (join '' '' addressParts), part addr_line1, part addr_postalCode])))"

definition contactIdentifiersAndMethods :: "Contact \<Rightarrow> ContactKey list" where
  "contactIdentifiersAndMethods contact =
     filter (\<lambda>entry. length (key_key entry) > length (takeWhile (\<lambda>c. c \<noteq> CHR '':'') (key_key entry)) + 1)
      (map (\<lambda>identifier.
          \<lparr>key_key = identifier_type_name (cid_type identifier) @ '':'' @ normalizeConflictToken (cid_value identifier),
           key_value = cid_value identifier, key_type = identifier_type_name (cid_type identifier),
           key_category = Match_identifier\<rparr>)
        (filter (\<lambda>identifier. cid_conflictCheckIncluded identifier \<noteq> Some False) (contact_identifiers contact))
       @ map (\<lambda>(m, v).
          \<lparr>key_key = method_type_name (method_type m) @ '':'' @ normalizeConflictToken v,
           key_value = v, key_type = method_type_name (method_type m), key_category = Match_contact_method\<rparr>)
        (filter (\<lambda>(m, v). method_conflictCheckIncluded m \<noteq> Some False \<and> v \<noteq> [])
          (concat (map (\<lambda>m. map (Pair m) (contactMethodConflictValues m)) (or_else (contact_contactMethods contact) [])))))"

definition relationshipCategory :: "ContactRelationshipRecord \<Rightarrow> Contact option \<Rightarrow> ConflictMatchCategory" where
  "relationshipCategory relationship relatedContact =
     (if rel_status relationship = RelationshipStatus_ended then Match_historical_relationship
      else if map_option contact_kind relatedContact = Some Kind_organization then Match_organization_relationship
      else Match_related_party)"

subsection \<open>The check\<close>

definition prospectiveNames :: "ConflictCheckInput \<Rightarrow> string list" where
  "prospectiveNames inp =
     filter (\<lambda>name. name \<noteq> [])
       (map normalizeConflictToken (ccin_prospectiveName inp # or_else (ccin_aliases inp) []))"

definition prospectiveIdentifiers :: "ConflictCheckInput \<Rightarrow> string set" where
  "prospectiveIdentifiers inp =
     set (map (\<lambda>identifier. qid_type identifier @ '':'' @ normalizeConflictToken (qid_value identifier))
       (or_else (ccin_identifiers inp) []))"

text \<open>The links a loop reports: one with a party but no matter is skipped.\<close>

definition reported_links :: "ConflictCheckInput \<Rightarrow> string \<Rightarrow> MatterLink list" where
  "reported_links inp contactId =
     filter (\<lambda>(matter, party). \<not> (party \<noteq> None \<and> matter = None))
       (matterLinksForContact contactId (ccin_matters inp) (ccin_matterParties inp) (ccin_includeClosedMatters inp))"

definition is_adverse :: "MatterParty option \<Rightarrow> bool" where
  "is_adverse party = (\<exists>p \<in> set_option party. party_adverse p)"

text \<open>\<open>Number(x.toFixed(2))\<close> as text, from hundredths.\<close>

definition score_text :: "int \<Rightarrow> string" where
  "score_text n =
     (let whole = string_of_int (n div 100); rest = nat (n mod 100)
      in if rest = 0 then whole
         else if rest mod 10 = 0 then whole @ ''.'' @ string_of_nat (rest div 10)
         else whole @ ''.'' @ string_of_nat (rest div 10) @ string_of_nat (rest mod 10))"

definition exact_candidate :: "ConflictCheckInput \<Rightarrow> Contact \<Rightarrow> string \<Rightarrow> ContactName \<Rightarrow> MatterLink \<Rightarrow> ConflictCandidate" where
  "exact_candidate inp contact prospectiveName exactName =
     (\<lambda>(matter, party). let severity = severityForParty party (ccin_prospectiveRole inp) in
      \<lparr>cand_contactId = contact_id contact, cand_matterId = map_option matter_id matter, cand_severity = severity,
       cand_reason = (if is_adverse party then ''Prospective party matches an adverse party''
         else if name_category exactName = Match_former_name then ''Former-name match''
         else if name_category exactName = Match_alias then ''Alias match''
         else if contact_kind contact = Kind_organization then ''Organization name match''
         else ''Contact name match''),
       cand_matchedValue = prospectiveName, cand_matchCategory = Some (name_category exactName),
       cand_riskLevel = Some (riskLevelForSeverity severity), cand_score = Some 100,
       cand_explanation = Some (case party of
           Some p \<Rightarrow> ''Matched '' @ spaced (match_category_name (name_category exactName)) @ '' for a ''
             @ party_role_name (party_role p) @ '' matter association.''
         | None \<Rightarrow> ''Matched '' @ spaced (match_category_name (name_category exactName)) @ '' on a contact record.''),
       cand_relationshipId = None, cand_relatedContactId = None,
       cand_matchedContactKind = Some (contact_kind contact), cand_matchedRole = map_option party_role party,
       cand_redacted = None\<rparr>)"

definition fuzzy_candidate :: "Contact \<Rightarrow> string \<Rightarrow> ContactName \<Rightarrow> MatterLink \<Rightarrow> ConflictCandidate" where
  "fuzzy_candidate contact prospectiveName fuzzyMatch =
     (\<lambda>(matter, party). let score = to_fixed_2 (similarity (name_normalized fuzzyMatch) prospectiveName) in
      \<lparr>cand_contactId = contact_id contact, cand_matterId = map_option matter_id matter, cand_severity = Severity_review,
       cand_reason = ''Near name match requires manual review'',
       cand_matchedValue = name_normalized fuzzyMatch, cand_matchCategory = Some Match_fuzzy_name,
       cand_riskLevel = Some Risk_medium, cand_score = Some score,
       cand_explanation = Some (''Near match to '' @ spaced (match_category_name (name_category fuzzyMatch))
         @ '' with score '' @ score_text score @ ''.''),
       cand_relationshipId = None, cand_relatedContactId = None,
       cand_matchedContactKind = Some (contact_kind contact), cand_matchedRole = map_option party_role party,
       cand_redacted = None\<rparr>)"

definition name_candidates :: "ConflictCheckInput \<Rightarrow> Contact \<Rightarrow> string \<Rightarrow> ConflictCandidate list" where
  "name_candidates inp contact prospectiveName =
     (let names = contactNames contact; links = reported_links inp (contact_id contact)
      in case find (\<lambda>name. name_normalized name = prospectiveName) names of
           Some exactName \<Rightarrow> map (exact_candidate inp contact prospectiveName exactName) links
         | None \<Rightarrow>
             (case find (\<lambda>name. fuzzy_threshold \<le> similarity (name_normalized name) prospectiveName) names of
                Some fuzzyMatch \<Rightarrow> map (fuzzy_candidate contact prospectiveName fuzzyMatch) links
              | None \<Rightarrow> []))"

definition identifier_candidate :: "Contact \<Rightarrow> ContactKey \<Rightarrow> MatterLink \<Rightarrow> ConflictCandidate" where
  "identifier_candidate contact identifier =
     (\<lambda>(matter, party).
      \<lparr>cand_contactId = contact_id contact, cand_matterId = map_option matter_id matter, cand_severity = Severity_blocker,
       cand_reason = (if key_category identifier = Match_contact_method
         then ''Shared '' @ key_type identifier @ '' contact method'' else ''Shared '' @ key_type identifier @ '' identifier''),
       cand_matchedValue = key_value identifier, cand_matchCategory = Some (key_category identifier),
       cand_riskLevel = Some Risk_high, cand_score = Some 100,
       cand_explanation = Some (''Matched normalized '' @ key_type identifier @ '' ''
         @ spaced (match_category_name (key_category identifier)) @ ''.''),
       cand_relationshipId = None, cand_relatedContactId = None,
       cand_matchedContactKind = Some (contact_kind contact), cand_matchedRole = map_option party_role party,
       cand_redacted = None\<rparr>)"

definition identifier_candidates :: "ConflictCheckInput \<Rightarrow> Contact \<Rightarrow> ConflictCandidate list" where
  "identifier_candidates inp contact =
     concat (map (\<lambda>identifier. map (identifier_candidate contact identifier) (reported_links inp (contact_id contact)))
       (filter (\<lambda>identifier. key_key identifier \<in> prospectiveIdentifiers inp) (contactIdentifiersAndMethods contact)))"

definition severe_flags :: "Contact \<Rightarrow> bool" where
  "severe_flags contact =
     (or_else (contact_adverse contact) False \<or> contact_confidentialityMarker contact = Some Marker_restricted)"

definition flag_candidate :: "Contact \<Rightarrow> MatterLink \<Rightarrow> ConflictCandidate" where
  "flag_candidate contact =
     (\<lambda>(matter, party).
      \<lparr>cand_contactId = contact_id contact, cand_matterId = map_option matter_id matter,
       cand_severity = (if severe_flags contact then Severity_blocker else Severity_review),
       cand_reason = ''Matched contact has conflict-sensitive handling flags'',
       cand_matchedValue = contact_displayName contact, cand_matchCategory = Some Match_conflict_flag,
       cand_riskLevel = Some (if severe_flags contact then Risk_high else Risk_medium), cand_score = Some 75,
       cand_explanation = Some ''Contact record is marked conflict-sensitive, adverse, or restricted.'',
       cand_relationshipId = None, cand_relatedContactId = None,
       cand_matchedContactKind = Some (contact_kind contact), cand_matchedRole = map_option party_role party,
       cand_redacted = None\<rparr>)"

definition flag_candidates :: "ConflictCheckInput \<Rightarrow> Contact \<Rightarrow> ConflictCandidate list" where
  "flag_candidates inp contact =
     (if or_else (contact_conflictSensitive contact) False \<or> severe_flags contact
      then map (flag_candidate contact) (reported_links inp (contact_id contact)) else [])"

definition relationship_candidate ::
  "ContactRelationshipRecord \<Rightarrow> bool \<Rightarrow> string \<Rightarrow> Contact \<Rightarrow> MatterLink \<Rightarrow> ConflictCandidate" where
  "relationship_candidate relationship sourceMatched matched other =
     (\<lambda>(matter, party).
      \<lparr>cand_contactId = (if sourceMatched then rel_relatedContactId relationship else rel_contactId relationship),
       cand_matterId = (case rel_matterId relationship of Some m \<Rightarrow> Some m | None \<Rightarrow> map_option matter_id matter),
       cand_severity = (if rel_status relationship = RelationshipStatus_review_needed then Severity_review else Severity_info),
       cand_reason = ''Related-party relationship match'',
       cand_matchedValue = matched, cand_matchCategory = Some (relationshipCategory relationship (Some other)),
       cand_riskLevel = Some (if rel_status relationship = RelationshipStatus_review_needed then Risk_medium else Risk_low),
       cand_score = Some (if rel_status relationship = RelationshipStatus_ended then 45 else 65),
       cand_explanation = Some (''Matched through '' @ spaced (relationship_kind_name (rel_relationshipKind relationship))
         @ '' relationship.''),
       cand_relationshipId = Some (rel_id relationship),
       cand_relatedContactId = Some (if sourceMatched then rel_contactId relationship else rel_relatedContactId relationship),
       cand_matchedContactKind = Some (contact_kind other), cand_matchedRole = map_option party_role party,
       cand_redacted = None\<rparr>)"

definition relationship_candidates :: "ConflictCheckInput \<Rightarrow> ContactRelationshipRecord \<Rightarrow> ConflictCandidate list" where
  "relationship_candidates inp relationship =
     (let contactById = js_map (map (\<lambda>contact. (contact_id contact, contact)) (ccin_contacts inp));
          isMatch = (\<lambda>name. name_normalized name \<in> set (prospectiveNames inp))
      in if rel_firmId relationship \<noteq> ccin_firmId inp then []
         else if rel_includeInConflictCheck relationship = Some False then []
         else (case (map_get contactById (rel_contactId relationship), map_get contactById (rel_relatedContactId relationship)) of
                 (Some sourceContact, Some relatedContact) \<Rightarrow>
                   (case (find isMatch (contactNames sourceContact), find isMatch (contactNames relatedContact)) of
                      (Some matched, _) \<Rightarrow>
                        map (relationship_candidate relationship True (name_normalized matched) relatedContact)
                          (reported_links inp (rel_relatedContactId relationship))
                    | (None, Some matched) \<Rightarrow>
                        map (relationship_candidate relationship False (name_normalized matched) sourceContact)
                          (reported_links inp (rel_contactId relationship))
                    | (None, None) \<Rightarrow> [])
               | _ \<Rightarrow> []))"

definition contact_candidates :: "ConflictCheckInput \<Rightarrow> Contact \<Rightarrow> ConflictCandidate list" where
  "contact_candidates inp contact =
     concat (map (name_candidates inp contact) (prospectiveNames inp))
     @ identifier_candidates inp contact @ flag_candidates inp contact"

definition offered_candidates :: "ConflictCheckInput \<Rightarrow> ConflictCandidate list" where
  "offered_candidates inp =
     concat (map (contact_candidates inp)
       (filter (\<lambda>candidate. contact_firmId candidate = ccin_firmId inp) (ccin_contacts inp)))
     @ concat (map (relationship_candidates inp) (or_else (ccin_contactRelationships inp) []))"

definition runConflictCheck :: "ConflictCheckInput \<Rightarrow> ConflictCandidate list" where
  "runConflictCheck inp = foldl pushUniqueCandidate [] (offered_candidates inp)"

subsection \<open>The store\<close>

record ConflictCheckRunInput =
  crun_firmId :: string
  crun_actorId :: string
  crun_prospectiveName :: string
  crun_aliases :: "string list option"
  crun_identifiers :: "QueryIdentifier list option"
  crun_prospectiveRole :: "ProspectiveRole option"
  crun_includeClosedMatters :: bool

record MemoryConflictCheckStore =
  ccs_contacts :: "Contact list"
  ccs_matters :: "Matter list"
  ccs_matterParties :: "MatterParty list"
  ccs_contactRelationships :: "ContactRelationshipRecord list"
  ccs_conflictChecks :: "ConflictCheckRecord list"
  ccs_auditEvents :: "AuditEvent list"

definition padStart3 :: "string \<Rightarrow> string" where
  "padStart3 s = replicate (3 - length s) (CHR ''0'') @ s"

definition check_input :: "MemoryConflictCheckStore \<Rightarrow> ConflictCheckRunInput \<Rightarrow> ConflictCheckInput" where
  "check_input store inp =
     \<lparr>ccin_firmId = crun_firmId inp, ccin_prospectiveName = crun_prospectiveName inp, ccin_aliases = crun_aliases inp,
      ccin_identifiers = crun_identifiers inp, ccin_prospectiveRole = crun_prospectiveRole inp,
      ccin_includeClosedMatters = crun_includeClosedMatters inp, ccin_contacts = ccs_contacts store,
      ccin_matters = ccs_matters store, ccin_matterParties = ccs_matterParties store,
      ccin_contactRelationships = Some (ccs_contactRelationships store)\<rparr>"

definition check_event :: "ConflictCheckRunInput \<Rightarrow> string \<Rightarrow> string \<Rightarrow> string \<Rightarrow> nat \<Rightarrow> NewAuditEvent" where
  "check_event inp eventId checkId createdAt resultCount =
     \<lparr>aud_id = eventId, aud_firmId = crun_firmId inp, aud_actorId = crun_actorId inp,
      aud_action = ''conflict_check.completed'', aud_resourceType = ''conflict_check'', aud_resourceId = checkId,
      aud_occurredAt = createdAt,
      aud_metadata = [(''resultCount'', JNum (int resultCount)), (''includeClosedMatters'', JBool (crun_includeClosedMatters inp))]
        @ (case crun_prospectiveRole inp of Some role \<Rightarrow> [(''partyRole'', JStr (prospective_role_name role))] | None \<Rightarrow> [])\<rparr>"

definition runMemoryConflictCheck ::
  "(string \<Rightarrow> string) \<Rightarrow> string \<Rightarrow> MemoryConflictCheckStore \<Rightarrow> ConflictCheckRunInput
    \<Rightarrow> (ConflictCandidate list \<times> bool) \<times> MemoryConflictCheckStore" where
  "runMemoryConflictCheck sha256 now store inp =
     (let results = runConflictCheck (check_input store inp);
          checkId = ''conflict-check-'' @ padStart3 (string_of_nat (length (ccs_conflictChecks store) + 1));
          createdAt = now;
          check = \<lparr>ccr_id = checkId, ccr_firmId = crun_firmId inp, ccr_requestedByUserId = crun_actorId inp,
            ccr_prospectiveName = crun_prospectiveName inp,
            ccr_querySnapshot = \<lparr>snap_prospectiveName = crun_prospectiveName inp, snap_aliases = or_else (crun_aliases inp) [],
              snap_identifiers = or_else (crun_identifiers inp) [], snap_prospectiveRole = crun_prospectiveRole inp,
              snap_includeClosedMatters = crun_includeClosedMatters inp\<rparr>,
            ccr_resultSnapshot = results, ccr_disposition = ''pending_review'', ccr_reviewedByUserId = None,
            ccr_createdAt = createdAt\<rparr>;
          event = check_event inp (''audit-'' @ padStart3 (string_of_nat (length (ccs_auditEvents store) + 1)))
            checkId createdAt (length results);
          log = snd (appendMemoryAuditEvent sha256 \<lparr>aud_events = ccs_auditEvents store\<rparr> event);
          store = store\<lparr>ccs_conflictChecks := ccs_conflictChecks store @ [check], ccs_auditEvents := aud_events log\<rparr>
      in ((results, ccs_auditEvents store \<noteq> []), store))"

subsection \<open>Candidates are collected without duplicates\<close>

definition candidate_key where
  "candidate_key c = (cand_contactId c, cand_matterId c, cand_severity c, cand_reason c, cand_matchedValue c)"

lemma same_candidate_key: "same_candidate a b \<longleftrightarrow> candidate_key a = candidate_key b"
  by (auto simp: same_candidate_def candidate_key_def)

lemma push_candidate:
  "pushUniqueCandidate cs c = (if candidate_key c \<in> candidate_key ` set cs then cs else cs @ [c])"
  by (simp add: pushUniqueCandidate_def same_candidate_key list_ex_iff image_iff eq_commute)

lemma pushed_keys: "candidate_key ` set (foldl pushUniqueCandidate cs ds) = candidate_key ` (set cs \<union> set ds)"
proof (induction ds arbitrary: cs)
  case (Cons d ds)
  show ?case using Cons.IH [of "pushUniqueCandidate cs d"] by (auto simp: push_candidate image_iff split: if_splits)
qed simp

lemma pushed_subset: "set (foldl pushUniqueCandidate cs ds) \<subseteq> set cs \<union> set ds"
  by (induction ds rule: rev_induct) (auto simp: push_candidate split: if_splits)

lemma pushed_distinct: "distinct (map candidate_key cs) \<Longrightarrow> distinct (map candidate_key (foldl pushUniqueCandidate cs ds))"
  by (induction ds arbitrary: cs) (auto simp: push_candidate)

lemma offered_is_reported: "d \<in> set (offered_candidates inp) \<Longrightarrow> \<exists>c \<in> set (runConflictCheck inp). candidate_key c = candidate_key d"
proof -
  assume "d \<in> set (offered_candidates inp)"
  then have "candidate_key d \<in> candidate_key ` set (runConflictCheck inp)"
    using pushed_keys [of "[]" "offered_candidates inp"] by (simp add: runConflictCheck_def)
  then show ?thesis by (simp add: image_iff eq_commute)
qed

lemma reported_is_offered: "c \<in> set (runConflictCheck inp) \<Longrightarrow> c \<in> set (offered_candidates inp)"
  using pushed_subset [of "[]" "offered_candidates inp"] unfolding runConflictCheck_def by auto

subsection \<open>Every match is reported\<close>

text \<open>The names under which a contact is known.\<close>

definition known_names :: "Contact \<Rightarrow> string list" where
  "known_names c = contact_displayName c # contact_aliases c @ or_else (contact_formerNames c) []
     @ concat (map if_truthy [contact_canonicalName c, contact_organizationLegalName c,
         contact_organizationOperatingName c, contact_organizationRegisteredName c])"

lemma name_entry_normalized [simp]: "name_normalized (name_entry category name) = normalizeConflictToken name"
  by (simp add: name_entry_def)

lemma known_name_entry:
  assumes "name \<in> set (known_names c)" "normalizeConflictToken name \<noteq> []"
  shows "\<exists>entry \<in> set (contactNames c). name_normalized entry = normalizeConflictToken name"
proof -
  have "\<exists>category. name_entry category name \<in> set (contactNames c)"
    using assms unfolding known_names_def contactNames_def Let_def by (simp add: image_iff) blast
  then show ?thesis by (metis name_entry_normalized)
qed

lemma in_set_nonempty: "x \<in> set xs \<Longrightarrow> xs \<noteq> []"
  by auto

lemma in_reported_links:
  "link \<in> set (reported_links inp cid) \<longleftrightarrow> (snd link \<noteq> None \<longrightarrow> fst link \<noteq> None)
     \<and> link \<in> set (matterLinksForContact cid (ccin_matters inp) (ccin_matterParties inp) (ccin_includeClosedMatters inp))"
  by (cases link) (auto simp: reported_links_def)

lemma reported_link:
  assumes "p \<in> set (ccin_matterParties inp)"
    and "List.find (\<lambda>m. matter_id m = party_matterId p) (ccin_matters inp) = Some m"
    and "ccin_includeClosedMatters inp \<or> matter_status m \<notin> {Matter_closed, Matter_archived}"
  shows "(Some m, Some p) \<in> set (reported_links inp (party_contactId p))"
proof -
  let ?links = "filter (\<lambda>(matter, party). ccin_includeClosedMatters inp \<or> matter = None
            \<or> (\<exists>m \<in> set_option matter. matter_status m \<notin> {Matter_closed, Matter_archived}))
          (map (\<lambda>party. (List.find (\<lambda>candidate. matter_id candidate = party_matterId party) (ccin_matters inp), Some party))
            (filter (\<lambda>candidate. party_contactId candidate = party_contactId p) (ccin_matterParties inp)))"
  have "(Some m, Some p) \<in> set ?links" using assms by (force simp: image_iff)
  moreover from this have "?links \<noteq> []" by (rule in_set_nonempty)
  ultimately show ?thesis
    unfolding in_reported_links matterLinksForContact_def Let_def by (simp only: if_True fst_conv snd_conv) simp
qed

lemma few_edits_near:
  assumes "100 * (LEAST k. (edit ^^ k) a b) \<le> 14 * max (length a) (length b)" "length a \<le> 2 ^ 40" "length b \<le> 2 ^ 40"
  shows "fuzzy_threshold \<le> similarity a b"
  using assms similarity_threshold by blast

lemma near_name_candidate:
  assumes "entry \<in> set (contactNames c)" "fuzzy_threshold \<le> similarity (name_normalized entry) pn"
    and "link \<in> set (reported_links inp (contact_id c))"
  shows "\<exists>d \<in> set (name_candidates inp c pn). cand_contactId d = contact_id c
    \<and> cand_matterId d = map_option matter_id (fst link)
    \<and> (name_normalized entry = pn \<longrightarrow> cand_severity d = severityForParty (snd link) (ccin_prospectiveRole inp))"
proof (cases "List.find (\<lambda>name. name_normalized name = pn) (contactNames c)")
  case (Some exact)
  then have "exact_candidate inp c pn exact link \<in> set (name_candidates inp c pn)"
    using assms(3) by (simp add: name_candidates_def Let_def)
  then show ?thesis
    by (rule rev_bexI) (simp add: exact_candidate_def Let_def split: prod.split)
next
  case None
  then have "name_normalized entry \<noteq> pn" using assms(1) by (auto simp: find_None_all)
  moreover obtain near where "List.find (\<lambda>name. fuzzy_threshold \<le> similarity (name_normalized name) pn) (contactNames c) = Some near"
    using assms(1,2) by (metis find_None_all not_None_eq)
  then have "fuzzy_candidate c pn near link \<in> set (name_candidates inp c pn)"
    using None assms(3) by (simp add: name_candidates_def Let_def)
  ultimately show ?thesis
    by (intro rev_bexI) (auto simp: fuzzy_candidate_def Let_def split: prod.split)
qed

lemma name_candidate_offered:
  assumes "c \<in> set (ccin_contacts inp)" "contact_firmId c = ccin_firmId inp" "pn \<in> set (prospectiveNames inp)"
    and "d \<in> set (name_candidates inp c pn)"
  shows "d \<in> set (offered_candidates inp)"
  using assms by (auto simp: offered_candidates_def contact_candidates_def)

text \<open>
  C25. A check misses no near name on a visible matter: if a contact of the firm is a party of an
  existing matter that is not excluded as closed, and one of the contact's names, normalised, is within
  14 percent of edits of the normalised prospective name or an alias, then a candidate names the contact
  and the matter. It is a blocker when the names agree and the party is adverse.
\<close>

theorem conflict_check_reports_matches:
  assumes "c \<in> set (ccin_contacts inp)" and "contact_firmId c = ccin_firmId inp"
    and "p \<in> set (ccin_matterParties inp)" and "party_contactId p = contact_id c"
    and "List.find (\<lambda>m. matter_id m = party_matterId p) (ccin_matters inp) = Some m"
    and "ccin_includeClosedMatters inp \<or> matter_status m \<notin> {Matter_closed, Matter_archived}"
    and "prospective \<in> set (ccin_prospectiveName inp # or_else (ccin_aliases inp) [])"
    and "name \<in> set (known_names c)"
    and "a = normalizeConflictToken name" and "b = normalizeConflictToken prospective"
    and "a \<noteq> []" and "b \<noteq> []" and "length a \<le> 2 ^ 40" and "length b \<le> 2 ^ 40"
    and "100 * (LEAST k. (edit ^^ k) a b) \<le> 14 * max (length a) (length b)"
  shows "\<exists>d \<in> set (runConflictCheck inp). cand_contactId d = contact_id c \<and> cand_matterId d = Some (matter_id m)
    \<and> (a = b \<and> party_adverse p \<longrightarrow> cand_severity d = Severity_blocker)"
proof -
  obtain entry where entry: "entry \<in> set (contactNames c)" "name_normalized entry = a"
    using known_name_entry [of name c] assms(8,9,11) by auto
  have "fuzzy_threshold \<le> similarity (name_normalized entry) b"
    unfolding entry(2) using few_edits_near assms(13-15) by blast
  from near_name_candidate [OF entry(1) this, of "(Some m, Some p)" inp] obtain d
    where d: "d \<in> set (name_candidates inp c b)" "cand_contactId d = contact_id c" "cand_matterId d = Some (matter_id m)"
      "a = b \<Longrightarrow> cand_severity d = severityForParty (Some p) (ccin_prospectiveRole inp)"
    using reported_link [OF assms(3,5,6)] assms(4) entry(2) by auto
  have "b \<in> set (prospectiveNames inp)" using assms(7,10,12) by (auto simp: prospectiveNames_def)
  then obtain r where "r \<in> set (runConflictCheck inp)" "candidate_key r = candidate_key d"
    using offered_is_reported [OF name_candidate_offered [OF assms(1,2) _ d(1)]] by blast
  then show ?thesis using d(2-4) by (intro bexI [of _ r]) (auto simp: candidate_key_def severityForParty_def)
qed

subsection \<open>Every report has a reason\<close>

definition adverse_party_of :: "ConflictCheckInput \<Rightarrow> string \<Rightarrow> string option \<Rightarrow> bool" where
  "adverse_party_of inp contactId matterId =
     (\<exists>p \<in> set (ccin_matterParties inp). party_contactId p = contactId \<and> Some (party_matterId p) = matterId \<and> party_adverse p)"

definition exact_name :: "ConflictCheckInput \<Rightarrow> Contact \<Rightarrow> bool" where
  "exact_name inp c = (\<exists>entry \<in> set (contactNames c). name_normalized entry \<in> set (prospectiveNames inp))"

definition near_name :: "ConflictCheckInput \<Rightarrow> Contact \<Rightarrow> bool" where
  "near_name inp c = (\<exists>entry \<in> set (contactNames c). \<exists>pn \<in> set (prospectiveNames inp).
     fuzzy_threshold \<le> similarity (name_normalized entry) pn)"

definition shared_key :: "ConflictCheckInput \<Rightarrow> Contact \<Rightarrow> bool" where
  "shared_key inp c = (\<exists>k \<in> set (contactIdentifiersAndMethods c). key_key k \<in> prospectiveIdentifiers inp)"

definition blocker_reason :: "ConflictCheckInput \<Rightarrow> Contact \<Rightarrow> string option \<Rightarrow> bool" where
  "blocker_reason inp c matterId =
     (exact_name inp c \<and> (ccin_prospectiveRole inp = Some Prospective_opposing_party \<or> adverse_party_of inp (contact_id c) matterId)
      \<or> shared_key inp c \<or> severe_flags c)"

definition contact_reason :: "ConflictCheckInput \<Rightarrow> ConflictCandidate \<Rightarrow> Contact \<Rightarrow> bool" where
  "contact_reason inp d c =
     (cand_contactId d = contact_id c
      \<and> (exact_name inp c \<or> near_name inp c \<or> shared_key inp c \<or> or_else (contact_conflictSensitive c) False \<or> severe_flags c)
      \<and> (cand_severity d = Severity_blocker \<longrightarrow> blocker_reason inp c (cand_matterId d)))"

definition relationship_reason :: "ConflictCheckInput \<Rightarrow> ConflictCandidate \<Rightarrow> ContactRelationshipRecord \<Rightarrow> bool" where
  "relationship_reason inp d r =
     (rel_firmId r = ccin_firmId inp \<and> rel_includeInConflictCheck r \<noteq> Some False
      \<and> cand_relationshipId d = Some (rel_id r) \<and> cand_severity d \<noteq> Severity_blocker
      \<and> (\<exists>c \<in> set (ccin_contacts inp). exact_name inp c
          \<and> (contact_id c, cand_contactId d) \<in> {(rel_contactId r, rel_relatedContactId r), (rel_relatedContactId r, rel_contactId r)}))"

lemma reported_link_adverse:
  assumes "link \<in> set (reported_links inp cid)" "is_adverse (snd link)"
  shows "adverse_party_of inp cid (map_option matter_id (fst link))"
proof -
  obtain m p where link: "link = (Some m, Some p)" "party_adverse p"
    using assms by - (cases link, auto simp: in_reported_links is_adverse_def)
  then have p: "p \<in> set (ccin_matterParties inp)" "party_contactId p = cid"
      "List.find (\<lambda>candidate. matter_id candidate = party_matterId p) (ccin_matters inp) = Some m"
    using assms(1) by (auto simp: in_reported_links matterLinksForContact_def Let_def split: if_splits)
  moreover have "matter_id m = party_matterId p" using find_Some_mem [OF p(3)] by simp
  ultimately show ?thesis using link by (auto simp: adverse_party_of_def)
qed

lemma severity_blocker:
  "severityForParty party role = Severity_blocker \<longleftrightarrow> is_adverse party \<or> role = Some Prospective_opposing_party"
  by (cases party) (auto simp: severityForParty_def is_adverse_def)

lemma name_candidate_reason:
  assumes "pn \<in> set (prospectiveNames inp)" "d \<in> set (name_candidates inp c pn)"
  shows "contact_reason inp d c"
proof (cases "List.find (\<lambda>name. name_normalized name = pn) (contactNames c)")
  case (Some exact)
  then have "exact_name inp c" using find_Some_mem [OF Some] assms(1) by (auto simp: exact_name_def)
  moreover obtain link where "link \<in> set (reported_links inp (contact_id c))" "d = exact_candidate inp c pn exact link"
    using Some assms(2) by (auto simp: name_candidates_def Let_def)
  ultimately show ?thesis using reported_link_adverse
    by (cases link) (force simp: contact_reason_def exact_candidate_def Let_def blocker_reason_def severity_blocker)
next
  case None
  then obtain near link where near: "List.find (\<lambda>name. fuzzy_threshold \<le> similarity (name_normalized name) pn) (contactNames c) = Some near"
      "d = fuzzy_candidate c pn near link"
    using assms(2) by (cases "List.find (\<lambda>name. fuzzy_threshold \<le> similarity (name_normalized name) pn) (contactNames c)")
      (auto simp: name_candidates_def Let_def)
  then have "near_name inp c" using find_Some_mem [OF near(1)] assms(1) by (auto simp: near_name_def)
  then show ?thesis using near(2) by (cases link) (simp add: contact_reason_def fuzzy_candidate_def Let_def)
qed

lemma contact_candidate_reason: "d \<in> set (contact_candidates inp c) \<Longrightarrow> contact_reason inp d c"
  unfolding contact_candidates_def
proof (simp only: set_append, elim UnE)
  show "d \<in> set (concat (map (name_candidates inp c) (prospectiveNames inp))) \<Longrightarrow> contact_reason inp d c"
    using name_candidate_reason by auto
  show "d \<in> set (identifier_candidates inp c) \<Longrightarrow> contact_reason inp d c"
    by (auto simp: identifier_candidates_def contact_reason_def blocker_reason_def shared_key_def identifier_candidate_def)
  show "d \<in> set (flag_candidates inp c) \<Longrightarrow> contact_reason inp d c"
    by (auto simp: flag_candidates_def contact_reason_def blocker_reason_def flag_candidate_def split: if_splits)
qed

lemma js_map_get_mem: "map_get (js_map xs) k = Some v \<Longrightarrow> (k, v) \<in> set xs"
  unfolding js_map_def by (induction xs rule: rev_induct) (auto split: if_splits)

lemma relationship_candidate_reason:
  assumes "d \<in> set (relationship_candidates inp r)" shows "relationship_reason inp d r"
proof -
  let ?get = "map_get (js_map (map (\<lambda>contact. (contact_id contact, contact)) (ccin_contacts inp)))"
  let ?match = "List.find (\<lambda>name. name_normalized name \<in> set (prospectiveNames inp))"
  have firm: "rel_firmId r = ccin_firmId inp" "rel_includeInConflictCheck r \<noteq> Some False"
    using assms by (auto simp: relationship_candidates_def Let_def split: if_splits)
  obtain s t where st: "?get (rel_contactId r) = Some s" "?get (rel_relatedContactId r) = Some t"
    using assms firm by - (cases "?get (rel_contactId r)"; cases "?get (rel_relatedContactId r)"; simp add: relationship_candidates_def Let_def)
  then have mem: "s \<in> set (ccin_contacts inp)" "contact_id s = rel_contactId r"
      "t \<in> set (ccin_contacts inp)" "contact_id t = rel_relatedContactId r"
    using js_map_get_mem [OF st(1)] js_map_get_mem [OF st(2)] by auto
  consider matched link where "?match (contactNames s) = Some matched"
      "d = relationship_candidate r True (name_normalized matched) t link"
    | matched link where "?match (contactNames t) = Some matched"
      "d = relationship_candidate r False (name_normalized matched) s link"
    using assms firm st
    by - (cases "?match (contactNames s)"; cases "?match (contactNames t)"; auto simp: relationship_candidates_def Let_def)
  then show ?thesis
  proof cases
    case 1
    then have "exact_name inp s" using find_Some_mem [OF 1(1)] by (auto simp: exact_name_def)
    then show ?thesis using 1(2) firm mem by (cases link) (auto simp: relationship_reason_def relationship_candidate_def)
  next
    case 2
    then have "exact_name inp t" using find_Some_mem [OF 2(1)] by (auto simp: exact_name_def)
    then show ?thesis using 2(2) firm mem by (cases link) (auto simp: relationship_reason_def relationship_candidate_def)
  qed
qed

text \<open>
  No two candidates of a check agree on contact, matter, severity, reason and matched value, and
  each has its reason: it names a contact of the firm with a matching name, a shared identifier or a
  flag, or the other side of a relationship of the firm whose one side is known by the prospective
  name. A blocker is a name match with an adverse party of the candidate's matter or for an opposing
  party, a shared identifier, or a flagged contact.
\<close>

theorem conflict_candidates_justified:
  "distinct (map candidate_key (runConflictCheck inp))
   \<and> list_all (\<lambda>d. list_ex (\<lambda>c. contact_firmId c = ccin_firmId inp \<and> contact_reason inp d c) (ccin_contacts inp)
       \<or> list_ex (relationship_reason inp d) (or_else (ccin_contactRelationships inp) [])) (runConflictCheck inp)"
proof (intro conjI)
  show "distinct (map candidate_key (runConflictCheck inp))"
    unfolding runConflictCheck_def by (rule pushed_distinct) simp
  show "list_all (\<lambda>d. list_ex (\<lambda>c. contact_firmId c = ccin_firmId inp \<and> contact_reason inp d c) (ccin_contacts inp)
       \<or> list_ex (relationship_reason inp d) (or_else (ccin_contactRelationships inp) [])) (runConflictCheck inp)"
    using contact_candidate_reason relationship_candidate_reason
    by (fastforce simp: list_all_iff list_ex_iff offered_candidates_def dest!: reported_is_offered)
qed

subsection \<open>Checks are kept and audited\<close>

text \<open>
  Other stores change the contacts, matters, parties and relationships in any way, and append to the
  audit log.
\<close>

inductive conflict_step :: "(string \<Rightarrow> string) \<Rightarrow> MemoryConflictCheckStore \<Rightarrow> MemoryConflictCheckStore \<Rightarrow> bool" for sha256 where
  step_check: "runMemoryConflictCheck sha256 now s inp = (r, t) \<Longrightarrow> conflict_step sha256 s t"
| step_records: "conflict_step sha256 s (s\<lparr>ccs_contacts := cs, ccs_matters := ms, ccs_matterParties := ps, ccs_contactRelationships := rs\<rparr>)"
| step_other_event: "appendMemoryAuditEvent sha256 \<lparr>aud_events = ccs_auditEvents s\<rparr> e = (r, events) \<Longrightarrow>
    conflict_step sha256 s (s\<lparr>ccs_auditEvents := aud_events events\<rparr>)"

definition no_checks :: "MemoryConflictCheckStore \<Rightarrow> bool" where
  "no_checks s = (ccs_conflictChecks s = [] \<and> ccs_auditEvents s = [])"

definition check_id :: "nat \<Rightarrow> string" where
  "check_id n = ''conflict-check-'' @ padStart3 (string_of_nat n)"

definition audited :: "AuditEvent list \<Rightarrow> ConflictCheckRecord \<Rightarrow> bool" where
  "audited events check =
     (\<exists>e \<in> set events. aud_action e = ''conflict_check.completed'' \<and> aud_resourceId e = ccr_id check
        \<and> aud_firmId e = ccr_firmId check \<and> aud_actorId e = ccr_requestedByUserId check \<and> aud_occurredAt e = ccr_createdAt check
        \<and> map_get (aud_metadata e) ''resultCount'' = Some (JNum (int (length (ccr_resultSnapshot check)))))"

definition checks_ok :: "(string \<Rightarrow> string) \<Rightarrow> MemoryConflictCheckStore \<Rightarrow> bool" where
  "checks_ok sha256 s =
     (chains_ok sha256 \<lparr>aud_events = ccs_auditEvents s\<rparr>
      \<and> map ccr_id (ccs_conflictChecks s) = map check_id [1..<length (ccs_conflictChecks s) + 1]
      \<and> list_all (audited (ccs_auditEvents s)) (ccs_conflictChecks s))"

lemma digits_value_zeros: "digits_value (replicate k (CHR ''0'') @ s) = digits_value s"
proof -
  have "foldl (\<lambda>n c. 10 * n + (of_char c - 48)) 0 (replicate k (CHR ''0'')) = (0 :: nat)"
    by (induction k) simp_all
  then show ?thesis by (simp add: digits_value_def)
qed

lemma check_id_inject: "check_id m = check_id n \<Longrightarrow> m = n"
  unfolding check_id_def padStart3_def by (metis digits_value_string_of_nat digits_value_zeros same_append_eq)

lemma appended_event:
  assumes "appendMemoryAuditEvent sha events e = (r, t)"
  shows "aud_events t = aud_events events @ [r]" "NewAuditEvent.truncate r = e"
  using assms by (auto simp: appendMemoryAuditEvent_def appendAuditEvent_def Let_def NewAuditEvent.truncate_def
      NewAuditEvent.extend_def AuditEvent.fields_def)

lemma truncate_fields:
  "aud_action e = aud_action (NewAuditEvent.truncate e)" "aud_resourceId e = aud_resourceId (NewAuditEvent.truncate e)"
  "aud_firmId e = aud_firmId (NewAuditEvent.truncate e)" "aud_actorId e = aud_actorId (NewAuditEvent.truncate e)"
  "aud_occurredAt e = aud_occurredAt (NewAuditEvent.truncate e)" "aud_metadata e = aud_metadata (NewAuditEvent.truncate e)"
  for e :: AuditEvent
  by (simp_all add: NewAuditEvent.truncate_def)

lemma audited_append: "audited events check \<Longrightarrow> audited (events @ [e]) check"
  by (auto simp: audited_def)

lemma append_keeps_checks:
  assumes "checks_ok sha s" "appendMemoryAuditEvent sha \<lparr>aud_events = ccs_auditEvents s\<rparr> e = (r, events)"
  shows "checks_ok sha (s\<lparr>ccs_auditEvents := aud_events events\<rparr>)"
proof -
  have "chains_ok sha events" using append_keeps_chains [OF _ assms(2)] assms(1) by (simp add: checks_ok_def)
  then have "chains_ok sha \<lparr>aud_events = aud_events events\<rparr>" by (cases events) simp
  then show ?thesis
    using assms(1) appended_event(1) [OF assms(2)] by (auto simp: checks_ok_def list_all_iff intro: audited_append)
qed

lemma check_is_recorded:
  assumes "checks_ok sha s" "runMemoryConflictCheck sha now s inp = (r, t)"
  shows "checks_ok sha t"
proof -
  let ?id = "check_id (length (ccs_conflictChecks s) + 1)"
  define event where "event = check_event inp (''audit-'' @ padStart3 (string_of_nat (length (ccs_auditEvents s) + 1)))
    ?id now (length (runConflictCheck (check_input s inp)))"
  obtain e after where app: "appendMemoryAuditEvent sha \<lparr>aud_events = ccs_auditEvents s\<rparr> event = (e, after)"
    by (cases "appendMemoryAuditEvent sha \<lparr>aud_events = ccs_auditEvents s\<rparr> event")
  obtain check where t: "t = s\<lparr>ccs_conflictChecks := ccs_conflictChecks s @ [check], ccs_auditEvents := aud_events after\<rparr>"
      and check: "ccr_id check = ?id" "ccr_firmId check = crun_firmId inp" "ccr_requestedByUserId check = crun_actorId inp"
        "ccr_createdAt check = now" "ccr_resultSnapshot check = runConflictCheck (check_input s inp)"
    using assms(2) app unfolding event_def check_id_def by (auto simp: runMemoryConflictCheck_def Let_def)
  have "audited (aud_events after) check"
    unfolding audited_def appended_event(1) [OF app]
    by (rule bexI [of _ e]) (simp_all add: truncate_fields [of e, unfolded appended_event(2) [OF app]] check event_def check_event_def)
  then show ?thesis
    using append_keeps_checks [OF assms(1) app] check(1) unfolding t checks_ok_def by (simp add: chains_ok_def firm_chain_def)
qed

interpretation conflict_run: inductive_invariant no_checks "conflict_step sha256" "checks_ok sha256" for sha256
proof unfold_locales
  show "no_checks s \<Longrightarrow> checks_ok sha256 s" for s
    by (simp add: no_checks_def checks_ok_def chains_ok_def firm_chain_def verifyAuditChain_def)
  show "conflict_step sha256 s t \<Longrightarrow> checks_ok sha256 s \<Longrightarrow> checks_ok sha256 t" for s t
  proof (induction rule: conflict_step.induct)
    case (step_records s cs ms ps rs)
    then show ?case by (simp add: checks_ok_def)
  qed (blast intro: check_is_recorded append_keeps_checks)+
qed

text \<open>
  In every reachable store the checks have different ids, the audit log of every firm verifies, and
  every check has an audit event with its id, firm, user and time and the number of its results.
\<close>

theorem conflict_checks_are_audited:
  assumes "reachable no_checks (conflict_step sha256) s"
  shows "distinct (map ccr_id (ccs_conflictChecks s))
    \<and> list_all (audited (ccs_auditEvents s)) (ccs_conflictChecks s)
    \<and> verifyAuditChain sha256 (filter (\<lambda>e. aud_firmId e = firmId) (ccs_auditEvents s))"
proof -
  have inv: "checks_ok sha256 s" by (rule conflict_run.reachable_inv [OF assms])
  then have "distinct (map ccr_id (ccs_conflictChecks s))"
    by (simp add: checks_ok_def distinct_map inj_on_def check_id_inject)
  then show ?thesis using inv by (simp add: checks_ok_def chains_ok_def firm_chain_def)
qed

subsection \<open>An example\<close>

definition ex_contact :: Contact where
  "ex_contact =
     \<lparr>contact_id = ''c'', contact_firmId = ''f'', contact_kind = Kind_person, contact_status = None,
      contact_roleCategories = None, contact_canonicalName = None, contact_displayName = ''Jonathan Smith'',
      contact_givenName = None, contact_middleName = None, contact_familyName = None, contact_title = None,
      contact_pronouns = None, contact_organizationLegalName = None, contact_organizationOperatingName = None,
      contact_organizationRegisteredName = None, contact_organizationType = None, contact_website = None,
      contact_aliases = [], contact_formerNames = None, contact_identifiers = [],
      contact_contactMethods = None, contact_preferredContactMethodId = None, contact_preferredLanguage = None,
      contact_timezone = None, contact_communicationNotes = None, contact_accessibilityNotes = None,
      contact_privateNotes = None, contact_notes = None, contact_riskFlags = None,
      contact_conflictSensitive = None, contact_adverse = None, contact_confidentialityMarker = None,
      contact_doNotContact = None, contact_createdByUserId = None, contact_updatedByUserId = None,
      contact_createdAt = None, contact_updatedAt = None\<rparr>"

definition ex_matter :: Matter where
  "ex_matter =
     \<lparr>matter_id = ''m'', matter_firmId = ''f'', matter_number = ''1'', matter_title = ''t'',
      matter_practiceArea = ''p'', matter_status = Matter_open, matter_jurisdiction = Province_BC,
      matter_responsibleUserId = ''u'', matter_openedOn = None, matter_closedOn = None\<rparr>"

definition ex_party :: MatterParty where
  "ex_party =
     \<lparr>party_id = ''p'', party_firmId = ''f'', party_matterId = ''m'', party_contactId = ''c'',
      party_role = Party_opposing_party, party_adverse = True, party_confidential = False, party_status = None,
      party_side = None, party_startedOn = None, party_endedOn = None, party_notes = None,
      party_privateNotes = None, party_conflictCheckIncluded = None, party_createdAt = None,
      party_updatedAt = None, party_createdByUserId = None, party_updatedByUserId = None\<rparr>"

definition ex_check :: ConflictCheckRunInput where
  "ex_check =
     \<lparr>crun_firmId = ''f'', crun_actorId = ''u'', crun_prospectiveName = ''Jonathan Smyth Ltd.'', crun_aliases = Some [''Jon Smith''],
      crun_identifiers = Some [\<lparr>qid_type = ''email'', qid_value = ''js@example.org''\<rparr>], crun_prospectiveRole = Some Prospective_client,
      crun_includeClosedMatters = False\<rparr>"

definition ex_conflict_store :: MemoryConflictCheckStore where
  "ex_conflict_store =
     \<lparr>ccs_contacts = [ex_contact], ccs_matters = [ex_matter], ccs_matterParties = [ex_party], ccs_contactRelationships = [],
      ccs_conflictChecks = [], ccs_auditEvents = []\<rparr>"

theorem conflict_check_reports_matches_witness:
  "\<exists>d \<in> set (runConflictCheck (check_input ex_conflict_store ex_check)).
     cand_contactId d = ''c'' \<and> cand_matterId d = Some ''m''"
proof -
  have "levenshtein ''jonathan smith'' ''jonathan smyth'' = 1" by code_simp
  then have "(LEAST k. (edit ^^ k) ''jonathan smith'' ''jonathan smyth'') = 1"
    by (simp add: levenshtein_distance distance_is_least)
  then have few: "100 * (LEAST k. (edit ^^ k) ''jonathan smith'' ''jonathan smyth'')
      \<le> 14 * max (length ''jonathan smith'') (length ''jonathan smyth'')" by simp
  have norm: "''jonathan smith'' = normalizeConflictToken ''Jonathan Smith''"
    "''jonathan smyth'' = normalizeConflictToken ''Jonathan Smyth Ltd.''" by code_simp+
  have "\<exists>d \<in> set (runConflictCheck (check_input ex_conflict_store ex_check)).
     cand_contactId d = contact_id ex_contact \<and> cand_matterId d = Some (matter_id ex_matter)
     \<and> (''jonathan smith'' = ''jonathan smyth'' \<and> party_adverse ex_party \<longrightarrow> cand_severity d = Severity_blocker)"
    by (rule conflict_check_reports_matches [OF _ _ _ _ _ _ _ _ norm(1) norm(2) _ _ _ _ few])
      (simp_all add: check_input_def ex_conflict_store_def ex_check_def ex_contact_def ex_matter_def ex_party_def known_names_def)
  then show ?thesis by (auto simp: ex_contact_def ex_matter_def)
qed

theorem conflict_checks_are_audited_witness:
  "list_all (audited (ccs_auditEvents (snd (runMemoryConflictCheck (\<lambda>s. s) ''2026-01-01T00:00:00.000Z'' ex_conflict_store ex_check))))
     (ccs_conflictChecks (snd (runMemoryConflictCheck (\<lambda>s. s) ''2026-01-01T00:00:00.000Z'' ex_conflict_store ex_check)))"
proof -
  let ?run = "runMemoryConflictCheck (\<lambda>s. s) ''2026-01-01T00:00:00.000Z'' ex_conflict_store ex_check"
  have "reachable no_checks (conflict_step (\<lambda>s. s)) (snd ?run)"
  proof (rule reach_step)
    show "reachable no_checks (conflict_step (\<lambda>s. s)) ex_conflict_store"
      by (rule reach_init) (simp add: no_checks_def ex_conflict_store_def)
    show "conflict_step (\<lambda>s. s) ex_conflict_store (snd ?run)" by (rule step_check [OF surjective_pairing])
  qed
  from conflict_checks_are_audited [OF this] show ?thesis by blast
qed

subsection \<open>What the normalisation misses\<close>

text \<open>
  The combining marks that the decomposition leaves are replaced by spaces and not removed, so that a
  name falls apart at its accents and is no near match of the name without them; and a flagged contact
  is reported by every check of its firm.
\<close>

lemma accents_split_names:
  "normalizeConflictToken [CHR ''H'', CHR 0xE9, CHR ''l'', CHR 0xE8, CHR ''n'', CHR ''e''] = ''he le ne''"
  "similarity ''he le ne'' ''helene'' < fuzzy_threshold"
  by code_simp+

lemma flagged_contact_always_reported:
  assumes "c \<in> set (ccin_contacts inp)" "contact_firmId c = ccin_firmId inp" "severe_flags c"
    and "link \<in> set (reported_links inp (contact_id c))"
  shows "\<exists>d \<in> set (runConflictCheck inp). cand_contactId d = contact_id c \<and> cand_severity d = Severity_blocker"
proof -
  have "flag_candidate c link \<in> set (offered_candidates inp)"
    using assms by (auto simp: offered_candidates_def contact_candidates_def flag_candidates_def)
  from offered_is_reported [OF this] show ?thesis
    using assms(3) by (auto simp: candidate_key_def flag_candidate_def split: prod.splits)
qed

end
