(* ===== verification/Matter_Store.thy ===== *)
theory Matter_Store
  imports Matter_Lifecycle Booking_Store Conflicts
begin

section \<open>The matter store\<close>

text \<open>
  packages/database/src/repository/matter-lifecycle/memory.ts: opening matters, converting public
  consultation intakes, and the reviews and commands of the lifecycle. Calls append to the audit log of
  the repository (\<open>Audit_Chain\<close>). What a call returns of a matter is the matter itself: the summary the
  code adds to it (documents, activity, balances) is a read-only projection of other stores, of which
  only the visibility of the matter decides anything here.
\<close>

subsection \<open>Data\<close>

datatype MatterLifecycleCommandErrorCode =
    MATTER_LIFECYCLE_EXPECTED_STATUS_MISMATCH | MATTER_LIFECYCLE_COMMAND_NOT_AVAILABLE
  | MATTER_LIFECYCLE_READINESS_NOT_READY | MATTER_LIFECYCLE_MATTER_NOT_FOUND

datatype MatterLifecycleCommandError =
    CommandError MatterLifecycleCommandErrorCode string
  | OtherError error

record NewClient =
  ncl_kind :: ContactKind
  ncl_displayName :: string
  ncl_identifiers :: "ContactIdentifier list"

record CreateMatterWithClientInput =
  cmi_firmId :: string
  cmi_actorUserId :: string
  cmi_matterId :: string
  cmi_contactId :: string
  cmi_partyId :: string
  cmi_title :: string
  cmi_practiceArea :: string
  cmi_jurisdiction :: Province
  cmi_openedOn :: string
  cmi_occurredAt :: string
  cmi_auditEventId :: string
  cmi_client :: "NewClient option"

record OpposingPartyInput =
  opp_contactId :: string
  opp_partyId :: string
  opp_displayName :: string

record ConvertPublicConsultationIntakeInput =
  cvi_firmId :: string
  cvi_intakeId :: string
  cvi_actorUserId :: string
  cvi_matterId :: string
  cvi_clientContactId :: string
  cvi_clientPartyId :: string
  cvi_opposingParties :: "OpposingPartyInput list"
  cvi_title :: string
  cvi_practiceArea :: string
  cvi_jurisdiction :: Province
  cvi_openedOn :: string
  cvi_occurredAt :: string
  cvi_auditEventId :: string

record CreateTransitionInput =
  cti_id :: string
  cti_firmId :: string
  cti_matterId :: string
  cti_transition :: MatterLifecycleTransition
  cti_readiness :: MatterLifecycleReadiness
  cti_reason :: string
  cti_blockers :: "string list option"
  cti_reviewedByUserId :: string
  cti_reviewedAt :: string
  cti_createdAt :: string
  cti_auditEventId :: string

record ExecuteCommandInput =
  eci_firmId :: string
  eci_matterId :: string
  eci_command :: MatterLifecycleCommand
  eci_expectedStatus :: MatterStatus
  eci_transitionRecordId :: string
  eci_reason :: string
  eci_idempotencyKey :: string
  eci_executedByUserId :: string
  eci_executedAt :: string
  eci_auditEventId :: string

record MemoryMatterLifecycleStore =
  mst_users :: "User list"
  mst_contacts :: "Contact list"
  mst_matters :: "Matter list"
  mst_matterParties :: "MatterParty list"
  mst_publicConsultationIntakes :: "PublicConsultationIntakeRecord list"
  mst_matterLifecycleTransitions :: "MatterLifecycleTransitionRecord list"
  mst_auditEvents :: "AuditEvent list"

subsection \<open>Matter numbers\<close>

text \<open>\<open>Number.parseInt(s, 10)\<close>: leading white space, a sign and the digits that follow; none is \<open>NaN\<close>.\<close>

definition parse_int :: "string \<Rightarrow> int option" where
  "parse_int s =
     (let t = dropWhile is_space s;
          negative = (take 1 t = ''-'');
          u = (if take 1 t = ''-'' \<or> take 1 t = ''+'' then drop 1 t else t);
          digits = takeWhile is_digit u
      in if digits = [] then None
         else Some ((if negative then - 1 else 1) * int (digits_value digits)))"

definition padStart4 :: "string \<Rightarrow> string" where
  "padStart4 s = replicate (4 - length s) (CHR ''0'') @ s"

definition year_text :: "string \<Rightarrow> string" where
  "year_text openedOn =
     (case date_parse openedOn of None \<Rightarrow> ''NaN'' | Some t \<Rightarrow> string_of_int (year_from_day (t div ms_per_day)))"

definition maxExisting :: "string \<Rightarrow> Matter list \<Rightarrow> int" where
  "maxExisting prefix matters =
     foldl (\<lambda>m matter. case parse_int (drop (length prefix) (matter_number matter)) of
         Some v \<Rightarrow> max m v | None \<Rightarrow> m) 0 matters"

definition nextMatterNumber :: "Matter list \<Rightarrow> string \<Rightarrow> string \<Rightarrow> string" where
  "nextMatterNumber matters firmId openedOn =
     (let prefix = year_text openedOn @ ''-''
      in prefix @ padStart4 (string_of_int
        (maxExisting prefix (filter (\<lambda>m. matter_firmId m = firmId \<and> starts_with prefix (matter_number m)) matters) + 1)))"

subsection \<open>Opening matters\<close>

definition isFirmWideMatterReader :: "User \<Rightarrow> bool" where
  "isFirmWideMatterReader user = (user_role user = Role_owner_admin \<or> user_role user = Role_auditor)"

definition listMattersForUser :: "MemoryMatterLifecycleStore \<Rightarrow> User \<Rightarrow> Matter list" where
  "listMattersForUser store user =
     filter (\<lambda>matter. matter_firmId matter = user_firmId user
       \<and> (isFirmWideMatterReader user \<or> matter_id matter \<in> set (user_assignedMatterIds user))) (mst_matters store)"

definition find_user :: "MemoryMatterLifecycleStore \<Rightarrow> string \<Rightarrow> string \<Rightarrow> User option" where
  "find_user store firmId userId = List.find (\<lambda>user. user_firmId user = firmId \<and> user_id user = userId) (mst_users store)"

definition is_matter :: "string \<Rightarrow> string \<Rightarrow> Matter \<Rightarrow> bool" where
  "is_matter firmId matterId m = (matter_firmId m = firmId \<and> matter_id m = matterId)"

definition intake_matter :: "string \<Rightarrow> string \<Rightarrow> string \<Rightarrow> string \<Rightarrow> string \<Rightarrow> Province \<Rightarrow> string \<Rightarrow> string \<Rightarrow> Matter" where
  "intake_matter matterId firmId number title practiceArea jurisdiction actorUserId openedOn =
     \<lparr>matter_id = matterId, matter_firmId = firmId, matter_number = number, matter_title = title,
      matter_practiceArea = practiceArea, matter_status = Matter_intake, matter_jurisdiction = jurisdiction,
      matter_responsibleUserId = actorUserId, matter_openedOn = Some openedOn, matter_closedOn = None\<rparr>"

definition plain_contact :: "string \<Rightarrow> string \<Rightarrow> ContactKind \<Rightarrow> string \<Rightarrow> ContactIdentifier list \<Rightarrow> string \<Rightarrow> Contact" where
  "plain_contact contactId firmId kind displayName identifiers createdByUserId =
     \<lparr>contact_id = contactId, contact_firmId = firmId, contact_kind = kind, contact_status = None,
      contact_roleCategories = None, contact_canonicalName = None, contact_displayName = displayName,
      contact_givenName = None, contact_middleName = None, contact_familyName = None, contact_title = None,
      contact_pronouns = None, contact_organizationLegalName = None, contact_organizationOperatingName = None,
      contact_organizationRegisteredName = None, contact_organizationType = None, contact_website = None,
      contact_aliases = [], contact_formerNames = None, contact_identifiers = identifiers,
      contact_contactMethods = None, contact_preferredContactMethodId = None, contact_preferredLanguage = None,
      contact_timezone = None, contact_communicationNotes = None, contact_accessibilityNotes = None,
      contact_privateNotes = None, contact_notes = None, contact_riskFlags = None,
      contact_conflictSensitive = None, contact_adverse = None, contact_confidentialityMarker = None,
      contact_doNotContact = None, contact_createdByUserId = Some createdByUserId,
      contact_updatedByUserId = None, contact_createdAt = None, contact_updatedAt = None\<rparr>"

definition plain_party :: "string \<Rightarrow> string \<Rightarrow> string \<Rightarrow> string \<Rightarrow> PartyRole \<Rightarrow> bool \<Rightarrow> bool \<Rightarrow> MatterParty" where
  "plain_party partyId firmId matterId contactId role adverse confidential =
     \<lparr>party_id = partyId, party_firmId = firmId, party_matterId = matterId, party_contactId = contactId,
      party_role = role, party_adverse = adverse, party_confidential = confidential, party_status = None,
      party_side = None, party_startedOn = None, party_endedOn = None, party_notes = None,
      party_privateNotes = None, party_conflictCheckIncluded = None, party_createdAt = None,
      party_updatedAt = None, party_createdByUserId = None, party_updatedByUserId = None\<rparr>"

definition assign_matter :: "string \<Rightarrow> User \<Rightarrow> User" where
  "assign_matter matterId user = user\<lparr>user_assignedMatterIds := js_set (matterId # user_assignedMatterIds user)\<rparr>"

definition append_event :: "(string \<Rightarrow> string) \<Rightarrow> NewAuditEvent \<Rightarrow> MemoryMatterLifecycleStore \<Rightarrow> MemoryMatterLifecycleStore" where
  "append_event sha256 event store =
     store\<lparr>mst_auditEvents := aud_events (snd (appendMemoryAuditEvent sha256 \<lparr>aud_events = mst_auditEvents store\<rparr> event))\<rparr>"

definition matter_event :: "string \<Rightarrow> string \<Rightarrow> string \<Rightarrow> string \<Rightarrow> string \<Rightarrow> string \<Rightarrow> (string \<times> js_value) list \<Rightarrow> NewAuditEvent" where
  "matter_event eventId firmId actorId action matterId occurredAt metadata =
     \<lparr>aud_id = eventId, aud_firmId = firmId, aud_actorId = actorId, aud_action = action, aud_resourceType = ''matter'',
      aud_resourceId = matterId, aud_occurredAt = occurredAt, aud_metadata = metadata\<rparr>"

text \<open>The matter a user sees first, which has to be the one just opened.\<close>

definition opened_summary :: "MemoryMatterLifecycleStore \<Rightarrow> User \<Rightarrow> string \<Rightarrow> Matter result" where
  "opened_summary store actor matterId =
     (case head (listMattersForUser store (assign_matter matterId actor)) of
        Some created \<Rightarrow> if matter_id created = matterId then Inr created
          else throw (''Created matter '' @ matterId @ '' was not visible'')
      | None \<Rightarrow> throw (''Created matter '' @ matterId @ '' was not visible''))"

definition created_matter :: "MemoryMatterLifecycleStore \<Rightarrow> CreateMatterWithClientInput \<Rightarrow> Matter" where
  "created_matter store inp = intake_matter (cmi_matterId inp) (cmi_firmId inp)
     (nextMatterNumber (mst_matters store) (cmi_firmId inp) (cmi_openedOn inp)) (cmi_title inp)
     (cmi_practiceArea inp) (cmi_jurisdiction inp) (cmi_actorUserId inp) (cmi_openedOn inp)"

definition create_writes :: "MemoryMatterLifecycleStore \<Rightarrow> CreateMatterWithClientInput \<Rightarrow> MemoryMatterLifecycleStore" where
  "create_writes store inp =
     (let contact = map_option (\<lambda>client. plain_contact (cmi_contactId inp) (cmi_firmId inp) (ncl_kind client)
            (ncl_displayName client) (ncl_identifiers client) (cmi_actorUserId inp)) (cmi_client inp);
          party = plain_party (cmi_partyId inp) (cmi_firmId inp) (cmi_matterId inp) (cmi_contactId inp)
            Party_prospective_client False True
      in store\<lparr>mst_contacts := (case contact of Some c \<Rightarrow> [c] | None \<Rightarrow> []) @ mst_contacts store,
           mst_matters := created_matter store inp # mst_matters store,
           mst_matterParties := party # mst_matterParties store,
           mst_users := map (\<lambda>user. if user_firmId user = cmi_firmId inp \<and> user_id user = cmi_actorUserId inp
             then assign_matter (cmi_matterId inp) user else user) (mst_users store)\<rparr>)"

definition create_event :: "CreateMatterWithClientInput \<Rightarrow> NewAuditEvent" where
  "create_event inp = matter_event (cmi_auditEventId inp) (cmi_firmId inp) (cmi_actorUserId inp)
     ''matter.opened'' (cmi_matterId inp) (cmi_occurredAt inp)
     [(''matterId'', JStr (cmi_matterId inp)), (''source'', JStr ''dashboard_zero_matter''),
      (''clientContactCreated'', JBool (cmi_client inp \<noteq> None)), (''partyRole'', JStr ''prospective_client'')]"

definition createMemoryMatterWithClient ::
  "(string \<Rightarrow> string) \<Rightarrow> MemoryMatterLifecycleStore \<Rightarrow> CreateMatterWithClientInput \<Rightarrow> Matter result \<times> MemoryMatterLifecycleStore" where
  "createMemoryMatterWithClient sha256 store inp =
     (case find_user store (cmi_firmId inp) (cmi_actorUserId inp) of
        None \<Rightarrow> (throw (''Unknown user '' @ cmi_actorUserId inp), store)
      | Some actor \<Rightarrow>
          let existingContact = List.find (\<lambda>contact. contact_firmId contact = cmi_firmId inp
                \<and> contact_id contact = cmi_contactId inp) (mst_contacts store)
          in if cmi_client inp = None \<and> existingContact = None
             then (throw (''Contact '' @ cmi_contactId inp @ '' was not found''), store)
             else
              let store1 = append_event sha256 (create_event inp) (create_writes store inp)
              in (opened_summary store1 actor (cmi_matterId inp), store1))"

subsection \<open>Converting a consultation intake\<close>

definition is_intake :: "string \<Rightarrow> string \<Rightarrow> PublicConsultationIntakeRecord \<Rightarrow> bool" where
  "is_intake firmId intakeId intake = (pci_firmId intake = firmId \<and> pci_id intake = intakeId)"

definition clientIdentifiers :: "PublicConsultationIntakeRecord \<Rightarrow> ContactIdentifier list" where
  "clientIdentifiers intake =
     (let identifier = (\<lambda>t v. \<lparr>cid_type = t, cid_value = v, cid_label = None, cid_conflictCheckIncluded = None, cid_verified = None\<rparr>)
      in (if truthy (pci_email intake) then [identifier Identifier_email (or_else (pci_email intake) [])] else [])
         @ (if pci_telephone intake \<noteq> [] then [identifier Identifier_phone (pci_telephone intake)] else []))"

definition reviewed_intake :: "ConvertPublicConsultationIntakeInput \<Rightarrow> PublicConsultationIntakeRecord \<Rightarrow> PublicConsultationIntakeRecord" where
  "reviewed_intake inp intake =
     intake\<lparr>pci_status := Consultation_converted, pci_reviewedByUserId := Some (cvi_actorUserId inp),
       pci_reviewedAt := Some (cvi_occurredAt inp), pci_convertedMatterId := Some (cvi_matterId inp),
       pci_metadata := map_put (map_put (pci_metadata intake) ''convertedMatterId'' (JStr (cvi_matterId inp)))
         ''opposingPartyCount'' (JNum (int (length (cvi_opposingParties inp))))\<rparr>"

definition converted_matter :: "MemoryMatterLifecycleStore \<Rightarrow> ConvertPublicConsultationIntakeInput \<Rightarrow> Matter" where
  "converted_matter store inp = intake_matter (cvi_matterId inp) (cvi_firmId inp)
     (nextMatterNumber (mst_matters store) (cvi_firmId inp) (cvi_openedOn inp)) (cvi_title inp)
     (cvi_practiceArea inp) (cvi_jurisdiction inp) (cvi_actorUserId inp) (cvi_openedOn inp)"

definition convert_writes ::
  "MemoryMatterLifecycleStore \<Rightarrow> ConvertPublicConsultationIntakeInput \<Rightarrow> PublicConsultationIntakeRecord \<Rightarrow> MemoryMatterLifecycleStore" where
  "convert_writes store inp intake =
     (let clientContact = plain_contact (cvi_clientContactId inp) (cvi_firmId inp) Kind_person (pci_clientName intake)
            (clientIdentifiers intake) (cvi_actorUserId inp);
          clientParty = plain_party (cvi_clientPartyId inp) (cvi_firmId inp) (cvi_matterId inp) (cvi_clientContactId inp)
            Party_prospective_client False True;
          opposingContacts = map (\<lambda>party. plain_contact (opp_contactId party) (cvi_firmId inp) Kind_person
            (opp_displayName party) [] (cvi_actorUserId inp)) (cvi_opposingParties inp);
          opposingMatterParties = map (\<lambda>party. plain_party (opp_partyId party) (cvi_firmId inp) (cvi_matterId inp)
            (opp_contactId party) Party_opposing_party True False) (cvi_opposingParties inp)
      in store\<lparr>mst_contacts := clientContact # opposingContacts @ mst_contacts store,
           mst_matters := converted_matter store inp # mst_matters store,
           mst_matterParties := clientParty # opposingMatterParties @ mst_matterParties store,
           mst_users := map (\<lambda>user. if user_firmId user = cvi_firmId inp \<and> user_id user = cvi_actorUserId inp
             then assign_matter (cvi_matterId inp) user else user) (mst_users store),
           mst_publicConsultationIntakes := update_first (is_intake (cvi_firmId inp) (cvi_intakeId inp))
             (\<lambda>_. reviewed_intake inp intake) (mst_publicConsultationIntakes store)\<rparr>)"

definition convert_event :: "ConvertPublicConsultationIntakeInput \<Rightarrow> NewAuditEvent" where
  "convert_event inp = matter_event (cvi_auditEventId inp) (cvi_firmId inp) (cvi_actorUserId inp)
     ''matter.opened'' (cvi_matterId inp) (cvi_occurredAt inp)
     [(''matterId'', JStr (cvi_matterId inp)), (''source'', JStr ''public_consultation_intake''),
      (''publicConsultationIntakeId'', JStr (cvi_intakeId inp)), (''clientContactCreated'', JBool True),
      (''partyRole'', JStr ''prospective_client''), (''opposingPartyCount'', JNum (int (length (cvi_opposingParties inp))))]"

definition convertMemoryPublicConsultationIntakeToMatter ::
  "(string \<Rightarrow> string) \<Rightarrow> MemoryMatterLifecycleStore \<Rightarrow> ConvertPublicConsultationIntakeInput
    \<Rightarrow> (PublicConsultationIntakeRecord \<times> Matter) result \<times> MemoryMatterLifecycleStore" where
  "convertMemoryPublicConsultationIntakeToMatter sha256 store inp =
     (case find_user store (cvi_firmId inp) (cvi_actorUserId inp) of
        None \<Rightarrow> (throw (''Unknown user '' @ cvi_actorUserId inp), store)
      | Some actor \<Rightarrow>
     (case List.find (is_intake (cvi_firmId inp) (cvi_intakeId inp)) (mst_publicConsultationIntakes store) of
        None \<Rightarrow> (throw (''Public consultation intake '' @ cvi_intakeId inp @ '' not found''), store)
      | Some intake \<Rightarrow>
          if pci_status intake \<noteq> Consultation_pending then (throw ''PUBLIC_CONSULTATION_INTAKE_NOT_PENDING'', store)
          else
          let store1 = append_event sha256 (convert_event inp) (convert_writes store inp intake)
          in (bind_result (opened_summary store1 actor (cvi_matterId inp))
                (\<lambda>summary. Inr (reviewed_intake inp intake, summary)), store1)))"

subsection \<open>Reviews and commands\<close>

definition listMemoryMatterLifecycleTransitions ::
  "(string \<Rightarrow> string \<Rightarrow> int) \<Rightarrow> MemoryMatterLifecycleStore \<Rightarrow> string \<Rightarrow> string \<Rightarrow> MatterLifecycleTransitionRecord list" where
  "listMemoryMatterLifecycleTransitions collate store firmId matterId =
     js_sort (newestReviewFirst collate)
       (filter (\<lambda>r. mlt_firmId r = firmId \<and> mlt_matterId r = matterId) (mst_matterLifecycleTransitions store))"

definition createMemoryMatterLifecycleTransition ::
  "(string \<Rightarrow> string) \<Rightarrow> MemoryMatterLifecycleStore \<Rightarrow> CreateTransitionInput
    \<Rightarrow> MatterLifecycleTransitionRecord result \<times> MemoryMatterLifecycleStore" where
  "createMemoryMatterLifecycleTransition sha256 store inp =
     (case List.find (is_matter (cti_firmId inp) (cti_matterId inp)) (mst_matters store) of
        None \<Rightarrow> (throw (''Matter '' @ cti_matterId inp @ '' was not found''), store)
      | Some matter \<Rightarrow>
     (case find_user store (cti_firmId inp) (cti_reviewedByUserId inp) of
        None \<Rightarrow> (throw (''Unknown user '' @ cti_reviewedByUserId inp), store)
      | Some reviewer \<Rightarrow>
     (case buildMatterLifecycleTransitionRecord
         \<lparr>tri_id = cti_id inp, tri_firmId = cti_firmId inp, tri_matterId = cti_matterId inp, tri_transition = cti_transition inp,
          tri_currentStatus = matter_status matter, tri_readiness = cti_readiness inp, tri_reason = cti_reason inp,
          tri_blockers = cti_blockers inp, tri_reviewedByUserId = cti_reviewedByUserId inp, tri_reviewedAt = cti_reviewedAt inp,
          tri_createdAt = cti_createdAt inp\<rparr> of
        Inl e \<Rightarrow> (Inl e, store)
      | Inr r \<Rightarrow> (Inr r, append_event sha256
          (matter_event (cti_auditEventId inp) (cti_firmId inp) (cti_reviewedByUserId inp) ''matter.lifecycle_transition_reviewed''
            (cti_matterId inp) (cti_reviewedAt inp) (buildMatterLifecycleTransitionAuditMetadata r))
          (store\<lparr>mst_matterLifecycleTransitions := r # mst_matterLifecycleTransitions store\<rparr>)))))"

definition commandStatusMismatch :: "string \<Rightarrow> MatterLifecycleCommandError" where
  "commandStatusMismatch message = CommandError MATTER_LIFECYCLE_EXPECTED_STATUS_MISMATCH message"

definition commandNotAvailable :: "MatterLifecycleCommand \<Rightarrow> MatterLifecycleCommandError" where
  "commandNotAvailable command = CommandError MATTER_LIFECYCLE_COMMAND_NOT_AVAILABLE
     (''Matter lifecycle command '' @ transition_name command @ '' is not available from the current matter status'')"

definition commandReadinessNotReady :: MatterLifecycleCommandError where
  "commandReadinessNotReady = CommandError MATTER_LIFECYCLE_READINESS_NOT_READY
     ''Lifecycle command requires the latest ready review evidence''"

definition latestForCommand ::
  "(string \<Rightarrow> string \<Rightarrow> int) \<Rightarrow> MemoryMatterLifecycleStore \<Rightarrow> ExecuteCommandInput \<Rightarrow> MatterLifecycleTransitionRecord option" where
  "latestForCommand collate store inp =
     head (js_sort (newestReviewFirst collate)
       (filter (\<lambda>r. mlt_firmId r = eci_firmId inp \<and> mlt_matterId r = eci_matterId inp \<and> mlt_transition r = eci_command inp)
         (mst_matterLifecycleTransitions store)))"

definition is_evidence :: "ExecuteCommandInput \<Rightarrow> MatterStatus \<Rightarrow> MatterLifecycleTransitionRecord \<Rightarrow> bool" where
  "is_evidence inp status r =
     (mlt_id r = eci_transitionRecordId inp \<and> mlt_readiness r = Readiness_ready \<and> mlt_currentStatus r = status
      \<and> mlt_targetStatus r = matterLifecycleTargetStatus (eci_command inp))"

definition execution_input :: "ExecuteCommandInput \<Rightarrow> MatterStatus \<Rightarrow> CommandExecutionInput" where
  "execution_input inp status =
     \<lparr>cei_command = eci_command inp, cei_matterId = eci_matterId inp, cei_transitionRecordId = eci_transitionRecordId inp,
      cei_beforeStatus = status, cei_expectedStatus = eci_expectedStatus inp, cei_reason = eci_reason inp,
      cei_idempotencyKey = eci_idempotencyKey inp, cei_executedAt = eci_executedAt inp,
      cei_executedByUserId = eci_executedByUserId inp\<rparr>"

definition executeMemoryMatterLifecycleCommand ::
  "(string \<Rightarrow> string) \<Rightarrow> (string \<Rightarrow> string \<Rightarrow> int) \<Rightarrow> MemoryMatterLifecycleStore \<Rightarrow> ExecuteCommandInput
    \<Rightarrow> (MatterLifecycleCommandError + (Matter \<times> MatterLifecycleCommandExecution)) \<times> MemoryMatterLifecycleStore" where
  "executeMemoryMatterLifecycleCommand sha256 collate store inp =
     (case List.find (is_matter (eci_firmId inp) (eci_matterId inp)) (mst_matters store) of
        None \<Rightarrow> (Inl (CommandError MATTER_LIFECYCLE_MATTER_NOT_FOUND ''Matter was not found''), store)
      | Some matter \<Rightarrow>
     (case find_user store (eci_firmId inp) (eci_executedByUserId inp) of
        None \<Rightarrow> (Inl (OtherError (Error (''Unknown user '' @ eci_executedByUserId inp))), store)
      | Some actor \<Rightarrow>
        let requiredStatuses = matterLifecycleCommandRequiredStatuses (eci_command inp) in
        if eci_expectedStatus inp \<notin> set requiredStatuses
        then (Inl (commandStatusMismatch (''Matter lifecycle command '' @ transition_name (eci_command inp)
               @ '' expected status must be '' @ requiredStatusLabel requiredStatuses)), store)
        else if matter_status matter \<noteq> eci_expectedStatus inp then (Inl (commandNotAvailable (eci_command inp)), store)
        else if \<not> (\<exists>r \<in> set_option (latestForCommand collate store inp). is_evidence inp (matter_status matter) r)
        then (Inl commandReadinessNotReady, store)
        else (case buildMatterLifecycleCommandExecution (execution_input inp (matter_status matter)) of
            Inl e \<Rightarrow> (Inl (OtherError e), store)
          | Inr lifecycleCommand \<Rightarrow>
              let store1 = store\<lparr>mst_matters := update_first (is_matter (eci_firmId inp) (eci_matterId inp))
                    (\<lambda>candidate. candidate\<lparr>matter_status := exec_afterStatus lifecycleCommand\<rparr>) (mst_matters store)\<rparr>;
                  store2 = append_event sha256
                    (matter_event (eci_auditEventId inp) (eci_firmId inp) (eci_executedByUserId inp)
                      ''matter.lifecycle_command_executed'' (eci_matterId inp) (eci_executedAt inp)
                      (buildMatterLifecycleCommandAuditMetadata lifecycleCommand (eci_reason inp) (eci_idempotencyKey inp))) store1
              in (case List.find (\<lambda>candidate. matter_id candidate = eci_matterId inp) (listMattersForUser store2 actor) of
                    None \<Rightarrow> (Inl (OtherError (Error (''Updated matter '' @ eci_matterId inp @ '' was not visible''))), store2)
                  | Some matterSummary \<Rightarrow> (Inr (matterSummary, lifecycleCommand), store2)))))"

subsection \<open>Matter numbers are new\<close>

lemma digit_not_space: "is_digit c \<Longrightarrow> \<not> is_space c"
  by (auto simp: is_digit_def is_space_def)

lemma zero_is_digit: "is_digit (CHR ''0'')"
  by (simp add: is_digit_def)

lemma parse_int_digits: "s \<noteq> [] \<Longrightarrow> list_all is_digit s \<Longrightarrow> parse_int s = Some (int (digits_value s))"
proof -
  assume s: "s \<noteq> []" "list_all is_digit s"
  then obtain c cs where cs: "s = c # cs" "is_digit c" by (cases s) auto
  then have "c \<noteq> CHR ''-''" "c \<noteq> CHR ''+''" "\<not> is_space c"
    using digit_not_space by (auto simp: is_digit_def)
  moreover have t: "takeWhile is_digit cs = cs" using s(2) cs(1) by (simp add: takeWhile_eq_all_conv list_all_iff)
  ultimately show ?thesis using cs by (simp add: parse_int_def Let_def t del: takeWhile_eq_all_conv)
qed

lemma parse_padded: "0 \<le> n \<Longrightarrow> parse_int (padStart4 (string_of_int n)) = Some n"
proof -
  assume "0 \<le> n"
  then have n: "string_of_int n = string_of_nat (nat n)" by (simp add: string_of_int_def)
  have "list_all is_digit (padStart4 (string_of_int n))"
    unfolding n padStart4_def using string_of_nat_digits by (auto simp: list_all_iff zero_is_digit)
  moreover have "padStart4 (string_of_int n) \<noteq> []" unfolding n padStart4_def by (simp add: string_of_nat_not_Nil)
  ultimately have "parse_int (padStart4 (string_of_int n)) = Some (int (digits_value (padStart4 (string_of_int n))))"
    by (intro parse_int_digits)
  then show ?thesis using \<open>0 \<le> n\<close> unfolding n padStart4_def by (simp add: digits_value_zeros)
qed

lemma maxExisting_snoc:
  "maxExisting prefix (ms @ [m]) = (case parse_int (drop (length prefix) (matter_number m)) of
     Some v \<Rightarrow> max (maxExisting prefix ms) v | None \<Rightarrow> maxExisting prefix ms)"
  by (simp add: maxExisting_def split: option.split)

lemma maxExisting_bounds:
  "0 \<le> maxExisting prefix ms"
  "m \<in> set ms \<Longrightarrow> parse_int (drop (length prefix) (matter_number m)) = Some v \<Longrightarrow> v \<le> maxExisting prefix ms"
  by (induction ms rule: rev_induct) (auto simp: maxExisting_snoc split: option.split, simp add: maxExisting_def)

lemma next_number_new:
  assumes "m \<in> set matters" "matter_firmId m = firmId"
  shows "matter_number m \<noteq> nextMatterNumber matters firmId openedOn"
proof
  let ?prefix = "year_text openedOn @ ''-''"
  let ?ms = "filter (\<lambda>m. matter_firmId m = firmId \<and> starts_with ?prefix (matter_number m)) matters"
  assume "matter_number m = nextMatterNumber matters firmId openedOn"
  then have n: "matter_number m = ?prefix @ padStart4 (string_of_int (maxExisting ?prefix ?ms + 1))"
    by (simp add: nextMatterNumber_def Let_def)
  then have "m \<in> set ?ms" using assms by (simp add: starts_with_def)
  moreover have "parse_int (drop (length ?prefix) (matter_number m)) = Some (maxExisting ?prefix ?ms + 1)"
    unfolding n append_eq_conv_conj using maxExisting_bounds(1) [of ?prefix ?ms] by (simp add: parse_padded)
  ultimately show False using maxExisting_bounds(2) [of m ?ms ?prefix] by fastforce
qed

subsection \<open>What each call writes\<close>

lemma append_event_simps [simp]:
  "mst_users (append_event sha e s) = mst_users s" "mst_contacts (append_event sha e s) = mst_contacts s"
  "mst_matters (append_event sha e s) = mst_matters s" "mst_matterParties (append_event sha e s) = mst_matterParties s"
  "mst_publicConsultationIntakes (append_event sha e s) = mst_publicConsultationIntakes s"
  "mst_matterLifecycleTransitions (append_event sha e s) = mst_matterLifecycleTransitions s"
  by (simp_all add: append_event_def)

lemma append_event_log:
  "\<exists>r. mst_auditEvents (append_event sha e s) = mst_auditEvents s @ [r] \<and> NewAuditEvent.truncate r = e"
proof (cases "appendMemoryAuditEvent sha \<lparr>aud_events = mst_auditEvents s\<rparr> e")
  case (Pair r l)
  then show ?thesis using appended_event [OF Pair] by (simp add: append_event_def)
qed

lemma truncate_matter_event:
  "NewAuditEvent.truncate r = matter_event i f a act m o' md \<Longrightarrow>
     aud_action r = act \<and> aud_firmId r = f \<and> aud_resourceId r = m \<and> aud_metadata r = md"
  by (auto simp: NewAuditEvent.truncate_def matter_event_def)

lemma opened_summary_ok:
  assumes "mst_matters s = m # ms" "matter_firmId m = user_firmId actor" "matter_id m = matterId"
  shows "opened_summary s actor matterId = Inr m"
  using assms by (simp add: opened_summary_def listMattersForUser_def assign_matter_def isFirmWideMatterReader_def head_def)

lemma find_user_firm: "find_user s firmId userId = Some u \<Longrightarrow> user_firmId u = firmId \<and> user_id u = userId"
  unfolding find_user_def by (auto dest: find_Some_mem)

lemma intake_matter_simps [simp]:
  "matter_id (intake_matter i f n t p j a d) = i" "matter_firmId (intake_matter i f n t p j a d) = f"
  "matter_number (intake_matter i f n t p j a d) = n" "matter_status (intake_matter i f n t p j a d) = Matter_intake"
  by (simp_all add: intake_matter_def)

text \<open>A matter opened with the number the store gives it.\<close>

definition opens :: "MemoryMatterLifecycleStore \<Rightarrow> string \<Rightarrow> string \<Rightarrow> Matter \<Rightarrow> MemoryMatterLifecycleStore \<Rightarrow> bool" where
  "opens s firmId matterId m t =
     (matter_firmId m = firmId \<and> matter_id m = matterId \<and> matter_status m = Matter_intake
      \<and> (\<exists>openedOn. matter_number m = nextMatterNumber (mst_matters s) firmId openedOn)
      \<and> mst_matters t = m # mst_matters s \<and> mst_matterLifecycleTransitions t = mst_matterLifecycleTransitions s
      \<and> (\<exists>e. mst_auditEvents t = mst_auditEvents s @ [e] \<and> aud_action e = ''matter.opened''))"

lemma opens_append:
  assumes "mst_matters s1 = m # mst_matters s" "mst_matterLifecycleTransitions s1 = mst_matterLifecycleTransitions s"
    and "mst_auditEvents s1 = mst_auditEvents s" "e = matter_event i f a ''matter.opened'' (matter_id m) o' md"
    and "matter_status m = Matter_intake" "matter_number m = nextMatterNumber (mst_matters s) (matter_firmId m) openedOn"
  shows "opens s (matter_firmId m) (matter_id m) m (append_event sha e s1)"
  using append_event_log [of sha e s1] assms truncate_matter_event unfolding opens_def by fastforce

lemma create_effect:
  assumes "createMemoryMatterWithClient sha s inp = (r, t)"
  shows "(t = s \<and> \<not> is_ok r) \<or> (\<exists>m. r = Inr m \<and> opens s (cmi_firmId inp) (cmi_matterId inp) m t)"
proof (cases "is_ok r")
  case False
  then show ?thesis
    using assms by (auto simp: createMemoryMatterWithClient_def Let_def throw_def is_ok_def opened_summary_ok
      create_writes_def created_matter_def dest!: find_user_firm split: option.splits if_splits)
next
  case True
  let ?m = "created_matter s inp"
  obtain actor where actor: "find_user s (cmi_firmId inp) (cmi_actorUserId inp) = Some actor"
      and t: "t = append_event sha (create_event inp) (create_writes s inp)" "r = opened_summary t actor (cmi_matterId inp)"
    using assms True by (auto simp: createMemoryMatterWithClient_def Let_def throw_def is_ok_def split: option.splits if_splits)
  have m: "mst_matters (create_writes s inp) = ?m # mst_matters s" "matter_firmId ?m = cmi_firmId inp" "matter_id ?m = cmi_matterId inp"
    by (simp_all add: create_writes_def created_matter_def Let_def)
  then have "r = Inr ?m" unfolding t using actor by (intro opened_summary_ok) (auto dest: find_user_firm)
  moreover have "opens s (cmi_firmId inp) (cmi_matterId inp) ?m t"
    unfolding t m(2,3) [symmetric]
    by (rule opens_append) (simp_all add: m create_writes_def created_matter_def create_event_def Let_def)
  ultimately show ?thesis by blast
qed

lemma convert_effect:
  assumes "convertMemoryPublicConsultationIntakeToMatter sha s inp = (r, t)"
  shows "(t = s \<and> \<not> is_ok r) \<or> (\<exists>i m. r = Inr (reviewed_intake inp i, m) \<and> opens s (cvi_firmId inp) (cvi_matterId inp) m t
      \<and> List.find (is_intake (cvi_firmId inp) (cvi_intakeId inp)) (mst_publicConsultationIntakes s) = Some i
      \<and> pci_status i = Consultation_pending \<and> t = append_event sha (convert_event inp) (convert_writes s inp i))"
proof (cases "find_user s (cvi_firmId inp) (cvi_actorUserId inp)")
  case None
  then show ?thesis using assms by (auto simp: convertMemoryPublicConsultationIntakeToMatter_def throw_def is_ok_def)
next
  case (Some actor)
  let ?find = "List.find (is_intake (cvi_firmId inp) (cvi_intakeId inp)) (mst_publicConsultationIntakes s)"
  show ?thesis
  proof (cases "\<exists>i. ?find = Some i \<and> pci_status i = Consultation_pending")
    case False
    then show ?thesis using assms Some
      by (cases ?find) (auto simp: convertMemoryPublicConsultationIntakeToMatter_def throw_def is_ok_def)
  next
    case True
    then obtain i where i: "?find = Some i" "pci_status i = Consultation_pending" by blast
    let ?m = "converted_matter s inp"
    have t: "t = append_event sha (convert_event inp) (convert_writes s inp i)"
        "r = bind_result (opened_summary t actor (cvi_matterId inp)) (\<lambda>summary. Inr (reviewed_intake inp i, summary))"
      using assms Some i by (auto simp: convertMemoryPublicConsultationIntakeToMatter_def Let_def)
    have m: "mst_matters (convert_writes s inp i) = ?m # mst_matters s" "matter_firmId ?m = cvi_firmId inp" "matter_id ?m = cvi_matterId inp"
      by (simp_all add: convert_writes_def converted_matter_def Let_def)
    then have "opened_summary t actor (cvi_matterId inp) = Inr ?m"
      unfolding t using Some by (intro opened_summary_ok) (auto dest: find_user_firm)
    moreover have "opens s (cvi_firmId inp) (cvi_matterId inp) ?m t"
      unfolding t m(2,3) [symmetric]
      by (rule opens_append) (simp_all add: m convert_writes_def converted_matter_def convert_event_def Let_def)
    ultimately show ?thesis using t i by auto
  qed
qed

lemma built_record_valid: "buildMatterLifecycleTransitionRecord inp = Inr x \<Longrightarrow> validateMatterLifecycleTransitionRecord x = Inr ()"
  by (auto simp: buildMatterLifecycleTransitionRecord_def Let_def bind_result_ok)

lemma review_effect:
  assumes "createMemoryMatterLifecycleTransition sha s inp = (r, t)"
  shows "(t = s \<and> \<not> is_ok r) \<or> (\<exists>x e. r = Inr x \<and> validateMatterLifecycleTransitionRecord x = Inr ()
      \<and> mst_matters t = mst_matters s \<and> mst_matterLifecycleTransitions t = x # mst_matterLifecycleTransitions s
      \<and> mst_auditEvents t = mst_auditEvents s @ [e] \<and> aud_action e = ''matter.lifecycle_transition_reviewed'')"
proof (cases "is_ok r")
  case False
  then show ?thesis
    using assms by (auto simp: createMemoryMatterLifecycleTransition_def is_ok_def split: option.splits sum.splits)
next
  case True
  let ?event = "\<lambda>x. matter_event (cti_auditEventId inp) (cti_firmId inp) (cti_reviewedByUserId inp)
    ''matter.lifecycle_transition_reviewed'' (cti_matterId inp) (cti_reviewedAt inp) (buildMatterLifecycleTransitionAuditMetadata x)"
  obtain x i where x: "r = Inr x" "buildMatterLifecycleTransitionRecord i = Inr x"
      "t = append_event sha (?event x) (s\<lparr>mst_matterLifecycleTransitions := x # mst_matterLifecycleTransitions s\<rparr>)"
    using assms True
    by (auto simp: createMemoryMatterLifecycleTransition_def throw_def is_ok_def split: option.splits sum.splits)
  obtain e where "mst_auditEvents t = mst_auditEvents s @ [e]" "aud_action e = ''matter.lifecycle_transition_reviewed''"
    using append_event_log [of sha "?event x" "s\<lparr>mst_matterLifecycleTransitions := x # mst_matterLifecycleTransitions s\<rparr>"]
      truncate_matter_event unfolding x(3) by fastforce
  then show ?thesis using x built_record_valid by auto
qed

lemma execute_effect:
  assumes "executeMemoryMatterLifecycleCommand sha collate s inp = (r, t)"
  shows "(t = s \<and> (\<exists>e. r = Inl e)) \<or> (\<exists>m e. List.find (is_matter (eci_firmId inp) (eci_matterId inp)) (mst_matters s) = Some m
      \<and> matter_status m \<in> set (matterLifecycleCommandRequiredStatuses (eci_command inp))
      \<and> mst_matters t = update_first (is_matter (eci_firmId inp) (eci_matterId inp))
          (\<lambda>c. c\<lparr>matter_status := matterLifecycleTargetStatus (eci_command inp)\<rparr>) (mst_matters s)
      \<and> mst_matterLifecycleTransitions t = mst_matterLifecycleTransitions s
      \<and> mst_auditEvents t = mst_auditEvents s @ [e] \<and> aud_action e = ''matter.lifecycle_command_executed''
      \<and> aud_firmId e = eci_firmId inp \<and> aud_resourceId e = eci_matterId inp
      \<and> map_get (aud_metadata e) ''afterStatus'' = Some (JStr (matter_status_name (matterLifecycleTargetStatus (eci_command inp)))))"
proof (cases "t = s \<and> (\<exists>e. r = Inl e)")
  case False
  let ?event = "\<lambda>x. matter_event (eci_auditEventId inp) (eci_firmId inp) (eci_executedByUserId inp)
    ''matter.lifecycle_command_executed'' (eci_matterId inp) (eci_executedAt inp)
    (buildMatterLifecycleCommandAuditMetadata x (eci_reason inp) (eci_idempotencyKey inp))"
  obtain m x where m: "List.find (is_matter (eci_firmId inp) (eci_matterId inp)) (mst_matters s) = Some m"
      "buildMatterLifecycleCommandExecution (execution_input inp (matter_status m)) = Inr x"
      "t = append_event sha (?event x) (s\<lparr>mst_matters := update_first (is_matter (eci_firmId inp) (eci_matterId inp))
          (\<lambda>c. c\<lparr>matter_status := exec_afterStatus x\<rparr>) (mst_matters s)\<rparr>)"
    using assms False
    by (auto simp: executeMemoryMatterLifecycleCommand_def Let_def split: option.splits sum.splits if_splits)
  have x: "exec_afterStatus x = matterLifecycleTargetStatus (eci_command inp)"
      "matter_status m \<in> set (matterLifecycleCommandRequiredStatuses (eci_command inp))"
    using m(2) by (auto simp: buildMatterLifecycleCommandExecution_ok execution_input_def)
  obtain e where e: "mst_auditEvents t = mst_auditEvents s @ [e]" "NewAuditEvent.truncate e = ?event x"
    using append_event_log [of sha "?event x" "s\<lparr>mst_matters := update_first (is_matter (eci_firmId inp) (eci_matterId inp))
          (\<lambda>c. c\<lparr>matter_status := exec_afterStatus x\<rparr>) (mst_matters s)\<rparr>"] unfolding m(3) by auto
  moreover have "map_get (buildMatterLifecycleCommandAuditMetadata x a b) ''afterStatus''
      = Some (JStr (matter_status_name (exec_afterStatus x)))" for a b
    by (simp add: buildMatterLifecycleCommandAuditMetadata_def Let_def)
  ultimately show ?thesis
    using m(1,3) x truncate_matter_event [OF e(2)] by (intro disjI2 exI [of _ m] exI [of _ e]) simp
qed simp

subsection \<open>Runs of the store\<close>

text \<open>
  The identifier of a new matter is a fresh random one. Other calls of the repository change users,
  contacts, parties, intakes and the title, practice area or jurisdiction of matters, and append events
  of other actions to the log.
\<close>

definition matter_key :: "Matter \<Rightarrow> string \<times> string" where
  "matter_key m = (matter_firmId m, matter_id m)"

definition fresh_matter :: "MemoryMatterLifecycleStore \<Rightarrow> string \<Rightarrow> string \<Rightarrow> bool" where
  "fresh_matter s firmId matterId = ((firmId, matterId) \<notin> matter_key ` set (mst_matters s))"

definition kept_fields :: "Matter \<Rightarrow> string \<times> string \<times> string \<times> MatterStatus" where
  "kept_fields m = (matter_firmId m, matter_id m, matter_number m, matter_status m)"

inductive matter_step :: "(string \<Rightarrow> string) \<Rightarrow> (string \<Rightarrow> string \<Rightarrow> int) \<Rightarrow> MemoryMatterLifecycleStore \<Rightarrow> MemoryMatterLifecycleStore \<Rightarrow> bool"
  for sha256 collate where
  step_create: "fresh_matter s (cmi_firmId inp) (cmi_matterId inp) \<Longrightarrow> createMemoryMatterWithClient sha256 s inp = (r, t) \<Longrightarrow>
    matter_step sha256 collate s t"
| step_convert: "fresh_matter s (cvi_firmId inp) (cvi_matterId inp) \<Longrightarrow> convertMemoryPublicConsultationIntakeToMatter sha256 s inp = (r, t) \<Longrightarrow>
    matter_step sha256 collate s t"
| step_review: "createMemoryMatterLifecycleTransition sha256 s inp = (r, t) \<Longrightarrow> matter_step sha256 collate s t"
| step_execute: "executeMemoryMatterLifecycleCommand sha256 collate s inp = (r, t) \<Longrightarrow> matter_step sha256 collate s t"
| step_records: "map kept_fields ms = map kept_fields (mst_matters s) \<Longrightarrow> matter_step sha256 collate s
    (s\<lparr>mst_users := us, mst_contacts := cs, mst_matters := ms, mst_matterParties := ps, mst_publicConsultationIntakes := qs\<rparr>)"
| step_event: "aud_action event \<noteq> ''matter.lifecycle_command_executed'' \<Longrightarrow> matter_step sha256 collate s (append_event sha256 event s)"

text \<open>What a step does to matters, reviews and the audit log.\<close>

inductive matter_effect :: "MemoryMatterLifecycleStore \<Rightarrow> MemoryMatterLifecycleStore \<Rightarrow> bool" where
  effect_open: "opens s f i m t \<Longrightarrow> fresh_matter s f i \<Longrightarrow> matter_effect s t"
| effect_execute: "List.find (is_matter f i) (mst_matters s) = Some m \<Longrightarrow>
    matter_status m \<in> set (matterLifecycleCommandRequiredStatuses c) \<Longrightarrow>
    mst_matters t = update_first (is_matter f i) (\<lambda>x. x\<lparr>matter_status := matterLifecycleTargetStatus c\<rparr>) (mst_matters s) \<Longrightarrow>
    mst_matterLifecycleTransitions t = mst_matterLifecycleTransitions s \<Longrightarrow>
    mst_auditEvents t = mst_auditEvents s @ [e] \<Longrightarrow> aud_action e = ''matter.lifecycle_command_executed'' \<Longrightarrow>
    aud_firmId e = f \<Longrightarrow> aud_resourceId e = i \<Longrightarrow>
    map_get (aud_metadata e) ''afterStatus'' = Some (JStr (matter_status_name (matterLifecycleTargetStatus c))) \<Longrightarrow>
    matter_effect s t"
| effect_other: "map kept_fields (mst_matters t) = map kept_fields (mst_matters s) \<Longrightarrow> list_all (\<lambda>e. aud_action e \<noteq> ''matter.lifecycle_command_executed'') es \<Longrightarrow>
    mst_auditEvents t = mst_auditEvents s @ es \<Longrightarrow>
    mst_matterLifecycleTransitions t = xs @ mst_matterLifecycleTransitions s \<Longrightarrow>
    list_all (\<lambda>x. validateMatterLifecycleTransitionRecord x = Inr ()) xs \<Longrightarrow> matter_effect s t"

lemma effect_same: "matter_effect s s"
  by (rule effect_other [of s s "[]" "[]"]) simp_all

lemma matter_step_effect: "matter_step sha collate s t \<Longrightarrow> matter_effect s t"
proof (induction rule: matter_step.induct)
  case (step_create s inp r t)
  then show ?case using create_effect [OF step_create(2)] effect_open effect_same by blast
next
  case (step_convert s inp r t)
  then show ?case using convert_effect [OF step_convert(2)] effect_open effect_same by blast
next
  case (step_review s inp r t)
  show ?case
  proof (cases "t = s")
    case False
    then obtain x e where "mst_matters t = mst_matters s" "mst_matterLifecycleTransitions t = [x] @ mst_matterLifecycleTransitions s"
        "validateMatterLifecycleTransitionRecord x = Inr ()" "mst_auditEvents t = mst_auditEvents s @ [e]"
        "aud_action e = ''matter.lifecycle_transition_reviewed''"
      using review_effect [OF step_review] by auto
    then show ?thesis by (intro effect_other [of t s "[e]" "[x]"]) simp_all
  qed (simp add: effect_same)
next
  case (step_execute s inp r t)
  then show ?case using execute_effect [OF step_execute] effect_execute effect_same by metis
next
  case (step_records ms s us cs ps qs)
  then show ?case by (intro effect_other [of _ _ "[]" "[]"]) simp_all
next
  case (step_event event s)
  obtain r where r: "mst_auditEvents (append_event sha event s) = mst_auditEvents s @ [r]" "NewAuditEvent.truncate r = event"
    using append_event_log by blast
  have "aud_action r = aud_action event" unfolding r(2) [symmetric] by (simp add: NewAuditEvent.truncate_def)
  then show ?case using r(1) step_event by (intro effect_other [of _ _ "[r]" "[]"]) simp_all
qed

definition no_matters :: "MemoryMatterLifecycleStore \<Rightarrow> bool" where
  "no_matters s = (mst_matters s = [] \<and> mst_matterLifecycleTransitions s = [])"

definition numbers_ok :: "MemoryMatterLifecycleStore \<Rightarrow> bool" where
  "numbers_ok s = (distinct (map matter_key (mst_matters s))
     \<and> distinct (map (\<lambda>m. (matter_firmId m, matter_number m)) (mst_matters s)))"

definition all_intake :: "MemoryMatterLifecycleStore \<Rightarrow> bool" where
  "all_intake s = list_all (\<lambda>m. matter_status m = Matter_intake) (mst_matters s)"

definition reviews_ok :: "MemoryMatterLifecycleStore \<Rightarrow> bool" where
  "reviews_ok s = list_all (\<lambda>x. validateMatterLifecycleTransitionRecord x = Inr ()) (mst_matterLifecycleTransitions s)"

lemma kept_fields_map:
  assumes "map kept_fields ms = map kept_fields ns"
  shows "map matter_key ms = map matter_key ns"
    and "map (\<lambda>m. (matter_firmId m, matter_number m)) ms = map (\<lambda>m. (matter_firmId m, matter_number m)) ns"
    and "map matter_status ms = map matter_status ns"
proof -
  have "map f ms = map f ns" if "\<And>m. f m = g (kept_fields m)" for f :: "Matter \<Rightarrow> 'b" and g
  proof -
    have "map f xs = map g (map kept_fields xs)" for xs using that by simp
    then show ?thesis using assms by metis
  qed
  from this [of matter_key "\<lambda>(f, i, n, st). (f, i)"] this [of "\<lambda>m. (matter_firmId m, matter_number m)" "\<lambda>(f, i, n, st). (f, n)"]
    this [of matter_status "\<lambda>(f, i, n, st). st"]
  show "map matter_key ms = map matter_key ns"
    "map (\<lambda>m. (matter_firmId m, matter_number m)) ms = map (\<lambda>m. (matter_firmId m, matter_number m)) ns"
    "map matter_status ms = map matter_status ns"
    by (simp_all add: matter_key_def kept_fields_def)
qed

lemma executed_map [simp]:
  "map matter_key (update_first p (\<lambda>x. x\<lparr>matter_status := st\<rparr>) ms) = map matter_key ms"
  "map (\<lambda>m. (matter_firmId m, matter_number m)) (update_first p (\<lambda>x. x\<lparr>matter_status := st\<rparr>) ms)
     = map (\<lambda>m. (matter_firmId m, matter_number m)) ms"
  by (simp_all add: map_update_first matter_key_def)

lemma effect_keeps_numbers: "matter_effect s t \<Longrightarrow> numbers_ok s \<Longrightarrow> numbers_ok t"
proof (induction rule: matter_effect.induct)
  case (effect_open s f i m t)
  then have m: "mst_matters t = m # mst_matters s" "matter_firmId m = f" "matter_id m = i"
      "\<exists>d. matter_number m = nextMatterNumber (mst_matters s) f d" by (auto simp: opens_def)
  have "(f, matter_number m) \<notin> (\<lambda>m. (matter_firmId m, matter_number m)) ` set (mst_matters s)"
    using m(4) next_number_new by fastforce
  then show ?case using effect_open m by (simp add: numbers_ok_def matter_key_def fresh_matter_def)
next
  case (effect_execute f i s m c t e)
  then show ?case by (simp add: numbers_ok_def)
next
  case (effect_other t s es xs)
  then show ?case using kept_fields_map(1,2) [OF effect_other(1)] by (simp add: numbers_ok_def)
qed

lemma effect_keeps_intake: "matter_effect s t \<Longrightarrow> all_intake s \<Longrightarrow> all_intake t"
proof (induction rule: matter_effect.induct)
  case (effect_execute f i s m c t e)
  then have "matter_status m = Matter_intake"
    using find_Some_mem [OF effect_execute(1)] by (auto simp: all_intake_def list_all_iff)
  then show ?case using effect_execute(2) no_command_from_intake by simp
next
  case (effect_other t s es xs)
  have "set (map matter_status (mst_matters t)) = set (map matter_status (mst_matters s))"
    using kept_fields_map(3) [OF effect_other(1)] by simp
  then show ?case using effect_other(6) by (force simp: all_intake_def list_all_iff)
qed (simp add: opens_def all_intake_def)

lemma effect_keeps_reviews: "matter_effect s t \<Longrightarrow> reviews_ok s \<Longrightarrow> reviews_ok t"
  by (induction rule: matter_effect.induct) (simp_all add: opens_def reviews_ok_def)

definition matters_ok :: "MemoryMatterLifecycleStore \<Rightarrow> bool" where
  "matters_ok s = (numbers_ok s \<and> all_intake s \<and> reviews_ok s)"

interpretation matter_run: inductive_invariant no_matters "matter_step sha256 collate" matters_ok for sha256 collate
proof unfold_locales
  show "no_matters s \<Longrightarrow> matters_ok s" for s
    by (simp add: no_matters_def matters_ok_def numbers_ok_def all_intake_def reviews_ok_def)
  show "matter_step sha256 collate s t \<Longrightarrow> matters_ok s \<Longrightarrow> matters_ok t" for s t
    using matter_step_effect effect_keeps_numbers effect_keeps_intake effect_keeps_reviews
    unfolding matters_ok_def by blast
qed

text \<open>
  In every store reachable from an empty one the matters of a firm have different identifiers and
  different numbers.
\<close>

theorem matter_numbers_are_unique:
  assumes "reachable no_matters (matter_step sha256 collate) s"
  shows "distinct (map (\<lambda>m. (matter_firmId m, matter_number m)) (mst_matters s))
    \<and> distinct (map (\<lambda>m. (matter_firmId m, matter_id m)) (mst_matters s))"
  using matter_run.reachable_inv [OF assms] by (simp add: matters_ok_def numbers_ok_def matter_key_def [abs_def])

text \<open>
  C29. Every stored review is well formed: it passes the validation of the domain (a target that
  belongs to its transition, texts within their bounds, at most eight blockers and at least one if it is
  blocked, readable dates).
\<close>

theorem stored_reviews_are_well_formed:
  assumes "reachable no_matters (matter_step sha256 collate) s"
  shows "list_all (\<lambda>r. mlt_targetStatus r = matterLifecycleTargetStatus (mlt_transition r)
      \<and> concise maxReasonLength (mlt_reason r) \<and> length (mlt_blockers r) \<le> maxBlockers
      \<and> list_all (concise maxBlockerLength) (mlt_blockers r)
      \<and> \<not> (mlt_readiness r = Readiness_blocked \<and> mlt_blockers r = [])
      \<and> date_parse (mlt_reviewedAt r) \<noteq> None \<and> date_parse (mlt_createdAt r) \<noteq> None) (mst_matterLifecycleTransitions s)"
proof -
  have valid: "list_all (\<lambda>r. validateMatterLifecycleTransitionRecord r = Inr ()) (mst_matterLifecycleTransitions s)"
    using matter_run.reachable_inv [OF assms] by (simp add: matters_ok_def reviews_ok_def)
  show ?thesis by (rule list.pred_mono_strong [OF valid]) (simp add: valid_transition_record)
qed

text \<open>
  C28. A matter opened through the store is in intake, and no lifecycle command starts from intake: in
  every store reachable from an empty one all matters are in intake and every command is refused and
  writes nothing.
\<close>

theorem no_command_is_ever_available:
  assumes "reachable no_matters (matter_step sha256 collate) s"
  shows "list_all (\<lambda>m. matter_status m = Matter_intake) (mst_matters s)
    \<and> (\<exists>e. executeMemoryMatterLifecycleCommand sha256 collate s inp = (Inl e, s))"
proof -
  have intake: "all_intake s" using matter_run.reachable_inv [OF assms] by (simp add: matters_ok_def)
  obtain r t where rt: "executeMemoryMatterLifecycleCommand sha256 collate s inp = (r, t)" by fastforce
  have "t = s \<and> (\<exists>e. r = Inl e)"
  proof (rule ccontr)
    assume "\<not> (t = s \<and> (\<exists>e. r = Inl e))"
    then obtain m where m: "List.find (is_matter (eci_firmId inp) (eci_matterId inp)) (mst_matters s) = Some m"
        "matter_status m \<in> set (matterLifecycleCommandRequiredStatuses (eci_command inp))"
      using execute_effect [OF rt] by blast
    then show False
      using find_Some_mem [OF m(1)] intake no_command_from_intake by (auto simp: all_intake_def list_all_iff)
  qed
  then show ?thesis using rt intake by (simp add: all_intake_def)
qed

subsection \<open>The audit log tells the status\<close>

text \<open>The status of a matter as the executed commands of an audit log tell it, from a status to begin with.\<close>

definition replay :: "string \<Rightarrow> string \<Rightarrow> AuditEvent list \<Rightarrow> js_value \<Rightarrow> js_value" where
  "replay firmId matterId events =
     fold (\<lambda>e status. if aud_action e = ''matter.lifecycle_command_executed'' \<and> aud_firmId e = firmId \<and> aud_resourceId e = matterId
       then or_else (map_get (aud_metadata e) ''afterStatus'') JUndefined else status) events"

definition start_status :: "MemoryMatterLifecycleStore \<Rightarrow> Matter \<Rightarrow> MatterStatus" where
  "start_status s0 m = (case List.find (is_matter (matter_firmId m) (matter_id m)) (mst_matters s0) of
     Some m0 \<Rightarrow> matter_status m0 | None \<Rightarrow> Matter_intake)"

definition executed_keys :: "AuditEvent list \<Rightarrow> (string \<times> string) set" where
  "executed_keys events = {(aud_firmId e, aud_resourceId e) | e. e \<in> set events \<and> aud_action e = ''matter.lifecycle_command_executed''}"

definition replayed :: "MemoryMatterLifecycleStore \<Rightarrow> AuditEvent list \<Rightarrow> Matter \<Rightarrow> bool" where
  "replayed s0 events m \<longleftrightarrow> replay (matter_firmId m) (matter_id m) events (JStr (matter_status_name (start_status s0 m)))
     = JStr (matter_status_name (matter_status m))"

definition replays :: "MemoryMatterLifecycleStore \<Rightarrow> MemoryMatterLifecycleStore \<Rightarrow> bool" where
  "replays s0 s =
     (distinct (map matter_key (mst_matters s))
      \<and> matter_key ` set (mst_matters s0) \<subseteq> matter_key ` set (mst_matters s)
      \<and> (\<exists>new. mst_auditEvents s = mst_auditEvents s0 @ new
          \<and> executed_keys new \<subseteq> matter_key ` set (mst_matters s)
          \<and> list_all (replayed s0 new) (mst_matters s)))"

lemma is_matter_key: "is_matter f i m \<longleftrightarrow> matter_key m = (f, i)"
  by (auto simp: is_matter_def matter_key_def)

lemma replay_append: "replay f i (es @ es') st = replay f i es' (replay f i es st)"
  by (simp add: replay_def)

lemma replay_other: "(f, i) \<notin> executed_keys es \<Longrightarrow> replay f i es st = st"
  by (induction es arbitrary: st) (auto simp: replay_def executed_keys_def)

lemma executed_keys_append: "executed_keys (es @ es') = executed_keys es \<union> executed_keys es'"
  by (auto simp: executed_keys_def)

lemma start_status_key: "matter_key m = matter_key m' \<Longrightarrow> start_status s0 m = start_status s0 m'"
  by (auto simp: start_status_def matter_key_def)

lemma effect_keeps_replay: "matter_effect s t \<Longrightarrow> replays s0 s \<Longrightarrow> replays s0 t"
proof (induction rule: matter_effect.induct)
  case (effect_open s f i m t)
  obtain new where new: "mst_auditEvents s = mst_auditEvents s0 @ new" "executed_keys new \<subseteq> matter_key ` set (mst_matters s)"
      "list_all (replayed s0 new) (mst_matters s)" using effect_open(3) by (auto simp: replays_def)
  obtain e where o: "mst_matters t = m # mst_matters s" "matter_key m = (f, i)" "matter_status m = Matter_intake"
      "mst_auditEvents t = mst_auditEvents s0 @ (new @ [e])" "executed_keys [e] = {}"
    using effect_open(1) new(1) by (auto simp: opens_def matter_key_def executed_keys_def)
  have fresh: "(f, i) \<notin> matter_key ` set (mst_matters s)" using effect_open(2) by (simp add: fresh_matter_def)
  then have "(f, i) \<notin> matter_key ` set (mst_matters s0)" using effect_open(3) by (auto simp: replays_def)
  then have "List.find (is_matter f i) (mst_matters s0) = None"
    unfolding find_None_all is_matter_key by (metis imageI)
  moreover have "(f, i) \<notin> executed_keys (new @ [e])" using fresh new(2) o(5) by (auto simp: executed_keys_append)
  ultimately have "replayed s0 (new @ [e]) m"
    using o(2,3) replay_other by (auto simp: replayed_def start_status_def matter_key_def)
  moreover have "list_all (replayed s0 (new @ [e])) (mst_matters s)"
    by (rule list.pred_mono_strong [OF new(3)]) (simp add: o(5) replayed_def replay_append replay_other)
  ultimately show ?case
    using effect_open(3) o fresh new(2) unfolding replays_def
    by (intro conjI exI [of _ "new @ [e]"]) (auto simp: executed_keys_append)
next
  case (effect_execute f i s m c t e)
  obtain new where new: "mst_auditEvents s = mst_auditEvents s0 @ new" "executed_keys new \<subseteq> matter_key ` set (mst_matters s)"
      "list_all (replayed s0 new) (mst_matters s)" using effect_execute(10) by (auto simp: replays_def)
  let ?upd = "\<lambda>x. x\<lparr>matter_status := matterLifecycleTargetStatus c\<rparr>"
  obtain as bs where split: "mst_matters s = as @ m # bs" "mst_matters t = as @ ?upd m # bs"
    using update_first_split [OF effect_execute(1), of ?upd] effect_execute(3) by auto
  have key: "matter_key m = (f, i)" using find_Some_mem [OF effect_execute(1)] by (simp add: is_matter_key)
  have ex: "executed_keys [e] = {(f, i)}" using effect_execute(6-8) by (auto simp: executed_keys_def)
  have "distinct (map matter_key (mst_matters s))" using effect_execute(10) by (simp add: replays_def)
  then have others: "matter_key x \<noteq> (f, i)" if "x \<in> set as \<union> set bs" for x
    using that key unfolding split(1) by (force simp: image_iff)
  have "replayed s0 (new @ [e]) x" if "x \<in> set as \<union> set bs" for x
  proof -
    have "replay (matter_firmId x) (matter_id x) [e] st = st" for st
      by (rule replay_other) (use others [OF that] ex in \<open>simp add: matter_key_def\<close>)
    then show ?thesis using new(3) that unfolding split(1) by (auto simp: replayed_def replay_append list_all_iff)
  qed
  moreover have "replayed s0 (new @ [e]) (?upd m)"
    using effect_execute(6-9) key by (simp add: replayed_def replay_append replay_def matter_key_def or_else_def)
  moreover have "map matter_key (mst_matters t) = map matter_key (mst_matters s)" using effect_execute(3) by simp
  moreover from this have "matter_key ` set (mst_matters t) = matter_key ` set (mst_matters s)"
    by (metis list.set_map)
  ultimately show ?case
    using effect_execute(5,10) new(1,2) ex key split unfolding replays_def
    by (intro conjI exI [of _ "new @ [e]"]) (auto simp: executed_keys_append list_all_iff)
next
  case (effect_other t s es xs)
  obtain new where new: "mst_auditEvents s = mst_auditEvents s0 @ new" "executed_keys new \<subseteq> matter_key ` set (mst_matters s)"
      "list_all (replayed s0 new) (mst_matters s)" using effect_other(6) by (auto simp: replays_def)
  have es: "executed_keys es = {}" using effect_other(2) by (auto simp: executed_keys_def list_all_iff)
  have keys: "map matter_key (mst_matters t) = map matter_key (mst_matters s)" by (rule kept_fields_map(1) [OF effect_other(1)])
  then have sets: "matter_key ` set (mst_matters t) = matter_key ` set (mst_matters s)" by (metis list.set_map)
  have "replayed s0 (new @ es) x" if "x \<in> set (mst_matters t)" for x
  proof -
    have "kept_fields x \<in> kept_fields ` set (mst_matters s)" using that effect_other(1) by (metis imageI list.set_map)
    then obtain y where y: "y \<in> set (mst_matters s)" "kept_fields y = kept_fields x" by auto
    then have "replayed s0 new y" using new(3) by (auto simp: list_all_iff)
    then show ?thesis using y(2) start_status_key [of x y s0] es
      by (auto simp: replayed_def replay_append replay_other kept_fields_def matter_key_def)
  qed
  then show ?case
    using effect_other(3,6) new(1,2) es sets keys unfolding replays_def
    by (intro conjI exI [of _ "new @ es"]) (auto simp: executed_keys_append list_all_iff)
qed

interpretation replay_run: inductive_invariant
  "\<lambda>s. s = s0 \<and> distinct (map matter_key (mst_matters s0))" "matter_step sha256 collate" "replays s0" for sha256 collate s0
proof unfold_locales
  show "s = s0 \<and> distinct (map matter_key (mst_matters s0)) \<Longrightarrow> replays s0 s" for s
  proof -
    assume s: "s = s0 \<and> distinct (map matter_key (mst_matters s0))"
    have "start_status s0 m = matter_status m" if mem: "m \<in> set (mst_matters s0)" for m
    proof -
      obtain m0 where m0: "List.find (is_matter (matter_firmId m) (matter_id m)) (mst_matters s0) = Some m0"
        using mem by (cases "List.find (is_matter (matter_firmId m) (matter_id m)) (mst_matters s0)")
          (auto simp: find_None_all is_matter_def)
      have "matter_key m0 = matter_key m" using find_Some_mem [OF m0] by (simp add: is_matter_def matter_key_def)
      then have "m0 = m"
        using find_Some_mem [OF m0] mem s by (intro inj_onD [of matter_key "set (mst_matters s0)"]) (simp_all add: distinct_map)
      then show ?thesis using m0 by (simp add: start_status_def)
    qed
    then show "replays s0 s"
      using s unfolding replays_def by (intro conjI exI [of _ "[]"]) (auto simp: executed_keys_def list_all_iff replayed_def replay_def)
  qed
  show "matter_step sha256 collate s t \<Longrightarrow> replays s0 s \<Longrightarrow> replays s0 t" for s t
    using matter_step_effect effect_keeps_replay by blast
qed

text \<open>
  C26. From any store in which matters have different identifiers, whatever calls follow, the status of
  a matter is the one the audit log tells: the status after the last executed command recorded for it,
  or else the status it began with (intake for a matter opened on the way).
\<close>

theorem audit_log_tells_status:
  assumes "reachable (\<lambda>s. s = s0 \<and> distinct (map matter_key (mst_matters s0))) (matter_step sha256 collate) s"
    and "m \<in> set (mst_matters s)"
  shows "\<exists>new. mst_auditEvents s = mst_auditEvents s0 @ new
    \<and> replay (matter_firmId m) (matter_id m) new (JStr (matter_status_name (start_status s0 m)))
        = JStr (matter_status_name (matter_status m))"
  using replay_run.reachable_inv [OF assms(1)] assms(2) by (auto simp: replays_def replayed_def list_all_iff)

subsection \<open>When a command succeeds\<close>




text \<open>
  Converting a pending consultation intake opens one matter in intake for it, with the client as
  prospective party and every opposing party as adverse, and marks the intake; a later conversion of the
  same intake is refused and writes nothing.
\<close>

theorem intake_converts_once:
  assumes "convertMemoryPublicConsultationIntakeToMatter sha256 s inp = (Inr (intake, m), t)"
    and "cvi_firmId later = cvi_firmId inp" and "cvi_intakeId later = cvi_intakeId inp"
  shows "pci_status intake = Consultation_converted \<and> pci_convertedMatterId intake = Some (matter_id m)
    \<and> intake \<in> set (mst_publicConsultationIntakes t)
    \<and> mst_matters t = m # mst_matters s \<and> matter_status m = Matter_intake
    \<and> (\<exists>new. mst_matterParties t = new @ mst_matterParties s \<and> list_all (\<lambda>p. party_matterId p = matter_id m) new
        \<and> map (\<lambda>p. (party_contactId p, party_adverse p)) new
            = (cvi_clientContactId inp, False) # map (\<lambda>o'. (opp_contactId o', True)) (cvi_opposingParties inp))
    \<and> (\<exists>e. convertMemoryPublicConsultationIntakeToMatter sha256 t later = (Inl e, t))"
proof -
  let ?is = "is_intake (cvi_firmId inp) (cvi_intakeId inp)"
  obtain i where i: "intake = reviewed_intake inp i" "opens s (cvi_firmId inp) (cvi_matterId inp) m t"
      "List.find ?is (mst_publicConsultationIntakes s) = Some i" "t = append_event sha256 (convert_event inp) (convert_writes s inp i)"
    using convert_effect [OF assms(1)] by (auto simp: is_ok_def)
  have is_i: "?is (reviewed_intake inp i)"
    using find_Some_mem [OF i(3)] by (simp add: is_intake_def reviewed_intake_def)
  have stored: "mst_publicConsultationIntakes t = update_first ?is (\<lambda>_. reviewed_intake inp i) (mst_publicConsultationIntakes s)"
    unfolding i(4) by (simp add: convert_writes_def Let_def)
  then have found: "List.find ?is (mst_publicConsultationIntakes t) = Some (reviewed_intake inp i)"
    using find_update_first [where p = ?is and f = "\<lambda>_. reviewed_intake inp i"] i(3) is_i by simp
  have "\<exists>e. convertMemoryPublicConsultationIntakeToMatter sha256 t later = (Inl e, t)"
    using found assms(2,3) unfolding convertMemoryPublicConsultationIntakeToMatter_def
    by (auto simp: throw_def reviewed_intake_def split: option.splits)
  moreover have "intake \<in> set (mst_publicConsultationIntakes t)" using find_Some_mem [OF found] i(1) by simp
  moreover have "\<exists>new. mst_matterParties t = new @ mst_matterParties s \<and> list_all (\<lambda>p. party_matterId p = cvi_matterId inp) new
        \<and> map (\<lambda>p. (party_contactId p, party_adverse p)) new
            = (cvi_clientContactId inp, False) # map (\<lambda>o'. (opp_contactId o', True)) (cvi_opposingParties inp)"
    unfolding i(4) by (rule exI [of _ "plain_party (cvi_clientPartyId inp) (cvi_firmId inp) (cvi_matterId inp) (cvi_clientContactId inp)
      Party_prospective_client False True # map (\<lambda>party. plain_party (opp_partyId party) (cvi_firmId inp) (cvi_matterId inp)
            (opp_contactId party) Party_opposing_party True False) (cvi_opposingParties inp)"])
      (simp add: convert_writes_def Let_def plain_party_def list_all_iff)
  ultimately show ?thesis using i(1,2) by (simp add: opens_def reviewed_intake_def)
qed

subsection \<open>Examples\<close>

definition ex_owner :: User where
  "ex_owner = \<lparr>user_id = ''u'', user_firmId = ''f'', user_displayName = ''U'', user_email = ''u@example.org'',
     user_role = Role_owner_admin, user_assignedMatterIds = [], user_mfaEnabled = True, user_practitionerProfile = None\<rparr>"

definition ex_intake :: PublicConsultationIntakeRecord where
  "ex_intake = \<lparr>pci_id = ''i'', pci_firmId = ''f'', pci_status = Consultation_pending, pci_clientName = ''C'', pci_telephone = ''1'',
     pci_email = None, pci_opposingPartyNames = [''O''], pci_matterDescription = ''d'', pci_sourceUrl = None,
     pci_disclosureAcceptedAt = ''2026-01-01'', pci_submittedAt = ''2026-01-01'', pci_reviewedByUserId = None, pci_reviewedAt = None,
     pci_dismissedReason = None, pci_convertedMatterId = None, pci_notificationEmailId = None, pci_metadata = []\<rparr>"

definition ex_practice :: MemoryMatterLifecycleStore where
  "ex_practice = \<lparr>mst_users = [ex_owner], mst_contacts = [], mst_matters = [], mst_matterParties = [],
     mst_publicConsultationIntakes = [ex_intake], mst_matterLifecycleTransitions = [], mst_auditEvents = []\<rparr>"

definition ex_open :: "string \<Rightarrow> CreateMatterWithClientInput" where
  "ex_open i = \<lparr>cmi_firmId = ''f'', cmi_actorUserId = ''u'', cmi_matterId = i, cmi_contactId = ''c'', cmi_partyId = ''p'',
     cmi_title = ''t'', cmi_practiceArea = ''a'', cmi_jurisdiction = Province_BC, cmi_openedOn = ''2026-01-01'',
     cmi_occurredAt = ''2026-01-01'', cmi_auditEventId = ''e'',
     cmi_client = Some \<lparr>ncl_kind = Kind_person, ncl_displayName = ''C'', ncl_identifiers = []\<rparr>\<rparr>"

definition ex_convert :: ConvertPublicConsultationIntakeInput where
  "ex_convert = \<lparr>cvi_firmId = ''f'', cvi_intakeId = ''i'', cvi_actorUserId = ''u'', cvi_matterId = ''m2'', cvi_clientContactId = ''c2'',
     cvi_clientPartyId = ''p2'', cvi_opposingParties = [\<lparr>opp_contactId = ''c3'', opp_partyId = ''p3'', opp_displayName = ''O''\<rparr>],
     cvi_title = ''t'', cvi_practiceArea = ''a'', cvi_jurisdiction = Province_BC, cvi_openedOn = ''2026-01-01'',
     cvi_occurredAt = ''2026-01-01'', cvi_auditEventId = ''e2''\<rparr>"

definition ex_review_input :: "string \<Rightarrow> MatterLifecycleTransition \<Rightarrow> CreateTransitionInput" where
  "ex_review_input i tr = \<lparr>cti_id = i, cti_firmId = ''f'', cti_matterId = ''m'', cti_transition = tr, cti_readiness = Readiness_ready,
     cti_reason = ''r'', cti_blockers = None, cti_reviewedByUserId = ''u'', cti_reviewedAt = ''2026-01-01'', cti_createdAt = ''2026-01-01'',
     cti_auditEventId = ''e''\<rparr>"

definition ex_command :: "string \<Rightarrow> MatterLifecycleCommand \<Rightarrow> MatterStatus \<Rightarrow> ExecuteCommandInput" where
  "ex_command i c st = \<lparr>eci_firmId = ''f'', eci_matterId = ''m'', eci_command = c, eci_expectedStatus = st, eci_transitionRecordId = i,
     eci_reason = ''r'', eci_idempotencyKey = ''k'', eci_executedByUserId = ''u'', eci_executedAt = ''2026-01-02'', eci_auditEventId = ''x''\<rparr>"

text \<open>A store whose one matter is open, as sample data have it, and a run that pauses, reopens and pauses it.\<close>

definition ex_seeded :: MemoryMatterLifecycleStore where
  "ex_seeded = ex_practice\<lparr>mst_matters := [ex_matter]\<rparr>"

abbreviation "ex_digest \<equiv> (\<lambda>s :: string. ''h'')"
abbreviation "ex_order \<equiv> (\<lambda>a b :: string. 0 :: int)"

definition ex_reviewed :: MemoryMatterLifecycleStore where
  "ex_reviewed = snd (createMemoryMatterLifecycleTransition ex_digest ex_seeded (ex_review_input ''r1'' Transition_pause))"

definition ex_paused :: MemoryMatterLifecycleStore where
  "ex_paused = snd (executeMemoryMatterLifecycleCommand ex_digest ex_order ex_reviewed (ex_command ''r1'' Transition_pause Matter_open))"

definition ex_reopened :: MemoryMatterLifecycleStore where
  "ex_reopened = snd (executeMemoryMatterLifecycleCommand ex_digest ex_order
     (snd (createMemoryMatterLifecycleTransition ex_digest ex_paused (ex_review_input ''r2'' Transition_reopen)))
     (ex_command ''r2'' Transition_reopen Matter_paused))"

text \<open>
  A review is not used up: after the matter has been paused and reopened, the first review is still
  the newest one for pausing and pauses the matter again.
\<close>

lemma review_is_used_again:
  "map matter_status (mst_matters ex_reopened) = [Matter_open]"
  "is_ok (case fst (executeMemoryMatterLifecycleCommand ex_digest ex_order ex_reopened (ex_command ''r1'' Transition_pause Matter_open)) of
     Inl e \<Rightarrow> throw ''refused'' | Inr x \<Rightarrow> Inr x)"
  by code_simp+

lemma practice_two_matters:
  "reachable no_matters (matter_step ex_digest ex_order)
     (snd (convertMemoryPublicConsultationIntakeToMatter ex_digest (snd (createMemoryMatterWithClient ex_digest ex_practice (ex_open ''m''))) ex_convert))"
proof (rule reach_step, rule reach_step)
  show "reachable no_matters (matter_step ex_digest ex_order) ex_practice"
    by (rule reach_init) (simp add: no_matters_def ex_practice_def)
  show "matter_step ex_digest ex_order ex_practice (snd (createMemoryMatterWithClient ex_digest ex_practice (ex_open ''m'')))"
    by (rule step_create [OF _ surjective_pairing]) (simp add: fresh_matter_def ex_practice_def)
  show "matter_step ex_digest ex_order (snd (createMemoryMatterWithClient ex_digest ex_practice (ex_open ''m'')))
     (snd (convertMemoryPublicConsultationIntakeToMatter ex_digest (snd (createMemoryMatterWithClient ex_digest ex_practice (ex_open ''m''))) ex_convert))"
    by (rule step_convert [OF _ surjective_pairing]) code_simp
qed

theorem matter_numbers_are_unique_witness:
  "map matter_number (mst_matters (snd (convertMemoryPublicConsultationIntakeToMatter ex_digest
     (snd (createMemoryMatterWithClient ex_digest ex_practice (ex_open ''m''))) ex_convert))) = [''2026-0002'', ''2026-0001'']
   \<and> distinct (map (\<lambda>m. (matter_firmId m, matter_number m)) (mst_matters (snd (convertMemoryPublicConsultationIntakeToMatter ex_digest
     (snd (createMemoryMatterWithClient ex_digest ex_practice (ex_open ''m''))) ex_convert))))"
proof
  show "map matter_number (mst_matters (snd (convertMemoryPublicConsultationIntakeToMatter ex_digest
     (snd (createMemoryMatterWithClient ex_digest ex_practice (ex_open ''m''))) ex_convert))) = [''2026-0002'', ''2026-0001'']" by code_simp
qed (use matter_numbers_are_unique [OF practice_two_matters] in blast)

lemma practice_reviewed:
  "reachable no_matters (matter_step ex_digest ex_order) (snd (createMemoryMatterLifecycleTransition ex_digest
     (snd (createMemoryMatterWithClient ex_digest ex_practice (ex_open ''m''))) (ex_review_input ''r1'' Transition_pause)))"
proof (rule reach_step, rule reach_step)
  show "reachable no_matters (matter_step ex_digest ex_order) ex_practice"
    by (rule reach_init) (simp add: no_matters_def ex_practice_def)
  show "matter_step ex_digest ex_order ex_practice (snd (createMemoryMatterWithClient ex_digest ex_practice (ex_open ''m'')))"
    by (rule step_create [OF _ surjective_pairing]) (simp add: fresh_matter_def ex_practice_def)
  show "matter_step ex_digest ex_order (snd (createMemoryMatterWithClient ex_digest ex_practice (ex_open ''m'')))
    (snd (createMemoryMatterLifecycleTransition ex_digest (snd (createMemoryMatterWithClient ex_digest ex_practice (ex_open ''m'')))
      (ex_review_input ''r1'' Transition_pause)))"
    by (rule step_review [OF surjective_pairing])
qed

theorem stored_reviews_are_well_formed_witness:
  "list_all (\<lambda>r. mlt_targetStatus r = matterLifecycleTargetStatus (mlt_transition r)) (mst_matterLifecycleTransitions
     (snd (createMemoryMatterLifecycleTransition ex_digest (snd (createMemoryMatterWithClient ex_digest ex_practice (ex_open ''m'')))
       (ex_review_input ''r1'' Transition_pause))))"
  using stored_reviews_are_well_formed [OF practice_reviewed] by (rule list.pred_mono_strong) blast

theorem no_command_is_ever_available_witness:
  "\<exists>e. fst (executeMemoryMatterLifecycleCommand ex_digest ex_order (snd (createMemoryMatterLifecycleTransition ex_digest
     (snd (createMemoryMatterWithClient ex_digest ex_practice (ex_open ''m''))) (ex_review_input ''r1'' Transition_pause)))
     (ex_command ''r1'' Transition_pause Matter_intake)) = Inl e"
  using no_command_is_ever_available [OF practice_reviewed] by (metis fst_conv)

theorem audit_log_tells_status_witness:
  "\<exists>new. mst_auditEvents ex_paused = new \<and> replay ''f'' ''m'' new (JStr ''open'') = JStr ''paused''"
proof -
  have run: "reachable (\<lambda>s. s = ex_seeded \<and> distinct (map matter_key (mst_matters ex_seeded))) (matter_step ex_digest ex_order) ex_paused"
  proof (rule reach_step, rule reach_step)
    show "reachable (\<lambda>s. s = ex_seeded \<and> distinct (map matter_key (mst_matters ex_seeded))) (matter_step ex_digest ex_order) ex_seeded"
      by (rule reach_init) (simp add: ex_seeded_def)
    show "matter_step ex_digest ex_order ex_seeded ex_reviewed"
      unfolding ex_reviewed_def by (rule step_review [OF surjective_pairing])
    show "matter_step ex_digest ex_order ex_reviewed ex_paused"
      unfolding ex_paused_def by (rule step_execute [OF surjective_pairing])
  qed
  have "ex_matter\<lparr>matter_status := Matter_paused\<rparr> \<in> set (mst_matters ex_paused)" by code_simp
  from audit_log_tells_status [OF run this] show ?thesis
    by (simp add: start_status_def ex_seeded_def ex_practice_def is_matter_def) (simp add: ex_matter_def)
qed

theorem intake_converts_once_witness:
  "\<exists>e. convertMemoryPublicConsultationIntakeToMatter ex_digest (snd (convertMemoryPublicConsultationIntakeToMatter ex_digest ex_practice ex_convert)) ex_convert
     = (Inl e, snd (convertMemoryPublicConsultationIntakeToMatter ex_digest ex_practice ex_convert))"
proof -
  have "is_ok (fst (convertMemoryPublicConsultationIntakeToMatter ex_digest ex_practice ex_convert))" by code_simp
  then obtain i m where "convertMemoryPublicConsultationIntakeToMatter ex_digest ex_practice ex_convert
      = (Inr (i, m), snd (convertMemoryPublicConsultationIntakeToMatter ex_digest ex_practice ex_convert))"
    by (cases "convertMemoryPublicConsultationIntakeToMatter ex_digest ex_practice ex_convert") (auto simp: is_ok_def split: sum.splits)
  from intake_converts_once [OF this refl refl] show ?thesis by blast
qed

end
