(* ===== verification/Signatures.thy ===== *)
theory Signatures
  imports Models Js_Date Js_Double
begin

section \<open>Signature requests\<close>

text \<open>
  packages/domain/src/signatures.ts and packages/database/src/repository/signatures/memory.ts: the checks
  of an envelope, the status machine that provider events drive, the key under which a repeated event is
  recognised, and the store. Orders and pages are integers (the API parses them so); placements are
  rational numbers. The automation and intake records at the end of the file belong to the intake.
\<close>

subsection \<open>Data\<close>

datatype SignatureRequestEnvelopeValidationStatus = Envelope_unchecked | Envelope_valid
    | Envelope_needs_review | Envelope_invalid

datatype SignatureRequestEnvelopeFieldType = Field_signature | Field_initials | Field_date
    | Field_text

datatype SignatureProviderName = Provider_embedded | Provider_manual | Provider_docuseal

datatype SignatureProviderStatus = Signature_draft | Signature_pending_provider_submission
    | Signature_sent | Signature_viewed | Signature_completed | Signature_declined
    | Signature_provider_error

datatype SignatureStatusUpdateReason = Update_status_advanced | Update_same_status_replay
    | Update_status_regression | Update_terminal_status_preserved

datatype WebhookStatus = Webhook_received | Webhook_processed | Webhook_failed

record SignatureRequestEnvelopeSignerOrder =
  ord_role :: string
  ord_order :: int
  ord_required :: bool

record SignatureRequestEnvelopeFieldPlacement =
  fld_id :: string
  fld_role :: string
  fld_fieldType :: SignatureRequestEnvelopeFieldType
  fld_page :: int
  fld_required :: bool
  fld_documentId :: "string option"
  fld_xPercent :: "rat option"
  fld_yPercent :: "rat option"

record SignatureRequestEnvelopeMetadata =
  env_signerOrder :: "SignatureRequestEnvelopeSignerOrder list"
  env_fieldPlacements :: "SignatureRequestEnvelopeFieldPlacement list"
  env_validationStatus :: SignatureRequestEnvelopeValidationStatus

record SignatureRequestEnvelopeValidationResult =
  evr_status :: SignatureRequestEnvelopeValidationStatus
  evr_issues :: "string list"
  evr_signerCount :: int
  evr_fieldCount :: int
  evr_requiredFieldCount :: int

record SignatureStatusUpdateDecision =
  sud_shouldUpdate :: bool
  sud_reason :: SignatureStatusUpdateReason
  sud_currentStatus :: SignatureProviderStatus
  sud_incomingStatus :: SignatureProviderStatus
  sud_comparison :: int

record SignatureProviderEventReplayMetadata =
  rpl_replayKey :: string
  rpl_providerEventId :: "string option"
  rpl_providerWebhookId :: "string option"

record SignatureProviderEvent =
  sev_provider :: SignatureProviderName
  sev_externalId :: string
  sev_status :: SignatureProviderStatus
  sev_occurredAt :: string
  sev_evidence :: "(string \<times> js_value) list"

record SignatureProviderEventRecord = SignatureProviderEvent +
  sev_id :: string
  sev_firmId :: string
  sev_signatureRequestId :: string

record SignatureRequestRecord =
  sig_id :: string
  sig_firmId :: string
  sig_matterId :: string
  sig_documentId :: string
  sig_title :: string
  sig_requestedByUserId :: string
  sig_provider :: SignatureProviderName
  sig_externalId :: string
  sig_status :: SignatureProviderStatus
  sig_signingUrl :: "string option"
  sig_consentText :: string
  sig_evidence :: "(string \<times> js_value) list"
  sig_signerOrder :: "(SignatureRequestEnvelopeSignerOrder list) option"
  sig_fieldPlacements :: "(SignatureRequestEnvelopeFieldPlacement list) option"
  sig_validationStatus :: "SignatureRequestEnvelopeValidationStatus option"
  sig_createdAt :: string
  sig_completedAt :: "string option"
  sig_declinedAt :: "string option"

record SignatureSigner =
  sgn_name :: string
  sgn_email :: string
  sgn_role :: string

record SignatureRequestSignerRecord = SignatureSigner +
  sgn_id :: string
  sgn_firmId :: string
  sgn_signatureRequestId :: string
  sgn_status :: SignatureProviderStatus
  sgn_signingUrl :: "string option"
  sgn_completedAt :: "string option"

record SignatureWebhookAttemptRecord =
  wha_id :: string
  wha_firmId :: string
  wha_provider :: SignatureProviderName
  wha_externalId :: string
  wha_receivedAt :: string
  wha_processedAt :: "string option"
  wha_status :: WebhookStatus
  wha_errorMessage :: "string option"
  wha_payload :: "(string \<times> js_value) list"

primrec signature_status_name :: "SignatureProviderStatus \<Rightarrow> string" where
  "signature_status_name Signature_draft = ''draft''"
| "signature_status_name Signature_pending_provider_submission = ''pending_provider_submission''"
| "signature_status_name Signature_sent = ''sent''"
| "signature_status_name Signature_viewed = ''viewed''"
| "signature_status_name Signature_completed = ''completed''"
| "signature_status_name Signature_declined = ''declined''"
| "signature_status_name Signature_provider_error = ''provider_error''"

primrec signature_provider_name :: "SignatureProviderName \<Rightarrow> string" where
  "signature_provider_name Provider_embedded = ''embedded''"
| "signature_provider_name Provider_manual = ''manual''"
| "signature_provider_name Provider_docuseal = ''docuseal''"

subsection \<open>Envelopes\<close>

definition defaultSignatureRequestEnvelopeMetadata :: SignatureRequestEnvelopeMetadata where
  "defaultSignatureRequestEnvelopeMetadata =
     \<lparr>env_signerOrder = [], env_fieldPlacements = [], env_validationStatus = Envelope_unchecked\<rparr>"

definition issue_if :: "bool \<Rightarrow> string \<Rightarrow> string list" where
  "issue_if c issue = (if c then [issue] else [])"

text \<open>The loop over the signers, with the roles and orders seen so far.\<close>

fun signer_issues :: "string set \<Rightarrow> int set \<Rightarrow> SignatureRequestEnvelopeSignerOrder list \<Rightarrow> string list" where
  "signer_issues roles orders [] = []"
| "signer_issues roles orders (signer # signers) =
     issue_if (ord_order signer < 1) (''Signer role '' @ ord_role signer @ '' has an invalid signing order.'')
     @ issue_if (ord_order signer \<in> orders) (''Signing order '' @ string_of_int (ord_order signer) @ '' is assigned more than once.'')
     @ issue_if (ord_role signer \<in> roles) (''Signer role '' @ ord_role signer @ '' is duplicated.'')
     @ signer_issues (insert (ord_role signer) roles) (insert (ord_order signer) orders) signers"

definition outside_percent :: "rat option \<Rightarrow> bool" where
  "outside_percent x = (case x of None \<Rightarrow> False | Some p \<Rightarrow> p < 0 \<or> p > 100)"

definition field_issues :: "string set \<Rightarrow> string \<Rightarrow> SignatureRequestEnvelopeFieldPlacement \<Rightarrow> string list" where
  "field_issues roles documentId field =
     issue_if (fld_role field \<notin> roles)
       (''Field '' @ fld_id field @ '' references signer role '' @ fld_role field @ '' outside signer order.'')
     @ issue_if (fld_page field < 1) (''Field '' @ fld_id field @ '' has an invalid page.'')
     @ issue_if (fld_documentId field \<noteq> None \<and> fld_documentId field \<noteq> Some documentId)
       (''Field '' @ fld_id field @ '' is linked to a different document.'')
     @ issue_if (outside_percent (fld_xPercent field)) (''Field '' @ fld_id field @ '' has an invalid horizontal placement.'')
     @ issue_if (outside_percent (fld_yPercent field)) (''Field '' @ fld_id field @ '' has an invalid vertical placement.'')"

definition validateSignatureRequestEnvelopeMetadata ::
  "SignatureRequestEnvelopeSignerOrder list \<Rightarrow> SignatureRequestEnvelopeFieldPlacement list \<Rightarrow> string
    \<Rightarrow> SignatureRequestEnvelopeValidationResult" where
  "validateSignatureRequestEnvelopeMetadata signerOrder fieldPlacements documentId =
     (let roles = set (map ord_role signerOrder);
          issues = issue_if (signerOrder = []) ''Signer order is required before sending.''
            @ signer_issues {} {} signerOrder
            @ concat (map (field_issues roles documentId) fieldPlacements)
      in \<lparr>evr_status = (if issues = [] then Envelope_valid else Envelope_invalid),
          evr_issues = sort (js_set issues),
          evr_signerCount = int (length signerOrder),
          evr_fieldCount = int (length fieldPlacements),
          evr_requiredFieldCount = count_where fld_required fieldPlacements\<rparr>)"

definition safeSignatureRequestEnvelopeValidationSummary ::
  "SignatureRequestEnvelopeSignerOrder list option \<Rightarrow> SignatureRequestEnvelopeFieldPlacement list option
    \<Rightarrow> SignatureRequestEnvelopeValidationStatus option \<Rightarrow> string \<Rightarrow> SignatureRequestEnvelopeValidationResult" where
  "safeSignatureRequestEnvelopeValidationSummary signerOrder fieldPlacements validationStatus documentId =
     (let signerOrder = or_else signerOrder []; fieldPlacements = or_else fieldPlacements []
      in if validationStatus = Some Envelope_unchecked \<and> signerOrder = [] \<and> fieldPlacements = []
         then \<lparr>evr_status = Envelope_unchecked, evr_issues = [], evr_signerCount = 0, evr_fieldCount = 0,
               evr_requiredFieldCount = 0\<rparr>
         else validateSignatureRequestEnvelopeMetadata signerOrder fieldPlacements documentId)"

subsection \<open>Statuses\<close>

definition terminalSignatureProviderStatuses :: "SignatureProviderStatus list" where
  "terminalSignatureProviderStatuses = [Signature_completed, Signature_declined, Signature_provider_error]"

primrec signatureProviderStatusRank :: "SignatureProviderStatus \<Rightarrow> int" where
  "signatureProviderStatusRank Signature_draft = 0"
| "signatureProviderStatusRank Signature_pending_provider_submission = 1"
| "signatureProviderStatusRank Signature_sent = 2"
| "signatureProviderStatusRank Signature_viewed = 3"
| "signatureProviderStatusRank Signature_completed = 4"
| "signatureProviderStatusRank Signature_declined = 4"
| "signatureProviderStatusRank Signature_provider_error = 4"

definition isTerminalSignatureStatus :: "SignatureProviderStatus \<Rightarrow> bool" where
  "isTerminalSignatureStatus status = (status \<in> set terminalSignatureProviderStatuses)"

definition isTerminalSignatureProviderStatus :: "SignatureProviderStatus \<Rightarrow> bool" where
  "isTerminalSignatureProviderStatus status = isTerminalSignatureStatus status"

definition getSignatureProviderStatusRank :: "SignatureProviderStatus \<Rightarrow> int" where
  "getSignatureProviderStatusRank status = signatureProviderStatusRank status"

definition compareSignatureProviderStatuses :: "SignatureProviderStatus \<Rightarrow> SignatureProviderStatus \<Rightarrow> int" where
  "compareSignatureProviderStatuses left right = sgn (getSignatureProviderStatusRank left - getSignatureProviderStatusRank right)"

definition orderSignatureProviderStatuses :: "SignatureProviderStatus list \<Rightarrow> SignatureProviderStatus list" where
  "orderSignatureProviderStatuses statuses = js_sort compareSignatureProviderStatuses statuses"

definition compareSignatureProviderEvents :: "'a SignatureProviderEvent_scheme \<Rightarrow> 'a SignatureProviderEvent_scheme \<Rightarrow> int" where
  "compareSignatureProviderEvents left right =
     (let statusComparison = compareSignatureProviderStatuses (sev_status left) (sev_status right)
      in if statusComparison \<noteq> 0 then statusComparison
         else sgn (date_difference (sev_occurredAt left) (sev_occurredAt right)))"

definition orderSignatureProviderEvents :: "'a SignatureProviderEvent_scheme list \<Rightarrow> 'a SignatureProviderEvent_scheme list" where
  "orderSignatureProviderEvents events = js_sort compareSignatureProviderEvents events"

definition shouldApplySignatureProviderStatus :: "SignatureProviderStatus \<Rightarrow> SignatureProviderStatus \<Rightarrow> bool" where
  "shouldApplySignatureProviderStatus currentStatus nextStatus =
     (if currentStatus = nextStatus then True
      else if isTerminalSignatureStatus currentStatus then False
      else signatureProviderStatusRank nextStatus \<ge> signatureProviderStatusRank currentStatus)"

definition getSignatureStatusUpdateDecision :: "SignatureProviderStatus \<Rightarrow> SignatureProviderStatus \<Rightarrow> SignatureStatusUpdateDecision" where
  "getSignatureStatusUpdateDecision currentStatus incomingStatus =
     (let comparison = compareSignatureProviderStatuses incomingStatus currentStatus;
          decide = (\<lambda>shouldUpdate reason.
            \<lparr>sud_shouldUpdate = shouldUpdate, sud_reason = reason, sud_currentStatus = currentStatus,
             sud_incomingStatus = incomingStatus, sud_comparison = comparison\<rparr>)
      in if isTerminalSignatureStatus currentStatus then decide False Update_terminal_status_preserved
         else if comparison = 0 then decide False Update_same_status_replay
         else if comparison < 0 then decide False Update_status_regression
         else decide True Update_status_advanced)"

definition shouldUpdateSignatureRequestStatus :: "SignatureProviderStatus \<Rightarrow> SignatureProviderStatus \<Rightarrow> bool" where
  "shouldUpdateSignatureRequestStatus currentStatus incomingStatus =
     sud_shouldUpdate (getSignatureStatusUpdateDecision currentStatus incomingStatus)"

subsection \<open>Replay keys\<close>

fun readStringEvidence :: "(string \<times> js_value) list \<Rightarrow> string list \<Rightarrow> string option" where
  "readStringEvidence evidence [] = None"
| "readStringEvidence evidence (key # keys) =
     (case map_get evidence key of
        Some (JStr s) \<Rightarrow> if s \<noteq> [] then Some s else readStringEvidence evidence keys
      | Some (JNum n) \<Rightarrow> Some (string_of_int n)
      | _ \<Rightarrow> readStringEvidence evidence keys)"

text \<open>\<open>encodeURIComponent\<close>: the UTF-8 bytes of a character that is not unreserved, in upper case hexadecimal.\<close>

definition unreserved :: "nat \<Rightarrow> bool" where
  "unreserved n = ((48 \<le> n \<and> n \<le> 57) \<or> (65 \<le> n \<and> n \<le> 90) \<or> (97 \<le> n \<and> n \<le> 122)
     \<or> n \<in> {33, 39, 40, 41, 42, 45, 46, 95, 126})"

definition upper_hex :: "nat \<Rightarrow> char" where
  "upper_hex n = (if n < 10 then char_of (48 + n) else char_of (55 + n))"

definition percent_byte :: "nat \<Rightarrow> string" where
  "percent_byte n = [CHR ''%'', upper_hex (n div 16), upper_hex (n mod 16)]"

definition encode_char :: "char \<Rightarrow> string" where
  "encode_char c =
     (let n = of_char c :: nat
      in if unreserved n then [c]
         else if n < 128 then percent_byte n
         else percent_byte (192 + n div 64) @ percent_byte (128 + n mod 64))"

definition encodeURIComponent :: "string \<Rightarrow> string" where
  "encodeURIComponent s = concat (map encode_char s)"

definition providerEventId :: "'a SignatureProviderEvent_scheme \<Rightarrow> string option" where
  "providerEventId event = readStringEvidence (sev_evidence event) [''eventId'', ''event_id'', ''id'']"

definition providerWebhookId :: "'a SignatureProviderEvent_scheme \<Rightarrow> string option" where
  "providerWebhookId event =
     readStringEvidence (sev_evidence event) [''webhookId'', ''webhook_id'', ''deliveryId'', ''delivery_id'']"

text \<open>
  A replay id is never empty: \<open>providerReplayId ? ... : ...\<close> asks whether there is one.
\<close>

definition providerReplayId :: "'a SignatureProviderEvent_scheme \<Rightarrow> string option" where
  "providerReplayId event = (case providerEventId event of Some i \<Rightarrow> Some i | None \<Rightarrow> providerWebhookId event)"

definition replay_parts :: "'a SignatureProviderEvent_scheme \<Rightarrow> string list" where
  "replay_parts event =
     [signature_provider_name (sev_provider event), sev_externalId event]
     @ (case providerReplayId event of
          Some i \<Rightarrow> if i \<noteq> [] then [i] else [i, sev_occurredAt event]
        | None \<Rightarrow> [signature_status_name (sev_status event), sev_occurredAt event])"

definition getSignatureProviderEventReplayMetadata :: "'a SignatureProviderEvent_scheme \<Rightarrow> SignatureProviderEventReplayMetadata" where
  "getSignatureProviderEventReplayMetadata event =
     \<lparr>rpl_replayKey = join '':'' (map encodeURIComponent (replay_parts event)),
      rpl_providerEventId = providerEventId event, rpl_providerWebhookId = providerWebhookId event\<rparr>"

subsection \<open>The store\<close>

record SignatureRequestCreateInput =
  sci_request :: SignatureRequestRecord
  sci_signers :: "SignatureRequestSignerRecord list"
  sci_event :: SignatureProviderEventRecord

record MemorySignatureStore =
  mss_signatureRequests :: "SignatureRequestRecord list"
  mss_signatureRequestSigners :: "SignatureRequestSignerRecord list"
  mss_signatureProviderEvents :: "SignatureProviderEventRecord list"
  mss_signatureWebhookAttempts :: "SignatureWebhookAttemptRecord list"

definition is_client_portal_event :: "SignatureProviderEventRecord \<Rightarrow> bool" where
  "is_client_portal_event event = (map_get (sev_evidence event) ''mode'' = Some (JStr ''client_portal_embedded''))"

definition clientPortalEmbeddedSignerId :: "SignatureProviderEventRecord \<Rightarrow> string option" where
  "clientPortalEmbeddedSignerId event =
     (if is_client_portal_event event
      then (case map_get (sev_evidence event) ''signerId'' of Some (JStr s) \<Rightarrow> Some s | _ \<Rightarrow> None) else None)"

definition listMemorySignatureRequests :: "MemorySignatureStore \<Rightarrow> string \<Rightarrow> string option \<Rightarrow> SignatureRequestRecord list" where
  "listMemorySignatureRequests store firmId matterId =
     filter (\<lambda>request. sig_firmId request = firmId \<and> (\<not> truthy matterId \<or> Some (sig_matterId request) = matterId))
       (mss_signatureRequests store)"

definition getMemorySignatureRequest :: "MemorySignatureStore \<Rightarrow> string \<Rightarrow> string \<Rightarrow> SignatureRequestRecord option" where
  "getMemorySignatureRequest store firmId signatureRequestId =
     List.find (\<lambda>request. sig_firmId request = firmId \<and> sig_id request = signatureRequestId) (mss_signatureRequests store)"

definition listMemorySignatureRequestSigners :: "MemorySignatureStore \<Rightarrow> string \<Rightarrow> string \<Rightarrow> SignatureRequestSignerRecord list" where
  "listMemorySignatureRequestSigners store firmId signatureRequestId =
     filter (\<lambda>signer. sgn_firmId signer = firmId \<and> sgn_signatureRequestId signer = signatureRequestId)
       (mss_signatureRequestSigners store)"

definition createMemorySignatureRequest ::
  "MemorySignatureStore \<Rightarrow> SignatureRequestCreateInput
    \<Rightarrow> (SignatureRequestRecord \<times> SignatureRequestSignerRecord list) \<times> MemorySignatureStore" where
  "createMemorySignatureRequest store inp =
     ((sci_request inp, sci_signers inp),
      store\<lparr>mss_signatureRequests := mss_signatureRequests store @ [sci_request inp],
        mss_signatureRequestSigners := mss_signatureRequestSigners store @ sci_signers inp,
        mss_signatureProviderEvents := mss_signatureProviderEvents store @ [sci_event inp]\<rparr>)"

definition updated_signer :: "SignatureProviderEventRecord \<Rightarrow> string \<Rightarrow> SignatureRequestSignerRecord \<Rightarrow> SignatureRequestSignerRecord" where
  "updated_signer event signerId signer =
     (if sgn_firmId signer \<noteq> sev_firmId event \<or> sgn_id signer \<noteq> signerId then signer
      else if \<not> shouldUpdateSignatureRequestStatus (sgn_status signer) (sev_status event) then signer
      else signer\<lparr>sgn_status := sev_status event,
        sgn_completedAt := (if sev_status event = Signature_completed then Some (sev_occurredAt event) else sgn_completedAt signer)\<rparr>)"

definition updated_request :: "SignatureProviderEventRecord \<Rightarrow> SignatureRequestRecord \<Rightarrow> SignatureRequestRecord" where
  "updated_request event request =
     (if sig_firmId request \<noteq> sev_firmId event \<or> sig_id request \<noteq> sev_signatureRequestId event then request
      else if \<not> shouldUpdateSignatureRequestStatus (sig_status request) (sev_status event) then request
      else request\<lparr>sig_status := sev_status event,
        sig_completedAt := (if sev_status event = Signature_completed then Some (sev_occurredAt event) else sig_completedAt request),
        sig_declinedAt := (if sev_status event = Signature_declined then Some (sev_occurredAt event) else sig_declinedAt request),
        sig_evidence := sev_evidence event\<rparr>)"

definition recordMemorySignatureProviderEvent ::
  "MemorySignatureStore \<Rightarrow> SignatureProviderEventRecord \<Rightarrow> SignatureWebhookAttemptRecord option
    \<Rightarrow> SignatureProviderEventRecord \<times> MemorySignatureStore" where
  "recordMemorySignatureProviderEvent store event webhookAttempt =
     (let store1 = store\<lparr>mss_signatureProviderEvents := mss_signatureProviderEvents store @ [event],
            mss_signatureWebhookAttempts := mss_signatureWebhookAttempts store
              @ (case webhookAttempt of Some a \<Rightarrow> [a] | None \<Rightarrow> [])\<rparr>;
          signerId = clientPortalEmbeddedSignerId event;
          store2 = (if truthy signerId
            then store1\<lparr>mss_signatureRequestSigners := map (updated_signer event (or_else signerId [])) (mss_signatureRequestSigners store1)\<rparr>
            else store1)
      in if is_client_portal_event event then (event, store2)
         else (event, store2\<lparr>mss_signatureRequests := map (updated_request event) (mss_signatureRequests store2)\<rparr>))"

definition recordMemorySignatureWebhookAttempt ::
  "MemorySignatureStore \<Rightarrow> SignatureWebhookAttemptRecord \<Rightarrow> SignatureWebhookAttemptRecord \<times> MemorySignatureStore" where
  "recordMemorySignatureWebhookAttempt store attempt =
     (attempt, store\<lparr>mss_signatureWebhookAttempts := mss_signatureWebhookAttempts store @ [attempt]\<rparr>)"

definition listMemorySignatureProviderEvents :: "MemorySignatureStore \<Rightarrow> string \<Rightarrow> string option \<Rightarrow> SignatureProviderEventRecord list" where
  "listMemorySignatureProviderEvents store firmId signatureRequestId =
     filter (\<lambda>event. sev_firmId event = firmId
       \<and> (\<not> truthy signatureRequestId \<or> Some (sev_signatureRequestId event) = signatureRequestId)) (mss_signatureProviderEvents store)"

definition listMemorySignatureWebhookAttempts ::
  "MemorySignatureStore \<Rightarrow> string \<Rightarrow> SignatureProviderName option \<Rightarrow> string option \<Rightarrow> SignatureWebhookAttemptRecord list" where
  "listMemorySignatureWebhookAttempts store firmId provider externalId =
     filter (\<lambda>attempt. wha_firmId attempt = firmId \<and> (provider = None \<or> Some (wha_provider attempt) = provider)
       \<and> (\<not> truthy externalId \<or> Some (wha_externalId attempt) = externalId)) (mss_signatureWebhookAttempts store)"


subsection \<open>A valid envelope\<close>

lemma issue_if_Nil [simp]: "issue_if c i = [] \<longleftrightarrow> \<not> c"
  by (simp add: issue_if_def)

lemma signer_issues_Nil:
  "signer_issues roles orders signers = [] \<longleftrightarrow>
     list_all (\<lambda>s. 1 \<le> ord_order s) signers \<and> distinct (map ord_order signers) \<and> distinct (map ord_role signers)
     \<and> set (map ord_order signers) \<inter> orders = {} \<and> set (map ord_role signers) \<inter> roles = {}"
  by (induction signers arbitrary: roles orders) auto

definition field_fits :: "string set \<Rightarrow> string \<Rightarrow> SignatureRequestEnvelopeFieldPlacement \<Rightarrow> bool" where
  "field_fits roles documentId f \<longleftrightarrow> fld_role f \<in> roles \<and> 1 \<le> fld_page f \<and> fld_documentId f \<in> {None, Some documentId}
     \<and> pred_option (\<lambda>p. 0 \<le> p \<and> p \<le> 100) (fld_xPercent f) \<and> pred_option (\<lambda>p. 0 \<le> p \<and> p \<le> 100) (fld_yPercent f)"

lemma field_issues_Nil: "field_issues roles documentId f = [] \<longleftrightarrow> field_fits roles documentId f"
  by (cases "fld_xPercent f"; cases "fld_yPercent f")
    (auto simp: field_issues_def field_fits_def outside_percent_def not_less)

lemma all_field_issues_Nil: "concat (map (field_issues r d) placements) = [] \<longleftrightarrow> list_all (field_fits r d) placements"
  by (auto simp: list_all_iff field_issues_Nil)

lemma envelope_issues_Nil:
  "evr_issues (validateSignatureRequestEnvelopeMetadata signers placements d) = []
     \<longleftrightarrow> evr_status (validateSignatureRequestEnvelopeMetadata signers placements d) = Envelope_valid"
proof -
  have "sort (js_set xs) = [] \<longleftrightarrow> xs = []" for xs :: "string list"
    by (metis js_set_Nil length_0_conv length_sort)
  then show ?thesis unfolding validateSignatureRequestEnvelopeMetadata_def Let_def by simp
qed

text \<open>
  An envelope is valid exactly when it has signers, their orders are positive and different, their
  roles are different, and every field belongs to a signer's role and to the document and lies on a page
  within 0 and 100 percent; issues are reported exactly when it is not.
\<close>

theorem envelope_valid_iff:
  "(evr_status (validateSignatureRequestEnvelopeMetadata signers placements documentId) = Envelope_valid
     \<longleftrightarrow> signers \<noteq> [] \<and> list_all (\<lambda>s. 1 \<le> ord_order s) signers \<and> distinct (map ord_order signers)
         \<and> distinct (map ord_role signers) \<and> list_all (field_fits (set (map ord_role signers)) documentId) placements)
   \<and> (evr_issues (validateSignatureRequestEnvelopeMetadata signers placements documentId) = []
     \<longleftrightarrow> evr_status (validateSignatureRequestEnvelopeMetadata signers placements documentId) = Envelope_valid)"
proof (rule conjI)
  show "evr_status (validateSignatureRequestEnvelopeMetadata signers placements documentId) = Envelope_valid
     \<longleftrightarrow> signers \<noteq> [] \<and> list_all (\<lambda>s. 1 \<le> ord_order s) signers \<and> distinct (map ord_order signers)
         \<and> distinct (map ord_role signers) \<and> list_all (field_fits (set (map ord_role signers)) documentId) placements"
    unfolding validateSignatureRequestEnvelopeMetadata_def Let_def append_is_Nil_conv all_field_issues_Nil signer_issues_Nil
    by simp
qed (rule envelope_issues_Nil)

subsection \<open>The furthest status wins\<close>

lemma terminal_rank: "isTerminalSignatureStatus s \<longleftrightarrow> signatureProviderStatusRank s = 4"
  by (cases s) (auto simp: isTerminalSignatureStatus_def terminalSignatureProviderStatuses_def)

lemma rank_le: "signatureProviderStatusRank s \<le> 4"
  by (cases s) auto

lemma should_update: "shouldUpdateSignatureRequestStatus c i \<longleftrightarrow> signatureProviderStatusRank c < signatureProviderStatusRank i"
  using rank_le [of i]
  by (auto simp: shouldUpdateSignatureRequestStatus_def getSignatureStatusUpdateDecision_def Let_def terminal_rank
      compareSignatureProviderStatuses_def getSignatureProviderStatusRank_def sgn_if split: if_splits)

text \<open>The specification: of the statuses that arrive, the first one of the highest rank, if it is higher than the present one.\<close>

definition furthest :: "SignatureProviderStatus \<Rightarrow> SignatureProviderStatus list \<Rightarrow> SignatureProviderStatus \<Rightarrow> bool" where
  "furthest start arrived final \<longleftrightarrow>
     final = start \<and> list_all (\<lambda>s. signatureProviderStatusRank s \<le> signatureProviderStatusRank start) arrived
     \<or> signatureProviderStatusRank start < signatureProviderStatusRank final
       \<and> (\<exists>before after. arrived = before @ final # after
            \<and> list_all (\<lambda>s. signatureProviderStatusRank s < signatureProviderStatusRank final) before
            \<and> list_all (\<lambda>s. signatureProviderStatusRank s \<le> signatureProviderStatusRank final) after)"

definition next_status :: "SignatureProviderStatus \<Rightarrow> SignatureProviderStatus \<Rightarrow> SignatureProviderStatus" where
  "next_status incoming current = (if shouldUpdateSignatureRequestStatus current incoming then incoming else current)"

lemma furthest_snoc:
  assumes "furthest start arrived final"
  shows "furthest start (arrived @ [s]) (next_status s final)"
proof (cases "signatureProviderStatusRank final < signatureProviderStatusRank s")
  case True
  have "\<forall>x \<in> set arrived. signatureProviderStatusRank x \<le> signatureProviderStatusRank final"
    using assms by (auto simp: furthest_def list_all_iff less_imp_le)
  then have "list_all (\<lambda>x. signatureProviderStatusRank x < signatureProviderStatusRank s) arrived"
    using True by (meson le_less_trans list_all_iff)
  moreover have "signatureProviderStatusRank start < signatureProviderStatusRank s"
    using assms True by (auto simp: furthest_def)
  ultimately have "furthest start (arrived @ [s]) s"
    unfolding furthest_def by (intro disjI2 conjI exI [of _ arrived] exI [of _ "[]"]) simp_all
  then show ?thesis using True by (simp add: next_status_def should_update)
next
  case False
  then have "next_status s final = final" by (simp add: next_status_def should_update)
  then show ?thesis using assms False by (force simp: furthest_def)
qed

lemma furthest_fold: "furthest start arrived (fold next_status arrived start)"
proof (induction arrived rule: rev_induct)
  case Nil
  show ?case by (simp add: furthest_def)
next
  case (snoc s arrived)
  then show ?case using furthest_snoc by simp
qed

text \<open>Recording events one after the other.\<close>

definition recordAll :: "SignatureProviderEventRecord list \<Rightarrow> MemorySignatureStore \<Rightarrow> MemorySignatureStore" where
  "recordAll events store = fold (\<lambda>e s. snd (recordMemorySignatureProviderEvent s e None)) events store"

definition concerns :: "SignatureRequestRecord \<Rightarrow> SignatureProviderEventRecord \<Rightarrow> bool" where
  "concerns r e \<longleftrightarrow> sev_firmId e = sig_firmId r \<and> sev_signatureRequestId e = sig_id r \<and> \<not> is_client_portal_event e"

lemma record_requests:
  "mss_signatureRequests (snd (recordMemorySignatureProviderEvent s e w)) =
     (if is_client_portal_event e then mss_signatureRequests s else map (updated_request e) (mss_signatureRequests s))"
  by (simp add: recordMemorySignatureProviderEvent_def Let_def)

definition apply_event :: "SignatureProviderEventRecord \<Rightarrow> SignatureRequestRecord \<Rightarrow> SignatureRequestRecord" where
  "apply_event e r = (if is_client_portal_event e then r else updated_request e r)"

lemma recordAll_requests: "mss_signatureRequests (recordAll es s) = map (fold apply_event es) (mss_signatureRequests s)"
proof (induction es rule: rev_induct)
  case Nil
  show ?case by (simp add: recordAll_def)
next
  case (snoc e es)
  then show ?case by (auto simp: recordAll_def record_requests apply_event_def)
qed

lemma updated_request_key [simp]: "sig_firmId (updated_request e r) = sig_firmId r" "sig_id (updated_request e r) = sig_id r"
  by (simp_all add: updated_request_def)

lemma updated_request_status:
  "sig_status (updated_request e r) =
     (if sev_firmId e = sig_firmId r \<and> sev_signatureRequestId e = sig_id r then next_status (sev_status e) (sig_status r) else sig_status r)"
  by (simp add: updated_request_def next_status_def)

lemma apply_events_key [simp]: "sig_firmId (fold apply_event es r) = sig_firmId r" "sig_id (fold apply_event es r) = sig_id r"
  by (induction es arbitrary: r) (simp_all add: apply_event_def)

lemma apply_events_status:
  "sig_status (fold apply_event es r) = fold next_status (map sev_status (filter (concerns r) es)) (sig_status r)"
proof (induction es rule: rev_induct)
  case (snoc e es)
  then show ?case by (cases "concerns r e") (auto simp: apply_event_def [of e] updated_request_status concerns_def [of r e])
qed simp

text \<open>
  C30. Whatever provider events are recorded, in whatever order, the status of a request is the first of
  the furthest statuses that arrived for it (or its present one, if none is further): late and repeated
  events change nothing, and a final status stays.
\<close>

theorem furthest_signature_status_wins:
  assumes "i < length (mss_signatureRequests s)"
  shows "furthest (sig_status (mss_signatureRequests s ! i))
      (map sev_status (filter (concerns (mss_signatureRequests s ! i)) events))
      (sig_status (mss_signatureRequests (recordAll events s) ! i))"
  using assms by (simp add: recordAll_requests apply_events_status furthest_fold)


subsection \<open>Replay keys tell events apart\<close>

text \<open>Decoding, the inverse of \<open>encodeURIComponent\<close>.\<close>

definition hex_value :: "char \<Rightarrow> nat" where
  "hex_value c = (let n = of_char c in if n < 58 then n - 48 else n - 55)"

fun decode_uri :: "string \<Rightarrow> string" where
  "decode_uri (p # a # b # r) =
     (if p \<noteq> CHR ''%'' then p # decode_uri (a # b # r)
      else let v = 16 * hex_value a + hex_value b
           in if v < 128 then char_of v # decode_uri r
              else (case r of q # c # d # r' \<Rightarrow> char_of (64 * (v - 192) + (16 * hex_value c + hex_value d - 128)) # decode_uri r'
                    | _ \<Rightarrow> []))"
| "decode_uri s = s"

lemma hex_value_upper [simp]: "k < 16 \<Longrightarrow> hex_value (upper_hex k) = k"
  by (auto simp: hex_value_def upper_hex_def Let_def)

lemma decode_plain: "c \<noteq> CHR ''%'' \<Longrightarrow> decode_uri (c # r) = c # decode_uri r"
  by (cases r rule: decode_uri.cases) auto

lemma decode_byte: "n < 128 \<Longrightarrow> decode_uri (percent_byte n @ r) = char_of n # decode_uri r"
  by (simp add: percent_byte_def)

lemma decode_two_bytes:
  "n < 256 \<Longrightarrow> 128 \<le> n \<Longrightarrow> decode_uri (percent_byte (192 + n div 64) @ percent_byte (128 + n mod 64) @ r) = char_of n # decode_uri r"
proof -
  assume n: "n < 256" "128 \<le> n"
  have "(192 + n div 64) div 16 < 16" "(192 + n div 64) mod 16 < 16" "(128 + n mod 64) div 16 < 16" "(128 + n mod 64) mod 16 < 16"
    using n by (simp_all add: div_less_iff_less_mult)
  moreover have "16 * ((192 + n div 64) div 16) + (192 + n div 64) mod 16 = 192 + n div 64"
      "16 * ((128 + n mod 64) div 16) + (128 + n mod 64) mod 16 = 128 + n mod 64" by presburger+
  moreover have "64 * (n div 64) + n mod 64 = n" by simp
  ultimately show ?thesis by (simp add: percent_byte_def)
qed

lemma decode_char: "decode_uri (encode_char c @ r) = c # decode_uri r"
proof -
  have "unreserved (of_char c) \<Longrightarrow> c \<noteq> CHR ''%''" by (auto simp: unreserved_def)
  moreover have "of_char c < (256 :: nat)" by (rule nat_of_char_less_256)
  ultimately show ?thesis
    using decode_plain decode_byte [of "of_char c"] decode_two_bytes [of "of_char c"] by (simp add: encode_char_def Let_def)
qed

lemma decode_encode: "decode_uri (encodeURIComponent s) = s"
proof (induction s)
  case (Cons c s)
  then show ?case using decode_char [of c "encodeURIComponent s"] by (simp add: encodeURIComponent_def)
qed (simp add: encodeURIComponent_def)

lemma encode_no_colon: "CHR '':'' \<notin> set (encodeURIComponent s)"
proof -
  have hex: "upper_hex k \<noteq> CHR '':''" if "k < 16" for k
  proof
    assume "upper_hex k = CHR '':''"
    then have "of_char (upper_hex k) = (58 :: nat)" by simp
    with that show False by (simp add: upper_hex_def split: if_splits)
  qed
  have "CHR '':'' \<notin> set (encode_char c)" for c
  proof -
    have "of_char c < (256 :: nat)" by (rule nat_of_char_less_256)
    moreover have "unreserved (of_char c) \<Longrightarrow> c \<noteq> CHR '':''" by (auto simp: unreserved_def)
    moreover have "CHR '':'' \<notin> set (percent_byte n)" if "n < 256" for n
    proof -
      have "n div 16 < 16" "n mod 16 < 16" using that by simp_all
      then show ?thesis using hex [of "n div 16"] hex [of "n mod 16"] by (simp add: percent_byte_def eq_commute)
    qed
    moreover have "192 + of_char c div 64 < (256 :: nat)" "128 + of_char c mod 64 < (256 :: nat)"
      using nat_of_char_less_256 [of c] by (linarith, simp)
    ultimately show ?thesis by (auto simp: encode_char_def Let_def)
  qed
  then show ?thesis by (auto simp: encodeURIComponent_def)
qed

lemma split_replay_key:
  "split_on (CHR '':'') (join '':'' (map encodeURIComponent (replay_parts e))) = map encodeURIComponent (replay_parts e)"
  by (rule split_on_join) (simp_all add: list_all_iff encode_no_colon, simp add: replay_parts_def)

lemma replay_key_parts:
  "rpl_replayKey (getSignatureProviderEventReplayMetadata e) = rpl_replayKey (getSignatureProviderEventReplayMetadata f)
     \<longleftrightarrow> replay_parts e = replay_parts f"
proof
  assume "rpl_replayKey (getSignatureProviderEventReplayMetadata e) = rpl_replayKey (getSignatureProviderEventReplayMetadata f)"
  then have "split_on (CHR '':'') (join '':'' (map encodeURIComponent (replay_parts e)))
      = split_on (CHR '':'') (join '':'' (map encodeURIComponent (replay_parts f)))"
    by (simp add: getSignatureProviderEventReplayMetadata_def)
  then have "map encodeURIComponent (replay_parts e) = map encodeURIComponent (replay_parts f)"
    by (simp only: split_replay_key)
  then have "map decode_uri (map encodeURIComponent (replay_parts e)) = map decode_uri (map encodeURIComponent (replay_parts f))"
    by simp
  then show "replay_parts e = replay_parts f" by (simp add: comp_def decode_encode)
qed (simp add: getSignatureProviderEventReplayMetadata_def)

lemma read_evidence_nonempty: "readStringEvidence evidence keys \<noteq> Some []"
proof (induction keys)
  case (Cons k keys)
  show ?case
  proof (cases "map_get evidence k")
    case (Some v)
    then show ?thesis using Cons by - (cases v, simp_all)
  qed (simp add: Cons)
qed simp

lemma replay_id_nonempty: "providerReplayId e \<noteq> Some []"
proof -
  have "providerEventId e \<noteq> Some []" "providerWebhookId e \<noteq> Some []"
    unfolding providerEventId_def providerWebhookId_def by (rule read_evidence_nonempty)+
  then show ?thesis by (auto simp: providerReplayId_def split: option.splits)
qed

lemma signature_names_inject [simp]:
  "signature_provider_name p = signature_provider_name q \<longleftrightarrow> p = q"
  "signature_status_name s = signature_status_name t \<longleftrightarrow> s = t"
   apply (cases p; cases q; simp)
  apply (cases s; cases t; simp)
  done

text \<open>
  Two provider events have the same replay key exactly when they come from the same provider for
  the same submission and either carry the same provider id, or both carry none and agree in status and
  time: the key is an encoding without collisions.
\<close>

theorem replay_key_identifies_event:
  "rpl_replayKey (getSignatureProviderEventReplayMetadata e) = rpl_replayKey (getSignatureProviderEventReplayMetadata f)
   \<longleftrightarrow> sev_provider e = sev_provider f \<and> sev_externalId e = sev_externalId f
     \<and> providerReplayId e = providerReplayId f
     \<and> (case providerReplayId e of Some _ \<Rightarrow> True | None \<Rightarrow> sev_status e = sev_status f \<and> sev_occurredAt e = sev_occurredAt f)"
  unfolding replay_key_parts using replay_id_nonempty [of e] replay_id_nonempty [of f]
  by (auto simp: replay_parts_def split: option.splits)

subsection \<open>Statuses have evidence\<close>

definition same_request :: "SignatureRequestRecord \<Rightarrow> SignatureProviderEventRecord \<Rightarrow> bool" where
  "same_request r e \<longleftrightarrow> sev_firmId e = sig_firmId r \<and> sev_signatureRequestId e = sig_id r"

text \<open>
  The API creates a request with an event of its status and without dates; identifiers are random.
\<close>

inductive signature_step :: "MemorySignatureStore \<Rightarrow> MemorySignatureStore \<Rightarrow> bool" where
  step_request: "sig_completedAt (sci_request inp) = None \<Longrightarrow> sig_declinedAt (sci_request inp) = None \<Longrightarrow>
    same_request (sci_request inp) (sci_event inp) \<Longrightarrow> sev_status (sci_event inp) = sig_status (sci_request inp) \<Longrightarrow>
    createMemorySignatureRequest s inp = (r, t) \<Longrightarrow> signature_step s t"
| step_provider_event: "recordMemorySignatureProviderEvent s e w = (r, t) \<Longrightarrow> signature_step s t"
| step_webhook: "recordMemorySignatureWebhookAttempt s a = (r, t) \<Longrightarrow> signature_step s t"

definition evidenced :: "SignatureProviderEventRecord list \<Rightarrow> SignatureRequestRecord \<Rightarrow> bool" where
  "evidenced events r \<longleftrightarrow>
     list_ex (\<lambda>e. same_request r e \<and> sev_status e = sig_status r) events
     \<and> (case sig_completedAt r of None \<Rightarrow> True | Some t \<Rightarrow> sig_status r = Signature_completed
          \<and> list_ex (\<lambda>e. same_request r e \<and> sev_status e = Signature_completed \<and> sev_occurredAt e = t) events)
     \<and> (case sig_declinedAt r of None \<Rightarrow> True | Some t \<Rightarrow> sig_status r = Signature_declined
          \<and> list_ex (\<lambda>e. same_request r e \<and> sev_status e = Signature_declined \<and> sev_occurredAt e = t) events)"

definition no_signatures :: "MemorySignatureStore \<Rightarrow> bool" where
  "no_signatures s \<longleftrightarrow> mss_signatureRequests s = []"

definition signatures_ok :: "MemorySignatureStore \<Rightarrow> bool" where
  "signatures_ok s \<longleftrightarrow> list_all (evidenced (mss_signatureProviderEvents s)) (mss_signatureRequests s)"

lemma evidenced_append: "evidenced events r \<Longrightarrow> evidenced (events @ later) r"
  by (auto simp: evidenced_def split: option.splits)

lemma evidenced_updated: "evidenced events r \<Longrightarrow> evidenced (events @ [e]) (updated_request e r)"
proof (cases "same_request r e \<and> shouldUpdateSignatureRequestStatus (sig_status r) (sev_status e)")
  case True
  assume old: "evidenced events r"
  have "signatureProviderStatusRank (sig_status r) < 4" using True rank_le [of "sev_status e"] by (simp add: should_update)
  then have "sig_completedAt r = None" "sig_declinedAt r = None" using old by (auto simp: evidenced_def split: option.splits)
  then show ?thesis using True by (auto simp: evidenced_def updated_request_def same_request_def)
next
  case False
  then have "updated_request e r = r" by (auto simp: updated_request_def same_request_def)
  then show "evidenced events r \<Longrightarrow> ?thesis" by (simp add: evidenced_append)
qed

lemma record_events: "mss_signatureProviderEvents (snd (recordMemorySignatureProviderEvent s e w)) = mss_signatureProviderEvents s @ [e]"
  by (simp add: recordMemorySignatureProviderEvent_def Let_def)

interpretation signature_run: inductive_invariant no_signatures signature_step signatures_ok
proof unfold_locales
  show "no_signatures s \<Longrightarrow> signatures_ok s" for s by (simp add: no_signatures_def signatures_ok_def)
  show "signature_step s t \<Longrightarrow> signatures_ok s \<Longrightarrow> signatures_ok t" for s t
  proof (induction rule: signature_step.induct)
    case (step_request inp s r t)
    then have "evidenced (mss_signatureProviderEvents s @ [sci_event inp]) (sci_request inp)" by (simp add: evidenced_def)
    then show ?case
      using step_request by (auto simp: createMemorySignatureRequest_def signatures_ok_def list_all_iff evidenced_append)
  next
    case (step_provider_event s e w r t)
    then have t: "t = snd (recordMemorySignatureProviderEvent s e w)" by simp
    show ?case
      using step_provider_event(2) unfolding signatures_ok_def t record_requests record_events
      by (auto simp: list_all_iff evidenced_append evidenced_updated)
  next
    case (step_webhook s a r t)
    then show ?case by (auto simp: recordMemorySignatureWebhookAttempt_def signatures_ok_def)
  qed
qed

text \<open>
  In every reachable store the status of a signature request is that of a recorded event of it,
  and it has a completion (or declining) date only if it is completed (declined), with the time of such an
  event.
\<close>

theorem signature_statuses_have_evidence:
  assumes "reachable no_signatures signature_step s" and "r \<in> set (mss_signatureRequests s)"
  shows "evidenced (mss_signatureProviderEvents s) r"
  using signature_run.reachable_inv [OF assms(1)] assms(2) by (simp add: signatures_ok_def list_all_iff)


subsection \<open>A request and its events\<close>

definition example_request :: SignatureRequestRecord where
  "example_request =
     \<lparr>sig_id = ''sig-1'', sig_firmId = ''firm-1'', sig_matterId = ''matter-1'', sig_documentId = ''doc-1'', sig_title = ''Retainer'',
      sig_requestedByUserId = ''user-1'', sig_provider = Provider_docuseal, sig_externalId = ''ext-1'',
      sig_status = Signature_pending_provider_submission, sig_signingUrl = None, sig_consentText = ''I agree'', sig_evidence = [],
      sig_signerOrder = None, sig_fieldPlacements = None, sig_validationStatus = None,
      sig_createdAt = ''2026-01-01T00:00:00.000Z'', sig_completedAt = None, sig_declinedAt = None\<rparr>"

definition example_event :: "string \<Rightarrow> SignatureProviderStatus \<Rightarrow> SignatureProviderEventRecord" where
  "example_event i status =
     \<lparr>sev_provider = Provider_docuseal, sev_externalId = ''ext-1'', sev_status = status, sev_occurredAt = ''2026-01-02T00:00:00.000Z'',
      sev_evidence = [(''id'', JStr i)], sev_id = i, sev_firmId = ''firm-1'', sev_signatureRequestId = ''sig-1''\<rparr>"

definition empty_signatures :: MemorySignatureStore where
  "empty_signatures =
     \<lparr>mss_signatureRequests = [], mss_signatureRequestSigners = [], mss_signatureProviderEvents = [], mss_signatureWebhookAttempts = []\<rparr>"

definition example_signatures :: MemorySignatureStore where
  "example_signatures = snd (createMemorySignatureRequest empty_signatures
     \<lparr>sci_request = example_request, sci_signers = [], sci_event = example_event ''0'' Signature_pending_provider_submission\<rparr>)"

definition example_arrivals :: "SignatureProviderEventRecord list" where
  "example_arrivals = [example_event ''1'' Signature_viewed, example_event ''2'' Signature_sent,
     example_event ''3'' Signature_completed, example_event ''4'' Signature_declined]"

lemmas signature_examples = example_request_def example_event_def empty_signatures_def example_signatures_def
  example_arrivals_def createMemorySignatureRequest_def

text \<open>A completion that arrives before a late decline stays, and the order of sending and viewing does not matter.\<close>

theorem furthest_signature_status_wins_witness:
  "furthest Signature_pending_provider_submission [Signature_viewed, Signature_sent, Signature_completed, Signature_declined]
     (sig_status (mss_signatureRequests (recordAll example_arrivals example_signatures) ! 0))
   \<and> sig_status (mss_signatureRequests (recordAll example_arrivals example_signatures) ! 0) = Signature_completed"
proof (rule conjI)
  show "furthest Signature_pending_provider_submission [Signature_viewed, Signature_sent, Signature_completed, Signature_declined]
     (sig_status (mss_signatureRequests (recordAll example_arrivals example_signatures) ! 0))"
    using furthest_signature_status_wins [of 0 example_signatures example_arrivals]
    by (simp add: signature_examples concerns_def is_client_portal_event_def)
  show "sig_status (mss_signatureRequests (recordAll example_arrivals example_signatures) ! 0) = Signature_completed"
    by code_simp
qed

lemma example_signatures_reachable: "reachable no_signatures signature_step (recordAll example_arrivals example_signatures)"
proof -
  have events: "reachable no_signatures signature_step (recordAll es s)" if "reachable no_signatures signature_step s" for es s
    using that unfolding recordAll_def
  proof (induction es arbitrary: s)
    case (Cons e es)
    have "signature_step s (snd (recordMemorySignatureProviderEvent s e None))"
      by (rule signature_step.step_provider_event [OF prod.collapse [symmetric]])
    with Cons show ?case by (simp add: reach_step)
  qed simp
  have "reachable no_signatures signature_step empty_signatures"
    by (rule reach_init) (simp add: no_signatures_def empty_signatures_def)
  moreover have "signature_step empty_signatures example_signatures"
    unfolding example_signatures_def
    by (rule signature_step.step_request [OF _ _ _ _ prod.collapse [symmetric]]) (simp_all add: signature_examples same_request_def)
  ultimately show ?thesis by (intro events) (rule reach_step)
qed

theorem signature_statuses_have_evidence_witness:
  "evidenced (mss_signatureProviderEvents (recordAll example_arrivals example_signatures))
     (mss_signatureRequests (recordAll example_arrivals example_signatures) ! 0)
   \<and> sig_completedAt (mss_signatureRequests (recordAll example_arrivals example_signatures) ! 0) = Some ''2026-01-02T00:00:00.000Z''"
proof (rule conjI)
  have "length (mss_signatureRequests (recordAll example_arrivals example_signatures)) = 1"
    by (simp add: recordAll_requests signature_examples)
  then show "evidenced (mss_signatureProviderEvents (recordAll example_arrivals example_signatures))
     (mss_signatureRequests (recordAll example_arrivals example_signatures) ! 0)"
    using signature_statuses_have_evidence [OF example_signatures_reachable] by simp
  show "sig_completedAt (mss_signatureRequests (recordAll example_arrivals example_signatures) ! 0) = Some ''2026-01-02T00:00:00.000Z''"
    by code_simp
qed

end
