(* ===== verification/Payment_Import.thy ===== *)
theory Payment_Import
  imports Invoice_Store Js_Date
begin

section \<open>Payment import review\<close>

text \<open>
  The payment import of packages/domain/src/billing.ts and
  packages/database/src/repository/payment-import-review-records/memory.ts: events of a payment provider
  are recorded for review, staff decide whether a deposit matches a manual payment and how a refund or
  chargeback is resolved, and a supported match makes the payment ready for reconciliation. Fields
  whose type is a literal keep it as a text or truth value.
\<close>

subsection \<open>Data\<close>

datatype PaymentImportEventFamily = Family_payment | Family_deposit

datatype PaymentImportReviewState = ImportState_needs_review

datatype PaymentImportRefundChargebackReviewCategory = Category_refund | Category_chargeback

datatype PaymentImportReviewConflictReason = Conflict_duplicate | Conflict_candidate_mismatch
    | Conflict_amount_mismatch | Conflict_status_conflict

datatype PaymentImportRefundChargebackReviewDecision = Refund_exception_confirmed
    | Refund_exception_rejected | Refund_needs_more_evidence

datatype PaymentImportRefundChargebackReviewReason = RefundReason_refund_observed
    | RefundReason_chargeback_observed | RefundReason_duplicate_or_conflict
    | RefundReason_candidate_reference_mismatch | RefundReason_missing_reviewer_evidence
    | RefundReason_status_unclear

datatype PaymentImportRefundChargebackResolutionPosture = Posture_awaiting_decision
    | Posture_confirmed_exception | Posture_rejected_exception | Posture_needs_more_evidence

datatype PaymentImportDepositMatchReviewDecision = DepositMatch_candidate_supported
    | DepositMatch_candidate_rejected | DepositMatch_needs_more_evidence

datatype PaymentImportDepositMatchReviewReason = MatchReason_candidate_evidence_matches
    | MatchReason_amount_mismatch | MatchReason_status_conflict | MatchReason_duplicate_or_conflict
    | MatchReason_manual_payment_not_pending | MatchReason_invoice_candidate_mismatch
    | MatchReason_missing_reviewer_evidence

datatype PaymentImportDepositMatchReconciliationReadinessReason = Ready_supported_candidate_ready
    | Ready_no_supported_decision | Ready_candidate_not_supported | Ready_import_record_conflict
    | Ready_candidate_manual_payment_mismatch | Ready_manual_payment_not_found
    | Ready_manual_payment_not_pending | Ready_amount_mismatch | Ready_invoice_not_found
    | Ready_invoice_candidate_mismatch | Ready_invoice_balance_insufficient

datatype PaymentImportDepositMatchReconciliationReadinessDetailCode =
    Detail_latest_supported_decision | Detail_no_duplicate_or_conflict_cue
    | Detail_manual_payment_candidate_matches | Detail_manual_payment_found
    | Detail_manual_payment_pending | Detail_amounts_match | Detail_invoice_found
    | Detail_invoice_candidate_matches | Detail_invoice_balance_covers_payment

record PaymentImportReviewBoundary =
  pib_rawProviderPayloadRetained :: bool
  pib_invoiceBalanceMutation :: string
  pib_settlementAutomation :: bool
  pib_reconciliationMutation :: string
  pib_refundHandling :: string
  pib_chargebackHandling :: string
  pib_trustPosting :: string
  pib_providerCommand :: string
  pib_clientNotification :: string
  pib_depositMatching :: string

record PaymentImportReviewRecord =
  pir_id :: string
  pir_firmId :: string
  pir_matterId :: string
  pir_providerLabel :: string
  pir_eventFamily :: PaymentImportEventFamily
  pir_eventStatus :: string
  pir_externalEventId :: string
  pir_externalPaymentId :: "string option"
  pir_externalDepositId :: "string option"
  pir_amountCents :: int
  pir_currency :: string
  pir_observedAt :: "string option"
  pir_importedAt :: string
  pir_importedByUserId :: string
  pir_candidateInvoiceId :: "string option"
  pir_candidateHostedPaymentRequestId :: "string option"
  pir_candidateManualPaymentId :: "string option"
  pir_duplicateOfRecordId :: "string option"
  pir_conflictReason :: "PaymentImportReviewConflictReason option"
  pir_reviewState :: PaymentImportReviewState
  pir_normalizedEvidenceFingerprint :: string
  pir_boundaries :: PaymentImportReviewBoundary
  pir_updatedAt :: string

record PaymentImportDepositMatchReviewBoundary =
  dmb_rawProviderPayloadRetained :: bool
  dmb_invoiceBalanceMutation :: string
  dmb_settlementAutomation :: bool
  dmb_reconciliationMutation :: string
  dmb_refundHandling :: string
  dmb_chargebackHandling :: string
  dmb_trustPosting :: string
  dmb_providerCommand :: string
  dmb_clientNotification :: string
  dmb_depositMatching :: string

record PaymentImportDepositMatchReviewRecord =
  dmr_id :: string
  dmr_firmId :: string
  dmr_matterId :: string
  dmr_paymentImportReviewRecordId :: string
  dmr_candidateManualPaymentId :: string
  dmr_candidateInvoiceId :: "string option"
  dmr_decision :: PaymentImportDepositMatchReviewDecision
  dmr_reason :: PaymentImportDepositMatchReviewReason
  dmr_importAmountCents :: int
  dmr_manualPaymentAmountCents :: int
  dmr_currency :: string
  dmr_candidateManualPaymentStatus :: ManualPaymentStatus
  dmr_reviewerEvidencePresent :: bool
  dmr_idempotencyKey :: string
  dmr_decisionFingerprint :: string
  dmr_boundaries :: PaymentImportDepositMatchReviewBoundary
  dmr_reviewedByUserId :: string
  dmr_reviewedAt :: string
  dmr_createdAt :: string

record PaymentImportRefundChargebackReviewBoundary =
  rcb_rawProviderPayloadRetained :: bool
  rcb_refundArtifactRetained :: bool
  rcb_disputeArtifactRetained :: bool
  rcb_invoiceBalanceMutation :: string
  rcb_ledgerReversal :: string
  rcb_trustPosting :: string
  rcb_providerCommand :: string
  rcb_clientNotification :: string
  rcb_fundsMovement :: string
  rcb_refundHandling :: string
  rcb_chargebackHandling :: string

record PaymentImportRefundChargebackReviewRecord =
  rcr_id :: string
  rcr_firmId :: string
  rcr_matterId :: string
  rcr_paymentImportReviewRecordId :: string
  rcr_category :: PaymentImportRefundChargebackReviewCategory
  rcr_decision :: PaymentImportRefundChargebackReviewDecision
  rcr_reason :: PaymentImportRefundChargebackReviewReason
  rcr_reviewerEvidencePresent :: bool
  rcr_idempotencyKey :: string
  rcr_decisionFingerprint :: string
  rcr_boundaries :: PaymentImportRefundChargebackReviewBoundary
  rcr_reviewedByUserId :: string
  rcr_reviewedAt :: string
  rcr_createdAt :: string

record PaymentImportRefundChargebackResolutionPacketNoSideEffectFlags =
  nse_rawProviderPayloadRetained :: bool
  nse_invoiceBalanceMutation :: string
  nse_ledgerReversal :: string
  nse_providerCommand :: string
  nse_refundArtifactStorage :: bool
  nse_disputeArtifactStorage :: bool
  nse_freeFormNotes :: bool
  nse_clientNotification :: string
  nse_trustPosting :: string
  nse_fundsMovement :: string

record PaymentImportRefundChargebackResolutionPacketReviewerMetadata =
  rvm_decision :: PaymentImportRefundChargebackReviewDecision
  rvm_reason :: PaymentImportRefundChargebackReviewReason
  rvm_reviewedByUserId :: string
  rvm_reviewedAt :: string
  rvm_reviewerEvidencePresent :: bool

record PaymentImportRefundChargebackReviewCue =
  cue_category :: PaymentImportRefundChargebackReviewCategory
  cue_status :: string
  cue_reviewAction :: string
  cue_rawProviderPayloadRetained :: bool
  cue_invoiceBalanceMutation :: string
  cue_ledgerReversal :: string
  cue_trustPosting :: string
  cue_providerCommand :: string
  cue_clientNotification :: string

record PaymentImportReviewDepositMatchCue =
  dmc_reviewAction :: string
  dmc_candidateManualPaymentId :: "string option"
  dmc_invoiceBalanceMutation :: string
  dmc_reconciliationMutation :: string
  dmc_trustPosting :: string

record PaymentImportRefundChargebackResolutionPacketPreview =
  ppv_reviewOnly :: bool
  ppv_paymentImportReviewRecordId :: string
  ppv_matterId :: string
  ppv_candidateInvoiceId :: "string option"
  ppv_candidateHostedPaymentRequestId :: "string option"
  ppv_candidateManualPaymentId :: "string option"
  ppv_latestReviewId :: "string option"
  ppv_category :: PaymentImportRefundChargebackReviewCategory
  ppv_cueStatus :: string
  ppv_resolutionPosture :: PaymentImportRefundChargebackResolutionPosture
  ppv_reasonCategories :: "PaymentImportRefundChargebackReviewReason list"
  ppv_latestReviewerMetadata :: "PaymentImportRefundChargebackResolutionPacketReviewerMetadata option"
  ppv_noSideEffectFlags :: PaymentImportRefundChargebackResolutionPacketNoSideEffectFlags

record PaymentImportRefundChargebackResolutionRecord =
  rrr_id :: string
  rrr_firmId :: string
  rrr_matterId :: string
  rrr_paymentImportReviewRecordId :: string
  rrr_candidateInvoiceId :: "string option"
  rrr_candidateHostedPaymentRequestId :: "string option"
  rrr_candidateManualPaymentId :: "string option"
  rrr_latestReviewId :: string
  rrr_category :: PaymentImportRefundChargebackReviewCategory
  rrr_resolutionPosture :: PaymentImportRefundChargebackResolutionPosture
  rrr_reasonCategories :: "PaymentImportRefundChargebackReviewReason list"
  rrr_latestReviewerMetadata :: PaymentImportRefundChargebackResolutionPacketReviewerMetadata
  rrr_noSideEffectFlags :: PaymentImportRefundChargebackResolutionPacketNoSideEffectFlags
  rrr_idempotencyKey :: string
  rrr_resolutionFingerprint :: string
  rrr_recordedByUserId :: string
  rrr_recordedAt :: string
  rrr_createdAt :: string

record PaymentImportDepositMatchReconciliationReadinessDetail =
  rdd_code :: PaymentImportDepositMatchReconciliationReadinessDetailCode
  rdd_status :: string
  rdd_label :: string

record PaymentImportDepositMatchReconciliationReadiness =
  rdy_eligible :: bool
  rdy_reason :: PaymentImportDepositMatchReconciliationReadinessReason
  rdy_reasonDetails :: "PaymentImportDepositMatchReconciliationReadinessDetail list"
  rdy_reviewAction :: string
  rdy_candidateManualPaymentId :: "string option"
  rdy_candidateInvoiceId :: "string option"
  rdy_amountCents :: "int option"
  rdy_mutation :: string

subsection \<open>Boundaries\<close>

definition defaultPaymentImportReviewBoundary :: PaymentImportReviewBoundary where
  "defaultPaymentImportReviewBoundary =
     \<lparr>pib_rawProviderPayloadRetained = False, pib_invoiceBalanceMutation = ''none'', pib_settlementAutomation = False,
      pib_reconciliationMutation = ''none'', pib_refundHandling = ''review_only'', pib_chargebackHandling = ''review_only'',
      pib_trustPosting = ''none'', pib_providerCommand = ''none'', pib_clientNotification = ''none'',
      pib_depositMatching = ''review_cue_only''\<rparr>"

definition defaultPaymentImportDepositMatchReviewBoundary :: PaymentImportDepositMatchReviewBoundary where
  "defaultPaymentImportDepositMatchReviewBoundary =
     \<lparr>dmb_rawProviderPayloadRetained = False, dmb_invoiceBalanceMutation = ''none'', dmb_settlementAutomation = False,
      dmb_reconciliationMutation = ''none'', dmb_refundHandling = ''none'', dmb_chargebackHandling = ''none'',
      dmb_trustPosting = ''none'', dmb_providerCommand = ''none'', dmb_clientNotification = ''none'',
      dmb_depositMatching = ''review_decision_only''\<rparr>"

definition defaultPaymentImportRefundChargebackReviewBoundary :: PaymentImportRefundChargebackReviewBoundary where
  "defaultPaymentImportRefundChargebackReviewBoundary =
     \<lparr>rcb_rawProviderPayloadRetained = False, rcb_refundArtifactRetained = False, rcb_disputeArtifactRetained = False,
      rcb_invoiceBalanceMutation = ''none'', rcb_ledgerReversal = ''none'', rcb_trustPosting = ''none'',
      rcb_providerCommand = ''none'', rcb_clientNotification = ''none'', rcb_fundsMovement = ''none'',
      rcb_refundHandling = ''review_decision_only'', rcb_chargebackHandling = ''review_decision_only''\<rparr>"

definition defaultPaymentImportRefundChargebackResolutionRecordNoSideEffectFlags ::
  PaymentImportRefundChargebackResolutionPacketNoSideEffectFlags where
  "defaultPaymentImportRefundChargebackResolutionRecordNoSideEffectFlags =
     \<lparr>nse_rawProviderPayloadRetained = False, nse_invoiceBalanceMutation = ''none'', nse_ledgerReversal = ''none'',
      nse_providerCommand = ''none'', nse_refundArtifactStorage = False, nse_disputeArtifactStorage = False,
      nse_freeFormNotes = False, nse_clientNotification = ''none'', nse_trustPosting = ''none'', nse_fundsMovement = ''none''\<rparr>"

subsection \<open>Deposit matches\<close>

definition paymentImportReviewHasConflict :: "PaymentImportReviewRecord \<Rightarrow> bool" where
  "paymentImportReviewHasConflict record = (pir_conflictReason record \<noteq> None \<or> truthy (pir_duplicateOfRecordId record))"

definition paymentImportReviewDepositMatchCue :: "PaymentImportReviewRecord \<Rightarrow> PaymentImportReviewDepositMatchCue" where
  "paymentImportReviewDepositMatchCue record =
     \<lparr>dmc_reviewAction = ''staff_deposit_match_review_required'', dmc_candidateManualPaymentId = pir_candidateManualPaymentId record,
      dmc_invoiceBalanceMutation = ''none'', dmc_reconciliationMutation = ''none'', dmc_trustPosting = ''none''\<rparr>"

primrec paymentImportDepositMatchReconciliationReadinessDetailLabels ::
  "PaymentImportDepositMatchReconciliationReadinessDetailCode \<Rightarrow> string" where
  "paymentImportDepositMatchReconciliationReadinessDetailLabels Detail_latest_supported_decision = ''Latest decision supports candidate''"
| "paymentImportDepositMatchReconciliationReadinessDetailLabels Detail_no_duplicate_or_conflict_cue = ''No duplicate or conflict cue''"
| "paymentImportDepositMatchReconciliationReadinessDetailLabels Detail_manual_payment_candidate_matches = ''Manual payment candidate still matches''"
| "paymentImportDepositMatchReconciliationReadinessDetailLabels Detail_manual_payment_found = ''Manual payment evidence found''"
| "paymentImportDepositMatchReconciliationReadinessDetailLabels Detail_manual_payment_pending = ''Manual payment remains pending''"
| "paymentImportDepositMatchReconciliationReadinessDetailLabels Detail_amounts_match = ''Import and manual payment amounts match''"
| "paymentImportDepositMatchReconciliationReadinessDetailLabels Detail_invoice_found = ''Candidate invoice found''"
| "paymentImportDepositMatchReconciliationReadinessDetailLabels Detail_invoice_candidate_matches = ''Invoice candidate still matches''"
| "paymentImportDepositMatchReconciliationReadinessDetailLabels Detail_invoice_balance_covers_payment = ''Invoice balance covers payment''"

definition paymentImportDepositMatchReadinessDetail ::
  "PaymentImportDepositMatchReconciliationReadinessDetailCode \<Rightarrow> string \<Rightarrow> PaymentImportDepositMatchReconciliationReadinessDetail" where
  "paymentImportDepositMatchReadinessDetail code status =
     \<lparr>rdd_code = code, rdd_status = status, rdd_label = paymentImportDepositMatchReconciliationReadinessDetailLabels code\<rparr>"

record ReadinessDetails =
  rds_candidateManualPaymentId :: "string option"
  rds_candidateInvoiceId :: "string option"
  rds_amountCents :: "int option"

definition no_details :: ReadinessDetails where
  "no_details = \<lparr>rds_candidateManualPaymentId = None, rds_candidateInvoiceId = None, rds_amountCents = None\<rparr>"

definition paymentImportDepositMatchReadiness ::
  "PaymentImportDepositMatchReconciliationReadinessReason \<Rightarrow> ReadinessDetails
    \<Rightarrow> PaymentImportDepositMatchReconciliationReadinessDetail list \<Rightarrow> PaymentImportDepositMatchReconciliationReadiness" where
  "paymentImportDepositMatchReadiness reason details reasonDetails =
     \<lparr>rdy_eligible = (reason = Ready_supported_candidate_ready), rdy_reason = reason, rdy_reasonDetails = reasonDetails,
      rdy_reviewAction = ''manual_payment_reconcile_review'',
      rdy_candidateManualPaymentId = (if truthy (rds_candidateManualPaymentId details) then rds_candidateManualPaymentId details else None),
      rdy_candidateInvoiceId = (if truthy (rds_candidateInvoiceId details) then rds_candidateInvoiceId details else None),
      rdy_amountCents = rds_amountCents details, rdy_mutation = ''none''\<rparr>"

definition either_id :: "'a option \<Rightarrow> 'a option \<Rightarrow> 'a option" where
  "either_id x y = (case x of Some v \<Rightarrow> Some v | None \<Rightarrow> y)"

text \<open>
  The checks after a payment and an invoice were found, with the steps satisfied so far; then the whole
  chain of checks. Every step that fails ends it.
\<close>

definition invoice_readiness ::
  "PaymentImportReviewRecord \<Rightarrow> PaymentImportDepositMatchReviewRecord \<Rightarrow> 'p ManualPaymentRecord_scheme \<Rightarrow> 'i InvoiceRecord_scheme option
    \<Rightarrow> ReadinessDetails \<Rightarrow> PaymentImportDepositMatchReconciliationReadinessDetail list \<Rightarrow> PaymentImportDepositMatchReconciliationReadiness" where
  "invoice_readiness importRecord latestReview manualPayment invoice details reasonDetails =
     (let satisfied = (\<lambda>code. paymentImportDepositMatchReadinessDetail code ''satisfied'');
          blocked = (\<lambda>code. paymentImportDepositMatchReadinessDetail code ''blocked'');
          candidateInvoiceId = either_id (dmr_candidateInvoiceId latestReview) (pir_candidateInvoiceId importRecord);
          notFound = paymentImportDepositMatchReadiness Ready_invoice_not_found details (reasonDetails @ [blocked Detail_invoice_found])
      in if \<not> truthy (pay_invoiceId manualPayment) \<or> \<not> truthy candidateInvoiceId then notFound
         else (case invoice of
             None \<Rightarrow> notFound
           | Some bill \<Rightarrow>
               let found = reasonDetails @ [satisfied Detail_invoice_found];
                   mismatch = paymentImportDepositMatchReadiness Ready_invoice_candidate_mismatch details
                     (found @ [blocked Detail_invoice_candidate_matches])
               in if pay_invoiceId manualPayment \<noteq> candidateInvoiceId \<or> Some (inv_id bill) \<noteq> candidateInvoiceId then mismatch
                  else if inv_matterId bill \<noteq> pir_matterId importRecord \<or> inv_matterId bill \<noteq> pay_matterId manualPayment then mismatch
                  else
                    let matches = found @ [satisfied Detail_invoice_candidate_matches]
                    in if pay_amountCents manualPayment > inv_balanceDueCents bill
                       then paymentImportDepositMatchReadiness Ready_invoice_balance_insufficient details
                         (matches @ [blocked Detail_invoice_balance_covers_payment])
                       else paymentImportDepositMatchReadiness Ready_supported_candidate_ready details
                         (matches @ [satisfied Detail_invoice_balance_covers_payment])))"

definition payment_readiness ::
  "PaymentImportReviewRecord \<Rightarrow> PaymentImportDepositMatchReviewRecord \<Rightarrow> 'p ManualPaymentRecord_scheme \<Rightarrow> 'i InvoiceRecord_scheme option
    \<Rightarrow> ReadinessDetails \<Rightarrow> PaymentImportDepositMatchReconciliationReadinessDetail list \<Rightarrow> PaymentImportDepositMatchReconciliationReadiness" where
  "payment_readiness importRecord latestReview manualPayment invoice details reasonDetails =
     (let satisfied = (\<lambda>code. paymentImportDepositMatchReadinessDetail code ''satisfied'');
          blocked = (\<lambda>code. paymentImportDepositMatchReadinessDetail code ''blocked'')
      in if pay_matterId manualPayment \<noteq> pir_matterId importRecord \<or> dmr_matterId latestReview \<noteq> pir_matterId importRecord
         then paymentImportDepositMatchReadiness Ready_candidate_manual_payment_mismatch details
           (take 2 reasonDetails @ [blocked Detail_manual_payment_candidate_matches])
         else if pay_status manualPayment \<noteq> Payment_pending_reconciliation
         then paymentImportDepositMatchReadiness Ready_manual_payment_not_pending details
           (reasonDetails @ [blocked Detail_manual_payment_pending])
         else
           let pending = reasonDetails @ [satisfied Detail_manual_payment_pending]
           in if pay_amountCents manualPayment \<noteq> dmr_manualPaymentAmountCents latestReview
                \<or> pir_amountCents importRecord \<noteq> dmr_importAmountCents latestReview
                \<or> dmr_importAmountCents latestReview \<noteq> dmr_manualPaymentAmountCents latestReview
              then paymentImportDepositMatchReadiness Ready_amount_mismatch details (pending @ [blocked Detail_amounts_match])
              else invoice_readiness importRecord latestReview manualPayment invoice details
                (pending @ [satisfied Detail_amounts_match]))"

definition paymentImportDepositMatchReconciliationReadiness ::
  "PaymentImportReviewRecord \<Rightarrow> PaymentImportDepositMatchReviewRecord option \<Rightarrow> 'p ManualPaymentRecord_scheme option
    \<Rightarrow> 'i InvoiceRecord_scheme option \<Rightarrow> PaymentImportDepositMatchReconciliationReadiness" where
  "paymentImportDepositMatchReconciliationReadiness importRecord latestReview manualPayment invoice =
     (let satisfied = (\<lambda>code. paymentImportDepositMatchReadinessDetail code ''satisfied'');
          blocked = (\<lambda>code. paymentImportDepositMatchReadinessDetail code ''blocked'')
      in case latestReview of
        None \<Rightarrow> paymentImportDepositMatchReadiness Ready_no_supported_decision no_details [blocked Detail_latest_supported_decision]
      | Some review \<Rightarrow>
          let details = \<lparr>rds_candidateManualPaymentId = Some (dmr_candidateManualPaymentId review),
                rds_candidateInvoiceId = either_id (dmr_candidateInvoiceId review) (either_id (pir_candidateInvoiceId importRecord)
                  (case manualPayment of Some p \<Rightarrow> pay_invoiceId p | None \<Rightarrow> None)),
                rds_amountCents = Some (dmr_manualPaymentAmountCents review)\<rparr>
          in if dmr_decision review \<noteq> DepositMatch_candidate_supported \<or> dmr_reason review \<noteq> MatchReason_candidate_evidence_matches
             then paymentImportDepositMatchReadiness Ready_candidate_not_supported details [blocked Detail_latest_supported_decision]
             else
               let supported = [satisfied Detail_latest_supported_decision]
               in if paymentImportReviewHasConflict importRecord
                  then paymentImportDepositMatchReadiness Ready_import_record_conflict details
                    (supported @ [blocked Detail_no_duplicate_or_conflict_cue])
                  else
                    let clean = supported @ [satisfied Detail_no_duplicate_or_conflict_cue]
                    in if \<not> truthy (pir_candidateManualPaymentId importRecord)
                         \<or> pir_candidateManualPaymentId importRecord \<noteq> Some (dmr_candidateManualPaymentId review)
                       then paymentImportDepositMatchReadiness Ready_candidate_manual_payment_mismatch details
                         (clean @ [blocked Detail_manual_payment_candidate_matches])
                       else
                         let matches = clean @ [satisfied Detail_manual_payment_candidate_matches];
                             notFound = paymentImportDepositMatchReadiness Ready_manual_payment_not_found details
                               (matches @ [blocked Detail_manual_payment_found])
                         in (case manualPayment of
                               None \<Rightarrow> notFound
                             | Some payment \<Rightarrow>
                                 if pay_id payment \<noteq> dmr_candidateManualPaymentId review then notFound
                                 else payment_readiness importRecord review payment invoice details
                                   (matches @ [satisfied Detail_manual_payment_found])))"

subsection \<open>Refunds and chargebacks\<close>

definition refund_category :: "string \<Rightarrow> PaymentImportRefundChargebackReviewCategory option" where
  "refund_category eventStatus =
     (if eventStatus = ''refund_observed'' then Some Category_refund
      else if eventStatus = ''chargeback_observed'' then Some Category_chargeback else None)"

definition paymentImportRefundChargebackReviewCue :: "PaymentImportReviewRecord \<Rightarrow> PaymentImportRefundChargebackReviewCue option" where
  "paymentImportRefundChargebackReviewCue record =
     (if pir_eventFamily record \<noteq> Family_payment then None
      else map_option (\<lambda>category.
        \<lparr>cue_category = category, cue_status = ''needs_review'', cue_reviewAction = ''staff_refund_chargeback_review_required'',
         cue_rawProviderPayloadRetained = False, cue_invoiceBalanceMutation = ''none'', cue_ledgerReversal = ''none'',
         cue_trustPosting = ''none'', cue_providerCommand = ''none'', cue_clientNotification = ''none''\<rparr>)
        (refund_category (pir_eventStatus record)))"

definition paymentImportRefundChargebackReviewDecisionMatchesCue :: "PaymentImportRefundChargebackReviewRecord \<Rightarrow> bool" where
  "paymentImportRefundChargebackReviewDecisionMatchesCue review =
     (if rcr_decision review \<noteq> Refund_exception_confirmed then True
      else rcr_category review = Category_refund \<and> rcr_reason review = RefundReason_refund_observed
        \<or> rcr_category review = Category_chargeback \<and> rcr_reason review = RefundReason_chargeback_observed)"

definition newestRefundReviewFirst :: "PaymentImportRefundChargebackReviewRecord \<Rightarrow> PaymentImportRefundChargebackReviewRecord \<Rightarrow> int" where
  "newestRefundReviewFirst left right = date_difference (rcr_reviewedAt right) (rcr_reviewedAt left)"

definition resolution_posture :: "PaymentImportRefundChargebackReviewRecord option \<Rightarrow> PaymentImportRefundChargebackResolutionPosture" where
  "resolution_posture latestReview =
     (case latestReview of
        None \<Rightarrow> Posture_awaiting_decision
      | Some review \<Rightarrow>
          if rcr_decision review = Refund_exception_confirmed then Posture_confirmed_exception
          else if rcr_decision review = Refund_exception_rejected then Posture_rejected_exception
          else Posture_needs_more_evidence)"

definition reviewer_metadata :: "PaymentImportRefundChargebackReviewRecord \<Rightarrow> PaymentImportRefundChargebackResolutionPacketReviewerMetadata" where
  "reviewer_metadata review =
     \<lparr>rvm_decision = rcr_decision review, rvm_reason = rcr_reason review, rvm_reviewedByUserId = rcr_reviewedByUserId review,
      rvm_reviewedAt = rcr_reviewedAt review, rvm_reviewerEvidencePresent = rcr_reviewerEvidencePresent review\<rparr>"

definition only_truthy :: "string option \<Rightarrow> string option" where
  "only_truthy x = (if truthy x then x else None)"

definition paymentImportRefundChargebackResolutionPacketPreview ::
  "PaymentImportReviewRecord \<Rightarrow> PaymentImportRefundChargebackReviewRecord list
    \<Rightarrow> PaymentImportRefundChargebackResolutionPacketPreview option" where
  "paymentImportRefundChargebackResolutionPacketPreview importRecord allReviews =
     (case paymentImportRefundChargebackReviewCue importRecord of
        None \<Rightarrow> None
      | Some cue \<Rightarrow>
          let reviews = js_sort newestRefundReviewFirst
                (filter (\<lambda>review. rcr_paymentImportReviewRecordId review = pir_id importRecord
                   \<and> rcr_category review = cue_category cue) allReviews);
              latestReview = head reviews
          in Some \<lparr>ppv_reviewOnly = True, ppv_paymentImportReviewRecordId = pir_id importRecord, ppv_matterId = pir_matterId importRecord,
               ppv_candidateInvoiceId = only_truthy (pir_candidateInvoiceId importRecord),
               ppv_candidateHostedPaymentRequestId = only_truthy (pir_candidateHostedPaymentRequestId importRecord),
               ppv_candidateManualPaymentId = only_truthy (pir_candidateManualPaymentId importRecord),
               ppv_latestReviewId = map_option rcr_id latestReview,
               ppv_category = cue_category cue, ppv_cueStatus = cue_status cue,
               ppv_resolutionPosture = resolution_posture latestReview,
               ppv_reasonCategories = js_set (map rcr_reason reviews),
               ppv_latestReviewerMetadata = map_option reviewer_metadata latestReview,
               ppv_noSideEffectFlags =
                 \<lparr>nse_rawProviderPayloadRetained = False, nse_invoiceBalanceMutation = ''none'', nse_ledgerReversal = ''none'',
                  nse_providerCommand = ''none'', nse_refundArtifactStorage = False, nse_disputeArtifactStorage = False,
                  nse_freeFormNotes = False, nse_clientNotification = ''none'', nse_trustPosting = ''none'', nse_fundsMovement = ''none''\<rparr>\<rparr>)"

record ResolutionInput =
  rin_id :: string
  rin_firmId :: string
  rin_idempotencyKey :: string
  rin_resolutionFingerprint :: string
  rin_recordedByUserId :: string
  rin_recordedAt :: string

definition paymentImportRefundChargebackResolutionRecordFromPreview ::
  "ResolutionInput \<Rightarrow> PaymentImportRefundChargebackResolutionPacketPreview \<Rightarrow> PaymentImportRefundChargebackResolutionRecord option" where
  "paymentImportRefundChargebackResolutionRecordFromPreview inp preview =
     (if ppv_resolutionPosture preview = Posture_awaiting_decision then None
      else (case (only_truthy (ppv_latestReviewId preview), ppv_latestReviewerMetadata preview) of
          (Some latestReviewId, Some metadata) \<Rightarrow>
            Some \<lparr>rrr_id = rin_id inp, rrr_firmId = rin_firmId inp, rrr_matterId = ppv_matterId preview,
              rrr_paymentImportReviewRecordId = ppv_paymentImportReviewRecordId preview,
              rrr_candidateInvoiceId = only_truthy (ppv_candidateInvoiceId preview),
              rrr_candidateHostedPaymentRequestId = only_truthy (ppv_candidateHostedPaymentRequestId preview),
              rrr_candidateManualPaymentId = only_truthy (ppv_candidateManualPaymentId preview),
              rrr_latestReviewId = latestReviewId, rrr_category = ppv_category preview,
              rrr_resolutionPosture = ppv_resolutionPosture preview, rrr_reasonCategories = ppv_reasonCategories preview,
              rrr_latestReviewerMetadata = metadata,
              rrr_noSideEffectFlags = defaultPaymentImportRefundChargebackResolutionRecordNoSideEffectFlags,
              rrr_idempotencyKey = rin_idempotencyKey inp, rrr_resolutionFingerprint = rin_resolutionFingerprint inp,
              rrr_recordedByUserId = rin_recordedByUserId inp, rrr_recordedAt = rin_recordedAt inp, rrr_createdAt = rin_recordedAt inp\<rparr>
        | _ \<Rightarrow> None))"

subsection \<open>The store\<close>

record MemoryPaymentImportReviewRecordStore =
  pis_paymentImportReviewRecords :: "PaymentImportReviewRecord list"
  pis_paymentImportDepositMatchReviews :: "PaymentImportDepositMatchReviewRecord list"
  pis_paymentImportRefundChargebackReviews :: "PaymentImportRefundChargebackReviewRecord list"
  pis_paymentImportRefundChargebackResolutionRecords :: "PaymentImportRefundChargebackResolutionRecord list"

record PaymentImportReviewRecordListOptions =
  plo_matterId :: "string option"
  plo_candidateInvoiceId :: "string option"
  plo_candidateHostedPaymentRequestId :: "string option"
  plo_candidateManualPaymentId :: "string option"
  plo_eventFamily :: "PaymentImportEventFamily option"

record PaymentImportDepositMatchReviewListOptions =
  dlo_matterId :: "string option"
  dlo_paymentImportReviewRecordId :: "string option"
  dlo_candidateManualPaymentId :: "string option"
  dlo_decision :: "PaymentImportDepositMatchReviewDecision option"

record PaymentImportRefundChargebackReviewListOptions =
  rlo_matterId :: "string option"
  rlo_paymentImportReviewRecordId :: "string option"
  rlo_category :: "PaymentImportRefundChargebackReviewCategory option"
  rlo_decision :: "PaymentImportRefundChargebackReviewDecision option"

record PaymentImportRefundChargebackResolutionRecordListOptions =
  xlo_matterId :: "string option"
  xlo_paymentImportReviewRecordId :: "string option"
  xlo_category :: "PaymentImportRefundChargebackReviewCategory option"
  xlo_resolutionPosture :: "PaymentImportRefundChargebackResolutionPosture option"

text \<open>\<open>!option || value === option\<close>, for texts and for the unions, whose members are not empty.\<close>

definition unless_text :: "string option \<Rightarrow> string option \<Rightarrow> bool" where
  "unless_text wanted value = (\<not> truthy wanted \<or> value = wanted)"

definition unless_given :: "'a option \<Rightarrow> 'a \<Rightarrow> bool" where
  "unless_given wanted value = (wanted = None \<or> Some value = wanted)"

definition matchesOptions :: "PaymentImportReviewRecord \<Rightarrow> PaymentImportReviewRecordListOptions \<Rightarrow> bool" where
  "matchesOptions record options =
     (unless_text (plo_matterId options) (Some (pir_matterId record))
      \<and> unless_text (plo_candidateInvoiceId options) (pir_candidateInvoiceId record)
      \<and> unless_text (plo_candidateHostedPaymentRequestId options) (pir_candidateHostedPaymentRequestId record)
      \<and> unless_text (plo_candidateManualPaymentId options) (pir_candidateManualPaymentId record)
      \<and> unless_given (plo_eventFamily options) (pir_eventFamily record))"

definition matchesDepositMatchReviewOptions ::
  "PaymentImportDepositMatchReviewRecord \<Rightarrow> PaymentImportDepositMatchReviewListOptions \<Rightarrow> bool" where
  "matchesDepositMatchReviewOptions record options =
     (unless_text (dlo_matterId options) (Some (dmr_matterId record))
      \<and> unless_text (dlo_paymentImportReviewRecordId options) (Some (dmr_paymentImportReviewRecordId record))
      \<and> unless_text (dlo_candidateManualPaymentId options) (Some (dmr_candidateManualPaymentId record))
      \<and> unless_given (dlo_decision options) (dmr_decision record))"

definition matchesRefundChargebackReviewOptions ::
  "PaymentImportRefundChargebackReviewRecord \<Rightarrow> PaymentImportRefundChargebackReviewListOptions \<Rightarrow> bool" where
  "matchesRefundChargebackReviewOptions record options =
     (unless_text (rlo_matterId options) (Some (rcr_matterId record))
      \<and> unless_text (rlo_paymentImportReviewRecordId options) (Some (rcr_paymentImportReviewRecordId record))
      \<and> unless_given (rlo_category options) (rcr_category record)
      \<and> unless_given (rlo_decision options) (rcr_decision record))"

definition matchesRefundChargebackResolutionRecordOptions ::
  "PaymentImportRefundChargebackResolutionRecord \<Rightarrow> PaymentImportRefundChargebackResolutionRecordListOptions \<Rightarrow> bool" where
  "matchesRefundChargebackResolutionRecordOptions record options =
     (unless_text (xlo_matterId options) (Some (rrr_matterId record))
      \<and> unless_text (xlo_paymentImportReviewRecordId options) (Some (rrr_paymentImportReviewRecordId record))
      \<and> unless_given (xlo_category options) (rrr_category record)
      \<and> unless_given (xlo_resolutionPosture options) (rrr_resolutionPosture record))"

text \<open>
  The four create calls have one shape: a record under a known key is returned when its fingerprint is
  the same and refused otherwise; a record under a new key is appended.
\<close>

definition create_once :: "('r \<Rightarrow> 'k) \<Rightarrow> ('r \<Rightarrow> string) \<Rightarrow> 'r list \<Rightarrow> 'r \<Rightarrow> 'r result \<times> 'r list" where
  "create_once key fingerprint records record =
     (case List.find (\<lambda>candidate. key candidate = key record) records of
        Some existing \<Rightarrow>
          (if fingerprint existing \<noteq> fingerprint record then throw ''Idempotency key was reused with a different payload''
           else Inr existing, records)
      | None \<Rightarrow> (Inr record, records @ [record]))"

definition import_key :: "PaymentImportReviewRecord \<Rightarrow> string \<times> string \<times> string" where
  "import_key record = (pir_firmId record, pir_providerLabel record, pir_externalEventId record)"

definition match_key :: "PaymentImportDepositMatchReviewRecord \<Rightarrow> string \<times> string \<times> string" where
  "match_key record = (dmr_firmId record, dmr_paymentImportReviewRecordId record, dmr_idempotencyKey record)"

definition refund_key :: "PaymentImportRefundChargebackReviewRecord \<Rightarrow> string \<times> string \<times> string" where
  "refund_key record = (rcr_firmId record, rcr_paymentImportReviewRecordId record, rcr_idempotencyKey record)"

definition resolution_key :: "PaymentImportRefundChargebackResolutionRecord \<Rightarrow> string \<times> string \<times> string" where
  "resolution_key record = (rrr_firmId record, rrr_paymentImportReviewRecordId record, rrr_idempotencyKey record)"

definition createMemoryPaymentImportReviewRecord ::
  "MemoryPaymentImportReviewRecordStore \<Rightarrow> PaymentImportReviewRecord
    \<Rightarrow> PaymentImportReviewRecord result \<times> MemoryPaymentImportReviewRecordStore" where
  "createMemoryPaymentImportReviewRecord store record =
     (let (result, records) = create_once import_key pir_normalizedEvidenceFingerprint (pis_paymentImportReviewRecords store) record
      in (result, store\<lparr>pis_paymentImportReviewRecords := records\<rparr>))"

definition getMemoryPaymentImportReviewRecord ::
  "MemoryPaymentImportReviewRecordStore \<Rightarrow> string \<Rightarrow> string \<Rightarrow> PaymentImportReviewRecord option" where
  "getMemoryPaymentImportReviewRecord store firmId recordId =
     List.find (\<lambda>record. pir_firmId record = firmId \<and> pir_id record = recordId) (pis_paymentImportReviewRecords store)"

definition listMemoryPaymentImportReviewRecords ::
  "MemoryPaymentImportReviewRecordStore \<Rightarrow> string \<Rightarrow> PaymentImportReviewRecordListOptions \<Rightarrow> PaymentImportReviewRecord list" where
  "listMemoryPaymentImportReviewRecords store firmId options =
     js_sort (\<lambda>left right. date_difference (pir_importedAt right) (pir_importedAt left))
       (filter (\<lambda>record. pir_firmId record = firmId \<and> matchesOptions record options) (pis_paymentImportReviewRecords store))"

definition createMemoryPaymentImportDepositMatchReview ::
  "MemoryPaymentImportReviewRecordStore \<Rightarrow> PaymentImportDepositMatchReviewRecord
    \<Rightarrow> PaymentImportDepositMatchReviewRecord result \<times> MemoryPaymentImportReviewRecordStore" where
  "createMemoryPaymentImportDepositMatchReview store record =
     (let (result, records) = create_once match_key dmr_decisionFingerprint (pis_paymentImportDepositMatchReviews store) record
      in (result, store\<lparr>pis_paymentImportDepositMatchReviews := records\<rparr>))"

definition newestMatchReviewFirst :: "PaymentImportDepositMatchReviewRecord \<Rightarrow> PaymentImportDepositMatchReviewRecord \<Rightarrow> int" where
  "newestMatchReviewFirst left right = date_difference (dmr_reviewedAt right) (dmr_reviewedAt left)"

definition listMemoryPaymentImportDepositMatchReviews ::
  "MemoryPaymentImportReviewRecordStore \<Rightarrow> string \<Rightarrow> PaymentImportDepositMatchReviewListOptions \<Rightarrow> PaymentImportDepositMatchReviewRecord list" where
  "listMemoryPaymentImportDepositMatchReviews store firmId options =
     js_sort newestMatchReviewFirst
       (filter (\<lambda>record. dmr_firmId record = firmId \<and> matchesDepositMatchReviewOptions record options)
         (pis_paymentImportDepositMatchReviews store))"

definition createMemoryPaymentImportRefundChargebackReview ::
  "MemoryPaymentImportReviewRecordStore \<Rightarrow> PaymentImportRefundChargebackReviewRecord
    \<Rightarrow> PaymentImportRefundChargebackReviewRecord result \<times> MemoryPaymentImportReviewRecordStore" where
  "createMemoryPaymentImportRefundChargebackReview store record =
     (let (result, records) = create_once refund_key rcr_decisionFingerprint (pis_paymentImportRefundChargebackReviews store) record
      in (result, store\<lparr>pis_paymentImportRefundChargebackReviews := records\<rparr>))"

definition listMemoryPaymentImportRefundChargebackReviews ::
  "MemoryPaymentImportReviewRecordStore \<Rightarrow> string \<Rightarrow> PaymentImportRefundChargebackReviewListOptions
    \<Rightarrow> PaymentImportRefundChargebackReviewRecord list" where
  "listMemoryPaymentImportRefundChargebackReviews store firmId options =
     js_sort newestRefundReviewFirst
       (filter (\<lambda>record. rcr_firmId record = firmId \<and> matchesRefundChargebackReviewOptions record options)
         (pis_paymentImportRefundChargebackReviews store))"

definition createMemoryPaymentImportRefundChargebackResolutionRecord ::
  "MemoryPaymentImportReviewRecordStore \<Rightarrow> PaymentImportRefundChargebackResolutionRecord
    \<Rightarrow> PaymentImportRefundChargebackResolutionRecord result \<times> MemoryPaymentImportReviewRecordStore" where
  "createMemoryPaymentImportRefundChargebackResolutionRecord store record =
     (let (result, records) = create_once resolution_key rrr_resolutionFingerprint
            (pis_paymentImportRefundChargebackResolutionRecords store) record
      in (result, store\<lparr>pis_paymentImportRefundChargebackResolutionRecords := records\<rparr>))"

definition listMemoryPaymentImportRefundChargebackResolutionRecords ::
  "MemoryPaymentImportReviewRecordStore \<Rightarrow> string \<Rightarrow> PaymentImportRefundChargebackResolutionRecordListOptions
    \<Rightarrow> PaymentImportRefundChargebackResolutionRecord list" where
  "listMemoryPaymentImportRefundChargebackResolutionRecords store firmId options =
     js_sort (\<lambda>left right. date_difference (rrr_recordedAt right) (rrr_recordedAt left))
       (filter (\<lambda>record. rrr_firmId record = firmId \<and> matchesRefundChargebackResolutionRecordOptions record options)
         (pis_paymentImportRefundChargebackResolutionRecords store))"


subsection \<open>When a deposit match is ready\<close>

definition deposit_ready ::
  "PaymentImportReviewRecord \<Rightarrow> PaymentImportDepositMatchReviewRecord \<Rightarrow> 'p ManualPaymentRecord_scheme \<Rightarrow> 'i InvoiceRecord_scheme \<Rightarrow> bool" where
  "deposit_ready r v p i \<longleftrightarrow>
     dmr_decision v = DepositMatch_candidate_supported \<and> dmr_reason v = MatchReason_candidate_evidence_matches
     \<and> \<not> paymentImportReviewHasConflict r
     \<and> pir_candidateManualPaymentId r = Some (pay_id p) \<and> dmr_candidateManualPaymentId v = pay_id p \<and> pay_id p \<noteq> []
     \<and> pay_matterId p = pir_matterId r \<and> dmr_matterId v = pir_matterId r \<and> inv_matterId i = pir_matterId r
     \<and> pay_status p = Payment_pending_reconciliation
     \<and> pir_amountCents r = pay_amountCents p \<and> dmr_importAmountCents v = pay_amountCents p
     \<and> dmr_manualPaymentAmountCents v = pay_amountCents p
     \<and> pay_invoiceId p = Some (inv_id i) \<and> inv_id i \<noteq> []
     \<and> either_id (dmr_candidateInvoiceId v) (pir_candidateInvoiceId r) = Some (inv_id i)
     \<and> pay_amountCents p \<le> inv_balanceDueCents i"

lemma readiness_eligible [simp]: "rdy_eligible (paymentImportDepositMatchReadiness x d ds) \<longleftrightarrow> x = Ready_supported_candidate_ready"
  by (simp add: paymentImportDepositMatchReadiness_def)

lemma readiness_details [simp]: "rdy_reasonDetails (paymentImportDepositMatchReadiness x d ds) = ds"
  by (simp add: paymentImportDepositMatchReadiness_def)

lemma invoice_readiness_eligible:
  "rdy_eligible (invoice_readiness r v p i d ds) \<longleftrightarrow>
     (\<exists>b. i = Some b \<and> pay_invoiceId p = Some (inv_id b) \<and> inv_id b \<noteq> []
       \<and> either_id (dmr_candidateInvoiceId v) (pir_candidateInvoiceId r) = Some (inv_id b)
       \<and> inv_matterId b = pir_matterId r \<and> inv_matterId b = pay_matterId p \<and> pay_amountCents p \<le> inv_balanceDueCents b)"
  by (cases i) (auto simp: invoice_readiness_def Let_def truthy_def not_less split: option.splits)

lemma payment_readiness_eligible:
  "rdy_eligible (payment_readiness r v p i d ds) \<longleftrightarrow>
     pay_matterId p = pir_matterId r \<and> dmr_matterId v = pir_matterId r \<and> pay_status p = Payment_pending_reconciliation
     \<and> pay_amountCents p = dmr_manualPaymentAmountCents v \<and> pir_amountCents r = dmr_importAmountCents v
     \<and> dmr_importAmountCents v = dmr_manualPaymentAmountCents v
     \<and> (\<exists>d' ds'. rdy_eligible (invoice_readiness r v p i d' ds'))"
  unfolding payment_readiness_def Let_def by (auto simp: invoice_readiness_eligible)

text \<open>The chain of checks: a prefix of the nine checks, all satisfied but the last, which is satisfied exactly when the match is ready.\<close>

definition readiness_checks :: "PaymentImportDepositMatchReconciliationReadinessDetailCode list" where
  "readiness_checks = [Detail_latest_supported_decision, Detail_no_duplicate_or_conflict_cue, Detail_manual_payment_candidate_matches,
     Detail_manual_payment_found, Detail_manual_payment_pending, Detail_amounts_match, Detail_invoice_found,
     Detail_invoice_candidate_matches, Detail_invoice_balance_covers_payment]"

definition explains :: "bool \<Rightarrow> PaymentImportDepositMatchReconciliationReadinessDetail list \<Rightarrow> bool" where
  "explains eligible ds \<longleftrightarrow> ds \<noteq> [] \<and> map rdd_code ds = take (length ds) readiness_checks
     \<and> list_all (\<lambda>d. rdd_status d = ''satisfied'') (butlast ds)
     \<and> rdd_status (last ds) = (if eligible then ''satisfied'' else ''blocked'') \<and> (eligible \<longrightarrow> length ds = length readiness_checks)"

lemma detail_fields [simp]:
  "rdd_code (paymentImportDepositMatchReadinessDetail c s) = c" "rdd_status (paymentImportDepositMatchReadinessDetail c s) = s"
  by (simp_all add: paymentImportDepositMatchReadinessDetail_def)

abbreviation ok_until :: "nat \<Rightarrow> PaymentImportDepositMatchReconciliationReadinessDetail list" where
  "ok_until n \<equiv> map (\<lambda>c. paymentImportDepositMatchReadinessDetail c ''satisfied'') (take n readiness_checks)"

lemma invoice_readiness_explains:
  "explains (rdy_eligible (invoice_readiness r v p i d (ok_until 6))) (rdy_reasonDetails (invoice_readiness r v p i d (ok_until 6)))"
  unfolding invoice_readiness_def Let_def
  by (cases i) (simp_all add: explains_def readiness_checks_def numeral_eq_Suc split: if_splits)

lemma payment_readiness_explains:
  "explains (rdy_eligible (payment_readiness r v p i d (ok_until 4))) (rdy_reasonDetails (payment_readiness r v p i d (ok_until 4)))"
proof -
  have six: "ok_until 4 @ [paymentImportDepositMatchReadinessDetail Detail_manual_payment_pending ''satisfied'']
      @ [paymentImportDepositMatchReadinessDetail Detail_amounts_match ''satisfied''] = ok_until 6"
    by (simp add: readiness_checks_def numeral_eq_Suc)
  show ?thesis
    unfolding payment_readiness_def Let_def append_assoc six
    by (simp add: invoice_readiness_explains) (simp add: explains_def readiness_checks_def numeral_eq_Suc)
qed

lemma explains_short:
  fixes sat blk defines "sat \<equiv> \<lambda>c. paymentImportDepositMatchReadinessDetail c ''satisfied''"
    and "blk \<equiv> \<lambda>c. paymentImportDepositMatchReadinessDetail c ''blocked''"
  shows "explains False [blk Detail_latest_supported_decision]"
    "explains False [sat Detail_latest_supported_decision, blk Detail_no_duplicate_or_conflict_cue]"
    "explains False [sat Detail_latest_supported_decision, sat Detail_no_duplicate_or_conflict_cue, blk Detail_manual_payment_candidate_matches]"
    "explains False [sat Detail_latest_supported_decision, sat Detail_no_duplicate_or_conflict_cue, sat Detail_manual_payment_candidate_matches,
       blk Detail_manual_payment_found]"
  by (simp_all add: explains_def readiness_checks_def sat_def blk_def)

lemma ok_until_four:
  "[paymentImportDepositMatchReadinessDetail Detail_latest_supported_decision ''satisfied''] @
   [paymentImportDepositMatchReadinessDetail Detail_no_duplicate_or_conflict_cue ''satisfied''] @
   [paymentImportDepositMatchReadinessDetail Detail_manual_payment_candidate_matches ''satisfied''] @
   [paymentImportDepositMatchReadinessDetail Detail_manual_payment_found ''satisfied''] = ok_until 4"
  by (simp add: readiness_checks_def numeral_eq_Suc)

lemma readiness_iff:
  "rdy_eligible (paymentImportDepositMatchReconciliationReadiness importRecord latestReview manualPayment invoice) \<longleftrightarrow>
     (\<exists>v p i. latestReview = Some v \<and> manualPayment = Some p \<and> invoice = Some i \<and> deposit_ready importRecord v p i)"
  by (cases latestReview; cases manualPayment)
    (auto simp: paymentImportDepositMatchReconciliationReadiness_def Let_def payment_readiness_eligible invoice_readiness_eligible
      deposit_ready_def truthy_def split: option.splits)

lemma ready_eligible: "deposit_ready r v p w \<Longrightarrow> rdy_eligible (paymentImportDepositMatchReconciliationReadiness r (Some v) (Some p) (Some w))"
  by (simp add: readiness_iff)

lemma eligible_ready:
  "rdy_eligible (paymentImportDepositMatchReconciliationReadiness r (Some v) (Some p) b) \<Longrightarrow> \<exists>w. b = Some w \<and> deposit_ready r v p w"
  by (simp add: readiness_iff)

text \<open>
  A deposit match is ready for reconciliation exactly when the latest decision supports it, the
  import carries no conflict, and import, decision, pending payment and invoice agree on candidate, matter
  and amount, with a balance that covers it; the reported details are the checks up to the one that
  failed, in order.
\<close>

theorem deposit_readiness_exact:
  "(rdy_eligible (paymentImportDepositMatchReconciliationReadiness importRecord latestReview manualPayment invoice) \<longleftrightarrow>
     (\<exists>v p i. latestReview = Some v \<and> manualPayment = Some p \<and> invoice = Some i \<and> deposit_ready importRecord v p i))
   \<and> explains (rdy_eligible (paymentImportDepositMatchReconciliationReadiness importRecord latestReview manualPayment invoice))
       (rdy_reasonDetails (paymentImportDepositMatchReconciliationReadiness importRecord latestReview manualPayment invoice))"
proof (rule conjI)
  let ?R = "paymentImportDepositMatchReconciliationReadiness importRecord latestReview manualPayment invoice"
  show "rdy_eligible ?R \<longleftrightarrow> (\<exists>v p i. latestReview = Some v \<and> manualPayment = Some p \<and> invoice = Some i \<and> deposit_ready importRecord v p i)"
    by (rule readiness_iff)
  show "explains (rdy_eligible ?R) (rdy_reasonDetails ?R)"
    unfolding paymentImportDepositMatchReconciliationReadiness_def Let_def append_assoc ok_until_four
    by (cases latestReview; cases manualPayment) (simp_all add: payment_readiness_explains explains_short)
qed

subsection \<open>Created once\<close>

lemma create_once_cases:
  assumes "create_once key fp xs r = (res, ys)"
  obtains (found) x where "List.find (\<lambda>c. key c = key r) xs = Some x" "ys = xs" "is_ok res \<longleftrightarrow> fp x = fp r" "is_ok res \<longrightarrow> res = Inr x"
  | (new) "List.find (\<lambda>c. key c = key r) xs = None" "ys = xs @ [r]" "res = Inr r"
proof (cases "List.find (\<lambda>c. key c = key r) xs")
  case None
  then show thesis using assms by (intro new) (auto simp: create_once_def)
next
  case (Some x)
  show thesis by (rule found [OF Some]) (use assms Some in \<open>auto simp: create_once_def split: if_splits\<close>)
qed

interpretation create_once: idempotent_submission
  "\<lambda>xs r. List.find (\<lambda>c. key c = key r) xs" "create_once key fp" "\<lambda>_ _. True" for key :: "'r \<Rightarrow> 'k" and fp :: "'r \<Rightarrow> string"
proof unfold_locales
  fix xs :: "'r list" and r d res ys e
  show "List.find (\<lambda>c. key c = key r) xs = Some d \<Longrightarrow> create_once key fp xs r = (res, ys) \<Longrightarrow> ys = xs \<and> (is_ok res \<longrightarrow> res = Inr d)"
    by (erule create_once_cases) auto
  show "create_once key fp xs r = (Inl e, ys) \<Longrightarrow> ys = xs" by (erule create_once_cases) auto
  assume "List.find (\<lambda>c. key c = key r) xs = None" "create_once key fp xs r = (Inr d, ys)"
  then show "List.find (\<lambda>c. key c = key r) ys = Some d \<and> is_ok (fst (create_once key fp ys r))"
    by (auto simp: create_once_def find_append split: option.splits)
qed

lemma create_once_distinct: "create_once key fp xs r = (res, ys) \<Longrightarrow> distinct (map key xs) \<Longrightarrow> distinct (map key ys)"
  by (erule create_once_cases) (auto simp: find_None_iff)

inductive import_step :: "MemoryPaymentImportReviewRecordStore \<Rightarrow> MemoryPaymentImportReviewRecordStore \<Rightarrow> bool" where
  step_import: "createMemoryPaymentImportReviewRecord s a = (ra, t) \<Longrightarrow> import_step s t"
| step_match: "createMemoryPaymentImportDepositMatchReview s b = (rb, t) \<Longrightarrow> import_step s t"
| step_refund: "createMemoryPaymentImportRefundChargebackReview s c = (rc, t) \<Longrightarrow> import_step s t"
| step_resolution: "createMemoryPaymentImportRefundChargebackResolutionRecord s d = (rd, t) \<Longrightarrow> import_step s t"

definition no_imports :: "MemoryPaymentImportReviewRecordStore \<Rightarrow> bool" where
  "no_imports s \<longleftrightarrow> pis_paymentImportReviewRecords s = [] \<and> pis_paymentImportDepositMatchReviews s = []
     \<and> pis_paymentImportRefundChargebackReviews s = [] \<and> pis_paymentImportRefundChargebackResolutionRecords s = []"

definition import_keys_distinct :: "MemoryPaymentImportReviewRecordStore \<Rightarrow> bool" where
  "import_keys_distinct s \<longleftrightarrow> distinct (map import_key (pis_paymentImportReviewRecords s))
     \<and> distinct (map match_key (pis_paymentImportDepositMatchReviews s))
     \<and> distinct (map refund_key (pis_paymentImportRefundChargebackReviews s))
     \<and> distinct (map resolution_key (pis_paymentImportRefundChargebackResolutionRecords s))"

lemmas import_create_defs = createMemoryPaymentImportReviewRecord_def createMemoryPaymentImportDepositMatchReview_def
  createMemoryPaymentImportRefundChargebackReview_def createMemoryPaymentImportRefundChargebackResolutionRecord_def

interpretation import_run: inductive_invariant no_imports import_step import_keys_distinct
proof unfold_locales
  show "no_imports s \<Longrightarrow> import_keys_distinct s" for s by (simp add: no_imports_def import_keys_distinct_def)
  show "import_step s t \<Longrightarrow> import_keys_distinct s \<Longrightarrow> import_keys_distinct t" for s t
    by (induction rule: import_step.induct)
      (auto simp: import_create_defs import_keys_distinct_def split: prod.splits dest: create_once_distinct)
qed

text \<open>
  In every reachable store an event of a provider is imported once in a firm, and a decision or
  resolution of an import is recorded once under its key; sending an import again gives the stored
  record and changes nothing.
\<close>

theorem imports_are_recorded_once:
  assumes "reachable no_imports import_step s"
  shows "import_keys_distinct s
    \<and> (\<forall>record stored t. createMemoryPaymentImportReviewRecord s record = (Inr stored, t) \<longrightarrow>
         createMemoryPaymentImportReviewRecord t record = (Inr stored, t))"
proof (intro conjI allI impI)
  show "import_keys_distinct s" by (rule import_run.reachable_inv [OF assms])
  fix r stored t
  assume "createMemoryPaymentImportReviewRecord s r = (Inr stored, t)"
  then obtain ys where ys: "create_once import_key pir_normalizedEvidenceFingerprint (pis_paymentImportReviewRecords s) r = (Inr stored, ys)"
    and t: "t = s\<lparr>pis_paymentImportReviewRecords := ys\<rparr>"
    by (auto simp: import_create_defs split: prod.splits)
  have "create_once import_key pir_normalizedEvidenceFingerprint ys r = (Inr stored, ys)"
    by (rule create_once.retry_same [OF TrueI ys])
  then show "createMemoryPaymentImportReviewRecord t r = (Inr stored, t)" by (simp add: import_create_defs t)
qed

subsection \<open>Resolutions follow the latest review\<close>

definition refund_reviews :: "PaymentImportReviewRecord \<Rightarrow> PaymentImportRefundChargebackReviewRecord list
    \<Rightarrow> PaymentImportRefundChargebackReviewRecord list" where
  "refund_reviews r reviews = filter (\<lambda>v. rcr_paymentImportReviewRecordId v = pir_id r
     \<and> Some (rcr_category v) = map_option cue_category (paymentImportRefundChargebackReviewCue r)) reviews"

definition stamped_reviews :: "PaymentImportRefundChargebackReviewRecord list \<Rightarrow> bool" where
  "stamped_reviews reviews \<longleftrightarrow> list_all (\<lambda>v. rcr_id v \<noteq> [] \<and> date_parse (rcr_reviewedAt v) \<noteq> None) reviews"

text \<open>
  A resolution can be recorded for an import with a refund or chargeback cue exactly when a review of
  that category exists; it takes posture and reviewer from a latest such review, the reasons of all of
  them, and its flags say that nothing was moved, refunded or sent.
\<close>

theorem resolution_follows_latest_review:
  assumes "stamped_reviews reviews"
    and "paymentImportRefundChargebackResolutionPacketPreview importRecord reviews = Some preview"
  shows "case paymentImportRefundChargebackResolutionRecordFromPreview inp preview of
      None \<Rightarrow> refund_reviews importRecord reviews = []
    | Some res \<Rightarrow> (\<exists>v \<in> set (refund_reviews importRecord reviews).
          (\<forall>w \<in> set (refund_reviews importRecord reviews). time_of rcr_reviewedAt w \<le> time_of rcr_reviewedAt v)
          \<and> rrr_latestReviewId res = rcr_id v \<and> rrr_latestReviewerMetadata res = reviewer_metadata v
          \<and> rrr_resolutionPosture res = resolution_posture (Some v))
        \<and> set (rrr_reasonCategories res) = rcr_reason ` set (refund_reviews importRecord reviews)
        \<and> rrr_noSideEffectFlags res = ppv_noSideEffectFlags preview \<and> rrr_matterId res = pir_matterId importRecord"
proof -
  obtain cue where cue: "paymentImportRefundChargebackReviewCue importRecord = Some cue"
    using assms(2) by (auto simp: paymentImportRefundChargebackResolutionPacketPreview_def split: option.splits)
  let ?revs = "refund_reviews importRecord reviews"
  have revs: "filter (\<lambda>review. rcr_paymentImportReviewRecordId review = pir_id importRecord \<and> rcr_category review = cue_category cue) reviews = ?revs"
    by (simp add: refund_reviews_def cue)
  note preview = assms(2) [unfolded paymentImportRefundChargebackResolutionPacketPreview_def cue option.case revs Let_def, THEN option.inject [THEN iffD1], symmetric]
  have ok: "v \<in> set ?revs \<Longrightarrow> rcr_id v \<noteq> [] \<and> date_parse (rcr_reviewedAt v) \<noteq> None" for v
    using assms(1) by (auto simp: refund_reviews_def stamped_reviews_def list_all_iff)
  show ?thesis
  proof (cases "head (js_sort newestRefundReviewFirst ?revs)")
    case None
    then have "?revs = []" by (cases "js_sort newestRefundReviewFirst ?revs") auto
    then show ?thesis
      by (simp add: preview paymentImportRefundChargebackResolutionRecordFromPreview_def resolution_posture_def)
  next
    case (Some v)
    then have v: "v \<in> set ?revs" "\<forall>w \<in> set ?revs. time_of rcr_reviewedAt w \<le> time_of rcr_reviewedAt v"
      using head_newest [of rcr_reviewedAt ?revs v] ok by (auto simp: newestRefundReviewFirst_def [abs_def])
    have "resolution_posture (Some v) \<noteq> Posture_awaiting_decision" by (simp add: resolution_posture_def)
    then show ?thesis
      using v ok [OF v(1)]
      by (auto simp: preview Some paymentImportRefundChargebackResolutionRecordFromPreview_def only_truthy_def truthy_def
          defaultPaymentImportRefundChargebackResolutionRecordNoSideEffectFlags_def)
  qed
qed

subsection \<open>Examples\<close>

definition example_import :: PaymentImportReviewRecord where
  "example_import =
     \<lparr>pir_id = ''import-1'', pir_firmId = ''f'', pir_matterId = ''m'', pir_providerLabel = ''processor'', pir_eventFamily = Family_payment,
      pir_eventStatus = ''refund_observed'', pir_externalEventId = ''evt-1'', pir_externalPaymentId = None, pir_externalDepositId = None,
      pir_amountCents = 100, pir_currency = ''CAD'', pir_observedAt = None, pir_importedAt = ''2026-02-01'', pir_importedByUserId = ''u'',
      pir_candidateInvoiceId = None, pir_candidateHostedPaymentRequestId = None, pir_candidateManualPaymentId = None,
      pir_duplicateOfRecordId = None, pir_conflictReason = None, pir_reviewState = ImportState_needs_review,
      pir_normalizedEvidenceFingerprint = ''print'', pir_boundaries = defaultPaymentImportReviewBoundary, pir_updatedAt = ''2026-02-01''\<rparr>"

definition example_refund_review :: "string \<Rightarrow> PaymentImportRefundChargebackReviewDecision \<Rightarrow> string \<Rightarrow> PaymentImportRefundChargebackReviewRecord" where
  "example_refund_review i decision date =
     \<lparr>rcr_id = i, rcr_firmId = ''f'', rcr_matterId = ''m'', rcr_paymentImportReviewRecordId = ''import-1'', rcr_category = Category_refund,
      rcr_decision = decision, rcr_reason = RefundReason_refund_observed, rcr_reviewerEvidencePresent = True, rcr_idempotencyKey = i,
      rcr_decisionFingerprint = i, rcr_boundaries = defaultPaymentImportRefundChargebackReviewBoundary, rcr_reviewedByUserId = ''u'',
      rcr_reviewedAt = date, rcr_createdAt = date\<rparr>"

definition example_refund_reviews :: "PaymentImportRefundChargebackReviewRecord list" where
  "example_refund_reviews = [example_refund_review ''a'' Refund_needs_more_evidence ''2026-02-02'',
     example_refund_review ''b'' Refund_exception_confirmed ''2026-02-03'']"

definition example_resolution_input :: ResolutionInput where
  "example_resolution_input = \<lparr>rin_id = ''r'', rin_firmId = ''f'', rin_idempotencyKey = ''k'', rin_resolutionFingerprint = ''p'',
     rin_recordedByUserId = ''u'', rin_recordedAt = ''2026-02-04''\<rparr>"

definition empty_imports :: MemoryPaymentImportReviewRecordStore where
  "empty_imports = \<lparr>pis_paymentImportReviewRecords = [], pis_paymentImportDepositMatchReviews = [],
     pis_paymentImportRefundChargebackReviews = [], pis_paymentImportRefundChargebackResolutionRecords = []\<rparr>"

theorem resolution_follows_latest_review_witness:
  "\<exists>preview res. paymentImportRefundChargebackResolutionPacketPreview example_import example_refund_reviews = Some preview
    \<and> paymentImportRefundChargebackResolutionRecordFromPreview example_resolution_input preview = Some res
    \<and> rcr_reason ` set (refund_reviews example_import example_refund_reviews) = set (rrr_reasonCategories res)
    \<and> rrr_resolutionPosture res = Posture_confirmed_exception"
proof -
  have stamped: "stamped_reviews example_refund_reviews" by code_simp
  define preview where "preview = the (paymentImportRefundChargebackResolutionPacketPreview example_import example_refund_reviews)"
  define res where "res = the (paymentImportRefundChargebackResolutionRecordFromPreview example_resolution_input preview)"
  have p: "paymentImportRefundChargebackResolutionPacketPreview example_import example_refund_reviews = Some preview"
    unfolding preview_def by code_simp
  have r: "paymentImportRefundChargebackResolutionRecordFromPreview example_resolution_input preview = Some res"
    unfolding res_def preview_def by code_simp
  have "rrr_resolutionPosture res = Posture_confirmed_exception" unfolding res_def preview_def by code_simp
  then show ?thesis
    using resolution_follows_latest_review [OF stamped p, of example_resolution_input] p r by auto
qed

theorem imports_are_recorded_once_witness:
  "createMemoryPaymentImportReviewRecord empty_imports example_import
     = (Inr example_import, empty_imports\<lparr>pis_paymentImportReviewRecords := [example_import]\<rparr>)
   \<and> createMemoryPaymentImportReviewRecord (empty_imports\<lparr>pis_paymentImportReviewRecords := [example_import]\<rparr>) example_import
     = (Inr example_import, empty_imports\<lparr>pis_paymentImportReviewRecords := [example_import]\<rparr>)"
proof -
  have "reachable no_imports import_step empty_imports"
    by (rule reach_init) (simp add: no_imports_def empty_imports_def)
  moreover have "createMemoryPaymentImportReviewRecord empty_imports example_import
     = (Inr example_import, empty_imports\<lparr>pis_paymentImportReviewRecords := [example_import]\<rparr>)"
    by (simp add: import_create_defs create_once_def empty_imports_def)
  ultimately show ?thesis using imports_are_recorded_once by blast
qed

end
