(* ===== verification/Hosted_Payments.thy ===== *)
theory Hosted_Payments
  imports Billing
begin

section \<open>Hosted payment requests and the expense category profile\<close>

text \<open>
  Of packages/domain/src/billing.ts, the records of a hosted payment request with their defaults and the
  settlement review, and the summary of expense categories for an accounting export;
  packages/database/src/repository/hosted-payment-requests/memory.ts, the store of the requests.
\<close>

subsection \<open>Data\<close>

datatype HostedPaymentRequestStatus = Hosted_ready_to_send | Hosted_sent | Hosted_viewed
    | Hosted_cancelled | Hosted_expired

datatype BillDeliveryStatus = Delivery_not_sent | Delivery_queued | Delivery_sent | Delivery_failed

datatype BillDeliveryChannel = Channel_none | Channel_email | Channel_portal | Channel_manual

datatype BillReminderStatus = Reminder_not_scheduled | Reminder_scheduled | Reminder_sent
    | Reminder_paused

datatype PaymentPlanPlaceholderStatus = Plan_not_offered | Plan_offered | Plan_client_requested
    | Plan_staff_review

datatype PaymentPlanPlaceholderCadence = Cadence_weekly | Cadence_biweekly | Cadence_monthly

datatype CreditWriteOffPostureStatus = WriteOff_none | WriteOff_credit_review
    | WriteOff_write_off_review

datatype PaymentProcessorProviderKey = Processor_stripe

datatype HostedPaymentProcessorStatus = Checkout_not_started | Checkout_checkout_session_created

datatype PaymentSettlementReviewStatus = Settlement_not_received | Settlement_needs_review

datatype PaymentSettlementEventType = SettlementEvent_checkout_session_completed
    | SettlementEvent_payment_intent_succeeded | SettlementEvent_payment_intent_payment_failed
    | SettlementEvent_charge_refunded | SettlementEvent_charge_dispute_created

datatype PaymentSettlementPaymentStatus = Settled_paid | Settled_unpaid | Settled_failed
    | Settled_refunded | Settled_disputed | Settled_unknown

record BillDeliveryState =
  bds_status :: BillDeliveryStatus
  bds_channel :: BillDeliveryChannel
  bds_recipientCount :: int
  bds_deliveredAt :: "string option"
  bds_lastAttemptAt :: "string option"
  bds_failureSummary :: "string option"

record BillReminderState =
  brs_status :: BillReminderStatus
  brs_reminderCount :: int
  brs_nextReminderAt :: "string option"
  brs_lastReminderAt :: "string option"
  brs_pausedReason :: "string option"

record PaymentPlanPlaceholder =
  ppp_status :: PaymentPlanPlaceholderStatus
  ppp_installmentCount :: "int option"
  ppp_cadence :: "PaymentPlanPlaceholderCadence option"
  ppp_startsAt :: "string option"
  ppp_reviewNote :: "string option"
  ppp_enforcement :: string

record CreditWriteOffPosture =
  cwo_status :: CreditWriteOffPostureStatus
  cwo_amountCents :: "int option"
  cwo_reason :: "string option"
  cwo_movement :: string

record PaymentSettlementWebhookBoundary =
  pwb_signatureVerified :: bool
  pwb_rawWebhookBodyStored :: bool
  pwb_automaticInvoiceMutation :: bool
  pwb_automaticReconciliation :: bool
  pwb_trustPosting :: bool
  pwb_refundHandling :: string
  pwb_chargebackHandling :: string

record PaymentSettlementReview =
  psr_status :: PaymentSettlementReviewStatus
  psr_provider :: "PaymentProcessorProviderKey option"
  psr_eventType :: "PaymentSettlementEventType option"
  psr_paymentStatus :: "PaymentSettlementPaymentStatus option"
  psr_externalEventId :: "string option"
  psr_externalSessionId :: "string option"
  psr_amountCents :: "int option"
  psr_currency :: "string option"
  psr_observedAt :: "string option"
  psr_receivedAt :: "string option"
  psr_reviewAction :: string
  psr_invoiceBalanceMutation :: string
  psr_reconciliationMutation :: string
  psr_trustPosting :: string
  psr_webhookBoundary :: PaymentSettlementWebhookBoundary

record HostedPaymentProcessorState =
  hpp_status :: HostedPaymentProcessorStatus
  hpp_provider :: "PaymentProcessorProviderKey option"
  hpp_externalSessionId :: "string option"
  hpp_checkoutUrl :: "string option"
  hpp_createdAt :: "string option"
  hpp_expiresAt :: "string option"
  hpp_settlementReview :: "PaymentSettlementReview option"

record HostedPaymentRequestRecord =
  hpr_id :: string
  hpr_firmId :: string
  hpr_matterId :: string
  hpr_invoiceId :: string
  hpr_clientContactId :: "string option"
  hpr_status :: HostedPaymentRequestStatus
  hpr_amountCents :: int
  hpr_currency :: string
  hpr_hostedPath :: string
  hpr_delivery :: BillDeliveryState
  hpr_reminder :: BillReminderState
  hpr_paymentPlan :: PaymentPlanPlaceholder
  hpr_creditWriteOffPosture :: CreditWriteOffPosture
  hpr_processor :: HostedPaymentProcessorState
  hpr_evidence :: "((string \<times> js_value) list) option"
  hpr_createdByUserId :: string
  hpr_createdAt :: string
  hpr_updatedAt :: string
  hpr_expiresAt :: "string option"

subsection \<open>Defaults\<close>

definition defaultBillDeliveryState :: BillDeliveryState where
  "defaultBillDeliveryState = \<lparr>bds_status = Delivery_not_sent, bds_channel = Channel_none, bds_recipientCount = 0,
     bds_deliveredAt = None, bds_lastAttemptAt = None, bds_failureSummary = None\<rparr>"

definition defaultBillReminderState :: BillReminderState where
  "defaultBillReminderState = \<lparr>brs_status = Reminder_not_scheduled, brs_reminderCount = 0, brs_nextReminderAt = None,
     brs_lastReminderAt = None, brs_pausedReason = None\<rparr>"

definition defaultPaymentPlanPlaceholder :: PaymentPlanPlaceholder where
  "defaultPaymentPlanPlaceholder = \<lparr>ppp_status = Plan_not_offered, ppp_installmentCount = None, ppp_cadence = None,
     ppp_startsAt = None, ppp_reviewNote = None, ppp_enforcement = ''none''\<rparr>"

definition defaultCreditWriteOffPosture :: CreditWriteOffPosture where
  "defaultCreditWriteOffPosture = \<lparr>cwo_status = WriteOff_none, cwo_amountCents = None, cwo_reason = None, cwo_movement = ''none''\<rparr>"

definition defaultHostedPaymentProcessorState :: HostedPaymentProcessorState where
  "defaultHostedPaymentProcessorState = \<lparr>hpp_status = Checkout_not_started, hpp_provider = None, hpp_externalSessionId = None,
     hpp_checkoutUrl = None, hpp_createdAt = None, hpp_expiresAt = None, hpp_settlementReview = None\<rparr>"

definition defaultPaymentSettlementReview :: PaymentSettlementReview where
  "defaultPaymentSettlementReview =
     \<lparr>psr_status = Settlement_not_received, psr_provider = None, psr_eventType = None, psr_paymentStatus = None,
      psr_externalEventId = None, psr_externalSessionId = None, psr_amountCents = None, psr_currency = None,
      psr_observedAt = None, psr_receivedAt = None, psr_reviewAction = ''staff_reconciliation_review_required'',
      psr_invoiceBalanceMutation = ''none'', psr_reconciliationMutation = ''none'', psr_trustPosting = ''none'',
      psr_webhookBoundary =
        \<lparr>pwb_signatureVerified = False, pwb_rawWebhookBodyStored = False, pwb_automaticInvoiceMutation = False,
         pwb_automaticReconciliation = False, pwb_trustPosting = False, pwb_refundHandling = ''review_only'',
         pwb_chargebackHandling = ''review_only''\<rparr>\<rparr>"

record SettlementReviewInput =
  sri_provider :: PaymentProcessorProviderKey
  sri_eventType :: PaymentSettlementEventType
  sri_paymentStatus :: PaymentSettlementPaymentStatus
  sri_externalEventId :: string
  sri_externalSessionId :: "string option"
  sri_amountCents :: "int option"
  sri_currency :: "string option"
  sri_observedAt :: "string option"
  sri_receivedAt :: "string option"

definition buildPaymentSettlementReview :: "SettlementReviewInput \<Rightarrow> PaymentSettlementReview" where
  "buildPaymentSettlementReview inp =
     defaultPaymentSettlementReview\<lparr>psr_provider := Some (sri_provider inp), psr_eventType := Some (sri_eventType inp),
       psr_paymentStatus := Some (sri_paymentStatus inp), psr_externalEventId := Some (sri_externalEventId inp),
       psr_externalSessionId := sri_externalSessionId inp, psr_amountCents := sri_amountCents inp, psr_currency := sri_currency inp,
       psr_observedAt := sri_observedAt inp, psr_receivedAt := sri_receivedAt inp, psr_status := Settlement_needs_review\<rparr>"

definition hostedPaymentRequestPath :: "string \<Rightarrow> string" where
  "hostedPaymentRequestPath requestId = ''/payments/requests/'' @ requestId"

definition hasHostedPaymentRequestEvidence :: "HostedPaymentRequestRecord \<Rightarrow> bool" where
  "hasHostedPaymentRequestEvidence request = (case hpr_evidence request of None \<Rightarrow> False | Some evidence \<Rightarrow> evidence \<noteq> [])"

subsection \<open>The store of requests\<close>

text \<open>An update names the fields it gives; an optional field may be given as undefined.\<close>

record HostedPaymentRequestUpdate =
  hpu_status :: "HostedPaymentRequestStatus option"
  hpu_delivery :: "BillDeliveryState option"
  hpu_reminder :: "BillReminderState option"
  hpu_paymentPlan :: "PaymentPlanPlaceholder option"
  hpu_creditWriteOffPosture :: "CreditWriteOffPosture option"
  hpu_processor :: "HostedPaymentProcessorState option"
  hpu_evidence :: "(string \<times> js_value) list option option"
  hpu_expiresAt :: "string option option"
  hpu_updatedAt :: "string option"

record MemoryHostedPaymentRequestStore =
  hps_hostedPaymentRequests :: "HostedPaymentRequestRecord list"

definition is_hosted_request :: "string \<Rightarrow> string \<Rightarrow> HostedPaymentRequestRecord \<Rightarrow> bool" where
  "is_hosted_request firmId requestId request = (hpr_firmId request = firmId \<and> hpr_id request = requestId)"

definition createMemoryHostedPaymentRequest ::
  "MemoryHostedPaymentRequestStore \<Rightarrow> HostedPaymentRequestRecord \<Rightarrow> HostedPaymentRequestRecord \<times> MemoryHostedPaymentRequestStore" where
  "createMemoryHostedPaymentRequest store request =
     (request, store\<lparr>hps_hostedPaymentRequests := hps_hostedPaymentRequests store @ [request]\<rparr>)"

definition getMemoryHostedPaymentRequest ::
  "MemoryHostedPaymentRequestStore \<Rightarrow> string \<Rightarrow> string \<Rightarrow> HostedPaymentRequestRecord option" where
  "getMemoryHostedPaymentRequest store firmId requestId =
     List.find (is_hosted_request firmId requestId) (hps_hostedPaymentRequests store)"

definition listMemoryHostedPaymentRequests ::
  "MemoryHostedPaymentRequestStore \<Rightarrow> string \<Rightarrow> string option \<Rightarrow> string option \<Rightarrow> HostedPaymentRequestStatus option
    \<Rightarrow> HostedPaymentRequestRecord list" where
  "listMemoryHostedPaymentRequests store firmId matterId invoiceId status =
     filter (\<lambda>request. hpr_firmId request = firmId
       \<and> (\<not> truthy matterId \<or> Some (hpr_matterId request) = matterId)
       \<and> (\<not> truthy invoiceId \<or> Some (hpr_invoiceId request) = invoiceId)
       \<and> (status = None \<or> Some (hpr_status request) = status)) (hps_hostedPaymentRequests store)"

definition with_updates :: "HostedPaymentRequestRecord \<Rightarrow> HostedPaymentRequestUpdate \<Rightarrow> HostedPaymentRequestRecord" where
  "with_updates request updates =
     request\<lparr>hpr_status := or_else (hpu_status updates) (hpr_status request),
       hpr_delivery := or_else (hpu_delivery updates) (hpr_delivery request),
       hpr_reminder := or_else (hpu_reminder updates) (hpr_reminder request),
       hpr_paymentPlan := or_else (hpu_paymentPlan updates) (hpr_paymentPlan request),
       hpr_creditWriteOffPosture := or_else (hpu_creditWriteOffPosture updates) (hpr_creditWriteOffPosture request),
       hpr_processor := or_else (hpu_processor updates) (hpr_processor request),
       hpr_evidence := or_else (hpu_evidence updates) (hpr_evidence request),
       hpr_expiresAt := or_else (hpu_expiresAt updates) (hpr_expiresAt request),
       hpr_updatedAt := or_else (hpu_updatedAt updates) (hpr_updatedAt request)\<rparr>"

definition updateMemoryHostedPaymentRequest ::
  "MemoryHostedPaymentRequestStore \<Rightarrow> string \<Rightarrow> string \<Rightarrow> HostedPaymentRequestUpdate
    \<Rightarrow> HostedPaymentRequestRecord result \<times> MemoryHostedPaymentRequestStore" where
  "updateMemoryHostedPaymentRequest store firmId requestId updates =
     (case getMemoryHostedPaymentRequest store firmId requestId of
        None \<Rightarrow> (throw ''Hosted payment request was not found'', store)
      | Some existing \<Rightarrow>
          (Inr (with_updates existing updates),
           store\<lparr>hps_hostedPaymentRequests :=
             replace_where (is_hosted_request firmId requestId) (with_updates existing updates) (hps_hostedPaymentRequests store)\<rparr>))"

subsection \<open>Expense categories for an accounting export\<close>

datatype ExpenseCategoryAccountingExportProfileReviewBucket = Bucket_filing_service_disbursement
    | Bucket_delivery_disbursement | Bucket_research_cost_review | Bucket_travel_policy_review
    | Bucket_reimbursable_expense_review | Bucket_non_reimbursable_expense_review

record ExpenseCategoryScope =
  ecs_firmDefault :: bool
  ecs_matterScoped :: bool
  ecs_practiceAreaCount :: int
  ecs_jurisdictionCount :: int

record ExpenseCategoryAccountingExportProfileMapping =
  ecm_code :: string
  ecm_label :: string
  ecm_active :: bool
  ecm_defaultReimbursable :: bool
  ecm_reimbursableAllowed :: bool
  ecm_scope :: ExpenseCategoryScope
  ecm_reviewBucket :: ExpenseCategoryAccountingExportProfileReviewBucket
  ecm_reviewCue :: string
  ecm_exportedValueSource :: string
  ecm_profileFieldKey :: string
  ecm_localPreviewOnly :: bool

record ExpenseCategoryCounts =
  ecc_total :: int
  ecc_active :: int
  ecc_inactive :: int
  ecc_defaultReimbursable :: int
  ecc_reimbursableAllowed :: int
  ecc_firmDefault :: int
  ecc_scoped :: int
  ecc_mapped :: int
  ecc_omitted :: int
  ecc_mappingLimit :: int

record ExpenseCategorySafeguards =
  esg_externalAccountingProvider :: bool
  esg_exportSerializationChange :: bool
  esg_invoiceRecalculation :: bool
  esg_paymentMutation :: bool
  esg_trustPosting :: bool
  esg_certifiedAccountingClaim :: bool

record ExpenseCategoryAccountingExportProfileSummary =
  ecp_status :: string
  ecp_profileId :: string
  ecp_label :: string
  ecp_source :: string
  ecp_financialProfileReference :: string
  ecp_categoryCounts :: ExpenseCategoryCounts
  ecp_mappings :: "ExpenseCategoryAccountingExportProfileMapping list"
  ecp_safeguards :: ExpenseCategorySafeguards

definition expenseCategoryAccountingExportProfileMappingLimit :: nat where
  "expenseCategoryAccountingExportProfileMappingLimit = 8"

definition expenseCategoryAccountingReviewBucket ::
  "BillingExpenseCategoryRecord \<Rightarrow> ExpenseCategoryAccountingExportProfileReviewBucket" where
  "expenseCategoryAccountingReviewBucket category =
     (let text = to_lower_case (ecat_code category @ '' '' @ ecat_label category)
      in if str_includes ''filing'' text \<or> str_includes ''registry'' text \<or> str_includes ''service'' text
         then Bucket_filing_service_disbursement
         else if str_includes ''courier'' text \<or> str_includes ''postage'' text \<or> str_includes ''delivery'' text
         then Bucket_delivery_disbursement
         else if str_includes ''research'' text \<or> str_includes ''database'' text then Bucket_research_cost_review
         else if str_includes ''travel'' text \<or> str_includes ''meal'' text then Bucket_travel_policy_review
         else if ecat_defaultReimbursable category \<and> ecat_reimbursableAllowed category then Bucket_reimbursable_expense_review
         else Bucket_non_reimbursable_expense_review)"

primrec expenseCategoryAccountingReviewCue :: "ExpenseCategoryAccountingExportProfileReviewBucket \<Rightarrow> string" where
  "expenseCategoryAccountingReviewCue Bucket_filing_service_disbursement = ''Confirm registry, filing, or service support before export review.''"
| "expenseCategoryAccountingReviewCue Bucket_delivery_disbursement = ''Confirm delivery purpose and support before export review.''"
| "expenseCategoryAccountingReviewCue Bucket_research_cost_review = ''Confirm billing agreement and research-cost posture before export review.''"
| "expenseCategoryAccountingReviewCue Bucket_travel_policy_review = ''Confirm policy, purpose, and support before export review.''"
| "expenseCategoryAccountingReviewCue Bucket_reimbursable_expense_review = ''Review reimbursable expense support before export review.''"
| "expenseCategoryAccountingReviewCue Bucket_non_reimbursable_expense_review = ''Review non-reimbursable expense posture before export review.''"

definition expenseCategoryAccountingMapping ::
  "BillingExpenseCategoryRecord \<Rightarrow> ExpenseCategoryAccountingExportProfileMapping" where
  "expenseCategoryAccountingMapping category =
     (let reviewBucket = expenseCategoryAccountingReviewBucket category
      in \<lparr>ecm_code = ecat_code category, ecm_label = ecat_label category, ecm_active = ecat_active category,
          ecm_defaultReimbursable = ecat_defaultReimbursable category, ecm_reimbursableAllowed = ecat_reimbursableAllowed category,
          ecm_scope = \<lparr>ecs_firmDefault = (\<not> truthy (ecat_matterId category) \<and> ecat_practiceAreas category = [] \<and> ecat_jurisdictions category = []),
            ecs_matterScoped = truthy (ecat_matterId category), ecs_practiceAreaCount = int (length (ecat_practiceAreas category)),
            ecs_jurisdictionCount = int (length (ecat_jurisdictions category))\<rparr>,
          ecm_reviewBucket = reviewBucket, ecm_reviewCue = expenseCategoryAccountingReviewCue reviewBucket,
          ecm_exportedValueSource = ''expense_category_label_snapshot'', ecm_profileFieldKey = ''expenseEntries.category'',
          ecm_localPreviewOnly = True\<rparr>)"

definition buildExpenseCategoryAccountingExportProfileSummary ::
  "(string \<Rightarrow> string \<Rightarrow> int) \<Rightarrow> BillingExpenseCategoryRecord list \<Rightarrow> ExpenseCategoryAccountingExportProfileSummary" where
  "buildExpenseCategoryAccountingExportProfileSummary collate categories =
     (let sortedCategories = js_sort (\<lambda>left right. collate (ecat_code left) (ecat_code right)) categories;
          mappings = map expenseCategoryAccountingMapping (take expenseCategoryAccountingExportProfileMappingLimit sortedCategories);
          total = int (length sortedCategories);
          scopedCategoryCount = count_where (\<lambda>category. truthy (ecat_matterId category) \<or> ecat_practiceAreas category \<noteq> []
            \<or> ecat_jurisdictions category \<noteq> []) sortedCategories
      in \<lparr>ecp_status = ''read_only_metadata_preview'', ecp_profileId = ''op_expense_category_accounting_summary'',
          ecp_label = ''OP expense category accounting summary'', ecp_source = ''open_practice_authored_metadata'',
          ecp_financialProfileReference = ''billing_operational_records_json'',
          ecp_categoryCounts = \<lparr>ecc_total = total, ecc_active = count_where ecat_active sortedCategories,
            ecc_inactive = count_where (\<lambda>category. \<not> ecat_active category) sortedCategories,
            ecc_defaultReimbursable = count_where ecat_defaultReimbursable sortedCategories,
            ecc_reimbursableAllowed = count_where ecat_reimbursableAllowed sortedCategories,
            ecc_firmDefault = total - scopedCategoryCount, ecc_scoped = scopedCategoryCount,
            ecc_mapped = int (length mappings), ecc_omitted = max 0 (total - int (length mappings)),
            ecc_mappingLimit = int expenseCategoryAccountingExportProfileMappingLimit\<rparr>,
          ecp_mappings = mappings,
          ecp_safeguards = \<lparr>esg_externalAccountingProvider = False, esg_exportSerializationChange = False,
            esg_invoiceRecalculation = False, esg_paymentMutation = False, esg_trustPosting = False,
            esg_certifiedAccountingClaim = False\<rparr>\<rparr>)"

subsection \<open>What an update changes\<close>

definition hosted_terms :: "HostedPaymentRequestRecord
    \<Rightarrow> string \<times> string \<times> string \<times> string \<times> string option \<times> int \<times> string \<times> string \<times> string \<times> string" where
  "hosted_terms r = (hpr_id r, hpr_firmId r, hpr_matterId r, hpr_invoiceId r, hpr_clientContactId r, hpr_amountCents r,
     hpr_currency r, hpr_hostedPath r, hpr_createdByUserId r, hpr_createdAt r)"

lemma hosted_terms_updates [simp]: "hosted_terms (with_updates r u) = hosted_terms r"
  by (simp add: hosted_terms_def with_updates_def)

lemma is_hosted_updates: "is_hosted_request f i r \<Longrightarrow> is_hosted_request f i (with_updates r u)"
  by (simp add: is_hosted_request_def with_updates_def)

lemma filter_replace_where: "p v \<Longrightarrow> filter (\<lambda>x. \<not> p x) (replace_where p v xs) = filter (\<lambda>x. \<not> p x) xs"
  by (induction xs) (auto simp: replace_where_def)

text \<open>
  An update of a hosted payment request answers with the request as it is then stored; of the stored
  requests it changes only those with the firm and the id, and when that pair is unique, invoice, amount,
  currency, path and origin of every request stay as they were created.
\<close>

theorem hosted_payment_terms_are_kept:
  assumes "distinct (map (\<lambda>r. (hpr_firmId r, hpr_id r)) (hps_hostedPaymentRequests s))"
    and "updateMemoryHostedPaymentRequest s firmId requestId updates = (Inr updated, t)"
  shows "getMemoryHostedPaymentRequest t firmId requestId = Some updated
    \<and> map hosted_terms (hps_hostedPaymentRequests t) = map hosted_terms (hps_hostedPaymentRequests s)
    \<and> filter (\<lambda>r. \<not> is_hosted_request firmId requestId r) (hps_hostedPaymentRequests t)
        = filter (\<lambda>r. \<not> is_hosted_request firmId requestId r) (hps_hostedPaymentRequests s)"
proof -
  let ?is = "is_hosted_request firmId requestId" and ?rs = "hps_hostedPaymentRequests s"
  obtain old where old: "List.find ?is ?rs = Some old" and u: "updated = with_updates old updates"
    and t: "hps_hostedPaymentRequests t = replace_where ?is updated ?rs"
    using assms(2) by (auto simp: updateMemoryHostedPaymentRequest_def getMemoryHostedPaymentRequest_def split: option.splits)
  have is_u: "?is updated" using find_Some_mem [OF old] u by (simp add: is_hosted_updates)
  have "r = old" if "r \<in> set ?rs" "?is r" for r
  proof (rule inj_onD)
    show "inj_on (\<lambda>r. (hpr_firmId r, hpr_id r)) (set ?rs)" using assms(1) by (simp add: distinct_map)
  qed (use that find_Some_mem [OF old] in \<open>auto simp: is_hosted_request_def\<close>)
  then have "map hosted_terms (replace_where ?is updated ?rs) = map hosted_terms ?rs"
    by (intro map_replace_where) (auto simp: u)
  moreover have "filter (\<lambda>r. \<not> ?is r) (replace_where ?is updated ?rs) = filter (\<lambda>r. \<not> ?is r) ?rs"
    by (rule filter_replace_where) (rule is_u)
  moreover have "List.find ?is (replace_where ?is updated ?rs) = Some updated"
    using find_replace_where [of ?is updated] is_u old by simp
  ultimately show ?thesis by (simp add: t getMemoryHostedPaymentRequest_def)
qed

lemma count_where_complement: "count_where p xs + count_where (\<lambda>x. \<not> p x) xs = int (length xs)"
  by (induction xs) auto

lemma count_where_le: "count_where p xs \<le> int (length xs)"
  by (simp add: count_where_def)

text \<open>The counts of the category profile partition the categories.\<close>

lemma expense_profile_counts:
  assumes "c = ecp_categoryCounts (buildExpenseCategoryAccountingExportProfileSummary collate categories)"
  shows "ecc_total c = int (length categories) \<and> ecc_active c + ecc_inactive c = ecc_total c
    \<and> ecc_firmDefault c + ecc_scoped c = ecc_total c \<and> 0 \<le> ecc_firmDefault c
    \<and> ecc_mapped c + ecc_omitted c = ecc_total c \<and> ecc_mapped c \<le> ecc_mappingLimit c"
  unfolding assms buildExpenseCategoryAccountingExportProfileSummary_def Let_def
  using count_where_complement [of ecat_active "js_sort (\<lambda>left right. collate (ecat_code left) (ecat_code right)) categories"]
    count_where_le [of _ "js_sort (\<lambda>left right. collate (ecat_code left) (ecat_code right)) categories"] by auto

subsection \<open>Example\<close>

definition example_hosted_request :: HostedPaymentRequestRecord where
  "example_hosted_request =
     \<lparr>hpr_id = ''h1'', hpr_firmId = ''f'', hpr_matterId = ''m'', hpr_invoiceId = ''i'', hpr_clientContactId = None, hpr_status = Hosted_sent,
      hpr_amountCents = 100, hpr_currency = ''CAD'', hpr_hostedPath = hostedPaymentRequestPath ''h1'', hpr_delivery = defaultBillDeliveryState,
      hpr_reminder = defaultBillReminderState, hpr_paymentPlan = defaultPaymentPlanPlaceholder,
      hpr_creditWriteOffPosture = defaultCreditWriteOffPosture, hpr_processor = defaultHostedPaymentProcessorState, hpr_evidence = None,
      hpr_createdByUserId = ''u'', hpr_createdAt = ''2026-01-01'', hpr_updatedAt = ''2026-01-01'', hpr_expiresAt = None\<rparr>"

definition example_hosted_update :: HostedPaymentRequestUpdate where
  "example_hosted_update = \<lparr>hpu_status = Some Hosted_viewed, hpu_delivery = None, hpu_reminder = None, hpu_paymentPlan = None,
     hpu_creditWriteOffPosture = None, hpu_processor = None, hpu_evidence = None, hpu_expiresAt = None, hpu_updatedAt = Some ''2026-01-02''\<rparr>"

theorem hosted_payment_terms_are_kept_witness:
  "\<exists>t. updateMemoryHostedPaymentRequest \<lparr>hps_hostedPaymentRequests = [example_hosted_request]\<rparr> ''f'' ''h1'' example_hosted_update
      = (Inr (with_updates example_hosted_request example_hosted_update), t)
    \<and> map hosted_terms (hps_hostedPaymentRequests t) = [hosted_terms example_hosted_request]"
proof -
  have "updateMemoryHostedPaymentRequest \<lparr>hps_hostedPaymentRequests = [example_hosted_request]\<rparr> ''f'' ''h1'' example_hosted_update
      = (Inr (with_updates example_hosted_request example_hosted_update),
         \<lparr>hps_hostedPaymentRequests = [with_updates example_hosted_request example_hosted_update]\<rparr>)"
    by (simp add: updateMemoryHostedPaymentRequest_def getMemoryHostedPaymentRequest_def is_hosted_request_def replace_where_def
        example_hosted_request_def)
  with hosted_payment_terms_are_kept [OF _ this] show ?thesis by simp
qed

end
