(* ===== verification/Payment_Import_Api.thy ===== *)
theory Payment_Import_Api
  imports Payment_Import Hosted_Payments Audit_Chain
begin

section \<open>The routes of the payment import\<close>

text \<open>
  apps/api/src/routes/billing/payment-import-review-records.ts: the five writing routes, from the point where
  the request is parsed and access to the matter is granted, with the fingerprints of
  apps/api/src/routes/idempotency.ts and the audit events of apps/api/src/routes/audit-events.ts. An
  \<open>ApiHttpError\<close> is its code. The clock, random identifiers and sha256 are arguments; a route reads the
  clock and draws identifiers in the order of \<open>ApiContext\<close>.
\<close>

subsection \<open>State and requests\<close>

record PaymentImportApi =
  api_bills :: MemoryBillingInvoicePaymentStore
  api_imports :: MemoryPaymentImportReviewRecordStore
  api_hosted :: MemoryHostedPaymentRequestStore
  api_audit :: MemoryAuditStore

record ApiContext =
  ctx_firmId :: string
  ctx_userId :: string
  ctx_now :: string
  ctx_uuid :: string
  ctx_auditId :: string
  ctx_auditNow :: string

record PaymentImportReviewBody =
  pbd_id :: "string option"
  pbd_matterId :: string
  pbd_providerLabel :: string
  pbd_eventFamily :: PaymentImportEventFamily
  pbd_eventStatus :: string
  pbd_externalEventId :: string
  pbd_externalPaymentId :: "string option"
  pbd_externalDepositId :: "string option"
  pbd_amountCents :: int
  pbd_currency :: string
  pbd_observedAt :: "string option"
  pbd_candidateInvoiceId :: "string option"
  pbd_candidateHostedPaymentRequestId :: "string option"
  pbd_candidateManualPaymentId :: "string option"
  pbd_duplicateOfRecordId :: "string option"
  pbd_conflictReason :: "PaymentImportReviewConflictReason option"

record DepositMatchReviewBody =
  dbd_id :: "string option"
  dbd_decision :: PaymentImportDepositMatchReviewDecision
  dbd_reason :: PaymentImportDepositMatchReviewReason
  dbd_idempotencyKey :: string

record RefundChargebackReviewBody =
  rbd_id :: "string option"
  rbd_decision :: PaymentImportRefundChargebackReviewDecision
  rbd_reason :: PaymentImportRefundChargebackReviewReason
  rbd_idempotencyKey :: string

record RefundChargebackResolutionRecordBody =
  xbd_id :: "string option"
  xbd_idempotencyKey :: string

text \<open>The refinement of the parser: a decision supports a candidate exactly when its reason says that the evidence matches.\<close>

definition depositMatchReviewBodyRefinement :: "DepositMatchReviewBody \<Rightarrow> bool" where
  "depositMatchReviewBodyRefinement body =
     (\<not> (dbd_decision body = DepositMatch_candidate_supported \<and> dbd_reason body \<noteq> MatchReason_candidate_evidence_matches)
      \<and> \<not> (dbd_decision body \<noteq> DepositMatch_candidate_supported \<and> dbd_reason body = MatchReason_candidate_evidence_matches))"

subsection \<open>Names, fingerprints and audit events\<close>

primrec family_name :: "PaymentImportEventFamily \<Rightarrow> string" where
  "family_name Family_payment = ''payment''"
| "family_name Family_deposit = ''deposit''"

primrec conflict_reason_name :: "PaymentImportReviewConflictReason \<Rightarrow> string" where
  "conflict_reason_name Conflict_duplicate = ''duplicate''"
| "conflict_reason_name Conflict_candidate_mismatch = ''candidate_mismatch''"
| "conflict_reason_name Conflict_amount_mismatch = ''amount_mismatch''"
| "conflict_reason_name Conflict_status_conflict = ''status_conflict''"

primrec match_decision_name :: "PaymentImportDepositMatchReviewDecision \<Rightarrow> string" where
  "match_decision_name DepositMatch_candidate_supported = ''candidate_supported''"
| "match_decision_name DepositMatch_candidate_rejected = ''candidate_rejected''"
| "match_decision_name DepositMatch_needs_more_evidence = ''needs_more_evidence''"

primrec match_reason_name :: "PaymentImportDepositMatchReviewReason \<Rightarrow> string" where
  "match_reason_name MatchReason_candidate_evidence_matches = ''candidate_evidence_matches''"
| "match_reason_name MatchReason_amount_mismatch = ''amount_mismatch''"
| "match_reason_name MatchReason_status_conflict = ''status_conflict''"
| "match_reason_name MatchReason_duplicate_or_conflict = ''duplicate_or_conflict''"
| "match_reason_name MatchReason_manual_payment_not_pending = ''manual_payment_not_pending''"
| "match_reason_name MatchReason_invoice_candidate_mismatch = ''invoice_candidate_mismatch''"
| "match_reason_name MatchReason_missing_reviewer_evidence = ''missing_reviewer_evidence''"

primrec category_name :: "PaymentImportRefundChargebackReviewCategory \<Rightarrow> string" where
  "category_name Category_refund = ''refund''"
| "category_name Category_chargeback = ''chargeback''"

primrec refund_decision_name :: "PaymentImportRefundChargebackReviewDecision \<Rightarrow> string" where
  "refund_decision_name Refund_exception_confirmed = ''exception_confirmed''"
| "refund_decision_name Refund_exception_rejected = ''exception_rejected''"
| "refund_decision_name Refund_needs_more_evidence = ''needs_more_evidence''"

primrec refund_reason_name :: "PaymentImportRefundChargebackReviewReason \<Rightarrow> string" where
  "refund_reason_name RefundReason_refund_observed = ''refund_observed''"
| "refund_reason_name RefundReason_chargeback_observed = ''chargeback_observed''"
| "refund_reason_name RefundReason_duplicate_or_conflict = ''duplicate_or_conflict''"
| "refund_reason_name RefundReason_candidate_reference_mismatch = ''candidate_reference_mismatch''"
| "refund_reason_name RefundReason_missing_reviewer_evidence = ''missing_reviewer_evidence''"
| "refund_reason_name RefundReason_status_unclear = ''status_unclear''"

primrec posture_name :: "PaymentImportRefundChargebackResolutionPosture \<Rightarrow> string" where
  "posture_name Posture_awaiting_decision = ''awaiting_decision''"
| "posture_name Posture_confirmed_exception = ''confirmed_exception''"
| "posture_name Posture_rejected_exception = ''rejected_exception''"
| "posture_name Posture_needs_more_evidence = ''needs_more_evidence''"

primrec manual_payment_status_name :: "ManualPaymentStatus \<Rightarrow> string" where
  "manual_payment_status_name Payment_pending_reconciliation = ''pending_reconciliation''"
| "manual_payment_status_name Payment_received = ''received''"
| "manual_payment_status_name Payment_void = ''void''"

definition jopt :: "string option \<Rightarrow> js_value" where
  "jopt x = (case x of None \<Rightarrow> JUndefined | Some s \<Rightarrow> JStr s)"

primrec canonicalizeForIdempotency :: "js_value \<Rightarrow> string" where
  "canonicalizeForIdempotency JUndefined = ''null''"
| "canonicalizeForIdempotency JNull = ''null''"
| "canonicalizeForIdempotency (JBool b) = (if b then ''true'' else ''false'')"
| "canonicalizeForIdempotency (JNum n) = string_of_int n"
| "canonicalizeForIdempotency (JStr s) = json_quote s"
| "canonicalizeForIdempotency (JArr vs) = ''['' @ join '','' (map canonicalizeForIdempotency vs) @ '']''"
| "canonicalizeForIdempotency (JObj kvs) =
     ''{'' @ join '','' (map (\<lambda>(k, r). json_quote k @ '':'' @ r) (sort_key fst (map (map_prod id canonicalizeForIdempotency) kvs))) @ ''}''"

definition buildIdempotencyFingerprint :: "(string \<Rightarrow> string) \<Rightarrow> (string \<times> js_value) list \<Rightarrow> string" where
  "buildIdempotencyFingerprint sha256 kvs = sha256 (canonicalizeForIdempotency (JObj kvs))"

definition compactMetadata :: "(string \<times> js_value) list \<Rightarrow> (string \<times> js_value) list" where
  "compactMetadata metadata = filter (\<lambda>(_, v). v \<noteq> JUndefined) metadata"

definition appendRouteAuditEvent ::
  "(string \<Rightarrow> string) \<Rightarrow> ApiContext \<Rightarrow> string \<Rightarrow> string \<Rightarrow> string \<Rightarrow> (string \<times> js_value) list \<Rightarrow> MemoryAuditStore \<Rightarrow> MemoryAuditStore" where
  "appendRouteAuditEvent sha256 ctx action resourceType resourceId metadata audit =
     snd (appendMemoryAuditEvent sha256 audit
       \<lparr>aud_id = ctx_auditId ctx, aud_firmId = ctx_firmId ctx, aud_actorId = ctx_userId ctx, aud_action = action,
        aud_resourceType = resourceType, aud_resourceId = resourceId, aud_occurredAt = ctx_auditNow ctx,
        aud_metadata = compactMetadata metadata\<rparr>)"

definition import_boundary_fields :: "PaymentImportReviewBoundary \<Rightarrow> (string \<times> js_value) list" where
  "import_boundary_fields b =
     [(''rawProviderPayloadRetained'', JBool (pib_rawProviderPayloadRetained b)), (''invoiceBalanceMutation'', JStr (pib_invoiceBalanceMutation b)),
      (''settlementAutomation'', JBool (pib_settlementAutomation b)), (''reconciliationMutation'', JStr (pib_reconciliationMutation b)),
      (''refundHandling'', JStr (pib_refundHandling b)), (''chargebackHandling'', JStr (pib_chargebackHandling b)),
      (''trustPosting'', JStr (pib_trustPosting b)), (''providerCommand'', JStr (pib_providerCommand b)),
      (''clientNotification'', JStr (pib_clientNotification b)), (''depositMatching'', JStr (pib_depositMatching b))]"

definition match_boundary_fields :: "PaymentImportDepositMatchReviewBoundary \<Rightarrow> (string \<times> js_value) list" where
  "match_boundary_fields b =
     [(''rawProviderPayloadRetained'', JBool (dmb_rawProviderPayloadRetained b)), (''invoiceBalanceMutation'', JStr (dmb_invoiceBalanceMutation b)),
      (''settlementAutomation'', JBool (dmb_settlementAutomation b)), (''reconciliationMutation'', JStr (dmb_reconciliationMutation b)),
      (''refundHandling'', JStr (dmb_refundHandling b)), (''chargebackHandling'', JStr (dmb_chargebackHandling b)),
      (''trustPosting'', JStr (dmb_trustPosting b)), (''providerCommand'', JStr (dmb_providerCommand b)),
      (''clientNotification'', JStr (dmb_clientNotification b)), (''depositMatching'', JStr (dmb_depositMatching b))]"

definition refund_boundary_fields :: "PaymentImportRefundChargebackReviewBoundary \<Rightarrow> (string \<times> js_value) list" where
  "refund_boundary_fields b =
     [(''rawProviderPayloadRetained'', JBool (rcb_rawProviderPayloadRetained b)), (''refundArtifactRetained'', JBool (rcb_refundArtifactRetained b)),
      (''disputeArtifactRetained'', JBool (rcb_disputeArtifactRetained b)), (''invoiceBalanceMutation'', JStr (rcb_invoiceBalanceMutation b)),
      (''ledgerReversal'', JStr (rcb_ledgerReversal b)), (''trustPosting'', JStr (rcb_trustPosting b)),
      (''providerCommand'', JStr (rcb_providerCommand b)), (''clientNotification'', JStr (rcb_clientNotification b)),
      (''fundsMovement'', JStr (rcb_fundsMovement b)), (''refundHandling'', JStr (rcb_refundHandling b)),
      (''chargebackHandling'', JStr (rcb_chargebackHandling b))]"

definition no_side_effect_fields :: "PaymentImportRefundChargebackResolutionPacketNoSideEffectFlags \<Rightarrow> (string \<times> js_value) list" where
  "no_side_effect_fields b =
     [(''rawProviderPayloadRetained'', JBool (nse_rawProviderPayloadRetained b)), (''invoiceBalanceMutation'', JStr (nse_invoiceBalanceMutation b)),
      (''ledgerReversal'', JStr (nse_ledgerReversal b)), (''providerCommand'', JStr (nse_providerCommand b)),
      (''refundArtifactStorage'', JBool (nse_refundArtifactStorage b)), (''disputeArtifactStorage'', JBool (nse_disputeArtifactStorage b)),
      (''freeFormNotes'', JBool (nse_freeFormNotes b)), (''clientNotification'', JStr (nse_clientNotification b)),
      (''trustPosting'', JStr (nse_trustPosting b)), (''fundsMovement'', JStr (nse_fundsMovement b))]"

subsection \<open>Candidates\<close>

definition findManualPayment :: "MemoryBillingInvoicePaymentStore \<Rightarrow> string \<Rightarrow> string \<Rightarrow> PaymentWithAllocations option" where
  "findManualPayment store firmId paymentId =
     List.find (\<lambda>candidate. pay_id candidate = paymentId)
       (listMemoryPayments store firmId \<lparr>mopt_matterId = None, mopt_matterIds = None\<rparr> None)"

record CandidateLinks =
  lnk_invoiceMatterId :: "string option"
  lnk_invoiceId :: "string option"

definition invoice_link :: "PaymentImportApi \<Rightarrow> string \<Rightarrow> string \<Rightarrow> string option \<Rightarrow> CandidateLinks result" where
  "invoice_link api firmId matterId candidateInvoiceId =
     (let links = \<lparr>lnk_invoiceMatterId = None, lnk_invoiceId = candidateInvoiceId\<rparr>
      in if \<not> truthy candidateInvoiceId then Inr links
         else (case getMemoryInvoice (api_bills api) firmId (or_else candidateInvoiceId []) of
             None \<Rightarrow> throw ''CANDIDATE_INVOICE_NOT_FOUND''
           | Some invoice \<Rightarrow>
               if inv_matterId invoice \<noteq> matterId then throw ''PAYMENT_IMPORT_CANDIDATE_MATTER_MISMATCH''
               else Inr (links\<lparr>lnk_invoiceMatterId := Some (inv_matterId invoice)\<rparr>)))"

definition hosted_link ::
  "PaymentImportApi \<Rightarrow> string \<Rightarrow> string \<Rightarrow> string option \<Rightarrow> string option \<Rightarrow> CandidateLinks \<Rightarrow> CandidateLinks result" where
  "hosted_link api firmId matterId candidateInvoiceId candidateHostedPaymentRequestId links =
     (if \<not> truthy candidateHostedPaymentRequestId then Inr links
      else (case getMemoryHostedPaymentRequest (api_hosted api) firmId (or_else candidateHostedPaymentRequestId []) of
          None \<Rightarrow> throw ''CANDIDATE_PAYMENT_REQUEST_NOT_FOUND''
        | Some request \<Rightarrow>
            if hpr_matterId request \<noteq> matterId then throw ''PAYMENT_IMPORT_CANDIDATE_MATTER_MISMATCH''
            else if truthy candidateInvoiceId \<and> Some (hpr_invoiceId request) \<noteq> candidateInvoiceId
            then throw ''PAYMENT_IMPORT_CANDIDATE_INVOICE_MISMATCH''
            else Inr \<lparr>lnk_invoiceMatterId = either_id (lnk_invoiceMatterId links) (Some (hpr_matterId request)),
              lnk_invoiceId = either_id (lnk_invoiceId links) (Some (hpr_invoiceId request))\<rparr>))"

definition payment_link ::
  "PaymentImportApi \<Rightarrow> string \<Rightarrow> string \<Rightarrow> string option \<Rightarrow> CandidateLinks \<Rightarrow> PaymentWithAllocations option result" where
  "payment_link api firmId matterId candidateManualPaymentId links =
     (if \<not> truthy candidateManualPaymentId then Inr None
      else (case findManualPayment (api_bills api) firmId (or_else candidateManualPaymentId []) of
          None \<Rightarrow> throw ''CANDIDATE_MANUAL_PAYMENT_NOT_FOUND''
        | Some payment \<Rightarrow>
            if pay_matterId payment \<noteq> matterId then throw ''PAYMENT_IMPORT_CANDIDATE_MATTER_MISMATCH''
            else if truthy (lnk_invoiceId links) \<and> truthy (pay_invoiceId payment) \<and> pay_invoiceId payment \<noteq> lnk_invoiceId links
            then throw ''PAYMENT_IMPORT_CANDIDATE_INVOICE_MISMATCH''
            else Inr (Some payment)))"

definition assertCandidateLinks ::
  "PaymentImportApi \<Rightarrow> string \<Rightarrow> string \<Rightarrow> string option \<Rightarrow> string option \<Rightarrow> string option \<Rightarrow> PaymentWithAllocations option result" where
  "assertCandidateLinks api firmId matterId candidateInvoiceId candidateHostedPaymentRequestId candidateManualPaymentId =
     bind_result (invoice_link api firmId matterId candidateInvoiceId) (\<lambda>invoiceLinks.
     bind_result (hosted_link api firmId matterId candidateInvoiceId candidateHostedPaymentRequestId invoiceLinks) (\<lambda>links.
     bind_result (payment_link api firmId matterId candidateManualPaymentId links) (\<lambda>payment.
     if truthy (lnk_invoiceMatterId links) \<and> lnk_invoiceMatterId links \<noteq> Some matterId
     then throw ''PAYMENT_IMPORT_CANDIDATE_MATTER_MISMATCH'' else Inr payment)))"

definition assertDepositMatchReviewRecord :: "PaymentImportReviewRecord \<Rightarrow> unit result" where
  "assertDepositMatchReviewRecord record =
     (if pir_eventFamily record \<noteq> Family_deposit then throw ''PAYMENT_IMPORT_DEPOSIT_MATCH_REVIEW_UNSUPPORTED''
      else if \<not> truthy (pir_candidateManualPaymentId record) then throw ''PAYMENT_IMPORT_DEPOSIT_MATCH_CANDIDATE_REQUIRED''
      else Inr ())"

definition assertCandidateSupportedAllowed :: "PaymentImportReviewRecord \<Rightarrow> 'p ManualPaymentRecord_scheme \<Rightarrow> unit result" where
  "assertCandidateSupportedAllowed record manualPayment =
     (if truthy (pir_duplicateOfRecordId record) \<or> pir_conflictReason record \<noteq> None
      then throw ''PAYMENT_IMPORT_DEPOSIT_MATCH_CONFLICT_REVIEW_REQUIRED''
      else if pay_status manualPayment \<noteq> Payment_pending_reconciliation then throw ''PAYMENT_IMPORT_DEPOSIT_MATCH_PAYMENT_NOT_PENDING''
      else if pay_amountCents manualPayment \<noteq> pir_amountCents record then throw ''PAYMENT_IMPORT_DEPOSIT_MATCH_AMOUNT_MISMATCH''
      else Inr ())"

definition latestDepositMatchReview :: "PaymentImportDepositMatchReviewRecord list \<Rightarrow> PaymentImportDepositMatchReviewRecord option" where
  "latestDepositMatchReview reviews = head (js_sort newestMatchReviewFirst reviews)"

definition rethrowIdempotencyConflict :: "'a result \<Rightarrow> 'a result" where
  "rethrowIdempotencyConflict r =
     (if r = throw ''Idempotency key was reused with a different payload'' then throw ''IDEMPOTENCY_KEY_CONFLICT'' else r)"

subsection \<open>Recording an event\<close>

definition import_evidence :: "PaymentImportReviewBody \<Rightarrow> (string \<times> js_value) list" where
  "import_evidence body =
     [(''providerLabel'', JStr (pbd_providerLabel body)), (''eventFamily'', JStr (family_name (pbd_eventFamily body))),
      (''eventStatus'', JStr (pbd_eventStatus body)), (''externalEventId'', JStr (pbd_externalEventId body)),
      (''externalPaymentId'', jopt (pbd_externalPaymentId body)), (''externalDepositId'', jopt (pbd_externalDepositId body)),
      (''amountCents'', JNum (pbd_amountCents body)), (''currency'', JStr (pbd_currency body)),
      (''observedAt'', jopt (pbd_observedAt body)), (''candidateInvoiceId'', jopt (pbd_candidateInvoiceId body)),
      (''candidateHostedPaymentRequestId'', jopt (pbd_candidateHostedPaymentRequestId body)),
      (''candidateManualPaymentId'', jopt (pbd_candidateManualPaymentId body)),
      (''duplicateOfRecordId'', jopt (pbd_duplicateOfRecordId body)),
      (''conflictReason'', jopt (map_option conflict_reason_name (pbd_conflictReason body))),
      (''boundaries'', JObj (import_boundary_fields defaultPaymentImportReviewBoundary))]"

definition import_record :: "(string \<Rightarrow> string) \<Rightarrow> ApiContext \<Rightarrow> PaymentImportReviewBody \<Rightarrow> PaymentImportReviewRecord" where
  "import_record sha256 ctx body =
     \<lparr>pir_id = or_else (pbd_id body) (ctx_uuid ctx), pir_firmId = ctx_firmId ctx, pir_matterId = pbd_matterId body,
      pir_providerLabel = pbd_providerLabel body, pir_eventFamily = pbd_eventFamily body, pir_eventStatus = pbd_eventStatus body,
      pir_externalEventId = pbd_externalEventId body, pir_externalPaymentId = pbd_externalPaymentId body,
      pir_externalDepositId = pbd_externalDepositId body, pir_amountCents = pbd_amountCents body, pir_currency = pbd_currency body,
      pir_observedAt = pbd_observedAt body, pir_importedAt = ctx_now ctx, pir_importedByUserId = ctx_userId ctx,
      pir_candidateInvoiceId = pbd_candidateInvoiceId body,
      pir_candidateHostedPaymentRequestId = pbd_candidateHostedPaymentRequestId body,
      pir_candidateManualPaymentId = pbd_candidateManualPaymentId body, pir_duplicateOfRecordId = pbd_duplicateOfRecordId body,
      pir_conflictReason = pbd_conflictReason body, pir_reviewState = ImportState_needs_review,
      pir_normalizedEvidenceFingerprint = buildIdempotencyFingerprint sha256 (import_evidence body),
      pir_boundaries = defaultPaymentImportReviewBoundary, pir_updatedAt = ctx_now ctx\<rparr>"

definition import_audit :: "PaymentImportReviewRecord \<Rightarrow> (string \<times> js_value) list" where
  "import_audit created =
     (let cue = paymentImportRefundChargebackReviewCue created
      in [(''matterId'', JStr (pir_matterId created)), (''paymentImportReviewRecordId'', JStr (pir_id created)),
          (''providerLabel'', JStr (pir_providerLabel created)), (''eventFamily'', JStr (family_name (pir_eventFamily created))),
          (''eventStatus'', JStr (pir_eventStatus created)), (''externalEventId'', JStr (pir_externalEventId created)),
          (''externalPaymentIdPresent'', JBool (truthy (pir_externalPaymentId created))),
          (''externalDepositIdPresent'', JBool (truthy (pir_externalDepositId created))),
          (''amountCents'', JNum (pir_amountCents created)), (''currency'', JStr (pir_currency created)),
          (''candidateInvoiceId'', jopt (pir_candidateInvoiceId created)),
          (''candidateHostedPaymentRequestId'', jopt (pir_candidateHostedPaymentRequestId created)),
          (''candidateManualPaymentId'', jopt (pir_candidateManualPaymentId created)),
          (''duplicateCuePresent'', JBool (truthy (pir_duplicateOfRecordId created))),
          (''conflictReason'', jopt (map_option conflict_reason_name (pir_conflictReason created))),
          (''reviewState'', JStr ''needs_review''),
          (''refundChargebackReviewCueCategory'', jopt (map_option (category_name \<circ> cue_category) cue)),
          (''refundChargebackReviewCueStatus'', jopt (map_option cue_status cue)),
          (''refundChargebackReviewAction'', jopt (map_option cue_reviewAction cue))]
         @ filter (\<lambda>(k, _). k \<noteq> ''depositMatching'') (import_boundary_fields (pir_boundaries created)))"

definition postPaymentImportReviewRecord ::
  "(string \<Rightarrow> string) \<Rightarrow> ApiContext \<Rightarrow> PaymentImportApi \<Rightarrow> PaymentImportReviewBody \<Rightarrow> PaymentImportReviewRecord result \<times> PaymentImportApi" where
  "postPaymentImportReviewRecord sha256 ctx api body =
     (case assertCandidateLinks api (ctx_firmId ctx) (pbd_matterId body) (pbd_candidateInvoiceId body)
             (pbd_candidateHostedPaymentRequestId body) (pbd_candidateManualPaymentId body) of
        Inl e \<Rightarrow> (Inl e, api)
      | Inr _ \<Rightarrow>
          (case createMemoryPaymentImportReviewRecord (api_imports api) (import_record sha256 ctx body) of
             (Inl e, imports) \<Rightarrow> (rethrowIdempotencyConflict (Inl e), api\<lparr>api_imports := imports\<rparr>)
           | (Inr created, imports) \<Rightarrow>
               (Inr created, api\<lparr>api_imports := imports,
                  api_audit := appendRouteAuditEvent sha256 ctx ''payment_import_review_record.created'' ''payment_import_review_record''
                    (pir_id created) (import_audit created) (api_audit api)\<rparr>)))"

subsection \<open>Deciding on a deposit match\<close>

definition match_evidence ::
  "PaymentImportReviewRecord \<Rightarrow> 'p ManualPaymentRecord_scheme \<Rightarrow> DepositMatchReviewBody \<Rightarrow> (string \<times> js_value) list" where
  "match_evidence importRecord payment body =
     [(''paymentImportReviewRecordId'', JStr (pir_id importRecord)), (''candidateManualPaymentId'', JStr (pay_id payment)),
      (''candidateInvoiceId'', jopt (pir_candidateInvoiceId importRecord)), (''decision'', JStr (match_decision_name (dbd_decision body))),
      (''reason'', JStr (match_reason_name (dbd_reason body))), (''importAmountCents'', JNum (pir_amountCents importRecord)),
      (''manualPaymentAmountCents'', JNum (pay_amountCents payment)), (''currency'', JStr (pir_currency importRecord)),
      (''candidateManualPaymentStatus'', JStr (manual_payment_status_name (pay_status payment))), (''reviewerEvidencePresent'', JBool True),
      (''boundaries'', JObj (match_boundary_fields defaultPaymentImportDepositMatchReviewBoundary))]"

definition match_review ::
  "(string \<Rightarrow> string) \<Rightarrow> ApiContext \<Rightarrow> PaymentImportReviewRecord \<Rightarrow> 'p ManualPaymentRecord_scheme \<Rightarrow> DepositMatchReviewBody
    \<Rightarrow> PaymentImportDepositMatchReviewRecord" where
  "match_review sha256 ctx importRecord payment body =
     \<lparr>dmr_id = or_else (dbd_id body) (ctx_uuid ctx), dmr_firmId = ctx_firmId ctx, dmr_matterId = pir_matterId importRecord,
      dmr_paymentImportReviewRecordId = pir_id importRecord, dmr_candidateManualPaymentId = pay_id payment,
      dmr_candidateInvoiceId = pir_candidateInvoiceId importRecord, dmr_decision = dbd_decision body, dmr_reason = dbd_reason body,
      dmr_importAmountCents = pir_amountCents importRecord, dmr_manualPaymentAmountCents = pay_amountCents payment,
      dmr_currency = pir_currency importRecord, dmr_candidateManualPaymentStatus = pay_status payment,
      dmr_reviewerEvidencePresent = True, dmr_idempotencyKey = dbd_idempotencyKey body,
      dmr_decisionFingerprint = buildIdempotencyFingerprint sha256 (match_evidence importRecord payment body),
      dmr_boundaries = defaultPaymentImportDepositMatchReviewBoundary, dmr_reviewedByUserId = ctx_userId ctx,
      dmr_reviewedAt = ctx_now ctx, dmr_createdAt = ctx_now ctx\<rparr>"

definition match_audit :: "PaymentImportDepositMatchReviewRecord \<Rightarrow> (string \<times> js_value) list" where
  "match_audit created =
     [(''matterId'', JStr (dmr_matterId created)), (''paymentImportDepositMatchReviewId'', JStr (dmr_id created)),
      (''paymentImportReviewRecordId'', JStr (dmr_paymentImportReviewRecordId created)),
      (''candidateManualPaymentId'', JStr (dmr_candidateManualPaymentId created)), (''candidateInvoiceId'', jopt (dmr_candidateInvoiceId created)),
      (''decision'', JStr (match_decision_name (dmr_decision created))), (''reason'', JStr (match_reason_name (dmr_reason created))),
      (''importAmountCents'', JNum (dmr_importAmountCents created)), (''manualPaymentAmountCents'', JNum (dmr_manualPaymentAmountCents created)),
      (''currency'', JStr (dmr_currency created)),
      (''candidateManualPaymentStatus'', JStr (manual_payment_status_name (dmr_candidateManualPaymentStatus created))),
      (''reviewerEvidencePresent'', JBool (dmr_reviewerEvidencePresent created)),
      (''idempotencyKeyPresent'', JBool (dmr_idempotencyKey created \<noteq> []))]
     @ match_boundary_fields (dmr_boundaries created)"

definition postDepositMatchReview ::
  "(string \<Rightarrow> string) \<Rightarrow> ApiContext \<Rightarrow> PaymentImportApi \<Rightarrow> string \<Rightarrow> DepositMatchReviewBody
    \<Rightarrow> PaymentImportDepositMatchReviewRecord result \<times> PaymentImportApi" where
  "postDepositMatchReview sha256 ctx api recordId body =
     (case getMemoryPaymentImportReviewRecord (api_imports api) (ctx_firmId ctx) recordId of
        None \<Rightarrow> (throw ''PAYMENT_IMPORT_REVIEW_RECORD_NOT_FOUND'', api)
      | Some importRecord \<Rightarrow>
          (case bind_result (assertDepositMatchReviewRecord importRecord) (\<lambda>_.
                assertCandidateLinks api (ctx_firmId ctx) (pir_matterId importRecord) (pir_candidateInvoiceId importRecord)
                  (pir_candidateHostedPaymentRequestId importRecord) (pir_candidateManualPaymentId importRecord)) of
             Inl e \<Rightarrow> (Inl e, api)
           | Inr None \<Rightarrow> (throw ''CANDIDATE_MANUAL_PAYMENT_NOT_FOUND'', api)
           | Inr (Some payment) \<Rightarrow>
               (case (if dbd_decision body = DepositMatch_candidate_supported then assertCandidateSupportedAllowed importRecord payment else Inr ()) of
                  Inl e \<Rightarrow> (Inl e, api)
                | Inr _ \<Rightarrow>
                    (case createMemoryPaymentImportDepositMatchReview (api_imports api) (match_review sha256 ctx importRecord payment body) of
                       (Inl e, imports) \<Rightarrow> (rethrowIdempotencyConflict (Inl e), api\<lparr>api_imports := imports\<rparr>)
                     | (Inr created, imports) \<Rightarrow>
                         (Inr created, api\<lparr>api_imports := imports,
                            api_audit := appendRouteAuditEvent sha256 ctx ''payment_import_deposit_match_review.recorded''
                              ''payment_import_deposit_match_review'' (dmr_id created) (match_audit created) (api_audit api)\<rparr>)))))"

subsection \<open>Reconciling a matched payment\<close>

primrec readiness_reason_name :: "PaymentImportDepositMatchReconciliationReadinessReason \<Rightarrow> string" where
  "readiness_reason_name Ready_supported_candidate_ready = ''supported_candidate_ready''"
| "readiness_reason_name Ready_no_supported_decision = ''no_supported_decision''"
| "readiness_reason_name Ready_candidate_not_supported = ''candidate_not_supported''"
| "readiness_reason_name Ready_import_record_conflict = ''import_record_conflict''"
| "readiness_reason_name Ready_candidate_manual_payment_mismatch = ''candidate_manual_payment_mismatch''"
| "readiness_reason_name Ready_manual_payment_not_found = ''manual_payment_not_found''"
| "readiness_reason_name Ready_manual_payment_not_pending = ''manual_payment_not_pending''"
| "readiness_reason_name Ready_amount_mismatch = ''amount_mismatch''"
| "readiness_reason_name Ready_invoice_not_found = ''invoice_not_found''"
| "readiness_reason_name Ready_invoice_candidate_mismatch = ''invoice_candidate_mismatch''"
| "readiness_reason_name Ready_invoice_balance_insufficient = ''invoice_balance_insufficient''"

definition matches_of_import :: "string \<Rightarrow> PaymentImportDepositMatchReviewListOptions" where
  "matches_of_import recordId = \<lparr>dlo_matterId = None, dlo_paymentImportReviewRecordId = Some recordId,
     dlo_candidateManualPaymentId = None, dlo_decision = None\<rparr>"

definition reconcile_request ::
  "ApiContext \<Rightarrow> string option \<Rightarrow> PaymentImportReviewRecord \<Rightarrow> PaymentImportDepositMatchReviewRecord \<Rightarrow> string
    \<Rightarrow> PaymentImportDepositMatchReconciliationReadiness \<Rightarrow> ReconcileInput" where
  "reconcile_request ctx reconciledAt importRecord review paymentId readiness =
     \<lparr>rec_firmId = ctx_firmId ctx, rec_paymentId = paymentId, rec_reconciledByUserId = ctx_userId ctx,
      rec_reconciledAt = or_else reconciledAt (ctx_now ctx), rec_notes = None,
      rec_evidence = Some (compactMetadata
        [(''source'', JStr ''payment_import_deposit_match_review''), (''paymentImportReviewRecordId'', JStr (pir_id importRecord)),
         (''paymentImportDepositMatchReviewId'', JStr (dmr_id review)), (''candidateManualPaymentId'', JStr (dmr_candidateManualPaymentId review)),
         (''candidateInvoiceId'', jopt (rdy_candidateInvoiceId readiness)), (''decision'', JStr (match_decision_name (dmr_decision review))),
         (''reason'', JStr (match_reason_name (dmr_reason review))), (''amountCents'', JNum (dmr_manualPaymentAmountCents review)),
         (''currency'', JStr (dmr_currency review)), (''readinessReason'', JStr (readiness_reason_name (rdy_reason readiness)))])\<rparr>"

definition reconcile_audit ::
  "PaymentImportReviewRecord \<Rightarrow> PaymentImportDepositMatchReviewRecord \<Rightarrow> PaymentImportDepositMatchReconciliationReadiness
    \<Rightarrow> PaymentWithAllocations \<Rightarrow> (string \<times> js_value) list" where
  "reconcile_audit importRecord review readiness reconciled =
     [(''matterId'', JStr (pay_matterId reconciled)), (''paymentId'', JStr (pay_id reconciled)), (''invoiceId'', jopt (pay_invoiceId reconciled)),
      (''status'', JStr (manual_payment_status_name (pay_status reconciled))), (''amountCents'', JNum (pay_amountCents reconciled)),
      (''allocationCount'', JNum (int (length (pay_allocations reconciled)))), (''evidencePresent'', JBool True),
      (''paymentImportReviewRecordId'', JStr (pir_id importRecord)), (''paymentImportDepositMatchReviewId'', JStr (dmr_id review)),
      (''depositMatchDecision'', JStr (match_decision_name (dmr_decision review))), (''depositMatchReason'', JStr (match_reason_name (dmr_reason review))),
      (''currency'', JStr (dmr_currency review)), (''readinessReason'', JStr (readiness_reason_name (rdy_reason readiness))),
      (''providerCommand'', JStr ''none''), (''clientNotification'', JStr ''none''), (''trustPosting'', JStr ''none'')]"

definition current_payment :: "PaymentImportApi \<Rightarrow> string \<Rightarrow> PaymentImportDepositMatchReviewRecord option \<Rightarrow> PaymentWithAllocations option" where
  "current_payment api firmId latestReview =
     (case latestReview of None \<Rightarrow> None | Some review \<Rightarrow> findManualPayment (api_bills api) firmId (dmr_candidateManualPaymentId review))"

definition current_invoice ::
  "PaymentImportApi \<Rightarrow> string \<Rightarrow> PaymentImportReviewRecord \<Rightarrow> PaymentImportDepositMatchReviewRecord option \<Rightarrow> PaymentWithAllocations option
    \<Rightarrow> InvoiceWithLines option" where
  "current_invoice api firmId importRecord latestReview payment =
     (let invoiceId = either_id (case payment of None \<Rightarrow> None | Some p \<Rightarrow> pay_invoiceId p)
            (either_id (case latestReview of None \<Rightarrow> None | Some v \<Rightarrow> dmr_candidateInvoiceId v) (pir_candidateInvoiceId importRecord))
      in if truthy invoiceId then getMemoryInvoice (api_bills api) firmId (or_else invoiceId []) else None)"

definition postReconcileManualPayment ::
  "(string \<Rightarrow> string) \<Rightarrow> ApiContext \<Rightarrow> PaymentImportApi \<Rightarrow> string \<Rightarrow> string option \<Rightarrow> PaymentWithAllocations result \<times> PaymentImportApi" where
  "postReconcileManualPayment sha256 ctx api recordId reconciledAt =
     (case getMemoryPaymentImportReviewRecord (api_imports api) (ctx_firmId ctx) recordId of
        None \<Rightarrow> (throw ''PAYMENT_IMPORT_REVIEW_RECORD_NOT_FOUND'', api)
      | Some importRecord \<Rightarrow>
          (case assertDepositMatchReviewRecord importRecord of
             Inl e \<Rightarrow> (Inl e, api)
           | Inr _ \<Rightarrow>
               let latestReview = latestDepositMatchReview (listMemoryPaymentImportDepositMatchReviews (api_imports api) (ctx_firmId ctx)
                     (matches_of_import (pir_id importRecord)));
                   payment = current_payment api (ctx_firmId ctx) latestReview;
                   invoice = current_invoice api (ctx_firmId ctx) importRecord latestReview payment;
                   readiness = paymentImportDepositMatchReconciliationReadiness importRecord latestReview payment invoice;
                   notEligible = (throw ''PAYMENT_IMPORT_DEPOSIT_MATCH_RECONCILE_NOT_ELIGIBLE'', api)
               in (case (latestReview, payment) of
                     (Some review, Some manualPayment) \<Rightarrow>
                       if dmr_currency review \<noteq> pir_currency importRecord \<or> dmr_currency review \<noteq> ''CAD'' then notEligible
                       else if \<not> rdy_eligible readiness then notEligible
                       else (case reconcileMemoryPayment (ctx_uuid ctx) (api_bills api)
                               (reconcile_request ctx reconciledAt importRecord review (pay_id manualPayment) readiness) of
                               (Inl e, bills) \<Rightarrow> (Inl e, api\<lparr>api_bills := bills\<rparr>)
                             | (Inr reconciled, bills) \<Rightarrow>
                                 (Inr reconciled, api\<lparr>api_bills := bills,
                                    api_audit := appendRouteAuditEvent sha256 ctx ''manual_payment.reconciled'' ''manual_payment''
                                      (pay_id reconciled) (reconcile_audit importRecord review readiness reconciled) (api_audit api)\<rparr>))
                   | _ \<Rightarrow> notEligible)))"

subsection \<open>Refunds and chargebacks\<close>

definition refund_evidence ::
  "PaymentImportReviewRecord \<Rightarrow> PaymentImportRefundChargebackReviewCategory \<Rightarrow> RefundChargebackReviewBody \<Rightarrow> (string \<times> js_value) list" where
  "refund_evidence importRecord category body =
     [(''paymentImportReviewRecordId'', JStr (pir_id importRecord)), (''category'', JStr (category_name category)),
      (''decision'', JStr (refund_decision_name (rbd_decision body))), (''reason'', JStr (refund_reason_name (rbd_reason body))),
      (''reviewerEvidencePresent'', JBool True),
      (''boundaries'', JObj (refund_boundary_fields defaultPaymentImportRefundChargebackReviewBoundary))]"

definition refund_review ::
  "(string \<Rightarrow> string) \<Rightarrow> ApiContext \<Rightarrow> PaymentImportReviewRecord \<Rightarrow> PaymentImportRefundChargebackReviewCategory \<Rightarrow> RefundChargebackReviewBody
    \<Rightarrow> PaymentImportRefundChargebackReviewRecord" where
  "refund_review sha256 ctx importRecord category body =
     \<lparr>rcr_id = or_else (rbd_id body) (ctx_uuid ctx), rcr_firmId = ctx_firmId ctx, rcr_matterId = pir_matterId importRecord,
      rcr_paymentImportReviewRecordId = pir_id importRecord, rcr_category = category, rcr_decision = rbd_decision body,
      rcr_reason = rbd_reason body, rcr_reviewerEvidencePresent = True, rcr_idempotencyKey = rbd_idempotencyKey body,
      rcr_decisionFingerprint = buildIdempotencyFingerprint sha256 (refund_evidence importRecord category body),
      rcr_boundaries = defaultPaymentImportRefundChargebackReviewBoundary, rcr_reviewedByUserId = ctx_userId ctx,
      rcr_reviewedAt = ctx_now ctx, rcr_createdAt = ctx_now ctx\<rparr>"

definition refund_audit :: "PaymentImportRefundChargebackReviewRecord \<Rightarrow> (string \<times> js_value) list" where
  "refund_audit created =
     [(''matterId'', JStr (rcr_matterId created)), (''paymentImportRefundChargebackReviewId'', JStr (rcr_id created)),
      (''paymentImportReviewRecordId'', JStr (rcr_paymentImportReviewRecordId created)), (''category'', JStr (category_name (rcr_category created))),
      (''decision'', JStr (refund_decision_name (rcr_decision created))), (''reason'', JStr (refund_reason_name (rcr_reason created))),
      (''reviewerEvidencePresent'', JBool (rcr_reviewerEvidencePresent created)),
      (''idempotencyKeyPresent'', JBool (rcr_idempotencyKey created \<noteq> []))]
     @ refund_boundary_fields (rcr_boundaries created)"

definition postRefundChargebackReview ::
  "(string \<Rightarrow> string) \<Rightarrow> ApiContext \<Rightarrow> PaymentImportApi \<Rightarrow> string \<Rightarrow> RefundChargebackReviewBody
    \<Rightarrow> PaymentImportRefundChargebackReviewRecord result \<times> PaymentImportApi" where
  "postRefundChargebackReview sha256 ctx api recordId body =
     (case getMemoryPaymentImportReviewRecord (api_imports api) (ctx_firmId ctx) recordId of
        None \<Rightarrow> (throw ''PAYMENT_IMPORT_REVIEW_RECORD_NOT_FOUND'', api)
      | Some importRecord \<Rightarrow>
          (case paymentImportRefundChargebackReviewCue importRecord of
             None \<Rightarrow> (throw ''PAYMENT_IMPORT_REFUND_CHARGEBACK_REVIEW_UNSUPPORTED'', api)
           | Some cue \<Rightarrow>
               let review = refund_review sha256 ctx importRecord (cue_category cue) body
               in if \<not> paymentImportRefundChargebackReviewDecisionMatchesCue review
                  then (throw ''PAYMENT_IMPORT_REFUND_CHARGEBACK_REVIEW_REASON_MISMATCH'', api)
                  else (case createMemoryPaymentImportRefundChargebackReview (api_imports api) review of
                      (Inl e, imports) \<Rightarrow> (rethrowIdempotencyConflict (Inl e), api\<lparr>api_imports := imports\<rparr>)
                    | (Inr created, imports) \<Rightarrow>
                        (Inr created, api\<lparr>api_imports := imports,
                           api_audit := appendRouteAuditEvent sha256 ctx ''payment_import_refund_chargeback_review.recorded''
                             ''payment_import_refund_chargeback_review'' (rcr_id created) (refund_audit created) (api_audit api)\<rparr>))))"

definition reviews_of_import :: "string \<Rightarrow> PaymentImportRefundChargebackReviewListOptions" where
  "reviews_of_import recordId = \<lparr>rlo_matterId = None, rlo_paymentImportReviewRecordId = Some recordId, rlo_category = None, rlo_decision = None\<rparr>"

definition buildRefundChargebackResolutionPacketPreview ::
  "PaymentImportApi \<Rightarrow> string \<Rightarrow> PaymentImportReviewRecord \<Rightarrow> PaymentImportRefundChargebackResolutionPacketPreview result" where
  "buildRefundChargebackResolutionPacketPreview api firmId record =
     (case paymentImportRefundChargebackResolutionPacketPreview record
             (listMemoryPaymentImportRefundChargebackReviews (api_imports api) firmId (reviews_of_import (pir_id record))) of
        None \<Rightarrow> throw ''PAYMENT_IMPORT_REFUND_CHARGEBACK_REVIEW_UNSUPPORTED''
      | Some packetPreview \<Rightarrow> Inr packetPreview)"

definition reviewer_metadata_fields :: "PaymentImportRefundChargebackResolutionPacketReviewerMetadata \<Rightarrow> (string \<times> js_value) list" where
  "reviewer_metadata_fields m =
     [(''decision'', JStr (refund_decision_name (rvm_decision m))), (''reason'', JStr (refund_reason_name (rvm_reason m))),
      (''reviewedByUserId'', JStr (rvm_reviewedByUserId m)), (''reviewedAt'', JStr (rvm_reviewedAt m)),
      (''reviewerEvidencePresent'', JBool (rvm_reviewerEvidencePresent m))]"

definition resolution_evidence ::
  "PaymentImportReviewRecord \<Rightarrow> PaymentImportRefundChargebackResolutionPacketPreview \<Rightarrow> (string \<times> js_value) list" where
  "resolution_evidence importRecord preview =
     [(''paymentImportReviewRecordId'', JStr (pir_id importRecord)), (''latestReviewId'', jopt (ppv_latestReviewId preview)),
      (''category'', JStr (category_name (ppv_category preview))), (''resolutionPosture'', JStr (posture_name (ppv_resolutionPosture preview))),
      (''reasonCategories'', JArr (map (JStr \<circ> refund_reason_name) (ppv_reasonCategories preview))),
      (''latestReviewerMetadata'', case ppv_latestReviewerMetadata preview of None \<Rightarrow> JUndefined | Some m \<Rightarrow> JObj (reviewer_metadata_fields m)),
      (''noSideEffectFlags'', JObj (no_side_effect_fields (ppv_noSideEffectFlags preview)))]"

definition resolution_audit :: "PaymentImportRefundChargebackResolutionRecord \<Rightarrow> (string \<times> js_value) list" where
  "resolution_audit created =
     [(''matterId'', JStr (rrr_matterId created)), (''paymentImportRefundChargebackResolutionRecordId'', JStr (rrr_id created)),
      (''paymentImportReviewRecordId'', JStr (rrr_paymentImportReviewRecordId created)), (''latestReviewId'', JStr (rrr_latestReviewId created)),
      (''category'', JStr (category_name (rrr_category created))), (''resolutionPosture'', JStr (posture_name (rrr_resolutionPosture created))),
      (''reasonCategories'', JArr (map (JStr \<circ> refund_reason_name) (rrr_reasonCategories created))),
      (''latestReviewDecision'', JStr (refund_decision_name (rvm_decision (rrr_latestReviewerMetadata created)))),
      (''latestReviewReason'', JStr (refund_reason_name (rvm_reason (rrr_latestReviewerMetadata created)))),
      (''reviewerEvidencePresent'', JBool (rvm_reviewerEvidencePresent (rrr_latestReviewerMetadata created))),
      (''idempotencyKeyPresent'', JBool (rrr_idempotencyKey created \<noteq> []))]
     @ no_side_effect_fields (rrr_noSideEffectFlags created)"

definition postRefundChargebackResolutionRecord ::
  "(string \<Rightarrow> string) \<Rightarrow> ApiContext \<Rightarrow> PaymentImportApi \<Rightarrow> string \<Rightarrow> RefundChargebackResolutionRecordBody
    \<Rightarrow> PaymentImportRefundChargebackResolutionRecord result \<times> PaymentImportApi" where
  "postRefundChargebackResolutionRecord sha256 ctx api recordId body =
     (case getMemoryPaymentImportReviewRecord (api_imports api) (ctx_firmId ctx) recordId of
        None \<Rightarrow> (throw ''PAYMENT_IMPORT_REVIEW_RECORD_NOT_FOUND'', api)
      | Some importRecord \<Rightarrow>
          if paymentImportRefundChargebackReviewCue importRecord = None then (throw ''PAYMENT_IMPORT_REFUND_CHARGEBACK_REVIEW_UNSUPPORTED'', api)
          else (case buildRefundChargebackResolutionPacketPreview api (ctx_firmId ctx) importRecord of
              Inl e \<Rightarrow> (Inl e, api)
            | Inr preview \<Rightarrow>
                if ppv_resolutionPosture preview = Posture_awaiting_decision
                then (throw ''PAYMENT_IMPORT_REFUND_CHARGEBACK_RESOLUTION_REVIEW_REQUIRED'', api)
                else (case paymentImportRefundChargebackResolutionRecordFromPreview
                        \<lparr>rin_id = or_else (xbd_id body) (ctx_uuid ctx), rin_firmId = ctx_firmId ctx,
                         rin_idempotencyKey = xbd_idempotencyKey body,
                         rin_resolutionFingerprint = buildIdempotencyFingerprint sha256 (resolution_evidence importRecord preview),
                         rin_recordedByUserId = ctx_userId ctx, rin_recordedAt = ctx_now ctx\<rparr> preview of
                    None \<Rightarrow> (throw ''PAYMENT_IMPORT_REFUND_CHARGEBACK_RESOLUTION_REVIEW_REQUIRED'', api)
                  | Some resolutionRecord \<Rightarrow>
                      (case createMemoryPaymentImportRefundChargebackResolutionRecord (api_imports api) resolutionRecord of
                         (Inl e, imports) \<Rightarrow> (rethrowIdempotencyConflict (Inl e), api\<lparr>api_imports := imports\<rparr>)
                       | (Inr created, imports) \<Rightarrow>
                           (Inr created, api\<lparr>api_imports := imports,
                              api_audit := appendRouteAuditEvent sha256 ctx ''payment_import_refund_chargeback_resolution.recorded''
                                ''payment_import_refund_chargeback_resolution'' (rrr_id created) (resolution_audit created) (api_audit api)\<rparr>)))))"

subsection \<open>The system of routes\<close>

text \<open>
  The other routes of billing are the steps of \<open>bill_step\<close>; hosted payment requests and the audit log
  change by other routes too.
\<close>

inductive api_step :: "(string \<Rightarrow> string) \<Rightarrow> PaymentImportApi \<Rightarrow> PaymentImportApi \<Rightarrow> bool" for sha256 where
  step_post_import: "postPaymentImportReviewRecord sha256 ctx s body = (r, t) \<Longrightarrow> api_step sha256 s t"
| step_post_match: "depositMatchReviewBodyRefinement mbody \<Longrightarrow> postDepositMatchReview sha256 ctx s i mbody = (rm, t) \<Longrightarrow> api_step sha256 s t"
| step_post_reconcile: "postReconcileManualPayment sha256 ctx s i date = (rp, t) \<Longrightarrow> api_step sha256 s t"
| step_post_refund: "postRefundChargebackReview sha256 ctx s i rbody = (rr, t) \<Longrightarrow> api_step sha256 s t"
| step_post_resolution: "postRefundChargebackResolutionRecord sha256 ctx s i xbody = (rx, t) \<Longrightarrow> api_step sha256 s t"
| step_billing: "bill_step (api_bills s) b \<Longrightarrow> api_step sha256 s (s\<lparr>api_bills := b\<rparr>)"
| step_hosted: "api_step sha256 s (s\<lparr>api_hosted := h\<rparr>)"
| step_audit: "audit_step sha256 (api_audit s) a \<Longrightarrow> api_step sha256 s (s\<lparr>api_audit := a\<rparr>)"

definition api_init :: "PaymentImportApi \<Rightarrow> bool" where
  "api_init s \<longleftrightarrow> no_bills (api_bills s) \<and> no_imports (api_imports s) \<and> no_events (api_audit s)"

definition match_consistent :: "PaymentImportDepositMatchReviewRecord \<Rightarrow> bool" where
  "match_consistent v \<longleftrightarrow> dmr_boundaries v = defaultPaymentImportDepositMatchReviewBoundary
     \<and> (if dmr_decision v = DepositMatch_candidate_supported
        then dmr_reason v = MatchReason_candidate_evidence_matches \<and> dmr_importAmountCents v = dmr_manualPaymentAmountCents v
          \<and> dmr_candidateManualPaymentStatus v = Payment_pending_reconciliation
        else dmr_reason v \<noteq> MatchReason_candidate_evidence_matches)"

definition resolution_consistent :: "PaymentImportRefundChargebackResolutionRecord \<Rightarrow> bool" where
  "resolution_consistent x \<longleftrightarrow> rrr_noSideEffectFlags x = defaultPaymentImportRefundChargebackResolutionRecordNoSideEffectFlags
     \<and> rrr_resolutionPosture x =
         (case rvm_decision (rrr_latestReviewerMetadata x) of Refund_exception_confirmed \<Rightarrow> Posture_confirmed_exception
          | Refund_exception_rejected \<Rightarrow> Posture_rejected_exception | Refund_needs_more_evidence \<Rightarrow> Posture_needs_more_evidence)"

definition decisions_consistent :: "MemoryPaymentImportReviewRecordStore \<Rightarrow> bool" where
  "decisions_consistent s \<longleftrightarrow> import_keys_distinct s \<and> list_all match_consistent (pis_paymentImportDepositMatchReviews s)
     \<and> list_all paymentImportRefundChargebackReviewDecisionMatchesCue (pis_paymentImportRefundChargebackReviews s)
     \<and> list_all resolution_consistent (pis_paymentImportRefundChargebackResolutionRecords s)"

definition api_inv :: "PaymentImportApi \<Rightarrow> bool" where
  "api_inv s \<longleftrightarrow> bill_inv (api_bills s) \<and> decisions_consistent (api_imports s)"

lemma create_once_all: "create_once key fp xs r = (res, ys) \<Longrightarrow> list_all P xs \<Longrightarrow> P r \<Longrightarrow> list_all P ys"
  by (erule create_once_cases) auto

lemma create_match_consistent:
  assumes "decisions_consistent s" "createMemoryPaymentImportDepositMatchReview s v = (r, t)" "match_consistent v"
  shows "decisions_consistent t"
  using assms import_run.inv_step [OF import_step.step_match [OF assms(2)]]
  by (auto simp: decisions_consistent_def import_create_defs split: prod.splits dest: create_once_all)

lemma create_refund_consistent:
  assumes "decisions_consistent s" "createMemoryPaymentImportRefundChargebackReview s v = (r, t)"
    "paymentImportRefundChargebackReviewDecisionMatchesCue v"
  shows "decisions_consistent t"
  using assms import_run.inv_step [OF import_step.step_refund [OF assms(2)]]
  by (auto simp: decisions_consistent_def import_create_defs split: prod.splits dest: create_once_all)

lemma create_resolution_consistent:
  assumes "decisions_consistent s" "createMemoryPaymentImportRefundChargebackResolutionRecord s v = (r, t)" "resolution_consistent v"
  shows "decisions_consistent t"
  using assms import_run.inv_step [OF import_step.step_resolution [OF assms(2)]]
  by (auto simp: decisions_consistent_def import_create_defs split: prod.splits dest: create_once_all)

lemma create_import_consistent:
  assumes "decisions_consistent s" "createMemoryPaymentImportReviewRecord s v = (r, t)"
  shows "decisions_consistent t"
  using assms import_run.inv_step [OF import_step.step_import [OF assms(2)]]
  by (auto simp: decisions_consistent_def import_create_defs split: prod.splits)

text \<open>What each route does to the parts of the state.\<close>

definition audited :: "(string \<Rightarrow> string) \<Rightarrow> PaymentImportApi \<Rightarrow> PaymentImportApi \<Rightarrow> bool" where
  "audited sha256 s t \<longleftrightarrow> api_audit t = api_audit s \<or> audit_step sha256 (api_audit s) (api_audit t)"

lemma route_audit_step: "audit_step sha256 a (appendRouteAuditEvent sha256 ctx x y z m a)"
  unfolding appendRouteAuditEvent_def by (rule audit_step.step_append [OF surjective_pairing])

lemma audited_simps [simp]: "audited sha256 s s" "audited sha256 s (s\<lparr>api_imports := i\<rparr>)" "audited sha256 s (s\<lparr>api_bills := b\<rparr>)"
  "audited sha256 s (s\<lparr>api_imports := i, api_audit := appendRouteAuditEvent sha256 ctx x y z m (api_audit s)\<rparr>)"
  "audited sha256 s (s\<lparr>api_bills := b, api_audit := appendRouteAuditEvent sha256 ctx x y z m (api_audit s)\<rparr>)"
  by (simp_all add: audited_def route_audit_step)

lemma post_import_cases:
  assumes "postPaymentImportReviewRecord sha256 ctx s body = (r, t)"
  shows "t = s \<or> (\<exists>c imports. createMemoryPaymentImportReviewRecord (api_imports s) (import_record sha256 ctx body) = (c, imports)
    \<and> api_imports t = imports \<and> api_bills t = api_bills s \<and> audited sha256 s t)"
  using assms unfolding postPaymentImportReviewRecord_def
  by (auto split: sum.splits prod.splits)

lemma post_match_cases:
  assumes "postDepositMatchReview sha256 ctx s i body = (r, t)"
  shows "t = s \<or> (\<exists>importRecord (payment :: PaymentWithAllocations) c imports.
      (dbd_decision body = DepositMatch_candidate_supported \<longrightarrow> assertCandidateSupportedAllowed importRecord payment = Inr ())
    \<and> createMemoryPaymentImportDepositMatchReview (api_imports s) (match_review sha256 ctx importRecord payment body) = (c, imports)
    \<and> api_imports t = imports \<and> api_bills t = api_bills s \<and> audited sha256 s t)"
  using assms unfolding postDepositMatchReview_def
  by (auto split: sum.splits prod.splits option.splits if_splits) blast+

lemma post_refund_cases:
  assumes "postRefundChargebackReview sha256 ctx s i body = (r, t)"
  shows "t = s \<or> (\<exists>v c imports. paymentImportRefundChargebackReviewDecisionMatchesCue v
    \<and> createMemoryPaymentImportRefundChargebackReview (api_imports s) v = (c, imports)
    \<and> api_imports t = imports \<and> api_bills t = api_bills s \<and> audited sha256 s t)"
  using assms unfolding postRefundChargebackReview_def Let_def
  by (auto split: sum.splits prod.splits option.splits if_splits)

lemma post_resolution_cases:
  assumes "postRefundChargebackResolutionRecord sha256 ctx s i body = (r, t)"
  shows "t = s \<or> (\<exists>importRecord reviews preview inp v c imports.
      paymentImportRefundChargebackResolutionPacketPreview importRecord reviews = Some preview
    \<and> paymentImportRefundChargebackResolutionRecordFromPreview inp preview = Some v
    \<and> createMemoryPaymentImportRefundChargebackResolutionRecord (api_imports s) v = (c, imports)
    \<and> api_imports t = imports \<and> api_bills t = api_bills s \<and> audited sha256 s t)"
  using assms unfolding postRefundChargebackResolutionRecord_def buildRefundChargebackResolutionPacketPreview_def
  by (auto split: sum.splits prod.splits option.splits if_splits)

lemma post_reconcile_cases:
  assumes "postReconcileManualPayment sha256 ctx s i date = (r, t)"
  shows "t = s \<or> (\<exists>uuid inp c bills. reconcileMemoryPayment uuid (api_bills s) inp = (c, bills)
    \<and> api_bills t = bills \<and> api_imports t = api_imports s \<and> audited sha256 s t)"
  using assms unfolding postReconcileManualPayment_def Let_def
  by (auto split: sum.splits prod.splits option.splits if_splits) blast+

lemma match_review_consistent:
  assumes "depositMatchReviewBodyRefinement body"
    "dbd_decision body = DepositMatch_candidate_supported \<longrightarrow> assertCandidateSupportedAllowed importRecord payment = Inr ()"
  shows "match_consistent (match_review sha256 ctx importRecord payment body)"
  using assms by (auto simp: match_consistent_def match_review_def depositMatchReviewBodyRefinement_def assertCandidateSupportedAllowed_def
      throw_def split: if_splits)

lemma built_resolution_consistent:
  assumes "paymentImportRefundChargebackResolutionPacketPreview importRecord reviews = Some preview"
    "paymentImportRefundChargebackResolutionRecordFromPreview inp preview = Some v"
  shows "resolution_consistent v"
  using assms
  by (auto simp: resolution_consistent_def paymentImportRefundChargebackResolutionPacketPreview_def
      paymentImportRefundChargebackResolutionRecordFromPreview_def resolution_posture_def reviewer_metadata_def Let_def
      split: option.splits if_splits PaymentImportRefundChargebackReviewDecision.splits)

interpretation api_run: inductive_invariant api_init "api_step sha256" api_inv for sha256
proof unfold_locales
  show "api_init s \<Longrightarrow> api_inv s" for s
    by (auto simp: api_init_def api_inv_def decisions_consistent_def no_imports_def import_keys_distinct_def intro: bills.inv_init)
  show "api_step sha256 s t \<Longrightarrow> api_inv s \<Longrightarrow> api_inv t" for s t
  proof (induction rule: api_step.induct)
    case (step_post_import ctx s body r t)
    then show ?case using post_import_cases [OF step_post_import(1)] by (auto simp: api_inv_def intro: create_import_consistent)
  next
    case (step_post_match mbody ctx s i rm t)
    then show ?case using post_match_cases [OF step_post_match(2)] by (auto simp: api_inv_def intro: create_match_consistent match_review_consistent)
  next
    case (step_post_reconcile ctx s i date rp t)
    then show ?case
      using post_reconcile_cases [OF step_post_reconcile(1)] by (auto simp: api_inv_def intro: bills.inv_step bill_step.step_reconcile)
  next
    case (step_post_refund ctx s i rbody rr t)
    then show ?case using post_refund_cases [OF step_post_refund(1)] by (auto simp: api_inv_def intro: create_refund_consistent)
  next
    case (step_post_resolution ctx s i xbody rx t)
    then show ?case
      using post_resolution_cases [OF step_post_resolution(1)]
      by (auto simp: api_inv_def intro: create_resolution_consistent built_resolution_consistent)
  qed (auto simp: api_inv_def intro: bills.inv_step)
qed

text \<open>The audit log and the books of a run of the routes are runs of the audit log and of the books.\<close>

lemma api_step_audit: "api_step sha256 s t \<Longrightarrow> (audit_step sha256)\<^sup>=\<^sup>= (api_audit s) (api_audit t)"
  by (induction rule: api_step.induct)
    (auto dest!: post_import_cases post_match_cases post_reconcile_cases post_refund_cases post_resolution_cases simp: audited_def)

lemma api_step_bills: "api_step sha256 s t \<Longrightarrow> bill_step\<^sup>=\<^sup>= (api_bills s) (api_bills t)"
  by (induction rule: api_step.induct)
    (auto dest!: post_import_cases post_match_cases post_reconcile_cases post_refund_cases post_resolution_cases
      intro: bill_step.step_reconcile)

interpretation api_audit_run: simulation api_init "api_step sha256" api_inv api_audit no_events "(audit_step sha256)\<^sup>=\<^sup>=" for sha256
  by unfold_locales (simp add: api_init_def, rule api_step_audit)

interpretation api_bill_run: simulation api_init "api_step sha256" api_inv api_bills no_bills "bill_step\<^sup>=\<^sup>=" for sha256
  by unfold_locales (simp add: api_init_def, rule api_step_bills)

text \<open>
  C33. Whatever the routes do, in any order and with any errors: imports, decisions and resolutions are
  unique under their keys; a decision that supports a match was taken on a pending payment of the
  imported amount; a confirmed refund or chargeback has the reason of its category; a resolution has the
  posture of its decision; and the audit log of every firm is a valid chain.
\<close>

theorem payment_import_decisions_are_consistent:
  assumes "reachable api_init (api_step sha256) s"
  shows "decisions_consistent (api_imports s) \<and> snd (listMemoryAuditEvents sha256 (api_audit s) firmId)"
proof
  show "decisions_consistent (api_imports s)" using api_run.reachable_inv [OF assms] by (simp add: api_inv_def)
  have "reachable no_events (audit_step sha256) (api_audit s)"
    using api_audit_run.reachable_refines [OF assms] by (rule reachable_reflclp)
  then show "snd (listMemoryAuditEvents sha256 (api_audit s) firmId)" by (intro audit_log_reads_valid audit_run.reachable_inv)
qed

subsection \<open>Reconciling after a supported match\<close>

lemma findManualPayment_find:
  "findManualPayment s f i = map_option (\<lambda>p. with_allocations p (filter (\<lambda>a. alloc_paymentId a = pay_id p) (bill_paymentAllocations s)))
     (List.find (\<lambda>p. pay_firmId p = f \<and> pay_id p = i) (bill_manualPayments s))"
proof -
  have "List.find (\<lambda>c. pay_id c = i) (map (\<lambda>p. with_allocations p (g p)) (filter (\<lambda>p. pay_firmId p = f) ps))
      = map_option (\<lambda>p. with_allocations p (g p)) (List.find (\<lambda>p. pay_firmId p = f \<and> pay_id p = i) ps)" for g ps
    by (induction ps) (auto simp: with_allocations_def ManualPaymentRecord.defs)
  from this [where g = "\<lambda>p. filter (\<lambda>a. alloc_paymentId a = pay_id p) (bill_paymentAllocations s)"] show ?thesis
    by (simp add: findManualPayment_def listMemoryPayments_def hasEmptyMatterIds_def matchesBillingMatter_def truthy_def)
qed

lemma with_allocations_fields [simp]:
  "pay_id (with_allocations p as) = pay_id p" "pay_firmId (with_allocations p as) = pay_firmId p"
  "pay_matterId (with_allocations p as) = pay_matterId p" "pay_invoiceId (with_allocations p as) = pay_invoiceId p"
  "pay_amountCents (with_allocations p as) = pay_amountCents p" "pay_status (with_allocations p as) = pay_status p"
  by (simp_all add: with_allocations_def ManualPaymentRecord.defs)

lemma reconcile_succeeds:
  assumes "List.find (\<lambda>c. pay_firmId c = rec_firmId inp \<and> pay_id c = rec_paymentId inp) (bill_manualPayments s) = Some p"
    and "pay_status p = Payment_pending_reconciliation" "pay_invoiceId p = Some i" "i \<noteq> []"
    and "getMemoryInvoice s (rec_firmId inp) i = Some w" "inv_matterId w = pay_matterId p" "pay_amountCents p \<le> inv_balanceDueCents w"
  shows "is_ok (fst (reconcileMemoryPayment uuid s inp))"
proof -
  have w: "inv_firmId w = rec_firmId inp" "inv_id w = i" using getMemoryInvoice_Some [OF assms(5)] by auto
  have update: "\<exists>r t. updateMemoryInvoice s (paidInvoice s w a) = (Inr r, t)" for a
    using updateMemoryInvoice_get [of s "paidInvoice s w a"] assms(5) w by (auto simp: paidInvoice_def Let_def InvoiceRecord.defs)
  define a where "a = \<lparr>alloc_id = uuid, alloc_firmId = rec_firmId inp, alloc_paymentId = pay_id p, alloc_invoiceId = inv_id w,
      alloc_amountCents = pay_amountCents p, alloc_allocatedAt = rec_reconciledAt inp\<rparr>"
  obtain r t where "updateMemoryInvoice s (paidInvoice s w a) = (Inr r, t)" using update by blast
  then show ?thesis
    using assms unfolding reconcileMemoryPayment_def a_def [symmetric] by (simp add: truthy_def Let_def flip: a_def)
qed

lemma ready_reconciles:
  assumes "bill_inv (api_bills s)"
    and "current_payment s f (Some v) = Some p" "current_invoice s f r (Some v) (Some p) = Some w" "deposit_ready r v p w"
    and "rec_firmId inp = f" "rec_paymentId inp = pay_id p"
  shows "\<exists>q bills a. reconcileMemoryPayment uuid (api_bills s) inp = (Inr q, bills)
    \<and> bill_paymentAllocations bills = bill_paymentAllocations (api_bills s) @ [a] \<and> alloc_amountCents a = pir_amountCents r
    \<and> alloc_invoiceId a = inv_id w \<and> alloc_paymentId a = pay_id p \<and> pay_id q = pay_id p \<and> pay_status q = Payment_received"
proof -
  obtain p0 where p0: "List.find (\<lambda>c. pay_firmId c = f \<and> pay_id c = pay_id p) (bill_manualPayments (api_bills s)) = Some p0"
    and p: "pay_id p = pay_id p0" "pay_status p = pay_status p0" "pay_invoiceId p = pay_invoiceId p0" "pay_matterId p = pay_matterId p0"
      "pay_amountCents p = pay_amountCents p0"
    using assms(2,4) by (auto simp: current_payment_def findManualPayment_find deposit_ready_def)
  have w: "getMemoryInvoice (api_bills s) f (inv_id w) = Some w"
    using assms(3,4) by (auto simp: current_invoice_def deposit_ready_def either_id_def truthy_def split: if_splits)
  have "is_ok (fst (reconcileMemoryPayment uuid (api_bills s) inp))"
    using p0 w assms(4-6) p by (intro reconcile_succeeds [of inp "api_bills s" p0 "inv_id w" w]) (auto simp: deposit_ready_def)
  then obtain q bills where run: "reconcileMemoryPayment uuid (api_bills s) inp = (Inr q, bills)"
    by (cases "reconcileMemoryPayment uuid (api_bills s) inp") (auto simp: is_ok_iff)
  from reconcileMemoryPayment_cases [OF assms(1) run]
  obtain p1 I a where p1: "p1 \<in> set (bill_manualPayments (api_bills s))" "pay_firmId p1 = f" "pay_id p1 = pay_id p"
    and a: "alloc_paymentId a = pay_id p1" "alloc_amountCents a = pay_amountCents p1" "Some (alloc_invoiceId a) = pay_invoiceId p1"
      "q = with_allocations (reconciledPayment inp p1) [a]"
      "bill_paymentAllocations bills = bill_paymentAllocations (api_bills s) @ [a]"
    using assms(5,6) by auto
  have inj: "inj_on pay_id (set (bill_manualPayments (api_bills s)))" using assms(1) by (simp add: bill_inv_def distinct_map)
  have "p1 = p0"
    by (rule inj_onD [OF inj]) (use p1(1,3) find_Some_mem [OF p0] in auto)
  then show ?thesis using run a p assms(4) by (auto simp: deposit_ready_def reconciledPayment_def)
qed

lemma append_route_events: "\<exists>e. aud_events (appendRouteAuditEvent sha256 ctx x y z m a) = aud_events a @ [e] \<and> aud_action e = x \<and> aud_resourceId e = z"
  by (simp add: appendRouteAuditEvent_def appendMemoryAuditEvent_def appendAuditEvent_def Let_def NewAuditEvent.defs AuditEvent.defs)

definition latest_match :: "PaymentImportApi \<Rightarrow> string \<Rightarrow> PaymentImportReviewRecord \<Rightarrow> PaymentImportDepositMatchReviewRecord option" where
  "latest_match s f r = latestDepositMatchReview (listMemoryPaymentImportDepositMatchReviews (api_imports s) f (matches_of_import (pir_id r)))"

lemma reconcile_route_ready:
  assumes "getMemoryPaymentImportReviewRecord (api_imports s) (ctx_firmId ctx) i = Some r" "pir_eventFamily r = Family_deposit"
    and "latest_match s (ctx_firmId ctx) r = Some v" "current_payment s (ctx_firmId ctx) (Some v) = Some p"
    and "current_invoice s (ctx_firmId ctx) r (Some v) (Some p) = Some w" "deposit_ready r v p w"
    and "dmr_currency v = ''CAD''" "pir_currency r = ''CAD''" "bill_inv (api_bills s)"
  shows "\<exists>q t a e. postReconcileManualPayment sha256 ctx s i date = (Inr q, t)
    \<and> bill_paymentAllocations (api_bills t) = bill_paymentAllocations (api_bills s) @ [a] \<and> alloc_amountCents a = pir_amountCents r
    \<and> alloc_invoiceId a = inv_id w \<and> alloc_paymentId a = pay_id p \<and> pay_id q = pay_id p \<and> pay_status q = Payment_received
    \<and> api_imports t = api_imports s \<and> aud_events (api_audit t) = aud_events (api_audit s) @ [e]
    \<and> aud_action e = ''manual_payment.reconciled'' \<and> aud_resourceId e = pay_id p"
proof -
  define ready where "ready = paymentImportDepositMatchReconciliationReadiness r (Some v) (Some p) (Some w)"
  define inp where "inp = reconcile_request ctx date r v (pay_id p) ready"
  obtain q bills a where run: "reconcileMemoryPayment (ctx_uuid ctx) (api_bills s) inp = (Inr q, bills)"
    and a: "bill_paymentAllocations bills = bill_paymentAllocations (api_bills s) @ [a]" "alloc_amountCents a = pir_amountCents r"
      "alloc_invoiceId a = inv_id w" "alloc_paymentId a = pay_id p" "pay_id q = pay_id p" "pay_status q = Payment_received"
    using ready_reconciles [OF assms(9,4,5,6), of inp "ctx_uuid ctx"] by (auto simp: inp_def reconcile_request_def)
  have eligible: "rdy_eligible ready" unfolding ready_def by (rule ready_eligible [OF assms(6)])
  have deposit: "assertDepositMatchReviewRecord r = Inr ()"
    using assms(2,6) by (auto simp: assertDepositMatchReviewRecord_def deposit_ready_def truthy_def)
  obtain e where e: "aud_events (appendRouteAuditEvent sha256 ctx ''manual_payment.reconciled'' ''manual_payment'' (pay_id q)
        (reconcile_audit r v ready q) (api_audit s)) = aud_events (api_audit s) @ [e]" "aud_action e = ''manual_payment.reconciled''"
      "aud_resourceId e = pay_id q" using append_route_events by blast
  have "postReconcileManualPayment sha256 ctx s i date = (Inr q, s\<lparr>api_bills := bills,
      api_audit := appendRouteAuditEvent sha256 ctx ''manual_payment.reconciled'' ''manual_payment'' (pay_id q)
        (reconcile_audit r v ready q) (api_audit s)\<rparr>)"
    using run eligible unfolding inp_def ready_def
    by (simp add: postReconcileManualPayment_def assms(1,4,5,7,8) assms(3) [unfolded latest_match_def] deposit)
  then show ?thesis using a e by simp
qed

lemma reconcile_route_refused:
  assumes "postReconcileManualPayment sha256 ctx s i date = (res, t)"
    and "\<And>r v p w. getMemoryPaymentImportReviewRecord (api_imports s) (ctx_firmId ctx) i = Some r \<Longrightarrow> pir_eventFamily r = Family_deposit \<Longrightarrow>
      latest_match s (ctx_firmId ctx) r = Some v \<Longrightarrow> current_payment s (ctx_firmId ctx) (Some v) = Some p \<Longrightarrow>
      current_invoice s (ctx_firmId ctx) r (Some v) (Some p) = Some w \<Longrightarrow> deposit_ready r v p w \<Longrightarrow>
      dmr_currency v = ''CAD'' \<Longrightarrow> pir_currency r = ''CAD'' \<Longrightarrow> False"
  shows "t = s \<and> (\<exists>code \<in> {''PAYMENT_IMPORT_REVIEW_RECORD_NOT_FOUND'', ''PAYMENT_IMPORT_DEPOSIT_MATCH_REVIEW_UNSUPPORTED'',
      ''PAYMENT_IMPORT_DEPOSIT_MATCH_CANDIDATE_REQUIRED'', ''PAYMENT_IMPORT_DEPOSIT_MATCH_RECONCILE_NOT_ELIGIBLE''}. res = throw code)"
proof (cases "getMemoryPaymentImportReviewRecord (api_imports s) (ctx_firmId ctx) i")
  case None
  then show ?thesis using assms(1) by (simp add: postReconcileManualPayment_def)
next
  case (Some r)
  show ?thesis
  proof (cases "assertDepositMatchReviewRecord r")
    case (Inl e)
    then show ?thesis using assms(1) Some
      by (auto simp: postReconcileManualPayment_def assertDepositMatchReviewRecord_def throw_def split: if_splits)
  next
    case (Inr u)
    then have family: "pir_eventFamily r = Family_deposit" by (auto simp: assertDepositMatchReviewRecord_def split: if_splits)
    note unfolded = assms(1) [unfolded postReconcileManualPayment_def Some option.case Inr sum.case Let_def]
    show ?thesis
    proof (cases "latest_match s (ctx_firmId ctx) r")
      case None
      then show ?thesis using unfolded by (simp add: latest_match_def)
    next
      case v: (Some v)
      show ?thesis
      proof (cases "current_payment s (ctx_firmId ctx) (Some v)")
        case None
        then show ?thesis using unfolded v by (simp add: latest_match_def)
      next
        case p: (Some p)
        have "dmr_currency v = ''CAD'' \<Longrightarrow> pir_currency r = ''CAD'' \<Longrightarrow>
            \<not> rdy_eligible (paymentImportDepositMatchReconciliationReadiness r (Some v) (Some p) (current_invoice s (ctx_firmId ctx) r (Some v) (Some p)))"
          using assms(2) [OF Some family v p] eligible_ready by blast
        then show ?thesis using unfolded v p by (auto simp: latest_match_def split: if_splits)
      qed
    qed
  qed
qed

text \<open>
  C31. The route that reconciles an imported deposit refuses with one of its own codes and changes nothing,
  or succeeds as a whole: under the latest decision on the import, which supports the pending payment, it
  marks the payment received and allocates exactly the imported amount to the payment's invoice, with one
  audit event. The readiness check is strong enough that the store never refuses after it.
\<close>

theorem deposit_reconciliation_is_all_or_nothing:
  assumes "reachable api_init (api_step sha256) s"
    and "postReconcileManualPayment sha256 ctx s recordId reconciledAt = (res, t)"
  shows "case res of
      Inl e \<Rightarrow> t = s \<and> (\<exists>code \<in> {''PAYMENT_IMPORT_REVIEW_RECORD_NOT_FOUND'', ''PAYMENT_IMPORT_DEPOSIT_MATCH_REVIEW_UNSUPPORTED'',
        ''PAYMENT_IMPORT_DEPOSIT_MATCH_CANDIDATE_REQUIRED'', ''PAYMENT_IMPORT_DEPOSIT_MATCH_RECONCILE_NOT_ELIGIBLE''}. res = throw code)
    | Inr q \<Rightarrow> \<exists>r v p w a e. getMemoryPaymentImportReviewRecord (api_imports s) (ctx_firmId ctx) recordId = Some r
        \<and> latest_match s (ctx_firmId ctx) r = Some v \<and> findManualPayment (api_bills s) (ctx_firmId ctx) (dmr_candidateManualPaymentId v) = Some p
        \<and> getMemoryInvoice (api_bills s) (ctx_firmId ctx) (inv_id w) = Some w \<and> deposit_ready r v p w
        \<and> bill_paymentAllocations (api_bills t) = bill_paymentAllocations (api_bills s) @ [a]
        \<and> alloc_amountCents a = pir_amountCents r \<and> alloc_invoiceId a = inv_id w \<and> alloc_paymentId a = pay_id p
        \<and> pay_id q = pay_id p \<and> pay_status q = Payment_received \<and> api_imports t = api_imports s
        \<and> aud_events (api_audit t) = aud_events (api_audit s) @ [e] \<and> aud_action e = ''manual_payment.reconciled'' \<and> aud_resourceId e = pay_id p"
proof (cases "\<exists>r v p w. getMemoryPaymentImportReviewRecord (api_imports s) (ctx_firmId ctx) recordId = Some r \<and> pir_eventFamily r = Family_deposit
    \<and> latest_match s (ctx_firmId ctx) r = Some v \<and> current_payment s (ctx_firmId ctx) (Some v) = Some p
    \<and> current_invoice s (ctx_firmId ctx) r (Some v) (Some p) = Some w \<and> deposit_ready r v p w \<and> dmr_currency v = ''CAD'' \<and> pir_currency r = ''CAD''")
  case True
  then obtain r v p w where ok: "getMemoryPaymentImportReviewRecord (api_imports s) (ctx_firmId ctx) recordId = Some r" "pir_eventFamily r = Family_deposit"
    "latest_match s (ctx_firmId ctx) r = Some v" "current_payment s (ctx_firmId ctx) (Some v) = Some p"
    "current_invoice s (ctx_firmId ctx) r (Some v) (Some p) = Some w" "deposit_ready r v p w" "dmr_currency v = ''CAD''" "pir_currency r = ''CAD''" by blast
  have "bill_inv (api_bills s)" using api_run.reachable_inv [OF assms(1)] by (simp add: api_inv_def)
  from reconcile_route_ready [OF ok this, of sha256 reconciledAt]
  obtain q t' a e where run: "postReconcileManualPayment sha256 ctx s recordId reconciledAt = (Inr q, t')"
    and facts: "bill_paymentAllocations (api_bills t') = bill_paymentAllocations (api_bills s) @ [a]" "alloc_amountCents a = pir_amountCents r"
      "alloc_invoiceId a = inv_id w" "alloc_paymentId a = pay_id p" "pay_id q = pay_id p" "pay_status q = Payment_received"
      "api_imports t' = api_imports s" "aud_events (api_audit t') = aud_events (api_audit s) @ [e]"
      "aud_action e = ''manual_payment.reconciled''" "aud_resourceId e = pay_id p" by blast
  have res: "res = Inr q" "t' = t" using run assms(2) by simp_all
  have "findManualPayment (api_bills s) (ctx_firmId ctx) (dmr_candidateManualPaymentId v) = Some p"
    using ok(4) by (simp add: current_payment_def)
  moreover have "getMemoryInvoice (api_bills s) (ctx_firmId ctx) (inv_id w) = Some w"
    using ok(5,6) by (auto simp: current_invoice_def deposit_ready_def either_id_def truthy_def split: if_splits)
  ultimately show ?thesis
    unfolding res sum.case using ok(1,3,6) facts [unfolded res(2)] by blast
next
  case False
  then have "t = s \<and> (\<exists>code \<in> {''PAYMENT_IMPORT_REVIEW_RECORD_NOT_FOUND'', ''PAYMENT_IMPORT_DEPOSIT_MATCH_REVIEW_UNSUPPORTED'',
      ''PAYMENT_IMPORT_DEPOSIT_MATCH_CANDIDATE_REQUIRED'', ''PAYMENT_IMPORT_DEPOSIT_MATCH_RECONCILE_NOT_ELIGIBLE''}. res = throw code)"
    by (intro reconcile_route_refused [OF assms(2)]) blast
  then show ?thesis by (cases res) (auto simp: throw_def)
qed

lemma candidate_links_payment:
  assumes "assertCandidateLinks s f m j h c = Inr (Some p)"
  shows "truthy c \<and> findManualPayment (api_bills s) f (or_else c []) = Some p \<and> pay_matterId p = m
    \<and> (truthy j \<longrightarrow> (\<exists>w. getMemoryInvoice (api_bills s) f (or_else j []) = Some w \<and> inv_matterId w = m))"
proof -
  obtain links links' where a: "invoice_link s f m j = Inr links" "payment_link s f m c links' = Inr (Some p)"
    using assms unfolding assertCandidateLinks_def bind_result_def by (auto split: sum.splits if_splits)
  have "truthy j \<longrightarrow> (\<exists>w. getMemoryInvoice (api_bills s) f (or_else j []) = Some w \<and> inv_matterId w = m)"
    using a(1) by (auto simp: invoice_link_def Let_def split: option.splits if_splits)
  moreover have "truthy c \<and> findManualPayment (api_bills s) f (or_else c []) = Some p \<and> pay_matterId p = m"
    using a(2) by (auto simp: payment_link_def split: option.splits if_splits)
  ultimately show ?thesis by blast
qed

lemma rethrow_not_ok [simp]: "rethrowIdempotencyConflict (Inl e) \<noteq> Inr x"
  by (simp add: rethrowIdempotencyConflict_def throw_def)

lemma match_route_accepts:
  assumes "postDepositMatchReview sha256 ctx s i body = (Inr created, t)"
  obtains r p store where "getMemoryPaymentImportReviewRecord (api_imports s) (ctx_firmId ctx) i = Some r"
    "assertDepositMatchReviewRecord r = Inr ()"
    "assertCandidateLinks s (ctx_firmId ctx) (pir_matterId r) (pir_candidateInvoiceId r) (pir_candidateHostedPaymentRequestId r)
       (pir_candidateManualPaymentId r) = Inr (Some p)"
    "dbd_decision body = DepositMatch_candidate_supported \<longrightarrow> assertCandidateSupportedAllowed r p = Inr ()"
    "createMemoryPaymentImportDepositMatchReview (api_imports s) (match_review sha256 ctx r p body) = (Inr created, store)"
    "api_imports t = store" "api_bills t = api_bills s"
proof -
  obtain r where r: "getMemoryPaymentImportReviewRecord (api_imports s) (ctx_firmId ctx) i = Some r"
    using assms by (auto simp: postDepositMatchReview_def split: option.splits)
  note u = assms [unfolded postDepositMatchReview_def r option.case]
  obtain x p where x: "assertDepositMatchReviewRecord r = Inr x"
    and p: "assertCandidateLinks s (ctx_firmId ctx) (pir_matterId r) (pir_candidateInvoiceId r) (pir_candidateHostedPaymentRequestId r)
       (pir_candidateManualPaymentId r) = Inr (Some p)"
    using u by (cases "assertDepositMatchReviewRecord r") (auto split: sum.splits option.splits)
  note v = u [unfolded x bind_result_Inr p sum.case option.case]
  have "dbd_decision body = DepositMatch_candidate_supported \<longrightarrow> assertCandidateSupportedAllowed r p = Inr ()"
    using v by (auto split: sum.splits)
  moreover obtain store where "createMemoryPaymentImportDepositMatchReview (api_imports s) (match_review sha256 ctx r p body) = (Inr created, store)"
    "api_imports t = store" "api_bills t = api_bills s"
    using v by (auto split: sum.splits prod.splits)
  ultimately show thesis using that r x p by simp
qed

text \<open>The newest of the decisions on an import is the one just taken, when the clock has moved on.\<close>

definition clock_moved :: "PaymentImportApi \<Rightarrow> ApiContext \<Rightarrow> bool" where
  "clock_moved s ctx \<longleftrightarrow> date_parse (ctx_now ctx) \<noteq> None
     \<and> list_all (\<lambda>v. date_parse (dmr_reviewedAt v) \<noteq> None \<and> time_of dmr_reviewedAt v < or_else (date_parse (ctx_now ctx)) 0)
         (pis_paymentImportDepositMatchReviews (api_imports s))"

lemma latest_is_new:
  assumes "clock_moved s ctx" and "pis_paymentImportDepositMatchReviews (api_imports t) = pis_paymentImportDepositMatchReviews (api_imports s) @ [v]"
    and "dmr_reviewedAt v = ctx_now ctx" "dmr_firmId v = f" "dmr_paymentImportReviewRecordId v = pir_id r"
  shows "latest_match t f r = Some v"
proof -
  let ?ks = "filter (\<lambda>x. dmr_firmId x = f \<and> matchesDepositMatchReviewOptions x (matches_of_import (pir_id r)))
      (pis_paymentImportDepositMatchReviews (api_imports t))"
  have mem: "v \<in> set ?ks" using assms(2-5)
    by (simp add: matchesDepositMatchReviewOptions_def matches_of_import_def unless_text_def unless_given_def truthy_def)
  have old: "x \<in> set ?ks \<Longrightarrow> x = v \<or> time_of dmr_reviewedAt x < time_of dmr_reviewedAt v \<and> date_parse (dmr_reviewedAt x) \<noteq> None" for x
  proof -
    assume "x \<in> set ?ks"
    then have "x = v \<or> x \<in> set (pis_paymentImportDepositMatchReviews (api_imports s))" using assms(2) by (auto split: if_splits)
    then show ?thesis using assms(1,3) unfolding clock_moved_def list_all_iff time_of_def [of _ v] by auto
  qed
  have dates: "\<forall>x \<in> set (js_sort newestMatchReviewFirst ?ks). date_parse (dmr_reviewedAt x) \<noteq> None"
  proof
    fix x assume "x \<in> set (js_sort newestMatchReviewFirst ?ks)"
    then have "x \<in> set ?ks" by simp
    then show "date_parse (dmr_reviewedAt x) \<noteq> None" using old [of x] assms(1,3) by (auto simp: clock_moved_def)
  qed
  obtain m where m: "latest_match t f r = Some m"
  proof (cases "js_sort newestMatchReviewFirst (js_sort newestMatchReviewFirst ?ks)")
    case Nil
    then show thesis using mem by (metis js_sort_Nil_iff empty_iff list.set(1))
  qed (simp add: that latest_match_def latestDepositMatchReview_def listMemoryPaymentImportDepositMatchReviews_def head_def)
  then have "head (js_sort (\<lambda>left right. date_difference (dmr_reviewedAt right) (dmr_reviewedAt left)) (js_sort newestMatchReviewFirst ?ks)) = Some m"
    by (simp add: latest_match_def latestDepositMatchReview_def listMemoryPaymentImportDepositMatchReviews_def newestMatchReviewFirst_def [abs_def])
  from head_newest [OF this dates] have "m \<in> set ?ks" "time_of dmr_reviewedAt v \<le> time_of dmr_reviewedAt m" using mem by auto
  then have "m = v" using old by force
  then show ?thesis using m by simp
qed

text \<open>
  C32. Review leads to reconciliation: when a decision supporting a deposit match is recorded under a new
  key and the clock moves on between decisions, and the payment names the import's candidate invoice,
  which owes at least its amount, the reconcile route then succeeds.
\<close>

theorem supported_deposit_can_be_reconciled:
  assumes "reachable api_init (api_step sha256) s"
    and "postDepositMatchReview sha256 ctx s recordId body = (Inr created, t)" "depositMatchReviewBodyRefinement body"
    and "dbd_decision body = DepositMatch_candidate_supported"
    and "list_all (\<lambda>v. dmr_idempotencyKey v \<noteq> dbd_idempotencyKey body) (pis_paymentImportDepositMatchReviews (api_imports s))" "clock_moved s ctx"
    and "getMemoryPaymentImportReviewRecord (api_imports s) (ctx_firmId ctx) recordId = Some r"
    and "pir_candidateManualPaymentId r = Some paymentId" "findManualPayment (api_bills s) (ctx_firmId ctx) paymentId = Some p"
    and "pir_candidateInvoiceId r = Some (inv_id w)" "inv_id w \<noteq> []" "pay_invoiceId p = Some (inv_id w)"
    and "getMemoryInvoice (api_bills s) (ctx_firmId ctx) (inv_id w) = Some w" "pay_amountCents p \<le> inv_balanceDueCents w"
    and "pir_currency r = ''CAD''" "ctx_firmId later = ctx_firmId ctx"
  shows "\<exists>q u. postReconcileManualPayment sha256 later t recordId reconciledAt = (Inr q, u) \<and> pay_id q = pay_id p \<and> pay_status q = Payment_received"
proof -
  let ?f = "ctx_firmId ctx"
  obtain r' p' store where r': "getMemoryPaymentImportReviewRecord (api_imports s) ?f recordId = Some r'"
    and deposit: "assertDepositMatchReviewRecord r' = Inr ()"
    and links: "assertCandidateLinks s ?f (pir_matterId r') (pir_candidateInvoiceId r') (pir_candidateHostedPaymentRequestId r')
      (pir_candidateManualPaymentId r') = Inr (Some p')"
    and allowed: "dbd_decision body = DepositMatch_candidate_supported \<longrightarrow> assertCandidateSupportedAllowed r' p' = Inr ()"
    and create: "createMemoryPaymentImportDepositMatchReview (api_imports s) (match_review sha256 ctx r' p' body) = (Inr created, store)"
    and t: "api_imports t = store" "api_bills t = api_bills s"
    by (rule match_route_accepts [OF assms(2)])
  have r: "r' = r" using r' assms(7) by simp
  have p': "p' = p" and matter: "pay_matterId p = pir_matterId r" "inv_matterId w = pir_matterId r"
    using candidate_links_payment [OF links] assms(8-13) by (auto simp: r truthy_def)
  have family: "pir_eventFamily r = Family_deposit" and cand: "paymentId \<noteq> []"
    using deposit assms(8) by (auto simp: r assertDepositMatchReviewRecord_def truthy_def split: if_splits)
  have pid: "pay_id p = paymentId" using assms(9) find_Some_mem by (fastforce simp: findManualPayment_find)
  let ?v = "match_review sha256 ctx r p body"
  have "List.find (\<lambda>c. match_key c = match_key ?v) (pis_paymentImportDepositMatchReviews (api_imports s)) = None"
    using assms(5) by (auto simp: find_None_all list_all_iff match_key_def match_review_def)
  then have "created = ?v \<and> store = (api_imports s)\<lparr>pis_paymentImportDepositMatchReviews :=
      pis_paymentImportDepositMatchReviews (api_imports s) @ [?v]\<rparr>"
    using create by (auto simp: p' r import_create_defs create_once_def)
  then have created: "created = ?v" and reviews: "pis_paymentImportDepositMatchReviews (api_imports t) = pis_paymentImportDepositMatchReviews (api_imports s) @ [?v]"
    and records: "pis_paymentImportReviewRecords (api_imports t) = pis_paymentImportReviewRecords (api_imports s)"
    by (simp_all add: t(1))
  have ready: "deposit_ready r ?v p w"
    using allowed assms(3,4,8,10-12,14) matter cand pid
    by (auto simp: p' r deposit_ready_def match_review_def assertCandidateSupportedAllowed_def depositMatchReviewBodyRefinement_def
        paymentImportReviewHasConflict_def either_id_def throw_def split: if_splits)
  have "api_step sha256 s t" using api_step.step_post_match [OF assms(3,2)] .
  then have inv: "bill_inv (api_bills t)" using api_run.reachable_inv [OF reach_step [OF assms(1)]] by (simp add: api_inv_def)
  have latest: "latest_match t ?f r = Some ?v"
    using latest_is_new [OF assms(6) reviews] by (simp add: match_review_def)
  have "\<exists>q u a e. postReconcileManualPayment sha256 later t recordId reconciledAt = (Inr q, u)
      \<and> bill_paymentAllocations (api_bills u) = bill_paymentAllocations (api_bills t) @ [a] \<and> alloc_amountCents a = pir_amountCents r
      \<and> alloc_invoiceId a = inv_id w \<and> alloc_paymentId a = pay_id p \<and> pay_id q = pay_id p \<and> pay_status q = Payment_received
      \<and> api_imports u = api_imports t \<and> aud_events (api_audit u) = aud_events (api_audit t) @ [e]
      \<and> aud_action e = ''manual_payment.reconciled'' \<and> aud_resourceId e = pay_id p"
  proof (rule reconcile_route_ready [where v = ?v])
    show "getMemoryPaymentImportReviewRecord (api_imports t) (ctx_firmId later) recordId = Some r"
      using assms(7,16) records by (simp add: getMemoryPaymentImportReviewRecord_def)
    show "current_payment t (ctx_firmId later) (Some ?v) = Some p"
      using assms(9,16) t(2) pid by (simp add: current_payment_def match_review_def)
    show "current_invoice t (ctx_firmId later) r (Some ?v) (Some p) = Some w"
      using assms(11-13,16) t(2) by (simp add: current_invoice_def either_id_def truthy_def)
  qed (use family latest ready inv assms(15,16) in \<open>simp_all add: match_review_def\<close>)
  then show ?thesis by blast
qed

subsection \<open>The same event for another matter\<close>

text \<open>
  C34. The evidence fingerprint leaves out the matter: an event that was imported for one matter answers a
  request for another matter of the firm (with the same evidence and no candidates) with the record of the first
  matter, although the route checked access to the other one only. A defect.
\<close>

theorem import_of_other_matter_is_disclosed:
  assumes "postPaymentImportReviewRecord sha256 ctx s body = (Inr created, t)"
    and "pbd_candidateInvoiceId body = None" "pbd_candidateHostedPaymentRequestId body = None" "pbd_candidateManualPaymentId body = None"
    and "ctx_firmId other = ctx_firmId ctx"
  shows "fst (postPaymentImportReviewRecord sha256 other t (body\<lparr>pbd_matterId := matterId, pbd_id := newId\<rparr>)) = Inr created"
proof -
  let ?v = "import_record sha256 ctx body" and ?w = "import_record sha256 other (body\<lparr>pbd_matterId := matterId, pbd_id := newId\<rparr>)"
  have links: "assertCandidateLinks u f m None None None = Inr None" for u f m
    by (simp add: assertCandidateLinks_def invoice_link_def hosted_link_def payment_link_def truthy_def)
  have create: "create_once import_key pir_normalizedEvidenceFingerprint (pis_paymentImportReviewRecords (api_imports s)) ?v
      = (Inr created, pis_paymentImportReviewRecords (api_imports t))"
    using assms(1) unfolding postPaymentImportReviewRecord_def assms(2-4) links
    by (auto simp: import_create_defs split: prod.splits sum.splits)
  have "create_once import_key pir_normalizedEvidenceFingerprint (pis_paymentImportReviewRecords (api_imports t)) ?v
      = (Inr created, pis_paymentImportReviewRecords (api_imports t))"
    by (rule create_once.retry_same [OF TrueI create])
  moreover have "\<exists>x. List.find (\<lambda>c. import_key c = import_key ?v) (pis_paymentImportReviewRecords (api_imports t)) = Some x"
    using create by (auto elim!: create_once_cases simp: find_append)
  moreover have "import_key ?w = import_key ?v" "pir_normalizedEvidenceFingerprint ?w = pir_normalizedEvidenceFingerprint ?v"
    by (simp_all add: import_record_def import_key_def import_evidence_def assms(5))
  ultimately have "create_once import_key pir_normalizedEvidenceFingerprint (pis_paymentImportReviewRecords (api_imports t)) ?w
      = (Inr created, pis_paymentImportReviewRecords (api_imports t))"
    by (auto simp: create_once_def)
  then show ?thesis
    by (simp add: postPaymentImportReviewRecord_def assms(2-4) links import_create_defs)
qed

subsection \<open>A worked run\<close>

definition example_api :: PaymentImportApi where
  "example_api = \<lparr>api_bills = ex_pending, api_imports = empty_imports, api_hosted = \<lparr>hps_hostedPaymentRequests = []\<rparr>,
     api_audit = \<lparr>aud_events = []\<rparr>\<rparr>"

definition example_context :: "string \<Rightarrow> ApiContext" where
  "example_context now = \<lparr>ctx_firmId = ''f'', ctx_userId = ''u'', ctx_now = now, ctx_uuid = now, ctx_auditId = now, ctx_auditNow = now\<rparr>"

definition example_deposit_body :: "string option \<Rightarrow> string option \<Rightarrow> PaymentImportReviewBody" where
  "example_deposit_body invoice payment =
     \<lparr>pbd_id = Some ''import-1'', pbd_matterId = ''m'', pbd_providerLabel = ''bank'', pbd_eventFamily = Family_deposit, pbd_eventStatus = ''settled'',
      pbd_externalEventId = ''evt-1'', pbd_externalPaymentId = None, pbd_externalDepositId = None, pbd_amountCents = 100, pbd_currency = ''CAD'',
      pbd_observedAt = None, pbd_candidateInvoiceId = invoice, pbd_candidateHostedPaymentRequestId = None,
      pbd_candidateManualPaymentId = payment, pbd_duplicateOfRecordId = None, pbd_conflictReason = None\<rparr>"

definition example_match_body :: DepositMatchReviewBody where
  "example_match_body = \<lparr>dbd_id = None, dbd_decision = DepositMatch_candidate_supported,
     dbd_reason = MatchReason_candidate_evidence_matches, dbd_idempotencyKey = ''key-1''\<rparr>"

definition no_hash :: "string \<Rightarrow> string" where
  "no_hash text = ''h''"

definition example_record :: PaymentImportReviewRecord where
  "example_record = import_record no_hash (example_context ''2026-02-01'') (example_deposit_body (Some ''i'') (Some ''p''))"

definition example_imported :: PaymentImportApi where
  "example_imported = example_api\<lparr>api_imports := empty_imports\<lparr>pis_paymentImportReviewRecords := [example_record]\<rparr>,
     api_audit := appendRouteAuditEvent no_hash (example_context ''2026-02-01'') ''payment_import_review_record.created''
       ''payment_import_review_record'' (pir_id example_record) (import_audit example_record) (api_audit example_api)\<rparr>"

definition example_payment :: PaymentWithAllocations where
  "example_payment = with_allocations (ex_manual Payment_pending_reconciliation) []"

definition example_match :: PaymentImportDepositMatchReviewRecord where
  "example_match = match_review no_hash (example_context ''2026-02-02'') example_record example_payment example_match_body"

definition example_matched :: PaymentImportApi where
  "example_matched = example_imported\<lparr>api_imports := (api_imports example_imported)\<lparr>pis_paymentImportDepositMatchReviews := [example_match]\<rparr>,
     api_audit := appendRouteAuditEvent no_hash (example_context ''2026-02-02'') ''payment_import_deposit_match_review.recorded''
       ''payment_import_deposit_match_review'' (dmr_id example_match) (match_audit example_match) (api_audit example_imported)\<rparr>"

lemmas example_bill_defs = ex_pending_def ex_bills_def ex_invoice_def ex_line_def ex_manual_def

lemma example_record_fields [simp]:
  "pir_id example_record = ''import-1''" "pir_firmId example_record = ''f''" "pir_matterId example_record = ''m''"
  "pir_eventFamily example_record = Family_deposit" "pir_candidateInvoiceId example_record = Some ''i''"
  "pir_candidateManualPaymentId example_record = Some ''p''" "pir_candidateHostedPaymentRequestId example_record = None"
  "pir_currency example_record = ''CAD''" "pir_amountCents example_record = 100" "pir_duplicateOfRecordId example_record = None"
  "pir_conflictReason example_record = None"
  by (simp_all add: example_record_def import_record_def example_deposit_body_def example_context_def)

lemma example_payment_found [simp]: "findManualPayment ex_pending ''f'' ''p'' = Some example_payment"
  by (simp add: findManualPayment_find example_payment_def example_bill_defs)

lemma example_payment_fields [simp]: "pay_matterId example_payment = ''m''" "pay_status example_payment = Payment_pending_reconciliation"
  "pay_amountCents example_payment = 100" "pay_invoiceId example_payment = Some ''i''" "pay_id example_payment = ''p''"
  by (simp_all add: example_payment_def ex_manual_def)

lemma example_invoice_found [simp]: "getMemoryInvoice ex_pending ''f'' ''i'' = Some (with_lines ex_invoice [ex_line])"
  by (simp add: getMemoryInvoice_def example_bill_defs)

lemma example_invoice_fields [simp]: "inv_id ex_invoice = ''i''" "inv_matterId ex_invoice = ''m''" "inv_balanceDueCents ex_invoice = 100"
  by (simp_all add: ex_invoice_def)

lemma example_links: "assertCandidateLinks s ''f'' ''m'' (Some ''i'') None (Some ''p'') = Inr (Some example_payment)" if "api_bills s = ex_pending"
  using that by (simp add: assertCandidateLinks_def invoice_link_def hosted_link_def payment_link_def truthy_def)

lemma example_import_run:
  "postPaymentImportReviewRecord no_hash (example_context ''2026-02-01'') example_api (example_deposit_body (Some ''i'') (Some ''p''))
     = (Inr example_record, example_imported)"
proof -
  have "assertCandidateLinks example_api ''f'' ''m'' (Some ''i'') None (Some ''p'') = Inr (Some example_payment)"
    by (rule example_links) (simp add: example_api_def)
  then show ?thesis
    unfolding postPaymentImportReviewRecord_def example_record_def [symmetric]
    by (simp add: example_context_def example_deposit_body_def example_imported_def)
      (simp add: import_create_defs create_once_def example_api_def empty_imports_def example_context_def)
qed

lemma example_match_run:
  "postDepositMatchReview no_hash (example_context ''2026-02-02'') example_imported ''import-1'' example_match_body = (Inr example_match, example_matched)"
proof -
  have "assertCandidateLinks example_imported ''f'' ''m'' (Some ''i'') None (Some ''p'') = Inr (Some example_payment)"
    by (rule example_links) (simp add: example_imported_def example_api_def)
  moreover have "getMemoryPaymentImportReviewRecord (api_imports example_imported) ''f'' ''import-1'' = Some example_record"
    by (simp add: getMemoryPaymentImportReviewRecord_def example_imported_def)
  moreover have "assertDepositMatchReviewRecord example_record = Inr ()" "assertCandidateSupportedAllowed example_record example_payment = Inr ()"
    by (simp_all add: assertDepositMatchReviewRecord_def assertCandidateSupportedAllowed_def truthy_def)
  moreover have "ctx_firmId (example_context ''2026-02-02'') = ''f''" by (simp add: example_context_def)
  ultimately show ?thesis
    unfolding postDepositMatchReview_def
    by (simp add: example_match_def [symmetric] example_matched_def)
      (simp add: import_create_defs create_once_def example_imported_def empty_imports_def)
qed

lemma reachable_with_bills:
  assumes "reachable no_bills bill_step b" "api_init s"
  shows "reachable api_init (api_step sha256) (s\<lparr>api_bills := b\<rparr>)"
  using assms(1)
proof (induction rule: reachable.induct)
  case (reach_init b)
  then show ?case using assms(2) by (intro reachable.reach_init) (simp add: api_init_def)
next
  case (reach_step b c)
  then show ?case using api_step.step_billing [of "s\<lparr>api_bills := b\<rparr>" c] by (auto intro: reachable.reach_step)
qed

lemma example_api_reachable: "reachable api_init (api_step no_hash) example_api"
proof -
  have "api_init (example_api\<lparr>api_bills := \<lparr>bill_invoices = [], bill_invoiceLines = [], bill_manualPayments = [], bill_paymentAllocations = []\<rparr>\<rparr>)"
    by (simp add: api_init_def example_api_def no_bills_def no_imports_def empty_imports_def no_events_def)
  from reachable_with_bills [OF ex_pending_reachable this, of no_hash] show ?thesis by (simp add: example_api_def)
qed

lemma example_imported_reachable: "reachable api_init (api_step no_hash) example_imported"
  by (rule reach_step [OF example_api_reachable]) (rule api_step.step_post_import [OF example_import_run])

lemma example_matched_reachable: "reachable api_init (api_step no_hash) example_matched"
  by (rule reach_step [OF example_imported_reachable], rule api_step.step_post_match [OF _ example_match_run])
    (simp add: depositMatchReviewBodyRefinement_def example_match_body_def)

theorem payment_import_decisions_are_consistent_witness:
  "decisions_consistent (api_imports example_matched) \<and> length (pis_paymentImportDepositMatchReviews (api_imports example_matched)) = 1"
proof
  show "decisions_consistent (api_imports example_matched)"
    using payment_import_decisions_are_consistent [OF example_matched_reachable] by blast
  show "length (pis_paymentImportDepositMatchReviews (api_imports example_matched)) = 1"
    by (simp add: example_matched_def)
qed

lemma example_clock: "date_parse ''2026-02-02'' = Some 1769990400000"
  by code_simp

theorem supported_deposit_can_be_reconciled_witness:
  "\<exists>q u. postReconcileManualPayment no_hash (example_context ''2026-02-03'') example_matched ''import-1'' None = (Inr q, u)
     \<and> pay_id q = ''p'' \<and> pay_status q = Payment_received"
proof -
  have "\<exists>q u. postReconcileManualPayment no_hash (example_context ''2026-02-03'') example_matched ''import-1'' None = (Inr q, u)
     \<and> pay_id q = pay_id example_payment \<and> pay_status q = Payment_received"
  proof (rule supported_deposit_can_be_reconciled [OF example_imported_reachable example_match_run, where r = example_record
        and w = "with_lines ex_invoice [ex_line]" and paymentId = "''p''"])
    show "depositMatchReviewBodyRefinement example_match_body" "dbd_decision example_match_body = DepositMatch_candidate_supported"
      by (simp_all add: example_match_body_def depositMatchReviewBodyRefinement_def)
    show "clock_moved example_imported (example_context ''2026-02-02'')"
      by (simp add: clock_moved_def example_imported_def empty_imports_def example_context_def example_clock)
  qed (simp_all add: example_imported_def empty_imports_def example_api_def example_context_def getMemoryPaymentImportReviewRecord_def)
  then show ?thesis by simp
qed

theorem deposit_reconciliation_is_all_or_nothing_witness:
  "case postReconcileManualPayment no_hash (example_context ''2026-02-03'') example_imported ''import-1'' None of
     (res, t) \<Rightarrow> t = example_imported \<and> res = throw ''PAYMENT_IMPORT_DEPOSIT_MATCH_RECONCILE_NOT_ELIGIBLE''"
proof -
  obtain res t where run: "postReconcileManualPayment no_hash (example_context ''2026-02-03'') example_imported ''import-1'' None = (res, t)" by fastforce
  have res: "res = throw ''PAYMENT_IMPORT_DEPOSIT_MATCH_RECONCILE_NOT_ELIGIBLE''"
    using run by (simp add: postReconcileManualPayment_def getMemoryPaymentImportReviewRecord_def example_imported_def example_context_def
        assertDepositMatchReviewRecord_def truthy_def listMemoryPaymentImportDepositMatchReviews_def empty_imports_def latestDepositMatchReview_def
        head_def Let_def)
  moreover have "t = example_imported"
    using deposit_reconciliation_is_all_or_nothing [OF example_imported_reachable run] by (simp add: res throw_def)
  ultimately show ?thesis using run by simp
qed

lemma other_import_run:
  "\<exists>t. postPaymentImportReviewRecord no_hash (example_context ''2026-02-01'') example_api (example_deposit_body None None)
    = (Inr (import_record no_hash (example_context ''2026-02-01'') (example_deposit_body None None)), t)"
proof -
  have "assertCandidateLinks s f m None None None = Inr None" for s f m
    by (simp add: assertCandidateLinks_def invoice_link_def hosted_link_def payment_link_def truthy_def)
  then show ?thesis
    unfolding postPaymentImportReviewRecord_def
    by (simp add: example_deposit_body_def import_create_defs create_once_def example_api_def empty_imports_def)
qed

theorem import_of_other_matter_is_disclosed_witness:
  "\<exists>created t. postPaymentImportReviewRecord no_hash (example_context ''2026-02-01'') example_api (example_deposit_body None None) = (Inr created, t)
    \<and> fst (postPaymentImportReviewRecord no_hash (example_context ''2026-02-05'') t
         ((example_deposit_body None None)\<lparr>pbd_matterId := ''other'', pbd_id := None\<rparr>)) = Inr created
    \<and> pir_matterId created = ''m''"
proof -
  obtain t where run: "postPaymentImportReviewRecord no_hash (example_context ''2026-02-01'') example_api (example_deposit_body None None)
    = (Inr (import_record no_hash (example_context ''2026-02-01'') (example_deposit_body None None)), t)" using other_import_run by blast
  have "fst (postPaymentImportReviewRecord no_hash (example_context ''2026-02-05'') t
         ((example_deposit_body None None)\<lparr>pbd_matterId := ''other'', pbd_id := None\<rparr>))
      = Inr (import_record no_hash (example_context ''2026-02-01'') (example_deposit_body None None))"
    by (rule import_of_other_matter_is_disclosed [OF run]) (simp_all add: example_deposit_body_def example_context_def)
  then show ?thesis using run by (auto simp: import_record_def example_deposit_body_def)
qed

end
