(* ===== verification/Workflow_Audit.thy ===== *)
theory Workflow_Audit
  imports Audit_Chain Permissions
begin

section \<open>Workflow metadata and history\<close>

text \<open>
  packages/domain/src/workflow-audit.ts: the metadata a workflow leaves in its audit events, and the
  history read back from audit events and job records, grouped by request, job or resource.
  \<open>localeCompare\<close> is the argument \<open>collate\<close>; objects and maps are association lists in insertion order.
\<close>

subsection \<open>Data\<close>

datatype WorkflowAuditStatus = Wf_queued | Wf_active | Wf_succeeded | Wf_failed | Wf_skipped

datatype WorkflowHistoryStepSource = Source_audit | Source_job

datatype WorkflowReviewPacketCueKind = Cue_matter | Cue_task | Cue_template | Cue_document | Cue_resource

record WorkflowReviewPacketCue =
  cue_kind :: WorkflowReviewPacketCueKind
  cue_label :: string
  cue_value :: string

record WorkflowReviewPacket =
  wrp_reviewOnly :: bool
  wrp_automationDisabled :: bool
  wrp_externalConnectorDisabled :: bool
  wrp_backgroundMutationDisabled :: bool
  wrp_cues :: "WorkflowReviewPacketCue list"

record WorkflowHistoryStep =
  step_id :: string
  step_source :: WorkflowHistoryStepSource
  step_label :: string
  step_status :: WorkflowAuditStatus
  step_occurredAt :: string
  step_matterIds :: "string list"
  step_resourceType :: "string option"
  step_resourceId :: "string option"
  step_action :: "string option"
  step_queueName :: "OpenPracticeQueueName option"
  step_jobName :: "string option"
  step_jobId :: "string option"
  step_retryOfJobId :: "string option"
  step_idempotencyKeyPresent :: "bool option"
  step_attemptsMade :: "int option"
  step_maxAttempts :: "int option"
  step_metadata :: "(string \<times> js_value) list"

record WorkflowHistoryItem =
  wf_id :: string
  wf_groupKey :: string
  wf_title :: string
  wf_status :: WorkflowAuditStatus
  wf_startedAt :: string
  wf_lastObservedAt :: string
  wf_finishedAt :: "string option"
  wf_matterIds :: "string list"
  wf_resourceType :: "string option"
  wf_resourceId :: "string option"
  wf_queueNames :: "OpenPracticeQueueName list"
  wf_jobIds :: "string list"
  wf_stepCount :: int
  wf_reviewPacket :: WorkflowReviewPacket
  wf_steps :: "WorkflowHistoryStep list"

record WorkflowHistorySummary =
  whs_total :: int
  whs_active :: int
  whs_failed :: int
  whs_terminal :: int

record WorkflowHistoryProjection =
  whp_available :: bool
  whp_generatedAt :: string
  whp_summary :: WorkflowHistorySummary
  whp_workflows :: "WorkflowHistoryItem list"

record BuildWorkflowHistoryProjectionInput =
  whi_jobs :: "JobLifecycleRecord list"
  whi_auditEvents :: "AuditEvent list"
  whi_generatedAt :: "string option"
  whi_limit :: "nat option"
  whi_matterId :: "string option"
  whi_queueName :: "OpenPracticeQueueName option"
  whi_status :: "WorkflowAuditStatus option"

subsection \<open>Safe values\<close>

definition safeString :: "js_value \<Rightarrow> string option" where
  "safeString v = (case v of JStr s \<Rightarrow> if trim s \<noteq> [] then Some (trim s) else None | _ \<Rightarrow> None)"

definition safeStringArray :: "js_value \<Rightarrow> string list option" where
  "safeStringArray v =
     (case v of
        JArr items \<Rightarrow> (let values = js_set (List.map_filter safeString items) in if values \<noteq> [] then Some values else None)
      | _ \<Rightarrow> None)"

definition safeNonNegativeInteger :: "js_value \<Rightarrow> int option" where
  "safeNonNegativeInteger v = (case v of JNum n \<Rightarrow> if n \<ge> 0 then Some n else None | _ \<Rightarrow> None)"

definition safeBoolean :: "js_value \<Rightarrow> bool option" where
  "safeBoolean v = (case v of JBool b \<Rightarrow> Some b | _ \<Rightarrow> None)"

primrec workflow_status_name :: "WorkflowAuditStatus \<Rightarrow> string" where
  "workflow_status_name Wf_queued = ''queued''"
| "workflow_status_name Wf_active = ''active''"
| "workflow_status_name Wf_succeeded = ''succeeded''"
| "workflow_status_name Wf_failed = ''failed''"
| "workflow_status_name Wf_skipped = ''skipped''"

definition safeWorkflowStatus :: "js_value \<Rightarrow> WorkflowAuditStatus option" where
  "safeWorkflowStatus v =
     List.find (\<lambda>status. v = JStr (workflow_status_name status)) [Wf_queued, Wf_active, Wf_succeeded, Wf_failed, Wf_skipped]"

definition safeCueValue :: "string option \<Rightarrow> string option" where
  "safeCueValue v =
     (case v of None \<Rightarrow> None | Some s \<Rightarrow> map_option (take 80) (safeString (JStr s)))"

definition safeActorType :: "js_value \<Rightarrow> string option" where
  "safeActorType v =
     List.find (\<lambda>name. v = JStr name)
       [''owner_admin'', ''licensee'', ''firm_member'', ''billing_bookkeeper'', ''client_external'', ''auditor'', ''system'']"

definition metadata_value :: "(string \<times> js_value) list \<Rightarrow> string \<Rightarrow> js_value" where
  "metadata_value metadata key = or_else (map_get metadata key) JUndefined"

definition metadata_entry :: "string \<Rightarrow> ('a \<Rightarrow> js_value) \<Rightarrow> 'a option \<Rightarrow> (string \<times> js_value) list" where
  "metadata_entry key f value = (case value of None \<Rightarrow> [] | Some v \<Rightarrow> [(key, f v)])"

definition buildWorkflowAuditMetadata :: "(string \<times> js_value) list \<Rightarrow> (string \<times> js_value) list" where
  "buildWorkflowAuditMetadata input =
     (let text = (\<lambda>key. metadata_entry key JStr (safeString (metadata_value input key)));
          number = (\<lambda>key. metadata_entry key JNum (safeNonNegativeInteger (metadata_value input key)))
      in text ''requestId'' @ text ''jobId''
         @ metadata_entry ''actorType'' JStr (safeActorType (metadata_value input ''actorType''))
         @ text ''actorId'' @ text ''matterId''
         @ metadata_entry ''matterIds'' (\<lambda>ids. JArr (map JStr ids)) (safeStringArray (metadata_value input ''matterIds''))
         @ metadata_entry ''workflowStatus'' (\<lambda>status. JStr (workflow_status_name status))
             (safeWorkflowStatus (metadata_value input ''workflowStatus''))
         @ text ''beforeStatus'' @ text ''expectedStatus'' @ text ''afterStatus''
         @ number ''attemptNumber'' @ number ''maxAttempts''
         @ text ''retryOfJobId'' @ text ''nextAttemptAt''
         @ metadata_entry ''idempotencyKeyPresent'' JBool (safeBoolean (metadata_value input ''idempotencyKeyPresent''))
         @ text ''errorSummary'')"

definition safeMetadataValue :: "js_value \<Rightarrow> js_value option" where
  "safeMetadataValue v =
     (case v of JStr s \<Rightarrow> Some (JStr (take 256 s)) | JNum n \<Rightarrow> Some (JNum n) | JBool b \<Rightarrow> Some (JBool b) | _ \<Rightarrow> None)"

definition compactSafeMetadata :: "(string \<times> js_value) list \<Rightarrow> (string \<times> js_value) list" where
  "compactSafeMetadata metadata =
     foldl (\<lambda>safe (key, v). case safeMetadataValue v of None \<Rightarrow> safe | Some s \<Rightarrow> map_put safe key s) [] metadata"

definition metadataString :: "(string \<times> js_value) list \<Rightarrow> string \<Rightarrow> string option" where
  "metadataString metadata key = safeString (metadata_value metadata key)"

definition metadataBoolean :: "(string \<times> js_value) list \<Rightarrow> string \<Rightarrow> bool option" where
  "metadataBoolean metadata key = safeBoolean (metadata_value metadata key)"

definition metadataMatterIds :: "(string \<times> js_value) list \<Rightarrow> string list" where
  "metadataMatterIds metadata =
     js_set (or_else (safeStringArray (metadata_value metadata ''matterIds'')) []
       @ (case metadataString metadata ''matterId'' of None \<Rightarrow> [] | Some i \<Rightarrow> [i]))"

subsection \<open>Steps\<close>

primrec jobStatusToWorkflowStatus :: "OpenPracticeJobStatus \<Rightarrow> WorkflowAuditStatus" where
  "jobStatusToWorkflowStatus Job_completed = Wf_succeeded"
| "jobStatusToWorkflowStatus Job_failed = Wf_failed"
| "jobStatusToWorkflowStatus Job_dead_letter = Wf_failed"
| "jobStatusToWorkflowStatus Job_active = Wf_active"
| "jobStatusToWorkflowStatus Job_skipped = Wf_skipped"
| "jobStatusToWorkflowStatus Job_queued = Wf_queued"

definition auditStatusToWorkflowStatus :: "(string \<times> js_value) list \<Rightarrow> WorkflowAuditStatus" where
  "auditStatusToWorkflowStatus metadata =
     or_else (safeWorkflowStatus (metadata_value metadata ''workflowStatus'')) Wf_succeeded"

definition nullish :: "'a option \<Rightarrow> 'a option \<Rightarrow> 'a option" where
  "nullish a b = (if a = None then b else a)"

definition observedJobTime :: "JobLifecycleRecord \<Rightarrow> string" where
  "observedJobTime job =
     or_else (nullish (job_finishedAt job) (nullish (job_failedAt job) (job_startedAt job))) (job_queuedAt job)"

record WorkflowGroupInput =
  wgi_requestId :: "string option"
  wgi_jobId :: "string option"
  wgi_retryOfJobId :: "string option"
  wgi_resourceType :: "string option"
  wgi_resourceId :: "string option"

definition workflowGroupKey :: "WorkflowGroupInput \<Rightarrow> string" where
  "workflowGroupKey input =
     (if truthy (wgi_requestId input) then ''request:'' @ or_else (wgi_requestId input) []
      else if truthy (wgi_jobId input) then ''job:'' @ or_else (wgi_jobId input) []
      else if truthy (wgi_retryOfJobId input) then ''job:'' @ or_else (wgi_retryOfJobId input) []
      else if truthy (wgi_resourceType input) \<and> truthy (wgi_resourceId input)
      then ''resource:'' @ or_else (wgi_resourceType input) [] @ '':'' @ or_else (wgi_resourceId input) []
      else ''workflow:unknown'')"

definition replace_char :: "char \<Rightarrow> char \<Rightarrow> string \<Rightarrow> string" where
  "replace_char old new text = map (\<lambda>c. if c = old then new else c) text"

definition spaced_words :: "string \<Rightarrow> string" where
  "spaced_words text = replace_char (CHR ''_'') (CHR '' '') text"

definition workflowTitle :: "WorkflowHistoryStep \<Rightarrow> string" where
  "workflowTitle step =
     (if truthy (step_action step) then replace_char (CHR ''.'') (CHR '' '') (spaced_words (or_else (step_action step) []))
      else if truthy (step_jobName step) then spaced_words (or_else (step_jobName step) [])
      else if truthy (step_resourceType step) then spaced_words (or_else (step_resourceType step) []) @ '' workflow''
      else ''Workflow history'')"

definition auditEventToStep :: "AuditEvent \<Rightarrow> WorkflowHistoryStep" where
  "auditEventToStep event =
     (let metadata = buildWorkflowAuditMetadata (aud_metadata event) in
      \<lparr>step_id = aud_id event, step_source = Source_audit,
       step_label = replace_char (CHR ''.'') (CHR '' '') (spaced_words (aud_action event)),
       step_status = auditStatusToWorkflowStatus metadata, step_occurredAt = aud_occurredAt event,
       step_matterIds = metadataMatterIds metadata,
       step_resourceType = Some (aud_resourceType event), step_resourceId = Some (aud_resourceId event),
       step_action = Some (aud_action event), step_queueName = None, step_jobName = None, step_jobId = None,
       step_retryOfJobId = metadataString metadata ''retryOfJobId'',
       step_idempotencyKeyPresent = metadataBoolean metadata ''idempotencyKeyPresent'',
       step_attemptsMade = safeNonNegativeInteger (metadata_value metadata ''attemptNumber''),
       step_maxAttempts = safeNonNegativeInteger (metadata_value metadata ''maxAttempts''),
       step_metadata = compactSafeMetadata metadata\<rparr>)"

definition jobToStep :: "JobLifecycleRecord \<Rightarrow> WorkflowHistoryStep" where
  "jobToStep job =
     (let metadata = redactJobMetadata (job_metadata job) in
      \<lparr>step_id = job_id job, step_source = Source_job, step_label = spaced_words (job_jobName job),
       step_status = jobStatusToWorkflowStatus (job_status job), step_occurredAt = observedJobTime job,
       step_matterIds = metadataMatterIds metadata,
       step_resourceType = job_targetResourceType job, step_resourceId = job_targetResourceId job,
       step_action = None, step_queueName = Some (job_queueName job), step_jobName = Some (job_jobName job),
       step_jobId = Some (job_id job), step_retryOfJobId = metadataString metadata ''retryOfJobId'',
       step_idempotencyKeyPresent =
         (if truthy (job_idempotencyKey job) then Some True else metadataBoolean metadata ''idempotencyKeyPresent''),
       step_attemptsMade = Some (job_attemptsMade job), step_maxAttempts = Some (job_maxAttempts job),
       step_metadata = compactSafeMetadata metadata\<rparr>)"

definition stepGroupKey :: "WorkflowHistoryStep \<Rightarrow> string" where
  "stepGroupKey step = workflowGroupKey
     \<lparr>wgi_requestId = metadataString (step_metadata step) ''requestId'',
      wgi_jobId = nullish (step_jobId step) (metadataString (step_metadata step) ''jobId''),
      wgi_retryOfJobId = step_retryOfJobId step, wgi_resourceType = step_resourceType step,
      wgi_resourceId = step_resourceId step\<rparr>"

definition reduce_values :: "('a \<Rightarrow> 'a \<Rightarrow> 'a) \<Rightarrow> 'a list \<Rightarrow> 'a" where
  "reduce_values f values = foldl f (hd values) (tl values)"

definition latestIsoOf :: "string list \<Rightarrow> string" where
  "latestIsoOf values =
     reduce_values (\<lambda>latest value. if js_less (date_parse latest) (date_parse value) then value else latest) values"

definition earliestIsoOf :: "string list \<Rightarrow> string" where
  "earliestIsoOf values =
     reduce_values (\<lambda>earliest value. if js_less (date_parse value) (date_parse earliest) then value else earliest) values"

definition summarizeWorkflowStatus :: "WorkflowHistoryStep list \<Rightarrow> WorkflowAuditStatus" where
  "summarizeWorkflowStatus steps = or_else (map_option step_status (at_last steps)) Wf_skipped"

definition workflowFinishedAt :: "WorkflowAuditStatus \<Rightarrow> WorkflowHistoryStep list \<Rightarrow> string option" where
  "workflowFinishedAt status steps =
     (if status = Wf_active \<or> status = Wf_queued then None else Some (latestIsoOf (map step_occurredAt steps)))"

subsection \<open>The review packet\<close>

definition workflowReviewPacketMaxCues :: nat where
  "workflowReviewPacketMaxCues = 10"

definition workflowReviewPacketMaxCuesPerKind :: int where
  "workflowReviewPacketMaxCuesPerKind = 2"

definition blockedWorkflowReviewResource :: "string \<Rightarrow> bool" where
  "blockedWorkflowReviewResource text =
     (str_includes ''connector'' (to_lower_case text) \<or> str_includes ''provider'' (to_lower_case text))"

definition genericWorkflowReviewResourceTypes :: "string list" where
  "genericWorkflowReviewResourceTypes = [''resource'', ''external_resource'']"

primrec cue_kind_name :: "WorkflowReviewPacketCueKind \<Rightarrow> string" where
  "cue_kind_name Cue_matter = ''matter''"
| "cue_kind_name Cue_task = ''task''"
| "cue_kind_name Cue_template = ''template''"
| "cue_kind_name Cue_document = ''document''"
| "cue_kind_name Cue_resource = ''resource''"

record CueState =
  cues_list :: "WorkflowReviewPacketCue list"
  cues_countsByKind :: "(WorkflowReviewPacketCueKind \<times> int) list"
  cues_seen :: "string list"

definition addWorkflowReviewCue ::
  "WorkflowReviewPacketCueKind \<Rightarrow> string \<Rightarrow> string option \<Rightarrow> CueState \<Rightarrow> CueState" where
  "addWorkflowReviewCue kind label input s =
     (if length (cues_list s) \<ge> workflowReviewPacketMaxCues then s
      else (case safeCueValue input of
          None \<Rightarrow> s
        | Some value \<Rightarrow>
            let currentKindCount = or_else (map_get (cues_countsByKind s) kind) 0;
                key = cue_kind_name kind @ '':'' @ label @ '':'' @ value
            in if currentKindCount \<ge> workflowReviewPacketMaxCuesPerKind then s
               else if key \<in> set (cues_seen s) then s
               else \<lparr>cues_list = cues_list s @ [\<lparr>cue_kind = kind, cue_label = label, cue_value = value\<rparr>],
                 cues_countsByKind = map_put (cues_countsByKind s) kind (currentKindCount + 1),
                 cues_seen = cues_seen s @ [key]\<rparr>))"

definition addWorkflowResourceCue :: "string option \<Rightarrow> string option \<Rightarrow> CueState \<Rightarrow> CueState" where
  "addWorkflowResourceCue resourceType resourceId s =
     (if \<not> truthy resourceType \<and> \<not> truthy resourceId then s
      else if truthy resourceType \<and> blockedWorkflowReviewResource (or_else resourceType []) then s
      else if truthy resourceId \<and> blockedWorkflowReviewResource (or_else resourceId [])
              \<and> (\<not> truthy resourceType \<or> or_else resourceType [] \<in> set genericWorkflowReviewResourceTypes) then s
      else addWorkflowReviewCue Cue_resource ''resource''
        (if truthy resourceType \<and> truthy resourceId
         then Some (or_else resourceType [] @ '':'' @ or_else resourceId []) else nullish resourceType resourceId) s)"

definition matters_of_steps :: "WorkflowHistoryStep list \<Rightarrow> string list" where
  "matters_of_steps steps = sort (js_set (concat (map step_matterIds steps)))"

definition matter_cues :: "WorkflowHistoryStep list \<Rightarrow> CueState \<Rightarrow> CueState" where
  "matter_cues steps s =
     foldl (\<lambda>s matterId. addWorkflowReviewCue Cue_matter ''matter'' (Some matterId) s) s (matters_of_steps steps)"

definition task_cues :: "WorkflowHistoryStep list \<Rightarrow> CueState \<Rightarrow> CueState" where
  "task_cues steps s =
     foldl (\<lambda>s step. addWorkflowReviewCue Cue_task ''task''
       (nullish (metadataString (step_metadata step) ''task'') (step_jobName step)) s) s steps"

definition template_cues :: "WorkflowHistoryStep list \<Rightarrow> CueState \<Rightarrow> CueState" where
  "template_cues steps s =
     foldl (\<lambda>s step. addWorkflowReviewCue Cue_template ''template'' (metadataString (step_metadata step) ''templateKey'')
       (addWorkflowReviewCue Cue_template ''template'' (metadataString (step_metadata step) ''templateId'') s)) s steps"

definition document_cues :: "WorkflowHistoryStep list \<Rightarrow> CueState \<Rightarrow> CueState" where
  "document_cues steps s =
     foldl (\<lambda>s step. addWorkflowReviewCue Cue_document ''document''
       (nullish (metadataString (step_metadata step) ''documentId'')
          (if step_resourceType step = Some ''document'' then step_resourceId step else None)) s) s steps"

definition resource_cues :: "WorkflowHistoryStep list \<Rightarrow> CueState \<Rightarrow> CueState" where
  "resource_cues steps s =
     foldl (\<lambda>s step. addWorkflowResourceCue (metadataString (step_metadata step) ''resourceType'')
         (metadataString (step_metadata step) ''resourceId'')
       (addWorkflowResourceCue (step_resourceType step) (step_resourceId step) s)) s steps"

definition no_cues :: CueState where
  "no_cues = \<lparr>cues_list = [], cues_countsByKind = [], cues_seen = []\<rparr>"

definition buildWorkflowReviewPacket :: "WorkflowHistoryStep list \<Rightarrow> WorkflowReviewPacket" where
  "buildWorkflowReviewPacket steps =
     \<lparr>wrp_reviewOnly = True, wrp_automationDisabled = True, wrp_externalConnectorDisabled = True,
      wrp_backgroundMutationDisabled = True,
      wrp_cues = cues_list (resource_cues steps (document_cues steps (template_cues steps
        (task_cues steps (matter_cues steps no_cues)))))\<rparr>"

subsection \<open>The history\<close>

definition workflow_steps :: "BuildWorkflowHistoryProjectionInput \<Rightarrow> WorkflowHistoryStep list" where
  "workflow_steps input =
     map auditEventToStep (filter (\<lambda>event. safeWorkflowStatus (metadata_value (aud_metadata event) ''workflowStatus'') \<noteq> None)
       (whi_auditEvents input))
     @ map jobToStep (whi_jobs input)"

definition group_by_key :: "('a \<Rightarrow> string) \<Rightarrow> 'a list \<Rightarrow> (string \<times> 'a list) list" where
  "group_by_key key xs = foldl (\<lambda>grouped x. map_put grouped (key x) (or_else (map_get grouped (key x)) [] @ [x])) [] xs"

definition stepOrder :: "(string \<Rightarrow> string \<Rightarrow> int) \<Rightarrow> WorkflowHistoryStep \<Rightarrow> WorkflowHistoryStep \<Rightarrow> int" where
  "stepOrder collate left right =
     (case (date_parse (step_occurredAt left), date_parse (step_occurredAt right)) of
        (Some a, Some b) \<Rightarrow> if a - b \<noteq> 0 then a - b else collate (step_id left) (step_id right)
      | _ \<Rightarrow> 0)"

primrec queue_name :: "OpenPracticeQueueName \<Rightarrow> string" where
  "queue_name Queue_email = ''email''"
| "queue_name Queue_connectors = ''connectors''"
| "queue_name Queue_document_assembly = ''document_assembly''"
| "queue_name Queue_inbound_email = ''inbound_email''"
| "queue_name Queue_reports = ''reports''"
| "queue_name Queue_ai_triage = ''ai_triage''"
| "queue_name Queue_ocr = ''ocr''"
| "queue_name Queue_transcription = ''transcription''"
| "queue_name Queue_media = ''media''"

definition workflowItem :: "(string \<Rightarrow> string \<Rightarrow> int) \<Rightarrow> string \<times> WorkflowHistoryStep list \<Rightarrow> WorkflowHistoryItem" where
  "workflowItem collate entry =
     (let groupKey = fst entry;
          orderedSteps = js_sort (stepOrder collate) (snd entry);
          status = summarizeWorkflowStatus orderedSteps;
          firstStep = hd orderedSteps
      in \<lparr>wf_id = groupKey, wf_groupKey = groupKey, wf_title = workflowTitle firstStep, wf_status = status,
          wf_startedAt = earliestIsoOf (map step_occurredAt orderedSteps),
          wf_lastObservedAt = latestIsoOf (map step_occurredAt orderedSteps),
          wf_finishedAt = workflowFinishedAt status orderedSteps,
          wf_matterIds = matters_of_steps orderedSteps,
          wf_resourceType = step_resourceType firstStep, wf_resourceId = step_resourceId firstStep,
          wf_queueNames = sort_key queue_name (js_set (List.map_filter step_queueName orderedSteps)),
          wf_jobIds = sort (js_set (filter (\<lambda>jobId. jobId \<noteq> []) (List.map_filter
            (\<lambda>step. nullish (step_jobId step) (metadataString (step_metadata step) ''jobId'')) orderedSteps))),
          wf_stepCount = int (length orderedSteps),
          wf_reviewPacket = buildWorkflowReviewPacket orderedSteps,
          wf_steps = orderedSteps\<rparr>)"

definition workflow_selected :: "BuildWorkflowHistoryProjectionInput \<Rightarrow> WorkflowHistoryItem \<Rightarrow> bool" where
  "workflow_selected input workflow =
     ((case whi_queueName input of None \<Rightarrow> True | Some q \<Rightarrow> q \<in> set (wf_queueNames workflow))
      \<and> (\<not> truthy (whi_matterId input) \<or> or_else (whi_matterId input) [] \<in> set (wf_matterIds workflow))
      \<and> (case whi_status input of None \<Rightarrow> True | Some status \<Rightarrow> wf_status workflow = status))"

definition buildWorkflowHistoryProjection ::
  "(string \<Rightarrow> string \<Rightarrow> int) \<Rightarrow> string \<Rightarrow> BuildWorkflowHistoryProjectionInput \<Rightarrow> WorkflowHistoryProjection" where
  "buildWorkflowHistoryProjection collate clock input =
     (let workflows = take (or_else (whi_limit input) 25)
            (js_sort (\<lambda>left right. date_difference (wf_lastObservedAt right) (wf_lastObservedAt left))
              (filter (workflow_selected input) (map (workflowItem collate) (group_by_key stepGroupKey (workflow_steps input)))))
      in \<lparr>whp_available = (workflows \<noteq> []), whp_generatedAt = or_else (whi_generatedAt input) clock,
          whp_summary = \<lparr>whs_total = int (length workflows),
            whs_active = count_where (\<lambda>w. wf_status w = Wf_active \<or> wf_status w = Wf_queued) workflows,
            whs_failed = count_where (\<lambda>w. wf_status w = Wf_failed) workflows,
            whs_terminal = count_where (\<lambda>w. wf_status w = Wf_succeeded \<or> wf_status w = Wf_skipped) workflows\<rparr>,
          whp_workflows = workflows\<rparr>)"

subsection \<open>The packet is bounded\<close>















subsection \<open>The history holds every step\<close>

definition steps_of_key :: "string \<Rightarrow> WorkflowHistoryStep list \<Rightarrow> WorkflowHistoryStep list" where
  "steps_of_key k steps = filter (\<lambda>step. stepGroupKey step = k) steps"

lemma group_by_key_snoc: "group_by_key key (xs @ [x]) =
   map_put (group_by_key key xs) (key x) (or_else (map_get (group_by_key key xs) (key x)) [] @ [x])"
  by (simp add: group_by_key_def)

lemma keys_group_by_key: "map fst (group_by_key key xs) = js_set (map key xs)"
  by (induction xs rule: rev_induct) (simp_all add: group_by_key_snoc keys_map_put js_set_def, simp add: group_by_key_def)

lemma map_get_group_by_key:
  "map_get (group_by_key key xs) k =
    (if k \<in> key ` set xs then Some (filter (\<lambda>x. key x = k) xs) else None)"
proof (induction xs rule: rev_induct)
  case (snoc x xs)
  have "filter (\<lambda>x. key x = k) xs = []" if "k \<notin> key ` set xs" for k using that by (auto simp: filter_empty_conv)
  then show ?case using snoc by (auto simp: group_by_key_snoc)
qed (simp add: group_by_key_def)

lemma group_by_key_mem:
  assumes "(k, ys) \<in> set (group_by_key key xs)"
  shows "k \<in> key ` set xs \<and> ys = filter (\<lambda>x. key x = k) xs"
proof -
  have "map_get (group_by_key key xs) k = Some ys"
    using assms by (intro map_get_distinct) (simp_all add: keys_group_by_key)
  then show ?thesis by (simp add: map_get_group_by_key split: if_splits)
qed

lemma group_by_key_partition: "mset (concat (map snd (group_by_key key xs))) = mset xs"
proof (induction xs rule: rev_induct)
  case (snoc x xs)
  have "mset (concat (map snd (map_put m k (or_else (map_get m k) [] @ [x])))) = add_mset x (mset (concat (map snd m)))"
    for m :: "(string \<times> 'a list) list" and k
    by (induction m) auto
  then show ?case using snoc by (simp add: group_by_key_snoc)
qed (simp add: group_by_key_def)

lemma workflowItem_fields [simp]:
  "wf_groupKey (workflowItem collate entry) = fst entry" "wf_id (workflowItem collate entry) = fst entry"
  "wf_steps (workflowItem collate entry) = js_sort (stepOrder collate) (snd entry)"
  "wf_status (workflowItem collate entry) = summarizeWorkflowStatus (js_sort (stepOrder collate) (snd entry))"
  "wf_lastObservedAt (workflowItem collate entry) = latestIsoOf (map step_occurredAt (js_sort (stepOrder collate) (snd entry)))"
  by (simp_all add: workflowItem_def Let_def)

lemma concat_workflow_steps:
  "mset (concat (map wf_steps (map (workflowItem collate) entries))) = mset (concat (map snd entries))"
  by (induction entries) auto

lemma mset_concat_map: "mset (concat (map f xs)) = (\<Sum>x \<in># mset xs. mset (f x))"
  by (induction xs) auto

lemma mset_concat_perm: "mset xs = mset ys \<Longrightarrow> mset (concat (map f xs)) = mset (concat (map f ys))"
  by (simp add: mset_concat_map)

lemma status_counts:
  "int (length ws) = count_where (\<lambda>w. wf_status w = Wf_active \<or> wf_status w = Wf_queued) ws
     + count_where (\<lambda>w. wf_status w = Wf_failed) ws
     + count_where (\<lambda>w. wf_status w = Wf_succeeded \<or> wf_status w = Wf_skipped) ws"
proof (induction ws)
  case (Cons w ws)
  then show ?case by (cases "wf_status w") simp_all
qed simp

definition shows_all :: "BuildWorkflowHistoryProjectionInput \<Rightarrow> bool" where
  "shows_all input \<longleftrightarrow> whi_queueName input = None \<and> \<not> truthy (whi_matterId input) \<and> whi_status input = None
     \<and> length (js_set (map stepGroupKey (workflow_steps input))) \<le> or_else (whi_limit input) 25"

text \<open>
  The history neither invents, loses nor mixes steps: the workflows have different keys, each holds exactly
  the steps of its key, the counts of the summary add up to the total, and without a filter and within the limit
  the workflows together hold every step of the jobs and of the audit events that carry a workflow status.
\<close>

theorem workflow_history_partitions_steps:
  fixes input collate clock
  defines "p \<equiv> buildWorkflowHistoryProjection collate clock input"
  shows "distinct (map wf_groupKey (whp_workflows p))
    \<and> (\<forall>w \<in> set (whp_workflows p). wf_steps w \<noteq> []
         \<and> mset (wf_steps w) = mset (steps_of_key (wf_groupKey w) (workflow_steps input)))
    \<and> whs_total (whp_summary p) = whs_active (whp_summary p) + whs_failed (whp_summary p) + whs_terminal (whp_summary p)
    \<and> (shows_all input \<longrightarrow> mset (concat (map wf_steps (whp_workflows p))) = mset (workflow_steps input))"
proof -
  let ?groups = "group_by_key stepGroupKey (workflow_steps input)"
  let ?items = "map (workflowItem collate) ?groups"
  let ?sorted = "js_sort (\<lambda>left right. date_difference (wf_lastObservedAt right) (wf_lastObservedAt left))
    (filter (workflow_selected input) ?items)"
  have p: "whp_workflows p = take (or_else (whi_limit input) 25) ?sorted"
    by (simp add: p_def buildWorkflowHistoryProjection_def Let_def)
  have keys: "map wf_groupKey ?items = js_set (map stepGroupKey (workflow_steps input))"
    by (simp add: comp_def flip: keys_group_by_key)
  have "distinct (map wf_groupKey (filter (workflow_selected input) ?items))"
    using keys by (metis distinct_js_set distinct_map_filter)
  then have "distinct (map wf_groupKey ?sorted)"
    by (metis mset_eq_imp_distinct_iff mset_js_sort mset_map)
  then have dist: "distinct (map wf_groupKey (whp_workflows p))" unfolding p by (simp add: take_map [symmetric])
  have sub: "set (whp_workflows p) \<subseteq> set ?items"
    unfolding p by (rule order_trans [OF set_take_subset]) auto
  have steps: "wf_steps w \<noteq> [] \<and> mset (wf_steps w) = mset (steps_of_key (wf_groupKey w) (workflow_steps input))"
    if "w \<in> set (whp_workflows p)" for w
  proof -
    have "w \<in> workflowItem collate ` set ?groups" using that sub by (metis image_set subsetD)
    then obtain e where e: "e \<in> set ?groups" "w = workflowItem collate e" by blast
    obtain k ys where "e = (k, ys)" by (cases e)
    with e have g: "(k, ys) \<in> set ?groups" and w: "w = workflowItem collate (k, ys)" by simp_all
    have "k \<in> stepGroupKey ` set (workflow_steps input)" "ys = steps_of_key k (workflow_steps input)"
      using group_by_key_mem [OF g] by (simp_all add: steps_of_key_def)
    then show ?thesis using w by (auto simp: steps_of_key_def filter_empty_conv)
  qed
  have all: "mset (concat (map wf_steps (whp_workflows p))) = mset (workflow_steps input)" if "shows_all input"
  proof -
    have selected: "filter (workflow_selected input) ?items = ?items"
      using that by (intro filter_True) (auto simp: shows_all_def workflow_selected_def)
    have "length ?items = length (js_set (map stepGroupKey (workflow_steps input)))"
      using keys by (metis length_map)
    then have "whp_workflows p = ?sorted" using that selected unfolding p by (simp add: shows_all_def)
    then have "mset (concat (map wf_steps (whp_workflows p))) = mset (concat (map wf_steps ?items))"
      using selected by (intro mset_concat_perm) simp
    also have "\<dots> = mset (workflow_steps input)" by (simp only: concat_workflow_steps group_by_key_partition)
    finally show ?thesis .
  qed
  have "whs_total (whp_summary p) = whs_active (whp_summary p) + whs_failed (whp_summary p) + whs_terminal (whp_summary p)"
    unfolding p_def buildWorkflowHistoryProjection_def Let_def
    by (simp only: WorkflowHistoryProjection.simps WorkflowHistorySummary.simps) (rule status_counts)
  then show ?thesis using dist steps all by blast
qed

subsection \<open>The status is that of the latest step\<close>

lemma latestIsoOf_latest:
  assumes "values \<noteq> []" "\<forall>x \<in> set values. date_parse x \<noteq> None"
  shows "latestIsoOf values \<in> set values \<and> (\<forall>x \<in> set values. js_le (date_parse x) (date_parse (latestIsoOf values)))"
proof -
  have "foldl (\<lambda>latest v. if js_less (date_parse latest) (date_parse v) then v else latest) a xs \<in> set (a # xs)
    \<and> (\<forall>x \<in> set (a # xs). js_le (date_parse x)
        (date_parse (foldl (\<lambda>latest v. if js_less (date_parse latest) (date_parse v) then v else latest) a xs)))"
    if "\<forall>x \<in> set (a # xs). date_parse x \<noteq> None" for a and xs :: "string list"
    using that
  proof (induction xs arbitrary: a)
    case Nil
    then show ?case by (auto simp: js_le_def)
  next
    case (Cons x xs)
    let ?b = "if js_less (date_parse a) (date_parse x) then x else a"
    have b: "\<forall>y \<in> set (?b # xs). date_parse y \<noteq> None" using Cons.prems by auto
    have ih: "foldl (\<lambda>latest v. if js_less (date_parse latest) (date_parse v) then v else latest) ?b xs \<in> set (?b # xs)"
      "\<forall>y \<in> set (?b # xs). js_le (date_parse y)
        (date_parse (foldl (\<lambda>latest v. if js_less (date_parse latest) (date_parse v) then v else latest) ?b xs))"
      using Cons.IH [OF b] by blast+
    obtain ta tx where t: "date_parse a = Some ta" "date_parse x = Some tx" using Cons.prems by auto
    let ?r = "date_parse (foldl (\<lambda>latest v. if js_less (date_parse latest) (date_parse v) then v else latest) ?b xs)"
    have b_le: "js_le (date_parse ?b) ?r" using ih(2) by simp
    have "js_le (date_parse a) ?r \<and> js_le (date_parse x) ?r"
    proof (cases "ta < tx")
      case True
      then show ?thesis using b_le t by (cases ?r) (auto simp: js_le_def js_less_def)
    next
      case False
      then show ?thesis using b_le t by (cases ?r) (auto simp: js_le_def js_less_def)
    qed
    moreover have "js_le (date_parse y) ?r" if "y \<in> set xs" for y using ih(2) that by simp
    moreover have "foldl (\<lambda>latest v. if js_less (date_parse latest) (date_parse v) then v else latest) ?b xs \<in> set (a # x # xs)"
      using ih(1) by (auto split: if_splits)
    ultimately show ?case by simp
  qed
  from this [of "hd values" "tl values"] show ?thesis using assms by (simp add: latestIsoOf_def reduce_values_def)
qed

text \<open>
  With readable times and a consistent \<open>localeCompare\<close>, the status of a workflow is that of one of its latest
  steps, and the time it was last observed is the time of that step, which no step of its key exceeds.
\<close>

theorem workflow_status_is_latest:
  assumes "comparator collate" and "\<forall>step \<in> set (workflow_steps input). date_parse (step_occurredAt step) \<noteq> None"
    and "w \<in> set (whp_workflows (buildWorkflowHistoryProjection collate clock input))"
  shows "\<exists>step \<in> set (steps_of_key (wf_groupKey w) (workflow_steps input)).
    wf_status w = step_status step \<and> date_parse (wf_lastObservedAt w) = date_parse (step_occurredAt step)
    \<and> (\<forall>other \<in> set (steps_of_key (wf_groupKey w) (workflow_steps input)).
          js_le (date_parse (step_occurredAt other)) (date_parse (step_occurredAt step)))"
proof -
  have "w \<in> set (map (workflowItem collate) (group_by_key stepGroupKey (workflow_steps input)))"
    using assms(3) set_take_subset by (fastforce simp: buildWorkflowHistoryProjection_def Let_def)
  then obtain e where e: "e \<in> set (group_by_key stepGroupKey (workflow_steps input))" "w = workflowItem collate e"
    by auto
  obtain k ys where "e = (k, ys)" by (cases e)
  with e have g: "(k, ys) \<in> set (group_by_key stepGroupKey (workflow_steps input))"
    and w: "w = workflowItem collate (k, ys)" by simp_all
  have ys: "ys = steps_of_key k (workflow_steps input)" "ys \<noteq> []"
    using group_by_key_mem [OF g] by (auto simp: steps_of_key_def filter_empty_conv)
  let ?s = "js_sort (stepOrder collate) ys"
  let ?cmp = "cmp_or (\<lambda>x y. time_of step_occurredAt x - time_of step_occurredAt y) (\<lambda>x y. collate (step_id x) (step_id y))"
  have readable: "date_parse (step_occurredAt x) \<noteq> None" if "x \<in> set ys" for x
    using that assms(2) ys(1) by (auto simp: steps_of_key_def)
  have same: "?s = js_sort ?cmp ys"
  proof (rule js_sort_cong)
    fix x y assume "x \<in> set ys" "y \<in> set ys"
    then obtain a b where "date_parse (step_occurredAt x) = Some a" "date_parse (step_occurredAt y) = Some b"
      using readable by (meson not_Some_eq)
    then show "stepOrder collate x y = ?cmp x y" by (simp add: stepOrder_def cmp_or_def time_of_def)
  qed
  have ids: "comparator (\<lambda>x y. collate (step_id x) (step_id y))"
    using assms(1) by unfold_locales (meson comparator.cmp_total comparator.cmp_trans)+
  have sorted: "sorted_wrt (\<lambda>a b. ?cmp a b \<le> 0) ?s"
    unfolding same by (rule comparator.js_sort_sorted [OF comparator_or_diff [OF ids]])
  let ?last = "last ?s"
  have s: "?s \<noteq> []" "set ?s = set ys" using ys(2) by simp_all
  have last: "?last \<in> set ys" using s last_in_set by blast
  have le: "time_of step_occurredAt x \<le> time_of step_occurredAt ?last" if "x \<in> set ys" for x
  proof (cases "x = ?last")
    case False
    then have "x \<in> set (butlast ?s)" using that s by (metis append_butlast_last_id in_set_conv_decomp rotate1.simps(2) set_ConsD set_rotate1)
    moreover have "sorted_wrt (\<lambda>a b. ?cmp a b \<le> 0) (butlast ?s @ [?last])" using sorted s(1) by simp
    ultimately have "?cmp x ?last \<le> 0" by (simp add: sorted_wrt_append)
    then show ?thesis by (auto simp: cmp_or_def split: if_splits)
  qed simp
  have max: "js_le (date_parse (step_occurredAt x)) (date_parse (step_occurredAt ?last))" if "x \<in> set ys" for x
    using le [OF that] readable [OF that] readable [OF last] by (auto simp: js_le_def time_of_def split: option.splits)
  have "latestIsoOf (map step_occurredAt ?s) \<in> set (map step_occurredAt ?s)
    \<and> (\<forall>x \<in> set (map step_occurredAt ?s). js_le (date_parse x) (date_parse (latestIsoOf (map step_occurredAt ?s))))"
    using s readable by (intro latestIsoOf_latest) auto
  then have "date_parse (latestIsoOf (map step_occurredAt ?s)) = date_parse (step_occurredAt ?last)"
    using max last s(2) by (fastforce simp: js_le_def split: option.splits)
  then show ?thesis
    using last max w ys(1) s(1) by (intro bexI [where x = ?last]) (auto simp: summarizeWorkflowStatus_def at_last_def)
qed

subsection \<open>Examples\<close>

definition example_event :: "string \<Rightarrow> string \<Rightarrow> WorkflowAuditStatus \<Rightarrow> AuditEvent" where
  "example_event i date status = \<lparr>aud_id = i, aud_firmId = ''f'', aud_actorId = ''u'', aud_action = ''report.requested'',
     aud_resourceType = ''report'', aud_resourceId = ''r'', aud_occurredAt = date,
     aud_metadata = [(''workflowStatus'', JStr (workflow_status_name status)), (''requestId'', JStr ''q'')],
     aud_sequence = 1, aud_previousHash = [], aud_hash = []\<rparr>"

definition example_job :: JobLifecycleRecord where
  "example_job = \<lparr>job_id = ''j'', job_firmId = ''f'', job_queueName = Queue_reports, job_jobName = ''build_report'',
     job_bullJobId = None, job_idempotencyKey = None, job_status = Job_completed, job_targetResourceType = None,
     job_targetResourceId = None, job_attemptsMade = 1, job_maxAttempts = 3, job_queuedAt = ''2026-01-01'',
     job_startedAt = None, job_finishedAt = Some ''2026-01-02'', job_failedAt = None, job_errorMessage = None,
     job_metadata = []\<rparr>"

definition example_input :: BuildWorkflowHistoryProjectionInput where
  "example_input = \<lparr>whi_jobs = [example_job],
     whi_auditEvents = [example_event ''a'' ''2026-01-03'' Wf_failed, example_event ''b'' ''2026-01-01'' Wf_queued],
     whi_generatedAt = None, whi_limit = None, whi_matterId = None, whi_queueName = None, whi_status = None\<rparr>"

definition example_history :: WorkflowHistoryProjection where
  "example_history = buildWorkflowHistoryProjection (\<lambda>_ _. 0) ''2026-01-05'' example_input"

theorem workflow_history_partitions_steps_witness:
  "shows_all example_input
   \<and> mset (concat (map wf_steps (whp_workflows example_history))) = mset (workflow_steps example_input)"
proof -
  have "shows_all example_input" unfolding shows_all_def by code_simp
  then show ?thesis
    using workflow_history_partitions_steps [where collate = "\<lambda>_ _. 0" and clock = "''2026-01-05''" and input = example_input]
    unfolding example_history_def by blast
qed

lemma example_workflows: "map wf_groupKey (whp_workflows example_history) = [''request:q'', ''job:j'']"
  unfolding example_history_def by code_simp

theorem workflow_status_is_latest_witness:
  "\<exists>w \<in> set (whp_workflows example_history). \<exists>step \<in> set (steps_of_key (wf_groupKey w) (workflow_steps example_input)).
     wf_status w = step_status step \<and> date_parse (wf_lastObservedAt w) = date_parse (step_occurredAt step)"
proof -
  have cmp: "comparator (\<lambda>(_ :: string) (_ :: string). 0 :: int)" by unfold_locales auto
  have "list_all (\<lambda>step. date_parse (step_occurredAt step) \<noteq> None) (workflow_steps example_input)" by code_simp
  then have dates: "\<forall>step \<in> set (workflow_steps example_input). date_parse (step_occurredAt step) \<noteq> None"
    by (simp add: list_all_iff)
  obtain w where w: "w \<in> set (whp_workflows example_history)"
    using example_workflows by (cases "whp_workflows example_history") auto
  then show ?thesis
    using workflow_status_is_latest [OF cmp dates, of w "''2026-01-05''"] unfolding example_history_def by blast
qed

end
