(* ===== verification/Ledger_Api.thy ===== *)
theory Ledger_Api
  imports Ledger_Store Reconciliation Workflow_Audit
begin

section \<open>The routes of the ledger\<close>

text \<open>
  apps/api/src/routes/ledger/transactions.ts and posting-requests.ts with the access check of
  shared.ts, the fresh authentication of http/fresh-auth.ts and the audit events of
  routes/audit-events.ts. A route takes the state and returns its answer with the state it leaves; an
  \<open>ApiHttpError\<close> is its code. \<open>datetime\<close> stands for \<open>z.string().datetime()\<close> of zod, sha256 for the hash;
  clock readings and random identifiers come with the context.
\<close>

subsection \<open>State, context and requests\<close>

record LedgerApi =
  lapi_ledger :: MemoryLedgerStore
  lapi_audit :: MemoryAuditStore

record LedgerContext =
  lctx_firmId :: string
  lctx_user :: User
  lctx_freshAuthenticatedAt :: "string option"
  lctx_requestId :: string
  lctx_now :: string
  lctx_freshNow :: string
  lctx_uuid :: string
  lctx_auditId :: string
  lctx_auditNow :: string
  lctx_secondAuditId :: string

record LedgerEntryBody =
  leb_firmId :: "string option"
  leb_matterId :: string
  leb_clientId :: string
  leb_accountId :: string
  leb_debitCents :: int
  leb_creditCents :: int
  leb_memo :: string
  leb_reversingTransactionId :: "string option"

record LedgerPostBody =
  lpb_id :: string
  lpb_idempotencyKey :: string
  lpb_requestFingerprint :: "string option"
  lpb_postedAt :: "string option"
  lpb_reversesTransactionId :: "string option"
  lpb_entries :: "LedgerEntryBody list"

record PreparePostingRequestBody =
  ppb_id :: "string option"
  ppb_preparedAt :: "string option"
  ppb_preparationNotes :: "string option"
  ppb_proposedTransaction :: LedgerPostBody

record ApprovePostingRequestBody =
  apb_reviewedAt :: "string option"
  apb_reviewNotes :: "string option"

record RejectPostingRequestBody = ApprovePostingRequestBody +
  rpb_rejectionReason :: string

definition guarded :: "'x result \<Rightarrow> 's \<Rightarrow> ('x \<Rightarrow> 'r result \<times> 's) \<Rightarrow> 'r result \<times> 's" where
  "guarded check state continue = (case check of Inl e \<Rightarrow> (Inl e, state) | Inr x \<Rightarrow> continue x)"

subsection \<open>Schemas\<close>

definition optional_ok :: "(string \<Rightarrow> bool) \<Rightarrow> string option \<Rightarrow> bool" where
  "optional_ok p v = (case v of None \<Rightarrow> True | Some s \<Rightarrow> p s)"

definition min_one :: "string \<Rightarrow> bool" where
  "min_one s = (length s \<ge> 1)"

definition ledgerEntrySchema :: "LedgerEntryBody \<Rightarrow> bool" where
  "ledgerEntrySchema entry =
     (optional_ok min_one (leb_firmId entry) \<and> min_one (leb_matterId entry) \<and> min_one (leb_clientId entry)
      \<and> min_one (leb_accountId entry) \<and> leb_debitCents entry \<ge> 0 \<and> leb_creditCents entry \<ge> 0
      \<and> min_one (leb_memo entry) \<and> optional_ok min_one (leb_reversingTransactionId entry))"

definition ledgerPostBodySchema :: "(string \<Rightarrow> bool) \<Rightarrow> LedgerPostBody \<Rightarrow> bool" where
  "ledgerPostBodySchema datetime body =
     (min_one (lpb_id body) \<and> min_one (lpb_idempotencyKey body) \<and> optional_ok min_one (lpb_requestFingerprint body)
      \<and> optional_ok datetime (lpb_postedAt body) \<and> optional_ok min_one (lpb_reversesTransactionId body)
      \<and> list_all ledgerEntrySchema (lpb_entries body))"

definition proposedLedgerTransactionSchema :: "(string \<Rightarrow> bool) \<Rightarrow> LedgerPostBody \<Rightarrow> bool" where
  "proposedLedgerTransactionSchema datetime body =
     (min_one (lpb_id body) \<and> min_one (lpb_idempotencyKey body) \<and> optional_ok min_one (lpb_requestFingerprint body)
      \<and> optional_ok datetime (lpb_postedAt body) \<and> optional_ok min_one (lpb_reversesTransactionId body)
      \<and> list_all ledgerEntrySchema (lpb_entries body) \<and> length (lpb_entries body) \<ge> 2)"

definition preparePostingRequestBodySchema :: "(string \<Rightarrow> bool) \<Rightarrow> PreparePostingRequestBody \<Rightarrow> bool" where
  "preparePostingRequestBodySchema datetime body =
     (optional_ok min_one (ppb_id body) \<and> optional_ok datetime (ppb_preparedAt body)
      \<and> optional_ok min_one (ppb_preparationNotes body)
      \<and> proposedLedgerTransactionSchema datetime (ppb_proposedTransaction body))"

definition approvePostingRequestBodySchema :: "(string \<Rightarrow> bool) \<Rightarrow> 'a ApprovePostingRequestBody_scheme \<Rightarrow> bool" where
  "approvePostingRequestBodySchema datetime body =
     (optional_ok datetime (apb_reviewedAt body) \<and> optional_ok min_one (apb_reviewNotes body))"

definition rejectPostingRequestBodySchema :: "(string \<Rightarrow> bool) \<Rightarrow> RejectPostingRequestBody \<Rightarrow> bool" where
  "rejectPostingRequestBodySchema datetime body =
     (optional_ok datetime (apb_reviewedAt body) \<and> optional_ok min_one (apb_reviewNotes body)
      \<and> min_one (rpb_rejectionReason body))"

definition parseRequestPart :: "bool \<Rightarrow> unit result" where
  "parseRequestPart valid = throw_if (\<not> valid) ''VALIDATION_ERROR''"

subsection \<open>Access, fresh authentication and audit\<close>

definition assertLedgerAccess :: "LedgerContext \<Rightarrow> Action \<Rightarrow> string option \<Rightarrow> unit result" where
  "assertLedgerAccess ctx action matterId =
     throw_if (\<not> canAccess (lctx_now ctx)
        \<lparr>req_user = lctx_user ctx, req_resource = Res_trust_ledger, req_action = action, req_firmId = lctx_firmId ctx,
         req_matterId = matterId, req_contactId = None, req_portalGrants = None, req_now = None\<rparr>)
       ''TRUST_LEDGER_ACCESS_REQUIRED''"

definition FRESH_AUTH_MAX_AGE_MS :: int where
  "FRESH_AUTH_MAX_AGE_MS = 15 * 60 * 1000"

definition requireFreshAuth :: "LedgerContext \<Rightarrow> unit result" where
  "requireFreshAuth ctx =
     (if \<not> truthy (lctx_freshAuthenticatedAt ctx) then throw ''FRESH_AUTH_REQUIRED''
      else (case date_parse (or_else (lctx_freshAuthenticatedAt ctx) []) of
          None \<Rightarrow> throw ''FRESH_AUTH_REQUIRED''
        | Some freshAuthenticatedTime \<Rightarrow>
            throw_if (js_less (Some FRESH_AUTH_MAX_AGE_MS)
                (map_option (\<lambda>now. now - freshAuthenticatedTime) (date_parse (lctx_freshNow ctx))))
              ''FRESH_AUTH_REQUIRED''))"

definition compact :: "(string \<times> js_value) list \<Rightarrow> (string \<times> js_value) list" where
  "compact metadata = filter (\<lambda>(_, v). v \<noteq> JUndefined) metadata"

definition appendLedgerAuditEvent ::
  "(string \<Rightarrow> string) \<Rightarrow> LedgerContext \<Rightarrow> string \<Rightarrow> string \<Rightarrow> string \<Rightarrow> string \<Rightarrow> string option \<Rightarrow> (string \<times> js_value) list
   \<Rightarrow> MemoryAuditStore \<Rightarrow> MemoryAuditStore" where
  "appendLedgerAuditEvent sha256 ctx auditId action resourceType resourceId occurredAt metadata audit =
     snd (appendMemoryAuditEvent sha256 audit
       \<lparr>aud_id = auditId, aud_firmId = lctx_firmId ctx, aud_actorId = user_id (lctx_user ctx), aud_action = action,
        aud_resourceType = resourceType, aud_resourceId = resourceId,
        aud_occurredAt = or_else occurredAt (lctx_auditNow ctx), aud_metadata = compact metadata\<rparr>)"

definition strings_value :: "string list \<Rightarrow> js_value" where
  "strings_value xs = JArr (map JStr xs)"

definition text_value :: "string option \<Rightarrow> js_value" where
  "text_value v = (case v of None \<Rightarrow> JUndefined | Some s \<Rightarrow> JStr s)"

primrec posting_status_name :: "LedgerPostingRequestStatus \<Rightarrow> string" where
  "posting_status_name Posting_pending_approval = ''pending_approval''"
| "posting_status_name Posting_posted = ''posted''"
| "posting_status_name Posting_rejected = ''rejected''"

primrec role_name :: "ProfessionalRole \<Rightarrow> string" where
  "role_name Role_owner_admin = ''owner_admin''"
| "role_name Role_licensee = ''licensee''"
| "role_name Role_firm_member = ''firm_member''"
| "role_name Role_billing_bookkeeper = ''billing_bookkeeper''"
| "role_name Role_client_external = ''client_external''"
| "role_name Role_auditor = ''auditor''"

definition merge_metadata :: "(string \<times> js_value) list \<Rightarrow> (string \<times> js_value) list \<Rightarrow> (string \<times> js_value) list" where
  "merge_metadata base added = foldl (\<lambda>m (k, v). map_put m k v) base added"

definition workflow_metadata :: "LedgerContext \<Rightarrow> string list \<Rightarrow> (string \<times> js_value) list" where
  "workflow_metadata ctx matterIds =
     buildWorkflowAuditMetadata
       [(''requestId'', JStr (lctx_requestId ctx)), (''actorType'', JStr (role_name (user_role (lctx_user ctx)))),
        (''actorId'', JStr (user_id (lctx_user ctx))), (''matterId'', JUndefined),
        (''matterIds'', strings_value matterIds), (''workflowStatus'', JStr ''succeeded''),
        (''idempotencyKeyPresent'', JBool True), (''errorSummary'', JUndefined)]"

definition appendWorkflowAuditEvent ::
  "(string \<Rightarrow> string) \<Rightarrow> LedgerContext \<Rightarrow> string \<Rightarrow> string \<Rightarrow> string \<Rightarrow> string option \<Rightarrow> (string \<times> js_value) list \<Rightarrow> string list
   \<Rightarrow> MemoryAuditStore \<Rightarrow> MemoryAuditStore" where
  "appendWorkflowAuditEvent sha256 ctx action resourceType resourceId occurredAt metadata matterIds audit =
     appendLedgerAuditEvent sha256 ctx (lctx_auditId ctx) action resourceType resourceId occurredAt
       (compact (merge_metadata metadata (workflow_metadata ctx matterIds))) audit"

subsection \<open>Posting a transaction\<close>

definition entry_of_body :: "LedgerContext \<Rightarrow> LedgerEntryBody \<Rightarrow> LedgerEntryInput" where
  "entry_of_body ctx entry =
     \<lparr>entry_firmId = or_else (leb_firmId entry) (lctx_firmId ctx), entry_matterId = leb_matterId entry,
      entry_clientId = leb_clientId entry, entry_accountId = leb_accountId entry,
      entry_debitCents = leb_debitCents entry, entry_creditCents = leb_creditCents entry, entry_memo = leb_memo entry,
      entry_reversingTransactionId = leb_reversingTransactionId entry\<rparr>"

definition buildProposedTransaction :: "LedgerContext \<Rightarrow> LedgerPostBody \<Rightarrow> LedgerTransaction" where
  "buildProposedTransaction ctx proposed =
     \<lparr>tx_id = lpb_id proposed, tx_firmId = lctx_firmId ctx, tx_idempotencyKey = lpb_idempotencyKey proposed,
      tx_requestFingerprint = lpb_requestFingerprint proposed, tx_postedByUserId = user_id (lctx_user ctx),
      tx_postedAt = or_else (lpb_postedAt proposed) (lctx_now ctx),
      tx_entries = map (entry_of_body ctx) (lpb_entries proposed),
      tx_reversesTransactionId = lpb_reversesTransactionId proposed\<rparr>"

definition checkLedgerTransactionScope :: "LedgerContext \<Rightarrow> 's LedgerApi_scheme \<Rightarrow> LedgerTransaction \<Rightarrow> unit result" where
  "checkLedgerTransactionScope ctx api transaction =
     (case validateMemoryLedgerTransactionScope (lapi_ledger api) (lctx_user ctx) transaction of
        Inl _ \<Rightarrow> throw ''LEDGER_TRANSACTION_SCOPE_INVALID'' | Inr _ \<Rightarrow> Inr ())"

definition assertNoPendingLedgerPostingRequestForTransaction :: "'s LedgerApi_scheme \<Rightarrow> LedgerTransaction \<Rightarrow> unit result" where
  "assertNoPendingLedgerPostingRequestForTransaction api transaction =
     throw_if (listMemoryLedgerPostingRequests (lapi_ledger api) (tx_firmId transaction) None
                 (Some Posting_pending_approval) (Some (tx_idempotencyKey transaction)) \<noteq> [])
       ''LEDGER_POSTING_REQUEST_PENDING''"

definition postedMetadata :: "PostedLedgerTransaction \<Rightarrow> (string \<times> js_value) list" where
  "postedMetadata posted =
     [(''transactionId'', JStr (posted_id posted)),
      (''matterIds'', strings_value (js_set (map entry_matterId (posted_entries posted)))),
      (''accountIds'', strings_value (js_set (map entry_accountId (posted_entries posted)))),
      (''status'', JStr ''posted''), (''entryCount'', JNum (int (length (posted_entries posted))))]"

definition rethrowPostingConflict :: "error \<Rightarrow> 'a result" where
  "rethrowPostingConflict e =
     (if e = Error ''Idempotency key was reused with a different ledger payload'' then throw ''IDEMPOTENCY_KEY_CONFLICT''
      else Inl e)"

definition postLedgerTransactionRoute ::
  "(string \<Rightarrow> string) \<Rightarrow> (string \<Rightarrow> bool) \<Rightarrow> LedgerContext \<Rightarrow> LedgerPostBody \<Rightarrow> 's LedgerApi_scheme
   \<Rightarrow> PostedLedgerTransaction result \<times> 's LedgerApi_scheme" where
  "postLedgerTransactionRoute sha256 datetime ctx body api =
     guarded (assertLedgerAccess ctx Act_create (head (user_assignedMatterIds (lctx_user ctx)))) api (\<lambda>_.
     guarded (parseRequestPart (ledgerPostBodySchema datetime body)) api (\<lambda>_.
     let transaction = buildProposedTransaction ctx body in
     guarded (checkLedgerTransactionScope ctx api transaction) api (\<lambda>_.
     guarded (assertNoPendingLedgerPostingRequestForTransaction api transaction) api (\<lambda>_.
     case postMemoryLedgerTransaction (lapi_ledger api) transaction of
       (Inl e, ledger) \<Rightarrow> (rethrowPostingConflict e, api\<lparr>lapi_ledger := ledger\<rparr>)
     | (Inr posted, ledger) \<Rightarrow>
         (Inr posted, api\<lparr>lapi_ledger := ledger,
            lapi_audit := appendWorkflowAuditEvent sha256 ctx ''ledger.transaction.posted'' ''ledger_transaction''
              (posted_id posted) None (postedMetadata posted) (js_set (map entry_matterId (posted_entries posted)))
              (lapi_audit api)\<rparr>)))))"

subsection \<open>Posting requests\<close>

definition assertPostingRequestMatterAccess :: "LedgerContext \<Rightarrow> Action \<Rightarrow> string list \<Rightarrow> unit result" where
  "assertPostingRequestMatterAccess ctx action matterIds = for_each (\<lambda>matterId. assertLedgerAccess ctx action (Some matterId)) matterIds"

definition mapLedgerPostingRequestError :: "error \<Rightarrow> 'a result" where
  "mapLedgerPostingRequestError e =
     (if e = Error ''Idempotency key was reused with a different ledger payload'' then throw ''IDEMPOTENCY_KEY_CONFLICT''
      else if e = Error ''Ledger posting request was not found'' then throw ''LEDGER_POSTING_REQUEST_NOT_FOUND''
      else if e = Error ''Ledger posting request is not pending approval'' then throw ''LEDGER_POSTING_REQUEST_NOT_PENDING''
      else if e = Error ''Trust transaction would overdraw the client matter balance'' then throw ''TRUST_POSTING_REQUEST_OVERDRAFT''
      else if e = Error ''Ledger posting request requires checker approval by a different user''
      then throw ''LEDGER_POSTING_REQUEST_SELF_APPROVAL_DENIED''
      else Inl e)"

definition posting_request_input :: "LedgerContext \<Rightarrow> PreparePostingRequestBody \<Rightarrow> PostingRequestInput" where
  "posting_request_input ctx body =
     \<lparr>pin_id = or_else (ppb_id body) (lctx_uuid ctx), pin_preparedByUserId = user_id (lctx_user ctx),
      pin_preparedAt = or_else (ppb_preparedAt body) (lctx_now ctx),
      pin_transaction = buildProposedTransaction ctx (ppb_proposedTransaction body), pin_status = None,
      pin_reviewedByUserId = None, pin_reviewedAt = None, pin_preparationNotes = ppb_preparationNotes body,
      pin_reviewNotes = None, pin_rejectionReason = None, pin_ledgerTransactionId = None\<rparr>"

definition preparedMetadata :: "LedgerPostingRequestRecord \<Rightarrow> (string \<times> js_value) list" where
  "preparedMetadata prepared =
     [(''postingRequestId'', JStr (preq_id prepared)), (''transactionId'', JStr (preq_transactionId prepared)),
      (''matterIds'', strings_value (preq_matterIds prepared)), (''accountIds'', strings_value (preq_accountIds prepared)),
      (''status'', JStr (posting_status_name (preq_status prepared))),
      (''entryCount'', JNum (int (length (preq_entries prepared)))), (''idempotencyKeyPresent'', JBool True),
      (''preparationNotesPresent'', JBool (truthy (preq_preparationNotes prepared)))]"

definition preparePostingRequestRoute ::
  "(string \<Rightarrow> string) \<Rightarrow> (string \<Rightarrow> bool) \<Rightarrow> LedgerContext \<Rightarrow> PreparePostingRequestBody \<Rightarrow> 's LedgerApi_scheme
   \<Rightarrow> LedgerPostingRequestRecord result \<times> 's LedgerApi_scheme" where
  "preparePostingRequestRoute sha256 datetime ctx body api =
     guarded (parseRequestPart (preparePostingRequestBodySchema datetime body)) api (\<lambda>_.
     let input = posting_request_input ctx body in
     guarded (assertPostingRequestMatterAccess ctx Act_create (js_set (map entry_matterId (tx_entries (pin_transaction input))))) api (\<lambda>_.
     guarded (checkLedgerTransactionScope ctx api (pin_transaction input)) api (\<lambda>_.
     guarded (ledgerPostingRequestFromTransaction input) api (\<lambda>postingRequest.
     case prepareMemoryLedgerPostingRequest (lapi_ledger api) postingRequest of
       (Inl e, ledger) \<Rightarrow> (mapLedgerPostingRequestError e, api\<lparr>lapi_ledger := ledger\<rparr>)
     | (Inr prepared, ledger) \<Rightarrow>
         (Inr prepared, api\<lparr>lapi_ledger := ledger,
            lapi_audit := appendLedgerAuditEvent sha256 ctx (lctx_auditId ctx) ''ledger.posting_request.prepared''
              ''ledger_posting_request'' (preq_id prepared) (Some (preq_preparedAt prepared)) (preparedMetadata prepared)
              (lapi_audit api)\<rparr>)))))"

definition getAuthorizedPostingRequestForDecision ::
  "LedgerContext \<Rightarrow> 's LedgerApi_scheme \<Rightarrow> string \<Rightarrow> LedgerPostingRequestRecord result" where
  "getAuthorizedPostingRequestForDecision ctx api requestId =
     (case getMemoryLedgerPostingRequest (lapi_ledger api) (lctx_firmId ctx) requestId of
        None \<Rightarrow> throw ''LEDGER_POSTING_REQUEST_NOT_FOUND''
      | Some postingRequest \<Rightarrow>
          bind_result (assertPostingRequestMatterAccess ctx Act_approve (preq_matterIds postingRequest)) (\<lambda>_. Inr postingRequest))"

definition review_input :: "LedgerContext \<Rightarrow> 'a ApprovePostingRequestBody_scheme \<Rightarrow> ReviewInput" where
  "review_input ctx body =
     \<lparr>review_reviewedByUserId = user_id (lctx_user ctx), review_reviewedAt = or_else (apb_reviewedAt body) (lctx_now ctx),
      review_reviewNotes = apb_reviewNotes body\<rparr>"

definition decision_check :: "LedgerContext \<Rightarrow> LedgerPostingRequestRecord \<Rightarrow> unit result" where
  "decision_check ctx postingRequest = run_checks
     [throw_if (preq_preparedByUserId postingRequest = user_id (lctx_user ctx)) ''LEDGER_POSTING_REQUEST_SELF_APPROVAL_DENIED'',
      requireFreshAuth ctx]"

definition approvedMetadata :: "LedgerPostingRequestRecord \<Rightarrow> LedgerPostingRequestRecord \<Rightarrow> (string \<times> js_value) list" where
  "approvedMetadata before approved =
     [(''postingRequestId'', JStr (preq_id approved)), (''transactionId'', JStr (preq_transactionId approved)),
      (''ledgerTransactionId'', text_value (preq_ledgerTransactionId approved)),
      (''matterIds'', strings_value (preq_matterIds approved)), (''accountIds'', strings_value (preq_accountIds approved)),
      (''previousStatus'', JStr (posting_status_name (preq_status before))),
      (''status'', JStr (posting_status_name (preq_status approved))),
      (''reviewNotesPresent'', JBool (truthy (preq_reviewNotes approved)))]"

definition approvedPostingMetadata :: "ApproveLedgerPostingRequestResult \<Rightarrow> (string \<times> js_value) list" where
  "approvedPostingMetadata approved =
     [(''transactionId'', JStr (posted_id (approved_postedTransaction approved))),
      (''postingRequestId'', JStr (preq_id (approved_request approved))),
      (''matterIds'', strings_value (preq_matterIds (approved_request approved))),
      (''accountIds'', strings_value (preq_accountIds (approved_request approved))), (''status'', JStr ''posted''),
      (''entryCount'', JNum (int (length (posted_entries (approved_postedTransaction approved)))))]"

definition approval_audit ::
  "(string \<Rightarrow> string) \<Rightarrow> LedgerContext \<Rightarrow> LedgerPostingRequestRecord \<Rightarrow> ApproveLedgerPostingRequestResult \<Rightarrow> MemoryAuditStore \<Rightarrow> MemoryAuditStore" where
  "approval_audit sha256 ctx before approved audit =
     (let request = approved_request approved; posted = approved_postedTransaction approved in
      appendLedgerAuditEvent sha256 ctx (lctx_secondAuditId ctx) ''ledger.posting_request.approved'' ''ledger_posting_request''
        (preq_id request) (preq_reviewedAt request) (approvedMetadata before request)
        (appendWorkflowAuditEvent sha256 ctx ''ledger.transaction.posted'' ''ledger_transaction'' (posted_id posted)
          (preq_reviewedAt request) (approvedPostingMetadata approved) (preq_matterIds request) audit))"

definition approvePostingRequestRoute ::
  "(string \<Rightarrow> string) \<Rightarrow> (string \<Rightarrow> bool) \<Rightarrow> LedgerContext \<Rightarrow> string \<Rightarrow> ApprovePostingRequestBody \<Rightarrow> 's LedgerApi_scheme
   \<Rightarrow> LedgerPostingRequestRecord result \<times> 's LedgerApi_scheme" where
  "approvePostingRequestRoute sha256 datetime ctx requestId body api =
     guarded (parseRequestPart (min_one requestId)) api (\<lambda>_.
     guarded (parseRequestPart (approvePostingRequestBodySchema datetime body)) api (\<lambda>_.
     guarded (getAuthorizedPostingRequestForDecision ctx api requestId) api (\<lambda>postingRequest.
     guarded (decision_check ctx postingRequest) api (\<lambda>_.
     case approveMemoryLedgerPostingRequest (lapi_ledger api) (lctx_firmId ctx) requestId (review_input ctx body) of
       (Inl e, ledger) \<Rightarrow> (mapLedgerPostingRequestError e, api\<lparr>lapi_ledger := ledger\<rparr>)
     | (Inr approved, ledger) \<Rightarrow>
         (Inr (approved_request approved), api\<lparr>lapi_ledger := ledger,
            lapi_audit := approval_audit sha256 ctx postingRequest approved (lapi_audit api)\<rparr>)))))"

definition rejectedMetadata :: "LedgerPostingRequestRecord \<Rightarrow> LedgerPostingRequestRecord \<Rightarrow> (string \<times> js_value) list" where
  "rejectedMetadata before rejected =
     [(''postingRequestId'', JStr (preq_id rejected)), (''transactionId'', JStr (preq_transactionId rejected)),
      (''matterIds'', strings_value (preq_matterIds rejected)), (''accountIds'', strings_value (preq_accountIds rejected)),
      (''previousStatus'', JStr (posting_status_name (preq_status before))),
      (''status'', JStr (posting_status_name (preq_status rejected))),
      (''reviewNotesPresent'', JBool (truthy (preq_reviewNotes rejected))),
      (''rejectionReasonPresent'', JBool (truthy (preq_rejectionReason rejected)))]"

definition rejectPostingRequestRoute ::
  "(string \<Rightarrow> string) \<Rightarrow> (string \<Rightarrow> bool) \<Rightarrow> LedgerContext \<Rightarrow> string \<Rightarrow> RejectPostingRequestBody \<Rightarrow> 's LedgerApi_scheme
   \<Rightarrow> LedgerPostingRequestRecord result \<times> 's LedgerApi_scheme" where
  "rejectPostingRequestRoute sha256 datetime ctx requestId body api =
     guarded (parseRequestPart (min_one requestId)) api (\<lambda>_.
     guarded (parseRequestPart (rejectPostingRequestBodySchema datetime body)) api (\<lambda>_.
     guarded (getAuthorizedPostingRequestForDecision ctx api requestId) api (\<lambda>postingRequest.
     guarded (decision_check ctx postingRequest) api (\<lambda>_.
     case rejectMemoryLedgerPostingRequest (lapi_ledger api) (lctx_firmId ctx) requestId (review_input ctx body)
            (rpb_rejectionReason body) of
       (Inl e, ledger) \<Rightarrow> (mapLedgerPostingRequestError e, api\<lparr>lapi_ledger := ledger\<rparr>)
     | (Inr rejected, ledger) \<Rightarrow>
         (Inr rejected, api\<lparr>lapi_ledger := ledger,
            lapi_audit := appendLedgerAuditEvent sha256 ctx (lctx_auditId ctx) ''ledger.posting_request.rejected''
              ''ledger_posting_request'' (preq_id rejected) (preq_reviewedAt rejected) (rejectedMetadata postingRequest rejected)
              (lapi_audit api)\<rparr>)))))"

subsection \<open>Events the routes append\<close>

definition ledger_event ::
  "(string \<Rightarrow> string) \<Rightarrow> LedgerContext \<Rightarrow> string \<Rightarrow> string \<Rightarrow> string \<Rightarrow> string \<Rightarrow> string option \<Rightarrow> (string \<times> js_value) list
   \<Rightarrow> MemoryAuditStore \<Rightarrow> AuditEvent" where
  "ledger_event sha256 ctx auditId action resourceType resourceId occurredAt metadata audit =
     fst (appendMemoryAuditEvent sha256 audit
       \<lparr>aud_id = auditId, aud_firmId = lctx_firmId ctx, aud_actorId = user_id (lctx_user ctx), aud_action = action,
        aud_resourceType = resourceType, aud_resourceId = resourceId,
        aud_occurredAt = or_else occurredAt (lctx_auditNow ctx), aud_metadata = compact metadata\<rparr>)"

lemma ledger_event_fields [simp]:
  "aud_firmId (ledger_event sha ctx i ac rt rid at md audit) = lctx_firmId ctx"
  "aud_actorId (ledger_event sha ctx i ac rt rid at md audit) = user_id (lctx_user ctx)"
  "aud_action (ledger_event sha ctx i ac rt rid at md audit) = ac"
  "aud_resourceType (ledger_event sha ctx i ac rt rid at md audit) = rt"
  "aud_resourceId (ledger_event sha ctx i ac rt rid at md audit) = rid"
  "aud_metadata (ledger_event sha ctx i ac rt rid at md audit) = compact md"
  by (simp_all add: ledger_event_def appendMemoryAuditEvent_def appendAuditEvent_def NewAuditEvent.extend_def Let_def)

lemma append_ledger_event [simp]:
  "aud_events (appendLedgerAuditEvent sha ctx i ac rt rid at md audit) =
   aud_events audit @ [ledger_event sha ctx i ac rt rid at md audit]"
  by (simp add: appendLedgerAuditEvent_def ledger_event_def appendMemoryAuditEvent_def Let_def)

lemma append_ledger_event_chains:
  "chains_ok sha audit \<Longrightarrow> chains_ok sha (appendLedgerAuditEvent sha ctx i ac rt rid at md audit)"
  unfolding appendLedgerAuditEvent_def by (erule append_keeps_chains) (rule prod.collapse [symmetric])

lemma append_workflow_event:
  "appendWorkflowAuditEvent sha ctx ac rt rid at md ms audit =
   appendLedgerAuditEvent sha ctx (lctx_auditId ctx) ac rt rid at (compact (merge_metadata md (workflow_metadata ctx ms))) audit"
  by (simp add: appendWorkflowAuditEvent_def)

subsection \<open>What the posting routes do\<close>

lemma guarded_Inl [simp]: "guarded (Inl e) s k = (Inl e, s)" "guarded (throw m) s k = (throw m, s)"
  by (simp_all add: guarded_def throw_def)

lemma guarded_Inr [simp]: "guarded (Inr x) s k = k x"
  by (simp add: guarded_def)

lemma guarded_cases:
  assumes "guarded check s k = (r, s')"
  obtains (refused) e where "r = Inl e" "s' = s" | (passed) x where "check = Inr x" "k x = (r, s')"
  using assms by (auto simp: guarded_def split: sum.splits)

lemma mapped_error: "\<exists>e'. mapLedgerPostingRequestError e = Inl e'"
  unfolding mapLedgerPostingRequestError_def throw_def by (simp split: if_split)

lemma rethrown_conflict: "\<exists>e'. rethrowPostingConflict e = Inl e'"
  unfolding rethrowPostingConflict_def throw_def by (simp split: if_split)

lemma post_route_cases:
  assumes "postLedgerTransactionRoute sha datetime ctx body s = (r, s')"
  obtains (refused) e where "r = Inl e" "s' = s"
  | (posted) p where "r = Inr p" "ledgerPostBodySchema datetime body"
      "assertLedgerAccess ctx Act_create (head (user_assignedMatterIds (lctx_user ctx))) = Inr ()"
      "checkLedgerTransactionScope ctx s (buildProposedTransaction ctx body) = Inr ()"
      "assertNoPendingLedgerPostingRequestForTransaction s (buildProposedTransaction ctx body) = Inr ()"
      "postLedgerTransaction (posting_state (lapi_ledger s)) (buildProposedTransaction ctx body) = Inr p"
      "s' = s\<lparr>lapi_ledger := (lapi_ledger s)\<lparr>store_postedTransactions :=
                reconcilePostedTransaction (store_postedTransactions (lapi_ledger s)) p\<rparr>,
              lapi_audit := appendWorkflowAuditEvent sha ctx ''ledger.transaction.posted'' ''ledger_transaction'' (posted_id p) None
                (postedMetadata p) (js_set (map entry_matterId (posted_entries p))) (lapi_audit s)\<rparr>"
  using assms unfolding postLedgerTransactionRoute_def Let_def
proof (elim guarded_cases, goal_cases)
  case prems: 5
  show ?case
  proof (cases "postLedgerTransaction (posting_state (lapi_ledger s)) (buildProposedTransaction ctx body)")
    case (Inl e)
    then have "r = rethrowPostingConflict e" "s' = s" using prems(3-) by (simp_all add: postMemoryLedgerTransaction_eq)
    then show ?thesis using that(1) rethrown_conflict by metis
  next
    case (Inr p)
    then show ?thesis
      using prems(3-) by (intro that(2) [of p]) (simp_all add: postMemoryLedgerTransaction_eq parseRequestPart_def)
  qed
qed auto

lemma prepare_route_cases:
  assumes "preparePostingRequestRoute sha datetime ctx body s = (r, s')"
  obtains (refused) e where "r = Inl e" "s' = s"
  | (prepared) q p l where "r = Inr p" "preparePostingRequestBodySchema datetime body"
      "ledgerPostingRequestFromTransaction (posting_request_input ctx body) = Inr q"
      "prepareMemoryLedgerPostingRequest (lapi_ledger s) q = (Inr p, l)"
      "s' = s\<lparr>lapi_ledger := l, lapi_audit := appendLedgerAuditEvent sha ctx (lctx_auditId ctx) ''ledger.posting_request.prepared''
              ''ledger_posting_request'' (preq_id p) (Some (preq_preparedAt p)) (preparedMetadata p) (lapi_audit s)\<rparr>"
  using assms unfolding preparePostingRequestRoute_def Let_def
proof (elim guarded_cases, goal_cases)
  case prems: (5 _ _ _ q)
  obtain a l where prep: "prepareMemoryLedgerPostingRequest (lapi_ledger s) q = (a, l)" by fastforce
  show ?case
  proof (cases a)
    case (Inl e)
    then have "l = lapi_ledger s"
      using prep by (auto simp: prepareMemoryLedgerPostingRequest_def throw_def split: sum.splits option.splits if_splits)
    then have "r = mapLedgerPostingRequestError e" "s' = s" using prems(3-) prep Inl by simp_all
    then show ?thesis using that(1) mapped_error by metis
  next
    case (Inr p)
    then show ?thesis using prems(3-) prep by (intro that(2) [of p q l]) (simp_all add: parseRequestPart_def)
  qed
qed auto

lemma reject_route_cases:
  assumes "rejectPostingRequestRoute sha datetime ctx i body s = (r, s')"
  obtains (refused) e where "r = Inl e" "s' = s"
  | (rejected) before q l where "r = Inr q"
      "rejectMemoryLedgerPostingRequest (lapi_ledger s) (lctx_firmId ctx) i (review_input ctx body) (rpb_rejectionReason body) = (Inr q, l)"
      "s' = s\<lparr>lapi_ledger := l, lapi_audit := appendLedgerAuditEvent sha ctx (lctx_auditId ctx) ''ledger.posting_request.rejected''
              ''ledger_posting_request'' (preq_id q) (preq_reviewedAt q) (rejectedMetadata before q) (lapi_audit s)\<rparr>"
  using assms unfolding rejectPostingRequestRoute_def Let_def
proof (elim guarded_cases, goal_cases)
  case prems: (5 _ _ before _)
  obtain a l where rej: "rejectMemoryLedgerPostingRequest (lapi_ledger s) (lctx_firmId ctx) i (review_input ctx body)
      (rpb_rejectionReason body) = (a, l)" by fastforce
  show ?case
  proof (cases a)
    case (Inl e)
    then have "l = lapi_ledger s"
      using rej by (auto simp: rejectMemoryLedgerPostingRequest_def throw_def Let_def split: sum.splits if_splits)
    then have "r = mapLedgerPostingRequestError e" "s' = s" using prems(3-) rej Inl by simp_all
    then show ?thesis using that(1) mapped_error by metis
  next
    case (Inr q)
    then show ?thesis using prems(3-) rej by (intro that(2) [of q l before]) simp_all
  qed
qed auto

definition authenticated :: "LedgerContext \<Rightarrow> bool" where
  "authenticated ctx \<longleftrightarrow> user_id (lctx_user ctx) \<noteq> [] \<and> lctx_now ctx \<noteq> []"

definition named_postings :: "'a MemoryLedgerCoreStore_scheme \<Rightarrow> bool" where
  "named_postings l \<longleftrightarrow> list_all (\<lambda>p. posted_id p \<noteq> []) (store_postedTransactions l)"

lemma posted_result:
  assumes "postLedgerTransaction (posting_state l) t = Inr p"
  shows "posted_firmId p = tx_firmId t \<and> (p \<in> set (store_postedTransactions l) \<or> p = posted_of t)"
proof (cases "findDuplicate (store_postedTransactions l) t")
  case None
  then show ?thesis using assms by (simp add: postLedgerTransaction_new)
next
  case (Some d)
  then have "posted_firmId d = tx_firmId t \<and> d \<in> set (store_postedTransactions l)"
    by (auto simp: findDuplicate_def dest: find_Some_mem)
  then show ?thesis using assms Some by (auto simp: postLedgerTransaction_duplicate split: if_splits)
qed

lemma posted_named:
  assumes "postLedgerTransaction (posting_state l) t = Inr p" "tx_id t \<noteq> []" "named_postings l"
  shows "posted_id p \<noteq> []"
  using posted_result [OF assms(1)] assms(2,3) by (auto simp: named_postings_def list_all_iff)

lemma named_reconciled:
  "named_postings l \<Longrightarrow> posted_id p \<noteq> [] \<Longrightarrow>
   named_postings (l\<lparr>store_postedTransactions := reconcilePostedTransaction (store_postedTransactions l) p\<rparr>)"
  by (simp add: named_postings_def reconcilePostedTransaction_def)

lemma trimmed_nonempty: "trim s \<noteq> [] \<Longrightarrow> s \<noteq> []"
  by auto

lemma request_transaction_named:
  "validateLedgerPostingRequestRecord x = Inr u \<Longrightarrow> preq_transactionId x \<noteq> []"
  unfolding validateLedgerPostingRequestRecord_def run_checks_ok by auto

lemma approve_route_cases:
  assumes route: "approvePostingRequestRoute sha datetime ctx i body s = (r, s')"
    and ok: "ledger_inv (lapi_ledger s)" "named_postings (lapi_ledger s)" "authenticated ctx" "\<not> datetime []"
  obtains (refused) e where "r = Inl e" "s' = s"
  | (approved) x q p l where "getAuthorizedPostingRequestForDecision ctx s i = Inr x" "decision_check ctx x = Inr ()"
      "getMemoryLedgerPostingRequest (lapi_ledger s) (lctx_firmId ctx) i = Some x"
      "r = Inr q" "approveMemoryLedgerPostingRequest (lapi_ledger s) (lctx_firmId ctx) i (review_input ctx body)
         = (Inr \<lparr>approved_request = q, approved_postedTransaction = p\<rparr>, l)"
      "s' = s\<lparr>lapi_ledger := l, lapi_audit :=
         approval_audit sha ctx x \<lparr>approved_request = q, approved_postedTransaction = p\<rparr> (lapi_audit s)\<rparr>"
      "posted_id p \<noteq> []" "posted_firmId p = lctx_firmId ctx"
      "store_postedTransactions l = reconcilePostedTransaction (store_postedTransactions (lapi_ledger s)) p"
  using route unfolding approvePostingRequestRoute_def Let_def
proof (elim guarded_cases, goal_cases)
  case prems: (5 _ _ x _)
  let ?input = "review_input ctx body"
  have auth: "getAuthorizedPostingRequestForDecision ctx s i = Inr x" "decision_check ctx x = Inr ()"
    "approvePostingRequestBodySchema datetime body"
    using prems(3-) by (simp_all add: parseRequestPart_def)
  then have get: "getMemoryLedgerPostingRequest (lapi_ledger s) (lctx_firmId ctx) i = Some x"
    by (auto simp: getAuthorizedPostingRequestForDecision_def bind_result_ok split: option.splits)
  have mem: "x \<in> set (store_ledgerPostingRequests (lapi_ledger s))" "preq_firmId x = lctx_firmId ctx"
    using get by (auto simp: getMemoryLedgerPostingRequest_def dest: find_Some_mem)
  then have valid: "validateLedgerPostingRequestRecord x = Inr ()"
    using ok(1) by (auto simp: ledger_inv_def request_inv_def list_all_iff)
  have reviewer: "review_reviewedByUserId ?input \<noteq> []" "review_reviewedAt ?input \<noteq> []"
    "review_reviewedByUserId ?input \<noteq> preq_preparedByUserId x"
    using ok(3,4) auth(2,3) unfolding decision_check_def run_checks_ok
    by (auto simp: review_input_def authenticated_def approvePostingRequestBodySchema_def optional_ok_def split: option.splits)
  obtain a l where app: "approveMemoryLedgerPostingRequest (lapi_ledger s) (lctx_firmId ctx) i ?input = (a, l)" by fastforce
  show ?case
  proof (cases a)
    case (Inl e)
    have "l = lapi_ledger s"
    proof (cases "preq_status x = Posting_pending_approval")
      case True
      then have "postPendingRequest (lapi_ledger s) (lctx_firmId ctx) i ?input x = (Inl e, l)"
        using app get Inl reviewer by (auto simp: approveMemoryLedgerPostingRequest_def throw_def)
      then show ?thesis
      proof (cases rule: postPendingRequest_cases)
        case (written p e')
        then have post: "postLedgerTransaction (posting_state (lapi_ledger s))
            (ledgerTransactionFromPostingRequest x (review_reviewedByUserId ?input) None) = Inr p"
          by (simp add: ledgerTransactionFromPostingRequest_def)
        have "posted_id p \<noteq> []"
          by (rule posted_named [OF written(2)]) (simp_all add: ok(2) request_transaction_named [OF valid])
        then have "is_ok (fst (approveMemoryLedgerPostingRequest (lapi_ledger s) (lctx_firmId ctx) i ?input))"
          using approve_succeeds [OF get True valid] reviewer post by simp
        then show ?thesis using app Inl by simp
      qed auto
    next
      case False
      then show ?thesis using app get Inl
        by (auto simp: approveMemoryLedgerPostingRequest_def throw_def split: option.splits if_splits)
    qed
    then have "r = mapLedgerPostingRequestError e" "s' = s" using prems(3-) app Inl by simp_all
    then show ?thesis using that(1) mapped_error by metis
  next
    case (Inr ap)
    obtain q p where ap: "ap = \<lparr>approved_request = q, approved_postedTransaction = p\<rparr>" by (cases ap)
    have "posted_id p \<noteq> [] \<and> posted_firmId p = lctx_firmId ctx
        \<and> store_postedTransactions l = reconcilePostedTransaction (store_postedTransactions (lapi_ledger s)) p"
    proof (cases "preq_status x = Posting_posted \<and> truthy (preq_ledgerTransactionId x)")
      case True
      then have "List.find (\<lambda>t. posted_firmId t = lctx_firmId ctx \<and> Some (posted_id t) = preq_ledgerTransactionId x)
          (store_postedTransactions (lapi_ledger s)) = Some p" and l: "l = lapi_ledger s"
        using app get Inr ap by (auto simp: approveMemoryLedgerPostingRequest_def throw_def split: option.splits)
      then have "p \<in> set (store_postedTransactions (lapi_ledger s))" "posted_firmId p = lctx_firmId ctx"
        using find_Some_mem by fastforce+
      then show ?thesis
        using ok(2) l by (auto simp: named_postings_def list_all_iff reconcilePostedTransaction_def list_ex_iff)
    next
      case False
      then have "postPendingRequest (lapi_ledger s) (lctx_firmId ctx) i ?input x = (Inr ap, l)"
        using app get Inr ap reviewer by (auto simp: approveMemoryLedgerPostingRequest_def throw_def split: if_splits)
      then show ?thesis
      proof (cases rule: postPendingRequest_cases)
        case (posted p' q')
        have "posted_id p' \<noteq> []"
          by (rule posted_named [OF posted(1)]) (simp_all add: ok(2) request_transaction_named [OF valid])
        moreover have "posted_firmId p' = lctx_firmId ctx" using posted_result [OF posted(1)] mem(2) by simp
        moreover have "p' = p" using posted(4) ap by simp
        ultimately show ?thesis using posted(5) by (simp add: replaceRequest_def)
      qed auto
    qed
    then show ?thesis using prems(3-) app Inr ap auth get by (intro that(2) [of x q p l]) simp_all
  qed
qed auto

end
