(* ===== verification/Ledger_Review.thy ===== *)
theory Ledger_Review
  imports Ledger_Store Reconciliation
begin

section \<open>Ledger review records\<close>

text \<open>
  The in-memory repository of packages/database/src/repository/ledger-review/memory.ts: approvals of
  posted transactions, reconciliations, statement import batches, match-rule profiles, accounting
  profiles and exception resolutions. The store of the code also holds the accounts and the posted
  transactions of the ledger; here they are read from the ledger store, which is an argument.
\<close>

subsection \<open>Data\<close>

record MemoryLedgerReviewStore =
  lrs_users :: "User list"
  lrs_approvals :: "LedgerTransactionApprovalRecord list"
  lrs_reconciliations :: "LedgerReconciliationRecord list"
  lrs_importBatches :: "LedgerStatementImportBatchRecord list"
  lrs_matchRules :: "LedgerStatementMatchRuleProfileRecord list"
  lrs_profiles :: "LedgerAccountingReviewProfileRecord list"
  lrs_resolutions :: "LedgerReconciliationExceptionResolutionRecord list"

definition findLedgerAccount :: "'a MemoryLedgerCoreStore_scheme \<Rightarrow> string \<Rightarrow> string \<Rightarrow> LedgerAccount option" where
  "findLedgerAccount ledger firmId accountId =
     List.find (\<lambda>candidate. acct_firmId candidate = firmId \<and> acct_id candidate = accountId) (store_ledgerAccounts ledger)"

definition is_trust_asset :: "LedgerAccount option \<Rightarrow> bool" where
  "is_trust_asset account = (case account of None \<Rightarrow> False | Some a \<Rightarrow> acct_type a = trust_asset)"

definition knownUser :: "MemoryLedgerReviewStore \<Rightarrow> string \<Rightarrow> string \<Rightarrow> bool" where
  "knownUser store firmId userId =
     list_ex (\<lambda>candidate. user_firmId candidate = firmId \<and> user_id candidate = userId) (lrs_users store)"

definition stored_if :: "unit result \<Rightarrow> 'r \<Rightarrow> 's \<Rightarrow> 's \<Rightarrow> 'r result \<times> 's" where
  "stored_if checks value stored unchanged = (case checks of Inl e \<Rightarrow> (Inl e, unchanged) | Inr _ \<Rightarrow> (Inr value, stored))"

subsection \<open>Operations\<close>

definition createMemoryLedgerTransactionApproval ::
  "'a MemoryLedgerCoreStore_scheme \<Rightarrow> MemoryLedgerReviewStore \<Rightarrow> LedgerTransactionApprovalRecord
   \<Rightarrow> LedgerTransactionApprovalRecord result \<times> MemoryLedgerReviewStore" where
  "createMemoryLedgerTransactionApproval ledger store approval =
     stored_if (run_checks
       [throw_if (\<not> list_ex (\<lambda>posted. posted_firmId posted = appr_firmId approval
                    \<and> posted_id posted = appr_transactionId approval) (store_postedTransactions ledger))
          (''Unknown ledger transaction '' @ appr_transactionId approval),
        throw_if (list_ex (\<lambda>candidate. appr_firmId candidate = appr_firmId approval
                    \<and> appr_transactionId candidate = appr_transactionId approval
                    \<and> appr_decidedByUserId candidate = appr_decidedByUserId approval) (lrs_approvals store))
          ''Ledger approval reviewer has already recorded a decision''])
       approval (store\<lparr>lrs_approvals := lrs_approvals store @ [approval]\<rparr>) store"

definition listMemoryLedgerTransactionApprovals ::
  "MemoryLedgerReviewStore \<Rightarrow> string \<Rightarrow> string option \<Rightarrow> LedgerTransactionApprovalRecord list" where
  "listMemoryLedgerTransactionApprovals store firmId transactionId =
     filter (\<lambda>approval. appr_firmId approval = firmId
        \<and> (\<not> truthy transactionId \<or> Some (appr_transactionId approval) = transactionId)) (lrs_approvals store)"

definition createMemoryLedgerReconciliation ::
  "'a MemoryLedgerCoreStore_scheme \<Rightarrow> MemoryLedgerReviewStore \<Rightarrow> LedgerReconciliationRecord
   \<Rightarrow> LedgerReconciliationRecord result \<times> MemoryLedgerReviewStore" where
  "createMemoryLedgerReconciliation ledger store reconciliation =
     stored_if (run_checks
       [throw_if (findLedgerAccount ledger (recon_firmId reconciliation) (recon_accountId reconciliation) = None)
          (''Unknown ledger account '' @ recon_accountId reconciliation),
        validateLedgerReconciliationRecord reconciliation])
       reconciliation (store\<lparr>lrs_reconciliations := lrs_reconciliations store @ [reconciliation]\<rparr>) store"

definition listMemoryLedgerReconciliations :: "MemoryLedgerReviewStore \<Rightarrow> string \<Rightarrow> LedgerReconciliationRecord list" where
  "listMemoryLedgerReconciliations store firmId =
     filter (\<lambda>reconciliation. recon_firmId reconciliation = firmId) (lrs_reconciliations store)"

definition createMemoryLedgerStatementImportBatch ::
  "'a MemoryLedgerCoreStore_scheme \<Rightarrow> MemoryLedgerReviewStore \<Rightarrow> LedgerStatementImportBatchRecord
   \<Rightarrow> LedgerStatementImportBatchRecord result \<times> MemoryLedgerReviewStore" where
  "createMemoryLedgerStatementImportBatch ledger store batch =
     stored_if (run_checks
       [throw_if (\<not> is_trust_asset (findLedgerAccount ledger (batch_firmId batch) (batch_accountId batch)))
          ''Statement import batches require an existing trust asset account'',
        throw_if (\<not> knownUser store (batch_firmId batch) (batch_createdByUserId batch))
          (''Unknown user '' @ batch_createdByUserId batch),
        validateLedgerStatementImportBatchRecord batch,
        throw_if (truthy (batch_matchingProfileId batch)
            \<and> \<not> list_ex (\<lambda>profile. rule_firmId profile = batch_firmId batch \<and> rule_accountId profile = batch_accountId batch
                  \<and> Some (rule_id profile) = batch_matchingProfileId batch) (lrs_matchRules store))
          ''Statement import batch matching profile must belong to the same trust asset account''])
       batch (store\<lparr>lrs_importBatches := lrs_importBatches store @ [batch]\<rparr>) store"

definition listMemoryLedgerStatementImportBatches ::
  "MemoryLedgerReviewStore \<Rightarrow> string \<Rightarrow> string option \<Rightarrow> LedgerStatementImportBatchRecord list" where
  "listMemoryLedgerStatementImportBatches store firmId accountId =
     js_sort (\<lambda>left right. date_difference (batch_createdAt left) (batch_createdAt right))
       (filter (\<lambda>batch. batch_firmId batch = firmId \<and> (\<not> truthy accountId \<or> Some (batch_accountId batch) = accountId))
         (lrs_importBatches store))"

definition createMemoryLedgerStatementMatchRuleProfile ::
  "'a MemoryLedgerCoreStore_scheme \<Rightarrow> MemoryLedgerReviewStore \<Rightarrow> LedgerStatementMatchRuleProfileRecord
   \<Rightarrow> LedgerStatementMatchRuleProfileRecord result \<times> MemoryLedgerReviewStore" where
  "createMemoryLedgerStatementMatchRuleProfile ledger store profile =
     stored_if (run_checks
       [throw_if (\<not> is_trust_asset (findLedgerAccount ledger (rule_firmId profile) (rule_accountId profile)))
          ''Statement match-rule profiles require an existing trust asset account'',
        throw_if (\<not> knownUser store (rule_firmId profile) (rule_createdByUserId profile))
          (''Unknown user '' @ rule_createdByUserId profile),
        validateLedgerStatementMatchRuleProfileRecord profile])
       profile (store\<lparr>lrs_matchRules := lrs_matchRules store @ [profile]\<rparr>) store"

definition listMemoryLedgerStatementMatchRuleProfiles ::
  "MemoryLedgerReviewStore \<Rightarrow> string \<Rightarrow> string option \<Rightarrow> LedgerStatementMatchRuleProfileRecord list" where
  "listMemoryLedgerStatementMatchRuleProfiles store firmId accountId =
     js_sort (\<lambda>left right. date_difference (rule_createdAt left) (rule_createdAt right))
       (filter (\<lambda>profile. rule_firmId profile = firmId \<and> (\<not> truthy accountId \<or> Some (rule_accountId profile) = accountId))
         (lrs_matchRules store))"

definition createMemoryLedgerAccountingReviewProfile ::
  "'a MemoryLedgerCoreStore_scheme \<Rightarrow> MemoryLedgerReviewStore \<Rightarrow> LedgerAccountingReviewProfileRecord
   \<Rightarrow> LedgerAccountingReviewProfileRecord result \<times> MemoryLedgerReviewStore" where
  "createMemoryLedgerAccountingReviewProfile ledger store profile =
     (let account = findLedgerAccount ledger (prof_firmId profile) (prof_accountId profile) in
     stored_if (run_checks
       [throw_if (account = None) (''Unknown ledger account '' @ prof_accountId profile),
        throw_if (map_option acct_type account \<noteq> Some (prof_accountType profile))
          ''Accounting review profile account type must match the ledger account'',
        throw_if (\<not> knownUser store (prof_firmId profile) (prof_createdByUserId profile))
          (''Unknown user '' @ prof_createdByUserId profile),
        validateLedgerAccountingReviewProfileRecord profile])
       profile (store\<lparr>lrs_profiles := lrs_profiles store @ [profile]\<rparr>) store)"

definition listMemoryLedgerAccountingReviewProfiles ::
  "MemoryLedgerReviewStore \<Rightarrow> string \<Rightarrow> string option \<Rightarrow> LedgerAccountingReviewProfileRecord list" where
  "listMemoryLedgerAccountingReviewProfiles store firmId accountId =
     js_sort (\<lambda>left right. date_difference (prof_createdAt left) (prof_createdAt right))
       (filter (\<lambda>profile. prof_firmId profile = firmId \<and> (\<not> truthy accountId \<or> Some (prof_accountId profile) = accountId))
         (lrs_profiles store))"

definition createMemoryLedgerReconciliationExceptionResolution ::
  "'a MemoryLedgerCoreStore_scheme \<Rightarrow> MemoryLedgerReviewStore \<Rightarrow> LedgerReconciliationExceptionResolutionRecord
   \<Rightarrow> LedgerReconciliationExceptionResolutionRecord result \<times> MemoryLedgerReviewStore" where
  "createMemoryLedgerReconciliationExceptionResolution ledger store resolution =
     stored_if (run_checks
       [throw_if (\<not> is_trust_asset (findLedgerAccount ledger (resol_firmId resolution) (resol_accountId resolution)))
          ''Reconciliation exception resolutions require an existing trust asset account'',
        throw_if (\<not> knownUser store (resol_firmId resolution) (resol_recordedByUserId resolution))
          (''Unknown user '' @ resol_recordedByUserId resolution),
        validateLedgerReconciliationExceptionResolutionRecord resolution])
       resolution (store\<lparr>lrs_resolutions := lrs_resolutions store @ [resolution]\<rparr>) store"

definition listMemoryLedgerReconciliationExceptionResolutions ::
  "MemoryLedgerReviewStore \<Rightarrow> string \<Rightarrow> string option \<Rightarrow> LedgerReconciliationExceptionResolutionRecord list" where
  "listMemoryLedgerReconciliationExceptionResolutions store firmId accountId =
     js_sort (\<lambda>left right. date_difference (resol_recordedAt left) (resol_recordedAt right))
       (filter (\<lambda>resolution. resol_firmId resolution = firmId \<and> (\<not> truthy accountId \<or> Some (resol_accountId resolution) = accountId))
         (lrs_resolutions store))"

subsection \<open>Stored records are sound\<close>

definition ledger_grows :: "'a MemoryLedgerCoreStore_scheme \<Rightarrow> 'a MemoryLedgerCoreStore_scheme \<Rightarrow> bool" where
  "ledger_grows l m \<longleftrightarrow> store_ledgerAccounts m = store_ledgerAccounts l
     \<and> set (store_postedTransactions l) \<subseteq> set (store_postedTransactions m)"

lemma ledger_grows_refl [simp]: "ledger_grows l l"
  by (simp add: ledger_grows_def)

lemma ledger_grows_posted [simp]:
  "ledger_grows l (l\<lparr>store_postedTransactions := reconcilePostedTransaction (store_postedTransactions l) p\<rparr>)"
  by (simp add: ledger_grows_def reconcile_superset)

lemma ledger_step_grows: "ledger_step l m \<Longrightarrow> ledger_grows l m"
proof (erule ledger_stepE)
  fix t r assume "postMemoryLedgerTransaction l t = (r, m)"
  then show "ledger_grows l m" by (auto simp: postMemoryLedgerTransaction_eq split: sum.splits)
next
  fix q r assume "prepareMemoryLedgerPostingRequest l q = (r, m)"
  then show "ledger_grows l m"
    by (auto simp: prepareMemoryLedgerPostingRequest_def ledger_grows_def split: sum.splits option.splits)
next
  fix f i input r assume "approveMemoryLedgerPostingRequest l f i input = (r, m)"
  moreover have "ledger_grows l m" if "postPendingRequest l f i input x = (r, m)" for x
    using that by (cases rule: postPendingRequest_cases) (auto simp: replaceRequest_def ledger_grows_def reconcile_superset)
  ultimately show "ledger_grows l m"
    by (auto simp: approveMemoryLedgerPostingRequest_def split: option.splits if_splits)
next
  fix f i input reason r assume "rejectMemoryLedgerPostingRequest l f i input reason = (r, m)"
  then show "ledger_grows l m"
    by (auto simp: rejectMemoryLedgerPostingRequest_def replaceRequest_def ledger_grows_def Let_def split: sum.splits if_splits)
qed

definition approval_ok :: "'a MemoryLedgerCoreStore_scheme \<Rightarrow> LedgerTransactionApprovalRecord \<Rightarrow> bool" where
  "approval_ok ledger a \<longleftrightarrow> (\<exists>p \<in> set (store_postedTransactions ledger). posted_firmId p = appr_firmId a \<and> posted_id p = appr_transactionId a)"

definition approval_key :: "LedgerTransactionApprovalRecord \<Rightarrow> string \<times> string \<times> string" where
  "approval_key a = (appr_firmId a, appr_transactionId a, appr_decidedByUserId a)"

definition trust_account :: "'a MemoryLedgerCoreStore_scheme \<Rightarrow> string \<Rightarrow> string \<Rightarrow> bool" where
  "trust_account ledger firmId accountId \<longleftrightarrow> is_trust_asset (findLedgerAccount ledger firmId accountId)"

definition reconciliation_ok :: "'a MemoryLedgerCoreStore_scheme \<Rightarrow> LedgerReconciliationRecord \<Rightarrow> bool" where
  "reconciliation_ok ledger r \<longleftrightarrow> findLedgerAccount ledger (recon_firmId r) (recon_accountId r) \<noteq> None
     \<and> validateLedgerReconciliationRecord r = Inr ()"

definition rule_ok :: "'a MemoryLedgerCoreStore_scheme \<Rightarrow> LedgerStatementMatchRuleProfileRecord \<Rightarrow> bool" where
  "rule_ok ledger r \<longleftrightarrow> trust_account ledger (rule_firmId r) (rule_accountId r)
     \<and> validateLedgerStatementMatchRuleProfileRecord r = Inr ()"

definition batch_ok :: "'a MemoryLedgerCoreStore_scheme \<Rightarrow> LedgerStatementMatchRuleProfileRecord list \<Rightarrow> LedgerStatementImportBatchRecord \<Rightarrow> bool" where
  "batch_ok ledger rules b \<longleftrightarrow> trust_account ledger (batch_firmId b) (batch_accountId b)
     \<and> validateLedgerStatementImportBatchRecord b = Inr ()
     \<and> (truthy (batch_matchingProfileId b) \<longrightarrow> (\<exists>r \<in> set rules. rule_firmId r = batch_firmId b
          \<and> rule_accountId r = batch_accountId b \<and> Some (rule_id r) = batch_matchingProfileId b))"

definition profile_ok :: "'a MemoryLedgerCoreStore_scheme \<Rightarrow> LedgerAccountingReviewProfileRecord \<Rightarrow> bool" where
  "profile_ok ledger p \<longleftrightarrow> map_option acct_type (findLedgerAccount ledger (prof_firmId p) (prof_accountId p)) = Some (prof_accountType p)
     \<and> validateLedgerAccountingReviewProfileRecord p = Inr ()"

definition resolution_ok :: "'a MemoryLedgerCoreStore_scheme \<Rightarrow> LedgerReconciliationExceptionResolutionRecord \<Rightarrow> bool" where
  "resolution_ok ledger r \<longleftrightarrow> trust_account ledger (resol_firmId r) (resol_accountId r)
     \<and> validateLedgerReconciliationExceptionResolutionRecord r = Inr ()"

definition reviews_ok :: "'a MemoryLedgerCoreStore_scheme \<Rightarrow> MemoryLedgerReviewStore \<Rightarrow> bool" where
  "reviews_ok ledger store \<longleftrightarrow>
     list_all (approval_ok ledger) (lrs_approvals store) \<and> distinct (map approval_key (lrs_approvals store))
     \<and> list_all (reconciliation_ok ledger) (lrs_reconciliations store)
     \<and> list_all (rule_ok ledger) (lrs_matchRules store)
     \<and> list_all (batch_ok ledger (lrs_matchRules store)) (lrs_importBatches store)
     \<and> list_all (profile_ok ledger) (lrs_profiles store)
     \<and> list_all (resolution_ok ledger) (lrs_resolutions store)"

lemma findLedgerAccount_grows: "ledger_grows l m \<Longrightarrow> findLedgerAccount m = findLedgerAccount l"
  by (auto simp: findLedgerAccount_def ledger_grows_def intro!: ext)

lemma reviews_grow: "ledger_grows l m \<Longrightarrow> reviews_ok l store \<Longrightarrow> reviews_ok m store"
proof -
  assume grows: "ledger_grows l m" and ok: "reviews_ok l store"
  have acc: "findLedgerAccount m = findLedgerAccount l" by (rule findLedgerAccount_grows [OF grows])
  have "list_all (approval_ok m) (lrs_approvals store)"
    using ok grows unfolding reviews_ok_def approval_ok_def list_all_iff ledger_grows_def by (meson subsetD)
  then show "reviews_ok m store"
    using ok unfolding reviews_ok_def reconciliation_ok_def rule_ok_def batch_ok_def profile_ok_def resolution_ok_def
      trust_account_def acc by blast
qed

lemma stored_if_cases:
  assumes "stored_if checks v t s = (r, s')"
  obtains (refused) e where "r = Inl e" "s' = s" | (stored) "checks = Inr ()" "r = Inr v" "s' = t"
  using assms by (auto simp: stored_if_def split: sum.splits)

lemma approval_stored:
  assumes "createMemoryLedgerTransactionApproval ledger store a = (r, store')" "reviews_ok ledger store"
  shows "reviews_ok ledger store'"
  using assms(1) unfolding createMemoryLedgerTransactionApproval_def
proof (cases rule: stored_if_cases)
  case stored
  then have "approval_ok ledger a" "approval_key a \<notin> approval_key ` set (lrs_approvals store)"
    unfolding run_checks_ok by (auto simp: approval_ok_def approval_key_def list_ex_iff)
  then show ?thesis using stored assms(2) by (simp add: reviews_ok_def)
qed (use assms(2) in simp)

lemma reconciliation_stored:
  assumes "createMemoryLedgerReconciliation ledger store x = (r, store')" "reviews_ok ledger store"
  shows "reviews_ok ledger store'"
  using assms(1) unfolding createMemoryLedgerReconciliation_def
proof (cases rule: stored_if_cases)
  case stored
  then have "reconciliation_ok ledger x" unfolding run_checks_ok by (simp add: reconciliation_ok_def)
  then show ?thesis using stored assms(2) by (simp add: reviews_ok_def)
qed (use assms(2) in simp)

lemma batch_stored:
  assumes "createMemoryLedgerStatementImportBatch ledger store x = (r, store')" "reviews_ok ledger store"
  shows "reviews_ok ledger store'"
  using assms(1) unfolding createMemoryLedgerStatementImportBatch_def
proof (cases rule: stored_if_cases)
  case stored
  then have "batch_ok ledger (lrs_matchRules store) x"
    unfolding run_checks_ok by (auto simp: batch_ok_def trust_account_def list_ex_iff)
  then show ?thesis using stored assms(2) by (simp add: reviews_ok_def)
qed (use assms(2) in simp)

lemma rule_stored:
  assumes "createMemoryLedgerStatementMatchRuleProfile ledger store x = (r, store')" "reviews_ok ledger store"
  shows "reviews_ok ledger store'"
  using assms(1) unfolding createMemoryLedgerStatementMatchRuleProfile_def
proof (cases rule: stored_if_cases)
  case stored
  then have "rule_ok ledger x" unfolding run_checks_ok by (simp add: rule_ok_def trust_account_def)
  moreover have "batch_ok ledger rules b \<Longrightarrow> batch_ok ledger (rules @ [x]) b" for rules b
    by (auto simp: batch_ok_def)
  then have "list_all (batch_ok ledger (lrs_matchRules store)) bs \<Longrightarrow> list_all (batch_ok ledger (lrs_matchRules store @ [x])) bs" for bs
    by (auto simp: list_all_iff)
  ultimately show ?thesis using stored assms(2) by (simp add: reviews_ok_def)
qed (use assms(2) in simp)

lemma profile_stored:
  assumes "createMemoryLedgerAccountingReviewProfile ledger store x = (r, store')" "reviews_ok ledger store"
  shows "reviews_ok ledger store'"
  using assms(1) unfolding createMemoryLedgerAccountingReviewProfile_def Let_def
proof (cases rule: stored_if_cases)
  case stored
  then have "profile_ok ledger x" unfolding run_checks_ok by (auto simp: profile_ok_def)
  then show ?thesis using stored assms(2) by (simp add: reviews_ok_def)
qed (use assms(2) in simp)

lemma resolution_stored:
  assumes "createMemoryLedgerReconciliationExceptionResolution ledger store x = (r, store')" "reviews_ok ledger store"
  shows "reviews_ok ledger store'"
  using assms(1) unfolding createMemoryLedgerReconciliationExceptionResolution_def
proof (cases rule: stored_if_cases)
  case stored
  then have "resolution_ok ledger x" unfolding run_checks_ok by (simp add: resolution_ok_def trust_account_def)
  then show ?thesis using stored assms(2) by (simp add: reviews_ok_def)
qed (use assms(2) in simp)

lemmas reviews_stored = approval_stored reconciliation_stored batch_stored rule_stored profile_stored resolution_stored

end
