(* ===== verification/Financial_Journal.thy ===== *)
theory Financial_Journal
  imports Workflow_Audit
begin

section \<open>The journal of financial commands\<close>

text \<open>
  packages/domain/src/financial-command-journal.ts: the list of financial decisions read from the
  audit events of a firm, newest first, with only the listed metadata, and its counts.
  \<open>localeCompare\<close> is the argument \<open>collate\<close>; the constant policy of the result is left out.
\<close>

subsection \<open>Data\<close>

datatype FinancialCommandJournalFamily = Fam_trust_transfer | Fam_trust_transaction | Fam_invoice_approval | Fam_reconciliation

record FinancialCommandJournalEntry =
  jent_auditEventId :: string
  jent_actorId :: string
  jent_occurredAt :: string
  jent_action :: string
  jent_family :: FinancialCommandJournalFamily
  jent_decision :: string
  jent_resourceType :: string
  jent_resourceId :: string
  jent_matterId :: "string option"
  jent_matterIds :: "string list option"
  jent_accountId :: "string option"
  jent_accountIds :: "string list option"
  jent_invoiceId :: "string option"
  jent_transactionId :: "string option"
  jent_trustTransferRequestId :: "string option"
  jent_paymentId :: "string option"
  jent_statementRowId :: "string option"
  jent_status :: "string option"
  jent_previousStatus :: "string option"
  jent_amountCents :: "int option"
  jent_totalCents :: "int option"
  jent_balanceDueCents :: "int option"
  jent_allocationCount :: "int option"
  jent_entryCount :: "int option"
  jent_statementRowCount :: "int option"
  jent_matchedStatementRowCount :: "int option"
  jent_unmatchedStatementRowCount :: "int option"
  jent_varianceCents :: "int option"
  jent_evidencePresent :: "bool option"

record FinancialCommandJournalSummary =
  jsum_total :: int
  jsum_byFamily :: "(FinancialCommandJournalFamily \<times> int) list"
  jsum_byDecision :: "(string \<times> int) list"

record FinancialCommandJournal =
  jour_matterId :: "string option"
  jour_chainValid :: bool
  jour_reviewOnly :: bool
  jour_entries :: "FinancialCommandJournalEntry list"
  jour_summary :: FinancialCommandJournalSummary

subsection \<open>Entries\<close>

definition asString :: "js_value \<Rightarrow> string option" where
  "asString v = (case v of JStr s \<Rightarrow> if length (trim s) > 0 then Some (trim s) else None | _ \<Rightarrow> None)"

definition asStringArray :: "js_value \<Rightarrow> string list option" where
  "asStringArray v =
     (let items = (case v of JArr items \<Rightarrow> items | _ \<Rightarrow> [v]);
          strings = js_set (List.map_filter asString items)
      in if length strings > 0 then Some strings else None)"

definition asNumber :: "js_value \<Rightarrow> int option" where
  "asNumber v = (case v of JNum n \<Rightarrow> Some n | _ \<Rightarrow> None)"

definition asBoolean :: "js_value \<Rightarrow> bool option" where
  "asBoolean v = (case v of JBool b \<Rightarrow> Some b | _ \<Rightarrow> None)"

definition financialCommandJournalDefinitions ::
  "(string \<times> FinancialCommandJournalFamily \<times> (AuditEvent \<Rightarrow> string)) list" where
  "financialCommandJournalDefinitions =
     [(''trust_transfer_request.approved'', Fam_trust_transfer, \<lambda>_. ''approved''),
      (''trust_transfer_request.rejected'', Fam_trust_transfer, \<lambda>_. ''rejected''),
      (''trust_transfer_request.linked'', Fam_trust_transfer, \<lambda>_. ''linked''),
      (''ledger.transaction_approval.decided'', Fam_trust_transaction,
        \<lambda>event. or_else (asString (metadata_field event ''decision'')) ''decided''),
      (''invoice.approved'', Fam_invoice_approval, \<lambda>_. ''approved''),
      (''ledger.reconciliation.created'', Fam_reconciliation,
        \<lambda>event. or_else (asString (metadata_field event ''status'')) ''created''),
      (''ledger.reconciliation_exception_resolution.recorded'', Fam_reconciliation,
        \<lambda>event. or_else (asString (metadata_field event ''varianceDecision'')) ''recorded''),
      (''manual_payment.reconciled'', Fam_reconciliation, \<lambda>_. ''reconciled'')]"

definition financialCommandJournalActions :: "string list" where
  "financialCommandJournalActions = map fst financialCommandJournalDefinitions"

definition journalTouchesMatter :: "AuditEvent \<Rightarrow> string \<Rightarrow> bool" where
  "journalTouchesMatter event matterId =
     (if asString (metadata_field event ''matterId'') = Some matterId then True
      else matterId \<in> set (or_else (asStringArray (metadata_field event ''matterIds'')) []))"

definition financialCommandJournalEntry :: "AuditEvent \<Rightarrow> FinancialCommandJournalEntry option" where
  "financialCommandJournalEntry event =
     (case map_get financialCommandJournalDefinitions (aud_action event) of
        None \<Rightarrow> None
      | Some (family, decision) \<Rightarrow> Some
         \<lparr>jent_auditEventId = aud_id event, jent_actorId = aud_actorId event, jent_occurredAt = aud_occurredAt event,
          jent_action = aud_action event, jent_family = family, jent_decision = decision event,
          jent_resourceType = aud_resourceType event, jent_resourceId = aud_resourceId event,
          jent_matterId = asString (metadata_field event ''matterId''),
          jent_matterIds = asStringArray (metadata_field event ''matterIds''),
          jent_accountId = asString (metadata_field event ''accountId''),
          jent_accountIds = asStringArray (metadata_field event ''accountIds''),
          jent_invoiceId = asString (metadata_field event ''invoiceId''),
          jent_transactionId = asString (metadata_field event ''transactionId''),
          jent_trustTransferRequestId = asString (metadata_field event ''trustTransferRequestId''),
          jent_paymentId = asString (metadata_field event ''paymentId''),
          jent_statementRowId = asString (metadata_field event ''statementRowId''),
          jent_status = asString (metadata_field event ''status''),
          jent_previousStatus = asString (metadata_field event ''previousStatus''),
          jent_amountCents = asNumber (metadata_field event ''amountCents''),
          jent_totalCents = asNumber (metadata_field event ''totalCents''),
          jent_balanceDueCents = asNumber (metadata_field event ''balanceDueCents''),
          jent_allocationCount = asNumber (metadata_field event ''allocationCount''),
          jent_entryCount = asNumber (metadata_field event ''entryCount''),
          jent_statementRowCount = asNumber (metadata_field event ''statementRowCount''),
          jent_matchedStatementRowCount = asNumber (metadata_field event ''matchedStatementRowCount''),
          jent_unmatchedStatementRowCount = asNumber (metadata_field event ''unmatchedStatementRowCount''),
          jent_varianceCents = asNumber (metadata_field event ''varianceCents''),
          jent_evidencePresent = asBoolean (metadata_field event ''evidencePresent'')\<rparr>)"

subsection \<open>The journal\<close>

definition emptyFamilyCounts :: "(FinancialCommandJournalFamily \<times> int) list" where
  "emptyFamilyCounts = [(Fam_trust_transfer, 0), (Fam_trust_transaction, 0), (Fam_invoice_approval, 0), (Fam_reconciliation, 0)]"

definition tally :: "('a \<Rightarrow> 'k) \<Rightarrow> ('k \<times> int) list \<Rightarrow> 'a list \<Rightarrow> ('k \<times> int) list" where
  "tally f counts xs = foldl (\<lambda>m x. map_put m (f x) (or_else (map_get m (f x)) 0 + 1)) counts xs"

definition journalOrder ::
  "(string \<Rightarrow> string \<Rightarrow> int) \<Rightarrow> FinancialCommandJournalEntry \<Rightarrow> FinancialCommandJournalEntry \<Rightarrow> int" where
  "journalOrder collate left right =
     (case (date_parse (jent_occurredAt left), date_parse (jent_occurredAt right)) of
        (Some a, Some b) \<Rightarrow> if b - a \<noteq> 0 then b - a else collate (jent_auditEventId right) (jent_auditEventId left)
      | _ \<Rightarrow> collate (jent_auditEventId right) (jent_auditEventId left))"

definition buildFinancialCommandJournal ::
  "(string \<Rightarrow> string \<Rightarrow> int) \<Rightarrow> AuditEvent list \<times> bool \<Rightarrow> string option \<Rightarrow> FinancialCommandJournal" where
  "buildFinancialCommandJournal collate audit matterId =
     (let entries = js_sort (journalOrder collate) (List.map_filter financialCommandJournalEntry
            (filter (\<lambda>event. \<not> truthy matterId \<or> journalTouchesMatter event (or_else matterId [])) (fst audit)))
      in \<lparr>jour_matterId = (if truthy matterId then matterId else None), jour_chainValid = snd audit,
          jour_reviewOnly = True, jour_entries = entries,
          jour_summary = \<lparr>jsum_total = int (length entries),
            jsum_byFamily = tally jent_family emptyFamilyCounts entries,
            jsum_byDecision = tally jent_decision [] entries\<rparr>\<rparr>)"

subsection \<open>The journal is the log\<close>

lemma map_get_tally: "or_else (map_get (tally f m xs) k) 0 = or_else (map_get m k) 0 + count_where (\<lambda>x. f x = k) xs"
  by (induction xs arbitrary: m) (auto simp: tally_def)

lemma sum_map_put: "distinct (map fst m) \<Longrightarrow>
   sum_by snd (map_put m k (or_else (map_get m k) 0 + 1)) = sum_by snd m + (1 :: int)"
  by (induction m) (auto simp: map_get_None [symmetric])

lemma sum_tally: "distinct (map fst m) \<Longrightarrow> sum_by snd (tally f m xs) = sum_by snd m + int (length xs)"
proof (induction xs arbitrary: m)
  case (Cons x xs)
  then show ?case
    using sum_map_put [of m "f x"] Cons.IH [of "map_put m (f x) (or_else (map_get m (f x)) 0 + 1)"]
    by (simp add: tally_def distinct_keys_map_put)
qed (simp add: tally_def)

definition is_command :: "AuditEvent \<Rightarrow> bool" where
  "is_command event \<longleftrightarrow> aud_action event \<in> set financialCommandJournalActions"

lemma entry_of_command: "financialCommandJournalEntry event \<noteq> None \<longleftrightarrow> is_command event"
proof -
  have "map_get financialCommandJournalDefinitions (aud_action event) \<noteq> None \<longleftrightarrow> is_command event"
    by (simp add: map_get_None is_command_def financialCommandJournalActions_def)
  then show ?thesis by (auto simp: financialCommandJournalEntry_def split: option.splits)
qed

lemma entry_fields:
  "financialCommandJournalEntry event = Some e \<Longrightarrow> jent_auditEventId e = aud_id event \<and> jent_actorId e = aud_actorId event
     \<and> jent_action e = aud_action event \<and> jent_resourceId e = aud_resourceId event \<and> jent_occurredAt e = aud_occurredAt event"
  by (auto simp: financialCommandJournalEntry_def split: option.splits)

lemma map_filter_entries:
  "map jent_auditEventId (List.map_filter financialCommandJournalEntry events) = map aud_id (filter is_command events)"
proof (induction events)
  case (Cons event events)
  then show ?case
    using entry_of_command [of event] entry_fields [of event]
    by (cases "financialCommandJournalEntry event") (auto simp: map_filter_simps)
qed (simp add: map_filter_simps)

text \<open>
  The journal is the part of the log that records financial commands: its entries stand for exactly the
  events with a listed action (that concern the matter, when one is asked for), it passes on whether the chain is
  valid, every count is the number of entries of its family or decision, and the counts add up to the total.
\<close>

theorem journal_is_the_command_log:
  fixes collate audit matterId
  defines "j \<equiv> buildFinancialCommandJournal collate audit matterId"
  shows "mset (map jent_auditEventId (jour_entries j)) =
      mset (map aud_id (filter (\<lambda>e. is_command e \<and> (truthy matterId \<longrightarrow> journalTouchesMatter e (or_else matterId []))) (fst audit)))
    \<and> jour_chainValid j = snd audit
    \<and> (\<forall>family. map_get (jsum_byFamily (jour_summary j)) family = Some (count_where (\<lambda>e. jent_family e = family) (jour_entries j)))
    \<and> (\<forall>decision. or_else (map_get (jsum_byDecision (jour_summary j)) decision) 0 =
         count_where (\<lambda>e. jent_decision e = decision) (jour_entries j))
    \<and> sum_by snd (jsum_byFamily (jour_summary j)) = jsum_total (jour_summary j)
    \<and> sum_by snd (jsum_byDecision (jour_summary j)) = jsum_total (jour_summary j)"
proof -
  let ?events = "filter (\<lambda>event. \<not> truthy matterId \<or> journalTouchesMatter event (or_else matterId [])) (fst audit)"
  have entries: "jour_entries j = js_sort (journalOrder collate) (List.map_filter financialCommandJournalEntry ?events)"
    by (simp add: j_def buildFinancialCommandJournal_def Let_def)
  have summary: "jour_summary j = \<lparr>jsum_total = int (length (jour_entries j)),
      jsum_byFamily = tally jent_family emptyFamilyCounts (jour_entries j),
      jsum_byDecision = tally jent_decision [] (jour_entries j)\<rparr>" "jour_chainValid j = snd audit"
    by (simp_all add: j_def buildFinancialCommandJournal_def Let_def)
  have "filter is_command ?events =
      filter (\<lambda>e. is_command e \<and> (truthy matterId \<longrightarrow> journalTouchesMatter e (or_else matterId []))) (fst audit)"
    by (auto intro: filter_cong)
  moreover have "mset (map jent_auditEventId (jour_entries j)) = mset (map aud_id (filter is_command ?events))"
    unfolding entries by (simp only: mset_map mset_js_sort) (simp only: map_filter_entries flip: mset_map)
  ultimately have "mset (map jent_auditEventId (jour_entries j)) = mset (map aud_id
      (filter (\<lambda>e. is_command e \<and> (truthy matterId \<longrightarrow> journalTouchesMatter e (or_else matterId []))) (fst audit)))"
    by (simp only:)
  moreover have "map_get (tally jent_family emptyFamilyCounts xs) family = Some (count_where (\<lambda>e. jent_family e = family) xs)"
    for xs :: "FinancialCommandJournalEntry list" and family
  proof -
    have "map_get (tally f m xs) k \<noteq> None" if "map_get m k \<noteq> None" for f :: "FinancialCommandJournalEntry \<Rightarrow> FinancialCommandJournalFamily" and m k
      using that unfolding tally_def by (induction xs arbitrary: m) auto
    then have "map_get emptyFamilyCounts family \<noteq> None \<Longrightarrow> map_get (tally jent_family emptyFamilyCounts xs) family \<noteq> None" by blast
    moreover have "map_get emptyFamilyCounts family = Some 0"
      by (cases family) (simp_all add: emptyFamilyCounts_def)
    ultimately show ?thesis
      using map_get_tally [of jent_family emptyFamilyCounts xs family]
      by (cases "map_get (tally jent_family emptyFamilyCounts xs) family") auto
  qed
  moreover have "or_else (map_get (tally jent_decision [] xs) decision) 0 = count_where (\<lambda>e. jent_decision e = decision) xs"
    for xs :: "FinancialCommandJournalEntry list" and decision
    by (simp add: map_get_tally)
  moreover have "sum_by snd (tally jent_family emptyFamilyCounts xs) = int (length xs)"
    "sum_by snd (tally jent_decision [] xs) = int (length xs)" for xs :: "FinancialCommandJournalEntry list"
    by (simp_all add: sum_tally emptyFamilyCounts_def)
  ultimately show ?thesis using summary by simp
qed

theorem journal_is_the_command_log_witness:
  "length (jour_entries (buildFinancialCommandJournal (\<lambda>_ _. 0) ([(example_event ''a'' ''2026-01-03'' Wf_failed)\<lparr>aud_action := ''invoice.approved''\<rparr>], True) None)) = 1"
proof -
  let ?e = "(example_event ''a'' ''2026-01-03'' Wf_failed)\<lparr>aud_action := ''invoice.approved''\<rparr>"
  let ?j = "buildFinancialCommandJournal (\<lambda>_ _. 0) ([?e], True) None"
  have "is_command ?e" by code_simp
  then have "mset (map jent_auditEventId (jour_entries ?j)) = mset [aud_id ?e]"
    using journal_is_the_command_log [where collate = "\<lambda>_ _. 0" and audit = "([?e], True)" and matterId = None] by simp
  then have "length (map jent_auditEventId (jour_entries ?j)) = length [aud_id ?e]" by (rule mset_eq_length)
  then show ?thesis by simp
qed

end
