(* ===== verification/Ledger_Review_Api.thy ===== *)
theory Ledger_Review_Api
  imports Ledger_Api Ledger_Review Financial_Journal
begin

section \<open>The review routes of the ledger\<close>

text \<open>
  The approval route of apps/api/src/routes/ledger/transactions.ts and the writing routes of
  reconciliations.ts, with their audit events, on the state of the posting routes extended by the
  review records. The theorems follow the ledger, the review records, the audit log and the journal
  of financial commands through any sequence of calls of the ten writing routes.
\<close>

subsection \<open>State and requests\<close>

record LedgerReviewApi = LedgerApi +
  lapi_reviews :: MemoryLedgerReviewStore

record LedgerApprovalBody =
  lab_decision :: LedgerApprovalDecision
  lab_notes :: "string option"
  lab_decidedAt :: "string option"

record ReconciliationRowBody =
  rrb_id :: string
  rrb_postedAt :: string
  rrb_description :: string
  rrb_amountCents :: int
  rrb_reference :: "string option"
  rrb_matchedLedgerEntryIds :: "string list"
  rrb_reviewDecision :: LedgerStatementRowReviewDecision
  rrb_reviewedAt :: "string option"
  rrb_notes :: "string option"

record LedgerReconciliationBody =
  rcb_accountId :: string
  rcb_statementPeriodStart :: string
  rcb_statementPeriodEnd :: string
  rcb_beginningBalanceCents :: int
  rcb_endingBalanceCents :: int
  rcb_expectedBalanceCents :: int
  rcb_actualBalanceCents :: int
  rcb_status :: "LedgerReconciliationStatus option"
  rcb_statementRows :: "ReconciliationRowBody list"
  rcb_varianceExplanation :: "string option"
  rcb_evidence :: "(string \<times> js_value) list"

record ImportBatchBody =
  ibb_accountId :: string
  ibb_sourceLabel :: string
  ibb_checksumSha256 :: string
  ibb_importedStatementRowCount :: int
  ibb_duplicateStatementRowCount :: int
  ibb_status :: "LedgerStatementImportBatchStatus option"
  ibb_matchingProfileId :: "string option"

record MatchRuleProfileBody =
  mrb_accountId :: string
  mrb_name :: string
  mrb_referenceStrategy :: LedgerStatementMatchReferenceStrategy
  mrb_descriptionStrategy :: LedgerStatementMatchDescriptionStrategy
  mrb_dateWindowDays :: int
  mrb_amountToleranceCents :: int
  mrb_varianceCategories :: "LedgerReconciliationExceptionVarianceDecision list"
  mrb_reviewerExplanationRequired :: "bool option"

record AccountingProfileBody =
  afb_accountId :: string
  afb_boundaryPosture :: LedgerAccountingBoundaryPosture
  afb_protected :: bool
  afb_reason :: "string option"
  afb_reviewCadence :: LedgerAccountingProtectedFundsReviewCadence
  afb_feedStatus :: LedgerAccountingBankFeedImportStatus
  afb_sourceLabel :: "string option"
  afb_lastImportedAt :: "string option"
  afb_vendorTracking :: LedgerAccountingDimensionPosture
  afb_expenseCategoryTracking :: LedgerAccountingDimensionPosture
  afb_notes :: "string option"

record ExceptionResolutionBody =
  erb_accountId :: string
  erb_statementRow :: LedgerReconciliationExceptionResolutionStatementRowInput
  erb_varianceDecision :: LedgerReconciliationExceptionVarianceDecision
  erb_resolutionNote :: string

subsection \<open>Names\<close>

primrec approval_decision_name :: "LedgerApprovalDecision \<Rightarrow> string" where
  "approval_decision_name Approval_approved = ''approved''"
| "approval_decision_name Approval_rejected = ''rejected''"

primrec recon_status_name :: "LedgerReconciliationStatus \<Rightarrow> string" where
  "recon_status_name Recon_draft = ''draft''"
| "recon_status_name Recon_matched = ''matched''"
| "recon_status_name Recon_exception = ''exception''"
| "recon_status_name Recon_reviewed = ''reviewed''"

primrec variance_decision_name :: "LedgerReconciliationExceptionVarianceDecision \<Rightarrow> string" where
  "variance_decision_name Variance_ledger_entry_expected = ''ledger_entry_expected''"
| "variance_decision_name Variance_statement_duplicate = ''statement_duplicate''"
| "variance_decision_name Variance_statement_source_issue = ''statement_source_issue''"
| "variance_decision_name Variance_operational_variance_acknowledged = ''operational_variance_acknowledged''"
| "variance_decision_name Variance_needs_follow_up = ''needs_follow_up''"

primrec batch_status_name :: "LedgerStatementImportBatchStatus \<Rightarrow> string" where
  "batch_status_name Batch_previewed = ''previewed''"
| "batch_status_name Batch_review_ready = ''review_ready''"
| "batch_status_name Batch_discarded = ''discarded''"

primrec reference_strategy_name :: "LedgerStatementMatchReferenceStrategy \<Rightarrow> string" where
  "reference_strategy_name RefStrategy_strict_reference = ''strict_reference''"
| "reference_strategy_name RefStrategy_normalized_reference = ''normalized_reference''"
| "reference_strategy_name RefStrategy_date_amount_reference = ''date_amount_reference''"
| "reference_strategy_name RefStrategy_amount_only_review = ''amount_only_review''"

primrec description_strategy_name :: "LedgerStatementMatchDescriptionStrategy \<Rightarrow> string" where
  "description_strategy_name DescStrategy_exact = ''exact''"
| "description_strategy_name DescStrategy_normalized_contains = ''normalized_contains''"
| "description_strategy_name DescStrategy_review_required = ''review_required''"

primrec account_type_name :: "LedgerAccountType \<Rightarrow> string" where
  "account_type_name trust_asset = ''trust_asset''"
| "account_type_name client_liability = ''client_liability''"
| "account_type_name operating_revenue = ''operating_revenue''"
| "account_type_name expense = ''expense''"

primrec boundary_posture_name :: "LedgerAccountingBoundaryPosture \<Rightarrow> string" where
  "boundary_posture_name Boundary_trust_only = ''trust_only''"
| "boundary_posture_name Boundary_operating_only = ''operating_only''"
| "boundary_posture_name Boundary_expense_only = ''expense_only''"
| "boundary_posture_name Boundary_review_required = ''review_required''"

primrec feed_status_name :: "LedgerAccountingBankFeedImportStatus \<Rightarrow> string" where
  "feed_status_name Feed_not_configured = ''not_configured''"
| "feed_status_name Feed_metadata_only = ''metadata_only''"
| "feed_status_name Feed_review_ready = ''review_ready''"

primrec dimension_posture_name :: "LedgerAccountingDimensionPosture \<Rightarrow> string" where
  "dimension_posture_name Dim_not_applicable = ''not_applicable''"
| "dimension_posture_name Dim_optional = ''optional''"
| "dimension_posture_name Dim_required = ''required''"

subsection \<open>Approving a posted transaction\<close>

definition ledgerApprovalBodySchema :: "(string \<Rightarrow> bool) \<Rightarrow> LedgerApprovalBody \<Rightarrow> bool" where
  "ledgerApprovalBodySchema datetime body =
     (optional_ok min_one (lab_notes body) \<and> optional_ok datetime (lab_decidedAt body))"

definition assertLedgerTransactionApprovalAccess :: "LedgerContext \<Rightarrow> 's LedgerApi_scheme \<Rightarrow> string \<Rightarrow> string list result" where
  "assertLedgerTransactionApprovalAccess ctx api transactionId =
     (let transactionEntries = filter (\<lambda>entry. entry_transactionId entry = transactionId)
            (snap_entries (getMemoryLedger (lapi_ledger api) (lctx_firmId ctx) None));
          matterIds = js_set (map entry_matterId transactionEntries)
      in if transactionEntries = [] then throw (''Unknown ledger transaction '' @ transactionId)
         else bind_result (for_each (\<lambda>matterId. assertLedgerAccess ctx Act_approve (Some matterId)) matterIds) (\<lambda>_. Inr matterIds))"

definition approval_of :: "LedgerContext \<Rightarrow> string \<Rightarrow> LedgerApprovalBody \<Rightarrow> LedgerTransactionApprovalRecord" where
  "approval_of ctx transactionId body =
     \<lparr>appr_id = lctx_uuid ctx, appr_firmId = lctx_firmId ctx, appr_transactionId = transactionId,
      appr_decidedByUserId = user_id (lctx_user ctx), appr_decision = lab_decision body,
      appr_decidedAt = or_else (lab_decidedAt body) (lctx_now ctx), appr_notes = lab_notes body\<rparr>"

definition approvalMetadata :: "string list \<Rightarrow> LedgerTransactionApprovalRecord \<Rightarrow> (string \<times> js_value) list" where
  "approvalMetadata matterIds created =
     [(''transactionId'', JStr (appr_transactionId created)), (''matterIds'', strings_value matterIds),
      (''decision'', JStr (approval_decision_name (appr_decision created)))]"

definition approveTransactionRoute ::
  "(string \<Rightarrow> string) \<Rightarrow> (string \<Rightarrow> bool) \<Rightarrow> LedgerContext \<Rightarrow> string \<Rightarrow> LedgerApprovalBody \<Rightarrow> LedgerReviewApi
   \<Rightarrow> LedgerTransactionApprovalRecord result \<times> LedgerReviewApi" where
  "approveTransactionRoute sha256 datetime ctx transactionId body api =
     guarded (parseRequestPart (min_one transactionId)) api (\<lambda>_.
     guarded (assertLedgerTransactionApprovalAccess ctx api transactionId) api (\<lambda>matterIds.
     guarded (parseRequestPart (ledgerApprovalBodySchema datetime body)) api (\<lambda>_.
     case createMemoryLedgerTransactionApproval (lapi_ledger api) (lapi_reviews api) (approval_of ctx transactionId body) of
       (Inl e, reviews) \<Rightarrow> (Inl e, api\<lparr>lapi_reviews := reviews\<rparr>)
     | (Inr created, reviews) \<Rightarrow>
         (Inr created, api\<lparr>lapi_reviews := reviews,
            lapi_audit := appendLedgerAuditEvent sha256 ctx (lctx_auditId ctx) ''ledger.transaction_approval.decided''
              ''ledger_transaction_approval'' (appr_id created) None (approvalMetadata matterIds created) (lapi_audit api)\<rparr>))))"

subsection \<open>Statement imports\<close>

definition assertTrustAssetAccount :: "LedgerContext \<Rightarrow> 's LedgerApi_scheme \<Rightarrow> string \<Rightarrow> string \<Rightarrow> unit result" where
  "assertTrustAssetAccount ctx api accountId message =
     throw_if (\<not> is_trust_asset (List.find (\<lambda>candidate. acct_id candidate = accountId)
        (snap_accounts (getMemoryLedger (lapi_ledger api) (lctx_firmId ctx) None)))) message"

definition getLedgerAccount :: "LedgerContext \<Rightarrow> 's LedgerApi_scheme \<Rightarrow> string \<Rightarrow> LedgerAccount result" where
  "getLedgerAccount ctx api accountId =
     (case List.find (\<lambda>candidate. acct_id candidate = accountId)
             (snap_accounts (getMemoryLedger (lapi_ledger api) (lctx_firmId ctx) None)) of
        None \<Rightarrow> throw (''Unknown ledger account '' @ accountId) | Some account \<Rightarrow> Inr account)"

definition statementRowSchema :: "(string \<Rightarrow> bool) \<Rightarrow> LedgerStatementImportPreviewRowInput \<Rightarrow> bool" where
  "statementRowSchema datetime row =
     (min_one (srow_id row) \<and> datetime (srow_postedAt row) \<and> min_one (srow_description row)
      \<and> optional_ok min_one (srow_reference row))"

definition previewStatementImportRoute ::
  "(string \<Rightarrow> bool) \<Rightarrow> LedgerContext \<Rightarrow> string \<Rightarrow> LedgerStatementImportPreviewRowInput list \<Rightarrow> 's LedgerApi_scheme
   \<Rightarrow> LedgerStatementImportPreview result" where
  "previewStatementImportRoute datetime ctx accountId statementRows api =
     bind_result (assertLedgerAccess ctx Act_approve None) (\<lambda>_.
     bind_result (parseRequestPart (min_one accountId \<and> list_all (statementRowSchema datetime) statementRows
                    \<and> statementRows \<noteq> [])) (\<lambda>_.
     bind_result (assertTrustAssetAccount ctx api accountId
                    ''Statement import preview requires an existing trust asset account'') (\<lambda>_.
     Inr (previewLedgerStatementImport accountId statementRows
            (snap_entries (getMemoryLedger (lapi_ledger api) (lctx_firmId ctx) None))))))"

definition importBatchBodySchema :: "ImportBatchBody \<Rightarrow> bool" where
  "importBatchBodySchema body =
     (min_one (ibb_accountId body) \<and> min_one (ibb_sourceLabel body) \<and> is_sha256_hex (ibb_checksumSha256 body)
      \<and> ibb_importedStatementRowCount body > 0 \<and> ibb_duplicateStatementRowCount body \<ge> 0
      \<and> optional_ok min_one (ibb_matchingProfileId body))"

definition batch_of :: "LedgerContext \<Rightarrow> ImportBatchBody \<Rightarrow> LedgerStatementImportBatchRecord" where
  "batch_of ctx body =
     \<lparr>batch_id = lctx_uuid ctx, batch_firmId = lctx_firmId ctx, batch_accountId = ibb_accountId body,
      batch_sourceLabel = trim (ibb_sourceLabel body), batch_checksumSha256 = ibb_checksumSha256 body,
      batch_importedStatementRowCount = ibb_importedStatementRowCount body,
      batch_duplicateStatementRowCount = ibb_duplicateStatementRowCount body,
      batch_status = or_else (ibb_status body) Batch_previewed,
      batch_matchingProfileId = map_option trim (ibb_matchingProfileId body),
      batch_createdByUserId = user_id (lctx_user ctx), batch_createdAt = lctx_now ctx\<rparr>"

definition batchMetadata :: "LedgerStatementImportBatchRecord \<Rightarrow> (string \<times> js_value) list" where
  "batchMetadata created =
     [(''accountId'', JStr (batch_accountId created)),
      (''importedStatementRowCount'', JNum (batch_importedStatementRowCount created)),
      (''duplicateStatementRowCount'', JNum (batch_duplicateStatementRowCount created)),
      (''status'', JStr (batch_status_name (batch_status created))),
      (''sourceLabelPresent'', JBool (trim (batch_sourceLabel created) \<noteq> [])),
      (''checksumPresent'', JBool (batch_checksumSha256 created \<noteq> [])),
      (''matchingProfilePresent'', JBool (truthy (batch_matchingProfileId created)))]"

definition recordImportBatchRoute ::
  "(string \<Rightarrow> string) \<Rightarrow> LedgerContext \<Rightarrow> ImportBatchBody \<Rightarrow> LedgerReviewApi
   \<Rightarrow> LedgerStatementImportBatchRecord result \<times> LedgerReviewApi" where
  "recordImportBatchRoute sha256 ctx body api =
     guarded (assertLedgerAccess ctx Act_approve None) api (\<lambda>_.
     guarded (parseRequestPart (importBatchBodySchema body)) api (\<lambda>_.
     guarded (assertTrustAssetAccount ctx api (ibb_accountId body)
                ''Statement import batches require an existing trust asset account'') api (\<lambda>_.
     case createMemoryLedgerStatementImportBatch (lapi_ledger api) (lapi_reviews api) (batch_of ctx body) of
       (Inl e, reviews) \<Rightarrow> (Inl e, api\<lparr>lapi_reviews := reviews\<rparr>)
     | (Inr created, reviews) \<Rightarrow>
         (Inr created, api\<lparr>lapi_reviews := reviews,
            lapi_audit := appendLedgerAuditEvent sha256 ctx (lctx_auditId ctx) ''ledger.statement_import_batch.recorded''
              ''ledger_statement_import_batch'' (batch_id created) None (batchMetadata created) (lapi_audit api)\<rparr>))))"

subsection \<open>Profiles\<close>

definition matchRuleProfileBodySchema :: "MatchRuleProfileBody \<Rightarrow> bool" where
  "matchRuleProfileBodySchema body =
     (min_one (mrb_accountId body) \<and> min_one (mrb_name body)
      \<and> 0 \<le> mrb_dateWindowDays body \<and> mrb_dateWindowDays body \<le> 30
      \<and> 0 \<le> mrb_amountToleranceCents body \<and> mrb_amountToleranceCents body \<le> 100000
      \<and> length (mrb_varianceCategories body) \<ge> 1)"

definition rule_of :: "LedgerContext \<Rightarrow> MatchRuleProfileBody \<Rightarrow> LedgerStatementMatchRuleProfileRecord" where
  "rule_of ctx body =
     \<lparr>rule_id = lctx_uuid ctx, rule_firmId = lctx_firmId ctx, rule_accountId = mrb_accountId body,
      rule_name = trim (mrb_name body), rule_referenceStrategy = mrb_referenceStrategy body,
      rule_descriptionStrategy = mrb_descriptionStrategy body, rule_dateWindowDays = mrb_dateWindowDays body,
      rule_amountToleranceCents = mrb_amountToleranceCents body, rule_varianceCategories = mrb_varianceCategories body,
      rule_reviewerExplanationRequired = or_else (mrb_reviewerExplanationRequired body) True, rule_reviewOnly = True,
      rule_createdByUserId = user_id (lctx_user ctx), rule_createdAt = lctx_now ctx, rule_updatedAt = lctx_now ctx\<rparr>"

definition ruleMetadata :: "LedgerStatementMatchRuleProfileRecord \<Rightarrow> (string \<times> js_value) list" where
  "ruleMetadata created =
     [(''accountId'', JStr (rule_accountId created)),
      (''referenceStrategy'', JStr (reference_strategy_name (rule_referenceStrategy created))),
      (''descriptionStrategy'', JStr (description_strategy_name (rule_descriptionStrategy created))),
      (''dateWindowDays'', JNum (rule_dateWindowDays created)),
      (''amountToleranceCents'', JNum (rule_amountToleranceCents created)),
      (''varianceCategoryCount'', JNum (int (length (rule_varianceCategories created)))),
      (''reviewerExplanationRequired'', JBool (rule_reviewerExplanationRequired created)),
      (''reviewOnly'', JBool (rule_reviewOnly created))]"

definition recordMatchRuleProfileRoute ::
  "(string \<Rightarrow> string) \<Rightarrow> LedgerContext \<Rightarrow> MatchRuleProfileBody \<Rightarrow> LedgerReviewApi
   \<Rightarrow> LedgerStatementMatchRuleProfileRecord result \<times> LedgerReviewApi" where
  "recordMatchRuleProfileRoute sha256 ctx body api =
     guarded (assertLedgerAccess ctx Act_approve None) api (\<lambda>_.
     guarded (parseRequestPart (matchRuleProfileBodySchema body)) api (\<lambda>_.
     guarded (assertTrustAssetAccount ctx api (mrb_accountId body)
                ''Statement match-rule profiles require an existing trust asset account'') api (\<lambda>_.
     case createMemoryLedgerStatementMatchRuleProfile (lapi_ledger api) (lapi_reviews api) (rule_of ctx body) of
       (Inl e, reviews) \<Rightarrow> (Inl e, api\<lparr>lapi_reviews := reviews\<rparr>)
     | (Inr created, reviews) \<Rightarrow>
         (Inr created, api\<lparr>lapi_reviews := reviews,
            lapi_audit := appendLedgerAuditEvent sha256 ctx (lctx_auditId ctx) ''ledger.statement_match_rule_profile.recorded''
              ''ledger_statement_match_rule_profile'' (rule_id created) None (ruleMetadata created) (lapi_audit api)\<rparr>))))"

definition accountingProfileBodySchema :: "(string \<Rightarrow> bool) \<Rightarrow> AccountingProfileBody \<Rightarrow> bool" where
  "accountingProfileBodySchema datetime body =
     (min_one (afb_accountId body) \<and> optional_ok min_one (afb_reason body) \<and> optional_ok min_one (afb_sourceLabel body)
      \<and> optional_ok datetime (afb_lastImportedAt body) \<and> optional_ok min_one (afb_notes body))"

definition profile_of :: "LedgerContext \<Rightarrow> LedgerAccount \<Rightarrow> AccountingProfileBody \<Rightarrow> LedgerAccountingReviewProfileRecord" where
  "profile_of ctx account body =
     \<lparr>prof_id = lctx_uuid ctx, prof_firmId = lctx_firmId ctx, prof_accountId = afb_accountId body,
      prof_accountType = acct_type account, prof_boundaryPosture = afb_boundaryPosture body,
      prof_protectedFunds = \<lparr>funds_protected = afb_protected body, funds_reason = map_option trim (afb_reason body),
        funds_reviewCadence = afb_reviewCadence body\<rparr>,
      prof_bankFeedImport = \<lparr>feed_status = afb_feedStatus body, feed_sourceLabel = map_option trim (afb_sourceLabel body),
        feed_lastImportedAt = afb_lastImportedAt body, feed_automaticMatching = False\<rparr>,
      prof_dimensions = \<lparr>dims_vendorTracking = afb_vendorTracking body,
        dims_expenseCategoryTracking = afb_expenseCategoryTracking body, dims_clientMatterTracking = ''required'',
        dims_notes = map_option trim (afb_notes body)\<rparr>,
      prof_reviewOnly = True, prof_createdByUserId = user_id (lctx_user ctx), prof_createdAt = lctx_now ctx,
      prof_updatedAt = lctx_now ctx\<rparr>"

definition profileMetadata :: "LedgerAccountingReviewProfileRecord \<Rightarrow> (string \<times> js_value) list" where
  "profileMetadata created =
     [(''accountId'', JStr (prof_accountId created)), (''accountType'', JStr (account_type_name (prof_accountType created))),
      (''boundaryPosture'', JStr (boundary_posture_name (prof_boundaryPosture created))),
      (''protectedFunds'', JBool (funds_protected (prof_protectedFunds created))),
      (''bankFeedImportStatus'', JStr (feed_status_name (feed_status (prof_bankFeedImport created)))),
      (''bankFeedSourceLabelPresent'', JBool (truthy (feed_sourceLabel (prof_bankFeedImport created)))),
      (''automaticMatching'', JBool (feed_automaticMatching (prof_bankFeedImport created))),
      (''vendorTracking'', JStr (dimension_posture_name (dims_vendorTracking (prof_dimensions created)))),
      (''expenseCategoryTracking'', JStr (dimension_posture_name (dims_expenseCategoryTracking (prof_dimensions created)))),
      (''clientMatterTracking'', JStr (dims_clientMatterTracking (prof_dimensions created))),
      (''reviewOnly'', JBool (prof_reviewOnly created))]"

definition recordAccountingProfileRoute ::
  "(string \<Rightarrow> string) \<Rightarrow> (string \<Rightarrow> bool) \<Rightarrow> LedgerContext \<Rightarrow> AccountingProfileBody \<Rightarrow> LedgerReviewApi
   \<Rightarrow> LedgerAccountingReviewProfileRecord result \<times> LedgerReviewApi" where
  "recordAccountingProfileRoute sha256 datetime ctx body api =
     guarded (assertLedgerAccess ctx Act_approve None) api (\<lambda>_.
     guarded (parseRequestPart (accountingProfileBodySchema datetime body)) api (\<lambda>_.
     guarded (getLedgerAccount ctx api (afb_accountId body)) api (\<lambda>account.
     case createMemoryLedgerAccountingReviewProfile (lapi_ledger api) (lapi_reviews api) (profile_of ctx account body) of
       (Inl e, reviews) \<Rightarrow> (Inl e, api\<lparr>lapi_reviews := reviews\<rparr>)
     | (Inr created, reviews) \<Rightarrow>
         (Inr created, api\<lparr>lapi_reviews := reviews,
            lapi_audit := appendLedgerAuditEvent sha256 ctx (lctx_auditId ctx) ''ledger.accounting_review_profile.recorded''
              ''ledger_accounting_review_profile'' (prof_id created) None (profileMetadata created) (lapi_audit api)\<rparr>))))"

subsection \<open>Exceptions\<close>

definition exceptionResolutionBodySchema :: "(string \<Rightarrow> bool) \<Rightarrow> ExceptionResolutionBody \<Rightarrow> bool" where
  "exceptionResolutionBodySchema datetime body =
     (let row = erb_statementRow body in
      min_one (erb_accountId body) \<and> min_one (srow_id row) \<and> datetime (srow_postedAt row) \<and> min_one (srow_description row)
      \<and> optional_ok min_one (srow_reference row) \<and> optional_ok min_one (srow_duplicateOfRowId row)
      \<and> srow_reviewDecision row = Row_unmatched \<and> min_one (erb_resolutionNote body))"

definition resolution_of ::
  "LedgerContext \<Rightarrow> ExceptionResolutionBody \<Rightarrow> LedgerReconciliationExceptionResolutionStatementRow
   \<Rightarrow> LedgerReconciliationExceptionResolutionRecord" where
  "resolution_of ctx body row =
     \<lparr>resol_id = lctx_uuid ctx, resol_firmId = lctx_firmId ctx, resol_accountId = erb_accountId body,
      resol_statementRow = row, resol_varianceDecision = erb_varianceDecision body,
      resol_resolutionNote = erb_resolutionNote body, resol_recordedByUserId = user_id (lctx_user ctx),
      resol_recordedAt = lctx_now ctx\<rparr>"

definition resolutionMetadata :: "LedgerReconciliationExceptionResolutionRecord \<Rightarrow> (string \<times> js_value) list" where
  "resolutionMetadata created =
     [(''accountId'', JStr (resol_accountId created)), (''statementRowId'', JStr (rrow_id (resol_statementRow created))),
      (''varianceDecision'', JStr (variance_decision_name (resol_varianceDecision created))),
      (''resolutionNotePresent'', JBool (trim (resol_resolutionNote created) \<noteq> []))]"

definition recordExceptionResolutionRoute ::
  "(string \<Rightarrow> string) \<Rightarrow> (string \<Rightarrow> bool) \<Rightarrow> LedgerContext \<Rightarrow> ExceptionResolutionBody \<Rightarrow> LedgerReviewApi
   \<Rightarrow> LedgerReconciliationExceptionResolutionRecord result \<times> LedgerReviewApi" where
  "recordExceptionResolutionRoute sha256 datetime ctx body api =
     guarded (assertLedgerAccess ctx Act_approve None) api (\<lambda>_.
     guarded (parseRequestPart (exceptionResolutionBodySchema datetime body)) api (\<lambda>_.
     guarded (assertTrustAssetAccount ctx api (erb_accountId body)
                ''Reconciliation exception resolutions require an existing trust asset account'') api (\<lambda>_.
     guarded (buildLedgerReconciliationExceptionResolutionStatementRow (erb_statementRow body)) api (\<lambda>row.
     case createMemoryLedgerReconciliationExceptionResolution (lapi_ledger api) (lapi_reviews api) (resolution_of ctx body row) of
       (Inl e, reviews) \<Rightarrow> (Inl e, api\<lparr>lapi_reviews := reviews\<rparr>)
     | (Inr created, reviews) \<Rightarrow>
         (Inr created, api\<lparr>lapi_reviews := reviews,
            lapi_audit := appendLedgerAuditEvent sha256 ctx (lctx_auditId ctx)
              ''ledger.reconciliation_exception_resolution.recorded'' ''ledger_reconciliation_exception_resolution''
              (resol_id created) None (resolutionMetadata created) (lapi_audit api)\<rparr>)))))"

subsection \<open>Reconciliations\<close>

definition reconciliationRowSchema :: "(string \<Rightarrow> bool) \<Rightarrow> ReconciliationRowBody \<Rightarrow> bool" where
  "reconciliationRowSchema datetime row =
     (min_one (rrb_id row) \<and> datetime (rrb_postedAt row) \<and> min_one (rrb_description row)
      \<and> optional_ok min_one (rrb_reference row) \<and> list_all min_one (rrb_matchedLedgerEntryIds row)
      \<and> optional_ok datetime (rrb_reviewedAt row) \<and> optional_ok min_one (rrb_notes row))"

definition ledgerReconciliationBodySchema :: "(string \<Rightarrow> bool) \<Rightarrow> LedgerReconciliationBody \<Rightarrow> bool" where
  "ledgerReconciliationBodySchema datetime body =
     (min_one (rcb_accountId body) \<and> datetime (rcb_statementPeriodStart body) \<and> datetime (rcb_statementPeriodEnd body)
      \<and> list_all (reconciliationRowSchema datetime) (rcb_statementRows body) \<and> length (rcb_statementRows body) \<ge> 1
      \<and> optional_ok min_one (rcb_varianceExplanation body))"

definition row_of :: "LedgerContext \<Rightarrow> ReconciliationRowBody \<Rightarrow> LedgerReconciliationStatementRow" where
  "row_of ctx row =
     \<lparr>row_id = rrb_id row, row_postedAt = rrb_postedAt row, row_description = rrb_description row,
      row_amountCents = rrb_amountCents row, row_reference = rrb_reference row,
      row_matchedLedgerEntryIds = rrb_matchedLedgerEntryIds row, row_reviewDecision = rrb_reviewDecision row,
      row_reviewedByUserId = Some (user_id (lctx_user ctx)),
      row_reviewedAt = Some (or_else (rrb_reviewedAt row) (lctx_now ctx)), row_notes = rrb_notes row\<rparr>"

definition accountLedgerEntryIds :: "LedgerContext \<Rightarrow> 's LedgerApi_scheme \<Rightarrow> string \<Rightarrow> string list" where
  "accountLedgerEntryIds ctx api accountId =
     js_set (map entry_id (filter (\<lambda>entry. entry_accountId entry = accountId)
       (snap_entries (getMemoryLedger (lapi_ledger api) (lctx_firmId ctx) None))))"

definition check_matched_rows :: "string list \<Rightarrow> LedgerReconciliationStatementRow list \<Rightarrow> unit result" where
  "check_matched_rows entryIds rows =
     for_each (\<lambda>row. throw_if (row_reviewDecision row = Row_matched
          \<and> list_ex (\<lambda>entryId. entryId \<notin> set entryIds) (row_matchedLedgerEntryIds row))
        ''Matched statement rows must reference existing ledger entries for the reconciliation account'') rows"

definition reconciliation_of :: "LedgerContext \<Rightarrow> LedgerReconciliationBody \<Rightarrow> LedgerReconciliationRecord" where
  "reconciliation_of ctx body =
     (let statementRows = map (row_of ctx) (rcb_statementRows body);
          hasUnmatchedRows = list_ex (\<lambda>row. row_reviewDecision row = Row_unmatched) statementRows
      in \<lparr>recon_id = lctx_uuid ctx, recon_firmId = lctx_firmId ctx, recon_accountId = rcb_accountId body,
          recon_statementPeriodStart = rcb_statementPeriodStart body, recon_statementPeriodEnd = rcb_statementPeriodEnd body,
          recon_beginningBalanceCents = rcb_beginningBalanceCents body, recon_endingBalanceCents = rcb_endingBalanceCents body,
          recon_expectedBalanceCents = rcb_expectedBalanceCents body, recon_actualBalanceCents = rcb_actualBalanceCents body,
          recon_status = or_else (rcb_status body)
            (if rcb_expectedBalanceCents body = rcb_actualBalanceCents body \<and> \<not> hasUnmatchedRows
             then Recon_matched else Recon_exception),
          recon_reviewedByUserId = Some (user_id (lctx_user ctx)), recon_statementRows = statementRows,
          recon_varianceExplanation = rcb_varianceExplanation body, recon_evidence = rcb_evidence body,
          recon_createdAt = lctx_now ctx\<rparr>)"

definition reconciliationMetadata :: "LedgerReconciliationRecord \<Rightarrow> (string \<times> js_value) list" where
  "reconciliationMetadata created =
     (let reviewSummary = ledgerReconciliationReviewSummary created in
      [(''accountId'', JStr (recon_accountId created)), (''status'', JStr (recon_status_name (recon_status created))),
       (''statementRowCount'', JNum (rsum_importedStatementRowCount reviewSummary)),
       (''matchedStatementRowCount'', JNum (rsum_matchedStatementRowCount reviewSummary)),
       (''unmatchedStatementRowCount'', JNum (rsum_unmatchedStatementRowCount reviewSummary)),
       (''varianceCents'', JNum (rsum_varianceCents reviewSummary)),
       (''varianceExplanationPresent'', JBool (truthy (recon_varianceExplanation created)))])"

definition createReconciliationRoute ::
  "(string \<Rightarrow> string) \<Rightarrow> (string \<Rightarrow> bool) \<Rightarrow> LedgerContext \<Rightarrow> LedgerReconciliationBody \<Rightarrow> LedgerReviewApi
   \<Rightarrow> LedgerReconciliationRecord result \<times> LedgerReviewApi" where
  "createReconciliationRoute sha256 datetime ctx body api =
     guarded (assertLedgerAccess ctx Act_approve None) api (\<lambda>_.
     guarded (parseRequestPart (ledgerReconciliationBodySchema datetime body)) api (\<lambda>_.
     guarded (check_matched_rows (accountLedgerEntryIds ctx api (rcb_accountId body)) (map (row_of ctx) (rcb_statementRows body))) api (\<lambda>_.
     case createMemoryLedgerReconciliation (lapi_ledger api) (lapi_reviews api) (reconciliation_of ctx body) of
       (Inl e, reviews) \<Rightarrow> (Inl e, api\<lparr>lapi_reviews := reviews\<rparr>)
     | (Inr created, reviews) \<Rightarrow>
         (Inr created, api\<lparr>lapi_reviews := reviews,
            lapi_audit := appendLedgerAuditEvent sha256 ctx (lctx_auditId ctx) ''ledger.reconciliation.created''
              ''ledger_reconciliation'' (recon_id created) None (reconciliationMetadata created) (lapi_audit api)\<rparr>))))"

subsection \<open>The calls and what they leave\<close>

inductive ledger_api_step ::
  "(string \<Rightarrow> string) \<Rightarrow> (string \<Rightarrow> bool) \<Rightarrow> LedgerReviewApi \<Rightarrow> LedgerReviewApi \<Rightarrow> bool" for sha256 datetime where
  call_post: "authenticated ctx \<Longrightarrow> postLedgerTransactionRoute sha256 datetime ctx post s = (r1, t) \<Longrightarrow> ledger_api_step sha256 datetime s t"
| call_prepare: "authenticated ctx \<Longrightarrow> preparePostingRequestRoute sha256 datetime ctx prepare s = (r2, t) \<Longrightarrow> ledger_api_step sha256 datetime s t"
| call_approve: "authenticated ctx \<Longrightarrow> approvePostingRequestRoute sha256 datetime ctx i approve s = (r3, t) \<Longrightarrow> ledger_api_step sha256 datetime s t"
| call_reject: "authenticated ctx \<Longrightarrow> rejectPostingRequestRoute sha256 datetime ctx i reject s = (r4, t) \<Longrightarrow> ledger_api_step sha256 datetime s t"
| call_decide: "authenticated ctx \<Longrightarrow> approveTransactionRoute sha256 datetime ctx i decide s = (r5, t) \<Longrightarrow> ledger_api_step sha256 datetime s t"
| call_batch: "authenticated ctx \<Longrightarrow> recordImportBatchRoute sha256 ctx batch s = (r6, t) \<Longrightarrow> ledger_api_step sha256 datetime s t"
| call_rule: "authenticated ctx \<Longrightarrow> recordMatchRuleProfileRoute sha256 ctx rule s = (r7, t) \<Longrightarrow> ledger_api_step sha256 datetime s t"
| call_profile: "authenticated ctx \<Longrightarrow> recordAccountingProfileRoute sha256 datetime ctx profile s = (r8, t) \<Longrightarrow> ledger_api_step sha256 datetime s t"
| call_resolve: "authenticated ctx \<Longrightarrow> recordExceptionResolutionRoute sha256 datetime ctx resolve s = (r9, t) \<Longrightarrow> ledger_api_step sha256 datetime s t"
| call_reconcile: "authenticated ctx \<Longrightarrow> createReconciliationRoute sha256 datetime ctx reconcile s = (r10, t) \<Longrightarrow> ledger_api_step sha256 datetime s t"

inductive_cases ledger_api_stepE: "ledger_api_step sha256 datetime s t"

definition empty_ledger_api :: "LedgerReviewApi \<Rightarrow> bool" where
  "empty_ledger_api s \<longleftrightarrow> empty_ledger (lapi_ledger s) \<and> no_events (lapi_audit s)
     \<and> lrs_approvals (lapi_reviews s) = [] \<and> lrs_reconciliations (lapi_reviews s) = [] \<and> lrs_importBatches (lapi_reviews s) = []
     \<and> lrs_matchRules (lapi_reviews s) = [] \<and> lrs_profiles (lapi_reviews s) = [] \<and> lrs_resolutions (lapi_reviews s) = []"

text \<open>The matched entries of a reconciliation are entries of the firm's ledger on the reconciled account.\<close>

definition entries_known :: "'a MemoryLedgerCoreStore_scheme \<Rightarrow> LedgerReconciliationRecord \<Rightarrow> bool" where
  "entries_known ledger r \<longleftrightarrow> (\<forall>row \<in> set (recon_statementRows r). row_reviewDecision row = Row_matched \<longrightarrow>
     (\<forall>i \<in> set (row_matchedLedgerEntryIds row). \<exists>e \<in> set (all_entries (store_postedTransactions ledger)).
        entry_id e = i \<and> entry_accountId e = recon_accountId r \<and> entry_firmId e = recon_firmId r))"

lemma entries_grow: "ledger_grows l m \<Longrightarrow> entries_known l r \<Longrightarrow> entries_known m r"
proof -
  assume grows: "ledger_grows l m" and known: "entries_known l r"
  have "set (all_entries (store_postedTransactions l)) \<subseteq> set (all_entries (store_postedTransactions m))"
    using grows by (auto simp: ledger_grows_def all_entries_def)
  then show "entries_known m r" using known unfolding entries_known_def by (meson subsetD)
qed

definition event_digest :: "string \<Rightarrow> AuditEvent \<Rightarrow> string \<times> string \<times> string \<times> js_value" where
  "event_digest key e = (aud_firmId e, aud_actorId e, aud_resourceId e, metadata_field e key)"

definition log_digest :: "MemoryAuditStore \<Rightarrow> string \<Rightarrow> string \<Rightarrow> (string \<times> string \<times> string \<times> js_value) list" where
  "log_digest audit action key = map (event_digest key) (filter (\<lambda>e. aud_action e = action) (aud_events audit))"

definition approval_digest :: "LedgerTransactionApprovalRecord \<Rightarrow> string \<times> string \<times> string \<times> js_value" where
  "approval_digest a = (appr_firmId a, appr_decidedByUserId a, appr_id a, JStr (approval_decision_name (appr_decision a)))"

definition reconciliation_digest :: "LedgerReconciliationRecord \<Rightarrow> string \<times> string \<times> string \<times> js_value" where
  "reconciliation_digest r =
     (recon_firmId r, or_else (recon_reviewedByUserId r) [], recon_id r, JStr (recon_status_name (recon_status r)))"

definition resolution_digest :: "LedgerReconciliationExceptionResolutionRecord \<Rightarrow> string \<times> string \<times> string \<times> js_value" where
  "resolution_digest r =
     (resol_firmId r, resol_recordedByUserId r, resol_id r, JStr (variance_decision_name (resol_varianceDecision r)))"

definition decided :: string where "decided = ''ledger.transaction_approval.decided''"

definition reconciled :: string where "reconciled = ''ledger.reconciliation.created''"

definition resolved :: string where "resolved = ''ledger.reconciliation_exception_resolution.recorded''"

definition posting_action :: string where "posting_action = ''ledger.transaction.posted''"

definition log_tells_decisions :: "MemoryAuditStore \<Rightarrow> MemoryLedgerReviewStore \<Rightarrow> bool" where
  "log_tells_decisions audit reviews \<longleftrightarrow>
     log_digest audit decided ''decision'' = map approval_digest (lrs_approvals reviews)
     \<and> log_digest audit reconciled ''status'' = map reconciliation_digest (lrs_reconciliations reviews)
     \<and> log_digest audit resolved ''varianceDecision'' = map resolution_digest (lrs_resolutions reviews)"

definition log_tells_postings :: "MemoryAuditStore \<Rightarrow> PostedLedgerTransaction list \<Rightarrow> bool" where
  "log_tells_postings audit posted \<longleftrightarrow>
     (\<forall>p \<in> set posted. \<exists>e \<in> set (aud_events audit). aud_action e = posting_action \<and> aud_firmId e = posted_firmId p
        \<and> aud_resourceId e = posted_id p)
     \<and> (\<forall>e \<in> set (aud_events audit). aud_action e = posting_action \<longrightarrow> (\<exists>p \<in> set posted. posted_id p = aud_resourceId e))"

definition ledger_api_inv :: "(string \<Rightarrow> string) \<Rightarrow> LedgerReviewApi \<Rightarrow> bool" where
  "ledger_api_inv sha256 s \<longleftrightarrow> ledger_inv (lapi_ledger s) \<and> named_postings (lapi_ledger s)
     \<and> reviews_ok (lapi_ledger s) (lapi_reviews s)
     \<and> list_all (entries_known (lapi_ledger s)) (lrs_reconciliations (lapi_reviews s))
     \<and> chains_ok sha256 (lapi_audit s) \<and> log_tells_decisions (lapi_audit s) (lapi_reviews s)
     \<and> log_tells_postings (lapi_audit s) (store_postedTransactions (lapi_ledger s))"

lemma log_digest_append:
  "log_digest (appendLedgerAuditEvent sha ctx i ac rt rid at md audit) action key =
   log_digest audit action key @ (if ac = action
     then [(lctx_firmId ctx, user_id (lctx_user ctx), rid, or_else (map_get (compact md) key) JUndefined)] else [])"
  by (simp add: log_digest_def event_digest_def metadata_field_def)

lemmas action_names = decided_def reconciled_def resolved_def posting_action_def

lemma other_event_tells_decisions:
  "ac \<notin> {decided, reconciled, resolved} \<Longrightarrow> log_tells_decisions audit reviews \<Longrightarrow>
   log_tells_decisions (appendLedgerAuditEvent sha ctx i ac rt rid at md audit) reviews"
  by (auto simp: log_tells_decisions_def log_digest_append)

lemma other_event_tells_postings:
  "ac \<noteq> posting_action \<Longrightarrow> log_tells_postings audit posted \<Longrightarrow>
   log_tells_postings (appendLedgerAuditEvent sha ctx i ac rt rid at md audit) posted"
  by (auto simp: log_tells_postings_def)

lemma posting_event_tells_postings:
  assumes "log_tells_postings audit posted" "posted_firmId p = lctx_firmId ctx"
  shows "log_tells_postings (appendLedgerAuditEvent sha ctx i posting_action rt (posted_id p) at md audit)
    (reconcilePostedTransaction posted p)"
proof (cases "list_ex (\<lambda>q. posted_id q = posted_id p) posted")
  case True
  then have same: "reconcilePostedTransaction posted p = posted" by (simp add: reconcilePostedTransaction_def)
  show ?thesis using assms(1) True unfolding same log_tells_postings_def by (auto simp: list_ex_iff)
next
  case False
  then have "reconcilePostedTransaction posted p = posted @ [p]" by (simp add: reconcilePostedTransaction_def)
  then show ?thesis using assms unfolding log_tells_postings_def by auto
qed

lemma posting_keeps:
  assumes inv: "ledger_api_inv sha s" and led: "ledger_inv l" "named_postings l" "ledger_grows (lapi_ledger s) l"
    and posted: "store_postedTransactions l = reconcilePostedTransaction (store_postedTransactions (lapi_ledger s)) p"
    and firm: "posted_firmId p = lctx_firmId ctx"
  shows "ledger_api_inv sha (s\<lparr>lapi_ledger := l,
    lapi_audit := appendLedgerAuditEvent sha ctx i posting_action rt (posted_id p) at md (lapi_audit s)\<rparr>)"
proof -
  have "list_all (entries_known l) (lrs_reconciliations (lapi_reviews s))"
    using inv entries_grow [OF led(3)] by (auto simp: ledger_api_inv_def list_all_iff)
  moreover have "posting_action \<notin> {decided, reconciled, resolved}" by (simp add: action_names)
  ultimately show ?thesis
    using inv led firm reviews_grow [OF led(3)]
    by (simp add: ledger_api_inv_def posted append_ledger_event_chains other_event_tells_decisions posting_event_tells_postings)
qed

lemma ledger_keeps:
  assumes inv: "ledger_api_inv sha s" and led: "ledger_inv l" "ledger_grows (lapi_ledger s) l"
    and same: "store_postedTransactions l = store_postedTransactions (lapi_ledger s)"
    and ac: "ac \<notin> {decided, reconciled, resolved, posting_action}"
  shows "ledger_api_inv sha (s\<lparr>lapi_ledger := l,
    lapi_audit := appendLedgerAuditEvent sha ctx i ac rt rid at md (lapi_audit s)\<rparr>)"
proof -
  have "list_all (entries_known l) (lrs_reconciliations (lapi_reviews s))"
    using inv entries_grow [OF led(2)] by (auto simp: ledger_api_inv_def list_all_iff)
  then show ?thesis
    using inv led ac reviews_grow [OF led(2)]
    by (simp add: ledger_api_inv_def named_postings_def same append_ledger_event_chains other_event_tells_decisions
        other_event_tells_postings)
qed

lemma review_keeps:
  assumes inv: "ledger_api_inv sha s" and ok: "reviews_ok (lapi_ledger s) reviews"
    and known: "list_all (entries_known (lapi_ledger s)) (lrs_reconciliations reviews)"
    and told: "log_tells_decisions (appendLedgerAuditEvent sha ctx i ac rt rid at md (lapi_audit s)) reviews"
    and ac: "ac \<noteq> posting_action"
  shows "ledger_api_inv sha (s\<lparr>lapi_reviews := reviews,
    lapi_audit := appendLedgerAuditEvent sha ctx i ac rt rid at md (lapi_audit s)\<rparr>)"
  using assms by (simp add: ledger_api_inv_def append_ledger_event_chains other_event_tells_postings)

lemma post_keeps:
  assumes "postLedgerTransactionRoute sha datetime ctx body s = (r, t)" "ledger_api_inv sha s"
  shows "ledger_api_inv sha t"
  using assms(1)
proof (cases rule: post_route_cases)
  case (posted p)
  let ?tx = "buildProposedTransaction ctx body"
  let ?l = "(lapi_ledger s)\<lparr>store_postedTransactions := reconcilePostedTransaction (store_postedTransactions (lapi_ledger s)) p\<rparr>"
  have led: "ledger_inv (lapi_ledger s)" "named_postings (lapi_ledger s)" using assms(2) by (simp_all add: ledger_api_inv_def)
  have "tx_id ?tx \<noteq> []"
    using posted(2) by (auto simp: buildProposedTransaction_def ledgerPostBodySchema_def min_one_def)
  then have "named_postings ?l" by (intro named_reconciled posted_named [OF posted(6)]) (use led in simp_all)
  moreover have "ledger_inv ?l" by (rule store_posted_inv [OF led(1) posted(6)])
  moreover have "posted_firmId p = lctx_firmId ctx"
    using posted_result [OF posted(6)] by (simp add: buildProposedTransaction_def)
  ultimately show ?thesis
    using posting_keeps [OF assms(2), of ?l p ctx] unfolding posted(7) append_workflow_event posting_action_def by simp
qed (use assms(2) in simp)

lemma prepare_keeps:
  assumes "preparePostingRequestRoute sha datetime ctx body s = (r, t)" "ledger_api_inv sha s"
  shows "ledger_api_inv sha t"
  using assms(1)
proof (cases rule: prepare_route_cases)
  case (prepared q p l)
  have "preq_status q = Posting_pending_approval"
    using prepared(3) by (auto simp: ledgerPostingRequestFromTransaction_def posting_request_input_def Let_def bind_result_ok)
  then have step: "ledger_step (lapi_ledger s) l" using prepared(4) by (rule step_prepare)
  have same: "store_postedTransactions l = store_postedTransactions (lapi_ledger s)"
    using prepared(4) by (auto simp: prepareMemoryLedgerPostingRequest_def split: sum.splits option.splits)
  have "ledger_inv l" using assms(2) step ledger_run.inv_step by (auto simp: ledger_api_inv_def)
  then show ?thesis
    unfolding prepared(5) by (intro ledger_keeps [OF assms(2) _ ledger_step_grows [OF step] same]) (simp_all add: action_names)
qed (use assms(2) in simp)

lemma reject_keeps:
  assumes "rejectPostingRequestRoute sha datetime ctx i body s = (r, t)" "ledger_api_inv sha s"
  shows "ledger_api_inv sha t"
  using assms(1)
proof (cases rule: reject_route_cases)
  case (rejected before q l)
  have step: "ledger_step (lapi_ledger s) l" using rejected(2) by (rule step_reject)
  have same: "store_postedTransactions l = store_postedTransactions (lapi_ledger s)"
    using rejected(2)
    by (auto simp: rejectMemoryLedgerPostingRequest_def replaceRequest_def Let_def throw_def split: sum.splits if_splits)
  have "ledger_inv l" using assms(2) step ledger_run.inv_step by (auto simp: ledger_api_inv_def)
  then show ?thesis
    unfolding rejected(3) by (intro ledger_keeps [OF assms(2) _ ledger_step_grows [OF step] same]) (simp_all add: action_names)
qed (use assms(2) in simp)

lemma approve_keeps:
  assumes route: "approvePostingRequestRoute sha datetime ctx i body s = (r, t)" and inv: "ledger_api_inv sha s"
    and ctx: "authenticated ctx" "\<not> datetime []"
  shows "ledger_api_inv sha t"
proof -
  have led: "ledger_inv (lapi_ledger s)" "named_postings (lapi_ledger s)" using inv by (simp_all add: ledger_api_inv_def)
  from route led ctx show ?thesis
  proof (cases rule: approve_route_cases)
    case (approved x q p l)
    let ?posted = "s\<lparr>lapi_ledger := l, lapi_audit := appendLedgerAuditEvent sha ctx (lctx_auditId ctx) posting_action
      ''ledger_transaction'' (posted_id p) (preq_reviewedAt q)
      (compact (merge_metadata (approvedPostingMetadata \<lparr>approved_request = q, approved_postedTransaction = p\<rparr>)
         (workflow_metadata ctx (preq_matterIds q)))) (lapi_audit s)\<rparr>"
    have step: "ledger_step (lapi_ledger s) l" using approved(5) by (rule step_approve)
    have "ledger_inv l" using led step ledger_run.inv_step by auto
    moreover have "named_postings l"
      using led(2) approved(7,9) by (simp add: named_postings_def reconcilePostedTransaction_def)
    ultimately have p: "ledger_inv l" "ledger_api_inv sha ?posted"
      by (simp, intro posting_keeps [OF inv _ _ ledger_step_grows [OF step] approved(9) approved(8)])
    have "ledger_api_inv sha (?posted\<lparr>lapi_ledger := l, lapi_audit := appendLedgerAuditEvent sha ctx (lctx_secondAuditId ctx)
        ''ledger.posting_request.approved'' ''ledger_posting_request'' (preq_id q) (preq_reviewedAt q) (approvedMetadata x q)
        (lapi_audit ?posted)\<rparr>)"
      by (rule ledger_keeps [OF p(2)]) (simp_all add: p(1) action_names)
    then show ?thesis by (simp add: approved(6) approval_audit_def append_workflow_event posting_action_def)
  qed (use inv in simp)
qed

lemma recorded_cases:
  assumes "(case stored_if checks v stored (lapi_reviews s) of
      (Inl e, reviews) \<Rightarrow> (Inl e, s\<lparr>lapi_reviews := reviews\<rparr>)
    | (Inr created, reviews) \<Rightarrow> (Inr created, s\<lparr>lapi_reviews := reviews, lapi_audit := f created\<rparr>)) = (r, t)"
  obtains (refused) e where "r = Inl e" "t = s"
  | (recorded) "checks = Inr ()" "r = Inr v" "t = s\<lparr>lapi_reviews := stored, lapi_audit := f v\<rparr>"
  using assms by (auto simp: stored_if_def split: sum.splits)

lemma stored_value: "checks = Inr () \<Longrightarrow> stored_if checks v stored unchanged = (Inr v, stored)"
  by (simp add: stored_if_def)

lemma compact_simps:
  "compact [] = []"
  "compact ((k, v) # md) = (if v = JUndefined then compact md else (k, v) # compact md)"
  by (simp_all add: compact_def)

lemma decide_keeps:
  assumes route: "approveTransactionRoute sha datetime ctx i body s = (r, t)" and inv: "ledger_api_inv sha s"
  shows "ledger_api_inv sha t"
  using route unfolding approveTransactionRoute_def
proof (elim guarded_cases, goal_cases)
  case prems: (4 _ matterIds _)
  let ?x = "approval_of ctx i body"
  let ?stored = "(lapi_reviews s)\<lparr>lrs_approvals := lrs_approvals (lapi_reviews s) @ [?x]\<rparr>"
  show ?case
    using prems(4) unfolding createMemoryLedgerTransactionApproval_def
  proof (cases rule: recorded_cases)
    case recorded
    have "createMemoryLedgerTransactionApproval (lapi_ledger s) (lapi_reviews s) ?x = (Inr ?x, ?stored)"
      unfolding createMemoryLedgerTransactionApproval_def using recorded(1) by (rule stored_value)
    from approval_stored [OF this] have ok: "reviews_ok (lapi_ledger s) ?stored" using inv by (simp add: ledger_api_inv_def)
    show ?thesis
      unfolding recorded(3) using inv ok
      by (intro review_keeps) (simp_all add: ledger_api_inv_def log_tells_decisions_def log_digest_append action_names approvalMetadata_def approval_digest_def approval_of_def strings_value_def compact_simps)
  qed (use inv in simp)
qed (use inv in simp_all)

lemma batch_keeps:
  assumes route: "recordImportBatchRoute sha ctx body s = (r, t)" and inv: "ledger_api_inv sha s"
  shows "ledger_api_inv sha t"
  using route unfolding recordImportBatchRoute_def
proof (elim guarded_cases, goal_cases)
  case prems: 4
  let ?x = "batch_of ctx body"
  let ?stored = "(lapi_reviews s)\<lparr>lrs_importBatches := lrs_importBatches (lapi_reviews s) @ [?x]\<rparr>"
  show ?case
    using prems(4) unfolding createMemoryLedgerStatementImportBatch_def
  proof (cases rule: recorded_cases)
    case recorded
    have "createMemoryLedgerStatementImportBatch (lapi_ledger s) (lapi_reviews s) ?x = (Inr ?x, ?stored)"
      unfolding createMemoryLedgerStatementImportBatch_def using recorded(1) by (rule stored_value)
    from batch_stored [OF this] have ok: "reviews_ok (lapi_ledger s) ?stored" using inv by (simp add: ledger_api_inv_def)
    show ?thesis
      unfolding recorded(3) using inv ok
      by (intro review_keeps) (simp_all add: ledger_api_inv_def log_tells_decisions_def log_digest_append action_names  compact_simps)
  qed (use inv in simp)
qed (use inv in simp_all)

lemma rule_keeps:
  assumes route: "recordMatchRuleProfileRoute sha ctx body s = (r, t)" and inv: "ledger_api_inv sha s"
  shows "ledger_api_inv sha t"
  using route unfolding recordMatchRuleProfileRoute_def
proof (elim guarded_cases, goal_cases)
  case prems: 4
  let ?x = "rule_of ctx body"
  let ?stored = "(lapi_reviews s)\<lparr>lrs_matchRules := lrs_matchRules (lapi_reviews s) @ [?x]\<rparr>"
  show ?case
    using prems(4) unfolding createMemoryLedgerStatementMatchRuleProfile_def
  proof (cases rule: recorded_cases)
    case recorded
    have "createMemoryLedgerStatementMatchRuleProfile (lapi_ledger s) (lapi_reviews s) ?x = (Inr ?x, ?stored)"
      unfolding createMemoryLedgerStatementMatchRuleProfile_def using recorded(1) by (rule stored_value)
    from rule_stored [OF this] have ok: "reviews_ok (lapi_ledger s) ?stored" using inv by (simp add: ledger_api_inv_def)
    show ?thesis
      unfolding recorded(3) using inv ok
      by (intro review_keeps) (simp_all add: ledger_api_inv_def log_tells_decisions_def log_digest_append action_names  compact_simps)
  qed (use inv in simp)
qed (use inv in simp_all)

lemma profile_keeps:
  assumes route: "recordAccountingProfileRoute sha datetime ctx body s = (r, t)" and inv: "ledger_api_inv sha s"
  shows "ledger_api_inv sha t"
  using route unfolding recordAccountingProfileRoute_def
proof (elim guarded_cases, goal_cases)
  case prems: (4 _ _ account)
  let ?x = "profile_of ctx account body"
  let ?stored = "(lapi_reviews s)\<lparr>lrs_profiles := lrs_profiles (lapi_reviews s) @ [?x]\<rparr>"
  show ?case
    using prems(4) unfolding createMemoryLedgerAccountingReviewProfile_def Let_def
  proof (cases rule: recorded_cases)
    case recorded
    have "createMemoryLedgerAccountingReviewProfile (lapi_ledger s) (lapi_reviews s) ?x = (Inr ?x, ?stored)"
      unfolding createMemoryLedgerAccountingReviewProfile_def Let_def using recorded(1) by (rule stored_value)
    from profile_stored [OF this] have ok: "reviews_ok (lapi_ledger s) ?stored" using inv by (simp add: ledger_api_inv_def)
    show ?thesis
      unfolding recorded(3) using inv ok
      by (intro review_keeps) (simp_all add: ledger_api_inv_def log_tells_decisions_def log_digest_append action_names  compact_simps)
  qed (use inv in simp)
qed (use inv in simp_all)

lemma resolve_keeps:
  assumes route: "recordExceptionResolutionRoute sha datetime ctx body s = (r, t)" and inv: "ledger_api_inv sha s"
  shows "ledger_api_inv sha t"
  using route unfolding recordExceptionResolutionRoute_def
proof (elim guarded_cases, goal_cases)
  case prems: (5 _ _ _ row)
  let ?x = "resolution_of ctx body row"
  let ?stored = "(lapi_reviews s)\<lparr>lrs_resolutions := lrs_resolutions (lapi_reviews s) @ [?x]\<rparr>"
  show ?case
    using prems(5) unfolding createMemoryLedgerReconciliationExceptionResolution_def
  proof (cases rule: recorded_cases)
    case recorded
    have "createMemoryLedgerReconciliationExceptionResolution (lapi_ledger s) (lapi_reviews s) ?x = (Inr ?x, ?stored)"
      unfolding createMemoryLedgerReconciliationExceptionResolution_def using recorded(1) by (rule stored_value)
    from resolution_stored [OF this] have ok: "reviews_ok (lapi_ledger s) ?stored" using inv by (simp add: ledger_api_inv_def)
    show ?thesis
      unfolding recorded(3) using inv ok
      by (intro review_keeps) (simp_all add: ledger_api_inv_def log_tells_decisions_def log_digest_append action_names resolutionMetadata_def resolution_digest_def resolution_of_def compact_simps)
  qed (use inv in simp)
qed (use inv in simp_all)

lemma matched_rows_known:
  assumes "check_matched_rows (accountLedgerEntryIds ctx s (rcb_accountId body)) (map (row_of ctx) (rcb_statementRows body)) = Inr ()"
  shows "entries_known (lapi_ledger s) (reconciliation_of ctx body)"
proof -
  have entries: "snap_entries (getMemoryLedger (lapi_ledger s) (lctx_firmId ctx) None) =
      filter (\<lambda>e. entry_firmId e = lctx_firmId ctx) (all_entries (store_postedTransactions (lapi_ledger s)))"
    by (simp add: getMemoryLedger_def all_entries_def Let_def)
  have "i \<in> set (accountLedgerEntryIds ctx s (rcb_accountId body))"
    if "row \<in> set (rcb_statementRows body)" "rrb_reviewDecision row = Row_matched" "i \<in> set (rrb_matchedLedgerEntryIds row)" for row i
    using assms that by (auto simp: check_matched_rows_def for_each_ok row_of_def list_ex_iff)
  then show ?thesis
    by (fastforce simp: entries_known_def reconciliation_of_def row_of_def accountLedgerEntryIds_def entries Let_def)
qed

lemma reconcile_keeps:
  assumes route: "createReconciliationRoute sha datetime ctx body s = (r, t)" and inv: "ledger_api_inv sha s"
  shows "ledger_api_inv sha t"
  using route unfolding createReconciliationRoute_def
proof (elim guarded_cases, goal_cases)
  case prems: 4
  let ?x = "reconciliation_of ctx body"
  let ?stored = "(lapi_reviews s)\<lparr>lrs_reconciliations := lrs_reconciliations (lapi_reviews s) @ [?x]\<rparr>"
  have known: "entries_known (lapi_ledger s) ?x" using prems(3) by (intro matched_rows_known) simp
  show ?case
    using prems(4) unfolding createMemoryLedgerReconciliation_def
  proof (cases rule: recorded_cases)
    case recorded
    have "createMemoryLedgerReconciliation (lapi_ledger s) (lapi_reviews s) ?x = (Inr ?x, ?stored)"
      unfolding createMemoryLedgerReconciliation_def using recorded(1) by (rule stored_value)
    from reconciliation_stored [OF this] have ok: "reviews_ok (lapi_ledger s) ?stored" using inv by (simp add: ledger_api_inv_def)
    have digest: "reconciliation_digest ?x = (lctx_firmId ctx, user_id (lctx_user ctx), lctx_uuid ctx, JStr (recon_status_name (recon_status ?x)))"
      by (simp add: reconciliation_digest_def reconciliation_of_def Let_def)
    have rid: "recon_id ?x = lctx_uuid ctx" by (simp add: reconciliation_of_def Let_def)
    show ?thesis
      unfolding recorded(3) using inv ok known
      by (intro review_keeps) (simp_all add: ledger_api_inv_def log_tells_decisions_def log_digest_append action_names
          reconciliationMetadata_def digest rid compact_simps Let_def)
  qed (use inv in simp)
qed (use inv in simp_all)

lemma step_keeps:
  assumes "ledger_api_step sha datetime s t" "ledger_api_inv sha s" "\<not> datetime []"
  shows "ledger_api_inv sha t"
  using assms(1)
  by (cases rule: ledger_api_step.cases)
    (use assms(2,3) post_keeps prepare_keeps approve_keeps reject_keeps decide_keeps batch_keeps rule_keeps profile_keeps
       resolve_keeps reconcile_keeps in metis)+

lemma init_keeps: "empty_ledger_api s \<Longrightarrow> ledger_api_inv sha s"
  by (auto simp: empty_ledger_api_def ledger_api_inv_def empty_ledger_inv named_postings_def empty_ledger_def reviews_ok_def
      log_tells_decisions_def log_tells_postings_def log_digest_def no_events_def intro: audit_run.inv_init)

subsection \<open>The ledger of the routes\<close>

text \<open>The ledger of a run of the routes is a run of the ledger store, so its theorems hold for it.\<close>

lemma review_routes_keep_ledger:
  "approveTransactionRoute sha datetime ctx i decide s = (r5, t) \<Longrightarrow> lapi_ledger t = lapi_ledger s"
  "recordImportBatchRoute sha ctx batch s = (r6, t) \<Longrightarrow> lapi_ledger t = lapi_ledger s"
  "recordMatchRuleProfileRoute sha ctx rule s = (r7, t) \<Longrightarrow> lapi_ledger t = lapi_ledger s"
  "recordAccountingProfileRoute sha datetime ctx profile s = (r8, t) \<Longrightarrow> lapi_ledger t = lapi_ledger s"
  "recordExceptionResolutionRoute sha datetime ctx resolve s = (r9, t) \<Longrightarrow> lapi_ledger t = lapi_ledger s"
  "createReconciliationRoute sha datetime ctx reconcile s = (r10, t) \<Longrightarrow> lapi_ledger t = lapi_ledger s"
  by (simp_all add: approveTransactionRoute_def recordImportBatchRoute_def recordMatchRuleProfileRoute_def
      recordAccountingProfileRoute_def recordExceptionResolutionRoute_def createReconciliationRoute_def guarded_def
      split: sum.splits prod.splits) auto

lemma step_ledger:
  assumes "ledger_api_step sha datetime s t" "ledger_api_inv sha s" "\<not> datetime []"
  shows "ledger_step\<^sup>=\<^sup>= (lapi_ledger s) (lapi_ledger t)"
  using assms(1)
proof (cases rule: ledger_api_step.cases)
  case (call_post ctx post r)
  from call_post(2) show ?thesis
  proof (cases rule: post_route_cases)
    case (posted p)
    then have "postMemoryLedgerTransaction (lapi_ledger s) (buildProposedTransaction ctx post) = (Inr p, lapi_ledger t)"
      by (simp add: postMemoryLedgerTransaction_eq)
    then show ?thesis by (auto intro: step_post)
  qed simp
next
  case (call_prepare ctx body r)
  from call_prepare(2) show ?thesis
  proof (cases rule: prepare_route_cases)
    case (prepared q p l)
    then have "preq_status q = Posting_pending_approval"
      by (auto simp: ledgerPostingRequestFromTransaction_def posting_request_input_def Let_def bind_result_ok)
    then show ?thesis using prepared by (auto intro: step_prepare)
  qed simp
next
  case (call_approve ctx i body r)
  have "ledger_inv (lapi_ledger s)" "named_postings (lapi_ledger s)" using assms(2) by (simp_all add: ledger_api_inv_def)
  from call_approve(2) this call_approve(1) assms(3) show ?thesis
    by (cases rule: approve_route_cases) (auto intro: step_approve)
next
  case (call_reject ctx i body r)
  from call_reject(2) show ?thesis by (cases rule: reject_route_cases) (auto intro: step_reject)
qed (simp_all add: review_routes_keep_ledger)

interpretation ledger_api_run: simulation "\<lambda>s. empty_ledger_api s \<and> \<not> datetime []" "ledger_api_step sha datetime"
  "\<lambda>s. ledger_api_inv sha s \<and> \<not> datetime []" lapi_ledger empty_ledger "ledger_step\<^sup>=\<^sup>=" for sha datetime
  by unfold_locales (auto simp: init_keeps empty_ledger_api_def intro: step_keeps dest: step_ledger)

lemma reachable_api:
  assumes "reachable empty_ledger_api (ledger_api_step sha datetime) s" "\<not> datetime []"
  shows "ledger_api_inv sha s" "reachable empty_ledger ledger_step (lapi_ledger s)"
proof -
  have r: "reachable (\<lambda>s. empty_ledger_api s \<and> \<not> datetime []) (ledger_api_step sha datetime) s"
    using assms by (induction rule: reachable.induct) (auto intro: reach_init reach_step)
  show "ledger_api_inv sha s" using ledger_api_run.reachable_inv [OF r] by simp
  show "reachable empty_ledger ledger_step (lapi_ledger s)"
    using ledger_api_run.reachable_refines [OF r] by (rule reachable_reflclp)
qed

subsection \<open>What every run of the routes guarantees\<close>

text \<open>
  C36. In every state the ledger routes can reach, the review records fit the ledger: an approval is of a posted
  transaction of its firm, and a reviewer decides on a transaction once; a reconciliation is of an account of the
  firm, its rows lead from the beginning to the actual balance, and its matched rows name entries that the ledger
  has on that account; one without explanation or accepted as matched has the expected balance and only matched rows.
\<close>

theorem review_records_fit_the_ledger:
  assumes "reachable empty_ledger_api (ledger_api_step sha256 datetime) s" and "\<not> datetime []"
  defines "posted \<equiv> store_postedTransactions (lapi_ledger s)"
  shows "(\<forall>a \<in> set (lrs_approvals (lapi_reviews s)). \<exists>p \<in> set posted. posted_firmId p = appr_firmId a \<and> posted_id p = appr_transactionId a)
    \<and> distinct (map approval_key (lrs_approvals (lapi_reviews s)))
    \<and> (\<forall>r \<in> set (lrs_reconciliations (lapi_reviews s)).
        findLedgerAccount (lapi_ledger s) (recon_firmId r) (recon_accountId r) \<noteq> None
        \<and> recon_beginningBalanceCents r + sum_by row_amountCents (recon_statementRows r) = recon_actualBalanceCents r
        \<and> (\<forall>row \<in> set (recon_statementRows r). (row_reviewDecision row = Row_matched) = (row_matchedLedgerEntryIds row \<noteq> [])
             \<and> (\<forall>i \<in> set (row_matchedLedgerEntryIds row). \<exists>e \<in> set (all_entries posted).
                  entry_id e = i \<and> entry_accountId e = recon_accountId r \<and> entry_firmId e = recon_firmId r))
        \<and> (trim (or_else (recon_varianceExplanation r) []) = [] \<or> recon_status r = Recon_matched \<longrightarrow>
             recon_expectedBalanceCents r = recon_actualBalanceCents r
             \<and> (\<forall>row \<in> set (recon_statementRows r). row_reviewDecision row = Row_matched)))"
proof -
  have inv: "ledger_api_inv sha256 s" by (rule reachable_api [OF assms(1,2)])
  then have ok: "reviews_ok (lapi_ledger s) (lapi_reviews s)" by (simp add: ledger_api_inv_def)
  have known: "entries_known (lapi_ledger s) r" if "r \<in> set (lrs_reconciliations (lapi_reviews s))" for r
    using inv that by (simp add: ledger_api_inv_def list_all_iff)
  have one: "findLedgerAccount (lapi_ledger s) (recon_firmId r) (recon_accountId r) \<noteq> None
        \<and> recon_beginningBalanceCents r + sum_by row_amountCents (recon_statementRows r) = recon_actualBalanceCents r
        \<and> (\<forall>row \<in> set (recon_statementRows r). (row_reviewDecision row = Row_matched) = (row_matchedLedgerEntryIds row \<noteq> [])
             \<and> (\<forall>i \<in> set (row_matchedLedgerEntryIds row). \<exists>e \<in> set (all_entries posted).
                  entry_id e = i \<and> entry_accountId e = recon_accountId r \<and> entry_firmId e = recon_firmId r))
        \<and> (trim (or_else (recon_varianceExplanation r) []) = [] \<or> recon_status r = Recon_matched \<longrightarrow>
             recon_expectedBalanceCents r = recon_actualBalanceCents r
             \<and> (\<forall>row \<in> set (recon_statementRows r). row_reviewDecision row = Row_matched))"
    if r: "r \<in> set (lrs_reconciliations (lapi_reviews s))" for r
  proof -
    have valid: "reconciliation_ok (lapi_ledger s) r" using ok r by (simp add: reviews_ok_def list_all_iff)
    then have bridge: "recon_beginningBalanceCents r + sum_by row_amountCents (recon_statementRows r) = recon_actualBalanceCents r
        \<and> list_all (\<lambda>row. (row_reviewDecision row = Row_matched) = (row_matchedLedgerEntryIds row \<noteq> [])) (recon_statementRows r)
        \<and> (trim (or_else (recon_varianceExplanation r) []) = [] \<or> recon_status r = Recon_matched \<longrightarrow>
            recon_expectedBalanceCents r = recon_beginningBalanceCents r + sum_by row_amountCents (recon_statementRows r)
            \<and> list_all (\<lambda>row. row_matchedLedgerEntryIds row \<noteq> []) (recon_statementRows r))"
      by (intro accepted_reconciliation_bridges) (simp add: reconciliation_ok_def)
    have acc: "findLedgerAccount (lapi_ledger s) (recon_firmId r) (recon_accountId r) \<noteq> None"
      using valid by (simp add: reconciliation_ok_def)
    have dec: "\<forall>row \<in> set (recon_statementRows r). (row_reviewDecision row = Row_matched) = (row_matchedLedgerEntryIds row \<noteq> [])"
      using bridge by (simp add: list_all_iff)
    then have ids: "\<forall>row \<in> set (recon_statementRows r). \<forall>i \<in> set (row_matchedLedgerEntryIds row).
        \<exists>e \<in> set (all_entries posted). entry_id e = i \<and> entry_accountId e = recon_accountId r \<and> entry_firmId e = recon_firmId r"
      using known [OF r] unfolding entries_known_def posted_def by (metis empty_iff empty_set)
    have rest: "trim (or_else (recon_varianceExplanation r) []) = [] \<or> recon_status r = Recon_matched \<longrightarrow>
        recon_expectedBalanceCents r = recon_actualBalanceCents r
        \<and> (\<forall>row \<in> set (recon_statementRows r). row_reviewDecision row = Row_matched)"
      using bridge dec unfolding list_all_iff by metis
    show ?thesis using acc conjunct1 [OF bridge] dec ids rest by blast
  qed
  have "\<forall>a \<in> set (lrs_approvals (lapi_reviews s)). \<exists>p \<in> set posted. posted_firmId p = appr_firmId a \<and> posted_id p = appr_transactionId a"
    "distinct (map approval_key (lrs_approvals (lapi_reviews s)))"
    using ok by (simp_all add: reviews_ok_def approval_ok_def posted_def list_all_iff)
  then show ?thesis using one by blast
qed

text \<open>
  C9. The audit log tells the postings: in every state the routes can reach the log of every firm verifies, every
  transaction of the ledger has a posting event of its firm under its id, and every posting event names a transaction
  the ledger has; no client's trust balance is negative.
\<close>

theorem audit_log_tells_postings:
  assumes "reachable empty_ledger_api (ledger_api_step sha256 datetime) s" and "\<not> datetime []"
  shows "snd (listMemoryAuditEvents sha256 (lapi_audit s) firmId)
    \<and> (\<forall>p \<in> set (store_postedTransactions (lapi_ledger s)).
         \<exists>e \<in> set (fst (listMemoryAuditEvents sha256 (lapi_audit s) (posted_firmId p))).
           aud_action e = ''ledger.transaction.posted'' \<and> aud_resourceId e = posted_id p)
    \<and> (\<forall>e \<in> set (aud_events (lapi_audit s)). aud_action e = ''ledger.transaction.posted'' \<longrightarrow>
         (\<exists>p \<in> set (store_postedTransactions (lapi_ledger s)). posted_id p = aud_resourceId e))
    \<and> (\<forall>m c. 0 \<le> netLiabilityBalance (all_entries (store_postedTransactions (lapi_ledger s))) m c
                   (liabilityAccountIds (store_ledgerAccounts (lapi_ledger s))))"
proof -
  have inv: "ledger_api_inv sha256 s" by (rule reachable_api [OF assms])
  then have chains: "chains_ok sha256 (lapi_audit s)" by (simp add: ledger_api_inv_def)
  have funds: "0 \<le> netLiabilityBalance (all_entries (store_postedTransactions (lapi_ledger s))) m c
      (liabilityAccountIds (store_ledgerAccounts (lapi_ledger s)))" for m c
    using inv by (simp add: ledger_api_inv_def ledger_inv_def posted_inv_def funds_ok_iff)
  show ?thesis
    using inv funds unfolding audit_log_reads_events [OF chains]
    by (fastforce simp: ledger_api_inv_def log_tells_postings_def posting_action_def firm_chain_def)
qed

subsection \<open>The journal shows every decision\<close>

definition entry_digest :: "FinancialCommandJournalEntry \<Rightarrow> string \<times> string \<times> string" where
  "entry_digest e = (jent_actorId e, jent_resourceId e, jent_decision e)"

definition read_digest :: "string \<times> string \<times> string \<times> js_value \<Rightarrow> string \<times> string \<times> string" where
  "read_digest d = (case d of (firm, actor, rid, v) \<Rightarrow> (actor, rid, or_else (asString v) []))"

definition entries_of_action :: "string \<Rightarrow> FinancialCommandJournalEntry list \<Rightarrow> (string \<times> string \<times> string) list" where
  "entries_of_action action entries = map entry_digest (filter (\<lambda>e. jent_action e = action) entries)"

lemma approval_text: "asString (JStr (approval_decision_name d)) = Some (approval_decision_name d)"
  by (induct d; code_simp)

lemma recon_status_text: "asString (JStr (recon_status_name st)) = Some (recon_status_name st)"
  by (induct st; code_simp)

lemma variance_text: "asString (JStr (variance_decision_name v)) = Some (variance_decision_name v)"
  by (induct v; code_simp)

lemmas decision_texts = approval_text recon_status_text variance_text

lemma journal_decisions:
  assumes def: "map_get financialCommandJournalDefinitions ac = Some (family, decision)"
    and dec: "\<And>e. decision e = or_else (asString (metadata_field e key)) dflt"
    and texts: "\<forall>e \<in> set events. aud_action e = ac \<longrightarrow> asString (metadata_field e key) \<noteq> None"
  shows "entries_of_action ac (List.map_filter financialCommandJournalEntry events) =
    map (read_digest \<circ> event_digest key) (filter (\<lambda>e. aud_action e = ac) events)"
  using texts
proof (induction events)
  case (Cons e events)
  show ?case
  proof (cases "aud_action e = ac")
    case True
    then obtain entry where "financialCommandJournalEntry e = Some entry" "jent_decision entry = decision e"
      using def True by (simp add: financialCommandJournalEntry_def)
    moreover from this(1) have "jent_actorId entry = aud_actorId e" "jent_action entry = ac" "jent_resourceId entry = aud_resourceId e"
      using entry_fields True by auto
    ultimately show ?thesis
      using Cons True by (auto simp: entries_of_action_def map_filter_simps entry_digest_def read_digest_def event_digest_def dec)
  next
    case False
    then have "filter (\<lambda>x. jent_action x = ac) (List.map_filter financialCommandJournalEntry (e # events)) =
        filter (\<lambda>x. jent_action x = ac) (List.map_filter financialCommandJournalEntry events)"
      using entry_fields [of e] by (auto simp: map_filter_simps split: option.splits)
    then show ?thesis using Cons False by (simp add: entries_of_action_def)
  qed
qed (simp add: entries_of_action_def map_filter_simps)

lemma digest_of_firm:
  "map (read_digest \<circ> event_digest key) (filter (\<lambda>e. aud_action e = ac) (firm_chain audit firmId)) =
   map read_digest (filter (\<lambda>d. fst d = firmId) (log_digest audit ac key))"
  by (simp add: log_digest_def firm_chain_def event_digest_def filter_map comp_def conj_commute)

lemma journal_of_log:
  assumes def: "map_get financialCommandJournalDefinitions ac = Some (family, decision)"
    and dec: "\<And>e. decision e = or_else (asString (metadata_field e key)) dflt"
    and log: "log_digest audit ac key = map digest records"
    and texts: "\<forall>x \<in> set records. asString (snd (snd (snd (digest x)))) \<noteq> None"
  shows "mset (entries_of_action ac (jour_entries (buildFinancialCommandJournal collate (firm_chain audit firmId, ok) None))) =
    mset (map (read_digest \<circ> digest) (filter (\<lambda>x. fst (digest x) = firmId) records))"
proof -
  have "asString (metadata_field e key) \<noteq> None" if "e \<in> set (aud_events audit)" "aud_action e = ac" for e
  proof -
    have "event_digest key e \<in> set (map digest records)" using that unfolding log [symmetric] by (simp add: log_digest_def)
    then obtain x where "x \<in> set records" "digest x = event_digest key e" by auto
    then show ?thesis using texts by (metis event_digest_def snd_conv)
  qed
  then have "entries_of_action ac (List.map_filter financialCommandJournalEntry (firm_chain audit firmId)) =
      map read_digest (filter (\<lambda>d. fst d = firmId) (map digest records))"
    unfolding log [symmetric] digest_of_firm [symmetric] by (intro journal_decisions [OF def dec]) (auto simp: firm_chain_def)
  moreover have "mset (entries_of_action ac (js_sort cmp es)) = mset (entries_of_action ac es)" for cmp es
    by (simp add: entries_of_action_def mset_filter)
  ultimately show ?thesis by (simp add: buildFinancialCommandJournal_def Let_def filter_map comp_def)
qed

text \<open>
  C37. The journal shows every decision: in every state the routes can reach, the journal of a firm lists, under
  their actions, exactly the approvals, the reconciliations and the exception resolutions the firm has stored, each
  with its author and its decision or status, and reports a valid chain.
\<close>

theorem journal_shows_decisions:
  fixes firmId collate
  assumes "reachable empty_ledger_api (ledger_api_step sha256 datetime) s" and "\<not> datetime []"
  defines "entries \<equiv> jour_entries (buildFinancialCommandJournal collate (listMemoryAuditEvents sha256 (lapi_audit s) firmId) None)"
  shows "mset (entries_of_action ''ledger.transaction_approval.decided'' entries) =
      mset (map (\<lambda>a. (appr_decidedByUserId a, appr_id a, approval_decision_name (appr_decision a)))
        (filter (\<lambda>a. appr_firmId a = firmId) (lrs_approvals (lapi_reviews s))))
    \<and> mset (entries_of_action ''ledger.reconciliation.created'' entries) =
      mset (map (\<lambda>r. (or_else (recon_reviewedByUserId r) [], recon_id r, recon_status_name (recon_status r)))
        (filter (\<lambda>r. recon_firmId r = firmId) (lrs_reconciliations (lapi_reviews s))))
    \<and> mset (entries_of_action ''ledger.reconciliation_exception_resolution.recorded'' entries) =
      mset (map (\<lambda>r. (resol_recordedByUserId r, resol_id r, variance_decision_name (resol_varianceDecision r)))
        (filter (\<lambda>r. resol_firmId r = firmId) (lrs_resolutions (lapi_reviews s))))
    \<and> jour_chainValid (buildFinancialCommandJournal collate (listMemoryAuditEvents sha256 (lapi_audit s) firmId) None)"
proof -
  have inv: "ledger_api_inv sha256 s" by (rule reachable_api [OF assms(1,2)])
  then have log: "log_tells_decisions (lapi_audit s) (lapi_reviews s)" and chains: "chains_ok sha256 (lapi_audit s)"
    by (simp_all add: ledger_api_inv_def)
  have events: "listMemoryAuditEvents sha256 (lapi_audit s) firmId = (firm_chain (lapi_audit s) firmId, True)"
    by (rule audit_log_reads_events [OF chains])
  have read: "read_digest \<circ> approval_digest = (\<lambda>a. (appr_decidedByUserId a, appr_id a, approval_decision_name (appr_decision a)))"
    "read_digest \<circ> reconciliation_digest = (\<lambda>r. (or_else (recon_reviewedByUserId r) [], recon_id r, recon_status_name (recon_status r)))"
    "read_digest \<circ> resolution_digest = (\<lambda>r. (resol_recordedByUserId r, resol_id r, variance_decision_name (resol_varianceDecision r)))"
    by (simp_all add: fun_eq_iff read_digest_def approval_digest_def reconciliation_digest_def resolution_digest_def decision_texts)
  have "mset (entries_of_action decided entries) = mset (map (read_digest \<circ> approval_digest)
      (filter (\<lambda>x. fst (approval_digest x) = firmId) (lrs_approvals (lapi_reviews s))))"
    unfolding entries_def events
    by (rule journal_of_log [where key = "''decision''" and dflt = "''decided''" and family = Fam_trust_transaction
          and decision = "\<lambda>event. or_else (asString (metadata_field event ''decision'')) ''decided''"])
      (use log in \<open>simp_all add: log_tells_decisions_def financialCommandJournalDefinitions_def decided_def
        approval_digest_def decision_texts\<close>)
  moreover have "mset (entries_of_action reconciled entries) = mset (map (read_digest \<circ> reconciliation_digest)
      (filter (\<lambda>x. fst (reconciliation_digest x) = firmId) (lrs_reconciliations (lapi_reviews s))))"
    unfolding entries_def events
    by (rule journal_of_log [where key = "''status''" and dflt = "''created''" and family = Fam_reconciliation
          and decision = "\<lambda>event. or_else (asString (metadata_field event ''status'')) ''created''"])
      (use log in \<open>simp_all add: log_tells_decisions_def financialCommandJournalDefinitions_def reconciled_def
        reconciliation_digest_def decision_texts\<close>)
  moreover have "mset (entries_of_action resolved entries) = mset (map (read_digest \<circ> resolution_digest)
      (filter (\<lambda>x. fst (resolution_digest x) = firmId) (lrs_resolutions (lapi_reviews s))))"
    unfolding entries_def events
    by (rule journal_of_log [where key = "''varianceDecision''" and dflt = "''recorded''" and family = Fam_reconciliation
          and decision = "\<lambda>event. or_else (asString (metadata_field event ''varianceDecision'')) ''recorded''"])
      (use log in \<open>simp_all add: log_tells_decisions_def financialCommandJournalDefinitions_def resolved_def
        resolution_digest_def decision_texts\<close>)
  moreover have "jour_chainValid (buildFinancialCommandJournal collate (listMemoryAuditEvents sha256 (lapi_audit s) firmId) None)"
    unfolding events by (simp add: buildFinancialCommandJournal_def Let_def)
  ultimately show ?thesis
    by (simp only: read decided_def reconciled_def resolved_def approval_digest_def reconciliation_digest_def
        resolution_digest_def fst_conv)
qed

subsection \<open>A checker with a fresh session\<close>

definition session_fresh :: "LedgerContext \<Rightarrow> bool" where
  "session_fresh ctx \<longleftrightarrow> (\<exists>at t. lctx_freshAuthenticatedAt ctx = Some at \<and> date_parse at = Some t
     \<and> (\<forall>now. date_parse (lctx_freshNow ctx) = Some now \<longrightarrow> now - t \<le> 15 * 60 * 1000))"

lemma requireFreshAuth_ok: "requireFreshAuth ctx = Inr u \<Longrightarrow> session_fresh ctx"
  by (cases "lctx_freshAuthenticatedAt ctx")
    (auto simp: requireFreshAuth_def session_fresh_def FRESH_AUTH_MAX_AGE_MS_def js_less_def split: option.splits if_splits)

definition may_approve :: "LedgerContext \<Rightarrow> string \<Rightarrow> bool" where
  "may_approve ctx matterId \<longleftrightarrow> assertLedgerAccess ctx Act_approve (Some matterId) = Inr ()"

text \<open>
  C8. Nothing is posted from a request by its maker or on a stale session: when the approval route succeeds, the
  stored request was prepared by somebody else, the checker may approve the trust ledger of every matter of the
  request and authenticated within the last fifteen minutes, the request it returns is posted and names a
  transaction that the ledger has afterwards, and the log has a posting and an approval event of the checker.
\<close>

theorem posting_needs_fresh_checker:
  assumes "reachable empty_ledger_api (ledger_api_step sha256 datetime) s" and "\<not> datetime []" and "authenticated ctx"
    and route: "approvePostingRequestRoute sha256 datetime ctx i body s = (Inr q, t)"
  shows "\<exists>x. getMemoryLedgerPostingRequest (lapi_ledger s) (lctx_firmId ctx) i = Some x
    \<and> preq_preparedByUserId x \<noteq> user_id (lctx_user ctx) \<and> (\<forall>m \<in> set (preq_matterIds x). may_approve ctx m) \<and> session_fresh ctx
    \<and> preq_status q = Posting_posted
    \<and> (\<exists>p \<in> set (store_postedTransactions (lapi_ledger t)). preq_ledgerTransactionId q = Some (posted_id p))
    \<and> (\<forall>action \<in> {''ledger.transaction.posted'', ''ledger.posting_request.approved''}.
         \<exists>e \<in> set (aud_events (lapi_audit t)). aud_action e = action \<and> aud_actorId e = user_id (lctx_user ctx))"
proof -
  have inv: "ledger_inv (lapi_ledger s)" "named_postings (lapi_ledger s)"
    using reachable_api(1) [OF assms(1,2)] by (simp_all add: ledger_api_inv_def)
  from route inv assms(3,2) show ?thesis
  proof (cases rule: approve_route_cases)
    case (approved x q' p l)
    have q: "q' = q" using approved(4) by simp
    have access: "\<forall>m \<in> set (preq_matterIds x). may_approve ctx m"
      using approved(1,3) by (auto simp: getAuthorizedPostingRequestForDecision_def bind_result_ok may_approve_def
          assertPostingRequestMatterAccess_def for_each_ok)
    have checks: "preq_preparedByUserId x \<noteq> user_id (lctx_user ctx)" "session_fresh ctx"
      using approved(2) unfolding decision_check_def run_checks_ok by (auto intro: requireFreshAuth_ok)
    have posted: "preq_status q = Posting_posted \<and> (\<exists>p \<in> set (store_postedTransactions l). preq_ledgerTransactionId q = Some (posted_id p))"
    proof (cases "preq_status x = Posting_posted \<and> truthy (preq_ledgerTransactionId x)")
      case True
      then have "List.find (\<lambda>t. posted_firmId t = lctx_firmId ctx \<and> Some (posted_id t) = preq_ledgerTransactionId x)
          (store_postedTransactions (lapi_ledger s)) = Some p" and "l = lapi_ledger s" "q = x"
        using approved(3,5) q by (auto simp: approveMemoryLedgerPostingRequest_def throw_def split: option.splits)
      moreover from this(1) have "p \<in> set (store_postedTransactions (lapi_ledger s))" "Some (posted_id p) = preq_ledgerTransactionId x"
        using find_Some_mem by fastforce+
      ultimately show ?thesis using True by (intro conjI bexI [where x = p]) simp_all
    next
      case False
      then have "postPendingRequest (lapi_ledger s) (lctx_firmId ctx) i (review_input ctx body) x
          = (Inr \<lparr>approved_request = q, approved_postedTransaction = p\<rparr>, l)"
        using approved(3,5) q by (auto simp: approveMemoryLedgerPostingRequest_def throw_def split: if_splits)
      then show ?thesis
      proof (cases rule: postPendingRequest_cases)
        case (posted p' y)
        obtain z where z: "z \<in> set (reconcilePostedTransaction (store_postedTransactions (lapi_ledger s)) p')" "posted_id z = posted_id p'"
          using reconcile_id by (fastforce simp: list_ex_iff)
        have "preq_status q = Posting_posted" "preq_ledgerTransactionId q = Some (posted_id z)"
          "store_postedTransactions l = reconcilePostedTransaction (store_postedTransactions (lapi_ledger s)) p'"
          using posted z by (simp_all add: replaceRequest_def)
        then show ?thesis using z(1) by auto
      qed auto
    qed
    have events: "\<forall>action \<in> {''ledger.transaction.posted'', ''ledger.posting_request.approved''}.
         \<exists>e \<in> set (aud_events (lapi_audit t)). aud_action e = action \<and> aud_actorId e = user_id (lctx_user ctx)"
      by (auto simp: approved(6) approval_audit_def append_workflow_event Let_def)
    show ?thesis using approved(3,6) access checks posted events by (intro exI [where x = x]) simp
  qed simp
qed

subsection \<open>The poster can record the approval\<close>

lemma approval_is_stored:
  assumes matters: "assertLedgerTransactionApprovalAccess ctx t (posted_id p) = Inr ms"
    and known: "p \<in> set (store_postedTransactions (lapi_ledger t))" "posted_firmId p = lctx_firmId ctx" "posted_id p \<noteq> []"
    and first: "\<forall>a \<in> set (lrs_approvals (lapi_reviews t)). approval_key a \<noteq> (lctx_firmId ctx, posted_id p, user_id (lctx_user ctx))"
    and body: "ledgerApprovalBodySchema datetime body"
  defines "a \<equiv> approval_of ctx (posted_id p) body"
  shows "approveTransactionRoute sha256 datetime ctx (posted_id p) body t =
      (Inr a, t\<lparr>lapi_reviews := (lapi_reviews t)\<lparr>lrs_approvals := lrs_approvals (lapi_reviews t) @ [a]\<rparr>,
         lapi_audit := appendLedgerAuditEvent sha256 ctx (lctx_auditId ctx) ''ledger.transaction_approval.decided''
           ''ledger_transaction_approval'' (appr_id a) None (approvalMetadata ms a) (lapi_audit t)\<rparr>)"
proof -
  have "run_checks
       [throw_if (\<not> list_ex (\<lambda>posted. posted_firmId posted = appr_firmId a \<and> posted_id posted = appr_transactionId a)
            (store_postedTransactions (lapi_ledger t))) (''Unknown ledger transaction '' @ appr_transactionId a),
        throw_if (list_ex (\<lambda>candidate. appr_firmId candidate = appr_firmId a \<and> appr_transactionId candidate = appr_transactionId a
                    \<and> appr_decidedByUserId candidate = appr_decidedByUserId a) (lrs_approvals (lapi_reviews t)))
          ''Ledger approval reviewer has already recorded a decision''] = Inr ()"
    unfolding run_checks_ok using known first by (auto simp: a_def approval_of_def list_ex_iff approval_key_def)
  then have "createMemoryLedgerTransactionApproval (lapi_ledger t) (lapi_reviews t) a =
      (Inr a, (lapi_reviews t)\<lparr>lrs_approvals := lrs_approvals (lapi_reviews t) @ [a]\<rparr>)"
    unfolding createMemoryLedgerTransactionApproval_def by (rule stored_value)
  then show ?thesis
    using matters body known(3)
    by (simp add: approveTransactionRoute_def parseRequestPart_def min_one_def throw_if_def Suc_le_eq flip: a_def)
qed

text \<open>
  C38. The approval of a posted transaction needs no second person: an administrator whose posting has just been
  stored as a new transaction can record the approval of that transaction, unless a decision of the same user for
  that transaction is already stored. The controls report the policy \<open>second_review_required\<close>.
\<close>

theorem poster_can_approve_own_posting:
  assumes post: "postLedgerTransactionRoute sha256 datetime ctx post s = (Inr p, t)"
    and new: "findDuplicate (store_postedTransactions (lapi_ledger s)) (buildProposedTransaction ctx post) = None"
      "p \<in> set (store_postedTransactions (lapi_ledger t))"
    and admin: "user_role (lctx_user ctx) = Role_owner_admin"
    and first: "\<forall>a \<in> set (lrs_approvals (lapi_reviews s)). approval_key a \<noteq> (lctx_firmId ctx, posted_id p, user_id (lctx_user ctx))"
    and body: "lab_decision body = Approval_approved" "ledgerApprovalBodySchema datetime body"
  shows "\<exists>a u. approveTransactionRoute sha256 datetime ctx (posted_id p) body t = (Inr a, u)
    \<and> appr_decision a = Approval_approved \<and> appr_decidedByUserId a = tx_postedByUserId (buildProposedTransaction ctx post)
    \<and> a \<in> set (lrs_approvals (lapi_reviews u))"
  using post
proof (cases rule: post_route_cases)
  case (posted p')
  let ?tx = "buildProposedTransaction ctx post"
  have p: "p = posted_of ?tx" "balanced (tx_entries ?tx)"
    using posted(1,6) new(1) by (simp_all add: postLedgerTransaction_new)
  have ids: "posted_id p \<noteq> []" "posted_firmId p = lctx_firmId ctx"
    using posted(2) p(1) by (auto simp: buildProposedTransaction_def ledgerPostBodySchema_def min_one_def posted_of_def)
  have same: "lapi_reviews t = lapi_reviews s" using posted(7) by simp
  have access: "assertLedgerAccess ctx Act_approve m = Inr ()" for m
  proof -
    have "Act_approve \<in> set (allowedActions Role_owner_admin Res_trust_ledger)" by code_simp
    moreover have "user_firmId (lctx_user ctx) = lctx_firmId ctx"
      using posted(3) by (simp add: assertLedgerAccess_def canAccess_def Let_def split: if_splits)
    ultimately show ?thesis using admin by (simp add: assertLedgerAccess_def canAccess_def)
  qed
  let ?entries = "filter (\<lambda>e. entry_transactionId e = posted_id p)
      (snap_entries (getMemoryLedger (lapi_ledger t) (lctx_firmId ctx) None))"
  have firm: "entry_firmId e = lctx_firmId ctx" if "e \<in> set (tx_entries ?tx)" for e
  proof -
    have "validateMemoryLedgerTransactionScope (lapi_ledger s) (lctx_user ctx) ?tx = Inr ()"
      using posted(4) by (auto simp: checkLedgerTransactionScope_def throw_def split: sum.splits)
    then have scope: "tx_firmId ?tx = user_firmId (lctx_user ctx)"
      "\<forall>e \<in> set (tx_entries ?tx). validateEntryScope (lapi_ledger s) (lctx_user ctx) e = Inr ()"
      by (simp_all add: validateMemoryLedgerTransactionScope_def for_each_ok split: if_splits)
    then have "validateEntryScope (lapi_ledger s) (lctx_user ctx) e = Inr ()" using that by blast
    then have "entry_firmId e = user_firmId (lctx_user ctx)" unfolding validateEntryScope_def run_checks_ok by simp
    then show ?thesis using scope(1) by (simp add: buildProposedTransaction_def)
  qed
  obtain e es where tx: "tx_entries ?tx = e # es" using p(2) by (cases "tx_entries ?tx") (auto simp: balanced_def)
  then have "nextEntry ?tx 0 e \<in> set (posted_entries p)" by (simp add: p(1) posted_of_def nextEntries_def)
  moreover have "entry_transactionId (nextEntry ?tx 0 e) = posted_id p" "entry_firmId (nextEntry ?tx 0 e) = lctx_firmId ctx"
    using firm [of e] tx by (simp_all add: nextEntry_def p(1) posted_of_def)
  ultimately have "nextEntry ?tx 0 e \<in> set ?entries"
    using new(2) by (auto simp: getMemoryLedger_def Let_def)
  then have "?entries \<noteq> []" by (metis empty_iff empty_set)
  then have matters: "assertLedgerTransactionApprovalAccess ctx t (posted_id p) = Inr (js_set (map entry_matterId ?entries))"
    using access for_each_ok [of "\<lambda>m. assertLedgerAccess ctx Act_approve (Some m)"]
    by (simp add: assertLedgerTransactionApprovalAccess_def Let_def)
  have "\<forall>a \<in> set (lrs_approvals (lapi_reviews t)). approval_key a \<noteq> (lctx_firmId ctx, posted_id p, user_id (lctx_user ctx))"
    using first same by simp
  from approval_is_stored [OF matters new(2) ids(2,1) this body(2)] show ?thesis
    using body(1) by (intro exI conjI) (auto simp: approval_of_def buildProposedTransaction_def)
qed simp

subsection \<open>A worked run\<close>

definition lx_matter :: Matter where
  "lx_matter = \<lparr>matter_id = ''m'', matter_firmId = ''f'', matter_number = ''x'', matter_title = ''x'',
     matter_practiceArea = ''x'', matter_status = Matter_intake, matter_jurisdiction = Province_BC,
     matter_responsibleUserId = ''x'', matter_openedOn = None, matter_closedOn = None\<rparr>"

definition lx_client :: Contact where
  "lx_client = \<lparr>contact_id = ''c'', contact_firmId = ''f'', contact_kind = Kind_person, contact_status = None,
     contact_roleCategories = None, contact_canonicalName = None, contact_displayName = ''x'',
     contact_givenName = None, contact_middleName = None, contact_familyName = None, contact_title = None,
     contact_pronouns = None, contact_organizationLegalName = None, contact_organizationOperatingName = None,
     contact_organizationRegisteredName = None, contact_organizationType = None, contact_website = None,
     contact_aliases = [], contact_formerNames = None, contact_identifiers = [], contact_contactMethods = None,
     contact_preferredContactMethodId = None, contact_preferredLanguage = None, contact_timezone = None,
     contact_communicationNotes = None, contact_accessibilityNotes = None, contact_privateNotes = None,
     contact_notes = None, contact_riskFlags = None, contact_conflictSensitive = None, contact_adverse = None,
     contact_confidentialityMarker = None, contact_doNotContact = None, contact_createdByUserId = None,
     contact_updatedByUserId = None, contact_createdAt = None, contact_updatedAt = None\<rparr>"

definition lx_party :: MatterParty where
  "lx_party = \<lparr>party_id = ''x'', party_firmId = ''f'', party_matterId = ''m'', party_contactId = ''c'',
     party_role = Party_client, party_adverse = False, party_confidential = False, party_status = None,
     party_side = None, party_startedOn = None, party_endedOn = None, party_notes = None,
     party_privateNotes = None, party_conflictCheckIncluded = None, party_createdAt = None,
     party_updatedAt = None, party_createdByUserId = None, party_updatedByUserId = None\<rparr>"

definition lx_hash :: "string \<Rightarrow> string" where
  "lx_hash text = ''h''"

definition lx_date :: "string \<Rightarrow> bool" where
  "lx_date text = (date_parse text \<noteq> None)"

definition lx_context :: "string \<Rightarrow> LedgerContext" where
  "lx_context userId = \<lparr>lctx_firmId = ''f'', lctx_user = (ex_user Role_owner_admin)\<lparr>user_id := userId\<rparr>,
     lctx_freshAuthenticatedAt = Some ''2026-01-01'', lctx_requestId = ''q'', lctx_now = ''2026-01-01'',
     lctx_freshNow = ''2026-01-01'', lctx_uuid = ''id'', lctx_auditId = ''a'', lctx_auditNow = ''2026-01-01'',
     lctx_secondAuditId = ''b''\<rparr>"

definition lx_store :: MemoryLedgerStore where
  "lx_store = ex_store\<lparr>store_matters := [lx_matter], store_contacts := [lx_client], store_matterParties := [lx_party]\<rparr>"

definition lx_reviews :: MemoryLedgerReviewStore where
  "lx_reviews = \<lparr>lrs_users = [], lrs_approvals = [], lrs_reconciliations = [], lrs_importBatches = [], lrs_matchRules = [],
     lrs_profiles = [], lrs_resolutions = []\<rparr>"

definition lx_start :: LedgerReviewApi where
  "lx_start = \<lparr>lapi_ledger = lx_store, lapi_audit = \<lparr>aud_events = []\<rparr>, lapi_reviews = lx_reviews\<rparr>"

definition lx_entry :: "string \<Rightarrow> int \<Rightarrow> int \<Rightarrow> LedgerEntryBody" where
  "lx_entry account debit credit = \<lparr>leb_firmId = None, leb_matterId = ''m'', leb_clientId = ''c'', leb_accountId = account,
     leb_debitCents = debit, leb_creditCents = credit, leb_memo = ''x'', leb_reversingTransactionId = None\<rparr>"

definition lx_post :: "string \<Rightarrow> string \<Rightarrow> LedgerEntryBody list \<Rightarrow> LedgerPostBody" where
  "lx_post i key entries = \<lparr>lpb_id = i, lpb_idempotencyKey = key, lpb_requestFingerprint = None,
     lpb_postedAt = Some ''2026-01-01'', lpb_reversesTransactionId = None, lpb_entries = entries\<rparr>"

definition lx_deposit :: LedgerPostBody where
  "lx_deposit = lx_post ''t1'' ''k1'' [lx_entry ''trust'' 500 0, lx_entry ''liab'' 0 500]"

definition lx_payment :: PreparePostingRequestBody where
  "lx_payment = \<lparr>ppb_id = Some ''r1'', ppb_preparedAt = Some ''2026-01-01'', ppb_preparationNotes = None,
     ppb_proposedTransaction = lx_post ''t2'' ''k2'' [lx_entry ''liab'' 300 0, lx_entry ''trust'' 0 300]\<rparr>"

definition lx_posted :: LedgerReviewApi where
  "lx_posted = snd (postLedgerTransactionRoute lx_hash lx_date (lx_context ''u'') lx_deposit lx_start)"

lemma lx_dates: "date_parse ''2026-01-01'' \<noteq> None" "lx_date ''2026-01-01''" "\<not> lx_date []"
  by code_simp+

lemma lx_deposit_built: "buildProposedTransaction (lx_context ''u'') lx_deposit = ex_deposit"
  by (simp add: buildProposedTransaction_def lx_deposit_def lx_post_def lx_entry_def entry_of_body_def lx_context_def
      ex_user_def ex_ledger_defs)

lemma lx_access:
  "i \<in> {''u'', ''maker'', ''checker''} \<Longrightarrow> assertLedgerAccess (lx_context i) Act_create (Some ''m'') = Inr ()"
  "i \<in> {''u'', ''maker'', ''checker''} \<Longrightarrow> assertLedgerAccess (lx_context i) Act_approve (Some ''m'') = Inr ()"
  "assertLedgerAccess (lx_context ''u'') Act_approve None = Inr ()"
proof -
  have "Act_create \<in> set (allowedActions Role_owner_admin Res_trust_ledger)"
    "Act_approve \<in> set (allowedActions Role_owner_admin Res_trust_ledger)" by code_simp+
  then show "i \<in> {''u'', ''maker'', ''checker''} \<Longrightarrow> assertLedgerAccess (lx_context i) Act_create (Some ''m'') = Inr ()"
    "i \<in> {''u'', ''maker'', ''checker''} \<Longrightarrow> assertLedgerAccess (lx_context i) Act_approve (Some ''m'') = Inr ()"
    "assertLedgerAccess (lx_context ''u'') Act_approve None = Inr ()"
    by (simp_all add: assertLedgerAccess_def canAccess_def lx_context_def ex_user_def)
qed

lemma lx_scope:
  assumes "tx_firmId t = ''f''" "set (tx_entries t) \<subseteq> {ex_entry a d k | a d k. a \<in> {''trust'', ''liab''}}" "i \<in> {''u'', ''maker'', ''checker''}"
    and "lapi_ledger s = lx_store\<lparr>store_postedTransactions := ps, store_ledgerPostingRequests := qs\<rparr>"
  shows "checkLedgerTransactionScope (lx_context i) s t = Inr ()"
proof -
  have "validateEntryScope (lapi_ledger s) (lctx_user (lx_context i)) e = Inr ()" if e: "e \<in> set (tx_entries t)" for e
  proof -
    obtain a d k where "e = ex_entry a d k" "a \<in> {''trust'', ''liab''}" using e assms(2) by blast
    then show ?thesis
      unfolding validateEntryScope_def run_checks_ok assms(4)
      by (auto simp: ex_entry_def lx_context_def ex_user_def lx_store_def ex_store_def lx_matter_def lx_client_def
          lx_party_def ex_accounts_def userHasFirmWideLedgerAccess_def)
  qed
  moreover have "user_firmId (lctx_user (lx_context i)) = ''f''" by (simp add: lx_context_def ex_user_def)
  ultimately have "validateMemoryLedgerTransactionScope (lapi_ledger s) (lctx_user (lx_context i)) t = Inr ()"
    using assms(1) by (simp add: validateMemoryLedgerTransactionScope_def for_each_ok)
  then show ?thesis by (simp add: checkLedgerTransactionScope_def)
qed

lemma lx_ledger_start: "lapi_ledger lx_start = lx_store\<lparr>store_postedTransactions := [], store_ledgerPostingRequests := []\<rparr>"
  by (simp add: lx_start_def lx_store_def ex_store_def)

lemma lx_posts:
  "postLedgerTransactionRoute lx_hash lx_date (lx_context ''u'') lx_deposit lx_start = (Inr (posted_of ex_deposit), lx_posted)"
  "lapi_ledger lx_posted = lx_store\<lparr>store_postedTransactions := [posted_of ex_deposit], store_ledgerPostingRequests := []\<rparr>"
  "lapi_reviews lx_posted = lx_reviews"
proof -
  have state: "posting_state lx_store = posting_state ex_store" by (simp add: posting_state_def lx_store_def)
  have fst_post: "fst (postMemoryLedgerTransaction s t) = postLedgerTransaction (posting_state s) t" for s :: MemoryLedgerStore and t
    by (simp add: postMemoryLedgerTransaction_eq split: sum.splits)
  have "postLedgerTransaction (posting_state ex_store) ex_deposit = Inr (posted_of ex_deposit)"
    using fst_post [of ex_store ex_deposit] ex_deposit_posts by simp
  then have "postLedgerTransaction (posting_state lx_store) ex_deposit = Inr (posted_of ex_deposit)" by (simp only: state)
  then have "postMemoryLedgerTransaction lx_store ex_deposit = (Inr (posted_of ex_deposit),
      lx_store\<lparr>store_postedTransactions := reconcilePostedTransaction (store_postedTransactions lx_store) (posted_of ex_deposit)\<rparr>)"
    by (simp only: postMemoryLedgerTransaction_eq sum.case)
  moreover have "store_postedTransactions lx_store = []" by (simp add: lx_store_def ex_store_def)
  ultimately have post: "postMemoryLedgerTransaction lx_store ex_deposit =
      (Inr (posted_of ex_deposit), lx_store\<lparr>store_postedTransactions := [posted_of ex_deposit]\<rparr>)"
    by (simp add: reconcilePostedTransaction_def)
  have "ledgerPostBodySchema lx_date lx_deposit"
    by (simp add: ledgerPostBodySchema_def ledgerEntrySchema_def lx_deposit_def lx_post_def lx_entry_def optional_ok_def
        min_one_def lx_dates)
  moreover have "head (user_assignedMatterIds (lctx_user (lx_context ''u''))) = Some ''m''"
    by (simp add: lx_context_def ex_user_def)
  moreover have "checkLedgerTransactionScope (lx_context ''u'') lx_start ex_deposit = Inr ()"
    by (rule lx_scope [OF _ _ _ lx_ledger_start]) (auto simp: ex_deposit_def ex_transaction_def)
  moreover have "assertNoPendingLedgerPostingRequestForTransaction lx_start ex_deposit = Inr ()"
    by (simp add: assertNoPendingLedgerPostingRequestForTransaction_def listMemoryLedgerPostingRequests_def lx_ledger_start)
  ultimately have route: "postLedgerTransactionRoute lx_hash lx_date (lx_context ''u'') lx_deposit lx_start =
      (Inr (posted_of ex_deposit), lx_start\<lparr>lapi_ledger := lx_store\<lparr>store_postedTransactions := [posted_of ex_deposit]\<rparr>,
         lapi_audit := appendWorkflowAuditEvent lx_hash (lx_context ''u'') ''ledger.transaction.posted'' ''ledger_transaction''
           (posted_id (posted_of ex_deposit)) None (postedMetadata (posted_of ex_deposit))
           (js_set (map entry_matterId (posted_entries (posted_of ex_deposit)))) (lapi_audit lx_start)\<rparr>)"
    using post lx_access(1) [of "''u''"]
    by (simp add: postLedgerTransactionRoute_def lx_deposit_built parseRequestPart_def throw_if_def lx_start_def)
  then show "postLedgerTransactionRoute lx_hash lx_date (lx_context ''u'') lx_deposit lx_start = (Inr (posted_of ex_deposit), lx_posted)"
    by (simp add: lx_posted_def)
  show "lapi_ledger lx_posted = lx_store\<lparr>store_postedTransactions := [posted_of ex_deposit], store_ledgerPostingRequests := []\<rparr>"
    "lapi_reviews lx_posted = lx_reviews"
    unfolding lx_posted_def route by (simp_all add: lx_start_def lx_store_def ex_store_def)
qed

lemma lx_authenticated: "i \<noteq> [] \<Longrightarrow> authenticated (lx_context i)"
  by (simp add: authenticated_def lx_context_def)

lemma lx_posted_reachable: "reachable empty_ledger_api (ledger_api_step lx_hash lx_date) lx_posted"
proof -
  have "empty_ledger_api lx_start"
    by (simp add: empty_ledger_api_def lx_start_def lx_reviews_def lx_store_def ex_store_def empty_ledger_def no_events_def
        ex_accounts_consistent)
  then show ?thesis by (rule reach_step [OF reach_init]) (rule call_post [OF lx_authenticated lx_posts(1)], simp)
qed

theorem audit_log_tells_postings_witness:
  "\<exists>e \<in> set (fst (listMemoryAuditEvents lx_hash (lapi_audit lx_posted) ''f'')).
     aud_action e = ''ledger.transaction.posted'' \<and> aud_resourceId e = ''t1''"
proof -
  have "posted_of ex_deposit \<in> set (store_postedTransactions (lapi_ledger lx_posted))" "posted_id (posted_of ex_deposit) = ''t1''"
    "posted_firmId (posted_of ex_deposit) = ''f''"
    by (simp_all add: lx_posts(2)) (simp_all add: ex_deposit_def ex_transaction_def)
  then show ?thesis using audit_log_tells_postings [OF lx_posted_reachable lx_dates(3)] by metis
qed

definition lx_approval :: LedgerApprovalBody where
  "lx_approval = \<lparr>lab_decision = Approval_approved, lab_notes = None, lab_decidedAt = None\<rparr>"

theorem poster_can_approve_own_posting_witness:
  "\<exists>a u. approveTransactionRoute lx_hash lx_date (lx_context ''u'') ''t1'' lx_approval lx_posted = (Inr a, u)
     \<and> appr_decidedByUserId a = ''u''"
proof -
  have "posted_id (posted_of ex_deposit) = ''t1''" "tx_postedByUserId ex_deposit = ''u''"
    by (simp_all add: ex_deposit_def ex_transaction_def)
  moreover have "user_role (lctx_user (lx_context ''u'')) = Role_owner_admin" by (simp add: lx_context_def ex_user_def)
  moreover have "findDuplicate (store_postedTransactions (lapi_ledger lx_start)) ex_deposit = None"
    by (simp add: lx_ledger_start findDuplicate_def)
  ultimately show ?thesis
    using poster_can_approve_own_posting [OF lx_posts(1), of lx_approval]
    by (simp add: lx_deposit_built lx_posts(2) lx_start_def lx_reviews_def lx_approval_def ledgerApprovalBodySchema_def
        optional_ok_def) metis
qed

lemma lx_approves:
  "\<exists>t a. approveTransactionRoute lx_hash lx_date (lx_context ''u'') ''t1'' lx_approval lx_posted = (Inr a, t)
     \<and> appr_firmId a = ''f'' \<and> appr_decidedByUserId a = ''u'' \<and> appr_id a = ''id'' \<and> appr_decision a = Approval_approved
     \<and> appr_transactionId a = ''t1'' \<and> lrs_approvals (lapi_reviews t) = [a]"
proof -
  let ?p = "posted_of ex_deposit"
  have ids: "posted_id ?p = ''t1''" "posted_firmId ?p = ''f''" "posted_entries ?p = nextEntries ex_deposit"
    by (simp_all add: ex_deposit_def ex_transaction_def)
  have named: "entry_transactionId e = ''t1'' \<and> entry_matterId e = ''m''" if "e \<in> set (nextEntries ex_deposit)" for e
    using that by (auto simp: nextEntries_def nextEntry_def ex_deposit_def ex_transaction_def ex_entry_def)
  moreover have "snap_entries (getMemoryLedger (lapi_ledger lx_posted) ''f'' None) = nextEntries ex_deposit"
    by (simp add: getMemoryLedger_def Let_def lx_posts(2) ids)
      (simp add: nextEntries_def nextEntry_def ex_deposit_def ex_transaction_def ex_entry_def)
  moreover have "js_set (map entry_matterId (nextEntries ex_deposit)) = [''m'']" "nextEntries ex_deposit \<noteq> []"
    by (simp_all add: nextEntries_def nextEntry_def ex_deposit_def ex_transaction_def ex_entry_def js_set_def set_add_def)
  moreover have "filter (\<lambda>e. entry_transactionId e = ''t1'') (nextEntries ex_deposit) = nextEntries ex_deposit"
    using named by simp
  moreover have "lctx_firmId (lx_context ''u'') = ''f''" by (simp add: lx_context_def)
  ultimately have "assertLedgerTransactionApprovalAccess (lx_context ''u'') lx_posted ''t1'' = Inr [''m'']"
    using lx_access(2) [of "''u''"] by (simp add: assertLedgerTransactionApprovalAccess_def)
  from approval_is_stored [of "lx_context ''u''" lx_posted ?p, unfolded ids, OF this, of lx_date lx_approval lx_hash] show ?thesis
    by (simp add: lx_posts lx_reviews_def lx_approval_def ledgerApprovalBodySchema_def optional_ok_def approval_of_def
        lx_context_def ex_user_def)
qed

lemma lx_approved_reachable:
  assumes "approveTransactionRoute lx_hash lx_date (lx_context ''u'') ''t1'' lx_approval lx_posted = (Inr a, t)"
  shows "reachable empty_ledger_api (ledger_api_step lx_hash lx_date) t"
  by (rule reach_step [OF lx_posted_reachable]) (rule call_decide [OF lx_authenticated assms], simp)

theorem review_records_fit_the_ledger_witness:
  "\<exists>(t :: LedgerReviewApi) a. lrs_approvals (lapi_reviews t) = [a] \<and> appr_decidedByUserId a = ''u''
     \<and> (\<exists>p \<in> set (store_postedTransactions (lapi_ledger t)). posted_firmId p = ''f'' \<and> posted_id p = ''t1'')"
proof -
  obtain t a where t: "approveTransactionRoute lx_hash lx_date (lx_context ''u'') ''t1'' lx_approval lx_posted = (Inr a, t)"
    "appr_firmId a = ''f''" "appr_decidedByUserId a = ''u''" "appr_transactionId a = ''t1''" "lrs_approvals (lapi_reviews t) = [a]"
    using lx_approves by blast
  from review_records_fit_the_ledger [OF lx_approved_reachable [OF t(1)] lx_dates(3), THEN conjunct1] have
    "\<exists>p \<in> set (store_postedTransactions (lapi_ledger t)). posted_firmId p = ''f'' \<and> posted_id p = ''t1''"
    by (simp add: t(2-))
  then show ?thesis using t(3,5) by blast
qed

theorem journal_shows_decisions_witness:
  "\<exists>t :: LedgerReviewApi. mset (entries_of_action ''ledger.transaction_approval.decided'' (jour_entries (buildFinancialCommandJournal (\<lambda>a b. 0)
     (listMemoryAuditEvents lx_hash (lapi_audit t) ''f'') None))) = {#(''u'', ''id'', ''approved'')#}"
proof -
  obtain t a where t: "approveTransactionRoute lx_hash lx_date (lx_context ''u'') ''t1'' lx_approval lx_posted = (Inr a, t)"
    "appr_firmId a = ''f''" "appr_decidedByUserId a = ''u''" "appr_id a = ''id''" "appr_decision a = Approval_approved"
    "lrs_approvals (lapi_reviews t) = [a]"
    using lx_approves by blast
  from journal_shows_decisions [OF lx_approved_reachable [OF t(1)] lx_dates(3)] show ?thesis
    using t(2-) by (intro exI [where x = t]) simp
qed

subsection \<open>A worked approval\<close>

lemma lx_prepares:
  "\<exists>t. preparePostingRequestRoute lx_hash lx_date (lx_context ''maker'') lx_payment lx_posted = (Inr (ex_posting_request ''r1'' ex_payment), t)
     \<and> lapi_ledger t = (lapi_ledger lx_posted)\<lparr>store_ledgerPostingRequests := [ex_posting_request ''r1'' ex_payment]\<rparr>"
proof -
  let ?t = "ex_payment\<lparr>tx_postedByUserId := ''maker''\<rparr>"
  have built: "posting_request_input (lx_context ''maker'') lx_payment = (ex_posting_input ''r1'' ex_payment)\<lparr>pin_transaction := ?t\<rparr>"
    by (simp add: posting_request_input_def lx_payment_def buildProposedTransaction_def lx_post_def lx_entry_def entry_of_body_def
        lx_context_def ex_user_def ex_posting_input_def ex_ledger_defs)
  have "ledgerRequestFingerprint ?t = ledgerRequestFingerprint ex_payment"
    by (simp add: ledgerRequestFingerprint_inject same_payload_def)
  then have request: "ledgerPostingRequestFromTransaction ((ex_posting_input ''r1'' ex_payment)\<lparr>pin_transaction := ?t\<rparr>)
      = Inr (ex_posting_request ''r1'' ex_payment)"
    using ex_posting_request_built by (simp add: ledgerPostingRequestFromTransaction_def effectiveFingerprint_def ex_posting_input_def)
  have schema: "preparePostingRequestBodySchema lx_date lx_payment"
    by (simp add: preparePostingRequestBodySchema_def proposedLedgerTransactionSchema_def ledgerEntrySchema_def lx_payment_def
        lx_post_def lx_entry_def optional_ok_def min_one_def lx_dates)
  have scope: "checkLedgerTransactionScope (lx_context ''maker'') lx_posted ?t = Inr ()"
    by (rule lx_scope [OF _ _ _ lx_posts(2)]) (auto simp: ex_payment_def ex_transaction_def)
  have matters: "js_set (map entry_matterId (tx_entries ex_payment)) = [''m'']"
    by (simp add: ex_payment_def ex_transaction_def ex_entry_def js_set_def set_add_def)
  have prepares: "prepareMemoryLedgerPostingRequest (lapi_ledger lx_posted) (ex_posting_request ''r1'' ex_payment) =
      (Inr (ex_posting_request ''r1'' ex_payment), (lapi_ledger lx_posted)\<lparr>store_ledgerPostingRequests := [ex_posting_request ''r1'' ex_payment]\<rparr>)"
    by (simp add: prepareMemoryLedgerPostingRequest_def ex_request_valid findPostingDuplicate_def lx_posts(2))
  show ?thesis
    using schema scope prepares lx_access(1) [of "''maker''"]
    by (simp add: preparePostingRequestRoute_def parseRequestPart_def throw_if_def built request matters
        assertPostingRequestMatterAccess_def)
qed

definition lx_review :: ApprovePostingRequestBody where
  "lx_review = \<lparr>apb_reviewedAt = Some ''2026-01-02'', apb_reviewNotes = None\<rparr>"

lemma lx_request_approved:
  assumes "lapi_ledger t = (lapi_ledger lx_posted)\<lparr>store_ledgerPostingRequests := [ex_posting_request ''r1'' ex_payment]\<rparr>"
  shows "is_ok (fst (approvePostingRequestRoute lx_hash lx_date (lx_context ''checker'') ''r1'' lx_review t))"
proof -
  let ?q = "ex_posting_request ''r1'' ex_payment"
  have q: "preq_firmId ?q = ''f''" "preq_id ?q = ''r1''" "preq_matterIds ?q = [''m'']" "preq_preparedByUserId ?q = ''maker''"
    by (simp_all add: ex_posting_request_def) (simp add: ex_payment_def ex_transaction_def)
  then have get: "getMemoryLedgerPostingRequest (lapi_ledger t) ''f'' ''r1'' = Some ?q"
    by (simp add: getMemoryLedgerPostingRequest_def assms)
  have "posting_state (lapi_ledger t) = ex_state"
    by (simp add: posting_state_def assms lx_posts(2)) (simp add: lx_store_def ex_store_def ex_state_def)
  from ex_approves_in [OF get this] have approves: "is_ok (fst (approveMemoryLedgerPostingRequest (lapi_ledger t) ''f'' ''r1'' ex_review))" .
  have ctx: "lctx_firmId (lx_context i) = ''f''" "user_id (lctx_user (lx_context i)) = i" for i
    by (simp_all add: lx_context_def)
  have input: "review_input (lx_context ''checker'') lx_review = ex_review"
    by (simp add: review_input_def lx_review_def ex_review_def ctx)
  have schema: "approvePostingRequestBodySchema lx_date lx_review"
  proof -
    have "lx_date ''2026-01-02''" by code_simp
    then show ?thesis by (simp add: approvePostingRequestBodySchema_def lx_review_def optional_ok_def)
  qed
  have fresh: "requireFreshAuth (lx_context ''checker'') = Inr ()"
    using lx_dates(1) by (auto simp: requireFreshAuth_def lx_context_def throw_if_def FRESH_AUTH_MAX_AGE_MS_def js_less_def)
  have "getAuthorizedPostingRequestForDecision (lx_context ''checker'') t ''r1'' = Inr ?q"
    using lx_access(2) [of "''checker''"]
    by (simp add: getAuthorizedPostingRequestForDecision_def ctx get q assertPostingRequestMatterAccess_def)
  moreover have "decision_check (lx_context ''checker'') ?q = Inr ()"
    using fresh q unfolding decision_check_def run_checks_ok by (simp add: ctx)
  ultimately show ?thesis
    using approves schema
    by (cases "approveMemoryLedgerPostingRequest (lapi_ledger t) ''f'' ''r1'' ex_review")
      (auto simp: approvePostingRequestRoute_def parseRequestPart_def throw_if_def min_one_def ctx input is_ok_iff)
qed

theorem posting_needs_fresh_checker_witness:
  "\<exists>(t :: LedgerReviewApi) (q :: LedgerPostingRequestRecord). preq_status q = Posting_posted
     \<and> (\<exists>p \<in> set (store_postedTransactions (lapi_ledger t)). preq_ledgerTransactionId q = Some (posted_id p))
     \<and> (\<exists>e \<in> set (aud_events (lapi_audit t)). aud_action e = ''ledger.posting_request.approved'' \<and> aud_actorId e = ''checker'')"
proof -
  obtain s where s: "preparePostingRequestRoute lx_hash lx_date (lx_context ''maker'') lx_payment lx_posted
      = (Inr (ex_posting_request ''r1'' ex_payment), s)"
    "lapi_ledger s = (lapi_ledger lx_posted)\<lparr>store_ledgerPostingRequests := [ex_posting_request ''r1'' ex_payment]\<rparr>"
    using lx_prepares by blast
  obtain q t where t: "approvePostingRequestRoute lx_hash lx_date (lx_context ''checker'') ''r1'' lx_review s = (Inr q, t)"
    using lx_request_approved [OF s(2)] by (metis is_ok_iff prod.collapse)
  have "reachable empty_ledger_api (ledger_api_step lx_hash lx_date) s"
    by (rule reach_step [OF lx_posted_reachable]) (rule call_prepare [OF lx_authenticated s(1)], simp)
  moreover have "authenticated (lx_context ''checker'')" by (rule lx_authenticated) simp
  moreover have name: "user_id (lctx_user (lx_context ''checker'')) = ''checker''" by (simp add: lx_context_def)
  ultimately have run: "reachable empty_ledger_api (ledger_api_step lx_hash lx_date) s" "authenticated (lx_context ''checker'')" by simp_all
  have "preq_status q = Posting_posted" "\<exists>p \<in> set (store_postedTransactions (lapi_ledger t)). preq_ledgerTransactionId q = Some (posted_id p)"
    "\<forall>action \<in> {''ledger.transaction.posted'', ''ledger.posting_request.approved''}.
         \<exists>e \<in> set (aud_events (lapi_audit t)). aud_action e = action \<and> aud_actorId e = ''checker''"
    using posting_needs_fresh_checker [OF run(1) lx_dates(3) run(2) t] unfolding name by blast+
  then show ?thesis by blast
qed

end
