(* ===== verification/Billing_Entries.thy ===== *)
theory Billing_Entries
  imports Billing_Controls Invoice_Store
begin

section \<open>The store of time and expense entries\<close>

text \<open>
  packages/database/src/repository/billing-entries/memory.ts: time entries, expense entries and the
  expense categories of a firm. A \<open>Partial<...>\<close> of updates is a record of options; an update that is
  present and undefined, which clears a field, is \<open>Some None\<close>. \<open>collate\<close> is \<open>localeCompare\<close>.
\<close>

subsection \<open>Entries\<close>

record MemoryBillingEntriesStore =
  ent_timeEntries :: "TimeEntry list"
  ent_expenseEntries :: "ExpenseEntry list"
  ent_billingExpenseCategories :: "BillingExpenseCategoryRecord list"

record TimeEntryUpdates =
  tup_performedAt :: "string option"
  tup_minutes :: "int option"
  tup_rateCents :: "int option"
  tup_rateRuleId :: "string option option"
  tup_rateSnapshot :: "BillingRateSnapshot option"
  tup_narrative :: "string option"
  tup_billable :: "bool option"
  tup_billingStatus :: "BillingStatus option"

record ExpenseEntryUpdates =
  eup_incurredAt :: "string option"
  eup_amountCents :: "int option"
  eup_category :: "string option"
  eup_categoryCode :: "string option"
  eup_description :: "string option"
  eup_reimbursable :: "bool option"
  eup_billingStatus :: "BillingStatus option"

definition no_time_updates :: TimeEntryUpdates where
  "no_time_updates = \<lparr>tup_performedAt = None, tup_minutes = None, tup_rateCents = None, tup_rateRuleId = None,
     tup_rateSnapshot = None, tup_narrative = None, tup_billable = None, tup_billingStatus = None\<rparr>"

definition no_expense_updates :: ExpenseEntryUpdates where
  "no_expense_updates = \<lparr>eup_incurredAt = None, eup_amountCents = None, eup_category = None, eup_categoryCode = None,
     eup_description = None, eup_reimbursable = None, eup_billingStatus = None\<rparr>"

definition with_time_updates :: "TimeEntryUpdates \<Rightarrow> TimeEntry \<Rightarrow> TimeEntry" where
  "with_time_updates updates entry = entry
     \<lparr>time_performedAt := or_else (tup_performedAt updates) (time_performedAt entry),
      time_minutes := or_else (tup_minutes updates) (time_minutes entry),
      time_rateCents := or_else (tup_rateCents updates) (time_rateCents entry),
      time_rateRuleId := or_else (tup_rateRuleId updates) (time_rateRuleId entry),
      time_rateSnapshot := (case tup_rateSnapshot updates of None \<Rightarrow> time_rateSnapshot entry | Some s \<Rightarrow> Some s),
      time_narrative := or_else (tup_narrative updates) (time_narrative entry),
      time_billable := or_else (tup_billable updates) (time_billable entry),
      time_billingStatus := or_else (tup_billingStatus updates) (time_billingStatus entry)\<rparr>"

definition with_expense_updates :: "ExpenseEntryUpdates \<Rightarrow> ExpenseEntry \<Rightarrow> ExpenseEntry" where
  "with_expense_updates updates entry = entry
     \<lparr>exp_incurredAt := or_else (eup_incurredAt updates) (exp_incurredAt entry),
      exp_amountCents := or_else (eup_amountCents updates) (exp_amountCents entry),
      exp_category := or_else (eup_category updates) (exp_category entry),
      exp_categoryCode := (case eup_categoryCode updates of None \<Rightarrow> exp_categoryCode entry | Some c \<Rightarrow> Some c),
      exp_description := or_else (eup_description updates) (exp_description entry),
      exp_reimbursable := or_else (eup_reimbursable updates) (exp_reimbursable entry),
      exp_billingStatus := or_else (eup_billingStatus updates) (exp_billingStatus entry)\<rparr>"

definition is_time_entry :: "string \<Rightarrow> string \<Rightarrow> TimeEntry \<Rightarrow> bool" where
  "is_time_entry firmId entryId entry = (time_firmId entry = firmId \<and> time_id entry = entryId)"

definition is_expense_entry :: "string \<Rightarrow> string \<Rightarrow> ExpenseEntry \<Rightarrow> bool" where
  "is_expense_entry firmId entryId entry = (exp_firmId entry = firmId \<and> exp_id entry = entryId)"

definition listMemoryTimeEntries ::
  "MemoryBillingEntriesStore \<Rightarrow> string \<Rightarrow> MatterOptions \<Rightarrow> BillingStatus option \<Rightarrow> TimeEntry list" where
  "listMemoryTimeEntries store firmId options status =
     (if hasEmptyMatterIds options then []
      else filter (\<lambda>entry. time_firmId entry = firmId \<and> matchesBillingMatter (time_matterId entry) options
             \<and> (status = None \<or> Some (time_billingStatus entry) = status)) (ent_timeEntries store))"

definition getMemoryTimeEntry :: "MemoryBillingEntriesStore \<Rightarrow> string \<Rightarrow> string \<Rightarrow> TimeEntry option" where
  "getMemoryTimeEntry store firmId entryId = List.find (is_time_entry firmId entryId) (ent_timeEntries store)"

definition createMemoryTimeEntry :: "MemoryBillingEntriesStore \<Rightarrow> TimeEntry \<Rightarrow> TimeEntry \<times> MemoryBillingEntriesStore" where
  "createMemoryTimeEntry store entry = (entry, store\<lparr>ent_timeEntries := ent_timeEntries store @ [entry]\<rparr>)"

definition updateMemoryTimeEntry ::
  "MemoryBillingEntriesStore \<Rightarrow> string \<Rightarrow> string \<Rightarrow> TimeEntryUpdates \<Rightarrow> TimeEntry result \<times> MemoryBillingEntriesStore" where
  "updateMemoryTimeEntry store firmId entryId updates =
     (case List.find (is_time_entry firmId entryId) (ent_timeEntries store) of
        None \<Rightarrow> (throw ''Time entry was not found'', store)
      | Some entry \<Rightarrow>
          (Inr (with_time_updates updates entry),
           store\<lparr>ent_timeEntries :=
             update_first (is_time_entry firmId entryId) (with_time_updates updates) (ent_timeEntries store)\<rparr>))"

definition listMemoryExpenseEntries ::
  "MemoryBillingEntriesStore \<Rightarrow> string \<Rightarrow> MatterOptions \<Rightarrow> BillingStatus option \<Rightarrow> ExpenseEntry list" where
  "listMemoryExpenseEntries store firmId options status =
     (if hasEmptyMatterIds options then []
      else filter (\<lambda>entry. exp_firmId entry = firmId \<and> matchesBillingMatter (exp_matterId entry) options
             \<and> (status = None \<or> Some (exp_billingStatus entry) = status)) (ent_expenseEntries store))"

definition getMemoryExpenseEntry :: "MemoryBillingEntriesStore \<Rightarrow> string \<Rightarrow> string \<Rightarrow> ExpenseEntry option" where
  "getMemoryExpenseEntry store firmId entryId = List.find (is_expense_entry firmId entryId) (ent_expenseEntries store)"

definition createMemoryExpenseEntry :: "MemoryBillingEntriesStore \<Rightarrow> ExpenseEntry \<Rightarrow> ExpenseEntry \<times> MemoryBillingEntriesStore" where
  "createMemoryExpenseEntry store entry = (entry, store\<lparr>ent_expenseEntries := ent_expenseEntries store @ [entry]\<rparr>)"

definition updateMemoryExpenseEntry ::
  "MemoryBillingEntriesStore \<Rightarrow> string \<Rightarrow> string \<Rightarrow> ExpenseEntryUpdates \<Rightarrow> ExpenseEntry result \<times> MemoryBillingEntriesStore" where
  "updateMemoryExpenseEntry store firmId entryId updates =
     (case List.find (is_expense_entry firmId entryId) (ent_expenseEntries store) of
        None \<Rightarrow> (throw ''Expense entry was not found'', store)
      | Some entry \<Rightarrow>
          (Inr (with_expense_updates updates entry),
           store\<lparr>ent_expenseEntries :=
             update_first (is_expense_entry firmId entryId) (with_expense_updates updates) (ent_expenseEntries store)\<rparr>))"

subsection \<open>Expense categories\<close>

record ExpenseCategoryUpdates =
  cup_label :: "string option"
  cup_active :: "bool option"
  cup_defaultReimbursable :: "bool option"
  cup_reimbursableAllowed :: "bool option"
  cup_matterId :: "string option"
  cup_practiceAreas :: "string list option"
  cup_jurisdictions :: "Province list option"
  cup_reviewCue :: "string option"
  cup_updatedByUserId :: string
  cup_updatedAt :: string

definition with_category_updates :: "ExpenseCategoryUpdates \<Rightarrow> BillingExpenseCategoryRecord \<Rightarrow> BillingExpenseCategoryRecord" where
  "with_category_updates updates category = category
     \<lparr>ecat_label := or_else (cup_label updates) (ecat_label category),
      ecat_active := or_else (cup_active updates) (ecat_active category),
      ecat_defaultReimbursable := or_else (cup_defaultReimbursable updates) (ecat_defaultReimbursable category),
      ecat_reimbursableAllowed := or_else (cup_reimbursableAllowed updates) (ecat_reimbursableAllowed category),
      ecat_matterId := (case cup_matterId updates of None \<Rightarrow> ecat_matterId category | Some m \<Rightarrow> Some m),
      ecat_practiceAreas := or_else (cup_practiceAreas updates) (ecat_practiceAreas category),
      ecat_jurisdictions := or_else (cup_jurisdictions updates) (ecat_jurisdictions category),
      ecat_reviewCue := (case cup_reviewCue updates of None \<Rightarrow> ecat_reviewCue category | Some c \<Rightarrow> Some c),
      ecat_updatedByUserId := Some (cup_updatedByUserId updates), ecat_updatedAt := cup_updatedAt updates\<rparr>"

definition is_category :: "string \<Rightarrow> string \<Rightarrow> BillingExpenseCategoryRecord \<Rightarrow> bool" where
  "is_category firmId categoryId category = (ecat_firmId category = firmId \<and> ecat_id category = categoryId)"

definition listMemoryBillingExpenseCategories ::
  "(string \<Rightarrow> string \<Rightarrow> int) \<Rightarrow> MemoryBillingEntriesStore \<Rightarrow> string \<Rightarrow> bool \<Rightarrow> string option \<Rightarrow> BillingExpenseCategoryRecord list" where
  "listMemoryBillingExpenseCategories collate store firmId activeOnly matterId =
     js_sort (\<lambda>left right. collate (ecat_code left) (ecat_code right))
       (filter (\<lambda>category. ecat_firmId category = firmId \<and> (\<not> activeOnly \<or> ecat_active category)
            \<and> (\<not> truthy matterId \<or> \<not> truthy (ecat_matterId category) \<or> ecat_matterId category = matterId))
         (ent_billingExpenseCategories store))"

definition getMemoryBillingExpenseCategory ::
  "MemoryBillingEntriesStore \<Rightarrow> string \<Rightarrow> string \<Rightarrow> BillingExpenseCategoryRecord option" where
  "getMemoryBillingExpenseCategory store firmId categoryId =
     List.find (is_category firmId categoryId) (ent_billingExpenseCategories store)"

definition getMemoryBillingExpenseCategoryByCode ::
  "MemoryBillingEntriesStore \<Rightarrow> string \<Rightarrow> string \<Rightarrow> BillingExpenseCategoryRecord option" where
  "getMemoryBillingExpenseCategoryByCode store firmId code =
     List.find (\<lambda>category. ecat_firmId category = firmId \<and> ecat_code category = normalizeExpenseCategoryCode code)
       (ent_billingExpenseCategories store)"

definition createMemoryBillingExpenseCategory ::
  "MemoryBillingEntriesStore \<Rightarrow> BillingExpenseCategoryRecord \<Rightarrow> BillingExpenseCategoryRecord result \<times> MemoryBillingEntriesStore" where
  "createMemoryBillingExpenseCategory store category =
     (case validateBillingExpenseCategory category of
        Inl e \<Rightarrow> (Inl e, store)
      | Inr _ \<Rightarrow>
          if list_ex (\<lambda>candidate. ecat_firmId candidate = ecat_firmId category \<and> ecat_code candidate = ecat_code category)
               (ent_billingExpenseCategories store)
          then (throw ''Billing expense category code already exists'', store)
          else (Inr category,
                store\<lparr>ent_billingExpenseCategories := ent_billingExpenseCategories store @ [category]\<rparr>))"

definition updateMemoryBillingExpenseCategory ::
  "MemoryBillingEntriesStore \<Rightarrow> string \<Rightarrow> string \<Rightarrow> ExpenseCategoryUpdates
   \<Rightarrow> BillingExpenseCategoryRecord result \<times> MemoryBillingEntriesStore" where
  "updateMemoryBillingExpenseCategory store firmId categoryId updates =
     (case List.find (is_category firmId categoryId) (ent_billingExpenseCategories store) of
        None \<Rightarrow> (throw ''Billing expense category was not found'', store)
      | Some existing \<Rightarrow>
          (case validateBillingExpenseCategory (with_category_updates updates existing) of
             Inl e \<Rightarrow> (Inl e, store)
           | Inr _ \<Rightarrow>
               (Inr (with_category_updates updates existing),
                store\<lparr>ent_billingExpenseCategories :=
                  update_first (is_category firmId categoryId) (with_category_updates updates) (ent_billingExpenseCategories store)\<rparr>)))"

end
