(* ===== verification/Billing_Api.thy ===== *)
theory Billing_Api
  imports Billing_Entries Ledger_Api
begin

section \<open>The routes of billing controls, time entries and expenses\<close>

text \<open>
  apps/api/src/routes/billing: shared.ts, controls.ts, time-entries.ts and expenses.ts, over the entries,
  the invoices, the billing controls and the audit log. As in \<open>Ledger_Api\<close> a route takes the request
  context and the body and returns its answer with the state it leaves; a body is what the parser of zod
  returns, with the defaults the parser fills in; an error is its code, or its message when it has
  none. Users and matters are read only.
\<close>

subsection \<open>State and requests\<close>

record BillingApi =
  bapi_entries :: MemoryBillingEntriesStore
  bapi_books :: MemoryBillingInvoicePaymentStore
  bapi_controls :: MemoryBillingControlsStore
  bapi_users :: "User list"
  bapi_matters :: "Matter list"
  bapi_audit :: MemoryAuditStore

record PeriodLockBody =
  plb_id :: "string option"
  plb_periodStart :: string
  plb_periodEnd :: string
  plb_reason :: "string option"

record RateRuleBody =
  rlb_id :: "string option"
  rlb_label :: string
  rlb_matterId :: "string option"
  rlb_userId :: "string option"
  rlb_role :: "string option"
  rlb_rateCents :: int
  rlb_effectiveFrom :: "string option"
  rlb_effectiveUntil :: "string option"
  rlb_active :: bool

record ExpenseCategoryBody =
  ecb_id :: "string option"
  ecb_code :: string
  ecb_label :: string
  ecb_active :: bool
  ecb_defaultReimbursable :: bool
  ecb_reimbursableAllowed :: bool
  ecb_matterId :: "string option"
  ecb_practiceAreas :: "string list"
  ecb_jurisdictions :: "Province list"
  ecb_reviewCue :: "string option"

record ExpenseCategoryPatchBody =
  ecp_label :: "string option"
  ecp_active :: "bool option"
  ecp_defaultReimbursable :: "bool option"
  ecp_reimbursableAllowed :: "bool option"
  ecp_matterId :: "string option"
  ecp_practiceAreas :: "string list option"
  ecp_jurisdictions :: "Province list option"
  ecp_reviewCue :: "string option"

record TimeEntryBody =
  teb_id :: "string option"
  teb_matterId :: string
  teb_userId :: "string option"
  teb_performedAt :: "string option"
  teb_minutes :: int
  teb_rateCents :: "int option"
  teb_narrative :: string
  teb_billable :: bool
  teb_billingStatus :: BillingStatus

record TimeEntryPatchBody =
  tpb_performedAt :: "string option"
  tpb_minutes :: "int option"
  tpb_rateCents :: "int option"
  tpb_narrative :: "string option"
  tpb_billable :: "bool option"
  tpb_billingStatus :: "BillingStatus option"

record TimerDraftBody =
  tdb_id :: "string option"
  tdb_matterId :: string
  tdb_userId :: "string option"
  tdb_startedAt :: string
  tdb_stoppedAt :: string
  tdb_rateCents :: "int option"
  tdb_narrative :: string
  tdb_billable :: bool

record ExpenseReviewDraftBody =
  eeb_id :: "string option"
  eeb_matterId :: string
  eeb_incurredAt :: "string option"
  eeb_amountCents :: int
  eeb_categoryCode :: string
  eeb_description :: string
  eeb_reimbursable :: "bool option"

record ExpenseEntryBody = ExpenseReviewDraftBody +
  eeb_billingStatus :: BillingStatus

record ExpenseEntryPatchBody =
  epb_incurredAt :: "string option"
  epb_amountCents :: "int option"
  epb_categoryCode :: "string option"
  epb_description :: "string option"
  epb_reimbursable :: "bool option"
  epb_billingStatus :: "BillingStatus option"

datatype EntryTransition = Route_submit | Route_approve | Route_write_off

subsection \<open>Access, locks and rates\<close>

definition to_upper_case :: "string \<Rightarrow> string" where
  "to_upper_case text = map (\<lambda>c. if 97 \<le> (of_char c :: nat) \<and> of_char c \<le> (122 :: nat)
     then char_of ((of_char c :: nat) - 32) else c) text"

definition assertMatterAccess :: "LedgerContext \<Rightarrow> ResourceKind \<Rightarrow> Action \<Rightarrow> string option \<Rightarrow> unit result" where
  "assertMatterAccess ctx resource action matterId =
     throw_if (\<not> canAccess (lctx_now ctx)
        \<lparr>req_user = lctx_user ctx, req_resource = resource, req_action = action, req_firmId = lctx_firmId ctx,
         req_matterId = matterId, req_contactId = None, req_portalGrants = None, req_now = None\<rparr>)
       (to_upper_case (resource_name resource) @ ''_ACCESS_REQUIRED'')"

definition hasFirmWideLedgerAccess :: "User \<Rightarrow> bool" where
  "hasFirmWideLedgerAccess user = (user_role user \<in> {Role_owner_admin, Role_auditor, Role_billing_bookkeeper})"

definition assertBillingControlAccess :: "LedgerContext \<Rightarrow> Action \<Rightarrow> unit result" where
  "assertBillingControlAccess ctx action = run_checks
     [assertMatterAccess ctx Res_trust_ledger action None,
      throw_if (\<not> hasFirmWideLedgerAccess (lctx_user ctx)) ''BILLING_CONTROLS_ACCESS_REQUIRED'']"

definition lockedBillingPeriodForTimestamp :: "string \<Rightarrow> BillingPeriodLockRecord list \<Rightarrow> BillingPeriodLockRecord option" where
  "lockedBillingPeriodForTimestamp timestamp locks = List.find (billingDateFallsInsideLock timestamp) locks"

definition assertBillingTimestampUnlocked ::
  "(string \<Rightarrow> string \<Rightarrow> int) \<Rightarrow> BillingApi \<Rightarrow> string \<Rightarrow> string \<Rightarrow> string \<Rightarrow> unit result" where
  "assertBillingTimestampUnlocked collate api firmId timestamp label =
     (case lockedBillingPeriodForTimestamp timestamp (listMemoryBillingPeriodLocks collate (bapi_controls api) firmId) of
        None \<Rightarrow> Inr ()
      | Some lockedPeriod \<Rightarrow> throw (label @ '' is inside locked billing period '' @ lock_periodStart lockedPeriod @ '' to ''
          @ lock_periodEnd lockedPeriod))"

definition assertBillingTimerWindowUnlocked ::
  "(string \<Rightarrow> string \<Rightarrow> int) \<Rightarrow> BillingApi \<Rightarrow> string \<Rightarrow> string \<Rightarrow> string \<Rightarrow> unit result" where
  "assertBillingTimerWindowUnlocked collate api firmId startedAt stoppedAt =
     bind_result (billingTimerWindowOverlapsLock startedAt stoppedAt
         (listMemoryBillingPeriodLocks collate (bapi_controls api) firmId)) (\<lambda>locked.
       case locked of
         None \<Rightarrow> Inr ()
       | Some lockedPeriod \<Rightarrow> throw (''Timer window overlaps locked billing period '' @ lock_periodStart lockedPeriod
           @ '' to '' @ lock_periodEnd lockedPeriod))"

record ResolvedRate =
  rate_cents :: int
  rate_ruleId :: "string option"
  rate_snapshot :: BillingRateSnapshot

definition manual_snapshot :: "int \<Rightarrow> string \<Rightarrow> BillingRateSnapshot" where
  "manual_snapshot rateCents resolvedAt = \<lparr>rsnap_source = Source_manual, rsnap_rateCents = rateCents,
     rsnap_resolvedAt = resolvedAt, rsnap_rateRuleId = None, rsnap_label = None, rsnap_scope = None,
     rsnap_matterId = None, rsnap_userId = None, rsnap_role = None\<rparr>"

definition snapshotFromRateRule :: "BillingRateRuleRecord \<Rightarrow> string \<Rightarrow> BillingRateSnapshot" where
  "snapshotFromRateRule rule resolvedAt = \<lparr>rsnap_source = Source_rate_rule, rsnap_rateCents = rate_rateCents rule,
     rsnap_resolvedAt = resolvedAt, rsnap_rateRuleId = Some (rate_id rule), rsnap_label = Some (rate_label rule),
     rsnap_scope = Some (rate_scope rule), rsnap_matterId = rate_matterId rule, rsnap_userId = rate_userId rule,
     rsnap_role = rate_role rule\<rparr>"

definition timekeeper :: "LedgerContext \<Rightarrow> BillingApi \<Rightarrow> string \<Rightarrow> User option" where
  "timekeeper ctx api userId =
     (if userId = user_id (lctx_user ctx) then Some (lctx_user ctx)
      else List.find (\<lambda>user. user_firmId user = lctx_firmId ctx \<and> user_id user = userId) (bapi_users api))"

definition resolveTimeEntryRate ::
  "(string \<Rightarrow> string \<Rightarrow> int) \<Rightarrow> LedgerContext \<Rightarrow> BillingApi \<Rightarrow> string \<Rightarrow> string \<Rightarrow> string \<Rightarrow> int option \<Rightarrow> string \<Rightarrow> ResolvedRate result" where
  "resolveTimeEntryRate collate ctx api matterId userId performedAt rateCents resolvedAt =
     (case rateCents of
        Some cents \<Rightarrow> Inr \<lparr>rate_cents = cents, rate_ruleId = None, rate_snapshot = manual_snapshot cents resolvedAt\<rparr>
      | None \<Rightarrow>
          (case resolveBillingRateRule
               (listMemoryBillingRateRules collate (bapi_controls api) (lctx_firmId ctx)
                  \<lparr>ropt_activeOnly = True, ropt_matterId = Some matterId, ropt_userId = Some userId\<rparr>)
               \<lparr>rin_matterId = matterId, rin_userId = userId,
                rin_role = map_option (\<lambda>user. role_name (user_role user)) (timekeeper ctx api userId),
                rin_performedAt = performedAt\<rparr> of
             None \<Rightarrow> throw ''Rate cents is required when no billing rate rule matches''
           | Some rule \<Rightarrow> Inr \<lparr>rate_cents = rate_rateCents rule, rate_ruleId = Some (rate_id rule),
               rate_snapshot = snapshotFromRateRule rule resolvedAt\<rparr>))"

definition record_event ::
  "(string \<Rightarrow> string) \<Rightarrow> LedgerContext \<Rightarrow> string \<Rightarrow> string \<Rightarrow> string \<Rightarrow> (string \<times> js_value) list \<Rightarrow> BillingApi \<Rightarrow> BillingApi" where
  "record_event sha256 ctx action resourceType resourceId metadata api =
     api\<lparr>bapi_audit := appendLedgerAuditEvent sha256 ctx (lctx_auditId ctx) action resourceType resourceId None metadata
           (bapi_audit api)\<rparr>"

subsection \<open>Billing controls\<close>

definition billingPeriodLockBodySchema :: "(string \<Rightarrow> bool) \<Rightarrow> PeriodLockBody \<Rightarrow> bool" where
  "billingPeriodLockBodySchema datetime body =
     (optional_ok min_one (plb_id body) \<and> datetime (plb_periodStart body) \<and> datetime (plb_periodEnd body)
      \<and> optional_ok min_one (plb_reason body))"

definition lock_of :: "LedgerContext \<Rightarrow> PeriodLockBody \<Rightarrow> BillingPeriodLockRecord" where
  "lock_of ctx body =
     \<lparr>lock_id = or_else (plb_id body) (lctx_uuid ctx), lock_firmId = lctx_firmId ctx, lock_periodStart = plb_periodStart body,
      lock_periodEnd = plb_periodEnd body, lock_reason = plb_reason body, lock_lockedByUserId = user_id (lctx_user ctx),
      lock_lockedAt = lctx_now ctx\<rparr>"

definition lockMetadata :: "BillingPeriodLockRecord \<Rightarrow> (string \<times> js_value) list" where
  "lockMetadata created =
     [(''billingPeriodLockId'', JStr (lock_id created)), (''periodStart'', JStr (lock_periodStart created)),
      (''periodEnd'', JStr (lock_periodEnd created)), (''reasonPresent'', JBool (truthy (lock_reason created)))]"

definition createPeriodLockRoute ::
  "(string \<Rightarrow> string) \<Rightarrow> (string \<Rightarrow> bool) \<Rightarrow> LedgerContext \<Rightarrow> PeriodLockBody \<Rightarrow> BillingApi \<Rightarrow> BillingPeriodLockRecord result \<times> BillingApi" where
  "createPeriodLockRoute sha256 datetime ctx body api =
     guarded (assertBillingControlAccess ctx Act_create) api (\<lambda>_.
     guarded (parseRequestPart (billingPeriodLockBodySchema datetime body)) api (\<lambda>_.
     case createMemoryBillingPeriodLock (bapi_controls api) (lock_of ctx body) of
       (Inl e, controls) \<Rightarrow> (Inl e, api\<lparr>bapi_controls := controls\<rparr>)
     | (Inr created, controls) \<Rightarrow>
         (Inr created, record_event sha256 ctx ''billing_period_lock.created'' ''billing_period_lock'' (lock_id created)
            (lockMetadata created) (api\<lparr>bapi_controls := controls\<rparr>))))"

definition billingRateRuleBodySchema :: "(string \<Rightarrow> bool) \<Rightarrow> RateRuleBody \<Rightarrow> bool" where
  "billingRateRuleBodySchema datetime body =
     (optional_ok min_one (rlb_id body) \<and> min_one (rlb_label body) \<and> optional_ok min_one (rlb_matterId body)
      \<and> optional_ok min_one (rlb_userId body) \<and> optional_ok min_one (rlb_role body) \<and> rlb_rateCents body \<ge> 0
      \<and> optional_ok datetime (rlb_effectiveFrom body) \<and> optional_ok datetime (rlb_effectiveUntil body))"

definition rate_rule_of :: "LedgerContext \<Rightarrow> RateRuleBody \<Rightarrow> BillingRateRuleRecord" where
  "rate_rule_of ctx body =
     \<lparr>rate_id = or_else (rlb_id body) (lctx_uuid ctx), rate_firmId = lctx_firmId ctx, rate_label = rlb_label body,
      rate_matterId = rlb_matterId body, rate_userId = rlb_userId body, rate_role = rlb_role body,
      rate_scope = billingRuleScope (rlb_matterId body) (rlb_userId body) (rlb_role body), rate_rateCents = rlb_rateCents body,
      rate_effectiveFrom = or_else (rlb_effectiveFrom body) (lctx_now ctx), rate_effectiveUntil = rlb_effectiveUntil body,
      rate_active = rlb_active body, rate_createdByUserId = user_id (lctx_user ctx), rate_createdAt = lctx_now ctx,
      rate_updatedAt = lctx_now ctx\<rparr>"

primrec rate_scope_name :: "BillingRateRuleScope \<Rightarrow> string" where
  "rate_scope_name Scope_firm = ''firm''"
| "rate_scope_name Scope_role = ''role''"
| "rate_scope_name Scope_user = ''user''"
| "rate_scope_name Scope_matter = ''matter''"
| "rate_scope_name Scope_matter_user = ''matter_user''"

definition rateRuleMetadata :: "BillingRateRuleRecord \<Rightarrow> (string \<times> js_value) list" where
  "rateRuleMetadata created =
     [(''billingRateRuleId'', JStr (rate_id created)), (''scope'', JStr (rate_scope_name (rate_scope created))),
      (''matterId'', text_value (rate_matterId created)), (''userId'', text_value (rate_userId created)),
      (''role'', text_value (rate_role created)), (''rateCents'', JNum (rate_rateCents created)),
      (''active'', JBool (rate_active created))]"

definition createRateRuleRoute ::
  "(string \<Rightarrow> string) \<Rightarrow> (string \<Rightarrow> bool) \<Rightarrow> LedgerContext \<Rightarrow> RateRuleBody \<Rightarrow> BillingApi \<Rightarrow> BillingRateRuleRecord result \<times> BillingApi" where
  "createRateRuleRoute sha256 datetime ctx body api =
     guarded (assertBillingControlAccess ctx Act_create) api (\<lambda>_.
     guarded (parseRequestPart (billingRateRuleBodySchema datetime body)) api (\<lambda>_.
     case createMemoryBillingRateRule (bapi_controls api) (rate_rule_of ctx body) of
       (Inl e, controls) \<Rightarrow> (Inl e, api\<lparr>bapi_controls := controls\<rparr>)
     | (Inr created, controls) \<Rightarrow>
         (Inr created, record_event sha256 ctx ''billing_rate_rule.created'' ''billing_rate_rule'' (rate_id created)
            (rateRuleMetadata created) (api\<lparr>bapi_controls := controls\<rparr>))))"

definition uniqueTrimmed :: "string list \<Rightarrow> string list" where
  "uniqueTrimmed values = js_set (filter (\<lambda>value. value \<noteq> []) (map trim values))"

definition expenseCategoryAuditMetadata :: "BillingExpenseCategoryRecord \<Rightarrow> (string \<times> js_value) list" where
  "expenseCategoryAuditMetadata category =
     [(''billingExpenseCategoryId'', JStr (ecat_id category)), (''code'', JStr (ecat_code category)),
      (''active'', JBool (ecat_active category)), (''matterId'', text_value (ecat_matterId category)),
      (''practiceAreaCount'', JNum (int (length (ecat_practiceAreas category)))),
      (''jurisdictionCount'', JNum (int (length (ecat_jurisdictions category)))),
      (''reimbursableAllowed'', JBool (ecat_reimbursableAllowed category))]"

definition billingExpenseCategoryBodySchema :: "ExpenseCategoryBody \<Rightarrow> bool" where
  "billingExpenseCategoryBodySchema body =
     (optional_ok min_one (ecb_id body) \<and> min_one (ecb_code body) \<and> min_one (ecb_label body)
      \<and> optional_ok min_one (ecb_matterId body) \<and> list_all min_one (ecb_practiceAreas body)
      \<and> optional_ok min_one (ecb_reviewCue body))"

definition category_of :: "LedgerContext \<Rightarrow> ExpenseCategoryBody \<Rightarrow> BillingExpenseCategoryRecord" where
  "category_of ctx body =
     \<lparr>ecat_id = or_else (ecb_id body) (lctx_uuid ctx), ecat_firmId = lctx_firmId ctx,
      ecat_code = normalizeExpenseCategoryCode (ecb_code body), ecat_label = trim (ecb_label body),
      ecat_active = ecb_active body, ecat_defaultReimbursable = ecb_defaultReimbursable body,
      ecat_reimbursableAllowed = ecb_reimbursableAllowed body, ecat_matterId = ecb_matterId body,
      ecat_practiceAreas = uniqueTrimmed (ecb_practiceAreas body), ecat_jurisdictions = js_set (ecb_jurisdictions body),
      ecat_reviewCue = map_option trim (ecb_reviewCue body), ecat_createdByUserId = Some (user_id (lctx_user ctx)),
      ecat_updatedByUserId = Some (user_id (lctx_user ctx)), ecat_createdAt = lctx_now ctx, ecat_updatedAt = lctx_now ctx\<rparr>"

definition createExpenseCategoryRoute ::
  "(string \<Rightarrow> string) \<Rightarrow> LedgerContext \<Rightarrow> ExpenseCategoryBody \<Rightarrow> BillingApi \<Rightarrow> BillingExpenseCategoryRecord result \<times> BillingApi" where
  "createExpenseCategoryRoute sha256 ctx body api =
     guarded (assertBillingControlAccess ctx Act_create) api (\<lambda>_.
     guarded (parseRequestPart (billingExpenseCategoryBodySchema body)) api (\<lambda>_.
     guarded (throw_if (ecb_code body \<noteq> normalizeExpenseCategoryCode (ecb_code body))
       ''BILLING_EXPENSE_CATEGORY_CODE_NORMALIZED'') api (\<lambda>_.
     guarded (throw_if (getMemoryBillingExpenseCategoryByCode (bapi_entries api) (lctx_firmId ctx)
         (normalizeExpenseCategoryCode (ecb_code body)) \<noteq> None) ''BILLING_EXPENSE_CATEGORY_CODE_EXISTS'') api (\<lambda>_.
     guarded (throw_if (\<not> ecb_reimbursableAllowed body \<and> ecb_defaultReimbursable body)
       ''BILLING_EXPENSE_CATEGORY_REIMBURSABLE_DEFAULT'') api (\<lambda>_.
     case createMemoryBillingExpenseCategory (bapi_entries api) (category_of ctx body) of
       (Inl e, entries) \<Rightarrow> (Inl e, api\<lparr>bapi_entries := entries\<rparr>)
     | (Inr created, entries) \<Rightarrow>
         (Inr created, record_event sha256 ctx ''billing_expense_category.created'' ''billing_expense_category''
            (ecat_id created) (expenseCategoryAuditMetadata created) (api\<lparr>bapi_entries := entries\<rparr>)))))))"

definition billingExpenseCategoryPatchBodySchema :: "ExpenseCategoryPatchBody \<Rightarrow> bool" where
  "billingExpenseCategoryPatchBodySchema body =
     (optional_ok min_one (ecp_label body) \<and> optional_ok min_one (ecp_matterId body)
      \<and> (case ecp_practiceAreas body of None \<Rightarrow> True | Some areas \<Rightarrow> list_all min_one areas)
      \<and> optional_ok min_one (ecp_reviewCue body))"

definition category_updates :: "LedgerContext \<Rightarrow> ExpenseCategoryPatchBody \<Rightarrow> ExpenseCategoryUpdates" where
  "category_updates ctx body =
     \<lparr>cup_label = map_option trim (ecp_label body), cup_active = ecp_active body,
      cup_defaultReimbursable = ecp_defaultReimbursable body, cup_reimbursableAllowed = ecp_reimbursableAllowed body,
      cup_matterId = ecp_matterId body, cup_practiceAreas = map_option uniqueTrimmed (ecp_practiceAreas body),
      cup_jurisdictions = map_option js_set (ecp_jurisdictions body), cup_reviewCue = map_option trim (ecp_reviewCue body),
      cup_updatedByUserId = user_id (lctx_user ctx), cup_updatedAt = lctx_now ctx\<rparr>"

definition patchExpenseCategoryRoute ::
  "(string \<Rightarrow> string) \<Rightarrow> LedgerContext \<Rightarrow> string \<Rightarrow> ExpenseCategoryPatchBody \<Rightarrow> BillingApi \<Rightarrow> BillingExpenseCategoryRecord result \<times> BillingApi" where
  "patchExpenseCategoryRoute sha256 ctx categoryId body api =
     guarded (assertBillingControlAccess ctx Act_create) api (\<lambda>_.
     guarded (parseRequestPart (min_one categoryId)) api (\<lambda>_.
     case getMemoryBillingExpenseCategory (bapi_entries api) (lctx_firmId ctx) categoryId of
       None \<Rightarrow> (throw ''BILLING_EXPENSE_CATEGORY_NOT_FOUND'', api)
     | Some existing \<Rightarrow>
         guarded (parseRequestPart (billingExpenseCategoryPatchBodySchema body)) api (\<lambda>_.
         guarded (throw_if (\<not> or_else (ecp_reimbursableAllowed body) (ecat_reimbursableAllowed existing)
             \<and> or_else (ecp_defaultReimbursable body) (ecat_defaultReimbursable existing))
           ''BILLING_EXPENSE_CATEGORY_REIMBURSABLE_DEFAULT'') api (\<lambda>_.
         case updateMemoryBillingExpenseCategory (bapi_entries api) (lctx_firmId ctx) categoryId (category_updates ctx body) of
           (Inl e, entries) \<Rightarrow> (Inl e, api\<lparr>bapi_entries := entries\<rparr>)
         | (Inr updated, entries) \<Rightarrow>
             (Inr updated, record_event sha256 ctx ''billing_expense_category.updated'' ''billing_expense_category''
                (ecat_id updated) (expenseCategoryAuditMetadata updated) (api\<lparr>bapi_entries := entries\<rparr>))))))"

subsection \<open>Time entries\<close>

definition timeEntryBodySchema :: "(string \<Rightarrow> bool) \<Rightarrow> TimeEntryBody \<Rightarrow> bool" where
  "timeEntryBodySchema datetime body =
     (optional_ok min_one (teb_id body) \<and> min_one (teb_matterId body) \<and> optional_ok min_one (teb_userId body)
      \<and> optional_ok datetime (teb_performedAt body) \<and> teb_minutes body > 0
      \<and> (case teb_rateCents body of None \<Rightarrow> True | Some c \<Rightarrow> c \<ge> 0) \<and> min_one (teb_narrative body))"

definition timeEntryPatchBodySchema :: "(string \<Rightarrow> bool) \<Rightarrow> TimeEntryPatchBody \<Rightarrow> bool" where
  "timeEntryPatchBodySchema datetime body =
     (optional_ok datetime (tpb_performedAt body) \<and> (case tpb_minutes body of None \<Rightarrow> True | Some m \<Rightarrow> m > 0)
      \<and> (case tpb_rateCents body of None \<Rightarrow> True | Some c \<Rightarrow> c \<ge> 0) \<and> optional_ok min_one (tpb_narrative body))"

definition timeEntryTimerDraftBodySchema :: "(string \<Rightarrow> bool) \<Rightarrow> TimerDraftBody \<Rightarrow> bool" where
  "timeEntryTimerDraftBodySchema datetime body =
     (optional_ok min_one (tdb_id body) \<and> min_one (tdb_matterId body) \<and> optional_ok min_one (tdb_userId body)
      \<and> datetime (tdb_startedAt body) \<and> datetime (tdb_stoppedAt body)
      \<and> (case tdb_rateCents body of None \<Rightarrow> True | Some c \<Rightarrow> c \<ge> 0) \<and> min_one (tdb_narrative body))"

definition time_entry_of :: "LedgerContext \<Rightarrow> TimeEntryBody \<Rightarrow> ResolvedRate \<Rightarrow> TimeEntry" where
  "time_entry_of ctx body rate =
     \<lparr>time_id = or_else (teb_id body) (lctx_uuid ctx), time_firmId = lctx_firmId ctx, time_matterId = teb_matterId body,
      time_userId = or_else (teb_userId body) (user_id (lctx_user ctx)),
      time_performedAt = or_else (teb_performedAt body) (lctx_now ctx), time_minutes = teb_minutes body,
      time_rateCents = rate_cents rate, time_rateRuleId = rate_ruleId rate, time_rateSnapshot = Some (rate_snapshot rate),
      time_narrative = teb_narrative body, time_billable = teb_billable body, time_billingStatus = teb_billingStatus body\<rparr>"

definition source_value :: "TimeEntry \<Rightarrow> js_value" where
  "source_value entry = (case time_rateSnapshot entry of None \<Rightarrow> JUndefined
     | Some snapshot \<Rightarrow> JStr (case rsnap_source snapshot of Source_manual \<Rightarrow> ''manual'' | Source_rate_rule \<Rightarrow> ''rate_rule''))"

definition timeEntryMetadata :: "(string \<times> js_value) list \<Rightarrow> TimeEntry \<Rightarrow> (string \<times> js_value) list" where
  "timeEntryMetadata extra entry =
     [(''matterId'', JStr (time_matterId entry)), (''timeEntryId'', JStr (time_id entry))] @ extra @
     [(''minutes'', JNum (time_minutes entry)), (''rateCents'', JNum (time_rateCents entry)),
      (''rateRuleId'', text_value (time_rateRuleId entry)), (''rateSource'', source_value entry)]"

definition status_value :: "BillingStatus \<Rightarrow> js_value" where
  "status_value status = JStr (billing_status_name status)"

definition postTimeEntryRoute ::
  "(string \<Rightarrow> string) \<Rightarrow> (string \<Rightarrow> bool) \<Rightarrow> (string \<Rightarrow> string \<Rightarrow> int) \<Rightarrow> LedgerContext \<Rightarrow> TimeEntryBody \<Rightarrow> BillingApi \<Rightarrow> TimeEntry result \<times> BillingApi" where
  "postTimeEntryRoute sha256 datetime collate ctx body api =
     guarded (parseRequestPart (timeEntryBodySchema datetime body)) api (\<lambda>_.
     guarded (assertMatterAccess ctx Res_time_entry Act_create (Some (teb_matterId body))) api (\<lambda>_.
     let performedAt = or_else (teb_performedAt body) (lctx_now ctx) in
     guarded (assertBillingTimestampUnlocked collate api (lctx_firmId ctx) performedAt ''Time entry'') api (\<lambda>_.
     guarded (resolveTimeEntryRate collate ctx api (teb_matterId body) (or_else (teb_userId body) (user_id (lctx_user ctx)))
         performedAt (teb_rateCents body) (lctx_now ctx)) api (\<lambda>rate.
     case createMemoryTimeEntry (bapi_entries api) (time_entry_of ctx body rate) of (created, entries) \<Rightarrow>
       (Inr created, record_event sha256 ctx ''time_entry.created'' ''time_entry'' (time_id created)
          (timeEntryMetadata [(''status'', status_value (time_billingStatus created))] created)
          (api\<lparr>bapi_entries := entries\<rparr>))))))"

definition timer_entry_of :: "LedgerContext \<Rightarrow> TimerDraftBody \<Rightarrow> int \<Rightarrow> ResolvedRate \<Rightarrow> TimeEntry" where
  "timer_entry_of ctx body minutes rate =
     \<lparr>time_id = or_else (tdb_id body) (lctx_uuid ctx), time_firmId = lctx_firmId ctx, time_matterId = tdb_matterId body,
      time_userId = or_else (tdb_userId body) (user_id (lctx_user ctx)), time_performedAt = tdb_startedAt body,
      time_minutes = minutes, time_rateCents = rate_cents rate, time_rateRuleId = rate_ruleId rate,
      time_rateSnapshot = Some (rate_snapshot rate), time_narrative = tdb_narrative body, time_billable = tdb_billable body,
      time_billingStatus = Billing_draft\<rparr>"

definition postTimerDraftRoute ::
  "(string \<Rightarrow> string) \<Rightarrow> (string \<Rightarrow> bool) \<Rightarrow> (string \<Rightarrow> string \<Rightarrow> int) \<Rightarrow> LedgerContext \<Rightarrow> TimerDraftBody \<Rightarrow> BillingApi \<Rightarrow> TimeEntry result \<times> BillingApi" where
  "postTimerDraftRoute sha256 datetime collate ctx body api =
     guarded (parseRequestPart (timeEntryTimerDraftBodySchema datetime body)) api (\<lambda>_.
     guarded (assertMatterAccess ctx Res_time_entry Act_create (Some (tdb_matterId body))) api (\<lambda>_.
     guarded (assertBillingTimerWindowUnlocked collate api (lctx_firmId ctx) (tdb_startedAt body) (tdb_stoppedAt body)) api (\<lambda>_.
     guarded (timerDraftMinutesFromWindow (tdb_startedAt body) (tdb_stoppedAt body) None) api (\<lambda>minutes.
     guarded (resolveTimeEntryRate collate ctx api (tdb_matterId body) (or_else (tdb_userId body) (user_id (lctx_user ctx)))
         (tdb_startedAt body) (tdb_rateCents body) (lctx_now ctx)) api (\<lambda>rate.
     case createMemoryTimeEntry (bapi_entries api) (timer_entry_of ctx body minutes rate) of (created, entries) \<Rightarrow>
       (Inr created, record_event sha256 ctx ''time_entry.created'' ''time_entry'' (time_id created)
          (timeEntryMetadata [(''status'', status_value (time_billingStatus created)), (''captureSource'', JStr ''local_timer'')] created)
          (api\<lparr>bapi_entries := entries\<rparr>)))))))"

definition time_patch_updates :: "LedgerContext \<Rightarrow> TimeEntryPatchBody \<Rightarrow> TimeEntryUpdates" where
  "time_patch_updates ctx body =
     \<lparr>tup_performedAt = tpb_performedAt body, tup_minutes = tpb_minutes body, tup_rateCents = tpb_rateCents body,
      tup_rateRuleId = (if tpb_rateCents body = None then None else Some None),
      tup_rateSnapshot = map_option (\<lambda>cents. manual_snapshot cents (lctx_now ctx)) (tpb_rateCents body),
      tup_narrative = tpb_narrative body, tup_billable = tpb_billable body, tup_billingStatus = tpb_billingStatus body\<rparr>"

definition patchTimeEntryRoute ::
  "(string \<Rightarrow> string) \<Rightarrow> (string \<Rightarrow> bool) \<Rightarrow> (string \<Rightarrow> string \<Rightarrow> int) \<Rightarrow> LedgerContext \<Rightarrow> string \<Rightarrow> TimeEntryPatchBody \<Rightarrow> BillingApi \<Rightarrow> TimeEntry result \<times> BillingApi" where
  "patchTimeEntryRoute sha256 datetime collate ctx entryId body api =
     guarded (parseRequestPart (min_one entryId)) api (\<lambda>_.
     case getMemoryTimeEntry (bapi_entries api) (lctx_firmId ctx) entryId of
       None \<Rightarrow> (throw ''Time entry was not found'', api)
     | Some existing \<Rightarrow>
         guarded (assertMatterAccess ctx Res_time_entry Act_update (Some (time_matterId existing))) api (\<lambda>_.
         guarded (throw_if (time_billingStatus existing \<in> {Billing_billed, Billing_written_off})
           ''Finalized time entries cannot be edited'') api (\<lambda>_.
         guarded (parseRequestPart (timeEntryPatchBodySchema datetime body)) api (\<lambda>_.
         guarded (assertBillingTimestampUnlocked collate api (lctx_firmId ctx) (time_performedAt existing) ''Time entry'') api (\<lambda>_.
         guarded (if truthy (tpb_performedAt body)
             then assertBillingTimestampUnlocked collate api (lctx_firmId ctx) (or_else (tpb_performedAt body) []) ''Time entry''
             else Inr ()) api (\<lambda>_.
         case updateMemoryTimeEntry (bapi_entries api) (lctx_firmId ctx) entryId (time_patch_updates ctx body) of
           (Inl e, entries) \<Rightarrow> (Inl e, api\<lparr>bapi_entries := entries\<rparr>)
         | (Inr updated, entries) \<Rightarrow>
             (Inr updated, record_event sha256 ctx ''time_entry.updated'' ''time_entry'' (time_id updated)
                (timeEntryMetadata [(''previousStatus'', status_value (time_billingStatus existing)),
                   (''status'', status_value (time_billingStatus updated))] updated)
                (api\<lparr>bapi_entries := entries\<rparr>))))))))"

primrec nextStatus :: "EntryTransition \<Rightarrow> BillingStatus" where
  "nextStatus Route_submit = Billing_submitted"
| "nextStatus Route_approve = Billing_approved"
| "nextStatus Route_write_off = Billing_written_off"

definition transition_action :: "EntryTransition \<Rightarrow> Action" where
  "transition_action route = (if route = Route_approve then Act_approve else Act_update)"

definition timeTransitionRoute ::
  "(string \<Rightarrow> string) \<Rightarrow> (string \<Rightarrow> string \<Rightarrow> int) \<Rightarrow> LedgerContext \<Rightarrow> EntryTransition \<Rightarrow> string \<Rightarrow> BillingApi \<Rightarrow> TimeEntry result \<times> BillingApi" where
  "timeTransitionRoute sha256 collate ctx route entryId api =
     guarded (parseRequestPart (min_one entryId)) api (\<lambda>_.
     case getMemoryTimeEntry (bapi_entries api) (lctx_firmId ctx) entryId of
       None \<Rightarrow> (throw ''Time entry was not found'', api)
     | Some existing \<Rightarrow>
         guarded (assertMatterAccess ctx Res_time_entry (transition_action route) (Some (time_matterId existing))) api (\<lambda>_.
         guarded (assertBillingTimestampUnlocked collate api (lctx_firmId ctx) (time_performedAt existing) ''Time entry'') api (\<lambda>_.
         guarded (assertBillingStatusTransition (time_billingStatus existing) (nextStatus route)) api (\<lambda>_.
         case updateMemoryTimeEntry (bapi_entries api) (lctx_firmId ctx) entryId
             (no_time_updates\<lparr>tup_billingStatus := Some (nextStatus route)\<rparr>) of
           (Inl e, entries) \<Rightarrow> (Inl e, api\<lparr>bapi_entries := entries\<rparr>)
         | (Inr updated, entries) \<Rightarrow>
             (Inr updated, record_event sha256 ctx (''time_entry.'' @ billing_status_name (nextStatus route)) ''time_entry''
                (time_id updated)
                [(''matterId'', JStr (time_matterId updated)), (''timeEntryId'', JStr (time_id updated)),
                 (''previousStatus'', status_value (time_billingStatus existing)),
                 (''status'', status_value (time_billingStatus updated))]
                (api\<lparr>bapi_entries := entries\<rparr>))))))"

subsection \<open>Expenses\<close>

definition expenseEntryReviewDraftBodySchema :: "(string \<Rightarrow> bool) \<Rightarrow> 'a ExpenseReviewDraftBody_scheme \<Rightarrow> bool" where
  "expenseEntryReviewDraftBodySchema datetime body =
     (optional_ok min_one (eeb_id body) \<and> min_one (eeb_matterId body) \<and> optional_ok datetime (eeb_incurredAt body)
      \<and> eeb_amountCents body > 0 \<and> min_one (eeb_categoryCode body) \<and> min_one (eeb_description body))"

definition expenseEntryBodySchema :: "(string \<Rightarrow> bool) \<Rightarrow> ExpenseEntryBody \<Rightarrow> bool" where
  "expenseEntryBodySchema datetime body = expenseEntryReviewDraftBodySchema datetime body"

definition expenseEntryPatchBodySchema :: "(string \<Rightarrow> bool) \<Rightarrow> ExpenseEntryPatchBody \<Rightarrow> bool" where
  "expenseEntryPatchBodySchema datetime body =
     (optional_ok datetime (epb_incurredAt body) \<and> (case epb_amountCents body of None \<Rightarrow> True | Some c \<Rightarrow> c > 0)
      \<and> optional_ok min_one (epb_categoryCode body) \<and> optional_ok min_one (epb_description body))"

definition visible_matters :: "LedgerContext \<Rightarrow> BillingApi \<Rightarrow> Matter list" where
  "visible_matters ctx api =
     filter (\<lambda>m. matter_firmId m = user_firmId (lctx_user ctx)
       \<and> (user_role (lctx_user ctx) \<in> {Role_owner_admin, Role_auditor} \<or> matter_id m \<in> set (user_assignedMatterIds (lctx_user ctx))))
       (bapi_matters api)"

definition resolveExpenseCategoryForMatter ::
  "LedgerContext \<Rightarrow> BillingApi \<Rightarrow> string \<Rightarrow> string \<Rightarrow> bool option \<Rightarrow> bool \<Rightarrow> (BillingExpenseCategoryRecord \<times> bool) result" where
  "resolveExpenseCategoryForMatter ctx api categoryCode matterId reimbursable requireActive =
     bind_result (throw_if (categoryCode \<noteq> normalizeExpenseCategoryCode categoryCode) ''EXPENSE_CATEGORY_CODE_NORMALIZED'') (\<lambda>_.
     case getMemoryBillingExpenseCategoryByCode (bapi_entries api) (lctx_firmId ctx) (normalizeExpenseCategoryCode categoryCode) of
       None \<Rightarrow> throw ''EXPENSE_CATEGORY_NOT_FOUND''
     | Some category \<Rightarrow>
         bind_result (throw_if (requireActive \<and> \<not> ecat_active category) ''EXPENSE_CATEGORY_INACTIVE'') (\<lambda>_.
         case List.find (\<lambda>candidate. matter_id candidate = matterId) (visible_matters ctx api) of
           None \<Rightarrow> throw ''MATTER_NOT_FOUND''
         | Some m \<Rightarrow>
             bind_result (throw_if (\<not> billingExpenseCategoryAppliesToMatter category m) ''EXPENSE_CATEGORY_NOT_APPLICABLE'') (\<lambda>_.
             let chosen = or_else reimbursable (ecat_defaultReimbursable category) in
             bind_result (throw_if (\<not> billingExpenseCategoryAllowsReimbursable category chosen)
               ''EXPENSE_CATEGORY_REIMBURSABLE_NOT_ALLOWED'') (\<lambda>_. Inr (category, chosen)))))"

definition expense_of ::
  "LedgerContext \<Rightarrow> 'a ExpenseReviewDraftBody_scheme \<Rightarrow> BillingStatus \<Rightarrow> BillingExpenseCategoryRecord \<Rightarrow> bool \<Rightarrow> ExpenseEntry" where
  "expense_of ctx body status category reimbursable =
     \<lparr>exp_id = or_else (eeb_id body) (lctx_uuid ctx), exp_firmId = lctx_firmId ctx, exp_matterId = eeb_matterId body,
      exp_incurredAt = or_else (eeb_incurredAt body) (lctx_now ctx), exp_amountCents = eeb_amountCents body,
      exp_category = ecat_label category, exp_categoryCode = Some (ecat_code category), exp_description = eeb_description body,
      exp_reimbursable = reimbursable, exp_billingStatus = status\<rparr>"

definition expenseMetadata :: "(string \<times> js_value) list \<Rightarrow> ExpenseEntry \<Rightarrow> (string \<times> js_value) list" where
  "expenseMetadata extra entry =
     [(''matterId'', JStr (exp_matterId entry)), (''expenseEntryId'', JStr (exp_id entry))] @ extra @
     [(''amountCents'', JNum (exp_amountCents entry)), (''categoryCode'', text_value (exp_categoryCode entry))]"

definition postExpenseEntryRoute ::
  "(string \<Rightarrow> string) \<Rightarrow> (string \<Rightarrow> bool) \<Rightarrow> (string \<Rightarrow> string \<Rightarrow> int) \<Rightarrow> LedgerContext \<Rightarrow> ExpenseEntryBody \<Rightarrow> BillingApi \<Rightarrow> ExpenseEntry result \<times> BillingApi" where
  "postExpenseEntryRoute sha256 datetime collate ctx body api =
     guarded (parseRequestPart (expenseEntryBodySchema datetime body)) api (\<lambda>_.
     guarded (assertMatterAccess ctx Res_expense_entry Act_create (Some (eeb_matterId body))) api (\<lambda>_.
     guarded (assertBillingTimestampUnlocked collate api (lctx_firmId ctx) (or_else (eeb_incurredAt body) (lctx_now ctx))
       ''Expense entry'') api (\<lambda>_.
     guarded (resolveExpenseCategoryForMatter ctx api (eeb_categoryCode body) (eeb_matterId body) (eeb_reimbursable body) True)
       api (\<lambda>(category, reimbursable).
     case createMemoryExpenseEntry (bapi_entries api) (expense_of ctx body (eeb_billingStatus body) category reimbursable) of
       (created, entries) \<Rightarrow>
       (Inr created, record_event sha256 ctx ''expense_entry.created'' ''expense_entry'' (exp_id created)
          (expenseMetadata [(''status'', status_value (exp_billingStatus created))] created) (api\<lparr>bapi_entries := entries\<rparr>))))))"

definition postExpenseReviewDraftRoute ::
  "(string \<Rightarrow> string) \<Rightarrow> (string \<Rightarrow> bool) \<Rightarrow> (string \<Rightarrow> string \<Rightarrow> int) \<Rightarrow> LedgerContext \<Rightarrow> ExpenseReviewDraftBody \<Rightarrow> BillingApi \<Rightarrow> ExpenseEntry result \<times> BillingApi" where
  "postExpenseReviewDraftRoute sha256 datetime collate ctx body api =
     guarded (parseRequestPart (expenseEntryReviewDraftBodySchema datetime body)) api (\<lambda>_.
     guarded (assertMatterAccess ctx Res_expense_entry Act_create (Some (eeb_matterId body))) api (\<lambda>_.
     guarded (assertBillingTimestampUnlocked collate api (lctx_firmId ctx) (or_else (eeb_incurredAt body) (lctx_now ctx))
       ''Expense entry'') api (\<lambda>_.
     guarded (resolveExpenseCategoryForMatter ctx api (eeb_categoryCode body) (eeb_matterId body) (eeb_reimbursable body) True)
       api (\<lambda>(category, reimbursable).
     case createMemoryExpenseEntry (bapi_entries api) (expense_of ctx body Billing_draft category reimbursable) of
       (created, entries) \<Rightarrow>
       (Inr created, record_event sha256 ctx ''expense_entry.created'' ''expense_entry'' (exp_id created)
          [(''matterId'', JStr (exp_matterId created)), (''expenseEntryId'', JStr (exp_id created)),
           (''status'', status_value (exp_billingStatus created)), (''captureSource'', JStr ''expense_profile_review''),
           (''categoryCode'', text_value (exp_categoryCode created)), (''amountCents'', JNum (exp_amountCents created)),
           (''reimbursable'', JBool (exp_reimbursable created))] (api\<lparr>bapi_entries := entries\<rparr>))))))"

definition plain_expense_updates :: "ExpenseEntryPatchBody \<Rightarrow> ExpenseEntryUpdates" where
  "plain_expense_updates body =
     \<lparr>eup_incurredAt = epb_incurredAt body, eup_amountCents = epb_amountCents body, eup_category = None,
      eup_categoryCode = epb_categoryCode body, eup_description = epb_description body,
      eup_reimbursable = epb_reimbursable body, eup_billingStatus = epb_billingStatus body\<rparr>"

definition expense_patch_updates :: "LedgerContext \<Rightarrow> BillingApi \<Rightarrow> ExpenseEntry \<Rightarrow> ExpenseEntryPatchBody \<Rightarrow> ExpenseEntryUpdates result" where
  "expense_patch_updates ctx api existing body =
     (if truthy (epb_categoryCode body)
      then bind_result (resolveExpenseCategoryForMatter ctx api (or_else (epb_categoryCode body) []) (exp_matterId existing)
             (Some (or_else (epb_reimbursable body) (exp_reimbursable existing))) True) (\<lambda>(category, reimbursable).
           Inr ((plain_expense_updates body)\<lparr>eup_category := Some (ecat_label category),
             eup_categoryCode := Some (ecat_code category), eup_reimbursable := Some reimbursable\<rparr>))
      else if epb_reimbursable body = Some True \<and> truthy (exp_categoryCode existing)
      then bind_result (resolveExpenseCategoryForMatter ctx api (or_else (exp_categoryCode existing) []) (exp_matterId existing)
             (Some True) False) (\<lambda>_. Inr (plain_expense_updates body))
      else Inr (plain_expense_updates body))"

definition patchExpenseEntryRoute ::
  "(string \<Rightarrow> string) \<Rightarrow> (string \<Rightarrow> bool) \<Rightarrow> (string \<Rightarrow> string \<Rightarrow> int) \<Rightarrow> LedgerContext \<Rightarrow> string \<Rightarrow> ExpenseEntryPatchBody \<Rightarrow> BillingApi \<Rightarrow> ExpenseEntry result \<times> BillingApi" where
  "patchExpenseEntryRoute sha256 datetime collate ctx entryId body api =
     guarded (parseRequestPart (min_one entryId)) api (\<lambda>_.
     case getMemoryExpenseEntry (bapi_entries api) (lctx_firmId ctx) entryId of
       None \<Rightarrow> (throw ''Expense entry was not found'', api)
     | Some existing \<Rightarrow>
         guarded (assertMatterAccess ctx Res_expense_entry Act_update (Some (exp_matterId existing))) api (\<lambda>_.
         guarded (throw_if (exp_billingStatus existing \<in> {Billing_billed, Billing_written_off})
           ''Finalized expense entries cannot be edited'') api (\<lambda>_.
         guarded (parseRequestPart (expenseEntryPatchBodySchema datetime body)) api (\<lambda>_.
         guarded (assertBillingTimestampUnlocked collate api (lctx_firmId ctx) (exp_incurredAt existing) ''Expense entry'') api (\<lambda>_.
         guarded (if truthy (epb_incurredAt body)
             then assertBillingTimestampUnlocked collate api (lctx_firmId ctx) (or_else (epb_incurredAt body) []) ''Expense entry''
             else Inr ()) api (\<lambda>_.
         guarded (expense_patch_updates ctx api existing body) api (\<lambda>updates.
         case updateMemoryExpenseEntry (bapi_entries api) (lctx_firmId ctx) entryId updates of
           (Inl e, entries) \<Rightarrow> (Inl e, api\<lparr>bapi_entries := entries\<rparr>)
         | (Inr updated, entries) \<Rightarrow>
             (Inr updated, record_event sha256 ctx ''expense_entry.updated'' ''expense_entry'' (exp_id updated)
                (expenseMetadata [(''previousStatus'', status_value (exp_billingStatus existing)),
                   (''status'', status_value (exp_billingStatus updated))] updated)
                (api\<lparr>bapi_entries := entries\<rparr>)))))))))"

definition expenseTransitionRoute ::
  "(string \<Rightarrow> string) \<Rightarrow> (string \<Rightarrow> string \<Rightarrow> int) \<Rightarrow> LedgerContext \<Rightarrow> EntryTransition \<Rightarrow> string \<Rightarrow> BillingApi \<Rightarrow> ExpenseEntry result \<times> BillingApi" where
  "expenseTransitionRoute sha256 collate ctx route entryId api =
     guarded (parseRequestPart (min_one entryId)) api (\<lambda>_.
     case getMemoryExpenseEntry (bapi_entries api) (lctx_firmId ctx) entryId of
       None \<Rightarrow> (throw ''Expense entry was not found'', api)
     | Some existing \<Rightarrow>
         guarded (assertMatterAccess ctx Res_expense_entry (transition_action route) (Some (exp_matterId existing))) api (\<lambda>_.
         guarded (assertBillingTimestampUnlocked collate api (lctx_firmId ctx) (exp_incurredAt existing) ''Expense entry'') api (\<lambda>_.
         guarded (assertBillingStatusTransition (exp_billingStatus existing) (nextStatus route)) api (\<lambda>_.
         case updateMemoryExpenseEntry (bapi_entries api) (lctx_firmId ctx) entryId
             (no_expense_updates\<lparr>eup_billingStatus := Some (nextStatus route)\<rparr>) of
           (Inl e, entries) \<Rightarrow> (Inl e, api\<lparr>bapi_entries := entries\<rparr>)
         | (Inr updated, entries) \<Rightarrow>
             (Inr updated, record_event sha256 ctx (''expense_entry.'' @ billing_status_name (nextStatus route)) ''expense_entry''
                (exp_id updated)
                [(''matterId'', JStr (exp_matterId updated)), (''expenseEntryId'', JStr (exp_id updated)),
                 (''previousStatus'', status_value (exp_billingStatus existing)),
                 (''status'', status_value (exp_billingStatus updated))]
                (api\<lparr>bapi_entries := entries\<rparr>))))))"

end
