(* ===== verification/Billing_Invoice_Api.thy ===== *)
theory Billing_Invoice_Api
  imports Billing_Api
begin

section \<open>The routes of invoices and payments\<close>

text \<open>
  apps/api/src/routes/billing/invoices.ts and payments.ts on the state of \<open>Billing_Api\<close>. The random
  identifiers of the lines of a new invoice are an argument. The theorems follow entries, invoices and
  payments through any sequence of calls of the writing routes of billing.
\<close>

subsection \<open>Requests\<close>

record AdjustmentLine =
  adj_description :: string
  adj_quantity :: int
  adj_unitAmountCents :: int
  adj_taxName :: "string option"
  adj_taxRateBps :: int

record InvoiceBody =
  ivb_id :: "string option"
  ivb_matterId :: string
  ivb_clientContactId :: "string option"
  ivb_invoiceNumber :: "string option"
  ivb_dueAt :: "string option"
  ivb_memo :: "string option"
  ivb_timeEntryIds :: "string list"
  ivb_expenseEntryIds :: "string list"
  ivb_adjustmentLines :: "AdjustmentLine list"
  ivb_taxName :: "string option"
  ivb_taxRateBps :: int

record PaymentBody =
  pyb_id :: "string option"
  pyb_matterId :: string
  pyb_invoiceId :: string
  pyb_clientContactId :: "string option"
  pyb_amountCents :: int
  pyb_receivedAt :: "string option"
  pyb_method :: ManualPaymentMethod
  pyb_reference :: "string option"
  pyb_notes :: "string option"
  pyb_evidence :: "(string \<times> js_value) list"

record ReconcilePaymentBody =
  rpy_reconciledAt :: "string option"
  rpy_notes :: "string option"
  rpy_evidence :: "(string \<times> js_value) list"

subsection \<open>Creating an invoice\<close>

definition adjustmentLineSchema :: "AdjustmentLine \<Rightarrow> bool" where
  "adjustmentLineSchema line =
     (min_one (adj_description line) \<and> adj_quantity line > 0 \<and> optional_ok min_one (adj_taxName line) \<and> adj_taxRateBps line \<ge> 0)"

definition invoiceBodySchema :: "(string \<Rightarrow> bool) \<Rightarrow> InvoiceBody \<Rightarrow> bool" where
  "invoiceBodySchema datetime body =
     (optional_ok min_one (ivb_id body) \<and> min_one (ivb_matterId body) \<and> optional_ok min_one (ivb_clientContactId body)
      \<and> optional_ok min_one (ivb_invoiceNumber body) \<and> optional_ok datetime (ivb_dueAt body) \<and> optional_ok min_one (ivb_memo body)
      \<and> list_all min_one (ivb_timeEntryIds body) \<and> list_all min_one (ivb_expenseEntryIds body)
      \<and> list_all adjustmentLineSchema (ivb_adjustmentLines body) \<and> optional_ok min_one (ivb_taxName body)
      \<and> ivb_taxRateBps body \<ge> 0)"

definition of_matter :: "string \<Rightarrow> MatterOptions" where
  "of_matter matterId = \<lparr>mopt_matterId = Some matterId, mopt_matterIds = None\<rparr>"

definition selected_time :: "LedgerContext \<Rightarrow> InvoiceBody \<Rightarrow> BillingApi \<Rightarrow> TimeEntry list" where
  "selected_time ctx body api =
     filter (\<lambda>entry. time_id entry \<in> set (ivb_timeEntryIds body))
       (listMemoryTimeEntries (bapi_entries api) (lctx_firmId ctx) (of_matter (ivb_matterId body)) None)"

definition selected_expenses :: "LedgerContext \<Rightarrow> InvoiceBody \<Rightarrow> BillingApi \<Rightarrow> ExpenseEntry list" where
  "selected_expenses ctx body api =
     filter (\<lambda>entry. exp_id entry \<in> set (ivb_expenseEntryIds body))
       (listMemoryExpenseEntries (bapi_entries api) (lctx_firmId ctx) (of_matter (ivb_matterId body)) None)"

definition line_uses :: "string list \<Rightarrow> string list \<Rightarrow> InvoiceLineRecord \<Rightarrow> bool" where
  "line_uses timeIds expenseIds line =
     ((truthy (line_timeEntryId line) \<and> or_else (line_timeEntryId line) [] \<in> set timeIds)
      \<or> (truthy (line_expenseEntryId line) \<and> or_else (line_expenseEntryId line) [] \<in> set expenseIds))"

definition duplicateSource :: "LedgerContext \<Rightarrow> InvoiceBody \<Rightarrow> BillingApi \<Rightarrow> bool" where
  "duplicateSource ctx body api =
     list_ex (\<lambda>invoice. list_ex (line_uses (ivb_timeEntryIds body) (ivb_expenseEntryIds body)) (inv_lines invoice))
       (filter (\<lambda>invoice. inv_status invoice \<noteq> Invoice_void)
         (listMemoryInvoices (bapi_books api) (lctx_firmId ctx) (of_matter (ivb_matterId body)) None))"

definition invoice_line ::
  "LedgerContext \<Rightarrow> InvoiceBody \<Rightarrow> string \<Rightarrow> InvoiceLineKind \<Rightarrow> string \<Rightarrow> int \<Rightarrow> int \<Rightarrow> string option \<Rightarrow> int
   \<Rightarrow> string option \<Rightarrow> string option \<Rightarrow> string \<Rightarrow> InvoiceLineRecord" where
  "invoice_line ctx body invoiceId kind description quantity unitAmountCents taxName taxRateBps timeEntryId expenseEntryId lineId =
     (let totals = createInvoiceLineTotals quantity unitAmountCents taxRateBps in
      \<lparr>line_id = lineId, line_firmId = lctx_firmId ctx, line_invoiceId = invoiceId, line_matterId = ivb_matterId body,
       line_kind = kind, line_description = description, line_quantity = quantity, line_unitAmountCents = unitAmountCents,
       line_subtotalCents = ltot_subtotalCents totals, line_taxName = taxName, line_taxRateBps = taxRateBps,
       line_taxCents = ltot_taxCents totals, line_totalCents = ltot_totalCents totals, line_timeEntryId = timeEntryId,
       line_expenseEntryId = expenseEntryId, line_createdAt = lctx_now ctx\<rparr>)"

definition time_line :: "LedgerContext \<Rightarrow> InvoiceBody \<Rightarrow> string \<Rightarrow> TimeEntry \<Rightarrow> string \<Rightarrow> InvoiceLineRecord" where
  "time_line ctx body invoiceId entry =
     invoice_line ctx body invoiceId Line_time (time_narrative entry) (time_minutes entry)
       (math_round_div (time_rateCents entry) 60) (ivb_taxName body) (ivb_taxRateBps body) (Some (time_id entry)) None"

definition expense_line :: "LedgerContext \<Rightarrow> InvoiceBody \<Rightarrow> string \<Rightarrow> ExpenseEntry \<Rightarrow> string \<Rightarrow> InvoiceLineRecord" where
  "expense_line ctx body invoiceId entry =
     invoice_line ctx body invoiceId Line_expense (exp_description entry) 1 (exp_amountCents entry)
       (ivb_taxName body) (ivb_taxRateBps body) None (Some (exp_id entry))"

definition adjustment_line :: "LedgerContext \<Rightarrow> InvoiceBody \<Rightarrow> string \<Rightarrow> AdjustmentLine \<Rightarrow> string \<Rightarrow> InvoiceLineRecord" where
  "adjustment_line ctx body invoiceId line =
     invoice_line ctx body invoiceId Line_adjustment (adj_description line) (adj_quantity line) (adj_unitAmountCents line)
       (adj_taxName line) (adj_taxRateBps line) None None"

definition invoice_id_of :: "LedgerContext \<Rightarrow> InvoiceBody \<Rightarrow> string" where
  "invoice_id_of ctx body = or_else (ivb_id body) (lctx_uuid ctx)"

definition invoice_lines_of ::
  "LedgerContext \<Rightarrow> (nat \<Rightarrow> string) \<Rightarrow> InvoiceBody \<Rightarrow> TimeEntry list \<Rightarrow> ExpenseEntry list \<Rightarrow> InvoiceLineRecord list" where
  "invoice_lines_of ctx lineIds body timeEntries expenseEntries =
     (let invoiceId = invoice_id_of ctx body;
          lines = map (time_line ctx body invoiceId) timeEntries @ map (expense_line ctx body invoiceId) expenseEntries
                @ map (adjustment_line ctx body invoiceId) (ivb_adjustmentLines body)
      in map2 (\<lambda>line n. line (lineIds n)) lines [0..<length lines])"

definition invoice_of :: "LedgerContext \<Rightarrow> InvoiceBody \<Rightarrow> InvoiceLineRecord list \<Rightarrow> InvoiceRecord" where
  "invoice_of ctx body lines =
     (let invoiceId = invoice_id_of ctx body; totals = calculateInvoiceTotals lines [] in
      \<lparr>inv_id = invoiceId, inv_firmId = lctx_firmId ctx, inv_matterId = ivb_matterId body,
       inv_clientContactId = ivb_clientContactId body,
       inv_invoiceNumber = or_else (ivb_invoiceNumber body) (''INV-'' @ take 8 invoiceId), inv_status = Invoice_draft,
       inv_approvedAt = None, inv_issuedAt = None, inv_dueAt = ivb_dueAt body, inv_memo = ivb_memo body,
       inv_createdByUserId = user_id (lctx_user ctx), inv_createdAt = lctx_now ctx, inv_voidedAt = None,
       inv_subtotalCents = tot_subtotalCents totals, inv_taxCents = tot_taxCents totals, inv_totalCents = tot_totalCents totals,
       inv_paidCents = tot_paidCents totals, inv_balanceDueCents = tot_balanceDueCents totals\<rparr>)"

primrec invoice_status_name :: "InvoiceStatus \<Rightarrow> string" where
  "invoice_status_name Invoice_draft = ''draft''"
| "invoice_status_name Invoice_approved = ''approved''"
| "invoice_status_name Invoice_issued = ''issued''"
| "invoice_status_name Invoice_partially_paid = ''partially_paid''"
| "invoice_status_name Invoice_paid = ''paid''"
| "invoice_status_name Invoice_void = ''void''"

definition invoiceCreatedMetadata :: "InvoiceBody \<Rightarrow> InvoiceWithLines \<Rightarrow> (string \<times> js_value) list" where
  "invoiceCreatedMetadata body created =
     [(''matterId'', JStr (inv_matterId created)), (''invoiceId'', JStr (inv_id created)),
      (''status'', JStr (invoice_status_name (inv_status created))), (''timeEntryIds'', strings_value (ivb_timeEntryIds body)),
      (''expenseEntryIds'', strings_value (ivb_expenseEntryIds body)), (''lineCount'', JNum (int (length (inv_lines created)))),
      (''subtotalCents'', JNum (inv_subtotalCents created)), (''taxCents'', JNum (inv_taxCents created)),
      (''totalCents'', JNum (inv_totalCents created)), (''balanceDueCents'', JNum (inv_balanceDueCents created))]"

definition postInvoiceRoute ::
  "(string \<Rightarrow> string) \<Rightarrow> (string \<Rightarrow> bool) \<Rightarrow> LedgerContext \<Rightarrow> (nat \<Rightarrow> string) \<Rightarrow> InvoiceBody \<Rightarrow> BillingApi \<Rightarrow> InvoiceWithLines result \<times> BillingApi" where
  "postInvoiceRoute sha256 datetime ctx lineIds body api =
     guarded (parseRequestPart (invoiceBodySchema datetime body)) api (\<lambda>_.
     guarded (assertMatterAccess ctx Res_time_entry Act_create (Some (ivb_matterId body))) api (\<lambda>_.
     guarded (assertMatterAccess ctx Res_expense_entry Act_create (Some (ivb_matterId body))) api (\<lambda>_.
     let timeEntries = selected_time ctx body api; expenseEntries = selected_expenses ctx body api in
     guarded (throw_if (length timeEntries \<noteq> length (ivb_timeEntryIds body)
         \<or> length expenseEntries \<noteq> length (ivb_expenseEntryIds body)) ''Invoice entries must belong to the requested matter'') api (\<lambda>_.
     guarded (throw_if (duplicateSource ctx body api)
       ''Selected source entries are already linked to a non-void invoice'') api (\<lambda>_.
     guarded (throw_if (\<not> (list_all isBillableUnbilledTime timeEntries \<and> list_all isBillableUnbilledExpense expenseEntries))
       ''Only approved unbilled entries can be invoiced'') api (\<lambda>_.
     let lines = invoice_lines_of ctx lineIds body timeEntries expenseEntries in
     case createMemoryInvoice (bapi_books api) (invoice_of ctx body lines) lines of (created, books) \<Rightarrow>
       (Inr created, record_event sha256 ctx ''invoice.created'' ''invoice'' (inv_id created)
          (invoiceCreatedMetadata body created) (api\<lparr>bapi_books := books\<rparr>))))))))"

subsection \<open>Approving, issuing and voiding\<close>

definition line_unlocked :: "(string \<Rightarrow> string \<Rightarrow> int) \<Rightarrow> LedgerContext \<Rightarrow> BillingApi \<Rightarrow> InvoiceLineRecord \<Rightarrow> unit result" where
  "line_unlocked collate ctx api line = run_checks
     [if truthy (line_timeEntryId line)
      then (case getMemoryTimeEntry (bapi_entries api) (lctx_firmId ctx) (or_else (line_timeEntryId line) []) of
          None \<Rightarrow> Inr ()
        | Some entry \<Rightarrow> assertBillingTimestampUnlocked collate api (lctx_firmId ctx) (time_performedAt entry) ''Time entry'')
      else Inr (),
      if truthy (line_expenseEntryId line)
      then (case getMemoryExpenseEntry (bapi_entries api) (lctx_firmId ctx) (or_else (line_expenseEntryId line) []) of
          None \<Rightarrow> Inr ()
        | Some entry \<Rightarrow> assertBillingTimestampUnlocked collate api (lctx_firmId ctx) (exp_incurredAt entry) ''Expense entry'')
      else Inr ()]"

definition bill_time_of_line :: "string \<Rightarrow> InvoiceLineRecord \<Rightarrow> MemoryBillingEntriesStore \<Rightarrow> unit result \<times> MemoryBillingEntriesStore" where
  "bill_time_of_line firmId line entries =
     (if truthy (line_timeEntryId line)
      then (case updateMemoryTimeEntry entries firmId (or_else (line_timeEntryId line) [])
                (no_time_updates\<lparr>tup_billingStatus := Some Billing_billed\<rparr>) of
              (Inl e, entries') \<Rightarrow> (Inl e, entries') | (Inr _, entries') \<Rightarrow> (Inr (), entries'))
      else (Inr (), entries))"

definition bill_expense_of_line :: "string \<Rightarrow> InvoiceLineRecord \<Rightarrow> MemoryBillingEntriesStore \<Rightarrow> unit result \<times> MemoryBillingEntriesStore" where
  "bill_expense_of_line firmId line entries =
     (if truthy (line_expenseEntryId line)
      then (case updateMemoryExpenseEntry entries firmId (or_else (line_expenseEntryId line) [])
                (no_expense_updates\<lparr>eup_billingStatus := Some Billing_billed\<rparr>) of
              (Inl e, entries') \<Rightarrow> (Inl e, entries') | (Inr _, entries') \<Rightarrow> (Inr (), entries'))
      else (Inr (), entries))"

fun bill_lines :: "string \<Rightarrow> InvoiceLineRecord list \<Rightarrow> MemoryBillingEntriesStore \<Rightarrow> unit result \<times> MemoryBillingEntriesStore" where
  "bill_lines firmId [] entries = (Inr (), entries)"
| "bill_lines firmId (line # lines) entries =
     (case bill_time_of_line firmId line entries of
        (Inl e, entries') \<Rightarrow> (Inl e, entries')
      | (Inr _, entries') \<Rightarrow>
          (case bill_expense_of_line firmId line entries' of
             (Inl e, entries'') \<Rightarrow> (Inl e, entries'')
           | (Inr _, entries'') \<Rightarrow> bill_lines firmId lines entries''))"

definition invoiceStatusMetadata :: "InvoiceWithLines \<Rightarrow> InvoiceWithLines \<Rightarrow> (string \<times> js_value) list" where
  "invoiceStatusMetadata invoice updated =
     [(''matterId'', JStr (inv_matterId updated)), (''invoiceId'', JStr (inv_id updated)),
      (''previousStatus'', JStr (invoice_status_name (inv_status invoice))),
      (''status'', JStr (invoice_status_name (inv_status updated))), (''totalCents'', JNum (inv_totalCents updated)),
      (''balanceDueCents'', JNum (inv_balanceDueCents updated))]"

definition store_invoice_status ::
  "(string \<Rightarrow> string) \<Rightarrow> LedgerContext \<Rightarrow> string \<Rightarrow> InvoiceWithLines \<Rightarrow> InvoiceRecord \<Rightarrow> BillingApi \<Rightarrow> InvoiceWithLines result \<times> BillingApi" where
  "store_invoice_status sha256 ctx action invoice changed api =
     (case updateMemoryInvoice (bapi_books api) changed of
        (Inl e, books) \<Rightarrow> (Inl e, api\<lparr>bapi_books := books\<rparr>)
      | (Inr None, books) \<Rightarrow> (throw ''TypeError'', api\<lparr>bapi_books := books\<rparr>)
      | (Inr (Some updated), books) \<Rightarrow>
          (Inr updated, record_event sha256 ctx action ''invoice'' (inv_id updated) (invoiceStatusMetadata invoice updated)
             (api\<lparr>bapi_books := books\<rparr>)))"

definition approveInvoiceRoute ::
  "(string \<Rightarrow> string) \<Rightarrow> (string \<Rightarrow> string \<Rightarrow> int) \<Rightarrow> LedgerContext \<Rightarrow> string \<Rightarrow> BillingApi \<Rightarrow> InvoiceWithLines result \<times> BillingApi" where
  "approveInvoiceRoute sha256 collate ctx invoiceId api =
     guarded (parseRequestPart (min_one invoiceId)) api (\<lambda>_.
     case getMemoryInvoice (bapi_books api) (lctx_firmId ctx) invoiceId of
       None \<Rightarrow> (throw ''Invoice was not found'', api)
     | Some invoice \<Rightarrow>
         guarded (assertMatterAccess ctx Res_time_entry Act_approve (Some (inv_matterId invoice))) api (\<lambda>_.
         guarded (throw_if (inv_status invoice \<noteq> Invoice_draft) ''Only draft invoices can be approved'') api (\<lambda>_.
         guarded (for_each (line_unlocked collate ctx api) (inv_lines invoice)) api (\<lambda>_.
         case bill_lines (lctx_firmId ctx) (inv_lines invoice) (bapi_entries api) of
           (Inl e, entries) \<Rightarrow> (Inl e, api\<lparr>bapi_entries := entries\<rparr>)
         | (Inr _, entries) \<Rightarrow>
             store_invoice_status sha256 ctx ''invoice.approved'' invoice
               ((InvoiceRecord.truncate invoice)\<lparr>inv_status := Invoice_approved, inv_approvedAt := Some (lctx_now ctx)\<rparr>)
               (api\<lparr>bapi_entries := entries\<rparr>)))))"

definition issueInvoiceRoute ::
  "(string \<Rightarrow> string) \<Rightarrow> LedgerContext \<Rightarrow> string \<Rightarrow> BillingApi \<Rightarrow> InvoiceWithLines result \<times> BillingApi" where
  "issueInvoiceRoute sha256 ctx invoiceId api =
     guarded (parseRequestPart (min_one invoiceId)) api (\<lambda>_.
     case getMemoryInvoice (bapi_books api) (lctx_firmId ctx) invoiceId of
       None \<Rightarrow> (throw ''Invoice was not found'', api)
     | Some invoice \<Rightarrow>
         guarded (assertMatterAccess ctx Res_time_entry Act_update (Some (inv_matterId invoice))) api (\<lambda>_.
         guarded (throw_if (inv_status invoice \<noteq> Invoice_approved) ''Only approved invoices can be issued'') api (\<lambda>_.
         store_invoice_status sha256 ctx ''invoice.issued'' invoice
           ((InvoiceRecord.truncate invoice)\<lparr>inv_status := Invoice_issued, inv_issuedAt := Some (lctx_now ctx)\<rparr>) api)))"

definition voidInvoiceRoute ::
  "(string \<Rightarrow> string) \<Rightarrow> LedgerContext \<Rightarrow> string \<Rightarrow> BillingApi \<Rightarrow> InvoiceWithLines result \<times> BillingApi" where
  "voidInvoiceRoute sha256 ctx invoiceId api =
     guarded (parseRequestPart (min_one invoiceId)) api (\<lambda>_.
     case getMemoryInvoice (bapi_books api) (lctx_firmId ctx) invoiceId of
       None \<Rightarrow> (throw ''Invoice was not found'', api)
     | Some invoice \<Rightarrow>
         guarded (assertMatterAccess ctx Res_time_entry Act_delete (Some (inv_matterId invoice))) api (\<lambda>_.
         guarded (throw_if (inv_status invoice = Invoice_paid) ''Paid invoices cannot be voided'') api (\<lambda>_.
         store_invoice_status sha256 ctx ''invoice.voided'' invoice
           ((InvoiceRecord.truncate invoice)\<lparr>inv_status := Invoice_void, inv_voidedAt := Some (lctx_now ctx)\<rparr>) api)))"

subsection \<open>Payments\<close>

definition paymentBodySchema :: "(string \<Rightarrow> bool) \<Rightarrow> PaymentBody \<Rightarrow> bool" where
  "paymentBodySchema datetime body =
     (optional_ok min_one (pyb_id body) \<and> min_one (pyb_matterId body) \<and> min_one (pyb_invoiceId body)
      \<and> optional_ok min_one (pyb_clientContactId body) \<and> pyb_amountCents body > 0 \<and> optional_ok datetime (pyb_receivedAt body)
      \<and> optional_ok min_one (pyb_reference body) \<and> optional_ok min_one (pyb_notes body))"

definition payment_of :: "LedgerContext \<Rightarrow> PaymentBody \<Rightarrow> ManualPaymentRecord" where
  "payment_of ctx body =
     \<lparr>pay_id = or_else (pyb_id body) (lctx_uuid ctx), pay_firmId = lctx_firmId ctx, pay_matterId = pyb_matterId body,
      pay_invoiceId = Some (pyb_invoiceId body), pay_clientContactId = pyb_clientContactId body,
      pay_receivedAt = or_else (pyb_receivedAt body) (lctx_now ctx), pay_amountCents = pyb_amountCents body,
      pay_method = pyb_method body, pay_reference = pyb_reference body, pay_status = Payment_pending_reconciliation,
      pay_receivedByUserId = user_id (lctx_user ctx), pay_reconciledAt = None, pay_reconciledByUserId = None,
      pay_reconciliationNotes = None, pay_reconciliationEvidence = None, pay_notes = pyb_notes body,
      pay_evidence = Some (pyb_evidence body)\<rparr>"

primrec payment_status_name :: "ManualPaymentStatus \<Rightarrow> string" where
  "payment_status_name Payment_pending_reconciliation = ''pending_reconciliation''"
| "payment_status_name Payment_received = ''received''"
| "payment_status_name Payment_void = ''void''"

definition paymentMetadata :: "PaymentWithAllocations \<Rightarrow> ((string \<times> js_value) list) option \<Rightarrow> (string \<times> js_value) list" where
  "paymentMetadata payment evidence =
     [(''matterId'', JStr (pay_matterId payment)), (''paymentId'', JStr (pay_id payment)),
      (''invoiceId'', text_value (pay_invoiceId payment)), (''status'', JStr (payment_status_name (pay_status payment))),
      (''amountCents'', JNum (pay_amountCents payment)),
      (''allocationCount'', JNum (int (length (pay_allocations payment)))),
      (''evidencePresent'', JBool (or_else evidence [] \<noteq> []))]"

definition postPaymentRoute ::
  "(string \<Rightarrow> string) \<Rightarrow> (string \<Rightarrow> bool) \<Rightarrow> LedgerContext \<Rightarrow> PaymentBody \<Rightarrow> BillingApi \<Rightarrow> PaymentWithAllocations result \<times> BillingApi" where
  "postPaymentRoute sha256 datetime ctx body api =
     guarded (parseRequestPart (paymentBodySchema datetime body)) api (\<lambda>_.
     guarded (assertMatterAccess ctx Res_expense_entry Act_create (Some (pyb_matterId body))) api (\<lambda>_.
     case getMemoryInvoice (bapi_books api) (lctx_firmId ctx) (pyb_invoiceId body) of
       None \<Rightarrow> (throw ''Invoice was not found'', api)
     | Some invoice \<Rightarrow>
         guarded (throw_if (inv_matterId invoice \<noteq> pyb_matterId body) ''Payment invoice must belong to the matter'') api (\<lambda>_.
         case createMemoryPayment (bapi_books api) (payment_of ctx body) [] of
           (Inl e, books) \<Rightarrow> (Inl e, api\<lparr>bapi_books := books\<rparr>)
         | (Inr created, books) \<Rightarrow>
             (Inr created, record_event sha256 ctx ''manual_payment.created'' ''manual_payment'' (pay_id created)
                (paymentMetadata created (pay_evidence created)) (api\<lparr>bapi_books := books\<rparr>)))))"

definition reconcilePaymentBodySchema :: "(string \<Rightarrow> bool) \<Rightarrow> ReconcilePaymentBody \<Rightarrow> bool" where
  "reconcilePaymentBodySchema datetime body =
     (optional_ok datetime (rpy_reconciledAt body) \<and> optional_ok min_one (rpy_notes body))"

definition reconcile_input :: "LedgerContext \<Rightarrow> string \<Rightarrow> ReconcilePaymentBody \<Rightarrow> ReconcileInput" where
  "reconcile_input ctx paymentId body =
     \<lparr>rec_firmId = lctx_firmId ctx, rec_paymentId = paymentId, rec_reconciledByUserId = user_id (lctx_user ctx),
      rec_reconciledAt = or_else (rpy_reconciledAt body) (lctx_now ctx), rec_notes = rpy_notes body,
      rec_evidence = Some (rpy_evidence body)\<rparr>"

definition payment_can_reconcile :: "BillingApi \<Rightarrow> LedgerContext \<Rightarrow> PaymentWithAllocations \<Rightarrow> unit result" where
  "payment_can_reconcile api ctx existing =
     (if pay_status existing \<noteq> Payment_pending_reconciliation then throw ''Manual payment is not pending reconciliation''
      else if \<not> truthy (pay_invoiceId existing) then throw ''Manual payment invoice was not found''
      else (case getMemoryInvoice (bapi_books api) (lctx_firmId ctx) (or_else (pay_invoiceId existing) []) of
          None \<Rightarrow> throw ''Manual payment invoice was not found''
        | Some invoice \<Rightarrow> run_checks
            [throw_if (inv_matterId invoice \<noteq> pay_matterId existing) ''Manual payment invoice must belong to the payment matter'',
             throw_if (pay_amountCents existing > inv_balanceDueCents invoice) ''Payment allocation exceeds invoice balance'']))"

definition reconcilePaymentRoute ::
  "(string \<Rightarrow> string) \<Rightarrow> (string \<Rightarrow> bool) \<Rightarrow> LedgerContext \<Rightarrow> string \<Rightarrow> ReconcilePaymentBody \<Rightarrow> BillingApi \<Rightarrow> PaymentWithAllocations result \<times> BillingApi" where
  "reconcilePaymentRoute sha256 datetime ctx paymentId body api =
     guarded (parseRequestPart (min_one paymentId)) api (\<lambda>_.
     guarded (parseRequestPart (reconcilePaymentBodySchema datetime body)) api (\<lambda>_.
     case List.find (\<lambda>candidate. pay_id candidate = paymentId)
         (listMemoryPayments (bapi_books api) (lctx_firmId ctx) \<lparr>mopt_matterId = None, mopt_matterIds = None\<rparr> None) of
       None \<Rightarrow> (throw ''Manual payment was not found'', api)
     | Some existing \<Rightarrow>
         guarded (assertMatterAccess ctx Res_expense_entry Act_create (Some (pay_matterId existing))) api (\<lambda>_.
         guarded (payment_can_reconcile api ctx existing) api (\<lambda>_.
         guarded (requireFreshAuth ctx) api (\<lambda>_.
         case reconcileMemoryPayment (lctx_uuid ctx) (bapi_books api) (reconcile_input ctx (pay_id existing) body) of
           (Inl e, books) \<Rightarrow> (Inl e, api\<lparr>bapi_books := books\<rparr>)
         | (Inr reconciled, books) \<Rightarrow>
             (Inr reconciled, record_event sha256 ctx ''manual_payment.reconciled'' ''manual_payment'' (pay_id reconciled)
                (paymentMetadata reconciled (pay_reconciliationEvidence reconciled)) (api\<lparr>bapi_books := books\<rparr>)))))))"

end
