(* ===== verification/Billing_Runs.thy ===== *)
theory Billing_Runs
  imports Billing_Invoice_Api
begin

section \<open>Runs of the billing routes\<close>

text \<open>
  The step relation of all writing routes of billing, and what holds in every state they can reach. A new
  entry, invoice or payment has an identifier that is not in use: the tables of the database have the
  identifier as their primary key, the in-memory lists do not check it.
\<close>

subsection \<open>The calls\<close>

inductive billing_step ::
  "(string \<Rightarrow> string) \<Rightarrow> (string \<Rightarrow> bool) \<Rightarrow> (string \<Rightarrow> string \<Rightarrow> int) \<Rightarrow> BillingApi \<Rightarrow> BillingApi \<Rightarrow> bool"
  for sha256 datetime collate where
  call_lock: "createPeriodLockRoute sha256 datetime ctx lock s = (r1, t) \<Longrightarrow> billing_step sha256 datetime collate s t"
| call_rate: "createRateRuleRoute sha256 datetime ctx rate s = (r2, t) \<Longrightarrow> billing_step sha256 datetime collate s t"
| call_category: "createExpenseCategoryRoute sha256 ctx category s = (r3, t) \<Longrightarrow> billing_step sha256 datetime collate s t"
| call_patch_category: "patchExpenseCategoryRoute sha256 ctx i change s = (r4, t) \<Longrightarrow> billing_step sha256 datetime collate s t"
| call_time: "postTimeEntryRoute sha256 datetime collate ctx time s = (r5, t)
    \<Longrightarrow> or_else (teb_id time) (lctx_uuid ctx) \<notin> time_id ` set (ent_timeEntries (bapi_entries s)) \<Longrightarrow> billing_step sha256 datetime collate s t"
| call_timer: "postTimerDraftRoute sha256 datetime collate ctx timer s = (r6, t)
    \<Longrightarrow> or_else (tdb_id timer) (lctx_uuid ctx) \<notin> time_id ` set (ent_timeEntries (bapi_entries s)) \<Longrightarrow> billing_step sha256 datetime collate s t"
| call_patch_time: "patchTimeEntryRoute sha256 datetime collate ctx i patch s = (r7, t) \<Longrightarrow> billing_step sha256 datetime collate s t"
| call_move_time: "timeTransitionRoute sha256 collate ctx route i s = (r8, t) \<Longrightarrow> billing_step sha256 datetime collate s t"
| call_expense: "postExpenseEntryRoute sha256 datetime collate ctx cost s = (r9, t)
    \<Longrightarrow> or_else (eeb_id cost) (lctx_uuid ctx) \<notin> exp_id ` set (ent_expenseEntries (bapi_entries s)) \<Longrightarrow> billing_step sha256 datetime collate s t"
| call_draft: "postExpenseReviewDraftRoute sha256 datetime collate ctx draft s = (r10, t)
    \<Longrightarrow> or_else (eeb_id draft) (lctx_uuid ctx) \<notin> exp_id ` set (ent_expenseEntries (bapi_entries s)) \<Longrightarrow> billing_step sha256 datetime collate s t"
| call_patch_expense: "patchExpenseEntryRoute sha256 datetime collate ctx i epatch s = (r11, t) \<Longrightarrow> billing_step sha256 datetime collate s t"
| call_move_expense: "expenseTransitionRoute sha256 collate ctx route i s = (r12, t) \<Longrightarrow> billing_step sha256 datetime collate s t"
| call_invoice: "postInvoiceRoute sha256 datetime ctx lineIds invoice s = (r13, t)
    \<Longrightarrow> invoice_id_of ctx invoice \<notin> inv_id ` set (bill_invoices (bapi_books s)) \<Longrightarrow> billing_step sha256 datetime collate s t"
| call_approve_invoice: "approveInvoiceRoute sha256 collate ctx i s = (r14, t) \<Longrightarrow> billing_step sha256 datetime collate s t"
| call_issue: "issueInvoiceRoute sha256 ctx i s = (r15, t) \<Longrightarrow> billing_step sha256 datetime collate s t"
| call_void: "voidInvoiceRoute sha256 ctx i s = (r16, t) \<Longrightarrow> billing_step sha256 datetime collate s t"
| call_payment: "postPaymentRoute sha256 datetime ctx payment s = (r17, t)
    \<Longrightarrow> or_else (pyb_id payment) (lctx_uuid ctx) \<notin> pay_id ` set (bill_manualPayments (bapi_books s)) \<Longrightarrow> billing_step sha256 datetime collate s t"
| call_reconcile_payment: "reconcilePaymentRoute sha256 datetime ctx i reconcile s = (r18, t) \<Longrightarrow> billing_step sha256 datetime collate s t"

definition empty_billing :: "BillingApi \<Rightarrow> bool" where
  "empty_billing s \<longleftrightarrow> ent_timeEntries (bapi_entries s) = [] \<and> ent_expenseEntries (bapi_entries s) = []
     \<and> no_bills (bapi_books s) \<and> no_controls (bapi_controls s) \<and> no_events (bapi_audit s)"

subsection \<open>What a call does to the entries\<close>

definition unlocked :: "BillingApi \<Rightarrow> string \<Rightarrow> string \<Rightarrow> bool" where
  "unlocked s firmId timestamp \<longleftrightarrow> (\<forall>lock \<in> set (ctl_billingPeriodLocks (bapi_controls s)).
     lock_firmId lock = firmId \<longrightarrow> \<not> billingDateFallsInsideLock timestamp lock)"

lemma unlocked_check: "assertBillingTimestampUnlocked collate s firmId timestamp label = Inr () \<longleftrightarrow> unlocked s firmId timestamp"
proof (cases "lockedBillingPeriodForTimestamp timestamp (listMemoryBillingPeriodLocks collate (bapi_controls s) firmId)")
  case None
  then have "unlocked s firmId timestamp"
    by (auto simp: lockedBillingPeriodForTimestamp_def unlocked_def listMemoryBillingPeriodLocks_def find_None_all)
  then show ?thesis using None by (simp add: assertBillingTimestampUnlocked_def)
next
  case (Some lock)
  then have "lock \<in> set (ctl_billingPeriodLocks (bapi_controls s)) \<and> lock_firmId lock = firmId \<and> billingDateFallsInsideLock timestamp lock"
    using find_Some_mem by (fastforce simp: lockedBillingPeriodForTimestamp_def listMemoryBillingPeriodLocks_def)
  then show ?thesis using Some by (auto simp: assertBillingTimestampUnlocked_def unlocked_def)
qed

lemma unlocked_nothing [simp]: "unlocked s firmId []"
proof -
  have "date_parse [] = None" by code_simp
  then show ?thesis by (simp add: unlocked_def billingDateFallsInsideLock_def js_le_def)
qed

lemma timer_unlocked:
  assumes "assertBillingTimerWindowUnlocked collate s firmId startedAt stoppedAt = Inr ()"
  shows "unlocked s firmId startedAt"
proof -
  from assms have window: "checkTimerWindow (date_parse startedAt) (date_parse stoppedAt) = Inr ()"
    and none: "List.find (\<lambda>lock. js_less (date_parse startedAt) (date_parse (lock_periodEnd lock))
              \<and> js_less (date_parse (lock_periodStart lock)) (date_parse stoppedAt))
          (listMemoryBillingPeriodLocks collate (bapi_controls s) firmId) = None"
    by (auto simp: assertBillingTimerWindowUnlocked_def billingTimerWindowOverlapsLock_def bind_result_ok split: option.splits)
  from window have "js_less (date_parse startedAt) (date_parse stoppedAt)"
    unfolding checkTimerWindow_def run_checks_ok by (auto simp: js_le_def js_less_def)
  moreover have "\<not> billingDateFallsInsideLock startedAt lock"
    if "lock \<in> set (ctl_billingPeriodLocks (bapi_controls s))" "lock_firmId lock = firmId"
      "js_less (date_parse startedAt) (date_parse stoppedAt)" for lock
  proof
    assume "billingDateFallsInsideLock startedAt lock"
    then have "js_less (date_parse startedAt) (date_parse (lock_periodEnd lock)) \<and> js_less (date_parse (lock_periodStart lock)) (date_parse stoppedAt)"
      using that(3) by (auto simp: billingDateFallsInsideLock_def js_le_def js_less_def split: option.splits)
    then show False using none that(1,2) unfolding find_None_all by (simp add: listMemoryBillingPeriodLocks_def)
  qed
  ultimately show ?thesis by (simp add: unlocked_def)
qed

definition audit_kept :: "(string \<Rightarrow> string) \<Rightarrow> BillingApi \<Rightarrow> BillingApi \<Rightarrow> bool" where
  "audit_kept sha256 s t \<longleftrightarrow> (chains_ok sha256 (bapi_audit s) \<longrightarrow> chains_ok sha256 (bapi_audit t))"

lemma record_event_fields [simp]:
  "bapi_entries (record_event sha ctx a rt ri m s) = bapi_entries s" "bapi_books (record_event sha ctx a rt ri m s) = bapi_books s"
  "bapi_controls (record_event sha ctx a rt ri m s) = bapi_controls s"
  by (simp_all add: record_event_def)

lemma audit_kept_refl [simp]: "bapi_audit t = bapi_audit s \<Longrightarrow> audit_kept sha s t"
  by (simp add: audit_kept_def)

lemma audit_kept_event [simp]:
  "bapi_audit t = bapi_audit s \<Longrightarrow> audit_kept sha s (record_event sha ctx a rt ri m t)"
  by (simp add: audit_kept_def record_event_def appendLedgerAuditEvent_def)
    (metis append_keeps_chains prod.collapse)

text \<open>The entries are as before, or have one more at the end, or one entry that was not final is updated; nothing of it is locked.\<close>

definition time_change :: "BillingApi \<Rightarrow> string \<Rightarrow> TimeEntry list \<Rightarrow> TimeEntry list \<Rightarrow> bool" where
  "time_change s firmId xs ys \<longleftrightarrow> ys = xs
     \<or> (\<exists>e. ys = xs @ [e] \<and> time_id e \<notin> time_id ` set xs \<and> time_firmId e = firmId \<and> unlocked s firmId (time_performedAt e))
     \<or> (\<exists>i e u. List.find (is_time_entry firmId i) xs = Some e \<and> time_billingStatus e \<notin> {Billing_billed, Billing_written_off}
          \<and> unlocked s firmId (time_performedAt e) \<and> unlocked s firmId (time_performedAt (with_time_updates u e))
          \<and> ys = update_first (is_time_entry firmId i) (with_time_updates u) xs)"

definition expense_change :: "BillingApi \<Rightarrow> string \<Rightarrow> ExpenseEntry list \<Rightarrow> ExpenseEntry list \<Rightarrow> bool" where
  "expense_change s firmId xs ys \<longleftrightarrow> ys = xs
     \<or> (\<exists>e. ys = xs @ [e] \<and> exp_id e \<notin> exp_id ` set xs \<and> exp_firmId e = firmId \<and> unlocked s firmId (exp_incurredAt e))
     \<or> (\<exists>i e u. List.find (is_expense_entry firmId i) xs = Some e \<and> exp_billingStatus e \<notin> {Billing_billed, Billing_written_off}
          \<and> unlocked s firmId (exp_incurredAt e) \<and> unlocked s firmId (exp_incurredAt (with_expense_updates u e))
          \<and> ys = update_first (is_expense_entry firmId i) (with_expense_updates u) xs)"

definition entries_change :: "(string \<Rightarrow> string) \<Rightarrow> string \<Rightarrow> BillingApi \<Rightarrow> BillingApi \<Rightarrow> bool" where
  "entries_change sha256 firmId s t \<longleftrightarrow> bapi_books t = bapi_books s
     \<and> time_change s firmId (ent_timeEntries (bapi_entries s)) (ent_timeEntries (bapi_entries t))
     \<and> expense_change s firmId (ent_expenseEntries (bapi_entries s)) (ent_expenseEntries (bapi_entries t))
     \<and> audit_kept sha256 s t"

lemma entries_change_refl [simp]: "entries_change sha firmId s s"
  by (simp add: entries_change_def time_change_def expense_change_def)

lemma entries_same_change:
  assumes "bapi_books t = bapi_books s" "ent_timeEntries (bapi_entries t) = ent_timeEntries (bapi_entries s)"
    "ent_expenseEntries (bapi_entries t) = ent_expenseEntries (bapi_entries s)" "audit_kept sha s t"
  shows "entries_change sha firmId s t"
  using assms by (simp add: entries_change_def time_change_def expense_change_def)

lemma controls_effects:
  "createPeriodLockRoute sha datetime ctx lock s = (r1, t) \<Longrightarrow> entries_change sha firmId s t"
  "createRateRuleRoute sha datetime ctx rate s = (r2, t) \<Longrightarrow> entries_change sha firmId s t"
  "createExpenseCategoryRoute sha ctx category s = (r3, t) \<Longrightarrow> entries_change sha firmId s t"
  "patchExpenseCategoryRoute sha ctx i change s = (r4, t) \<Longrightarrow> entries_change sha firmId s t"
  by (auto simp: createPeriodLockRoute_def createRateRuleRoute_def createExpenseCategoryRoute_def patchExpenseCategoryRoute_def
      guarded_def createMemoryBillingExpenseCategory_def updateMemoryBillingExpenseCategory_def
      split: sum.splits prod.splits option.splits if_splits intro!: entries_same_change)


lemma time_added:
  assumes "unlocked s firmId (time_performedAt e)" "time_firmId e = firmId" "time_id e \<notin> time_id ` set (ent_timeEntries (bapi_entries s))"
    and "bapi_entries t = (bapi_entries s)\<lparr>ent_timeEntries := ent_timeEntries (bapi_entries s) @ [e]\<rparr>" "bapi_books t = bapi_books s"
    "audit_kept sha s t"
  shows "entries_change sha firmId s t"
  using assms by (auto simp: entries_change_def time_change_def expense_change_def)

lemma expense_added:
  assumes "unlocked s firmId (exp_incurredAt e)" "exp_firmId e = firmId" "exp_id e \<notin> exp_id ` set (ent_expenseEntries (bapi_entries s))"
    and "bapi_entries t = (bapi_entries s)\<lparr>ent_expenseEntries := ent_expenseEntries (bapi_entries s) @ [e]\<rparr>" "bapi_books t = bapi_books s"
    "audit_kept sha s t"
  shows "entries_change sha firmId s t"
  using assms by (auto simp: entries_change_def time_change_def expense_change_def)

lemma time_updated:
  assumes "getMemoryTimeEntry (bapi_entries s) firmId i = Some e" "time_billingStatus e \<notin> {Billing_billed, Billing_written_off}"
    and "unlocked s firmId (time_performedAt e)" "unlocked s firmId (time_performedAt (with_time_updates u e))"
    and "updateMemoryTimeEntry (bapi_entries s) firmId i u = (r, entries)" "bapi_entries t = entries" "bapi_books t = bapi_books s"
    "audit_kept sha s t"
  shows "entries_change sha firmId s t"
proof -
  have find: "List.find (is_time_entry firmId i) (ent_timeEntries (bapi_entries s)) = Some e"
    using assms(1) by (simp add: getMemoryTimeEntry_def)
  then have "entries = (bapi_entries s)\<lparr>ent_timeEntries :=
      update_first (is_time_entry firmId i) (with_time_updates u) (ent_timeEntries (bapi_entries s))\<rparr>"
    using assms(5) by (simp add: updateMemoryTimeEntry_def)
  then show ?thesis using assms(2-4,6-) find unfolding entries_change_def time_change_def expense_change_def by auto
qed

lemma expense_updated:
  assumes "getMemoryExpenseEntry (bapi_entries s) firmId i = Some e" "exp_billingStatus e \<notin> {Billing_billed, Billing_written_off}"
    and "unlocked s firmId (exp_incurredAt e)" "unlocked s firmId (exp_incurredAt (with_expense_updates u e))"
    and "updateMemoryExpenseEntry (bapi_entries s) firmId i u = (r, entries)" "bapi_entries t = entries" "bapi_books t = bapi_books s"
    "audit_kept sha s t"
  shows "entries_change sha firmId s t"
proof -
  have find: "List.find (is_expense_entry firmId i) (ent_expenseEntries (bapi_entries s)) = Some e"
    using assms(1) by (simp add: getMemoryExpenseEntry_def)
  then have "entries = (bapi_entries s)\<lparr>ent_expenseEntries :=
      update_first (is_expense_entry firmId i) (with_expense_updates u) (ent_expenseEntries (bapi_entries s))\<rparr>"
    using assms(5) by (simp add: updateMemoryExpenseEntry_def)
  then show ?thesis using assms(2-4,6-) find unfolding entries_change_def time_change_def expense_change_def by auto
qed

lemma time_route_effects:
  "postTimeEntryRoute sha datetime collate ctx time s = (r5, t)
    \<Longrightarrow> or_else (teb_id time) (lctx_uuid ctx) \<notin> time_id ` set (ent_timeEntries (bapi_entries s)) \<Longrightarrow> entries_change sha (lctx_firmId ctx) s t"
  "postTimerDraftRoute sha datetime collate ctx timer s = (r6, t)
    \<Longrightarrow> or_else (tdb_id timer) (lctx_uuid ctx) \<notin> time_id ` set (ent_timeEntries (bapi_entries s)) \<Longrightarrow> entries_change sha (lctx_firmId ctx) s t"
proof -
  assume run: "postTimeEntryRoute sha datetime collate ctx time s = (r5, t)"
    and fresh: "or_else (teb_id time) (lctx_uuid ctx) \<notin> time_id ` set (ent_timeEntries (bapi_entries s))"
  from run show "entries_change sha (lctx_firmId ctx) s t"
    unfolding postTimeEntryRoute_def Let_def
  proof (elim guarded_cases, goal_cases)
    case prems: (5 _ _ _ rate)
    have "unlocked s (lctx_firmId ctx) (or_else (teb_performedAt time) (lctx_now ctx))"
      using prems by (simp add: unlocked_check)
    then show ?case
      using prems fresh by (intro time_added [of s _ "time_entry_of ctx time rate"])
        (auto simp: createMemoryTimeEntry_def time_entry_of_def)
  qed simp_all
next
  assume run: "postTimerDraftRoute sha datetime collate ctx timer s = (r6, t)"
    and fresh: "or_else (tdb_id timer) (lctx_uuid ctx) \<notin> time_id ` set (ent_timeEntries (bapi_entries s))"
  from run show "entries_change sha (lctx_firmId ctx) s t"
    unfolding postTimerDraftRoute_def Let_def
  proof (elim guarded_cases, goal_cases)
    case prems: (6 _ _ _ minutes rate)
    have "unlocked s (lctx_firmId ctx) (tdb_startedAt timer)" using prems timer_unlocked by simp
    then show ?case
      using prems fresh by (intro time_added [of s _ "timer_entry_of ctx timer minutes rate"])
        (auto simp: createMemoryTimeEntry_def timer_entry_of_def)
  qed simp_all
qed


lemma time_update_effects:
  "patchTimeEntryRoute sha datetime collate ctx i patch s = (r7, t) \<Longrightarrow> entries_change sha (lctx_firmId ctx) s t"
  "timeTransitionRoute sha collate ctx route i s = (r8, t) \<Longrightarrow> entries_change sha (lctx_firmId ctx) s t"
proof -
  assume run: "patchTimeEntryRoute sha datetime collate ctx i patch s = (r7, t)"
  show "entries_change sha (lctx_firmId ctx) s t"
  proof (cases "getMemoryTimeEntry (bapi_entries s) (lctx_firmId ctx) i")
    case None
    then show ?thesis using run by (auto simp: patchTimeEntryRoute_def guarded_def split: sum.splits)
  next
    case (Some e)
    obtain r entries where upd: "updateMemoryTimeEntry (bapi_entries s) (lctx_firmId ctx) i (time_patch_updates ctx patch) = (r, entries)"
      by fastforce
    show ?thesis using run unfolding patchTimeEntryRoute_def Some option.case upd prod.case
    proof (elim guarded_cases, goal_cases)
      case prems: 7
      have "unlocked s (lctx_firmId ctx) (time_performedAt e)" using prems by (simp add: unlocked_check)
      moreover have "unlocked s (lctx_firmId ctx) (time_performedAt (with_time_updates (time_patch_updates ctx patch) e))"
        using prems calculation by (cases "tpb_performedAt patch")
          (auto simp: unlocked_check with_time_updates_def time_patch_updates_def split: if_splits)
      moreover have "time_billingStatus e \<notin> {Billing_billed, Billing_written_off}" using prems by simp
      ultimately show ?case
        using prems by (intro time_updated [OF Some _ _ _ upd]) (auto split: sum.splits)
    qed simp_all
  qed
next
  assume run: "timeTransitionRoute sha collate ctx route i s = (r8, t)"
  let ?u = "no_time_updates\<lparr>tup_billingStatus := Some (nextStatus route)\<rparr>"
  show "entries_change sha (lctx_firmId ctx) s t"
  proof (cases "getMemoryTimeEntry (bapi_entries s) (lctx_firmId ctx) i")
    case None
    then show ?thesis using run by (auto simp: timeTransitionRoute_def guarded_def split: sum.splits)
  next
    case (Some e)
    obtain r entries where upd: "updateMemoryTimeEntry (bapi_entries s) (lctx_firmId ctx) i ?u = (r, entries)" by fastforce
    show ?thesis using run unfolding timeTransitionRoute_def Some option.case upd prod.case
    proof (elim guarded_cases, goal_cases)
      case prems: 5
      have "unlocked s (lctx_firmId ctx) (time_performedAt e)" using prems by (simp add: unlocked_check)
      moreover from this have "unlocked s (lctx_firmId ctx) (time_performedAt (with_time_updates ?u e))"
        by (simp add: with_time_updates_def no_time_updates_def)
      moreover have "time_billingStatus e \<notin> {Billing_billed, Billing_written_off}"
        using prems by (auto simp: assertBillingStatusTransition_def)
      ultimately show ?case
        using prems by (intro time_updated [OF Some _ _ _ upd]) (auto split: sum.splits)
    qed simp_all
  qed
qed


lemma expense_route_effects:
  "postExpenseEntryRoute sha datetime collate ctx cost s = (r9, t)
    \<Longrightarrow> or_else (eeb_id cost) (lctx_uuid ctx) \<notin> exp_id ` set (ent_expenseEntries (bapi_entries s)) \<Longrightarrow> entries_change sha (lctx_firmId ctx) s t"
  "postExpenseReviewDraftRoute sha datetime collate ctx draft s = (r10, t)
    \<Longrightarrow> or_else (eeb_id draft) (lctx_uuid ctx) \<notin> exp_id ` set (ent_expenseEntries (bapi_entries s)) \<Longrightarrow> entries_change sha (lctx_firmId ctx) s t"
proof -
  assume run: "postExpenseEntryRoute sha datetime collate ctx cost s = (r9, t)"
    and fresh: "or_else (eeb_id cost) (lctx_uuid ctx) \<notin> exp_id ` set (ent_expenseEntries (bapi_entries s))"
  from run show "entries_change sha (lctx_firmId ctx) s t"
    unfolding postExpenseEntryRoute_def Let_def
  proof (elim guarded_cases, goal_cases)
    case prems: (5 _ _ _ chosen)
    obtain category reimbursable where "chosen = (category, reimbursable)" by fastforce
    moreover have "unlocked s (lctx_firmId ctx) (or_else (eeb_incurredAt cost) (lctx_now ctx))"
      using prems by (simp add: unlocked_check)
    ultimately show ?case
      using prems fresh by (intro expense_added [of s _ "expense_of ctx cost (eeb_billingStatus cost) category reimbursable"])
        (auto simp: createMemoryExpenseEntry_def expense_of_def)
  qed simp_all
next
  assume run: "postExpenseReviewDraftRoute sha datetime collate ctx draft s = (r10, t)"
    and fresh: "or_else (eeb_id draft) (lctx_uuid ctx) \<notin> exp_id ` set (ent_expenseEntries (bapi_entries s))"
  from run show "entries_change sha (lctx_firmId ctx) s t"
    unfolding postExpenseReviewDraftRoute_def Let_def
  proof (elim guarded_cases, goal_cases)
    case prems: (5 _ _ _ chosen)
    obtain category reimbursable where "chosen = (category, reimbursable)" by fastforce
    moreover have "unlocked s (lctx_firmId ctx) (or_else (eeb_incurredAt draft) (lctx_now ctx))"
      using prems by (simp add: unlocked_check)
    ultimately show ?case
      using prems fresh by (intro expense_added [of s _ "expense_of ctx draft Billing_draft category reimbursable"])
        (auto simp: createMemoryExpenseEntry_def expense_of_def)
  qed simp_all
qed

lemma patch_keeps_date:
  "expense_patch_updates ctx s e patch = Inr u \<Longrightarrow> eup_incurredAt u = epb_incurredAt patch"
  by (auto simp: expense_patch_updates_def bind_result_ok plain_expense_updates_def split: if_splits)

lemma expense_update_effects:
  "patchExpenseEntryRoute sha datetime collate ctx i patch s = (r11, t) \<Longrightarrow> entries_change sha (lctx_firmId ctx) s t"
  "expenseTransitionRoute sha collate ctx route i s = (r12, t) \<Longrightarrow> entries_change sha (lctx_firmId ctx) s t"
proof -
  assume run: "patchExpenseEntryRoute sha datetime collate ctx i patch s = (r11, t)"
  show "entries_change sha (lctx_firmId ctx) s t"
  proof (cases "getMemoryExpenseEntry (bapi_entries s) (lctx_firmId ctx) i")
    case None
    then show ?thesis using run by (auto simp: patchExpenseEntryRoute_def guarded_def split: sum.splits)
  next
    case (Some e)
    show ?thesis using run unfolding patchExpenseEntryRoute_def Some option.case
    proof (elim guarded_cases, goal_cases)
      case prems: (8 _ _ _ _ _ _ u)
      obtain r entries where upd: "updateMemoryExpenseEntry (bapi_entries s) (lctx_firmId ctx) i u = (r, entries)" by fastforce
      have "unlocked s (lctx_firmId ctx) (exp_incurredAt e)" using prems by (simp add: unlocked_check)
      moreover have "eup_incurredAt u = epb_incurredAt patch" using prems patch_keeps_date by blast
      then have "unlocked s (lctx_firmId ctx) (exp_incurredAt (with_expense_updates u e))"
        using prems calculation by (cases "epb_incurredAt patch")
          (auto simp: unlocked_check with_expense_updates_def split: if_splits)
      moreover have "exp_billingStatus e \<notin> {Billing_billed, Billing_written_off}" using prems by simp
      ultimately show ?case
        using prems by (intro expense_updated [OF Some _ _ _ upd]) (auto simp: upd split: sum.splits)
    qed simp_all
  qed
next
  assume run: "expenseTransitionRoute sha collate ctx route i s = (r12, t)"
  let ?u = "no_expense_updates\<lparr>eup_billingStatus := Some (nextStatus route)\<rparr>"
  show "entries_change sha (lctx_firmId ctx) s t"
  proof (cases "getMemoryExpenseEntry (bapi_entries s) (lctx_firmId ctx) i")
    case None
    then show ?thesis using run by (auto simp: expenseTransitionRoute_def guarded_def split: sum.splits)
  next
    case (Some e)
    obtain r entries where upd: "updateMemoryExpenseEntry (bapi_entries s) (lctx_firmId ctx) i ?u = (r, entries)" by fastforce
    show ?thesis using run unfolding expenseTransitionRoute_def Some option.case upd prod.case
    proof (elim guarded_cases, goal_cases)
      case prems: 5
      have "unlocked s (lctx_firmId ctx) (exp_incurredAt e)" using prems by (simp add: unlocked_check)
      moreover from this have "unlocked s (lctx_firmId ctx) (exp_incurredAt (with_expense_updates ?u e))"
        by (simp add: with_expense_updates_def no_expense_updates_def)
      moreover have "exp_billingStatus e \<notin> {Billing_billed, Billing_written_off}"
        using prems by (auto simp: assertBillingStatusTransition_def)
      ultimately show ?case
        using prems by (intro expense_updated [OF Some _ _ _ upd]) (auto split: sum.splits)
    qed simp_all
  qed
qed


subsection \<open>Entries under their identifiers\<close>

text \<open>
  What the invoices need to know of an entry: its firm, its matter and its status. \<open>entry_info\<close> gives it
  for a reference to a time entry or an expense, and a call changes it only for entries that are not final.
\<close>

datatype EntryRef = Time_ref string | Expense_ref string

primrec entry_info :: "MemoryBillingEntriesStore \<Rightarrow> EntryRef \<Rightarrow> (string \<times> string \<times> BillingStatus) option" where
  "entry_info x (Time_ref i) = map_option (\<lambda>e. (time_firmId e, time_matterId e, time_billingStatus e))
     (List.find (\<lambda>e. time_id e = i) (ent_timeEntries x))"
| "entry_info x (Expense_ref i) = map_option (\<lambda>e. (exp_firmId e, exp_matterId e, exp_billingStatus e))
     (List.find (\<lambda>e. exp_id e = i) (ent_expenseEntries x))"

definition entries_distinct :: "MemoryBillingEntriesStore \<Rightarrow> bool" where
  "entries_distinct x \<longleftrightarrow> distinct (map time_id (ent_timeEntries x)) \<and> distinct (map exp_id (ent_expenseEntries x))"

definition info_change :: "string \<Rightarrow> (string \<times> string \<times> BillingStatus) option \<Rightarrow> (string \<times> string \<times> BillingStatus) option \<Rightarrow> bool" where
  "info_change firmId old new \<longleftrightarrow> new = old \<or> old = None
     \<or> (\<exists>m st st'. old = Some (firmId, m, st) \<and> st \<notin> {Billing_billed, Billing_written_off} \<and> new = Some (firmId, m, st'))"

lemma find_update_first_key:
  assumes "distinct (map k xs)" "List.find p xs = Some e" "\<And>x. k (f x) = k x"
  shows "List.find (\<lambda>x. k x = j) (update_first p f xs) = (if j = k e then Some (f e) else List.find (\<lambda>x. k x = j) xs)"
  using assms
proof (induction xs)
  case (Cons x xs)
  show ?case
  proof (cases "p x")
    case False
    then have "List.find p xs = Some e" using Cons.prems(2) by simp
    moreover from this have "k x \<noteq> k e" using Cons.prems(1) find_Some_mem by force
    ultimately show ?thesis using Cons False by auto
  qed (use Cons.prems in auto)
qed simp

lemma find_key_of: "distinct (map k xs) \<Longrightarrow> e \<in> set xs \<Longrightarrow> List.find (\<lambda>x. k x = k e) xs = Some e"
  by (induction xs) auto

lemma with_updates_keys [simp]:
  "time_id (with_time_updates u e) = time_id e" "time_firmId (with_time_updates u e) = time_firmId e"
  "time_matterId (with_time_updates u e) = time_matterId e" "exp_id (with_expense_updates v f) = exp_id f"
  "exp_firmId (with_expense_updates v f) = exp_firmId f" "exp_matterId (with_expense_updates v f) = exp_matterId f"
  by (simp_all add: with_time_updates_def with_expense_updates_def)

lemma time_change_info:
  assumes "time_change s firmId xs ys" "distinct (map time_id xs)"
  defines "info zs i \<equiv> map_option (\<lambda>e. (time_firmId e, time_matterId e, time_billingStatus e)) (List.find (\<lambda>e. time_id e = i) zs)"
  shows "distinct (map time_id ys) \<and> info_change firmId (info xs i) (info ys i)"
  using assms(1) unfolding time_change_def
proof (elim disjE exE conjE)
  fix e assume "ys = xs @ [e]" "time_id e \<notin> time_id ` set xs"
  then show ?thesis using assms(2)
    by (cases "List.find (\<lambda>e. time_id e = i) xs") (auto simp: info_def info_change_def find_append)
next
  fix j e u
  assume find: "List.find (is_time_entry firmId j) xs = Some e" and open_status: "time_billingStatus e \<notin> {Billing_billed, Billing_written_off}"
    and ys: "ys = update_first (is_time_entry firmId j) (with_time_updates u) xs"
  have "map time_id ys = map time_id xs" unfolding ys by (rule map_update_first) simp
  moreover have "List.find (\<lambda>x. time_id x = i) ys = (if i = time_id e then Some (with_time_updates u e) else List.find (\<lambda>x. time_id x = i) xs)"
    unfolding ys using find_update_first_key [OF assms(2) find] by simp
  moreover have "List.find (\<lambda>x. time_id x = time_id e) xs = Some e" "time_firmId e = firmId"
    using find_key_of [OF assms(2)] find_Some_mem [OF find] by (auto simp: is_time_entry_def)
  ultimately show ?thesis using assms(2) open_status by (auto simp: info_def info_change_def)
qed (use assms(2) in \<open>simp add: info_change_def\<close>)

lemma expense_change_info:
  assumes "expense_change s firmId xs ys" "distinct (map exp_id xs)"
  defines "info zs i \<equiv> map_option (\<lambda>e. (exp_firmId e, exp_matterId e, exp_billingStatus e)) (List.find (\<lambda>e. exp_id e = i) zs)"
  shows "distinct (map exp_id ys) \<and> info_change firmId (info xs i) (info ys i)"
  using assms(1) unfolding expense_change_def
proof (elim disjE exE conjE)
  fix e assume "ys = xs @ [e]" "exp_id e \<notin> exp_id ` set xs"
  then show ?thesis using assms(2)
    by (cases "List.find (\<lambda>e. exp_id e = i) xs") (auto simp: info_def info_change_def find_append)
next
  fix j e u
  assume find: "List.find (is_expense_entry firmId j) xs = Some e" and open_status: "exp_billingStatus e \<notin> {Billing_billed, Billing_written_off}"
    and ys: "ys = update_first (is_expense_entry firmId j) (with_expense_updates u) xs"
  have "map exp_id ys = map exp_id xs" unfolding ys by (rule map_update_first) simp
  moreover have "List.find (\<lambda>x. exp_id x = i) ys = (if i = exp_id e then Some (with_expense_updates u e) else List.find (\<lambda>x. exp_id x = i) xs)"
    unfolding ys using find_update_first_key [OF assms(2) find] by simp
  moreover have "List.find (\<lambda>x. exp_id x = exp_id e) xs = Some e" "exp_firmId e = firmId"
    using find_key_of [OF assms(2)] find_Some_mem [OF find] by (auto simp: is_expense_entry_def)
  ultimately show ?thesis using assms(2) open_status by (auto simp: info_def info_change_def)
qed (use assms(2) in \<open>simp add: info_change_def\<close>)

lemma entries_change_info:
  assumes "entries_change sha firmId s t" "entries_distinct (bapi_entries s)"
  shows "entries_distinct (bapi_entries t)" "info_change firmId (entry_info (bapi_entries s) ref) (entry_info (bapi_entries t) ref)"
proof -
  have change: "time_change s firmId (ent_timeEntries (bapi_entries s)) (ent_timeEntries (bapi_entries t))"
    "expense_change s firmId (ent_expenseEntries (bapi_entries s)) (ent_expenseEntries (bapi_entries t))"
    using assms(1) by (simp_all add: entries_change_def)
  show "entries_distinct (bapi_entries t)"
    using time_change_info [OF change(1)] expense_change_info [OF change(2)] assms(2) by (simp add: entries_distinct_def)
  show "info_change firmId (entry_info (bapi_entries s) ref) (entry_info (bapi_entries t) ref)"
    using time_change_info [OF change(1)] expense_change_info [OF change(2)] assms(2)
    by (cases ref) (simp_all add: entries_distinct_def)
qed

subsection \<open>Billing the lines of an invoice\<close>

definition line_refs :: "InvoiceLineRecord \<Rightarrow> EntryRef list" where
  "line_refs line =
     (if truthy (line_timeEntryId line) then [Time_ref (or_else (line_timeEntryId line) [])] else []) @
     (if truthy (line_expenseEntryId line) then [Expense_ref (or_else (line_expenseEntryId line) [])] else [])"

definition bill_refs :: "EntryRef set \<Rightarrow> MemoryBillingEntriesStore \<Rightarrow> MemoryBillingEntriesStore" where
  "bill_refs refs x = x
     \<lparr>ent_timeEntries := map (\<lambda>e. if Time_ref (time_id e) \<in> refs then e\<lparr>time_billingStatus := Billing_billed\<rparr> else e) (ent_timeEntries x),
      ent_expenseEntries := map (\<lambda>e. if Expense_ref (exp_id e) \<in> refs then e\<lparr>exp_billingStatus := Billing_billed\<rparr> else e) (ent_expenseEntries x)\<rparr>"

lemma bill_refs_simps: "bill_refs {} x = x" "bill_refs A (bill_refs B x) = bill_refs (B \<union> A) x"
  by (auto simp: bill_refs_def)

lemma bill_refs_distinct [simp]: "entries_distinct (bill_refs refs x) = entries_distinct x"
  by (simp add: entries_distinct_def bill_refs_def comp_def if_distrib [of time_id] if_distrib [of exp_id] cong: if_cong)

lemma find_map_key:
  assumes "\<And>x. k (f x) = k x"
  shows "List.find (\<lambda>x. k x = i) (map f xs) = map_option f (List.find (\<lambda>x. k x = i) xs)"
  using assms by (induction xs) auto

lemma bill_refs_info:
  "entry_info (bill_refs refs x) ref =
     (if ref \<in> refs then map_option (\<lambda>(f, m, st). (f, m, Billing_billed)) (entry_info x ref) else entry_info x ref)"
proof (cases ref)
  case (Time_ref i)
  let ?f = "\<lambda>e. if Time_ref (time_id e) \<in> refs then e\<lparr>time_billingStatus := Billing_billed\<rparr> else e"
  have "List.find (\<lambda>e. time_id e = i) (map ?f (ent_timeEntries x)) = map_option ?f (List.find (\<lambda>e. time_id e = i) (ent_timeEntries x))"
    by (rule find_map_key) simp
  then show ?thesis
    by (cases "List.find (\<lambda>e. time_id e = i) (ent_timeEntries x)") (auto simp: Time_ref bill_refs_def dest: find_Some_mem)
next
  case (Expense_ref i)
  let ?f = "\<lambda>e. if Expense_ref (exp_id e) \<in> refs then e\<lparr>exp_billingStatus := Billing_billed\<rparr> else e"
  have "List.find (\<lambda>e. exp_id e = i) (map ?f (ent_expenseEntries x)) = map_option ?f (List.find (\<lambda>e. exp_id e = i) (ent_expenseEntries x))"
    by (rule find_map_key) simp
  then show ?thesis
    by (cases "List.find (\<lambda>e. exp_id e = i) (ent_expenseEntries x)") (auto simp: Expense_ref bill_refs_def dest: find_Some_mem)
qed


lemma update_first_unique:
  assumes "distinct (map k xs)" "List.find p xs = Some e" "\<And>x. p x \<Longrightarrow> k x = i"
  shows "update_first p f xs = map (\<lambda>x. if k x = i then f x else x) xs"
  using assms
proof (induction xs)
  case (Cons x xs)
  show ?case
  proof (cases "p x")
    case True
    then have "k x = i" using Cons.prems(3) by simp
    moreover from this have "map (\<lambda>x. if k x = i then f x else x) xs = xs" using Cons.prems(1) by (intro map_idI) (auto simp: image_iff)
    ultimately show ?thesis using True by simp
  next
    case False
    then have "List.find p xs = Some e" using Cons.prems(2) by simp
    moreover from this have "k e = i" "e \<in> set xs" using Cons.prems(3) find_Some_mem by fastforce+
    then have "k x \<noteq> i" using Cons.prems(1) by auto
    ultimately show ?thesis using Cons False by simp
  qed
qed simp

definition refs_known :: "MemoryBillingEntriesStore \<Rightarrow> string \<Rightarrow> EntryRef set \<Rightarrow> bool" where
  "refs_known x firmId refs \<longleftrightarrow> (\<forall>r \<in> refs. \<exists>m st. entry_info x r = Some (firmId, m, st))"

lemma refs_known_billed: "refs_known x firmId refs \<Longrightarrow> refs_known (bill_refs A x) firmId refs"
  unfolding refs_known_def bill_refs_info by (force split: if_splits)

lemma find_known_time:
  assumes "entries_distinct x" "refs_known x firmId {Time_ref i}"
  shows "\<exists>e. List.find (is_time_entry firmId i) (ent_timeEntries x) = Some e \<and> e \<in> set (ent_timeEntries x) \<and> time_id e = i"
proof -
  obtain e where e: "List.find (\<lambda>e. time_id e = i) (ent_timeEntries x) = Some e" "time_firmId e = firmId"
    using assms(2) by (auto simp: refs_known_def)
  then have mem: "e \<in> set (ent_timeEntries x)" "time_id e = i" using find_Some_mem by force+
  then have "List.find (is_time_entry firmId i) (ent_timeEntries x) \<noteq> None"
    using e(2) by (auto simp: find_None_all is_time_entry_def)
  then obtain f where "List.find (is_time_entry firmId i) (ent_timeEntries x) = Some f" by blast
  with find_Some_mem [OF this] show ?thesis by (simp add: is_time_entry_def)
qed

lemma find_known_expense:
  assumes "entries_distinct x" "refs_known x firmId {Expense_ref i}"
  shows "\<exists>e. List.find (is_expense_entry firmId i) (ent_expenseEntries x) = Some e \<and> e \<in> set (ent_expenseEntries x) \<and> exp_id e = i"
proof -
  obtain e where e: "List.find (\<lambda>e. exp_id e = i) (ent_expenseEntries x) = Some e" "exp_firmId e = firmId"
    using assms(2) by (auto simp: refs_known_def)
  then have mem: "e \<in> set (ent_expenseEntries x)" "exp_id e = i" using find_Some_mem by force+
  then have "List.find (is_expense_entry firmId i) (ent_expenseEntries x) \<noteq> None"
    using e(2) by (auto simp: find_None_all is_expense_entry_def)
  then obtain f where "List.find (is_expense_entry firmId i) (ent_expenseEntries x) = Some f" by blast
  with find_Some_mem [OF this] show ?thesis by (simp add: is_expense_entry_def)
qed

lemma with_billed [simp]:
  "with_time_updates (no_time_updates\<lparr>tup_billingStatus := Some st\<rparr>) = (\<lambda>e. e\<lparr>time_billingStatus := st\<rparr>)"
  "with_expense_updates (no_expense_updates\<lparr>eup_billingStatus := Some st\<rparr>) = (\<lambda>f. f\<lparr>exp_billingStatus := st\<rparr>)"
  by (simp_all add: fun_eq_iff with_time_updates_def no_time_updates_def with_expense_updates_def no_expense_updates_def)

lemma bill_time_of_known:
  assumes "entries_distinct x" "refs_known x firmId (set (line_refs line))"
  shows "bill_time_of_line firmId line x =
    (Inr (), bill_refs (if truthy (line_timeEntryId line) then {Time_ref (or_else (line_timeEntryId line) [])} else {}) x)"
proof (cases "truthy (line_timeEntryId line)")
  case True
  let ?i = "or_else (line_timeEntryId line) []"
  have "refs_known x firmId {Time_ref ?i}" using assms(2) True by (simp add: refs_known_def line_refs_def)
  then obtain e where e: "List.find (is_time_entry firmId ?i) (ent_timeEntries x) = Some e"
    using find_known_time [OF assms(1)] by blast
  have "update_first (is_time_entry firmId ?i) (\<lambda>e. e\<lparr>time_billingStatus := Billing_billed\<rparr>) (ent_timeEntries x)
      = map (\<lambda>e. if time_id e = ?i then e\<lparr>time_billingStatus := Billing_billed\<rparr> else e) (ent_timeEntries x)"
    using assms(1) e by (intro update_first_unique [of _ _ _ e]) (auto simp: entries_distinct_def is_time_entry_def)
  then show ?thesis using True e
    by (simp add: bill_time_of_line_def updateMemoryTimeEntry_def bill_refs_def)
qed (simp add: bill_time_of_line_def bill_refs_simps)

lemma bill_expense_of_known:
  assumes "entries_distinct x" "refs_known x firmId (set (line_refs line))"
  shows "bill_expense_of_line firmId line x =
    (Inr (), bill_refs (if truthy (line_expenseEntryId line) then {Expense_ref (or_else (line_expenseEntryId line) [])} else {}) x)"
proof (cases "truthy (line_expenseEntryId line)")
  case True
  let ?i = "or_else (line_expenseEntryId line) []"
  have "refs_known x firmId {Expense_ref ?i}" using assms(2) True by (simp add: refs_known_def line_refs_def)
  then obtain e where e: "List.find (is_expense_entry firmId ?i) (ent_expenseEntries x) = Some e"
    using find_known_expense [OF assms(1)] by blast
  have "update_first (is_expense_entry firmId ?i) (\<lambda>e. e\<lparr>exp_billingStatus := Billing_billed\<rparr>) (ent_expenseEntries x)
      = map (\<lambda>e. if exp_id e = ?i then e\<lparr>exp_billingStatus := Billing_billed\<rparr> else e) (ent_expenseEntries x)"
    using assms(1) e by (intro update_first_unique [of _ _ _ e]) (auto simp: entries_distinct_def is_expense_entry_def)
  then show ?thesis using True e
    by (simp add: bill_expense_of_line_def updateMemoryExpenseEntry_def bill_refs_def)
qed (simp add: bill_expense_of_line_def bill_refs_simps)

lemma bill_lines_known:
  assumes "entries_distinct x" "refs_known x firmId (set (concat (map line_refs lines)))"
  shows "bill_lines firmId lines x = (Inr (), bill_refs (set (concat (map line_refs lines))) x)"
  using assms
proof (induction lines arbitrary: x)
  case (Cons line lines)
  have parts: "refs_known x firmId (set (line_refs line))" "refs_known x firmId (set (concat (map line_refs lines)))"
    using Cons.prems(2) by (auto simp: refs_known_def)
  let ?A = "if truthy (line_timeEntryId line) then {Time_ref (or_else (line_timeEntryId line) [])} else {}"
  let ?B = "if truthy (line_expenseEntryId line) then {Expense_ref (or_else (line_expenseEntryId line) [])} else {}"
  have "bill_lines firmId (line # lines) x = bill_lines firmId lines (bill_refs ?B (bill_refs ?A x))"
    using bill_time_of_known [OF Cons.prems(1) parts(1)]
      bill_expense_of_known [of "bill_refs ?A x" firmId line] Cons.prems(1) refs_known_billed [OF parts(1)] by simp
  also have "\<dots> = bill_lines firmId lines (bill_refs (set (line_refs line)) x)"
    by (simp add: bill_refs_simps line_refs_def Un_commute)
  also have "\<dots> = (Inr (), bill_refs (set (concat (map line_refs lines))) (bill_refs (set (line_refs line)) x))"
    using Cons.prems(1) refs_known_billed [OF parts(2)] by (intro Cons.IH) simp_all
  finally show ?case by (simp add: bill_refs_simps)
qed (simp add: bill_refs_simps)

text \<open>A line whose entries are known and pass the lock check leaves only unlocked entries to be billed.\<close>

lemma lines_unlocked:
  assumes "for_each (line_unlocked collate ctx s) lines = Inr ()" "entries_distinct (bapi_entries s)"
    and "refs_known (bapi_entries s) (lctx_firmId ctx) (set (concat (map line_refs lines)))"
  shows "e \<in> set (ent_timeEntries (bapi_entries s)) \<Longrightarrow> Time_ref (time_id e) \<in> set (concat (map line_refs lines))
      \<Longrightarrow> unlocked s (time_firmId e) (time_performedAt e)"
    and "f \<in> set (ent_expenseEntries (bapi_entries s)) \<Longrightarrow> Expense_ref (exp_id f) \<in> set (concat (map line_refs lines))
      \<Longrightarrow> unlocked s (exp_firmId f) (exp_incurredAt f)"
proof -
  assume e: "e \<in> set (ent_timeEntries (bapi_entries s))" "Time_ref (time_id e) \<in> set (concat (map line_refs lines))"
  then obtain line where line: "line \<in> set lines" "truthy (line_timeEntryId line)" "or_else (line_timeEntryId line) [] = time_id e"
    by (auto simp: line_refs_def split: if_splits)
  have "refs_known (bapi_entries s) (lctx_firmId ctx) {Time_ref (time_id e)}"
    using assms(3) e(2) unfolding refs_known_def by blast
  then obtain e' where e': "List.find (is_time_entry (lctx_firmId ctx) (time_id e)) (ent_timeEntries (bapi_entries s)) = Some e'"
    "e' \<in> set (ent_timeEntries (bapi_entries s))" "time_id e' = time_id e"
    using find_known_time [OF assms(2)] by blast
  then have "e' = e" using e(1) assms(2) by (auto simp: entries_distinct_def distinct_map inj_on_def)
  moreover have "time_firmId e' = lctx_firmId ctx" using find_Some_mem [OF e'(1)] by (simp add: is_time_entry_def)
  moreover have "line_unlocked collate ctx s line = Inr ()" using assms(1) line(1) by (simp add: for_each_ok)
  ultimately show "unlocked s (time_firmId e) (time_performedAt e)"
    using line(2,3) e'(1) unfolding line_unlocked_def run_checks_ok by (simp add: getMemoryTimeEntry_def unlocked_check)
next
  assume f: "f \<in> set (ent_expenseEntries (bapi_entries s))" "Expense_ref (exp_id f) \<in> set (concat (map line_refs lines))"
  then obtain line where line: "line \<in> set lines" "truthy (line_expenseEntryId line)" "or_else (line_expenseEntryId line) [] = exp_id f"
    by (auto simp: line_refs_def split: if_splits)
  have "refs_known (bapi_entries s) (lctx_firmId ctx) {Expense_ref (exp_id f)}"
    using assms(3) f(2) unfolding refs_known_def by blast
  then obtain f' where f': "List.find (is_expense_entry (lctx_firmId ctx) (exp_id f)) (ent_expenseEntries (bapi_entries s)) = Some f'"
    "f' \<in> set (ent_expenseEntries (bapi_entries s))" "exp_id f' = exp_id f"
    using find_known_expense [OF assms(2)] by blast
  then have "f' = f" using f(1) assms(2) by (auto simp: entries_distinct_def distinct_map inj_on_def)
  moreover have "exp_firmId f' = lctx_firmId ctx" using find_Some_mem [OF f'(1)] by (simp add: is_expense_entry_def)
  moreover have "line_unlocked collate ctx s line = Inr ()" using assms(1) line(1) by (simp add: for_each_ok)
  ultimately show "unlocked s (exp_firmId f) (exp_incurredAt f)"
    using line(2,3) f'(1) unfolding line_unlocked_def run_checks_ok by (simp add: getMemoryExpenseEntry_def unlocked_check)
qed


end
