(* ===== verification/Billing_Invoice_Runs.thy ===== *)
theory Billing_Invoice_Runs
  imports Billing_Runs
begin

section \<open>Invoices and payments in any sequence of calls\<close>

text \<open>
  The entries named by the lines of an invoice, the invariant that ties entries, invoices and payments
  together, and the proof that every call of \<open>billing_step\<close> keeps it.
\<close>

subsection \<open>The sources of invoices\<close>

definition refs_of :: "MemoryBillingInvoicePaymentStore \<Rightarrow> InvoiceRecord \<Rightarrow> EntryRef list" where
  "refs_of books v = concat (map line_refs (filter (\<lambda>l. line_invoiceId l = inv_id v) (bill_invoiceLines books)))"

definition invoice_sources_ok :: "MemoryBillingEntriesStore \<Rightarrow> MemoryBillingInvoicePaymentStore \<Rightarrow> InvoiceRecord \<Rightarrow> bool" where
  "invoice_sources_ok x books v \<longleftrightarrow>
     (\<forall>r \<in> set (refs_of books v). \<exists>st. entry_info x r = Some (inv_firmId v, inv_matterId v, st)
        \<and> (inv_approvedAt v \<noteq> None \<longrightarrow> st = Billing_billed))
     \<and> (inv_status v \<notin> {Invoice_draft, Invoice_void} \<longrightarrow> inv_approvedAt v \<noteq> None)"

definition used_refs :: "MemoryBillingInvoicePaymentStore \<Rightarrow> EntryRef list" where
  "used_refs books = concat (map (refs_of books) (filter (\<lambda>v. inv_status v \<noteq> Invoice_void) (bill_invoices books)))"

definition billing_inv :: "(string \<Rightarrow> string) \<Rightarrow> BillingApi \<Rightarrow> bool" where
  "billing_inv sha256 s \<longleftrightarrow> bill_inv (bapi_books s) \<and> entries_distinct (bapi_entries s) \<and> chains_ok sha256 (bapi_audit s)
     \<and> (\<forall>v \<in> set (bill_invoices (bapi_books s)). invoice_sources_ok (bapi_entries s) (bapi_books s) v)
     \<and> distinct (used_refs (bapi_books s))"

text \<open>A call on the entries keeps what the invoices rely on: a billed entry stays as it is.\<close>

lemma entries_change_inv:
  assumes "entries_change sha firmId s t" "billing_inv sha s"
  shows "billing_inv sha t"
proof -
  have books: "bapi_books t = bapi_books s" and audit: "chains_ok sha (bapi_audit t)"
    using assms by (simp_all add: entries_change_def audit_kept_def billing_inv_def)
  have distinct: "entries_distinct (bapi_entries s)" using assms(2) by (simp add: billing_inv_def)
  have "invoice_sources_ok (bapi_entries t) (bapi_books s) v" if v: "v \<in> set (bill_invoices (bapi_books s))" for v
  proof -
    have old: "invoice_sources_ok (bapi_entries s) (bapi_books s) v" using assms(2) v by (simp add: billing_inv_def)
    have "\<exists>st. entry_info (bapi_entries t) r = Some (inv_firmId v, inv_matterId v, st) \<and> (inv_approvedAt v \<noteq> None \<longrightarrow> st = Billing_billed)"
      if "r \<in> set (refs_of (bapi_books s) v)" for r
    proof -
      obtain st where st: "entry_info (bapi_entries s) r = Some (inv_firmId v, inv_matterId v, st)"
        "inv_approvedAt v \<noteq> None \<longrightarrow> st = Billing_billed" using old \<open>r \<in> _\<close> by (auto simp: invoice_sources_ok_def)
      then show ?thesis using entries_change_info(2) [OF assms(1) distinct, of r] by (auto simp: info_change_def)
    qed
    then show ?thesis using old by (simp add: invoice_sources_ok_def)
  qed
  then show ?thesis
    using assms(2) books audit entries_change_info(1) [OF assms(1) distinct] by (simp add: billing_inv_def)
qed

lemma concat_filter_update_subset:
  "i < length xs \<Longrightarrow> g y = g (xs ! i) \<Longrightarrow> (P y \<longrightarrow> P (xs ! i)) \<Longrightarrow>
     set (concat (map g (filter P (xs[i := y])))) \<subseteq> set (concat (map g (filter P xs)))"
proof (induction xs arbitrary: i)
  case (Cons x xs)
  show ?case
  proof (cases i)
    case (Suc j)
    then have "set (concat (map g (filter P (xs[j := y])))) \<subseteq> set (concat (map g (filter P xs)))"
      using Cons.prems by (intro Cons.IH) simp_all
    then show ?thesis using Suc by auto
  qed (use Cons.prems in auto)
qed simp

lemma distinct_concat_filter_update:
  assumes "distinct (concat (map g (filter P xs)))" "i < length xs" "g y = g (xs ! i)" "P y \<longrightarrow> P (xs ! i)"
  shows "distinct (concat (map g (filter P (xs[i := y]))))"
  using assms
proof (induction xs arbitrary: i)
  case (Cons x xs)
  show ?case
  proof (cases i)
    case (Suc j)
    have "set (concat (map g (filter P (xs[j := y])))) \<subseteq> set (concat (map g (filter P xs)))"
      using Cons.prems(2-) Suc by (intro concat_filter_update_subset) simp_all
    moreover have "distinct (concat (map g (filter P (xs[j := y]))))" using Cons Suc by (simp split: if_splits)
    ultimately show ?thesis using Cons.prems(1) Suc by (auto simp: Int_def split: if_splits)
  qed (use Cons.prems in \<open>auto split: if_splits\<close>)
qed simp

definition invoice_kept :: "InvoiceRecord \<Rightarrow> InvoiceRecord \<Rightarrow> bool" where
  "invoice_kept u v \<longleftrightarrow> inv_id v = inv_id u \<and> inv_firmId v = inv_firmId u \<and> inv_matterId v = inv_matterId u
     \<and> inv_approvedAt v = inv_approvedAt u \<and> (inv_status v \<notin> {Invoice_draft, Invoice_void} \<longrightarrow> inv_status u \<notin> {Invoice_draft, Invoice_void})
     \<and> (inv_status v \<noteq> Invoice_void \<longrightarrow> inv_status u \<noteq> Invoice_void)"

definition invoices_change :: "MemoryBillingInvoicePaymentStore \<Rightarrow> MemoryBillingInvoicePaymentStore \<Rightarrow> bool" where
  "invoices_change a b \<longleftrightarrow> bill_invoiceLines b = bill_invoiceLines a \<and> (bill_invoices b = bill_invoices a
     \<or> (\<exists>i v. i < length (bill_invoices a) \<and> bill_invoices b = (bill_invoices a)[i := v] \<and> invoice_kept (bill_invoices a ! i) v))"

lemma refs_of_same: "bill_invoiceLines b = bill_invoiceLines a \<Longrightarrow> inv_id v = inv_id u \<Longrightarrow> refs_of b v = refs_of a u"
  by (simp add: refs_of_def)

lemma used_refs_update:
  assumes "distinct (used_refs a)" "bill_invoiceLines b = bill_invoiceLines a" "i < length (bill_invoices a)"
    and "bill_invoices b = (bill_invoices a)[i := v]" "inv_id v = inv_id (bill_invoices a ! i)"
    and "inv_status v \<noteq> Invoice_void \<longrightarrow> inv_status (bill_invoices a ! i) \<noteq> Invoice_void"
  shows "distinct (used_refs b)"
proof -
  have "refs_of b = refs_of a" using assms(2) by (intro ext) (simp add: refs_of_def)
  moreover have "refs_of a v = refs_of a (bill_invoices a ! i)" using assms(5) by (simp add: refs_of_def)
  ultimately show ?thesis
    unfolding used_refs_def assms(4) using assms(1,3,6) by (simp add: distinct_concat_filter_update used_refs_def)
qed

lemma invoices_change_inv:
  assumes "invoices_change (bapi_books s) (bapi_books t)" "bapi_entries t = bapi_entries s" "audit_kept sha s t"
    and "bill_inv (bapi_books t)" "billing_inv sha s"
  shows "billing_inv sha t"
proof (cases "bill_invoices (bapi_books t) = bill_invoices (bapi_books s)")
  case True
  then have "refs_of (bapi_books t) = refs_of (bapi_books s)" using assms(1) by (intro ext) (simp add: refs_of_def invoices_change_def)
  then show ?thesis using assms(2-) True by (simp add: billing_inv_def audit_kept_def invoice_sources_ok_def used_refs_def)
next
  case False
  then obtain i v where iv: "i < length (bill_invoices (bapi_books s))" "bill_invoices (bapi_books t) = (bill_invoices (bapi_books s))[i := v]"
    "invoice_kept (bill_invoices (bapi_books s) ! i) v" and lines: "bill_invoiceLines (bapi_books t) = bill_invoiceLines (bapi_books s)"
    using assms(1) by (auto simp: invoices_change_def)
  let ?u = "bill_invoices (bapi_books s) ! i"
  have same: "refs_of (bapi_books t) w = refs_of (bapi_books s) w" for w using lines by (simp add: refs_of_def)
  have ok: "invoice_sources_ok (bapi_entries s) (bapi_books s) w" if "w \<in> set (bill_invoices (bapi_books s))" for w
    using assms(5) that by (simp add: billing_inv_def)
  have "refs_of (bapi_books s) v = refs_of (bapi_books s) ?u" using iv(3) by (simp add: refs_of_def invoice_kept_def)
  then have "invoice_sources_ok (bapi_entries t) (bapi_books t) v"
    using ok [of ?u] iv(1,3) by (simp add: invoice_sources_ok_def invoice_kept_def same assms(2))
  then have "invoice_sources_ok (bapi_entries t) (bapi_books t) w" if "w \<in> set (bill_invoices (bapi_books t))" for w
    using that ok set_update_subset_insert [of "bill_invoices (bapi_books s)" i v] iv(2)
    by (auto simp: invoice_sources_ok_def same assms(2))
  moreover have "distinct (used_refs (bapi_books t))"
    using iv assms(5) by (intro used_refs_update [OF _ lines iv(1,2)]) (auto simp: invoice_kept_def billing_inv_def)
  ultimately show ?thesis using assms(2-) by (simp add: billing_inv_def audit_kept_def)
qed

subsection \<open>What a call does to the invoices\<close>

lemma get_invoice:
  assumes "getMemoryInvoice books firmId i = Some w"
  shows "\<exists>j v. j < length (bill_invoices books) \<and> bill_invoices books ! j = v \<and> inv_firmId v = firmId \<and> inv_id v = i
    \<and> List.find (\<lambda>c. inv_firmId c = firmId \<and> inv_id c = i) (bill_invoices books) = Some v
    \<and> w = with_lines v (filter (\<lambda>l. line_invoiceId l = i) (bill_invoiceLines books))"
proof -
  obtain v where v: "List.find (\<lambda>c. inv_firmId c = firmId \<and> inv_id c = i) (bill_invoices books) = Some v"
    "inv_firmId v = firmId" "inv_id v = i" "w = with_lines v (filter (\<lambda>l. line_invoiceId l = i) (bill_invoiceLines books))"
    using getMemoryInvoice_Some [OF assms] by blast
  from find_index_find [OF v(1)] obtain j where "j < length (bill_invoices books)" "bill_invoices books ! j = v" by blast
  then show ?thesis using v by blast
qed

definition invoice_stored :: "(string \<Rightarrow> string) \<Rightarrow> InvoiceRecord \<Rightarrow> InvoiceRecord \<Rightarrow> InvoiceWithLines \<Rightarrow> BillingApi \<Rightarrow> BillingApi \<Rightarrow> bool" where
  "invoice_stored sha256 old new w s t \<longleftrightarrow>
     w = with_lines new (filter (\<lambda>l. line_invoiceId l = inv_id old) (bill_invoiceLines (bapi_books s)))
     \<and> (\<exists>j < length (bill_invoices (bapi_books s)). bill_invoices (bapi_books s) ! j = old
         \<and> bapi_books t = (bapi_books s)\<lparr>bill_invoices := (bill_invoices (bapi_books s))[j := new]\<rparr>)
     \<and> (\<exists>r. updateMemoryInvoice (bapi_books s) new = (r, bapi_books t))
     \<and> bapi_entries t = bapi_entries s \<and> bapi_controls t = bapi_controls s \<and> audit_kept sha256 s t"

lemma status_stored:
  assumes "List.find (\<lambda>c. inv_firmId c = firmId \<and> inv_id c = i) (bill_invoices (bapi_books s)) = Some v"
    and "inv_firmId u = firmId" "inv_id u = i"
  shows "\<exists>w t. store_invoice_status sha ctx action x u s = (Inr w, t) \<and> invoice_stored sha v u w s t"
proof -
  let ?books = "bapi_books s" and ?own = "\<lambda>c. inv_firmId c = inv_firmId u \<and> inv_id c = inv_id u"
  have find: "List.find ?own (bill_invoices ?books) = Some v" using assms by simp
  obtain j where j: "find_index ?own (bill_invoices ?books) = Some j" "j < length (bill_invoices ?books)" "bill_invoices ?books ! j = v"
    using find_index_find [OF find] by blast
  have "List.find ?own ((bill_invoices ?books)[j := u]) = Some u" by (rule find_updated_index [OF j(1)]) simp
  then have "updateMemoryInvoice ?books u = (Inr (Some (with_lines u (filter (\<lambda>l. line_invoiceId l = inv_id u) (bill_invoiceLines ?books)))),
      ?books\<lparr>bill_invoices := (bill_invoices ?books)[j := u]\<rparr>)"
    using j(1) by (simp add: updateMemoryInvoice_def getMemoryInvoice_def Let_def)
  then show ?thesis
    using j(2,3) find_Some_mem [OF find] by (auto simp: store_invoice_status_def invoice_stored_def)
qed

definition approved_invoice :: "string \<Rightarrow> InvoiceRecord \<Rightarrow> InvoiceRecord" where
  "approved_invoice now v = v\<lparr>inv_status := Invoice_approved, inv_approvedAt := Some now\<rparr>"

lemma refs_of_lines: "concat (map line_refs (filter (\<lambda>l. line_invoiceId l = inv_id v) (bill_invoiceLines books))) = refs_of books v"
  by (simp add: refs_of_def)

lemma source_known:
  "billing_inv sha s \<Longrightarrow> v \<in> set (bill_invoices (bapi_books s)) \<Longrightarrow> ref \<in> set (refs_of (bapi_books s) v)
    \<Longrightarrow> \<exists>st. entry_info (bapi_entries s) ref = Some (inv_firmId v, inv_matterId v, st) \<and> (inv_approvedAt v \<noteq> None \<longrightarrow> st = Billing_billed)"
  unfolding billing_inv_def invoice_sources_ok_def by blast

lemma invoice_refs_known:
  "billing_inv sha s \<Longrightarrow> v \<in> set (bill_invoices (bapi_books s)) \<Longrightarrow> refs_known (bapi_entries s) (inv_firmId v) (set (refs_of (bapi_books s) v))"
  unfolding refs_known_def using source_known by blast

lemma approve_cases:
  assumes "approveInvoiceRoute sha collate ctx i s = (r, t)" "billing_inv sha s"
  shows "((\<exists>e. r = Inl e) \<and> t = s) \<or> (\<exists>v w. v \<in> set (bill_invoices (bapi_books s)) \<and> inv_id v = i \<and> inv_firmId v = lctx_firmId ctx
      \<and> inv_status v = Invoice_draft \<and> r = Inr w
      \<and> assertMatterAccess ctx Res_time_entry Act_approve (Some (inv_matterId v)) = Inr ()
      \<and> for_each (line_unlocked collate ctx s) (filter (\<lambda>l. line_invoiceId l = i) (bill_invoiceLines (bapi_books s))) = Inr ()
      \<and> invoice_stored sha v (approved_invoice (lctx_now ctx) v) w
           (s\<lparr>bapi_entries := bill_refs (set (refs_of (bapi_books s) v)) (bapi_entries s)\<rparr>) t)"
proof (cases "getMemoryInvoice (bapi_books s) (lctx_firmId ctx) i")
  case None
  then show ?thesis using assms(1) by (auto simp: approveInvoiceRoute_def guarded_def throw_def split: sum.splits)
next
  case (Some x)
  from get_invoice [OF this] obtain v where v: "v \<in> set (bill_invoices (bapi_books s))" "inv_firmId v = lctx_firmId ctx" "inv_id v = i"
    "List.find (\<lambda>c. inv_firmId c = lctx_firmId ctx \<and> inv_id c = i) (bill_invoices (bapi_books s)) = Some v"
    "x = with_lines v (filter (\<lambda>l. line_invoiceId l = i) (bill_invoiceLines (bapi_books s)))"
    by (auto intro: nth_mem)
  let ?lines = "filter (\<lambda>l. line_invoiceId l = i) (bill_invoiceLines (bapi_books s))"
  let ?entries = "bill_refs (set (refs_of (bapi_books s) v)) (bapi_entries s)"
  have refs: "concat (map line_refs ?lines) = refs_of (bapi_books s) v" using refs_of_lines [of v] v(3) by simp
  have "bill_lines (lctx_firmId ctx) ?lines (bapi_entries s) = (Inr (), ?entries)"
    using bill_lines_known [of "bapi_entries s" "lctx_firmId ctx" ?lines] refs invoice_refs_known [OF assms(2) v(1)] assms(2) v(2)
    by (simp add: billing_inv_def)
  moreover obtain w t' where "store_invoice_status sha ctx ''invoice.approved'' x (approved_invoice (lctx_now ctx) v)
      (s\<lparr>bapi_entries := ?entries\<rparr>) = (Inr w, t')"
      "invoice_stored sha v (approved_invoice (lctx_now ctx) v) w (s\<lparr>bapi_entries := ?entries\<rparr>) t'"
    using status_stored [of "lctx_firmId ctx" i "s\<lparr>bapi_entries := ?entries\<rparr>" v "approved_invoice (lctx_now ctx) v"] v
    by (fastforce simp: approved_invoice_def)
  ultimately show ?thesis
    using assms(1) Some v unfolding approveInvoiceRoute_def
    by (elim guarded_cases) (auto simp: approved_invoice_def elim!: guarded_cases)
qed

lemma issue_cases:
  assumes "issueInvoiceRoute sha ctx i s = (r, t)"
  shows "((\<exists>e. r = Inl e) \<and> t = s) \<or> (\<exists>v w. v \<in> set (bill_invoices (bapi_books s)) \<and> inv_id v = i \<and> inv_firmId v = lctx_firmId ctx
      \<and> inv_status v = Invoice_approved \<and> r = Inr w
      \<and> invoice_stored sha v (v\<lparr>inv_status := Invoice_issued, inv_issuedAt := Some (lctx_now ctx)\<rparr>) w s t)"
proof (cases "getMemoryInvoice (bapi_books s) (lctx_firmId ctx) i")
  case None
  then show ?thesis using assms(1) by (auto simp: issueInvoiceRoute_def guarded_def throw_def split: sum.splits)
next
  case (Some x)
  from get_invoice [OF this] obtain v where v: "v \<in> set (bill_invoices (bapi_books s))" "inv_firmId v = lctx_firmId ctx" "inv_id v = i"
    "List.find (\<lambda>c. inv_firmId c = lctx_firmId ctx \<and> inv_id c = i) (bill_invoices (bapi_books s)) = Some v"
    "x = with_lines v (filter (\<lambda>l. line_invoiceId l = i) (bill_invoiceLines (bapi_books s)))"
    by (auto intro: nth_mem)
  let ?u = "v\<lparr>inv_status := Invoice_issued, inv_issuedAt := Some (lctx_now ctx)\<rparr>"
  obtain w t' where "store_invoice_status sha ctx ''invoice.issued'' x ?u s = (Inr w, t')" "invoice_stored sha v ?u w s t'"
    using status_stored [OF v(4), of ?u] v(2,3) by fastforce
  then show ?thesis
    using assms(1) Some v unfolding issueInvoiceRoute_def by (elim guarded_cases) (auto elim!: guarded_cases)
qed

lemma void_cases:
  assumes "voidInvoiceRoute sha ctx i s = (r, t)"
  shows "((\<exists>e. r = Inl e) \<and> t = s) \<or> (\<exists>v w. v \<in> set (bill_invoices (bapi_books s)) \<and> inv_id v = i \<and> inv_firmId v = lctx_firmId ctx
      \<and> inv_status v \<noteq> Invoice_paid \<and> r = Inr w
      \<and> invoice_stored sha v (v\<lparr>inv_status := Invoice_void, inv_voidedAt := Some (lctx_now ctx)\<rparr>) w s t)"
proof (cases "getMemoryInvoice (bapi_books s) (lctx_firmId ctx) i")
  case None
  then show ?thesis using assms(1) by (auto simp: voidInvoiceRoute_def guarded_def throw_def split: sum.splits)
next
  case (Some x)
  from get_invoice [OF this] obtain v where v: "v \<in> set (bill_invoices (bapi_books s))" "inv_firmId v = lctx_firmId ctx" "inv_id v = i"
    "List.find (\<lambda>c. inv_firmId c = lctx_firmId ctx \<and> inv_id c = i) (bill_invoices (bapi_books s)) = Some v"
    "x = with_lines v (filter (\<lambda>l. line_invoiceId l = i) (bill_invoiceLines (bapi_books s)))"
    by (auto intro: nth_mem)
  let ?u = "v\<lparr>inv_status := Invoice_void, inv_voidedAt := Some (lctx_now ctx)\<rparr>"
  obtain w t' where "store_invoice_status sha ctx ''invoice.voided'' x ?u s = (Inr w, t')" "invoice_stored sha v ?u w s t'"
    using status_stored [OF v(4), of ?u] v(2,3) by fastforce
  then show ?thesis
    using assms(1) Some v unfolding voidInvoiceRoute_def by (elim guarded_cases) (auto elim!: guarded_cases)
qed

lemma stored_is_step:
  assumes "invoice_stored sha old new w s t" "bill_inv (bapi_books s)"
    and "new = old\<lparr>inv_status := status, inv_approvedAt := a, inv_issuedAt := b, inv_voidedAt := c\<rparr>"
    and "status \<in> {Invoice_approved, Invoice_issued, Invoice_void}"
  shows "bill_step (bapi_books s) (bapi_books t)"
proof -
  let ?books = "bapi_books s"
  obtain j r where j: "j < length (bill_invoices ?books)" "bill_invoices ?books ! j = old" and r: "updateMemoryInvoice ?books new = (r, bapi_books t)"
    using assms(1) by (auto simp: invoice_stored_def)
  have mem: "old \<in> set (bill_invoices ?books)" using j by auto
  then have "List.find (\<lambda>x. inv_firmId x = inv_firmId old \<and> inv_id x = inv_id old) (bill_invoices ?books) \<noteq> None"
    by (auto simp: find_None_all)
  then obtain x where x: "List.find (\<lambda>x. inv_firmId x = inv_firmId old \<and> inv_id x = inv_id old) (bill_invoices ?books) = Some x" by blast
  then have "x = old" using find_Some_mem [OF x] mem assms(2)
    by (auto simp: bill_inv_def books_ok_def distinct_map inj_on_def)
  then have "getMemoryInvoice ?books (inv_firmId old) (inv_id old) =
      Some (with_lines old (filter (\<lambda>l. line_invoiceId l = inv_id old) (bill_invoiceLines ?books)))"
    using x by (simp add: getMemoryInvoice_def)
  then show ?thesis by (rule step_status) (use assms(3,4) r in simp_all)
qed

lemma invoices_change_refl [simp]: "invoices_change a a"
  by (simp add: invoices_change_def)

lemma stored_change:
  assumes "invoice_stored sha old new w s t" "invoice_kept old new"
  shows "invoices_change (bapi_books s) (bapi_books t)"
  using assms by (auto simp: invoice_stored_def invoices_change_def)

lemma payment_route_effect:
  assumes "postPaymentRoute sha datetime ctx body s = (r, t)"
    and "or_else (pyb_id body) (lctx_uuid ctx) \<notin> pay_id ` set (bill_manualPayments (bapi_books s))"
  shows "bapi_entries t = bapi_entries s" "bapi_controls t = bapi_controls s" "audit_kept sha s t"
    and "bill_step\<^sup>=\<^sup>= (bapi_books s) (bapi_books t)" "invoices_change (bapi_books s) (bapi_books t)"
proof -
  obtain x books where made: "createMemoryPayment (bapi_books s) (payment_of ctx body) [] = (x, books)" by fastforce
  then have step: "bill_step (bapi_books s) books"
    using assms(2) by (intro step_payment [OF made]) (simp_all add: payment_of_def)
  have same: "invoices_change (bapi_books s) books"
    using made by (auto simp: createMemoryPayment_def invoices_change_def split: if_splits)
  have "t = s \<or> (bapi_books t = books \<and> bapi_entries t = bapi_entries s \<and> bapi_controls t = bapi_controls s \<and> audit_kept sha s t)"
    using assms(1) made unfolding postPaymentRoute_def
    by (auto simp: guarded_def split: sum.splits option.splits)
  then show "bapi_entries t = bapi_entries s" "bapi_controls t = bapi_controls s" "audit_kept sha s t"
    "bill_step\<^sup>=\<^sup>= (bapi_books s) (bapi_books t)" "invoices_change (bapi_books s) (bapi_books t)"
    using step same by (auto simp: invoices_change_def)
qed

lemma paid_is_kept: "invoice_kept v (paidInvoice books (with_lines v ls) a)"
  by (auto simp: invoice_kept_def paidInvoice_def Let_def invoiceStatusForPayment_def)

lemma reconcile_invoices:
  assumes "reconcileMemoryPayment uuid books input = (r, books')"
  shows "invoices_change books books'"
proof (cases "\<exists>p w. List.find (\<lambda>c. pay_firmId c = rec_firmId input \<and> pay_id c = rec_paymentId input) (bill_manualPayments books) = Some p
    \<and> pay_status p = Payment_pending_reconciliation \<and> truthy (pay_invoiceId p)
    \<and> getMemoryInvoice books (rec_firmId input) (or_else (pay_invoiceId p) []) = Some w
    \<and> inv_matterId w = pay_matterId p \<and> pay_amountCents p \<le> inv_balanceDueCents w")
  case True
  then obtain p w where p: "List.find (\<lambda>c. pay_firmId c = rec_firmId input \<and> pay_id c = rec_paymentId input) (bill_manualPayments books) = Some p"
    "pay_status p = Payment_pending_reconciliation" "truthy (pay_invoiceId p)" "inv_matterId w = pay_matterId p" "pay_amountCents p \<le> inv_balanceDueCents w"
    and w: "getMemoryInvoice books (rec_firmId input) (or_else (pay_invoiceId p) []) = Some w" by blast
  define a where "a = \<lparr>alloc_id = uuid, alloc_firmId = rec_firmId input, alloc_paymentId = pay_id p, alloc_invoiceId = inv_id w,
      alloc_amountCents = pay_amountCents p, alloc_allocatedAt = rec_reconciledAt input\<rparr>"
  obtain v where v: "List.find (\<lambda>c. inv_firmId c = rec_firmId input \<and> inv_id c = or_else (pay_invoiceId p) []) (bill_invoices books) = Some v"
    "inv_firmId v = rec_firmId input" "inv_id v = or_else (pay_invoiceId p) []"
    "w = with_lines v (filter (\<lambda>l. line_invoiceId l = or_else (pay_invoiceId p) []) (bill_invoiceLines books))"
    using get_invoice [OF w] by blast
  have kept: "invoice_kept v (paidInvoice books w a)" unfolding v(4) by (rule paid_is_kept)
  then have "List.find (\<lambda>c. inv_firmId c = inv_firmId (paidInvoice books w a) \<and> inv_id c = inv_id (paidInvoice books w a)) (bill_invoices books) = Some v"
    using v(1-3) by (simp add: invoice_kept_def)
  from updateMemoryInvoice_found [OF this] obtain j x where
    "updateMemoryInvoice books (paidInvoice books w a) = (Inr x, books\<lparr>bill_invoices := (bill_invoices books)[j := paidInvoice books w a]\<rparr>)"
    "j < length (bill_invoices books)" "bill_invoices books ! j = v" by blast
  then show ?thesis
    using assms p w kept by (auto simp: reconcileMemoryPayment_def a_def [symmetric] Let_def invoices_change_def)
next
  case False
  then have "books' = books" using assms unfolding reconcileMemoryPayment_def
    by (fastforce simp: Let_def split: option.splits if_splits prod.splits sum.splits)
  then show ?thesis by (simp add: invoices_change_def)
qed

lemma reconcile_route_effect:
  assumes "reconcilePaymentRoute sha datetime ctx i body s = (r, t)"
  shows "bapi_entries t = bapi_entries s" "bapi_controls t = bapi_controls s" "audit_kept sha s t"
    and "bill_step\<^sup>=\<^sup>= (bapi_books s) (bapi_books t)" "invoices_change (bapi_books s) (bapi_books t)"
proof -
  have "t = s \<or> (\<exists>uuid input r'. reconcileMemoryPayment uuid (bapi_books s) input = (r', bapi_books t)
      \<and> bapi_entries t = bapi_entries s \<and> bapi_controls t = bapi_controls s \<and> audit_kept sha s t)"
    using assms unfolding reconcilePaymentRoute_def
    by (fastforce simp: guarded_def split: sum.splits option.splits prod.splits)
  then show "bapi_entries t = bapi_entries s" "bapi_controls t = bapi_controls s" "audit_kept sha s t"
    "bill_step\<^sup>=\<^sup>= (bapi_books s) (bapi_books t)" "invoices_change (bapi_books s) (bapi_books t)"
    using reconcile_invoices step_reconcile by auto
qed

subsection \<open>A new invoice\<close>

definition source_refs :: "TimeEntry list \<Rightarrow> ExpenseEntry list \<Rightarrow> EntryRef list" where
  "source_refs entries costs = map (\<lambda>e. Time_ref (time_id e)) entries @ map (\<lambda>e. Expense_ref (exp_id e)) costs"

lemma line_refs_of_sources:
  "time_id e \<noteq> [] \<Longrightarrow> line_refs (time_line ctx body i e n) = [Time_ref (time_id e)]"
  "exp_id f \<noteq> [] \<Longrightarrow> line_refs (expense_line ctx body i f n) = [Expense_ref (exp_id f)]"
  "line_refs (adjustment_line ctx body i a n) = []"
  by (simp_all add: line_refs_def time_line_def expense_line_def adjustment_line_def invoice_line_def Let_def truthy_def)

lemma line_invoice_ids:
  "line_invoiceId (time_line ctx body i e n) = i" "line_invoiceId (expense_line ctx body i f n) = i"
  "line_invoiceId (adjustment_line ctx body i a n) = i"
  by (simp_all add: time_line_def expense_line_def adjustment_line_def invoice_line_def Let_def)

lemma new_lines_invoice: "l \<in> set (invoice_lines_of ctx ids body entries costs) \<Longrightarrow> line_invoiceId l = invoice_id_of ctx body"
  by (auto simp: invoice_lines_of_def Let_def line_invoice_ids dest!: set_zip_leftD)

lemma new_lines:
  assumes "\<forall>e \<in> set entries. time_id e \<noteq> []" "\<forall>f \<in> set costs. exp_id f \<noteq> []"
  shows "concat (map line_refs (invoice_lines_of ctx ids body entries costs)) = source_refs entries costs"
proof -
  have refs: "concat (map line_refs (map2 (\<lambda>f n. f (ids n)) (map (time_line ctx body i) es @ map (expense_line ctx body i) fs
        @ map (adjustment_line ctx body i) as) ns)) = source_refs es fs"
    if "length ns = length es + length fs + length as" "\<forall>e \<in> set es. time_id e \<noteq> []" "\<forall>f \<in> set fs. exp_id f \<noteq> []"
    for i es fs as ns
    using that
  proof (induction es arbitrary: ns)
    case Nil
    then show ?case
    proof (induction fs arbitrary: ns)
      case Nil
      then show ?case by (auto simp: source_refs_def line_refs_of_sources dest!: set_zip_leftD)
    next
      case (Cons f fs)
      then show ?case by (cases ns) (auto simp: source_refs_def line_refs_of_sources)
    qed
  next
    case (Cons e es)
    then show ?case by (cases ns) (auto simp: source_refs_def line_refs_of_sources)
  qed
  show "concat (map line_refs (invoice_lines_of ctx ids body entries costs)) = source_refs entries costs"
    unfolding invoice_lines_of_def Let_def using assms by (intro refs) auto
qed

lemma selected_are_known:
  assumes "ivb_matterId body \<noteq> []" "entries_distinct (bapi_entries s)"
    and "ref \<in> set (source_refs (selected_time ctx body s) (selected_expenses ctx body s))"
  shows "\<exists>st. entry_info (bapi_entries s) ref = Some (lctx_firmId ctx, ivb_matterId body, st)"
  using assms(3) unfolding source_refs_def set_append set_map
proof (elim UnE imageE)
  fix e assume e: "ref = Time_ref (time_id e)" "e \<in> set (selected_time ctx body s)"
  then have mem: "e \<in> set (ent_timeEntries (bapi_entries s))" "time_firmId e = lctx_firmId ctx" "time_matterId e = ivb_matterId body"
    using assms(1) by (auto simp: selected_time_def listMemoryTimeEntries_def of_matter_def matchesBillingMatter_def truthy_def split: if_splits)
  then show ?thesis using e(1) assms(2) find_key_of [of time_id _ e] by (simp add: entries_distinct_def)
next
  fix f assume f: "ref = Expense_ref (exp_id f)" "f \<in> set (selected_expenses ctx body s)"
  then have mem: "f \<in> set (ent_expenseEntries (bapi_entries s))" "exp_firmId f = lctx_firmId ctx" "exp_matterId f = ivb_matterId body"
    using assms(1) by (auto simp: selected_expenses_def listMemoryExpenseEntries_def of_matter_def matchesBillingMatter_def truthy_def split: if_splits)
  then show ?thesis using f(1) assms(2) find_key_of [of exp_id _ f] by (simp add: entries_distinct_def)
qed

lemma selected_ids:
  "e \<in> set (selected_time ctx body s) \<Longrightarrow> time_id e \<in> set (ivb_timeEntryIds body)"
  "f \<in> set (selected_expenses ctx body s) \<Longrightarrow> exp_id f \<in> set (ivb_expenseEntryIds body)"
  by (simp_all add: selected_time_def selected_expenses_def)

lemma selected_distinct:
  assumes "entries_distinct (bapi_entries s)"
  shows "distinct (source_refs (selected_time ctx body s) (selected_expenses ctx body s))"
proof -
  have "inj_on time_id (set (ent_timeEntries (bapi_entries s)))" "inj_on exp_id (set (ent_expenseEntries (bapi_entries s)))"
    "distinct (ent_timeEntries (bapi_entries s))" "distinct (ent_expenseEntries (bapi_entries s))"
    using assms by (simp_all add: entries_distinct_def distinct_map)
  then show ?thesis
    by (auto simp: source_refs_def distinct_map inj_on_def selected_time_def selected_expenses_def
        listMemoryTimeEntries_def listMemoryExpenseEntries_def)
qed

lemma duplicate_source:
  assumes "\<not> duplicateSource ctx body s" "ivb_matterId body \<noteq> []" "v \<in> set (bill_invoices (bapi_books s))"
    and "inv_status v \<noteq> Invoice_void" "inv_firmId v = lctx_firmId ctx" "inv_matterId v = ivb_matterId body"
    and "ref \<in> set (refs_of (bapi_books s) v)"
  shows "ref \<notin> set (source_refs (selected_time ctx body s) (selected_expenses ctx body s))"
proof
  assume src: "ref \<in> set (source_refs (selected_time ctx body s) (selected_expenses ctx body s))"
  let ?lines = "filter (\<lambda>l. line_invoiceId l = inv_id v) (bill_invoiceLines (bapi_books s))"
  have "with_lines v ?lines \<in> set (listMemoryInvoices (bapi_books s) (lctx_firmId ctx) (of_matter (ivb_matterId body)) None)"
    using assms(2,3,5,6) by (auto simp: listMemoryInvoices_def hasEmptyMatterIds_def of_matter_def matchesBillingMatter_def truthy_def)
  then have "\<not> list_ex (line_uses (ivb_timeEntryIds body) (ivb_expenseEntryIds body)) ?lines"
    using assms(1,4) by (force simp: duplicateSource_def list_ex_iff)
  moreover obtain l where "l \<in> set ?lines" "ref \<in> set (line_refs l)" using assms(7) by (auto simp: refs_of_def)
  moreover have "(\<exists>e. ref = Time_ref e \<and> e \<in> set (ivb_timeEntryIds body)) \<or> (\<exists>f. ref = Expense_ref f \<and> f \<in> set (ivb_expenseEntryIds body))"
    using src selected_ids by (auto simp: source_refs_def)
  ultimately show False unfolding list_ex_iff line_uses_def line_refs_def by (auto split: if_splits)
qed

lemma create_cases:
  assumes "postInvoiceRoute sha datetime ctx lineIds body s = (r, t)"
  shows "((\<exists>e. r = Inl e) \<and> t = s) \<or> (\<exists>lines. ivb_matterId body \<noteq> [] \<and> \<not> duplicateSource ctx body s
      \<and> lines = invoice_lines_of ctx lineIds body (selected_time ctx body s) (selected_expenses ctx body s)
      \<and> concat (map line_refs lines) = source_refs (selected_time ctx body s) (selected_expenses ctx body s)
      \<and> list_all isBillableUnbilledTime (selected_time ctx body s) \<and> list_all isBillableUnbilledExpense (selected_expenses ctx body s)
      \<and> bapi_books t = (bapi_books s)\<lparr>bill_invoices := bill_invoices (bapi_books s) @ [invoice_of ctx body lines],
           bill_invoiceLines := bill_invoiceLines (bapi_books s) @ lines\<rparr>
      \<and> bapi_entries t = bapi_entries s \<and> bapi_controls t = bapi_controls s \<and> audit_kept sha s t)"
  using assms unfolding postInvoiceRoute_def Let_def
proof (elim guarded_cases, goal_cases)
  case prems: 7
  let ?lines = "invoice_lines_of ctx lineIds body (selected_time ctx body s) (selected_expenses ctx body s)"
  have "invoiceBodySchema datetime body" using prems(1) by (simp add: parseRequestPart_def)
  then have body: "ivb_matterId body \<noteq> []" "\<forall>i \<in> set (ivb_timeEntryIds body). i \<noteq> []" "\<forall>i \<in> set (ivb_expenseEntryIds body). i \<noteq> []"
    unfolding invoiceBodySchema_def min_one_def list_all_iff by (auto simp del: length_greater_0_conv)
  have refs: "concat (map line_refs ?lines) = source_refs (selected_time ctx body s) (selected_expenses ctx body s)"
    using selected_ids body(2,3) by (intro new_lines) blast+
  let ?books = "(bapi_books s)\<lparr>bill_invoices := bill_invoices (bapi_books s) @ [invoice_of ctx body ?lines],
           bill_invoiceLines := bill_invoiceLines (bapi_books s) @ ?lines\<rparr>"
  obtain a ri m where "t = record_event sha ctx a ''invoice'' ri m (s\<lparr>bapi_books := ?books\<rparr>)"
    using prems(7) unfolding createMemoryInvoice_def prod.case prod.inject by blast
  then have left: "bapi_books t = ?books" "bapi_entries t = bapi_entries s" "bapi_controls t = bapi_controls s" "audit_kept sha s t"
    by simp_all
  show ?case
    using prems(5,6) body(1) refs left by (intro disjI2 exI [of _ ?lines]) simp
qed (simp_all)

lemma create_step:
  assumes "lines = invoice_lines_of ctx ids body es fs" "invoice_id_of ctx body \<notin> inv_id ` set (bill_invoices books)"
    and "books' = books\<lparr>bill_invoices := bill_invoices books @ [invoice_of ctx body lines], bill_invoiceLines := bill_invoiceLines books @ lines\<rparr>"
  shows "bill_step books books'"
proof (rule step_invoice)
  show "createMemoryInvoice books (invoice_of ctx body lines) lines = (with_lines (invoice_of ctx body lines) lines, books')"
    using assms(3) by (simp add: createMemoryInvoice_def)
  show "inv_id (invoice_of ctx body lines) \<notin> inv_id ` set (bill_invoices books)" "inv_status (invoice_of ctx body lines) = Invoice_draft"
    using assms(2) by (simp_all add: invoice_of_def Let_def)
  show "totals_of_lines (invoice_of ctx body lines) lines" by (simp add: totals_of_lines_def invoice_of_def Let_def)
  show "list_all (\<lambda>l. line_invoiceId l = inv_id (invoice_of ctx body lines)) lines"
    unfolding assms(1) by (auto simp: list_all_iff invoice_of_def Let_def new_lines_invoice)
qed

lemma invoice_of_fields [simp]:
  "inv_id (invoice_of ctx body lines) = invoice_id_of ctx body" "inv_firmId (invoice_of ctx body lines) = lctx_firmId ctx"
  "inv_matterId (invoice_of ctx body lines) = ivb_matterId body" "inv_status (invoice_of ctx body lines) = Invoice_draft"
  "inv_approvedAt (invoice_of ctx body lines) = None"
  by (simp_all add: invoice_of_def Let_def)

lemma create_inv:
  assumes "postInvoiceRoute sha datetime ctx lineIds body s = (r, t)" "billing_inv sha s"
    and fresh: "invoice_id_of ctx body \<notin> inv_id ` set (bill_invoices (bapi_books s))"
  shows "billing_inv sha t \<and> bill_step\<^sup>=\<^sup>= (bapi_books s) (bapi_books t)"
  using create_cases [OF assms(1)]
proof (elim disjE exE conjE)
  fix lines
  assume matter: "ivb_matterId body \<noteq> []" and free: "\<not> duplicateSource ctx body s"
    and lines: "lines = invoice_lines_of ctx lineIds body (selected_time ctx body s) (selected_expenses ctx body s)"
    and refs: "concat (map line_refs lines) = source_refs (selected_time ctx body s) (selected_expenses ctx body s)"
    and books: "bapi_books t = (bapi_books s)\<lparr>bill_invoices := bill_invoices (bapi_books s) @ [invoice_of ctx body lines],
           bill_invoiceLines := bill_invoiceLines (bapi_books s) @ lines\<rparr>"
    and same: "bapi_entries t = bapi_entries s" "audit_kept sha s t"
  let ?new = "invoice_of ctx body lines" and ?old = "bill_invoices (bapi_books s)"
  let ?src = "source_refs (selected_time ctx body s) (selected_expenses ctx body s)"
  have step: "bill_step (bapi_books s) (bapi_books t)" using create_step [OF lines fresh books] .
  have binv: "bill_inv (bapi_books s)" "entries_distinct (bapi_entries s)" using assms(2) by (simp_all add: billing_inv_def)
  have ids: "line_invoiceId l = invoice_id_of ctx body" if "l \<in> set lines" for l using that new_lines_invoice lines by blast
  have old_refs: "refs_of (bapi_books t) v = refs_of (bapi_books s) v" if "v \<in> set ?old" for v
  proof -
    have "filter (\<lambda>l. line_invoiceId l = inv_id v) lines = []" using fresh that ids by (auto simp: filter_empty_conv)
    then show ?thesis by (simp add: refs_of_def books)
  qed
  have "filter (\<lambda>l. line_invoiceId l = invoice_id_of ctx body) (bill_invoiceLines (bapi_books s)) = []"
    using binv(1) fresh unfolding filter_empty_conv bill_inv_def books_ok_def list_all_iff by metis
  moreover have "filter (\<lambda>l. line_invoiceId l = invoice_id_of ctx body) lines = lines" using ids by simp
  ultimately have new_refs: "refs_of (bapi_books t) ?new = ?src" using refs by (simp add: refs_of_def books)
  have known: "\<exists>st. entry_info (bapi_entries s) ref = Some (lctx_firmId ctx, ivb_matterId body, st)" if "ref \<in> set ?src" for ref
    using selected_are_known [OF matter binv(2) that] .
  have apart: "ref \<notin> set (refs_of (bapi_books s) v)"
    if src: "ref \<in> set ?src" and v: "v \<in> set ?old" "inv_status v \<noteq> Invoice_void" for ref v
  proof
    assume mem: "ref \<in> set (refs_of (bapi_books s) v)"
    then obtain st where "entry_info (bapi_entries s) ref = Some (inv_firmId v, inv_matterId v, st)"
      using source_known [OF assms(2) v(1)] by blast
    then have "inv_firmId v = lctx_firmId ctx" "inv_matterId v = ivb_matterId body" using known [OF src] by auto
    then show False using duplicate_source [OF free matter v _ _ mem] src by blast
  qed
  have "used_refs (bapi_books t) = used_refs (bapi_books s) @ ?src"
  proof -
    have "map (refs_of (bapi_books t)) (filter (\<lambda>v. inv_status v \<noteq> Invoice_void) ?old)
        = map (refs_of (bapi_books s)) (filter (\<lambda>v. inv_status v \<noteq> Invoice_void) ?old)" using old_refs by simp
    then have "concat (map (refs_of (bapi_books t)) (filter (\<lambda>v. inv_status v \<noteq> Invoice_void) ?old)) = used_refs (bapi_books s)"
      by (simp only: used_refs_def)
    moreover have "bill_invoices (bapi_books t) = ?old @ [?new]" by (simp add: books)
    ultimately show ?thesis using new_refs unfolding used_refs_def [of "bapi_books t"] by simp
  qed
  moreover have "set (used_refs (bapi_books s)) \<inter> set ?src = {}" using apart by (auto simp: used_refs_def)
  ultimately have "distinct (used_refs (bapi_books t))"
    using selected_distinct [OF binv(2)] assms(2) by (simp add: billing_inv_def)
  moreover have "invoice_sources_ok (bapi_entries t) (bapi_books t) v" if v: "v \<in> set (bill_invoices (bapi_books t))" for v
  proof (cases "v \<in> set ?old")
    case True
    then have "invoice_sources_ok (bapi_entries s) (bapi_books s) v" using assms(2) by (simp add: billing_inv_def)
    then show ?thesis using old_refs [OF True] by (simp add: invoice_sources_ok_def same)
  next
    case False
    then have "v = ?new" using v by (simp add: books)
    then show ?thesis using new_refs known by (simp add: invoice_sources_ok_def same)
  qed
  moreover have "bill_inv (bapi_books t)" using bills.inv_step [OF step binv(1)] .
  ultimately show ?thesis using assms(2) step same by (simp add: billing_inv_def audit_kept_def)
qed (use assms(2) in simp)

lemma approval_inv:
  assumes "approveInvoiceRoute sha collate ctx i s = (r, t)" "billing_inv sha s"
  shows "billing_inv sha t \<and> bill_step\<^sup>=\<^sup>= (bapi_books s) (bapi_books t)"
  using approve_cases [OF assms]
proof (elim disjE exE conjE)
  fix v w
  let ?A = "set (refs_of (bapi_books s) v)" and ?v = "approved_invoice (lctx_now ctx) v"
  let ?s = "s\<lparr>bapi_entries := bill_refs ?A (bapi_entries s)\<rparr>"
  assume v: "v \<in> set (bill_invoices (bapi_books s))" "inv_status v = Invoice_draft"
    and stored: "invoice_stored sha v ?v w ?s t"
  obtain j where j: "j < length (bill_invoices (bapi_books s))" "bill_invoices (bapi_books s) ! j = v"
    "bill_invoices (bapi_books t) = (bill_invoices (bapi_books s))[j := ?v]" and lines: "bill_invoiceLines (bapi_books t) = bill_invoiceLines (bapi_books s)"
    using stored by (auto simp: invoice_stored_def)
  have rest: "bapi_entries t = bill_refs ?A (bapi_entries s)" "audit_kept sha s t"
    using stored by (simp_all add: invoice_stored_def audit_kept_def)
  have binv: "bill_inv (bapi_books s)" using assms(2) by (simp add: billing_inv_def)
  have "bill_step (bapi_books ?s) (bapi_books t)"
    by (rule stored_is_step [OF stored, where status = Invoice_approved and a = "Some (lctx_now ctx)" and b = "inv_issuedAt v" and c = "inv_voidedAt v"])
      (use binv in \<open>simp_all add: approved_invoice_def\<close>)
  then have step: "bill_step (bapi_books s) (bapi_books t)" by simp
  have same: "refs_of (bapi_books t) x = refs_of (bapi_books s) x" for x using lines by (simp add: refs_of_def)
  have ok: "invoice_sources_ok (bapi_entries s) (bapi_books s) x" if "x \<in> set (bill_invoices (bapi_books s))" for x
    using assms(2) that by (simp add: billing_inv_def)
  have "invoice_sources_ok (bapi_entries t) (bapi_books t) x" if x: "x \<in> set (bill_invoices (bapi_books t))" for x
  proof (cases "x = ?v")
    case True
    then have "refs_of (bapi_books t) x = refs_of (bapi_books s) v" by (simp add: lines refs_of_def approved_invoice_def)
    then show ?thesis using ok [OF v(1)] True
      by (fastforce simp: invoice_sources_ok_def rest bill_refs_info approved_invoice_def)
  next
    case False
    then have "x \<in> set (bill_invoices (bapi_books s))"
      using x set_update_subset_insert [of "bill_invoices (bapi_books s)" j ?v] j(3) by auto
    from ok [OF this] show ?thesis by (fastforce simp: invoice_sources_ok_def rest bill_refs_info same)
  qed
  moreover have "distinct (used_refs (bapi_books t))"
    using j assms(2) v(2) by (intro used_refs_update [OF _ lines j(1,3)]) (simp_all add: billing_inv_def approved_invoice_def)
  moreover have "bill_inv (bapi_books t)" using bills.inv_step [OF step binv] .
  ultimately show ?thesis using assms(2) step rest by (simp add: billing_inv_def audit_kept_def)
qed (use assms(2) in simp)

subsection \<open>Every call\<close>

lemma kept_step:
  assumes "invoices_change (bapi_books s) (bapi_books t)" "bapi_entries t = bapi_entries s" "audit_kept sha s t"
    and "bill_step\<^sup>=\<^sup>= (bapi_books s) (bapi_books t)" "billing_inv sha s"
  shows "billing_inv sha t \<and> bill_step\<^sup>=\<^sup>= (bapi_books s) (bapi_books t)"
proof -
  have "bill_inv (bapi_books t)" using assms(4,5) bills.inv_step by (auto simp: billing_inv_def)
  then show ?thesis using invoices_change_inv assms by blast
qed

lemma issue_effect:
  assumes "issueInvoiceRoute sha ctx i s = (r, t)" "billing_inv sha s"
  shows "bapi_entries t = bapi_entries s" "audit_kept sha s t"
    and "bill_step\<^sup>=\<^sup>= (bapi_books s) (bapi_books t)" "invoices_change (bapi_books s) (bapi_books t)"
proof -
  have "t = s \<or> (bapi_entries t = bapi_entries s \<and> audit_kept sha s t \<and> bill_step (bapi_books s) (bapi_books t)
      \<and> invoices_change (bapi_books s) (bapi_books t))"
    using issue_cases [OF assms(1)]
  proof (elim disjE exE conjE)
    fix v :: InvoiceRecord and w
    let ?v = "v\<lparr>inv_status := Invoice_issued, inv_issuedAt := Some (lctx_now ctx)\<rparr>"
    assume v: "inv_status v = Invoice_approved" and stored: "invoice_stored sha v ?v w s t"
    have "bill_step (bapi_books s) (bapi_books t)"
      by (rule stored_is_step [OF stored, where status = Invoice_issued and a = "inv_approvedAt v" and b = "Some (lctx_now ctx)" and c = "inv_voidedAt v"])
        (use assms(2) in \<open>simp_all add: billing_inv_def\<close>)
    moreover have "invoices_change (bapi_books s) (bapi_books t)"
      by (rule stored_change [OF stored]) (simp add: invoice_kept_def v)
    ultimately show ?thesis using stored by (simp add: invoice_stored_def)
  qed simp
  then show "bapi_entries t = bapi_entries s" "audit_kept sha s t" "bill_step\<^sup>=\<^sup>= (bapi_books s) (bapi_books t)"
    "invoices_change (bapi_books s) (bapi_books t)" by auto
qed

lemma void_effect:
  assumes "voidInvoiceRoute sha ctx i s = (r, t)" "billing_inv sha s"
  shows "bapi_entries t = bapi_entries s" "audit_kept sha s t"
    and "bill_step\<^sup>=\<^sup>= (bapi_books s) (bapi_books t)" "invoices_change (bapi_books s) (bapi_books t)"
proof -
  have "t = s \<or> (bapi_entries t = bapi_entries s \<and> audit_kept sha s t \<and> bill_step (bapi_books s) (bapi_books t)
      \<and> invoices_change (bapi_books s) (bapi_books t))"
    using void_cases [OF assms(1)]
  proof (elim disjE exE conjE)
    fix v :: InvoiceRecord and w
    let ?v = "v\<lparr>inv_status := Invoice_void, inv_voidedAt := Some (lctx_now ctx)\<rparr>"
    assume stored: "invoice_stored sha v ?v w s t"
    have "bill_step (bapi_books s) (bapi_books t)"
      by (rule stored_is_step [OF stored, where status = Invoice_void and a = "inv_approvedAt v" and b = "inv_issuedAt v" and c = "Some (lctx_now ctx)"])
        (use assms(2) in \<open>simp_all add: billing_inv_def\<close>)
    moreover have "invoices_change (bapi_books s) (bapi_books t)"
      by (rule stored_change [OF stored]) (simp add: invoice_kept_def)
    ultimately show ?thesis using stored by (simp add: invoice_stored_def)
  qed simp
  then show "bapi_entries t = bapi_entries s" "audit_kept sha s t" "bill_step\<^sup>=\<^sup>= (bapi_books s) (bapi_books t)"
    "invoices_change (bapi_books s) (bapi_books t)" by auto
qed

lemma payment_inv:
  assumes "postPaymentRoute sha datetime ctx body s = (r, t)" "billing_inv sha s"
    and "or_else (pyb_id body) (lctx_uuid ctx) \<notin> pay_id ` set (bill_manualPayments (bapi_books s))"
  shows "billing_inv sha t \<and> bill_step\<^sup>=\<^sup>= (bapi_books s) (bapi_books t)"
  using payment_route_effect [OF assms(1,3)] kept_step assms(2) by blast

lemma reconcile_inv:
  assumes "reconcilePaymentRoute sha datetime ctx i body s = (r, t)" "billing_inv sha s"
  shows "billing_inv sha t \<and> bill_step\<^sup>=\<^sup>= (bapi_books s) (bapi_books t)"
  using reconcile_route_effect [OF assms(1)] kept_step assms(2) by blast

lemma issue_inv:
  assumes "issueInvoiceRoute sha ctx i s = (r, t)" "billing_inv sha s"
  shows "billing_inv sha t \<and> bill_step\<^sup>=\<^sup>= (bapi_books s) (bapi_books t)"
  using issue_effect [OF assms] kept_step assms(2) by blast

lemma void_inv:
  assumes "voidInvoiceRoute sha ctx i s = (r, t)" "billing_inv sha s"
  shows "billing_inv sha t \<and> bill_step\<^sup>=\<^sup>= (bapi_books s) (bapi_books t)"
  using void_effect [OF assms] kept_step assms(2) by blast

lemma entries_step:
  "entries_change sha firmId s t \<Longrightarrow> billing_inv sha s \<Longrightarrow> billing_inv sha t \<and> bill_step\<^sup>=\<^sup>= (bapi_books s) (bapi_books t)"
  using entries_change_inv by (auto simp: entries_change_def)

lemma locks_kept_controls:
  "createPeriodLockRoute sha datetime ctx lock s = (r1, t) \<Longrightarrow> set (ctl_billingPeriodLocks (bapi_controls s)) \<subseteq> set (ctl_billingPeriodLocks (bapi_controls t))"
  "createRateRuleRoute sha datetime ctx rate s = (r2, t) \<Longrightarrow> set (ctl_billingPeriodLocks (bapi_controls s)) \<subseteq> set (ctl_billingPeriodLocks (bapi_controls t))"
  "createExpenseCategoryRoute sha ctx category s = (r3, t) \<Longrightarrow> set (ctl_billingPeriodLocks (bapi_controls s)) \<subseteq> set (ctl_billingPeriodLocks (bapi_controls t))"
  "patchExpenseCategoryRoute sha ctx i change s = (r4, t) \<Longrightarrow> set (ctl_billingPeriodLocks (bapi_controls s)) \<subseteq> set (ctl_billingPeriodLocks (bapi_controls t))"
  by (auto simp: createPeriodLockRoute_def createRateRuleRoute_def createExpenseCategoryRoute_def patchExpenseCategoryRoute_def
      createMemoryBillingPeriodLock_def createMemoryBillingRateRule_def
      guarded_def split: sum.splits prod.splits option.splits if_splits)

lemma controls_kept_entries:
  "postTimeEntryRoute sha datetime collate ctx time s = (r5, t) \<Longrightarrow> bapi_controls t = bapi_controls s"
  "postTimerDraftRoute sha datetime collate ctx timer s = (r6, t) \<Longrightarrow> bapi_controls t = bapi_controls s"
  "patchTimeEntryRoute sha datetime collate ctx i patch s = (r7, t) \<Longrightarrow> bapi_controls t = bapi_controls s"
  "timeTransitionRoute sha collate ctx route i s = (r8, t) \<Longrightarrow> bapi_controls t = bapi_controls s"
  "postExpenseEntryRoute sha datetime collate ctx cost s = (r9, t) \<Longrightarrow> bapi_controls t = bapi_controls s"
  "postExpenseReviewDraftRoute sha datetime collate ctx draft s = (r10, t) \<Longrightarrow> bapi_controls t = bapi_controls s"
  "patchExpenseEntryRoute sha datetime collate ctx i epatch s = (r11, t) \<Longrightarrow> bapi_controls t = bapi_controls s"
  "expenseTransitionRoute sha collate ctx route i s = (r12, t) \<Longrightarrow> bapi_controls t = bapi_controls s"
  by (auto simp: postTimeEntryRoute_def postTimerDraftRoute_def patchTimeEntryRoute_def timeTransitionRoute_def Let_def
      postExpenseEntryRoute_def postExpenseReviewDraftRoute_def patchExpenseEntryRoute_def expenseTransitionRoute_def
      guarded_def split: sum.splits prod.splits option.splits)

text \<open>The calls by their effect: twelve change the entries or the controls, six the invoices and payments.\<close>

lemma billing_step_effect [consumes 1, case_names entries create approve issue void payment reconcile]:
  assumes "billing_step sha datetime collate s t"
  obtains (entries) firmId where "entries_change sha firmId s t"
      "set (ctl_billingPeriodLocks (bapi_controls s)) \<subseteq> set (ctl_billingPeriodLocks (bapi_controls t))"
    | (create) ctx lineIds body r where "postInvoiceRoute sha datetime ctx lineIds body s = (r, t)"
        "invoice_id_of ctx body \<notin> inv_id ` set (bill_invoices (bapi_books s))"
    | (approve) ctx i r where "approveInvoiceRoute sha collate ctx i s = (r, t)"
    | (issue) ctx i r where "issueInvoiceRoute sha ctx i s = (r, t)"
    | (void) ctx i r where "voidInvoiceRoute sha ctx i s = (r, t)"
    | (payment) ctx body r where "postPaymentRoute sha datetime ctx body s = (r, t)"
        "or_else (pyb_id body) (lctx_uuid ctx) \<notin> pay_id ` set (bill_manualPayments (bapi_books s))"
    | (reconcile) ctx i body r where "reconcilePaymentRoute sha datetime ctx i body s = (r, t)"
  using assms
proof cases
  case (call_lock ctx lock r1)
  then show ?thesis using entries [OF controls_effects(1) [OF call_lock]] locks_kept_controls(1) [OF call_lock] by blast
next
  case (call_rate ctx rate r2)
  then show ?thesis using entries [OF controls_effects(2) [OF call_rate]] locks_kept_controls(2) [OF call_rate] by blast
next
  case (call_category ctx category r3)
  then show ?thesis using entries [OF controls_effects(3) [OF call_category]] locks_kept_controls(3) [OF call_category] by blast
next
  case (call_patch_category ctx i change r4)
  then show ?thesis using entries [OF controls_effects(4) [OF call_patch_category]] locks_kept_controls(4) [OF call_patch_category] by blast
next
  case (call_time ctx time r5)
  then show ?thesis using entries [OF time_route_effects(1) [OF call_time]] controls_kept_entries(1) [OF call_time(1)] by simp
next
  case (call_timer ctx timer r6)
  then show ?thesis using entries [OF time_route_effects(2) [OF call_timer]] controls_kept_entries(2) [OF call_timer(1)] by simp
next
  case (call_patch_time ctx i patch r7)
  then show ?thesis using entries [OF time_update_effects(1) [OF call_patch_time]] controls_kept_entries(3) [OF call_patch_time] by simp
next
  case (call_move_time ctx route i r8)
  then show ?thesis using entries [OF time_update_effects(2) [OF call_move_time]] controls_kept_entries(4) [OF call_move_time] by simp
next
  case (call_expense ctx cost r9)
  then show ?thesis using entries [OF expense_route_effects(1) [OF call_expense]] controls_kept_entries(5) [OF call_expense(1)] by simp
next
  case (call_draft ctx draft r10)
  then show ?thesis using entries [OF expense_route_effects(2) [OF call_draft]] controls_kept_entries(6) [OF call_draft(1)] by simp
next
  case (call_patch_expense ctx i epatch r11)
  then show ?thesis using entries [OF expense_update_effects(1) [OF call_patch_expense]] controls_kept_entries(7) [OF call_patch_expense] by simp
next
  case (call_move_expense ctx route i r12)
  then show ?thesis using entries [OF expense_update_effects(2) [OF call_move_expense]] controls_kept_entries(8) [OF call_move_expense] by simp
next
  case call_invoice
  then show ?thesis by (rule create)
next
  case call_approve_invoice
  then show ?thesis by (rule approve)
next
  case call_issue
  then show ?thesis by (rule issue)
next
  case call_void
  then show ?thesis by (rule void)
next
  case call_payment
  then show ?thesis by (rule payment)
next
  case call_reconcile_payment
  then show ?thesis by (rule reconcile)
qed

lemma billing_step_inv:
  assumes "billing_step sha datetime collate s t" "billing_inv sha s"
  shows "billing_inv sha t \<and> bill_step\<^sup>=\<^sup>= (bapi_books s) (bapi_books t)"
  using assms(1)
proof (cases rule: billing_step_effect)
  case entries
  then show ?thesis using entries_step assms(2) by blast
next
  case create
  then show ?thesis using create_inv assms(2) by blast
next
  case approve
  then show ?thesis using approval_inv assms(2) by blast
next
  case issue
  then show ?thesis using issue_inv assms(2) by blast
next
  case void
  then show ?thesis using void_inv assms(2) by blast
next
  case payment
  then show ?thesis using payment_inv assms(2) by blast
next
  case reconcile
  then show ?thesis using reconcile_inv assms(2) by blast
qed

lemma empty_billing_inv: "empty_billing s \<Longrightarrow> billing_inv sha s"
  using bills.inv_init [of "bapi_books s"] audit_run.inv_init [of "bapi_audit s"]
  by (simp add: empty_billing_def billing_inv_def no_bills_def entries_distinct_def used_refs_def)

interpretation billing_run: simulation empty_billing "billing_step sha datetime collate" "billing_inv sha" bapi_books no_bills "bill_step\<^sup>=\<^sup>="
  for sha datetime collate
  by unfold_locales (use empty_billing_inv billing_step_inv in \<open>auto simp: empty_billing_def\<close>)

end
