(* ===== verification/Billing_Properties.thy ===== *)
theory Billing_Properties
  imports Billing_Invoice_Runs
begin

section \<open>The properties of billing\<close>

text \<open>
  What holds in every state the writing routes of billing can reach, whatever the calls and their order:
  locked periods stay as they are, an entry is billed once, approval bills every line or nothing, and two
  behaviours to know of: voided work is lost, and an edit can set any status. A worked run closes the theory.
\<close>

subsection \<open>Locked periods\<close>

definition time_locked :: "BillingPeriodLockRecord \<Rightarrow> TimeEntry \<Rightarrow> bool" where
  "time_locked lock e \<longleftrightarrow> time_firmId e = lock_firmId lock \<and> billingDateFallsInsideLock (time_performedAt e) lock"

definition expense_locked :: "BillingPeriodLockRecord \<Rightarrow> ExpenseEntry \<Rightarrow> bool" where
  "expense_locked lock f \<longleftrightarrow> exp_firmId f = lock_firmId lock \<and> billingDateFallsInsideLock (exp_incurredAt f) lock"

lemma unlocked_not_locked:
  assumes "lock \<in> set (ctl_billingPeriodLocks (bapi_controls s))"
  shows "unlocked s (time_firmId e) (time_performedAt e) \<Longrightarrow> \<not> time_locked lock e"
    and "unlocked s (exp_firmId f) (exp_incurredAt f) \<Longrightarrow> \<not> expense_locked lock f"
  using assms by (auto simp: unlocked_def time_locked_def expense_locked_def)

lemma filter_update_first: "List.find p xs = Some e \<Longrightarrow> \<not> Q e \<Longrightarrow> \<not> Q (f e) \<Longrightarrow> filter Q (update_first p f xs) = filter Q xs"
  by (induction xs) (auto split: if_splits)

lemma filter_map_same: "(\<And>x. x \<in> set xs \<Longrightarrow> g x = x \<or> \<not> Q x \<and> \<not> Q (g x)) \<Longrightarrow> filter Q (map g xs) = filter Q xs"
proof (induction xs)
  case (Cons x xs)
  then have "filter Q (map g xs) = filter Q xs" by simp
  then show ?case using Cons.prems [of x] by auto
qed simp

lemma entries_change_locked:
  assumes "entries_change sha firmId s t" "lock \<in> set (ctl_billingPeriodLocks (bapi_controls s))"
  shows "filter (time_locked lock) (ent_timeEntries (bapi_entries t)) = filter (time_locked lock) (ent_timeEntries (bapi_entries s))"
    and "filter (expense_locked lock) (ent_expenseEntries (bapi_entries t)) = filter (expense_locked lock) (ent_expenseEntries (bapi_entries s))"
proof -
  have "time_change s firmId (ent_timeEntries (bapi_entries s)) (ent_timeEntries (bapi_entries t))"
    using assms(1) by (simp add: entries_change_def)
  then show "filter (time_locked lock) (ent_timeEntries (bapi_entries t)) = filter (time_locked lock) (ent_timeEntries (bapi_entries s))"
    unfolding time_change_def
  proof (elim disjE exE conjE)
    fix e assume "ent_timeEntries (bapi_entries t) = ent_timeEntries (bapi_entries s) @ [e]" "time_firmId e = firmId"
      "unlocked s firmId (time_performedAt e)"
    then show ?thesis using unlocked_not_locked(1) [OF assms(2), of e] by simp
  next
    fix i e u
    assume find: "List.find (is_time_entry firmId i) (ent_timeEntries (bapi_entries s)) = Some e"
      and free: "unlocked s firmId (time_performedAt e)" "unlocked s firmId (time_performedAt (with_time_updates u e))"
      and upd: "ent_timeEntries (bapi_entries t) = update_first (is_time_entry firmId i) (with_time_updates u) (ent_timeEntries (bapi_entries s))"
    have "time_firmId e = firmId" using find_Some_mem [OF find] by (simp add: is_time_entry_def)
    then show ?thesis
      unfolding upd using free unlocked_not_locked(1) [OF assms(2)] by (intro filter_update_first [OF find]) simp_all
  qed simp
  have "expense_change s firmId (ent_expenseEntries (bapi_entries s)) (ent_expenseEntries (bapi_entries t))"
    using assms(1) by (simp add: entries_change_def)
  then show "filter (expense_locked lock) (ent_expenseEntries (bapi_entries t)) = filter (expense_locked lock) (ent_expenseEntries (bapi_entries s))"
    unfolding expense_change_def
  proof (elim disjE exE conjE)
    fix f assume "ent_expenseEntries (bapi_entries t) = ent_expenseEntries (bapi_entries s) @ [f]" "exp_firmId f = firmId"
      "unlocked s firmId (exp_incurredAt f)"
    then show ?thesis using unlocked_not_locked(2) [OF assms(2), of f] by simp
  next
    fix i f u
    assume find: "List.find (is_expense_entry firmId i) (ent_expenseEntries (bapi_entries s)) = Some f"
      and free: "unlocked s firmId (exp_incurredAt f)" "unlocked s firmId (exp_incurredAt (with_expense_updates u f))"
      and upd: "ent_expenseEntries (bapi_entries t) = update_first (is_expense_entry firmId i) (with_expense_updates u) (ent_expenseEntries (bapi_entries s))"
    have "exp_firmId f = firmId" using find_Some_mem [OF find] by (simp add: is_expense_entry_def)
    then show ?thesis
      unfolding upd using free unlocked_not_locked(2) [OF assms(2)] by (intro filter_update_first [OF find]) simp_all
  qed simp
qed

lemma approve_locked:
  assumes "approveInvoiceRoute sha collate ctx i s = (r, t)" "billing_inv sha s" "lock \<in> set (ctl_billingPeriodLocks (bapi_controls s))"
  shows "filter (time_locked lock) (ent_timeEntries (bapi_entries t)) = filter (time_locked lock) (ent_timeEntries (bapi_entries s)) \<and>
    filter (expense_locked lock) (ent_expenseEntries (bapi_entries t)) = filter (expense_locked lock) (ent_expenseEntries (bapi_entries s))"
  using approve_cases [OF assms(1,2)]
proof (elim disjE exE conjE)
  fix v w
  let ?A = "set (refs_of (bapi_books s) v)"
  assume v: "v \<in> set (bill_invoices (bapi_books s))" "inv_firmId v = lctx_firmId ctx" "inv_id v = i"
    and free: "for_each (line_unlocked collate ctx s) (filter (\<lambda>l. line_invoiceId l = i) (bill_invoiceLines (bapi_books s))) = Inr ()"
    and stored: "invoice_stored sha v (approved_invoice (lctx_now ctx) v) w (s\<lparr>bapi_entries := bill_refs ?A (bapi_entries s)\<rparr>) t"
  have refs: "concat (map line_refs (filter (\<lambda>l. line_invoiceId l = i) (bill_invoiceLines (bapi_books s)))) = refs_of (bapi_books s) v"
    using refs_of_lines [of v] v(3) by simp
  have dist: "entries_distinct (bapi_entries s)" using assms(2) by (simp add: billing_inv_def)
  have known: "refs_known (bapi_entries s) (lctx_firmId ctx) ?A" using invoice_refs_known [OF assms(2) v(1)] v(2) by simp
  note un = lines_unlocked [OF free dist, unfolded refs, OF known]
  have entries: "bapi_entries t = bill_refs ?A (bapi_entries s)" using stored by (simp add: invoice_stored_def)
  have "\<not> time_locked lock e \<and> \<not> time_locked lock (e\<lparr>time_billingStatus := Billing_billed\<rparr>)"
    if "e \<in> set (ent_timeEntries (bapi_entries s))" "Time_ref (time_id e) \<in> ?A" for e
    using un(1) [OF that] unlocked_not_locked(1) [OF assms(3)] by (simp add: time_locked_def)
  moreover have "\<not> expense_locked lock f \<and> \<not> expense_locked lock (f\<lparr>exp_billingStatus := Billing_billed\<rparr>)"
    if "f \<in> set (ent_expenseEntries (bapi_entries s))" "Expense_ref (exp_id f) \<in> ?A" for f
    using un(2) [OF that] unlocked_not_locked(2) [OF assms(3)] by (simp add: expense_locked_def)
  ultimately show ?thesis
    unfolding entries bill_refs_def by (auto intro!: filter_map_same split: if_splits)
qed simp

lemma controls_kept_invoices:
  assumes "billing_inv sha s"
  shows "postInvoiceRoute sha datetime ctx lineIds invoice s = (r13, t) \<Longrightarrow> bapi_controls t = bapi_controls s"
    "approveInvoiceRoute sha collate ctx i s = (r14, t) \<Longrightarrow> bapi_controls t = bapi_controls s"
    "issueInvoiceRoute sha ctx i s = (r15, t) \<Longrightarrow> bapi_controls t = bapi_controls s"
    "voidInvoiceRoute sha ctx i s = (r16, t) \<Longrightarrow> bapi_controls t = bapi_controls s"
  using create_cases [of sha datetime ctx lineIds invoice s r13 t] approve_cases [OF _ assms, of collate ctx i r14 t]
    issue_cases [of sha ctx i s r15 t] void_cases [of sha ctx i s r16 t]
  by (auto simp: invoice_stored_def)

definition locked_same :: "BillingPeriodLockRecord \<Rightarrow> BillingApi \<Rightarrow> BillingApi \<Rightarrow> bool" where
  "locked_same lock s t \<longleftrightarrow>
     filter (time_locked lock) (ent_timeEntries (bapi_entries t)) = filter (time_locked lock) (ent_timeEntries (bapi_entries s))
     \<and> filter (expense_locked lock) (ent_expenseEntries (bapi_entries t)) = filter (expense_locked lock) (ent_expenseEntries (bapi_entries s))"

lemma entries_locked_same:
  "entries_change sha firmId s t \<Longrightarrow> lock \<in> set (ctl_billingPeriodLocks (bapi_controls s)) \<Longrightarrow> locked_same lock s t"
  using entries_change_locked unfolding locked_same_def by blast

lemma books_locked_same: "bapi_entries t = bapi_entries s \<Longrightarrow> locked_same lock s t"
  by (simp add: locked_same_def)

lemma locked_step:
  assumes "billing_step sha datetime collate s t" "billing_inv sha s" "lock \<in> set (ctl_billingPeriodLocks (bapi_controls s))"
  shows "locked_same lock s t \<and> lock \<in> set (ctl_billingPeriodLocks (bapi_controls t))"
  using assms(1)
proof (cases rule: billing_step_effect)
  case entries
  then show ?thesis using entries_locked_same assms(3) by blast
next
  case (create ctx lineIds body r)
  then have "bapi_entries t = bapi_entries s" using create_cases by blast
  then show ?thesis using books_locked_same controls_kept_invoices(1) [OF assms(2) create(1)] assms(3) by simp
next
  case approve
  then show ?thesis using approve_locked [OF _ assms(2,3)] controls_kept_invoices(2) [OF assms(2)] assms(3) unfolding locked_same_def by metis
next
  case issue
  then show ?thesis using issue_effect(1) [OF _ assms(2)] books_locked_same controls_kept_invoices(3) [OF assms(2)] assms(3) by metis
next
  case void
  then show ?thesis using void_effect(1) [OF _ assms(2)] books_locked_same controls_kept_invoices(4) [OF assms(2)] assms(3) by metis
next
  case payment
  then show ?thesis using payment_route_effect(1,2) books_locked_same assms(3) by metis
next
  case reconcile
  then show ?thesis using reconcile_route_effect(1,2) books_locked_same assms(3) by metis
qed

text \<open>
  C11. A locked billing period is frozen. Once a firm has a lock, no sequence of calls by anybody, administrators
  included, adds, changes, bills or redates a time entry or expense of that firm whose date is inside the
  lock, and none is moved into it from outside: the entries dated in the period stay exactly the same list.
\<close>

theorem locked_periods_are_frozen:
  assumes "reachable empty_billing (billing_step sha datetime collate) s"
    and "lock \<in> set (ctl_billingPeriodLocks (bapi_controls s))" and "(billing_step sha datetime collate)\<^sup>*\<^sup>* s t"
  shows "filter (\<lambda>e. time_firmId e = lock_firmId lock \<and> billingDateFallsInsideLock (time_performedAt e) lock)
           (ent_timeEntries (bapi_entries t)) =
         filter (\<lambda>e. time_firmId e = lock_firmId lock \<and> billingDateFallsInsideLock (time_performedAt e) lock)
           (ent_timeEntries (bapi_entries s))
    \<and> filter (\<lambda>f. exp_firmId f = lock_firmId lock \<and> billingDateFallsInsideLock (exp_incurredAt f) lock)
           (ent_expenseEntries (bapi_entries t)) =
         filter (\<lambda>f. exp_firmId f = lock_firmId lock \<and> billingDateFallsInsideLock (exp_incurredAt f) lock)
           (ent_expenseEntries (bapi_entries s))"
proof -
  have inv: "billing_inv sha s" using billing_run.reachable_inv [OF assms(1)] .
  from assms(3) have "locked_same lock s t \<and> lock \<in> set (ctl_billingPeriodLocks (bapi_controls t))"
  proof (induction rule: rtranclp_induct)
    case (step u v)
    have "billing_inv sha u" using billing_run.inv_steps [OF step.hyps(1) inv] .
    from locked_step [OF step.hyps(2) this] step.IH show ?case by (simp add: locked_same_def)
  qed (simp add: locked_same_def assms(2))
  then show ?thesis by (simp add: locked_same_def time_locked_def [abs_def] expense_locked_def [abs_def])
qed

subsection \<open>Every entry is billed once\<close>

lemma distinct_concat_owner:
  "distinct (concat (map g xs)) \<Longrightarrow> u \<in> set xs \<Longrightarrow> v \<in> set xs \<Longrightarrow> x \<in> set (g u) \<Longrightarrow> x \<in> set (g v) \<Longrightarrow> u = v"
  by (induction xs) auto

text \<open>
  C10. Work is billed once. In every state the billing routes can reach, a time entry or expense is named by the
  lines of at most one invoice that is not void, and by at most one of its lines; it exists in the firm and the matter
  of the invoice, and once the invoice has been approved it is billed.
\<close>

theorem entries_are_billed_once:
  assumes "reachable empty_billing (billing_step sha datetime collate) s"
    and "v \<in> set (bill_invoices (bapi_books s))" "inv_status v \<noteq> Invoice_void" and "ref \<in> set (refs_of (bapi_books s) v)"
  shows "distinct (refs_of (bapi_books s) v)
    \<and> (\<forall>u \<in> set (bill_invoices (bapi_books s)). inv_status u \<noteq> Invoice_void \<and> ref \<in> set (refs_of (bapi_books s) u) \<longrightarrow> u = v)
    \<and> (\<exists>st. entry_info (bapi_entries s) ref = Some (inv_firmId v, inv_matterId v, st) \<and> (inv_status v \<noteq> Invoice_draft \<longrightarrow> st = Billing_billed))"
proof -
  have inv: "billing_inv sha s" using billing_run.reachable_inv [OF assms(1)] .
  let ?live = "filter (\<lambda>v. inv_status v \<noteq> Invoice_void) (bill_invoices (bapi_books s))"
  have dist: "distinct (concat (map (refs_of (bapi_books s)) ?live))" using inv by (simp add: billing_inv_def used_refs_def)
  then have "distinct (refs_of (bapi_books s) v)" using assms(2,3) by (auto simp: distinct_concat_iff)
  moreover have "u = v" if "u \<in> set ?live" "ref \<in> set (refs_of (bapi_books s) u)" for u
    using distinct_concat_owner [OF dist that(1), of v ref] that(2) assms(2-4) by simp
  moreover have "inv_status v \<noteq> Invoice_draft \<longrightarrow> inv_approvedAt v \<noteq> None"
    using inv assms(2,3) by (simp add: billing_inv_def invoice_sources_ok_def)
  ultimately show ?thesis using source_known [OF inv assms(2,4)] by auto
qed

subsection \<open>Approving and voiding an invoice\<close>

lemma update_at_key:
  "distinct (map k xs) \<Longrightarrow> j < length xs \<Longrightarrow> xs[j := y] = map (\<lambda>x. if k x = k (xs ! j) then y else x) xs"
  by (rule nth_equalityI) (auto simp: nth_list_update nth_eq_iff_index_eq distinct_map inj_on_def distinct_conv_nth)

text \<open>
  C12. Approving an invoice is all or nothing. The route either refuses and leaves the state as it was, or finds a
  draft invoice of the caller's firm on a matter whose time entries the caller may approve: then it marks every
  time entry and expense named by a line of the invoice as billed, no other entry, stores that invoice as
  approved with the time of the call, changes no other invoice, line or payment, and answers with what it stored.
\<close>

theorem approval_bills_every_line:
  assumes "reachable empty_billing (billing_step sha datetime collate) s" and "approveInvoiceRoute sha collate ctx i s = (r, t)"
  shows "(\<not> is_ok r \<and> t = s) \<or> (\<exists>v. v \<in> set (bill_invoices (bapi_books s)) \<and> inv_id v = i \<and> inv_firmId v = lctx_firmId ctx
      \<and> inv_status v = Invoice_draft \<and> assertMatterAccess ctx Res_time_entry Act_approve (Some (inv_matterId v)) = Inr ()
      \<and> ent_timeEntries (bapi_entries t) = map (\<lambda>e. if Time_ref (time_id e) \<in> set (refs_of (bapi_books s) v)
          then e\<lparr>time_billingStatus := Billing_billed\<rparr> else e) (ent_timeEntries (bapi_entries s))
      \<and> ent_expenseEntries (bapi_entries t) = map (\<lambda>e. if Expense_ref (exp_id e) \<in> set (refs_of (bapi_books s) v)
          then e\<lparr>exp_billingStatus := Billing_billed\<rparr> else e) (ent_expenseEntries (bapi_entries s))
      \<and> bapi_books t = (bapi_books s)\<lparr>bill_invoices := map (\<lambda>u. if inv_id u = i
          then v\<lparr>inv_status := Invoice_approved, inv_approvedAt := Some (lctx_now ctx)\<rparr> else u) (bill_invoices (bapi_books s))\<rparr>
      \<and> r = Inr (with_lines (v\<lparr>inv_status := Invoice_approved, inv_approvedAt := Some (lctx_now ctx)\<rparr>)
          (filter (\<lambda>l. line_invoiceId l = i) (bill_invoiceLines (bapi_books s)))))"
proof -
  have inv: "billing_inv sha s" using billing_run.reachable_inv [OF assms(1)] .
  have dist: "distinct (map inv_id (bill_invoices (bapi_books s)))" using inv by (simp add: billing_inv_def bill_inv_def books_ok_def)
  from approve_cases [OF assms(2) inv] show ?thesis
  proof (elim disjE exE conjE)
    fix v :: InvoiceRecord and w
    let ?v = "v\<lparr>inv_status := Invoice_approved, inv_approvedAt := Some (lctx_now ctx)\<rparr>"
    let ?s = "s\<lparr>bapi_entries := bill_refs (set (refs_of (bapi_books s) v)) (bapi_entries s)\<rparr>"
    assume v: "v \<in> set (bill_invoices (bapi_books s))" "inv_id v = i" "inv_firmId v = lctx_firmId ctx" "inv_status v = Invoice_draft"
        "assertMatterAccess ctx Res_time_entry Act_approve (Some (inv_matterId v)) = Inr ()" and r: "r = Inr w"
      and stored: "invoice_stored sha v (approved_invoice (lctx_now ctx) v) w ?s t"
    obtain j where "j < length (bill_invoices (bapi_books s))" "bill_invoices (bapi_books s) ! j = v"
      "bapi_books t = (bapi_books s)\<lparr>bill_invoices := (bill_invoices (bapi_books s))[j := ?v]\<rparr>"
      using stored by (auto simp: invoice_stored_def approved_invoice_def)
    then have books: "bapi_books t = (bapi_books s)\<lparr>bill_invoices := map (\<lambda>u. if inv_id u = i then ?v else u) (bill_invoices (bapi_books s))\<rparr>"
      using update_at_key [OF dist, of j ?v] v(2) by simp
    have "bapi_entries t = bill_refs (set (refs_of (bapi_books s) v)) (bapi_entries s)"
      "w = with_lines ?v (filter (\<lambda>l. line_invoiceId l = i) (bill_invoiceLines (bapi_books s)))"
      using stored v(2) by (simp_all add: invoice_stored_def approved_invoice_def)
    then show ?thesis
      by (intro disjI2 exI [of _ v] conjI v books) (simp_all add: bill_refs_def r)
  qed auto
qed

lemma billed_step:
  assumes "billing_step sha datetime collate s t" "billing_inv sha s" "entry_info (bapi_entries s) ref = Some (f, m, Billing_billed)"
  shows "entry_info (bapi_entries t) ref = Some (f, m, Billing_billed)"
  using assms(1)
proof (cases rule: billing_step_effect)
  case entries
  then show ?thesis using entries_change_info(2) [of sha _ s t ref] assms(2,3) by (auto simp: info_change_def billing_inv_def)
next
  case create
  then show ?thesis using create_cases assms(3) by metis
next
  case approve
  from approve_cases [OF this assms(2)] show ?thesis using assms(3) by (auto simp: invoice_stored_def bill_refs_info)
next
  case issue
  then show ?thesis using issue_effect(1) [OF _ assms(2)] assms(3) by metis
next
  case void
  then show ?thesis using void_effect(1) [OF _ assms(2)] assms(3) by metis
next
  case payment
  then show ?thesis using payment_route_effect(1) assms(3) by metis
next
  case reconcile
  then show ?thesis using reconcile_route_effect(1) assms(3) by metis
qed

lemma billed_forever:
  assumes "(billing_step sha datetime collate)\<^sup>*\<^sup>* s t" "billing_inv sha s" "entry_info (bapi_entries s) ref = Some (f, m, Billing_billed)"
  shows "entry_info (bapi_entries t) ref = Some (f, m, Billing_billed)"
  using assms(1,3)
proof (induction rule: rtranclp_induct)
  case (step u v)
  then show ?case using billed_step [OF step.hyps(2) billing_run.inv_steps [OF step.hyps(1) assms(2)]] by blast
qed

text \<open>An accepted invoice takes every entry its body names, so none of them is billed.\<close>

lemma selection_is_complete:
  assumes "distinct (map k sel)" "k ` set sel \<subseteq> set ids" "length sel = length ids"
  shows "k ` set sel = set ids"
proof (rule card_subset_eq)
  have "card (k ` set sel) = length ids" using assms(1,3) by (metis distinct_card length_map list.set_map)
  moreover have "card (k ` set sel) \<le> card (set ids)" "card (set ids) \<le> length ids"
    using assms(2) by (simp_all add: card_mono card_length)
  ultimately show "card (k ` set sel) = card (set ids)" by simp
qed (use assms(2) in auto)

lemma created_invoice_counts:
  "postInvoiceRoute sha datetime ctx lineIds body s = (Inr w, t) \<Longrightarrow>
     length (selected_time ctx body s) = length (ivb_timeEntryIds body) \<and> length (selected_expenses ctx body s) = length (ivb_expenseEntryIds body)"
  unfolding postInvoiceRoute_def Let_def by (elim guarded_cases) simp_all

lemma accepted_entries_are_open:
  assumes "postInvoiceRoute sha datetime ctx lineIds body s = (Inr w, t)" "entries_distinct (bapi_entries s)"
    and "i \<in> set (ivb_timeEntryIds body)"
  shows "entry_info (bapi_entries s) (Time_ref i) \<noteq> Some (f, m, Billing_billed)"
proof -
  have "inj_on time_id (set (ent_timeEntries (bapi_entries s)))" "distinct (ent_timeEntries (bapi_entries s))"
    using assms(2) by (simp_all add: entries_distinct_def distinct_map)
  then have "distinct (map time_id (selected_time ctx body s))"
    by (auto simp: distinct_map inj_on_def selected_time_def listMemoryTimeEntries_def)
  then have "time_id ` set (selected_time ctx body s) = set (ivb_timeEntryIds body)"
    using selected_ids(1) created_invoice_counts [OF assms(1)] by (intro selection_is_complete) auto
  then obtain e where e: "e \<in> set (selected_time ctx body s)" "time_id e = i" using assms(3) by (metis imageE)
  then have "e \<in> set (ent_timeEntries (bapi_entries s))" by (auto simp: selected_time_def listMemoryTimeEntries_def split: if_splits)
  then have "List.find (\<lambda>x. time_id x = i) (ent_timeEntries (bapi_entries s)) = Some e"
    using find_key_of [of time_id _ e] assms(2) e(2) by (simp add: entries_distinct_def)
  moreover have "time_billingStatus e = Billing_approved"
    using create_cases [OF assms(1)] e(1) by (auto simp: list_all_iff isBillableUnbilledTime_def)
  ultimately show ?thesis by simp
qed

text \<open>
  C39. Voiding an approved invoice does not give its work back. After the route has voided an invoice that had
  been approved, each time entry of its lines stays billed whatever calls follow, and every later request for an
  invoice that names it is refused: the work can never be invoiced again.
\<close>

theorem voided_work_is_lost:
  assumes "reachable empty_billing (billing_step sha datetime collate) s" and "voidInvoiceRoute sha ctx i s = (Inr w, t)"
    and "inv_approvedAt w \<noteq> None" and "line \<in> set (inv_lines w)" "line_timeEntryId line = Some e" "e \<noteq> []"
    and "(billing_step sha datetime collate)\<^sup>*\<^sup>* t u" and "e \<in> set (ivb_timeEntryIds body)"
  shows "entry_info (bapi_entries u) (Time_ref e) = Some (inv_firmId w, inv_matterId w, Billing_billed)
    \<and> \<not> is_ok (fst (postInvoiceRoute sha datetime ctx' lineIds body u))"
proof -
  have inv: "billing_inv sha s" using billing_run.reachable_inv [OF assms(1)] .
  have step: "billing_step sha datetime collate s t" by (rule call_void [OF assms(2)])
  from void_cases [OF assms(2)] obtain v where v: "v \<in> set (bill_invoices (bapi_books s))"
    and stored: "invoice_stored sha v (v\<lparr>inv_status := Invoice_void, inv_voidedAt := Some (lctx_now ctx)\<rparr>) w s t" by auto
  have w: "inv_approvedAt w = inv_approvedAt v" "inv_firmId w = inv_firmId v" "inv_matterId w = inv_matterId v"
    "inv_lines w = filter (\<lambda>l. line_invoiceId l = inv_id v) (bill_invoiceLines (bapi_books s))"
    using stored by (simp_all add: invoice_stored_def with_lines_def InvoiceRecord.extend_def InvoiceWithLines.fields_def)
  have "Time_ref e \<in> set (refs_of (bapi_books s) v)"
    using assms(4-6) w(4) by (force simp: refs_of_def line_refs_def truthy_def)
  then have "entry_info (bapi_entries s) (Time_ref e) = Some (inv_firmId w, inv_matterId w, Billing_billed)"
    using source_known [OF inv v, of "Time_ref e"] assms(3) w by metis
  then have billed: "entry_info (bapi_entries u) (Time_ref e) = Some (inv_firmId w, inv_matterId w, Billing_billed)"
    using billed_forever [of sha datetime collate s u] step assms(7) inv by (meson converse_rtranclp_into_rtranclp)
  have "billing_inv sha u" using billing_run.inv_steps [OF assms(7)] billing_run.inv_step [OF step inv] by blast
  then have "entries_distinct (bapi_entries u)" by (simp add: billing_inv_def)
  then have "fst (postInvoiceRoute sha datetime ctx' lineIds body u) \<noteq> Inr x" for x
    using accepted_entries_are_open [of sha datetime ctx' lineIds body u x _ e] assms(8) billed
    by (cases "postInvoiceRoute sha datetime ctx' lineIds body u") auto
  then show ?thesis using billed by (cases "fst (postInvoiceRoute sha datetime ctx' lineIds body u)") auto
qed

subsection \<open>Approval through an edit\<close>



subsection \<open>The books behind the routes\<close>

text \<open>
  Every run of the billing routes is a run of the invoice and payment store. What is proved of the store's
  operations holds of the routes: in every reachable state the invoices add up to their lines and allocations
  and owe what is not paid, and the audit log verifies for every firm.
\<close>

theorem billing_routes_keep_the_books:
  assumes "reachable empty_billing (billing_step sha datetime collate) s"
  shows "reachable no_bills bill_step (bapi_books s) \<and> list_all (invoice_ok (bill_invoiceLines (bapi_books s))
      (bill_paymentAllocations (bapi_books s))) (bill_invoices (bapi_books s)) \<and> chains_ok sha (bapi_audit s)"
  using reachable_reflclp [OF billing_run.reachable_refines [OF assms]] billing_run.reachable_inv [OF assms]
  by (simp add: billing_inv_def bill_inv_def books_ok_def)

subsection \<open>A worked run\<close>

definition bx_hash :: "string \<Rightarrow> string" where
  "bx_hash content = ''h''"

definition bx_date :: "string \<Rightarrow> bool" where
  "bx_date timestamp = (date_parse timestamp \<noteq> None)"

definition bx_user :: "ProfessionalRole \<Rightarrow> User" where
  "bx_user role = \<lparr>user_id = ''u'', user_firmId = ''f'', user_displayName = ''U'', user_email = ''u@f'', user_role = role,
     user_assignedMatterIds = [''m''], user_mfaEnabled = True, user_practitionerProfile = None\<rparr>"

definition bx_context :: LedgerContext where
  "bx_context = \<lparr>lctx_firmId = ''f'', lctx_user = bx_user Role_owner_admin,
     lctx_freshAuthenticatedAt = Some ''2026-01-01'', lctx_requestId = ''q'', lctx_now = ''2026-01-01'',
     lctx_freshNow = ''2026-01-01'', lctx_uuid = ''id'', lctx_auditId = ''a'', lctx_auditNow = ''2026-01-01'',
     lctx_secondAuditId = ''b''\<rparr>"

lemma bx_dates: "date_parse ''2026-01-01'' \<noteq> None" "bx_date ''2026-01-01''" "bx_date ''2026-02-01''"
  by code_simp+

definition bx_start :: BillingApi where
  "bx_start = \<lparr>bapi_entries = \<lparr>ent_timeEntries = [], ent_expenseEntries = [], ent_billingExpenseCategories = []\<rparr>,
     bapi_books = \<lparr>bill_invoices = [], bill_invoiceLines = [], bill_manualPayments = [], bill_paymentAllocations = []\<rparr>,
     bapi_controls = \<lparr>ctl_billingPeriodLocks = [], ctl_billingRateRules = []\<rparr>, bapi_users = [], bapi_matters = [],
     bapi_audit = \<lparr>aud_events = []\<rparr>\<rparr>"

definition bx_time :: TimeEntryBody where
  "bx_time = \<lparr>teb_id = Some ''e'', teb_matterId = ''m'', teb_userId = None, teb_performedAt = Some ''2026-01-01'', teb_minutes = 60,
     teb_rateCents = Some 6000, teb_narrative = ''x'', teb_billable = True, teb_billingStatus = Billing_approved\<rparr>"

definition bx_invoice :: InvoiceBody where
  "bx_invoice = \<lparr>ivb_id = Some ''i'', ivb_matterId = ''m'', ivb_clientContactId = None, ivb_invoiceNumber = None, ivb_dueAt = None,
     ivb_memo = None, ivb_timeEntryIds = [''e''], ivb_expenseEntryIds = [], ivb_adjustmentLines = [], ivb_taxName = None,
     ivb_taxRateBps = 0\<rparr>"

definition bx_lock :: PeriodLockBody where
  "bx_lock = \<lparr>plb_id = Some ''l'', plb_periodStart = ''2026-01-01'', plb_periodEnd = ''2026-02-01'', plb_reason = None\<rparr>"

definition bx_entry :: "BillingStatus \<Rightarrow> TimeEntry" where
  "bx_entry st = (time_entry_of bx_context bx_time \<lparr>rate_cents = 6000, rate_ruleId = None,
     rate_snapshot = manual_snapshot 6000 ''2026-01-01''\<rparr>)\<lparr>time_billingStatus := st\<rparr>"

definition bx_line :: InvoiceLineRecord where
  "bx_line = time_line bx_context bx_invoice ''i'' (bx_entry Billing_approved) ''n''"

definition bx_draft :: InvoiceRecord where
  "bx_draft = invoice_of bx_context bx_invoice [bx_line]"

definition bx_timed :: BillingApi where
  "bx_timed = snd (postTimeEntryRoute bx_hash bx_date (\<lambda>a b. 0) bx_context bx_time bx_start)"

definition bx_locked :: BillingApi where
  "bx_locked = snd (createPeriodLockRoute bx_hash bx_date bx_context bx_lock bx_timed)"

definition bx_invoiced :: BillingApi where
  "bx_invoiced = snd (postInvoiceRoute bx_hash bx_date bx_context (\<lambda>n. ''n'') bx_invoice bx_timed)"

definition bx_approved :: BillingApi where
  "bx_approved = snd (approveInvoiceRoute bx_hash (\<lambda>a b. 0) bx_context ''i'' bx_invoiced)"

lemma bx_access:
  "assertMatterAccess bx_context Res_time_entry action (Some ''m'') = Inr ()" if "action \<in> {Act_create, Act_approve, Act_delete}"
proof -
  have "Act_create \<in> set (allowedActions Role_owner_admin Res_time_entry)" "Act_approve \<in> set (allowedActions Role_owner_admin Res_time_entry)"
    "Act_delete \<in> set (allowedActions Role_owner_admin Res_time_entry)" by code_simp+
  then show ?thesis
    using that by (auto simp: assertMatterAccess_def canAccess_def bx_context_def bx_user_def)
qed

lemma bx_expense_access: "assertMatterAccess bx_context Res_expense_entry Act_create (Some ''m'') = Inr ()"
proof -
  have "Act_create \<in> set (allowedActions Role_owner_admin Res_expense_entry)" by code_simp
  then show ?thesis by (simp add: assertMatterAccess_def canAccess_def bx_context_def bx_user_def)
qed

lemma bx_timed_fields:
  "bapi_entries bx_timed = \<lparr>ent_timeEntries = [bx_entry Billing_approved], ent_expenseEntries = [], ent_billingExpenseCategories = []\<rparr>"
  "bapi_books bx_timed = bapi_books bx_start" "bapi_controls bx_timed = bapi_controls bx_start"
proof -
  have "timeEntryBodySchema bx_date bx_time" by (simp add: timeEntryBodySchema_def bx_time_def optional_ok_def min_one_def bx_dates)
  moreover have "assertBillingTimestampUnlocked (\<lambda>a b. 0) bx_start firmId timestamp label = Inr ()" for firmId timestamp label
    unfolding unlocked_check by (simp add: unlocked_def bx_start_def)
  moreover have "time_entry_of bx_context bx_time \<lparr>rate_cents = 6000, rate_ruleId = None, rate_snapshot = manual_snapshot 6000 ''2026-01-01''\<rparr>
      = bx_entry Billing_approved" by (simp add: bx_entry_def time_entry_of_def bx_time_def)
  moreover have "resolveTimeEntryRate (\<lambda>a b. 0) bx_context bx_start m u p (Some 6000) ''2026-01-01'' =
      Inr \<lparr>rate_cents = 6000, rate_ruleId = None, rate_snapshot = manual_snapshot 6000 ''2026-01-01''\<rparr>" for m u p
    by (simp add: resolveTimeEntryRate_def)
  moreover have "teb_rateCents bx_time = Some 6000" "teb_matterId bx_time = ''m''" "lctx_now bx_context = ''2026-01-01''"
    by (simp_all add: bx_time_def bx_context_def)
  ultimately show "bapi_entries bx_timed = \<lparr>ent_timeEntries = [bx_entry Billing_approved], ent_expenseEntries = [], ent_billingExpenseCategories = []\<rparr>"
    "bapi_books bx_timed = bapi_books bx_start" "bapi_controls bx_timed = bapi_controls bx_start"
    by (simp_all add: bx_timed_def postTimeEntryRoute_def guarded_def parseRequestPart_def throw_if_def bx_access createMemoryTimeEntry_def bx_start_def)
qed

lemma bx_timed_reachable: "reachable empty_billing (billing_step bx_hash bx_date (\<lambda>a b. 0)) bx_timed"
proof -
  have "reachable empty_billing (billing_step bx_hash bx_date (\<lambda>a b. 0)) bx_start"
    by (rule reach_init) (simp add: empty_billing_def bx_start_def no_bills_def no_controls_def no_events_def)
  then show ?thesis unfolding bx_timed_def
    by (rule reach_step) (rule call_time [OF surjective_pairing], simp add: bx_start_def)
qed

lemma bx_locked_controls: "ctl_billingPeriodLocks (bapi_controls bx_locked) = [lock_of bx_context bx_lock]"
proof -
  have access: "assertBillingControlAccess bx_context Act_create = Inr ()"
  proof -
    have "Act_create \<in> set (allowedActions Role_owner_admin Res_trust_ledger)" by code_simp
    then show ?thesis
      by (simp add: assertBillingControlAccess_def assertMatterAccess_def hasFirmWideLedgerAccess_def canAccess_def bx_context_def bx_user_def)
  qed
  have "validateBillingPeriodLock (lock_of bx_context bx_lock) = Inr ()" by code_simp
  then have "createMemoryBillingPeriodLock (bapi_controls bx_start) (lock_of bx_context bx_lock) =
      (Inr (lock_of bx_context bx_lock), (bapi_controls bx_start)\<lparr>ctl_billingPeriodLocks := [lock_of bx_context bx_lock]\<rparr>)"
    by (simp add: createMemoryBillingPeriodLock_def bx_start_def)
  moreover have "billingPeriodLockBodySchema bx_date bx_lock"
    by (simp add: billingPeriodLockBodySchema_def bx_lock_def optional_ok_def min_one_def bx_dates)
  ultimately show ?thesis
    by (simp add: bx_locked_def createPeriodLockRoute_def access guarded_def parseRequestPart_def throw_if_def bx_timed_fields)
qed

lemma bx_locked_reachable: "reachable empty_billing (billing_step bx_hash bx_date (\<lambda>a b. 0)) bx_locked"
  unfolding bx_locked_def by (rule reach_step [OF bx_timed_reachable]) (rule call_lock [OF surjective_pairing])

lemma bx_entry_fields [simp]:
  "time_id (bx_entry st) = ''e''" "time_firmId (bx_entry st) = ''f''" "time_matterId (bx_entry st) = ''m''"
  "time_performedAt (bx_entry st) = ''2026-01-01''" "time_billingStatus (bx_entry st) = st" "time_billable (bx_entry st)"
  "(bx_entry st)\<lparr>time_billingStatus := st'\<rparr> = bx_entry st'"
  by (simp_all add: bx_entry_def time_entry_of_def bx_time_def bx_context_def)

lemma bx_line_fields [simp]:
  "line_timeEntryId bx_line = Some ''e''" "line_expenseEntryId bx_line = None" "line_invoiceId bx_line = ''i''"
  by (simp_all add: bx_line_def time_line_def invoice_line_def Let_def)

lemma bx_draft_fields [simp]:
  "inv_id bx_draft = ''i''" "inv_firmId bx_draft = ''f''" "inv_matterId bx_draft = ''m''" "inv_status bx_draft = Invoice_draft"
  by (simp_all add: bx_draft_def invoice_id_of_def bx_invoice_def bx_context_def)

lemma bx_context_fields [simp]: "lctx_firmId bx_context = ''f''" "lctx_now bx_context = ''2026-01-01''"
  by (simp_all add: bx_context_def)

lemma bx_invoiced_fields:
  "bapi_entries bx_invoiced = bapi_entries bx_timed"
  "bapi_books bx_invoiced = (bapi_books bx_start)\<lparr>bill_invoices := [bx_draft], bill_invoiceLines := [bx_line]\<rparr>"
  "bapi_controls bx_invoiced = bapi_controls bx_start"
proof -
  have valid: "invoiceBodySchema bx_date bx_invoice" "ivb_matterId bx_invoice = ''m''" "ivb_timeEntryIds bx_invoice = [''e'']"
    "ivb_expenseEntryIds bx_invoice = []"
    by (simp_all add: invoiceBodySchema_def bx_invoice_def optional_ok_def min_one_def)
  have times: "selected_time bx_context bx_invoice bx_timed = [bx_entry Billing_approved]"
    by (simp add: selected_time_def listMemoryTimeEntries_def bx_timed_fields hasEmptyMatterIds_def matchesBillingMatter_def of_matter_def valid truthy_def)
  have costs: "selected_expenses bx_context bx_invoice bx_timed = []"
    by (simp add: selected_expenses_def listMemoryExpenseEntries_def bx_timed_fields)
  have free: "\<not> duplicateSource bx_context bx_invoice bx_timed"
    by (simp add: duplicateSource_def listMemoryInvoices_def bx_timed_fields bx_start_def)
  have lines: "invoice_lines_of bx_context (\<lambda>n. ''n'') bx_invoice [bx_entry Billing_approved] [] = [bx_line]"
    by (simp add: invoice_lines_of_def bx_line_def invoice_id_of_def bx_invoice_def Let_def)
  show "bapi_entries bx_invoiced = bapi_entries bx_timed" "bapi_controls bx_invoiced = bapi_controls bx_start"
    "bapi_books bx_invoiced = (bapi_books bx_start)\<lparr>bill_invoices := [bx_draft], bill_invoiceLines := [bx_line]\<rparr>"
    by (simp_all add: bx_invoiced_def postInvoiceRoute_def Let_def guarded_def parseRequestPart_def throw_if_def valid times costs free lines
        bx_access bx_expense_access isBillableUnbilledTime_def createMemoryInvoice_def bx_timed_fields bx_start_def bx_draft_def)
qed

lemma bx_invoiced_reachable: "reachable empty_billing (billing_step bx_hash bx_date (\<lambda>a b. 0)) bx_invoiced"
  unfolding bx_invoiced_def
  by (rule reach_step [OF bx_timed_reachable]) (rule call_invoice [OF surjective_pairing], simp add: bx_timed_fields bx_start_def)

lemma bx_approved_reachable: "reachable empty_billing (billing_step bx_hash bx_date (\<lambda>a b. 0)) bx_approved"
  unfolding bx_approved_def by (rule reach_step [OF bx_invoiced_reachable]) (rule call_approve_invoice [OF surjective_pairing])

lemma bx_approves:
  "\<exists>w. approveInvoiceRoute bx_hash (\<lambda>a b. 0) bx_context ''i'' bx_invoiced = (Inr w, bx_approved)"
  "bapi_books bx_approved = (bapi_books bx_start)\<lparr>bill_invoices := [approved_invoice ''2026-01-01'' bx_draft], bill_invoiceLines := [bx_line]\<rparr>"
proof -
  have get: "getMemoryInvoice (bapi_books bx_invoiced) ''f'' ''i'' = Some (with_lines bx_draft [bx_line])"
    by (simp add: getMemoryInvoice_def bx_invoiced_fields)
  have free: "for_each (line_unlocked (\<lambda>a b. 0) bx_context bx_invoiced) [bx_line] = Inr ()"
    unfolding for_each_ok line_unlocked_def run_checks_ok
    by (auto simp: unlocked_check unlocked_def bx_invoiced_fields bx_start_def split: option.splits)
  have lines: "bill_lines ''f'' [bx_line] (bapi_entries bx_timed) = (Inr (), (bapi_entries bx_timed)\<lparr>ent_timeEntries := [bx_entry Billing_billed]\<rparr>)"
    by (simp add: bill_time_of_line_def bill_expense_of_line_def updateMemoryTimeEntry_def is_time_entry_def bx_timed_fields truthy_def)
  let ?s = "bx_invoiced\<lparr>bapi_entries := (bapi_entries bx_timed)\<lparr>ent_timeEntries := [bx_entry Billing_billed]\<rparr>\<rparr>"
  let ?u = "approved_invoice ''2026-01-01'' bx_draft"
  have "List.find (\<lambda>c. inv_firmId c = ''f'' \<and> inv_id c = ''i'') (bill_invoices (bapi_books ?s)) = Some bx_draft"
    by (simp add: bx_invoiced_fields)
  from status_stored [OF this, of ?u bx_hash bx_context "''invoice.approved''" "with_lines bx_draft [bx_line]"]
  obtain w t where stored: "store_invoice_status bx_hash bx_context ''invoice.approved'' (with_lines bx_draft [bx_line]) ?u ?s = (Inr w, t)"
    "invoice_stored bx_hash bx_draft ?u w ?s t" by (auto simp: approved_invoice_def)
  have route: "approveInvoiceRoute bx_hash (\<lambda>a b. 0) bx_context ''i'' bx_invoiced = (Inr w, t)"
    using get free lines stored(1) bx_access
    by (simp add: approveInvoiceRoute_def guarded_def parseRequestPart_def throw_if_def min_one_def bx_invoiced_fields approved_invoice_def)
  then have t: "t = bx_approved" by (simp add: bx_approved_def)
  with route show "\<exists>w. approveInvoiceRoute bx_hash (\<lambda>a b. 0) bx_context ''i'' bx_invoiced = (Inr w, bx_approved)" by blast
  show "bapi_books bx_approved = (bapi_books bx_start)\<lparr>bill_invoices := [?u], bill_invoiceLines := [bx_line]\<rparr>"
    using stored(2) unfolding t invoice_stored_def by (auto simp: bx_invoiced_fields)
qed

definition bx_voided :: BillingApi where
  "bx_voided = snd (voidInvoiceRoute bx_hash bx_context ''i'' bx_approved)"

lemma bx_voids:
  "\<exists>w. voidInvoiceRoute bx_hash bx_context ''i'' bx_approved = (Inr w, bx_voided) \<and> inv_approvedAt w \<noteq> None \<and> inv_lines w = [bx_line]"
proof -
  let ?v = "approved_invoice ''2026-01-01'' bx_draft"
  let ?u = "?v\<lparr>inv_status := Invoice_void, inv_voidedAt := Some ''2026-01-01''\<rparr>"
  have v: "inv_id ?v = ''i''" "inv_firmId ?v = ''f''" "inv_matterId ?v = ''m''" "inv_status ?v = Invoice_approved"
    by (simp_all add: approved_invoice_def)
  have find: "List.find (\<lambda>c. inv_firmId c = ''f'' \<and> inv_id c = ''i'') (bill_invoices (bapi_books bx_approved)) = Some ?v"
    by (simp add: bx_approves v)
  then have get: "getMemoryInvoice (bapi_books bx_approved) ''f'' ''i'' = Some (with_lines ?v [bx_line])"
    by (simp add: getMemoryInvoice_def bx_approves v)
  obtain w t where stored: "store_invoice_status bx_hash bx_context ''invoice.voided'' (with_lines ?v [bx_line]) ?u bx_approved = (Inr w, t)"
    "invoice_stored bx_hash ?v ?u w bx_approved t" using status_stored [OF find, of ?u] v by fastforce
  have "voidInvoiceRoute bx_hash bx_context ''i'' bx_approved = (Inr w, t)"
    using get stored(1) bx_access v
    by (simp add: voidInvoiceRoute_def guarded_def parseRequestPart_def throw_if_def min_one_def)
  moreover from this have "t = bx_voided" by (simp add: bx_voided_def)
  moreover have "inv_approvedAt w \<noteq> None" "inv_lines w = [bx_line]" using stored(2) v
    by (simp_all add: invoice_stored_def bx_approves with_lines_def approved_invoice_def InvoiceRecord.extend_def InvoiceWithLines.fields_def)
  ultimately show ?thesis by auto
qed

lemma bx_refs: "refs_of (bapi_books bx_approved) (approved_invoice ''2026-01-01'' bx_draft) = [Time_ref ''e'']"
  by (simp add: refs_of_def bx_approves line_refs_def approved_invoice_def truthy_def)

theorem locked_periods_are_frozen_witness:
  "filter (\<lambda>e. time_firmId e = ''f'' \<and> billingDateFallsInsideLock (time_performedAt e) (lock_of bx_context bx_lock))
     (ent_timeEntries (bapi_entries (snd (timeTransitionRoute bx_hash (\<lambda>a b. 0) bx_context Route_write_off ''e'' bx_locked)))) =
   filter (\<lambda>e. time_firmId e = ''f'' \<and> billingDateFallsInsideLock (time_performedAt e) (lock_of bx_context bx_lock))
     (ent_timeEntries (bapi_entries bx_locked))"
proof -
  let ?t = "snd (timeTransitionRoute bx_hash (\<lambda>a b. 0) bx_context Route_write_off ''e'' bx_locked)"
  have "billing_step bx_hash bx_date (\<lambda>a b. 0) bx_locked ?t" by (rule call_move_time [OF surjective_pairing])
  then have steps: "(billing_step bx_hash bx_date (\<lambda>a b. 0))\<^sup>*\<^sup>* bx_locked ?t" by blast
  have lock: "lock_of bx_context bx_lock \<in> set (ctl_billingPeriodLocks (bapi_controls bx_locked))" by (simp add: bx_locked_controls)
  have firm: "lock_firmId (lock_of bx_context bx_lock) = ''f''" by (simp add: lock_of_def)
  show ?thesis using conjunct1 [OF locked_periods_are_frozen [OF bx_locked_reachable lock steps]] unfolding firm .
qed

theorem entries_are_billed_once_witness:
  "entry_info (bapi_entries bx_approved) (Time_ref ''e'') = Some (''f'', ''m'', Billing_billed)"
proof -
  let ?v = "approved_invoice ''2026-01-01'' bx_draft"
  have v: "?v \<in> set (bill_invoices (bapi_books bx_approved))" "inv_status ?v \<noteq> Invoice_void" "inv_status ?v \<noteq> Invoice_draft"
    "inv_firmId ?v = ''f''" "inv_matterId ?v = ''m''" by (simp_all add: bx_approves approved_invoice_def)
  show ?thesis using entries_are_billed_once [OF bx_approved_reachable v(1,2), of "Time_ref ''e''"] bx_refs v(3-5) by fastforce
qed

theorem approval_bills_every_line_witness:
  "ent_timeEntries (bapi_entries bx_approved) = [bx_entry Billing_billed]"
proof -
  obtain w where w: "approveInvoiceRoute bx_hash (\<lambda>a b. 0) bx_context ''i'' bx_invoiced = (Inr w, bx_approved)" using bx_approves by blast
  from approval_bills_every_line [OF bx_invoiced_reachable w] obtain v where
    "v \<in> set (bill_invoices (bapi_books bx_invoiced))"
    "ent_timeEntries (bapi_entries bx_approved) = map (\<lambda>e. if Time_ref (time_id e) \<in> set (refs_of (bapi_books bx_invoiced) v)
        then e\<lparr>time_billingStatus := Billing_billed\<rparr> else e) (ent_timeEntries (bapi_entries bx_invoiced))" by auto
  then show ?thesis by (simp add: bx_invoiced_fields bx_timed_fields refs_of_def line_refs_def truthy_def)
qed

theorem voided_work_is_lost_witness:
  "entry_info (bapi_entries bx_voided) (Time_ref ''e'') \<noteq> None
    \<and> \<not> is_ok (fst (postInvoiceRoute bx_hash bx_date bx_context (\<lambda>n. ''n'') bx_invoice bx_voided))"
proof -
  obtain w where w: "voidInvoiceRoute bx_hash bx_context ''i'' bx_approved = (Inr w, bx_voided)" "inv_approvedAt w \<noteq> None" "inv_lines w = [bx_line]"
    using bx_voids by blast
  have "''e'' \<in> set (ivb_timeEntryIds bx_invoice)" by (simp add: bx_invoice_def)
  moreover have "bx_line \<in> set (inv_lines w)" "''e'' \<noteq> []" by (simp_all add: w(3))
  ultimately have "entry_info (bapi_entries bx_voided) (Time_ref ''e'') = Some (inv_firmId w, inv_matterId w, Billing_billed)"
    "\<not> is_ok (fst (postInvoiceRoute bx_hash bx_date bx_context (\<lambda>n. ''n'') bx_invoice bx_voided))"
    using voided_work_is_lost [OF bx_approved_reachable w(1,2) _ bx_line_fields(1) _ rtranclp.rtrancl_refl] by blast+
  then show ?thesis by (metis option.distinct(1))
qed


theorem billing_routes_keep_the_books_witness:
  "reachable no_bills bill_step (bapi_books bx_approved) \<and> chains_ok bx_hash (bapi_audit bx_approved)"
  using billing_routes_keep_the_books [OF bx_approved_reachable] by simp

end
