(* ===== verification/Trust_Transfer_Api.thy ===== *)
theory Trust_Transfer_Api
  imports Billing_Api
begin

section \<open>The routes of trust transfer requests\<close>

text \<open>
  apps/api/src/routes/billing/trust-transfer-requests.ts: a request to pay an invoice from trust money is
  created, reviewed, and linked to the ledger transaction that moved the money. The routes read the books and the
  ledger and write the requests and the audit log. The theorems follow the requests while the ledger and
  the books go on under any of their own calls.
\<close>

subsection \<open>State and requests\<close>

record TransferApi =
  tapi_transfers :: MemoryTrustTransferRequestStore
  tapi_books :: MemoryBillingInvoicePaymentStore
  tapi_ledger :: MemoryLedgerStore
  tapi_audit :: MemoryAuditStore

record TransferRequestBody =
  trb_id :: "string option"
  trb_matterId :: string
  trb_invoiceId :: string
  trb_clientContactId :: "string option"
  trb_amountCents :: int
  trb_reason :: "string option"
  trb_evidence :: "(string \<times> js_value) list"

record TransferLinkBody =
  tlb_ledgerTransactionId :: string
  tlb_evidence :: "(string \<times> js_value) list"

definition billingTrustTransferRequestBodySchema :: "TransferRequestBody \<Rightarrow> bool" where
  "billingTrustTransferRequestBodySchema body =
     (optional_ok min_one (trb_id body) \<and> min_one (trb_matterId body) \<and> min_one (trb_invoiceId body)
      \<and> optional_ok min_one (trb_clientContactId body) \<and> trb_amountCents body > 0 \<and> optional_ok min_one (trb_reason body))"

definition trustTransferRequestLinkBodySchema :: "TransferLinkBody \<Rightarrow> bool" where
  "trustTransferRequestLinkBodySchema body = min_one (tlb_ledgerTransactionId body)"

primrec transfer_status_name :: "TrustTransferRequestStatus \<Rightarrow> string" where
  "transfer_status_name Transfer_pending_approval = ''pending_approval''"
| "transfer_status_name Transfer_approved = ''approved''"
| "transfer_status_name Transfer_rejected = ''rejected''"
| "transfer_status_name Transfer_linked = ''linked''"
| "transfer_status_name Transfer_cancelled = ''cancelled''"

subsection \<open>Checks\<close>

definition assertTrustTransferInvoiceClientMatches :: "'a InvoiceRecord_scheme \<Rightarrow> string option \<Rightarrow> unit result" where
  "assertTrustTransferInvoiceClientMatches invoice clientContactId =
     throw_if (truthy (inv_clientContactId invoice) \<and> clientContactId \<noteq> inv_clientContactId invoice)
       ''Trust transfer request client must match the invoice client''"

definition assertTrustTransferAmountWithinInvoiceBalance :: "int \<Rightarrow> 'a InvoiceRecord_scheme \<Rightarrow> unit result" where
  "assertTrustTransferAmountWithinInvoiceBalance amountCents invoice =
     throw_if (amountCents > inv_balanceDueCents invoice) ''Trust transfer amount exceeds invoice balance due''"

definition transfer_invoice :: "LedgerContext \<Rightarrow> TransferApi \<Rightarrow> string \<Rightarrow> string \<Rightarrow> InvoiceWithLines result" where
  "transfer_invoice ctx api invoiceId matterId =
     (case getMemoryInvoice (tapi_books api) (lctx_firmId ctx) invoiceId of
        None \<Rightarrow> throw ''Invoice was not found''
      | Some invoice \<Rightarrow> if inv_matterId invoice \<noteq> matterId
          then throw ''Trust transfer invoice must belong to the matter'' else Inr invoice)"

definition reviewed_invoice :: "LedgerContext \<Rightarrow> TransferApi \<Rightarrow> TrustTransferRequestRecord \<Rightarrow> InvoiceWithLines result" where
  "reviewed_invoice ctx api existing =
     bind_result (transfer_invoice ctx api (ttr_invoiceId existing) (ttr_matterId existing)) (\<lambda>invoice.
     bind_result (assertTrustTransferInvoiceClientMatches invoice (ttr_clientContactId existing)) (\<lambda>_.
     bind_result (assertTrustTransferAmountWithinInvoiceBalance (ttr_amountCents existing) invoice) (\<lambda>_. Inr invoice)))"

definition enough_trust :: "TrustTransferRequestRecord \<Rightarrow> (string \<times> int) list \<Rightarrow> int result" where
  "enough_trust existing trustBalances =
     (let availableTrustBalanceCents = trustTransferRequestAvailableBalanceCents existing trustBalances in
      if ttr_amountCents existing > availableTrustBalanceCents then throw ''Trust transfer amount exceeds available trust balance''
      else Inr availableTrustBalanceCents)"

definition transfer_event ::
  "(string \<Rightarrow> string) \<Rightarrow> LedgerContext \<Rightarrow> string \<Rightarrow> string \<Rightarrow> (string \<times> js_value) list \<Rightarrow> TransferApi \<Rightarrow> TransferApi" where
  "transfer_event sha256 ctx action resourceId metadata api =
     api\<lparr>tapi_audit := appendLedgerAuditEvent sha256 ctx (lctx_auditId ctx) action ''trust_transfer_request'' resourceId None
           metadata (tapi_audit api)\<rparr>"

subsection \<open>Creating a request\<close>

definition transfer_of :: "LedgerContext \<Rightarrow> TransferRequestBody \<Rightarrow> string option \<Rightarrow> TrustTransferRequestRecord" where
  "transfer_of ctx body clientContactId =
     \<lparr>ttr_id = or_else (trb_id body) (lctx_uuid ctx), ttr_firmId = lctx_firmId ctx, ttr_matterId = trb_matterId body,
      ttr_clientContactId = clientContactId, ttr_invoiceId = trb_invoiceId body, ttr_requestedByUserId = user_id (lctx_user ctx),
      ttr_amountCents = trb_amountCents body, ttr_status = Transfer_pending_approval, ttr_reason = trb_reason body,
      ttr_requestedAt = lctx_now ctx, ttr_reviewedByUserId = None, ttr_reviewedAt = None, ttr_ledgerTransactionId = None,
      ttr_evidence = Some (trb_evidence body)\<rparr>"

definition transferMetadata :: "(string \<times> js_value) list \<Rightarrow> TrustTransferRequestRecord \<Rightarrow> (string \<times> js_value) list" where
  "transferMetadata extra request =
     [(''matterId'', JStr (ttr_matterId request)), (''trustTransferRequestId'', JStr (ttr_id request)),
      (''invoiceId'', JStr (ttr_invoiceId request))] @ extra @
     [(''status'', JStr (transfer_status_name (ttr_status request))), (''amountCents'', JNum (ttr_amountCents request))]"

definition createTransferRequestRoute ::
  "(string \<Rightarrow> string) \<Rightarrow> LedgerContext \<Rightarrow> TransferRequestBody \<Rightarrow> TransferApi \<Rightarrow> TrustTransferRequestRecord result \<times> TransferApi" where
  "createTransferRequestRoute sha256 ctx body api =
     guarded (parseRequestPart (billingTrustTransferRequestBodySchema body)) api (\<lambda>_.
     guarded (assertMatterAccess ctx Res_trust_ledger Act_create (Some (trb_matterId body))) api (\<lambda>_.
     guarded (transfer_invoice ctx api (trb_invoiceId body) (trb_matterId body)) api (\<lambda>invoice.
     let clientContactId = (if trb_clientContactId body = None then inv_clientContactId invoice else trb_clientContactId body) in
     guarded (assertTrustTransferInvoiceClientMatches invoice clientContactId) api (\<lambda>_.
     case createMemoryTrustTransferRequest (tapi_transfers api) (transfer_of ctx body clientContactId) of (created, transfers) \<Rightarrow>
       (Inr created, transfer_event sha256 ctx ''trust_transfer_request.created'' (ttr_id created)
          (transferMetadata [] created) (api\<lparr>tapi_transfers := transfers\<rparr>))))))"

subsection \<open>Reviewing a request\<close>

definition pending_options :: TrustTransferRequestUpdateOptions where
  "pending_options = \<lparr>opt_expectedStatus = Some Transfer_pending_approval, opt_requireLedgerTransactionUnlinked = False\<rparr>"

definition store_transfer ::
  "(string \<Rightarrow> string) \<Rightarrow> LedgerContext \<Rightarrow> TrustTransferRequestRecord \<Rightarrow> TrustTransferRequestUpdate \<Rightarrow> TrustTransferRequestUpdateOptions
   \<Rightarrow> string \<Rightarrow> string \<Rightarrow> (TrustTransferRequestRecord \<Rightarrow> (string \<times> js_value) list) \<Rightarrow> TransferApi \<Rightarrow> TrustTransferRequestRecord result \<times> TransferApi" where
  "store_transfer sha256 ctx existing updates options conflict action metadata api =
     (case updateMemoryTrustTransferRequest (tapi_transfers api) (lctx_firmId ctx) (ttr_id existing) updates options of
        (Inl _, transfers) \<Rightarrow> (throw conflict, api\<lparr>tapi_transfers := transfers\<rparr>)
      | (Inr updated, transfers) \<Rightarrow>
          (Inr updated, transfer_event sha256 ctx action (ttr_id updated) (metadata updated) (api\<lparr>tapi_transfers := transfers\<rparr>)))"

definition previous_status :: "TrustTransferRequestRecord \<Rightarrow> (string \<times> js_value) list" where
  "previous_status existing = [(''previousStatus'', JStr (transfer_status_name (ttr_status existing)))]"

definition approveTransferRoute ::
  "(string \<Rightarrow> string) \<Rightarrow> LedgerContext \<Rightarrow> string \<Rightarrow> (string \<times> js_value) list \<Rightarrow> TransferApi \<Rightarrow> TrustTransferRequestRecord result \<times> TransferApi" where
  "approveTransferRoute sha256 ctx requestId evidence api =
     guarded (parseRequestPart (min_one requestId)) api (\<lambda>_.
     case getMemoryTrustTransferRequest (tapi_transfers api) (lctx_firmId ctx) requestId of
       None \<Rightarrow> (throw ''Trust transfer request was not found'', api)
     | Some existing \<Rightarrow>
         guarded (assertMatterAccess ctx Res_trust_ledger Act_approve (Some (ttr_matterId existing))) api (\<lambda>_.
         guarded (throw_if (ttr_status existing \<noteq> Transfer_pending_approval) ''Only pending trust transfer requests can be approved'') api (\<lambda>_.
         guarded (reviewed_invoice ctx api existing) api (\<lambda>invoice.
         guarded (enough_trust existing (snap_trustBalances (getMemoryLedger (tapi_ledger api) (lctx_firmId ctx)
           (Some (ttr_matterId existing))))) api (\<lambda>availableTrustBalanceCents.
         guarded (requireFreshAuth ctx) api (\<lambda>_.
         store_transfer sha256 ctx existing
           (reviewUpdate Transfer_approved (user_id (lctx_user ctx)) (lctx_now ctx) (Some evidence)) pending_options
           ''Trust transfer request status changed'' ''trust_transfer_request.approved''
           (\<lambda>updated. transferMetadata (previous_status existing) updated @
              [(''invoiceBalanceDueCents'', JNum (inv_balanceDueCents invoice)),
               (''availableTrustBalanceCents'', JNum availableTrustBalanceCents), (''evidencePresent'', JBool (evidence \<noteq> []))])
           api))))))"

definition rejectTransferRoute ::
  "(string \<Rightarrow> string) \<Rightarrow> LedgerContext \<Rightarrow> string \<Rightarrow> (string \<times> js_value) list \<Rightarrow> TransferApi \<Rightarrow> TrustTransferRequestRecord result \<times> TransferApi" where
  "rejectTransferRoute sha256 ctx requestId evidence api =
     guarded (parseRequestPart (min_one requestId)) api (\<lambda>_.
     case getMemoryTrustTransferRequest (tapi_transfers api) (lctx_firmId ctx) requestId of
       None \<Rightarrow> (throw ''Trust transfer request was not found'', api)
     | Some existing \<Rightarrow>
         guarded (assertMatterAccess ctx Res_trust_ledger Act_approve (Some (ttr_matterId existing))) api (\<lambda>_.
         guarded (throw_if (ttr_status existing \<noteq> Transfer_pending_approval) ''Only pending trust transfer requests can be rejected'') api (\<lambda>_.
         guarded (requireFreshAuth ctx) api (\<lambda>_.
         store_transfer sha256 ctx existing
           (reviewUpdate Transfer_rejected (user_id (lctx_user ctx)) (lctx_now ctx) (Some evidence)) pending_options
           ''Trust transfer request status changed'' ''trust_transfer_request.rejected''
           (\<lambda>updated. transferMetadata (previous_status existing) updated @ [(''evidencePresent'', JBool (evidence \<noteq> []))])
           api))))"

subsection \<open>Linking a request to the ledger\<close>

definition check_link :: "TrustTransferLedgerLinkSummary \<Rightarrow> unit result" where
  "check_link linkSummary = run_checks
     [throw_if (\<not> link_transactionExists linkSummary) ''Ledger transaction was not found'',
      throw_if (\<not> link_matterMatches linkSummary) ''Ledger transaction was not found'',
      throw_if (\<not> link_clientMatches linkSummary) ''Ledger transaction client must match the request client'',
      throw_if (\<not> link_amountMatches linkSummary) ''Ledger transaction amount must match the request amount'']"

definition alreadyLinked :: "LedgerContext \<Rightarrow> TransferApi \<Rightarrow> TrustTransferRequestRecord \<Rightarrow> string \<Rightarrow> bool" where
  "alreadyLinked ctx api existing ledgerTransactionId =
     list_ex (\<lambda>candidate. ttr_id candidate \<noteq> ttr_id existing \<and> ttr_ledgerTransactionId candidate = Some ledgerTransactionId)
       (listMemoryTrustTransferRequests (tapi_transfers api) (lctx_firmId ctx) None None)"

definition trustBalancesBeforeLink :: "LedgerSnapshot \<Rightarrow> string \<Rightarrow> (string \<times> int) list" where
  "trustBalancesBeforeLink ledger ledgerTransactionId =
     clientTrustBalanceByMatter (filter (\<lambda>entry. entry_transactionId entry \<noteq> ledgerTransactionId) (snap_entries ledger))
       (snap_accounts ledger)"

definition linkTransferRoute ::
  "(string \<Rightarrow> string) \<Rightarrow> LedgerContext \<Rightarrow> string \<Rightarrow> TransferLinkBody \<Rightarrow> TransferApi \<Rightarrow> TrustTransferRequestRecord result \<times> TransferApi" where
  "linkTransferRoute sha256 ctx requestId body api =
     guarded (parseRequestPart (min_one requestId)) api (\<lambda>_.
     guarded (parseRequestPart (trustTransferRequestLinkBodySchema body)) api (\<lambda>_.
     case getMemoryTrustTransferRequest (tapi_transfers api) (lctx_firmId ctx) requestId of
       None \<Rightarrow> (throw ''Trust transfer request was not found'', api)
     | Some existing \<Rightarrow>
         guarded (assertMatterAccess ctx Res_trust_ledger Act_approve (Some (ttr_matterId existing))) api (\<lambda>_.
         guarded (throw_if (ttr_status existing \<noteq> Transfer_approved) ''Only approved trust transfer requests can be linked'') api (\<lambda>_.
         guarded (throw_if (truthy (ttr_ledgerTransactionId existing)) ''Trust transfer request is already linked'') api (\<lambda>_.
         guarded (reviewed_invoice ctx api existing) api (\<lambda>invoice.
         let ledger = getMemoryLedger (tapi_ledger api) (lctx_firmId ctx) None;
             txId = tlb_ledgerTransactionId body;
             linkSummary = summarizeTrustTransferLedgerLink existing txId (snap_accounts ledger) (snap_entries ledger) in
         guarded (check_link linkSummary) api (\<lambda>_.
         guarded (throw_if (alreadyLinked ctx api existing txId)
           ''Ledger transaction is already linked to a trust transfer request'') api (\<lambda>_.
         guarded (enough_trust existing (trustBalancesBeforeLink ledger txId)) api (\<lambda>availableTrustBalanceCents.
         guarded (requireFreshAuth ctx) api (\<lambda>_.
         store_transfer sha256 ctx existing
           (linkUpdate txId (user_id (lctx_user ctx)) (lctx_now ctx) (Some (tlb_evidence body)))
           \<lparr>opt_expectedStatus = Some Transfer_approved, opt_requireLedgerTransactionUnlinked = True\<rparr>
           ''Trust transfer request link state changed'' ''trust_transfer_request.linked''
           (\<lambda>updated. transferMetadata ([(''ledgerTransactionId'', text_value (ttr_ledgerTransactionId updated))] @ previous_status existing) updated @
              [(''invoiceBalanceDueCents'', JNum (inv_balanceDueCents invoice)),
               (''availableTrustBalanceCents'', JNum availableTrustBalanceCents),
               (''trustAssetCreditCents'', JNum (link_trustAssetCreditCents linkSummary)),
               (''clientLiabilityDebitCents'', JNum (link_clientLiabilityDebitCents linkSummary)),
               (''evidencePresent'', JBool (tlb_evidence body \<noteq> []))])
           api))))))))))"

subsection \<open>Steps of the routes\<close>

inductive transfer_api_step :: "(string \<Rightarrow> string) \<Rightarrow> TransferApi \<Rightarrow> TransferApi \<Rightarrow> bool" for sha256 where
  transfer_created: "createTransferRequestRoute sha256 ctx body s = (r, t)
    \<Longrightarrow> getMemoryTrustTransferRequest (tapi_transfers s) (lctx_firmId ctx) (or_else (trb_id body) (lctx_uuid ctx)) = None
    \<Longrightarrow> transfer_api_step sha256 s t"
| transfer_approved: "approveTransferRoute sha256 ctx i evidence s = (r, t) \<Longrightarrow> transfer_api_step sha256 s t"
| transfer_rejected: "rejectTransferRoute sha256 ctx i evidence s = (r, t) \<Longrightarrow> transfer_api_step sha256 s t"
| transfer_linked: "linkTransferRoute sha256 ctx i linking s = (r, t) \<Longrightarrow> transfer_api_step sha256 s t"
| ledger_moves: "ledger_step (tapi_ledger s) l \<Longrightarrow> transfer_api_step sha256 s (s\<lparr>tapi_ledger := l\<rparr>)"
| books_move: "bill_step (tapi_books s) b \<Longrightarrow> transfer_api_step sha256 s (s\<lparr>tapi_books := b\<rparr>)"

definition empty_transfers :: "TransferApi \<Rightarrow> bool" where
  "empty_transfers s = (no_transfers (tapi_transfers s) \<and> no_bills (tapi_books s) \<and> empty_ledger (tapi_ledger s)
     \<and> no_events (tapi_audit s))"

text \<open>What a route that writes a request leaves behind: one step of the request store, one event of the log.\<close>

definition wrote_transfer :: "(string \<Rightarrow> string) \<Rightarrow> TransferApi \<Rightarrow> TransferApi \<Rightarrow> bool" where
  "wrote_transfer sha256 s t = (transfer_step (tapi_transfers s) (tapi_transfers t) \<and> tapi_books t = tapi_books s
     \<and> tapi_ledger t = tapi_ledger s \<and> (chains_ok sha256 (tapi_audit s) \<longrightarrow> chains_ok sha256 (tapi_audit t)))"

definition replaced_transfer :: "TransferApi \<Rightarrow> TrustTransferRequestRecord \<Rightarrow> TrustTransferRequestRecord list" where
  "replaced_transfer s q = replace_where (\<lambda>x. ttr_firmId x = ttr_firmId q \<and> ttr_id x = ttr_id q) q
     (tts_trustTransferRequests (tapi_transfers s))"

lemma transfer_event_fields [simp]:
  "tapi_transfers (transfer_event sha ctx a i md s) = tapi_transfers s"
  "tapi_books (transfer_event sha ctx a i md s) = tapi_books s"
  "tapi_ledger (transfer_event sha ctx a i md s) = tapi_ledger s"
  by (simp_all add: transfer_event_def)

lemma transfer_event_chains:
  "chains_ok sha (tapi_audit s) \<Longrightarrow> chains_ok sha (tapi_audit (transfer_event sha ctx a i md s))"
  by (simp add: transfer_event_def append_ledger_event_chains)

lemma stored_transfer_cases:
  assumes "store_transfer sha ctx x updates options conflict action metadata s = (r, t)"
    and "getMemoryTrustTransferRequest (tapi_transfers s) (lctx_firmId ctx) i = Some x"
  obtains (refused) e where "r = Inl e" "t = s"
  | (updated) transfers where "r = Inr (updatedTransfer x updates)"
      "updateMemoryTrustTransferRequest (tapi_transfers s) (lctx_firmId ctx) i updates options
        = (Inr (updatedTransfer x updates), transfers)"
      "t = transfer_event sha ctx action i (metadata (updatedTransfer x updates)) (s\<lparr>tapi_transfers := transfers\<rparr>)"
      "tts_trustTransferRequests transfers = replaced_transfer s (updatedTransfer x updates)"
proof -
  have x: "ttr_firmId x = lctx_firmId ctx" "ttr_id x = i"
    using find_Some_mem [OF assms(2) [unfolded getMemoryTrustTransferRequest_def]] by auto
  obtain res transfers where u: "updateMemoryTrustTransferRequest (tapi_transfers s) (lctx_firmId ctx) i updates options = (res, transfers)"
    by (cases "updateMemoryTrustTransferRequest (tapi_transfers s) (lctx_firmId ctx) i updates options")
  show ?thesis
  proof (cases res)
    case (Inl e)
    then have "transfers = tapi_transfers s"
      using u by (simp add: updateMemoryTrustTransferRequest_def assms(2) Let_def split: if_splits)
    then show ?thesis using refused assms(1) u Inl x(2) by (auto simp: store_transfer_def throw_def)
  next
    case (Inr q)
    then have q: "q = updatedTransfer x updates"
      "tts_trustTransferRequests transfers = replace_where (\<lambda>y. ttr_firmId y = lctx_firmId ctx \<and> ttr_id y = i) q
        (tts_trustTransferRequests (tapi_transfers s))"
      using u by (auto simp: updateMemoryTrustTransferRequest_def assms(2) Let_def throw_def split: if_splits)
    have same: "ttr_firmId (updatedTransfer x updates) = lctx_firmId ctx" "ttr_id (updatedTransfer x updates) = i"
      using x by (simp_all add: updatedTransfer_def)
    show ?thesis
    proof (rule updated)
      show "r = Inr (updatedTransfer x updates)"
        "t = transfer_event sha ctx action i (metadata (updatedTransfer x updates)) (s\<lparr>tapi_transfers := transfers\<rparr>)"
        using assms(1) u Inr q(1) x(2) same by (simp_all add: store_transfer_def)
    qed (use u Inr q same in \<open>simp_all add: replaced_transfer_def\<close>)
  qed
qed

lemma wrote_stored:
  assumes "transfer_step (tapi_transfers s) transfers"
  shows "wrote_transfer sha s (transfer_event sha ctx action i metadata (s\<lparr>tapi_transfers := transfers\<rparr>))"
  using assms transfer_event_chains [of sha "s\<lparr>tapi_transfers := transfers\<rparr>"] by (simp add: wrote_transfer_def)

lemma create_transfer_cases:
  assumes "createTransferRequestRoute sha ctx body s = (r, t)"
    and "getMemoryTrustTransferRequest (tapi_transfers s) (lctx_firmId ctx) (or_else (trb_id body) (lctx_uuid ctx)) = None"
  obtains (refused) "t = s"
  | (created) q where "wrote_transfer sha s t" "ttr_ledgerTransactionId q = None" "(ttr_firmId q, ttr_id q) \<notin> (\<lambda>x. (ttr_firmId x, ttr_id x)) ` set (tts_trustTransferRequests (tapi_transfers s))"
      "tts_trustTransferRequests (tapi_transfers t) = tts_trustTransferRequests (tapi_transfers s) @ [q]"
proof (cases "t = s")
  case False
  obtain client where client: "t = transfer_event sha ctx ''trust_transfer_request.created'' (ttr_id (transfer_of ctx body client))
      (transferMetadata [] (transfer_of ctx body client))
      (s\<lparr>tapi_transfers := snd (createMemoryTrustTransferRequest (tapi_transfers s) (transfer_of ctx body client))\<rparr>)"
    using assms(1) False unfolding createTransferRequestRoute_def Let_def
    by (elim guarded_cases) (auto simp: createMemoryTrustTransferRequest_def)
  let ?q = "transfer_of ctx body client"
  have q: "ttr_status ?q = Transfer_pending_approval" "ttr_reviewedByUserId ?q = None" "ttr_ledgerTransactionId ?q = None"
    "ttr_firmId ?q = lctx_firmId ctx" "ttr_id ?q = or_else (trb_id body) (lctx_uuid ctx)"
    by (simp_all add: transfer_of_def)
  have step: "transfer_step (tapi_transfers s) (snd (createMemoryTrustTransferRequest (tapi_transfers s) ?q))"
    using q assms(2) by (intro step_request [of _ ?q "fst (createMemoryTrustTransferRequest (tapi_transfers s) ?q)"]) simp_all
  show ?thesis
    using assms(2) q wrote_stored [OF step, of sha ctx] unfolding client
    by (intro created [of ?q]) (auto simp: client createMemoryTrustTransferRequest_def getMemoryTrustTransferRequest_def find_None_all)
qed (use refused in blast)

lemma review_transfer_wrote:
  assumes "store_transfer sha ctx x (reviewUpdate status reviewer now evidence) pending_options conflict action metadata s = (r, t)"
    and "getMemoryTrustTransferRequest (tapi_transfers s) (lctx_firmId ctx) i = Some x"
    and "status \<in> {Transfer_approved, Transfer_rejected}"
  shows "t = s \<or> (wrote_transfer sha s t \<and>
    tts_trustTransferRequests (tapi_transfers t) = replaced_transfer s (updatedTransfer x (reviewUpdate status reviewer now evidence)))"
  using assms(1,2)
proof (cases rule: stored_transfer_cases)
  case (updated transfers)
  have "transfer_step (tapi_transfers s) transfers"
    using updated(2) assms(3) unfolding pending_options_def by (intro step_review)
  then show ?thesis using updated(4) wrote_stored [of s transfers sha ctx] unfolding updated(3) by simp
qed simp

lemma approve_transfer_cases:
  assumes "approveTransferRoute sha ctx i evidence s = (r, t)"
  obtains (refused) "t = s"
  | (reviewed) x u where "getMemoryTrustTransferRequest (tapi_transfers s) (lctx_firmId ctx) i = Some x"
      "upd_ledgerTransactionId u = None" "wrote_transfer sha s t"
      "tts_trustTransferRequests (tapi_transfers t) = replaced_transfer s (updatedTransfer x u)"
proof (cases "getMemoryTrustTransferRequest (tapi_transfers s) (lctx_firmId ctx) i")
  case None
  then show ?thesis using assms refused by (auto simp: approveTransferRoute_def guarded_def throw_def split: sum.splits)
next
  case (Some x)
  let ?u = "reviewUpdate Transfer_approved (user_id (lctx_user ctx)) (lctx_now ctx) (Some evidence)"
  have "t = s \<or> (\<exists>conflict action metadata. store_transfer sha ctx x ?u pending_options conflict action metadata s = (r, t))"
    using assms unfolding approveTransferRoute_def Some option.simps by (elim guarded_cases) blast+
  then have "t = s \<or> (wrote_transfer sha s t \<and>
      tts_trustTransferRequests (tapi_transfers t) = replaced_transfer s (updatedTransfer x ?u))"
    using review_transfer_wrote [OF _ Some] by blast
  moreover have "upd_ledgerTransactionId ?u = None" by (simp add: reviewUpdate_def)
  ultimately show ?thesis using refused reviewed [OF Some] by blast
qed

lemma reject_transfer_cases:
  assumes "rejectTransferRoute sha ctx i evidence s = (r, t)"
  obtains (refused) "t = s"
  | (reviewed) x u where "getMemoryTrustTransferRequest (tapi_transfers s) (lctx_firmId ctx) i = Some x"
      "upd_ledgerTransactionId u = None" "wrote_transfer sha s t"
      "tts_trustTransferRequests (tapi_transfers t) = replaced_transfer s (updatedTransfer x u)"
proof (cases "getMemoryTrustTransferRequest (tapi_transfers s) (lctx_firmId ctx) i")
  case None
  then show ?thesis using assms refused by (auto simp: rejectTransferRoute_def guarded_def throw_def split: sum.splits)
next
  case (Some x)
  let ?u = "reviewUpdate Transfer_rejected (user_id (lctx_user ctx)) (lctx_now ctx) (Some evidence)"
  have "t = s \<or> (\<exists>conflict action metadata. store_transfer sha ctx x ?u pending_options conflict action metadata s = (r, t))"
    using assms unfolding rejectTransferRoute_def Some option.simps by (elim guarded_cases) blast+
  then have "t = s \<or> (wrote_transfer sha s t \<and>
      tts_trustTransferRequests (tapi_transfers t) = replaced_transfer s (updatedTransfer x ?u))"
    using review_transfer_wrote [OF _ Some] by blast
  moreover have "upd_ledgerTransactionId ?u = None" by (simp add: reviewUpdate_def)
  ultimately show ?thesis using refused reviewed [OF Some] by blast
qed

text \<open>A link that is written passed the checks of the route against the ledger of its firm.\<close>

definition link_holds :: "MemoryLedgerStore \<Rightarrow> TrustTransferRequestRecord \<Rightarrow> string \<Rightarrow> bool" where
  "link_holds l q txId = (let ledger = getMemoryLedger l (ttr_firmId q) None in
     link_amountMatches (summarizeTrustTransferLedgerLink q txId (snap_accounts ledger) (snap_entries ledger)))"

lemma link_holds_scope:
  "ttr_firmId q = ttr_firmId x \<Longrightarrow> ttr_matterId q = ttr_matterId x \<Longrightarrow> ttr_clientContactId q = ttr_clientContactId x
   \<Longrightarrow> ttr_amountCents q = ttr_amountCents x \<Longrightarrow> link_holds l q txId = link_holds l x txId"
  by (simp add: link_holds_def summarizeTrustTransferLedgerLink_def Let_def)

lemma link_transfer_cases:
  assumes "linkTransferRoute sha ctx i linking s = (r, t)"
  obtains (refused) "t = s"
  | (linked) x u where "getMemoryTrustTransferRequest (tapi_transfers s) (lctx_firmId ctx) i = Some x"
      "upd_ledgerTransactionId u = Some (Some (tlb_ledgerTransactionId linking))" "wrote_transfer sha s t"
      "tts_trustTransferRequests (tapi_transfers t) = replaced_transfer s (updatedTransfer x u)"
      "link_holds (tapi_ledger s) x (tlb_ledgerTransactionId linking)"
proof (cases "getMemoryTrustTransferRequest (tapi_transfers s) (lctx_firmId ctx) i")
  case None
  then show ?thesis using assms refused by (auto simp: linkTransferRoute_def guarded_def throw_def split: sum.splits)
next
  case (Some x)
  let ?tx = "tlb_ledgerTransactionId linking"
  let ?u = "linkUpdate ?tx (user_id (lctx_user ctx)) (lctx_now ctx) (Some (tlb_evidence linking))"
  let ?options = "\<lparr>opt_expectedStatus = Some Transfer_approved, opt_requireLedgerTransactionUnlinked = True\<rparr>"
  have firm: "ttr_firmId x = lctx_firmId ctx"
    using find_Some_mem [OF Some [unfolded getMemoryTrustTransferRequest_def]] by simp
  have "t = s \<or> (?tx \<noteq> [] \<and> link_holds (tapi_ledger s) x ?tx \<and>
      (\<exists>conflict action metadata. store_transfer sha ctx x ?u ?options conflict action metadata s = (r, t)))"
    using assms unfolding linkTransferRoute_def Some option.simps Let_def
    by (elim guarded_cases)
      (auto simp: link_holds_def firm check_link_def run_checks_ok parseRequestPart_def trustTransferRequestLinkBodySchema_def
        min_one_def throw_def split: if_splits)
  then consider "t = s" | conflict action metadata where "?tx \<noteq> []" "link_holds (tapi_ledger s) x ?tx"
      "store_transfer sha ctx x ?u ?options conflict action metadata s = (r, t)"
    by blast
  then show ?thesis
  proof cases
    case (2 conflict action metadata)
    from 2(3) Some show ?thesis
    proof (cases rule: stored_transfer_cases)
      case (updated transfers)
      have step: "transfer_step (tapi_transfers s) transfers" using updated(2) 2(1) by (intro step_link)
      show ?thesis
        using linked [OF Some _ _ _ 2(2), of ?u] wrote_stored [OF step, of sha ctx] updated(4)
        by (simp add: updated(3) linkUpdate_def)
    qed (use refused in blast)
  qed (use refused in blast)
qed

subsection \<open>The ledger under the links\<close>

definition entries_named :: "MemoryLedgerStore \<Rightarrow> bool" where
  "entries_named l = list_all (\<lambda>p. list_all (\<lambda>e. entry_transactionId e = posted_id p) (posted_entries p)) (store_postedTransactions l)"

definition ledger_extends :: "MemoryLedgerStore \<Rightarrow> MemoryLedgerStore \<Rightarrow> bool" where
  "ledger_extends l m = (store_ledgerAccounts m = store_ledgerAccounts l \<and>
     (store_postedTransactions m = store_postedTransactions l \<or>
      (\<exists>t. store_postedTransactions m = store_postedTransactions l @ [posted_of t] \<and> tx_id t \<notin> posted_id ` set (store_postedTransactions l))))"

lemma posted_extends:
  assumes "postLedgerTransaction (posting_state l) t = Inr p"
  shows "ledger_extends l (l\<lparr>store_postedTransactions := reconcilePostedTransaction (store_postedTransactions l) p\<rparr>)"
proof (cases "list_ex (\<lambda>x. posted_id x = posted_id p) (store_postedTransactions l)")
  case False
  have "findDuplicate (store_postedTransactions l) t = None"
    using assms False findDuplicate_mem [of "store_postedTransactions l" t]
    by (cases "findDuplicate (store_postedTransactions l) t")
      (auto simp: postLedgerTransaction_duplicate throw_def list_ex_iff split: if_splits)
  then have "p = posted_of t" using assms by (simp add: postLedgerTransaction_new)
  then have "reconcilePostedTransaction (store_postedTransactions l) p = store_postedTransactions l @ [posted_of t]"
    "tx_id t \<notin> posted_id ` set (store_postedTransactions l)"
    using False by (auto simp: reconcilePostedTransaction_def list_ex_iff posted_of_def)
  then show ?thesis unfolding ledger_extends_def by simp blast
qed (simp add: ledger_extends_def reconcilePostedTransaction_def)

lemma same_posted_extends:
  "store_ledgerAccounts m = store_ledgerAccounts l \<Longrightarrow> store_postedTransactions m = store_postedTransactions l \<Longrightarrow> ledger_extends l m"
  by (simp add: ledger_extends_def)

lemma ledger_step_extends: "ledger_step l m \<Longrightarrow> ledger_extends l m"
proof (induction rule: ledger_step.induct)
  case (step_post l t r m)
  then show ?case by (auto simp: postMemoryLedgerTransaction_eq posted_extends same_posted_extends split: sum.splits)
next
  case (step_prepare q l r m)
  then show ?case
    by (auto simp: prepareMemoryLedgerPostingRequest_def same_posted_extends split: sum.splits option.splits)
next
  case (step_approve l firm i input r m)
  have "ledger_extends l m" if "postPendingRequest l firm i input x = (r, m)" for x
    using that
  proof (cases rule: postPendingRequest_cases)
    case (posted p q)
    then show ?thesis using posted_extends [OF posted(1)] by (simp add: ledger_extends_def replaceRequest_def)
  qed (use posted_extends in \<open>simp_all add: same_posted_extends\<close>)
  then show ?case using step_approve
    by (auto simp: approveMemoryLedgerPostingRequest_def same_posted_extends split: option.splits if_splits)
next
  case (step_reject l firm i input reason r m)
  then show ?case
    by (auto simp: rejectMemoryLedgerPostingRequest_def Let_def replaceRequest_def same_posted_extends split: sum.splits if_splits)
qed

lemma extends_named: "ledger_extends l m \<Longrightarrow> entries_named l \<Longrightarrow> entries_named m"
  by (auto simp: ledger_extends_def entries_named_def posted_of_def nextEntries_def nextEntry_def list_all_iff)

lemma summary_of_transaction:
  assumes "filter (\<lambda>e. entry_transactionId e = txId) es = filter (\<lambda>e. entry_transactionId e = txId) fs"
  shows "summarizeTrustTransferLedgerLink q txId accounts es = summarizeTrustTransferLedgerLink q txId accounts fs"
  unfolding summarizeTrustTransferLedgerLink_def assms by (rule refl)

lemma extends_keeps_links:
  assumes "ledger_extends l m" "entries_named l" "link_holds l q txId"
  shows "link_holds m q txId"
proof (cases "store_postedTransactions m = store_postedTransactions l")
  case True
  then show ?thesis using assms by (simp add: ledger_extends_def link_holds_def getMemoryLedger_def Let_def)
next
  case False
  then obtain t where t: "store_ledgerAccounts m = store_ledgerAccounts l"
    "store_postedTransactions m = store_postedTransactions l @ [posted_of t]" "tx_id t \<notin> posted_id ` set (store_postedTransactions l)"
    using assms(1) by (auto simp: ledger_extends_def)
  have "\<exists>e \<in> set (snap_entries (getMemoryLedger l (ttr_firmId q) None)). entry_transactionId e = txId"
    using assms(3) by (auto simp: link_holds_def summarizeTrustTransferLedgerLink_def Let_def filter_empty_conv)
  then have "txId \<in> posted_id ` set (store_postedTransactions l)"
    using assms(2) by (auto simp: getMemoryLedger_def Let_def entries_named_def list_all_iff)
  then have other: "filter (\<lambda>e. entry_transactionId e = txId) (filter p (nextEntries t)) = []" for p
    using t(3) by (auto simp: nextEntries_def nextEntry_def filter_empty_conv)
  let ?m = "getMemoryLedger m (ttr_firmId q) None" and ?l = "getMemoryLedger l (ttr_firmId q) None"
  have "filter (\<lambda>e. entry_transactionId e = txId) (snap_entries ?m) = filter (\<lambda>e. entry_transactionId e = txId) (snap_entries ?l)"
    using other by (simp add: getMemoryLedger_def Let_def t(2) posted_of_def del: filter_filter)
  moreover have "snap_accounts ?m = snap_accounts ?l" by (simp add: getMemoryLedger_def Let_def t(1))
  ultimately show ?thesis using assms(3) summary_of_transaction unfolding link_holds_def Let_def by metis
qed

subsection \<open>Every step keeps the requests backed\<close>

definition backed :: "MemoryLedgerStore \<Rightarrow> TrustTransferRequestRecord \<Rightarrow> bool" where
  "backed l q = (case ttr_ledgerTransactionId q of None \<Rightarrow> True | Some txId \<Rightarrow> link_holds l q txId)"

definition transfer_api_inv :: "(string \<Rightarrow> string) \<Rightarrow> TransferApi \<Rightarrow> bool" where
  "transfer_api_inv sha256 s = (transfer_inv (tapi_transfers s)
     \<and> distinct (map (\<lambda>q. (ttr_firmId q, ttr_id q)) (tts_trustTransferRequests (tapi_transfers s)))
     \<and> bill_inv (tapi_books s) \<and> ledger_inv (tapi_ledger s) \<and> entries_named (tapi_ledger s)
     \<and> list_all (backed (tapi_ledger s)) (tts_trustTransferRequests (tapi_transfers s)) \<and> chains_ok sha256 (tapi_audit s))"

lemma wrote_keeps:
  assumes "transfer_api_inv sha s" "wrote_transfer sha s t"
    and "distinct (map (\<lambda>q. (ttr_firmId q, ttr_id q)) (tts_trustTransferRequests (tapi_transfers t)))"
    and "list_all (backed (tapi_ledger s)) (tts_trustTransferRequests (tapi_transfers t))"
  shows "transfer_api_inv sha t"
  using assms transfer_step_inv by (auto simp: transfer_api_inv_def wrote_transfer_def)

lemma replaced_keeps:
  assumes "transfer_api_inv sha s" "wrote_transfer sha s t"
    and "getMemoryTrustTransferRequest (tapi_transfers s) firm i = Some x"
    and "tts_trustTransferRequests (tapi_transfers t) = replaced_transfer s (updatedTransfer x u)"
    and "\<And>txId. upd_ledgerTransactionId u = Some (Some txId) \<Longrightarrow> link_holds (tapi_ledger s) x txId"
  shows "transfer_api_inv sha t \<and> transfer_step\<^sup>=\<^sup>= (tapi_transfers s) (tapi_transfers t)"
proof (intro conjI wrote_keeps [OF assms(1,2)])
  have x: "x \<in> set (tts_trustTransferRequests (tapi_transfers s))"
    using find_Some_mem [OF assms(3) [unfolded getMemoryTrustTransferRequest_def]] by simp
  then have "backed (tapi_ledger s) x" using assms(1) by (auto simp: transfer_api_inv_def list_all_iff)
  then have "backed (tapi_ledger s) (updatedTransfer x u)"
    using assms(5) link_holds_scope [of "updatedTransfer x u" x "tapi_ledger s"]
    by (cases "upd_ledgerTransactionId u") (auto simp: backed_def updatedTransfer_def split: option.splits)
  then show "list_all (backed (tapi_ledger s)) (tts_trustTransferRequests (tapi_transfers t))"
    using assms(1) unfolding assms(4) replaced_transfer_def by (intro list_all_replace_where) (simp_all add: transfer_api_inv_def)
  show "distinct (map (\<lambda>q. (ttr_firmId q, ttr_id q)) (tts_trustTransferRequests (tapi_transfers t)))"
    using assms(1) unfolding assms(4) replaced_transfer_def
    by (subst map_replace_where) (auto simp: transfer_api_inv_def)
  show "transfer_step\<^sup>=\<^sup>= (tapi_transfers s) (tapi_transfers t)" using assms(2) by (simp add: wrote_transfer_def)
qed

lemma transfer_api_step_inv:
  assumes "transfer_api_step sha s t" "transfer_api_inv sha s"
  shows "transfer_api_inv sha t \<and> transfer_step\<^sup>=\<^sup>= (tapi_transfers s) (tapi_transfers t)"
  using assms(1)
proof cases
  case (transfer_created ctx body r)
  then show ?thesis
  proof (cases rule: create_transfer_cases)
    case (created q)
    have "transfer_api_inv sha t"
    proof (rule wrote_keeps [OF assms(2) created(1)])
      show "distinct (map (\<lambda>q. (ttr_firmId q, ttr_id q)) (tts_trustTransferRequests (tapi_transfers t)))"
        "list_all (backed (tapi_ledger s)) (tts_trustTransferRequests (tapi_transfers t))"
        using assms(2) created(2,3) by (auto simp: created(4) backed_def transfer_api_inv_def)
    qed
    then show ?thesis using created(1) by (simp add: wrote_transfer_def)
  qed (use assms(2) in simp)
next
  case (transfer_approved ctx i evidence r)
  then show ?thesis
  proof (cases rule: approve_transfer_cases)
    case (reviewed x u)
    then show ?thesis by (intro replaced_keeps [OF assms(2) reviewed(3,1,4)]) simp
  qed (use assms(2) in simp)
next
  case (transfer_rejected ctx i evidence r)
  then show ?thesis
  proof (cases rule: reject_transfer_cases)
    case (reviewed x u)
    then show ?thesis by (intro replaced_keeps [OF assms(2) reviewed(3,1,4)]) simp
  qed (use assms(2) in simp)
next
  case (transfer_linked ctx i linking r)
  then show ?thesis
  proof (cases rule: link_transfer_cases)
    case (linked x u)
    then show ?thesis by (intro replaced_keeps [OF assms(2) linked(3,1,4)]) simp
  qed (use assms(2) in simp)
next
  case (ledger_moves l)
  have ext: "ledger_extends (tapi_ledger s) l" and inv: "ledger_inv l"
    using ledger_moves assms(2) ledger_run.inv_step by (auto simp: transfer_api_inv_def intro: ledger_step_extends)
  have "backed l q" if "backed (tapi_ledger s) q" for q
    using that assms(2) extends_keeps_links [OF ext] by (auto simp: backed_def transfer_api_inv_def split: option.splits)
  then show ?thesis
    using assms(2) inv extends_named [OF ext] by (auto simp: ledger_moves(1) transfer_api_inv_def list_all_iff)
next
  case (books_move b)
  then show ?thesis using assms(2) bills.inv_step by (auto simp: transfer_api_inv_def)
qed

interpretation transfer_run: simulation empty_transfers "transfer_api_step sha256" "transfer_api_inv sha256"
  tapi_transfers no_transfers "transfer_step\<^sup>=\<^sup>=" for sha256
proof
  fix s t
  show "empty_transfers s \<Longrightarrow> transfer_api_inv sha256 s"
    using bills.inv_init ledger_run.inv_init transfers.inv_init audit_run.inv_init
    by (simp add: empty_transfers_def transfer_api_inv_def empty_ledger_def entries_named_def no_transfers_def)
  show "transfer_api_step sha256 s t \<Longrightarrow> transfer_api_inv sha256 s \<Longrightarrow> transfer_api_inv sha256 t"
    using transfer_api_step_inv by blast
  show "empty_transfers s \<Longrightarrow> no_transfers (tapi_transfers s)" by (simp add: empty_transfers_def)
  show "transfer_api_inv sha256 s \<Longrightarrow> transfer_api_step sha256 s t \<Longrightarrow> transfer_step\<^sup>=\<^sup>= (tapi_transfers s) (tapi_transfers t)"
    using transfer_api_step_inv by blast
qed

lemma filter_unique:
  "distinct xs \<Longrightarrow> q \<in> set xs \<Longrightarrow> p q \<Longrightarrow> (\<And>x. x \<in> set xs \<Longrightarrow> p x \<Longrightarrow> x = q) \<Longrightarrow> filter p xs = [q]"
proof (induction xs)
  case (Cons y ys)
  show ?case
  proof (cases "y = q")
    case True
    then have "\<forall>x \<in> set ys. \<not> p x" using Cons.prems(1,4) by (metis distinct.simps(2) list.set_intros(2))
    then have "filter p ys = []" by (simp add: filter_empty_conv)
    then show ?thesis using True Cons.prems(3) by simp
  next
    case False
    then have "\<not> p y" "q \<in> set ys" "distinct ys" using Cons.prems by (metis list.set_intros(1), simp_all)
    moreover have "filter p ys = [q]"
      using Cons.IH [OF \<open>distinct ys\<close> \<open>q \<in> set ys\<close> Cons.prems(3)] Cons.prems(4) by (meson list.set_intros(2))
    ultimately show ?thesis by simp
  qed
qed simp

text \<open>
  C13. A linked transfer is backed by the ledger. In every state the trust transfer routes reach, whatever
  else is posted, prepared, approved or rejected in the ledger and whatever happens to invoices and payments in between:
  a linked request with a client names a transaction of the firm's ledger whose entries are all of the request's matter
  and client and lower that client's trust balance by exactly the requested amount; and no other request
  of the firm is linked to it.
\<close>

theorem linked_transfers_are_backed:
  assumes "reachable empty_transfers (transfer_api_step sha256) s"
    and "q \<in> set (tts_trustTransferRequests (tapi_transfers s))" and "ttr_status q = Transfer_linked"
    and "ttr_clientContactId q = Some client" and "client \<noteq> []"
  shows "\<exists>txId. ttr_ledgerTransactionId q = Some txId
    \<and> (let ledger = getMemoryLedger (tapi_ledger s) (ttr_firmId q) None;
           entries = filter (\<lambda>e. entry_transactionId e = txId) (snap_entries ledger) in
        entries \<noteq> [] \<and> list_all (\<lambda>e. entry_matterId e = ttr_matterId q \<and> entry_clientId e = client) entries
        \<and> netLiabilityBalance entries (ttr_matterId q) client (liabilityAccountIds (snap_accounts ledger)) = - ttr_amountCents q)
    \<and> filter (\<lambda>x. ttr_firmId x = ttr_firmId q \<and> ttr_ledgerTransactionId x = Some txId) (tts_trustTransferRequests (tapi_transfers s)) = [q]"
proof -
  let ?ledger = "getMemoryLedger (tapi_ledger s) (ttr_firmId q) None" and ?qs = "tts_trustTransferRequests (tapi_transfers s)"
  have inv: "transfer_inv (tapi_transfers s)" "distinct (map (\<lambda>q. (ttr_firmId q, ttr_id q)) ?qs)"
    "accounts_consistent (store_ledgerAccounts (tapi_ledger s))" "list_all (backed (tapi_ledger s)) ?qs"
    using transfer_run.reachable_inv [OF assms(1)] by (simp_all add: transfer_api_inv_def ledger_inv_def)
  obtain txId where tx: "ttr_ledgerTransactionId q = Some txId" "link_holds (tapi_ledger s) q txId"
    using inv(1,4) assms(2,3) by (auto simp: transfer_inv_def transfer_ok_def backed_def list_all_iff split: option.splits)
  then have link: "link_amountMatches (summarizeTrustTransferLedgerLink q txId (snap_accounts ?ledger) (snap_entries ?ledger))"
    by (simp add: link_holds_def Let_def)
  then have some: "filter (\<lambda>e. entry_transactionId e = txId) (snap_entries ?ledger) \<noteq> []"
    by (auto simp: summarizeTrustTransferLedgerLink_def Let_def)
  have "accounts_consistent (snap_accounts ?ledger)"
    using inv(3) by (auto simp: getMemoryLedger_def Let_def accounts_consistent_def list_all_iff)
  note backed = trust_transfer_link_moves_amount [OF this link assms(4,5)]
  have distinct: "distinct ?qs" using inv(2) distinct_map by blast
  have same: "x = q" if "x \<in> set ?qs" "ttr_firmId x = ttr_firmId q" "ttr_ledgerTransactionId x = Some txId" for x
  proof -
    have links: "links_distinct ?qs" using inv(1) by (simp add: transfer_inv_def)
    have "ttr_ledgerTransactionId x \<noteq> None" "ttr_ledgerTransactionId x = ttr_ledgerTransactionId q" using that(3) tx(1) by simp_all
    then have "ttr_id x = ttr_id q" using that(1,2) links assms(2) unfolding links_distinct_def by blast
    then show ?thesis using inj_onD [OF conjunct2 [OF inv(2) [unfolded distinct_map]], of x q] that assms(2) by simp
  qed
  have unique: "filter (\<lambda>x. ttr_firmId x = ttr_firmId q \<and> ttr_ledgerTransactionId x = Some txId) ?qs = [q]"
  proof (rule filter_unique [OF distinct assms(2)])
    show "ttr_firmId q = ttr_firmId q \<and> ttr_ledgerTransactionId q = Some txId" using tx(1) by simp
    show "x = q" if "x \<in> set ?qs" "ttr_firmId x = ttr_firmId q \<and> ttr_ledgerTransactionId x = Some txId" for x
      by (rule same [OF that(1) conjunct1 [OF that(2)] conjunct2 [OF that(2)]])
  qed
  show ?thesis
    unfolding Let_def by (rule exI [of _ txId], intro conjI)
      (rule tx(1) some conjunct1 [OF backed] conjunct2 [OF backed] unique)+
qed

subsection \<open>A worked run\<close>

text \<open>A request for 300 cents is created, approved, the payment is posted to the ledger, and the request is linked to it.\<close>

lemma transfers_start:
  assumes "reachable no_bills bill_step b" "reachable empty_ledger ledger_step l"
  shows "reachable empty_transfers (transfer_api_step sha256)
    \<lparr>tapi_transfers = \<lparr>tts_trustTransferRequests = []\<rparr>, tapi_books = b, tapi_ledger = l, tapi_audit = \<lparr>aud_events = []\<rparr>\<rparr>"
    (is "reachable _ _ (?s b l)")
  using assms(2)
proof (induction rule: reachable.induct)
  case (reach_init l)
  from assms(1) show ?case
  proof (induction rule: reachable.induct)
    case (reach_init b)
    then show ?case using \<open>empty_ledger l\<close>
      by (intro reachable.reach_init) (simp add: empty_transfers_def no_transfers_def no_events_def)
  next
    case (reach_step b c)
    then have "transfer_api_step sha256 (?s b l) ((?s b l)\<lparr>tapi_books := c\<rparr>)" by (intro books_move) simp
    then show ?case using reachable.reach_step [OF reach_step.IH] by simp
  qed
next
  case (reach_step l m)
  then have "transfer_api_step sha256 (?s b l) ((?s b l)\<lparr>tapi_ledger := m\<rparr>)" by (intro ledger_moves) simp
  then show ?case using reachable.reach_step [OF reach_step.IH] by simp
qed

definition fx_invoice :: InvoiceRecord where
  "fx_invoice = ex_invoice\<lparr>inv_subtotalCents := 300, inv_totalCents := 300, inv_balanceDueCents := 300\<rparr>"

definition fx_line :: InvoiceLineRecord where
  "fx_line = ex_line\<lparr>line_unitAmountCents := 300, line_subtotalCents := 300, line_totalCents := 300\<rparr>"

definition fx_books :: MemoryBillingInvoicePaymentStore where
  "fx_books = \<lparr>bill_invoices = [fx_invoice], bill_invoiceLines = [fx_line], bill_manualPayments = [], bill_paymentAllocations = []\<rparr>"

lemma fx_books_reachable: "reachable no_bills bill_step fx_books"
proof -
  let ?s = "\<lparr>bill_invoices = [], bill_invoiceLines = [], bill_manualPayments = [], bill_paymentAllocations = []\<rparr>"
  have "bill_step ?s fx_books"
    by (rule step_invoice [of ?s fx_invoice "[fx_line]" "with_lines fx_invoice [fx_line]"])
      (simp_all add: createMemoryInvoice_def fx_books_def fx_invoice_def fx_line_def ex_invoice_def ex_line_def totals_of_lines_def
        calculateInvoiceTotals_def allocatedPaymentTotalCents_def Let_def)
  then show ?thesis by (rule reach_step [OF reach_init, rotated]) (simp add: no_bills_def)
qed

definition fx_context :: LedgerContext where
  "fx_context = \<lparr>lctx_firmId = ''f'', lctx_user = \<lparr>user_id = ''u'', user_firmId = ''f'', user_displayName = ''U'',
       user_email = ''u@f'', user_role = Role_owner_admin, user_assignedMatterIds = [''m''], user_mfaEnabled = True,
       user_practitionerProfile = None\<rparr>,
     lctx_freshAuthenticatedAt = Some ''2026-01-01'', lctx_requestId = ''q'', lctx_now = ''2026-01-01'',
     lctx_freshNow = ''2026-01-01'', lctx_uuid = ''id'', lctx_auditId = ''a'', lctx_auditNow = ''2026-01-01'',
     lctx_secondAuditId = ''b''\<rparr>"

definition fx_body :: TransferRequestBody where
  "fx_body = \<lparr>trb_id = Some ''tt'', trb_matterId = ''m'', trb_invoiceId = ''i'', trb_clientContactId = None,
     trb_amountCents = 300, trb_reason = None, trb_evidence = []\<rparr>"

definition fx_start :: TransferApi where
  "fx_start = \<lparr>tapi_transfers = \<lparr>tts_trustTransferRequests = []\<rparr>, tapi_books = fx_books, tapi_ledger = ex_store_deposit,
     tapi_audit = \<lparr>aud_events = []\<rparr>\<rparr>"

definition fx_created :: TransferApi where
  "fx_created = snd (createTransferRequestRoute (\<lambda>_. ''h'') fx_context fx_body fx_start)"

definition fx_approved :: TransferApi where
  "fx_approved = snd (approveTransferRoute (\<lambda>_. ''h'') fx_context ''tt'' [] fx_created)"

definition fx_paid :: TransferApi where
  "fx_paid = fx_approved\<lparr>tapi_ledger := snd (postMemoryLedgerTransaction (tapi_ledger fx_approved) ex_payment)\<rparr>"

definition fx_linked :: TransferApi where
  "fx_linked = snd (linkTransferRoute (\<lambda>_. ''h'') fx_context ''tt'' \<lparr>tlb_ledgerTransactionId = ''t2'', tlb_evidence = []\<rparr> fx_paid)"

lemma fx_reachable: "reachable empty_transfers (transfer_api_step (\<lambda>_. ''h'')) fx_linked"
proof -
  have start: "reachable empty_transfers (transfer_api_step (\<lambda>_. ''h'')) fx_start"
    unfolding fx_start_def by (rule transfers_start [OF fx_books_reachable ex_reachable(1)])
  have created: "reachable empty_transfers (transfer_api_step (\<lambda>_. ''h'')) fx_created"
    unfolding fx_created_def
    by (rule reach_step [OF start transfer_created [OF surjective_pairing]]) (simp add: fx_start_def getMemoryTrustTransferRequest_def)
  have approved: "reachable empty_transfers (transfer_api_step (\<lambda>_. ''h'')) fx_approved"
    unfolding fx_approved_def by (rule reach_step [OF created transfer_approved [OF surjective_pairing]])
  have paid: "reachable empty_transfers (transfer_api_step (\<lambda>_. ''h'')) fx_paid"
    unfolding fx_paid_def by (rule reach_step [OF approved ledger_moves [OF step_post [OF surjective_pairing]]])
  show ?thesis unfolding fx_linked_def by (rule reach_step [OF paid transfer_linked [OF surjective_pairing]])
qed

lemma fx_access: "assertMatterAccess fx_context Res_trust_ledger a (Some ''m'') = Inr ()" if "a \<in> {Act_create, Act_approve}"
proof -
  have "Act_create \<in> set (allowedActions Role_owner_admin Res_trust_ledger)" "Act_approve \<in> set (allowedActions Role_owner_admin Res_trust_ledger)"
    by code_simp+
  then show ?thesis using that by (auto simp: assertMatterAccess_def canAccess_def fx_context_def)
qed

lemma fx_fresh: "requireFreshAuth fx_context = Inr ()"
  by code_simp

definition fx_request :: TrustTransferRequestRecord where
  "fx_request = transfer_of fx_context fx_body (Some ''c'')"

lemma fx_transfer_invoice:
  "transfer_invoice fx_context s ''i'' ''m'' = Inr (with_lines fx_invoice [fx_line])" if "tapi_books s = fx_books"
  using that by (simp add: transfer_invoice_def getMemoryInvoice_def fx_books_def fx_invoice_def fx_line_def ex_invoice_def ex_line_def fx_context_def)

lemma fx_invoice_fields [simp]:
  "inv_clientContactId (with_lines fx_invoice [fx_line]) = Some ''c''" "inv_balanceDueCents fx_invoice = 300"
  by (simp_all add: with_lines_def InvoiceRecord.extend_def fx_invoice_def ex_invoice_def)

lemma fx_created_fields:
  "tts_trustTransferRequests (tapi_transfers fx_created) = [fx_request]" "tapi_books fx_created = fx_books"
  "tapi_ledger fx_created = ex_store_deposit"
proof -
  have "billingTrustTransferRequestBodySchema fx_body"
    by (simp add: billingTrustTransferRequestBodySchema_def fx_body_def optional_ok_def min_one_def)
  then show "tts_trustTransferRequests (tapi_transfers fx_created) = [fx_request]" "tapi_books fx_created = fx_books"
    "tapi_ledger fx_created = ex_store_deposit"
    using fx_access [of Act_create] fx_transfer_invoice [of fx_start]
    by (simp_all add: fx_created_def createTransferRequestRoute_def parseRequestPart_def guarded_def fx_start_def fx_request_def
        assertTrustTransferInvoiceClientMatches_def createMemoryTrustTransferRequest_def fx_body_def throw_if_def Let_def)
qed

lemma fx_request_fields [simp]:
  "ttr_id fx_request = ''tt''" "ttr_firmId fx_request = ''f''" "ttr_matterId fx_request = ''m''" "ttr_invoiceId fx_request = ''i''"
  "ttr_clientContactId fx_request = Some ''c''" "ttr_amountCents fx_request = 300" "ttr_status fx_request = Transfer_pending_approval"
  "ttr_ledgerTransactionId fx_request = None" "lctx_firmId fx_context = ''f''"
  by (simp_all add: fx_request_def transfer_of_def fx_context_def fx_body_def)

lemma fx_entries:
  "posted_entries (posted_of ex_deposit) = nextEntries ex_deposit" "posted_entries (posted_of ex_payment) = nextEntries ex_payment"
  by (simp_all add: posted_of_def)

lemma fx_snapshot:
  "filter (\<lambda>a. acct_firmId a = ''f'') ex_accounts = ex_accounts"
  "filter (\<lambda>e. entry_firmId e = ''f'') (nextEntries ex_deposit) = nextEntries ex_deposit"
  "filter (\<lambda>e. entry_firmId e = ''f'' \<and> entry_matterId e = ''m'') (nextEntries ex_deposit) = nextEntries ex_deposit"
  "filter (\<lambda>e. entry_firmId e = ''f'') (nextEntries ex_payment) = nextEntries ex_payment"
  "filter (\<lambda>e. entry_transactionId e \<noteq> ''t2'') (nextEntries ex_deposit) = nextEntries ex_deposit"
  "filter (\<lambda>e. entry_transactionId e \<noteq> ''t2'') (nextEntries ex_payment) = []"
  by (simp_all add: nextEntries_def nextEntry_def ex_ledger_defs)

lemma fx_balances: "clientTrustBalanceByMatter (nextEntries ex_deposit) ex_accounts = [(''c:m'', 500)]"
  by code_simp

lemma fx_approve_funds: "enough_trust fx_request (snap_trustBalances (getMemoryLedger ex_store_deposit ''f'' (Some ''m''))) = Inr 500"
  by (simp add: enough_trust_def trustTransferRequestAvailableBalanceCents_def getMemoryLedger_def ex_store_deposit_def ex_store_def
      fx_entries fx_snapshot fx_balances Let_def)

lemma fx_reviewed_invoice:
  assumes "tapi_books s = fx_books" "ttr_invoiceId q = ''i''" "ttr_matterId q = ''m''" "ttr_clientContactId q = Some ''c''" "ttr_amountCents q = 300"
  shows "reviewed_invoice fx_context s q = Inr (with_lines fx_invoice [fx_line])"
  using assms fx_transfer_invoice [of s]
  by (simp add: reviewed_invoice_def assertTrustTransferInvoiceClientMatches_def assertTrustTransferAmountWithinInvoiceBalance_def throw_if_def)

lemma fx_approved_fields:
  "tts_trustTransferRequests (tapi_transfers fx_approved) =
     [updatedTransfer fx_request (reviewUpdate Transfer_approved (user_id (lctx_user fx_context)) (lctx_now fx_context) (Some []))]"
  "tapi_books fx_approved = fx_books" "tapi_ledger fx_approved = ex_store_deposit"
  using fx_access [of Act_approve] fx_reviewed_invoice [of fx_created fx_request] fx_approve_funds fx_fresh fx_created_fields
  by (simp_all add: fx_approved_def approveTransferRoute_def parseRequestPart_def guarded_def min_one_def throw_if_def
      getMemoryTrustTransferRequest_def store_transfer_def updateMemoryTrustTransferRequest_def pending_options_def replace_where_def
      reviewUpdate_def updatedTransfer_def Let_def)

lemma fx_paid_fields:
  "tapi_transfers fx_paid = tapi_transfers fx_approved" "tapi_books fx_paid = fx_books"
  "store_ledgerAccounts (tapi_ledger fx_paid) = ex_accounts"
  "store_postedTransactions (tapi_ledger fx_paid) = [posted_of ex_deposit, posted_of ex_payment]"
proof -
  have "postMemoryLedgerTransaction ex_store_deposit ex_payment
      = (Inr (posted_of ex_payment), ex_store_deposit\<lparr>store_postedTransactions := [posted_of ex_deposit, posted_of ex_payment]\<rparr>)"
    by (simp add: postMemoryLedgerTransaction_eq ex_state_store ex_payment_posts reconcilePostedTransaction_def)
      (simp add: ex_store_deposit_def posted_of_def ex_ledger_defs)
  then show "tapi_transfers fx_paid = tapi_transfers fx_approved" "tapi_books fx_paid = fx_books"
    "store_ledgerAccounts (tapi_ledger fx_paid) = ex_accounts"
    "store_postedTransactions (tapi_ledger fx_paid) = [posted_of ex_deposit, posted_of ex_payment]"
    by (simp_all add: fx_paid_def fx_approved_fields ex_store_deposit_def ex_store_def)
qed

definition fx_reviewed :: TrustTransferRequestRecord where
  "fx_reviewed = updatedTransfer fx_request (reviewUpdate Transfer_approved (user_id (lctx_user fx_context)) (lctx_now fx_context) (Some []))"

definition fx_settled :: TrustTransferRequestRecord where
  "fx_settled = updatedTransfer fx_reviewed (linkUpdate ''t2'' (user_id (lctx_user fx_context)) (lctx_now fx_context) (Some []))"

lemma fx_reviewed_fields [simp]:
  "ttr_id fx_reviewed = ''tt''" "ttr_firmId fx_reviewed = ''f''" "ttr_matterId fx_reviewed = ''m''" "ttr_invoiceId fx_reviewed = ''i''"
  "ttr_clientContactId fx_reviewed = Some ''c''" "ttr_amountCents fx_reviewed = 300" "ttr_status fx_reviewed = Transfer_approved"
  "ttr_ledgerTransactionId fx_reviewed = None"
  by (simp_all add: fx_reviewed_def updatedTransfer_def reviewUpdate_def)

lemma fx_settled_fields [simp]:
  "ttr_id fx_settled = ''tt''" "ttr_firmId fx_settled = ''f''" "ttr_matterId fx_settled = ''m''"
  "ttr_clientContactId fx_settled = Some ''c''" "ttr_amountCents fx_settled = 300" "ttr_status fx_settled = Transfer_linked"
  "ttr_ledgerTransactionId fx_settled = Some ''t2''"
  by (simp_all add: fx_settled_def updatedTransfer_def linkUpdate_def reviewUpdate_def)

lemma fx_ledger:
  "snap_accounts (getMemoryLedger (tapi_ledger fx_paid) ''f'' None) = ex_accounts"
  "snap_entries (getMemoryLedger (tapi_ledger fx_paid) ''f'' None) = nextEntries ex_deposit @ nextEntries ex_payment"
  by (simp_all add: getMemoryLedger_def fx_paid_fields fx_entries fx_snapshot Let_def)

lemma fx_link_checks:
  "check_link (summarizeTrustTransferLedgerLink fx_reviewed ''t2'' ex_accounts (nextEntries ex_deposit @ nextEntries ex_payment)) = Inr ()"
  by (simp add: check_link_def run_checks_ok summarizeTrustTransferLedgerLink_def nextEntries_def nextEntry_def ex_ledger_defs
      accountTypeById_def js_map_def expectedTransferEntry_def Let_def)

lemma fx_link_funds: "enough_trust fx_reviewed (trustBalancesBeforeLink (getMemoryLedger (tapi_ledger fx_paid) ''f'' None) ''t2'') = Inr 500"
  by (simp add: enough_trust_def trustBalancesBeforeLink_def fx_ledger fx_snapshot fx_balances trustTransferRequestAvailableBalanceCents_def)

lemma fx_linked_transfers: "tts_trustTransferRequests (tapi_transfers fx_linked) = [fx_settled]"
proof -
  have before: "tts_trustTransferRequests (tapi_transfers fx_paid) = [fx_reviewed]"
    by (simp add: fx_paid_fields fx_approved_fields fx_reviewed_def)
  have "updatedTransfer fx_reviewed (linkUpdate ''t2'' (user_id (lctx_user fx_context)) (lctx_now fx_context) (Some [])) = fx_settled"
    by (simp add: fx_settled_def)
  moreover have "upd_ledgerTransactionId (linkUpdate ''t2'' u n e) = Some (Some ''t2'')" for u n e by (simp add: linkUpdate_def)
  ultimately show ?thesis
    using fx_access [of Act_approve] fx_reviewed_invoice [OF fx_paid_fields(2), of fx_reviewed] fx_link_checks fx_link_funds fx_fresh
    by (simp add: fx_linked_def linkTransferRoute_def parseRequestPart_def guarded_def min_one_def throw_if_def
        trustTransferRequestLinkBodySchema_def getMemoryTrustTransferRequest_def before fx_ledger alreadyLinked_def
        listMemoryTrustTransferRequests_def store_transfer_def updateMemoryTrustTransferRequest_def replace_where_def Let_def)
qed

theorem linked_transfers_are_backed_witness:
  "netLiabilityBalance (filter (\<lambda>e. entry_transactionId e = ''t2'') (snap_entries (getMemoryLedger (tapi_ledger fx_linked) ''f'' None))) ''m'' ''c''
     (liabilityAccountIds (snap_accounts (getMemoryLedger (tapi_ledger fx_linked) ''f'' None))) = - 300"
  using linked_transfers_are_backed [OF fx_reachable, of fx_settled "''c''"] by (simp add: fx_linked_transfers Let_def)

end
