(* ===== verification/Spec2Isabelle.thy ===== *)
theory Spec2Isabelle
  imports Trust_Book Permissions Reconciliation Billing_Controls Invoice_Store Audit_Chain Matter_Store
    Signatures Payment_Import_Api Ledger_Review_Api Billing_Properties Trust_Transfer_Api
begin

text \<open>
  \<^bold>\<open>Open Practice: a verification library.\<close>

  Open Practice is a practice management system for law firms, written in TypeScript. Its core is in
  two packages: packages/domain/src holds the records and the rules (pure functions over records), and
  packages/database/src/repository holds the stores, each as an in-memory implementation
  (\<open><component>/memory.ts\<close>) and one on PostgreSQL with the same calls. The API (apps/api/src/routes)
  checks access, builds the records and calls a store; the web application and the worker sit on top.
  This library models the domain rules and the in-memory stores. A store call takes the store and its
  input and returns the result, which may be an error, with the store it leaves, so that what was
  written before a throw stays written. A store is a step relation with one step for each writing
  call, whatever it returns, and what holds of a store is proved for every state that sequences of
  calls can reach from an empty one.

  \<^bold>\<open>Theories and sources.\<close>
  \<^item> \<open>Js_Prelude\<close>: results and throws, truthiness, strings, arrays, sets, maps, stable sorting,
    in-place updates, and the locales the components share: \<open>comparator\<close> (what sorting by a comparator
    gives), \<open>inductive_invariant\<close> (an invariant of a store), \<open>simulation\<close> (a store implements a
    specification) and \<open>idempotent_submission\<close> (retries under a key).
  \<^item> \<open>Js_Date\<close>: \<open>Date.parse\<close> of ISO texts, \<open>toISOString\<close>, comparisons of dates that may not parse; a
    printed instant reads back.
  \<^item> \<open>Js_Double\<close>: floating point as rounding of rationals, with the error of a rounded quotient and product.
  \<^item> \<open>Canonical_Json\<close>: JSON values and the \<open>canonicalize\<close> of ledger.ts and audit.ts; the text
    determines the value up to the order of keys.
  \<^item> \<open>Models\<close>: the shared records of models.ts.
  \<^item> \<open>Ledger\<close>: ledger.ts, trust accounting: fingerprints, validation, posting, reversals, balances.
  \<^item> \<open>Posting_Request\<close>: ledger.ts, requests that one user prepares and another approves.
  \<^item> \<open>Ledger_Store\<close>: ledger-core/memory.ts and ledger-posting-requests/memory.ts.
  \<^item> \<open>Trust_Book\<close>: the specification the ledger store implements.
  \<^item> \<open>Reconciliation\<close>: ledger.ts, statement import, reconciliation, control diagnostics, freshness.
  \<^item> \<open>Permissions\<close>: permissions.ts, roles, matter scope, portal grants, job records, sharing.
  \<^item> \<open>Billing\<close>: billing.ts, invoice totals, status rules, rates, locks, timers, transfer links.
  \<^item> \<open>Billing_Controls\<close>: billing-controls/memory.ts and trust-transfer-requests/memory.ts.
  \<^item> \<open>Invoice_Store\<close>: billing-invoices-payments/memory.ts.
  \<^item> \<open>Payment_Import\<close>: billing.ts, the review of imported payments, deposits, refunds and chargebacks, and
    payment-import-review-records/memory.ts.
  \<^item> \<open>Hosted_Payments\<close>: billing.ts, hosted payment requests and the category profile of an export, and
    hosted-payment-requests/memory.ts.
  \<^item> \<open>Payment_Import_Api\<close>: the writing routes of apps/api/src/routes/billing/payment-import-review-records.ts over
    these stores, the books of \<open>Invoice_Store\<close> and the audit log.
  \<^item> \<open>Audit_Chain\<close>: audit.ts and audit/memory.ts, the hash chain of audit events.
  \<^item> \<open>Workflow_Audit\<close>: workflow-audit.ts, workflow metadata of audit events, review packets, the history projection.
  \<^item> \<open>Financial_Journal\<close>: financial-command-journal.ts, the journal of financial commands read off the audit log.
  \<^item> \<open>Ledger_Review\<close>: ledger-review/memory.ts, approvals, reconciliations, import batches and profiles.
  \<^item> \<open>Ledger_Api\<close>: the posting routes of apps/api/src/routes/ledger (transactions.ts, posting-requests.ts) with
    parsing, access, fresh authentication and audit events.
  \<^item> \<open>Ledger_Review_Api\<close>: the approval route and the routes of reconciliations.ts on the same state, the step
    relation of all ten writing routes, and its simulation by the ledger store.
  \<^item> \<open>Billing_Entries\<close>: billing-entries/memory.ts, time entries, expenses and expense categories.
  \<^item> \<open>Billing_Api\<close>: apps/api/src/routes/billing, shared.ts, controls.ts, time-entries.ts and expenses.ts with
    parsing, access, period locks, rates, categories and audit events.
  \<^item> \<open>Billing_Invoice_Api\<close>: invoices.ts and payments.ts of the same directory.
  \<^item> \<open>Billing_Runs\<close>, \<open>Billing_Invoice_Runs\<close>: the step relation of these eighteen writing routes, its invariant
    and its simulation by \<open>Invoice_Store\<close>. \<open>Billing_Properties\<close>: what follows, and a worked run.
  \<^item> \<open>Trust_Transfer_Api\<close>: trust-transfer-requests.ts of the same directory, its step relation over the books and the
    ledger, and its simulation by the request store of \<open>Billing_Controls\<close>.
  \<^item> \<open>Edit_Distance\<close>, \<open>Conflicts\<close>: conflicts.ts and conflict-checks/memory.ts, the search for conflicts of
    interest.
  \<^item> \<open>Booking\<close>: appointment-booking.ts and review-aging.ts, slots and review ages.
  \<^item> \<open>Calendar_Store\<close>: calendar-events/memory.ts and the status machines of calendar.ts.
  \<^item> \<open>Booking_Store\<close>: appointment-booking/memory.ts and public-consultation-intakes/memory.ts.
  \<^item> \<open>Matter_Lifecycle\<close>, \<open>Matter_Store\<close>: matter-lifecycle.ts and matter-lifecycle/memory.ts, opening matters,
    converting consultation intakes, reviews and commands of the lifecycle.
  \<^item> \<open>Signatures\<close>: signatures.ts and signatures/memory.ts, envelopes, the status machine and replay keys.

  Definitions carry the names of the functions and types they model; a helper that models part of a
  function stands before it. Record fields are the source's fields behind a short prefix of the record.

  \<^bold>\<open>What is shown.\<close>
  \<^item> Trust money: posting never overdraws a client's balance on a matter; it succeeds exactly under
    the conditions the code states; a key posts once, and the fingerprint separates payloads exactly; a
    reversal undoes its original; reported balances are the ones the overdraft check uses. The store
    keeps this over every run, with approvals by another user than the preparer, and implements an
    abstract trust book. A posting under a used id is reported as posted and lost (a defect).
  \<^item> Access: what an allowed request implies for firm, role and matter; a client's access is exactly
    the portal table under an active grant; trust ledger duties are separated; shared documents and
    job metadata are safe.
  \<^item> Reconciliation and import: accepted reconciliations bridge their balances; matches of an import
    preview are entries of the account with the amount; duplicate keys separate rows.
  \<^item> Billing: the resolved rate is the best one and is determined by the stored rules; entries are
    billed only through approval; locks and timers; a matching transfer link moves the amount;
    invoices, lines, allocations and payments agree in every reachable store, with one exception (a
    payment split over one invoice, a defect).
  \<^item> Routes of billing: in every state they can reach an entry is on one live invoice at most and billed once that
    invoice is approved; locked periods are frozen; approval bills every line or changes nothing. The entries
    of a voided invoice stay billed for ever, and an edit sets any status without approval (two defects).
  \<^item> Trust transfers: a linked request is backed for ever by one transaction of the ledger for its matter, client
    and amount, and by no other request's.
  \<^item> Payment import: the reconcile route refuses without a change or allocates exactly the imported amount;
    a supported match can be reconciled; decisions are consistent and unique in every reachable state. An
    event is disclosed across matters (a defect).
  \<^item> Audit: the log of every firm always verifies; an altered chain behind an unchanged last hash
    needs a hash collision.
  \<^item> Routes of the ledger: over any calls of the writing routes the audit log verifies and its posting events
    name exactly the posted transactions; review records fit the ledger; the journal lists exactly the stored
    decisions; a request is posted only by a checker with a fresh session. The poster of a transaction can
    record its approval (a defect).
  \<^item> Workflow history: the projection partitions the steps by their key; review packets are bounded.
  \<^item> Conflict checks: the distance of names is the least number of edits; a check reports every near
    name on a visible matter, and reports nothing without a reason; checks are kept and audited.
  \<^item> Matters: the audit log tells the status of every matter, numbers are unique in a firm, an intake is
    converted once, a command has exactly its stated effect; no run makes a command available (a defect).
  \<^item> Signatures: the furthest status that arrived wins, whatever the order of events; replay keys identify
    events; dates and statuses have their events.
  \<^item> Calendar and booking: the slot search ends and offers exactly the first free times; identities
    in the calendar are unique; a denied or revoked guest stays out; bookings of a firm never overlap;
    a held request can always be reviewed.

  \<^bold>\<open>Parameters.\<close> Code outside the repository is an argument: the clock, \<open>localeCompare\<close> (\<open>collate\<close>),
  \<open>randomUUID\<close>, sha256 and the time zone table behind \<open>Intl\<close> (\<open>localParts\<close>). Nothing is assumed of
  them, except where a statement names it.

  \<^bold>\<open>Bounds and termination.\<close> Loops over arrays are structural recursion or folds; the slot search is a
  \<open>function\<close> with a measure, no fuel is used anywhere. Amounts, counts and times are integers: the code
  computes them in doubles, which are exact below 2 to the 53; rounding one quotient of integers is
  written over integers, and computations with fractions use \<open>Js_Double\<close>. Strings are over the code
  units below 256. A date is an ISO text; other texts, which engines may read differently, do not parse.

  \<^bold>\<open>Not modelled.\<close> The PostgreSQL repository (the same calls through an ORM outside the repository),
  HTTP parsing and routes (the guards a step relation takes from a route are quoted at the step), the
  web application, the worker and its providers; of the routes, those of the payment import are
  modelled after parsing and access checks, and the writing routes of the ledger and of entries, expenses, billing
  controls, invoices, manual payments and trust transfer requests in full. In modelled files: packet review, readiness and the
  jurisdictional report of ledger.ts, and the feeds and iCalendar texts of calendar.ts. Of the other
  domain files, tasks, contacts, intake and reports are left out for now; documents, drafting, email and settings are record keeping around external services.
\<close>

end
